(* ===== verification/Prelude.thy ===== *)
theory Prelude
  imports Main "HOL-Library.Word"
begin

text \<open>
  Shared by every component: the outcome of a Go function that mutates state and may return an
  error or panic, the Go string operations the sources call, UTF-8 encoding of a rune, and the
  interface of a machine whose operations all keep an invariant.
\<close>

named_theorems go_string \<open>facts on the modelled Go string operations\<close>
named_theorems outcome_simps \<open>equations of the outcome type and of its sequencing\<close>

section \<open>Outcomes\<close>

text \<open>
  A Go function that mutates its receiver either returns (\<open>Ret\<close>: the state it leaves and its
  result), returns an error (\<open>Fail\<close>: Go does not undo the mutations made so far, so the state
  is kept here too) or panics (\<open>Crash\<close>).
\<close>

datatype ('s, 'e, 'a) outcome = Ret 's 'a | Fail 's 'e | Crash string

fun bind_o :: "('s, 'e, 'a) outcome \<Rightarrow> ('s \<Rightarrow> 'a \<Rightarrow> ('s, 'e, 'b) outcome) \<Rightarrow> ('s, 'e, 'b) outcome" where
  "bind_o (Ret s a) f = f s a"
| "bind_o (Fail s e) f = Fail s e"
| "bind_o (Crash m) f = Crash m"

declare bind_o.simps [outcome_simps]

text \<open>\<open>holds_on P r\<close>: every state that the outcome leaves behind, on success and on error, satisfies
  \<open>P\<close>, and there is no panic.\<close>

fun holds_on :: "('s \<Rightarrow> bool) \<Rightarrow> ('s, 'e, 'a) outcome \<Rightarrow> bool" where
  "holds_on P (Ret s a) = P s"
| "holds_on P (Fail s e) = P s"
| "holds_on P (Crash m) = False"

lemma bind_o_Ret_iff:
  "bind_o r f = Ret s' b \<longleftrightarrow> (\<exists>s a. r = Ret s a \<and> f s a = Ret s' b)"
  by (cases r) auto

lemma bind_o_assoc: "bind_o (bind_o r f) g = bind_o r (\<lambda>s a. bind_o (f s a) g)"
  by (cases r) auto

lemma holds_on_bind [intro]:
  assumes "holds_on P r" and "\<And>s a. r = Ret s a \<Longrightarrow> P s \<Longrightarrow> holds_on Q (f s a)"
    and "\<And>s. P s \<Longrightarrow> Q s"
  shows "holds_on Q (bind_o r f)"
  using assms by (cases r) auto

lemma holds_on_mono: "holds_on P r \<Longrightarrow> (\<And>s. P s \<Longrightarrow> Q s) \<Longrightarrow> holds_on Q r"
  by (cases r) auto

text \<open>\<open>keeps P r\<close>: the same without the claim that there is no panic. \<open>left_by\<close> is the state that a call
  leaves to the next one; a call that panics leaves the one it started in.\<close>

fun keeps :: "('s \<Rightarrow> bool) \<Rightarrow> ('s, 'e, 'a) outcome \<Rightarrow> bool" where
  "keeps P (Ret s a) = P s"
| "keeps P (Fail s e) = P s"
| "keeps P (Crash m) = True"

definition left_by :: "('s, 'e, 'a) outcome \<Rightarrow> 's \<Rightarrow> 's" where
  "left_by r s = (case r of Ret s' _ \<Rightarrow> s' | Fail s' _ \<Rightarrow> s' | Crash _ \<Rightarrow> s)"

lemma keeps_left_by: "keeps P r \<Longrightarrow> P s \<Longrightarrow> P (left_by r s)"
  by (cases r) (simp_all add: left_by_def)

lemma keeps_mono: "keeps P r \<Longrightarrow> (\<And>s. P s \<Longrightarrow> Q s) \<Longrightarrow> keeps Q r"
  by (cases r) auto

section \<open>Machines\<close>

text \<open>
  Several components are a state with operations that share one contract: each keeps the
  component's invariant. The run of any sequence of operations then keeps it as well.
\<close>

locale machine =
  fixes step :: "'op \<Rightarrow> 's \<Rightarrow> 's" and inv :: "'s \<Rightarrow> bool"
  assumes step_inv: "inv s \<Longrightarrow> inv (step op s)"
begin

lemma run_inv: "inv s \<Longrightarrow> inv (fold step ops s)"
  by (induction ops arbitrary: s) (auto intro: step_inv)

lemma run_append: "fold step (ops @ ops') s = fold step ops' (fold step ops s)"
  by simp

lemma run_inv_prefix: "inv s \<Longrightarrow> inv (fold step (take n ops) s)"
  by (rule run_inv)

end

text \<open>What a component's operations may do to its state, as a preorder, and how it passes through the
  sequencing of calls.\<close>

locale step_relation =
  fixes R :: "'s \<Rightarrow> 's \<Rightarrow> bool"
  assumes R_refl: "R s s" and R_trans: "R s t \<Longrightarrow> R t u \<Longrightarrow> R s u"
begin

lemma keeps_Ret: "keeps (R s) (Ret s a)" and keeps_Fail: "keeps (R s) (Fail s e)"
  by (simp_all add: R_refl)

lemma keeps_bind:
  assumes "keeps (R s) r" and "\<And>s1 a. r = Ret s1 a \<Longrightarrow> R s s1 \<Longrightarrow> keeps (R s1) (f s1 a)"
  shows "keeps (R s) (bind_o r f)"
proof (cases r)
  case (Ret s1 a)
  with assms have "R s s1" "keeps (R s1) (f s1 a)" by auto
  then have "keeps (R s) (f s1 a)" by (cases "f s1 a") (auto dest: R_trans)
  with Ret show ?thesis by simp
qed (use assms(1) in simp_all)

lemma keeps_same: "keeps ((=) s) r \<Longrightarrow> keeps (R s) r"
  by (cases r) (auto intro: R_refl)

lemma keeps_after: "R s t \<Longrightarrow> keeps (R t) r \<Longrightarrow> keeps (R s) r"
  by (cases r) (auto dest: R_trans)

end

text \<open>A machine each of whose steps follows the relation: so does every run.\<close>

locale step_machine = step_relation R for R :: "'s \<Rightarrow> 's \<Rightarrow> bool" +
  fixes step :: "'op \<Rightarrow> 's \<Rightarrow> 's"
  assumes step_R: "R s (step op s)"

sublocale step_machine \<subseteq> reach: machine step "R s0" for s0
  by unfold_locales (rule R_trans[OF _ step_R])

context step_machine
begin

lemma run_R: "R s (fold step ops s)"
  by (rule reach.run_inv) (rule R_refl)

end

section \<open>Go strings\<close>

text \<open>A Go string is a sequence of bytes: \<^typ>\<open>char list\<close>.\<close>

definition HasPrefix :: "string \<Rightarrow> string \<Rightarrow> bool" where
  "HasPrefix s p \<longleftrightarrow> take (length p) s = p"

definition HasSuffix :: "string \<Rightarrow> string \<Rightarrow> bool" where
  "HasSuffix s p \<longleftrightarrow> HasPrefix (rev s) (rev p)"

text \<open>\<open>strings.Contains(s, c)\<close> and \<open>strings.SplitN(s, c, 2)\<close> for a separator of one byte; the
  pair is the two parts, \<open>None\<close> when the separator does not occur (one part).\<close>

fun split2 :: "char \<Rightarrow> string \<Rightarrow> (string \<times> string) option" where
  "split2 c [] = None"
| "split2 c (x # xs) =
     (if x = c then Some ([], xs) else map_option (\<lambda>(k, v). (x # k, v)) (split2 c xs))"

text \<open>\<open>strings.Split(s, c)\<close> for a separator of one byte.\<close>

fun split_on :: "char \<Rightarrow> string \<Rightarrow> string list" where
  "split_on c [] = [[]]"
| "split_on c (x # xs) =
     (if x = c then [] # split_on c xs
      else (case split_on c xs of [] \<Rightarrow> [[x]] | p # ps \<Rightarrow> (x # p) # ps))"

text \<open>\<open>strings.Join(parts, sep)\<close>.\<close>

fun join_with :: "string \<Rightarrow> string list \<Rightarrow> string" where
  "join_with sep [] = []"
| "join_with sep [p] = p"
| "join_with sep (p # ps) = p @ sep @ join_with sep ps"

lemma HasPrefix_iff: "HasPrefix s p \<longleftrightarrow> (\<exists>t. s = p @ t)"
  unfolding HasPrefix_def by (metis append_take_drop_id append_eq_conv_conj)

lemma HasPrefix_append [simp, go_string]: "HasPrefix (p @ t) p"
  by (auto simp: HasPrefix_iff)

lemma HasPrefix_Nil [simp, go_string]: "HasPrefix s []"
  by (simp add: HasPrefix_def)

lemma HasPrefix_Cons [simp, go_string]:
  "HasPrefix (x # s) (y # p) \<longleftrightarrow> x = y \<and> HasPrefix s p"
  by (auto simp: HasPrefix_def)

lemma HasPrefix_empty [simp, go_string]: "HasPrefix [] p \<longleftrightarrow> p = []"
  by (auto simp: HasPrefix_def)

lemma HasPrefix_drop: "HasPrefix s p \<Longrightarrow> s = p @ drop (length p) s"
  unfolding HasPrefix_def by (metis append_take_drop_id)

lemma HasSuffix_iff: "HasSuffix s p \<longleftrightarrow> (\<exists>t. s = t @ p)"
proof -
  have "HasSuffix s p \<longleftrightarrow> (\<exists>t. rev s = rev p @ t)"
    by (simp add: HasSuffix_def HasPrefix_iff)
  also have "\<dots> \<longleftrightarrow> (\<exists>t. s = t @ p)"
    by (metis rev_append rev_rev_ident)
  finally show ?thesis .
qed

lemma split2_None_iff [go_string]: "split2 c s = None \<longleftrightarrow> c \<notin> set s"
  by (induction s) auto

lemma split2_Some_iff [go_string]: "split2 c s = Some (k, v) \<longleftrightarrow> s = k @ c # v \<and> c \<notin> set k"
proof (induction s arbitrary: k)
  case Nil
  then show ?case by simp
next
  case (Cons x s)
  then show ?case by (cases k) auto
qed

lemma split2_append: "c \<notin> set k \<Longrightarrow> split2 c (k @ c # v) = Some (k, v)"
  by (simp add: split2_Some_iff)

lemma split_on_not_Nil [simp]: "split_on c s \<noteq> []"
  by (induction s) (auto split: list.splits)

lemma split_on_no_sep: "c \<notin> set s \<Longrightarrow> split_on c s = [s]"
  by (induction s) auto

lemma split_on_append: "c \<notin> set p \<Longrightarrow> split_on c (p @ c # s) = p # split_on c s"
  by (induction p) auto

lemma split_on_parts: "p \<in> set (split_on c s) \<Longrightarrow> c \<notin> set p"
proof (induction s arbitrary: p)
  case Nil
  then show ?case by simp
next
  case (Cons x s)
  obtain q qs where q: "split_on c s = q # qs"
    by (meson list.exhaust split_on_not_Nil)
  then have "\<forall>p \<in> set (q # qs). c \<notin> set p" using Cons.IH by auto
  with q Cons.prems show ?case by (auto split: if_splits)
qed

text \<open>Splitting what was joined gives the parts back, unless there were none.\<close>

lemma split_on_join:
  "ps \<noteq> [] \<Longrightarrow> \<forall>p \<in> set ps. c \<notin> set p \<Longrightarrow> split_on c (join_with [c] ps) = ps"
proof (induction ps)
  case Nil
  then show ?case by simp
next
  case (Cons p ps)
  then show ?case by (cases ps) (simp_all add: split_on_no_sep split_on_append)
qed

lemma join_split_on: "join_with [c] (split_on c s) = s"
proof (induction s)
  case Nil
  then show ?case by simp
next
  case (Cons x s)
  obtain q qs where q: "split_on c s = q # qs"
    by (meson list.exhaust split_on_not_Nil)
  with Cons show ?case by (cases qs) auto
qed

section \<open>Runes\<close>

text \<open>
  \<open>string(r)\<close> for a rune \<open>r\<close>: its UTF-8 encoding. Code points out of range and surrogate halves
  become the encoding of U+FFFD.
\<close>

definition rune_string :: "nat \<Rightarrow> string" where
  "rune_string r =
     (if r < 0x80 then [char_of r]
      else if r < 0x800 then [char_of (0xC0 + r div 64), char_of (0x80 + r mod 64)]
      else if 0x10FFFF < r \<or> (0xD800 \<le> r \<and> r < 0xE000) then map char_of [0xEF, 0xBF, 0xBD :: nat]
      else if r < 0x10000 then
        [char_of (0xE0 + r div 4096), char_of (0x80 + r div 64 mod 64), char_of (0x80 + r mod 64)]
      else
        [char_of (0xF0 + r div 262144), char_of (0x80 + r div 4096 mod 64),
         char_of (0x80 + r div 64 mod 64), char_of (0x80 + r mod 64)])"

text \<open>\<open>string(w[j])\<close> for a byte of a string: the byte is converted as a rune.\<close>

definition byte_string :: "char \<Rightarrow> string" where
  "byte_string c = rune_string (of_char c)"

lemma rune_string_not_Nil [simp]: "rune_string r \<noteq> []"
  by (simp add: rune_string_def)

lemma rune_string_ascii: "r < 128 \<Longrightarrow> rune_string r = [char_of r]"
  by (simp add: rune_string_def)

lemma byte_string_ascii: "of_char c < (128 :: nat) \<Longrightarrow> byte_string c = [c]"
  by (simp add: byte_string_def rune_string_ascii)

section \<open>Lists as Go slices\<close>

text \<open>\<open>append(xs[0:i], xs[i+1:]...)\<close>: the slice without its element \<open>i\<close>.\<close>

definition remove_nth :: "nat \<Rightarrow> 'a list \<Rightarrow> 'a list" where
  "remove_nth i xs = take i xs @ drop (Suc i) xs"

text \<open>The loop that looks for the first element that satisfies a test and breaks: its index.\<close>

fun find_index :: "('a \<Rightarrow> bool) \<Rightarrow> 'a list \<Rightarrow> nat option" where
  "find_index P [] = None"
| "find_index P (x # xs) = (if P x then Some 0 else map_option Suc (find_index P xs))"

lemma find_index_None: "find_index P xs = None \<longleftrightarrow> (\<forall>x \<in> set xs. \<not> P x)"
  by (induction xs) auto

lemma find_index_SomeD:
  "find_index P xs = Some i \<Longrightarrow> i < length xs \<and> P (xs ! i) \<and> (\<forall>j < i. \<not> P (xs ! j))"
proof (induction xs arbitrary: i)
  case Nil
  then show ?case by simp
next
  case (Cons x xs)
  then show ?case by (auto split: if_splits simp: nth_Cons' less_Suc_eq_0_disj)
qed

lemma set_remove_nth_distinct:
  "distinct xs \<Longrightarrow> i < length xs \<Longrightarrow> set (remove_nth i xs) = set xs - {xs ! i}"
proof (induction xs arbitrary: i)
  case Nil
  then show ?case by simp
next
  case (Cons x xs)
  then show ?case by (cases i) (auto simp: remove_nth_def)
qed

lemma distinct_remove_nth: "distinct xs \<Longrightarrow> distinct (remove_nth i xs)"
proof (induction xs arbitrary: i)
  case Nil
  then show ?case by (simp add: remove_nth_def)
next
  case (Cons x xs)
  then show ?case
    by (cases i) (auto simp: remove_nth_def dest: in_set_takeD in_set_dropD)
qed

end
