(* ===== verification/GoStrconv.thy ===== *)
theory GoStrconv
  imports Prelude
begin

text \<open>
  The functions of Go's standard package \<open>strconv\<close> that the flag packages call: \<open>ParseBool\<close>,
  \<open>FormatBool\<close>, \<open>ParseUint\<close> and \<open>ParseInt\<close> for 64 bits (base 10 and base 0 with its
  prefixes and underscores) and \<open>FormatInt\<close>/\<open>FormatUint\<close> in base 10. The two round trips at
  the end are what the flag values rest on.
\<close>

datatype num_error = ErrSyntax | ErrRange

section \<open>Booleans\<close>

definition ParseBool :: "string \<Rightarrow> num_error + bool" where
  "ParseBool s =
     (if s \<in> {''1'', ''t'', ''T'', ''TRUE'', ''true'', ''True''} then Inr True
      else if s \<in> {''0'', ''f'', ''F'', ''FALSE'', ''false'', ''False''} then Inr False
      else Inl ErrSyntax)"

definition FormatBool :: "bool \<Rightarrow> string" where
  "FormatBool b = (if b then ''true'' else ''false'')"

lemma ParseBool_FormatBool [simp]: "ParseBool (FormatBool b) = Inr b"
  by (simp add: ParseBool_def FormatBool_def)

section \<open>Unsigned integers\<close>

definition lower :: "char \<Rightarrow> char" where
  "lower c = (let n = of_char c :: nat in if 65 \<le> n \<and> n \<le> 90 then char_of (n + 32) else c)"

definition digit_val :: "char \<Rightarrow> nat option" where
  "digit_val c =
     (let n = of_char c :: nat; l = of_char (lower c) :: nat in
      if 48 \<le> n \<and> n \<le> 57 then Some (n - 48)
      else if 97 \<le> l \<and> l \<le> 122 then Some (l - 97 + 10)
      else None)"

text \<open>The digit loop of \<open>ParseUint\<close>: \<open>us\<close> says that underscores are skipped (base 0).\<close>

fun uint_loop :: "bool \<Rightarrow> nat \<Rightarrow> nat \<Rightarrow> string \<Rightarrow> num_error + nat" where
  "uint_loop us base n [] = Inr n"
| "uint_loop us base n (c # cs) =
     (if us \<and> c = CHR ''_'' then uint_loop us base n cs
      else (case digit_val c of
              None \<Rightarrow> Inl ErrSyntax
            | Some d \<Rightarrow>
                if base \<le> d then Inl ErrSyntax
                else if 2 ^ 64 \<le> n * base + d then Inl ErrRange
                else uint_loop us base (n * base + d) cs))"

text \<open>\<open>underscoreOK\<close>: underscores separate digits, or follow a base prefix. The \<open>prev\<close> argument
  is the class of the previous byte: start, digit, underscore, other.\<close>

datatype us_prev = UStart | UDigit | UUnder | UOther

fun us_loop :: "bool \<Rightarrow> us_prev \<Rightarrow> string \<Rightarrow> bool" where
  "us_loop hex prev [] = (prev \<noteq> UUnder)"
| "us_loop hex prev (c # cs) =
     (if (CHR ''0'' = c \<or> (48 < (of_char c :: nat) \<and> (of_char c :: nat) \<le> 57))
         \<or> (hex \<and> 97 \<le> (of_char (lower c) :: nat) \<and> (of_char (lower c) :: nat) \<le> 102)
      then us_loop hex UDigit cs
      else if c = CHR ''_'' then (if prev \<noteq> UDigit then False else us_loop hex UUnder cs)
      else if prev = UUnder then False
      else us_loop hex UOther cs)"

fun underscoreOK :: "string \<Rightarrow> bool" where
  "underscoreOK s =
     (let s = (case s of c # cs \<Rightarrow> if c = CHR ''-'' \<or> c = CHR ''+'' then cs else s | [] \<Rightarrow> []) in
      case s of
        a # b # cs \<Rightarrow>
          if a = CHR ''0'' \<and> lower b \<in> {CHR ''b'', CHR ''o'', CHR ''x''}
          then us_loop (lower b = CHR ''x'') UDigit cs
          else us_loop False UStart s
      | _ \<Rightarrow> us_loop False UStart s)"

text \<open>The base and the digits that base 0 stands for.\<close>

fun base_of :: "string \<Rightarrow> nat \<times> string" where
  "base_of (CHR ''0'' # b # c # cs) =
     (if lower b = CHR ''b'' then (2, c # cs)
      else if lower b = CHR ''o'' then (8, c # cs)
      else if lower b = CHR ''x'' then (16, c # cs)
      else (8, b # c # cs))"
| "base_of (CHR ''0'' # cs) = (8, cs)"
| "base_of s = (10, s)"

definition ParseUint :: "nat \<Rightarrow> string \<Rightarrow> num_error + nat" where
  "ParseUint base s =
     (if s = [] then Inl ErrSyntax
      else if base = 0 then
        (case base_of s of (b, ds) \<Rightarrow>
           (case uint_loop True b 0 ds of
              Inl e \<Rightarrow> Inl e
            | Inr n \<Rightarrow> if CHR ''_'' \<in> set ds \<and> \<not> underscoreOK s then Inl ErrSyntax else Inr n))
      else uint_loop False base 0 s)"

section \<open>Signed integers\<close>

definition ParseInt :: "nat \<Rightarrow> string \<Rightarrow> num_error + int" where
  "ParseInt base s0 =
     (if s0 = [] then Inl ErrSyntax
      else
        (let neg = (hd s0 = CHR ''-''); s = (if neg \<or> hd s0 = CHR ''+'' then tl s0 else s0) in
         case ParseUint base s of
           Inl ErrSyntax \<Rightarrow> Inl ErrSyntax
         | Inl ErrRange \<Rightarrow> Inl ErrRange
         | Inr un \<Rightarrow>
             if \<not> neg \<and> 2 ^ 63 \<le> un then Inl ErrRange
             else if neg \<and> 2 ^ 63 < un then Inl ErrRange
             else Inr (if neg then - int un else int un)))"

section \<open>Formatting\<close>

definition digit_char :: "nat \<Rightarrow> char" where
  "digit_char d = char_of (48 + d)"

fun FormatUint :: "nat \<Rightarrow> string" where
  "FormatUint n =
     (if n < 10 then [digit_char n] else FormatUint (n div 10) @ [digit_char (n mod 10)])"

declare FormatUint.simps [simp del]

definition FormatInt :: "int \<Rightarrow> string" where
  "FormatInt i = (if i < 0 then CHR ''-'' # FormatUint (nat (- i)) else FormatUint (nat i))"

section \<open>Round trips\<close>

lemma of_char_digit: "d < 10 \<Longrightarrow> (of_char (digit_char d) :: nat) = 48 + d"
  by (simp add: digit_char_def)

lemma digit_char_eq: "d < 10 \<Longrightarrow> digit_char d = c \<longleftrightarrow> 48 + d = (of_char c :: nat)"
  by (metis of_char_digit char_of_char)

lemma digit_val_digit [simp]: "d < 10 \<Longrightarrow> digit_val (digit_char d) = Some d"
  by (simp add: digit_val_def of_char_digit)

lemma digit_not_special:
  assumes "d < 10"
  shows "digit_char d \<noteq> CHR ''_''" "digit_char d \<noteq> CHR ''-''" "digit_char d \<noteq> CHR ''+''"
  using assms by (simp_all add: digit_char_eq)

lemmas digit_not_special' = digit_not_special digit_not_special [symmetric]

lemma digit_char_0: "digit_char 0 = CHR ''0''"
  by (simp add: digit_char_eq)

lemma uint_loop_append:
  "uint_loop us base n (xs @ ys) =
     (case uint_loop us base n xs of Inl e \<Rightarrow> Inl e | Inr m \<Rightarrow> uint_loop us base m ys)"
  by (induction xs arbitrary: n) (auto split: option.splits)

lemma uint_loop_Format:
  "n < 2 ^ 64 \<Longrightarrow> uint_loop us 10 0 (FormatUint n) = Inr n"
proof (induction n rule: FormatUint.induct)
  case (1 n)
  show ?case
  proof (cases "n < 10")
    case True
    then show ?thesis
      by (subst FormatUint.simps) (simp add: digit_not_special)
  next
    case False
    with 1 have "uint_loop us 10 0 (FormatUint (n div 10)) = Inr (n div 10)" by simp
    with False "1.prems" show ?thesis
      by (subst FormatUint.simps)
        (simp add: uint_loop_append digit_not_special div_mult_mod_eq)
  qed
qed

lemma FormatUint_not_Nil [simp]: "FormatUint n \<noteq> []"
  by (subst FormatUint.simps) simp

lemma FormatUint_digits: "c \<in> set (FormatUint n) \<Longrightarrow> \<exists>d < 10. c = digit_char d"
proof (induction n rule: FormatUint.induct)
  case (1 n)
  then show ?case
    by (cases "n < 10") (auto simp: FormatUint.simps[of n] intro: exI[of _ "n mod 10"])
qed

lemma FormatUint_hd_nonzero: "0 < n \<Longrightarrow> hd (FormatUint n) \<noteq> CHR ''0''"
proof (induction n rule: FormatUint.induct)
  case (1 n)
  show ?case
  proof (cases "n < 10")
    case True
    with "1.prems" show ?thesis by (subst FormatUint.simps) (simp add: digit_char_eq)
  next
    case False
    with 1 show ?thesis by (subst FormatUint.simps) simp
  qed
qed

lemma ParseUint10_Format: "n < 2 ^ 64 \<Longrightarrow> ParseUint 10 (FormatUint n) = Inr n"
  by (simp add: ParseUint_def uint_loop_Format)

text \<open>A number printed in base 10 has no base prefix, so base 0 reads it back too.\<close>

lemma base_of_other: "s \<noteq> [] \<Longrightarrow> hd s \<noteq> CHR ''0'' \<Longrightarrow> base_of s = (10, s)"
  by (cases s rule: base_of.cases) simp_all

lemma base_of_Format: "0 < n \<Longrightarrow> base_of (FormatUint n) = (10, FormatUint n)"
  by (simp add: base_of_other FormatUint_hd_nonzero)

lemma no_underscore_Format: "CHR ''_'' \<notin> set (FormatUint n)"
  by (auto dest!: FormatUint_digits simp: digit_not_special')

lemma ParseUint0_Format: "n < 2 ^ 64 \<Longrightarrow> ParseUint 0 (FormatUint n) = Inr n"
proof (cases "n = 0")
  case True
  then show ?thesis by (simp add: ParseUint_def FormatUint.simps digit_char_0)
next
  case False
  assume "n < 2 ^ 64"
  with False show ?thesis
    by (simp add: ParseUint_def base_of_Format uint_loop_Format no_underscore_Format)
qed

lemma hd_Format: "hd (FormatUint n) \<noteq> CHR ''-''" "hd (FormatUint n) \<noteq> CHR ''+''"
proof -
  have "hd (FormatUint n) \<in> set (FormatUint n)" by simp
  from FormatUint_digits[OF this] show "hd (FormatUint n) \<noteq> CHR ''-''" "hd (FormatUint n) \<noteq> CHR ''+''"
    by (auto simp: digit_not_special')
qed

lemma ParseInt_Format:
  assumes "base = 0 \<or> base = 10" and "- (2 ^ 63) \<le> i" and "i < 2 ^ 63"
  shows "ParseInt base (FormatInt i) = Inr i"
proof -
  have p: "ParseUint base (FormatUint n) = Inr n" if "n < 2 ^ 64" for n
    using assms(1) ParseUint0_Format[OF that] ParseUint10_Format[OF that] by auto
  show ?thesis
  proof (cases "i < 0")
    case True
    with assms(2) have "nat (- i) \<le> 2 ^ 63" by simp
    with True p[of "nat (- i)"] show ?thesis by (simp add: FormatInt_def ParseInt_def)
  next
    case False
    with assms(3) have "nat i < 2 ^ 63" by simp
    with False p[of "nat i"] show ?thesis
      by (simp add: FormatInt_def ParseInt_def hd_Format Let_def)
  qed
qed

lemma ParseInt_range: "ParseInt base s = Inr i \<Longrightarrow> - (2 ^ 63) \<le> i \<and> i < 2 ^ 63"
  by (auto simp: ParseInt_def Let_def split: if_splits sum.splits num_error.splits)

lemma uint_loop_range: "uint_loop us base n s = Inr m \<Longrightarrow> n < 2 ^ 64 \<Longrightarrow> m < 2 ^ 64"
  by (induction s arbitrary: n) (auto split: if_splits option.splits)

lemma ParseUint_range: "ParseUint base s = Inr n \<Longrightarrow> n < 2 ^ 64"
  by (auto simp: ParseUint_def split: if_splits prod.splits sum.splits dest!: uint_loop_range)

end
