(* ===== verification/Flag.thy ===== *)
theory Flag
  imports GoStrconv
begin

text \<open>
  \<open>internal/flags/flag.go\<close>: a single command line flag. A flag is a record with the source's
  fields. Its value is an \<open>interface{}\<close>: a value of one of the supported Go types, or a pointer
  (\<open>VPtr\<close>, an address in the list of variable cells the caller owns). The functions a caller
  attaches to a flag (processors, callbacks) are closures: the flag holds tokens, and the
  environment \<open>goenv\<close> gives their behaviour together with the process environment and
  \<open>strconv.ParseFloat\<close>. Slices and maps in a cell may be nil (\<open>None\<close>).
\<close>

section \<open>Types\<close>

datatype FType =
    UnsetType | ArrayType | BooleanType | FloatType | IncrementType | IntegerType | MapType | StringType

type_synonym int64 = "64 word"

datatype 'fl val =
    VNil
  | VBool bool
  | VFloat 'fl
  | VInt64 int64
  | VInt int
  | VString string
  | VBools "bool list option"
  | VFloats "'fl list option"
  | VInts "int64 list option"
  | VStrings "string list option"
  | VBoolMap "(string \<rightharpoonup> bool) option"
  | VFloatMap "(string \<rightharpoonup> 'fl) option"
  | VIntMap "(string \<rightharpoonup> int64) option"
  | VStringMap "(string \<rightharpoonup> string) option"
  | VPtr nat

datatype flag_error =
    ErrFlagUsed
  | ErrInvalidType
  | ErrMapValue string
  | ErrMapSubtype FType
  | ErrArraySubtype FType
  | ErrConversion FType
  | ErrParse num_error
  | ErrUser string

record 'fl flag =
  f_aliases :: "string list"
  f_called :: bool
  f_callbacks :: "nat list"
  f_defaultValue :: "'fl val"
  f_description :: string
  f_envVar :: string
  f_group :: "nat option"
  f_hidden :: bool
  f_longName :: string
  f_matchedName :: string
  f_processors :: "nat list"
  f_ptr :: bool
  f_required :: bool
  f_shortName :: nat
  f_kind :: FType
  f_subkind :: FType
  f_updated :: bool
  f_value :: "'fl val"

text \<open>The state of a flag operation: the variable cells that pointers refer to, and the flag.\<close>

type_synonym 'fl fstate = "'fl val list \<times> 'fl flag"
type_synonym ('fl, 'a) fresult = "('fl fstate, flag_error, 'a) outcome"
type_synonym 'fl modifier = "'fl fstate \<Rightarrow> ('fl, unit) fresult"

record 'fl goenv =
  e_getenv :: "string \<Rightarrow> string"
  e_parseFloat :: "string \<Rightarrow> num_error + 'fl"
  e_zeroFloat :: 'fl
  e_processor :: "nat \<Rightarrow> 'fl val \<Rightarrow> 'fl fstate \<Rightarrow> ('fl, 'fl val) fresult"
  e_callback :: "nat \<Rightarrow> 'fl fstate \<Rightarrow> ('fl, unit) fresult"

section \<open>Type checks\<close>

text \<open>\<open>typeCheck\<close> and \<open>ptrTypeCheck\<close> panic unless the value has the flag's type; here they say
  whether they return.\<close>

fun typeCheck :: "'fl flag \<Rightarrow> 'fl val \<Rightarrow> bool" where
  "typeCheck f v =
     (case f_kind f of
        ArrayType \<Rightarrow>
          (case f_subkind f of
             BooleanType \<Rightarrow> (case v of VBools _ \<Rightarrow> True | _ \<Rightarrow> False)
           | FloatType \<Rightarrow> (case v of VFloats _ \<Rightarrow> True | _ \<Rightarrow> False)
           | IntegerType \<Rightarrow> (case v of VInts _ \<Rightarrow> True | _ \<Rightarrow> False)
           | StringType \<Rightarrow> (case v of VStrings _ \<Rightarrow> True | _ \<Rightarrow> False)
           | _ \<Rightarrow> False)
      | BooleanType \<Rightarrow> (case v of VBool _ \<Rightarrow> True | _ \<Rightarrow> False)
      | FloatType \<Rightarrow> (case v of VFloat _ \<Rightarrow> True | _ \<Rightarrow> False)
      | IncrementType \<Rightarrow> (case v of VInt64 _ \<Rightarrow> True | _ \<Rightarrow> False)
      | IntegerType \<Rightarrow> (case v of VInt64 _ \<Rightarrow> True | _ \<Rightarrow> False)
      | MapType \<Rightarrow>
          (case f_subkind f of
             BooleanType \<Rightarrow> (case v of VBoolMap _ \<Rightarrow> True | _ \<Rightarrow> False)
           | FloatType \<Rightarrow> (case v of VFloatMap _ \<Rightarrow> True | _ \<Rightarrow> False)
           | IntegerType \<Rightarrow> (case v of VIntMap _ \<Rightarrow> True | _ \<Rightarrow> False)
           | StringType \<Rightarrow> (case v of VStringMap _ \<Rightarrow> True | _ \<Rightarrow> False)
           | _ \<Rightarrow> False)
      | StringType \<Rightarrow> (case v of VString _ \<Rightarrow> True | _ \<Rightarrow> False)
      | UnsetType \<Rightarrow> True)"

text \<open>The value a pointer refers to; \<open>None\<close> when the value is not a pointer to a cell.\<close>

definition deref :: "'fl val list \<Rightarrow> 'fl val \<Rightarrow> 'fl val option" where
  "deref cells v =
     (case v of VPtr a \<Rightarrow> if a < length cells then Some (cells ! a) else None | _ \<Rightarrow> None)"

definition ptrTypeCheck :: "'fl val list \<Rightarrow> 'fl flag \<Rightarrow> 'fl val \<Rightarrow> bool" where
  "ptrTypeCheck cells f v =
     (case f_kind f of
        ArrayType \<Rightarrow>
          (case f_subkind f of
             BooleanType \<Rightarrow> (case deref cells v of Some (VBools c) \<Rightarrow> c \<noteq> None | _ \<Rightarrow> False)
           | FloatType \<Rightarrow> (case deref cells v of Some (VFloats c) \<Rightarrow> c \<noteq> None | _ \<Rightarrow> False)
           | IntegerType \<Rightarrow> (case deref cells v of Some (VInts c) \<Rightarrow> c \<noteq> None | _ \<Rightarrow> False)
           | StringType \<Rightarrow> (case deref cells v of Some (VStrings c) \<Rightarrow> c \<noteq> None | _ \<Rightarrow> False)
           | _ \<Rightarrow> False)
      | BooleanType \<Rightarrow> (case deref cells v of Some (VBool _) \<Rightarrow> True | _ \<Rightarrow> False)
      | FloatType \<Rightarrow> (case deref cells v of Some (VFloat _) \<Rightarrow> True | _ \<Rightarrow> False)
      | IncrementType \<Rightarrow> (case deref cells v of Some (VInt64 _) \<Rightarrow> True | _ \<Rightarrow> False)
      | IntegerType \<Rightarrow> (case deref cells v of Some (VInt64 _) \<Rightarrow> True | _ \<Rightarrow> False)
      | MapType \<Rightarrow>
          (case f_subkind f of
             BooleanType \<Rightarrow> (case deref cells v of Some (VBoolMap c) \<Rightarrow> c \<noteq> None | _ \<Rightarrow> False)
           | FloatType \<Rightarrow> (case deref cells v of Some (VFloatMap c) \<Rightarrow> c \<noteq> None | _ \<Rightarrow> False)
           | IntegerType \<Rightarrow> (case deref cells v of Some (VIntMap c) \<Rightarrow> c \<noteq> None | _ \<Rightarrow> False)
           | StringType \<Rightarrow> (case deref cells v of Some (VStringMap c) \<Rightarrow> c \<noteq> None | _ \<Rightarrow> False)
           | _ \<Rightarrow> False)
      | StringType \<Rightarrow> (case deref cells v of Some (VString _) \<Rightarrow> True | _ \<Rightarrow> False)
      | UnsetType \<Rightarrow> True)"

section \<open>Modifiers\<close>

text \<open>A \<open>FlagModifier\<close> is a function that \<open>newFlag\<close> applies to the new flag.\<close>

definition upd_flag :: "('fl flag \<Rightarrow> 'fl flag) \<Rightarrow> 'fl modifier" where
  "upd_flag g = (\<lambda>(cells, f). Ret (cells, g f) ())"

definition Alias :: "string list \<Rightarrow> 'fl modifier" where
  "Alias aliases = upd_flag (\<lambda>f. f\<lparr>f_aliases := f_aliases f @ aliases\<rparr>)"

definition Description :: "string \<Rightarrow> 'fl modifier" where
  "Description d = upd_flag (\<lambda>f. f\<lparr>f_description := d\<rparr>)"

definition Required :: "'fl modifier" where
  "Required = upd_flag (\<lambda>f. f\<lparr>f_required := True\<rparr>)"

definition Optional :: "'fl modifier" where
  "Optional = upd_flag (\<lambda>f. f\<lparr>f_required := False\<rparr>)"

definition Hidden :: "'fl modifier" where
  "Hidden = upd_flag (\<lambda>f. f\<lparr>f_hidden := True\<rparr>)"

definition DefaultValue :: "'fl val \<Rightarrow> 'fl modifier" where
  "DefaultValue v = (\<lambda>(cells, f).
     if typeCheck f v then Ret (cells, f\<lparr>f_defaultValue := v\<rparr>) ()
     else Crash ''invalid variable type'')"

definition EnvVar :: "string \<Rightarrow> 'fl modifier" where
  "EnvVar name = upd_flag (\<lambda>f. f\<lparr>f_envVar := name\<rparr>)"

definition ShortName :: "nat \<Rightarrow> 'fl modifier" where
  "ShortName n = upd_flag (\<lambda>f. f\<lparr>f_shortName := n\<rparr>)"

definition SetSubtype :: "FType \<Rightarrow> 'fl modifier" where
  "SetSubtype t = upd_flag (\<lambda>f. f\<lparr>f_subkind := t\<rparr>)"

definition AddProcessor :: "nat \<Rightarrow> 'fl modifier" where
  "AddProcessor fn = upd_flag (\<lambda>f. f\<lparr>f_processors := f_processors f @ [fn]\<rparr>)"

definition AddCallback :: "nat \<Rightarrow> 'fl modifier" where
  "AddCallback fn = upd_flag (\<lambda>f. f\<lparr>f_callbacks := f_callbacks f @ [fn]\<rparr>)"

definition customVar :: "'fl val \<Rightarrow> 'fl modifier" where
  "customVar v = (\<lambda>(cells, f).
     if ptrTypeCheck cells f v then Ret (cells, f\<lparr>f_value := v, f_ptr := True\<rparr>) ()
     else Crash ''invalid pointer variable'')"

fun apply_modifiers :: "'fl modifier list \<Rightarrow> 'fl modifier" where
  "apply_modifiers [] s = Ret s ()"
| "apply_modifiers (m # ms) s = bind_o (m s) (\<lambda>s' _. apply_modifiers ms s')"

lemmas modifier_defs = upd_flag_def Alias_def Description_def Required_def Optional_def Hidden_def
  DefaultValue_def EnvVar_def ShortName_def SetSubtype_def AddProcessor_def AddCallback_def customVar_def

section \<open>Conversion\<close>

definition doConvert :: "'fl goenv \<Rightarrow> 'fl flag \<Rightarrow> string \<Rightarrow> FType \<Rightarrow> flag_error + 'fl val" where
  "doConvert env f v t =
     (case t of
        BooleanType \<Rightarrow> (case ParseBool v of Inl e \<Rightarrow> Inl (ErrParse e) | Inr b \<Rightarrow> Inr (VBool b))
      | FloatType \<Rightarrow> (case e_parseFloat env v of Inl e \<Rightarrow> Inl (ErrParse e) | Inr x \<Rightarrow> Inr (VFloat x))
      | IntegerType \<Rightarrow>
          (case ParseInt 10 v of Inl e \<Rightarrow> Inl (ErrParse e) | Inr i \<Rightarrow> Inr (VInt64 (word_of_int i)))
      | StringType \<Rightarrow> Inr (VString v)
      | _ \<Rightarrow> Inl (ErrConversion (f_kind f)))"

definition convertValue :: "'fl goenv \<Rightarrow> 'fl flag \<Rightarrow> string \<Rightarrow> flag_error + 'fl val" where
  "convertValue env f v =
     (case f_kind f of
        ArrayType \<Rightarrow> doConvert env f v (f_subkind f)
      | MapType \<Rightarrow> doConvert env f v (f_subkind f)
      | IncrementType \<Rightarrow> Inr (VInt 1)
      | _ \<Rightarrow> doConvert env f v (f_kind f))"

fun run_processors :: "'fl goenv \<Rightarrow> nat list \<Rightarrow> 'fl val \<Rightarrow> 'fl fstate \<Rightarrow> ('fl, 'fl val) fresult" where
  "run_processors env [] v st = Ret st v"
| "run_processors env (p # ps) v st =
     bind_o (e_processor env p v st) (\<lambda>st' v'. run_processors env ps v' st')"

fun run_callbacks :: "'fl goenv \<Rightarrow> nat list \<Rightarrow> 'fl fstate \<Rightarrow> ('fl, unit) fresult" where
  "run_callbacks env [] st = Ret st ()"
| "run_callbacks env (c # cs) st =
     bind_o (e_callback env c st) (\<lambda>st' _. run_callbacks env cs st')"

text \<open>Convert the argument and run the processors over it: the head of every \<open>setValue...\<close>.\<close>

definition converted :: "'fl goenv \<Rightarrow> string \<Rightarrow> 'fl fstate \<Rightarrow> ('fl, 'fl val) fresult" where
  "converted env val st =
     (case convertValue env (snd st) val of
        Inl e \<Rightarrow> Fail st e
      | Inr v \<Rightarrow> run_processors env (f_processors (snd st)) v st)"

section \<open>The value of a flag and its cell\<close>

text \<open>What the flag's value denotes: the cell it points to when it is a custom variable.\<close>

definition current :: "'fl fstate \<Rightarrow> 'fl val option" where
  "current st =
     (if f_ptr (snd st) then deref (fst st) (f_value (snd st)) else Some (f_value (snd st)))"

definition store :: "'fl val \<Rightarrow> 'fl fstate \<Rightarrow> 'fl fstate" where
  "store v st =
     (case st of (cells, f) \<Rightarrow>
        if f_ptr f then
          (case f_value f of VPtr a \<Rightarrow> (cells[a := v], f) | _ \<Rightarrow> st)
        else (cells, f\<lparr>f_value := v\<rparr>))"

definition panic_type :: string where
  "panic_type = ''interface conversion''"

section \<open>Setting values\<close>

text \<open>A scalar: a pointer is assigned through after a type assertion, an interface without one.\<close>

definition setValueBoolean :: "'fl goenv \<Rightarrow> string \<Rightarrow> 'fl fstate \<Rightarrow> ('fl, unit) fresult" where
  "setValueBoolean env val st =
     bind_o (converted env val st) (\<lambda>st v.
       if f_ptr (snd st) then
         (case (current st, v) of
            (Some (VBool _), VBool b) \<Rightarrow> Ret (store (VBool b) st) ()
          | _ \<Rightarrow> Crash panic_type)
       else Ret (store v st) ())"

definition setValueFloat :: "'fl goenv \<Rightarrow> string \<Rightarrow> 'fl fstate \<Rightarrow> ('fl, unit) fresult" where
  "setValueFloat env val st =
     bind_o (converted env val st) (\<lambda>st v.
       if f_ptr (snd st) then
         (case (current st, v) of
            (Some (VFloat _), VFloat x) \<Rightarrow> Ret (store (VFloat x) st) ()
          | _ \<Rightarrow> Crash panic_type)
       else Ret (store v st) ())"

definition setValueInteger :: "'fl goenv \<Rightarrow> string \<Rightarrow> 'fl fstate \<Rightarrow> ('fl, unit) fresult" where
  "setValueInteger env val st =
     bind_o (converted env val st) (\<lambda>st v.
       if f_ptr (snd st) then
         (case (current st, v) of
            (Some (VInt64 _), VInt64 i) \<Rightarrow> Ret (store (VInt64 i) st) ()
          | _ \<Rightarrow> Crash panic_type)
       else Ret (store v st) ())"

definition setValueString :: "'fl goenv \<Rightarrow> string \<Rightarrow> 'fl fstate \<Rightarrow> ('fl, unit) fresult" where
  "setValueString env val st =
     bind_o (converted env val st) (\<lambda>st v.
       if f_ptr (snd st) then
         (case (current st, v) of
            (Some (VString _), VString t) \<Rightarrow> Ret (store (VString t) st) ()
          | _ \<Rightarrow> Crash panic_type)
       else Ret (store v st) ())"

definition setValueIncrement :: "string \<Rightarrow> 'fl fstate \<Rightarrow> ('fl, unit) fresult" where
  "setValueIncrement val st =
     (case current st of
        Some (VInt64 i) \<Rightarrow> Ret (store (VInt64 (i + 1)) st) ()
      | _ \<Rightarrow> Crash panic_type)"

text \<open>An array: the new slice is the old one (nil counts as empty) with the value at its end.\<close>

definition appended :: "'a list option \<Rightarrow> 'a \<Rightarrow> 'a list option" where
  "appended xs x = Some ((case xs of None \<Rightarrow> [] | Some ys \<Rightarrow> ys) @ [x])"

definition setValueArray :: "'fl goenv \<Rightarrow> string \<Rightarrow> 'fl fstate \<Rightarrow> ('fl, unit) fresult" where
  "setValueArray env val st =
     bind_o (converted env val st) (\<lambda>st v.
       case f_subkind (snd st) of
         BooleanType \<Rightarrow>
           (case (current st, v) of
              (Some (VBools xs), VBool b) \<Rightarrow> Ret (store (VBools (appended xs b)) st) ()
            | _ \<Rightarrow> Crash panic_type)
       | FloatType \<Rightarrow>
           (case (current st, v) of
              (Some (VFloats xs), VFloat x) \<Rightarrow> Ret (store (VFloats (appended xs x)) st) ()
            | _ \<Rightarrow> Crash panic_type)
       | IntegerType \<Rightarrow>
           (case (current st, v) of
              (Some (VInts xs), VInt64 i) \<Rightarrow> Ret (store (VInts (appended xs i)) st) ()
            | _ \<Rightarrow> Crash panic_type)
       | StringType \<Rightarrow>
           (case (current st, v) of
              (Some (VStrings xs), VString t) \<Rightarrow> Ret (store (VStrings (appended xs t)) st) ()
            | _ \<Rightarrow> Crash panic_type)
       | t \<Rightarrow> Fail st (ErrArraySubtype t))"

text \<open>A map: writing to a nil map panics.\<close>

definition setValueMap :: "'fl goenv \<Rightarrow> string \<Rightarrow> 'fl fstate \<Rightarrow> ('fl, unit) fresult" where
  "setValueMap env v st =
     (case split2 (CHR ''='') v of
        None \<Rightarrow> Fail st (ErrMapValue v)
      | Some (key, val) \<Rightarrow>
          bind_o (converted env val st) (\<lambda>st v.
            case f_subkind (snd st) of
              BooleanType \<Rightarrow>
                (case (current st, v) of
                   (Some (VBoolMap (Some m)), VBool b) \<Rightarrow> Ret (store (VBoolMap (Some (m(key \<mapsto> b)))) st) ()
                 | (Some (VBoolMap None), VBool b) \<Rightarrow> Crash ''assignment to entry in nil map''
                 | _ \<Rightarrow> Crash panic_type)
            | FloatType \<Rightarrow>
                (case (current st, v) of
                   (Some (VFloatMap (Some m)), VFloat x) \<Rightarrow> Ret (store (VFloatMap (Some (m(key \<mapsto> x)))) st) ()
                 | (Some (VFloatMap None), VFloat x) \<Rightarrow> Crash ''assignment to entry in nil map''
                 | _ \<Rightarrow> Crash panic_type)
            | IntegerType \<Rightarrow>
                (case (current st, v) of
                   (Some (VIntMap (Some m)), VInt64 i) \<Rightarrow> Ret (store (VIntMap (Some (m(key \<mapsto> i)))) st) ()
                 | (Some (VIntMap None), VInt64 i) \<Rightarrow> Crash ''assignment to entry in nil map''
                 | _ \<Rightarrow> Crash panic_type)
            | StringType \<Rightarrow>
                (case (current st, v) of
                   (Some (VStringMap (Some m)), VString t) \<Rightarrow> Ret (store (VStringMap (Some (m(key \<mapsto> t)))) st) ()
                 | (Some (VStringMap None), VString t) \<Rightarrow> Crash ''assignment to entry in nil map''
                 | _ \<Rightarrow> Crash panic_type)
            | t \<Rightarrow> Fail st (ErrMapSubtype t)))"

definition setValue :: "'fl goenv \<Rightarrow> string \<Rightarrow> 'fl fstate \<Rightarrow> ('fl, unit) fresult" where
  "setValue env v st =
     bind_o
       (case f_kind (snd st) of
          ArrayType \<Rightarrow> setValueArray env v st
        | BooleanType \<Rightarrow> setValueBoolean env v st
        | FloatType \<Rightarrow> setValueFloat env v st
        | IncrementType \<Rightarrow> setValueIncrement v st
        | MapType \<Rightarrow> setValueMap env v st
        | StringType \<Rightarrow> setValueString env v st
        | _ \<Rightarrow> Fail st ErrInvalidType)
       (\<lambda>st _. run_callbacks env (f_callbacks (snd st)) st)"

section \<open>Initialisation and use\<close>

text \<open>The zero value that \<open>init\<close> puts into a flag that is not a custom variable; \<open>None\<close> is the
  panic on an invalid subtype, and an unset kind keeps the value.\<close>

definition zero_value :: "'fl goenv \<Rightarrow> 'fl flag \<Rightarrow> 'fl val option" where
  "zero_value env f =
     (case f_kind f of
        ArrayType \<Rightarrow>
          (case f_subkind f of
             BooleanType \<Rightarrow> Some (VBools (Some []))
           | FloatType \<Rightarrow> Some (VFloats (Some []))
           | IntegerType \<Rightarrow> Some (VInts (Some []))
           | StringType \<Rightarrow> Some (VStrings (Some []))
           | _ \<Rightarrow> None)
      | BooleanType \<Rightarrow> Some (VBool False)
      | FloatType \<Rightarrow> Some (VFloat (e_zeroFloat env))
      | IncrementType \<Rightarrow> Some (VInt64 0)
      | IntegerType \<Rightarrow> Some (VInt64 0)
      | MapType \<Rightarrow>
          (case f_subkind f of
             BooleanType \<Rightarrow> Some (VBoolMap (Some Map.empty))
           | FloatType \<Rightarrow> Some (VFloatMap (Some Map.empty))
           | IntegerType \<Rightarrow> Some (VIntMap (Some Map.empty))
           | StringType \<Rightarrow> Some (VStringMap (Some Map.empty))
           | _ \<Rightarrow> None)
      | StringType \<Rightarrow> Some (VString [])
      | UnsetType \<Rightarrow> Some (f_value f))"

text \<open>The second half of \<open>init\<close>: a non-empty environment variable is set into the flag.\<close>

definition init_from_env :: "'fl goenv \<Rightarrow> 'fl fstate \<Rightarrow> ('fl, unit) fresult" where
  "init_from_env env st =
     (let eval = e_getenv env (f_envVar (snd st)) in
      if f_envVar (snd st) \<noteq> [] \<and> eval \<noteq> [] then
        bind_o (setValue env eval st) (\<lambda>st _. Ret (fst st, (snd st)\<lparr>f_updated := True\<rparr>) ())
      else Ret st ())"

definition flag_init :: "'fl goenv \<Rightarrow> 'fl fstate \<Rightarrow> ('fl, unit) fresult" where
  "flag_init env st =
     (case st of (cells, f) \<Rightarrow>
        if f_updated f \<or> f_called f then Fail st ErrFlagUsed
        else if f_ptr f then init_from_env env st
        else (case zero_value env f of
                None \<Rightarrow> Crash ''invalid subtype''
              | Some v \<Rightarrow> init_from_env env (cells, f\<lparr>f_value := v\<rparr>)))"

definition names_flag :: "'fl flag \<Rightarrow> string \<Rightarrow> bool" where
  "names_flag f n \<longleftrightarrow> f_longName f = n \<or> rune_string (f_shortName f) = n \<or> n \<in> set (f_aliases f)"

definition markCalled :: "string \<Rightarrow> 'fl fstate \<Rightarrow> ('fl, unit) fresult" where
  "markCalled name st =
     (case st of (cells, f) \<Rightarrow>
        if names_flag f name
        then Ret (cells, f\<lparr>f_matchedName := name, f_called := True, f_updated := True\<rparr>) ()
        else Crash ''matched flag name is not a valid name for this flag'')"

text \<open>\<open>Value\<close>: what a reader of the flag sees; a custom variable of an unset kind is returned as the
  pointer itself.\<close>

definition flag_Value :: "'fl fstate \<Rightarrow> 'fl val option" where
  "flag_Value st =
     (case st of (cells, f) \<Rightarrow>
        if f_ptr f then
          (case f_kind f of
             UnsetType \<Rightarrow> Some (f_value f)
           | _ \<Rightarrow> (case deref cells (f_value f) of
                     None \<Rightarrow> None
                   | Some v \<Rightarrow> if typeCheck f v then Some v else None))
        else Some (f_value f))"

section \<open>Type soundness\<close>

text \<open>The dynamic type of a value, as a tag, and the order in which an assignment may change it:
  the type stays and a map that is not nil stays so.\<close>

fun vtag :: "'fl val \<Rightarrow> nat" where
  "vtag VNil = 0"
| "vtag (VBool _) = 1"
| "vtag (VFloat _) = 2"
| "vtag (VInt64 _) = 3"
| "vtag (VInt _) = 4"
| "vtag (VString _) = 5"
| "vtag (VBools _) = 6"
| "vtag (VFloats _) = 7"
| "vtag (VInts _) = 8"
| "vtag (VStrings _) = 9"
| "vtag (VBoolMap _) = 10"
| "vtag (VFloatMap _) = 11"
| "vtag (VIntMap _) = 12"
| "vtag (VStringMap _) = 13"
| "vtag (VPtr _) = 14"

fun nil_map :: "'fl val \<Rightarrow> bool" where
  "nil_map (VBoolMap m) = (m = None)"
| "nil_map (VFloatMap m) = (m = None)"
| "nil_map (VIntMap m) = (m = None)"
| "nil_map (VStringMap m) = (m = None)"
| "nil_map _ = False"

definition same_type :: "'fl val \<Rightarrow> 'fl val \<Rightarrow> bool" where
  "same_type v v' \<longleftrightarrow> vtag v = vtag v' \<and> (nil_map v' \<longrightarrow> nil_map v)"

text \<open>A flag is well typed when its current value has its type, and is no nil map.\<close>

definition well_typed :: "'fl fstate \<Rightarrow> bool" where
  "well_typed st \<longleftrightarrow>
     (case current st of None \<Rightarrow> False | Some v \<Rightarrow> typeCheck (snd st) v \<and> \<not> nil_map v)"

text \<open>What no operation on the value changes: the flag's names, its type and its attachments.\<close>

definition same_shape :: "'fl flag \<Rightarrow> 'fl flag \<Rightarrow> bool" where
  "same_shape f f' \<longleftrightarrow>
     f_aliases f' = f_aliases f \<and> f_longName f' = f_longName f \<and> f_shortName f' = f_shortName f
     \<and> f_kind f' = f_kind f \<and> f_subkind f' = f_subkind f \<and> f_ptr f' = f_ptr f
     \<and> f_group f' = f_group f \<and> f_callbacks f' = f_callbacks f \<and> f_processors f' = f_processors f"

definition evolves :: "'fl fstate \<Rightarrow> 'fl fstate \<Rightarrow> bool" where
  "evolves st st' \<longleftrightarrow>
     (well_typed st \<longrightarrow> well_typed st') \<and> same_shape (snd st) (snd st')
     \<and> list_all2 same_type (fst st) (fst st')"

text \<open>The element a flag's conversion yields.\<close>

definition elem_ok :: "'fl flag \<Rightarrow> 'fl val \<Rightarrow> bool" where
  "elem_ok f v =
     (let t = (if f_kind f \<in> {ArrayType, MapType} then f_subkind f else f_kind f) in
      case t of
        BooleanType \<Rightarrow> vtag v = 1 | FloatType \<Rightarrow> vtag v = 2 | IntegerType \<Rightarrow> vtag v = 3
      | StringType \<Rightarrow> vtag v = 5 | _ \<Rightarrow> True)"

text \<open>The closures a client attaches behave when they do not panic, keep the flag well typed and
  leave its names and type alone, and when a processor's result has the type it was given.\<close>

definition well_behaved :: "'fl goenv \<Rightarrow> bool" where
  "well_behaved env \<longleftrightarrow>
     (\<forall>p v st. well_typed st \<and> elem_ok (snd st) v \<longrightarrow>
        holds_on (evolves st) (e_processor env p v st)
        \<and> (\<forall>st' v'. e_processor env p v st = Ret st' v' \<longrightarrow> elem_ok (snd st') v'))
     \<and> (\<forall>c st. well_typed st \<longrightarrow> holds_on (evolves st) (e_callback env c st))"

lemma same_type_refl [simp]: "same_type v v"
  by (simp add: same_type_def)

lemma same_type_trans: "same_type a b \<Longrightarrow> same_type b c \<Longrightarrow> same_type a c"
  by (auto simp: same_type_def)

lemma cells_refl [simp]: "list_all2 same_type cs cs"
  by (simp add: list_all2_refl)

lemma cells_update [intro]:
  "a < length cs \<Longrightarrow> same_type (cs ! a) v \<Longrightarrow> list_all2 same_type cs (cs[a := v])"
  by (auto simp: list_all2_conv_all_nth nth_list_update)

lemma same_shape_refl [simp]: "same_shape f f"
  by (simp add: same_shape_def)

lemma evolves_refl [simp]: "evolves st st"
  by (simp add: evolves_def)

lemma evolves_trans: "evolves a b \<Longrightarrow> evolves b c \<Longrightarrow> evolves a c"
  unfolding evolves_def same_shape_def
  by (auto intro: list_all2_trans[of same_type same_type same_type, OF same_type_trans])

text \<open>\<open>typeCheck\<close> as a table: the tag a kind and subkind ask for.\<close>

fun kind_tag :: "FType \<Rightarrow> FType \<Rightarrow> nat option" where
  "kind_tag ArrayType BooleanType = Some 6"
| "kind_tag ArrayType FloatType = Some 7"
| "kind_tag ArrayType IntegerType = Some 8"
| "kind_tag ArrayType StringType = Some 9"
| "kind_tag MapType BooleanType = Some 10"
| "kind_tag MapType FloatType = Some 11"
| "kind_tag MapType IntegerType = Some 12"
| "kind_tag MapType StringType = Some 13"
| "kind_tag BooleanType _ = Some 1"
| "kind_tag FloatType _ = Some 2"
| "kind_tag IncrementType _ = Some 3"
| "kind_tag IntegerType _ = Some 3"
| "kind_tag StringType _ = Some 5"
| "kind_tag _ _ = None"

lemma typeCheck_kind_tag:
  "typeCheck f v \<longleftrightarrow> f_kind f = UnsetType \<or> kind_tag (f_kind f) (f_subkind f) = Some (vtag v)"
  by (cases "f_kind f"; cases "f_subkind f"; cases v) simp_all

declare typeCheck.simps [simp del]

lemma typeCheck_tag: "vtag v = vtag v' \<Longrightarrow> typeCheck f v = typeCheck f v'"
  by (simp add: typeCheck_kind_tag)

lemma typeCheck_shape: "same_shape f f' \<Longrightarrow> typeCheck f' v = typeCheck f v"
  by (simp add: same_shape_def typeCheck_kind_tag)

lemma elem_ok_shape: "same_shape f f' \<Longrightarrow> elem_ok f' v = elem_ok f v"
  by (simp add: same_shape_def elem_ok_def)

text \<open>Storing a value of the current value's type.\<close>

lemma current_store: "current st \<noteq> None \<Longrightarrow> current (store v st) = Some v"
  by (cases st) (auto simp: current_def store_def deref_def split: val.splits if_splits)

lemma store_evolves:
  assumes "current st = Some w" and "same_type w v"
  shows "evolves st (store v st)"
proof -
  obtain cells f where st: "st = (cells, f)" by fastforce
  have shape: "same_shape (snd st) (snd (store v st))"
    by (simp add: st store_def same_shape_def split: val.splits)
  have cells: "list_all2 same_type (fst st) (fst (store v st))"
    using assms by (auto simp: st store_def current_def deref_def split: val.splits if_splits)
  have "well_typed (store v st)" if "well_typed st"
    using that assms current_store[of st v] typeCheck_shape[OF shape, of v] typeCheck_tag[of w v "snd st"]
    by (auto simp: well_typed_def same_type_def)
  with shape cells show ?thesis by (simp add: evolves_def)
qed

lemma fst_store_length [simp]: "length (fst (store v st)) = length (fst st)"
  by (cases st) (auto simp: store_def split: val.splits)

text \<open>The conversion and the processors.\<close>

lemma doConvert_elem:
  "doConvert env f s t = Inr v \<Longrightarrow>
     (t = BooleanType \<longrightarrow> vtag v = 1) \<and> (t = FloatType \<longrightarrow> vtag v = 2)
     \<and> (t = IntegerType \<longrightarrow> vtag v = 3) \<and> (t = StringType \<longrightarrow> vtag v = 5)"
  by (auto simp: doConvert_def split: FType.splits sum.splits)

lemma convertValue_elem_ok: "convertValue env f s = Inr v \<Longrightarrow> elem_ok f v"
  by (cases "f_kind f")
    (auto simp: convertValue_def elem_ok_def dest!: doConvert_elem split: FType.splits)

lemma processor_sound:
  assumes "well_behaved env" and "well_typed st" and "elem_ok (snd st) v"
  shows "holds_on (evolves st) (e_processor env p v st)"
    and "e_processor env p v st = Ret st' v' \<Longrightarrow> elem_ok (snd st') v'"
  using assms unfolding well_behaved_def by blast+

lemma callback_sound:
  "well_behaved env \<Longrightarrow> well_typed st \<Longrightarrow> holds_on (evolves st) (e_callback env c st)"
  unfolding well_behaved_def by blast

lemma run_processors_sound:
  assumes "well_behaved env" and "well_typed st" and "elem_ok (snd st) v"
  shows "holds_on (evolves st) (run_processors env ps v st)
         \<and> (\<forall>st' v'. run_processors env ps v st = Ret st' v' \<longrightarrow> elem_ok (snd st') v')"
  using assms(2,3)
proof (induction ps arbitrary: v st)
  case Nil
  then show ?case by simp
next
  case (Cons p ps)
  note p = processor_sound[OF assms(1) Cons.prems, of p]
  show ?case
  proof (cases "e_processor env p v st")
    case (Ret st1 v1)
    with p Cons.prems have "evolves st st1" "well_typed st1" "elem_ok (snd st1) v1"
      by (auto simp: evolves_def)
    with Cons.IH[of st1 v1] Ret show ?thesis
      by (auto intro: holds_on_mono evolves_trans)
  qed (use p in auto)
qed

lemma converted_sound:
  assumes "well_behaved env" and "well_typed st"
  shows "holds_on (evolves st) (converted env s st)
         \<and> (\<forall>st' v'. converted env s st = Ret st' v' \<longrightarrow> elem_ok (snd st') v')"
proof (cases "convertValue env (snd st) s")
  case (Inr v)
  with run_processors_sound[OF assms convertValue_elem_ok[OF Inr]] show ?thesis
    by (simp add: converted_def)
qed (simp add: converted_def)

lemma run_callbacks_sound:
  assumes "well_behaved env" and "well_typed st"
  shows "holds_on (evolves st) (run_callbacks env cs st)"
  using assms(2)
proof (induction cs arbitrary: st)
  case Nil
  then show ?case by simp
next
  case (Cons c cs)
  note c = callback_sound[OF assms(1) Cons.prems, of c]
  show ?case
  proof (cases "e_callback env c st")
    case (Ret st1 u)
    with c Cons.prems have "evolves st st1" "well_typed st1" by (auto simp: evolves_def)
    with Cons.IH[of st1] Ret show ?thesis by (auto intro: holds_on_mono evolves_trans)
  qed (use c in auto)
qed

text \<open>The element and the current value of a well-typed flag, by kind.\<close>

lemma elem_ok_forms:
  "f_kind f = BooleanType \<Longrightarrow> elem_ok f v \<longleftrightarrow> (\<exists>b. v = VBool b)"
  "f_kind f = FloatType \<Longrightarrow> elem_ok f v \<longleftrightarrow> (\<exists>x. v = VFloat x)"
  "f_kind f = IntegerType \<Longrightarrow> elem_ok f v \<longleftrightarrow> (\<exists>i. v = VInt64 i)"
  "f_kind f = StringType \<Longrightarrow> elem_ok f v \<longleftrightarrow> (\<exists>t. v = VString t)"
  by (cases v; simp add: elem_ok_def)+

lemma elem_ok_subforms:
  assumes "f_kind f \<in> {ArrayType, MapType}"
  shows "f_subkind f = BooleanType \<Longrightarrow> elem_ok f v \<longleftrightarrow> (\<exists>b. v = VBool b)"
    and "f_subkind f = FloatType \<Longrightarrow> elem_ok f v \<longleftrightarrow> (\<exists>x. v = VFloat x)"
    and "f_subkind f = IntegerType \<Longrightarrow> elem_ok f v \<longleftrightarrow> (\<exists>i. v = VInt64 i)"
    and "f_subkind f = StringType \<Longrightarrow> elem_ok f v \<longleftrightarrow> (\<exists>t. v = VString t)"
  using assms by (cases v; auto simp: elem_ok_def)+

lemma current_scalar:
  assumes "well_typed st"
  shows "f_kind (snd st) = BooleanType \<Longrightarrow> \<exists>b. current st = Some (VBool b)"
    and "f_kind (snd st) = FloatType \<Longrightarrow> \<exists>x. current st = Some (VFloat x)"
    and "f_kind (snd st) \<in> {IncrementType, IntegerType} \<Longrightarrow> \<exists>i. current st = Some (VInt64 i)"
    and "f_kind (snd st) = StringType \<Longrightarrow> \<exists>t. current st = Some (VString t)"
  using assms
  by (auto simp: well_typed_def typeCheck.simps split: option.splits val.splits)

lemma current_array:
  assumes "well_typed st" and "f_kind (snd st) = ArrayType"
  shows "(f_subkind (snd st) = BooleanType \<and> (\<exists>xs. current st = Some (VBools xs)))
       \<or> (f_subkind (snd st) = FloatType \<and> (\<exists>xs. current st = Some (VFloats xs)))
       \<or> (f_subkind (snd st) = IntegerType \<and> (\<exists>xs. current st = Some (VInts xs)))
       \<or> (f_subkind (snd st) = StringType \<and> (\<exists>xs. current st = Some (VStrings xs)))"
  using assms
  by (auto simp: well_typed_def typeCheck.simps split: option.splits val.splits FType.splits)

lemma current_map:
  assumes "well_typed st" and "f_kind (snd st) = MapType"
  shows "(f_subkind (snd st) = BooleanType \<and> (\<exists>m. current st = Some (VBoolMap (Some m))))
       \<or> (f_subkind (snd st) = FloatType \<and> (\<exists>m. current st = Some (VFloatMap (Some m))))
       \<or> (f_subkind (snd st) = IntegerType \<and> (\<exists>m. current st = Some (VIntMap (Some m))))
       \<or> (f_subkind (snd st) = StringType \<and> (\<exists>m. current st = Some (VStringMap (Some m))))"
  using assms
  by (auto simp: well_typed_def typeCheck.simps split: option.splits val.splits FType.splits)

lemma store_holds:
  "current st = Some w \<Longrightarrow> same_type w v \<Longrightarrow> holds_on (evolves st) (Ret (store v st) ())"
  by (simp add: store_evolves)

text \<open>Sequencing after the conversion: the step sees a well-typed flag of the same shape and a
  value of its element type.\<close>

lemma after_conversion:
  assumes "well_behaved env" and "well_typed st"
    and step: "\<And>st' v. well_typed st' \<Longrightarrow> f_kind (snd st') = f_kind (snd st) \<Longrightarrow>
                 elem_ok (snd st') v \<Longrightarrow> holds_on (evolves st') (g st' v)"
  shows "holds_on (evolves st) (bind_o (converted env s st) g)"
proof (cases "converted env s st")
  case (Ret st1 v)
  with converted_sound[OF assms(1,2), of s]
  have st1: "evolves st st1" "elem_ok (snd st1) v" by auto
  with assms(2) have "holds_on (evolves st1) (g st1 v)"
    by (intro step) (auto simp: evolves_def same_shape_def)
  with st1 Ret show ?thesis by (auto intro: holds_on_mono evolves_trans)
qed (use converted_sound[OF assms(1,2), of s] in auto)

lemma setValueBoolean_sound:
  assumes "well_behaved env" and "well_typed st" and k: "f_kind (snd st) = BooleanType"
  shows "holds_on (evolves st) (setValueBoolean env s st)"
  unfolding setValueBoolean_def
proof (rule after_conversion[OF assms(1,2)], goal_cases)
  case (1 st' v)
  with k obtain b c where "v = VBool b" "current st' = Some (VBool c)"
    using elem_ok_forms(1) current_scalar(1) by metis
  then show ?case by (auto simp: same_type_def intro!: store_evolves)
qed

lemma setValueFloat_sound:
  assumes "well_behaved env" and "well_typed st" and k: "f_kind (snd st) = FloatType"
  shows "holds_on (evolves st) (setValueFloat env s st)"
  unfolding setValueFloat_def
proof (rule after_conversion[OF assms(1,2)], goal_cases)
  case (1 st' v)
  with k obtain b c where "v = VFloat b" "current st' = Some (VFloat c)"
    using elem_ok_forms(2) current_scalar(2) by metis
  then show ?case by (auto simp: same_type_def intro!: store_evolves)
qed

lemma setValueString_sound:
  assumes "well_behaved env" and "well_typed st" and k: "f_kind (snd st) = StringType"
  shows "holds_on (evolves st) (setValueString env s st)"
  unfolding setValueString_def
proof (rule after_conversion[OF assms(1,2)], goal_cases)
  case (1 st' v)
  with k obtain b c where "v = VString b" "current st' = Some (VString c)"
    using elem_ok_forms(4) current_scalar(4) by metis
  then show ?case by (auto simp: same_type_def intro!: store_evolves)
qed

lemma setValueIncrement_sound:
  assumes "well_typed st" and "f_kind (snd st) = IncrementType"
  shows "holds_on (evolves st) (setValueIncrement s st)"
  using current_scalar(3)[OF assms(1)] assms(2)
  by (auto simp: setValueIncrement_def same_type_def intro!: store_evolves)

lemma setValueArray_sound:
  assumes "well_behaved env" and "well_typed st" and k: "f_kind (snd st) = ArrayType"
  shows "holds_on (evolves st) (setValueArray env s st)"
  unfolding setValueArray_def
proof (rule after_conversion[OF assms(1,2)], goal_cases)
  case (1 st' v)
  then have k': "f_kind (snd st') = ArrayType" using k by simp
  from current_array[OF 1(1) k'] 1(3) k' show ?case
    by (elim disjE conjE exE) (auto simp: elem_ok_subforms same_type_def intro!: store_evolves)
qed

lemma setValueMap_sound:
  assumes "well_behaved env" and "well_typed st" and k: "f_kind (snd st) = MapType"
  shows "holds_on (evolves st) (setValueMap env s st)"
proof (cases "split2 (CHR ''='') s")
  case None
  then show ?thesis by (simp add: setValueMap_def)
next
  case (Some kv)
  then obtain key val where kv: "split2 (CHR ''='') s = Some (key, val)" by (cases kv) auto
  show ?thesis
    unfolding setValueMap_def kv option.case prod.case
  proof (rule after_conversion[OF assms(1,2)], goal_cases)
    case (1 st' v)
    then have k': "f_kind (snd st') = MapType" using k by simp
    from current_map[OF 1(1) k'] 1(3) k' show ?case
      by (elim disjE conjE exE) (auto simp: elem_ok_subforms same_type_def intro!: store_evolves)
  qed
qed

text \<open>Type soundness: on a well-typed flag \<open>setValue\<close> never panics, and whatever it returns leaves a
  well-typed flag of the same shape.\<close>

lemma setValue_sound:
  assumes wb: "well_behaved env" and wt: "well_typed st"
  shows "holds_on (evolves st) (setValue env s st)"
proof -
  let ?r = "case f_kind (snd st) of
          ArrayType \<Rightarrow> setValueArray env s st
        | BooleanType \<Rightarrow> setValueBoolean env s st
        | FloatType \<Rightarrow> setValueFloat env s st
        | IncrementType \<Rightarrow> setValueIncrement s st
        | MapType \<Rightarrow> setValueMap env s st
        | StringType \<Rightarrow> setValueString env s st
        | _ \<Rightarrow> Fail st ErrInvalidType"
  have r: "holds_on (evolves st) ?r"
    using assms setValueArray_sound setValueBoolean_sound setValueFloat_sound
      setValueIncrement_sound setValueMap_sound setValueString_sound
    by (cases "f_kind (snd st)") simp_all
  show ?thesis
  proof (cases ?r)
    case (Ret st1 u)
    with r wt have "evolves st st1" "well_typed st1" by (auto simp: evolves_def)
    with run_callbacks_sound[OF wb, of st1] Ret show ?thesis
      by (auto simp: setValue_def intro: holds_on_mono evolves_trans)
  qed (use r in \<open>auto simp: setValue_def\<close>)
qed

section \<open>Initialisation\<close>

text \<open>A kind with a valid subtype has a zero value of its type.\<close>

definition valid_kind :: "'fl flag \<Rightarrow> bool" where
  "valid_kind f \<longleftrightarrow> kind_tag (f_kind f) (f_subkind f) \<noteq> None"

lemma zero_value_typed:
  "valid_kind f \<Longrightarrow> \<exists>v. zero_value env f = Some v \<and> typeCheck f v \<and> \<not> nil_map v"
  by (cases "f_kind f"; cases "f_subkind f")
    (simp_all add: valid_kind_def zero_value_def typeCheck_kind_tag)

lemma zero_value_None: "zero_value env f = None \<longleftrightarrow> \<not> valid_kind f \<and> f_kind f \<noteq> UnsetType"
  by (cases "f_kind f"; cases "f_subkind f") (simp_all add: valid_kind_def zero_value_def)

text \<open>A flag that is ready for \<open>init\<close>: unused, of a valid kind, and its custom variable, if it has
  one, of its type.\<close>

definition init_ready :: "'fl fstate \<Rightarrow> bool" where
  "init_ready st \<longleftrightarrow>
     valid_kind (snd st) \<and> \<not> f_updated (snd st) \<and> \<not> f_called (snd st)
     \<and> (f_ptr (snd st) \<longrightarrow> well_typed st)"

definition inited :: "'fl fstate \<Rightarrow> 'fl fstate \<Rightarrow> bool" where
  "inited st st' \<longleftrightarrow>
     well_typed st' \<and> same_shape (snd st) (snd st') \<and> list_all2 same_type (fst st) (fst st')"

lemma evolves_from_inited: "inited st st1 \<Longrightarrow> evolves st1 st2 \<Longrightarrow> inited st st2"
  unfolding inited_def evolves_def same_shape_def
  by (auto intro: list_all2_trans[of same_type same_type same_type, OF same_type_trans])

lemma init_from_env_sound:
  assumes "well_behaved env" and "inited st st1"
  shows "holds_on (inited st) (init_from_env env st1)"
proof -
  have set: "holds_on (inited st) (setValue env s st1)" for s
  proof (rule holds_on_mono)
    show "holds_on (evolves st1) (setValue env s st1)"
      using assms by (intro setValue_sound) (simp_all add: inited_def)
    show "inited st st2" if "evolves st1 st2" for st2
      using assms(2) that by (rule evolves_from_inited)
  qed
  have upd: "inited st (fst st2, (snd st2)\<lparr>f_updated := True\<rparr>)" if "inited st st2" for st2
    using that by (cases st2)
      (auto simp: inited_def well_typed_def current_def same_shape_def typeCheck_kind_tag
        split: option.splits if_splits)
  show ?thesis
  proof (cases "f_envVar (snd st1) \<noteq> [] \<and> e_getenv env (f_envVar (snd st1)) \<noteq> []")
    case True
    then show ?thesis
      using set[of "e_getenv env (f_envVar (snd st1))"] upd
      by (cases "setValue env (e_getenv env (f_envVar (snd st1))) st1")
        (simp_all add: init_from_env_def)
  qed (use assms(2) in \<open>auto simp: init_from_env_def Let_def\<close>)
qed

lemma flag_init_sound:
  assumes "well_behaved env" and "init_ready st"
  shows "holds_on (inited st) (flag_init env st)"
proof -
  obtain cells f where st: "st = (cells, f)" by fastforce
  show ?thesis
  proof (cases "f_ptr f")
    case True
    with assms(2) have "inited st st" by (simp add: init_ready_def inited_def st)
    from init_from_env_sound[OF assms(1) this] assms(2) True show ?thesis
      by (simp add: flag_init_def st init_ready_def)
  next
    case False
    obtain v where v: "zero_value env f = Some v" "typeCheck f v" "\<not> nil_map v"
      using assms(2) zero_value_typed[of f env] by (auto simp: init_ready_def st)
    with False have "inited st (cells, f\<lparr>f_value := v\<rparr>)"
      by (simp add: inited_def well_typed_def current_def same_shape_def typeCheck_kind_tag st)
    from init_from_env_sound[OF assms(1) this] assms(2) False v show ?thesis
      by (simp add: flag_init_def st init_ready_def)
  qed
qed

section \<open>Functional behaviour without attachments\<close>

definition plain :: "'fl flag \<Rightarrow> bool" where
  "plain f \<longleftrightarrow> f_processors f = [] \<and> f_callbacks f = []"

text \<open>An integer flag has no branch in \<open>setValue\<close>.\<close>

lemma setValue_integer: "f_kind (snd st) = IntegerType \<Longrightarrow> setValue env v st = Fail st ErrInvalidType"
  by (simp add: setValue_def)

lemma snd_store_simps [simp]:
  "f_kind (snd (store v st)) = f_kind (snd st)" "f_ptr (snd (store v st)) = f_ptr (snd st)"
  "f_processors (snd (store v st)) = f_processors (snd st)"
  "f_callbacks (snd (store v st)) = f_callbacks (snd st)"
  "f_subkind (snd (store v st)) = f_subkind (snd st)"
  by (cases st; auto simp: store_def split: val.splits)+

lemma store_store [simp]: "store v (store w st) = store v st"
  by (cases st) (auto simp: store_def split: val.splits)

lemma setValue_increment:
  assumes "f_kind (snd st) = IncrementType" and "plain (snd st)" and "current st = Some (VInt64 i)"
  shows "setValue env s st = Ret (store (VInt64 (i + 1)) st) ()"
  using assms by (simp add: setValue_def setValueIncrement_def plain_def)

lemma setValue_string:
  assumes "f_kind (snd st) = StringType" and "plain (snd st)" and "current st = Some (VString t)"
  shows "setValue env s st = Ret (store (VString s) st) ()"
  using assms
  by (simp add: setValue_def setValueString_def plain_def converted_def convertValue_def doConvert_def)

lemma setValue_boolean:
  assumes "f_kind (snd st) = BooleanType" and "plain (snd st)" and "current st = Some (VBool b0)"
  shows "setValue env s st =
           (case ParseBool s of Inl e \<Rightarrow> Fail st (ErrParse e) | Inr b \<Rightarrow> Ret (store (VBool b) st) ())"
  using assms
  by (simp add: setValue_def setValueBoolean_def plain_def converted_def convertValue_def doConvert_def
      split: sum.split)

lemma setValue_string_array:
  assumes "f_kind (snd st) = ArrayType" and "f_subkind (snd st) = StringType" and "plain (snd st)"
    and "current st = Some (VStrings xs)"
  shows "setValue env s st = Ret (store (VStrings (appended xs s)) st) ()"
  using assms
  by (simp add: setValue_def setValueArray_def plain_def converted_def convertValue_def doConvert_def)

lemma setValue_int_array:
  assumes "f_kind (snd st) = ArrayType" and "f_subkind (snd st) = IntegerType" and "plain (snd st)"
    and "current st = Some (VInts xs)"
  shows "setValue env s st =
           (case ParseInt 10 s of
              Inl e \<Rightarrow> Fail st (ErrParse e)
            | Inr i \<Rightarrow> Ret (store (VInts (appended xs (word_of_int i))) st) ())"
  using assms
  by (simp add: setValue_def setValueArray_def plain_def converted_def convertValue_def doConvert_def
      split: sum.split)

lemma setValue_string_map:
  assumes "f_kind (snd st) = MapType" and "f_subkind (snd st) = StringType" and "plain (snd st)"
    and "current st = Some (VStringMap (Some m))"
  shows "setValue env s st =
           (case split2 (CHR ''='') s of
              None \<Rightarrow> Fail st (ErrMapValue s)
            | Some (k, v) \<Rightarrow> Ret (store (VStringMap (Some (m(k \<mapsto> v)))) st) ())"
  using assms
  by (auto simp: setValue_def setValueMap_def plain_def converted_def convertValue_def doConvert_def
      split: option.split)

text \<open>A sequence of values given to one flag, as repeated options do.\<close>

fun setValues :: "'fl goenv \<Rightarrow> string list \<Rightarrow> 'fl fstate \<Rightarrow> ('fl, unit) fresult" where
  "setValues env [] st = Ret st ()"
| "setValues env (v # vs) st = bind_o (setValue env v st) (\<lambda>st' _. setValues env vs st')"

lemma setValues_increment:
  assumes "f_kind (snd st) = IncrementType" and "plain (snd st)" and "current st = Some (VInt64 i)"
    and "vs \<noteq> []"
  shows "setValues env vs st = Ret (store (VInt64 (i + of_nat (length vs))) st) ()"
  using assms
proof (induction vs arbitrary: i st)
  case Nil
  then show ?case by simp
next
  case (Cons v vs)
  let ?st = "store (VInt64 (i + 1)) st"
  have set: "setValue env v st = Ret ?st ()" using Cons.prems by (simp add: setValue_increment)
  show ?case
  proof (cases "vs = []")
    case False
    with Cons.IH[of ?st "i + 1"] Cons.prems set show ?thesis
      by (simp add: current_store plain_def add_ac)
  qed (simp add: set)
qed

lemma setValues_string_array:
  assumes "f_kind (snd st) = ArrayType" and "f_subkind (snd st) = StringType" and "plain (snd st)"
    and "current st = Some (VStrings (Some xs))" and "vs \<noteq> []"
  shows "setValues env vs st = Ret (store (VStrings (Some (xs @ vs))) st) ()"
  using assms
proof (induction vs arbitrary: xs st)
  case Nil
  then show ?case by simp
next
  case (Cons v vs)
  let ?st = "store (VStrings (Some (xs @ [v]))) st"
  have set: "setValue env v st = Ret ?st ()"
    using Cons.prems by (simp add: setValue_string_array appended_def)
  show ?case
  proof (cases "vs = []")
    case False
    with Cons.IH[of ?st "xs @ [v]"] Cons.prems set show ?thesis
      by (simp add: current_store plain_def)
  qed (simp add: set)
qed

end
