(* ===== verification/FlagSet.thy ===== *)
theory FlagSet
  imports Flag
begin

text \<open>
  \<open>internal/flags/set.go\<close> and \<open>group.go\<close>: groups of flags, sets of groups, and the command line
  parser. Sets, groups and flags refer to each other by pointer and are moved between owners, so
  the state is a store: the flags, groups and sets ever allocated, each in a list where its address
  is its position, and the variable cells of custom flags. An error of the parser keeps the state
  it was found in, as the Go code does.
\<close>

section \<open>State\<close>

datatype ErrorHandling = ReturnOnError | PanicOnError
datatype UnknownHandling = PassOnUnknown | ErrorOnUnknown

datatype set_error =
    ErrFlag flag_error
  | ErrGroupInSet
  | ErrGroupExists string
  | ErrLocate string
  | ErrAlreadyParsed
  | ErrMissingArgument string
  | ErrUnknownFlag string
  | ErrCollision string string string

record group =
  g_flags :: "nat list"
  g_hidden :: bool
  g_name :: string
  g_set :: nat
  g_showGroupName :: bool

record fset =
  s_errorHandling :: ErrorHandling
  s_flagMap :: "string \<rightharpoonup> nat"
  s_groups :: "nat list"
  s_name :: string
  s_parsed :: bool
  s_remaining :: "string list"
  s_unknownFlags :: "string list"
  s_unknownHandling :: UnknownHandling

record 'fl world =
  w_cells :: "'fl val list"
  w_flags :: "'fl flag list"
  w_groups :: "group list"
  w_sets :: "fset list"

type_synonym ('fl, 'a) wresult = "('fl world, set_error, 'a) outcome"

definition the_set :: "nat \<Rightarrow> 'fl world \<Rightarrow> fset" where
  "the_set s w = w_sets w ! s"

definition the_group :: "nat \<Rightarrow> 'fl world \<Rightarrow> group" where
  "the_group g w = w_groups w ! g"

definition the_flag :: "nat \<Rightarrow> 'fl world \<Rightarrow> 'fl flag" where
  "the_flag a w = w_flags w ! a"

definition upd_set :: "nat \<Rightarrow> (fset \<Rightarrow> fset) \<Rightarrow> 'fl world \<Rightarrow> 'fl world" where
  "upd_set s f w = w\<lparr>w_sets := (w_sets w)[s := f (the_set s w)]\<rparr>"

definition upd_group :: "nat \<Rightarrow> (group \<Rightarrow> group) \<Rightarrow> 'fl world \<Rightarrow> 'fl world" where
  "upd_group g f w = w\<lparr>w_groups := (w_groups w)[g := f (the_group g w)]\<rparr>"

text \<open>An operation of flag \<open>a\<close>, run on the flag and the cells; a nil or dangling pointer panics.\<close>

definition put_flag :: "nat \<Rightarrow> 'fl fstate \<Rightarrow> 'fl world \<Rightarrow> 'fl world" where
  "put_flag a st w = w\<lparr>w_cells := fst st, w_flags := (w_flags w)[a := snd st]\<rparr>"

definition on_flag :: "nat \<Rightarrow> ('fl fstate \<Rightarrow> ('fl, 'a) fresult) \<Rightarrow> 'fl world \<Rightarrow> ('fl, 'a) wresult" where
  "on_flag a op w =
     (if a < length (w_flags w) then
        (case op (w_cells w, the_flag a w) of
           Ret st x \<Rightarrow> Ret (put_flag a st w) x
         | Fail st e \<Rightarrow> Fail (put_flag a st w) (ErrFlag e)
         | Crash m \<Rightarrow> Crash m)
      else Crash ''nil pointer dereference'')"

section \<open>Groups\<close>

type_synonym group_modifier = "group \<Rightarrow> group"

definition HideGroupName :: group_modifier where
  "HideGroupName g = g\<lparr>g_showGroupName := False\<rparr>"

definition HideGroup :: group_modifier where
  "HideGroup g = g\<lparr>g_hidden := True\<rparr>"

definition newGroup :: "nat option \<Rightarrow> string \<Rightarrow> group_modifier list \<Rightarrow> 'fl world \<Rightarrow> ('fl, nat) wresult" where
  "newGroup s n modifiers w =
     (case s of
        None \<Rightarrow> Crash ''group must be attached to set''
      | Some s \<Rightarrow>
          let a = length (w_groups w);
              g = \<lparr>g_flags = [], g_hidden = False, g_name = n, g_set = s, g_showGroupName = True\<rparr>;
              g' = fold (\<lambda>fn g. fn g) modifiers g
          in Ret (upd_set s (\<lambda>t. t\<lparr>s_groups := s_groups t @ [a]\<rparr>)
                   (w\<lparr>w_groups := w_groups w @ [g']\<rparr>)) a)"

definition empty_flag :: "string \<Rightarrow> FType \<Rightarrow> nat \<Rightarrow> 'fl flag" where
  "empty_flag name kind g =
     \<lparr>f_aliases = [], f_called = False, f_callbacks = [], f_defaultValue = VNil, f_description = [],
      f_envVar = [], f_group = Some g, f_hidden = False, f_longName = name, f_matchedName = [],
      f_processors = [], f_ptr = False, f_required = False, f_shortName = 0, f_kind = kind,
      f_subkind = UnsetType, f_updated = False, f_value = VNil\<rparr>"

definition newFlag ::
  "string \<Rightarrow> FType \<Rightarrow> nat option \<Rightarrow> 'fl modifier list \<Rightarrow> 'fl world \<Rightarrow> ('fl, nat) wresult" where
  "newFlag name kind grp modifiers w =
     (case grp of
        None \<Rightarrow> Crash ''flag must be attached to group''
      | Some g \<Rightarrow>
          let a = length (w_flags w);
              w1 = upd_group g (\<lambda>G. G\<lparr>g_flags := g_flags G @ [a]\<rparr>)
                     (w\<lparr>w_flags := w_flags w @ [empty_flag name kind g]\<rparr>)
          in bind_o (on_flag a (apply_modifiers modifiers) w1) (\<lambda>w2 _.
               if kind = BooleanType then
                 bind_o (on_flag a (Alias [''no-'' @ f_longName (the_flag a w2)]) w2) (\<lambda>w3 _. Ret w3 a)
               else Ret w2 a))"

text \<open>The constructors of a group: one per kind, and one per kind that uses the caller's variable.\<close>

definition as_var :: "nat \<Rightarrow> ('fl, nat) wresult \<Rightarrow> ('fl, nat) wresult" where
  "as_var ptr r =
     bind_o r (\<lambda>w a. bind_o (on_flag a (upd_flag (\<lambda>f. f\<lparr>f_ptr := True, f_value := VPtr ptr\<rparr>)) w)
                        (\<lambda>w _. Ret w a))"

definition Group_Bool :: "nat \<Rightarrow> string \<Rightarrow> 'fl modifier list \<Rightarrow> 'fl world \<Rightarrow> ('fl, nat) wresult" where
  "Group_Bool g name modifiers w = newFlag name BooleanType (Some g) modifiers w"

definition Group_BoolVar ::
  "nat \<Rightarrow> string \<Rightarrow> nat \<Rightarrow> 'fl modifier list \<Rightarrow> 'fl world \<Rightarrow> ('fl, nat) wresult" where
  "Group_BoolVar g name ptr modifiers w = as_var ptr (Group_Bool g name modifiers w)"

definition Group_String :: "nat \<Rightarrow> string \<Rightarrow> 'fl modifier list \<Rightarrow> 'fl world \<Rightarrow> ('fl, nat) wresult" where
  "Group_String g name modifiers w = newFlag name StringType (Some g) modifiers w"

definition Group_StringVar ::
  "nat \<Rightarrow> string \<Rightarrow> nat \<Rightarrow> 'fl modifier list \<Rightarrow> 'fl world \<Rightarrow> ('fl, nat) wresult" where
  "Group_StringVar g name ptr modifiers w = as_var ptr (Group_String g name modifiers w)"

definition Group_Array ::
  "nat \<Rightarrow> string \<Rightarrow> FType \<Rightarrow> 'fl modifier list \<Rightarrow> 'fl world \<Rightarrow> ('fl, nat) wresult" where
  "Group_Array g name subtype modifiers w =
     newFlag name ArrayType (Some g) (modifiers @ [SetSubtype subtype]) w"

definition Group_ArrayVar ::
  "nat \<Rightarrow> string \<Rightarrow> FType \<Rightarrow> nat \<Rightarrow> 'fl modifier list \<Rightarrow> 'fl world \<Rightarrow> ('fl, nat) wresult" where
  "Group_ArrayVar g name subtype ptr modifiers w = as_var ptr (Group_Array g name subtype modifiers w)"

definition Group_Float :: "nat \<Rightarrow> string \<Rightarrow> 'fl modifier list \<Rightarrow> 'fl world \<Rightarrow> ('fl, nat) wresult" where
  "Group_Float g name modifiers w = newFlag name FloatType (Some g) modifiers w"

definition Group_FloatVar ::
  "nat \<Rightarrow> string \<Rightarrow> nat \<Rightarrow> 'fl modifier list \<Rightarrow> 'fl world \<Rightarrow> ('fl, nat) wresult" where
  "Group_FloatVar g name ptr modifiers w = as_var ptr (Group_Float g name modifiers w)"

definition Group_Integer :: "nat \<Rightarrow> string \<Rightarrow> 'fl modifier list \<Rightarrow> 'fl world \<Rightarrow> ('fl, nat) wresult" where
  "Group_Integer g name modifiers w = newFlag name IntegerType (Some g) modifiers w"

definition Group_IntegerVar ::
  "nat \<Rightarrow> string \<Rightarrow> nat \<Rightarrow> 'fl modifier list \<Rightarrow> 'fl world \<Rightarrow> ('fl, nat) wresult" where
  "Group_IntegerVar g name ptr modifiers w = as_var ptr (Group_Integer g name modifiers w)"

definition Group_Increment :: "nat \<Rightarrow> string \<Rightarrow> 'fl modifier list \<Rightarrow> 'fl world \<Rightarrow> ('fl, nat) wresult" where
  "Group_Increment g name modifiers w =
     newFlag name IncrementType (Some g) (modifiers @ [SetSubtype IntegerType]) w"

definition Group_IncrementVar ::
  "nat \<Rightarrow> string \<Rightarrow> nat \<Rightarrow> 'fl modifier list \<Rightarrow> 'fl world \<Rightarrow> ('fl, nat) wresult" where
  "Group_IncrementVar g name ptr modifiers w = as_var ptr (Group_Increment g name modifiers w)"

definition Group_Map ::
  "nat \<Rightarrow> string \<Rightarrow> FType \<Rightarrow> 'fl modifier list \<Rightarrow> 'fl world \<Rightarrow> ('fl, nat) wresult" where
  "Group_Map g name subtype modifiers w =
     newFlag name MapType (Some g) (modifiers @ [SetSubtype subtype]) w"

definition Group_MapVar ::
  "nat \<Rightarrow> string \<Rightarrow> FType \<Rightarrow> nat \<Rightarrow> 'fl modifier list \<Rightarrow> 'fl world \<Rightarrow> ('fl, nat) wresult" where
  "Group_MapVar g name subtype ptr modifiers w = as_var ptr (Group_Map g name subtype modifiers w)"

text \<open>\<open>Add\<close> moves a flag to group \<open>g\<close>: it leaves its group (the first flag of the same long name is
  removed there) and is appended to \<open>g\<close>.\<close>

definition Group_Add :: "nat \<Rightarrow> nat \<Rightarrow> 'fl world \<Rightarrow> 'fl world" where
  "Group_Add g a w =
     (let f = the_flag a w in
      if f_group f = Some g then w
      else
        let w1 = (case f_group f of
                    None \<Rightarrow> w
                  | Some h \<Rightarrow>
                      (case find_index (\<lambda>b. f_longName (the_flag b w) = f_longName f)
                              (g_flags (the_group h w)) of
                         None \<Rightarrow> w
                       | Some idx \<Rightarrow> upd_group h (\<lambda>G. G\<lparr>g_flags := remove_nth idx (g_flags G)\<rparr>) w));
            w2 = w1\<lparr>w_flags := (w_flags w1)[a := f\<lparr>f_group := Some g\<rparr>]\<rparr>
        in upd_group g (\<lambda>G. G\<lparr>g_flags := g_flags G @ [a]\<rparr>) w2)"

section \<open>Sets\<close>

definition SetErrorMode :: "ErrorHandling \<Rightarrow> fset \<Rightarrow> fset" where
  "SetErrorMode m s = s\<lparr>s_errorHandling := m\<rparr>"

definition SetUnknownMode :: "UnknownHandling \<Rightarrow> fset \<Rightarrow> fset" where
  "SetUnknownMode m s = s\<lparr>s_unknownHandling := m\<rparr>"

definition NewGroup :: "nat \<Rightarrow> string \<Rightarrow> group_modifier list \<Rightarrow> 'fl world \<Rightarrow> ('fl, nat) wresult" where
  "NewGroup s name modifiers w =
     (if \<exists>g \<in> set (s_groups (the_set s w)). g_name (the_group g w) = name
      then Fail w (ErrGroupExists name)
      else newGroup (Some s) name modifiers w)"

definition internal_group_name :: string where
  "internal_group_name = ''__internal__''"

definition NewSet :: "string \<Rightarrow> (fset \<Rightarrow> fset) list \<Rightarrow> 'fl world \<Rightarrow> ('fl, nat) wresult" where
  "NewSet name modifiers w =
     (let s = length (w_sets w);
          t = \<lparr>s_errorHandling = ReturnOnError, s_flagMap = Map.empty, s_groups = [], s_name = name,
               s_parsed = False, s_remaining = [], s_unknownFlags = [],
               s_unknownHandling = ErrorOnUnknown\<rparr>
      in bind_o (NewGroup s internal_group_name [HideGroupName] (w\<lparr>w_sets := w_sets w @ [t]\<rparr>))
           (\<lambda>w _. Ret (upd_set s (fold (\<lambda>m t. m t) modifiers) w) s))"

text \<open>\<open>AddGroup\<close> moves a group to set \<open>s\<close>.\<close>

definition AddGroup :: "nat \<Rightarrow> nat \<Rightarrow> 'fl world \<Rightarrow> ('fl, unit) wresult" where
  "AddGroup s g w =
     (if g \<in> set (s_groups (the_set s w)) then Fail w ErrGroupInSet
      else
        let old = g_set (the_group g w);
            w1 = (case find_index (\<lambda>cg. cg = g) (s_groups (the_set old w)) of
                    None \<Rightarrow> w
                  | Some idx \<Rightarrow> upd_set old (\<lambda>t. t\<lparr>s_groups := remove_nth idx (s_groups t)\<rparr>) w);
            w2 = upd_group g (\<lambda>G. G\<lparr>g_set := s\<rparr>) w1
        in Ret (upd_set s (\<lambda>t. t\<lparr>s_groups := s_groups t @ [g]\<rparr>) w2) ())"

definition DefaultGroup :: "nat \<Rightarrow> 'fl world \<Rightarrow> nat option" where
  "DefaultGroup s w = (case s_groups (the_set s w) of [] \<Rightarrow> None | g # _ \<Rightarrow> Some g)"

definition Set_Flags :: "nat \<Rightarrow> 'fl world \<Rightarrow> nat list" where
  "Set_Flags s w = concat (map (\<lambda>g. g_flags (the_group g w)) (s_groups (the_set s w)))"

text \<open>The visitors: the flags a visit calls the function on, in order.\<close>

definition Visit :: "nat \<Rightarrow> 'fl world \<Rightarrow> nat list" where
  "Visit s w = filter (\<lambda>a. f_updated (the_flag a w)) (Set_Flags s w)"

definition VisitCalled :: "nat \<Rightarrow> 'fl world \<Rightarrow> nat list" where
  "VisitCalled s w = filter (\<lambda>a. f_called (the_flag a w)) (Set_Flags s w)"

definition VisitAll :: "nat \<Rightarrow> 'fl world \<Rightarrow> nat list" where
  "VisitAll s w = Set_Flags s w"

text \<open>\<open>Flag\<close>: after parsing through the flag map, before it the last flag with that long name.\<close>

definition Set_Flag :: "nat \<Rightarrow> string \<Rightarrow> 'fl world \<Rightarrow> set_error + nat" where
  "Set_Flag s n w =
     (let f = (if s_parsed (the_set s w) then s_flagMap (the_set s w) n
               else fold (\<lambda>a f. if f_longName (the_flag a w) = n then Some a else f) (Set_Flags s w) None)
      in case f of None \<Rightarrow> Inl (ErrLocate n) | Some a \<Rightarrow> Inr a)"

section \<open>Display\<close>

text \<open>\<open>%-*s\<close>: padded on the right to a width counted in code points.\<close>

definition rune_count :: "string \<Rightarrow> nat" where
  "rune_count s = length (filter (\<lambda>c. \<not> (128 \<le> (of_char c :: nat) \<and> (of_char c :: nat) < 192)) s)"

definition pad_right :: "nat \<Rightarrow> string \<Rightarrow> string" where
  "pad_right n s = s @ replicate (n - rune_count s) (CHR '' '')"

text \<open>The first loop of \<open>Display\<close>: \<open>i\<close> counts all flags of the group, \<open>opts\<close> holds the visible
  ones only. Indexing past the end of \<open>opts\<close> panics.\<close>

definition display_opt :: "'fl flag \<Rightarrow> string \<Rightarrow> string" where
  "display_opt f o0 =
     (case f_kind f of
        BooleanType \<Rightarrow> o0 @ '' --[no-]'' @ f_longName f
      | IncrementType \<Rightarrow> o0 @ '' --'' @ f_longName f
      | _ \<Rightarrow> o0 @ '' --'' @ f_longName f @ '' VALUE'')"

fun display_loop ::
  "nat \<Rightarrow> 'fl flag list \<Rightarrow> string list \<times> string list \<times> nat \<Rightarrow> (string list \<times> string list \<times> nat) option" where
  "display_loop i [] acc = Some acc"
| "display_loop i (f # fs) (opts, desc, pad) =
     (if f_hidden f then display_loop (Suc i) fs (opts, desc, pad)
      else
        let opts1 = opts @ [if f_shortName f \<noteq> 0 then ''-'' @ rune_string (f_shortName f) @ '','' else ''   '']
        in if i < length opts1 then
             let opts2 = opts1[i := display_opt f (opts1 ! i)]
             in display_loop (Suc i) fs
                  (opts2, desc @ [f_description f], max pad (length (opts2 ! i)))
           else None)"

definition newline :: string where
  "newline = [char_of (10 :: nat)]"

definition Group_Display :: "nat \<Rightarrow> nat \<Rightarrow> 'fl world \<Rightarrow> string option" where
  "Group_Display indent g w =
     (let G = the_group g w in
      if g_hidden G then Some []
      else
        (case display_loop 0 (map (\<lambda>a. the_flag a w) (g_flags G)) ([], [], 0) of
           None \<Rightarrow> None
         | Some (opts, desc, pad) \<Rightarrow>
             if opts = [] then Some []
             else
               Some ((if g_showGroupName G then g_name G @ '':'' @ newline else [])
                 @ concat (map (\<lambda>(o1, d). ''    '' @ pad_right (pad + indent) o1 @ d @ newline)
                     (zip opts desc)))))"

fun concat_options :: "string option list \<Rightarrow> string option" where
  "concat_options [] = Some []"
| "concat_options (None # xs) = None"
| "concat_options (Some x # xs) = map_option (\<lambda>y. x @ y) (concat_options xs)"

definition Set_Display :: "nat \<Rightarrow> 'fl world \<Rightarrow> string option" where
  "Set_Display s w = concat_options (map (\<lambda>g. Group_Display 11 g w) (s_groups (the_set s w)))"

section \<open>Preparing the flags of a set\<close>

definition flag_names :: "'fl flag \<Rightarrow> string list" where
  "flag_names f =
     f_aliases f @ [f_longName f] @ (if f_shortName f \<noteq> 0 then [rune_string (f_shortName f)] else [])"

fun init_names :: "nat \<Rightarrow> nat \<Rightarrow> string list \<Rightarrow> 'fl world \<Rightarrow> ('fl, unit) wresult" where
  "init_names s a [] w = Ret w ()"
| "init_names s a (n # ns) w =
     (case s_flagMap (the_set s w) n of
        Some cf \<Rightarrow>
          Fail w (ErrCollision (f_longName (the_flag a w)) (f_longName (the_flag cf w))
                    (if length n = 1 then ''-'' @ n else ''--'' @ n))
      | None \<Rightarrow> init_names s a ns (upd_set s (\<lambda>t. t\<lparr>s_flagMap := (s_flagMap t)(n \<mapsto> a)\<rparr>) w))"

fun init_flags :: "'fl goenv \<Rightarrow> nat \<Rightarrow> nat list \<Rightarrow> 'fl world \<Rightarrow> ('fl, unit) wresult" where
  "init_flags env s [] w = Ret w ()"
| "init_flags env s (a # as) w =
     bind_o (on_flag a (flag_init env) w) (\<lambda>w _.
       bind_o (init_names s a (flag_names (the_flag a w)) w) (\<lambda>w _. init_flags env s as w))"

definition initFlags :: "'fl goenv \<Rightarrow> nat \<Rightarrow> 'fl world \<Rightarrow> ('fl, unit) wresult" where
  "initFlags env s w = init_flags env s (Set_Flags s w) w"

text \<open>\<open>validateFlags\<close>: the long names its error lists, the last flag first; none, no error.\<close>

definition validateFlags :: "nat \<Rightarrow> 'fl world \<Rightarrow> string list" where
  "validateFlags s w =
     rev (map (\<lambda>a. f_longName (the_flag a w))
       (filter (\<lambda>a. f_required (the_flag a w) \<and> \<not> f_updated (the_flag a w)) (Set_Flags s w)))"

section \<open>The parser\<close>

definition flagNotFound :: "nat \<Rightarrow> string \<Rightarrow> 'fl world \<Rightarrow> set_error option" where
  "flagNotFound s name w =
     (if s_unknownHandling (the_set s w) = ErrorOnUnknown then Some (ErrUnknownFlag name) else None)"

definition add_remaining :: "nat \<Rightarrow> string list \<Rightarrow> 'fl world \<Rightarrow> 'fl world" where
  "add_remaining s ws w = upd_set s (\<lambda>t. t\<lparr>s_remaining := s_remaining t @ ws\<rparr>) w"

definition add_unknown :: "nat \<Rightarrow> string \<Rightarrow> string \<Rightarrow> 'fl world \<Rightarrow> 'fl world" where
  "add_unknown s word name w =
     upd_set s (\<lambda>t. t\<lparr>s_remaining := s_remaining t @ [word], s_unknownFlags := s_unknownFlags t @ [name]\<rparr>) w"

text \<open>A word \<open>--flag\<close> or \<open>--flag=value\<close>; \<open>nxt\<close> is the next argument. The result says whether the
  next argument was used as the value.\<close>

definition parse_named ::
  "'fl goenv \<Rightarrow> nat \<Rightarrow> string option \<Rightarrow> string \<Rightarrow> string \<Rightarrow> string option \<Rightarrow> 'fl world \<Rightarrow> ('fl, bool) wresult" where
  "parse_named env s nxt word name val w =
     (case s_flagMap (the_set s w) name of
        None \<Rightarrow>
          (case flagNotFound s name w of
             Some e \<Rightarrow> Fail w e
           | None \<Rightarrow> Ret (add_unknown s word name w) False)
      | Some a \<Rightarrow>
          let set_to = (\<lambda>v used. bind_o (on_flag a (markCalled name) w) (\<lambda>w _.
                 bind_o (on_flag a (setValue env v) w) (\<lambda>w _. Ret w used)))
          in case f_kind (the_flag a w) of
               BooleanType \<Rightarrow> set_to (if HasPrefix name ''no-'' then ''false'' else ''true'') False
             | IncrementType \<Rightarrow> set_to ''1'' False
             | _ \<Rightarrow>
                 (case val of
                    Some v \<Rightarrow> set_to v False
                  | None \<Rightarrow>
                      (case nxt of
                         None \<Rightarrow> Fail w (ErrMissingArgument (f_longName (the_flag a w)))
                       | Some v \<Rightarrow> set_to v True)))"

definition parse_long ::
  "'fl goenv \<Rightarrow> nat \<Rightarrow> string option \<Rightarrow> string \<Rightarrow> 'fl world \<Rightarrow> ('fl, bool) wresult" where
  "parse_long env s nxt word w =
     (let flag = drop 2 word in
      case split2 (CHR ''='') flag of
        Some (name, v) \<Rightarrow> parse_named env s nxt word name (Some v) w
      | None \<Rightarrow> parse_named env s nxt word flag None w)"

text \<open>The bytes of a short word after its dash.\<close>

fun parse_short ::
  "'fl goenv \<Rightarrow> nat \<Rightarrow> string option \<Rightarrow> string \<Rightarrow> 'fl world \<Rightarrow> ('fl, bool) wresult" where
  "parse_short env s nxt [] w = Ret w False"
| "parse_short env s nxt (b # bs) w =
     (let c = byte_string b in
      case s_flagMap (the_set s w) c of
        None \<Rightarrow>
          (case flagNotFound s c w of
             Some e \<Rightarrow> Fail w e
           | None \<Rightarrow> parse_short env s nxt bs (add_unknown s (''-'' @ b # bs) c w))
      | Some a \<Rightarrow>
          bind_o (on_flag a (markCalled c) w) (\<lambda>w _.
            case f_kind (the_flag a w) of
              BooleanType \<Rightarrow>
                bind_o (on_flag a (setValue env ''true'') w) (\<lambda>w _. parse_short env s nxt bs w)
            | IncrementType \<Rightarrow>
                bind_o (on_flag a (setValue env ''1'') w) (\<lambda>w _. parse_short env s nxt bs w)
            | _ \<Rightarrow>
                if bs = [] then
                  (case nxt of
                     None \<Rightarrow> Fail w (ErrMissingArgument (rune_string (f_shortName (the_flag a w))))
                   | Some v \<Rightarrow> bind_o (on_flag a (setValue env v) w) (\<lambda>w _. Ret w True))
                else bind_o (on_flag a (setValue env bs) w) (\<lambda>w _. Ret w False)))"

definition next_arg :: "string list \<Rightarrow> string option" where
  "next_arg rest = (case rest of [] \<Rightarrow> None | v # _ \<Rightarrow> Some v)"

function parse_args :: "'fl goenv \<Rightarrow> nat \<Rightarrow> string list \<Rightarrow> 'fl world \<Rightarrow> ('fl, unit) wresult" where
  "parse_args env s [] w = Ret w ()"
| "parse_args env s (word # rest) w =
     (if word = ''--'' then
        (if rest = [] then Ret w ()
         else if s_remaining (the_set s w) \<noteq> [] then Ret (add_remaining s (word # rest) w) ()
         else Ret (add_remaining s rest w) ())
      else if HasPrefix word ''--'' then
        bind_o (parse_long env s (next_arg rest) word w)
          (\<lambda>w used. parse_args env s (if used then drop 1 rest else rest) w)
      else if HasPrefix word ''-'' then
        bind_o (parse_short env s (next_arg rest) (drop 1 word) w)
          (\<lambda>w used. parse_args env s (if used then drop 1 rest else rest) w)
      else parse_args env s rest (add_remaining s [word] w))"
  by pat_completeness auto
termination
  by (relation "measure (\<lambda>(env, s, args, w). length args)") auto

text \<open>The deferred function of \<open>Parse\<close>: an error becomes a panic in the panic mode.\<close>

fun finish :: "nat \<Rightarrow> ('fl, 'a) wresult \<Rightarrow> ('fl, 'a) wresult" where
  "finish s (Fail w e) =
     (if s_errorHandling (the_set s w) = PanicOnError then Crash ''parse error'' else Fail w e)"
| "finish s r = r"

definition Parse :: "'fl goenv \<Rightarrow> nat \<Rightarrow> string list \<Rightarrow> 'fl world \<Rightarrow> ('fl, string list) wresult" where
  "Parse env s args w =
     finish s
       (if s_parsed (the_set s w) then Fail w ErrAlreadyParsed
        else
          bind_o (initFlags env s (upd_set s (\<lambda>t. t\<lparr>s_parsed := True\<rparr>) w)) (\<lambda>w _.
            bind_o (parse_args env s args w) (\<lambda>w _. Ret w (s_remaining (the_set s w)))))"

section \<open>The store\<close>

named_theorems store_simps \<open>reads after writes of the flag store\<close>

lemma the_set_put_flag [store_simps]: "the_set t (put_flag a st w) = the_set t w"
  by (simp add: the_set_def put_flag_def)

lemma the_set_upd_set [store_simps]:
  "the_set t (upd_set s f w) = (if t = s \<and> s < length (w_sets w) then f (the_set s w) else the_set t w)"
  by (auto simp: the_set_def upd_set_def nth_list_update list_update_beyond)

lemma the_flag_upd_set [store_simps]: "the_flag a (upd_set s f w) = the_flag a w"
  by (simp add: the_flag_def upd_set_def)

lemma the_flag_put_flag [store_simps]:
  "the_flag b (put_flag a st w) = (if b = a \<and> a < length (w_flags w) then snd st else the_flag b w)"
  by (auto simp: the_flag_def put_flag_def nth_list_update list_update_beyond)

lemma lengths_store [store_simps]:
  "length (w_sets (upd_set s f w)) = length (w_sets w)"
  "length (w_flags (upd_set s f w)) = length (w_flags w)"
  "w_cells (upd_set s f w) = w_cells w"
  "w_groups (upd_set s f w) = w_groups w"
  "length (w_sets (put_flag a st w)) = length (w_sets w)"
  "w_sets (put_flag a st w) = w_sets w"
  "w_groups (put_flag a st w) = w_groups w"
  "length (w_flags (put_flag a st w)) = length (w_flags w)"
  "w_cells (put_flag a st w) = fst st"
  by (simp_all add: upd_set_def put_flag_def)

lemma the_group_store [store_simps]:
  "the_group g (upd_set s f w) = the_group g w" "the_group g (put_flag a st w) = the_group g w"
  by (simp_all add: the_group_def store_simps)

lemma the_group_upd_group [store_simps]:
  "the_group h (upd_group g f w) =
     (if h = g \<and> g < length (w_groups w) then f (the_group g w) else the_group h w)"
  by (auto simp: the_group_def upd_group_def nth_list_update list_update_beyond)

lemma upd_group_frame [store_simps]:
  "the_set t (upd_group g f w) = the_set t w" "the_flag a (upd_group g f w) = the_flag a w"
  "w_sets (upd_group g f w) = w_sets w" "w_flags (upd_group g f w) = w_flags w"
  "w_cells (upd_group g f w) = w_cells w" "length (w_groups (upd_group g f w)) = length (w_groups w)"
  by (simp_all add: the_set_def the_flag_def upd_group_def)

lemma upd_set_upd_set [store_simps]: "upd_set s f (upd_set s g w) = upd_set s (\<lambda>t. f (g t)) w"
  by (cases "s < length (w_sets w)") (simp_all add: upd_set_def the_set_def list_update_beyond)

lemma put_flag_put_flag [store_simps]: "put_flag a st (put_flag a st' w) = put_flag a st w"
  by (simp add: put_flag_def)

lemma put_flag_upd_set [store_simps]: "put_flag a st (upd_set s f w) = upd_set s f (put_flag a st w)"
  by (simp add: put_flag_def upd_set_def the_set_def)

lemma the_set_cong_len: "s < length (w_sets w) \<Longrightarrow> the_set s (upd_set s f w) = f (the_set s w)"
  by (simp add: store_simps)

text \<open>The state of flag \<open>a\<close>.\<close>

definition fstate_of :: "nat \<Rightarrow> 'fl world \<Rightarrow> 'fl fstate" where
  "fstate_of a w = (w_cells w, the_flag a w)"

lemma fstate_of_store [store_simps]:
  "fstate_of a (upd_set s f w) = fstate_of a w"
  "a < length (w_flags w) \<Longrightarrow> fstate_of a (put_flag a st w) = st"
  by (simp_all add: fstate_of_def store_simps)

lemma on_flag_eq:
  "a < length (w_flags w) \<Longrightarrow> on_flag a op w =
     (case op (fstate_of a w) of
        Ret st x \<Rightarrow> Ret (put_flag a st w) x
      | Fail st e \<Rightarrow> Fail (put_flag a st w) (ErrFlag e)
      | Crash m \<Rightarrow> Crash m)"
  by (simp add: on_flag_def fstate_of_def)

lemma markCalled_Ret:
  "names_flag (snd st) n \<Longrightarrow>
     markCalled n st = Ret (fst st, (snd st)\<lparr>f_matchedName := n, f_called := True, f_updated := True\<rparr>) ()"
  by (cases st) (simp add: markCalled_def)

section \<open>The parser never panics\<close>

text \<open>The invariant of parsing set \<open>s\<close>: the flag map refers to flags of the store that carry the
  name, and those flags are well typed.\<close>

definition parse_inv :: "ErrorHandling \<Rightarrow> nat \<Rightarrow> 'fl world \<Rightarrow> bool" where
  "parse_inv eh s w \<longleftrightarrow> s < length (w_sets w) \<and> s_errorHandling (the_set s w) = eh
     \<and> (\<forall>n a. s_flagMap (the_set s w) n = Some a \<longrightarrow>
          a < length (w_flags w) \<and> names_flag (the_flag a w) n \<and> well_typed (fstate_of a w))"

text \<open>What an operation on one flag may change in the store.\<close>

definition flag_step :: "'fl world \<Rightarrow> 'fl world \<Rightarrow> bool" where
  "flag_step w w' \<longleftrightarrow>
     w_sets w' = w_sets w \<and> w_groups w' = w_groups w \<and> length (w_flags w') = length (w_flags w)
     \<and> list_all2 same_type (w_cells w) (w_cells w')
     \<and> (\<forall>a < length (w_flags w). same_shape (the_flag a w) (the_flag a w')
          \<and> (well_typed (fstate_of a w) \<longrightarrow> well_typed (fstate_of a w')))"

lemma names_flag_shape: "same_shape f f' \<Longrightarrow> names_flag f' n = names_flag f n"
  by (simp add: same_shape_def names_flag_def)

lemma well_typed_cells:
  assumes "well_typed (cs, f)" and "list_all2 same_type cs cs'"
  shows "well_typed (cs', f)"
proof (cases "f_ptr f")
  case False
  with assms(1) show ?thesis by (simp add: well_typed_def current_def)
next
  case True
  with assms(1) obtain a where a: "f_value f = VPtr a" "a < length cs" "typeCheck f (cs ! a)"
    "\<not> nil_map (cs ! a)"
    by (auto simp: well_typed_def current_def deref_def split: option.splits val.splits if_splits)
  with assms(2) have "length cs' = length cs" "same_type (cs ! a) (cs' ! a)"
    by (auto simp: list_all2_conv_all_nth)
  with a True typeCheck_tag[of "cs ! a" "cs' ! a" f] show ?thesis
    by (auto simp: well_typed_def current_def deref_def same_type_def)
qed

lemma flag_step_refl [simp]: "flag_step w w"
  by (simp add: flag_step_def)

lemma flag_step_trans: "flag_step u v \<Longrightarrow> flag_step v w \<Longrightarrow> flag_step u w"
  unfolding flag_step_def same_shape_def
  by (auto intro: list_all2_trans[of same_type same_type same_type, OF same_type_trans])

lemma put_flag_step:
  assumes "a < length (w_flags w)" and "evolves (fstate_of a w) st"
  shows "flag_step w (put_flag a st w)"
proof -
  have c: "list_all2 same_type (w_cells w) (fst st)"
    using assms(2) by (simp add: evolves_def fstate_of_def)
  have "well_typed (fst st, the_flag b w)" if "well_typed (w_cells w, the_flag b w)" for b
    using that c by (rule well_typed_cells)
  with assms c show ?thesis
    by (auto simp: flag_step_def store_simps evolves_def fstate_of_def)
qed

lemma on_flag_step:
  assumes "a < length (w_flags w)" and "holds_on (evolves (fstate_of a w)) (op (fstate_of a w))"
  shows "holds_on (flag_step w) (on_flag a op w)"
  using assms put_flag_step[OF assms(1)]
  by (cases "op (fstate_of a w)") (auto simp: on_flag_eq)

lemma parse_inv_step: "parse_inv eh s w \<Longrightarrow> flag_step w w' \<Longrightarrow> parse_inv eh s w'"
  unfolding parse_inv_def flag_step_def the_set_def by (metis names_flag_shape)

lemma parse_inv_upd_set:
  assumes "parse_inv eh s w" and "\<And>t. s_flagMap (f t) = s_flagMap t"
    and "\<And>t. s_errorHandling (f t) = s_errorHandling t"
  shows "parse_inv eh s (upd_set s f w)"
  using assms by (auto simp: parse_inv_def store_simps)

lemma markCalled_evolves:
  assumes "names_flag (snd st) n"
  shows "holds_on (evolves st) (markCalled n st)"
  using assms
  by (cases st) (auto simp: markCalled_Ret evolves_def same_shape_def well_typed_def current_def
      typeCheck_kind_tag split: option.splits)

lemma markCalled_on:
  assumes "parse_inv eh s w" and "s_flagMap (the_set s w) n = Some a"
  shows "holds_on (\<lambda>w'. parse_inv eh s w' \<and> flag_step w w') (on_flag a (markCalled n) w)"
proof -
  from assms have a: "a < length (w_flags w)" and "names_flag (snd (fstate_of a w)) n"
    by (auto simp: parse_inv_def fstate_of_def)
  then have "holds_on (flag_step w) (on_flag a (markCalled n) w)"
    by (intro on_flag_step markCalled_evolves)
  then show ?thesis by (rule holds_on_mono) (use assms(1) parse_inv_step in blast)
qed

lemma setValue_on:
  assumes "well_behaved env" and "parse_inv eh s w" and "s_flagMap (the_set s w) n = Some a"
  shows "holds_on (\<lambda>w'. parse_inv eh s w' \<and> flag_step w w') (on_flag a (setValue env v) w)"
proof -
  from assms have a: "a < length (w_flags w)" and "well_typed (fstate_of a w)"
    by (auto simp: parse_inv_def)
  then have "holds_on (flag_step w) (on_flag a (setValue env v) w)"
    using assms(1) by (intro on_flag_step setValue_sound)
  then show ?thesis by (rule holds_on_mono) (use assms(2) parse_inv_step in blast)
qed

text \<open>Marking and setting a flag found under name \<open>n\<close>, and going on with the parse.\<close>

lemma mark_then_set:
  assumes wb: "well_behaved env" and inv: "parse_inv eh s w" and n: "s_flagMap (the_set s w) n = Some a"
    and go: "\<And>w'. parse_inv eh s w' \<Longrightarrow> holds_on (parse_inv eh s) (g w')"
  shows "holds_on (parse_inv eh s)
    (bind_o (on_flag a (markCalled n) w) (\<lambda>w _.
       bind_o (on_flag a (setValue env v) w) (\<lambda>w _. g w)))"
proof (rule holds_on_bind[OF markCalled_on[OF inv n]], goal_cases)
  case (1 w1 u)
  then have n1: "s_flagMap (the_set s w1) n = Some a"
    using n by (simp add: flag_step_def the_set_def)
  from 1 show ?case
    by (intro holds_on_bind[OF setValue_on[OF wb _ n1]]) (auto intro: go)
qed auto

lemma set_after_mark:
  assumes wb: "well_behaved env" and inv: "parse_inv eh s w" and n: "s_flagMap (the_set s w) n = Some a"
    and go: "\<And>w'. parse_inv eh s w' \<Longrightarrow> holds_on (parse_inv eh s) (g w')"
  shows "holds_on (parse_inv eh s) (bind_o (on_flag a (setValue env v) w) (\<lambda>w _. g w))"
  by (rule holds_on_bind[OF setValue_on[OF wb inv n]]) (auto intro: go)

lemma add_unknown_inv: "parse_inv eh s w \<Longrightarrow> parse_inv eh s (add_unknown s x n w)"
  by (simp add: add_unknown_def parse_inv_upd_set)

lemma add_remaining_inv: "parse_inv eh s w \<Longrightarrow> parse_inv eh s (add_remaining s ws w)"
  by (simp add: add_remaining_def parse_inv_upd_set)

lemma parse_short_inv:
  assumes "well_behaved env" and "parse_inv eh s w"
  shows "holds_on (parse_inv eh s) (parse_short env s nxt bs w)"
  using assms(2)
proof (induction bs arbitrary: w)
  case Nil
  then show ?case by simp
next
  case (Cons b bs)
  show ?case
  proof (cases "s_flagMap (the_set s w) (byte_string b)")
    case None
    with Cons show ?thesis by (simp add: flagNotFound_def add_unknown_inv Let_def)
  next
    case (Some a)
    have step: "holds_on (parse_inv eh s) (bind_o (on_flag a (markCalled (byte_string b)) w) g)"
      if "\<And>w1. parse_inv eh s w1 \<Longrightarrow> s_flagMap (the_set s w1) (byte_string b) = Some a \<Longrightarrow>
            holds_on (parse_inv eh s) (g w1 ())" for g
      by (rule holds_on_bind[OF markCalled_on[OF Cons.prems Some]])
        (use that Some in \<open>auto simp: flag_step_def the_set_def\<close>)
    show ?thesis
      unfolding parse_short.simps Let_def Some option.case
      by (rule step)
        (use Cons.IH in \<open>auto split: FType.split option.split intro!: set_after_mark[OF assms(1)]\<close>)
  qed
qed

lemma parse_named_inv:
  assumes "well_behaved env" and "parse_inv eh s w"
  shows "holds_on (parse_inv eh s) (parse_named env s nxt word name val w)"
proof (cases "s_flagMap (the_set s w) name")
  case None
  with assms(2) show ?thesis by (simp add: parse_named_def flagNotFound_def add_unknown_inv)
next
  case (Some a)
  have "holds_on (parse_inv eh s) (bind_o (on_flag a (markCalled name) w) (\<lambda>w _.
          bind_o (on_flag a (setValue env v) w) (\<lambda>w _. Ret w used)))" for v and used :: bool
    by (rule mark_then_set[OF assms Some]) simp
  with Some assms(2) show ?thesis
    by (simp add: parse_named_def Let_def split: FType.split option.split)
qed

lemma parse_long_inv:
  assumes "well_behaved env" and "parse_inv eh s w"
  shows "holds_on (parse_inv eh s) (parse_long env s nxt word w)"
  using parse_named_inv[OF assms] by (simp add: parse_long_def Let_def split: option.split)

lemma parse_args_inv:
  assumes "well_behaved env" and "parse_inv eh s w"
  shows "holds_on (parse_inv eh s) (parse_args env s args w)"
  using assms
proof (induction env s args w rule: parse_args.induct)
  case (1 env s w)
  then show ?case by simp
next
  case (2 env s word rest w)
  show ?case
  proof (cases "word = ''--''")
    case True
    with 2 show ?thesis by (simp add: add_remaining_inv)
  next
    case no_sep: False
    show ?thesis
    proof (cases "HasPrefix word ''--''")
      case True
      have "holds_on (parse_inv eh s)
          (bind_o (parse_long env s (next_arg rest) word w)
            (\<lambda>w used. parse_args env s (if used then drop 1 rest else rest) w))"
        by (rule holds_on_bind[OF parse_long_inv[OF 2(4,5)]])
          (use 2(1)[OF no_sep True] 2(4) in auto)
      with no_sep True show ?thesis by simp
    next
      case no_long: False
      show ?thesis
      proof (cases "HasPrefix word ''-''")
        case True
        have "holds_on (parse_inv eh s)
            (bind_o (parse_short env s (next_arg rest) (drop 1 word) w)
              (\<lambda>w used. parse_args env s (if used then drop 1 rest else rest) w))"
          by (rule holds_on_bind[OF parse_short_inv[OF 2(4,5)]])
            (use 2(2)[OF no_sep no_long True] 2(4) in auto)
        with no_sep no_long True show ?thesis by simp
      next
        case False
        with no_sep no_long 2 show ?thesis by (simp add: add_remaining_inv)
      qed
    qed
  qed
qed

section \<open>Preparing the flags: the flag map\<close>

text \<open>The names entered so far belong to flags of \<open>done\<close>, and the flags still to do are ready.\<close>

definition init_inv :: "ErrorHandling \<Rightarrow> nat \<Rightarrow> nat list \<Rightarrow> 'fl world \<Rightarrow> bool" where
  "init_inv eh s todo w \<longleftrightarrow> parse_inv eh s w
     \<and> (\<forall>a \<in> set todo. a < length (w_flags w) \<and> init_ready (fstate_of a w))"

lemma map_of_const: "map_of (map (\<lambda>n. (n, a)) ns) x = (if x \<in> set ns then Some a else None)"
  by (induction ns) auto

lemma init_names_spec:
  assumes "s < length (w_sets w)"
  shows "(\<exists>m. init_names s a ns w = Ret (upd_set s (\<lambda>t. t\<lparr>s_flagMap := m\<rparr>) w) ()
              \<and> m = (s_flagMap (the_set s w)) ++ map_of (map (\<lambda>n. (n, a)) ns)
              \<and> (\<forall>n \<in> set ns. s_flagMap (the_set s w) n = None))
         \<or> (\<exists>m e. init_names s a ns w = Fail (upd_set s (\<lambda>t. t\<lparr>s_flagMap := m\<rparr>) w) e
              \<and> (\<forall>n b. m n = Some b \<longrightarrow> s_flagMap (the_set s w) n = Some b \<or> (n \<in> set ns \<and> b = a)))"
  using assms
proof (induction ns arbitrary: w)
  case Nil
  have "upd_set s (\<lambda>t. t\<lparr>s_flagMap := s_flagMap (the_set s w)\<rparr>) w = w"
    using Nil by (simp add: upd_set_def the_set_def)
  then show ?case by auto
next
  case (Cons n ns)
  show ?case
  proof (cases "s_flagMap (the_set s w) n")
    case (Some cf)
    have "upd_set s (\<lambda>t. t\<lparr>s_flagMap := s_flagMap (the_set s w)\<rparr>) w = w"
      using Cons.prems by (simp add: upd_set_def the_set_def)
    with Some show ?thesis by (intro disjI2 exI[of _ "s_flagMap (the_set s w)"]) auto
  next
    case None
    let ?w = "upd_set s (\<lambda>t. t\<lparr>s_flagMap := (s_flagMap t)(n \<mapsto> a)\<rparr>) w"
    have len: "s < length (w_sets ?w)" using Cons.prems by (simp add: store_simps)
    have mp: "s_flagMap (the_set s ?w) = (s_flagMap (the_set s w))(n \<mapsto> a)"
      using Cons.prems by (simp add: store_simps)
    have upd: "upd_set s (\<lambda>t. t\<lparr>s_flagMap := m\<rparr>) ?w = upd_set s (\<lambda>t. t\<lparr>s_flagMap := m\<rparr>) w" for m
      by (simp add: store_simps)
    from Cons.IH[OF len] show ?thesis
    proof (elim disjE exE conjE)
      fix m assume m: "init_names s a ns ?w = Ret (upd_set s (\<lambda>t. t\<lparr>s_flagMap := m\<rparr>) ?w) ()"
        "m = s_flagMap (the_set s ?w) ++ map_of (map (\<lambda>n. (n, a)) ns)"
        "\<forall>n \<in> set ns. s_flagMap (the_set s ?w) n = None"
      have "n \<notin> set ns" "\<forall>x \<in> set ns. s_flagMap (the_set s w) x = None"
        using m(3) mp by (auto split: if_splits)
      with m None show ?thesis
        by (intro disjI1 exI[of _ m]) (auto simp: upd mp fun_eq_iff map_add_def map_of_const split: option.split)
    next
      fix m e assume "init_names s a ns ?w = Fail (upd_set s (\<lambda>t. t\<lparr>s_flagMap := m\<rparr>) ?w) e"
        "\<forall>x b. m x = Some b \<longrightarrow> s_flagMap (the_set s ?w) x = Some b \<or> (x \<in> set ns \<and> b = a)"
      with None show ?thesis
        by (intro disjI2 exI[of _ m] exI[of _ e]) (auto simp: upd mp split: if_splits)
    qed
  qed
qed

lemma inited_evolves: "inited st st' \<Longrightarrow> evolves st st'"
  by (simp add: inited_def evolves_def)

lemma init_ready_other:
  assumes "init_ready (fstate_of b w)" and "b \<noteq> a" and "list_all2 same_type (w_cells w) (fst st)"
  shows "init_ready (fstate_of b (put_flag a st w))"
  using assms well_typed_cells[of "w_cells w" "the_flag b w" "fst st"]
  by (simp add: init_ready_def fstate_of_def store_simps)

text \<open>\<open>init\<close> on the first flag to do: the outcome leaves the invariant, and on success the flag is
  well typed.\<close>

lemma init_one:
  assumes wb: "well_behaved env" and inv: "init_inv eh s (a # as) w" and d: "a \<notin> set as"
  shows "holds_on (\<lambda>w'. init_inv eh s as w' \<and> flag_step w w' \<and> well_typed (fstate_of a w'))
           (on_flag a (flag_init env) w)"
proof -
  from inv have a: "a < length (w_flags w)" and rdy: "init_ready (fstate_of a w)"
    and pinv: "parse_inv eh s w" by (auto simp: init_inv_def)
  have ok: "init_inv eh s as (put_flag a st w) \<and> flag_step w (put_flag a st w)
      \<and> well_typed (fstate_of a (put_flag a st w))" if st: "inited (fstate_of a w) st" for st
  proof -
    have step: "flag_step w (put_flag a st w)"
      using put_flag_step[OF a inited_evolves[OF st]] .
    have "init_ready (fstate_of b (put_flag a st w))" if "b \<in> set as" for b
      using that inv d st by (intro init_ready_other) (auto simp: init_inv_def inited_def fstate_of_def)
    with step inv pinv a st show ?thesis
      by (auto simp: init_inv_def parse_inv_step store_simps inited_def)
  qed
  show ?thesis
    using flag_init_sound[OF wb rdy] ok
    by (cases "flag_init env (fstate_of a w)") (simp_all add: on_flag_eq[OF a])
qed

lemma flag_names_names: "n \<in> set (flag_names f) \<Longrightarrow> names_flag f n"
  by (auto simp: flag_names_def names_flag_def split: if_splits)

text \<open>Entering a map whose new entries are names of the well-typed flag \<open>a\<close>.\<close>

lemma init_inv_upd_map:
  assumes "init_inv eh s as w" and "a < length (w_flags w)" and "well_typed (fstate_of a w)"
    and "\<And>n b. m n = Some b \<Longrightarrow>
           s_flagMap (the_set s w) n = Some b \<or> (n \<in> set (flag_names (the_flag a w)) \<and> b = a)"
  shows "init_inv eh s as (upd_set s (\<lambda>t. t\<lparr>s_flagMap := m\<rparr>) w)"
  using assms flag_names_names[of _ "the_flag a w"]
  by (fastforce simp: init_inv_def parse_inv_def store_simps)

lemma init_names_inv:
  assumes "init_inv eh s as w" and "a < length (w_flags w)" and "well_typed (fstate_of a w)"
  shows "holds_on (init_inv eh s as) (init_names s a (flag_names (the_flag a w)) w)"
proof -
  have s: "s < length (w_sets w)" using assms(1) by (simp add: init_inv_def parse_inv_def)
  from init_names_spec[OF s, of a "flag_names (the_flag a w)"] show ?thesis
    by (elim disjE exE conjE)
      (auto intro!: init_inv_upd_map[OF assms] simp: map_add_def map_of_const
        split: option.splits if_splits)
qed

lemma init_flags_inv:
  assumes wb: "well_behaved env" and "init_inv eh s as w" and "distinct as"
  shows "holds_on (parse_inv eh s) (init_flags env s as w)"
  using assms(2,3)
proof (induction as arbitrary: w)
  case Nil
  then show ?case by (simp add: init_inv_def)
next
  case (Cons a as)
  have "a < length (w_flags w)" using Cons.prems by (simp add: init_inv_def)
  moreover have "a \<notin> set as" "distinct as" using Cons.prems(2) by auto
  ultimately show ?case
    using Cons.prems
    by (auto simp: flag_step_def init_inv_def[of _ _ _ w]
      intro!: holds_on_bind[OF init_one[OF wb Cons.prems(1)]] holds_on_bind[OF init_names_inv] Cons.IH)
      (auto simp: init_inv_def)
qed

text \<open>A set ready for its one parse: no name entered, each flag once, and every flag ready.\<close>

definition set_ready :: "nat \<Rightarrow> 'fl world \<Rightarrow> bool" where
  "set_ready s w \<longleftrightarrow> s < length (w_sets w) \<and> s_flagMap (the_set s w) = Map.empty
     \<and> distinct (Set_Flags s w)
     \<and> (\<forall>a \<in> set (Set_Flags s w). a < length (w_flags w) \<and> init_ready (fstate_of a w))"

lemma Set_Flags_upd_set:
  "(\<And>t. s_groups (f t) = s_groups t) \<Longrightarrow> Set_Flags s (upd_set s' f w) = Set_Flags s w"
  by (auto simp: Set_Flags_def store_simps)

lemma set_ready_start:
  assumes "set_ready s w"
  shows "init_inv (s_errorHandling (the_set s w)) s (Set_Flags s w) (upd_set s (\<lambda>t. t\<lparr>s_parsed := True\<rparr>) w)"
  using assms by (auto simp: set_ready_def init_inv_def parse_inv_def store_simps)

lemma initFlags_inv:
  assumes "well_behaved env" and "set_ready s w"
  shows "holds_on (parse_inv (s_errorHandling (the_set s w)) s)
           (initFlags env s (upd_set s (\<lambda>t. t\<lparr>s_parsed := True\<rparr>) w))"
  using init_flags_inv[OF assms(1) set_ready_start[OF assms(2)]] assms(2)
  by (simp add: initFlags_def Set_Flags_upd_set set_ready_def)

lemma finish_ReturnOnError:
  "holds_on (parse_inv ReturnOnError s) r \<Longrightarrow> finish s r = r"
  by (cases r) (auto simp: parse_inv_def)

lemma Parse_holds:
  assumes "well_behaved env" and "set_ready s w" and "s_errorHandling (the_set s w) = ReturnOnError"
  shows "holds_on (parse_inv ReturnOnError s) (Parse env s args w)"
proof (cases "s_parsed (the_set s w)")
  case True
  with assms show ?thesis by (simp add: Parse_def parse_inv_def set_ready_def)
next
  case False
  let ?r = "bind_o (initFlags env s (upd_set s (\<lambda>t. t\<lparr>s_parsed := True\<rparr>) w)) (\<lambda>w _.
              bind_o (parse_args env s args w) (\<lambda>w _. Ret w (s_remaining (the_set s w))))"
  have "holds_on (parse_inv ReturnOnError s) ?r"
    using initFlags_inv[OF assms(1,2)] assms(3)
    by (intro holds_on_bind[OF _ holds_on_bind[OF parse_args_inv[OF assms(1)]]]) auto
  with False show ?thesis by (simp add: Parse_def finish_ReturnOnError)
qed

section \<open>The flag map after preparation\<close>

text \<open>How far preparing flags \<open>as\<close> takes the map: every name of each of them, nothing else.\<close>

definition maps_names :: "nat list \<Rightarrow> 'fl world \<Rightarrow> nat \<Rightarrow> 'fl world \<Rightarrow> bool" where
  "maps_names as w s w' \<longleftrightarrow>
     (\<forall>a \<in> set as. \<forall>n \<in> set (flag_names (the_flag a w')). s_flagMap (the_set s w') n = Some a)
     \<and> (\<forall>n a. s_flagMap (the_set s w) n = Some a \<longrightarrow> s_flagMap (the_set s w') n = Some a)
     \<and> (\<forall>n a. s_flagMap (the_set s w') n = Some a \<longrightarrow>
          s_flagMap (the_set s w) n = Some a \<or> (a \<in> set as \<and> n \<in> set (flag_names (the_flag a w'))))"

lemma flag_names_shape: "same_shape f f' \<Longrightarrow> flag_names f' = flag_names f"
  by (simp add: same_shape_def flag_names_def)

definition shapes_kept :: "'fl world \<Rightarrow> 'fl world \<Rightarrow> bool" where
  "shapes_kept w w' \<longleftrightarrow> length (w_flags w') = length (w_flags w)
     \<and> (\<forall>b < length (w_flags w). same_shape (the_flag b w) (the_flag b w'))"

lemma shapes_kept_refl [simp]: "shapes_kept w w"
  by (simp add: shapes_kept_def)

lemma shapes_kept_trans: "shapes_kept u v \<Longrightarrow> shapes_kept v w \<Longrightarrow> shapes_kept u w"
  by (auto simp: shapes_kept_def same_shape_def)

lemma shapes_kept_upd_set [simp]: "shapes_kept w (upd_set s f w)"
  by (simp add: shapes_kept_def store_simps)

lemma flag_step_shapes: "flag_step w w' \<Longrightarrow> shapes_kept w w'"
  by (simp add: flag_step_def shapes_kept_def)

lemma flag_step_the_set: "flag_step w w' \<Longrightarrow> the_set s w' = the_set s w"
  by (simp add: flag_step_def the_set_def)

text \<open>One round of the loop: flag \<open>a\<close> is initialised and its names, all new, are entered.\<close>

lemma init_flags_round:
  assumes wb: "well_behaved env" and inv: "init_inv eh s (a # as) w" and d: "a \<notin> set as"
    and run: "init_flags env s (a # as) w = Ret w' u"
  obtains w2 where "init_inv eh s as w2" and "shapes_kept w w2"
    and "init_flags env s as w2 = Ret w' u"
    and "\<And>n. s_flagMap (the_set s w2) n =
           (if n \<in> set (flag_names (the_flag a w2)) then Some a else s_flagMap (the_set s w) n)"
    and "\<And>n. n \<in> set (flag_names (the_flag a w2)) \<Longrightarrow> s_flagMap (the_set s w) n = None"
proof -
  from inv have a: "a < length (w_flags w)" by (simp add: init_inv_def)
  from run obtain w1 w2 u1 u2 where
    w1: "on_flag a (flag_init env) w = Ret w1 u1" and
    w2: "init_names s a (flag_names (the_flag a w1)) w1 = Ret w2 u2" and
    rest: "init_flags env s as w2 = Ret w' u"
    by (auto simp: bind_o_Ret_iff)
  from init_one[OF wb inv d] w1
  have i1: "init_inv eh s as w1" and st1: "flag_step w w1" and wt1: "well_typed (fstate_of a w1)"
    by auto
  from i1 have s1: "s < length (w_sets w1)" by (simp add: init_inv_def parse_inv_def)
  from st1 a have a1: "a < length (w_flags w1)" by (simp add: flag_step_def)
  from init_names_spec[OF s1, of a "flag_names (the_flag a w1)"] w2
  obtain m where w2_eq: "w2 = upd_set s (\<lambda>t. t\<lparr>s_flagMap := m\<rparr>) w1"
    and m: "m = s_flagMap (the_set s w1) ++ map_of (map (\<lambda>n. (n, a)) (flag_names (the_flag a w1)))"
    and fresh: "\<forall>n \<in> set (flag_names (the_flag a w1)). s_flagMap (the_set s w1) n = None"
    by auto
  show ?thesis
  proof (rule that)
    show "init_inv eh s as w2" using init_names_inv[OF i1 a1 wt1] w2 by simp
    show "shapes_kept w w2"
      using flag_step_shapes[OF st1] by (auto simp: w2_eq intro: shapes_kept_trans)
    show "init_flags env s as w2 = Ret w' u" by (rule rest)
    show "s_flagMap (the_set s w2) n =
        (if n \<in> set (flag_names (the_flag a w2)) then Some a else s_flagMap (the_set s w) n)" for n
      using s1 flag_step_the_set[OF st1]
      by (simp add: w2_eq store_simps m map_add_def map_of_const)
    show "s_flagMap (the_set s w) n = None" if "n \<in> set (flag_names (the_flag a w2))" for n
      using that fresh flag_step_the_set[OF st1] by (simp add: w2_eq store_simps)
  qed
qed

lemma init_flags_maps:
  assumes wb: "well_behaved env" and "init_inv eh s as w" and "distinct as"
    and "init_flags env s as w = Ret w' u"
  shows "maps_names as w s w' \<and> shapes_kept w w'"
  using assms(2-)
proof (induction as arbitrary: w)
  case Nil
  then show ?case by (simp add: maps_names_def)
next
  case (Cons a as)
  from Cons.prems(1) have a: "a < length (w_flags w)" by (simp add: init_inv_def)
  from Cons.prems(2) have d: "a \<notin> set as" "distinct as" by auto
  from init_flags_round[OF wb Cons.prems(1) d(1) Cons.prems(3)] obtain w2 where
    w2: "init_inv eh s as w2" "shapes_kept w w2" "init_flags env s as w2 = Ret w' u"
    and map2: "\<And>n. s_flagMap (the_set s w2) n =
      (if n \<in> set (flag_names (the_flag a w2)) then Some a else s_flagMap (the_set s w) n)"
    and fresh: "\<And>n. n \<in> set (flag_names (the_flag a w2)) \<Longrightarrow> s_flagMap (the_set s w) n = None"
    by blast
  from Cons.IH[OF w2(1) d(2) w2(3)] have IH: "maps_names as w2 s w'" "shapes_kept w2 w'" by auto
  have names: "flag_names (the_flag a w') = flag_names (the_flag a w2)"
    using IH(2) w2(2) a by (intro flag_names_shape) (auto simp: shapes_kept_def)
  have keep: "s_flagMap (the_set s w') n = Some b" if "s_flagMap (the_set s w2) n = Some b" for n b
    using that IH(1) by (simp add: maps_names_def)
  have "s_flagMap (the_set s w') n = Some a" if "n \<in> set (flag_names (the_flag a w'))" for n
    using that by (intro keep) (simp add: map2 names)
  moreover have "s_flagMap (the_set s w') n = Some b" if "s_flagMap (the_set s w) n = Some b" for n b
    using that fresh[of n] by (intro keep) (auto simp: map2)
  moreover have "s_flagMap (the_set s w) n = Some b
      \<or> (b \<in> set (a # as) \<and> n \<in> set (flag_names (the_flag b w')))"
    if "s_flagMap (the_set s w') n = Some b" for n b
  proof -
    from that IH(1) have "s_flagMap (the_set s w2) n = Some b
        \<or> (b \<in> set as \<and> n \<in> set (flag_names (the_flag b w')))" by (simp add: maps_names_def)
    then show ?thesis using names by (cases "b = a") (auto simp: map2 split: if_splits)
  qed
  ultimately show ?case
    using IH shapes_kept_trans[OF w2(2) IH(2)] by (auto simp: maps_names_def)
qed

section \<open>What one option does to its flag\<close>

definition marked :: "string \<Rightarrow> 'fl fstate \<Rightarrow> 'fl fstate" where
  "marked n st = (fst st, (snd st)\<lparr>f_matchedName := n, f_called := True, f_updated := True\<rparr>)"

lemma marked_simps [simp]:
  "current (marked n st) = current st" "fst (marked n st) = fst st"
  "f_kind (snd (marked n st)) = f_kind (snd st)" "f_subkind (snd (marked n st)) = f_subkind (snd st)"
  "plain (snd (marked n st)) = plain (snd st)" "f_ptr (snd (marked n st)) = f_ptr (snd st)"
  "f_called (snd (marked n st))" "f_updated (snd (marked n st))" "f_matchedName (snd (marked n st)) = n"
  by (simp_all add: marked_def current_def plain_def)

lemma names_flag_marked [simp]: "names_flag (snd (marked n st)) m = names_flag (snd st) m"
  by (simp add: marked_def names_flag_def)

lemma marked_store [simp]: "f_called (snd (store v st)) = f_called (snd st)"
  "f_updated (snd (store v st)) = f_updated (snd st)"
  "f_matchedName (snd (store v st)) = f_matchedName (snd st)"
  "f_aliases (snd (store v st)) = f_aliases (snd st)"
  "f_longName (snd (store v st)) = f_longName (snd st)"
  "f_shortName (snd (store v st)) = f_shortName (snd st)"
  "plain (snd (store v st)) = plain (snd st)"
  "names_flag (snd (store v st)) n = names_flag (snd st) n"
  by (cases st; auto simp: store_def plain_def names_flag_def split: val.splits)+

lemma set_marked:
  assumes "a < length (w_flags w)" and "names_flag (the_flag a w) n"
  shows "bind_o (on_flag a (markCalled n) w) (\<lambda>w _. bind_o (on_flag a (setValue env v) w) (\<lambda>w _. g w)) =
    (case setValue env v (marked n (fstate_of a w)) of
       Ret st u \<Rightarrow> g (put_flag a st w)
     | Fail st e \<Rightarrow> Fail (put_flag a st w) (ErrFlag e)
     | Crash m \<Rightarrow> Crash m)"
proof -
  have m: "on_flag a (markCalled n) w = Ret (put_flag a (marked n (fstate_of a w)) w) ()"
    using assms by (simp add: on_flag_eq markCalled_Ret fstate_of_def marked_def)
  show ?thesis
    using assms(1)
    by (simp add: m on_flag_eq store_simps)
      (cases "setValue env v (marked n (fstate_of a w))"; simp add: store_simps)
qed

lemma flag_Value_current:
  "well_typed st \<Longrightarrow> f_kind (snd st) \<noteq> UnsetType \<Longrightarrow> flag_Value st = current st"
  by (cases st)
    (auto simp: flag_Value_def well_typed_def current_def split: FType.splits option.splits)

text \<open>A flag that is found under a name, with its state.\<close>

definition found :: "nat \<Rightarrow> string \<Rightarrow> nat \<Rightarrow> 'fl world \<Rightarrow> bool" where
  "found s n a w \<longleftrightarrow> s < length (w_sets w) \<and> s_flagMap (the_set s w) n = Some a
     \<and> a < length (w_flags w) \<and> names_flag (the_flag a w) n \<and> plain (the_flag a w)"

lemma found_put:
  assumes "found s n a w" and "names_flag (snd st) n" and "plain (snd st)"
  shows "found s n a (put_flag a st w)"
  using assms by (simp add: found_def store_simps)

lemma found_dest:
  assumes "found s n a w"
  shows "s < length (w_sets w)" "s_flagMap (the_set s w) n = Some a" "a < length (w_flags w)"
    "names_flag (the_flag a w) n" "names_flag (snd (fstate_of a w)) n" "plain (snd (fstate_of a w))"
    "the_flag a w = snd (fstate_of a w)"
  using assms by (simp_all add: found_def fstate_of_def)

text \<open>Where the option \<open>--name=v\<close> of a scalar or list flag leads.\<close>

lemma parse_named_value:
  assumes f: "found s n a w" and k: "f_kind (the_flag a w) \<notin> {BooleanType, IncrementType}"
    and set: "setValue env v (marked n (fstate_of a w)) = Ret st ()"
  shows "parse_named env s nxt word n (Some v) w = Ret (put_flag a st w) False"
  using found_dest[OF f] k set set_marked[of a w n env v "\<lambda>w. Ret w False"]
  by (cases "f_kind (the_flag a w)") (simp_all add: parse_named_def)

lemma parse_long_value:
  assumes "CHR ''='' \<notin> set n"
  shows "parse_long env s nxt (''--'' @ n @ ''='' @ v) w =
           parse_named env s nxt (''--'' @ n @ ''='' @ v) n (Some v) w"
  using assms by (simp add: parse_long_def split2_append)

lemma parse_args_long:
  assumes "HasPrefix word ''--''" and "word \<noteq> ''--''"
    and "parse_long env s (next_arg rest) word w = Ret w' False"
  shows "parse_args env s (word # rest) w = parse_args env s rest w'"
  using assms by simp

lemma parse_string_option:
  assumes f: "found s n a w" and k: "f_kind (the_flag a w) = StringType"
    and c: "current (fstate_of a w) = Some (VString t)" and eq: "CHR ''='' \<notin> set n"
  shows "parse_long env s nxt (''--'' @ n @ ''='' @ v) w =
           Ret (put_flag a (store (VString v) (marked n (fstate_of a w))) w) False"
proof -
  have "setValue env v (marked n (fstate_of a w)) = Ret (store (VString v) (marked n (fstate_of a w))) ()"
    using found_dest[OF f] k c by (intro setValue_string) simp_all
  from parse_named_value[OF f _ this] k show ?thesis
    unfolding parse_long_value[OF eq] by simp
qed

lemma parse_array_option:
  assumes f: "found s n a w" and k: "f_kind (the_flag a w) = ArrayType"
    "f_subkind (the_flag a w) = StringType"
    and c: "current (fstate_of a w) = Some (VStrings xs)" and eq: "CHR ''='' \<notin> set n"
  shows "parse_long env s nxt (''--'' @ n @ ''='' @ v) w =
           Ret (put_flag a (store (VStrings (appended xs v)) (marked n (fstate_of a w))) w) False"
proof -
  have "setValue env v (marked n (fstate_of a w)) =
      Ret (store (VStrings (appended xs v)) (marked n (fstate_of a w))) ()"
    using found_dest[OF f] k c by (intro setValue_string_array) simp_all
  from parse_named_value[OF f _ this] k show ?thesis
    unfolding parse_long_value[OF eq] by simp
qed

lemma current_put_store:
  "a < length (w_flags w) \<Longrightarrow> current st \<noteq> None \<Longrightarrow>
     current (fstate_of a (put_flag a (store v st) w)) = Some v"
  by (simp add: store_simps current_store)

lemma parse_array_options:
  assumes "found s n a w" and "f_kind (the_flag a w) = ArrayType"
    "f_subkind (the_flag a w) = StringType"
    and "current (fstate_of a w) = Some (VStrings (Some xs))" and "CHR ''='' \<notin> set n"
  shows "\<exists>w'. parse_args env s (map (\<lambda>v. ''--'' @ n @ ''='' @ v) vs) w = Ret w' ()
           \<and> current (fstate_of a w') = Some (VStrings (Some (xs @ vs)))
           \<and> the_set s w' = the_set s w"
  using assms(1-4)
proof (induction vs arbitrary: xs w)
  case Nil
  then show ?case by simp
next
  case (Cons v vs)
  let ?st = "store (VStrings (Some (xs @ [v]))) (marked n (fstate_of a w))"
  let ?w = "put_flag a ?st w"
  have opt: "parse_long env s nxt (''--'' @ n @ ''='' @ v) w = Ret ?w False" for nxt
    using parse_array_option[OF Cons.prems assms(5)] by (simp add: appended_def)
  have "found s n a ?w" "f_kind (the_flag a ?w) = ArrayType" "f_subkind (the_flag a ?w) = StringType"
    "current (fstate_of a ?w) = Some (VStrings (Some (xs @ [v])))"
    using found_dest[OF Cons.prems(1)] Cons.prems
    by (auto intro!: found_put simp: store_simps current_put_store current_store)
  from Cons.IH[OF this] show ?case
    using opt by (simp add: store_simps)
qed

section \<open>Who owns a group\<close>

text \<open>The lists of the sets and the set of each group agree: every group is in the list of exactly the
  set it points to, once.\<close>

definition owned_lists :: "nat list list \<Rightarrow> nat list \<Rightarrow> bool" where
  "owned_lists ss gs \<longleftrightarrow>
     (\<forall>s < length ss. distinct (ss ! s) \<and> (\<forall>g \<in> set (ss ! s). g < length gs \<and> gs ! g = s))
     \<and> (\<forall>g < length gs. gs ! g < length ss \<and> g \<in> set (ss ! (gs ! g)))"

definition owned :: "'fl world \<Rightarrow> bool" where
  "owned w \<longleftrightarrow> owned_lists (map s_groups (w_sets w)) (map g_set (w_groups w))"

lemma owned_listsD:
  assumes "owned_lists ss gs"
  shows "s < length ss \<Longrightarrow> distinct (ss ! s)"
    "s < length ss \<Longrightarrow> g \<in> set (ss ! s) \<Longrightarrow> g < length gs"
    "s < length ss \<Longrightarrow> g \<in> set (ss ! s) \<Longrightarrow> gs ! g = s"
    "g < length gs \<Longrightarrow> gs ! g < length ss"
    "g < length gs \<Longrightarrow> g \<in> set (ss ! (gs ! g))"
  using assms by (auto simp: owned_lists_def)

lemma owned_lists_new_set: "owned_lists ss gs \<Longrightarrow> owned_lists (ss @ [[]]) gs"
  by (auto simp: owned_lists_def nth_append less_Suc_eq)

lemma owned_lists_new_group:
  assumes o: "owned_lists ss gs" and s: "s < length ss"
  shows "owned_lists (ss[s := ss ! s @ [length gs]]) (gs @ [s])"
proof -
  note D = owned_listsD[OF o]
  have fresh: "length gs \<notin> set (ss ! t)" if "t < length ss" for t
    using D(2)[OF that] by blast
  have 1: "distinct (ss[s := ss ! s @ [length gs]] ! t)" if "t < length ss" for t
    using D(1)[OF that] fresh[OF that] that by (cases "t = s") simp_all
  have 2: "g < Suc (length gs) \<and> (gs @ [s]) ! g = t"
    if "t < length ss" "g \<in> set (ss[s := ss ! s @ [length gs]] ! t)" for t g
    using D(2,3)[OF that(1)] that by (cases "t = s") (auto simp: nth_append less_Suc_eq)
  have 3: "(gs @ [s]) ! g < length ss \<and> g \<in> set (ss[s := ss ! s @ [length gs]] ! ((gs @ [s]) ! g))"
    if "g < Suc (length gs)" for g
    using D(4,5)[of g] that s by (auto simp: nth_append less_Suc_eq nth_list_update)
  show ?thesis unfolding owned_lists_def using 1 2 3 by simp
qed

lemma owned_lists_move:
  assumes o: "owned_lists ss gs" and s: "s < length ss" and g: "g < length gs" "g \<notin> set (ss ! s)"
    and R: "set R = set (ss ! (gs ! g)) - {g}" "distinct R"
  shows "owned_lists (ss[gs ! g := R, s := ss ! s @ [g]]) (gs[g := s])"
proof -
  note D = owned_listsD[OF o]
  let ?ss = "ss[gs ! g := R, s := ss ! s @ [g]]"
  have ne: "gs ! g \<noteq> s" using D(5)[OF g(1)] g(2) by auto
  have at: "?ss ! t = (if t = s then ss ! s @ [g] else if t = gs ! g then R else ss ! t)" if "t < length ss" for t
    using that s by (simp add: nth_list_update)
  have 1: "distinct (?ss ! t)" if "t < length ss" for t
    using D(1)[OF that] g(2) R(2) unfolding at[OF that] by auto
  have 2: "h < length gs \<and> gs[g := s] ! h = t" if t: "t < length ss" "h \<in> set (?ss ! t)" for t h
  proof (cases "t = s")
    case True
    with that D(2,3)[OF s, of h] g show ?thesis unfolding at[OF t(1)] by (auto simp: nth_list_update)
  next
    case False
    with t R(1) have h: "h \<in> set (ss ! t)" "h \<noteq> g \<or> t \<noteq> gs ! g" unfolding at[OF t(1)] by (auto split: if_splits)
    have "h < length gs" "gs ! h = t" using D(2,3)[OF t(1) h(1)] by auto
    with h(2) show ?thesis by (cases "h = g") auto
  qed
  have 3: "gs[g := s] ! h < length ss \<and> h \<in> set (?ss ! (gs[g := s] ! h))" if h: "h < length gs" for h
  proof (cases "h = g")
    case True
    with s g show ?thesis by (simp add: at)
  next
    case False
    then have gh: "gs[g := s] ! h = gs ! h" by simp
    have "h \<in> set (?ss ! t)" if "t < length ss" "h \<in> set (ss ! t)" for t
      unfolding at[OF that(1)] using that(2) R(1) False by auto
    from this[OF D(4,5)[OF h]] have "h \<in> set (?ss ! (gs ! h))" .
    with D(4)[OF h] show ?thesis unfolding gh by simp
  qed
  show ?thesis unfolding owned_lists_def using 1 2 3 by simp
qed

lemma groups_upd_set: "s < length (w_sets w) \<Longrightarrow>
    map s_groups (w_sets (upd_set s f w)) = (map s_groups (w_sets w))[s := s_groups (f (the_set s w))]"
  by (simp add: upd_set_def map_update)

lemma groups_upd_set_same: "(\<And>t. s_groups (f t) = s_groups t) \<Longrightarrow>
    map s_groups (w_sets (upd_set s f w)) = map s_groups (w_sets w)"
  by (cases "s < length (w_sets w)")
    (simp_all add: upd_set_def map_update the_set_def list_update_beyond list_update_same_conv)

lemma gsets_upd_group: "g < length (w_groups w) \<Longrightarrow>
    map g_set (w_groups (upd_group g f w)) = (map g_set (w_groups w))[g := g_set (f (the_group g w))]"
  by (simp add: upd_group_def map_update)

lemma owned_the:
  "s < length (w_sets w) \<Longrightarrow> map s_groups (w_sets w) ! s = s_groups (the_set s w)"
  "g < length (w_groups w) \<Longrightarrow> map g_set (w_groups w) ! g = g_set (the_group g w)"
  by (simp_all add: the_set_def the_group_def)

lemma owned_upd_set: "owned w \<Longrightarrow> (\<And>t. s_groups (f t) = s_groups t) \<Longrightarrow> owned (upd_set s f w)"
  by (simp add: owned_def groups_upd_set_same store_simps)

lemma fold_group_modifiers:
  "set ms \<subseteq> {HideGroupName, HideGroup} \<Longrightarrow> g_set (fold (\<lambda>fn g. fn g) ms G) = g_set G"
  by (induction ms arbitrary: G) (auto simp: HideGroupName_def HideGroup_def)

text \<open>The store with one more group at its end, entered in the list of its set.\<close>

definition with_group :: "nat \<Rightarrow> group \<Rightarrow> 'fl world \<Rightarrow> 'fl world" where
  "with_group s G w =
     upd_set s (\<lambda>t. t\<lparr>s_groups := s_groups t @ [length (w_groups w)]\<rparr>) (w\<lparr>w_groups := w_groups w @ [G]\<rparr>)"

lemma with_group_owned:
  assumes "owned w" and "s < length (w_sets w)" and "g_set G = s"
  shows "owned (with_group s G w)"
  using owned_lists_new_group[OF assms(1)[unfolded owned_def], of s] assms(2,3)
  by (simp add: owned_def with_group_def groups_upd_set store_simps) (simp add: the_set_def)

lemma NewGroup_with:
  assumes "set ms \<subseteq> {HideGroupName, HideGroup}"
  obtains (dup) e where "NewGroup s n ms w = Fail w e"
    | (new) G where "NewGroup s n ms w = Ret (with_group s G w) (length (w_groups w))" and "g_set G = s"
  by (cases "\<exists>g \<in> set (s_groups (the_set s w)). g_name (the_group g w) = n")
    (auto simp: NewGroup_def newGroup_def with_group_def Let_def fold_group_modifiers[OF assms])

lemma AddGroup_owned:
  assumes o: "owned w" and s: "s < length (w_sets w)" and g: "g < length (w_groups w)"
  shows "(g \<in> set (s_groups (the_set s w)) \<and> AddGroup s g w = Fail w ErrGroupInSet)
    \<or> (\<exists>w'. AddGroup s g w = Ret w' () \<and> owned w' \<and> g_set (the_group g w) \<noteq> s
         \<and> s_groups (the_set s w') = s_groups (the_set s w) @ [g]
         \<and> (\<forall>t < length (w_sets w). t \<noteq> s \<longrightarrow>
              set (s_groups (the_set t w')) = set (s_groups (the_set t w)) - {g}))"
proof (cases "g \<in> set (s_groups (the_set s w))")
  case True
  then show ?thesis by (simp add: AddGroup_def)
next
  case False
  let ?old = "g_set (the_group g w)"
  note D = owned_listsD[OF o[unfolded owned_def]]
  have old: "?old < length (w_sets w)" using D(4)[of g] g by (simp add: owned_the del: nth_map)
  have mem: "g \<in> set (s_groups (the_set ?old w))" and dist: "distinct (s_groups (the_set ?old w))"
    using D(5)[of g] D(1)[of ?old] g old by (simp_all add: owned_the del: nth_map)
  have ne: "?old \<noteq> s" using mem False by auto
  from mem obtain idx where idx: "find_index (\<lambda>cg. cg = g) (s_groups (the_set ?old w)) = Some idx"
    by (cases "find_index (\<lambda>cg. cg = g) (s_groups (the_set ?old w))") (auto simp: find_index_None)
  define R where "R = remove_nth idx (s_groups (the_set ?old w))"
  have R: "set R = set (s_groups (the_set ?old w)) - {g}" "distinct R"
    using set_remove_nth_distinct[OF dist] find_index_SomeD[OF idx] dist
    by (auto simp: R_def distinct_remove_nth)
  let ?w1 = "upd_set ?old (\<lambda>t. t\<lparr>s_groups := remove_nth idx (s_groups t)\<rparr>) w"
  let ?w = "upd_set s (\<lambda>t. t\<lparr>s_groups := s_groups t @ [g]\<rparr>) (upd_group g (\<lambda>G. G\<lparr>g_set := s\<rparr>) ?w1)"
  have run: "AddGroup s g w = Ret ?w ()" using False idx by (simp add: AddGroup_def Let_def)
  have sets: "s_groups (the_set t ?w) =
      (if t = s then s_groups (the_set s w) @ [g]
       else if t = ?old then R else s_groups (the_set t w))" for t
    using ne old s by (simp add: store_simps R_def)
  have "map s_groups (w_sets ?w) = (map s_groups (w_sets w))[?old := R, s := s_groups (the_set s w) @ [g]]"
    using s old ne by (simp add: groups_upd_set store_simps R_def)
  moreover have "map g_set (w_groups ?w) = (map g_set (w_groups w))[g := s]"
    using g by (simp add: gsets_upd_group store_simps)
  ultimately have "owned ?w"
    using owned_lists_move[OF o[unfolded owned_def], of s g R] s g old False R
    by (simp add: owned_def owned_the del: nth_map)
  moreover have "set (s_groups (the_set t ?w)) = set (s_groups (the_set t w)) - {g}"
    if t: "t < length (w_sets w)" "t \<noteq> s" for t
  proof (cases "t = ?old")
    case False
    then have "g \<notin> set (s_groups (the_set t w))"
      using D(3)[of t g] t g by (auto simp: owned_the simp del: nth_map)
    with t False show ?thesis by (simp add: sets)
  qed (use t R in \<open>simp add: sets\<close>)
  ultimately show ?thesis
    using run ne False sets[of s] by (intro disjI2 exI[of _ ?w]) auto
qed

text \<open>The operations that move groups, as a machine; an address that is not one is a nil pointer.\<close>

datatype set_op =
    OpNewSet string ErrorHandling UnknownHandling
  | OpNewGroup nat string bool
  | OpAddGroup nat nat

fun set_step :: "set_op \<Rightarrow> 'fl world \<Rightarrow> 'fl world" where
  "set_step (OpNewSet n e u) w = left_by (NewSet n [SetErrorMode e, SetUnknownMode u] w) w"
| "set_step (OpNewGroup s n h) w =
     (if s < length (w_sets w) then left_by (NewGroup s n (if h then [HideGroup] else []) w) w else w)"
| "set_step (OpAddGroup s g) w =
     (if s < length (w_sets w) \<and> g < length (w_groups w) then left_by (AddGroup s g w) w else w)"

lemma owned_new_set: "owned w \<Longrightarrow> s_groups t = [] \<Longrightarrow> owned (w\<lparr>w_sets := w_sets w @ [t]\<rparr>)"
  by (simp add: owned_def owned_lists_new_set)

lemma NewSet_owned: "owned w \<Longrightarrow> owned (left_by (NewSet n [SetErrorMode e, SetUnknownMode u] w) w)"
proof -
  assume w: "owned w"
  let ?t = "\<lparr>s_errorHandling = ReturnOnError, s_flagMap = Map.empty, s_groups = [], s_name = n,
               s_parsed = False, s_remaining = [], s_unknownFlags = [], s_unknownHandling = ErrorOnUnknown\<rparr>"
  let ?w = "w\<lparr>w_sets := w_sets w @ [?t]\<rparr>"
  have o: "owned ?w" using w by (rule owned_new_set) simp
  show ?thesis
    by (rule NewGroup_with[of "[HideGroupName]" "length (w_sets w)" internal_group_name ?w])
      (use o in \<open>auto simp: NewSet_def left_by_def Let_def SetErrorMode_def SetUnknownMode_def
         intro!: owned_upd_set with_group_owned\<close>)
qed

lemma set_step_owned: "owned w \<Longrightarrow> owned (set_step op w)"
proof (cases op)
  case (OpNewGroup s n h)
  assume "owned w"
  then show ?thesis
    by (rule_tac NewGroup_with[of "if h then [HideGroup] else []" s n w])
      (auto simp: OpNewGroup left_by_def intro!: with_group_owned)
next
  case (OpAddGroup s g)
  assume "owned w"
  then show ?thesis using AddGroup_owned[of w s g] by (auto simp: OpAddGroup left_by_def)
qed (simp add: NewSet_owned)

interpretation sets: machine set_step owned
  by unfold_locales (rule set_step_owned)

section \<open>When the help text panics\<close>

definition gap_after_hidden :: "'fl flag list \<Rightarrow> bool" where
  "gap_after_hidden fs \<longleftrightarrow> (\<exists>i j. i < j \<and> j < length fs \<and> f_hidden (fs ! i) \<and> \<not> f_hidden (fs ! j))"

lemma display_loop_behind:
  "length opts < i \<Longrightarrow> display_loop i fs (opts, desc, pad) = None \<longleftrightarrow> (\<exists>f \<in> set fs. \<not> f_hidden f)"
  by (induction fs arbitrary: i opts desc pad) (auto simp: Let_def)

lemma gap_after_hidden_Cons:
  "gap_after_hidden (f # fs) \<longleftrightarrow> (if f_hidden f then \<exists>g \<in> set fs. \<not> f_hidden g else gap_after_hidden fs)"
proof (cases "f_hidden f")
  case True
  have "gap_after_hidden (f # fs)" if "g \<in> set fs" "\<not> f_hidden g" for g
  proof -
    from that obtain j where "j < length fs" "fs ! j = g" by (auto simp: in_set_conv_nth)
    with that True show ?thesis
      unfolding gap_after_hidden_def by (intro exI[of _ 0] exI[of _ "Suc j"]) simp
  qed
  moreover have "\<exists>g \<in> set fs. \<not> f_hidden g" if gap: "gap_after_hidden (f # fs)"
  proof -
    from gap obtain i j where "i < j" "j < length (f # fs)" "\<not> f_hidden ((f # fs) ! j)"
      by (auto simp: gap_after_hidden_def)
    then have "fs ! (j - 1) \<in> set fs" "\<not> f_hidden (fs ! (j - 1))" by (auto simp: nth_Cons')
    then show ?thesis by blast
  qed
  ultimately show ?thesis using True by auto
next
  case False
  have "gap_after_hidden fs" if gap: "gap_after_hidden (f # fs)"
  proof -
    from gap obtain i j where ij: "i < j" "j < length (f # fs)" "f_hidden ((f # fs) ! i)"
      "\<not> f_hidden ((f # fs) ! j)" by (auto simp: gap_after_hidden_def)
    with False have "0 < i" by (cases i) auto
    with ij show ?thesis
      unfolding gap_after_hidden_def by (intro exI[of _ "i - 1"] exI[of _ "j - 1"]) (auto simp: nth_Cons')
  qed
  moreover have "gap_after_hidden (f # fs)" if gap: "gap_after_hidden fs"
  proof -
    from gap obtain i j where "i < j" "j < length fs" "f_hidden (fs ! i)" "\<not> f_hidden (fs ! j)"
      by (auto simp: gap_after_hidden_def)
    then show ?thesis
      unfolding gap_after_hidden_def by (intro exI[of _ "Suc i"] exI[of _ "Suc j"]) simp
  qed
  ultimately show ?thesis using False by auto
qed

lemma display_loop_None:
  "length opts = i \<Longrightarrow> display_loop i fs (opts, desc, pad) = None \<longleftrightarrow> gap_after_hidden fs"
proof (induction fs arbitrary: i opts desc pad)
  case Nil
  then show ?case by (simp add: gap_after_hidden_def)
next
  case (Cons f fs)
  then show ?case
    by (cases "f_hidden f") (simp_all add: gap_after_hidden_Cons display_loop_behind Let_def nth_append)
qed

lemma Group_Display_None:
  "Group_Display indent g w = None \<longleftrightarrow>
     \<not> g_hidden (the_group g w) \<and> gap_after_hidden (map (\<lambda>a. the_flag a w) (g_flags (the_group g w)))"
  using display_loop_None[of "[]" 0 "map (\<lambda>a. the_flag a w) (g_flags (the_group g w))" "[]" 0]
  by (auto simp: Group_Display_def Let_def split: option.split)

end
