(* ===== verification/FlagClaims.thy ===== *)
theory FlagClaims
  imports FlagSet
begin

text \<open>
  The properties of the command line flags: what \<open>Parse\<close> does with each kind of option, when it can
  panic, what the flag map holds, and who owns a group. The lemmas here lift the one-option facts of
  \<open>FlagSet\<close> to \<open>Parse\<close>; the example set at the end is built with the constructors of the model.
\<close>

section \<open>From one option to a whole parse\<close>

text \<open>The start of a parse that gets through \<open>initFlags\<close>, with flag \<open>a\<close> of the set and one of its
  names.\<close>

definition prepared :: "'fl goenv \<Rightarrow> nat \<Rightarrow> nat \<Rightarrow> string \<Rightarrow> 'fl world \<Rightarrow> 'fl world \<Rightarrow> bool" where
  "prepared env s a n w w1 \<longleftrightarrow>
     well_behaved env \<and> set_ready s w \<and> s_errorHandling (the_set s w) = ReturnOnError
     \<and> \<not> s_parsed (the_set s w)
     \<and> initFlags env s (upd_set s (\<lambda>t. t\<lparr>s_parsed := True\<rparr>) w) = Ret w1 ()
     \<and> a \<in> set (Set_Flags s w) \<and> n \<in> set (flag_names (the_flag a w)) \<and> plain (the_flag a w)"

lemma initFlags_maps:
  assumes "well_behaved env" and "set_ready s w"
    and "initFlags env s (upd_set s (\<lambda>t. t\<lparr>s_parsed := True\<rparr>) w) = Ret w1 u"
  shows "maps_names (Set_Flags s w) (upd_set s (\<lambda>t. t\<lparr>s_parsed := True\<rparr>) w) s w1
    \<and> shapes_kept w w1"
proof -
  from assms(3) have run: "init_flags env s (Set_Flags s w) (upd_set s (\<lambda>t. t\<lparr>s_parsed := True\<rparr>) w) = Ret w1 u"
    by (simp add: initFlags_def Set_Flags_upd_set)
  from init_flags_maps[OF assms(1) set_ready_start[OF assms(2)] _ run] assms(2)
  show ?thesis by (auto simp: set_ready_def intro: shapes_kept_trans[OF shapes_kept_upd_set])
qed

text \<open>Entering names touches only the map of the set; initialising flags touches no set.\<close>

definition maps_only :: "nat \<Rightarrow> 'fl world \<Rightarrow> 'fl world \<Rightarrow> bool" where
  "maps_only s w w' \<longleftrightarrow> (\<exists>m. the_set s w' = (the_set s w)\<lparr>s_flagMap := m\<rparr>)
     \<and> length (w_sets w') = length (w_sets w)"

lemma on_flag_frame: "on_flag a op w = Ret w' u \<Longrightarrow> w_sets w' = w_sets w"
  by (auto simp: on_flag_def put_flag_def split: if_splits outcome.splits)

lemma maps_only_refl: "maps_only s w w"
  unfolding maps_only_def by (metis fset.surjective fset.update_convs(2))

lemma maps_only_trans: "maps_only s u v \<Longrightarrow> maps_only s v w \<Longrightarrow> maps_only s u w"
  by (auto simp: maps_only_def)

lemma init_names_maps_only: "init_names s a ns w = Ret w' u \<Longrightarrow> maps_only s w w'"
proof (induction ns arbitrary: w)
  case Nil
  then show ?case by (simp add: maps_only_refl)
next
  case (Cons n ns)
  from Cons.prems have "maps_only s (upd_set s (\<lambda>t. t\<lparr>s_flagMap := (s_flagMap t)(n \<mapsto> a)\<rparr>) w) w'"
    by (auto split: option.splits intro: Cons.IH)
  moreover have "maps_only s w (upd_set s (\<lambda>t. t\<lparr>s_flagMap := (s_flagMap t)(n \<mapsto> a)\<rparr>) w)"
    using maps_only_refl[of s w] by (auto simp: maps_only_def store_simps)
  ultimately show ?case by (rule maps_only_trans[rotated])
qed

lemma init_flags_maps_only: "init_flags env s as w = Ret w' u \<Longrightarrow> maps_only s w w'"
proof (induction as arbitrary: w)
  case Nil
  then show ?case by (simp add: maps_only_refl)
next
  case (Cons a as)
  then obtain w1 u1 w2 u2 where 1: "on_flag a (flag_init env) w = Ret w1 u1"
    and 2: "init_names s a (flag_names (the_flag a w1)) w1 = Ret w2 u2"
    and 3: "init_flags env s as w2 = Ret w' u"
    by (auto simp: bind_o_Ret_iff)
  have "maps_only s w w1"
    using on_flag_frame[OF 1] maps_only_refl[of s w] by (simp add: maps_only_def the_set_def)
  with init_names_maps_only[OF 2] Cons.IH[OF 3] show ?case by (blast intro: maps_only_trans)
qed

text \<open>What a prepared parse has found.\<close>

lemma prepared_found:
  assumes "prepared env s a n w w1"
  shows "found s n a w1" and "well_typed (fstate_of a w1)" and "same_shape (the_flag a w) (the_flag a w1)"
    and "s_remaining (the_set s w1) = s_remaining (the_set s w)"
    and "s_errorHandling (the_set s w1) = ReturnOnError"
proof -
  let ?w = "upd_set s (\<lambda>t. t\<lparr>s_parsed := True\<rparr>) w"
  from assms have i: "initFlags env s ?w = Ret w1 ()" and wb: "well_behaved env"
    and rdy: "set_ready s w" and a: "a \<in> set (Set_Flags s w)"
    and n: "n \<in> set (flag_names (the_flag a w))" and p: "plain (the_flag a w)"
    and eh: "s_errorHandling (the_set s w) = ReturnOnError"
    by (simp_all add: prepared_def)
  have inv: "parse_inv ReturnOnError s w1"
    using initFlags_inv[OF wb rdy] i eh by simp
  from initFlags_maps[OF wb rdy i] have maps: "maps_names (Set_Flags s w) ?w s w1"
    and sh: "shapes_kept w w1" by auto
  from rdy a have al: "a < length (w_flags w)" by (simp add: set_ready_def)
  with sh show shape: "same_shape (the_flag a w) (the_flag a w1)"
    by (simp add: shapes_kept_def)
  have "s_flagMap (the_set s w1) n = Some a"
    using maps a n flag_names_shape[OF shape] by (simp add: maps_names_def)
  with inv p shape show "found s n a w1" "well_typed (fstate_of a w1)"
    by (auto simp: parse_inv_def found_def plain_def same_shape_def)
  from i have "maps_only s ?w w1" by (auto simp: initFlags_def intro: init_flags_maps_only)
  with rdy eh show "s_remaining (the_set s w1) = s_remaining (the_set s w)"
    "s_errorHandling (the_set s w1) = ReturnOnError"
    by (auto simp: maps_only_def store_simps set_ready_def)
qed

lemma Parse_prepared:
  assumes "prepared env s a n w w1"
  shows "Parse env s args w =
           finish s (bind_o (parse_args env s args w1) (\<lambda>w _. Ret w (s_remaining (the_set s w))))"
  using assms by (simp add: prepared_def Parse_def)

lemma Parse_one:
  assumes "prepared env s a n w w1"
    and "parse_long env s None (''--'' @ n @ t) w1 = Ret w2 False" and "n \<noteq> [] \<or> t \<noteq> []"
  shows "Parse env s [''--'' @ n @ t] w = Ret w2 (s_remaining (the_set s w2))"
  using assms by (auto simp: Parse_prepared[OF assms(1)] next_arg_def)


lemma prepared_kind:
  assumes "prepared env s a n w w1"
  shows "f_kind (the_flag a w1) = f_kind (the_flag a w)"
    "f_subkind (the_flag a w1) = f_subkind (the_flag a w)"
  using prepared_found(3)[OF assms] by (simp_all add: same_shape_def)

text \<open>After one option whose flag ends in state \<open>store v (marked n ...)\<close>.\<close>

definition set_by_option :: "nat \<Rightarrow> nat \<Rightarrow> 'fl val \<Rightarrow> 'fl world \<Rightarrow> 'fl world \<Rightarrow> bool" where
  "set_by_option s a v w1 w' \<longleftrightarrow>
     flag_Value (fstate_of a w') = Some v \<and> f_called (the_flag a w') \<and> f_updated (the_flag a w')
     \<and> (\<forall>b. b \<noteq> a \<longrightarrow> the_flag b w' = the_flag b w1) \<and> the_set s w' = the_set s w1"

lemma well_typed_marked: "well_typed st \<Longrightarrow> well_typed (marked n st)"
  by (cases st) (auto simp: well_typed_def current_def marked_def typeCheck_kind_tag split: option.splits)

lemma set_by_option_put:
  assumes f: "found s n a w1" and t: "well_typed (fstate_of a w1)"
    and c: "current (fstate_of a w1) = Some u" "same_type u v"
    and k: "f_kind (the_flag a w1) \<noteq> UnsetType"
  shows "set_by_option s a v w1 (put_flag a (store v (marked n (fstate_of a w1))) w1)"
proof -
  let ?st = "store v (marked n (fstate_of a w1))"
  have "evolves (marked n (fstate_of a w1)) ?st" using c by (intro store_evolves) simp_all
  then have "well_typed ?st" using well_typed_marked[OF t] by (simp add: evolves_def)
  then have "flag_Value ?st = Some v"
    using k c found_dest[OF f] by (simp add: flag_Value_current current_store)
  then show ?thesis
    using found_dest[OF f] by (simp add: set_by_option_def store_simps)
qed

text \<open>A Boolean option: the value after \<open>=\<close> is not looked at, the name decides.\<close>

lemma ParseBool_words: "ParseBool ''true'' = Inr True" "ParseBool ''false'' = Inr False"
  by (simp_all add: ParseBool_def)

lemma parse_boolean_option:
  assumes f: "found s n a w" and k: "f_kind (the_flag a w) = BooleanType"
    and c: "current (fstate_of a w) = Some (VBool b0)"
  shows "parse_named env s nxt word n val w =
           Ret (put_flag a (store (VBool (\<not> HasPrefix n ''no-'')) (marked n (fstate_of a w))) w) False"
  using found_dest[OF f] k c
  by (simp add: parse_named_def set_marked[where n = n] setValue_boolean ParseBool_words Let_def)

lemma parse_integer_option:
  assumes f: "found s n a w" and k: "f_kind (the_flag a w) = IntegerType"
  shows "parse_named env s nxt word n (Some v) w =
           Fail (put_flag a (marked n (fstate_of a w)) w) (ErrFlag ErrInvalidType)"
  using found_dest[OF f] k
  by (simp add: parse_named_def set_marked[where n = n] setValue_integer Let_def)

section \<open>Short options\<close>

lemma parse_short_increments:
  assumes "byte_string c = n" and "found s n a w" and "f_kind (the_flag a w) = IncrementType"
    and "current (fstate_of a w) = Some (VInt64 i)" and "0 < k"
  shows "parse_short env s nxt (replicate k c) w =
           Ret (put_flag a (store (VInt64 (i + of_nat k)) (marked n (fstate_of a w))) w) False"
  using assms(2-)
proof (induction k arbitrary: i w)
  case 0
  then show ?case by simp
next
  case (Suc k)
  let ?st = "store (VInt64 (i + 1)) (marked n (fstate_of a w))"
  let ?w = "put_flag a ?st w"
  note f = found_dest[OF Suc.prems(1)]
  have m: "on_flag a (markCalled n) w = Ret (put_flag a (marked n (fstate_of a w)) w) ()"
    using f(3-5) by (simp add: on_flag_eq markCalled_Ret marked_def)
  have set: "setValue env v (marked n (fstate_of a w)) = Ret ?st ()" for v
    using f(6) Suc.prems(2,3) unfolding f(7) by (intro setValue_increment) simp_all
  have one: "parse_short env s nxt (c # bs) w = parse_short env s nxt bs ?w" for bs
  proof -
    have "f_kind (the_flag a (put_flag a (marked n (fstate_of a w)) w)) = IncrementType"
      using f Suc.prems(2) by (simp add: store_simps)
    moreover have "on_flag a (setValue env v) (put_flag a (marked n (fstate_of a w)) w) = Ret ?w ()" for v
      using f(3) by (simp add: on_flag_eq store_simps set)
    ultimately show ?thesis
      using f(2) by (simp add: assms(1) m)
  qed
  have nxt: "found s n a ?w" "f_kind (the_flag a ?w) = IncrementType"
    "current (fstate_of a ?w) = Some (VInt64 (i + 1))"
    using f Suc.prems by (auto intro!: found_put simp: store_simps current_store)
  have again: "marked n ?st = store (VInt64 (i + 1)) (marked n (fstate_of a w))"
    by (simp add: marked_def store_def split: val.split prod.split)
  show ?case
  proof (cases "k = 0")
    case True
    then show ?thesis by (simp add: one del: parse_short.simps(2))
  next
    case False
    with Suc.IH[OF nxt] show ?thesis
      using f by (simp add: one again store_simps add.assoc del: parse_short.simps(2))
  qed
qed

text \<open>Unknown letters of a short word in the pass mode.\<close>

lemma parse_short_unknown:
  assumes "s < length (w_sets w)" and "s_unknownHandling (the_set s w) = PassOnUnknown"
    and "\<forall>b \<in> set bs. s_flagMap (the_set s w) (byte_string b) = None"
  shows "parse_short env s nxt bs w =
    Ret (upd_set s (\<lambda>t. t\<lparr>s_remaining := s_remaining t @ map (\<lambda>i. CHR ''-'' # drop i bs) [0..<length bs],
                         s_unknownFlags := s_unknownFlags t @ map byte_string bs\<rparr>) w) False"
  using assms
proof (induction bs arbitrary: w)
  case Nil
  then show ?case by (simp add: upd_set_def the_set_def)
next
  case (Cons b bs)
  have idx: "map (\<lambda>i. CHR ''-'' # drop i (b # bs)) [0..<length (b # bs)] =
      (CHR ''-'' # b # bs) # map (\<lambda>i. CHR ''-'' # drop i bs) [0..<length bs]"
    by (simp add: upt_conv_Cons map_Suc_upt[symmetric] del: upt_Suc)
  show ?case
    using Cons unfolding idx
    by (simp add: flagNotFound_def add_unknown_def store_simps Let_def)
qed

section \<open>Positional arguments\<close>

lemma parse_args_positional:
  assumes "s < length (w_sets w)" and "\<forall>p \<in> set ps. \<not> HasPrefix p ''-''"
  shows "parse_args env s (ps @ args) w = parse_args env s args (add_remaining s ps w)"
  using assms
proof (induction ps arbitrary: w)
  case Nil
  then show ?case by (simp add: add_remaining_def upd_set_def the_set_def)
next
  case (Cons p ps)
  from Cons.prems have "p \<noteq> ''--''" "\<not> HasPrefix p ''--''" "\<not> HasPrefix p ''-''"
    by (auto simp: HasPrefix_iff)
  with Cons show ?case by (simp add: add_remaining_def store_simps)
qed

section \<open>An example set\<close>

definition no_world :: "'fl world" where
  "no_world = \<lparr>w_cells = [], w_flags = [], w_groups = [], w_sets = []\<rparr>"

text \<open>No environment variable is set, and the attached functions do nothing.\<close>

definition quiet_env :: "unit goenv" where
  "quiet_env = \<lparr>e_getenv = (\<lambda>_. []), e_parseFloat = (\<lambda>_. Inr ()), e_zeroFloat = (),
     e_processor = (\<lambda>p v st. Ret st v), e_callback = (\<lambda>c st. Ret st ())\<rparr>"

lemma quiet_env_well_behaved: "well_behaved quiet_env"
  by (simp add: well_behaved_def quiet_env_def)

text \<open>A set built with the constructors: one flag of each kind the examples use.\<close>

definition demo_of :: "(unit world, set_error, nat) outcome" where
  "demo_of =
     bind_o (NewSet ''demo'' [SetUnknownMode PassOnUnknown]
               no_world) (\<lambda>w s.
     bind_o (Group_String 0 ''name'' [ShortName 110, Required] w) (\<lambda>w _.
     bind_o (Group_Array 0 ''tag'' StringType [] w) (\<lambda>w _.
     bind_o (Group_Increment 0 ''verbose'' [ShortName 118] w) (\<lambda>w _.
     bind_o (Group_Bool 0 ''debug'' [] w) (\<lambda>w _.
     bind_o (Group_Integer 0 ''count'' [] w) (\<lambda>w _. Ret w s))))))"

definition demo_flag :: "string \<Rightarrow> FType \<Rightarrow> FType \<Rightarrow> unit val \<Rightarrow> unit flag" where
  "demo_flag n k t v = (empty_flag n k 0)\<lparr>f_subkind := t, f_value := v\<rparr>"

definition demo_flags :: "unit val list \<Rightarrow> unit flag list" where
  "demo_flags vs =
     [(demo_flag ''name'' StringType UnsetType (vs ! 0))\<lparr>f_shortName := 110, f_required := True\<rparr>,
      demo_flag ''tag'' ArrayType StringType (vs ! 1),
      (demo_flag ''verbose'' IncrementType IntegerType (vs ! 2))\<lparr>f_shortName := 118\<rparr>,
      (demo_flag ''debug'' BooleanType UnsetType (vs ! 3))\<lparr>f_aliases := [''no-debug'']\<rparr>,
      demo_flag ''count'' IntegerType UnsetType (vs ! 4)]"

definition demo_world :: "bool \<Rightarrow> (string \<rightharpoonup> nat) \<Rightarrow> unit val list \<Rightarrow> unit world" where
  "demo_world p m vs =
     \<lparr>w_cells = [], w_flags = demo_flags vs,
      w_groups = [\<lparr>g_flags = [0, 1, 2, 3, 4], g_hidden = False, g_name = internal_group_name, g_set = 0,
                   g_showGroupName = False\<rparr>],
      w_sets = [\<lparr>s_errorHandling = ReturnOnError, s_flagMap = m, s_groups = [0], s_name = ''demo'',
                 s_parsed = p, s_remaining = [], s_unknownFlags = [], s_unknownHandling = PassOnUnknown\<rparr>]\<rparr>"

definition demo :: "unit world" where
  "demo = demo_world False Map.empty [VNil, VNil, VNil, VNil, VNil]"

definition demo1 :: "unit world" where
  "demo1 = demo_world True
     [''name'' \<mapsto> 0, ''n'' \<mapsto> 0, ''tag'' \<mapsto> 1, ''verbose'' \<mapsto> 2, ''v'' \<mapsto> 2, ''no-debug'' \<mapsto> 3, ''debug'' \<mapsto> 3,
      ''count'' \<mapsto> 4]
     [VString [], VStrings (Some []), VInt64 0, VBool False, VInt64 0]"

lemmas demo_defs = demo_def demo1_def demo_world_def demo_flags_def demo_flag_def empty_flag_def
  internal_group_name_def the_set_def the_flag_def the_group_def

lemma demo_built: "demo_of = Ret demo 0"
  by (simp add: demo_of_def no_world_def demo_defs NewSet_def NewGroup_def newGroup_def SetUnknownMode_def
      HideGroupName_def upd_set_def upd_group_def Group_String_def Group_Array_def Group_Increment_def
      Group_Bool_def Group_Integer_def newFlag_def on_flag_def put_flag_def modifier_defs Let_def)

lemma demo_flags_of: "Set_Flags 0 demo = [0, 1, 2, 3, 4]"
  by (simp add: Set_Flags_def demo_defs)

lemma demo_ready: "set_ready 0 demo"
  unfolding set_ready_def demo_flags_of
  by (simp add: init_ready_def fstate_of_def valid_kind_def demo_defs)

lemma rune_demo: "rune_string 110 = ''n''" "rune_string 118 = ''v''"
  by (code_simp, code_simp)

lemma demo_init: "initFlags quiet_env 0 (upd_set 0 (\<lambda>t. t\<lparr>s_parsed := True\<rparr>) demo) = Ret demo1 ()"
  unfolding initFlags_def Set_Flags_upd_set[of "\<lambda>t. t\<lparr>s_parsed := True\<rparr>", simplified] demo_flags_of
  by (simp add: on_flag_def flag_init_def init_from_env_def zero_value_def quiet_env_def flag_names_def
      put_flag_def upd_set_def rune_demo demo_defs)

lemma demo_prepared:
  assumes "a < 5" and "n \<in> set (flag_names (the_flag a demo))"
  shows "prepared quiet_env 0 a n demo demo1"
proof -
  have "plain (the_flag a demo)"
    using assms(1) by (auto simp: demo_defs plain_def nth_Cons split: nat.split)
  with assms demo_ready demo_init quiet_env_well_behaved show ?thesis
    by (auto simp: prepared_def demo_flags_of) (simp_all add: demo_defs)
qed

section \<open>Properties\<close>

text \<open>C4: A command line never makes the parser panic: on a set whose flags are unused, of valid kinds and with
  custom variables of their types, \<open>Parse\<close> in the mode that returns errors either returns or gives an
  error, and either way every name of the flag map leads to a flag of that name holding a value of its
  type. Callbacks and processors are assumed not to panic and to keep the types.\<close>

theorem parse_never_panics:
  assumes "well_behaved env" and "set_ready s w" and "s_errorHandling (the_set s w) = ReturnOnError"
  shows "holds_on (parse_inv ReturnOnError s) (Parse env s args w)"
  using assms by (rule Parse_holds)

theorem parse_never_panics_witness:
  "holds_on (parse_inv ReturnOnError 0) (Parse quiet_env 0 [''--tag'', ''--'', ''-vx'', ''--count=1''] demo)"
  by (rule parse_never_panics[OF quiet_env_well_behaved demo_ready]) (simp add: demo_defs)

text \<open>After \<open>initFlags\<close> succeeds the flag map is exactly the naming of the set: a name leads to a flag
  just when the flag belongs to the set and has it as long name, alias or (when it has one) short
  name. So two flags of a set that is ready share no name.\<close>

theorem flag_map_exact:
  assumes "well_behaved env" and "set_ready s w"
    and "initFlags env s (upd_set s (\<lambda>t. t\<lparr>s_parsed := True\<rparr>) w) = Ret w' u"
  shows "s_flagMap (the_set s w') n = Some a
           \<longleftrightarrow> a \<in> set (Set_Flags s w) \<and> n \<in> set (flag_names (the_flag a w))"
proof -
  have names: "flag_names (the_flag b w') = flag_names (the_flag b w)" if "b \<in> set (Set_Flags s w)" for b
    using initFlags_maps[OF assms] that assms(2)
    by (intro flag_names_shape) (simp add: shapes_kept_def set_ready_def)
  have empty: "s_flagMap (the_set s (upd_set s (\<lambda>t. t\<lparr>s_parsed := True\<rparr>) w)) = Map.empty"
    using assms(2) by (simp add: set_ready_def store_simps)
  from initFlags_maps[OF assms] have maps: "maps_names (Set_Flags s w) (upd_set s (\<lambda>t. t\<lparr>s_parsed := True\<rparr>) w) s w'"
    by blast
  have fwd: "a \<in> set (Set_Flags s w) \<Longrightarrow> n \<in> set (flag_names (the_flag a w')) \<Longrightarrow> s_flagMap (the_set s w') n = Some a"
    using maps by (simp add: maps_names_def)
  have "s_flagMap (the_set s w') n = Some a \<longrightarrow>
      a \<in> set (Set_Flags s w) \<and> n \<in> set (flag_names (the_flag a w'))"
    using maps[unfolded maps_names_def, THEN conjunct2, THEN conjunct2, THEN spec, of n, THEN spec, of a]
    by (simp add: empty)
  with fwd show ?thesis using names[of a] by auto
qed

theorem flag_map_exact_witness:
  "s_flagMap (the_set 0 demo1) ''no-debug'' = Some 3
     \<longleftrightarrow> 3 \<in> set (Set_Flags 0 demo) \<and> ''no-debug'' \<in> set (flag_names (the_flag 3 demo))"
  by (rule flag_map_exact[OF quiet_env_well_behaved demo_ready demo_init])

text \<open>\<open>--name=value\<close> gives a string flag exactly that value, for every value, also one that holds
  \<open>=\<close>, spaces or dashes or is empty; it marks the flag as called and updated and changes no other flag.\<close>

theorem string_option_value:
  assumes "prepared env s a n w w1" and "f_kind (the_flag a w) = StringType" and "CHR ''='' \<notin> set n"
  shows "\<exists>w'. Parse env s [''--'' @ n @ ''='' @ v] w = Ret w' (s_remaining (the_set s w))
           \<and> set_by_option s a (VString v) w1 w'"
proof -
  note f = prepared_found[OF assms(1)] and k = prepared_kind[OF assms(1)]
  obtain t where c: "current (fstate_of a w1) = Some (VString t)"
    using current_scalar(4)[OF f(2)] k assms(2) by (auto simp: fstate_of_def)
  let ?w = "put_flag a (store (VString v) (marked n (fstate_of a w1))) w1"
  have "parse_long env s None (''--'' @ n @ ''='' @ v) w1 = Ret ?w False"
    using parse_string_option[OF f(1) _ c assms(3)] k assms(2) by simp
  from Parse_one[OF assms(1) this] have "Parse env s [''--'' @ n @ ''='' @ v] w = Ret ?w (s_remaining (the_set s w))"
    using f(4) by (simp add: store_simps)
  moreover have "set_by_option s a (VString v) w1 ?w"
    using k assms(2) by (intro set_by_option_put[OF f(1,2) c]) (simp_all add: same_type_def)
  ultimately show ?thesis by blast
qed

theorem string_option_value_witness:
  "\<exists>w'. Parse quiet_env 0 [''--'' @ ''name'' @ ''='' @ ''a=b''] demo = Ret w' (s_remaining (the_set 0 demo))
     \<and> set_by_option 0 0 (VString ''a=b'') demo1 w'"
  by (rule string_option_value[OF demo_prepared]) (simp_all add: demo_defs flag_names_def)

text \<open>An array option given repeatedly collects its values in the order of the command line, after those
  the flag already holds; every value is kept, duplicates too.\<close>

theorem array_option_collects:
  assumes "prepared env s a n w w1" and "f_kind (the_flag a w) = ArrayType"
    and "f_subkind (the_flag a w) = StringType" and "CHR ''='' \<notin> set n"
    and "current (fstate_of a w1) = Some (VStrings (Some xs))"
  shows "\<exists>w'. Parse env s (map (\<lambda>v. ''--'' @ n @ ''='' @ v) vs) w = Ret w' (s_remaining (the_set s w))
           \<and> current (fstate_of a w') = Some (VStrings (Some (xs @ vs)))"
proof -
  note f = prepared_found[OF assms(1)] and k = prepared_kind[OF assms(1)]
  from parse_array_options[OF f(1) _ _ assms(5,4), of env vs] k assms(2,3) obtain w' where
    "parse_args env s (map (\<lambda>v. ''--'' @ n @ ''='' @ v) vs) w1 = Ret w' ()"
    "current (fstate_of a w') = Some (VStrings (Some (xs @ vs)))" "the_set s w' = the_set s w1" by auto
  with f(4) show ?thesis by (simp add: Parse_prepared[OF assms(1)])
qed

theorem array_option_collects_witness:
  "\<exists>w'. Parse quiet_env 0 (map (\<lambda>v. ''--'' @ ''tag'' @ ''='' @ v) [''x'', ''y'', ''x'']) demo
          = Ret w' (s_remaining (the_set 0 demo))
     \<and> current (fstate_of 1 w') = Some (VStrings (Some ([] @ [''x'', ''y'', ''x''])))"
  by (rule array_option_collects[OF demo_prepared])
    (simp_all add: demo_defs flag_names_def fstate_of_def current_def)

text \<open>A short increment flag counts its letters: \<open>-vvv\<close> adds three. The counter is 64 bits wide and wraps.\<close>

theorem increment_option_counts:
  assumes "prepared env s a n w w1" and "f_kind (the_flag a w) = IncrementType"
    and "byte_string c = n" and "c \<noteq> CHR ''-''" and "0 < k"
    and "current (fstate_of a w1) = Some (VInt64 i)"
  shows "\<exists>w'. Parse env s [''-'' @ replicate k c] w = Ret w' (s_remaining (the_set s w))
           \<and> set_by_option s a (VInt64 (i + of_nat k)) w1 w'"
proof -
  note f = prepared_found[OF assms(1)] and kd = prepared_kind[OF assms(1)]
  let ?w = "put_flag a (store (VInt64 (i + of_nat k)) (marked n (fstate_of a w1))) w1"
  have "\<not> HasPrefix (''-'' @ replicate k c) ''--''"
    using assms(4,5) by (cases k) simp_all
  moreover have "parse_short env s None (replicate k c) w1 = Ret ?w False"
    using kd assms(2) by (intro parse_short_increments[OF assms(3) f(1) _ assms(6,5)]) simp
  ultimately have "parse_args env s [''-'' @ replicate k c] w1 = Ret ?w ()"
    using HasPrefix_append by (auto simp: next_arg_def)
  then have "Parse env s [''-'' @ replicate k c] w = Ret ?w (s_remaining (the_set s w))"
    using f(4) by (simp add: Parse_prepared[OF assms(1)] store_simps)
  moreover have "set_by_option s a (VInt64 (i + of_nat k)) w1 ?w"
    using kd assms(2) by (intro set_by_option_put[OF f(1,2) assms(6)]) (simp_all add: same_type_def)
  ultimately show ?thesis by blast
qed

theorem increment_option_counts_witness:
  "\<exists>w'. Parse quiet_env 0 [''-'' @ replicate 3 (CHR ''v'')] demo = Ret w' (s_remaining (the_set 0 demo))
     \<and> set_by_option 0 2 (VInt64 (0 + of_nat 3)) demo1 w'"
  by (rule increment_option_counts[OF demo_prepared])
    (simp_all add: demo_defs flag_names_def fstate_of_def current_def rune_demo byte_string_ascii)

text \<open>A Boolean option is decided by its name alone: a name that starts with \<open>no-\<close> sets it to false, any
  other name to true. What follows \<open>=\<close> is not read, so \<open>--debug=false\<close> sets the flag to true.\<close>

theorem boolean_option_ignores_value:
  assumes "prepared env s a n w w1" and "f_kind (the_flag a w) = BooleanType" and "CHR ''='' \<notin> set n"
  shows "\<exists>w'. Parse env s [''--'' @ n @ ''='' @ v] w = Ret w' (s_remaining (the_set s w))
           \<and> set_by_option s a (VBool (\<not> HasPrefix n ''no-'')) w1 w'"
proof -
  note f = prepared_found[OF assms(1)] and k = prepared_kind[OF assms(1)]
  obtain b0 where c: "current (fstate_of a w1) = Some (VBool b0)"
    using current_scalar(1)[OF f(2)] k assms(2) by (auto simp: fstate_of_def)
  let ?w = "put_flag a (store (VBool (\<not> HasPrefix n ''no-'')) (marked n (fstate_of a w1))) w1"
  have "parse_long env s None (''--'' @ n @ ''='' @ v) w1 = Ret ?w False"
    unfolding parse_long_value[OF assms(3)] using k assms(2) by (intro parse_boolean_option[OF f(1) _ c]) simp
  from Parse_one[OF assms(1) this] have "Parse env s [''--'' @ n @ ''='' @ v] w = Ret ?w (s_remaining (the_set s w))"
    using f(4) by (simp add: store_simps)
  moreover have "set_by_option s a (VBool (\<not> HasPrefix n ''no-'')) w1 ?w"
    using k assms(2) by (intro set_by_option_put[OF f(1,2) c]) (simp_all add: same_type_def)
  ultimately show ?thesis by blast
qed

theorem boolean_option_ignores_value_witness:
  "\<exists>w'. Parse quiet_env 0 [''--'' @ ''debug'' @ ''='' @ ''false''] demo = Ret w' (s_remaining (the_set 0 demo))
     \<and> set_by_option 0 3 (VBool (\<not> HasPrefix ''debug'' ''no-'')) demo1 w'"
  by (rule boolean_option_ignores_value[OF demo_prepared]) (simp_all add: demo_defs flag_names_def)

text \<open>An integer flag cannot be set from the command line: whatever the value, \<open>--name=value\<close> ends in the
  error for an invalid type, because \<open>setValue\<close> has no branch for integers.\<close>

theorem integer_option_always_fails:
  assumes "prepared env s a n w w1" and "f_kind (the_flag a w) = IntegerType" and "CHR ''='' \<notin> set n"
  shows "\<exists>w'. Parse env s [''--'' @ n @ ''='' @ v] w = Fail w' (ErrFlag ErrInvalidType)"
proof -
  note f = prepared_found[OF assms(1)] and k = prepared_kind[OF assms(1)]
  have "parse_long env s None (''--'' @ n @ ''='' @ v) w1 =
      Fail (put_flag a (marked n (fstate_of a w1)) w1) (ErrFlag ErrInvalidType)"
    unfolding parse_long_value[OF assms(3)] using k assms(2) by (intro parse_integer_option[OF f(1)]) simp
  then show ?thesis
    using f(5) by (simp add: Parse_prepared[OF assms(1)] next_arg_def store_simps)
qed

theorem integer_option_always_fails_witness:
  "\<exists>w'. Parse quiet_env 0 [''--'' @ ''count'' @ ''='' @ ''5''] demo = Fail w' (ErrFlag ErrInvalidType)"
  by (rule integer_option_always_fails[OF demo_prepared[of 4]]) (simp_all add: demo_defs flag_names_def)

text \<open>Arguments that do not start with a dash are collected in order, and \<open>--\<close> ends the parse: everything
  after it is kept unparsed. The \<open>--\<close> itself is kept when something was collected before it.\<close>

theorem positional_and_terminator:
  assumes "s < length (w_sets w)" and "\<forall>p \<in> set ps. \<not> HasPrefix p ''-''" and "rest \<noteq> []"
  shows "\<exists>w'. parse_args env s (ps @ ''--'' # rest) w = Ret w' ()
           \<and> s_remaining (the_set s w') =
               (let before = s_remaining (the_set s w) @ ps
                in before @ (if before = [] then rest else ''--'' # rest))
           \<and> w_flags w' = w_flags w"
proof -
  have "parse_args env s (ps @ ''--'' # rest) w = parse_args env s (''--'' # rest) (add_remaining s ps w)"
    by (rule parse_args_positional[OF assms(1,2)])
  then show ?thesis
    using assms(1,3) by (auto simp: add_remaining_def store_simps Let_def) (simp_all add: upd_set_def)
qed

theorem positional_and_terminator_witness:
  "\<exists>w'. parse_args quiet_env 0 ([''up''] @ ''--'' # [''-x'']) demo1 = Ret w' ()
     \<and> s_remaining (the_set 0 w') =
         (let before = s_remaining (the_set 0 demo1) @ [''up'']
          in before @ (if before = [] then [''-x''] else ''--'' # [''-x'']))
     \<and> w_flags w' = w_flags demo1"
  by (rule positional_and_terminator) (simp_all add: demo_defs)

text \<open>In the mode that passes unknown flags on, a short word of unknown letters is not passed on once: the
  word and every suffix of it are appended, so \<open>-abc\<close> becomes \<open>-abc -bc -c\<close>.\<close>

theorem unknown_short_word_repeated:
  assumes "s < length (w_sets w)" and "s_unknownHandling (the_set s w) = PassOnUnknown"
    and "\<forall>b \<in> set bs. s_flagMap (the_set s w) (byte_string b) = None"
  shows "\<exists>w'. parse_short env s nxt bs w = Ret w' False
           \<and> s_remaining (the_set s w') =
               s_remaining (the_set s w) @ map (\<lambda>i. CHR ''-'' # drop i bs) [0..<length bs]"
  using assms(1) by (simp add: parse_short_unknown[OF assms] store_simps)

theorem unknown_short_word_repeated_witness:
  "\<exists>w'. parse_short quiet_env 0 None ''abc'' demo1 = Ret w' False
     \<and> s_remaining (the_set 0 w') =
         s_remaining (the_set 0 demo1) @ map (\<lambda>i. CHR ''-'' # drop i ''abc'') [0..<length ''abc'']"
  by (rule unknown_short_word_repeated) (simp_all add: demo_defs byte_string_ascii)

text \<open>\<open>Required\<close> is not enforced: \<open>Parse\<close> succeeds on an empty command line although
  \<open>validateFlags\<close>, whose result it drops, would name a required flag that was not given.\<close>

theorem required_not_enforced:
  "\<exists>w'. Parse quiet_env 0 [] demo = Ret w' [] \<and> validateFlags 0 w' = [''name'']"
proof -
  have "Set_Flags 0 demo1 = [0, 1, 2, 3, 4]" by (simp add: Set_Flags_def demo_defs)
  then have "validateFlags 0 demo1 = [''name'']" by (simp add: validateFlags_def) (simp add: demo_defs)
  moreover have "prepared quiet_env 0 0 ''name'' demo demo1"
    by (rule demo_prepared) (simp_all add: demo_defs flag_names_def)
  then have "Parse quiet_env 0 [] demo = Ret demo1 []"
    by (simp add: Parse_prepared) (simp add: demo_defs)
  ultimately show ?thesis by blast
qed

text \<open>C39: \<open>setValue\<close> is type sound: on a flag whose value has its type, any argument either is rejected or
  leaves a value of the type, and it never panics (no failing type assertion, no write to a nil map);
  names, kind and attachments stay, and every variable cell keeps its Go type.\<close>

theorem setValue_type_sound:
  assumes "well_behaved env" and "well_typed st"
  shows "holds_on (\<lambda>st'. well_typed st' \<and> same_shape (snd st) (snd st')
                     \<and> list_all2 same_type (fst st) (fst st')) (setValue env v st)"
  by (rule holds_on_mono[OF setValue_sound[OF assms]]) (use assms(2) in \<open>auto simp: evolves_def\<close>)

theorem setValue_type_sound_witness:
  "let st = ([], the_flag 1 demo1) in
     holds_on (\<lambda>st'. well_typed st' \<and> same_shape (snd st) (snd st') \<and> list_all2 same_type (fst st) (fst st'))
       (setValue quiet_env ''x'' st)"
  unfolding Let_def
  by (rule setValue_type_sound[OF quiet_env_well_behaved]) (simp add: well_typed_def current_def typeCheck.simps demo_defs)

text \<open>Groups have one owner: after any sequence of creating sets, creating groups and moving groups
  between sets, starting from nothing, each group is in the list of exactly one set.\<close>

theorem groups_have_one_owner:
  "\<forall>g < length (w_groups (fold set_step ops (no_world :: 'fl world))).
     \<exists>!s. s < length (w_sets (fold set_step ops (no_world :: 'fl world)))
        \<and> g \<in> set (s_groups (the_set s (fold set_step ops (no_world :: 'fl world))))"
proof (intro allI impI)
  fix g assume g: "g < length (w_groups (fold set_step ops (no_world :: 'fl world)))"
  let ?w = "fold set_step ops (no_world :: 'fl world)"
  have "owned ?w" by (rule sets.run_inv) (simp add: owned_def owned_lists_def no_world_def)
  note D = owned_listsD[OF this[unfolded owned_def]]
  have own: "g_set (the_group g ?w) < length (w_sets ?w)"
    "g \<in> set (s_groups (the_set (g_set (the_group g ?w)) ?w))"
    using D(4,5)[of g] g by (simp_all add: owned_the del: nth_map)
  have "s = g_set (the_group g ?w)" if "s < length (w_sets ?w)" "g \<in> set (s_groups (the_set s ?w))" for s
    using D(3)[of s g] that g by (simp add: owned_the del: nth_map)
  with own show "\<exists>!s. s < length (w_sets ?w) \<and> g \<in> set (s_groups (the_set s ?w))" by blast
qed

theorem groups_have_one_owner_witness:
  "let w = fold set_step
       [OpNewSet ''a'' ReturnOnError ErrorOnUnknown, OpNewSet ''b'' ReturnOnError ErrorOnUnknown,
        OpNewGroup 0 ''g'' False, OpAddGroup 1 2] (no_world :: unit world)
   in \<exists>!s. s < length (w_sets w) \<and> 2 \<in> set (s_groups (the_set s w))"
  unfolding Let_def
  by (rule groups_have_one_owner[rule_format])
    (simp add: NewSet_def NewGroup_def newGroup_def AddGroup_def left_by_def Let_def upd_set_def the_set_def
      upd_group_def the_group_def SetErrorMode_def SetUnknownMode_def HideGroupName_def internal_group_name_def
      remove_nth_def no_world_def)

text \<open>\<open>AddGroup\<close> moves a group: it is refused exactly when the set already has the group; otherwise the
  group becomes the last of that set, leaves the set it was in, and no other list changes its members.\<close>

theorem AddGroup_moves:
  assumes "owned w" and "s < length (w_sets w)" and "g < length (w_groups w)"
  shows "if g \<in> set (s_groups (the_set s w)) then AddGroup s g w = Fail w ErrGroupInSet
         else \<exists>w'. AddGroup s g w = Ret w' () \<and> owned w'
                \<and> s_groups (the_set s w') = s_groups (the_set s w) @ [g]
                \<and> (\<forall>t < length (w_sets w). t \<noteq> s \<longrightarrow>
                     set (s_groups (the_set t w')) = set (s_groups (the_set t w)) - {g})"
  using AddGroup_owned[OF assms] by (auto simp: AddGroup_def)

theorem AddGroup_moves_witness:
  "owned demo \<and> AddGroup 0 0 demo = Fail demo ErrGroupInSet"
proof -
  have o: "owned demo" by (simp add: owned_def owned_lists_def demo_defs)
  with AddGroup_moves[OF o, of 0 0] show ?thesis by (simp add: demo_defs)
qed

text \<open>Printing the help text of a group panics (index out of range) exactly when the group is shown and a
  hidden flag comes before a visible one.\<close>

theorem display_panics_iff:
  "Group_Display indent g w = None \<longleftrightarrow>
     \<not> g_hidden (the_group g w)
     \<and> (\<exists>i j. i < j \<and> j < length (g_flags (the_group g w))
          \<and> f_hidden (the_flag (g_flags (the_group g w) ! i) w)
          \<and> \<not> f_hidden (the_flag (g_flags (the_group g w) ! j) w))"
  unfolding Group_Display_None gap_after_hidden_def by (auto intro!: exI cong: conj_cong)

text \<open>An array flag cannot be given a default: the constructor adds the element type after the caller's
  modifiers, so \<open>DefaultValue\<close> always meets an unset element type and panics, whatever the value.\<close>

theorem array_default_always_panics:
  "Group_Array g name t [DefaultValue v] w = Crash ''invalid variable type''
   \<and> Group_Map g name t [DefaultValue v] w = Crash ''invalid variable type''"
  by (simp add: Group_Array_def Group_Map_def newFlag_def on_flag_def the_flag_def empty_flag_def
      DefaultValue_def upd_group_def typeCheck.simps Let_def)

end
