(* ===== verification/LogBuffer.thy ===== *)
theory LogBuffer
  imports Prelude "HOL-Library.Sublist"
begin

text \<open>
  \<open>internal/server/logbuffer/logbuffer.go\<close>: the buffer that job output is streamed through. Chunks live
  in a heap (a list, a chunk's address is its position) because a reader keeps reading its old
  chunk list after the writer has moved on; a slice of chunks is a base address and a length. The
  package variables \<open>chunkCount\<close> and \<open>chunkSize\<close> are the arguments \<open>cc\<close> and \<open>cs\<close>.

  A read that would wait on the condition variable is the result \<open>Blocked\<close>; it changes nothing, and
  waking up is running it again. Loading \<open>idx\<close> is the only access of a read to data that a writer
  changes, so a read is one step; a write is a loop of steps, one per chunk.
\<close>

section \<open>Chunks\<close>

text \<open>An entry is an interface value; \<open>None\<close> is nil. A nil buffer is the empty list.\<close>

record 'e chunk =
  c_idx :: nat
  c_buffer :: "'e option list"

definition atEnd :: "'e chunk \<Rightarrow> nat \<Rightarrow> bool" where
  "atEnd w cursor \<longleftrightarrow> 0 < cursor \<and> length (c_buffer w) \<le> cursor"

definition full :: "'e chunk \<Rightarrow> bool" where
  "full w \<longleftrightarrow> atEnd w (c_idx w)"

definition chunk_size :: "'e chunk \<Rightarrow> nat" where
  "chunk_size w = c_idx w"

text \<open>\<open>copy\<close> into the buffer from position \<open>i\<close>.\<close>

definition copy_at :: "nat \<Rightarrow> 'a list \<Rightarrow> 'a list \<Rightarrow> 'a list" where
  "copy_at i xs buf = take i buf @ take (length buf - i) xs @ drop (i + length xs) buf"

definition chunk_write :: "nat \<Rightarrow> 'e option list \<Rightarrow> 'e chunk \<Rightarrow> 'e chunk \<times> nat" where
  "chunk_write cs entries w =
     (let buf = (if c_buffer w = [] then replicate cs None else c_buffer w);
          n = min (length buf - c_idx w) (length entries)
      in (w\<lparr>c_buffer := copy_at (c_idx w) entries buf, c_idx := c_idx w + n\<rparr>, n))"

text \<open>\<open>read\<close>: the slice and the new cursor, or \<open>None\<close> when it has to wait.\<close>

definition chunk_read :: "'e chunk \<Rightarrow> nat \<Rightarrow> nat \<Rightarrow> bool \<Rightarrow> ('e option list \<times> nat) option" where
  "chunk_read w current mx block =
     (let idx = c_idx w in
      if idx \<le> current then
        (if atEnd w current \<or> \<not> block then Some ([], current) else None)
      else
        let stop = (if mx < idx - current then current + mx else idx)
        in Some (take (stop - current) (drop current (c_buffer w)), stop))"

section \<open>Buffer and readers\<close>

record slice =
  sl_base :: nat
  sl_len :: nat

record reader =
  r_chunks :: slice
  r_idx :: nat
  r_cursor :: nat
  r_closed :: bool

record 'e buffer =
  b_heap :: "'e chunk list"
  b_chunks :: slice
  b_current :: nat
  b_readers :: "nat set"
  b_all :: "reader list"

datatype 'a read_result = Value 'a | Blocked

type_synonym ('e, 'a) bresult = "('e buffer, unit, 'a) outcome"

definition empty_chunk :: "'e chunk" where
  "empty_chunk = \<lparr>c_idx = 0, c_buffer = []\<rparr>"

definition make_chunks :: "nat \<Rightarrow> 'e buffer \<Rightarrow> 'e buffer" where
  "make_chunks cc b =
     b\<lparr>b_heap := b_heap b @ replicate cc empty_chunk,
       b_chunks := \<lparr>sl_base = length (b_heap b), sl_len = cc\<rparr>\<rparr>"

definition New :: "nat \<Rightarrow> 'e buffer" where
  "New cc = make_chunks cc
     \<lparr>b_heap = [], b_chunks = \<lparr>sl_base = 0, sl_len = 0\<rparr>, b_current = 0, b_readers = {}, b_all = []\<rparr>"

definition slice_from :: "nat \<Rightarrow> slice \<Rightarrow> slice" where
  "slice_from i sl = \<lparr>sl_base = sl_base sl + i, sl_len = sl_len sl - i\<rparr>"

text \<open>One round of the loop of \<open>Write\<close>: what fits into the current chunk, then the move to the next
  chunk or to a new window. The second part is the number of entries written.\<close>

definition write_step :: "nat \<Rightarrow> nat \<Rightarrow> 'e option list \<Rightarrow> 'e buffer \<Rightarrow> 'e buffer \<times> nat" where
  "write_step cc cs entries b =
     (let a = sl_base (b_chunks b) + b_current b;
          (w, n) = chunk_write cs entries (b_heap b ! a);
          b1 = b\<lparr>b_heap := (b_heap b)[a := w]\<rparr>
      in if full w then
           let b2 = b1\<lparr>b_current := b_current b1 + 1\<rparr>
           in if sl_len (b_chunks b2) \<le> b_current b2 then ((make_chunks cc b2)\<lparr>b_current := 0\<rparr>, n)
              else (b2, n)
         else (b1, n))"

text \<open>The loop might not end on a state that is not well formed, so the result is optional.\<close>

partial_function (option) Write :: "nat \<Rightarrow> nat \<Rightarrow> 'e option list \<Rightarrow> 'e buffer \<Rightarrow> 'e buffer option" where
  "Write cc cs entries b =
     (if entries = [] then Some b
      else let (b', n) = write_step cc cs entries b in Write cc cs (drop n entries) b')"

definition add_reader :: "slice \<Rightarrow> nat \<Rightarrow> 'e buffer \<Rightarrow> 'e buffer \<times> nat" where
  "add_reader sl cur b =
     (b\<lparr>b_all := b_all b @ [\<lparr>r_chunks = sl, r_idx = 0, r_cursor = cur, r_closed = False\<rparr>],
        b_readers := insert (length (b_all b)) (b_readers b)\<rparr>, length (b_all b))"

text \<open>The loop over the chunks that looks for a limited history. It goes on after it has found the
  place, and it indexes the slice it has just shortened: past its end that panics (\<open>None\<close>).\<close>

fun history_loop :: "'e buffer \<Rightarrow> nat \<Rightarrow> nat \<Rightarrow> nat \<Rightarrow> slice \<Rightarrow> nat \<Rightarrow> (slice \<times> nat) option" where
  "history_loop b mh i size0 chunks cursor =
     (if i < sl_len chunks then
        let size1 = size0 + chunk_size (b_heap b ! (sl_base chunks + i));
            (chunks', cursor') = (if mh < size1 then (slice_from i (b_chunks b), size1 - mh) else (chunks, cursor))
        in (case i of 0 \<Rightarrow> Some (chunks', cursor') | Suc j \<Rightarrow> history_loop b mh j size1 chunks' cursor')
      else None)"

declare history_loop.simps [simp del]

definition Buffer_Reader :: "int \<Rightarrow> 'e buffer \<Rightarrow> ('e, nat) bresult" where
  "Buffer_Reader maxHistory b =
     (if maxHistory < 0 then (case add_reader (b_chunks b) 0 b of (b', r) \<Rightarrow> Ret b' r)
      else if maxHistory = 0 then
        (let sl = slice_from (b_current b) (b_chunks b)
         in case add_reader sl (chunk_size (b_heap b ! sl_base sl)) b of (b', r) \<Rightarrow> Ret b' r)
      else
        (case history_loop b (nat maxHistory) (b_current b) 0 (b_chunks b) 0 of
           None \<Rightarrow> Crash ''index out of range''
         | Some (sl, cur) \<Rightarrow> (case add_reader sl cur b of (b', r) \<Rightarrow> Ret b' r)))"

definition upd_reader :: "nat \<Rightarrow> (reader \<Rightarrow> reader) \<Rightarrow> 'e buffer \<Rightarrow> 'e buffer" where
  "upd_reader r f b = b\<lparr>b_all := (b_all b)[r := f (b_all b ! r)]\<rparr>"

text \<open>\<open>Read\<close> of reader \<open>r\<close>; \<open>max\<close> is converted to 32 bits. At the end of its chunk list the reader takes
  the chunks of a new reader of the whole current window, which stays registered.\<close>

definition Read :: "nat \<Rightarrow> int \<Rightarrow> bool \<Rightarrow> 'e buffer \<Rightarrow> ('e, 'e option list read_result) bresult" where
  "Read r mx block b =
     (let R = b_all b ! r in
      if r_closed R then Ret b (Value [])
      else if sl_len (r_chunks R) \<le> r_idx R then Crash ''index out of range''
      else
        let w = b_heap b ! (sl_base (r_chunks R) + r_idx R) in
        case chunk_read w (r_cursor R) (unat (word_of_int mx :: 32 word)) block of
          None \<Rightarrow> Ret b Blocked
        | Some (result, cursor) \<Rightarrow>
            if \<not> atEnd w cursor then Ret (upd_reader r (\<lambda>R. R\<lparr>r_cursor := cursor\<rparr>) b) (Value result)
            else
              let b1 = upd_reader r (\<lambda>R. R\<lparr>r_idx := r_idx R + 1, r_cursor := 0\<rparr>) b in
              if r_idx R + 1 < sl_len (r_chunks R) then Ret b1 (Value result)
              else bind_o (Buffer_Reader (-1) b1) (\<lambda>b2 nr.
                     Ret (upd_reader r (\<lambda>R. R\<lparr>r_chunks := r_chunks (b_all b2 ! nr), r_idx := 0\<rparr>) b2)
                       (Value result)))"

definition Reader_Close :: "nat \<Rightarrow> 'e buffer \<Rightarrow> 'e buffer" where
  "Reader_Close r b =
     (if r_closed (b_all b ! r) then b
      else (upd_reader r (\<lambda>R. R\<lparr>r_closed := True\<rparr>) b)\<lparr>b_readers := b_readers b - {r}\<rparr>)"

text \<open>\<open>Close\<close> closes every registered reader; the order does not matter, here by address.\<close>

definition Buffer_Close :: "'e buffer \<Rightarrow> 'e buffer" where
  "Buffer_Close b =
     fold Reader_Close (filter (\<lambda>r. r \<in> b_readers b) [0..<length (b_all b)]) (b\<lparr>b_readers := {}\<rparr>)"

text \<open>\<open>CloseContext\<close> waits (\<open>None\<close>) until the context is done or the reader has been closed.\<close>

definition CloseContext :: "nat \<Rightarrow> bool \<Rightarrow> 'e buffer \<Rightarrow> 'e buffer option" where
  "CloseContext r ctx_done b =
     (if r_closed (b_all b ! r) then Some b
      else if ctx_done then Some (Reader_Close r b)
      else None)"

section \<open>The history and the invariant\<close>

definition content :: "'e chunk \<Rightarrow> 'e option list" where
  "content c = take (c_idx c) (c_buffer c)"

text \<open>Everything written so far, in order: the abstraction of the buffer.\<close>

definition hist_of :: "'e chunk list \<Rightarrow> 'e option list" where
  "hist_of hp = concat (map content hp)"

definition hist :: "'e buffer \<Rightarrow> 'e option list" where
  "hist b = hist_of (b_heap b)"

definition front :: "'e buffer \<Rightarrow> nat" where
  "front b = sl_base (b_chunks b) + b_current b"

definition filled :: "nat \<Rightarrow> 'e chunk \<Rightarrow> bool" where
  "filled cs c \<longleftrightarrow> c_idx c = cs \<and> length (c_buffer c) = cs"

definition partial :: "nat \<Rightarrow> 'e chunk \<Rightarrow> bool" where
  "partial cs c \<longleftrightarrow> c_idx c < cs \<and> (length (c_buffer c) = cs \<or> c = empty_chunk)"

text \<open>The chunks before the write position are filled, the one at it is not, those behind are empty.\<close>

definition heap_ok :: "nat \<Rightarrow> 'e chunk list \<Rightarrow> nat \<Rightarrow> bool" where
  "heap_ok cs hp G \<longleftrightarrow> G < length hp \<and> (\<forall>g < G. filled cs (hp ! g)) \<and> partial cs (hp ! G)
     \<and> (\<forall>g. G < g \<and> g < length hp \<longrightarrow> hp ! g = empty_chunk)"

definition buf_ok :: "nat \<Rightarrow> nat \<Rightarrow> 'e buffer \<Rightarrow> bool" where
  "buf_ok cc cs b \<longleftrightarrow> 0 < cs \<and> b_current b < cc \<and> sl_len (b_chunks b) = cc
     \<and> sl_base (b_chunks b) + cc = length (b_heap b) \<and> heap_ok cs (b_heap b) (front b)"

lemma content_empty [simp]: "content empty_chunk = []"
  by (simp add: content_def empty_chunk_def)

lemma content_filled: "filled cs c \<Longrightarrow> content c = c_buffer c \<and> length (content c) = cs"
  by (simp add: filled_def content_def)

lemma content_length: "filled cs c \<or> partial cs c \<Longrightarrow> length (content c) = c_idx c"
  by (auto simp: filled_def partial_def content_def empty_chunk_def)

lemma hist_of_filled: "\<forall>c \<in> set hp. filled cs c \<Longrightarrow> length (hist_of hp) = length hp * cs"
  by (induction hp) (auto simp: hist_of_def content_filled)

lemma hist_of_empty: "\<forall>c \<in> set hp. c = empty_chunk \<Longrightarrow> hist_of hp = []"
  by (induction hp) (auto simp: hist_of_def)

lemma hist_before:
  assumes "heap_ok cs hp G" and "g \<le> G"
  shows "length (hist_of (take g hp)) = g * cs"
proof -
  from assms have g: "g < length hp" and f: "filled cs (hp ! i)" if "i < g" for i
    using that by (auto simp: heap_ok_def)
  have "\<forall>c \<in> set (take g hp). filled cs c"
    using f assms by (auto simp: in_set_conv_nth)
  from hist_of_filled[OF this] assms show ?thesis by (simp add: heap_ok_def)
qed

lemma heap_split:
  assumes "heap_ok cs hp G"
  shows "hist_of hp = hist_of (take G hp) @ content (hp ! G)"
    and "length (hist_of (take G hp)) = G * cs"
    and "length (hist_of hp) = G * cs + c_idx (hp ! G)"
proof -
  from assms have G: "G < length hp" by (simp add: heap_ok_def)
  have "hist_of (drop (Suc G) hp) = []"
    using assms by (intro hist_of_empty) (auto simp: heap_ok_def in_set_conv_nth)
  moreover have "hist_of hp = hist_of (take G hp) @ content (hp ! G) @ hist_of (drop (Suc G) hp)"
    using G by (subst id_take_nth_drop[OF G]) (simp add: hist_of_def)
  ultimately show 1: "hist_of hp = hist_of (take G hp) @ content (hp ! G)" by simp
  show 2: "length (hist_of (take G hp)) = G * cs"
    by (rule hist_before[OF assms]) simp
  show "length (hist_of hp) = G * cs + c_idx (hp ! G)"
    using 1 2 assms content_length[of cs "hp ! G"] by (simp add: heap_ok_def)
qed

text \<open>A slice of a chunk is a slice of the history.\<close>

lemma chunk_slice:
  assumes ok: "heap_ok cs hp G" and g: "g \<le> G" and e: "stop \<le> c_idx (hp ! g)" and c: "cur \<le> stop"
  shows "take (stop - cur) (drop cur (c_buffer (hp ! g))) = take (stop - cur) (drop (g * cs + cur) (hist_of hp))"
proof -
  from ok g have len: "g < length hp" by (simp add: heap_ok_def)
  have pre: "length (hist_of (take g hp)) = g * cs"
    by (rule hist_before[OF ok g])
  have "hist_of hp = hist_of (take g hp) @ content (hp ! g) @ hist_of (drop (Suc g) hp)"
    by (subst id_take_nth_drop[OF len]) (simp add: hist_of_def)
  then have d: "drop (g * cs + cur) (hist_of hp) = drop cur (content (hp ! g) @ hist_of (drop (Suc g) hp))"
    using pre by simp
  have cl: "length (content (hp ! g)) = c_idx (hp ! g)"
    using ok g content_length[of cs "hp ! g"] by (cases "g = G") (auto simp: heap_ok_def)
  have "take (stop - cur) (drop cur (content (hp ! g) @ ys)) = take (stop - cur) (drop cur (content (hp ! g)))" for ys
    using cl e c by simp
  moreover have "take (stop - cur) (drop cur (content (hp ! g))) = take (stop - cur) (drop cur (c_buffer (hp ! g)))"
    using e by (simp add: content_def drop_take min_def)
  ultimately show ?thesis using d by simp
qed

section \<open>Writing\<close>

lemma copy_at_length: "length (copy_at i xs buf) = length buf"
  if "i \<le> length buf"
  using that by (simp add: copy_at_def)

lemma copy_at_take:
  assumes "i \<le> length buf" and "n = min (length buf - i) (length xs)"
  shows "take (i + n) (copy_at i xs buf) = take i buf @ take n xs"
proof -
  have "length (take i buf @ take (length buf - i) xs) = i + n" using assms by simp
  then have "take (i + n) (copy_at i xs buf) = take i buf @ take (length buf - i) xs"
    unfolding copy_at_def by (metis append.assoc append_eq_conv_conj)
  also have "take (length buf - i) xs = take n xs"
    using assms(2) by (cases "length buf - i \<le> length xs") simp_all
  finally show ?thesis .
qed

lemma chunk_write_partial:
  assumes "partial cs w" and "es \<noteq> []" and "chunk_write cs es w = (w', n)"
  shows "0 < n" "n \<le> length es" "content w' = content w @ take n es"
    "c_idx w' = c_idx w + n" "length (c_buffer w') = cs" "c_idx w' \<le> cs"
proof -
  let ?buf = "if c_buffer w = [] then replicate cs None else c_buffer w"
  from assms(1) have i: "c_idx w < cs" and len: "length ?buf = cs"
    by (auto simp: partial_def empty_chunk_def)
  from assms(3) have n: "n = min (cs - c_idx w) (length es)"
    and w': "w' = w\<lparr>c_buffer := copy_at (c_idx w) es ?buf, c_idx := c_idx w + n\<rparr>"
    by (auto simp: chunk_write_def Let_def len simp del: length_replicate split: if_splits)
  show "0 < n" using i assms(2) n by simp
  show "n \<le> length es" using n by simp
  show "c_idx w' = c_idx w + n" "c_idx w' \<le> cs" using i n by (simp_all add: w')
  show "length (c_buffer w') = cs" using i len by (simp add: w' copy_at_length)
  have "take (c_idx w) ?buf = content w"
    using assms(1) by (auto simp: content_def partial_def empty_chunk_def)
  then show "content w' = content w @ take n es"
    using copy_at_take[of "c_idx w" ?buf n es] i len n by (simp add: w' content_def del: length_replicate)
qed

lemma hist_of_update:
  assumes "heap_ok cs hp G" and "content w = content (hp ! G) @ xs"
  shows "hist_of (hp[G := w]) = hist_of hp @ xs"
proof -
  from assms(1) have G: "G < length hp" by (simp add: heap_ok_def)
  have e: "hist_of (drop (Suc G) hp) = []"
    using assms(1) by (intro hist_of_empty) (auto simp: heap_ok_def in_set_conv_nth)
  have "hist_of (hp[G := w]) = hist_of (take G hp) @ content w @ hist_of (drop (Suc G) hp)"
    using G by (simp add: upd_conv_take_nth_drop hist_of_def)
  with heap_split(1)[OF assms(1)] e assms(2) show ?thesis by simp
qed

lemma hist_of_append_empty: "hist_of (hp @ replicate n empty_chunk) = hist_of hp"
  using hist_of_empty[of "replicate n empty_chunk"] by (simp add: hist_of_def)

lemma partial_empty: "0 < cs \<Longrightarrow> partial cs empty_chunk"
  by (simp add: partial_def empty_chunk_def)

lemma heap_ok_same:
  assumes "heap_ok cs hp G" and "partial cs w"
  shows "heap_ok cs (hp[G := w]) G"
  using assms by (simp add: heap_ok_def)

lemma heap_ok_next:
  assumes "heap_ok cs hp G" and "filled cs w" and "0 < cs" and "Suc G < length hp + k"
  shows "heap_ok cs (hp[G := w] @ replicate k empty_chunk) (Suc G)"
proof -
  let ?hp = "hp[G := w] @ replicate k empty_chunk"
  have nth: "?hp ! g = (if g = G then w else if g < length hp then hp ! g else empty_chunk)"
    if "g < length hp + k" for g
    using that assms(1) by (auto simp: nth_append heap_ok_def)
  have 1: "filled cs (?hp ! g)" if "g < Suc G" for g
    using that assms(1,2) nth[of g] by (cases "g = G") (auto simp: heap_ok_def)
  have 2: "?hp ! g = empty_chunk" if "G < g" "g < length hp + k" for g
    using that assms(1) nth[of g] by (simp add: heap_ok_def)
  show ?thesis
    unfolding heap_ok_def using 1 2 assms(4) partial_empty[OF assms(3)] by simp
qed

text \<open>What a round of the write loop keeps of the reader side.\<close>

definition extends :: "'e buffer \<Rightarrow> 'e buffer \<Rightarrow> bool" where
  "extends b b' \<longleftrightarrow> b_all b' = b_all b \<and> b_readers b' = b_readers b
     \<and> front b \<le> front b' \<and> length (b_heap b) \<le> length (b_heap b')
     \<and> (\<forall>g < length (b_heap b). c_idx (b_heap b ! g) \<le> c_idx (b_heap b' ! g))
     \<and> (b_chunks b' = b_chunks b \<or> sl_base (b_chunks b') = length (b_heap b))"

lemma full_iff: "length (c_buffer w) = cs \<Longrightarrow> c_idx w \<le> cs \<Longrightarrow> 0 < cs \<Longrightarrow> full w \<longleftrightarrow> c_idx w = cs"
  by (auto simp: full_def atEnd_def)

lemma write_step_ok:
  assumes ok: "buf_ok cc cs b" and es: "es \<noteq> []" and run: "write_step cc cs es b = (b', n)"
  shows "buf_ok cc cs b'" "hist b' = hist b @ take n es" "0 < n" "n \<le> length es" "extends b b'"
proof -
  let ?G = "front b" and ?hp = "b_heap b"
  obtain w m where w: "chunk_write cs es (?hp ! ?G) = (w, m)" by fastforce
  from ok have h: "heap_ok cs ?hp ?G" and cs: "0 < cs" by (simp_all add: buf_ok_def)
  then have p: "partial cs (?hp ! ?G)" and G: "?G < length ?hp" by (simp_all add: heap_ok_def)
  note cw = chunk_write_partial[OF p es w]
  let ?b1 = "b\<lparr>b_heap := ?hp[?G := w]\<rparr>"
  have hist1: "hist_of (?hp[?G := w]) = hist b @ take m es"
    using hist_of_update[OF h cw(3)] by (simp add: hist_def)
  have grow: "c_idx (?hp ! g) \<le> c_idx (?hp[?G := w] ! g)" if "g < length ?hp" for g
    using cw(4) that by (cases "g = ?G") simp_all
  have f: "full w \<longleftrightarrow> c_idx w = cs" using cw(5,6) cs by (rule full_iff)
  have fr: "front b = sl_base (b_chunks b) + b_current b" by (simp add: front_def)
  have "buf_ok cc cs b' \<and> hist b' = hist b @ take m es \<and> n = m \<and> extends b b'"
  proof (cases "full w")
    case False
    with run w have b': "b' = ?b1" "n = m" by (auto simp: write_step_def front_def Let_def)
    have "partial cs w" using False f cw(5,6) by (auto simp: partial_def)
    from heap_ok_same[OF h this] ok hist1 grow show ?thesis
      by (auto simp: b' buf_ok_def hist_def front_def extends_def)
  next
    case full: True
    have fl: "filled cs w" using full f cw(5) by (simp add: filled_def)
    show ?thesis
    proof (cases "cc \<le> Suc (b_current b)")
      case True
      with ok have last: "Suc (b_current b) = cc" by (simp add: buf_ok_def)
      let ?hp2 = "?hp[?G := w] @ replicate cc empty_chunk"
      from run w full True ok have b': "n = m"
        "b' = b\<lparr>b_heap := ?hp2, b_chunks := \<lparr>sl_base = length ?hp, sl_len = cc\<rparr>, b_current := 0\<rparr>"
        by (auto simp: write_step_def front_def Let_def make_chunks_def buf_ok_def)
      have SG: "Suc ?G = length ?hp" using ok last by (simp add: buf_ok_def fr)
      have "heap_ok cs ?hp2 (Suc ?G)" using SG last by (intro heap_ok_next[OF h fl cs]) simp
      then have "buf_ok cc cs b'" using ok last unfolding SG by (simp add: b' buf_ok_def front_def)
      moreover have "hist b' = hist b @ take m es"
        using hist1 by (simp add: b' hist_def hist_of_append_empty)
      moreover have "extends b b'"
        using grow SG by (auto simp: b' extends_def front_def nth_append)
      ultimately show ?thesis using b' by simp
    next
      case False
      from run w full False ok have b': "n = m" "b' = b\<lparr>b_heap := ?hp[?G := w], b_current := Suc (b_current b)\<rparr>"
        by (auto simp: write_step_def front_def Let_def buf_ok_def)
      have "heap_ok cs (?hp[?G := w]) (Suc ?G)"
        using heap_ok_next[OF h fl cs, of 0] ok False by (simp add: buf_ok_def fr)
      with ok False hist1 grow show ?thesis
        by (auto simp: b' buf_ok_def hist_def front_def extends_def)
    qed
  qed
  with cw show "buf_ok cc cs b'" "hist b' = hist b @ take n es" "0 < n" "n \<le> length es" "extends b b'"
    by auto
qed

text \<open>\<open>Write\<close> ends, and appends exactly its entries to the history.\<close>

lemma Write_ok:
  assumes "buf_ok cc cs b"
  shows "\<exists>b'. Write cc cs es b = Some b' \<and> buf_ok cc cs b' \<and> hist b' = hist b @ es"
  using assms
proof (induction "length es" arbitrary: es b rule: less_induct)
  case less
  show ?case
  proof (cases "es = []")
    case True
    with less.prems show ?thesis by (simp add: Write.simps)
  next
    case False
    obtain b1 n where st: "write_step cc cs es b = (b1, n)" by fastforce
    note ok = write_step_ok[OF less.prems False st]
    have "length (drop n es) < length es" using ok(3) False by simp
    from less.hyps[OF this ok(1)] ok(2) obtain b' where
      "Write cc cs (drop n es) b1 = Some b'" "buf_ok cc cs b'" "hist b' = hist b @ es" by auto
    with False st ok show ?thesis by (subst Write.simps) simp
  qed
qed

lemma New_ok: "0 < cc \<Longrightarrow> 0 < cs \<Longrightarrow> buf_ok cc cs (New cc :: 'e buffer) \<and> hist (New cc :: 'e buffer) = []"
  by (auto simp: New_def make_chunks_def buf_ok_def front_def heap_ok_def hist_def hist_of_append_empty
      partial_empty hist_of_empty)

section \<open>Reading\<close>

text \<open>A reader's place: the chunk it is in and its absolute position in the history.\<close>

definition place :: "reader \<Rightarrow> nat" where
  "place R = sl_base (r_chunks R) + r_idx R"

definition position :: "nat \<Rightarrow> reader \<Rightarrow> nat" where
  "position cs R = place R * cs + r_cursor R"

definition reader_ok :: "nat \<Rightarrow> nat \<Rightarrow> 'e buffer \<Rightarrow> reader \<Rightarrow> bool" where
  "reader_ok cc cs b R \<longleftrightarrow>
     r_idx R < sl_len (r_chunks R) \<and> place R \<le> front b
     \<and> r_cursor R \<le> c_idx (b_heap b ! place R) \<and> r_cursor R < cs
     \<and> (let e = sl_base (r_chunks R) + sl_len (r_chunks R)
        in e \<le> sl_base (b_chunks b) \<or> e = sl_base (b_chunks b) + cc)"

definition all_ok :: "nat \<Rightarrow> nat \<Rightarrow> 'e buffer \<Rightarrow> bool" where
  "all_ok cc cs b \<longleftrightarrow> buf_ok cc cs b \<and> (\<forall>R \<in> set (b_all b). reader_ok cc cs b R)"

lemma reader_ok_extends:
  assumes "buf_ok cc cs b" and "extends b b'" and "reader_ok cc cs b R"
  shows "reader_ok cc cs b' R"
proof -
  from assms(1,3) have "place R < length (b_heap b)"
    by (auto simp: reader_ok_def buf_ok_def heap_ok_def)
  moreover from assms(2) this have "c_idx (b_heap b ! place R) \<le> c_idx (b_heap b' ! place R)"
    by (simp add: extends_def)
  ultimately show ?thesis
    using assms by (auto simp: reader_ok_def extends_def buf_ok_def Let_def)
qed

lemma chunk_bounds:
  assumes "buf_ok cc cs b" and "g \<le> front b"
  shows "g < length (b_heap b)" and "c_idx (b_heap b ! g) \<le> cs"
    and "g < front b \<Longrightarrow> c_idx (b_heap b ! g) = cs"
    and "0 < c_idx (b_heap b ! g) \<Longrightarrow> length (c_buffer (b_heap b ! g)) = cs"
    and "c_idx (b_heap b ! g) = cs \<Longrightarrow> g < front b"
proof -
  from assms have h: "heap_ok cs (b_heap b) (front b)" by (simp add: buf_ok_def)
  with assms(2) have "filled cs (b_heap b ! g) \<and> g < front b \<or> partial cs (b_heap b ! g) \<and> g = front b"
    by (auto simp: heap_ok_def le_less)
  then show "c_idx (b_heap b ! g) \<le> cs" "g < front b \<Longrightarrow> c_idx (b_heap b ! g) = cs"
    "0 < c_idx (b_heap b ! g) \<Longrightarrow> length (c_buffer (b_heap b ! g)) = cs"
    "c_idx (b_heap b ! g) = cs \<Longrightarrow> g < front b"
    by (auto simp: filled_def partial_def empty_chunk_def)
  from h assms(2) show "g < length (b_heap b)" by (simp add: heap_ok_def)
qed

lemma position_bound:
  assumes "buf_ok cc cs b" and "reader_ok cc cs b R"
  shows "position cs R \<le> length (hist b)"
proof -
  from assms have h: "heap_ok cs (b_heap b) (front b)" by (simp add: buf_ok_def)
  have len: "length (hist b) = front b * cs + c_idx (b_heap b ! front b)"
    using heap_split(3)[OF h] by (simp add: hist_def)
  show ?thesis
  proof (cases "place R = front b")
    case True
    with assms(2) len show ?thesis by (simp add: position_def reader_ok_def)
  next
    case False
    with assms(2) have "Suc (place R) \<le> front b" "r_cursor R \<le> cs" by (simp_all add: reader_ok_def)
    then have "place R * cs + cs \<le> front b * cs" by (metis mult_Suc mult_le_mono1 add.commute)
    with \<open>r_cursor R \<le> cs\<close> len show ?thesis by (simp add: position_def)
  qed
qed

text \<open>Reading one chunk from a good place.\<close>

lemma chunk_read_place:
  assumes ok: "buf_ok cc cs b" and r: "reader_ok cc cs b R"
  shows "(chunk_read (b_heap b ! place R) (r_cursor R) mx block = None \<and> block
            \<and> position cs R = length (hist b))
    \<or> (\<exists>xs. chunk_read (b_heap b ! place R) (r_cursor R) mx block = Some (xs, r_cursor R + length xs)
          \<and> xs = take (length xs) (drop (position cs R) (hist b))
          \<and> length xs \<le> mx \<and> r_cursor R + length xs \<le> c_idx (b_heap b ! place R)
          \<and> (xs = [] \<and> 0 < mx \<longrightarrow> position cs R = length (hist b)))"
proof -
  let ?w = "b_heap b ! place R" and ?c = "r_cursor R"
  from ok have h: "heap_ok cs (b_heap b) (front b)" by (simp add: buf_ok_def)
  from r have g: "place R \<le> front b" and c: "?c \<le> c_idx ?w" "?c < cs" by (simp_all add: reader_ok_def)
  note cb = chunk_bounds[OF ok g]
  have len: "length (hist b) = front b * cs + c_idx (b_heap b ! front b)"
    using heap_split(3)[OF h] by (simp add: hist_def)
  have no_end: "\<not> atEnd ?w ?c" if "0 < c_idx ?w"
    using cb(4)[OF that] c by (simp add: atEnd_def)
  show ?thesis
  proof (cases "c_idx ?w \<le> ?c")
    case True
    with c have e: "c_idx ?w = ?c" by simp
    with c(2) have "c_idx ?w \<noteq> cs" by simp
    with cb(3) g have "place R = front b" by (cases "place R < front b") simp_all
    with e len have p: "position cs R = length (hist b)" by (simp add: position_def)
    show ?thesis
    proof (cases "atEnd ?w ?c \<or> \<not> block")
      case True
      with e p show ?thesis by (intro disjI2 exI[of _ "[]"]) (auto simp: chunk_read_def Let_def)
    next
      case False
      with e p show ?thesis by (auto simp: chunk_read_def Let_def)
    qed
  next
    case False
    let ?stop = "if mx < c_idx ?w - ?c then ?c + mx else c_idx ?w"
    let ?xs = "take (?stop - ?c) (drop ?c (c_buffer ?w))"
    have s: "?c \<le> ?stop" "?stop \<le> c_idx ?w" using c False by auto
    have "length (c_buffer ?w) = cs" using False c by (intro cb(4)) simp
    with s cb(2) have l: "length ?xs = ?stop - ?c" by simp
    have "?xs = take (?stop - ?c) (drop (position cs R) (hist b))"
      unfolding position_def hist_def using chunk_slice[OF h g s(2,1)] .
    then have "?xs = take (length ?xs) (drop (position cs R) (hist b))" unfolding l .
    moreover have "chunk_read ?w ?c mx block = Some (?xs, ?c + length ?xs)"
      using False s unfolding l by (simp add: chunk_read_def Let_def)
    moreover have "length ?xs \<le> mx" unfolding l by auto
    moreover have "?c + length ?xs \<le> c_idx ?w" unfolding l using s by simp
    moreover have "\<not> (?xs = [] \<and> 0 < mx)" using l False by (auto split: if_splits)
    ultimately show ?thesis by blast
  qed
qed

definition u32 :: "int \<Rightarrow> nat" where
  "u32 mx = unat (word_of_int mx :: 32 word)"

text \<open>Where a read leaves its reader: behind what it returned, or at the start of the current window
  when it has finished an older chunk list.\<close>

definition moved :: "nat \<Rightarrow> 'e buffer \<Rightarrow> nat \<Rightarrow> nat \<Rightarrow> 'e option list \<Rightarrow> bool" where
  "moved cs b p p' xs \<longleftrightarrow>
     p' = p + length xs \<or> (p + length xs \<le> p' \<and> p' = sl_base (b_chunks b) * cs)"

lemma buf_ok_upd_reader [simp]: "buf_ok cc cs (upd_reader r f b) = buf_ok cc cs b"
  by (simp add: buf_ok_def upd_reader_def front_def)

lemma hist_upd_reader [simp]: "hist (upd_reader r f b) = hist b"
  by (simp add: hist_def upd_reader_def)

lemma reader_ok_cong:
  "b_heap b' = b_heap b \<Longrightarrow> b_chunks b' = b_chunks b \<Longrightarrow> b_current b' = b_current b \<Longrightarrow>
     reader_ok cc cs b' R = reader_ok cc cs b R"
  by (simp add: reader_ok_def front_def)

lemma all_ok_upd_reader:
  assumes "all_ok cc cs b" and "reader_ok cc cs b (f (b_all b ! r))"
  shows "all_ok cc cs (upd_reader r f b)"
proof -
  have "reader_ok cc cs (upd_reader r f b) = reader_ok cc cs b"
    by (rule ext, rule reader_ok_cong) (simp_all add: upd_reader_def)
  then show ?thesis
    using assms set_update_subset_insert[of "b_all b" r "f (b_all b ! r)"]
    by (auto simp: all_ok_def) (auto simp: upd_reader_def)
qed

lemma add_reader_ok:
  assumes "all_ok cc cs b" and "add_reader sl cur b = (b', r)"
    and "reader_ok cc cs b \<lparr>r_chunks = sl, r_idx = 0, r_cursor = cur, r_closed = False\<rparr>"
  shows "all_ok cc cs b'" "hist b' = hist b" "r = length (b_all b)"
    "b_all b' = b_all b @ [\<lparr>r_chunks = sl, r_idx = 0, r_cursor = cur, r_closed = False\<rparr>]"
    "b_chunks b' = b_chunks b" "b_heap b' = b_heap b" "b_current b' = b_current b"
    "b_readers b' = insert (length (b_all b)) (b_readers b)"
proof -
  from assms(2) have b': "b' = b\<lparr>b_all := b_all b @ [\<lparr>r_chunks = sl, r_idx = 0, r_cursor = cur, r_closed = False\<rparr>],
      b_readers := insert (length (b_all b)) (b_readers b)\<rparr>" "r = length (b_all b)"
    by (auto simp: add_reader_def)
  have "reader_ok cc cs b' = reader_ok cc cs b"
    by (rule ext, rule reader_ok_cong) (simp_all add: b')
  then show "all_ok cc cs b'" using assms(1,3) by (simp add: all_ok_def) (simp add: b' buf_ok_def front_def)
  show "hist b' = hist b" "r = length (b_all b)"
    "b_all b' = b_all b @ [\<lparr>r_chunks = sl, r_idx = 0, r_cursor = cur, r_closed = False\<rparr>]"
    "b_chunks b' = b_chunks b" "b_heap b' = b_heap b" "b_current b' = b_current b"
    "b_readers b' = insert (length (b_all b)) (b_readers b)"
    by (simp_all add: b' hist_def)
qed

text \<open>The reader of the whole current window.\<close>

lemma window_reader_ok:
  assumes "buf_ok cc cs b"
  shows "reader_ok cc cs b \<lparr>r_chunks = b_chunks b, r_idx = 0, r_cursor = 0, r_closed = c\<rparr>"
  using assms by (simp add: reader_ok_def buf_ok_def place_def front_def Let_def)

lemma latest_reader_ok:
  assumes "buf_ok cc cs b"
  shows "reader_ok cc cs b \<lparr>r_chunks = slice_from (b_current b) (b_chunks b), r_idx = 0,
           r_cursor = chunk_size (b_heap b ! front b), r_closed = c\<rparr>"
  using assms
  by (auto simp: reader_ok_def buf_ok_def place_def front_def slice_from_def chunk_size_def heap_ok_def
      partial_def Let_def)

lemma Buffer_Reader_all: "Buffer_Reader (-1) b = (case add_reader (b_chunks b) 0 b of (b', r) \<Rightarrow> Ret b' r)"
  by (simp add: Buffer_Reader_def)

lemma Read_ok:
  fixes b :: "'e buffer"
  assumes ok: "all_ok cc cs b" and r: "r < length (b_all b)" and open1: "\<not> r_closed (b_all b ! r)"
  defines "p \<equiv> position cs (b_all b ! r)"
  shows "(Read r mx block b = Ret b Blocked \<and> block \<and> p = length (hist b))
    \<or> (\<exists>b' xs. Read r mx block b = Ret b' (Value xs) \<and> all_ok cc cs b' \<and> hist b' = hist b
         \<and> xs = take (length xs) (drop p (hist b)) \<and> length xs \<le> u32 mx
         \<and> (xs = [] \<and> 0 < u32 mx \<longrightarrow> p = length (hist b))
         \<and> moved cs b p (position cs (b_all b' ! r)) xs
         \<and> (\<forall>q < length (b_all b). q \<noteq> r \<longrightarrow> b_all b' ! q = b_all b ! q))"
proof -
  let ?R = "b_all b ! r" and ?g = "place (b_all b ! r)"
  let ?w = "b_heap b ! ?g"
  from ok r have bo: "buf_ok cc cs b" and ro: "reader_ok cc cs b ?R" by (auto simp: all_ok_def)
  from ro have idx: "r_idx ?R < sl_len (r_chunks ?R)" and g: "?g \<le> front b" by (simp_all add: reader_ok_def)
  note cb = chunk_bounds[OF bo g]
  have R: "Read r mx block b =
      (case chunk_read ?w (r_cursor ?R) (u32 mx) block of
          None \<Rightarrow> Ret b Blocked
        | Some (result, cursor) \<Rightarrow>
            if \<not> atEnd ?w cursor then Ret (upd_reader r (\<lambda>R. R\<lparr>r_cursor := cursor\<rparr>) b) (Value result)
            else
              let b1 = upd_reader r (\<lambda>R. R\<lparr>r_idx := r_idx R + 1, r_cursor := 0\<rparr>) b in
              if r_idx ?R + 1 < sl_len (r_chunks ?R) then Ret b1 (Value result)
              else bind_o (Buffer_Reader (-1) b1) (\<lambda>b2 nr.
                     Ret (upd_reader r (\<lambda>R. R\<lparr>r_chunks := r_chunks (b_all b2 ! nr), r_idx := 0\<rparr>) b2)
                       (Value result)))"
    unfolding Read_def u32_def place_def Let_def using idx open1 by simp
  from chunk_read_place[OF bo ro, of "u32 mx" block] show ?thesis
  proof (elim disjE conjE exE)
    assume "chunk_read ?w (r_cursor ?R) (u32 mx) block = None" block "position cs ?R = length (hist b)"
    then have "Read r mx block b = Ret b Blocked \<and> block \<and> p = length (hist b)" unfolding R p_def by simp
    then show ?thesis ..
  next
    fix xs :: "'e option list"
    let ?c = "r_cursor ?R + length xs"
    assume cr: "chunk_read ?w (r_cursor ?R) (u32 mx) block = Some (xs, ?c)"
      and xs: "xs = take (length xs) (drop (position cs ?R) (hist b))" "length xs \<le> u32 mx"
      and cle: "?c \<le> c_idx ?w" and e: "xs = [] \<and> 0 < u32 mx \<longrightarrow> position cs ?R = length (hist b)"
    have res: ?thesis if "Read r mx block b = Ret b' (Value xs)" "all_ok cc cs b'" "hist b' = hist b"
        "moved cs b p (position cs (b_all b' ! r)) xs"
        "\<forall>q < length (b_all b). q \<noteq> r \<longrightarrow> b_all b' ! q = b_all b ! q" for b'
      using that xs e by (auto simp: p_def intro!: exI[of _ b'] exI[of _ xs])
    show ?thesis
    proof (cases "atEnd ?w ?c")
      case False
      let ?b = "upd_reader r (\<lambda>R. R\<lparr>r_cursor := ?c\<rparr>) b"
      have "?c < cs"
      proof (cases "?c = 0")
        case True
        with bo show ?thesis by (simp add: buf_ok_def)
      next
        case c0: False
        with cle have "length (c_buffer ?w) = cs" by (intro cb(4)) linarith
        with False c0 show ?thesis by (auto simp: atEnd_def)
      qed
      with ro cle have "reader_ok cc cs b (?R\<lparr>r_cursor := ?c\<rparr>)" by (simp add: reader_ok_def place_def)
      then have "all_ok cc cs ?b" using ok by (intro all_ok_upd_reader)
      then show ?thesis
        using False r by (intro res[of ?b]) (simp_all add: R cr, simp_all add: upd_reader_def moved_def p_def position_def place_def)
    next
      case True
      from True have c0: "0 < ?c" and ge: "length (c_buffer ?w) \<le> ?c" by (simp_all add: atEnd_def)
      with cle have len: "length (c_buffer ?w) = cs" by (intro cb(4)) linarith
      with ge cle cb(2) have full: "c_idx ?w = cs" "?c = cs" by simp_all
      have gf: "?g < front b" using cb(5)[OF full(1)] .
      let ?b1 = "upd_reader r (\<lambda>R. R\<lparr>r_idx := r_idx R + 1, r_cursor := 0\<rparr>) b"
      have pos: "p + length xs = Suc ?g * cs" using full(2) by (simp add: p_def position_def)
      show ?thesis
      proof (cases "r_idx ?R + 1 < sl_len (r_chunks ?R)")
        case more: True
        have "reader_ok cc cs b (?R\<lparr>r_idx := r_idx ?R + 1, r_cursor := 0\<rparr>)"
          using ro gf more bo by (auto simp: reader_ok_def place_def buf_ok_def)
        then have "all_ok cc cs ?b1" using ok by (intro all_ok_upd_reader)
        moreover have "position cs (b_all ?b1 ! r) = p + length xs"
          unfolding pos using r by (simp add: upd_reader_def position_def place_def)
        ultimately show ?thesis
          using True more by (intro res[of ?b1]) (simp_all add: R cr moved_def, simp_all add: upd_reader_def)
      next
        case last: False
        let ?new = "\<lparr>r_chunks = b_chunks b, r_idx = 0, r_cursor = 0, r_closed = False\<rparr>"
        let ?R2 = "?R\<lparr>r_cursor := 0, r_chunks := b_chunks b, r_idx := 0\<rparr>"
        let ?b2 = "b\<lparr>b_readers := insert (length (b_all b)) (b_readers b),
                     b_all := (b_all b)[r := ?R2] @ [?new]\<rparr>"
        have run: "Read r mx block b = Ret ?b2 (Value xs)"
          using True last r
          by (simp add: R cr Buffer_Reader_all add_reader_def upd_reader_def nth_append list_update_append)
        have "reader_ok cc cs b ?R2"
          using bo by (simp add: reader_ok_def buf_ok_def place_def front_def Let_def)
        moreover have "reader_ok cc cs ?b2 = reader_ok cc cs b"
          by (rule ext, rule reader_ok_cong) simp_all
        ultimately have "all_ok cc cs ?b2"
          using ok window_reader_ok[OF bo, of False] set_update_subset_insert[of "b_all b" r]
          by (auto simp: all_ok_def) (simp_all add: buf_ok_def front_def)
        moreover have "moved cs b p (position cs (b_all ?b2 ! r)) xs"
        proof -
          let ?e = "sl_base (r_chunks ?R) + sl_len (r_chunks ?R)"
          have "?e = Suc ?g" using last idx by (simp add: place_def)
          moreover have "?e \<noteq> sl_base (b_chunks b) + cc"
            using bo gf calculation by (auto simp: buf_ok_def front_def)
          ultimately have "Suc ?g \<le> sl_base (b_chunks b)" using ro by (auto simp: reader_ok_def Let_def)
          then have "Suc ?g * cs \<le> sl_base (b_chunks b) * cs" by (rule mult_le_mono1)
          with pos r show ?thesis by (simp add: moved_def position_def place_def nth_append)
        qed
        ultimately show ?thesis
          using r by (intro res[OF run]) (auto simp: hist_def nth_append)
      qed
    qed
  qed
qed

section \<open>All interleavings\<close>

text \<open>A write round, a new reader (of the whole window or of nothing old), a read and the closes, in any
  order by any number of writers and readers.\<close>

datatype 'e log_op =
    LWrite "'e option list"
  | LReader bool
  | LRead nat int bool
  | LReaderClose nat
  | LClose

fun log_step :: "nat \<Rightarrow> nat \<Rightarrow> 'e log_op \<Rightarrow> 'e buffer \<Rightarrow> 'e buffer" where
  "log_step cc cs (LWrite es) b = (if es = [] then b else fst (write_step cc cs es b))"
| "log_step cc cs (LReader all) b = left_by (Buffer_Reader (if all then -1 else 0) b) b"
| "log_step cc cs (LRead r mx block) b = (if r < length (b_all b) then left_by (Read r mx block b) b else b)"
| "log_step cc cs (LReaderClose r) b = (if r < length (b_all b) then Reader_Close r b else b)"
| "log_step cc cs LClose b = Buffer_Close b"

text \<open>Registered readers are the open ones.\<close>

definition registered_ok :: "'e buffer \<Rightarrow> bool" where
  "registered_ok b \<longleftrightarrow> b_readers b = {r. r < length (b_all b) \<and> \<not> r_closed (b_all b ! r)}"

definition log_ok :: "nat \<Rightarrow> nat \<Rightarrow> 'e buffer \<Rightarrow> bool" where
  "log_ok cc cs b \<longleftrightarrow> all_ok cc cs b \<and> registered_ok b"

lemma registered_upd:
  assumes "\<And>R. r_closed (f R) = r_closed R"
  shows "registered_ok (upd_reader r f b) = registered_ok b"
proof -
  have "r_closed ((b_all b)[r := f (b_all b ! r)] ! q) = r_closed (b_all b ! q)" if "q < length (b_all b)" for q
    using that assms by (cases "q = r") simp_all
  then show ?thesis by (auto simp: registered_ok_def upd_reader_def)
qed

lemma open_snoc:
  "\<not> r_closed R \<Longrightarrow> {r. r < length (rs @ [R]) \<and> \<not> r_closed ((rs @ [R]) ! r)} =
     insert (length rs) {r. r < length rs \<and> \<not> r_closed (rs ! r)}"
  by (auto simp: nth_append less_Suc_eq)

lemma registered_add: "registered_ok b \<Longrightarrow> registered_ok (fst (add_reader sl c b))"
  unfolding registered_ok_def add_reader_def
  using open_snoc[of "\<lparr>r_chunks = sl, r_idx = 0, r_cursor = c, r_closed = False\<rparr>" "b_all b"] by simp

lemma all_ok_cong:
  assumes "b_heap b' = b_heap b" "b_chunks b' = b_chunks b" "b_current b' = b_current b" "b_all b' = b_all b"
  shows "all_ok cc cs b' = all_ok cc cs b"
proof -
  have "reader_ok cc cs b' = reader_ok cc cs b" by (rule ext, rule reader_ok_cong) (simp_all add: assms)
  then show ?thesis by (simp add: all_ok_def buf_ok_def front_def assms)
qed

lemma Buffer_Reader_ok:
  assumes "log_ok cc cs b" and "mh \<le> 0"
  obtains b' where "Buffer_Reader mh b = Ret b' (length (b_all b))" and "log_ok cc cs b'" and "hist b' = hist b"
    and "position cs (b_all b' ! length (b_all b)) =
           (if mh = 0 then length (hist b) else sl_base (b_chunks b) * cs)"
    and "\<And>q. q < length (b_all b) \<Longrightarrow> b_all b' ! q = b_all b ! q"
    and "length (b_all b') = Suc (length (b_all b))"
    and "\<not> r_closed (b_all b' ! length (b_all b))"
proof -
  from assms have bo: "buf_ok cc cs b" and ao: "all_ok cc cs b" by (simp_all add: log_ok_def all_ok_def)
  from bo have h: "heap_ok cs (b_heap b) (front b)" by (simp add: buf_ok_def)
  define sl where "sl = (if mh = 0 then slice_from (b_current b) (b_chunks b) else b_chunks b)"
  define cur where "cur = (if mh = 0 then chunk_size (b_heap b ! front b) else 0)"
  obtain b' r where a: "add_reader sl cur b = (b', r)" by fastforce
  have run: "Buffer_Reader mh b = Ret b' r"
    using assms(2) a by (auto simp: Buffer_Reader_def slice_from_def front_def sl_def cur_def split: if_splits)
  have "reader_ok cc cs b \<lparr>r_chunks = sl, r_idx = 0, r_cursor = cur, r_closed = False\<rparr>"
    using window_reader_ok[OF bo] latest_reader_ok[OF bo] by (simp add: sl_def cur_def)
  note A = add_reader_ok[OF ao a this]
  have "registered_ok b'"
    using registered_add[of b sl cur] assms(1) a by (simp add: log_ok_def)
  moreover have "position cs (b_all b' ! length (b_all b)) =
        (if mh = 0 then length (hist b) else sl_base (b_chunks b) * cs)"
    unfolding A(4) using heap_split(3)[OF h]
    by (simp add: position_def place_def slice_from_def front_def hist_def chunk_size_def sl_def cur_def)
  ultimately show thesis
    using A(1-4) run by (intro that[of b']) (simp_all add: log_ok_def nth_append)
qed

lemma Read_registered:
  assumes "registered_ok b" and run: "Read r mx block b = Ret b' v"
  shows "registered_ok b'"
proof (cases "r_closed (b_all b ! r) \<or> sl_len (r_chunks (b_all b ! r)) \<le> r_idx (b_all b ! r)")
  case True
  with assms show ?thesis by (auto simp: Read_def Let_def split: if_splits)
next
  case False
  let ?w = "b_heap b ! (sl_base (r_chunks (b_all b ! r)) + r_idx (b_all b ! r))"
  show ?thesis
  proof (cases "chunk_read ?w (r_cursor (b_all b ! r)) (unat (word_of_int mx :: 32 word)) block")
    case None
    with run False assms(1) show ?thesis by (simp add: Read_def Let_def)
  next
    case (Some rc)
    obtain res cur where rc: "rc = (res, cur)" by (cases rc)
    have up: "registered_ok (upd_reader r (\<lambda>R. R\<lparr>r_cursor := cur\<rparr>) b)"
      "registered_ok (upd_reader r (\<lambda>R. R\<lparr>r_idx := r_idx R + 1, r_cursor := 0\<rparr>) b)"
      using assms(1) by (simp_all add: registered_upd)
    let ?b1 = "upd_reader r (\<lambda>R. R\<lparr>r_idx := r_idx R + 1, r_cursor := 0\<rparr>) b"
    let ?b2 = "fst (add_reader (b_chunks ?b1) 0 ?b1)"
    have "registered_ok (upd_reader r (\<lambda>R. R\<lparr>r_chunks := sl, r_idx := 0\<rparr>) ?b2)" for sl
      using registered_add[OF up(2)] by (simp add: registered_upd)
    then show ?thesis
      using run False Some rc up
      by (cases "atEnd ?w cur"; cases "Suc (r_idx (b_all b ! r)) < sl_len (r_chunks (b_all b ! r))")
        (auto simp: Read_def Let_def Buffer_Reader_all split: prod.splits)
  qed
qed

lemma Reader_Close_ok:
  assumes "all_ok cc cs b" and "r < length (b_all b)"
  shows "all_ok cc cs (Reader_Close r b)" "hist (Reader_Close r b) = hist b"
    "length (b_all (Reader_Close r b)) = length (b_all b)"
    "b_readers (Reader_Close r b) = (if r_closed (b_all b ! r) then b_readers b else b_readers b - {r})"
    "q < length (b_all b) \<Longrightarrow> r_closed (b_all (Reader_Close r b) ! q) \<longleftrightarrow> q = r \<or> r_closed (b_all b ! q)"
proof -
  have "reader_ok cc cs b ((b_all b ! r)\<lparr>r_closed := True\<rparr>)"
    using assms by (auto simp: all_ok_def reader_ok_def place_def)
  then have "all_ok cc cs (upd_reader r (\<lambda>R. R\<lparr>r_closed := True\<rparr>) b)"
    using assms(1) by (intro all_ok_upd_reader)
  then have "all_ok cc cs ((upd_reader r (\<lambda>R. R\<lparr>r_closed := True\<rparr>) b)\<lparr>b_readers := B\<rparr>)" for B
    by (subst all_ok_cong[of _ "upd_reader r (\<lambda>R. R\<lparr>r_closed := True\<rparr>) b"]) simp_all
  with assms(1) show "all_ok cc cs (Reader_Close r b)" by (simp add: Reader_Close_def)
  show "hist (Reader_Close r b) = hist b" "length (b_all (Reader_Close r b)) = length (b_all b)"
    "b_readers (Reader_Close r b) = (if r_closed (b_all b ! r) then b_readers b else b_readers b - {r})"
    by (simp_all add: Reader_Close_def upd_reader_def hist_def)
  show "r_closed (b_all (Reader_Close r b) ! q) \<longleftrightarrow> q = r \<or> r_closed (b_all b ! q)" if "q < length (b_all b)"
    using that by (cases "q = r") (simp_all add: Reader_Close_def upd_reader_def)
qed

lemma fold_Reader_Close:
  assumes "all_ok cc cs b" and "set rs \<subseteq> {..< length (b_all b)}"
  shows "all_ok cc cs (fold Reader_Close rs b) \<and> hist (fold Reader_Close rs b) = hist b
    \<and> length (b_all (fold Reader_Close rs b)) = length (b_all b)
    \<and> b_readers (fold Reader_Close rs b) \<subseteq> b_readers b
    \<and> (\<forall>q < length (b_all b). r_closed (b_all (fold Reader_Close rs b) ! q)
          \<longleftrightarrow> q \<in> set rs \<or> r_closed (b_all b ! q))"
  using assms
proof (induction rs arbitrary: b)
  case Nil
  then show ?case by simp
next
  case (Cons r rs)
  then have r: "r < length (b_all b)" by simp
  note C = Reader_Close_ok[OF Cons.prems(1) r]
  from Cons.IH[OF C(1)] Cons.prems(2) C(2-5) show ?case by (auto split: if_splits)
qed

lemma Buffer_Close_ok:
  assumes "log_ok cc cs b"
  shows "log_ok cc cs (Buffer_Close b)" "hist (Buffer_Close b) = hist b" "b_readers (Buffer_Close b) = {}"
    "length (b_all (Buffer_Close b)) = length (b_all b)"
    "\<And>r. r < length (b_all b) \<Longrightarrow> r_closed (b_all (Buffer_Close b) ! r)"
proof -
  let ?rs = "filter (\<lambda>r. r \<in> b_readers b) [0..<length (b_all b)]"
  have "all_ok cc cs (b\<lparr>b_readers := {}\<rparr>)"
    using assms by (subst all_ok_cong[of _ b]) (simp_all add: log_ok_def)
  from fold_Reader_Close[OF this, of ?rs]
  have F: "all_ok cc cs (Buffer_Close b)" "hist (Buffer_Close b) = hist b" "b_readers (Buffer_Close b) = {}"
    "length (b_all (Buffer_Close b)) = length (b_all b)"
    "\<forall>q < length (b_all b). r_closed (b_all (Buffer_Close b) ! q) \<longleftrightarrow> q \<in> set ?rs \<or> r_closed (b_all b ! q)"
    by (auto simp: Buffer_Close_def hist_def)
  from F show "hist (Buffer_Close b) = hist b" "b_readers (Buffer_Close b) = {}"
    "length (b_all (Buffer_Close b)) = length (b_all b)" by simp_all
  show closed: "r_closed (b_all (Buffer_Close b) ! r)" if "r < length (b_all b)" for r
    using F(5) that assms by (auto simp: log_ok_def registered_ok_def)
  show "log_ok cc cs (Buffer_Close b)"
    using F closed by (auto simp: log_ok_def registered_ok_def)
qed

lemma write_step_log_ok:
  assumes "log_ok cc cs b" and "es \<noteq> []"
  shows "log_ok cc cs (fst (write_step cc cs es b))"
proof -
  obtain b' n where st: "write_step cc cs es b = (b', n)" by fastforce
  from assms(1) have bo: "buf_ok cc cs b" by (simp add: log_ok_def all_ok_def)
  note W = write_step_ok[OF bo assms(2) st]
  have "reader_ok cc cs b' R" if "R \<in> set (b_all b)" for R
    using assms(1) that by (intro reader_ok_extends[OF bo W(5)]) (simp add: log_ok_def all_ok_def)
  with W(1,5) assms(1) show ?thesis
    by (simp add: st log_ok_def all_ok_def registered_ok_def extends_def)
qed

lemma Read_log_ok:
  assumes "log_ok cc cs b" and r: "r < length (b_all b)"
  shows "log_ok cc cs (left_by (Read r mx block b) b)"
proof (cases "r_closed (b_all b ! r)")
  case True
  with assms show ?thesis by (simp add: Read_def Let_def left_by_def)
next
  case False
  from assms have ao: "all_ok cc cs b" "registered_ok b" by (simp_all add: log_ok_def)
  from Read_ok[OF ao(1) r False, of mx block] show ?thesis
    using assms Read_registered[OF ao(2)] by (auto simp: left_by_def log_ok_def)
qed

lemma log_step_ok: "log_ok cc cs b \<Longrightarrow> log_ok cc cs (log_step cc cs op b)"
proof (cases op)
  case (LReader all)
  assume "log_ok cc cs b"
  then show ?thesis
    by (rule Buffer_Reader_ok[of cc cs b "if all then -1 else 0"]) (simp_all add: LReader left_by_def)
next
  case (LReaderClose r)
  assume ok: "log_ok cc cs b"
  show ?thesis
  proof (cases "r < length (b_all b)")
    case True
    from ok have "all_ok cc cs b" by (simp add: log_ok_def)
    note C = Reader_Close_ok[OF this True]
    with ok True show ?thesis
      by (auto simp: LReaderClose log_ok_def registered_ok_def)
  qed (use ok LReaderClose in simp)
qed (auto simp: write_step_log_ok Read_log_ok Buffer_Close_ok)

text \<open>Every interleaving of writers and readers keeps the buffer and all readers good.\<close>

interpretation logs: machine "log_step cc cs" "log_ok cc cs" for cc cs
  by unfold_locales (rule log_step_ok)

lemma New_log_ok: "0 < cc \<Longrightarrow> 0 < cs \<Longrightarrow> log_ok cc cs (New cc :: 'e buffer)"
proof -
  assume "0 < cc" "0 < cs"
  moreover have "b_all (New cc :: 'e buffer) = []" "b_readers (New cc :: 'e buffer) = {}" by (simp_all add: New_def make_chunks_def)
  ultimately show ?thesis using New_ok[of cc cs, where ?'e = 'e] by (simp add: log_ok_def all_ok_def registered_ok_def)
qed

section \<open>What a reader is given over a whole run\<close>

fun op_output :: "nat \<Rightarrow> 'e log_op \<Rightarrow> 'e buffer \<Rightarrow> 'e option list" where
  "op_output r (LRead q mx block) b =
     (if q = r then (case Read r mx block b of Ret _ (Value xs) \<Rightarrow> xs | _ \<Rightarrow> []) else [])"
| "op_output r _ b = []"

fun delivered :: "nat \<Rightarrow> nat \<Rightarrow> nat \<Rightarrow> 'e log_op list \<Rightarrow> 'e buffer \<Rightarrow> 'e option list" where
  "delivered cc cs r [] b = []"
| "delivered cc cs r (op # ops) b = op_output r op b @ delivered cc cs r ops (log_step cc cs op b)"

text \<open>One operation from reader \<open>r\<close>'s point of view: the history grows, the reader gets the entries at its
  position, and moves behind them, or further when it jumps to a later window.\<close>

definition reader_step :: "nat \<Rightarrow> nat \<Rightarrow> 'e option list \<Rightarrow> 'e buffer \<Rightarrow> 'e buffer \<Rightarrow> bool" where
  "reader_step cs r out b b' \<longleftrightarrow>
     r < length (b_all b') \<and> (\<exists>ys. hist b' = hist b @ ys)
     \<and> sl_base (b_chunks b) \<le> sl_base (b_chunks b')
     \<and> out = take (length out) (drop (position cs (b_all b ! r)) (hist b))
     \<and> position cs (b_all b ! r) + length out \<le> position cs (b_all b' ! r)
     \<and> (sl_base (b_chunks b') = 0 \<longrightarrow> position cs (b_all b' ! r) = position cs (b_all b ! r) + length out)"

lemma reader_step_same:
  "r < length (b_all b') \<Longrightarrow> hist b' = hist b @ ys \<Longrightarrow> sl_base (b_chunks b) \<le> sl_base (b_chunks b') \<Longrightarrow>
     position cs (b_all b' ! r) = position cs (b_all b ! r) \<Longrightarrow> reader_step cs r [] b b'"
  by (simp add: reader_step_def)

lemma Reader_Close_position:
  "position cs (b_all (Reader_Close q b) ! r) = position cs (b_all b ! r)"
  "b_chunks (Reader_Close q b) = b_chunks b"
proof -
  have "position cs ((b_all b)[q := (b_all b ! q)\<lparr>r_closed := True\<rparr>] ! r) = position cs (b_all b ! r)"
    by (cases "q = r"; cases "r < length (b_all b)")
      (simp_all add: position_def place_def list_update_beyond)
  then show "position cs (b_all (Reader_Close q b) ! r) = position cs (b_all b ! r)"
    "b_chunks (Reader_Close q b) = b_chunks b"
    by (simp_all add: Reader_Close_def upd_reader_def)
qed

lemma fold_Close_position:
  "position cs (b_all (fold Reader_Close qs b) ! r) = position cs (b_all b ! r)
   \<and> b_chunks (fold Reader_Close qs b) = b_chunks b"
  by (induction qs arbitrary: b) (simp_all add: Reader_Close_position)

lemma Buffer_Close_position:
  "position cs (b_all (Buffer_Close b) ! r) = position cs (b_all b ! r)"
  "b_chunks (Buffer_Close b) = b_chunks b"
  using fold_Close_position[of cs _ "b\<lparr>b_readers := {}\<rparr>"] by (simp_all add: Buffer_Close_def)

lemma Read_chunks: "Read r mx block b = Ret b' v \<Longrightarrow> b_chunks b' = b_chunks b"
  by (auto simp: Read_def Let_def Buffer_Reader_all add_reader_def upd_reader_def
      split: if_splits option.splits)

lemma reader_step_op:
  assumes ok: "log_ok cc cs b" and r: "r < length (b_all b)"
  shows "reader_step cs r (op_output r op b) b (log_step cc cs op b)"
proof (cases op)
  case (LWrite es)
  show ?thesis
  proof (cases "es = []")
    case True
    with r show ?thesis by (auto simp: LWrite intro!: reader_step_same[of _ _ _ "[]"])
  next
    case False
    obtain b' n where st: "write_step cc cs es b = (b', n)" by fastforce
    from ok have bo: "buf_ok cc cs b" by (simp add: log_ok_def all_ok_def)
    note W = write_step_ok[OF bo False st]
    have "sl_base (b_chunks b) \<le> sl_base (b_chunks b')"
      using W(5) bo by (auto simp: extends_def buf_ok_def)
    with W False r show ?thesis
      by (auto simp: LWrite st extends_def intro!: reader_step_same[of _ _ _ "take n es"])
  qed
next
  case (LReader all)
  show ?thesis
    by (rule Buffer_Reader_ok[OF ok, of "if all then -1 else 0"])
      (use r in \<open>auto simp: LReader left_by_def Buffer_Reader_def add_reader_def nth_append Let_def
        intro!: reader_step_same[of _ _ _ "[]"] split: if_splits\<close>)
next
  case (LRead q mx block)
  from ok have ao: "all_ok cc cs b" by (simp add: log_ok_def)
  show ?thesis
  proof (cases "q < length (b_all b) \<and> \<not> r_closed (b_all b ! q)")
    case False
    then have "log_step cc cs op b = b \<and> op_output r op b = []"
      using r by (auto simp: LRead Read_def left_by_def Let_def)
    with r show ?thesis by (auto intro!: reader_step_same[of _ _ _ "[]"])
  next
    case True
    then have q: "q < length (b_all b)" "\<not> r_closed (b_all b ! q)" by simp_all
    from Read_ok[OF ao q, of mx block] show ?thesis
    proof (elim disjE conjE exE)
      assume "Read q mx block b = Ret b Blocked"
      then have "log_step cc cs op b = b \<and> op_output r op b = []"
        using q by (auto simp: LRead left_by_def)
      with r show ?thesis by (auto intro!: reader_step_same[of _ _ _ "[]"])
    next
      fix b' xs
      assume run: "Read q mx block b = Ret b' (Value xs)" and R: "hist b' = hist b"
        "xs = take (length xs) (drop (position cs (b_all b ! q)) (hist b))"
        "moved cs b (position cs (b_all b ! q)) (position cs (b_all b' ! q)) xs"
        "\<forall>p < length (b_all b). p \<noteq> q \<longrightarrow> b_all b' ! p = b_all b ! p"
      have len: "length (b_all b) \<le> length (b_all b')"
        using run by (auto simp: Read_def Let_def Buffer_Reader_all add_reader_def upd_reader_def
            split: if_splits option.splits)
      have st: "log_step cc cs op b = b'" using run q by (simp add: LRead left_by_def)
      note ch = Read_chunks[OF run]
      show ?thesis
      proof (cases "q = r")
        case True
        with run have out: "op_output r op b = xs" by (simp add: LRead)
        from R True r len ch show ?thesis
          unfolding st out by (auto simp: reader_step_def moved_def)
      next
        case False
        with R r len ch show ?thesis
          unfolding st by (auto simp: LRead intro!: reader_step_same[of _ _ _ "[]"])
      qed
    qed
  qed
next
  case (LReaderClose q)
  from ok have ao: "all_ok cc cs b" by (simp add: log_ok_def)
  show ?thesis
    using r Reader_Close_ok(2,3)[OF ao, of q]
    by (auto simp: LReaderClose Reader_Close_position intro!: reader_step_same[of _ _ _ "[]"])
next
  case LClose
  show ?thesis
    using r Buffer_Close_ok(2,4)[OF ok]
    by (auto simp: LClose Buffer_Close_position intro!: reader_step_same[of _ _ _ "[]"])
qed

lemma subseq_take_drop:
  assumes "out = take (length out) (drop p h)" and "p + length out \<le> p'" and "subseq ys (drop p' h)"
  shows "subseq (out @ ys) (drop p h)"
proof -
  obtain d where p': "p' = p + length out + d" using assms(2) by (metis le_iff_add)
  define t where "t = drop (length out) (drop p h)"
  have "drop p' h = drop d t" by (simp add: p' t_def add.commute add.left_commute)
  with assms(3) have "subseq ys (take d t @ drop d t)" by (metis list_emb_append2)
  then have "subseq ys (drop (length out) (drop p h))" by (simp only: append_take_drop_id t_def)
  then have "subseq (out @ ys) (out @ drop (length out) (drop p h))"
    by (intro list_emb_append_mono) simp_all
  also have "out @ drop (length out) (drop p h) = drop p h"
    using assms(1) by (metis append_take_drop_id)
  finally show ?thesis .
qed

lemma delivered_ok:
  assumes "log_ok cc cs b" and "r < length (b_all b)"
  defines "p \<equiv> position cs (b_all b ! r)"
  shows "r < length (b_all (fold (log_step cc cs) ops b))
    \<and> (\<exists>ys. hist (fold (log_step cc cs) ops b) = hist b @ ys)
    \<and> sl_base (b_chunks b) \<le> sl_base (b_chunks (fold (log_step cc cs) ops b))
    \<and> subseq (delivered cc cs r ops b) (drop p (hist (fold (log_step cc cs) ops b)))
    \<and> p + length (delivered cc cs r ops b) \<le> position cs (b_all (fold (log_step cc cs) ops b) ! r)
    \<and> (sl_base (b_chunks (fold (log_step cc cs) ops b)) = 0 \<longrightarrow>
         delivered cc cs r ops b = take (length (delivered cc cs r ops b))
           (drop p (hist (fold (log_step cc cs) ops b)))
         \<and> position cs (b_all (fold (log_step cc cs) ops b) ! r) = p + length (delivered cc cs r ops b))"
  using assms(1,2) unfolding p_def
proof (induction ops arbitrary: b)
  case Nil
  then show ?case by simp
next
  case (Cons op ops)
  let ?b1 = "log_step cc cs op b" and ?out = "op_output r op b"
  let ?bn = "fold (log_step cc cs) ops ?b1" and ?del = "delivered cc cs r ops ?b1"
  let ?p = "position cs (b_all b ! r)" and ?p1 = "position cs (b_all ?b1 ! r)"
  have S: "reader_step cs r ?out b ?b1" by (rule reader_step_op[OF Cons.prems])
  have I: "r < length (b_all ?bn)" "\<exists>ys. hist ?bn = hist ?b1 @ ys"
    "sl_base (b_chunks ?b1) \<le> sl_base (b_chunks ?bn)" "subseq ?del (drop ?p1 (hist ?bn))"
    "?p1 + length ?del \<le> position cs (b_all ?bn ! r)"
    "sl_base (b_chunks ?bn) = 0 \<longrightarrow> ?del = take (length ?del) (drop ?p1 (hist ?bn))
         \<and> position cs (b_all ?bn ! r) = ?p1 + length ?del"
    using Cons.IH[OF log_step_ok[OF Cons.prems(1)]] S by (auto simp: reader_step_def)
  from S I(2) obtain ys where ys: "hist ?bn = hist b @ ys" by (auto simp: reader_step_def)
  have le: "?p \<le> length (hist b)"
    using Cons.prems by (intro position_bound[of cc]) (auto simp: log_ok_def all_ok_def)
  from S have o: "?out = take (length ?out) (drop ?p (hist b))" by (simp add: reader_step_def)
  then have "length ?out \<le> length (drop ?p (hist b))" by (metis length_take min.cobounded1 min.absorb_iff2 min.commute nat_le_linear)
  with o le have out: "?out = take (length ?out) (drop ?p (hist ?bn))" by (simp add: ys)
  from S have mv: "?p + length ?out \<le> ?p1" by (simp add: reader_step_def)
  have sub: "subseq (?out @ ?del) (drop ?p (hist ?bn))" by (rule subseq_take_drop[OF out mv I(4)])
  have exact: "?out @ ?del = take (length ?out + length ?del) (drop ?p (hist ?bn))
      \<and> position cs (b_all ?bn ! r) = ?p + length ?out + length ?del"
    if z: "sl_base (b_chunks ?bn) = 0"
  proof -
    have "sl_base (b_chunks ?b1) = 0" using I(3) z by simp
    then have p1: "?p1 = ?p + length ?out" using S by (simp add: reader_step_def)
    then have "?del = take (length ?del) (drop (length ?out) (drop ?p (hist ?bn)))"
      using I(6) z by (simp add: add.commute)
    then have "take (length ?out + length ?del) (drop ?p (hist ?bn)) = ?out @ ?del"
      unfolding take_add using out by simp
    with p1 I(6) z show ?thesis by simp
  qed
  have base: "sl_base (b_chunks b) \<le> sl_base (b_chunks ?bn)"
    using S I(3) by (simp add: reader_step_def)
  have len: "?p + length (?out @ ?del) \<le> position cs (b_all ?bn ! r)" using mv I(5) by simp
  have ex: "sl_base (b_chunks ?bn) = 0 \<longrightarrow> ?out @ ?del = take (length (?out @ ?del)) (drop ?p (hist ?bn))
      \<and> position cs (b_all ?bn ! r) = ?p + length (?out @ ?del)"
  proof (rule impI)
    assume z: "sl_base (b_chunks ?bn) = 0"
    from exact[OF z] show "?out @ ?del = take (length (?out @ ?del)) (drop ?p (hist ?bn))
      \<and> position cs (b_all ?bn ! r) = ?p + length (?out @ ?del)"
      unfolding length_append add.assoc .
  qed
  show ?case
    unfolding fold_simps delivered.simps using I(1) ys base sub len ex by blast
qed

section \<open>Properties\<close>



text \<open>A read by an open reader never panics. It waits only if asked to and if the reader has seen
  everything written; otherwise it returns the entries of the history at the reader's position, at
  most \<open>max\<close> of them, none only if there is nothing new, and the reader moves behind them, or on to
  the start of the current window when it had fallen behind. The history and the other readers stay.\<close>

theorem Read_in_order:
  assumes "all_ok cc cs b" and "r < length (b_all b)" and "\<not> r_closed (b_all b ! r)"
  shows "(Read r mx block b = Ret b Blocked \<and> block \<and> position cs (b_all b ! r) = length (hist b))
    \<or> (\<exists>b' xs. Read r mx block b = Ret b' (Value xs) \<and> all_ok cc cs b' \<and> hist b' = hist b
         \<and> xs = take (length xs) (drop (position cs (b_all b ! r)) (hist b)) \<and> length xs \<le> u32 mx
         \<and> (xs = [] \<and> 0 < u32 mx \<longrightarrow> position cs (b_all b ! r) = length (hist b))
         \<and> moved cs b (position cs (b_all b ! r)) (position cs (b_all b' ! r)) xs
         \<and> (\<forall>q < length (b_all b). q \<noteq> r \<longrightarrow> b_all b' ! q = b_all b ! q))"
  by (rule Read_ok[OF assms])

text \<open>An example: a window of two chunks of two entries, three entries written, one reader from the start.\<close>

definition log_demo :: "nat buffer" where
  "log_demo = fold (log_step 2 2) [LReader True, LWrite [Some 1, Some 2, Some 3], LWrite [Some 3]] (New 2)"

lemma log_demo_eq:
  "log_demo = \<lparr>b_heap = [\<lparr>c_idx = 2, c_buffer = [Some 1, Some 2]\<rparr>, \<lparr>c_idx = 1, c_buffer = [Some 3, None]\<rparr>],
     b_chunks = \<lparr>sl_base = 0, sl_len = 2\<rparr>, b_current = 1, b_readers = {0},
     b_all = [\<lparr>r_chunks = \<lparr>sl_base = 0, sl_len = 2\<rparr>, r_idx = 0, r_cursor = 0, r_closed = False\<rparr>]\<rparr>"
  by (simp add: log_demo_def New_def make_chunks_def Buffer_Reader_def add_reader_def left_by_def
      write_step_def chunk_write_def copy_at_def empty_chunk_def full_def atEnd_def numeral_2_eq_2)

lemma log_demo_ok: "log_ok 2 2 log_demo"
  unfolding log_demo_def by (intro logs.run_inv New_log_ok) simp_all

theorem Read_in_order_witness:
  "\<exists>b' xs. Read 0 5 True log_demo = Ret b' (Value xs) \<and> hist b' = hist log_demo
     \<and> xs = take (length xs) (drop 0 (hist log_demo)) \<and> hist log_demo = [Some 1, Some 2, Some 3]"
proof -
  have "all_ok 2 2 log_demo" using log_demo_ok by (simp add: log_ok_def)
  moreover have "0 < length (b_all log_demo)" "\<not> r_closed (b_all log_demo ! 0)"
    "position 2 (b_all log_demo ! 0) = 0" "hist log_demo = [Some 1, Some 2, Some 3]"
    by (simp_all add: log_demo_eq position_def place_def hist_def hist_of_def content_def)
  ultimately show ?thesis
    using Read_in_order[of 2 2 log_demo 0 5 True] by auto
qed



text \<open>Every state reached from a new buffer by any interleaving is good: chunks before the write position
  full, one partly filled, the rest empty, every reader inside a chunk list it may still read, and the
  registered readers exactly the open ones.\<close>

theorem log_always_ok:
  assumes "0 < cc" and "0 < cs"
  shows "log_ok cc cs (fold (log_step cc cs) ops (New cc))"
  using New_log_ok[OF assms] by (rule logs.run_inv)

theorem log_always_ok_witness:
  "log_ok 32 164 (fold (log_step 32 164) [LWrite [Some (1 :: nat)], LReader False, LClose] (New 32))"
  by (rule log_always_ok) simp_all

text \<open>\<open>Close\<close> closes every open reader, also those nobody holds, and forgets them; it does not close the
  buffer: a later \<open>Write\<close> still appends its entries, which the comment on \<open>Close\<close> denies.\<close>

theorem Close_closes_readers_only:
  assumes "log_ok cc cs b"
  shows "b_readers (Buffer_Close b) = {} \<and> (\<forall>R \<in> set (b_all (Buffer_Close b)). r_closed R)
    \<and> (\<exists>b'. Write cc cs es (Buffer_Close b) = Some b' \<and> hist b' = hist b @ es)"
proof -
  note C = Buffer_Close_ok[OF assms]
  have "\<forall>R \<in> set (b_all (Buffer_Close b)). r_closed R"
    using C(4,5) by (auto simp: in_set_conv_nth)
  moreover have "\<exists>b'. Write cc cs es (Buffer_Close b) = Some b' \<and> hist b' = hist b @ es"
    using Write_ok[of cc cs "Buffer_Close b" es] C(1,2) by (auto simp: log_ok_def all_ok_def)
  ultimately show ?thesis using C(3) by simp
qed

theorem Close_closes_readers_only_witness:
  "b_readers (Buffer_Close log_demo) = {} \<and> list_all r_closed (b_all (Buffer_Close log_demo))
    \<and> (\<exists>b'. Write 2 2 [Some 9] (Buffer_Close log_demo) = Some b' \<and> hist b' = hist log_demo @ [Some 9])"
  using Close_closes_readers_only[OF log_demo_ok] by (simp add: list_all_iff)

text \<open>Asking for a limited history can panic: when the current chunk alone holds more than the wanted
  number of entries and the writer is in the second half of its window, the loop goes on over the
  chunk list it has just cut and indexes past its end.\<close>

theorem limited_history_panics:
  assumes "buf_ok cc cs b" and "0 < mh" and "mh < int (c_idx (b_heap b ! front b))"
    and "cc < 2 * b_current b"
  shows "Buffer_Reader mh b = Crash ''index out of range''"
proof -
  from assms(4) obtain j where j: "b_current b = Suc j" by (cases "b_current b") auto
  have "history_loop b (nat mh) (b_current b) 0 (b_chunks b) 0 = None"
    using assms j by (subst history_loop.simps, subst history_loop.simps)
      (auto simp: buf_ok_def chunk_size_def front_def slice_from_def Let_def)
  with assms(2) show ?thesis by (simp add: Buffer_Reader_def)
qed

theorem limited_history_panics_witness:
  "Buffer_Reader 1 \<lparr>b_heap = [\<lparr>c_idx = 3, c_buffer = [None, None, None]\<rparr>,
       \<lparr>c_idx = 3, c_buffer = [None, None, None]\<rparr>, \<lparr>c_idx = 2, c_buffer = [Some (), None, None]\<rparr>],
     b_chunks = \<lparr>sl_base = 0, sl_len = 3\<rparr>, b_current = 2, b_readers = {}, b_all = []\<rparr>
   = Crash ''index out of range''"
  by (rule limited_history_panics[where cc = 3 and cs = 3])
    (auto simp: buf_ok_def heap_ok_def front_def filled_def partial_def numeral_2_eq_2 numeral_3_eq_3 less_Suc_eq)

text \<open>A reader that finishes its chunk list leaves a reader behind: the read registers one more reader that
  is open and that no one holds, so it stays registered until the whole buffer is closed.\<close>

theorem window_change_leaks_reader:
  assumes "all_ok cc cs b" and "r < length (b_all b)" and "\<not> r_closed (b_all b ! r)"
    and "Read r mx block b = Ret b' v" and "r_chunks (b_all b' ! r) \<noteq> r_chunks (b_all b ! r)"
  shows "length (b_all b) \<in> b_readers b' \<and> length (b_all b') = Suc (length (b_all b))
    \<and> \<not> r_closed (b_all b' ! length (b_all b))"
  using assms
  by (auto simp: Read_def Let_def Buffer_Reader_all add_reader_def upd_reader_def nth_append nth_list_update
      split: if_splits option.splits)

theorem window_change_leaks_reader_witness:
  "let b = fold (log_step 1 1) [LReader True, LWrite [Some 7]] (New 1 :: nat buffer);
       b' = log_step 1 1 (LRead 0 1 True) b
   in length (b_all b) \<in> b_readers b' \<and> length (b_all b') = Suc (length (b_all b))
        \<and> \<not> r_closed (b_all b' ! length (b_all b))"
proof -
  let ?b = "fold (log_step 1 1) [LReader True, LWrite [Some 7]] (New 1 :: nat buffer)"
  have "log_ok 1 1 ?b" by (intro logs.run_inv New_log_ok) simp_all
  then have ok: "all_ok 1 1 ?b" by (simp only: log_ok_def)
  have b: "?b = \<lparr>b_heap = [\<lparr>c_idx = 1, c_buffer = [Some 7]\<rparr>, empty_chunk],
     b_chunks = \<lparr>sl_base = 1, sl_len = 1\<rparr>, b_current = 0, b_readers = {0},
     b_all = [\<lparr>r_chunks = \<lparr>sl_base = 0, sl_len = 1\<rparr>, r_idx = 0, r_cursor = 0, r_closed = False\<rparr>]\<rparr>"
    by (simp add: New_def make_chunks_def Buffer_Reader_def add_reader_def left_by_def
      write_step_def chunk_write_def copy_at_def empty_chunk_def full_def atEnd_def)
  obtain b' v where run: "Read 0 1 True ?b = Ret b' v" and ch: "r_chunks (b_all b' ! 0) \<noteq> r_chunks (b_all ?b ! 0)"
    unfolding b by (simp add: Read_def chunk_read_def atEnd_def upd_reader_def Buffer_Reader_all add_reader_def)
  have st: "log_step 1 1 (LRead 0 1 True) ?b = b'" using run unfolding b by (simp add: left_by_def)
  have "0 < length (b_all ?b)" "\<not> r_closed (b_all ?b ! 0)" unfolding b by simp_all
  from window_change_leaks_reader[OF ok this run ch] show ?thesis unfolding Let_def st .
qed

end
