(* ===== verification/StateErrors.thy ===== *)
theory StateErrors
  imports Prelude
begin

text \<open>
  The errors of \<open>internal/server/singleprocess/state\<close> and their conversion to gRPC statuses
  (\<open>state.go\<close>). An error is the tree of its wrappings; a status keeps the error it was made from as
  its message, but \<open>errors.Is\<close> does not look into it.
\<close>

datatype gcode = NotFound | FailedPrecondition | Internal | Canceled | Aborted

datatype goerr =
    RecordNotFound
  | EmptyProtoArgument
  | MissingProtoParent
  | ValidationError string
  | OtherError string
  | Wrapped string goerr
  | Status gcode goerr

text \<open>\<open>errors.Is\<close> and \<open>errors.As\<close>: the error or one that it wraps passes the test.\<close>

fun err_chain :: "(goerr \<Rightarrow> bool) \<Rightarrow> goerr \<Rightarrow> bool" where
  "err_chain P (Wrapped m e) \<longleftrightarrow> P (Wrapped m e) \<or> err_chain P e"
| "err_chain P e \<longleftrightarrow> P e"

definition is_not_found :: "goerr \<Rightarrow> bool" where
  "is_not_found = err_chain (\<lambda>e. e = RecordNotFound)"

definition is_proto_argument :: "goerr \<Rightarrow> bool" where
  "is_proto_argument = err_chain (\<lambda>e. e = EmptyProtoArgument \<or> e = MissingProtoParent)"

definition is_validation :: "goerr \<Rightarrow> bool" where
  "is_validation = err_chain (\<lambda>e. case e of ValidationError _ \<Rightarrow> True | _ \<Rightarrow> False)"

definition errorToStatus :: "goerr \<Rightarrow> goerr" where
  "errorToStatus e =
     (if is_not_found e then Status NotFound e
      else if is_proto_argument e \<or> is_validation e then Status FailedPrecondition e
      else Status Internal e)"

definition lookupErrorToStatus :: "string \<Rightarrow> goerr \<Rightarrow> goerr" where
  "lookupErrorToStatus typeName e =
     (if is_not_found e then errorToStatus (Wrapped (''failed to locate '' @ typeName) e)
      else if is_proto_argument e then errorToStatus (Wrapped (''cannot lookup '' @ typeName) e)
      else errorToStatus (Wrapped (''unexpected error encountered during '' @ typeName @ '' lookup'') e))"

definition saveErrorToStatus :: "string \<Rightarrow> goerr \<Rightarrow> goerr" where
  "saveErrorToStatus typeName e =
     (if is_proto_argument e \<or> is_validation e then errorToStatus (Wrapped (''cannot save '' @ typeName) e)
      else errorToStatus (Wrapped (''unexpected error encountered while saving '' @ typeName) e))"

definition deleteErrorToStatus :: "string \<Rightarrow> goerr \<Rightarrow> goerr" where
  "deleteErrorToStatus typeName e =
     errorToStatus (Wrapped (''unexpected error encountered while deleting '' @ typeName) e)"

definition status_code :: "goerr \<Rightarrow> gcode option" where
  "status_code e = (case e of Status c _ \<Rightarrow> Some c | _ \<Rightarrow> None)"

lemma chain_wrapped [simp]:
  "is_not_found (Wrapped m e) = is_not_found e" "is_proto_argument (Wrapped m e) = is_proto_argument e"
  "is_validation (Wrapped m e) = is_validation e"
  by (simp_all add: is_not_found_def is_proto_argument_def is_validation_def)

lemma status_not_chain [simp]:
  "\<not> is_not_found (Status c e)" "\<not> is_proto_argument (Status c e)" "\<not> is_validation (Status c e)"
  by (simp_all add: is_not_found_def is_proto_argument_def is_validation_def)

text \<open>All four conversions agree on the code, whatever context they add.\<close>

definition code_of :: "goerr \<Rightarrow> gcode" where
  "code_of e = (if is_not_found e then NotFound
                else if is_proto_argument e \<or> is_validation e then FailedPrecondition else Internal)"

lemma conversion_codes:
  "status_code (errorToStatus e) = Some (code_of e)"
  "status_code (lookupErrorToStatus t e) = Some (code_of e)"
  "status_code (saveErrorToStatus t e) = Some (code_of e)"
  "status_code (deleteErrorToStatus t e) = Some (code_of e)"
  by (simp_all add: status_code_def code_of_def errorToStatus_def lookupErrorToStatus_def
      saveErrorToStatus_def deleteErrorToStatus_def)

text \<open>The error of a call in another form.\<close>

definition map_err :: "(goerr \<Rightarrow> goerr) \<Rightarrow> ('s, goerr, 'a) outcome \<Rightarrow> ('s, goerr, 'a) outcome" where
  "map_err f r = (case r of Fail d e \<Rightarrow> Fail d (f e) | _ \<Rightarrow> r)"

lemma map_err_Ret [simp]: "map_err f r = Ret d a \<longleftrightarrow> r = Ret d a"
  by (cases r) (simp_all add: map_err_def)

end
