(* ===== verification/Jobs.thy ===== *)
theory Jobs
  imports StateErrors LogBuffer
begin

text \<open>
  \<open>internal/server/singleprocess/state/job.go\<close>, \<open>job_assigned.go\<close> and \<open>prune.go\<close>: the job queue. A job is
  a row of the database and, while the server runs, an index record that the in-memory database
  points to. The code changes index records in place, before and outside of any commit, so they
  live in a heap here (\<open>j_heap\<close>), and the in-memory database maps ids to addresses.

  The two databases are not part of the repository: they are the argument \<open>sys\<close>, records of their
  operations on opaque states \<open>'m\<close> and \<open>'d\<close>. Timers (\<open>time.AfterFunc\<close>) are a list; a step lets an armed
  timer whose time has come run its function. \<open>Crash\<close> is a panic or a call that never returns.
\<close>

section \<open>Types\<close>

datatype Job_State = Job_UNKNOWN | Job_QUEUED | Job_WAITING | Job_RUNNING | Job_ERROR | Job_SUCCESS

fun state_num :: "Job_State \<Rightarrow> nat" where
  "state_num Job_UNKNOWN = 0" | "state_num Job_QUEUED = 1" | "state_num Job_WAITING = 2"
| "state_num Job_RUNNING = 3" | "state_num Job_ERROR = 4" | "state_num Job_SUCCESS = 5"

text \<open>States are ordered by their number, as the integer index of the in-memory database orders them.\<close>

lemma state_num_inj: "state_num a = state_num b \<Longrightarrow> a = b"
  by (cases a; cases b) simp_all

instantiation Job_State :: linorder
begin

definition less_eq_Job_State :: "Job_State \<Rightarrow> Job_State \<Rightarrow> bool" where
  "a \<le> b \<longleftrightarrow> state_num a \<le> state_num b"

definition less_Job_State :: "Job_State \<Rightarrow> Job_State \<Rightarrow> bool" where
  "a < b \<longleftrightarrow> state_num a < state_num b"

instance
  by standard (auto simp: less_eq_Job_State_def less_Job_State_def intro: state_num_inj)

end

definition jobIsCompleted :: "Job_State \<Rightarrow> bool" where
  "jobIsCompleted s = (case s of Job_ERROR \<Rightarrow> True | Job_SUCCESS \<Rightarrow> True | _ \<Rightarrow> False)"

datatype runner_target = Ref_Runner_Any | Ref_Runner_Id string

text \<open>The message \<open>vagrant_server.Job\<close>: the fields the state package reads or writes. A time is in
  nanoseconds since 1970, \<open>None\<close> a nil pointer. The operation is a number for its Go type, the scope
  the resource id of the basis, project or target, the runner target a pointer to a message whose
  one-of may be unset.\<close>

record jobpb =
  p_id :: string
  p_state :: Job_State
  p_operation :: nat
  p_scope :: "string option"
  p_targetRunner :: "runner_target option option"
  p_queueTime :: "int option"
  p_assignTime :: "int option"
  p_ackTime :: "int option"
  p_cancelTime :: "int option"
  p_completeTime :: "int option"
  p_expireTime :: "int option"
  p_error :: "goerr option"
  p_result :: "nat option"

record jobIndex =
  x_Id :: string
  x_OpType :: nat
  x_Scope :: "string option"
  x_QueueTime :: int
  x_TargetAny :: bool
  x_TargetRunnerId :: string
  x_State :: Job_State
  x_StateTimer :: "nat option"
  x_OutputBuffer :: "nat option"

datatype timer_kind = AckTimeout | HeartbeatTimeout | ExpireTimeout

record timer =
  t_kind :: timer_kind
  t_job :: string
  t_armed :: bool
  t_due :: int

record ('m, 'd, 'e) jstate =
  j_mem :: 'm
  j_locked :: bool
  j_heap :: "jobIndex list"
  j_db :: 'd
  j_timers :: "timer list"
  j_buffers :: "'e buffer list"
  j_indexedJobs :: int
  j_now :: int

text \<open>The operations of the in-memory database that the job queue uses: lookup, insertion and deletion of
  an index record (an address, with the record's fields at that time), the scan of all jobs, the two
  ordered scans from a lower bound, and the table of assigned resources.\<close>

record 'm memops =
  m_first :: "'m \<Rightarrow> string \<Rightarrow> goerr + nat option"
  m_insert :: "'m \<Rightarrow> nat \<Rightarrow> jobIndex \<Rightarrow> goerr + 'm"
  m_delete :: "'m \<Rightarrow> nat \<Rightarrow> jobIndex \<Rightarrow> goerr + 'm"
  m_all :: "'m \<Rightarrow> goerr + nat list"
  m_queue :: "'m \<Rightarrow> Job_State \<Rightarrow> int \<Rightarrow> goerr + nat list"
  m_target :: "'m \<Rightarrow> Job_State \<Rightarrow> string \<Rightarrow> int \<Rightarrow> goerr + nat list"
  m_assigned :: "'m \<Rightarrow> string \<Rightarrow> goerr + bool"
  m_assign :: "'m \<Rightarrow> string \<Rightarrow> goerr + 'm"
  m_unassign :: "'m \<Rightarrow> string \<Rightarrow> goerr + 'm"

text \<open>The operations on the job rows (type \<open>'j\<close>) of the database, the conversion between row and message,
  and the queries on runners.\<close>

record ('d, 'j) jobdb =
  d_alive :: "'d \<Rightarrow> bool"
  d_find :: "'d \<Rightarrow> string \<Rightarrow> goerr + 'j"
  d_save :: "'d \<Rightarrow> 'j \<Rightarrow> goerr + 'd"
  d_create :: "'d \<Rightarrow> 'j \<Rightarrow> goerr + ('d \<times> 'j)"
  d_incomplete :: "'d \<Rightarrow> goerr + 'j list"
  d_decode :: "jobpb \<Rightarrow> 'j option \<Rightarrow> goerr + 'j"
  d_proto :: "'j \<Rightarrow> jobpb option"
  d_jid :: "'j \<Rightarrow> string option"
  d_state :: "'j \<Rightarrow> Job_State"
  d_validate :: "'d \<Rightarrow> 'j \<Rightarrow> goerr option"
  d_beyond :: "'d \<Rightarrow> nat \<Rightarrow> goerr + 'j list"
  d_remove :: "'d \<Rightarrow> 'j list \<Rightarrow> goerr + 'd"
  d_runners :: "'d \<Rightarrow> goerr + nat"
  d_runnersAny :: "'d \<Rightarrow> goerr + nat"
  d_runnersId :: "'d \<Rightarrow> string \<Rightarrow> goerr + nat"
  d_runner :: "'d \<Rightarrow> string \<Rightarrow> goerr + string"

record ('m, 'd, 'j) sys =
  mem :: "'m memops"
  db :: "('d, 'j) jobdb"

type_synonym ('m, 'd, 'e, 'a) jresult = "(('m, 'd, 'e) jstate, goerr, 'a) outcome"

definition lift :: "goerr + 'a \<Rightarrow> ('m, 'd, 'e) jstate \<Rightarrow> ('m, 'd, 'e, 'a) jresult" where
  "lift r s = (case r of Inl e \<Rightarrow> Fail s e | Inr a \<Rightarrow> Ret s a)"

fun wrap_err :: "(goerr \<Rightarrow> goerr) \<Rightarrow> ('m, 'd, 'e, 'a) jresult \<Rightarrow> ('m, 'd, 'e, 'a) jresult" where
  "wrap_err f (Fail s e) = Fail s (f e)"
| "wrap_err f r = r"

section \<open>Index records and timers\<close>

definition the_job :: "nat \<Rightarrow> ('m, 'd, 'e) jstate \<Rightarrow> jobIndex" where
  "the_job a s = j_heap s ! a"

definition upd_job :: "nat \<Rightarrow> (jobIndex \<Rightarrow> jobIndex) \<Rightarrow> ('m, 'd, 'e) jstate \<Rightarrow> ('m, 'd, 'e) jstate" where
  "upd_job a f s = s\<lparr>j_heap := (j_heap s)[a := f (the_job a s)]\<rparr>"

definition minutes :: "int \<Rightarrow> int" where
  "minutes n = n * 60 * 1000000000"

definition jobWaitingTimeout :: int where
  "jobWaitingTimeout = minutes 2"

definition jobHeartbeatTimeout :: int where
  "jobHeartbeatTimeout = minutes 2"

definition maximumJobsInMem :: int where
  "maximumJobsInMem = 10000"

definition AfterFunc ::
  "int \<Rightarrow> timer_kind \<Rightarrow> string \<Rightarrow> ('m, 'd, 'e) jstate \<Rightarrow> ('m, 'd, 'e) jstate \<times> nat" where
  "AfterFunc d k i s =
     (s\<lparr>j_timers := j_timers s @ [\<lparr>t_kind = k, t_job = i, t_armed = True, t_due = j_now s + d\<rparr>]\<rparr>,
      length (j_timers s))"

definition Timer_Stop :: "nat \<Rightarrow> ('m, 'd, 'e) jstate \<Rightarrow> ('m, 'd, 'e) jstate" where
  "Timer_Stop t s = s\<lparr>j_timers := (j_timers s)[t := (j_timers s ! t)\<lparr>t_armed := False\<rparr>]\<rparr>"

definition Timer_Reset :: "nat \<Rightarrow> int \<Rightarrow> ('m, 'd, 'e) jstate \<Rightarrow> ('m, 'd, 'e) jstate" where
  "Timer_Reset t d s =
     s\<lparr>j_timers := (j_timers s)[t := (j_timers s ! t)\<lparr>t_armed := True, t_due := j_now s + d\<rparr>]\<rparr>"

text \<open>\<open>job.StateTimer = time.AfterFunc(...)\<close>: the timer the field held before is not stopped.\<close>

definition set_timer ::
  "nat \<Rightarrow> int \<Rightarrow> timer_kind \<Rightarrow> ('m, 'd, 'e) jstate \<Rightarrow> ('m, 'd, 'e) jstate" where
  "set_timer a d k s =
     (case AfterFunc d k (x_Id (the_job a s)) s of
        (s', t) \<Rightarrow> upd_job a (\<lambda>x. x\<lparr>x_StateTimer := Some t\<rparr>) s')"

text \<open>\<open>End\<close>, and the same lines in \<open>JobAck\<close>: stop the state timer and drop it.\<close>

definition End :: "nat \<Rightarrow> ('m, 'd, 'e) jstate \<Rightarrow> ('m, 'd, 'e) jstate" where
  "End a s =
     (case x_StateTimer (the_job a s) of
        None \<Rightarrow> s
      | Some t \<Rightarrow> upd_job a (\<lambda>x. x\<lparr>x_StateTimer := None\<rparr>) (Timer_Stop t s))"

section \<open>Assigned jobs\<close>

text \<open>The operation types that block each other: none.\<close>

definition blockOps :: "nat set" where
  "blockOps = {}"

definition jobIsBlocked ::
  "('m, 'd, 'j) sys \<Rightarrow> 'm \<Rightarrow> jobIndex \<Rightarrow> ('m, 'd, 'e) jstate \<Rightarrow> ('m, 'd, 'e, bool) jresult" where
  "jobIsBlocked sys txn idx s =
     (if x_OpType idx \<notin> blockOps then Ret s False
      else (case x_Scope idx of
              None \<Rightarrow> Crash ''nil pointer dereference''
            | Some r \<Rightarrow> lift (m_assigned (mem sys) txn r) s))"

definition jobAssignedSet ::
  "('m, 'd, 'j) sys \<Rightarrow> 'm \<Rightarrow> jobIndex \<Rightarrow> bool \<Rightarrow> ('m, 'd, 'e) jstate \<Rightarrow> ('m, 'd, 'e, 'm) jresult" where
  "jobAssignedSet sys txn idx assigned s =
     (if x_OpType idx \<notin> blockOps then Ret s txn
      else (case x_Scope idx of
              None \<Rightarrow> Crash ''nil pointer dereference''
            | Some r \<Rightarrow> lift ((if assigned then m_assign else m_unassign) (mem sys) txn r) s))"

section \<open>Rows of the database\<close>

definition InternalJobFromProto ::
  "('m, 'd, 'j) sys \<Rightarrow> jobpb option \<Rightarrow> ('m, 'd, 'e) jstate \<Rightarrow> ('m, 'd, 'e, 'j) jresult" where
  "InternalJobFromProto sys job s =
     (case job of
        None \<Rightarrow> Fail s EmptyProtoArgument
      | Some p \<Rightarrow>
          if p_id p = [] then Fail s RecordNotFound
          else (case d_find (db sys) (j_db s) (p_id p) of
                  Inl e \<Rightarrow> if is_not_found e then Fail s e else Crash ''database error''
                | Inr j \<Rightarrow> Ret s j))"

definition ToProto :: "('m, 'd, 'j) sys \<Rightarrow> 'j \<Rightarrow> ('m, 'd, 'e) jstate \<Rightarrow> ('m, 'd, 'e, jobpb) jresult" where
  "ToProto sys j s =
     (case d_proto (db sys) j of None \<Rightarrow> Crash ''failed to decode job'' | Some p \<Rightarrow> Ret s p)"

definition pb_of_id :: "string \<Rightarrow> jobpb" where
  "pb_of_id i =
     \<lparr>p_id = i, p_state = Job_UNKNOWN, p_operation = 0, p_scope = None, p_targetRunner = None,
      p_queueTime = None, p_assignTime = None, p_ackTime = None, p_cancelTime = None,
      p_completeTime = None, p_expireTime = None, p_error = None, p_result = None\<rparr>"

definition jobById ::
  "('m, 'd, 'j) sys \<Rightarrow> string \<Rightarrow> ('m, 'd, 'e) jstate \<Rightarrow> ('m, 'd, 'e, jobpb) jresult" where
  "jobById sys i s =
     bind_o (InternalJobFromProto sys (Some (pb_of_id i)) s) (\<lambda>s j. ToProto sys j s)"

definition save_row ::
  "('m, 'd, 'j) sys \<Rightarrow> jobpb \<Rightarrow> ('m, 'd, 'e) jstate \<Rightarrow> ('m, 'd, 'e, jobpb) jresult" where
  "save_row sys j s =
     bind_o (InternalJobFromProto sys (Some j) s) (\<lambda>s ij.
       case d_decode (db sys) j (Some ij) of
         Inl e \<Rightarrow> Fail s e
       | Inr ij' \<Rightarrow>
           (case d_save (db sys) (j_db s) ij' of
              Inl e \<Rightarrow> Fail s e
            | Inr d \<Rightarrow> ToProto sys ij' (s\<lparr>j_db := d\<rparr>)))"

text \<open>The update function may change index records as well as the message.\<close>

definition jobReadAndUpdate ::
  "('m, 'd, 'j) sys \<Rightarrow> string \<Rightarrow>
   (jobpb \<Rightarrow> ('m, 'd, 'e) jstate \<Rightarrow> jobpb \<times> ('m, 'd, 'e) jstate) \<Rightarrow>
   ('m, 'd, 'e) jstate \<Rightarrow> ('m, 'd, 'e, jobpb) jresult" where
  "jobReadAndUpdate sys i f s =
     (if \<not> d_alive (db sys) (j_db s)
      then Fail s (OtherError ''cannot update job information, database closed'')
      else bind_o (jobById sys i s) (\<lambda>s j. save_row sys (fst (f j s)) (snd (f j s))))"

definition JobValidate ::
  "('m, 'd, 'j) sys \<Rightarrow> jobpb option \<Rightarrow> ('m, 'd, 'e) jstate \<Rightarrow> ('m, 'd, 'e, unit) jresult" where
  "JobValidate sys jobpb s =
     wrap_err errorToStatus
       (bind_o (InternalJobFromProto sys jobpb s) (\<lambda>s job.
          case d_decode (db sys) (the jobpb) (Some job) of
            Inl e \<Rightarrow> Fail s e
          | Inr job' \<Rightarrow> (case d_validate (db sys) (j_db s) job' of None \<Rightarrow> Ret s () | Some e \<Rightarrow> Fail s e)))"

section \<open>Transactions\<close>

text \<open>A write transaction works on its own version of the in-memory database and holds the one write lock.
  An abandoned transaction keeps the lock: the next one waits for ever.\<close>

definition write_txn ::
  "('m \<Rightarrow> ('m, 'd, 'e) jstate \<Rightarrow> ('m, 'd, 'e, 'a) jresult) \<Rightarrow> ('m, 'd, 'e) jstate \<Rightarrow> ('m, 'd, 'e, 'a) jresult" where
  "write_txn body s = (if j_locked s then Crash ''write lock held for ever'' else body (j_mem s) s)"

definition commit :: "'m \<Rightarrow> ('m, 'd, 'e) jstate \<Rightarrow> ('m, 'd, 'e) jstate" where
  "commit txn s = s\<lparr>j_mem := txn\<rparr>"

text \<open>\<open>txn.First\<close> and the type assertion: the address, \<open>None\<close> when there is no such job.\<close>

definition First ::
  "('m, 'd, 'j) sys \<Rightarrow> 'm \<Rightarrow> string \<Rightarrow> ('m, 'd, 'e) jstate \<Rightarrow> ('m, 'd, 'e, nat option) jresult" where
  "First sys txn i s =
     bind_o (lift (m_first (mem sys) txn i) s) (\<lambda>s r.
       case r of
         None \<Rightarrow> Ret s None
       | Some a \<Rightarrow> if a < length (j_heap s) then Ret s (Some a) else Crash ''dangling pointer'')"

definition Insert ::
  "('m, 'd, 'j) sys \<Rightarrow> 'm \<Rightarrow> nat \<Rightarrow> ('m, 'd, 'e) jstate \<Rightarrow> ('m, 'd, 'e, 'm) jresult" where
  "Insert sys txn a s = lift (m_insert (mem sys) txn a (the_job a s)) s"

definition job_not_found :: "string \<Rightarrow> goerr" where
  "job_not_found i = Status NotFound (OtherError (''job not found: '' @ i))"

section \<open>Creating jobs\<close>

text \<open>\<open>timestamppb\<close>: a nil timestamp is invalid, and so is one outside of the years 1 to 9999.\<close>

definition CheckValid :: "int option \<Rightarrow> goerr option" where
  "CheckValid t =
     (case t of
        None \<Rightarrow> Some (OtherError ''invalid nil Timestamp'')
      | Some n \<Rightarrow> if -62135596800000000000 \<le> n \<and> n < 253402300800000000000 then None
                  else Some (OtherError ''timestamp out of range''))"

text \<open>\<open>jobIndexSet\<close>: a new index record, its timers, and the record's insertion.\<close>

definition index_of :: "jobpb \<Rightarrow> goerr + jobIndex" where
  "index_of p =
     (case p_targetRunner p of
        None \<Rightarrow> Inl (OtherError ''job target runner must be set'')
      | Some None \<Rightarrow> Inl (OtherError ''job target runner must be set'')
      | Some (Some t) \<Rightarrow>
          (case CheckValid (p_queueTime p) of
             Some e \<Rightarrow> Inl e
           | None \<Rightarrow>
               Inr \<lparr>x_Id = p_id p, x_OpType = p_operation p, x_Scope = p_scope p,
                    x_QueueTime = the (p_queueTime p),
                    x_TargetAny = (t = Ref_Runner_Any),
                    x_TargetRunnerId = (case t of Ref_Runner_Any \<Rightarrow> [] | Ref_Runner_Id i \<Rightarrow> i),
                    x_State = p_state p, x_StateTimer = None, x_OutputBuffer = None\<rparr>))"

definition expire_timer :: "jobpb \<Rightarrow> ('m, 'd, 'e) jstate \<Rightarrow> ('m, 'd, 'e, unit) jresult" where
  "expire_timer p s =
     (case p_expireTime p of
        None \<Rightarrow> Ret s ()
      | Some t \<Rightarrow>
          (case CheckValid (Some t) of
             Some e \<Rightarrow> Fail s e
           | None \<Rightarrow>
               let dur = (if t - j_now s < 0 then 1 else t - j_now s)
               in Ret (fst (AfterFunc dur ExpireTimeout (p_id p) s)) ()))"

definition jobIndexSet ::
  "('m, 'd, 'j) sys \<Rightarrow> 'm \<Rightarrow> jobpb \<Rightarrow> ('m, 'd, 'e) jstate \<Rightarrow> ('m, 'd, 'e, 'm \<times> nat) jresult" where
  "jobIndexSet sys txn p s =
     (case index_of p of
        Inl e \<Rightarrow> Fail s e
      | Inr rec \<Rightarrow>
          let a = length (j_heap s);
              s1 = s\<lparr>j_heap := j_heap s @ [rec]\<rparr>;
              s2 = (if x_State rec = Job_WAITING then set_timer a jobWaitingTimeout AckTimeout s1 else s1);
              s3 = (if x_State rec = Job_RUNNING then set_timer a jobHeartbeatTimeout HeartbeatTimeout s2
                    else s2)
          in bind_o (expire_timer p s3) (\<lambda>s _.
               bind_o (Insert sys txn a s) (\<lambda>s txn. Ret s (txn, a))))"

definition jobCreate ::
  "('m, 'd, 'j) sys \<Rightarrow> 'm \<Rightarrow> jobpb \<Rightarrow> ('m, 'd, 'e) jstate \<Rightarrow> ('m, 'd, 'e, 'm) jresult" where
  "jobCreate sys txn p0 s =
     (let p = p0\<lparr>p_state := Job_QUEUED, p_queueTime := Some (j_now s)\<rparr> in
      case InternalJobFromProto sys (Some p) s of
        Crash m \<Rightarrow> Crash m
      | Ret s job \<Rightarrow> Fail s (OtherError ''job already exists, cannot create'')
      | Fail s _ \<Rightarrow>
          (case d_decode (db sys) p None of
             Inl e \<Rightarrow> Fail s e
           | Inr job \<Rightarrow>
               (case d_create (db sys) (j_db s) job of
                  Inl e \<Rightarrow> Fail s e
                | Inr (d, job') \<Rightarrow>
                    (case d_jid (db sys) job' of
                       None \<Rightarrow> Crash ''nil pointer dereference''
                     | Some _ \<Rightarrow>
                         bind_o (ToProto sys job' (s\<lparr>j_db := d\<rparr>)) (\<lambda>s p'.
                           case jobIndexSet sys txn p' s of
                             Crash m \<Rightarrow> Crash m
                           | Ret s (txn, a) \<Rightarrow> Ret (s\<lparr>j_indexedJobs := j_indexedJobs s + 1\<rparr>) txn
                           | Fail s e \<Rightarrow> Fail (s\<lparr>j_indexedJobs := j_indexedJobs s + 1\<rparr>) e)))))"

definition JobCreate ::
  "('m, 'd, 'j) sys \<Rightarrow> jobpb \<Rightarrow> ('m, 'd, 'e) jstate \<Rightarrow> ('m, 'd, 'e, unit) jresult" where
  "JobCreate sys p s =
     wrap_err (lookupErrorToStatus ''job'')
       (write_txn (\<lambda>txn s. bind_o (jobCreate sys txn p s) (\<lambda>s txn. Ret (commit txn s) ())) s)"

text \<open>\<open>jobIndexInit\<close>: the unfinished jobs of the database become index records when the server starts.\<close>

fun index_rows ::
  "('m, 'd, 'j) sys \<Rightarrow> 'm \<Rightarrow> 'j list \<Rightarrow> ('m, 'd, 'e) jstate \<Rightarrow> ('m, 'd, 'e, 'm) jresult" where
  "index_rows sys txn [] s = Ret s txn"
| "index_rows sys txn (j # js) s =
     bind_o (ToProto sys j s) (\<lambda>s job.
       case d_jid (db sys) j of
         None \<Rightarrow> index_rows sys txn js s
       | Some _ \<Rightarrow>
           bind_o (jobIndexSet sys txn job s) (\<lambda>s r.
             case r of (txn, a) \<Rightarrow>
               bind_o
                 (if d_state (db sys) j = Job_WAITING \<or> d_state (db sys) j = Job_RUNNING
                  then jobAssignedSet sys txn (the_job a s) True s
                  else Ret s txn)
                 (\<lambda>s txn. index_rows sys txn js s)))"

definition jobIndexInit ::
  "('m, 'd, 'j) sys \<Rightarrow> 'm \<Rightarrow> ('m, 'd, 'e) jstate \<Rightarrow> ('m, 'd, 'e, 'm) jresult" where
  "jobIndexInit sys txn s =
     bind_o (lift (d_incomplete (db sys) (j_db s)) s) (\<lambda>s jobs. index_rows sys txn jobs s)"

section \<open>Looking at jobs\<close>

fun jobs_by_ids ::
  "('m, 'd, 'j) sys \<Rightarrow> nat list \<Rightarrow> ('m, 'd, 'e) jstate \<Rightarrow> ('m, 'd, 'e, jobpb list) jresult" where
  "jobs_by_ids sys [] s = Ret s []"
| "jobs_by_ids sys (a # as) s =
     (if a < length (j_heap s) then
        bind_o (jobById sys (x_Id (the_job a s)) s) (\<lambda>s p.
          bind_o (jobs_by_ids sys as s) (\<lambda>s ps. Ret s (p # ps)))
      else Crash ''dangling pointer'')"

definition JobList :: "('m, 'd, 'j) sys \<Rightarrow> ('m, 'd, 'e) jstate \<Rightarrow> ('m, 'd, 'e, jobpb list) jresult" where
  "JobList sys s =
     wrap_err (lookupErrorToStatus ''job'')
       (bind_o (lift (m_all (mem sys) (j_mem s)) s) (\<lambda>s as. jobs_by_ids sys as s))"

record job =
  job_pb :: jobpb
  job_OutputBuffer :: "nat option"
  job_Blocked :: bool

definition jobIndex_Job :: "jobIndex \<Rightarrow> jobpb \<Rightarrow> job" where
  "jobIndex_Job x p = \<lparr>job_pb = p, job_OutputBuffer = x_OutputBuffer x, job_Blocked = False\<rparr>"

definition JobById ::
  "('m, 'd, 'j) sys \<Rightarrow> string \<Rightarrow> ('m, 'd, 'e) jstate \<Rightarrow> ('m, 'd, 'e, job option) jresult" where
  "JobById sys i s =
     wrap_err (lookupErrorToStatus ''job'')
       (bind_o (First sys (j_mem s) i s) (\<lambda>s r.
          case r of
            None \<Rightarrow> Ret s None
          | Some a \<Rightarrow>
              bind_o (if x_State (the_job a s) = Job_QUEUED
                      then jobIsBlocked sys (j_mem s) (the_job a s) s else Ret s False) (\<lambda>s blocked.
                bind_o (jobById sys (x_Id (the_job a s)) s) (\<lambda>s p.
                  Ret s (Some ((jobIndex_Job (the_job a s) p)\<lparr>job_Blocked := blocked\<rparr>))))))"

section \<open>Assigning jobs\<close>

record runner =
  rn_Id :: string
  rn_ByIdOnly :: bool

definition RunnerFromProto ::
  "('m, 'd, 'j) sys \<Rightarrow> runner \<Rightarrow> ('m, 'd, 'e) jstate \<Rightarrow> ('m, 'd, 'e, string) jresult" where
  "RunnerFromProto sys r s =
     (if rn_Id r = [] then Fail s RecordNotFound else lift (d_runner (db sys) (j_db s) (rn_Id r)) s)"

text \<open>The loop of a candidate search: the first queued job that fits and is not blocked.\<close>

fun first_candidate ::
  "('m, 'd, 'j) sys \<Rightarrow> 'm \<Rightarrow> (jobIndex \<Rightarrow> bool) \<Rightarrow> nat list \<Rightarrow> ('m, 'd, 'e) jstate \<Rightarrow>
   ('m, 'd, 'e, nat option) jresult" where
  "first_candidate sys txn fits [] s = Ret s None"
| "first_candidate sys txn fits (a # as) s =
     (if length (j_heap s) \<le> a then Crash ''dangling pointer''
      else if x_State (the_job a s) \<noteq> Job_QUEUED \<or> \<not> fits (the_job a s)
      then first_candidate sys txn fits as s
      else bind_o (jobIsBlocked sys txn (the_job a s) s) (\<lambda>s blocked.
             if blocked then first_candidate sys txn fits as s else Ret s (Some a)))"

definition jobCandidateById ::
  "('m, 'd, 'j) sys \<Rightarrow> 'm \<Rightarrow> string \<Rightarrow> ('m, 'd, 'e) jstate \<Rightarrow> ('m, 'd, 'e, nat option) jresult" where
  "jobCandidateById sys txn rid s =
     bind_o (lift (m_target (mem sys) txn Job_QUEUED rid 0) s) (\<lambda>s as.
       first_candidate sys txn (\<lambda>x. x_TargetRunnerId x = rid) as s)"

definition jobCandidateAny ::
  "('m, 'd, 'j) sys \<Rightarrow> 'm \<Rightarrow> string \<Rightarrow> ('m, 'd, 'e) jstate \<Rightarrow> ('m, 'd, 'e, nat option) jresult" where
  "jobCandidateAny sys txn rid s =
     bind_o (lift (m_queue (mem sys) txn Job_QUEUED 0) s) (\<lambda>s as.
       first_candidate sys txn x_TargetAny as s)"

text \<open>The first half of \<open>JobAssignForRunner\<close>: the candidates, the earliest queued first. An empty list makes
  the caller wait for a change and try again.\<close>

definition assign_search ::
  "('m, 'd, 'j) sys \<Rightarrow> runner \<Rightarrow> ('m, 'd, 'e) jstate \<Rightarrow> ('m, 'd, 'e, nat list) jresult" where
  "assign_search sys r s =
     bind_o (wrap_err (Wrapped ''runner lookup failed'') (RunnerFromProto sys r s)) (\<lambda>s rid.
       bind_o (jobCandidateById sys (j_mem s) rid s) (\<lambda>s c1.
         bind_o (if rn_ByIdOnly r then Ret s None else jobCandidateAny sys (j_mem s) rid s) (\<lambda>s c2.
           Ret s (sort_key (\<lambda>a. x_QueueTime (the_job a s))
                    ((case c1 of None \<Rightarrow> [] | Some a \<Rightarrow> [a]) @ (case c2 of None \<Rightarrow> [] | Some a \<Rightarrow> [a]))))))"

text \<open>An error return between \<open>Txn(true)\<close> and \<open>Commit\<close> or \<open>Abort\<close>. The deferred \<open>Abort\<close> was bound to the read
  transaction when it was deferred, so the write lock stays taken.\<close>

fun leak_lock :: "('m, 'd, 'e, 'a) jresult \<Rightarrow> ('m, 'd, 'e, 'a) jresult" where
  "leak_lock (Fail s e) = Fail (s\<lparr>j_locked := True\<rparr>) e"
| "leak_lock r = r"

text \<open>One candidate, found again under the write lock; the result is \<open>None\<close> when it is no longer valid.\<close>

definition assign_one ::
  "('m, 'd, 'j) sys \<Rightarrow> 'm \<Rightarrow> nat \<Rightarrow> ('m, 'd, 'e) jstate \<Rightarrow> ('m, 'd, 'e, job option) jresult" where
  "assign_one sys txn c s =
     bind_o (leak_lock (First sys txn (x_Id (the_job c s)) s)) (\<lambda>s r.
       case r of
         None \<Rightarrow> Ret s None
       | Some a \<Rightarrow>
           if x_State (the_job a s) \<noteq> Job_QUEUED then Ret s None
           else bind_o (leak_lock (jobIsBlocked sys txn (the_job a s) s)) (\<lambda>s blocked.
             if blocked then Ret s None
             else
               let s1 = upd_job a (\<lambda>x. x\<lparr>x_State := Job_WAITING\<rparr>) s in
               bind_o (leak_lock (jobReadAndUpdate sys (x_Id (the_job a s1))
                        (\<lambda>p s. (p\<lparr>p_state := Job_WAITING, p_assignTime := Some (j_now s)\<rparr>, s)) s1)) (\<lambda>s result.
                 let s2 = set_timer a jobWaitingTimeout AckTimeout s in
                 bind_o (leak_lock (Insert sys txn a s2)) (\<lambda>s txn.
                   case jobAssignedSet sys txn (the_job a s) True s of
                     Ret s txn \<Rightarrow> Ret (commit txn s) (Some (jobIndex_Job (the_job a s) result))
                   | Fail s e \<Rightarrow> Crash ''write lock held for ever''
                   | Crash m \<Rightarrow> Crash m))))"

fun assign_loop ::
  "('m, 'd, 'j) sys \<Rightarrow> 'm \<Rightarrow> nat list \<Rightarrow> ('m, 'd, 'e) jstate \<Rightarrow> ('m, 'd, 'e, job option) jresult" where
  "assign_loop sys txn [] s = Ret s None"
| "assign_loop sys txn (c # cs) s =
     bind_o (assign_one sys txn c s) (\<lambda>s r.
       case r of Some j \<Rightarrow> Ret s (Some j) | None \<Rightarrow> assign_loop sys txn cs s)"

definition assign_commit ::
  "('m, 'd, 'j) sys \<Rightarrow> nat list \<Rightarrow> ('m, 'd, 'e) jstate \<Rightarrow> ('m, 'd, 'e, job option) jresult" where
  "assign_commit sys cs s = write_txn (\<lambda>txn s. assign_loop sys txn cs s) s"

text \<open>One attempt of \<open>JobAssignForRunner\<close>; the function repeats it, after a change when nothing was found,
  until a job is assigned or the context is done.\<close>

datatype attempt = Assigned job | NoCandidate | AllInvalid

definition JobAssignForRunner ::
  "('m, 'd, 'j) sys \<Rightarrow> runner \<Rightarrow> ('m, 'd, 'e) jstate \<Rightarrow> ('m, 'd, 'e, attempt) jresult" where
  "JobAssignForRunner sys r s =
     bind_o (assign_search sys r s) (\<lambda>s cs.
       if cs = [] then Ret s NoCandidate
       else bind_o (assign_commit sys cs s) (\<lambda>s j.
         Ret s (case j of None \<Rightarrow> AllInvalid | Some j \<Rightarrow> Assigned j)))"

section \<open>The life of an assigned job\<close>

definition bad_state :: "string \<Rightarrow> Job_State \<Rightarrow> goerr" where
  "bad_state what st = Status FailedPrecondition (OtherError (''job can't be '' @ what @ '' from state''))"

definition ack_update :: "nat \<Rightarrow> bool \<Rightarrow> jobpb \<Rightarrow> ('m, 'd, 'e) jstate \<Rightarrow> jobpb \<times> ('m, 'd, 'e) jstate" where
  "ack_update a ack p s =
     (if ack then
        (p\<lparr>p_state := Job_RUNNING, p_ackTime := Some (j_now s)\<rparr>,
         (upd_job a (\<lambda>x. x\<lparr>x_State := Job_RUNNING, x_OutputBuffer := Some (length (j_buffers s))\<rparr>) s)
           \<lparr>j_buffers := j_buffers s @ [New 32]\<rparr>)
      else
        (p\<lparr>p_state := Job_QUEUED, p_assignTime := None\<rparr>, upd_job a (\<lambda>x. x\<lparr>x_State := Job_QUEUED\<rparr>) s))"

definition JobAck ::
  "('m, 'd, 'j) sys \<Rightarrow> string \<Rightarrow> bool \<Rightarrow> ('m, 'd, 'e) jstate \<Rightarrow> ('m, 'd, 'e, job) jresult" where
  "JobAck sys i ack s =
     write_txn (\<lambda>txn s.
       bind_o (wrap_err (lookupErrorToStatus ''job'') (First sys txn i s)) (\<lambda>s r.
         case r of
           None \<Rightarrow> Fail s (job_not_found i)
         | Some a \<Rightarrow>
             if x_State (the_job a s) \<noteq> Job_WAITING
             then Fail s (bad_state ''acked'' (x_State (the_job a s)))
             else
               bind_o (wrap_err (lookupErrorToStatus ''job'')
                        (jobReadAndUpdate sys (x_Id (the_job a s)) (ack_update a ack) s)) (\<lambda>s result.
                 let s1 = set_timer a jobHeartbeatTimeout HeartbeatTimeout (End a s) in
                 bind_o (wrap_err (saveErrorToStatus ''job'') (Insert sys txn a s1)) (\<lambda>s txn.
                   bind_o (if ack then Ret s txn
                           else wrap_err (saveErrorToStatus ''job'')
                                  (jobAssignedSet sys txn (the_job a s) False s)) (\<lambda>s txn.
                     Ret (commit txn s) (jobIndex_Job (the_job a s) result)))))) s"

definition complete_update ::
  "nat \<Rightarrow> nat option \<Rightarrow> goerr option \<Rightarrow> jobpb \<Rightarrow> ('m, 'd, 'e) jstate \<Rightarrow> jobpb \<times> ('m, 'd, 'e) jstate" where
  "complete_update a result cerr p s =
     (let p1 = p\<lparr>p_state := Job_SUCCESS, p_result := result, p_completeTime := Some (j_now s)\<rparr> in
      case cerr of
        None \<Rightarrow> (p1, upd_job a (\<lambda>x. x\<lparr>x_State := Job_SUCCESS\<rparr>) s)
      | Some e \<Rightarrow> (p1\<lparr>p_state := Job_ERROR, p_error := Some e\<rparr>, upd_job a (\<lambda>x. x\<lparr>x_State := Job_ERROR\<rparr>) s))"

definition JobComplete ::
  "('m, 'd, 'j) sys \<Rightarrow> string \<Rightarrow> nat option \<Rightarrow> goerr option \<Rightarrow> ('m, 'd, 'e) jstate \<Rightarrow> ('m, 'd, 'e, unit) jresult" where
  "JobComplete sys i result cerr s =
     write_txn (\<lambda>txn s.
       bind_o (wrap_err (lookupErrorToStatus ''job'') (First sys txn i s)) (\<lambda>s r.
         case r of
           None \<Rightarrow> Fail s (job_not_found i)
         | Some a \<Rightarrow>
             bind_o (wrap_err (saveErrorToStatus ''job'') (jobAssignedSet sys txn (the_job a s) False s)) (\<lambda>s txn.
               if x_State (the_job a s) \<noteq> Job_RUNNING
               then Fail s (bad_state ''completed'' (x_State (the_job a s)))
               else
                 bind_o (wrap_err (saveErrorToStatus ''job'')
                          (jobReadAndUpdate sys (x_Id (the_job a s)) (complete_update a result cerr) s)) (\<lambda>s _.
                   bind_o (wrap_err (saveErrorToStatus ''job'') (Insert sys txn a (End a s))) (\<lambda>s txn.
                     Ret (commit txn s) ()))))) s"

text \<open>The state part of \<open>jobCancel\<close>: a queued job fails at once, an assigned one only when forced.\<close>

definition cancel_state :: "nat \<Rightarrow> bool \<Rightarrow> ('m, 'd, 'e) jstate \<Rightarrow> ('m, 'd, 'e) jstate" where
  "cancel_state a force s =
     (case x_State (the_job a s) of
        Job_QUEUED \<Rightarrow> upd_job a (\<lambda>x. x\<lparr>x_State := Job_ERROR\<rparr>) s
      | Job_WAITING \<Rightarrow> if force then End a (upd_job a (\<lambda>x. x\<lparr>x_State := Job_ERROR\<rparr>) s) else s
      | Job_RUNNING \<Rightarrow> if force then End a (upd_job a (\<lambda>x. x\<lparr>x_State := Job_ERROR\<rparr>) s) else s
      | _ \<Rightarrow> s)"

definition cancel_update ::
  "nat \<Rightarrow> jobpb \<Rightarrow> ('m, 'd, 'e) jstate \<Rightarrow> jobpb \<times> ('m, 'd, 'e) jstate" where
  "cancel_update a p s =
     (let p1 = p\<lparr>p_state := x_State (the_job a s), p_cancelTime := Some (j_now s)\<rparr>
      in (if p_state p1 = Job_ERROR then p1\<lparr>p_error := Some (Status Canceled (OtherError ''canceled''))\<rparr> else p1, s))"

definition jobCancel ::
  "('m, 'd, 'j) sys \<Rightarrow> 'm \<Rightarrow> nat \<Rightarrow> bool \<Rightarrow> ('m, 'd, 'e) jstate \<Rightarrow> ('m, 'd, 'e, 'm) jresult" where
  "jobCancel sys txn a force s =
     (if jobIsCompleted (x_State (the_job a s)) then Ret s txn
      else
        let s1 = cancel_state a force s in
        bind_o (if force \<and> x_State (the_job a s1) = Job_ERROR
                then jobAssignedSet sys txn (the_job a s1) False s1 else Ret s1 txn) (\<lambda>s txn.
          bind_o (jobReadAndUpdate sys (x_Id (the_job a s)) (cancel_update a) s) (\<lambda>s _. Insert sys txn a s)))"

definition JobCancel ::
  "('m, 'd, 'j) sys \<Rightarrow> string \<Rightarrow> bool \<Rightarrow> ('m, 'd, 'e) jstate \<Rightarrow> ('m, 'd, 'e, unit) jresult" where
  "JobCancel sys i force s =
     write_txn (\<lambda>txn s.
       bind_o (wrap_err (lookupErrorToStatus ''job'') (First sys txn i s)) (\<lambda>s r.
         case r of
           None \<Rightarrow> Fail s (job_not_found i)
         | Some a \<Rightarrow>
             bind_o (wrap_err (saveErrorToStatus ''job'') (jobCancel sys txn a force s)) (\<lambda>s txn.
               Ret (commit txn s) ()))) s"

definition jobHeartbeat ::
  "('m, 'd, 'j) sys \<Rightarrow> 'm \<Rightarrow> string \<Rightarrow> ('m, 'd, 'e) jstate \<Rightarrow> ('m, 'd, 'e, unit) jresult" where
  "jobHeartbeat sys txn i s =
     bind_o (First sys txn i s) (\<lambda>s r.
       case r of
         None \<Rightarrow> Fail s (job_not_found i)
       | Some a \<Rightarrow>
           if x_State (the_job a s) \<noteq> Job_RUNNING then Ret s ()
           else (case x_StateTimer (the_job a s) of
                   None \<Rightarrow> Ret s ()
                 | Some t \<Rightarrow> Ret (Timer_Reset t jobHeartbeatTimeout s) ()))"

definition JobHeartbeat ::
  "('m, 'd, 'j) sys \<Rightarrow> string \<Rightarrow> ('m, 'd, 'e) jstate \<Rightarrow> ('m, 'd, 'e, unit) jresult" where
  "JobHeartbeat sys i s =
     write_txn (\<lambda>txn s. bind_o (jobHeartbeat sys txn i s) (\<lambda>s _. Ret (commit txn s) ())) s"

definition JobExpire ::
  "('m, 'd, 'j) sys \<Rightarrow> string \<Rightarrow> ('m, 'd, 'e) jstate \<Rightarrow> ('m, 'd, 'e, unit) jresult" where
  "JobExpire sys i s =
     write_txn (\<lambda>txn s.
       bind_o (First sys txn i s) (\<lambda>s r.
         case r of
           None \<Rightarrow> Fail s (job_not_found i)
         | Some a \<Rightarrow>
             bind_o (if x_State (the_job a s) \<in> {Job_QUEUED, Job_WAITING}
                     then jobCancel sys txn a False s else Ret s txn) (\<lambda>s txn.
               Ret (commit txn s) ()))) s"

section \<open>Runners and pruning\<close>

definition runnerEmpty :: "('m, 'd, 'j) sys \<Rightarrow> ('m, 'd, 'e) jstate \<Rightarrow> ('m, 'd, 'e, bool) jresult" where
  "runnerEmpty sys s = bind_o (lift (d_runners (db sys) (j_db s)) s) (\<lambda>s c. Ret s (c < 1))"

definition JobIsAssignable ::
  "('m, 'd, 'j) sys \<Rightarrow> jobpb \<Rightarrow> ('m, 'd, 'e) jstate \<Rightarrow> ('m, 'd, 'e, bool) jresult" where
  "JobIsAssignable sys p s =
     bind_o (runnerEmpty sys s) (\<lambda>s none.
       if none then Ret s False
       else (case p_targetRunner p of
               None \<Rightarrow> Crash ''nil pointer dereference''
             | Some None \<Rightarrow> Fail s (OtherError ''unknown runner target value'')
             | Some (Some Ref_Runner_Any) \<Rightarrow>
                 bind_o (lift (d_runnersAny (db sys) (j_db s)) s) (\<lambda>s c. Ret s (0 < c))
             | Some (Some (Ref_Runner_Id i)) \<Rightarrow>
                 bind_o (lift (d_runnersId (db sys) (j_db s) i) s) (\<lambda>s c. Ret s (0 < c))))"

text \<open>\<open>prune.go\<close>: the scan deletes records that the check does not protect until \<open>cnt\<close> are gone. \<open>valid\<close> is the
  validation of the counter by the validation library.\<close>

fun prune_loop ::
  "('m, 'd, 'j) sys \<Rightarrow> (jobIndex \<Rightarrow> bool) \<Rightarrow> nat list \<Rightarrow> int \<Rightarrow> int \<Rightarrow> 'm \<Rightarrow> ('m, 'd, 'e) jstate \<Rightarrow>
   ('m, 'd, 'e, 'm \<times> int) jresult" where
  "prune_loop sys keep [] cnt deleted txn s = Ret s (txn, deleted)"
| "prune_loop sys keep (a # as) cnt deleted txn s =
     (if length (j_heap s) \<le> a then Crash ''dangling pointer''
      else if keep (the_job a s) then prune_loop sys keep as cnt deleted txn s
      else bind_o (lift (m_delete (mem sys) txn a (the_job a s)) s) (\<lambda>s txn.
             if cnt - 1 \<le> 0 then Ret s (txn, deleted + 1)
             else prune_loop sys keep as (cnt - 1) (deleted + 1) txn s))"

definition pruneOld ::
  "('m, 'd, 'j) sys \<Rightarrow> (int \<Rightarrow> goerr option) \<Rightarrow> int \<Rightarrow> (jobIndex \<Rightarrow> bool) \<Rightarrow> 'm \<Rightarrow> ('m, 'd, 'e) jstate \<Rightarrow>
   ('m, 'd, 'e, 'm \<times> int) jresult" where
  "pruneOld sys valid mx keep txn s =
     (case valid (j_indexedJobs s) of
        Some e \<Rightarrow> Fail s e
      | None \<Rightarrow>
          if j_indexedJobs s \<le> mx then Ret s (txn, 0)
          else
            bind_o (lift (m_queue (mem sys) txn Job_QUEUED 0) s) (\<lambda>s as.
              bind_o (prune_loop sys keep as (j_indexedJobs s - mx) 0 txn s) (\<lambda>s r.
                Ret (s\<lparr>j_indexedJobs := j_indexedJobs s - snd r\<rparr>) r)))"

definition jobsPruneOld ::
  "('m, 'd, 'j) sys \<Rightarrow> (int \<Rightarrow> goerr option) \<Rightarrow> int \<Rightarrow> 'm \<Rightarrow> ('m, 'd, 'e) jstate \<Rightarrow> ('m, 'd, 'e, 'm \<times> int) jresult" where
  "jobsPruneOld sys valid mx txn s = pruneOld sys valid mx (\<lambda>x. \<not> jobIsCompleted (x_State x)) txn s"

definition Prune ::
  "('m, 'd, 'j) sys \<Rightarrow> (int \<Rightarrow> goerr option) \<Rightarrow> ('m, 'd, 'e) jstate \<Rightarrow> ('m, 'd, 'e, unit) jresult" where
  "Prune sys valid s =
     write_txn (\<lambda>txn s. bind_o (jobsPruneOld sys valid maximumJobsInMem txn s) (\<lambda>s r. Ret (commit (fst r) s) ())) s"

definition JobsDBPruneOld ::
  "('m, 'd, 'j) sys \<Rightarrow> nat \<Rightarrow> ('m, 'd, 'e) jstate \<Rightarrow> ('m, 'd, 'e, nat) jresult" where
  "JobsDBPruneOld sys mx s =
     bind_o (lift (d_beyond (db sys) (j_db s) mx) s) (\<lambda>s jobs.
       if length jobs < 1 then Ret s (length jobs)
       else bind_o (lift (d_remove (db sys) (j_db s) jobs) s) (\<lambda>s d. Ret (s\<lparr>j_db := d\<rparr>) (length jobs)))"

section \<open>Timers going off\<close>

definition run_timer ::
  "('m, 'd, 'j) sys \<Rightarrow> timer_kind \<Rightarrow> string \<Rightarrow> ('m, 'd, 'e) jstate \<Rightarrow> ('m, 'd, 'e, unit) jresult" where
  "run_timer sys k i s =
     (case k of
        AckTimeout \<Rightarrow> bind_o (JobAck sys i False s) (\<lambda>s _. Ret s ())
      | HeartbeatTimeout \<Rightarrow> JobCancel sys i True s
      | ExpireTimeout \<Rightarrow> JobExpire sys i s)"

definition fire ::
  "('m, 'd, 'j) sys \<Rightarrow> nat \<Rightarrow> ('m, 'd, 'e) jstate \<Rightarrow> ('m, 'd, 'e, unit) jresult" where
  "fire sys t s =
     (if t < length (j_timers s) \<and> t_armed (j_timers s ! t) \<and> t_due (j_timers s ! t) \<le> j_now s
      then run_timer sys (t_kind (j_timers s ! t)) (t_job (j_timers s ! t)) (Timer_Stop t s)
      else Ret s ())"

end
