(* ===== verification/JobLife.thy ===== *)
theory JobLife
  imports Jobs
begin

text \<open>
  The life cycle of a job, for every operation, every outcome (errors included) and whatever the two
  databases do: which state changes an index record can go through, and what never changes in it.
\<close>

section \<open>The state machine\<close>

inductive job_trans :: "Job_State \<Rightarrow> Job_State \<Rightarrow> bool" where
  assigned: "job_trans Job_QUEUED Job_WAITING"
| acked: "job_trans Job_WAITING Job_RUNNING"
| nacked: "job_trans Job_WAITING Job_QUEUED"
| succeeded: "job_trans Job_RUNNING Job_SUCCESS"
| failed: "job_trans Job_RUNNING Job_ERROR"
| dequeued: "job_trans Job_QUEUED Job_ERROR"
| dropped: "job_trans Job_WAITING Job_ERROR"

code_pred job_trans .

inductive_simps job_trans_from:
  "job_trans Job_UNKNOWN t" "job_trans Job_QUEUED t" "job_trans Job_WAITING t"
  "job_trans Job_RUNNING t" "job_trans Job_ERROR t" "job_trans Job_SUCCESS t"

inductive_cases job_transE: "job_trans s t"

abbreviation job_reach :: "Job_State \<Rightarrow> Job_State \<Rightarrow> bool" where
  "job_reach \<equiv> job_trans\<^sup>*\<^sup>*"

lemma job_reach_completed: "job_reach s t \<Longrightarrow> jobIsCompleted s \<Longrightarrow> t = s"
  by (induction rule: rtranclp_induct) (auto simp: jobIsCompleted_def elim!: job_transE)

lemma job_reach_step: "job_trans s t \<Longrightarrow> job_reach s t"
  by (rule r_into_rtranclp)

text \<open>What an operation may do to one index record, and to all of them.\<close>

definition same_identity :: "jobIndex \<Rightarrow> jobIndex \<Rightarrow> bool" where
  "same_identity x y \<longleftrightarrow> x_Id y = x_Id x \<and> x_OpType y = x_OpType x \<and> x_Scope y = x_Scope x
     \<and> x_QueueTime y = x_QueueTime x \<and> x_TargetAny y = x_TargetAny x
     \<and> x_TargetRunnerId y = x_TargetRunnerId x"

definition job_evolves :: "jobIndex \<Rightarrow> jobIndex \<Rightarrow> bool" where
  "job_evolves x y \<longleftrightarrow> same_identity x y \<and> job_reach (x_State x) (x_State y)"

definition heap_step :: "('m, 'd, 'e) jstate \<Rightarrow> ('m, 'd, 'e) jstate \<Rightarrow> bool" where
  "heap_step s s' \<longleftrightarrow> length (j_heap s) \<le> length (j_heap s')
     \<and> (\<forall>a < length (j_heap s). job_evolves (the_job a s) (the_job a s'))"

lemma job_evolves_refl [simp]: "job_evolves x x"
  by (simp add: job_evolves_def same_identity_def)

lemma job_evolves_trans: "job_evolves x y \<Longrightarrow> job_evolves y z \<Longrightarrow> job_evolves x z"
  by (auto simp: job_evolves_def same_identity_def)

lemma heap_step_trans:
  assumes "heap_step s t" and "heap_step t u"
  shows "heap_step s u"
proof -
  have "job_evolves (the_job a s) (the_job a u)" if "a < length (j_heap s)" for a
  proof (rule job_evolves_trans)
    show "job_evolves (the_job a s) (the_job a t)" using assms(1) that by (simp add: heap_step_def)
    show "job_evolves (the_job a t) (the_job a u)" using assms that by (simp add: heap_step_def)
  qed
  with assms show ?thesis by (simp add: heap_step_def)
qed

interpretation jobs: step_relation heap_step
  by unfold_locales (simp add: heap_step_def, rule heap_step_trans)

lemma heap_step_same: "j_heap s' = j_heap s \<Longrightarrow> heap_step s s'"
  by (simp add: heap_step_def the_job_def)

lemma upd_job_step:
  assumes "a < length (j_heap s)" and "job_evolves (the_job a s) (f (the_job a s))"
  shows "heap_step s (upd_job a f s)"
  using assms by (auto simp: heap_step_def upd_job_def the_job_def nth_list_update)

lemma the_job_upd_job [simp]:
  "the_job b (upd_job a f s) = (if b = a \<and> a < length (j_heap s) then f (the_job a s) else the_job b s)"
  by (auto simp: the_job_def upd_job_def nth_list_update list_update_beyond)

lemma upd_job_frame [simp]:
  "length (j_heap (upd_job a f s)) = length (j_heap s)" "j_mem (upd_job a f s) = j_mem s"
  "j_db (upd_job a f s) = j_db s" "j_timers (upd_job a f s) = j_timers s"
  "j_now (upd_job a f s) = j_now s" "j_locked (upd_job a f s) = j_locked s"
  "j_buffers (upd_job a f s) = j_buffers s"
  by (simp_all add: upd_job_def)

lemma the_job_frame [simp]:
  "the_job a (s\<lparr>j_mem := m\<rparr>) = the_job a s" "the_job a (s\<lparr>j_db := d\<rparr>) = the_job a s"
  "the_job a (s\<lparr>j_timers := ts\<rparr>) = the_job a s" "the_job a (s\<lparr>j_locked := l\<rparr>) = the_job a s"
  "the_job a (s\<lparr>j_buffers := bs\<rparr>) = the_job a s" "the_job a (s\<lparr>j_indexedJobs := i\<rparr>) = the_job a s"
  by (simp_all add: the_job_def)

section \<open>Calls that only read\<close>

named_theorems reads \<open>calls that leave the state as it is\<close>

lemma lift_reads [reads]: "keeps ((=) s) (lift r s)"
  by (simp add: lift_def split: sum.split)

lemma wrap_err_keeps [simp]: "keeps P (wrap_err f r) = keeps P r"
  by (cases r) simp_all

lemma keeps_eq_bind:
  "keeps ((=) s) r \<Longrightarrow> (\<And>a. keeps ((=) s) (f s a)) \<Longrightarrow> keeps ((=) s) (bind_o r f)"
  by (cases r) auto

lemma InternalJobFromProto_reads [reads]: "keeps ((=) s) (InternalJobFromProto sys p s)"
  by (simp add: InternalJobFromProto_def split: option.split sum.split)

lemma ToProto_reads [reads]: "keeps ((=) s) (ToProto sys j s)"
  by (simp add: ToProto_def split: option.split)

lemma jobById_reads [reads]: "keeps ((=) s) (jobById sys i s)"
  unfolding jobById_def by (intro keeps_eq_bind reads)

lemma First_reads [reads]: "keeps ((=) s) (First sys txn i s)"
  unfolding First_def by (intro keeps_eq_bind reads) (simp split: option.split)

lemma Insert_reads [reads]: "keeps ((=) s) (Insert sys txn a s)"
  unfolding Insert_def by (rule reads)

lemma jobIsBlocked_reads [reads]: "keeps ((=) s) (jobIsBlocked sys txn x s)"
  by (simp add: lift_reads jobIsBlocked_def split: option.split)

lemma jobAssignedSet_reads [reads]: "keeps ((=) s) (jobAssignedSet sys txn x b s)"
  by (simp add: lift_reads jobAssignedSet_def split: option.split)

lemma RunnerFromProto_reads [reads]: "keeps ((=) s) (RunnerFromProto sys r s)"
  by (simp add: lift_reads RunnerFromProto_def)

lemma reads_Ret: "keeps ((=) s) r \<Longrightarrow> r = Ret s' a \<Longrightarrow> s' = s"
  by simp

lemma First_Some: "First sys txn i s = Ret s' (Some a) \<Longrightarrow> s' = s \<and> a < length (j_heap s)"
  using reads_Ret[OF First_reads]
  by (auto simp: First_def bind_o_Ret_iff lift_def split: sum.splits option.splits if_splits)

section \<open>The steps of the operations\<close>

lemma set_timer_step: "a < length (j_heap s) \<Longrightarrow> heap_step s (set_timer a d k s)"
  by (auto simp: set_timer_def AfterFunc_def job_evolves_def same_identity_def heap_step_def
      the_job_def upd_job_def nth_list_update)

lemma set_timer_heap [simp]:
  "length (j_heap (set_timer a d k s)) = length (j_heap s)" "j_db (set_timer a d k s) = j_db s"
  "j_mem (set_timer a d k s) = j_mem s" "j_now (set_timer a d k s) = j_now s"
  "j_locked (set_timer a d k s) = j_locked s"
  "the_job b (set_timer a d k s) =
     (if b = a \<and> a < length (j_heap s) then (the_job a s)\<lparr>x_StateTimer := Some (length (j_timers s))\<rparr>
      else the_job b s)"
  by (simp_all add: set_timer_def AfterFunc_def)

lemma End_heap [simp]:
  "length (j_heap (End a s)) = length (j_heap s)" "j_db (End a s) = j_db s" "j_mem (End a s) = j_mem s"
  "j_now (End a s) = j_now s" "j_locked (End a s) = j_locked s"
  "the_job b (End a s) =
     (if b = a \<and> a < length (j_heap s) then (the_job a s)\<lparr>x_StateTimer := None\<rparr> else the_job b s)"
  by (auto simp: End_def Timer_Stop_def split: option.split)

lemma End_step: "a < length (j_heap s) \<Longrightarrow> heap_step s (End a s)"
  by (auto simp: heap_step_def job_evolves_def same_identity_def)

lemma commit_step [simp]: "heap_step s (commit txn s)" "the_job a (commit txn s) = the_job a s"
  by (auto simp: commit_def intro: heap_step_same)

lemma save_row_step: "keeps (heap_step s) (save_row sys j s)"
  unfolding save_row_def
proof (rule jobs.keeps_bind[OF jobs.keeps_same[OF InternalJobFromProto_reads]])
  fix s1 :: "('a, 'b, 'c) jstate" and ij
  have "keeps (heap_step s1) (ToProto sys ij' (s1\<lparr>j_db := d\<rparr>))" for ij' d
    by (rule jobs.keeps_after[OF _ jobs.keeps_same[OF ToProto_reads]]) (rule heap_step_same, simp)
  then show "keeps (heap_step s1) (case d_decode (db sys) j (Some ij) of
         Inl e \<Rightarrow> Fail s1 e
       | Inr ij' \<Rightarrow>
           (case d_save (db sys) (j_db s1) ij' of
              Inl e \<Rightarrow> Fail s1 e
            | Inr d \<Rightarrow> ToProto sys ij' (s1\<lparr>j_db := d\<rparr>)))"
    by (simp add: jobs.R_refl split: sum.split)
qed

lemma jobReadAndUpdate_step:
  assumes "\<And>p. heap_step s (snd (f p s))"
  shows "keeps (heap_step s) (jobReadAndUpdate sys i f s)"
proof -
  have "keeps (heap_step s) (bind_o (jobById sys i s) (\<lambda>s j. save_row sys (fst (f j s)) (snd (f j s))))"
  proof (rule jobs.keeps_bind[OF jobs.keeps_same[OF jobById_reads]])
    fix s1 p assume "jobById sys i s = Ret s1 p"
    then have "s1 = s" using reads_Ret[OF jobById_reads] by blast
    with jobs.keeps_after[OF assms save_row_step] show "keeps (heap_step s1) (save_row sys (fst (f p s1)) (snd (f p s1)))"
      by simp
  qed
  then show ?thesis by (simp add: jobReadAndUpdate_def jobs.R_refl)
qed

text \<open>The conversation of an operation: what it reads it reads unchanged.\<close>

lemma after_First:
  assumes "First sys txn i s = Ret s1 r"
    and "r = None \<Longrightarrow> keeps (heap_step s) (f s None)"
    and "\<And>a. r = Some a \<Longrightarrow> a < length (j_heap s) \<Longrightarrow> keeps (heap_step s) (f s (Some a))"
  shows "keeps (heap_step s1) (f s1 r)"
proof -
  have "s1 = s" using reads_Ret[OF First_reads assms(1)] .
  with assms First_Some[of sys txn i s s1] show ?thesis by (cases r) auto
qed

lemma bind_reads:
  assumes "keeps ((=) s) r" and "\<And>a. keeps (heap_step s) (f s a)"
  shows "keeps (heap_step s) (bind_o r f)"
proof (rule jobs.keeps_bind[OF jobs.keeps_same[OF assms(1)]])
  fix s1 a assume "r = Ret s1 a"
  with assms(1) have "s1 = s" by (rule reads_Ret)
  with assms(2) show "keeps (heap_step s1) (f s1 a)" by simp
qed

lemma bind_First:
  assumes "keeps (heap_step s) (f s None)"
    and "\<And>a. a < length (j_heap s) \<Longrightarrow> keeps (heap_step s) (f s (Some a))"
  shows "keeps (heap_step s) (bind_o (wrap_err g (First sys txn i s)) f)"
proof (rule jobs.keeps_bind)
  show "keeps (heap_step s) (wrap_err g (First sys txn i s))"
    using jobs.keeps_same[OF First_reads] by simp
  fix s1 r assume "wrap_err g (First sys txn i s) = Ret s1 r"
  then have "First sys txn i s = Ret s1 r" by (cases "First sys txn i s") simp_all
  then show "keeps (heap_step s1) (f s1 r)" by (rule after_First) (use assms in auto)
qed

lemma wrap_err_id: "wrap_err (\<lambda>e. e) r = r"
  by (cases r) simp_all

lemmas bind_First' = bind_First[where g = "\<lambda>e. e", unfolded wrap_err_id]

lemma write_txn_step: "(\<And>txn. keeps (heap_step s) (body txn s)) \<Longrightarrow> keeps (heap_step s) (write_txn body s)"
  by (simp add: write_txn_def)

text \<open>After the row is saved come the timers, the insertion and the commit.\<close>

lemma bind_update:
  assumes "\<And>p. heap_step s (snd (f p s))"
    and "\<And>s1 p. length (j_heap s) \<le> length (j_heap s1) \<Longrightarrow> keeps (heap_step s1) (k s1 p)"
  shows "keeps (heap_step s) (bind_o (wrap_err g (jobReadAndUpdate sys i f s)) k)"
  by (rule jobs.keeps_bind)
    (use assms jobReadAndUpdate_step[of s f sys i] in \<open>auto simp: heap_step_def\<close>)

lemmas bind_update' = bind_update[where g = "\<lambda>e. e", unfolded wrap_err_id]

lemma wrap_reads: "keeps ((=) s) r \<Longrightarrow> keeps ((=) s) (wrap_err g r)"
  by simp

lemma Insert_commit_step:
  "heap_step s s' \<Longrightarrow> (\<And>txn. keeps (heap_step s') (k s' txn)) \<Longrightarrow>
     keeps (heap_step s) (bind_o (wrap_err g (Insert sys txn a s')) k)"
  by (rule jobs.keeps_after) (auto intro: bind_reads wrap_reads reads)

lemma ack_update_step:
  assumes "a < length (j_heap s)" and "x_State (the_job a s) = Job_WAITING"
  shows "heap_step s (snd (ack_update a ack p s))"
proof -
  have "heap_step s (upd_job a (\<lambda>x. x\<lparr>x_State := Job_RUNNING, x_OutputBuffer := b\<rparr>) s)" for b
    using assms by (intro upd_job_step)
      (auto simp: job_evolves_def same_identity_def intro: job_reach_step job_trans.intros)
  then have "heap_step s ((upd_job a (\<lambda>x. x\<lparr>x_State := Job_RUNNING, x_OutputBuffer := b\<rparr>) s)\<lparr>j_buffers := bs\<rparr>)" for b bs
    by (rule heap_step_trans) (rule heap_step_same, simp)
  moreover have "heap_step s (upd_job a (\<lambda>x. x\<lparr>x_State := Job_QUEUED\<rparr>) s)"
    using assms by (intro upd_job_step)
      (auto simp: job_evolves_def same_identity_def intro: job_reach_step job_trans.intros)
  ultimately show ?thesis by (simp add: ack_update_def)
qed

lemma JobAck_step: "keeps (heap_step s) (JobAck sys i ack s)"
  unfolding JobAck_def
proof (rule write_txn_step, rule bind_First, goal_cases)
  case (2 txn a)
  show ?case
  proof (cases "x_State (the_job a s) = Job_WAITING")
    case True
    have rest: "keeps (heap_step s1) (bind_o (wrap_err (saveErrorToStatus ''job'')
          (Insert sys txn a (set_timer a jobHeartbeatTimeout HeartbeatTimeout (End a s1)))) (\<lambda>s txn.
        bind_o (if ack then Ret s txn
                else wrap_err (saveErrorToStatus ''job'') (jobAssignedSet sys txn (the_job a s) False s))
          (\<lambda>s txn. Ret (commit txn s) (jobIndex_Job (the_job a s) p))))"
      if "length (j_heap s) \<le> length (j_heap s1)" for s1 :: "('a, 'b, 'c) jstate" and p
    proof (rule Insert_commit_step)
      show "heap_step s1 (set_timer a jobHeartbeatTimeout HeartbeatTimeout (End a s1))"
        using 2 that by (intro heap_step_trans[OF End_step set_timer_step]) simp_all
    qed (auto intro!: bind_reads wrap_reads reads)
    have "keeps (heap_step s) (bind_o (wrap_err (lookupErrorToStatus ''job'')
        (jobReadAndUpdate sys (x_Id (the_job a s)) (ack_update a ack) s)) k)"
      if "\<And>s1 p. length (j_heap s) \<le> length (j_heap s1) \<Longrightarrow> keeps (heap_step s1) (k s1 p)" for k
      by (rule bind_update) (use 2 True that in \<open>auto intro: ack_update_step\<close>)
    from this[OF rest] True show ?thesis by (simp add: Let_def)
  qed (simp add: jobs.R_refl)
qed (simp add: jobs.R_refl)

lemma set_state_step:
  assumes "a < length (j_heap s)" and "job_reach (x_State (the_job a s)) t"
  shows "heap_step s (upd_job a (\<lambda>x. x\<lparr>x_State := t\<rparr>) s)"
  using assms by (intro upd_job_step) (simp_all add: job_evolves_def same_identity_def)

lemma complete_update_step:
  assumes "a < length (j_heap s)" and "x_State (the_job a s) = Job_RUNNING"
  shows "heap_step s (snd (complete_update a result cerr p s))"
  using assms set_state_step[OF assms(1), of Job_SUCCESS] set_state_step[OF assms(1), of Job_ERROR]
  by (auto simp: complete_update_def Let_def intro: job_reach_step job_trans.intros split: option.split)

lemma JobComplete_step: "keeps (heap_step s) (JobComplete sys i result cerr s)"
  unfolding JobComplete_def
proof (rule write_txn_step, rule bind_First, goal_cases)
  case (2 txn a)
  show ?case
    unfolding option.case
  proof (rule bind_reads[OF wrap_reads[OF jobAssignedSet_reads]], goal_cases)
    case (1 txn)
    show ?case
    proof (cases "x_State (the_job a s) = Job_RUNNING")
      case True
      have rest: "keeps (heap_step s1) (bind_o (wrap_err (saveErrorToStatus ''job'')
          (Insert sys txn a (End a s1))) (\<lambda>s txn. Ret (commit txn s) ()))"
        if "length (j_heap s) \<le> length (j_heap s1)" for s1 :: "('a, 'b, 'c) jstate"
        by (rule Insert_commit_step) (use 2 that in \<open>auto intro: End_step\<close>)
      have "keeps (heap_step s) (bind_o (wrap_err (saveErrorToStatus ''job'')
          (jobReadAndUpdate sys (x_Id (the_job a s)) (complete_update a result cerr) s)) k)"
        if "\<And>s1 p. length (j_heap s) \<le> length (j_heap s1) \<Longrightarrow> keeps (heap_step s1) (k s1 p)" for k
        by (rule bind_update) (use 2 True that in \<open>auto intro: complete_update_step\<close>)
      from this[OF rest] True show ?thesis by simp
    qed (simp add: jobs.R_refl)
  qed
qed (simp add: jobs.R_refl)

lemma cancel_state_step:
  assumes "a < length (j_heap s)"
  shows "heap_step s (cancel_state a force s)"
proof -
  let ?e = "upd_job a (\<lambda>x. x\<lparr>x_State := Job_ERROR\<rparr>) s"
  have reach: "job_reach Job_QUEUED Job_ERROR" "job_reach Job_WAITING Job_ERROR" "job_reach Job_RUNNING Job_ERROR"
    by (auto intro: job_reach_step job_trans.intros)
  have e: "heap_step s ?e" if "x_State (the_job a s) \<in> {Job_QUEUED, Job_WAITING, Job_RUNNING}"
    using that reach by (intro set_state_step[OF assms]) auto
  moreover have "heap_step ?e (End a ?e)" using assms by (intro End_step) simp
  ultimately have "heap_step s (End a ?e)"
    if "x_State (the_job a s) \<in> {Job_QUEUED, Job_WAITING, Job_RUNNING}"
    using that heap_step_trans by blast
  with e show ?thesis
    by (cases "x_State (the_job a s)") (simp_all add: cancel_state_def jobs.R_refl)
qed

lemma cancel_state_length [simp]: "length (j_heap (cancel_state a force s)) = length (j_heap s)"
  by (simp add: cancel_state_def split: Job_State.split)

lemma jobCancel_step:
  assumes a: "a < length (j_heap s)"
  shows "keeps (heap_step s) (jobCancel sys txn a force s)"
proof (cases "jobIsCompleted (x_State (the_job a s))")
  case False
  let ?s = "cancel_state a force s"
  have rest: "keeps (heap_step ?s) (bind_o (jobReadAndUpdate sys (x_Id (the_job a ?s)) (cancel_update a) ?s)
      (\<lambda>s _. Insert sys txn a s))" for txn
    by (rule bind_update') (auto simp: cancel_update_def Let_def jobs.R_refl jobs.keeps_same reads)
  have "keeps (heap_step ?s) (bind_o (if c then jobAssignedSet sys txn (the_job a ?s) False ?s else Ret ?s txn)
      (\<lambda>s txn. bind_o (jobReadAndUpdate sys (x_Id (the_job a s)) (cancel_update a) s)
        (\<lambda>s _. Insert sys txn a s)))" for c
    by (rule bind_reads) (auto intro: reads rest)
  from jobs.keeps_after[OF cancel_state_step[OF a] this] False show ?thesis
    by (simp add: jobCancel_def Let_def)
qed (simp add: jobCancel_def jobs.R_refl)

lemma JobCancel_step: "keeps (heap_step s) (JobCancel sys i force s)"
  unfolding JobCancel_def
proof (rule write_txn_step, rule bind_First, goal_cases)
  case (2 txn a)
  have "keeps (heap_step s) (bind_o (wrap_err (saveErrorToStatus ''job'') (jobCancel sys txn a force s))
      (\<lambda>s txn. Ret (commit txn s) ()))"
    by (rule jobs.keeps_bind) (use jobCancel_step[OF 2] in auto)
  then show ?case by simp
qed (simp add: jobs.R_refl)

lemma Timer_Reset_step [simp]: "heap_step s (Timer_Reset t d s)" "heap_step s (Timer_Stop t s)"
  by (auto simp: Timer_Reset_def Timer_Stop_def intro: heap_step_same)

lemma JobHeartbeat_step: "keeps (heap_step s) (JobHeartbeat sys i s)"
  unfolding JobHeartbeat_def
proof (rule write_txn_step, rule jobs.keeps_bind)
  show "keeps (heap_step s) (jobHeartbeat sys txn i s)" for txn
    unfolding jobHeartbeat_def by (rule bind_First') (auto simp: jobs.R_refl split: option.split)
qed simp

lemma JobExpire_step: "keeps (heap_step s) (JobExpire sys i s)"
  unfolding JobExpire_def
proof (rule write_txn_step, rule bind_First', goal_cases)
  case (2 txn a)
  have "keeps (heap_step s) (bind_o (if x_State (the_job a s) \<in> {Job_QUEUED, Job_WAITING}
      then jobCancel sys txn a False s else Ret s txn) (\<lambda>s txn. Ret (commit txn s) ()))"
    by (rule jobs.keeps_bind) (use jobCancel_step[OF 2] in \<open>auto simp: jobs.R_refl\<close>)
  then show ?case by simp
qed (simp add: jobs.R_refl)

text \<open>A new index record goes to the end of the heap.\<close>

lemma heap_append_step: "heap_step s (s\<lparr>j_heap := j_heap s @ xs\<rparr>)"
  by (simp add: heap_step_def the_job_def nth_append)

lemma expire_timer_step: "keeps (heap_step s) (expire_timer p s)"
  by (auto simp: expire_timer_def AfterFunc_def Let_def jobs.R_refl intro: heap_step_same
      split: option.split)

lemma jobIndexSet_step: "keeps (heap_step s) (jobIndexSet sys txn p s)"
proof (cases "index_of p")
  case (Inr rec)
  let ?a = "length (j_heap s)"
  let ?s1 = "s\<lparr>j_heap := j_heap s @ [rec]\<rparr>"
  let ?s2 = "if x_State rec = Job_WAITING then set_timer ?a jobWaitingTimeout AckTimeout ?s1 else ?s1"
  let ?s3 = "if x_State rec = Job_RUNNING then set_timer ?a jobHeartbeatTimeout HeartbeatTimeout ?s2 else ?s2"
  have 1: "heap_step s ?s1" by (rule heap_append_step)
  have 2: "heap_step ?s1 ?s2" by (simp add: set_timer_step jobs.R_refl)
  have 3: "heap_step ?s2 ?s3" by (simp add: set_timer_step jobs.R_refl)
  have s3: "heap_step s ?s3" by (rule heap_step_trans[OF heap_step_trans[OF 1 2] 3])
  have "keeps (heap_step ?s3) (bind_o (expire_timer p ?s3) (\<lambda>s _.
      bind_o (Insert sys txn ?a s) (\<lambda>s txn. Ret s (txn, ?a))))"
    by (rule jobs.keeps_bind[OF expire_timer_step], rule bind_reads[OF Insert_reads]) (simp add: jobs.R_refl)
  from jobs.keeps_after[OF s3 this] Inr show ?thesis
    by (simp add: jobIndexSet_def Let_def)
qed (simp add: jobIndexSet_def jobs.R_refl)

lemma jobCreate_step: "keeps (heap_step s) (jobCreate sys txn p0 s)"
proof -
  let ?p = "p0\<lparr>p_state := Job_QUEUED, p_queueTime := Some (j_now s)\<rparr>"
  have count: "keeps (heap_step s1) (case jobIndexSet sys txn p' s1 of
                             Crash m \<Rightarrow> Crash m
                           | Ret s (txn, a) \<Rightarrow> Ret (s\<lparr>j_indexedJobs := j_indexedJobs s + 1\<rparr>) txn
                           | Fail s e \<Rightarrow> Fail (s\<lparr>j_indexedJobs := j_indexedJobs s + 1\<rparr>) e)" for p' s1
    using jobIndexSet_step[of s1 sys txn p']
    by (cases "jobIndexSet sys txn p' s1") (auto simp: heap_step_def)
  have create: "keeps (heap_step s) (bind_o (ToProto sys job' (s\<lparr>j_db := d\<rparr>)) (\<lambda>s1 p'.
      case jobIndexSet sys txn p' s1 of
         Crash m \<Rightarrow> Crash m
       | Ret s (txn, a) \<Rightarrow> Ret (s\<lparr>j_indexedJobs := j_indexedJobs s + 1\<rparr>) txn
       | Fail s e \<Rightarrow> Fail (s\<lparr>j_indexedJobs := j_indexedJobs s + 1\<rparr>) e))" for job' d
    by (rule jobs.keeps_after[OF _ bind_reads[OF ToProto_reads count]]) (rule heap_step_same, simp)
  show ?thesis
    using InternalJobFromProto_reads[of s sys "Some ?p"] create
    by (auto simp: jobCreate_def Let_def jobs.R_refl split: outcome.split sum.split option.split)
qed

lemma JobCreate_step: "keeps (heap_step s) (JobCreate sys p s)"
proof -
  have "keeps (heap_step s) (write_txn (\<lambda>txn s. bind_o (jobCreate sys txn p s) (\<lambda>s txn. Ret (commit txn s) ())) s)"
    by (rule write_txn_step, rule jobs.keeps_bind[OF jobCreate_step]) simp
  then show ?thesis by (simp add: JobCreate_def)
qed

lemma leak_lock_keeps: "keeps (heap_step s) (leak_lock r) = keeps (heap_step s) r"
  by (cases r) (simp_all add: heap_step_def)

lemma leak_lock_Ret [simp]: "leak_lock r = Ret s a \<longleftrightarrow> r = Ret s a"
  by (cases r) simp_all

lemma bind_leak_reads:
  assumes "keeps ((=) s) r" and "\<And>a. keeps (heap_step s) (f s a)"
  shows "keeps (heap_step s) (bind_o (leak_lock r) f)"
proof (rule jobs.keeps_bind)
  show "keeps (heap_step s) (leak_lock r)"
    using jobs.keeps_same[OF assms(1)] by (simp add: leak_lock_keeps)
  fix s1 a assume "leak_lock r = Ret s1 a"
  then have "s1 = s" using assms(1) by simp
  with assms(2) show "keeps (heap_step s1) (f s1 a)" by simp
qed

lemma assign_insert_step:
  assumes "a < length (j_heap s)"
  shows "keeps (heap_step s) (let s2 = set_timer a jobWaitingTimeout AckTimeout s in
    bind_o (leak_lock (Insert sys txn a s2)) (\<lambda>s txn.
      case jobAssignedSet sys txn (the_job a s) True s of
        Ret s txn \<Rightarrow> Ret (commit txn s) (Some (jobIndex_Job (the_job a s) result))
      | Fail s e \<Rightarrow> Crash ''write lock held for ever''
      | Crash m \<Rightarrow> Crash m))"
proof -
  have "keeps (heap_step s1) (case jobAssignedSet sys txn (the_job a s1) True s1 of
        Ret s txn \<Rightarrow> Ret (commit txn s) (Some (jobIndex_Job (the_job a s) result))
      | Fail s e \<Rightarrow> Crash ''write lock held for ever''
      | Crash m \<Rightarrow> Crash m)" for s1 :: "('a, 'b, 'c) jstate" and txn
    using jobAssignedSet_reads[of s1 sys txn "the_job a s1" True] by (auto split: outcome.split)
  then show ?thesis
    unfolding Let_def
    by (rule jobs.keeps_after[OF set_timer_step[OF assms] bind_leak_reads[OF Insert_reads]])
qed

lemma assign_one_step: "keeps (heap_step s) (assign_one sys txn c s)"
  unfolding assign_one_def
proof (rule jobs.keeps_bind, goal_cases)
  case 1
  then show ?case using jobs.keeps_same[OF First_reads] by (simp add: leak_lock_keeps)
next
  case (2 s1 r)
  then have "First sys txn (x_Id (the_job c s)) s = Ret s1 r" by simp
  then show ?case
  proof (rule after_First, goal_cases)
    case (2 a)
    let ?s1 = "upd_job a (\<lambda>x. x\<lparr>x_State := Job_WAITING\<rparr>) s"
    show ?case
    proof (cases "x_State (the_job a s) = Job_QUEUED")
      case True
      have w: "heap_step s ?s1"
        using True 2 by (intro set_state_step) (auto intro: job_reach_step job_trans.intros)
      have "keeps (heap_step ?s1) (bind_o (leak_lock (jobReadAndUpdate sys i
          (\<lambda>p s. (p\<lparr>p_state := Job_WAITING, p_assignTime := Some (j_now s)\<rparr>, s)) ?s1)) (\<lambda>s result.
            let s2 = set_timer a jobWaitingTimeout AckTimeout s in
            bind_o (leak_lock (Insert sys txn a s2)) (\<lambda>s txn.
              case jobAssignedSet sys txn (the_job a s) True s of
                Ret s txn \<Rightarrow> Ret (commit txn s) (Some (jobIndex_Job (the_job a s) result))
              | Fail s e \<Rightarrow> Crash ''write lock held for ever''
              | Crash m \<Rightarrow> Crash m)))" for i
      proof (rule jobs.keeps_bind, goal_cases)
        case 1
        show ?case unfolding leak_lock_keeps by (rule jobReadAndUpdate_step) (simp add: jobs.R_refl)
      next
        case (2 s2 p)
        then have "a < length (j_heap s2)" using \<open>a < length (j_heap s)\<close> by (simp add: heap_step_def)
        then show ?case by (rule assign_insert_step)
      qed
      from jobs.keeps_after[OF w this] True show ?thesis
        by (auto simp: Let_def jobs.R_refl intro!: bind_leak_reads[OF jobIsBlocked_reads])
    qed (simp add: jobs.R_refl)
  qed (simp add: jobs.R_refl)
qed

lemma assign_loop_step: "keeps (heap_step s) (assign_loop sys txn cs s)"
proof (induction cs arbitrary: s)
  case (Cons c cs)
  show ?case
    unfolding assign_loop.simps
    by (rule jobs.keeps_bind[OF assign_one_step]) (auto simp: Cons.IH jobs.R_refl split: option.split)
qed (simp add: jobs.R_refl)

lemma assign_commit_step: "keeps (heap_step s) (assign_commit sys cs s)"
  unfolding assign_commit_def by (rule write_txn_step) (rule assign_loop_step)

lemma prune_loop_reads: "keeps ((=) s) (prune_loop sys keep as cnt del txn s)"
proof (induction as arbitrary: cnt del txn)
  case (Cons a as)
  have "keeps ((=) s) (bind_o (lift (m_delete (mem sys) txn a (the_job a s)) s) (\<lambda>s txn.
             if cnt - 1 \<le> 0 then Ret s (txn, del + 1)
             else prune_loop sys keep as (cnt - 1) (del + 1) txn s))"
    by (rule keeps_eq_bind[OF lift_reads]) (simp add: Cons.IH)
  then show ?case by (simp add: Cons.IH)
qed simp

lemma Prune_step: "keeps (heap_step s) (Prune sys valid s)"
proof -
  have "keeps (heap_step s) (jobsPruneOld sys valid mx txn s)" for mx txn
    unfolding jobsPruneOld_def pruneOld_def
    by (auto simp: jobs.R_refl heap_step_same split: option.split
        intro!: bind_reads[OF lift_reads] bind_reads[OF prune_loop_reads])
  then show ?thesis unfolding Prune_def by (intro write_txn_step jobs.keeps_bind) auto
qed

lemma JobsDBPruneOld_step: "keeps (heap_step s) (JobsDBPruneOld sys mx s)"
  unfolding JobsDBPruneOld_def
  by (rule bind_reads[OF lift_reads])
    (auto simp: jobs.R_refl heap_step_same intro!: bind_reads[OF lift_reads])

lemma fire_step: "keeps (heap_step s) (fire sys t s)"
proof -
  have "keeps (heap_step s) (run_timer sys k i s)" for k i and s :: "('a, 'b, 'c) jstate"
    by (cases k) (auto simp: run_timer_def JobCancel_step JobExpire_step jobs.R_refl
        intro!: jobs.keeps_bind[OF JobAck_step])
  from jobs.keeps_after[OF _ this, of s "Timer_Stop t s"] show ?thesis
    by (simp add: fire_def jobs.R_refl)
qed

section \<open>The job queue as a machine\<close>

text \<open>Every exported operation, a timer going off, and the clock moving. An assignment is a write transaction
  over any list of candidates, so that searches may be as stale as they like.\<close>

datatype job_op =
    OpCreate jobpb
  | OpAssign "nat list"
  | OpAck string bool
  | OpComplete string "nat option" "goerr option"
  | OpCancel string bool
  | OpHeartbeat string
  | OpExpire string
  | OpFire nat
  | OpPrune
  | OpDBPrune nat
  | OpTick int

fun job_step ::
  "('m, 'd, 'j) sys \<Rightarrow> (int \<Rightarrow> goerr option) \<Rightarrow> job_op \<Rightarrow> ('m, 'd, 'e) jstate \<Rightarrow> ('m, 'd, 'e) jstate" where
  "job_step sys valid (OpCreate p) s = left_by (JobCreate sys p s) s"
| "job_step sys valid (OpAssign cs) s = left_by (assign_commit sys cs s) s"
| "job_step sys valid (OpAck i ack) s = left_by (JobAck sys i ack s) s"
| "job_step sys valid (OpComplete i r e) s = left_by (JobComplete sys i r e s) s"
| "job_step sys valid (OpCancel i force) s = left_by (JobCancel sys i force s) s"
| "job_step sys valid (OpHeartbeat i) s = left_by (JobHeartbeat sys i s) s"
| "job_step sys valid (OpExpire i) s = left_by (JobExpire sys i s) s"
| "job_step sys valid (OpFire t) s = left_by (fire sys t s) s"
| "job_step sys valid OpPrune s = left_by (Prune sys valid s) s"
| "job_step sys valid (OpDBPrune n) s = left_by (JobsDBPruneOld sys n s) s"
| "job_step sys valid (OpTick d) s = s\<lparr>j_now := j_now s + d\<rparr>"

lemma left_by_step: "keeps (heap_step s) r \<Longrightarrow> heap_step s (left_by r s)"
  by (cases r) (simp_all add: left_by_def jobs.R_refl)

interpretation job_queue: step_machine heap_step "job_step sys valid" for sys valid
proof unfold_locales
  fix s :: "('a, 'b, 'c) jstate" and op
  show "heap_step s (job_step sys valid op s)"
    by (cases op)
      (auto simp: JobCreate_step assign_commit_step JobAck_step JobComplete_step JobCancel_step
        JobHeartbeat_step JobExpire_step fire_step Prune_step JobsDBPruneOld_step
        intro!: left_by_step intro: heap_step_same)
qed

end
