(* ===== verification/JobAgree.thy ===== *)
theory JobAgree
  imports JobLife
begin

text \<open>
  What the job queue relies on from the database (\<open>db_lawful\<close>), the shape of every successful operation,
  and the agreement of the in-memory record with the database row after one.
\<close>

section \<open>What the database promises\<close>

text \<open>A saved row is found again under its id, a decoded row carries the id and the state of the message it
  was made from, and a row's message has the id the row was found under.\<close>

definition db_lawful :: "('m, 'd, 'j) sys \<Rightarrow> bool" where
  "db_lawful sys \<longleftrightarrow>
     (\<forall>d j d' i. d_save (db sys) d j = Inr d' \<longrightarrow> d_jid (db sys) j = Some i \<longrightarrow> d_find (db sys) d' i = Inr j)
     \<and> (\<forall>p j j'. d_decode (db sys) p (Some j) = Inr j' \<longrightarrow>
          d_jid (db sys) j' = Some (p_id p)
          \<and> (\<forall>q. d_proto (db sys) j' = Some q \<longrightarrow> p_id q = p_id p \<and> p_state q = p_state p))
     \<and> (\<forall>d i j p. d_find (db sys) d i = Inr j \<longrightarrow> d_proto (db sys) j = Some p \<longrightarrow> p_id p = i)"

text \<open>The row of job \<open>i\<close> and the index record at \<open>a\<close> are in the same state.\<close>

definition agree :: "('m, 'd, 'j) sys \<Rightarrow> string \<Rightarrow> nat \<Rightarrow> ('m, 'd, 'e) jstate \<Rightarrow> bool" where
  "agree sys i a s \<longleftrightarrow>
     (\<exists>j p. d_find (db sys) (j_db s) i = Inr j \<and> d_proto (db sys) j = Some p
        \<and> p_state p = x_State (the_job a s))"

lemma jobById_Ret:
  assumes "jobById sys i s = Ret s1 p"
  shows "s1 = s \<and> (\<exists>j. d_find (db sys) (j_db s) i = Inr j \<and> d_proto (db sys) j = Some p)"
  using assms
  by (auto simp: jobById_def bind_o_Ret_iff InternalJobFromProto_def ToProto_def pb_of_id_def
      split: sum.splits option.splits if_splits)

lemma save_row_Ret:
  assumes "save_row sys j s = Ret s1 q"
  obtains ij0 ij d where "d_decode (db sys) j (Some ij0) = Inr ij" and "d_save (db sys) (j_db s) ij = Inr d"
    and "d_proto (db sys) ij = Some q" and "s1 = s\<lparr>j_db := d\<rparr>"
proof -
  from assms obtain s2 ij0 where ij0: "InternalJobFromProto sys (Some j) s = Ret s2 ij0"
    and rest: "(case d_decode (db sys) j (Some ij0) of
              Inl e \<Rightarrow> Fail s2 e
            | Inr ij' \<Rightarrow>
                (case d_save (db sys) (j_db s2) ij' of
                   Inl e \<Rightarrow> Fail s2 e
                 | Inr d \<Rightarrow> ToProto sys ij' (s2\<lparr>j_db := d\<rparr>))) = Ret s1 q"
    unfolding save_row_def bind_o_Ret_iff by blast
  have s2: "s2 = s" using reads_Ret[OF InternalJobFromProto_reads ij0] .
  show thesis
    using rest unfolding s2
    by (auto simp: ToProto_def split: sum.splits option.splits intro: that)
qed

lemma jobReadAndUpdate_Ret:
  assumes "jobReadAndUpdate sys i f s = Ret s1 q"
  obtains p where "jobById sys i s = Ret s p" and "save_row sys (fst (f p s)) (snd (f p s)) = Ret s1 q"
proof -
  from assms have "bind_o (jobById sys i s) (\<lambda>s j. save_row sys (fst (f j s)) (snd (f j s))) = Ret s1 q"
    unfolding jobReadAndUpdate_def by (cases "d_alive (db sys) (j_db s)") simp_all
  then obtain s2 p where "jobById sys i s = Ret s2 p" "save_row sys (fst (f p s2)) (snd (f p s2)) = Ret s1 q"
    unfolding bind_o_Ret_iff by blast
  moreover from jobById_Ret[OF this(1)] have "s2 = s" ..
  ultimately show thesis by (intro that[of p]) simp_all
qed

lemma db_lawfulD:
  assumes "db_lawful sys"
  shows "d_save (db sys) d j = Inr d' \<Longrightarrow> d_jid (db sys) j = Some i \<Longrightarrow> d_find (db sys) d' i = Inr j"
    "d_decode (db sys) p (Some j0) = Inr j \<Longrightarrow> d_jid (db sys) j = Some (p_id p)"
    "d_decode (db sys) p (Some j0) = Inr j \<Longrightarrow> d_proto (db sys) j = Some q \<Longrightarrow> p_state q = p_state p"
    "d_find (db sys) d i = Inr j \<Longrightarrow> d_proto (db sys) j = Some p \<Longrightarrow> p_id p = i"
  using assms unfolding db_lawful_def by blast+

text \<open>After a successful update the row has the state the update function gave the message.\<close>

lemma jobReadAndUpdate_row:
  assumes l: "db_lawful sys" and run: "jobReadAndUpdate sys i f s = Ret s1 q"
    and keep: "\<And>p. p_id (fst (f p s)) = p_id p"
  obtains p j d where "s1 = (snd (f p s))\<lparr>j_db := d\<rparr>" and "d_find (db sys) d i = Inr j"
    and "d_proto (db sys) j = Some q" and "p_state q = p_state (fst (f p s))"
proof -
  from jobReadAndUpdate_Ret[OF run] obtain p where p: "jobById sys i s = Ret s p"
    and sv: "save_row sys (fst (f p s)) (snd (f p s)) = Ret s1 q" by blast
  from save_row_Ret[OF sv] obtain ij0 ij d where u: "d_decode (db sys) (fst (f p s)) (Some ij0) = Inr ij"
    "d_save (db sys) (j_db (snd (f p s))) ij = Inr d" "d_proto (db sys) ij = Some q"
    "s1 = (snd (f p s))\<lparr>j_db := d\<rparr>" by blast
  from jobById_Ret[OF p] have "p_id p = i" by (auto intro: db_lawfulD(4)[OF l])
  then have "d_jid (db sys) ij = Some i" using db_lawfulD(2)[OF l u(1)] keep by simp
  from that[OF u(4) db_lawfulD(1)[OF l u(2) this] u(3) db_lawfulD(3)[OF l u(1,3)]] show thesis .
qed

lemma Insert_Ret: "Insert sys txn a s = Ret s1 txn' \<Longrightarrow> s1 = s"
  using reads_Ret[OF Insert_reads] .

lemma wrap_err_Ret [simp]: "wrap_err f r = Ret s a \<longleftrightarrow> r = Ret s a"
  by (cases r) simp_all

lemma agree_frame:
  "j_db s' = j_db s \<Longrightarrow> x_State (the_job a s') = x_State (the_job a s) \<Longrightarrow> agree sys i a s \<Longrightarrow> agree sys i a s'"
  by (simp add: agree_def)

lemma agree_commit [simp]: "agree sys i a (commit txn s) = agree sys i a s"
  by (simp add: agree_def) (simp add: commit_def)

section \<open>Successful operations\<close>

lemma bind_reads_Ret:
  assumes "keeps ((=) s) r" and "bind_o r f = Ret s' x"
  obtains a where "r = Ret s a" and "f s a = Ret s' x"
  using assms by (cases r) auto

lemma write_txn_Ret: "write_txn body s = Ret s' x \<longleftrightarrow> \<not> j_locked s \<and> body (j_mem s) s = Ret s' x"
  by (simp add: write_txn_def)

lemma JobAck_Ret:
  assumes run: "JobAck sys i ack s = Ret s' j"
  obtains a s1 p txn where "\<not> j_locked s" and "First sys (j_mem s) i s = Ret s (Some a)"
    and "x_State (the_job a s) = Job_WAITING"
    and "jobReadAndUpdate sys (x_Id (the_job a s)) (ack_update a ack) s = Ret s1 p"
    and "s' = commit txn (set_timer a jobHeartbeatTimeout HeartbeatTimeout (End a s1))"
proof -
  note run1 = run[unfolded JobAck_def write_txn_Ret]
  from bind_reads_Ret[OF wrap_reads[OF First_reads] conjunct2[OF run1]] obtain r where
    r: "First sys (j_mem s) i s = Ret s r" and
    run2: "(case r of
           None \<Rightarrow> Fail s (job_not_found i)
         | Some a \<Rightarrow>
             if x_State (the_job a s) \<noteq> Job_WAITING
             then Fail s (bad_state ''acked'' (x_State (the_job a s)))
             else
               bind_o (wrap_err (lookupErrorToStatus ''job'')
                        (jobReadAndUpdate sys (x_Id (the_job a s)) (ack_update a ack) s)) (\<lambda>s result.
                 let s1 = set_timer a jobHeartbeatTimeout HeartbeatTimeout (End a s) in
                 bind_o (wrap_err (saveErrorToStatus ''job'') (Insert sys (j_mem s0) a s1)) (\<lambda>s txn.
                   bind_o (if ack then Ret s txn
                           else wrap_err (saveErrorToStatus ''job'')
                                  (jobAssignedSet sys txn (the_job a s) False s)) (\<lambda>s txn.
                     Ret (commit txn s) (jobIndex_Job (the_job a s) result))))) = Ret s' j" if "s0 = s" for s0
    by auto
  obtain a where a: "r = Some a" using run2 by (cases r) auto
  have w: "x_State (the_job a s) = Job_WAITING" using run2 a by (auto split: if_splits)
  obtain s1 p where u: "jobReadAndUpdate sys (x_Id (the_job a s)) (ack_update a ack) s = Ret s1 p"
    using run2 a w by (cases "jobReadAndUpdate sys (x_Id (the_job a s)) (ack_update a ack) s") auto
  let ?s2 = "set_timer a jobHeartbeatTimeout HeartbeatTimeout (End a s1)"
  have "\<exists>txn. s' = commit txn ?s2"
  proof -
    from run2[OF refl] a w u obtain txn where
      "Insert sys (j_mem s) a ?s2 = Ret ?s2 txn" and
      k: "bind_o (if ack then Ret ?s2 txn else wrap_err (saveErrorToStatus ''job'')
             (jobAssignedSet sys txn (the_job a ?s2) False ?s2)) (\<lambda>s txn.
               Ret (commit txn s) (jobIndex_Job (the_job a s) p)) = Ret s' j"
      by (auto simp: Let_def elim!: bind_reads_Ret[OF wrap_reads[OF Insert_reads]])
    from k show ?thesis
      by (rule bind_reads_Ret[rotated]) (auto intro: reads)
  qed
  with run1 r a w u show thesis by (auto intro: that)
qed

lemma JobComplete_Ret:
  assumes run: "JobComplete sys i result cerr s = Ret s' u"
  obtains a s1 p txn where "First sys (j_mem s) i s = Ret s (Some a)"
    and "x_State (the_job a s) = Job_RUNNING"
    and "jobReadAndUpdate sys (x_Id (the_job a s)) (complete_update a result cerr) s = Ret s1 p"
    and "s' = commit txn (End a s1)"
proof -
  note run1 = run[unfolded JobComplete_def write_txn_Ret]
  from run1 obtain r where r: "First sys (j_mem s) i s = Ret s r" and
    run2: "(case r of
         None \<Rightarrow> Fail s (job_not_found i)
       | Some a \<Rightarrow>
             bind_o (wrap_err (saveErrorToStatus ''job'') (jobAssignedSet sys (j_mem s) (the_job a s) False s)) (\<lambda>s txn.
               if x_State (the_job a s) \<noteq> Job_RUNNING
               then Fail s (bad_state ''completed'' (x_State (the_job a s)))
               else
                 bind_o (wrap_err (saveErrorToStatus ''job'')
                          (jobReadAndUpdate sys (x_Id (the_job a s)) (complete_update a result cerr) s)) (\<lambda>s _.
                   bind_o (wrap_err (saveErrorToStatus ''job'') (Insert sys txn a (End a s))) (\<lambda>s txn.
                     Ret (commit txn s) ())))) = Ret s' u"
    by (auto elim!: bind_reads_Ret[OF wrap_reads[OF First_reads]])
  obtain a where a: "r = Some a" using run2 by (cases r) auto
  from run2 a obtain txn where
    run3: "(if x_State (the_job a s) \<noteq> Job_RUNNING
               then Fail s (bad_state ''completed'' (x_State (the_job a s)))
               else
                 bind_o (wrap_err (saveErrorToStatus ''job'')
                          (jobReadAndUpdate sys (x_Id (the_job a s)) (complete_update a result cerr) s)) (\<lambda>s _.
                   bind_o (wrap_err (saveErrorToStatus ''job'') (Insert sys txn a (End a s))) (\<lambda>s txn.
                     Ret (commit txn s) ()))) = Ret s' u"
    by (auto elim!: bind_reads_Ret[OF wrap_reads[OF jobAssignedSet_reads]])
  have w: "x_State (the_job a s) = Job_RUNNING" using run3 by (auto split: if_splits)
  obtain s1 p where up: "jobReadAndUpdate sys (x_Id (the_job a s)) (complete_update a result cerr) s = Ret s1 p"
    using run3 w by (cases "jobReadAndUpdate sys (x_Id (the_job a s)) (complete_update a result cerr) s") auto
  with run3 w obtain txn' where "s' = commit txn' (End a s1)"
    by (auto elim!: bind_reads_Ret[OF wrap_reads[OF Insert_reads]])
  with r a w up show thesis by (auto intro: that)
qed

lemma jobCancel_Ret:
  assumes run: "jobCancel sys txn a force s = Ret s' txn'" and "\<not> jobIsCompleted (x_State (the_job a s))"
  obtains s1 p where "jobReadAndUpdate sys (x_Id (the_job a (cancel_state a force s))) (cancel_update a)
      (cancel_state a force s) = Ret s1 p" and "s' = s1"
proof -
  let ?s = "cancel_state a force s"
  from run assms(2) have "bind_o (if force \<and> x_State (the_job a ?s) = Job_ERROR
                then jobAssignedSet sys txn (the_job a ?s) False ?s else Ret ?s txn) (\<lambda>s txn.
          bind_o (jobReadAndUpdate sys (x_Id (the_job a s)) (cancel_update a) s) (\<lambda>s _. Insert sys txn a s)) = Ret s' txn'"
    by (simp add: jobCancel_def Let_def)
  then obtain t where k: "bind_o (jobReadAndUpdate sys (x_Id (the_job a ?s)) (cancel_update a) ?s)
      (\<lambda>s _. Insert sys t a s) = Ret s' txn'"
    by (rule bind_reads_Ret[rotated]) (auto intro: reads)
  then obtain s1 p where u: "jobReadAndUpdate sys (x_Id (the_job a ?s)) (cancel_update a) ?s = Ret s1 p"
    and "Insert sys t a s1 = Ret s' txn'"
    unfolding bind_o_Ret_iff by blast
  from Insert_Ret[OF this(2)] show thesis by (rule that[OF u])
qed

lemma JobCancel_Ret:
  assumes run: "JobCancel sys i force s = Ret s' u"
  obtains a s1 txn txn' where "First sys (j_mem s) i s = Ret s (Some a)"
    and "jobCancel sys txn a force s = Ret s1 txn'" and "s' = commit txn' s1"
proof -
  note run1 = run[unfolded JobCancel_def write_txn_Ret]
  from run1 obtain r where r: "First sys (j_mem s) i s = Ret s r" and
    run2: "(case r of
         None \<Rightarrow> Fail s (job_not_found i)
       | Some a \<Rightarrow> bind_o (wrap_err (saveErrorToStatus ''job'') (jobCancel sys (j_mem s) a force s)) (\<lambda>s txn.
               Ret (commit txn s) ())) = Ret s' u"
    by (auto elim!: bind_reads_Ret[OF wrap_reads[OF First_reads]])
  obtain a where a: "r = Some a" using run2 by (cases r) auto
  with run2 obtain s1 txn' where "jobCancel sys (j_mem s) a force s = Ret s1 txn'" "s' = commit txn' s1"
    by (cases "jobCancel sys (j_mem s) a force s") auto
  with r a show thesis by (auto intro: that)
qed

text \<open>After a success the row and the index record agree.\<close>

lemma agree_after:
  assumes l: "db_lawful sys" and run: "jobReadAndUpdate sys i f s = Ret s1 q"
    and keep: "\<And>p. p_id (fst (f p s)) = p_id p"
    and same: "\<And>p. p_state (fst (f p s)) = x_State (the_job a (snd (f p s)))"
  shows "agree sys i a s1"
proof -
  from jobReadAndUpdate_row[OF l run keep] obtain p j d where
    "s1 = (snd (f p s))\<lparr>j_db := d\<rparr>" "d_find (db sys) d i = Inr j" "d_proto (db sys) j = Some q"
    "p_state q = p_state (fst (f p s))" by blast
  then show ?thesis unfolding agree_def using same[of p] by auto
qed

lemma First_a: "First sys txn i s = Ret s (Some a) \<Longrightarrow> a < length (j_heap s)"
  by (drule First_Some) simp

lemma ack_agree:
  assumes "db_lawful sys" and "JobAck sys i ack s = Ret s' j"
  shows "\<exists>a. First sys (j_mem s) i s = Ret s (Some a) \<and> x_State (the_job a s) = Job_WAITING
    \<and> x_State (the_job a s') = (if ack then Job_RUNNING else Job_QUEUED)
    \<and> agree sys (x_Id (the_job a s)) a s'"
proof -
  obtain a s1 p txn where
    f: "First sys (j_mem s) i s = Ret s (Some a)" and w: "x_State (the_job a s) = Job_WAITING"
    and u: "jobReadAndUpdate sys (x_Id (the_job a s)) (ack_update a ack) s = Ret s1 p"
    and s': "s' = commit txn (set_timer a jobHeartbeatTimeout HeartbeatTimeout (End a s1))"
    by (rule JobAck_Ret[OF assms(2)])
  note al = First_a[OF f]
  have ag: "agree sys (x_Id (the_job a s)) a s1"
    by (rule agree_after[OF assms(1) u]; cases ack) (simp_all add: ack_update_def al)
  obtain p0 d where "s1 = (snd (ack_update a ack p0 s))\<lparr>j_db := d\<rparr>"
    by (rule jobReadAndUpdate_row[OF assms(1) u]) (simp_all add: ack_update_def)
  then have st: "x_State (the_job a s1) = (if ack then Job_RUNNING else Job_QUEUED)"
    "length (j_heap s1) = length (j_heap s)"
    using al by (auto simp: ack_update_def)
  have "agree sys (x_Id (the_job a s)) a s'"
    unfolding s' agree_commit by (rule agree_frame[OF _ _ ag]) (simp_all add: st)
  moreover have "x_State (the_job a s') = x_State (the_job a s1)" unfolding s' using al st(2) by simp
  ultimately show ?thesis using f w st by auto
qed

lemma complete_agree:
  assumes "db_lawful sys" and "JobComplete sys i result cerr s = Ret s' u"
  shows "\<exists>a. First sys (j_mem s) i s = Ret s (Some a) \<and> x_State (the_job a s) = Job_RUNNING
    \<and> x_State (the_job a s') = (if cerr = None then Job_SUCCESS else Job_ERROR)
    \<and> x_StateTimer (the_job a s') = None
    \<and> agree sys (x_Id (the_job a s)) a s'"
proof -
  obtain a s1 p txn where
    f: "First sys (j_mem s) i s = Ret s (Some a)" and w: "x_State (the_job a s) = Job_RUNNING"
    and u: "jobReadAndUpdate sys (x_Id (the_job a s)) (complete_update a result cerr) s = Ret s1 p"
    and s': "s' = commit txn (End a s1)"
    by (rule JobComplete_Ret[OF assms(2)])
  note al = First_a[OF f]
  have ag: "agree sys (x_Id (the_job a s)) a s1"
    by (rule agree_after[OF assms(1) u]; cases cerr) (simp_all add: complete_update_def al)
  obtain p0 d where "s1 = (snd (complete_update a result cerr p0 s))\<lparr>j_db := d\<rparr>"
    by (rule jobReadAndUpdate_row[OF assms(1) u]) (simp_all add: complete_update_def Let_def split: option.split)
  then have st: "x_State (the_job a s1) = (if cerr = None then Job_SUCCESS else Job_ERROR)"
    "length (j_heap s1) = length (j_heap s)"
    using al by (cases cerr; simp add: complete_update_def)+
  have "agree sys (x_Id (the_job a s)) a s'"
    unfolding s' agree_commit by (rule agree_frame[OF _ _ ag]) simp_all
  moreover have "x_State (the_job a s') = x_State (the_job a s1)" "x_StateTimer (the_job a s') = None"
    unfolding s' using al st(2) by simp_all
  ultimately show ?thesis using f w st by auto
qed

text \<open>The state after a cancellation.\<close>

definition cancelled :: "bool \<Rightarrow> Job_State \<Rightarrow> Job_State" where
  "cancelled force st =
     (if st = Job_QUEUED \<or> (force \<and> st \<in> {Job_WAITING, Job_RUNNING}) then Job_ERROR else st)"

lemma cancel_state_state:
  "a < length (j_heap s) \<Longrightarrow> x_State (the_job a (cancel_state a force s)) = cancelled force (x_State (the_job a s))"
  by (cases "x_State (the_job a s)") (simp_all add: cancel_state_def cancelled_def)

lemma cancel_state_id: "x_Id (the_job a (cancel_state a force s)) = x_Id (the_job a s)"
  by (cases "x_State (the_job a s)") (simp_all add: cancel_state_def)

lemma cancel_agree:
  assumes "db_lawful sys" and "JobCancel sys i force s = Ret s' u"
  shows "\<exists>a. First sys (j_mem s) i s = Ret s (Some a)
    \<and> x_State (the_job a s') = cancelled force (x_State (the_job a s))
    \<and> (\<not> jobIsCompleted (x_State (the_job a s)) \<longrightarrow> agree sys (x_Id (the_job a s)) a s')"
proof -
  obtain a s1 txn txn' where f: "First sys (j_mem s) i s = Ret s (Some a)"
    and c: "jobCancel sys txn a force s = Ret s1 txn'" and s': "s' = commit txn' s1"
    by (rule JobCancel_Ret[OF assms(2)])
  note al = First_a[OF f]
  show ?thesis
  proof (cases "jobIsCompleted (x_State (the_job a s))")
    case True
    with c have "s1 = s" by (simp add: jobCancel_def)
    with f True s' show ?thesis
      by (cases "x_State (the_job a s)") (auto simp: jobIsCompleted_def cancelled_def intro!: exI[of _ a])
  next
    case False
    let ?s = "cancel_state a force s"
    obtain s2 p where up: "jobReadAndUpdate sys (x_Id (the_job a ?s)) (cancel_update a) ?s = Ret s2 p" and "s1 = s2"
      by (rule jobCancel_Ret[OF c False])
    then have u: "jobReadAndUpdate sys (x_Id (the_job a ?s)) (cancel_update a) ?s = Ret s1 p" by simp
    have ag: "agree sys (x_Id (the_job a ?s)) a s1"
      by (rule agree_after[OF assms(1) u]) (simp_all add: cancel_update_def Let_def)
    obtain p0 d where "s1 = (snd (cancel_update a p0 ?s))\<lparr>j_db := d\<rparr>"
      by (rule jobReadAndUpdate_row[OF assms(1) u]) (simp_all add: cancel_update_def Let_def)
    then have "x_State (the_job a s1) = x_State (the_job a ?s)" by (simp add: cancel_update_def Let_def)
    with f ag s' cancel_state_state[OF al, of force] show ?thesis by (auto simp: cancel_state_id intro!: exI[of _ a])
  qed
qed

end
