(* ===== verification/JobClaims.thy ===== *)
theory JobClaims
  imports JobAgree
begin

text \<open>
  The properties of the job queue: the life cycle, agreement of the in-memory record and the database
  row, what an assignment does, and what the error paths and timers leave behind. The example
  databases are lists of rows.
\<close>

section \<open>Example databases\<close>

text \<open>The in-memory database as a list of addresses with the indexed fields, the other one as a list of rows.\<close>

type_synonym rows = "(nat \<times> jobIndex) list"

definition row_of :: "string \<Rightarrow> rows \<Rightarrow> nat option" where
  "row_of i m = map_option fst (find (\<lambda>(a, x). x_Id x = i) m)"

definition scan :: "(jobIndex \<Rightarrow> bool) \<Rightarrow> rows \<Rightarrow> nat list" where
  "scan fits m = map fst (sort_key (\<lambda>(a, x). state_num (x_State x))
     (sort_key (\<lambda>(a, x). x_QueueTime x) (filter (\<lambda>(a, x). fits x) m)))"

definition rows_mem :: "rows memops" where
  "rows_mem =
     \<lparr>m_first = \<lambda>m i. Inr (row_of i m),
      m_insert = \<lambda>m a x. Inr ((a, x) # filter (\<lambda>(b, y). x_Id y \<noteq> x_Id x) m),
      m_delete = \<lambda>m a x. Inr (filter (\<lambda>(b, y). x_Id y \<noteq> x_Id x) m),
      m_all = \<lambda>m. Inr (map fst m),
      m_queue = \<lambda>m st t. Inr (scan (\<lambda>x. state_num st < state_num (x_State x) \<or> x_State x = st \<and> t \<le> x_QueueTime x) m),
      m_target = \<lambda>m st i t. Inr (scan (\<lambda>x. x_State x = st \<and> x_TargetRunnerId x = i \<and> t \<le> x_QueueTime x) m),
      m_assigned = \<lambda>m i. Inr False,
      m_assign = \<lambda>m i. Inr m,
      m_unassign = \<lambda>m i. Inr m\<rparr>"

definition rows_db :: "(jobpb list, jobpb) jobdb" where
  "rows_db =
     \<lparr>d_alive = \<lambda>d. True,
      d_find = \<lambda>d i. case find (\<lambda>p. p_id p = i) d of None \<Rightarrow> Inl RecordNotFound | Some p \<Rightarrow> Inr p,
      d_save = \<lambda>d p. Inr (p # filter (\<lambda>q. p_id q \<noteq> p_id p) d),
      d_create = \<lambda>d p. Inr (p # d, p),
      d_incomplete = \<lambda>d. Inr (filter (\<lambda>p. \<not> jobIsCompleted (p_state p)) d),
      d_decode = \<lambda>p j. Inr p,
      d_proto = \<lambda>p. Some p,
      d_jid = \<lambda>p. Some (p_id p),
      d_state = p_state,
      d_validate = \<lambda>d p. None,
      d_beyond = \<lambda>d n. Inr (drop n d),
      d_remove = \<lambda>d ps. Inr (filter (\<lambda>p. p_id p \<notin> p_id ` set ps) d),
      d_runners = \<lambda>d. Inr 1,
      d_runnersAny = \<lambda>d. Inr 1,
      d_runnersId = \<lambda>d i. Inr 1,
      d_runner = \<lambda>d i. Inr i\<rparr>"

definition rows_sys :: "(rows, jobpb list, jobpb) sys" where
  "rows_sys = \<lparr>mem = rows_mem, db = rows_db\<rparr>"

definition full_disk :: "(rows, jobpb list, jobpb) sys" where
  "full_disk = \<lparr>mem = rows_mem, db = rows_db\<lparr>d_save := \<lambda>d p. Inl (OtherError ''disk full'')\<rparr>\<rparr>"

definition empty_server :: "(rows, jobpb list, 'e) jstate" where
  "empty_server = \<lparr>j_mem = [], j_locked = False, j_heap = [], j_db = [], j_timers = [], j_buffers = [],
     j_indexedJobs = 0, j_now = 1000\<rparr>"

definition any_job :: "string \<Rightarrow> jobpb" where
  "any_job i = (pb_of_id i)\<lparr>p_targetRunner := Some (Some Ref_Runner_Any)\<rparr>"

definition after_ops :: "job_op list \<Rightarrow> (rows, jobpb list, nat) jstate" where
  "after_ops ops = fold (job_step rows_sys (\<lambda>_. None)) ops empty_server"

lemmas example_defs = rows_sys_def rows_mem_def rows_db_def full_disk_def empty_server_def any_job_def after_ops_def

lemma rows_sys_lawful: "db_lawful rows_sys"
  by (auto simp: db_lawful_def rows_sys_def rows_db_def find_Some_iff split: option.splits)

section \<open>What an assignment does\<close>

lemma set_timer_timers:
  "j_timers (set_timer a d k s) =
     j_timers s @ [\<lparr>t_kind = k, t_job = x_Id (the_job a s), t_armed = True, t_due = j_now s + d\<rparr>]"
  by (simp add: set_timer_def AfterFunc_def upd_job_def)

lemma jobIsBlocked_False: "jobIsBlocked sys txn x s = Ret s False"
  by (simp add: jobIsBlocked_def blockOps_def)

lemma jobAssignedSet_same: "jobAssignedSet sys txn x b s = Ret s txn"
  by (simp add: jobAssignedSet_def blockOps_def)

lemma assign_one_Ret:
  assumes "assign_one sys txn c s = Ret s' r"
  shows "(r = None \<and> s' = s) \<or>
    (\<exists>a s1 p txn'. First sys txn (x_Id (the_job c s)) s = Ret s (Some a)
       \<and> x_State (the_job a s) = Job_QUEUED
       \<and> jobReadAndUpdate sys (x_Id (the_job a s))
           (\<lambda>p s. (p\<lparr>p_state := Job_WAITING, p_assignTime := Some (j_now s)\<rparr>, s))
           (upd_job a (\<lambda>x. x\<lparr>x_State := Job_WAITING\<rparr>) s) = Ret s1 p
       \<and> s' = commit txn' (set_timer a jobWaitingTimeout AckTimeout s1)
       \<and> r = Some (jobIndex_Job (the_job a s') p))"
proof -
  let ?f = "\<lambda>p s. (p\<lparr>p_state := Job_WAITING, p_assignTime := Some (j_now s)\<rparr>, s)"
  from assms obtain q where q: "First sys txn (x_Id (the_job c s)) s = Ret s q"
    unfolding assign_one_def
    by (cases "First sys txn (x_Id (the_job c s)) s") (auto dest: reads_Ret[OF First_reads])
  show ?thesis
  proof (cases "q = None \<or> x_State (the_job (the q) s) \<noteq> Job_QUEUED")
    case True
    with assms q show ?thesis by (cases q) (simp_all add: assign_one_def)
  next
    case False
    then obtain a where a: "q = Some a" and w: "x_State (the_job a s) = Job_QUEUED" by auto
    let ?s1 = "upd_job a (\<lambda>x. x\<lparr>x_State := Job_WAITING\<rparr>) s"
    have al: "a < length (j_heap s)" using q a by (auto dest: First_a)
    obtain s1 p where u: "jobReadAndUpdate sys (x_Id (the_job a s)) ?f ?s1 = Ret s1 p"
      using assms q a w al
      by (cases "jobReadAndUpdate sys (x_Id (the_job a s)) ?f ?s1")
        (auto simp: assign_one_def jobIsBlocked_False Let_def)
    let ?s2 = "set_timer a jobWaitingTimeout AckTimeout s1"
    from assms q a w al u obtain txn' where "Insert sys txn a ?s2 = Ret ?s2 txn'"
      "s' = commit txn' ?s2" "r = Some (jobIndex_Job (the_job a ?s2) p)"
      by (cases "Insert sys txn a ?s2")
        (auto simp: assign_one_def jobIsBlocked_False jobAssignedSet_same Let_def dest: Insert_Ret)
    with q a w u show ?thesis by auto
  qed
qed

lemma assign_loop_Ret:
  assumes "assign_loop sys txn cs s = Ret s' (Some j)"
  shows "\<exists>c \<in> set cs. assign_one sys txn c s = Ret s' (Some j)"
  using assms
proof (induction cs)
  case (Cons c cs)
  show ?case
  proof (cases "assign_one sys txn c s")
    case (Ret s1 r)
    with assign_one_Ret[OF Ret] Cons show ?thesis by (cases r) auto
  qed (use Cons in auto)
qed simp

lemma assign_loop_None: "assign_loop sys txn cs s = Ret s' None \<Longrightarrow> s' = s"
proof (induction cs)
  case (Cons c cs)
  then show ?case
    by (cases "assign_one sys txn c s") (auto dest!: assign_one_Ret split: option.splits)
qed simp

lemma bind_o_Fail:
  "bind_o r f = Fail s e \<Longrightarrow> (r = Fail s e) \<or> (\<exists>s1 a. r = Ret s1 a \<and> f s1 a = Fail s e)"
  by (cases r) auto

lemma leak_lock_Fail: "leak_lock r = Fail s e \<Longrightarrow> j_locked s"
  by (cases r) auto

lemma assign_one_Fail: "assign_one sys txn c s = Fail s' e \<Longrightarrow> j_locked s'"
  unfolding assign_one_def
  by (auto simp: jobAssignedSet_same Let_def dest!: bind_o_Fail leak_lock_Fail split: option.splits if_splits)

lemma assign_loop_Fail: "assign_loop sys txn cs s = Fail s' e \<Longrightarrow> j_locked s'"
  by (induction cs arbitrary: s) (auto dest!: bind_o_Fail dest: assign_one_Fail split: option.splits)

lemma find_filter_other:
  "find (\<lambda>(a, x). x_Id x = i) (filter (\<lambda>(b, y). x_Id y \<noteq> k) m) = (if i = k then None else find (\<lambda>(a, x). x_Id x = i) m)"
  by (induction m) (auto simp: find_None_iff)

lemma assign_one_assigns:
  assumes "db_lawful sys" and "assign_one sys txn c s = Ret s' (Some j)"
  obtains a where "a < length (j_heap s)" and "x_State (the_job a s) = Job_QUEUED"
    and "First sys txn (x_Id (the_job c s)) s = Ret s (Some a)"
    and "x_State (the_job a s') = Job_WAITING"
    and "\<And>b. b \<noteq> a \<Longrightarrow> the_job b s' = the_job b s"
    and "x_StateTimer (the_job a s') = Some (length (j_timers s))"
    and "j_timers s' = j_timers s @ [\<lparr>t_kind = AckTimeout, t_job = x_Id (the_job a s), t_armed = True,
           t_due = j_now s + jobWaitingTimeout\<rparr>]"
    and "agree sys (x_Id (the_job a s)) a s'" and "p_state (job_pb j) = Job_WAITING"
    and "j_locked s' = j_locked s"
proof -
  let ?f = "\<lambda>p s. (p\<lparr>p_state := Job_WAITING, p_assignTime := Some (j_now s)\<rparr>, s)"
  from assign_one_Ret[OF assms(2)] obtain a s1 p txn' where
    f: "First sys txn (x_Id (the_job c s)) s = Ret s (Some a)" and w: "x_State (the_job a s) = Job_QUEUED"
    and u: "jobReadAndUpdate sys (x_Id (the_job a s)) ?f (upd_job a (\<lambda>x. x\<lparr>x_State := Job_WAITING\<rparr>) s) = Ret s1 p"
    and s': "s' = commit txn' (set_timer a jobWaitingTimeout AckTimeout s1)"
    and j: "job_pb j = p"
    by (auto simp: jobIndex_Job_def)
  note al = First_a[OF f]
  have ag: "agree sys (x_Id (the_job a s)) a s1"
    by (rule agree_after[OF assms(1) u]) (simp_all add: al)
  obtain p0 d where s1: "s1 = (upd_job a (\<lambda>x. x\<lparr>x_State := Job_WAITING\<rparr>) s)\<lparr>j_db := d\<rparr>"
    and st: "p_state p = Job_WAITING"
    by (rule jobReadAndUpdate_row[OF assms(1) u]) simp_all
  have ag': "agree sys (x_Id (the_job a s)) a s'"
    unfolding s' agree_commit by (rule agree_frame[OF _ _ ag]) (simp_all add: s1 al)
  show thesis
    by (rule that[OF al w f _ _ _ _ ag'])
      (simp_all add: s' s1 al j st commit_def set_timer_def AfterFunc_def upd_job_def the_job_def)
qed

text \<open>The candidates of a search.\<close>

lemma first_candidate_Ret:
  "first_candidate sys txn fits as s = Ret s' r \<Longrightarrow>
     s' = s \<and> (\<forall>a. r = Some a \<longrightarrow> a \<in> set as \<and> a < length (j_heap s) \<and> x_State (the_job a s) = Job_QUEUED \<and> fits (the_job a s))"
  by (induction as) (auto simp: jobIsBlocked_False split: if_splits)

definition candidate_for :: "string \<Rightarrow> jobIndex \<Rightarrow> bool" where
  "candidate_for rid x \<longleftrightarrow> x_State x = Job_QUEUED \<and> (x_TargetRunnerId x = rid \<or> x_TargetAny x)"

lemma jobCandidateById_Ret:
  assumes "jobCandidateById sys txn rid s = Ret s' r"
  shows "s' = s" and "r = Some a \<Longrightarrow> a < length (j_heap s) \<and> x_State (the_job a s) = Job_QUEUED \<and> x_TargetRunnerId (the_job a s) = rid"
  using assms unfolding jobCandidateById_def
  by (auto simp: lift_def dest!: first_candidate_Ret split: sum.splits)

lemma jobCandidateAny_Ret:
  assumes "jobCandidateAny sys txn rid s = Ret s' r"
  shows "s' = s" and "r = Some a \<Longrightarrow> a < length (j_heap s) \<and> x_State (the_job a s) = Job_QUEUED \<and> x_TargetAny (the_job a s)"
  using assms unfolding jobCandidateAny_def
  by (auto simp: lift_def dest!: first_candidate_Ret split: sum.splits)

lemma RunnerFromProto_Ret: "RunnerFromProto sys r s = Ret s' rid \<Longrightarrow> s' = s \<and> d_runner (db sys) (j_db s) (rn_Id r) = Inr rid"
  by (auto simp: RunnerFromProto_def lift_def split: if_splits sum.splits)

lemma assign_search_Ret:
  assumes "assign_search sys r s = Ret s' cs"
  obtains rid c1 c2 where "s' = s" and "d_runner (db sys) (j_db s) (rn_Id r) = Inr rid"
    and "jobCandidateById sys (j_mem s) rid s = Ret s c1"
    and "(if rn_ByIdOnly r then Ret s None else jobCandidateAny sys (j_mem s) rid s) = Ret s c2"
    and "cs = sort_key (\<lambda>a. x_QueueTime (the_job a s))
          ((case c1 of None \<Rightarrow> [] | Some a \<Rightarrow> [a]) @ (case c2 of None \<Rightarrow> [] | Some a \<Rightarrow> [a]))"
proof -
  from assms obtain s1 rid where a: "RunnerFromProto sys r s = Ret s1 rid" and
    k: "bind_o (jobCandidateById sys (j_mem s1) rid s1) (\<lambda>s c1.
         bind_o (if rn_ByIdOnly r then Ret s None else jobCandidateAny sys (j_mem s) rid s) (\<lambda>s c2.
           Ret s (sort_key (\<lambda>a. x_QueueTime (the_job a s))
             ((case c1 of None \<Rightarrow> [] | Some a \<Rightarrow> [a]) @ (case c2 of None \<Rightarrow> [] | Some a \<Rightarrow> [a]))))) = Ret s' cs"
    unfolding assign_search_def bind_o_Ret_iff wrap_err_Ret by blast
  from RunnerFromProto_Ret[OF a] have s1: "s1 = s" and rid: "d_runner (db sys) (j_db s) (rn_Id r) = Inr rid" by auto
  from k obtain s2 c1 where c1: "jobCandidateById sys (j_mem s) rid s = Ret s2 c1" and
    k2: "bind_o (if rn_ByIdOnly r then Ret s2 None else jobCandidateAny sys (j_mem s2) rid s2) (\<lambda>s c2.
           Ret s (sort_key (\<lambda>a. x_QueueTime (the_job a s))
             ((case c1 of None \<Rightarrow> [] | Some a \<Rightarrow> [a]) @ (case c2 of None \<Rightarrow> [] | Some a \<Rightarrow> [a])))) = Ret s' cs"
    unfolding s1 bind_o_Ret_iff by blast
  have s2: "s2 = s" using jobCandidateById_Ret(1)[OF c1] .
  from k2 obtain s3 c2 where c2: "(if rn_ByIdOnly r then Ret s None else jobCandidateAny sys (j_mem s) rid s) = Ret s3 c2"
    and e: "s' = s3" "cs = sort_key (\<lambda>a. x_QueueTime (the_job a s3))
             ((case c1 of None \<Rightarrow> [] | Some a \<Rightarrow> [a]) @ (case c2 of None \<Rightarrow> [] | Some a \<Rightarrow> [a]))"
    unfolding s2 bind_o_Ret_iff by (auto split: if_splits)
  have s3: "s3 = s" using c2 by (auto split: if_splits dest: jobCandidateAny_Ret)
  show thesis using rid c1 c2 e unfolding s2 s3 by (auto intro: that)
qed

text \<open>What pruning relies on: the scan returns indexed jobs, and a deletion touches no other id.\<close>

definition index_sound :: "('m, 'd, 'j) sys \<Rightarrow> ('m, 'd, 'e) jstate \<Rightarrow> bool" where
  "index_sound sys s \<longleftrightarrow>
     (\<forall>st t as. m_queue (mem sys) (j_mem s) st t = Inr as \<longrightarrow>
        (\<forall>a \<in> set as. m_first (mem sys) (j_mem s) (x_Id (the_job a s)) = Inr (Some a)))
     \<and> (\<forall>m a x m'. m_delete (mem sys) m a x = Inr m' \<longrightarrow>
        (\<forall>i. i \<noteq> x_Id x \<longrightarrow> m_first (mem sys) m' i = m_first (mem sys) m i))"

lemma prune_loop_Ret:
  assumes "prune_loop sys keep as cnt n txn s = Ret s' (txn', k)"
    and "\<And>m a x m' i. m_delete (mem sys) m a x = Inr m' \<Longrightarrow> i \<noteq> x_Id x \<Longrightarrow> m_first (mem sys) m' i = m_first (mem sys) m i"
    and "\<forall>a \<in> set as. keep (the_job a s) \<or> x_Id (the_job a s) \<noteq> i" and "1 \<le> cnt"
  shows "s' = s \<and> n \<le> k \<and> k \<le> n + cnt \<and> m_first (mem sys) txn' i = m_first (mem sys) txn i"
  using assms(1,3,4)
proof (induction as arbitrary: cnt n txn)
  case (Cons a as)
  show ?case
  proof (cases "keep (the_job a s)")
    case True
    with Cons.prems Cons.IH[of cnt n txn] show ?thesis by (simp split: if_splits)
  next
    case False
    with Cons.prems(1) obtain m' where d: "m_delete (mem sys) txn a (the_job a s) = Inr m'"
      by (auto simp: lift_def split: if_splits sum.splits)
    with Cons.prems False have f: "m_first (mem sys) m' i = m_first (mem sys) txn i"
      by (intro assms(2)) auto
    show ?thesis
      using Cons.prems False d f Cons.IH[of "cnt - 1" "n + 1" m'] by (auto simp: lift_def split: if_splits)
  qed
qed simp

section \<open>Properties\<close>

text \<open>C1: The life cycle of a job: whatever operations, assignments, timers and database failures follow, the
  identity of an indexed job never changes, its state only moves along the arrows queued-waiting-running,
  waiting-queued, running-success, running-error and cancellation, and a completed job stays as it is.\<close>

theorem job_lifecycle:
  assumes "a < length (j_heap s)" and "s' = fold (job_step sys valid) ops s"
  shows "a < length (j_heap s') \<and> same_identity (the_job a s) (the_job a s')
    \<and> job_reach (x_State (the_job a s)) (x_State (the_job a s'))
    \<and> (jobIsCompleted (x_State (the_job a s)) \<longrightarrow> x_State (the_job a s') = x_State (the_job a s))"
proof -
  have "heap_step s s'" unfolding assms(2) by (rule job_queue.run_R)
  then have e: "length (j_heap s) \<le> length (j_heap s')" "job_evolves (the_job a s) (the_job a s')"
    using assms(1) by (simp_all add: heap_step_def)
  then have r: "job_reach (x_State (the_job a s)) (x_State (the_job a s'))"
    by (simp add: job_evolves_def)
  with e assms(1) show ?thesis using job_reach_completed[OF r] by (simp add: job_evolves_def)
qed

lemma job_lifecycle_witness:
  "x_State (the_job 0 (after_ops [OpCreate (any_job ''j''), OpCancel ''j'' False])) = Job_ERROR
   \<and> x_State (the_job 0 (fold (job_step rows_sys (\<lambda>_. None)) [OpAck ''j'' True, OpAssign [0]]
        (after_ops [OpCreate (any_job ''j''), OpCancel ''j'' False]))) = Job_ERROR"
proof -
  let ?s = "after_ops [OpCreate (any_job ''j''), OpCancel ''j'' False]"
  have st: "x_State (the_job 0 ?s) = Job_ERROR" and l: "0 < length (j_heap ?s)" by code_simp+
  from job_lifecycle[OF l refl, of rows_sys "\<lambda>_. None" "[OpAck ''j'' True, OpAssign [0]]"] st
  show ?thesis by (simp add: jobIsCompleted_def)
qed





text \<open>The candidates of a search are at most two, the earliest queued first; each is queued and meant for
  this runner or for any runner, and a runner that only takes jobs by id gets only those.\<close>

theorem search_finds_oldest_fitting:
  assumes "assign_search sys r s = Ret s' cs"
  shows "s' = s \<and> length cs \<le> 2 \<and> sorted (map (\<lambda>a. x_QueueTime (the_job a s)) cs)
    \<and> (\<exists>rid. d_runner (db sys) (j_db s) (rn_Id r) = Inr rid
        \<and> (\<forall>a \<in> set cs. a < length (j_heap s) \<and> candidate_for rid (the_job a s)
            \<and> (rn_ByIdOnly r \<longrightarrow> x_TargetRunnerId (the_job a s) = rid)))"
proof -
  obtain rid c1 c2 where s': "s' = s" and rid: "d_runner (db sys) (j_db s) (rn_Id r) = Inr rid"
    and c1: "jobCandidateById sys (j_mem s) rid s = Ret s c1"
    and c2: "(if rn_ByIdOnly r then Ret s None else jobCandidateAny sys (j_mem s) rid s) = Ret s c2"
    and cs: "cs = sort_key (\<lambda>a. x_QueueTime (the_job a s))
          ((case c1 of None \<Rightarrow> [] | Some a \<Rightarrow> [a]) @ (case c2 of None \<Rightarrow> [] | Some a \<Rightarrow> [a]))"
    by (rule assign_search_Ret[OF assms])
  have "\<forall>a \<in> set cs. a < length (j_heap s) \<and> candidate_for rid (the_job a s)
            \<and> (rn_ByIdOnly r \<longrightarrow> x_TargetRunnerId (the_job a s) = rid)"
    using jobCandidateById_Ret(2)[OF c1] c2
    by (auto simp: cs candidate_for_def split: option.splits if_splits dest: jobCandidateAny_Ret(2))
  with s' rid show ?thesis by (auto simp: cs split: option.splits)
qed

lemma search_finds_oldest_fitting_witness:
  "sorted (map (\<lambda>a. x_QueueTime (the_job a (after_ops
     [OpCreate ((any_job ''j1'')\<lparr>p_targetRunner := Some (Some (Ref_Runner_Id ''r''))\<rparr>), OpTick 5, OpCreate (any_job ''j2'')]))) [0, 1])"
proof -
  let ?s = "after_ops [OpCreate ((any_job ''j1'')\<lparr>p_targetRunner := Some (Some (Ref_Runner_Id ''r''))\<rparr>), OpTick 5, OpCreate (any_job ''j2'')]"
  let ?r = "\<lparr>rn_Id = ''r'', rn_ByIdOnly = False\<rparr>"
  have "case assign_search rows_sys ?r ?s of Ret s' cs \<Rightarrow> cs = [0, 1] | _ \<Rightarrow> False" by code_simp
  then obtain s' where "assign_search rows_sys ?r ?s = Ret s' [0, 1]"
    by (cases "assign_search rows_sys ?r ?s") auto
  from search_finds_oldest_fitting[OF this] show ?thesis by blast
qed

text \<open>Pruning never loses an unfinished job: it stays indexed under its id, no record is changed, and the
  count of indexed jobs never falls below the smaller of its old value and the limit.\<close>

theorem prune_keeps_unfinished:
  assumes "index_sound sys s" and "Prune sys valid s = Ret s' u"
    and "m_first (mem sys) (j_mem s) i = Inr (Some b)" and "\<not> jobIsCompleted (x_State (the_job b s))"
  shows "m_first (mem sys) (j_mem s') i = Inr (Some b) \<and> j_heap s' = j_heap s
    \<and> min (j_indexedJobs s) maximumJobsInMem \<le> j_indexedJobs s' \<and> j_indexedJobs s' \<le> j_indexedJobs s"
proof (cases "j_indexedJobs s \<le> maximumJobsInMem")
  case True
  with assms(2,3) show ?thesis
    by (auto simp: Prune_def write_txn_Ret jobsPruneOld_def pruneOld_def commit_def split: option.splits)
next
  case False
  let ?keep = "\<lambda>x. \<not> jobIsCompleted (x_State x)"
  let ?cnt = "j_indexedJobs s - maximumJobsInMem"
  from assms(2) False obtain as s1 txn k where
    q: "m_queue (mem sys) (j_mem s) Job_QUEUED 0 = Inr as"
    and p: "prune_loop sys ?keep as ?cnt 0 (j_mem s) s = Ret s1 (txn, k)"
    and s': "s' = commit txn (s1\<lparr>j_indexedJobs := j_indexedJobs s1 - k\<rparr>)"
    by (auto simp: Prune_def write_txn_Ret jobsPruneOld_def pruneOld_def bind_o_Ret_iff lift_def
        split: option.splits sum.splits)
  have "\<forall>a \<in> set as. ?keep (the_job a s) \<or> x_Id (the_job a s) \<noteq> i"
    using assms(1,3,4) q by (fastforce simp: index_sound_def)
  from prune_loop_Ret[OF p _ this] assms(1) False have "s1 = s" "0 \<le> k" "k \<le> ?cnt"
    "m_first (mem sys) txn i = m_first (mem sys) (j_mem s) i"
    by (auto simp: index_sound_def)
  with assms(3) False show ?thesis by (simp add: s' commit_def)
qed

lemma prune_keeps_unfinished_witness:
  "m_first rows_mem (j_mem (left_by (Prune rows_sys (\<lambda>_. None) (after_ops [OpCreate (any_job ''j'')]))
     (after_ops [OpCreate (any_job ''j'')]))) ''j'' = Inr (Some 0)"
proof -
  let ?s = "after_ops [OpCreate (any_job ''j'')]"
  have m: "j_mem ?s = [(0, the_job 0 ?s)]" and j: "x_Id (the_job 0 ?s) = ''j''" by code_simp+
  have snd: "index_sound rows_sys ?s"
    by (auto simp: index_sound_def m rows_sys_def rows_mem_def scan_def row_of_def find_filter_other
        split: if_splits)
  have "case Prune rows_sys (\<lambda>_. None) ?s of Ret s' u \<Rightarrow> True | _ \<Rightarrow> False"
    "m_first (mem rows_sys) (j_mem ?s) ''j'' = Inr (Some 0)" "\<not> jobIsCompleted (x_State (the_job 0 ?s))"
    by code_simp+
  moreover from this(1) obtain s' where p: "Prune rows_sys (\<lambda>_. None) ?s = Ret s' ()"
    by (cases "Prune rows_sys (\<lambda>_. None) ?s") auto
  ultimately have "m_first (mem rows_sys) (j_mem s') ''j'' = Inr (Some 0)"
    using prune_keeps_unfinished[OF snd p] by blast
  with p show ?thesis by (simp add: rows_sys_def left_by_def)
qed

text \<open>An assignment that ends in an error keeps the write lock for ever: the deferred \<open>Abort\<close> belongs to the
  read transaction. Every later operation that writes then waits and does not return.\<close>

theorem failed_assignment_blocks_queue:
  assumes "assign_commit sys cs s = Fail s' e"
  shows "j_locked s' \<and> (\<exists>m. JobCreate sys p s' = Crash m \<and> assign_commit sys cs' s' = Crash m
    \<and> JobAck sys i ack s' = Crash m \<and> JobComplete sys i result cerr s' = Crash m
    \<and> JobCancel sys i force s' = Crash m \<and> JobHeartbeat sys i s' = Crash m \<and> JobExpire sys i s' = Crash m
    \<and> Prune sys valid s' = Crash m)"
proof -
  from assms have "j_locked s'"
    by (auto simp: assign_commit_def write_txn_def dest: assign_loop_Fail split: if_splits)
  then show ?thesis
    by (simp add: JobCreate_def assign_commit_def JobAck_def JobComplete_def JobCancel_def JobHeartbeat_def
        JobExpire_def Prune_def write_txn_def)
qed

lemma failed_assignment_blocks_queue_witness:
  "\<exists>s' :: (rows, jobpb list, nat) jstate. j_locked s' \<and> (\<exists>m. JobAck full_disk ''j'' True s' = Crash m)"
proof -
  let ?s = "after_ops [OpCreate (any_job ''j'')]"
  have "case assign_commit full_disk [0] ?s of Fail s' e \<Rightarrow> True | _ \<Rightarrow> False" by code_simp
  then obtain s' e where "assign_commit full_disk [0] ?s = Fail s' e"
    by (cases "assign_commit full_disk [0] ?s") auto
  from failed_assignment_blocks_queue[OF this] show ?thesis by blast
qed

text \<open>A rejected assignment leaves the job queued with an armed heartbeat timer of two minutes. When the job
  is still queued as the timer goes off, the timer cancels it.\<close>

theorem rejected_job_keeps_heartbeat:
  assumes "db_lawful sys" and "JobAck sys i False s = Ret s' j"
  shows "\<exists>a. x_State (the_job a s') = Job_QUEUED \<and> x_StateTimer (the_job a s') = Some (length (j_timers s))
    \<and> j_timers s' ! length (j_timers s) = \<lparr>t_kind = HeartbeatTimeout, t_job = x_Id (the_job a s),
         t_armed = True, t_due = j_now s + jobHeartbeatTimeout\<rparr>
    \<and> (\<forall>s2 s3 u. fire sys t s2 = Ret s3 u \<longrightarrow> t < length (j_timers s2) \<longrightarrow> t_armed (j_timers s2 ! t)
         \<longrightarrow> t_due (j_timers s2 ! t) \<le> j_now s2 \<longrightarrow> t_kind (j_timers s2 ! t) = HeartbeatTimeout
         \<longrightarrow> (\<exists>b. First sys (j_mem s2) (t_job (j_timers s2 ! t)) (Timer_Stop t s2) = Ret (Timer_Stop t s2) (Some b)
               \<and> (x_State (the_job b s2) = Job_QUEUED \<longrightarrow> x_State (the_job b s3) = Job_ERROR)))"
proof -
  obtain a s1 p txn where
    f: "First sys (j_mem s) i s = Ret s (Some a)" and w: "x_State (the_job a s) = Job_WAITING"
    and u: "jobReadAndUpdate sys (x_Id (the_job a s)) (ack_update a False) s = Ret s1 p"
    and s': "s' = commit txn (set_timer a jobHeartbeatTimeout HeartbeatTimeout (End a s1))"
    by (rule JobAck_Ret[OF assms(2)])
  note al = First_a[OF f]
  obtain p0 d where "s1 = (snd (ack_update a False p0 s))\<lparr>j_db := d\<rparr>"
    by (rule jobReadAndUpdate_row[OF assms(1) u]) (simp_all add: ack_update_def)
  then have s1: "s1 = (upd_job a (\<lambda>x. x\<lparr>x_State := Job_QUEUED\<rparr>) s)\<lparr>j_db := d\<rparr>"
    by (simp add: ack_update_def)
  have e: "length (j_timers (End a s1)) = length (j_timers s)" "j_now (End a s1) = j_now s"
    "x_Id (the_job a (End a s1)) = x_Id (the_job a s)"
    using al by (auto simp: s1 End_def Timer_Stop_def upd_job_def the_job_def split: option.split)
  have "x_State (the_job a s') = Job_QUEUED" "x_StateTimer (the_job a s') = Some (length (j_timers s))"
    using al e(1) by (simp_all add: s' s1 set_timer_def AfterFunc_def)
  moreover have "j_timers s' ! length (j_timers s) = \<lparr>t_kind = HeartbeatTimeout, t_job = x_Id (the_job a s),
         t_armed = True, t_due = j_now s + jobHeartbeatTimeout\<rparr>"
    using e by (simp add: s' set_timer_timers commit_def nth_append)
  moreover have "\<exists>b. First sys (j_mem s2) (t_job (j_timers s2 ! t)) (Timer_Stop t s2) = Ret (Timer_Stop t s2) (Some b)
               \<and> (x_State (the_job b s2) = Job_QUEUED \<longrightarrow> x_State (the_job b s3) = Job_ERROR)"
    if "fire sys t s2 = Ret s3 u" "t < length (j_timers s2)" "t_armed (j_timers s2 ! t)"
      "t_due (j_timers s2 ! t) \<le> j_now s2" "t_kind (j_timers s2 ! t) = HeartbeatTimeout" for s2 s3 u
  proof -
    from that have "JobCancel sys (t_job (j_timers s2 ! t)) True (Timer_Stop t s2) = Ret s3 u"
      by (simp add: fire_def run_timer_def)
    from cancel_agree[OF assms(1) this] show ?thesis
      by (auto simp: cancelled_def Timer_Stop_def the_job_def)
  qed
  ultimately show ?thesis by blast
qed

lemma rejected_job_keeps_heartbeat_witness:
  "\<exists>s' a. x_State (the_job a (s' :: (rows, jobpb list, nat) jstate)) = Job_QUEUED \<and> x_StateTimer (the_job a s') \<noteq> None"
proof -
  let ?s = "after_ops [OpCreate (any_job ''j''), OpAssign [0]]"
  have "case JobAck rows_sys ''j'' False ?s of Ret s' j \<Rightarrow> True | _ \<Rightarrow> False" by code_simp
  then obtain s' j where "JobAck rows_sys ''j'' False ?s = Ret s' j"
    by (cases "JobAck rows_sys ''j'' False ?s") auto
  from rejected_job_keeps_heartbeat[OF rows_sys_lawful this] show ?thesis by blast
qed

text \<open>A heartbeat does not help against a stale timer: a job is rejected once, assigned again, acknowledged,
  and its runner sends a heartbeat after one minute; one minute later the timer of the rejection cancels
  the running job, although the heartbeat timer it has now is not due for another minute.\<close>

theorem stale_heartbeat_cancels_running_job:
  "let s = after_ops [OpCreate (any_job ''j''), OpAssign [0], OpAck ''j'' False, OpAssign [0], OpAck ''j'' True,
        OpTick 60000000000, OpHeartbeat ''j'', OpTick 60000000000];
       t = the (x_StateTimer (the_job 0 s))
   in x_State (the_job 0 s) = Job_RUNNING \<and> t = 3 \<and> j_now s < t_due (j_timers s ! t)
    \<and> x_State (the_job 0 (job_step rows_sys (\<lambda>_. None) (OpFire 1) s)) = Job_ERROR"
  by code_simp

text \<open>Creating a job without a runner target fails, but not without a trace: the row stays in the database
  and the counter of indexed jobs goes up, while the job is not indexed and so never assigned; the same
  request again is refused because the job exists.\<close>

theorem create_without_target_leaves_row:
  assumes "\<not> j_locked s" and "p_targetRunner p \<in> {None, Some None}"
    and new: "InternalJobFromProto sys (Some (p\<lparr>p_state := Job_QUEUED, p_queueTime := Some (j_now s)\<rparr>)) s = Fail s e0"
    and "d_decode (db sys) (p\<lparr>p_state := Job_QUEUED, p_queueTime := Some (j_now s)\<rparr>) None = Inr row"
    and "d_create (db sys) (j_db s) row = Inr (d, row')"
    and "d_jid (db sys) row' \<noteq> None" and "d_proto (db sys) row' = Some p'" and "p_targetRunner p' = p_targetRunner p"
  shows "(\<exists>e. JobCreate sys p s = Fail (s\<lparr>j_db := d, j_indexedJobs := j_indexedJobs s + 1\<rparr>) e)
    \<and> (d_find (db sys) d (p_id p) = Inr row' \<longrightarrow> p_id p \<noteq> [] \<longrightarrow>
      (\<exists>e. JobCreate sys p (s\<lparr>j_db := d, j_indexedJobs := j_indexedJobs s + 1\<rparr>)
        = Fail (s\<lparr>j_db := d, j_indexedJobs := j_indexedJobs s + 1\<rparr>) e))"
proof -
  have "index_of p' = Inl (OtherError ''job target runner must be set'')"
    using assms(2,8) by (auto simp: index_of_def)
  then have "\<exists>e. JobCreate sys p s = Fail (s\<lparr>j_db := d, j_indexedJobs := j_indexedJobs s + 1\<rparr>) e"
    using assms
    by (auto simp: JobCreate_def write_txn_def jobCreate_def Let_def ToProto_def jobIndexSet_def)
  moreover have "\<exists>e. JobCreate sys p (s\<lparr>j_db := d, j_indexedJobs := j_indexedJobs s + 1\<rparr>)
        = Fail (s\<lparr>j_db := d, j_indexedJobs := j_indexedJobs s + 1\<rparr>) e"
    if "d_find (db sys) d (p_id p) = Inr row'" "p_id p \<noteq> []"
    using that assms(1)
    by (auto simp: JobCreate_def write_txn_def jobCreate_def Let_def InternalJobFromProto_def)
  ultimately show ?thesis by blast
qed

lemma create_without_target_leaves_row_witness:
  "\<exists>e. JobCreate rows_sys (pb_of_id ''j'') (empty_server :: (rows, jobpb list, nat) jstate) =
     Fail (empty_server\<lparr>j_db := [(pb_of_id ''j'')\<lparr>p_state := Job_QUEUED, p_queueTime := Some 1000\<rparr>],
                        j_indexedJobs := 1\<rparr>) e"
  using create_without_target_leaves_row[of "empty_server :: (rows, jobpb list, nat) jstate" "pb_of_id ''j''" rows_sys RecordNotFound]
  by (simp add: example_defs pb_of_id_def InternalJobFromProto_def is_not_found_def)

text \<open>A completion whose save fails reports the error but has already changed the job: the record in memory
  is completed while the database, and with it the row of the running job, is as it was.\<close>

theorem failed_save_completes_in_memory:
  assumes "JobComplete sys i result cerr s = Fail s' e" and "First sys (j_mem s) i s = Ret s (Some a)"
    and "x_State (the_job a s) = Job_RUNNING" and "d_alive (db sys) (j_db s)"
    and "jobById sys (x_Id (the_job a s)) s = Ret s p" and "\<And>d j. d_save (db sys) d j = Inl nospace"
  shows "x_State (the_job a s') = (if cerr = None then Job_SUCCESS else Job_ERROR) \<and> j_db s' = j_db s"
proof -
  have nl: "\<not> j_locked s" using assms(1) by (auto simp: JobComplete_def write_txn_def split: if_splits)
  let ?u = "complete_update a result cerr p s"
  have w: "\<exists>e'. wrap_err g (jobReadAndUpdate sys (x_Id (the_job a s)) (complete_update a result cerr) s) = Fail (snd ?u) e'
      \<or> (\<exists>m. wrap_err g (jobReadAndUpdate sys (x_Id (the_job a s)) (complete_update a result cerr) s) = Crash m)" for g
    using assms(4,5,6) by (auto simp: jobReadAndUpdate_def save_row_def InternalJobFromProto_def split: option.splits sum.splits)
  have "s' = snd ?u"
    using assms(1,2,3) nl w[of "saveErrorToStatus ''job''"]
    by (auto simp: JobComplete_def write_txn_def jobAssignedSet_same)
  then show ?thesis using First_a[OF assms(2)] by (auto simp: complete_update_def Let_def upd_job_def the_job_def split: option.split)
qed

lemma failed_save_completes_in_memory_witness:
  "\<exists>s'. x_State (the_job 0 (s' :: (rows, jobpb list, nat) jstate)) = Job_SUCCESS
    \<and> j_db s' = j_db (after_ops [OpCreate (any_job ''j''), OpAssign [0], OpAck ''j'' True])"
proof -
  let ?s = "after_ops [OpCreate (any_job ''j''), OpAssign [0], OpAck ''j'' True]"
  have "case JobComplete full_disk ''j'' None None ?s of Fail s' e \<Rightarrow> True | _ \<Rightarrow> False"
    "m_first rows_mem (j_mem ?s) ''j'' = Inr (Some 0)" "0 < length (j_heap ?s)"
    "x_State (the_job 0 ?s) = Job_RUNNING" "x_Id (the_job 0 ?s) = ''j''"
    "d_find rows_db (j_db ?s) ''j'' = Inr (hd (j_db ?s))" by code_simp+
  note c = this
  from c(1) obtain s' e where r: "JobComplete full_disk ''j'' None None ?s = Fail s' e"
    by (cases "JobComplete full_disk ''j'' None None ?s") auto
  have f: "First full_disk (j_mem ?s) ''j'' ?s = Ret ?s (Some 0)"
    using c(2,3) by (simp add: First_def full_disk_def lift_def)
  have b: "jobById full_disk (x_Id (the_job 0 ?s)) ?s = Ret ?s (hd (j_db ?s))"
    using c(5,6) by (simp add: jobById_def InternalJobFromProto_def pb_of_id_def ToProto_def full_disk_def rows_db_def)
  have "x_State (the_job 0 s') = Job_SUCCESS \<and> j_db s' = j_db ?s"
    using failed_save_completes_in_memory[OF r f c(4) _ b]
    by (simp add: full_disk_def rows_db_def)
  then show ?thesis by blast
qed

end
