(* ===== verification/ConfigVars.thy ===== *)
theory ConfigVars
  imports Jobs "HOL-Library.AList"
begin

text \<open>
  \<open>internal/server/singleprocess/state/config.go\<close>: configuration variables. A variable is a row of the
  database under an id made from its scope and name; the in-memory index finds the variables of a scope
  by a prefix of that id. The soft decoding of a variable into a row is the one of \<open>decoding.go\<close>: fields
  that are unset in the message are not applied to the row.

  The two databases are the argument \<open>sys\<close>. \<open>Crash\<close> is a panic; a nil pointer is \<open>None\<close>.
\<close>

section \<open>Types\<close>

record ref_basis =
  rb_ResourceId :: string
  rb_Name :: string

record ref_project =
  rp_ResourceId :: string
  rp_Basis :: "ref_basis option"

record ref_target =
  rt_ResourceId :: string
  rt_Project :: "ref_project option"

text \<open>The scope of a variable. The runner target is a pointer to a message whose one-of may be unset.\<close>

datatype var_scope =
    ConfigVar_Basis "ref_basis option"
  | ConfigVar_Project "ref_project option"
  | ConfigVar_Target "ref_target option"
  | ConfigVar_Runner "runner_target option option"

record configvar =
  v_Name :: string
  v_Value :: string
  v_Scope :: "var_scope option"

text \<open>A row; its scope is a stored message of the opaque type \<open>'p\<close>.\<close>

record 'p Config =
  c_Cid :: string
  c_Name :: string
  c_Scope :: 'p
  c_Value :: string

record configIndexRecord =
  ir_Id :: string
  ir_Basis :: string
  ir_Project :: string
  ir_Target :: string
  ir_Name :: string
  ir_Runner :: bool
  ir_RunnerRef :: "runner_target option option"

text \<open>The in-memory table: insertion, deletion, the scan by a prefix of the id and the one of the runner
  variables by a prefix of the name. The database: rows found by id, saved, and all of them. The
  decoder: how a scope is stored in a row and read again (outer \<open>None\<close>: a panic).\<close>

record 'm configmem =
  ci_insert :: "'m \<Rightarrow> configIndexRecord \<Rightarrow> goerr + 'm"
  ci_delete :: "'m \<Rightarrow> configIndexRecord \<Rightarrow> goerr + 'm"
  ci_prefix :: "'m \<Rightarrow> string \<Rightarrow> goerr + configIndexRecord list"
  ci_runner :: "'m \<Rightarrow> string \<Rightarrow> goerr + configIndexRecord list"

record ('d, 'p) configdb =
  cd_find :: "'d \<Rightarrow> string \<Rightarrow> goerr + 'p Config"
  cd_save :: "'d \<Rightarrow> 'p Config \<Rightarrow> goerr + 'd"
  cd_all :: "'d \<Rightarrow> goerr + 'p Config list"

record 'p scopes =
  sc_nil :: 'p
  sc_store :: "var_scope \<Rightarrow> goerr + 'p"
  sc_load :: "'p \<Rightarrow> var_scope option option"

record ('m, 'd, 'p) configsys =
  cmem :: "'m configmem"
  cdb :: "('d, 'p) configdb"
  csc :: "'p scopes"

record ('m, 'd) cstate =
  cs_mem :: 'm
  cs_db :: 'd

type_synonym ('m, 'd, 'a) cresult = "(('m, 'd) cstate, goerr, 'a) outcome"

section \<open>Ids and rows\<close>

definition join_id :: "string list \<Rightarrow> string" where
  "join_id parts = join_with ''/'' parts"

text \<open>The id of a variable; \<open>None\<close> is a panic. A basis goes by its name, everything else by resource ids, and a
  runner variable does not have the runner's id in it.\<close>

definition configVarId :: "configvar \<Rightarrow> string option" where
  "configVarId v =
     (case v_Scope v of
        None \<Rightarrow> None
      | Some (ConfigVar_Basis b) \<Rightarrow>
          Option.bind b (\<lambda>b. Some (join_id [rb_Name b, v_Name v]))
      | Some (ConfigVar_Project p) \<Rightarrow>
          Option.bind p (\<lambda>p. Option.bind (rp_Basis p) (\<lambda>b.
            Some (join_id [rb_ResourceId b, rp_ResourceId p, v_Name v])))
      | Some (ConfigVar_Target t) \<Rightarrow>
          Option.bind t (\<lambda>t. Option.bind (rt_Project t) (\<lambda>p. Option.bind (rp_Basis p) (\<lambda>b.
            Some (join_id [rb_ResourceId b, rp_ResourceId p, rt_ResourceId t, v_Name v]))))
      | Some (ConfigVar_Runner r) \<Rightarrow>
          (case r of
             None \<Rightarrow> None
           | Some None \<Rightarrow> None
           | Some (Some (Ref_Runner_Id _)) \<Rightarrow> Some (join_id [''runner'', ''by-id'', v_Name v])
           | Some (Some Ref_Runner_Any) \<Rightarrow> Some (join_id [''runner'', ''any'', v_Name v])))"

definition Config_ToProto :: "('m, 'd, 'p) configsys \<Rightarrow> 'p Config \<Rightarrow> configvar option" where
  "Config_ToProto sys c =
     map_option (\<lambda>sc. \<lparr>v_Name = c_Name c, v_Value = c_Value c, v_Scope = sc\<rparr>) (sc_load (csc sys) (c_Scope c))"

text \<open>\<open>softDecode\<close> of a variable into a row: only the fields that are set are copied.\<close>

definition soft :: "'a \<Rightarrow> 'a \<Rightarrow> 'a \<Rightarrow> 'a" where
  "soft unset new old = (if new = unset then old else new)"

definition softDecode_config ::
  "('m, 'd, 'p) configsys \<Rightarrow> configvar \<Rightarrow> 'p Config \<Rightarrow> goerr + 'p Config" where
  "softDecode_config sys v c =
     (let c = c\<lparr>c_Name := soft [] (v_Name v) (c_Name c), c_Value := soft [] (v_Value v) (c_Value c)\<rparr>
      in case v_Scope v of
           None \<Rightarrow> Inr c
         | Some sc \<Rightarrow> (case sc_store (csc sys) sc of Inl e \<Rightarrow> Inl e | Inr p \<Rightarrow> Inr (c\<lparr>c_Scope := p\<rparr>)))"

definition ConfigFromProto ::
  "('m, 'd, 'p) configsys \<Rightarrow> configvar \<Rightarrow> ('m, 'd) cstate \<Rightarrow> ('m, 'd, 'p Config) cresult" where
  "ConfigFromProto sys v s =
     (case configVarId v of
        None \<Rightarrow> Crash ''unknown scope''
      | Some i \<Rightarrow> (case cd_find (cdb sys) (cs_db s) i of Inl e \<Rightarrow> Fail s e | Inr c \<Rightarrow> Ret s c))"

section \<open>Writing variables\<close>

text \<open>The index record of a variable; a variable without value is deleted from the index instead.\<close>

definition index_record :: "string \<Rightarrow> configvar \<Rightarrow> configIndexRecord option" where
  "index_record i v =
     (let rec = \<lambda>b p t r. \<lparr>ir_Id = i, ir_Basis = b, ir_Project = p, ir_Target = t, ir_Name = v_Name v,
                  ir_Runner = (r \<noteq> None), ir_RunnerRef = r\<rparr>
      in case v_Scope v of
           None \<Rightarrow> None
         | Some (ConfigVar_Basis b) \<Rightarrow> map_option (\<lambda>b. rec (rb_ResourceId b) [] [] None) b
         | Some (ConfigVar_Project p) \<Rightarrow> map_option (\<lambda>p. rec [] (rp_ResourceId p) [] None) p
         | Some (ConfigVar_Target t) \<Rightarrow> map_option (\<lambda>t. rec [] [] (rt_ResourceId t) None) t
         | Some (ConfigVar_Runner r) \<Rightarrow> Some (rec [] [] [] r))"

definition configIndexSet ::
  "('m, 'd, 'p) configsys \<Rightarrow> 'm \<Rightarrow> string \<Rightarrow> configvar \<Rightarrow> ('m, 'd) cstate \<Rightarrow> ('m, 'd, 'm) cresult" where
  "configIndexSet sys txn i v s =
     (case index_record i v of
        None \<Rightarrow> Crash ''unknown scope''
      | Some r \<Rightarrow>
          (case (if v_Value v = [] then ci_delete (cmem sys) txn r else ci_insert (cmem sys) txn r) of
             Inl e \<Rightarrow> Fail s e
           | Inr txn \<Rightarrow> Ret s txn))"

fun wrap_save :: "('m, 'd, 'a) cresult \<Rightarrow> ('m, 'd, 'a) cresult" where
  "wrap_save (Fail s e) = Fail s (saveErrorToStatus ''config'' e)"
| "wrap_save r = r"

definition configSet ::
  "('m, 'd, 'p) configsys \<Rightarrow> 'm \<Rightarrow> configvar \<Rightarrow> ('m, 'd) cstate \<Rightarrow> ('m, 'd, 'm) cresult" where
  "configSet sys txn v s =
     (case configVarId v of
        None \<Rightarrow> Crash ''unknown scope''
      | Some i \<Rightarrow>
          (let store = (\<lambda>c.
                 case softDecode_config sys v c of
                   Inl e \<Rightarrow> Fail s (saveErrorToStatus ''config'' e)
                 | Inr c \<Rightarrow>
                     (case cd_save (cdb sys) (cs_db s) c of
                        Inl e \<Rightarrow> Fail s (saveErrorToStatus ''config'' e)
                      | Inr d \<Rightarrow>
                          wrap_save (configIndexSet sys txn i v (s\<lparr>cs_db := d\<rparr>))))
           in case ConfigFromProto sys v s of
                Crash m \<Rightarrow> Crash m
              | Ret s c \<Rightarrow> store c
              | Fail s e \<Rightarrow>
                  if is_not_found e then store \<lparr>c_Cid = i, c_Name = [], c_Scope = sc_nil (csc sys), c_Value = []\<rparr>
                  else Fail s e))"

fun config_sets ::
  "('m, 'd, 'p) configsys \<Rightarrow> 'm \<Rightarrow> configvar list \<Rightarrow> ('m, 'd) cstate \<Rightarrow> ('m, 'd, 'm) cresult" where
  "config_sets sys txn [] s = Ret s txn"
| "config_sets sys txn (v # vs) s = bind_o (configSet sys txn v s) (\<lambda>s txn. config_sets sys txn vs s)"

definition ConfigSet ::
  "('m, 'd, 'p) configsys \<Rightarrow> configvar list \<Rightarrow> ('m, 'd) cstate \<Rightarrow> ('m, 'd, unit) cresult" where
  "ConfigSet sys vs s = bind_o (config_sets sys (cs_mem s) vs s) (\<lambda>s txn. Ret (s\<lparr>cs_mem := txn\<rparr>) ())"

text \<open>The index is rebuilt from all rows when the server starts.\<close>

fun config_rows ::
  "('m, 'd, 'p) configsys \<Rightarrow> 'm \<Rightarrow> 'p Config list \<Rightarrow> ('m, 'd) cstate \<Rightarrow> ('m, 'd, 'm) cresult" where
  "config_rows sys txn [] s = Ret s txn"
| "config_rows sys txn (c # cs) s =
     (case Config_ToProto sys c of
        None \<Rightarrow> Crash ''failed to decode config''
      | Some v \<Rightarrow>
          (case configVarId v of
             None \<Rightarrow> Crash ''unknown scope''
           | Some i \<Rightarrow>
               bind_o (configIndexSet sys txn i v s) (\<lambda>s txn. config_rows sys txn cs s)))"

definition configIndexInit ::
  "('m, 'd, 'p) configsys \<Rightarrow> 'm \<Rightarrow> ('m, 'd) cstate \<Rightarrow> ('m, 'd, 'm) cresult" where
  "configIndexInit sys txn s =
     (case cd_all (cdb sys) (cs_db s) of Inl e \<Rightarrow> Fail s e | Inr cs \<Rightarrow> config_rows sys txn cs s)"

section \<open>Reading variables\<close>

datatype config_ref =
    Ref_Basis "ref_basis option" | Ref_Project "ref_project option" | Ref_Target "ref_target option"

definition exact_key :: "config_ref \<Rightarrow> string \<Rightarrow> string option" where
  "exact_key ref pre =
     (case ref of
        Ref_Basis b \<Rightarrow> Option.bind b (\<lambda>b. Some (join_id [rb_ResourceId b, pre]))
      | Ref_Project p \<Rightarrow>
          Option.bind p (\<lambda>p. Option.bind (rp_Basis p) (\<lambda>b.
            Some (join_id [rb_ResourceId b, rp_ResourceId p, pre])))
      | Ref_Target t \<Rightarrow>
          Option.bind t (\<lambda>t. Option.bind (rt_Project t) (\<lambda>p. Option.bind (rp_Basis p) (\<lambda>b.
            Some (join_id [rb_ResourceId b, rp_ResourceId p, rt_ResourceId t, pre])))))"

text \<open>The row of an index record, as a message.\<close>

definition row_of_record ::
  "('m, 'd, 'p) configsys \<Rightarrow> configIndexRecord \<Rightarrow> ('m, 'd) cstate \<Rightarrow> ('m, 'd, configvar) cresult" where
  "row_of_record sys r s =
     (case cd_find (cdb sys) (cs_db s) (ir_Id r) of
        Inl e \<Rightarrow> Fail s e
      | Inr c \<Rightarrow>
          (case Config_ToProto sys c of None \<Rightarrow> Crash ''failed to decode config'' | Some v \<Rightarrow> Ret s v))"

fun rows_of ::
  "('m, 'd, 'p) configsys \<Rightarrow> configIndexRecord list \<Rightarrow> ('m, 'd) cstate \<Rightarrow> ('m, 'd, configvar list) cresult" where
  "rows_of sys [] s = Ret s []"
| "rows_of sys (r # rs) s =
     bind_o (row_of_record sys r s) (\<lambda>s v. bind_o (rows_of sys rs s) (\<lambda>s vs. Ret s (v # vs)))"

definition configGetExact ::
  "('m, 'd, 'p) configsys \<Rightarrow> config_ref \<Rightarrow> string \<Rightarrow> ('m, 'd) cstate \<Rightarrow> ('m, 'd, configvar list) cresult" where
  "configGetExact sys ref pre s =
     (case exact_key ref pre of
        None \<Rightarrow> Crash ''nil pointer dereference''
      | Some k \<Rightarrow>
          (case ci_prefix (cmem sys) (cs_mem s) k of Inl e \<Rightarrow> Fail s e | Inr rs \<Rightarrow> rows_of sys rs s))"

text \<open>The variables of a runner in two buckets: those for any runner and those for this one.\<close>

fun runner_buckets ::
  "('m, 'd, 'p) configsys \<Rightarrow> string option \<Rightarrow> configIndexRecord list \<Rightarrow> ('m, 'd) cstate \<Rightarrow>
   ('m, 'd, configvar list \<times> configvar list) cresult" where
  "runner_buckets sys req [] s = Ret s ([], [])"
| "runner_buckets sys req (r # rs) s =
     (case ir_RunnerRef r of
        None \<Rightarrow> Crash ''nil pointer dereference''
      | Some None \<Rightarrow> Fail s (OtherError ''config has unknown target type'')
      | Some (Some Ref_Runner_Any) \<Rightarrow>
          bind_o (row_of_record sys r s) (\<lambda>s v.
            bind_o (runner_buckets sys req rs s) (\<lambda>s (any, ids). Ret s (v # any, ids)))
      | Some (Some (Ref_Runner_Id i)) \<Rightarrow>
          (case req of
             None \<Rightarrow> Crash ''nil pointer dereference''
           | Some rid \<Rightarrow>
               if i \<noteq> rid then runner_buckets sys req rs s
               else bind_o (row_of_record sys r s) (\<lambda>s v.
                 bind_o (runner_buckets sys req rs s) (\<lambda>s (any, ids). Ret s (any, v # ids)))))"

definition configGetRunner ::
  "('m, 'd, 'p) configsys \<Rightarrow> string option \<Rightarrow> string \<Rightarrow> ('m, 'd) cstate \<Rightarrow> ('m, 'd, configvar list list) cresult" where
  "configGetRunner sys req pre s =
     (case ci_runner (cmem sys) (cs_mem s) pre of
        Inl e \<Rightarrow> Fail s e
      | Inr rs \<Rightarrow> bind_o (runner_buckets sys req rs s) (\<lambda>s (any, ids). Ret s [any, ids]))"

datatype get_scope =
    Get_Basis "ref_basis option" | Get_Project "ref_project option" | Get_Target "ref_target option"
  | Get_Runner "string option"

text \<open>The sets that a request merges, the widest scope first.\<close>

definition exacts ::
  "('m, 'd, 'p) configsys \<Rightarrow> config_ref list \<Rightarrow> string \<Rightarrow> ('m, 'd) cstate \<Rightarrow> ('m, 'd, configvar list list) cresult" where
  "exacts sys refs pre s =
     foldr (\<lambda>ref k s. bind_o (configGetExact sys ref pre s) (\<lambda>s m. bind_o (k s) (\<lambda>s ms. Ret s (m # ms))))
       refs (\<lambda>s. Ret s []) s"

definition merge_sets ::
  "('m, 'd, 'p) configsys \<Rightarrow> get_scope \<Rightarrow> string \<Rightarrow> ('m, 'd) cstate \<Rightarrow> ('m, 'd, configvar list list) cresult" where
  "merge_sets sys scope pre s =
     (case scope of
        Get_Basis b \<Rightarrow> exacts sys [Ref_Basis b] pre s
      | Get_Project None \<Rightarrow> Crash ''nil pointer dereference''
      | Get_Project (Some p) \<Rightarrow> exacts sys [Ref_Basis (rp_Basis p), Ref_Project (Some p)] pre s
      | Get_Target None \<Rightarrow> Crash ''nil pointer dereference''
      | Get_Target (Some t) \<Rightarrow>
          (case rt_Project t of
             None \<Rightarrow> Crash ''nil pointer dereference''
           | Some p \<Rightarrow> exacts sys [Ref_Basis (rp_Basis p), Ref_Project (Some p), Ref_Target (Some t)] pre s)
      | Get_Runner rid \<Rightarrow> configGetRunner sys rid pre s)"

text \<open>The merge by name, a later set overriding an earlier one; \<open>order\<close> is the order in which the map is
  walked. A request for a basis returns its one set as it is.\<close>

definition merge_names :: "configvar list list \<Rightarrow> (string \<times> configvar) list" where
  "merge_names sets = fold (\<lambda>v m. AList.update (v_Name v) v m) (concat sets) []"

definition configGetMerged ::
  "('m, 'd, 'p) configsys \<Rightarrow> (configvar list \<Rightarrow> configvar list) \<Rightarrow> get_scope option \<Rightarrow> string \<Rightarrow> ('m, 'd) cstate \<Rightarrow>
   ('m, 'd, configvar list) cresult" where
  "configGetMerged sys order scope pre s =
     (case scope of
        None \<Rightarrow> Fail s (OtherError ''unknown scope type provided'')
      | Some (Get_Basis b) \<Rightarrow> configGetExact sys (Ref_Basis b) pre s
      | Some sc \<Rightarrow>
          bind_o (merge_sets sys sc pre s) (\<lambda>s sets. Ret s (order (map snd (merge_names sets)))))"

definition ConfigGet ::
  "('m, 'd, 'p) configsys \<Rightarrow> (configvar list \<Rightarrow> configvar list) \<Rightarrow> get_scope option \<Rightarrow> string \<Rightarrow> ('m, 'd) cstate \<Rightarrow>
   ('m, 'd, configvar list) cresult" where
  "ConfigGet sys order scope pre s = configGetMerged sys order scope pre s"

section \<open>What the databases promise\<close>

text \<open>\<open>contents m\<close> is the index table by id. Deleting a record that is not there is an error. A row that was
  saved is found by its id, other rows stay, and the rows are all that can be found. A stored scope is
  read back.\<close>

definition config_lawful ::
  "('m, 'd, 'p) configsys \<Rightarrow> ('m \<Rightarrow> string \<Rightarrow> configIndexRecord option) \<Rightarrow> bool" where
  "config_lawful sys contents \<longleftrightarrow>
     (\<forall>m r m'. ci_insert (cmem sys) m r = Inr m' \<longrightarrow> contents m' = (contents m)(ir_Id r \<mapsto> r))
   \<and> (\<forall>m r m'. ci_delete (cmem sys) m r = Inr m' \<longrightarrow>
        contents m (ir_Id r) \<noteq> None \<and> contents m' = (contents m)(ir_Id r := None))
   \<and> (\<forall>m p rs. ci_prefix (cmem sys) m p = Inr rs \<longrightarrow>
        set rs = {r. \<exists>i. contents m i = Some r \<and> HasPrefix i p})
   \<and> (\<forall>d c d' i. cd_save (cdb sys) d c = Inr d' \<longrightarrow>
        cd_find (cdb sys) d' i = (if i = c_Cid c then Inr c else cd_find (cdb sys) d i))
   \<and> (\<forall>d i c. cd_find (cdb sys) d i = Inr c \<longrightarrow> c_Cid c = i)
   \<and> (\<forall>d cs. cd_all (cdb sys) d = Inr cs \<longrightarrow>
        distinct (map c_Cid cs) \<and> set cs = {c. cd_find (cdb sys) d (c_Cid c) = Inr c})
   \<and> (\<forall>sc p. sc_store (csc sys) sc = Inr p \<longrightarrow> sc_load (csc sys) p = Some (Some sc))"

lemma config_lawfulD:
  assumes "config_lawful sys contents"
  shows "ci_insert (cmem sys) m r = Inr m' \<Longrightarrow> contents m' = (contents m)(ir_Id r \<mapsto> r)"
    "ci_delete (cmem sys) m r = Inr m' \<Longrightarrow> contents m (ir_Id r) \<noteq> None"
    "ci_delete (cmem sys) m r = Inr m' \<Longrightarrow> contents m' = (contents m)(ir_Id r := None)"
    "ci_prefix (cmem sys) m k = Inr rs \<Longrightarrow> r \<in> set rs \<longleftrightarrow> (\<exists>i. contents m i = Some r \<and> HasPrefix i k)"
    "cd_save (cdb sys) d c = Inr d' \<Longrightarrow> cd_find (cdb sys) d' i = (if i = c_Cid c then Inr c else cd_find (cdb sys) d i)"
    "cd_find (cdb sys) d i = Inr c \<Longrightarrow> c_Cid c = i"
    "cd_all (cdb sys) d = Inr cs \<Longrightarrow> distinct (map c_Cid cs)"
    "cd_all (cdb sys) d = Inr cs \<Longrightarrow> c \<in> set cs \<longleftrightarrow> cd_find (cdb sys) d (c_Cid c) = Inr c"
    "sc_store (csc sys) sc = Inr p \<Longrightarrow> sc_load (csc sys) p = Some (Some sc)"
  using assms unfolding config_lawful_def by (blast | fastforce)+

lemma index_record_id: "index_record i v = Some r \<Longrightarrow> ir_Id r = i"
  by (auto simp: index_record_def Let_def split: option.splits var_scope.splits)

lemma configIndexSet_Ret:
  assumes "config_lawful sys contents" and "configIndexSet sys txn i v s = Ret s' txn'"
  shows "s' = s \<and> (\<exists>r. index_record i v = Some r \<and> ir_Id r = i
    \<and> contents txn' = (contents txn)(i := (if v_Value v = [] then None else Some r))
    \<and> (v_Value v = [] \<longrightarrow> contents txn i \<noteq> None))"
proof -
  from assms(2) obtain r where r: "index_record i v = Some r" by (auto simp: configIndexSet_def split: option.splits)
  from index_record_id[OF r] have i: "i = ir_Id r" ..
  show ?thesis
    using assms(2) r config_lawfulD(1,2,3)[OF assms(1)] unfolding i
    by (auto simp: configIndexSet_def split: sum.splits if_splits)
qed

text \<open>One variable set: the row and the index record.\<close>

lemma configSet_Ret:
  assumes L: "config_lawful sys contents" and run: "configSet sys txn v s = Ret s' txn'"
  obtains i r c where "configVarId v = Some i" and "index_record i v = Some r" and "ir_Id r = i"
    and "cs_mem s' = cs_mem s"
    and "contents txn' = (contents txn)(i := (if v_Value v = [] then None else Some r))"
    and "v_Value v = [] \<longrightarrow> contents txn i \<noteq> None"
    and "cd_find (cdb sys) (cs_db s') i = Inr c" and "c_Cid c = i"
    and "c_Name c = soft [] (v_Name v) (case cd_find (cdb sys) (cs_db s) i of Inl _ \<Rightarrow> [] | Inr c0 \<Rightarrow> c_Name c0)"
    and "c_Value c = soft [] (v_Value v) (case cd_find (cdb sys) (cs_db s) i of Inl _ \<Rightarrow> [] | Inr c0 \<Rightarrow> c_Value c0)"
    and "sc_load (csc sys) (c_Scope c) = Some (v_Scope v)"
    and "\<And>j. j \<noteq> i \<Longrightarrow> cd_find (cdb sys) (cs_db s') j = cd_find (cdb sys) (cs_db s) j"
proof -
  from run obtain i where i: "configVarId v = Some i" by (auto simp: configSet_def split: option.splits)
  then obtain sc where sc: "v_Scope v = Some sc" by (auto simp: configVarId_def split: option.splits)
  define c0 where "c0 = (case cd_find (cdb sys) (cs_db s) i of
      Inl _ \<Rightarrow> \<lparr>c_Cid = i, c_Name = [], c_Scope = sc_nil (csc sys), c_Value = []\<rparr> | Inr c \<Rightarrow> c)"
  have id0: "c_Cid c0 = i" using config_lawfulD(6)[OF L] by (auto simp: c0_def split: sum.split)
  from run i obtain c d where c: "softDecode_config sys v c0 = Inr c" and d: "cd_save (cdb sys) (cs_db s) c = Inr d"
    and w: "wrap_save (configIndexSet sys txn i v (s\<lparr>cs_db := d\<rparr>)) = Ret s' txn'"
    by (auto simp: configSet_def ConfigFromProto_def c0_def Let_def split: sum.splits if_splits)
  from w have w: "configIndexSet sys txn i v (s\<lparr>cs_db := d\<rparr>) = Ret s' txn'"
    by (cases "configIndexSet sys txn i v (s\<lparr>cs_db := d\<rparr>)") auto
  from c sc obtain p where p: "sc_store (csc sys) sc = Inr p" and
    ce: "c = c0\<lparr>c_Name := soft [] (v_Name v) (c_Name c0), c_Value := soft [] (v_Value v) (c_Value c0), c_Scope := p\<rparr>"
    by (auto simp: softDecode_config_def Let_def split: sum.splits)
  note x = configIndexSet_Ret[OF L w]
  have f: "cd_find (cdb sys) d j = (if j = i then Inr c else cd_find (cdb sys) (cs_db s) j)" for j
    using config_lawfulD(5)[OF L d, of j] by (simp add: ce id0)
  have n: "c_Name c0 = (case cd_find (cdb sys) (cs_db s) i of Inl _ \<Rightarrow> [] | Inr c0 \<Rightarrow> c_Name c0)"
    "c_Value c0 = (case cd_find (cdb sys) (cs_db s) i of Inl _ \<Rightarrow> [] | Inr c0 \<Rightarrow> c_Value c0)"
    by (simp_all add: c0_def split: sum.split)
  from x obtain r where r: "index_record i v = Some r" "ir_Id r = i"
    "contents txn' = (contents txn)(i := (if v_Value v = [] then None else Some r))"
    "v_Value v = [] \<longrightarrow> contents txn i \<noteq> None" by blast
  show thesis
    by (rule that[OF i r(1,2) _ r(3,4), of c]) (use x in \<open>simp_all add: f ce id0 sc n config_lawfulD(9)[OF L p]\<close>)
qed

lemma ConfigSet_one:
  "ConfigSet sys [v] s = Ret s' u \<longleftrightarrow> (\<exists>s1 txn. configSet sys (cs_mem s) v s = Ret s1 txn \<and> s' = s1\<lparr>cs_mem := txn\<rparr>)"
  by (auto simp: ConfigSet_def bind_o_Ret_iff)

lemma row_of_record_Ret:
  "row_of_record sys r s = Ret s' v \<longleftrightarrow>
     s' = s \<and> (\<exists>c. cd_find (cdb sys) (cs_db s) (ir_Id r) = Inr c \<and> Config_ToProto sys c = Some v)"
  by (auto simp: row_of_record_def split: sum.splits option.splits)

lemma rows_of_Ret:
  "rows_of sys rs s = Ret s' vs \<Longrightarrow>
     s' = s \<and> list_all2 (\<lambda>r v. row_of_record sys r s = Ret s v) rs vs"
proof (induction rs arbitrary: vs)
  case (Cons r rs)
  from Cons.prems obtain s1 v where v: "row_of_record sys r s = Ret s1 v"
    and k: "bind_o (rows_of sys rs s1) (\<lambda>s vs. Ret s (v # vs)) = Ret s' vs"
    by (auto simp: bind_o_Ret_iff)
  from v have "s1 = s" by (simp add: row_of_record_Ret)
  with k v Cons.IH show ?case by (auto simp: bind_o_Ret_iff)
qed simp

lemma configGetExact_Ret:
  assumes "configGetExact sys ref pre s = Ret s' vs" and "exact_key ref pre = Some k"
  obtains rs where "s' = s" and "ci_prefix (cmem sys) (cs_mem s) k = Inr rs"
    and "list_all2 (\<lambda>r v. row_of_record sys r s = Ret s v) rs vs"
  using assms by (auto simp: configGetExact_def split: sum.splits dest!: rows_of_Ret)

text \<open>Every row carries the id of the variable it holds.\<close>

definition rows_named :: "('m, 'd, 'p) configsys \<Rightarrow> 'd \<Rightarrow> bool" where
  "rows_named sys d \<longleftrightarrow>
     (\<forall>i c. cd_find (cdb sys) d i = Inr c \<longrightarrow> (\<exists>v. Config_ToProto sys c = Some v \<and> configVarId v = Some i))"

lemma configVarId_cong: "v_Name v = v_Name w \<Longrightarrow> v_Scope v = v_Scope w \<Longrightarrow> configVarId v = configVarId w"
  by (simp add: configVarId_def split: option.split var_scope.split runner_target.split)

lemma configSet_row:
  assumes "config_lawful sys contents" and "configSet sys txn v s = Ret s' txn'" and "v_Name v \<noteq> []"
    and "configVarId v = Some i"
  obtains c r where "cd_find (cdb sys) (cs_db s') i = Inr c"
    and "Config_ToProto sys c = Some (v\<lparr>v_Value := soft [] (v_Value v)
           (case cd_find (cdb sys) (cs_db s) i of Inl _ \<Rightarrow> [] | Inr c0 \<Rightarrow> c_Value c0)\<rparr>)"
    and "index_record i v = Some r" and "ir_Id r = i"
    and "contents txn' = (contents txn)(i := (if v_Value v = [] then None else Some r))"
    and "\<And>j. j \<noteq> i \<Longrightarrow> cd_find (cdb sys) (cs_db s') j = cd_find (cdb sys) (cs_db s) j"
    and "rows_named sys (cs_db s) \<Longrightarrow> rows_named sys (cs_db s')"
    and "v_Value v = [] \<Longrightarrow> contents txn i \<noteq> None"
proof -
  obtain r c where r: "index_record i v = Some r" "ir_Id r = i"
    "contents txn' = (contents txn)(i := (if v_Value v = [] then None else Some r))"
    "v_Value v = [] \<longrightarrow> contents txn i \<noteq> None"
    and c: "cd_find (cdb sys) (cs_db s') i = Inr c" "c_Name c = soft [] (v_Name v)
        (case cd_find (cdb sys) (cs_db s) i of Inl _ \<Rightarrow> [] | Inr c0 \<Rightarrow> c_Name c0)"
      "c_Value c = soft [] (v_Value v) (case cd_find (cdb sys) (cs_db s) i of Inl _ \<Rightarrow> [] | Inr c0 \<Rightarrow> c_Value c0)"
      "sc_load (csc sys) (c_Scope c) = Some (v_Scope v)"
    and o: "\<And>j. j \<noteq> i \<Longrightarrow> cd_find (cdb sys) (cs_db s') j = cd_find (cdb sys) (cs_db s) j"
    by (rule configSet_Ret[OF assms(1,2)]) (use assms(4) in auto)
  have p: "Config_ToProto sys c = Some (v\<lparr>v_Value := soft [] (v_Value v)
           (case cd_find (cdb sys) (cs_db s) i of Inl _ \<Rightarrow> [] | Inr c0 \<Rightarrow> c_Value c0)\<rparr>)"
    using c assms(3) by (simp add: Config_ToProto_def soft_def)
  moreover have "rows_named sys (cs_db s')" if "rows_named sys (cs_db s)"
    using that c(1) p o assms(4)
    by (auto simp: rows_named_def) (metis (mono_tags, lifting) Inr_inject configVarId_cong configvar.ext_inject
        configvar.surjective configvar.update_convs(2))
  ultimately show thesis using c r o by (auto intro: that)
qed

text \<open>The index built from all rows.\<close>

lemma config_rows_Ret:
  assumes "config_lawful sys contents" and "config_rows sys txn cs s = Ret s' txn'" and "distinct (map c_Cid cs)"
    and "\<And>c. c \<in> set cs \<Longrightarrow> \<exists>v. Config_ToProto sys c = Some v \<and> configVarId v = Some (c_Cid c)"
  shows "s' = s \<and> (\<forall>c \<in> set cs. \<forall>v. Config_ToProto sys c = Some v \<longrightarrow>
      (if v_Value v = [] then contents txn (c_Cid c) \<noteq> None
       else \<exists>r. contents txn' (c_Cid c) = Some r \<and> ir_Id r = c_Cid c))
    \<and> (\<forall>j. j \<notin> c_Cid ` set cs \<longrightarrow> contents txn' j = contents txn j)"
  using assms(2-4)
proof (induction cs arbitrary: txn)
  case (Cons c cs)
  from Cons.prems(3) obtain v where v: "Config_ToProto sys c = Some v" "configVarId v = Some (c_Cid c)" by auto
  from Cons.prems(1) v obtain s1 t where x: "configIndexSet sys txn (c_Cid c) v s = Ret s1 t"
    and k: "config_rows sys t cs s1 = Ret s' txn'" by (auto simp: bind_o_Ret_iff)
  note y = configIndexSet_Ret[OF assms(1) x]
  from y k have "config_rows sys t cs s = Ret s' txn'" by simp
  from Cons.IH[OF this] Cons.prems(2,3) have IH: "s' = s"
    "\<And>c v. c \<in> set cs \<Longrightarrow> Config_ToProto sys c = Some v \<Longrightarrow>
      (if v_Value v = [] then contents t (c_Cid c) \<noteq> None
       else \<exists>r. contents txn' (c_Cid c) = Some r \<and> ir_Id r = c_Cid c)"
    "\<And>j. j \<notin> c_Cid ` set cs \<Longrightarrow> contents txn' j = contents t j" by auto
  have n: "c_Cid c \<notin> c_Cid ` set cs" using Cons.prems(2) by auto
  have "if v_Value w = [] then contents txn (c_Cid d) \<noteq> None
       else \<exists>r. contents txn' (c_Cid d) = Some r \<and> ir_Id r = c_Cid d"
    if "d \<in> set (c # cs)" "Config_ToProto sys d = Some w" for d w
  proof (cases "d = c")
    case True
    with that v y IH(3)[OF n] show ?thesis by auto
  next
    case False
    with that have "d \<in> set cs" by simp
    moreover from this n have "c_Cid d \<noteq> c_Cid c" by (metis imageI)
    ultimately show ?thesis using IH(2)[OF _ that(2)] y by (auto split: if_splits)
  qed
  with IH(1,3) y show ?case by auto
qed simp

end
