(* ===== verification/ConfigClaims.thy ===== *)
theory ConfigClaims
  imports ConfigVars "HOL-Library.Multiset"
begin

text \<open>
  The properties of the configuration variables: which variable a merged request returns, where a
  variable that was set is found, and what remains of a variable that was unset.
\<close>

section \<open>Merging\<close>

lemma map_of_merge:
  fixes vs :: "configvar list"
  shows "map_of (fold (\<lambda>v m. AList.update (v_Name v) v m) vs m) n =
     (case find (\<lambda>w. v_Name w = n) (rev vs) of None \<Rightarrow> map_of m n | Some w \<Rightarrow> Some w)"
proof (induction vs arbitrary: m)
  case (Cons v vs)
  have "find P (xs @ [v]) = (case find P xs of None \<Rightarrow> if P v then Some v else None | Some w \<Rightarrow> Some w)"
    for P and xs :: "configvar list"
    by (induction xs) auto
  then show ?case by (simp add: Cons.IH AList.update_conv' split: option.split)
qed simp

lemma merge_keys:
  "distinct (map fst m) \<Longrightarrow> distinct (map fst (fold (\<lambda>v m. AList.update (v_Name v) v m) vs m))"
  by (induction vs arbitrary: m) (simp_all add: AList.distinct_update)

lemma merge_values:
  assumes "\<forall>(n, v) \<in> set m. v_Name v = n"
  shows "\<forall>(n, v) \<in> set (fold (\<lambda>v m. AList.update (v_Name v) v m) vs m). v_Name v = n"
  using assms
proof (induction vs arbitrary: m)
  case (Cons v vs)
  have "\<forall>(n, w) \<in> set (AList.update (v_Name v) v m). v_Name w = n"
    using Cons.prems by (induction m) auto
  then show ?case using Cons.IH by simp
qed simp

definition last_named :: "configvar list \<Rightarrow> string \<Rightarrow> configvar option" where
  "last_named vs n = find (\<lambda>w. v_Name w = n) (rev vs)"

lemma merge_names_spec:
  "distinct (map v_Name (map snd (merge_names sets)))
   \<and> (\<forall>v. v \<in> set (map snd (merge_names sets)) \<longleftrightarrow> last_named (concat sets) (v_Name v) = Some v)"
proof -
  let ?m = "merge_names sets"
  have d: "distinct (map fst ?m)" unfolding merge_names_def by (rule merge_keys) simp
  have n: "\<forall>(n, v) \<in> set ?m. v_Name v = n" unfolding merge_names_def by (rule merge_values) simp
  then have e: "map v_Name (map snd ?m) = map fst ?m" by (auto simp: map_eq_conv)
  have "v \<in> set (map snd ?m) \<longleftrightarrow> map_of ?m (v_Name v) = Some v" for v
    using n d by (force simp: map_of_eq_Some_iff)
  moreover have "map_of ?m n = last_named (concat sets) n" for n
    unfolding merge_names_def map_of_merge last_named_def by (simp split: option.split)
  ultimately show ?thesis using d unfolding e by simp
qed

lemma exacts_Ret:
  "exacts sys refs pre s = Ret s' sets \<Longrightarrow>
     s' = s \<and> list_all2 (\<lambda>ref m. configGetExact sys ref pre s = Ret s m) refs sets"
proof (induction refs arbitrary: sets)
  case Nil
  then show ?case by (simp add: exacts_def)
next
  case (Cons ref refs)
  from Cons.prems obtain s1 m where m: "configGetExact sys ref pre s = Ret s1 m"
    and k: "bind_o (exacts sys refs pre s1) (\<lambda>s ms. Ret s (m # ms)) = Ret s' sets"
    by (auto simp: exacts_def bind_o_Ret_iff)
  from m have "s1 = s" by (auto simp: configGetExact_def split: option.splits sum.splits dest: rows_of_Ret)
  with k m Cons.IH show ?case by (auto simp: bind_o_Ret_iff)
qed

section \<open>Keys\<close>

lemma join_id_simps [simp]:
  "join_id [a] = a" "join_id (a # b # cs) = a @ CHR ''/'' # join_id (b # cs)"
  by (simp_all add: join_id_def)

lemma HasPrefix_same [simp]: "HasPrefix (a @ s) (a @ t) = HasPrefix s t"
  by (auto simp: HasPrefix_iff)

text \<open>Parts without a slash: the first part of an id is the first part of the key.\<close>

lemma HasPrefix_part:
  assumes "CHR ''/'' \<notin> set a" and "CHR ''/'' \<notin> set b"
  shows "HasPrefix (a @ CHR ''/'' # s) (b @ CHR ''/'' # t) \<longleftrightarrow> a = b \<and> HasPrefix s t"
proof
  assume "HasPrefix (a @ CHR ''/'' # s) (b @ CHR ''/'' # t)"
  then obtain u where "a @ CHR ''/'' # s = b @ CHR ''/'' # (t @ u)" by (auto simp: HasPrefix_iff)
  then have "split2 CHR ''/'' (b @ CHR ''/'' # (t @ u)) = Some (a, s)"
    using split2_append[OF assms(1), of s] by simp
  then have "b = a \<and> t @ u = s" using split2_append[OF assms(2), of "t @ u"] by simp
  then show "a = b \<and> HasPrefix s t" by auto
qed auto

text \<open>A variable of a project or target and a lookup that is meant to find it.\<close>

fun finds :: "config_ref \<Rightarrow> string \<Rightarrow> configvar \<Rightarrow> bool" where
  "finds (Ref_Basis (Some b)) pre v =
     (case v_Scope v of
        Some (ConfigVar_Project (Some p)) \<Rightarrow> pre = [] \<and> map_option rb_ResourceId (rp_Basis p) = Some (rb_ResourceId b)
      | Some (ConfigVar_Target (Some t)) \<Rightarrow>
          pre = [] \<and> map_option rb_ResourceId (Option.bind (rt_Project t) rp_Basis) = Some (rb_ResourceId b)
      | _ \<Rightarrow> False)"
| "finds (Ref_Project (Some p)) pre v =
     (case v_Scope v of
        Some (ConfigVar_Project (Some q)) \<Rightarrow> q = p \<and> HasPrefix (v_Name v) pre
      | Some (ConfigVar_Target (Some t)) \<Rightarrow> pre = [] \<and> rt_Project t = Some p
      | _ \<Rightarrow> False)"
| "finds (Ref_Target (Some t)) pre v = (v_Scope v = Some (ConfigVar_Target (Some t)) \<and> HasPrefix (v_Name v) pre)"
| "finds _ pre v = False"

lemma finds_key:
  assumes "finds ref pre v" and "configVarId v = Some i" and "exact_key ref pre = Some k"
  shows "HasPrefix i k"
  using assms
  by (cases "(ref, pre, v)" rule: finds.cases)
    (auto simp: configVarId_def exact_key_def bind_eq_Some_conv split: option.splits var_scope.splits)

section \<open>An example store\<close>

text \<open>The index as a list of records, the rows as a list, scopes stored as they are. A scope is lost when the
  decoder of the second example reads it.\<close>

definition list_mem :: "configIndexRecord list configmem" where
  "list_mem =
     \<lparr>ci_insert = \<lambda>m r. Inr (r # filter (\<lambda>q. ir_Id q \<noteq> ir_Id r) m),
      ci_delete = \<lambda>m r. if find (\<lambda>q. ir_Id q = ir_Id r) m = None then Inl (OtherError ''not found'')
                        else Inr (filter (\<lambda>q. ir_Id q \<noteq> ir_Id r) m),
      ci_prefix = \<lambda>m k. Inr (filter (\<lambda>q. HasPrefix (ir_Id q) k \<and> find (\<lambda>p. ir_Id p = ir_Id q) m = Some q) m),
      ci_runner = \<lambda>m k. Inr (filter (\<lambda>q. ir_Runner q \<and> HasPrefix (ir_Name q) k) m)\<rparr>"

definition list_db :: "(var_scope option Config list, var_scope option) configdb" where
  "list_db =
     \<lparr>cd_find = \<lambda>d i. case find (\<lambda>c. c_Cid c = i) d of None \<Rightarrow> Inl RecordNotFound | Some c \<Rightarrow> Inr c,
      cd_save = \<lambda>d c. Inr (c # filter (\<lambda>q. c_Cid q \<noteq> c_Cid c) d),
      cd_all = \<lambda>d. if distinct (map c_Cid d) then Inr d else Inl (OtherError ''duplicate'')\<rparr>"

definition list_sys :: "(configIndexRecord list, var_scope option Config list, var_scope option) configsys" where
  "list_sys = \<lparr>cmem = list_mem, cdb = list_db,
     csc = \<lparr>sc_nil = None, sc_store = \<lambda>sc. Inr (Some sc), sc_load = Some\<rparr>\<rparr>"

definition listed :: "configIndexRecord list \<Rightarrow> string \<Rightarrow> configIndexRecord option" where
  "listed m i = find (\<lambda>r. ir_Id r = i) m"

definition fresh :: "(configIndexRecord list, var_scope option Config list) cstate" where
  "fresh = \<lparr>cs_mem = [], cs_db = []\<rparr>"

lemma find_removed:
  "find (\<lambda>r. f r = i) (filter (\<lambda>q. f q \<noteq> k) m) = (if i = k then None else find (\<lambda>r. f r = i) m)"
  by (induction m) (auto simp: find_None_iff)

lemma distinct_find: "distinct (map f m) \<Longrightarrow> find (\<lambda>r. f r = f c) m = Some c \<longleftrightarrow> c \<in> set m"
  by (induction m) (auto simp: find_Some_iff dest: sym)

lemma find_pred: "find P m = Some x \<Longrightarrow> P x \<and> x \<in> set m"
  by (induction m) (auto split: if_splits)

lemma find_row: "(case find P d of None \<Rightarrow> Inl e | Some c \<Rightarrow> Inr c) = Inr c \<longleftrightarrow> find P d = Some c"
  by (simp split: option.split)

lemma list_sys_lawful: "config_lawful list_sys listed"
  unfolding config_lawful_def
proof (intro conjI allI impI)
  fix m k rs
  assume "ci_prefix (cmem list_sys) m k = Inr rs"
  then have "set rs = {q \<in> set m. HasPrefix (ir_Id q) k \<and> listed m (ir_Id q) = Some q}"
    by (auto simp: list_sys_def list_mem_def listed_def)
  moreover have "listed m i = Some x \<Longrightarrow> i = ir_Id x \<and> x \<in> set m" for i x
    unfolding listed_def by (drule find_pred) simp
  ultimately show "set rs = {r. \<exists>i. listed m i = Some r \<and> HasPrefix i k}" by blast
qed (auto simp: list_sys_def list_mem_def list_db_def listed_def find_removed distinct_find find_row
      split: if_splits dest: find_pred)

definition the_basis :: ref_basis where "the_basis = \<lparr>rb_ResourceId = ''b1'', rb_Name = ''default''\<rparr>"
definition the_project :: ref_project where "the_project = \<lparr>rp_ResourceId = ''p1'', rp_Basis = Some the_basis\<rparr>"
definition a_target :: ref_target where "a_target = \<lparr>rt_ResourceId = ''t1'', rt_Project = Some the_project\<rparr>"

definition var_of :: "var_scope \<Rightarrow> string \<Rightarrow> string \<Rightarrow> configvar" where
  "var_of sc n x = \<lparr>v_Name = n, v_Value = x, v_Scope = Some sc\<rparr>"

definition after_sets :: "configvar list \<Rightarrow> (configIndexRecord list, var_scope option Config list) cstate" where
  "after_sets vs = left_by (ConfigSet list_sys vs fresh) fresh"

lemma fresh_named: "rows_named list_sys (cs_db fresh)"
  by (simp add: rows_named_def list_sys_def list_db_def fresh_def)

section \<open>Properties\<close>

text \<open>A merged request for a target returns one variable for every name: the last one in the lookups of the
  basis, the project and the target, in this order, whatever order the map is walked in.\<close>

theorem target_request_precedence:
  assumes "ConfigGet sys order (Some (Get_Target (Some t))) pre s = Ret s' vs"
    and "\<And>xs. mset (order xs) = mset xs"
  shows "\<exists>p lb lp lt. rt_Project t = Some p \<and> configGetExact sys (Ref_Basis (rp_Basis p)) pre s = Ret s lb
    \<and> configGetExact sys (Ref_Project (Some p)) pre s = Ret s lp
    \<and> configGetExact sys (Ref_Target (Some t)) pre s = Ret s lt
    \<and> distinct (map v_Name vs) \<and> (\<forall>v. v \<in> set vs \<longleftrightarrow> last_named (lb @ lp @ lt) (v_Name v) = Some v)"
proof -
  from assms(1) obtain s1 sets where sets: "merge_sets sys (Get_Target (Some t)) pre s = Ret s1 sets"
    and vs: "vs = order (map snd (merge_names sets))"
    by (auto simp: ConfigGet_def configGetMerged_def bind_o_Ret_iff)
  from sets obtain p where p: "rt_Project t = Some p"
    and e: "exacts sys [Ref_Basis (rp_Basis p), Ref_Project (Some p), Ref_Target (Some t)] pre s = Ret s1 sets"
    by (auto simp: merge_sets_def split: option.splits)
  from exacts_Ret[OF e] obtain lb lp lt where l: "sets = [lb, lp, lt]"
    "configGetExact sys (Ref_Basis (rp_Basis p)) pre s = Ret s lb"
    "configGetExact sys (Ref_Project (Some p)) pre s = Ret s lp"
    "configGetExact sys (Ref_Target (Some t)) pre s = Ret s lt"
    by (auto simp: list_all2_Cons1)
  have m: "mset vs = mset (map snd (merge_names sets))" unfolding vs by (rule assms(2))
  have "distinct (map v_Name vs) = distinct (map v_Name (map snd (merge_names sets)))"
    by (rule mset_eq_imp_distinct_iff) (simp only: mset_map m)
  then have "distinct (map v_Name vs)" using merge_names_spec[of sets] by simp
  moreover have "set vs = set (map snd (merge_names sets))" using m by (rule mset_eq_setD)
  ultimately show ?thesis using merge_names_spec[of sets] l p by auto
qed

lemma target_request_precedence_witness:
  "let s = after_sets [var_of (ConfigVar_Project (Some the_project)) ''color'' ''red'',
                       var_of (ConfigVar_Target (Some a_target)) ''color'' ''blue'']
   in \<exists>vs. ConfigGet list_sys rev (Some (Get_Target (Some a_target))) [] s = Ret s vs \<and> distinct (map v_Name vs)"
proof -
  let ?s = "after_sets [var_of (ConfigVar_Project (Some the_project)) ''color'' ''red'',
                       var_of (ConfigVar_Target (Some a_target)) ''color'' ''blue'']"
  have "case ConfigGet list_sys rev (Some (Get_Target (Some a_target))) [] ?s of Ret s vs \<Rightarrow> s = ?s | _ \<Rightarrow> False"
    by code_simp
  then obtain vs where v: "ConfigGet list_sys rev (Some (Get_Target (Some a_target))) [] ?s = Ret ?s vs"
    by (cases "ConfigGet list_sys rev (Some (Get_Target (Some a_target))) [] ?s") auto
  note P = target_request_precedence[OF v, OF mset_rev]
  from P v show ?thesis unfolding Let_def by blast
qed



text \<open>A basis variable is stored under the name of the basis but looked up by its resource id: on an empty
  index, when these differ, a variable that was set for a basis is not found for that basis, whatever
  the prefix.\<close>

theorem basis_variable_is_lost:
  assumes "config_lawful sys contents" and "contents (cs_mem s) = Map.empty"
    and "ConfigSet sys [v] s = Ret s1 u" and "v_Scope v = Some (ConfigVar_Basis (Some b))"
    and "v_Name v \<noteq> []" and "v_Value v \<noteq> []"
    and "CHR ''/'' \<notin> set (rb_Name b)" and "CHR ''/'' \<notin> set (rb_ResourceId b)" and "rb_Name b \<noteq> rb_ResourceId b"
    and "ConfigGet sys order (Some (Get_Basis (Some b))) pre s1 = Ret s2 vs"
  shows "vs = []"
proof -
  from assms(3) obtain s0 txn where w: "configSet sys (cs_mem s) v s = Ret s0 txn" and s1: "s1 = s0\<lparr>cs_mem := txn\<rparr>"
    by (auto simp: ConfigSet_one)
  have i: "configVarId v = Some (rb_Name b @ CHR ''/'' # v_Name v)" by (simp add: configVarId_def assms(4))
  obtain c r where c: "contents txn = (contents (cs_mem s))(rb_Name b @ CHR ''/'' # v_Name v := (if v_Value v = [] then None else Some r))"
    by (rule configSet_row[OF assms(1) w assms(5) i])
  have k: "exact_key (Ref_Basis (Some b)) pre = Some (rb_ResourceId b @ CHR ''/'' # pre)" by (simp add: exact_key_def)
  have g: "configGetExact sys (Ref_Basis (Some b)) pre s1 = Ret s2 vs"
    using assms(10) by (simp add: ConfigGet_def configGetMerged_def)
  obtain rs where rs: "ci_prefix (cmem sys) (cs_mem s1) (rb_ResourceId b @ CHR ''/'' # pre) = Inr rs"
    and l: "list_all2 (\<lambda>r v. row_of_record sys r s1 = Ret s1 v) rs vs"
    by (rule configGetExact_Ret[OF g k])
  have "\<not> HasPrefix (rb_Name b @ CHR ''/'' # v_Name v) (rb_ResourceId b @ CHR ''/'' # pre)"
    using HasPrefix_part[OF assms(7,8)] assms(9) by simp
  then have "\<forall>x. x \<notin> set rs"
    using config_lawfulD(4)[OF assms(1) rs] c assms(2) by (auto simp: s1 split: if_splits)
  then have "rs = []" by (cases rs) auto
  with l show ?thesis by simp
qed

lemma basis_variable_is_lost_witness:
  "let s = after_sets [var_of (ConfigVar_Basis (Some the_basis)) ''color'' ''red'']
   in ConfigGet list_sys rev (Some (Get_Basis (Some the_basis))) [] s = Ret s []"
proof -
  let ?v = "var_of (ConfigVar_Basis (Some the_basis)) ''color'' ''red''"
  have "case ConfigSet list_sys [?v] fresh of Ret s u \<Rightarrow> s = after_sets [?v] | _ \<Rightarrow> False" by code_simp
  then have s: "ConfigSet list_sys [?v] fresh = Ret (after_sets [?v]) ()"
    by (cases "ConfigSet list_sys [?v] fresh") auto
  have "case ConfigGet list_sys rev (Some (Get_Basis (Some the_basis))) [] (after_sets [?v]) of Ret s u \<Rightarrow> s = after_sets [?v] | _ \<Rightarrow> False"
    by code_simp
  then obtain vs where g: "ConfigGet list_sys rev (Some (Get_Basis (Some the_basis))) [] (after_sets [?v]) = Ret (after_sets [?v]) vs"
    by (cases "ConfigGet list_sys rev (Some (Get_Basis (Some the_basis))) [] (after_sets [?v])") auto
  have "vs = []"
    by (rule basis_variable_is_lost[OF list_sys_lawful _ s _ _ _ _ _ _ g])
      (simp_all add: var_of_def the_basis_def fresh_def listed_def fun_eq_iff)
  with g show ?thesis by simp
qed

text \<open>Unsetting a variable lasts until the next start: the empty value removes the variable from the index,
  but an unset field is not applied to the row, so the row keeps the old value; when the index is rebuilt
  from the rows, the variable is found again with the value it had.\<close>

theorem unset_variable_returns_after_restart:
  assumes "config_lawful sys contents" and "rows_named sys (cs_db s)"
    and "v_Name v \<noteq> []" and "v_Value v \<noteq> []" and "configVarId v = Some i"
    and "ConfigSet sys [v] s = Ret s1 u" and "ConfigSet sys [v\<lparr>v_Value := []\<rparr>] s1 = Ret s2 u'"
    and "contents m0 = Map.empty" and "configIndexInit sys m0 s2 = Ret s3 m3"
    and "exact_key ref pre = Some k" and "HasPrefix i k"
    and "configGetExact sys ref pre (s3\<lparr>cs_mem := m3\<rparr>) = Ret s4 vs"
  shows "contents (cs_mem s2) i = None \<and> v \<in> set vs"
proof -
  let ?v0 = "v\<lparr>v_Value := []\<rparr>"
  from assms(6) obtain t1 x1 where w1: "configSet sys (cs_mem s) v s = Ret t1 x1" and s1: "s1 = t1\<lparr>cs_mem := x1\<rparr>"
    by (auto simp: ConfigSet_one)
  obtain c1 where c1: "cd_find (cdb sys) (cs_db t1) i = Inr c1" "Config_ToProto sys c1 = Some v"
    and n1: "rows_named sys (cs_db t1)"
    by (rule configSet_row[OF assms(1) w1 assms(3,5)]) (use assms(2,4) in \<open>auto simp: soft_def\<close>)
  from assms(7) obtain t2 x2 where w2: "configSet sys (cs_mem s1) ?v0 s1 = Ret t2 x2" and s2: "s2 = t2\<lparr>cs_mem := x2\<rparr>"
    by (auto simp: ConfigSet_one)
  have i0: "configVarId ?v0 = Some i" using assms(5) configVarId_cong[of ?v0 v] by simp
  have cv: "c_Value c1 = v_Value v" using c1(2) by (auto simp: Config_ToProto_def)
  obtain c2 where c2: "cd_find (cdb sys) (cs_db t2) i = Inr c2" "Config_ToProto sys c2 = Some v"
    and n2: "rows_named sys (cs_db t2)" and e: "contents x2 i = None"
    by (rule configSet_row[OF assms(1) w2 _ i0]) (use assms(3) c1 n1 in \<open>auto simp: soft_def s1 cv\<close>)
  from assms(9) obtain cs where cs: "cd_all (cdb sys) (cs_db s2) = Inr cs" and r: "config_rows sys m0 cs s2 = Ret s3 m3"
    by (auto simp: configIndexInit_def split: sum.splits)
  note A = config_lawfulD(7,8)[OF assms(1) cs]
  have "config_rows sys m0 cs s2 = Ret s3 m3 \<Longrightarrow> s3 = s2 \<and> (\<exists>rec. contents m3 i = Some rec \<and> ir_Id rec = i)"
    using config_rows_Ret[OF assms(1) r A(1)] A(2) n2 c2 assms(4) config_lawfulD(6)[OF assms(1) c2(1)]
    by (fastforce simp: rows_named_def s2)
  with r obtain rec where rec: "contents m3 i = Some rec" "ir_Id rec = i" and s3: "s3 = s2" by blast
  obtain rs where rs: "ci_prefix (cmem sys) m3 k = Inr rs"
    and l: "list_all2 (\<lambda>r v. row_of_record sys r (s3\<lparr>cs_mem := m3\<rparr>) = Ret (s3\<lparr>cs_mem := m3\<rparr>) v) rs vs"
    by (rule configGetExact_Ret[OF assms(12,10)]) simp
  have "rec \<in> set rs" using config_lawfulD(4)[OF assms(1) rs] rec assms(11) by auto
  then obtain j where j: "j < length rs" "rs ! j = rec" by (auto simp: in_set_conv_nth)
  with l have "vs ! j \<in> set vs" "row_of_record sys rec (s3\<lparr>cs_mem := m3\<rparr>) = Ret (s3\<lparr>cs_mem := m3\<rparr>) (vs ! j)"
    by (auto simp: list_all2_conv_all_nth)
  moreover have "row_of_record sys rec (s3\<lparr>cs_mem := m3\<rparr>) = Ret (s3\<lparr>cs_mem := m3\<rparr>) v"
    using c2 rec by (simp add: row_of_record_Ret s3 s2)
  ultimately show ?thesis using e s2 by simp
qed

lemma unset_variable_returns_after_restart_witness:
  "let v = var_of (ConfigVar_Project (Some the_project)) ''color'' ''red'';
       s2 = left_by (ConfigSet list_sys [v\<lparr>v_Value := []\<rparr>] (after_sets [v])) (after_sets [v])
   in listed (cs_mem s2) ''b1/p1/color'' = None \<and> (\<exists>s4 vs m3. configIndexInit list_sys [] s2 = Ret s2 m3
     \<and> configGetExact list_sys (Ref_Project (Some the_project)) [] (s2\<lparr>cs_mem := m3\<rparr>) = Ret s4 vs \<and> v \<in> set vs)"
proof -
  let ?v = "var_of (ConfigVar_Project (Some the_project)) ''color'' ''red''"
  let ?s2 = "left_by (ConfigSet list_sys [?v\<lparr>v_Value := []\<rparr>] (after_sets [?v])) (after_sets [?v])"
  let ?ref = "Ref_Project (Some the_project)"
  have "case ConfigSet list_sys [?v] fresh of Ret s u \<Rightarrow> s = after_sets [?v] | _ \<Rightarrow> False" by code_simp
  then have s: "ConfigSet list_sys [?v] fresh = Ret (after_sets [?v]) ()"
    by (cases "ConfigSet list_sys [?v] fresh") auto
  have "case ConfigSet list_sys [?v\<lparr>v_Value := []\<rparr>] (after_sets [?v]) of Ret s u \<Rightarrow> s = ?s2 | _ \<Rightarrow> False" by code_simp
  then have s2: "ConfigSet list_sys [?v\<lparr>v_Value := []\<rparr>] (after_sets [?v]) = Ret ?s2 ()"
    by (cases "ConfigSet list_sys [?v\<lparr>v_Value := []\<rparr>] (after_sets [?v])") auto
  have "case configIndexInit list_sys [] ?s2 of Ret s m \<Rightarrow> s = ?s2 \<and> (case configGetExact list_sys ?ref [] (s\<lparr>cs_mem := m\<rparr>) of
      Ret s vs \<Rightarrow> True | _ \<Rightarrow> False) | _ \<Rightarrow> False" by code_simp
  then obtain m3 s4 vs where m3: "configIndexInit list_sys [] ?s2 = Ret ?s2 m3"
    and g: "configGetExact list_sys ?ref [] (?s2\<lparr>cs_mem := m3\<rparr>) = Ret s4 vs"
    by (auto split: outcome.splits)
  have h: "v_Name ?v \<noteq> []" "v_Value ?v \<noteq> []" "configVarId ?v = Some ''b1/p1/color''" "listed [] = Map.empty"
    "exact_key ?ref [] = Some ''b1/p1/''" "HasPrefix ''b1/p1/color'' ''b1/p1/''"
    by (simp_all add: var_of_def configVarId_def the_project_def the_basis_def listed_def fun_eq_iff exact_key_def)
  from unset_variable_returns_after_restart[OF list_sys_lawful fresh_named h(1-3) s s2 h(4) m3 h(5,6) g] m3 g
  show ?thesis unfolding Let_def by blast
qed

text \<open>A variable that is unset without ever having been set is refused, but leaves a row without value, and
  with this row the index can never be built again: the next start of the server fails.\<close>

theorem unset_unknown_variable_breaks_restart:
  assumes "config_lawful sys contents" and "rows_named sys (cs_db s)"
    and "v_Name v \<noteq> []" and "v_Value v = []" and "configVarId v = Some i"
    and "cd_find (cdb sys) (cs_db s) i = Inl e" and "is_not_found e" and "contents (cs_mem s) i = None"
    and "\<And>sc. \<exists>p. sc_store (csc sys) sc = Inr p" and "\<And>d c. \<exists>d'. cd_save (cdb sys) d c = Inr d'"
  shows "\<exists>s1 e1. ConfigSet sys [v] s = Fail s1 e1
    \<and> (\<forall>m0 s2 m. contents m0 = Map.empty \<longrightarrow> configIndexInit sys m0 s1 \<noteq> Ret s2 m)"
proof -
  from assms(5) obtain sc where sc: "v_Scope v = Some sc" by (auto simp: configVarId_def split: option.splits)
  obtain p where p: "sc_store (csc sys) sc = Inr p" using assms(9) by blast
  define c where "c = \<lparr>c_Cid = i, c_Name = v_Name v, c_Scope = p, c_Value = []\<rparr>"
  obtain d where d: "cd_save (cdb sys) (cs_db s) c = Inr d" using assms(10) by blast
  obtain r where r: "index_record i v = Some r" "ir_Id r = i"
    using assms(5) sc index_record_id[of i v]
    by (auto simp: configVarId_def index_record_def Let_def bind_eq_Some_conv split: var_scope.splits option.splits)
  have "\<exists>e'. ci_delete (cmem sys) (cs_mem s) r = Inl e'"
    using config_lawfulD(2)[OF assms(1), of "cs_mem s" r] r(2) assms(8)
    by (cases "ci_delete (cmem sys) (cs_mem s) r") auto
  then have f: "\<exists>e1. ConfigSet sys [v] s = Fail (s\<lparr>cs_db := d\<rparr>) e1"
    using assms(3-7) sc p d r
    by (auto simp: ConfigSet_def configSet_def ConfigFromProto_def softDecode_config_def soft_def c_def configIndexSet_def Let_def)
  have fd: "cd_find (cdb sys) d j = (if j = i then Inr c else cd_find (cdb sys) (cs_db s) j)" for j
    using config_lawfulD(5)[OF assms(1) d] by (simp add: c_def)
  have cp: "Config_ToProto sys c = Some v"
    using config_lawfulD(9)[OF assms(1) p] sc assms(4) by (simp add: Config_ToProto_def c_def)
  have named: "rows_named sys d"
    using assms(2,5) fd cp by (auto simp: rows_named_def)
  have "configIndexInit sys m0 (s\<lparr>cs_db := d\<rparr>) \<noteq> Ret s2 m" if "contents m0 = Map.empty" for m0 s2 m
  proof
    assume "configIndexInit sys m0 (s\<lparr>cs_db := d\<rparr>) = Ret s2 m"
    then obtain cs where cs: "cd_all (cdb sys) d = Inr cs" and run: "config_rows sys m0 cs (s\<lparr>cs_db := d\<rparr>) = Ret s2 m"
      by (auto simp: configIndexInit_def split: sum.splits)
    note A = config_lawfulD(7,8)[OF assms(1) cs]
    have "c \<in> set cs" using A(2)[of c] fd by (simp add: c_def)
    have "\<exists>w. Config_ToProto sys x = Some w \<and> configVarId w = Some (c_Cid x)" if "x \<in> set cs" for x
      using that A(2)[of x] named by (auto simp: rows_named_def)
    from config_rows_Ret[OF assms(1) run A(1) this] \<open>c \<in> set cs\<close> cp assms(4) that
    show False by auto
  qed
  with f show ?thesis by blast
qed

lemma unset_unknown_variable_breaks_restart_witness:
  "\<exists>s1 e1. ConfigSet list_sys [var_of (ConfigVar_Project (Some the_project)) ''color'' []] fresh = Fail s1 e1
    \<and> (\<forall>m. configIndexInit list_sys [] s1 \<noteq> Ret s1 m)"
proof -
  let ?v = "var_of (ConfigVar_Project (Some the_project)) ''color'' []"
  have "configVarId ?v = Some ''b1/p1/color''"
    by (simp add: var_of_def configVarId_def the_project_def the_basis_def)
  moreover have "v_Name ?v \<noteq> []" "v_Value ?v = []" by (simp_all add: var_of_def)
  moreover have "cd_find (cdb list_sys) (cs_db fresh) ''b1/p1/color'' = Inl RecordNotFound"
    "\<exists>p. sc_store (csc list_sys) sc = Inr p" "\<exists>d'. cd_save (cdb list_sys) d c = Inr d'"
    "listed (cs_mem fresh) ''b1/p1/color'' = None" "listed [] = Map.empty" for sc d c
    by (simp_all add: list_sys_def list_db_def fresh_def listed_def fun_eq_iff)
  ultimately show ?thesis
    using unset_unknown_variable_breaks_restart[OF list_sys_lawful fresh_named, of ?v "''b1/p1/color''" RecordNotFound]
    by (metis is_not_found_def err_chain.simps(2))
qed

end
