(* ===== verification/JobService.thy ===== *)
theory JobService
  imports JobAgree
begin

text \<open>
  \<open>internal/server/singleprocess/service_runner.go\<close> and \<open>service_job.go\<close>: the streams between the server,
  the runners and the clients. A stream handler is a function of what it receives: the messages of the
  other side, whether a send fails, and, for its event loop, what each \<open>select\<close> picks. It works on the job
  queue (\<open>Jobs\<close>) and on the output buffers of the jobs (\<open>LogBuffer\<close>).
\<close>

section \<open>Messages of a runner\<close>

datatype 'e runner_msg =
    MRequest string
  | MAck
  | MComplete "nat option"
  | MError "goerr option"
  | MHeartbeat
  | MTerminal "'e list"
  | MOther

text \<open>The capacities of the output buffers, \<open>chunkCount\<close> and \<open>chunkSize\<close>.\<close>

definition write_output ::
  "nat \<Rightarrow> 'e list \<Rightarrow> ('m, 'd, 'e) jstate \<Rightarrow> ('m, 'd, 'e, unit) jresult" where
  "write_output b es s =
     (if length (j_buffers s) \<le> b then Crash ''dangling pointer''
      else (case Write 32 164 (map Some es) (j_buffers s ! b) of
              None \<Rightarrow> Crash ''write does not return''
            | Some b' \<Rightarrow> Ret (s\<lparr>j_buffers := (j_buffers s)[b := b']\<rparr>) ()))"

text \<open>An error message whose status is OK is no error (\<open>None\<close>).\<close>

definition handleJobStreamRequest ::
  "('m, 'd, 'j) sys \<Rightarrow> job \<Rightarrow> 'e runner_msg \<Rightarrow> ('m, 'd, 'e) jstate \<Rightarrow> ('m, 'd, 'e, unit) jresult" where
  "handleJobStreamRequest sys job m s =
     (case m of
        MComplete result \<Rightarrow> JobComplete sys (p_id (job_pb job)) result None s
      | MError e \<Rightarrow> JobComplete sys (p_id (job_pb job)) None e s
      | MHeartbeat \<Rightarrow> JobHeartbeat sys (p_id (job_pb job)) s
      | MTerminal es \<Rightarrow>
          (case job_OutputBuffer job of None \<Rightarrow> Ret s () | Some b \<Rightarrow> write_output b es s)
      | _ \<Rightarrow> Ret s ())"

section \<open>The stream of a runner\<close>

text \<open>Whether a runner takes only jobs by id is a column of its row; \<open>by_id\<close> reads it.\<close>

definition RunnerById ::
  "('m, 'd, 'j) sys \<Rightarrow> (string \<Rightarrow> bool) \<Rightarrow> string \<Rightarrow> ('m, 'd, 'e) jstate \<Rightarrow> ('m, 'd, 'e, runner) jresult" where
  "RunnerById sys by_id i s =
     bind_o (wrap_err (lookupErrorToStatus ''runner'') (RunnerFromProto sys \<lparr>rn_Id = i, rn_ByIdOnly = False\<rparr> s))
       (\<lambda>s rid. Ret s \<lparr>rn_Id = rid, rn_ByIdOnly = by_id rid\<rparr>)"

definition open_stream ::
  "('m, 'd, 'j) sys \<Rightarrow> (string \<Rightarrow> bool) \<Rightarrow> goerr + 'e runner_msg \<Rightarrow> ('m, 'd, 'e) jstate \<Rightarrow>
   ('m, 'd, 'e, runner) jresult" where
  "open_stream sys by_id recv s =
     (case recv of
        Inl e \<Rightarrow> Fail s e
      | Inr (MRequest i) \<Rightarrow> RunnerById sys by_id i s
      | Inr _ \<Rightarrow> Fail s (Status FailedPrecondition (OtherError ''first message must be a Request event'')))"

text \<open>The repeated attempts to get a job. Between two attempts the rest of the server runs the operations of
  the next list; when there is no next list the context is done.\<close>

fun assign_retry ::
  "('m, 'd, 'j) sys \<Rightarrow> (int \<Rightarrow> goerr option) \<Rightarrow> runner \<Rightarrow> job_op list list \<Rightarrow> ('m, 'd, 'e) jstate \<Rightarrow>
   ('m, 'd, 'e, job) jresult" where
  "assign_retry sys valid r [] s =
     bind_o (JobAssignForRunner sys r s) (\<lambda>s a.
       case a of Assigned j \<Rightarrow> Ret s j | _ \<Rightarrow> Fail s (OtherError ''context canceled''))"
| "assign_retry sys valid r (ops # rest) s =
     bind_o (JobAssignForRunner sys r s) (\<lambda>s a.
       case a of Assigned j \<Rightarrow> Ret s j | _ \<Rightarrow> assign_retry sys valid r rest (fold (job_step sys valid) ops s))"

text \<open>What the send of the assignment and the answer of the runner amount to.\<close>

definition ack_of :: "goerr option \<Rightarrow> goerr + 'e runner_msg \<Rightarrow> bool \<times> goerr option" where
  "ack_of send recv =
     (case send of
        Some e \<Rightarrow> (False, Some e)
      | None \<Rightarrow>
          (case recv of
             Inl e \<Rightarrow> (False, Some e)
           | Inr MAck \<Rightarrow> (True, None)
           | Inr (MError _) \<Rightarrow> (False, None)
           | Inr _ \<Rightarrow> (False, Some (Status FailedPrecondition (OtherError ''ack expected'')))))"

text \<open>The acknowledgement is recorded whatever it is; the stream goes on (\<open>Some\<close>) only with an accepted job.\<close>

definition ack_phase ::
  "('m, 'd, 'j) sys \<Rightarrow> string \<Rightarrow> goerr option \<Rightarrow> goerr + 'e runner_msg \<Rightarrow> ('m, 'd, 'e) jstate \<Rightarrow>
   ('m, 'd, 'e, job option) jresult" where
  "ack_phase sys i send recv s =
     (case ack_of send recv of
        (ack, err) \<Rightarrow>
          (case JobAck sys i ack s of
             Crash m \<Rightarrow> Crash m
           | Fail s ackerr \<Rightarrow> Fail s (case err of None \<Rightarrow> ackerr | Some e \<Rightarrow> e)
           | Ret s job \<Rightarrow>
               (case err of
                  Some e \<Rightarrow> Fail s e
                | None \<Rightarrow> Ret s (if ack then Some job else None))))"

text \<open>The event loop. Each pick is what one \<open>select\<close> takes: the context is done and some messages are still
  in the channel, an error of a goroutine, a message of the runner, or a new version of the job (with
  the outcome of a send). Every version of a job is a new message with new timestamps, so the pointer
  comparisons with the last one never find them equal.\<close>

datatype 'e pick =
    PickDone "'e runner_msg list"
  | PickErr goerr
  | PickEvent "'e runner_msg"
  | PickJob job "goerr option"

fun drain_events ::
  "('m, 'd, 'j) sys \<Rightarrow> job \<Rightarrow> 'e runner_msg list \<Rightarrow> ('m, 'd, 'e) jstate \<Rightarrow> ('m, 'd, 'e, unit) jresult" where
  "drain_events sys job [] s = Ret s ()"
| "drain_events sys job (m # ms) s =
     bind_o (handleJobStreamRequest sys job m s) (\<lambda>s _. drain_events sys job ms s)"

datatype stream_out = SAssignment jobpb | SCancel bool

text \<open>The result is what was sent to the runner; a loop that still waits has run out of picks.\<close>

fun stream_loop ::
  "('m, 'd, 'j) sys \<Rightarrow> job \<Rightarrow> 'e pick list \<Rightarrow> ('m, 'd, 'e) jstate \<Rightarrow> ('m, 'd, 'e, stream_out list) jresult" where
  "stream_loop sys job [] s = Ret s []"
| "stream_loop sys job (PickDone ms # ps) s = bind_o (drain_events sys job ms s) (\<lambda>s _. Ret s [])"
| "stream_loop sys job (PickErr e # ps) s = Fail s e"
| "stream_loop sys job (PickEvent m # ps) s =
     bind_o (handleJobStreamRequest sys job m s) (\<lambda>s _. stream_loop sys job ps s)"
| "stream_loop sys job (PickJob j send # ps) s =
     (if p_cancelTime (job_pb j) = None then stream_loop sys job ps s
      else
        (case send of
           Some e \<Rightarrow> Fail s e
         | None \<Rightarrow>
             if p_state (job_pb j) = Job_ERROR then Ret s [SCancel True]
             else bind_o (stream_loop sys job ps s) (\<lambda>s out. Ret s (SCancel False # out))))"

record 'e stream_inputs =
  si_open :: "goerr + 'e runner_msg"
  si_others :: "job_op list list"
  si_send :: "goerr option"
  si_ack :: "goerr + 'e runner_msg"
  si_picks :: "'e pick list"

definition RunnerJobStream ::
  "('m, 'd, 'j) sys \<Rightarrow> (int \<Rightarrow> goerr option) \<Rightarrow> (string \<Rightarrow> bool) \<Rightarrow> 'e stream_inputs \<Rightarrow> ('m, 'd, 'e) jstate \<Rightarrow>
   ('m, 'd, 'e, stream_out list) jresult" where
  "RunnerJobStream sys valid by_id si s =
     bind_o (open_stream sys by_id (si_open si) s) (\<lambda>s r.
       bind_o (assign_retry sys valid r (si_others si) s) (\<lambda>s job.
         bind_o (ack_phase sys (p_id (job_pb job)) (si_send si) (si_ack si) s) (\<lambda>s acked.
           case acked of
             None \<Rightarrow> Ret s []
           | Some job' \<Rightarrow>
               bind_o (stream_loop sys job' (si_picks si) s) (\<lambda>s out. Ret s (SAssignment (job_pb job) # out)))))"

section \<open>Requests of clients\<close>

definition CancelJob :: "('m, 'd, 'j) sys \<Rightarrow> string \<Rightarrow> ('m, 'd, 'e) jstate \<Rightarrow> ('m, 'd, 'e, unit) jresult" where
  "CancelJob sys i s = JobCancel sys i False s"

definition GetJob :: "('m, 'd, 'j) sys \<Rightarrow> string \<Rightarrow> ('m, 'd, 'e) jstate \<Rightarrow> ('m, 'd, 'e, jobpb) jresult" where
  "GetJob sys i s =
     bind_o (JobById sys i s) (\<lambda>s j.
       case j of None \<Rightarrow> Fail s (Status NotFound (OtherError ''job not found'')) | Some j \<Rightarrow> Ret s (job_pb j))"

definition XListJobs :: "('m, 'd, 'j) sys \<Rightarrow> ('m, 'd, 'e) jstate \<Rightarrow> ('m, 'd, 'e, jobpb list) jresult" where
  "XListJobs sys s = JobList sys s"

definition maximumJobsIndexed :: nat where
  "maximumJobsIndexed = 50"

definition PruneOldJobs :: "('m, 'd, 'j) sys \<Rightarrow> ('m, 'd, 'e) jstate \<Rightarrow> ('m, 'd, 'e, unit) jresult" where
  "PruneOldJobs sys s = bind_o (JobsDBPruneOld sys maximumJobsIndexed s) (\<lambda>s _. Ret s ())"

text \<open>\<open>fresh_id\<close> is the result of the id generator and \<open>parse\<close> is \<open>time.ParseDuration\<close>.\<close>

definition QueueJob ::
  "('m, 'd, 'j) sys \<Rightarrow> goerr + string \<Rightarrow> (string \<Rightarrow> goerr + int) \<Rightarrow> jobpb option \<Rightarrow> string \<Rightarrow>
   ('m, 'd, 'e) jstate \<Rightarrow> ('m, 'd, 'e, string) jresult" where
  "QueueJob sys fresh_id parse job expiresIn s =
     (case job of
        None \<Rightarrow> Fail s (Status FailedPrecondition (OtherError ''job must be set''))
      | Some p \<Rightarrow>
          if p_id p \<noteq> [] then Fail s (Status Internal (OtherError ''job ID must not be set''))
          else
            (case fresh_id of
               Inl e \<Rightarrow> Fail s (Status Internal e)
             | Inr i \<Rightarrow>
                 (case (if expiresIn = [] then Inr None
                        else map_sum id (\<lambda>dur. Some (j_now s + dur)) (parse expiresIn)) of
                    Inl e \<Rightarrow> Fail s (Status FailedPrecondition e)
                  | Inr expire \<Rightarrow>
                      bind_o (JobCreate sys (p\<lparr>p_id := i, p_expireTime := expire\<rparr>) s) (\<lambda>s _. Ret s i))))"

text \<open>The answer: whether the job is valid, with the error, and whether it is assignable.\<close>

definition ValidateJob ::
  "('m, 'd, 'j) sys \<Rightarrow> jobpb option \<Rightarrow> ('m, 'd, 'e) jstate \<Rightarrow> ('m, 'd, 'e, goerr option \<times> bool) jresult" where
  "ValidateJob sys job s =
     (case JobValidate sys job s of
        Crash m \<Rightarrow> Crash m
      | Fail s e \<Rightarrow> Ret s (Some (Status FailedPrecondition e), False)
      | Ret s _ \<Rightarrow>
          (case job of
             None \<Rightarrow> Crash ''nil pointer dereference''
           | Some p \<Rightarrow> bind_o (JobIsAssignable sys p s) (\<lambda>s b. Ret s (None, b))))"

section \<open>The stream of a client\<close>

text \<open>\<open>readJobLogBatch\<close>: up to 64 entries; \<open>None\<close> when there is nothing, \<open>Blocked\<close> when it has to wait. An entry
  that is not a terminal event is a failed type assertion.\<close>

definition readJobLogBatch :: "nat \<Rightarrow> bool \<Rightarrow> 'e buffer \<Rightarrow> ('e, 'e list option read_result) bresult" where
  "readJobLogBatch r block b =
     bind_o (Read r 64 block b) (\<lambda>b res.
       case res of
         Blocked \<Rightarrow> Ret b Blocked
       | Value xs \<Rightarrow>
           if xs = [] then Ret b (Value None)
           else if None \<in> set xs then Crash ''interface conversion''
           else Ret b (Value (Some (map the xs))))"

datatype 'e client_out =
    COpen
  | CState Job_State Job_State bool jobpb
  | CTerminal "'e list" bool
  | CComplete "goerr option" "nat option"

text \<open>The loop over the buffered lines; it ends with the first empty batch. The number of batches is bounded
  by \<open>fuel\<close>: when it runs out the result is \<open>None\<close>.\<close>

fun buffered_output ::
  "nat \<Rightarrow> nat \<Rightarrow> (nat \<Rightarrow> goerr option) \<Rightarrow> 'e buffer \<Rightarrow> ('e buffer, goerr, 'e client_out list) outcome option" where
  "buffered_output 0 r send b = None"
| "buffered_output (Suc n) r send b =
     (case readJobLogBatch r False b of
        Crash m \<Rightarrow> Some (Crash m)
      | Fail _ _ \<Rightarrow> Some (Crash ''unreachable'')
      | Ret b' Blocked \<Rightarrow> None
      | Ret b' (Value None) \<Rightarrow> Some (Ret b' [])
      | Ret b' (Value (Some es)) \<Rightarrow>
          (case send n of
             Some e \<Rightarrow> Some (Fail b' e)
           | None \<Rightarrow>
               map_option (\<lambda>res. bind_o res (\<lambda>b out. Ret b (CTerminal es True # out)))
                 (buffered_output n r send b')))"

text \<open>\<open>getJobStreamOutputInit\<close> up to the start of the reading goroutine: a reader of the whole window and the
  lines it holds. The fuel is one more than the entries there can be.\<close>

definition getJobStreamOutputInit ::
  "(nat \<Rightarrow> goerr option) \<Rightarrow> 'e buffer \<Rightarrow> ('e buffer, goerr, 'e client_out list) outcome option" where
  "getJobStreamOutputInit send b =
     (case Buffer_Reader (-1) b of
        Ret b' r \<Rightarrow> buffered_output (Suc (length (hist b))) r send b'
      | _ \<Rightarrow> Some (Crash ''unreachable''))"

text \<open>The loop: what each \<open>select\<close> picks. A job comes with the lines that its buffer holds when it is opened.
  \<open>Some (n, e)\<close>: the send after \<open>n\<close> messages of this round fails with \<open>e\<close>.\<close>

datatype 'e client_pick =
    CPickDone
  | CPickErr goerr
  | CPickJob job "(nat \<times> goerr) option" "'e client_out list"
  | CPickEvents "'e list" "(nat \<times> goerr) option"

record client_loop =
  cl_last :: Job_State
  cl_cancel :: bool
  cl_output :: bool

datatype client_end = CReturned | CError goerr | CWaiting

definition job_changed :: "client_loop \<Rightarrow> jobpb \<Rightarrow> bool" where
  "job_changed l p \<longleftrightarrow> cl_last l \<noteq> p_state p \<or> cl_cancel l \<noteq> (p_cancelTime p \<noteq> None)"

definition job_messages :: "client_loop \<Rightarrow> job \<Rightarrow> 'e client_out list \<Rightarrow> 'e client_out list" where
  "job_messages l j lines =
     (if job_changed l (job_pb j)
      then [CState (cl_last l) (p_state (job_pb j)) (p_cancelTime (job_pb j) \<noteq> None) (job_pb j)] else [])
     @ (if \<not> cl_output l \<and> job_OutputBuffer j \<noteq> None then lines else [])
     @ (if jobIsCompleted (p_state (job_pb j))
        then [CComplete (p_error (job_pb j)) (p_result (job_pb j))] else [])"

definition after_job :: "client_loop \<Rightarrow> job \<Rightarrow> client_loop" where
  "after_job l j =
     (if job_changed l (job_pb j)
      then l\<lparr>cl_last := p_state (job_pb j), cl_cancel := (p_cancelTime (job_pb j) \<noteq> None)\<rparr> else l)
     \<lparr>cl_output := (cl_output l \<or> job_OutputBuffer j \<noteq> None)\<rparr>"

definition send_all ::
  "(nat \<times> goerr) option \<Rightarrow> 'e client_out list \<Rightarrow> 'e client_out list \<times> client_end \<Rightarrow> 'e client_out list \<times> client_end" where
  "send_all fails msgs rest =
     (case fails of
        Some (n, e) \<Rightarrow> if n < length msgs then (take n msgs, CError e) else (msgs @ fst rest, snd rest)
      | None \<Rightarrow> (msgs @ fst rest, snd rest))"

fun client_stream :: "client_loop \<Rightarrow> 'e client_pick list \<Rightarrow> 'e client_out list \<times> client_end" where
  "client_stream l [] = ([], CWaiting)"
| "client_stream l (CPickDone # ps) = ([], CReturned)"
| "client_stream l (CPickErr e # ps) = ([], CError e)"
| "client_stream l (CPickEvents es fails # ps) =
     (if \<not> cl_output l then client_stream l ps
      else send_all fails [CTerminal es False] (client_stream l ps))"
| "client_stream l (CPickJob j fails lines # ps) =
     send_all fails (job_messages l j lines)
       (if jobIsCompleted (p_state (job_pb j)) then ([], CReturned) else client_stream (after_job l j) ps)"

definition GetJobStream ::
  "('m, 'd, 'j) sys \<Rightarrow> string \<Rightarrow> goerr option \<Rightarrow> 'e client_pick list \<Rightarrow> ('m, 'd, 'e) jstate \<Rightarrow>
   ('m, 'd, 'e, 'e client_out list \<times> client_end) jresult" where
  "GetJobStream sys i send ps s =
     bind_o (JobById sys i s) (\<lambda>s j.
       case j of
         None \<Rightarrow> Fail s (Status NotFound (OtherError ''job not found''))
       | Some _ \<Rightarrow>
           (case send of
              Some e \<Rightarrow> Fail s e
            | None \<Rightarrow>
                (case client_stream \<lparr>cl_last = Job_UNKNOWN, cl_cancel = False, cl_output = False\<rparr> ps of
                   (out, r) \<Rightarrow> Ret s (COpen # out, r))))"

end
