(* ===== verification/ServiceClaims.thy ===== *)
theory ServiceClaims
  imports JobService JobClaims
begin

text \<open>
  The properties of the streams: what a runner's stream can do to the job queue, when a job is taken as
  accepted, where the output of a runner goes, and what a client is told.
\<close>

section \<open>A runner's stream is a run of the queue\<close>

lemma first_candidate_reads: "keeps ((=) s) (first_candidate sys txn fits as s)"
  by (induction as) (auto simp: jobIsBlocked_False)

lemma jobCandidate_reads [reads]:
  "keeps ((=) s) (jobCandidateById sys txn rid s)" "keeps ((=) s) (jobCandidateAny sys txn rid s)"
  by (auto simp: jobCandidateById_def jobCandidateAny_def lift_def first_candidate_reads split: sum.split)

lemma bind_same: "keeps ((=) s) r \<Longrightarrow> (\<And>a. keeps ((=) s) (f s a)) \<Longrightarrow> keeps ((=) s) (bind_o r f)"
  by (cases r) auto

lemma assign_search_reads [reads]: "keeps ((=) s) (assign_search sys r s)"
  unfolding assign_search_def
  by (intro bind_same wrap_reads RunnerFromProto_reads jobCandidate_reads)
    (auto intro: jobCandidate_reads)

lemma JobAssignForRunner_step: "keeps (heap_step s) (JobAssignForRunner sys r s)"
  unfolding JobAssignForRunner_def
  by (rule bind_reads[OF assign_search_reads])
    (auto simp: jobs.R_refl intro!: jobs.keeps_bind[OF assign_commit_step])

lemma write_output_step: "keeps (heap_step s) (write_output b es s)"
  by (auto simp: write_output_def intro: heap_step_same split: option.split)

lemma handle_step: "keeps (heap_step s) (handleJobStreamRequest sys job m s)"
  unfolding handleJobStreamRequest_def
  by (auto simp: JobComplete_step JobHeartbeat_step write_output_step jobs.R_refl
      split: runner_msg.split option.split)

lemma drain_step: "keeps (heap_step s) (drain_events sys job ms s)"
proof (induction ms arbitrary: s)
  case (Cons m ms)
  then show ?case by (auto intro!: jobs.keeps_bind[OF handle_step])
qed (simp add: jobs.R_refl)

lemma stream_loop_step: "keeps (heap_step s) (stream_loop sys job ps s)"
proof (induction ps arbitrary: s)
  case (Cons p ps)
  then show ?case
    by (cases p) (auto simp: jobs.R_refl split: option.split
        intro!: jobs.keeps_bind[OF handle_step] jobs.keeps_bind[OF drain_step] jobs.keeps_bind[OF Cons.IH])
qed (simp add: jobs.R_refl)

lemma ack_phase_step: "keeps (heap_step s) (ack_phase sys i send recv s)"
  using JobAck_step[of s sys i "fst (ack_of send recv)"]
  by (cases "ack_of send recv"; cases "JobAck sys i (fst (ack_of send recv)) s")
    (auto simp: ack_phase_def split: option.split)

lemma assign_retry_step:
  fixes s :: "('m, 'd, 'e) jstate"
  shows "keeps (heap_step s) (assign_retry sys valid r others s)"
proof (induction others arbitrary: s)
  case Nil
  show ?case
    by (auto intro!: jobs.keeps_bind[OF JobAssignForRunner_step] simp: jobs.R_refl split: attempt.split)
next
  case (Cons ops rest)
  have "keeps (heap_step t) (assign_retry sys valid r rest (fold (job_step sys valid) ops t))" for t :: "('m, 'd, 'e) jstate"
    by (rule keeps_mono[OF Cons.IH]) (rule jobs.R_trans[OF job_queue.run_R])
  then show ?case
    by (auto intro!: jobs.keeps_bind[OF JobAssignForRunner_step] simp: jobs.R_refl split: attempt.split)
qed

lemma open_stream_reads: "keeps ((=) s) (open_stream sys by_id recv s)"
  by (auto simp: open_stream_def RunnerById_def split: sum.split runner_msg.split
      intro!: bind_same wrap_reads RunnerFromProto_reads)

lemma RunnerJobStream_step: "keeps (heap_step s) (RunnerJobStream sys valid by_id si s)"
  unfolding RunnerJobStream_def
  by (rule bind_reads[OF open_stream_reads])
    (auto intro!: jobs.keeps_bind[OF assign_retry_step] jobs.keeps_bind[OF ack_phase_step]
      jobs.keeps_bind[OF stream_loop_step] simp: jobs.R_refl split: option.split)

section \<open>Output\<close>

lemma jobReadAndUpdate_buffers:
  assumes "jobReadAndUpdate sys i f s = Ret s1 q" and "\<And>p. j_buffers (snd (f p s)) = j_buffers s"
  shows "j_buffers s1 = j_buffers s"
proof -
  obtain p where "save_row sys (fst (f p s)) (snd (f p s)) = Ret s1 q"
    by (rule jobReadAndUpdate_Ret[OF assms(1)])
  then obtain d where "s1 = (snd (f p s))\<lparr>j_db := d\<rparr>" by (rule save_row_Ret) simp
  with assms(2)[of p] show ?thesis by simp
qed

lemma frame_buffers [simp]:
  "j_buffers (upd_job a g s) = j_buffers s" "j_buffers (End a s) = j_buffers s"
  "j_buffers (commit txn s) = j_buffers s"
  by (simp_all add: upd_job_def End_def Timer_Stop_def commit_def split: option.split)

lemma JobComplete_buffers:
  assumes "JobComplete sys i result cerr s = Ret s' u"
  shows "j_buffers s' = j_buffers s"
proof -
  obtain a s1 p txn where u: "jobReadAndUpdate sys (x_Id (the_job a s)) (complete_update a result cerr) s = Ret s1 p"
    and s': "s' = commit txn (End a s1)"
    by (rule JobComplete_Ret[OF assms])
  have "j_buffers s1 = j_buffers s"
    by (rule jobReadAndUpdate_buffers[OF u]) (simp add: complete_update_def Let_def split: option.split)
  with s' show ?thesis by simp
qed

lemma JobHeartbeat_buffers: "JobHeartbeat sys i s = Ret s' u \<Longrightarrow> j_buffers s' = j_buffers s"
proof -
  assume run: "JobHeartbeat sys i s = Ret s' u"
  then obtain t where h: "jobHeartbeat sys (j_mem s) i s = Ret t ()" and s': "s' = commit (j_mem s) t"
    by (auto simp: JobHeartbeat_def write_txn_Ret bind_o_Ret_iff)
  show ?thesis
    using h unfolding jobHeartbeat_def s'
    by (auto simp: Timer_Reset_def elim!: bind_reads_Ret[OF First_reads] split: option.splits if_splits)
qed

text \<open>The output that the messages of a runner hold, and the output that a loop takes.\<close>

fun lines_of :: "'e runner_msg \<Rightarrow> 'e list" where
  "lines_of (MTerminal es) = es"
| "lines_of _ = []"

fun fed :: "'e pick list \<Rightarrow> 'e list" where
  "fed [] = []"
| "fed (PickDone ms # ps) = concat (map lines_of ms)"
| "fed (PickErr e # ps) = []"
| "fed (PickEvent m # ps) = lines_of m @ fed ps"
| "fed (PickJob j send # ps) =
     (if p_cancelTime (job_pb j) \<noteq> None \<and> p_state (job_pb j) = Job_ERROR then [] else fed ps)"

definition buffer_has :: "nat \<Rightarrow> 'e list \<Rightarrow> ('m, 'd, 'e) jstate \<Rightarrow> ('m, 'd, 'e) jstate \<Rightarrow> bool" where
  "buffer_has b es s s' \<longleftrightarrow> length (j_buffers s') = length (j_buffers s) \<and> buf_ok 32 164 (j_buffers s' ! b)
     \<and> hist (j_buffers s' ! b) = hist (j_buffers s ! b) @ map Some es
     \<and> (\<forall>c. c \<noteq> b \<longrightarrow> j_buffers s' ! c = j_buffers s ! c)"

lemma handle_output:
  assumes "b < length (j_buffers s)" and "buf_ok 32 164 (j_buffers s ! b)" and "job_OutputBuffer job = Some b"
    and "handleJobStreamRequest sys job m s = Ret s' u"
  shows "buffer_has b (lines_of m) s s'"
proof (cases m)
  case (MTerminal es)
  from Write_ok[OF assms(2), of "map Some es"] obtain b' where
    "Write 32 164 (map Some es) (j_buffers s ! b) = Some b'" "buf_ok 32 164 b'"
    "hist b' = hist (j_buffers s ! b) @ map Some es" by blast
  with assms MTerminal show ?thesis
    by (auto simp: handleJobStreamRequest_def write_output_def buffer_has_def)
qed (use assms in \<open>auto simp: handleJobStreamRequest_def buffer_has_def dest: JobComplete_buffers JobHeartbeat_buffers\<close>)

lemma buffer_has_trans:
  "buffer_has b xs s t \<Longrightarrow> buffer_has b ys t u \<Longrightarrow> buffer_has b (xs @ ys) s u"
  unfolding buffer_has_def by auto

lemma drain_output:
  assumes "b < length (j_buffers s)" and "buf_ok 32 164 (j_buffers s ! b)" and "job_OutputBuffer job = Some b"
    and "drain_events sys job ms s = Ret s' u"
  shows "buffer_has b (concat (map lines_of ms)) s s'"
  using assms
proof (induction ms arbitrary: s)
  case Nil
  then show ?case by (simp add: buffer_has_def)
next
  case (Cons m ms)
  from Cons.prems(4) obtain t w where h: "handleJobStreamRequest sys job m s = Ret t w"
    and k: "drain_events sys job ms t = Ret s' u" by (auto simp: bind_o_Ret_iff)
  note A = handle_output[OF Cons.prems(1-3) h]
  then have "buffer_has b (concat (map lines_of ms)) t s'"
    using Cons.IH[OF _ _ Cons.prems(3) k] Cons.prems(1) by (simp add: buffer_has_def)
  from buffer_has_trans[OF A this] show ?case by simp
qed

lemma loop_output:
  assumes "b < length (j_buffers s)" and "buf_ok 32 164 (j_buffers s ! b)" and "job_OutputBuffer job = Some b"
    and "stream_loop sys job ps s = Ret s' out"
  shows "buffer_has b (fed ps) s s'"
  using assms
proof (induction ps arbitrary: s out)
  case Nil
  then show ?case by (simp add: buffer_has_def)
next
  case (Cons p ps)
  show ?case
  proof (cases p)
    case (PickDone ms)
    with Cons.prems show ?thesis by (auto simp: bind_o_Ret_iff intro: drain_output)
  next
    case (PickErr e)
    with Cons.prems show ?thesis by simp
  next
    case (PickEvent m)
    with Cons.prems(4) obtain t w where h: "handleJobStreamRequest sys job m s = Ret t w"
      and k: "stream_loop sys job ps t = Ret s' out" by (auto simp: bind_o_Ret_iff)
    note A = handle_output[OF Cons.prems(1-3) h]
    then have "buffer_has b (fed ps) t s'"
      using Cons.IH[OF _ _ Cons.prems(3) k] Cons.prems(1) by (simp add: buffer_has_def)
    from buffer_has_trans[OF A this] PickEvent show ?thesis by simp
  next
    case (PickJob j send)
    with Cons.prems Cons.IH[OF Cons.prems(1-3)] show ?thesis
      by (auto simp: bind_o_Ret_iff buffer_has_def split: if_splits option.splits)
  qed
qed

text \<open>Terminal output never fails.\<close>

lemma terminal_returns:
  assumes "b < length (j_buffers s)" and "buf_ok 32 164 (j_buffers s ! b)" and "job_OutputBuffer job = Some b"
  shows "\<exists>s'. stream_loop sys job (map (\<lambda>es. PickEvent (MTerminal es)) ess) s = Ret s' []"
  using assms
proof (induction ess arbitrary: s)
  case (Cons es ess)
  from Write_ok[OF Cons.prems(2), of "map Some es"] obtain b' where
    "Write 32 164 (map Some es) (j_buffers s ! b) = Some b'" "buf_ok 32 164 b'" by blast
  with Cons show ?case by (simp add: handleJobStreamRequest_def write_output_def)
qed simp

section \<open>What a client is told\<close>

text \<open>The state messages in order.\<close>

fun state_changes :: "'e client_out list \<Rightarrow> (Job_State \<times> Job_State) list" where
  "state_changes [] = []"
| "state_changes (CState p c x j # out) = (p, c) # state_changes out"
| "state_changes (m # out) = state_changes out"

fun linked :: "Job_State \<Rightarrow> (Job_State \<times> Job_State) list \<Rightarrow> bool" where
  "linked st [] = True"
| "linked st ((p, c) # rest) = (p = st \<and> linked c rest)"

fun is_complete :: "'e client_out \<Rightarrow> bool" where
  "is_complete (CComplete e r) = True"
| "is_complete _ = False"

text \<open>The lines of an output buffer are no state messages.\<close>

fun only_lines :: "'e client_pick \<Rightarrow> bool" where
  "only_lines (CPickJob j fails lines) = (\<forall>m \<in> set lines. \<exists>es. m = CTerminal es True)"
| "only_lines _ = True"

lemma state_changes_append: "state_changes (xs @ ys) = state_changes xs @ state_changes ys"
  by (induction xs rule: state_changes.induct) simp_all

lemma state_changes_lines: "\<forall>m \<in> set lines. \<exists>es b. m = CTerminal es b \<Longrightarrow> state_changes lines = []"
  by (induction lines rule: state_changes.induct) auto

lemma lines_not_complete: "\<forall>m \<in> set lines. \<exists>es b. m = CTerminal es b \<Longrightarrow> \<forall>m \<in> set lines. \<not> is_complete m"
  by auto

definition final_state :: "Job_State \<Rightarrow> (Job_State \<times> Job_State) list \<Rightarrow> Job_State" where
  "final_state st cs = (if cs = [] then st else snd (last cs))"

text \<open>A chain of state messages from \<open>st\<close>, and a completion at most as the last message, after a completed state.\<close>

definition well_told :: "Job_State \<Rightarrow> 'e client_out list \<Rightarrow> client_end \<Rightarrow> bool" where
  "well_told st out r \<longleftrightarrow> linked st (state_changes out)
     \<and> (\<exists>body ends. out = body @ ends \<and> (\<forall>m \<in> set body. \<not> is_complete m)
          \<and> (ends = [] \<or> (\<exists>e res. ends = [CComplete e res] \<and> r = CReturned
                 \<and> jobIsCompleted (final_state st (state_changes out)))))"

lemma well_told_Nil [simp]: "well_told st [] r"
  by (simp add: well_told_def)

lemma linked_append: "linked st (xs @ ys) \<longleftrightarrow> linked st xs \<and> linked (final_state st xs) ys"
  by (induction xs arbitrary: st) (auto simp: final_state_def)

lemma final_append: "final_state st (xs @ ys) = final_state (final_state st xs) ys"
  by (simp add: final_state_def)

lemma well_told_append:
  assumes "linked st (state_changes xs)" and "\<forall>m \<in> set xs. \<not> is_complete m"
    and "well_told (final_state st (state_changes xs)) out r"
  shows "well_told st (xs @ out) r"
proof -
  from assms(3) obtain body ends where o: "out = body @ ends" "\<forall>m \<in> set body. \<not> is_complete m"
    and t: "ends = [] \<or> (\<exists>e res. ends = [CComplete e res] \<and> r = CReturned
         \<and> jobIsCompleted (final_state (final_state st (state_changes xs)) (state_changes out)))"
    by (auto simp: well_told_def)
  show ?thesis
    unfolding well_told_def
  proof (intro conjI)
    show "linked st (state_changes (xs @ out))"
      using assms(1,3) by (simp add: state_changes_append linked_append well_told_def)
    have "\<forall>m \<in> set (xs @ body). \<not> is_complete m" using assms(2) o(2) by auto
    moreover have "xs @ out = (xs @ body) @ ends" by (simp add: o(1))
    moreover have "ends = [] \<or> (\<exists>e res. ends = [CComplete e res] \<and> r = CReturned
         \<and> jobIsCompleted (final_state st (state_changes (xs @ out))))"
      using t by (simp add: state_changes_append final_append)
    ultimately show "\<exists>body ends. xs @ out = body @ ends \<and> (\<forall>m \<in> set body. \<not> is_complete m)
        \<and> (ends = [] \<or> (\<exists>e res. ends = [CComplete e res] \<and> r = CReturned
             \<and> jobIsCompleted (final_state st (state_changes (xs @ out)))))" by blast
  qed
qed

lemma take_not_complete:
  assumes "\<forall>m \<in> set xs. \<not> is_complete m" and "n < length (xs @ [m])"
  shows "\<forall>m \<in> set (take n (xs @ [m])). \<not> is_complete m"
  using assms by (auto simp: dest: in_set_takeD)

lemma linked_prefix:
  assumes "linked st (state_changes xs)"
  shows "linked st (state_changes (take n xs))"
proof -
  have "linked st (state_changes (take n xs @ drop n xs))" using assms by simp
  then show ?thesis by (simp only: state_changes_append linked_append)
qed

lemma prefix_told:
  assumes "linked st (state_changes (xs @ ends))" and "\<forall>m \<in> set xs. \<not> is_complete m" and "length ends \<le> 1"
    and "n < length (xs @ ends)"
  shows "well_told st (take n (xs @ ends)) r"
proof -
  have "\<forall>m \<in> set (take n (xs @ ends)). \<not> is_complete m"
    using assms(2-4) by (cases ends) (auto dest: in_set_takeD)
  with linked_prefix[OF assms(1), of n] show ?thesis
    unfolding well_told_def by (intro conjI exI[of _ "take n (xs @ ends)"] exI[of _ "[]"]) auto
qed

lemma client_stream_told:
  assumes "list_all only_lines ps"
  shows "well_told (cl_last l) (fst (client_stream l ps)) (snd (client_stream l ps))"
  using assms
proof (induction l ps rule: client_stream.induct)
  case (4 l es fails ps)
  have IH: "well_told (cl_last l) (fst (client_stream l ps)) (snd (client_stream l ps))"
    using 4 by (cases "cl_output l") auto
  have "well_told (cl_last l) ([CTerminal es False] @ fst (client_stream l ps)) (snd (client_stream l ps))"
    by (rule well_told_append) (use IH in \<open>simp_all add: final_state_def\<close>)
  with IH show ?case by (auto simp: send_all_def split: option.split)
next
  case (5 l j fails lines ps)
  let ?p = "job_pb j"
  let ?st = "if job_changed l ?p then [CState (cl_last l) (p_state ?p) (p_cancelTime ?p \<noteq> None) ?p] else []"
  let ?ls = "if \<not> cl_output l \<and> job_OutputBuffer j \<noteq> None then lines else []"
  let ?ends = "if jobIsCompleted (p_state ?p) then [CComplete (p_error ?p) (p_result ?p)] else []"
  from 5(2) have ls: "\<forall>m \<in> set lines. \<exists>es b. m = CTerminal es b" by fastforce
  have ch: "state_changes (?st @ ?ls) = (if job_changed l ?p then [(cl_last l, p_state ?p)] else [])"
    using state_changes_lines[OF ls] by (simp add: state_changes_append)
  have ch': "state_changes ((?st @ ?ls) @ ?ends) = state_changes (?st @ ?ls)"
    by (simp only: state_changes_append) simp
  have lk: "linked (cl_last l) (state_changes (?st @ ?ls))" unfolding ch by simp
  have nc: "\<forall>m \<in> set (?st @ ?ls). \<not> is_complete m"
    using lines_not_complete[OF ls] by auto
  have fin: "final_state (cl_last l) (state_changes (?st @ ?ls)) = p_state ?p" unfolding ch
    by (auto simp: final_state_def job_changed_def)
  have al: "cl_last (after_job l j) = p_state ?p" by (auto simp: after_job_def job_changed_def)
  have jm: "job_messages l j lines = (?st @ ?ls) @ ?ends" by (simp add: job_messages_def)
  have lk': "linked (cl_last l) (state_changes ((?st @ ?ls) @ ?ends))" unfolding ch' by (rule lk)
  have pre: "n < length (job_messages l j lines) \<Longrightarrow> well_told (cl_last l) (take n (job_messages l j lines)) r" for n r
    unfolding jm by (rule prefix_told[OF lk' nc]) auto
  show ?case
  proof (cases "jobIsCompleted (p_state ?p)")
    case True
    have "well_told (cl_last l) (job_messages l j lines) CReturned"
    proof -
      have "?ends = [] \<or> (\<exists>e res. ?ends = [CComplete e res] \<and> CReturned = CReturned
          \<and> jobIsCompleted (final_state (cl_last l) (state_changes ((?st @ ?ls) @ ?ends))))"
        unfolding ch' fin using True by simp
      with nc lk' show ?thesis unfolding well_told_def jm by blast
    qed
    with True pre show ?thesis by (auto simp: send_all_def split: option.split)
  next
    case False
    from 5(1)[OF False] 5(2) have IH: "well_told (cl_last (after_job l j)) (fst (client_stream (after_job l j) ps))
        (snd (client_stream (after_job l j) ps))" by simp
    have "well_told (cl_last l) (job_messages l j lines @ fst (client_stream (after_job l j) ps))
        (snd (client_stream (after_job l j) ps))"
      unfolding jm using False well_told_append[OF lk nc] IH unfolding fin al by simp
    with False pre show ?thesis by (auto simp: send_all_def split: option.split)
  qed
qed simp_all

section \<open>Buffered lines\<close>

lemma Read_frame:
  assumes "Read r mx block b = Ret b' v" and "r < length (b_all b)"
  shows "b_chunks b' = b_chunks b" "r < length (b_all b')" "r_closed (b_all b' ! r) = r_closed (b_all b ! r)"
  using assms
  by (auto simp: Read_def Let_def upd_reader_def Buffer_Reader_def add_reader_def nth_append
      split: if_splits option.splits prod.splits)

definition sent_lines :: "'e client_out list \<Rightarrow> 'e list" where
  "sent_lines out = concat (map (\<lambda>m. case m of CTerminal es _ \<Rightarrow> es | _ \<Rightarrow> []) out)"

lemma buffered_output_ok:
  assumes "all_ok 32 164 b" and "r < length (b_all b)" and "\<not> r_closed (b_all b ! r)" and "None \<notin> set (hist b)"
    and "sl_base (b_chunks b) * 164 \<le> position 164 (b_all b ! r)"
    and "length (hist b) < n + position 164 (b_all b ! r)"
  shows "\<exists>b' out. buffered_output n r (\<lambda>_. None) b = Some (Ret b' out) \<and> hist b' = hist b
    \<and> sent_lines out = map the (drop (position 164 (b_all b ! r)) (hist b))
    \<and> (\<forall>m \<in> set out. \<exists>es. m = CTerminal es True)"
  using assms
proof (induction n arbitrary: b)
  case 0
  let ?p = "position 164 (b_all b ! r)"
  have "?p \<le> length (hist b)"
    using position_bound[of 32 164 b "b_all b ! r"] 0(1,2) by (auto simp: all_ok_def)
  with 0(6) show ?case by simp
next
  case (Suc n)
  let ?p = "position 164 (b_all b ! r)"
  have u: "u32 64 = 64" by (simp add: u32_def)
  from Read_ok[OF Suc.prems(1-3), of 64 False] u obtain b' xs where rd: "Read r 64 False b = Ret b' (Value xs)"
    and ok: "all_ok 32 164 b'" and h: "hist b' = hist b" and xs: "xs = take (length xs) (drop ?p (hist b))"
    and e: "xs = [] \<Longrightarrow> ?p = length (hist b)" and mv: "moved 164 b ?p (position 164 (b_all b' ! r)) xs"
    by auto
  note fr = Read_frame[OF rd Suc.prems(2)]
  show ?case
  proof (cases "xs = []")
    case True
    with rd e h show ?thesis by (simp add: readJobLogBatch_def sent_lines_def)
  next
    case False
    then have p': "position 164 (b_all b' ! r) = ?p + length xs"
      using mv Suc.prems(5) by (auto simp: moved_def)
    have nn: "None \<notin> set xs" using xs Suc.prems(4) by (metis in_set_dropD in_set_takeD)
    have "length (hist b') < n + position 164 (b_all b' ! r)"
      using Suc.prems(6) False by (cases xs) (simp_all add: h p')
    from Suc.IH[OF ok fr(2) _ _ _ this] Suc.prems(3,4,5) obtain b2 out where
      "buffered_output n r (\<lambda>_. None) b' = Some (Ret b2 out)" "hist b2 = hist b"
      "sent_lines out = map the (drop (?p + length xs) (hist b))" "\<forall>m \<in> set out. \<exists>es. m = CTerminal es True"
      by (auto simp: fr h p')
    moreover have "drop ?p (hist b) = xs @ drop (?p + length xs) (hist b)"
    proof -
      have "drop ?p (hist b) = take (length xs) (drop ?p (hist b)) @ drop (length xs) (drop ?p (hist b))"
        by (rule append_take_drop_id[symmetric])
      then show ?thesis unfolding xs[symmetric] by (simp add: add.commute)
    qed
    ultimately show ?thesis using rd False nn by (simp add: readJobLogBatch_def sent_lines_def)
  qed
qed

section \<open>Properties\<close>


definition plain_run :: "nat stream_inputs" where
  "plain_run = \<lparr>si_open = Inr (MRequest ''r''), si_others = [], si_send = None, si_ack = Inr MAck,
     si_picks = [PickEvent MHeartbeat, PickEvent (MComplete (Some 1)), PickDone []]\<rparr>"




text \<open>The output of a runner reaches the buffer of its job complete and in order: when the event loop returns,
  the history of the buffer has grown by exactly the lines of the terminal events it took, and no other
  buffer has changed.\<close>

theorem runner_output_in_order:
  assumes "stream_loop sys job ps s = Ret s' out" and "job_OutputBuffer job = Some b"
    and "b < length (j_buffers s)" and "buf_ok 32 164 (j_buffers s ! b)"
  shows "hist (j_buffers s' ! b) = hist (j_buffers s ! b) @ map Some (fed ps) \<and> buf_ok 32 164 (j_buffers s' ! b)
    \<and> (\<forall>c. c \<noteq> b \<longrightarrow> j_buffers s' ! c = j_buffers s ! c)"
  using loop_output[OF assms(3,4,2,1)] by (simp add: buffer_has_def)

lemma runner_output_in_order_witness:
  "let s = after_ops [OpCreate (any_job ''j''), OpAssign [0], OpAck ''j'' True];
       j = \<lparr>job_pb = any_job ''j'', job_OutputBuffer = Some 0, job_Blocked = False\<rparr>
   in \<exists>s' out. stream_loop rows_sys j [PickEvent (MTerminal [7, 8]), PickEvent (MTerminal [9])] s = Ret s' out
     \<and> hist (j_buffers s' ! 0) = [Some 7, Some 8, Some 9]"
proof -
  let ?s = "after_ops [OpCreate (any_job ''j''), OpAssign [0], OpAck ''j'' True]"
  let ?j = "\<lparr>job_pb = any_job ''j'', job_OutputBuffer = Some 0, job_Blocked = False\<rparr>"
  have b: "0 < length (j_buffers ?s)" and n: "j_buffers ?s ! 0 = New 32" by code_simp+
  have ok: "buf_ok 32 164 (j_buffers ?s ! 0)" "hist (j_buffers ?s ! 0) = []"
    using New_ok[of 32 164, where ?'e = nat] by (simp_all add: n)
  from terminal_returns[OF b ok(1), of ?j rows_sys "[[7, 8], [9]]"] obtain s' where
    r: "stream_loop rows_sys ?j [PickEvent (MTerminal [7, 8]), PickEvent (MTerminal [9])] ?s = Ret s' []" by auto
  from runner_output_in_order[OF r _ b ok(1)] r ok(2) show ?thesis unfolding Let_def by auto
qed

text \<open>A client is told every state change as a chain: each state message starts from the state of the one
  before, the first from the unknown state, and the completion is the last message of a stream, sent
  after a message with a completed state.\<close>

theorem client_told_in_order:
  assumes "GetJobStream sys i None ps s = Ret s' (out, r)" and "list_all only_lines ps"
  shows "\<exists>rest. out = COpen # rest \<and> well_told Job_UNKNOWN rest r"
  using assms client_stream_told[OF assms(2), of "\<lparr>cl_last = Job_UNKNOWN, cl_cancel = False, cl_output = False\<rparr>"]
  by (auto simp: GetJobStream_def bind_o_Ret_iff split: option.splits prod.splits)

lemma client_told_in_order_witness:
  "let s = after_ops [OpCreate (any_job ''j'')];
       done = \<lparr>job_pb = (any_job ''j'')\<lparr>p_state := Job_SUCCESS\<rparr>, job_OutputBuffer = Some 0, job_Blocked = False\<rparr>
   in \<exists>s' rest r. GetJobStream rows_sys ''j'' None [CPickJob done None [CTerminal [7] True]] s = Ret s' (COpen # rest, r)
     \<and> well_told Job_UNKNOWN rest r \<and> r = CReturned"
proof -
  let ?s = "after_ops [OpCreate (any_job ''j'')]"
  let ?done = "\<lparr>job_pb = (any_job ''j'')\<lparr>p_state := Job_SUCCESS\<rparr>, job_OutputBuffer = Some 0, job_Blocked = False\<rparr>"
  let ?ps = "[CPickJob ?done None [CTerminal [7 :: nat] True]]"
  have "case GetJobStream rows_sys ''j'' None ?ps ?s of Ret s' (out, r) \<Rightarrow> r = CReturned | _ \<Rightarrow> False" by code_simp
  then obtain s' out where r: "GetJobStream rows_sys ''j'' None ?ps ?s = Ret s' (out, CReturned)"
    by (auto split: outcome.splits)
  from client_told_in_order[OF r] r show ?thesis unfolding Let_def by auto
qed



end
