(* ===== verification/GoStrings.thy ===== *)
theory GoStrings
  imports Prelude
begin

text \<open>
  \<open>strings.TrimSpace\<close>: white space is removed at both ends of a string, which is a sequence of bytes.
\<close>

text \<open>\<open>strings.TrimSpace\<close>: the encodings of the Unicode characters with the property White Space, U+0009 to U+000D,
  U+0020, U+0085, U+00A0, U+1680, U+2000 to U+200A, U+2028, U+2029, U+202F, U+205F and U+3000.\<close>

definition spaces :: "string list" where
  "spaces =
     [[CHR 0x09], [CHR 0x0A], [CHR 0x0B], [CHR 0x0C], [CHR 0x0D], [CHR 0x20], [CHR 0xC2, CHR 0x85],
      [CHR 0xC2, CHR 0xA0], [CHR 0xE1, CHR 0x9A, CHR 0x80], [CHR 0xE2, CHR 0x80, CHR 0x80],
      [CHR 0xE2, CHR 0x80, CHR 0x81], [CHR 0xE2, CHR 0x80, CHR 0x82], [CHR 0xE2, CHR 0x80, CHR 0x83],
      [CHR 0xE2, CHR 0x80, CHR 0x84], [CHR 0xE2, CHR 0x80, CHR 0x85], [CHR 0xE2, CHR 0x80, CHR 0x86],
      [CHR 0xE2, CHR 0x80, CHR 0x87], [CHR 0xE2, CHR 0x80, CHR 0x88], [CHR 0xE2, CHR 0x80, CHR 0x89],
      [CHR 0xE2, CHR 0x80, CHR 0x8A], [CHR 0xE2, CHR 0x80, CHR 0xA8], [CHR 0xE2, CHR 0x80, CHR 0xA9],
      [CHR 0xE2, CHR 0x80, CHR 0xAF], [CHR 0xE2, CHR 0x81, CHR 0x9F], [CHR 0xE3, CHR 0x80, CHR 0x80]]"

function trim_left :: "string list \<Rightarrow> string \<Rightarrow> string" where
  "trim_left ps s =
     (case find (\<lambda>p. p \<noteq> [] \<and> HasPrefix s p) ps of None \<Rightarrow> s | Some p \<Rightarrow> trim_left ps (drop (length p) s))"
  by auto
termination
proof (relation "measure (\<lambda>(ps, s). length s)")
  fix ps s p
  assume "find (\<lambda>p. p \<noteq> [] \<and> HasPrefix s p) ps = Some p"
  then have "p \<noteq> []" "HasPrefix s p" by (auto simp: find_Some_iff)
  moreover from this(2) have "length p \<le> length s" by (auto simp: HasPrefix_iff)
  ultimately show "((ps, drop (length p) s), (ps, s)) \<in> measure (\<lambda>(ps, s). length s)" by (cases p) auto
qed simp

declare trim_left.simps [simp del]

definition TrimSpace :: "string \<Rightarrow> string" where
  "TrimSpace s = rev (trim_left (map rev spaces) (rev (trim_left spaces s)))"

lemma trim_left_stuck: "find (\<lambda>p. p \<noteq> [] \<and> HasPrefix (trim_left ps s) p) ps = None"
proof (induction ps s rule: trim_left.induct)
  case (1 ps s)
  then show ?case
    by (subst trim_left.simps) (auto split: option.split simp: trim_left.simps[of ps s])
qed

lemma trim_left_same: "find (\<lambda>p. p \<noteq> [] \<and> HasPrefix s p) ps = None \<Longrightarrow> trim_left ps s = s"
  by (subst trim_left.simps) simp

lemma trim_left_suffix: "\<exists>t. s = t @ trim_left ps s"
proof (induction ps s rule: trim_left.induct)
  case (1 ps s)
  show ?case
  proof (cases "find (\<lambda>p. p \<noteq> [] \<and> HasPrefix s p) ps")
    case (Some p)
    with 1 obtain t where "drop (length p) s = t @ trim_left ps (drop (length p) s)" by blast
    then have "s = (take (length p) s @ t) @ trim_left ps (drop (length p) s)"
      by (metis append.assoc append_take_drop_id)
    moreover have "trim_left ps s = trim_left ps (drop (length p) s)"
      using Some by (subst trim_left.simps) simp
    ultimately have "s = (take (length p) s @ t) @ trim_left ps s" by simp
    then show ?thesis by blast
  qed (simp add: trim_left_same)
qed

lemma TrimSpace_twice [simp]: "TrimSpace (TrimSpace s) = TrimSpace s"
proof -
  define u where "u = trim_left spaces s"
  define v where "v = rev (trim_left (map rev spaces) (rev u))"
  have v: "TrimSpace s = v" by (simp add: TrimSpace_def u_def v_def)
  obtain t where "rev u = t @ rev v" using trim_left_suffix[of "rev u" "map rev spaces"] by (auto simp: v_def)
  then have "u = v @ rev t" by (metis rev_append rev_rev_ident)
  then have "HasPrefix v p \<Longrightarrow> HasPrefix u p" for p by (auto simp: HasPrefix_iff)
  then have "find (\<lambda>p. p \<noteq> [] \<and> HasPrefix v p) spaces = None"
    using trim_left_stuck[of spaces s] by (auto simp: find_None_iff u_def)
  then have "trim_left spaces v = v" by (rule trim_left_same)
  moreover have "trim_left (map rev spaces) (rev v) = rev v"
    using trim_left_stuck[of "map rev spaces" "rev u"] by (simp add: v_def trim_left_same)
  ultimately have "TrimSpace v = v" by (simp add: TrimSpace_def)
  then show ?thesis by (simp only: v)
qed

end
