(* ===== verification/PkgFlag.thy ===== *)
theory PkgFlag
  imports GoStrconv GoStrings "HOL-Library.AList" "HOL-Library.List_Lexorder" "HOL-Library.Char_ord"
begin

text \<open>
  \<open>internal/pkg/flag\<close>: the values of command line flags that are kept behind Go's own \<open>flag\<close> package.
  A value writes the variable of its owner and may call a hook; both are fields here, the hook as the
  list of the values it was called with. Integers are 64 bits wide. Floating point numbers and durations
  are read and printed by functions of the standard library that are arguments (\<open>parse\<close>, \<open>format\<close>).
\<close>

section \<open>Values\<close>

record 'a val =
  v_target :: 'a
  v_hidden :: bool
  v_SetHook :: bool
  v_calls :: "'a list"

datatype flag_err = ErrNum num_error | ErrMissing string | ErrNotValid string "string list" | ErrOther string

type_synonym ('a, 'b) vresult = "('a val, flag_err, 'b) outcome"

definition new_val :: "bool \<Rightarrow> bool \<Rightarrow> 'a \<Rightarrow> 'a val" where
  "new_val hidden hook d = \<lparr>v_target = d, v_hidden = hidden, v_SetHook = hook, v_calls = []\<rparr>"

text \<open>\<open>*target = v\<close>, and the hook when there is one.\<close>

definition put :: "'a \<Rightarrow> 'a val \<Rightarrow> 'a val" where
  "put x v = v\<lparr>v_target := x, v_calls := (if v_SetHook v then v_calls v @ [x] else v_calls v)\<rparr>"

definition set_num :: "(string \<Rightarrow> num_error + 'b) \<Rightarrow> ('b \<Rightarrow> 'a) \<Rightarrow> string \<Rightarrow> 'a val \<Rightarrow> ('a, unit) vresult" where
  "set_num parse conv s v = (case parse s of Inl e \<Rightarrow> Fail v (ErrNum e) | Inr x \<Rightarrow> Ret (put (conv x) v) ())"

definition boolValue_Set :: "string \<Rightarrow> bool val \<Rightarrow> (bool, unit) vresult" where
  "boolValue_Set = set_num ParseBool id"

definition boolValue_String :: "bool val \<Rightarrow> string" where
  "boolValue_String v = FormatBool (v_target v)"

definition intValue_Set :: "string \<Rightarrow> 64 word val \<Rightarrow> (64 word, unit) vresult" where
  "intValue_Set = set_num (ParseInt 0) word_of_int"

definition intValue_String :: "64 word val \<Rightarrow> string" where
  "intValue_String v = FormatInt (sint (v_target v))"

definition int64Value_Set :: "string \<Rightarrow> 64 word val \<Rightarrow> (64 word, unit) vresult" where
  "int64Value_Set = set_num (ParseInt 0) word_of_int"

definition int64Value_String :: "64 word val \<Rightarrow> string" where
  "int64Value_String v = FormatInt (sint (v_target v))"

definition uintValue_Set :: "string \<Rightarrow> 64 word val \<Rightarrow> (64 word, unit) vresult" where
  "uintValue_Set = set_num (ParseUint 0) word_of_nat"

definition uintValue_String :: "64 word val \<Rightarrow> string" where
  "uintValue_String v = FormatUint (unat (v_target v))"

definition uint64Value_Set :: "string \<Rightarrow> 64 word val \<Rightarrow> (64 word, unit) vresult" where
  "uint64Value_Set = set_num (ParseUint 0) word_of_nat"

definition uint64Value_String :: "64 word val \<Rightarrow> string" where
  "uint64Value_String v = FormatUint (unat (v_target v))"

definition float64Value_Set :: "(string \<Rightarrow> num_error + 'fl) \<Rightarrow> string \<Rightarrow> 'fl val \<Rightarrow> ('fl, unit) vresult" where
  "float64Value_Set parse s v = (case parse s of Inl e \<Rightarrow> Fail v (ErrNum e) | Inr x \<Rightarrow> Ret (v\<lparr>v_target := x\<rparr>) ())"

definition stringValue_Set :: "string \<Rightarrow> string val \<Rightarrow> (string, unit) vresult" where
  "stringValue_Set s v = Ret (put s v) ()"

definition stringValue_String :: "string val \<Rightarrow> string" where
  "stringValue_String v = v_target v"

text \<open>Durations: a value without one of the suffixes means seconds.\<close>

definition appendDurationSuffix :: "string \<Rightarrow> string" where
  "appendDurationSuffix s =
     (if HasSuffix s ''s'' \<or> HasSuffix s ''m'' \<or> HasSuffix s ''h'' then s else s @ ''s'')"

definition durationValue_Set :: "(string \<Rightarrow> num_error + int) \<Rightarrow> string \<Rightarrow> int val \<Rightarrow> (int, unit) vresult" where
  "durationValue_Set parse s v =
     (case parse (appendDurationSuffix s) of Inl e \<Rightarrow> Fail v (ErrNum e) | Inr d \<Rightarrow> Ret (v\<lparr>v_target := d\<rparr>) ())"

section \<open>Strings with several parts\<close>

text \<open>A nil slice is \<open>None\<close>.\<close>

definition appended_to :: "string list option \<Rightarrow> string \<Rightarrow> string list option" where
  "appended_to xs x = Some ((case xs of None \<Rightarrow> [] | Some ys \<Rightarrow> ys) @ [x])"

definition elems :: "string list option \<Rightarrow> string list" where
  "elems xs = (case xs of None \<Rightarrow> [] | Some ys \<Rightarrow> ys)"

fun enum_parts :: "string list \<Rightarrow> string list \<Rightarrow> string list option val \<Rightarrow> (string list option, unit) vresult" where
  "enum_parts values [] v = Ret v ()"
| "enum_parts values (p # ps) v =
     (let x = TrimSpace p in
      if x \<in> set values then enum_parts values ps (v\<lparr>v_target := appended_to (v_target v) (TrimSpace x)\<rparr>)
      else Fail v (ErrNotValid x values))"

definition enumValue_Set ::
  "string list \<Rightarrow> string \<Rightarrow> string list option val \<Rightarrow> (string list option, unit) vresult" where
  "enumValue_Set values vals v = enum_parts values (split_on CHR '','' vals) v"

definition enumValue_String :: "string list option val \<Rightarrow> string" where
  "enumValue_String v = join_with '','' (elems (v_target v))"

definition enumSingleValue_Set :: "string list \<Rightarrow> string \<Rightarrow> string val \<Rightarrow> (string, unit) vresult" where
  "enumSingleValue_Set values s v =
     (if s \<in> set values then Ret (put s v) () else Fail v (ErrNotValid s values))"

text \<open>A slice value forgets its initial contents when it is first set.\<close>

record slice_val = "string list option val" +
  v_set :: bool

definition stringSliceValue_Set ::
  "string \<Rightarrow> slice_val \<Rightarrow> (slice_val, flag_err, unit) outcome" where
  "stringSliceValue_Set s v =
     (let v1 = (if v_set v then v else v\<lparr>v_set := True, v_target := None\<rparr>)
      in Ret (v1\<lparr>v_target := appended_to (v_target v1) (TrimSpace s)\<rparr>) ())"

definition stringSliceValue_String :: "slice_val \<Rightarrow> string" where
  "stringSliceValue_String v = join_with '','' (elems (v_target v))"

text \<open>A map is a list of its entries, \<open>None\<close> a nil map; it is printed in the order of its keys.\<close>

definition mapToKV :: "(string \<times> string) list \<Rightarrow> string" where
  "mapToKV m = join_with '','' (map (\<lambda>k. k @ ''='' @ the (map_of m k)) (sort (map fst m)))"

definition stringMapValue_Set ::
  "string \<Rightarrow> (string \<times> string) list option val \<Rightarrow> ((string \<times> string) list option, unit) vresult" where
  "stringMapValue_Set s v =
     (case split2 CHR ''='' s of
        None \<Rightarrow> Fail v (ErrMissing s)
      | Some (k, x) \<Rightarrow>
          Ret (v\<lparr>v_target := Some (AList.update k x (case v_target v of None \<Rightarrow> [] | Some m \<Rightarrow> m))\<rparr>) ())"

definition stringMapValue_String :: "(string \<times> string) list option val \<Rightarrow> string" where
  "stringMapValue_String v = mapToKV (case v_target v of None \<Rightarrow> [] | Some m \<Rightarrow> m)"

section \<open>The interface of a value\<close>

text \<open>What the flag package relies on: a value can be set to what it prints, whatever value it holds now.\<close>

locale flag_value =
  fixes vset :: "string \<Rightarrow> 'a val \<Rightarrow> ('a, unit) vresult" and str :: "'a val \<Rightarrow> string"
  assumes set_str: "vset (str w) v = Ret (put (v_target w) v) ()"
    and str_target: "v_target v = v_target w \<Longrightarrow> str v = str w"
begin

lemma set_str_same: "vset (str w) v = Ret v' u \<Longrightarrow> str v' = str w"
  by (simp add: set_str, rule str_target) (auto simp: put_def)

lemma set_str_twice: "vset (str w) v = Ret v' u \<Longrightarrow> vset (str v') x = vset (str w) x"
  by (frule set_str_same) simp

end

lemma ParseInt_word: "ParseInt 0 (FormatInt (sint (w :: 64 word))) = Inr (sint w)"
proof -
  have "- (2 ^ 63) \<le> sint w" "sint w < 2 ^ 63"
    using sint_ge[of w] sint_lt[of w] by simp_all
  then show ?thesis using ParseInt_Format[of 0 "sint w"] by simp
qed

lemma ParseUint_word: "ParseUint 0 (FormatUint (unat (w :: 64 word))) = Inr (unat w)"
  using unsigned_less[of w, where ?'a = nat] by (intro ParseUint0_Format) simp

interpretation bools: flag_value boolValue_Set boolValue_String
  by unfold_locales (simp_all add: boolValue_Set_def boolValue_String_def set_num_def)

interpretation ints: flag_value intValue_Set intValue_String
  by unfold_locales (simp_all add: intValue_Set_def intValue_String_def set_num_def ParseInt_word)

interpretation int64s: flag_value int64Value_Set int64Value_String
  by unfold_locales (simp_all add: int64Value_Set_def int64Value_String_def set_num_def ParseInt_word)

interpretation uints: flag_value uintValue_Set uintValue_String
  by unfold_locales (simp_all add: uintValue_Set_def uintValue_String_def set_num_def ParseUint_word)

interpretation uint64s: flag_value uint64Value_Set uint64Value_String
  by unfold_locales (simp_all add: uint64Value_Set_def uint64Value_String_def set_num_def ParseUint_word)

interpretation strings: flag_value stringValue_Set stringValue_String
  by unfold_locales (simp_all add: stringValue_Set_def stringValue_String_def)

end
