(* ===== verification/PkgFlagSet.thy ===== *)
theory PkgFlagSet
  imports PkgFlag
begin

text \<open>
  \<open>internal/pkg/flag\<close>: the sets of flags, how a flag of each type is registered, and the parse of a command
  line by Go's \<open>flag\<close> package as far as the sets use it. Value objects live in a list and are shared by
  their address: the set that is parsed (the union) and the set of a group hold the same object.
\<close>

section \<open>Value objects\<close>

datatype 'fl fval =
    BoolVal "bool val"
  | IntVal "64 word val"
  | Int64Val "64 word val"
  | UintVal "64 word val"
  | Uint64Val "64 word val"
  | Float64Val "'fl val"
  | DurationVal "int val"
  | StringVal "string val"
  | EnumVal "string list" "string list option val"
  | EnumSingleVal "string list" "string val"
  | StringSliceVal slice_val
  | StringMapVal "(string \<times> string) list option val"

text \<open>The parts of the standard library that are arguments, and the process environment.\<close>

record 'fl flagenv =
  e_LookupEnv :: "string \<Rightarrow> string option"
  e_ParseFloat :: "string \<Rightarrow> num_error + 'fl"
  e_FormatFloat :: "'fl \<Rightarrow> string"
  e_isZero :: "'fl \<Rightarrow> bool"
  e_ParseDuration :: "string \<Rightarrow> num_error + int"
  e_DurationString :: "int \<Rightarrow> string"

definition relabel :: "('s \<Rightarrow> 't) \<Rightarrow> ('s, 'e, 'a) outcome \<Rightarrow> ('t, 'e, 'a) outcome" where
  "relabel f r = (case r of Ret s a \<Rightarrow> Ret (f s) a | Fail s e \<Rightarrow> Fail (f s) e | Crash m \<Rightarrow> Crash m)"

fun fval_Set :: "'fl flagenv \<Rightarrow> string \<Rightarrow> 'fl fval \<Rightarrow> ('fl fval, flag_err, unit) outcome" where
  "fval_Set env s (BoolVal v) = relabel BoolVal (boolValue_Set s v)"
| "fval_Set env s (IntVal v) = relabel IntVal (intValue_Set s v)"
| "fval_Set env s (Int64Val v) = relabel Int64Val (int64Value_Set s v)"
| "fval_Set env s (UintVal v) = relabel UintVal (uintValue_Set s v)"
| "fval_Set env s (Uint64Val v) = relabel Uint64Val (uint64Value_Set s v)"
| "fval_Set env s (Float64Val v) = relabel Float64Val (float64Value_Set (e_ParseFloat env) s v)"
| "fval_Set env s (DurationVal v) = relabel DurationVal (durationValue_Set (e_ParseDuration env) s v)"
| "fval_Set env s (StringVal v) = relabel StringVal (stringValue_Set s v)"
| "fval_Set env s (EnumVal vs v) = relabel (EnumVal vs) (enumValue_Set vs s v)"
| "fval_Set env s (EnumSingleVal vs v) = relabel (EnumSingleVal vs) (enumSingleValue_Set vs s v)"
| "fval_Set env s (StringSliceVal v) = relabel StringSliceVal (stringSliceValue_Set s v)"
| "fval_Set env s (StringMapVal v) = relabel StringMapVal (stringMapValue_Set s v)"

fun fval_Hidden :: "'fl fval \<Rightarrow> bool" where
  "fval_Hidden (BoolVal v) = v_hidden v"
| "fval_Hidden (IntVal v) = v_hidden v"
| "fval_Hidden (Int64Val v) = v_hidden v"
| "fval_Hidden (UintVal v) = v_hidden v"
| "fval_Hidden (Uint64Val v) = v_hidden v"
| "fval_Hidden (Float64Val v) = v_hidden v"
| "fval_Hidden (DurationVal v) = v_hidden v"
| "fval_Hidden (StringVal v) = v_hidden v"
| "fval_Hidden (EnumVal vs v) = v_hidden v"
| "fval_Hidden (EnumSingleVal vs v) = v_hidden v"
| "fval_Hidden (StringSliceVal v) = v_hidden v"
| "fval_Hidden (StringMapVal v) = v_hidden v"

fun fval_Example :: "'fl fval \<Rightarrow> string" where
  "fval_Example (BoolVal v) = ''''"
| "fval_Example (IntVal v) = ''int''"
| "fval_Example (Int64Val v) = ''int''"
| "fval_Example (UintVal v) = ''uint''"
| "fval_Example (Uint64Val v) = ''uint''"
| "fval_Example (Float64Val v) = ''float''"
| "fval_Example (DurationVal v) = ''duration''"
| "fval_Example (StringMapVal v) = ''key=value''"
| "fval_Example _ = ''string''"

definition IsBoolFlag :: "'fl fval \<Rightarrow> bool" where
  "IsBoolFlag v = (case v of BoolVal _ \<Rightarrow> True | _ \<Rightarrow> False)"

section \<open>Sets\<close>

text \<open>A \<open>flag.FlagSet\<close> of the standard library: the flags by name with their value and usage.\<close>

type_synonym flagset = "(string \<times> nat \<times> string) list"

record 'c varflag =
  vf_Name :: string
  vf_Aliases :: "string list"
  vf_Usage :: string
  vf_Default :: string
  vf_EnvVar :: string
  vf_Value :: nat
  vf_Completion :: 'c

record 'c pset =
  st_name :: string
  st_flags :: flagset
  st_vars :: "'c varflag list"

record ('fl, 'c) sets =
  ss_union :: flagset
  ss_sets :: "'c pset list"
  ss_completions :: "(string \<times> 'c) list"
  ss_values :: "'fl fval list"
  ss_args :: "string list"
  ss_actual :: "string list"

type_synonym ('fl, 'c, 'a) presult = "(('fl, 'c) sets, flag_err, 'a) outcome"

definition NewSets :: "('fl, 'c) sets" where
  "NewSets = \<lparr>ss_union = [], ss_sets = [], ss_completions = [], ss_values = [], ss_args = [], ss_actual = []\<rparr>"

definition Sets_NewSet :: "string \<Rightarrow> ('fl, 'c) sets \<Rightarrow> ('fl, 'c) sets \<times> nat" where
  "Sets_NewSet name w =
     (w\<lparr>ss_sets := ss_sets w @ [\<lparr>st_name = name, st_flags = [], st_vars = []\<rparr>]\<rparr>, length (ss_sets w))"

definition upd_pset :: "nat \<Rightarrow> ('c pset \<Rightarrow> 'c pset) \<Rightarrow> ('fl, 'c) sets \<Rightarrow> ('fl, 'c) sets" where
  "upd_pset k f w = w\<lparr>ss_sets := (ss_sets w)[k := f (ss_sets w ! k)]\<rparr>"

text \<open>\<open>FlagSet.Var\<close> of the standard library: a bad or a used name panics.\<close>

definition bad_name :: "string \<Rightarrow> flagset \<Rightarrow> bool" where
  "bad_name n fs \<longleftrightarrow> HasPrefix n ''-'' \<or> CHR ''='' \<in> set n \<or> n \<in> fst ` set fs"

definition union_Var :: "nat \<Rightarrow> string \<Rightarrow> string \<Rightarrow> ('fl, 'c) sets \<Rightarrow> ('fl, 'c, unit) presult" where
  "union_Var x name usage w =
     (if bad_name name (ss_union w) then Crash ''flag redefined''
      else Ret (w\<lparr>ss_union := ss_union w @ [(name, x, usage)]\<rparr>) ())"

definition set_Var :: "nat \<Rightarrow> nat \<Rightarrow> string \<Rightarrow> string \<Rightarrow> ('fl, 'c) sets \<Rightarrow> ('fl, 'c, unit) presult" where
  "set_Var k x name usage w =
     (if bad_name name (st_flags (ss_sets w ! k)) then Crash ''flag redefined''
      else Ret (upd_pset k (\<lambda>s. s\<lparr>st_flags := st_flags s @ [(name, x, usage)]\<rparr>) w) ())"

definition Set_Var :: "nat \<Rightarrow> nat \<Rightarrow> string \<Rightarrow> string \<Rightarrow> ('fl, 'c) sets \<Rightarrow> ('fl, 'c, unit) presult" where
  "Set_Var k x name usage w = bind_o (union_Var x name usage w) (\<lambda>w _. set_Var k x name usage w)"

fun add_aliases :: "nat \<Rightarrow> string list \<Rightarrow> ('fl, 'c) sets \<Rightarrow> ('fl, 'c, unit) presult" where
  "add_aliases x [] w = Ret w ()"
| "add_aliases x (a # as) w = bind_o (union_Var x a [] w) (\<lambda>w _. add_aliases x as w)"

text \<open>The usage text with the aliases, the default and the environment variable.\<close>

definition alias_text :: "string list \<Rightarrow> string" where
  "alias_text as =
     (let sentence = map (\<lambda>a. CHR 0x22 # CHR ''-'' # a @ [CHR 0x22]) as in
      case sentence of
        [] \<Rightarrow> []
      | [s] \<Rightarrow> s
      | [s, t] \<Rightarrow> s @ '' and '' @ t
      | _ \<Rightarrow> join_with '', '' (butlast sentence @ [''and '' @ last sentence]))"

definition full_usage :: "'c varflag \<Rightarrow> string" where
  "full_usage i =
     vf_Usage i
     @ (if vf_Aliases i \<noteq> [] then '' This is aliased as '' @ alias_text (vf_Aliases i) @ ''.'' else [])
     @ (if vf_Default i \<noteq> [] then '' The default is '' @ vf_Default i @ ''.'' else [])
     @ (if vf_EnvVar i \<noteq> [] then '' This can also be specified via the '' @ vf_EnvVar i @ '' environment variable.''
        else [])"

definition VarFlag :: "nat \<Rightarrow> 'c varflag \<Rightarrow> ('fl, 'c) sets \<Rightarrow> ('fl, 'c, unit) presult" where
  "VarFlag k i w =
     (let w1 = upd_pset k (\<lambda>s. s\<lparr>st_vars := st_vars s @ [i]\<rparr>) w in
      if fval_Hidden (ss_values w1 ! vf_Value i) then Set_Var k (vf_Value i) (vf_Name i) [] w1
      else
        bind_o (add_aliases (vf_Value i) (vf_Aliases i) w1) (\<lambda>w _.
          bind_o (Set_Var k (vf_Value i) (vf_Name i) (full_usage i) w) (\<lambda>w _.
            Ret (w\<lparr>ss_completions := AList.update (CHR ''-'' # vf_Name i) (vf_Completion i) (ss_completions w)\<rparr>) ())))"

fun var_flags :: "nat \<Rightarrow> 'c varflag list \<Rightarrow> ('fl, 'c) sets \<Rightarrow> ('fl, 'c, unit) presult" where
  "var_flags k [] w = Ret w ()"
| "var_flags k (i # is) w = bind_o (VarFlag k i w) (\<lambda>w _. var_flags k is w)"

definition AddSet :: "'c pset \<Rightarrow> ('fl, 'c) sets \<Rightarrow> ('fl, 'c, unit) presult" where
  "AddSet s w = (case Sets_NewSet (st_name s) w of (w, k) \<Rightarrow> var_flags k (st_vars s) w)"

section \<open>Flags of each type\<close>

record ('a, 'c) opts =
  o_Name :: string
  o_Aliases :: "string list"
  o_Usage :: string
  o_Default :: 'a
  o_Hidden :: bool
  o_EnvVar :: string
  o_SetHook :: bool
  o_Completion :: 'c

text \<open>The common end of the constructors: the new value object, and the flag for it.\<close>

definition add_flag ::
  "nat \<Rightarrow> ('a, 'c) opts \<Rightarrow> string \<Rightarrow> string \<Rightarrow> 'fl fval \<Rightarrow> ('fl, 'c) sets \<Rightarrow> ('fl, 'c, unit) presult" where
  "add_flag k i usage def v w =
     VarFlag k \<lparr>vf_Name = o_Name i, vf_Aliases = o_Aliases i, vf_Usage = usage, vf_Default = def,
        vf_EnvVar = o_EnvVar i, vf_Value = length (ss_values w), vf_Completion = o_Completion i\<rparr>
       (w\<lparr>ss_values := ss_values w @ [v]\<rparr>)"

definition from_env :: "'fl flagenv \<Rightarrow> string \<Rightarrow> (string \<Rightarrow> 'e + 'a) \<Rightarrow> 'a \<Rightarrow> 'a" where
  "from_env env key parse d =
     (case e_LookupEnv env key of None \<Rightarrow> d | Some v \<Rightarrow> (case parse v of Inl _ \<Rightarrow> d | Inr x \<Rightarrow> x))"

definition BoolVar :: "'fl flagenv \<Rightarrow> nat \<Rightarrow> (bool, 'c) opts \<Rightarrow> ('fl, 'c) sets \<Rightarrow> ('fl, 'c, unit) presult" where
  "BoolVar env k i w =
     add_flag k i (o_Usage i) (FormatBool (o_Default i))
       (BoolVal (new_val (o_Hidden i) (o_SetHook i) (from_env env (o_EnvVar i) ParseBool (o_Default i)))) w"

definition IntVar :: "'fl flagenv \<Rightarrow> nat \<Rightarrow> (64 word, 'c) opts \<Rightarrow> ('fl, 'c) sets \<Rightarrow> ('fl, 'c, unit) presult" where
  "IntVar env k i w =
     add_flag k i (o_Usage i) (if o_Default i \<noteq> 0 then FormatInt (sint (o_Default i)) else [])
       (IntVal (new_val (o_Hidden i) (o_SetHook i)
          (from_env env (o_EnvVar i) (map_sum id word_of_int \<circ> ParseInt 0) (o_Default i)))) w"

definition Int64Var :: "'fl flagenv \<Rightarrow> nat \<Rightarrow> (64 word, 'c) opts \<Rightarrow> ('fl, 'c) sets \<Rightarrow> ('fl, 'c, unit) presult" where
  "Int64Var env k i w =
     add_flag k i (o_Usage i) (if o_Default i \<noteq> 0 then FormatInt (sint (o_Default i)) else [])
       (Int64Val (new_val (o_Hidden i) (o_SetHook i)
          (from_env env (o_EnvVar i) (map_sum id word_of_int \<circ> ParseInt 0) (o_Default i)))) w"

definition UintVar :: "'fl flagenv \<Rightarrow> nat \<Rightarrow> (64 word, 'c) opts \<Rightarrow> ('fl, 'c) sets \<Rightarrow> ('fl, 'c, unit) presult" where
  "UintVar env k i w =
     add_flag k i (o_Usage i) (if o_Default i \<noteq> 0 then FormatUint (unat (o_Default i)) else [])
       (UintVal (new_val (o_Hidden i) (o_SetHook i)
          (from_env env (o_EnvVar i) (map_sum id word_of_nat \<circ> ParseUint 0) (o_Default i)))) w"

text \<open>The formatted default of an unsigned 64 bit flag is computed and dropped.\<close>

definition Uint64Var :: "'fl flagenv \<Rightarrow> nat \<Rightarrow> (64 word, 'c) opts \<Rightarrow> ('fl, 'c) sets \<Rightarrow> ('fl, 'c, unit) presult" where
  "Uint64Var env k i w =
     add_flag k i (o_Usage i) []
       (Uint64Val (new_val (o_Hidden i) (o_SetHook i)
          (from_env env (o_EnvVar i) (map_sum id word_of_nat \<circ> ParseUint 0) (o_Default i)))) w"

definition Float64Var :: "'fl flagenv \<Rightarrow> nat \<Rightarrow> ('fl, 'c) opts \<Rightarrow> ('fl, 'c) sets \<Rightarrow> ('fl, 'c, unit) presult" where
  "Float64Var env k i w =
     add_flag k i (o_Usage i) (if \<not> e_isZero env (o_Default i) then e_FormatFloat env (o_Default i) else [])
       (Float64Val (new_val (o_Hidden i) False (from_env env (o_EnvVar i) (e_ParseFloat env) (o_Default i)))) w"

definition DurationVar :: "'fl flagenv \<Rightarrow> nat \<Rightarrow> (int, 'c) opts \<Rightarrow> ('fl, 'c) sets \<Rightarrow> ('fl, 'c, unit) presult" where
  "DurationVar env k i w =
     add_flag k i (o_Usage i) (if o_Default i \<noteq> 0 then e_DurationString env (o_Default i) else [])
       (DurationVal (new_val (o_Hidden i) False
          (from_env env (o_EnvVar i) (e_ParseDuration env \<circ> appendDurationSuffix) (o_Default i)))) w"

definition PkgStringVar :: "'fl flagenv \<Rightarrow> nat \<Rightarrow> (string, 'c) opts \<Rightarrow> ('fl, 'c) sets \<Rightarrow> ('fl, 'c, unit) presult" where
  "PkgStringVar env k i w =
     add_flag k i (o_Usage i) (o_Default i)
       (StringVal (new_val (o_Hidden i) (o_SetHook i)
          (from_env env (o_EnvVar i) (Inr :: string \<Rightarrow> num_error + string) (o_Default i)))) w"

definition list_from_env :: "'fl flagenv \<Rightarrow> string \<Rightarrow> string list option \<Rightarrow> string list option" where
  "list_from_env env key d =
     (case e_LookupEnv env key of None \<Rightarrow> d | Some v \<Rightarrow> Some (map TrimSpace (split_on CHR '','' v)))"

definition StringSliceVar ::
  "'fl flagenv \<Rightarrow> nat \<Rightarrow> (string list option, 'c) opts \<Rightarrow> ('fl, 'c) sets \<Rightarrow> ('fl, 'c, unit) presult" where
  "StringSliceVar env k i w =
     add_flag k i (o_Usage i) (case o_Default i of None \<Rightarrow> [] | Some d \<Rightarrow> join_with '','' d)
       (StringSliceVal \<lparr>v_target = list_from_env env (o_EnvVar i) (o_Default i), v_hidden = o_Hidden i,
          v_SetHook = False, v_calls = [], v_set = False\<rparr>) w"

text \<open>\<open>strings.TrimRight\<close> with the cut set of a full stop, a space and a tab; then the possible values.\<close>

definition enum_usage :: "string \<Rightarrow> string list \<Rightarrow> string" where
  "enum_usage usage values =
     rev (dropWhile (\<lambda>c. c \<in> {CHR ''.'', CHR '' '', CHR 0x09}) (rev usage))
     @ ''. One possible value from: '' @ join_with '', '' values @ ''.''"

definition EnumVar ::
  "'fl flagenv \<Rightarrow> nat \<Rightarrow> string list \<Rightarrow> (string list option, 'c) opts \<Rightarrow> ('fl, 'c) sets \<Rightarrow> ('fl, 'c, unit) presult" where
  "EnumVar env k values i w =
     add_flag k i (enum_usage (o_Usage i) values) (case o_Default i of None \<Rightarrow> [] | Some d \<Rightarrow> join_with '','' d)
       (EnumVal values (new_val (o_Hidden i) False (list_from_env env (o_EnvVar i) (o_Default i)))) w"

definition EnumSingleVar ::
  "'fl flagenv \<Rightarrow> nat \<Rightarrow> string list \<Rightarrow> (string, 'c) opts \<Rightarrow> ('fl, 'c) sets \<Rightarrow> ('fl, 'c, unit) presult" where
  "EnumSingleVar env k values i w =
     add_flag k i (enum_usage (o_Usage i) values) (o_Default i)
       (EnumSingleVal values (new_val (o_Hidden i) (o_SetHook i)
          (from_env env (o_EnvVar i) (Inr :: string \<Rightarrow> num_error + string) (o_Default i)))) w"

definition StringMapVar ::
  "nat \<Rightarrow> ((string \<times> string) list option, 'c) opts \<Rightarrow> ('fl, 'c) sets \<Rightarrow> ('fl, 'c, unit) presult" where
  "StringMapVar k i w =
     add_flag k (i\<lparr>o_EnvVar := []\<rparr>) (o_Usage i) (case o_Default i of None \<Rightarrow> [] | Some m \<Rightarrow> mapToKV m)
       (StringMapVal (new_val (o_Hidden i) False (o_Default i))) w"

section \<open>Parsing\<close>

text \<open>\<open>FlagSet.Parse\<close> of the standard library on the union set.\<close>

definition set_flag :: "'fl flagenv \<Rightarrow> string \<Rightarrow> nat \<Rightarrow> string \<Rightarrow> ('fl, 'c) sets \<Rightarrow> ('fl, 'c, unit) presult" where
  "set_flag env name x s w =
     bind_o (relabel (\<lambda>v. w\<lparr>ss_values := (ss_values w)[x := v]\<rparr>) (fval_Set env s (ss_values w ! x)))
       (\<lambda>w _. Ret (w\<lparr>ss_actual := ss_actual w @ [name]\<rparr>) ())"

definition dashes :: "string \<Rightarrow> nat" where
  "dashes s = (if length s < 2 \<or> s ! 0 \<noteq> CHR ''-'' then 0 else if s ! 1 = CHR ''-'' then 2 else 1)"

fun union_Parse :: "'fl flagenv \<Rightarrow> string list \<Rightarrow> ('fl, 'c) sets \<Rightarrow> ('fl, 'c, unit) presult" where
  "union_Parse env [] w = Ret (w\<lparr>ss_args := []\<rparr>) ()"
| "union_Parse env (s # rest) w =
     (if dashes s = 0 then Ret (w\<lparr>ss_args := s # rest\<rparr>) ()
      else if s = ''--'' then Ret (w\<lparr>ss_args := rest\<rparr>) ()
      else
        (let n = drop (dashes s) s in
         if n = [] \<or> hd n = CHR ''-'' \<or> hd n = CHR ''='' then Fail w (ErrOther ''bad flag syntax'')
         else
           (let (name, given) = (case split2 CHR ''='' n of None \<Rightarrow> (n, None) | Some (a, b) \<Rightarrow> (a, Some b)) in
            case map_of (ss_union w) name of
              None \<Rightarrow> Fail w (ErrOther ''flag provided but not defined'')
            | Some (x, _) \<Rightarrow>
                if IsBoolFlag (ss_values w ! x) then
                  bind_o (set_flag env name x (case given of None \<Rightarrow> ''true'' | Some v \<Rightarrow> v) w)
                    (\<lambda>w _. union_Parse env rest w)
                else
                  (case given of
                     Some v \<Rightarrow> bind_o (set_flag env name x v w) (\<lambda>w _. union_Parse env rest w)
                   | None \<Rightarrow>
                       (case rest of
                          [] \<Rightarrow> Fail w (ErrOther ''flag needs an argument'')
                        | v # rest' \<Rightarrow>
                            bind_o (set_flag env name x v w) (\<lambda>w _. union_Parse env rest' w))))))"

section \<open>Help\<close>

text \<open>The help of the visible flags of one set; \<open>wrap\<close> removes white space and wraps the usage.\<close>

definition printFlagDetail :: "(string \<Rightarrow> string) \<Rightarrow> 'fl fval \<Rightarrow> string \<Rightarrow> string \<Rightarrow> string" where
  "printFlagDetail wrap v name usage =
     (if fval_Hidden v then []
      else ''  -'' @ name @ (if fval_Example v \<noteq> [] then ''=<'' @ fval_Example v @ ''>'' else [])
             @ [CHR 0x0A] @ wrap usage @ [CHR 0x0A, CHR 0x0A])"

definition wrapAtLengthWithPadding :: "(string \<Rightarrow> nat \<Rightarrow> string) \<Rightarrow> string \<Rightarrow> nat \<Rightarrow> string" where
  "wrapAtLengthWithPadding Wrap s pad =
     join_with [CHR 0x0A] (map (\<lambda>l. replicate pad (CHR '' '') @ l) (split_on (CHR 0x0A) (Wrap s (78 - pad))))"

definition set_help :: "(string \<Rightarrow> string) \<Rightarrow> ('fl, 'c) sets \<Rightarrow> 'c pset \<Rightarrow> string" where
  "set_help wrap w s =
     st_name s @ '':'' @ [CHR 0x0A, CHR 0x0A]
     @ concat (map (\<lambda>(n, x, u). printFlagDetail wrap (ss_values w ! x) n u) (sort_key fst (st_flags s)))"

definition Help :: "(string \<Rightarrow> string) \<Rightarrow> ('fl, 'c) sets \<Rightarrow> string" where
  "Help wrap w = rev (dropWhile (\<lambda>c. c = CHR 0x0A) (rev (concat (map (set_help wrap w) (ss_sets w)))))"

end
