(* ===== verification/PkgFlagClaims.thy ===== *)
theory PkgFlagClaims
  imports PkgFlagSet
begin

text \<open>
  The properties of \<open>internal/pkg/flag\<close>: what the sets hold after any registration, which command lines
  reach which value, and what setting a value does when it fails.
\<close>

section \<open>Registration\<close>

text \<open>
  A name that can stand on a command line; the names of the set that is parsed are different, and it
  holds every flag of every group with the same value.
\<close>

definition good_name :: "string \<Rightarrow> bool" where
  "good_name n \<longleftrightarrow> \<not> HasPrefix n ''-'' \<and> CHR ''='' \<notin> set n"

definition pset_ok :: "flagset \<Rightarrow> 'c pset \<Rightarrow> bool" where
  "pset_ok fs s \<longleftrightarrow> distinct (map fst (st_flags s)) \<and> set (st_flags s) \<subseteq> set fs"

definition sets_ok :: "('fl, 'c) sets \<Rightarrow> bool" where
  "sets_ok w \<longleftrightarrow>
     distinct (map fst (ss_union w)) \<and> (\<forall>f \<in> set (ss_union w). good_name (fst f)) \<and>
     (\<forall>s \<in> set (ss_sets w). pset_ok (ss_union w) s)"

text \<open>How the union set may grow: flags are only appended.\<close>

definition grows :: "('fl, 'c) sets \<Rightarrow> ('fl, 'c) sets \<Rightarrow> bool" where
  "grows w w' \<longleftrightarrow> (\<exists>fs. ss_union w' = ss_union w @ fs) \<and> ss_values w' = ss_values w \<and> (sets_ok w \<longrightarrow> sets_ok w')
     \<and> length (ss_sets w) \<le> length (ss_sets w')"

interpretation registration: step_relation grows
  by unfold_locales (auto simp: grows_def)

lemma upd_pset_all:
  assumes "\<forall>s \<in> set (ss_sets w). P s" and "\<And>s. P s \<Longrightarrow> P (f s)"
  shows "\<forall>s \<in> set (ss_sets (upd_pset k f w)). P s"
  using assms by (cases "k < length (ss_sets w)")
    (auto simp: upd_pset_def list_update_beyond dest!: subsetD[OF set_update_subset_insert])

lemma upd_pset_simps [simp]:
  "ss_union (upd_pset k f w) = ss_union w" "ss_values (upd_pset k f w) = ss_values w"
  "ss_completions (upd_pset k f w) = ss_completions w" "length (ss_sets (upd_pset k f w)) = length (ss_sets w)"
  by (simp_all add: upd_pset_def)

lemma upd_pset_nth [simp]: "k < length (ss_sets w) \<Longrightarrow> ss_sets (upd_pset k f w) ! k = f (ss_sets w ! k)"
  by (simp add: upd_pset_def)

lemma union_Var_keeps: "keeps (grows w) (union_Var x n u w)"
  by (auto simp: union_Var_def grows_def sets_ok_def pset_ok_def bad_name_def good_name_def)

text \<open>The one place where a group changes: the flag was just put into the union.\<close>

lemma set_Var_ok:
  assumes "sets_ok w" and "(n, x, u) \<in> set (ss_union w)" and "set_Var k x n u w = Ret w' a"
  shows "sets_ok w'"
proof -
  have w': "w' = upd_pset k (\<lambda>s. s\<lparr>st_flags := st_flags s @ [(n, x, u)]\<rparr>) w"
    and new: "n \<notin> fst ` set (st_flags (ss_sets w ! k))"
    using assms(3) by (auto simp: set_Var_def bad_name_def split: if_splits)
  have "pset_ok (ss_union w) (f1\<lparr>st_flags := st_flags f1 @ [(n, x, u)]\<rparr>)"
    if "pset_ok (ss_union w) f1" "n \<notin> fst ` set (st_flags f1)" for f1 :: "'b pset"
    using that assms(2) by (simp add: pset_ok_def)
  then have "\<forall>s \<in> set (ss_sets w'). pset_ok (ss_union w) s"
    using assms(1) new by (cases "k < length (ss_sets w)")
      (auto simp: w' sets_ok_def upd_pset_def list_update_beyond dest!: subsetD[OF set_update_subset_insert])
  then show ?thesis using assms(1) by (simp add: sets_ok_def w')
qed

lemma Set_Var_keeps: "keeps (grows w) (Set_Var k x n u w)"
proof (cases "Set_Var k x n u w")
  case (Ret w2 a)
  then obtain w1 where 1: "union_Var x n u w = Ret w1 ()" and 2: "set_Var k x n u w1 = Ret w2 a"
    by (auto simp: Set_Var_def bind_o_Ret_iff)
  have g: "grows w w1" using union_Var_keeps[of w x n u] 1 by simp
  have "(n, x, u) \<in> set (ss_union w1)" using 1 by (auto simp: union_Var_def split: if_splits)
  then have "sets_ok w1 \<longrightarrow> sets_ok w2" using set_Var_ok 2 by blast
  moreover have "ss_union w2 = ss_union w1" "ss_values w2 = ss_values w1" "length (ss_sets w2) = length (ss_sets w1)"
    using 2 by (auto simp: set_Var_def split: if_splits)
  ultimately show ?thesis using g Ret by (auto simp: grows_def)
qed (auto simp: Set_Var_def union_Var_def set_Var_def split: if_splits)

lemma add_aliases_keeps: "keeps (grows w) (add_aliases x as w)"
  by (induction as arbitrary: w)
    (auto simp: registration.R_refl intro!: registration.keeps_bind[OF union_Var_keeps])

lemma grows_completions: "grows w (w'\<lparr>ss_completions := c\<rparr>) = grows w w'"
  by (simp add: grows_def sets_ok_def)

lemma grows_vars: "grows w (upd_pset k (\<lambda>s. s\<lparr>st_vars := v s\<rparr>) w)"
proof -
  have "\<forall>s \<in> set (ss_sets (upd_pset k (\<lambda>s. s\<lparr>st_vars := v s\<rparr>) w)). pset_ok (ss_union w) s" if "sets_ok w"
  proof (rule upd_pset_all)
    show "\<forall>s \<in> set (ss_sets w). pset_ok (ss_union w) s" using that by (simp add: sets_ok_def)
  qed (simp add: pset_ok_def)
  then show ?thesis by (simp add: grows_def sets_ok_def)
qed

lemma VarFlag_keeps: "keeps (grows w) (VarFlag k i w)"
  unfolding VarFlag_def Let_def
  by (rule registration.keeps_after[OF grows_vars])
    (auto simp: Set_Var_keeps grows_completions registration.R_refl
      intro!: registration.keeps_bind[OF add_aliases_keeps] registration.keeps_bind[OF Set_Var_keeps])

lemma NewSet_grows: "grows w (fst (Sets_NewSet name w))"
  by (auto simp: grows_def sets_ok_def pset_ok_def Sets_NewSet_def)

lemma var_flags_keeps: "keeps (grows w) (var_flags k is w)"
  by (induction "is" arbitrary: w) (auto simp: registration.R_refl intro!: registration.keeps_bind[OF VarFlag_keeps])

lemma AddSet_keeps: "keeps (grows w) (AddSet s w)"
  using NewSet_grows[of w "st_name s"]
  by (auto simp: AddSet_def Sets_NewSet_def intro!: registration.keeps_after[OF _ var_flags_keeps])

text \<open>
  The sets a program can build: any sequence of new groups, of flags (each constructor makes a value object
  and a flag for it) and of added groups.
\<close>

inductive built :: "('fl, 'c) sets \<Rightarrow> bool" where
  built_new: "built NewSets"
| built_group: "built w \<Longrightarrow> built (fst (Sets_NewSet name w))"
| built_flag: "built w \<Longrightarrow> VarFlag k i (w\<lparr>ss_values := ss_values w @ vs\<rparr>) = Ret w' () \<Longrightarrow> built w'"
| built_added: "built w \<Longrightarrow> AddSet s w = Ret w' () \<Longrightarrow> built w'"

lemma built_sets_ok: "built w \<Longrightarrow> sets_ok w"
proof (induction rule: built.induct)
  case built_new
  show ?case by (simp add: sets_ok_def NewSets_def)
next
  case (built_group w name)
  then show ?case using NewSet_grows[of w name] by (simp add: grows_def)
next
  case (built_flag w k i vs w')
  have "sets_ok (w\<lparr>ss_values := ss_values w @ vs\<rparr>)" using built_flag.IH by (simp add: sets_ok_def)
  then show ?case using built_flag.hyps(2) VarFlag_keeps[of "w\<lparr>ss_values := ss_values w @ vs\<rparr>" k i]
    by (simp add: grows_def)
next
  case (built_added w s w')
  then show ?case using AddSet_keeps[of w s] by (simp add: grows_def)
qed

section \<open>Names and values\<close>

lemma union_Var_map_of:
  "union_Var x n u w = Ret w' a \<Longrightarrow> map_of (ss_union w') = (map_of (ss_union w))(n \<mapsto> (x, u))"
  by (auto simp: union_Var_def bad_name_def map_add_def map_of_eq_None_iff[symmetric] fun_eq_iff
      split: if_splits option.splits)

lemma set_Var_union: "set_Var k x n u w = Ret w' a \<Longrightarrow> ss_union w' = ss_union w"
  by (auto simp: set_Var_def split: if_splits)

lemma add_aliases_map_of:
  "add_aliases x as w = Ret w' a \<Longrightarrow>
     map_of (ss_union w') n = (if n \<in> set as then Some (x, []) else map_of (ss_union w) n)"
  by (induction as arbitrary: w) (auto simp: bind_o_Ret_iff dest!: union_Var_map_of)

lemma Set_Var_map_of:
  "Set_Var k x n u w = Ret w' a \<Longrightarrow> map_of (ss_union w') = (map_of (ss_union w))(n \<mapsto> (x, u))"
  by (auto simp: Set_Var_def bind_o_Ret_iff dest!: union_Var_map_of set_Var_union)

text \<open>After a flag is registered its name leads to its value, and so does every alias when the flag is
  visible; the aliases of a hidden flag lead nowhere new, and every other name leads where it led.\<close>

theorem registered_names:
  assumes "VarFlag k i w = Ret w' ()"
  shows "map_of (ss_union w') n =
    (let hidden = fval_Hidden (ss_values w ! vf_Value i) in
     if n = vf_Name i then Some (vf_Value i, if hidden then [] else full_usage i)
     else if \<not> hidden \<and> n \<in> set (vf_Aliases i) then Some (vf_Value i, [])
     else map_of (ss_union w) n)"
  using assms
  by (auto simp: VarFlag_def Let_def bind_o_Ret_iff add_aliases_map_of split: if_splits dest!: Set_Var_map_of)

text \<open>A visible flag with an alias and a hidden one, as a program makes them.\<close>

definition no_env :: "int flagenv" where
  "no_env = \<lparr>e_LookupEnv = (\<lambda>_. None), e_ParseFloat = ParseInt 0, e_FormatFloat = FormatInt, e_isZero = (\<lambda>x. x = 0),
     e_ParseDuration = (\<lambda>s. ParseInt 10 (butlast s)), e_DurationString = (\<lambda>d. FormatInt d @ ''s'')\<rparr>"

definition one_group :: "(int, unit) sets" where
  "one_group = fst (Sets_NewSet ''Options'' NewSets)"

definition level_flag :: "unit varflag" where
  "level_flag = \<lparr>vf_Name = ''level'', vf_Aliases = [''l''], vf_Usage = ''Level.'', vf_Default = ''3'', vf_EnvVar = ''LEVEL'',
     vf_Value = 0, vf_Completion = ()\<rparr>"

definition level_sets :: "bool \<Rightarrow> (int, unit) sets" where
  "level_sets hidden = left_by (VarFlag 0 level_flag (one_group\<lparr>ss_values := [IntVal (new_val hidden False 3)]\<rparr>)) one_group"

lemma level_sets_made:
  "VarFlag 0 level_flag (one_group\<lparr>ss_values := [IntVal (new_val True False 3)]\<rparr>) = Ret (level_sets True) ()"
  "VarFlag 0 level_flag (one_group\<lparr>ss_values := [IntVal (new_val False False 3)]\<rparr>) = Ret (level_sets False) ()"
  by code_simp+

lemma registered_names_witness:
  "map_of (ss_union (level_sets False)) ''l'' = Some (0, []) \<and> map_of (ss_union (level_sets True)) ''l'' = None"
  using registered_names[OF level_sets_made(2), of "''l''"] registered_names[OF level_sets_made(1), of "''l''"]
  by (simp add: level_flag_def one_group_def Sets_NewSet_def NewSets_def new_val_def)

section \<open>Command lines\<close>

text \<open>What a command line of assignments is meant to do: each named value is set, in order.\<close>

fun set_all :: "'fl flagenv \<Rightarrow> (bool \<times> string \<times> string) list \<Rightarrow> ('fl, 'c) sets \<Rightarrow> ('fl, 'c, unit) presult" where
  "set_all env [] w = Ret w ()"
| "set_all env ((two, n, v) # as) w =
     bind_o (set_flag env n (fst (the (map_of (ss_union w) n))) v w) (\<lambda>w _. set_all env as w)"

definition rendered :: "bool \<times> string \<times> string \<Rightarrow> string" where
  "rendered a = (case a of (two, n, v) \<Rightarrow> (if two then ''--'' else ''-'') @ n @ CHR ''='' # v)"

lemma set_flag_union: "set_flag env n x v w = Ret w' a \<Longrightarrow> ss_union w' = ss_union w"
  by (cases "fval_Set env v (ss_values w ! x)") (auto simp: set_flag_def relabel_def)

lemma parse_rendered:
  assumes "n \<noteq> []" and "good_name n" and "map_of (ss_union w) n = Some xu"
  shows "union_Parse env (rendered (two, n, v) # rest) w =
    bind_o (set_flag env n (fst xu) v w) (\<lambda>w _. union_Parse env rest w)"
proof -
  obtain c m where n: "n = c # m" and c: "c \<noteq> CHR ''-''" "c \<noteq> CHR ''=''" and m: "CHR ''='' \<notin> set n"
    using assms(1,2) by (cases n) (auto simp: good_name_def)
  have d: "dashes (rendered (two, n, v)) = (if two then 2 else 1)"
    and r: "drop (if two then 2 else 1) (rendered (two, n, v)) = n @ CHR ''='' # v"
    and nd: "rendered (two, n, v) \<noteq> ''--''"
    using c by (auto simp: dashes_def rendered_def n)
  show ?thesis
    using c assms(3) by (cases xu) (simp add: d r nd Let_def split2_append[OF m] n[symmetric], simp add: n)
qed

lemma union_Parse_rest: "union_Parse env (''--'' # rest) w = Ret (w\<lparr>ss_args := rest\<rparr>) ()"
  by (simp add: dashes_def)


lemma one_group_values: "ss_values one_group @ [v] = [v]"
  by (simp add: one_group_def Sets_NewSet_def NewSets_def)

lemma level_sets_built: "built (level_sets hidden)"
proof (cases hidden)
  case True
  then have h: "hidden = True" by simp
  show ?thesis
    by (rule built_flag[OF built_group[OF built_new], of 0 level_flag "''Options''" "[IntVal (new_val True False 3)]"])
      (simp only: h one_group_values[unfolded one_group_def] level_sets_made[unfolded one_group_def])
next
  case False
  then have h: "hidden = False" by simp
  show ?thesis
    by (rule built_flag[OF built_group[OF built_new], of 0 level_flag "''Options''" "[IntVal (new_val False False 3)]"])
      (simp only: h one_group_values[unfolded one_group_def] level_sets_made[unfolded one_group_def])
qed

lemma level_sets_parts:
  "ss_union (level_sets False) = [(''l'', 0, []), (''level'', 0, full_usage level_flag)]"
  "ss_values (level_sets False) = [IntVal (new_val False False 3)]" "ss_actual (level_sets False) = []"
  by (simp_all add: level_sets_def VarFlag_def level_flag_def one_group_def Sets_NewSet_def NewSets_def new_val_def
      Set_Var_def union_Var_def set_Var_def bad_name_def left_by_def upd_pset_def)

lemma read_examples: "ParseInt 0 ''5'' = Inr 5" "ParseInt 0 ''0x10'' = Inr 16"
  by (simp_all add: ParseInt_def ParseUint_def digit_val_def lower_def Let_def)

definition two_assignments :: "(bool \<times> string \<times> string) list" where
  "two_assignments = [(True, ''level'', ''5''), (False, ''l'', ''0x10'')]"


section \<open>Values\<close>

text \<open>A boolean, integer or string value that is set to what another one prints holds the other's value, and
  the hook, when there is one, is called with it.\<close>

theorem printed_values_are_read:
  "boolValue_Set (boolValue_String b) v1 = Ret (put (v_target b) v1) () \<and>
   intValue_Set (intValue_String i) v2 = Ret (put (v_target i) v2) () \<and>
   int64Value_Set (int64Value_String j) v3 = Ret (put (v_target j) v3) () \<and>
   uintValue_Set (uintValue_String m) v4 = Ret (put (v_target m) v4) () \<and>
   uint64Value_Set (uint64Value_String n) v5 = Ret (put (v_target n) v5) () \<and>
   stringValue_Set (stringValue_String s) v6 = Ret (put (v_target s) v6) ()"
  by (intro conjI bools.set_str ints.set_str int64s.set_str uints.set_str uint64s.set_str strings.set_str)

definition after_parts :: "string list \<Rightarrow> string list option val \<Rightarrow> string list option val" where
  "after_parts good v = (if good = [] then v else v\<lparr>v_target := Some (elems (v_target v) @ good)\<rparr>)"

lemma enum_parts_result:
  "enum_parts values ps v =
    (let good = takeWhile (\<lambda>p. p \<in> set values) (map TrimSpace ps) in
     if length good = length ps then Ret (after_parts good v) ()
     else Fail (after_parts good v) (ErrNotValid (map TrimSpace ps ! length good) values))"
proof (induction ps arbitrary: v)
  case (Cons p ps)
  show ?case
  proof (cases "TrimSpace p \<in> set values")
    case True
    have "after_parts good (v\<lparr>v_target := appended_to (v_target v) (TrimSpace p)\<rparr>) = after_parts (TrimSpace p # good) v" for good
      by (cases v) (auto simp: after_parts_def appended_to_def elems_def split: option.split)
    with True show ?thesis by (simp add: Cons.IH Let_def)
  qed (simp add: after_parts_def Let_def)
qed (simp add: after_parts_def)

text \<open>Setting an enum value to a list of words appends the trimmed words up to the first one that is not
  allowed, and fails exactly when there is one, naming it: a failed set leaves the words before it.\<close>

theorem enum_set_result:
  "enumValue_Set values s v =
    (let words = map TrimSpace (split_on CHR '','' s); good = takeWhile (\<lambda>p. p \<in> set values) words in
     if length good = length words then Ret (after_parts good v) ()
     else Fail (after_parts good v) (ErrNotValid (words ! length good) values))"
  by (simp add: enumValue_Set_def enum_parts_result Let_def)

end
