(* ===== verification/RunnerUI.thy ===== *)
theory RunnerUI
  imports Prelude StateErrors "HOL-Library.Word" "HOL-Library.AList"
begin

text \<open>
  The terminal of a job. A runner executes a job with the user interface of \<open>internal/runner/ui.go\<close>: each call
  becomes an event that is sent to the server. The client that follows the job turns the events into calls on
  its own user interface (\<open>internal/client/job.go\<close>). Both sides are here, as functions on the calls and events.

  The arguments of a call are what \<open>terminal.Interpret\<close> and \<open>fmt.Sprintf\<close> make of those in the program.
  \<open>abort\<close> is the constant \<open>terminal.StatusAbort\<close>.
\<close>

section \<open>Events\<close>

datatype term_event =
    LineEv string string bool string
  | StatusEv string string bool
  | NamedValuesEv "(string \<times> string) list"
  | RawEv string bool
  | TableEv "string list" "(string \<times> string) list list"
  | StepGroupEv bool
  | StepEv "32 word" bool string string string

text \<open>The fields of a step event: id, close, message, status, output.\<close>

section \<open>The user interface of a runner\<close>

text \<open>A pipe holds the bytes that are written and not yet read by its sending goroutine. A step has a pipe
  (\<open>None\<close> before \<open>TermOutput\<close>), and is done at most once.\<close>

record rstep =
  rs_done :: bool
  rs_pipe :: "string option"

record rgroup =
  g_steps :: "rstep list"
  g_wg :: nat
  g_done :: bool

record rui =
  u_open :: bool
  u_done :: bool
  u_pipes :: "(string \<times> string) option"
  u_groups :: "rgroup list"
  u_sent :: "term_event list"

type_synonym 'a uresult = "(rui, unit, 'a) outcome"

definition new_ui :: rui where
  "new_ui = \<lparr>u_open = True, u_done = False, u_pipes = None, u_groups = [], u_sent = []\<rparr>"

text \<open>Most methods check the connection first; those of a group do not.\<close>

definition send_open :: "term_event \<Rightarrow> rui \<Rightarrow> rui" where
  "send_open ev u = (if u_open u then u\<lparr>u_sent := u_sent u @ [ev]\<rparr> else u)"

definition send_evc :: "term_event \<Rightarrow> rui \<Rightarrow> unit uresult" where
  "send_evc ev u = (if u_open u then Ret (send_open ev u) () else Crash ''nil pointer dereference'')"

definition UI_Close :: "rui \<Rightarrow> rui" where
  "UI_Close u = u\<lparr>u_open := False, u_done := True\<rparr>"

definition UI_Output :: "string \<Rightarrow> string \<Rightarrow> bool \<Rightarrow> string \<Rightarrow> rui \<Rightarrow> rui" where
  "UI_Output msg style disableNewline color = send_open (LineEv msg style disableNewline color)"

definition UI_NamedValues :: "(string \<times> string) list \<Rightarrow> rui \<Rightarrow> rui" where
  "UI_NamedValues values = send_open (NamedValuesEv values)"

text \<open>The message of a table is a nil pointer when its headers are set.\<close>

definition UI_Table :: "string list \<Rightarrow> (string \<times> string) list list \<Rightarrow> rui \<Rightarrow> unit uresult" where
  "UI_Table headers rows u = Crash ''nil pointer dereference''"

definition Status_Update :: "string \<Rightarrow> rui \<Rightarrow> rui" where
  "Status_Update msg = send_open (StatusEv [] msg False)"

definition Status_Step :: "string \<Rightarrow> string \<Rightarrow> rui \<Rightarrow> rui" where
  "Status_Step status msg = send_open (StatusEv status msg True)"

definition Status_Close :: "rui \<Rightarrow> rui" where
  "Status_Close = send_open (StatusEv [] [] False)"

text \<open>\<open>OutputWriters\<close> makes the pipes once; a write to a closed pipe fails and is lost.\<close>

definition pipes_of :: "rui \<Rightarrow> string \<times> string" where
  "pipes_of u = (case u_pipes u of None \<Rightarrow> ([], []) | Some p \<Rightarrow> p)"

definition OutputWriters :: "rui \<Rightarrow> rui" where
  "OutputWriters u = u\<lparr>u_pipes := Some (pipes_of u)\<rparr>"

definition write_pipe :: "bool \<Rightarrow> string \<Rightarrow> rui \<Rightarrow> rui" where
  "write_pipe err data u =
     (let u1 = OutputWriters u; (out, er) = pipes_of u1 in
      if u_done u1 then u1
      else u1\<lparr>u_pipes := Some (if err then (out, er @ data) else (out @ data, er))\<rparr>)"

text \<open>One round of \<open>sendData\<close>: a read of at most 1024 bytes (\<open>n\<close> is what the system gives) and its event.
  Nothing happens while there is nothing to read, and after the end of the goroutine.\<close>

definition read_size :: "nat \<Rightarrow> string \<Rightarrow> nat" where
  "read_size n s = min (max 1 n) (min 1024 (length s))"

definition sendData :: "bool \<Rightarrow> nat \<Rightarrow> rui \<Rightarrow> rui" where
  "sendData err n u =
     (let (out, er) = pipes_of u; s = (if err then er else out); k = read_size n s in
      if u_done u \<or> \<not> u_open u \<or> s = [] then u
      else send_open (RawEv (take k s) err)
             (u\<lparr>u_pipes := Some (if err then (out, drop k er) else (drop k out, er))\<rparr>))"

section \<open>Step groups of a runner\<close>

definition upd_group :: "nat \<Rightarrow> (rgroup \<Rightarrow> rgroup) \<Rightarrow> rui \<Rightarrow> rui" where
  "upd_group g f u = u\<lparr>u_groups := (u_groups u)[g := f (u_groups u ! g)]\<rparr>"

definition upd_step :: "nat \<Rightarrow> nat \<Rightarrow> (rstep \<Rightarrow> rstep) \<Rightarrow> rui \<Rightarrow> rui" where
  "upd_step g i f = upd_group g (\<lambda>x. x\<lparr>g_steps := (g_steps x)[i := f (g_steps x ! i)]\<rparr>)"

definition the_step :: "nat \<Rightarrow> nat \<Rightarrow> rui \<Rightarrow> rstep" where
  "the_step g i u = g_steps (u_groups u ! g) ! i"

definition UI_StepGroup :: "rui \<Rightarrow> unit uresult" where
  "UI_StepGroup u =
     bind_o (send_evc (StepGroupEv False) u) (\<lambda>u _.
       Ret (u\<lparr>u_groups := u_groups u @ [\<lparr>g_steps = [], g_wg = 0, g_done = False\<rparr>]\<rparr>) ())"

definition SG_Add :: "nat \<Rightarrow> string \<Rightarrow> rui \<Rightarrow> unit uresult" where
  "SG_Add g msg u =
     (let i = length (g_steps (u_groups u ! g)) in
      send_evc (StepEv (word_of_nat i) False msg [] [])
        (upd_group g (\<lambda>x. x\<lparr>g_wg := g_wg x + 1, g_steps := g_steps x @ [\<lparr>rs_done = False, rs_pipe = None\<rparr>]\<rparr>) u))"

text \<open>\<open>Wait\<close> returns when all steps are done; the result says whether it has returned.\<close>

definition SG_Wait :: "nat \<Rightarrow> rui \<Rightarrow> bool uresult" where
  "SG_Wait g u =
     (if g_wg (u_groups u ! g) \<noteq> 0 then Ret u False
      else bind_o (send_evc (StepGroupEv True) (upd_group g (\<lambda>x. x\<lparr>g_done := True\<rparr>) u)) (\<lambda>u _. Ret u True))"

definition Step_write :: "nat \<Rightarrow> nat \<Rightarrow> string \<Rightarrow> rui \<Rightarrow> rui" where
  "Step_write g i data u =
     (if u_done u \<or> g_done (u_groups u ! g) then u
      else upd_step g i (\<lambda>x. x\<lparr>rs_pipe := Some ((case rs_pipe x of None \<Rightarrow> [] | Some s \<Rightarrow> s) @ data)\<rparr>) u)"

definition Step_sendData :: "nat \<Rightarrow> nat \<Rightarrow> nat \<Rightarrow> rui \<Rightarrow> rui" where
  "Step_sendData g i n u =
     (case rs_pipe (the_step g i u) of
        None \<Rightarrow> u
      | Some s \<Rightarrow>
          if u_done u \<or> g_done (u_groups u ! g) \<or> \<not> u_open u \<or> s = [] then u
          else send_open (StepEv (word_of_nat i) False [] [] (take (read_size n s) s))
                 (upd_step g i (\<lambda>x. x\<lparr>rs_pipe := Some (drop (read_size n s) s)\<rparr>) u))"

definition Step_Update :: "nat \<Rightarrow> string \<Rightarrow> rui \<Rightarrow> rui" where
  "Step_Update i msg = send_open (StepEv (word_of_nat i) False msg [] [])"

definition Step_Status :: "nat \<Rightarrow> string \<Rightarrow> rui \<Rightarrow> rui" where
  "Step_Status i status = send_open (StepEv (word_of_nat i) False [] status [])"

definition finish_step :: "nat \<Rightarrow> nat \<Rightarrow> term_event \<Rightarrow> rui \<Rightarrow> rui" where
  "finish_step g i ev u =
     (if rs_done (the_step g i u) then u
      else upd_group g (\<lambda>x. x\<lparr>g_wg := g_wg x - 1\<rparr>)
             (send_open ev (upd_step g i (\<lambda>x. x\<lparr>rs_done := True\<rparr>) u)))"

definition Step_Done :: "nat \<Rightarrow> nat \<Rightarrow> rui \<Rightarrow> rui" where
  "Step_Done g i = finish_step g i (StepEv (word_of_nat i) True [] [] [])"

definition Step_Abort :: "string \<Rightarrow> nat \<Rightarrow> nat \<Rightarrow> rui \<Rightarrow> rui" where
  "Step_Abort abort g i = finish_step g i (StepEv (word_of_nat i) True [] abort [])"

section \<open>Runs of calls\<close>

text \<open>A call on a group or on a step names it by its position; a program holds only those it was given.\<close>

datatype ui_call =
    UOutput string string bool string
  | UNamedValues "(string \<times> string) list"
  | UTable "string list" "(string \<times> string) list list"
  | UStatusUpdate string
  | UStatusStep string string
  | UStatusClose
  | UWrite bool string
  | UPump bool nat
  | UStepGroup
  | UAdd nat string
  | UWait nat
  | UStepWrite nat nat string
  | UStepPump nat nat nat
  | UStepUpdate nat nat string
  | UStepStatus nat nat string
  | UStepDone nat nat
  | UStepAbort nat nat
  | UClose

fun call_ok :: "ui_call \<Rightarrow> rui \<Rightarrow> bool" where
  "call_ok (UAdd g _) u = (g < length (u_groups u))"
| "call_ok (UWait g) u = (g < length (u_groups u))"
| "call_ok (UStepWrite g i _) u = (g < length (u_groups u) \<and> i < length (g_steps (u_groups u ! g)))"
| "call_ok (UStepPump g i _) u = (g < length (u_groups u) \<and> i < length (g_steps (u_groups u ! g)))"
| "call_ok (UStepUpdate g i _) u = (g < length (u_groups u) \<and> i < length (g_steps (u_groups u ! g)))"
| "call_ok (UStepStatus g i _) u = (g < length (u_groups u) \<and> i < length (g_steps (u_groups u ! g)))"
| "call_ok (UStepDone g i) u = (g < length (u_groups u) \<and> i < length (g_steps (u_groups u ! g)))"
| "call_ok (UStepAbort g i) u = (g < length (u_groups u) \<and> i < length (g_steps (u_groups u ! g)))"
| "call_ok _ u = True"

fun ui_step :: "string \<Rightarrow> ui_call \<Rightarrow> rui \<Rightarrow> unit uresult" where
  "ui_step abort (UOutput m s d c) u = Ret (UI_Output m s d c u) ()"
| "ui_step abort (UNamedValues vs) u = Ret (UI_NamedValues vs u) ()"
| "ui_step abort (UTable hs rows) u = UI_Table hs rows u"
| "ui_step abort (UStatusUpdate m) u = Ret (Status_Update m u) ()"
| "ui_step abort (UStatusStep s m) u = Ret (Status_Step s m u) ()"
| "ui_step abort UStatusClose u = Ret (Status_Close u) ()"
| "ui_step abort (UWrite err data) u = Ret (write_pipe err data u) ()"
| "ui_step abort (UPump err n) u = Ret (sendData err n u) ()"
| "ui_step abort UStepGroup u = UI_StepGroup u"
| "ui_step abort (UAdd g m) u = SG_Add g m u"
| "ui_step abort (UWait g) u = bind_o (SG_Wait g u) (\<lambda>u _. Ret u ())"
| "ui_step abort (UStepWrite g i data) u = Ret (Step_write g i data u) ()"
| "ui_step abort (UStepPump g i n) u = Ret (Step_sendData g i n u) ()"
| "ui_step abort (UStepUpdate g i m) u = Ret (Step_Update i m u) ()"
| "ui_step abort (UStepStatus g i s) u = Ret (Step_Status i s u) ()"
| "ui_step abort (UStepDone g i) u = Ret (Step_Done g i u) ()"
| "ui_step abort (UStepAbort g i) u = Ret (Step_Abort abort g i u) ()"
| "ui_step abort UClose u = Ret (UI_Close u) ()"

fun ui_run :: "string \<Rightarrow> ui_call list \<Rightarrow> rui \<Rightarrow> unit uresult" where
  "ui_run abort [] u = Ret u ()"
| "ui_run abort (c # cs) u = bind_o (ui_step abort c u) (\<lambda>u _. ui_run abort cs u)"

section \<open>The client's side\<close>

text \<open>The calls of the client on its own user interface. A step is named by its position in the order of the
  \<open>Add\<close> calls.\<close>

datatype local_call =
    LOutput string string
  | LNamedValues "(string \<times> string) list"
  | LStatusOpen
  | LStatusUpdate string
  | LStatusStep string string
  | LStatusClose
  | LOutputWriters
  | LRaw bool string
  | LTable "string list" "(string \<times> string) list list"
  | LStepGroup
  | LWait
  | LAdd string
  | LUpdate nat string
  | LAbort nat
  | LStepStatus nat string
  | LTermOutput nat
  | LStepWrite nat string
  | LDone nat

record cview =
  ct_status :: bool
  ct_writers :: bool
  ct_group :: bool
  ct_steps :: "(32 word \<times> nat) list"
  ct_nsteps :: nat
  ct_outs :: "nat list"
  ct_calls :: "local_call list"

definition new_view :: cview where
  "new_view = \<lparr>ct_status = False, ct_writers = False, ct_group = False, ct_steps = [], ct_nsteps = 0, ct_outs = [],
     ct_calls = []\<rparr>"

definition say :: "local_call list \<Rightarrow> cview \<Rightarrow> cview" where
  "say cs v = v\<lparr>ct_calls := ct_calls v @ cs\<rparr>"

definition status_event :: "string \<Rightarrow> string \<Rightarrow> bool \<Rightarrow> cview \<Rightarrow> cview" where
  "status_event status msg stp v =
     (let v1 = (if ct_status v then v else say [LStatusOpen] (v\<lparr>ct_status := True\<rparr>)) in
      if msg = [] \<and> \<not> stp then say [LStatusClose] v1
      else if stp then say [LStatusStep status msg] v1
      else say [LStatusUpdate msg] v1)"

definition raw_event :: "goerr option \<Rightarrow> string \<Rightarrow> bool \<Rightarrow> cview \<Rightarrow> (cview, goerr, unit) outcome" where
  "raw_event werr data err v =
     (if ct_writers v then Ret (say [LRaw err data] v) ()
      else
        (let v1 = say [LOutputWriters] v in
         case werr of
           Some e \<Rightarrow> Fail v1 e
         | None \<Rightarrow> Ret (say [LRaw err data] (v1\<lparr>ct_writers := True\<rparr>)) ()))"

text \<open>The rows of a table are collected and then not added to it.\<close>

definition table_event :: "string list \<Rightarrow> (string \<times> string) list list \<Rightarrow> cview \<Rightarrow> cview" where
  "table_event headers rows = say [LTable headers []]"

definition step_group_event :: "bool \<Rightarrow> cview \<Rightarrow> cview" where
  "step_group_event close v =
     (let v1 = (if ct_group v then say [LWait] v else v) in
      if close then v1 else say [LStepGroup] (v1\<lparr>ct_group := True\<rparr>))"

definition find_step :: "32 word \<Rightarrow> string \<Rightarrow> cview \<Rightarrow> cview \<times> nat" where
  "find_step i msg v =
     (case map_of (ct_steps v) i of
        None \<Rightarrow>
          (say [LAdd msg] (v\<lparr>ct_steps := AList.update i (ct_nsteps v) (ct_steps v), ct_nsteps := ct_nsteps v + 1\<rparr>),
           ct_nsteps v)
      | Some k \<Rightarrow> (if msg \<noteq> [] then say [LUpdate k msg] v else v, k))"

definition step_status :: "string \<Rightarrow> nat \<Rightarrow> string \<Rightarrow> cview \<Rightarrow> cview" where
  "step_status abort k status v =
     (if status = [] then v else if status = abort then say [LAbort k] v else say [LStepStatus k status] v)"

definition step_output :: "nat \<Rightarrow> string \<Rightarrow> cview \<Rightarrow> cview" where
  "step_output k data v =
     (if data = [] then v
      else say [LStepWrite k data]
             (if k \<in> set (ct_outs v) then v else say [LTermOutput k] (v\<lparr>ct_outs := k # ct_outs v\<rparr>)))"

definition step_event ::
  "string \<Rightarrow> 32 word \<Rightarrow> bool \<Rightarrow> string \<Rightarrow> string \<Rightarrow> string \<Rightarrow> cview \<Rightarrow> cview" where
  "step_event abort i close msg status data v =
     (if \<not> ct_group v then v
      else
        (case find_step i msg v of
           (v1, k) \<Rightarrow>
             (let v2 = step_output k data (step_status abort k status v1) in
              if close then say [LDone k] v2 else v2)))"

fun client_event :: "string \<Rightarrow> goerr option \<Rightarrow> term_event \<Rightarrow> cview \<Rightarrow> (cview, goerr, unit) outcome" where
  "client_event abort werr (LineEv msg style d c) v = Ret (say [LOutput msg style] v) ()"
| "client_event abort werr (NamedValuesEv vs) v = Ret (say [LNamedValues vs] v) ()"
| "client_event abort werr (StatusEv s m st) v = Ret (status_event s m st v) ()"
| "client_event abort werr (RawEv data err) v = raw_event werr data err v"
| "client_event abort werr (TableEv hs rows) v = Ret (table_event hs rows v) ()"
| "client_event abort werr (StepGroupEv close) v = Ret (step_group_event close v) ()"
| "client_event abort werr (StepEv i close m s data) v = Ret (step_event abort i close m s data v) ()"

fun client_events :: "string \<Rightarrow> goerr option \<Rightarrow> term_event list \<Rightarrow> cview \<Rightarrow> (cview, goerr, unit) outcome" where
  "client_events abort werr [] v = Ret v ()"
| "client_events abort werr (e # es) v =
     bind_o (client_event abort werr e v) (\<lambda>v _. client_events abort werr es v)"

end
