(* ===== verification/ClientJob.thy ===== *)
theory ClientJob
  imports RunnerUI JobService
begin

text \<open>
  \<open>internal/client/job.go\<close>: a client queues a job and follows its stream. The events of the terminal are handled
  by \<open>client_events\<close> of \<open>RunnerUI\<close>; here are the loop over the messages of the stream, the timer that tells the
  user that a job still waits, and what happens around it for a client with a local runner.
\<close>

section \<open>Messages and the state of the loop\<close>

datatype client_in =
    CRecv "term_event client_out"
  | CRecvError "goerr option"
  | CRecvUnknown
  | CRecvNil
  | CRecvFails goerr
  | CTimer

text \<open>The constants of the terminal library and the result of \<open>ui.OutputWriters\<close>.\<close>

record cenv =
  ce_abort :: string
  ce_writers :: "goerr option"
  ce_header :: string
  ce_info :: string

record cjob =
  cj_view :: cview
  cj_completed :: bool
  cj_timer :: "Job_State option"

definition new_cjob :: cjob where
  "new_cjob = \<lparr>cj_view = new_view, cj_completed = False, cj_timer = None\<rparr>"

type_synonym cresult = "nat option \<times> goerr option"

text \<open>The deferred close of the status line.\<close>

definition leave_loop :: "cjob \<Rightarrow> cjob" where
  "leave_loop c = (if ct_status (cj_view c) then c\<lparr>cj_view := say [LStatusClose] (cj_view c)\<rparr> else c)"

definition state_timer :: "Job_State \<Rightarrow> cjob \<Rightarrow> cjob" where
  "state_timer st c = c\<lparr>cj_timer := (if st = Job_QUEUED \<or> st = Job_WAITING then Some st else None)\<rparr>"

text \<open>What the timer prints.\<close>

definition timer_fires :: "cenv \<Rightarrow> cjob \<Rightarrow> cjob" where
  "timer_fires env c =
     (case cj_timer c of
        None \<Rightarrow> c
      | Some st \<Rightarrow>
          c\<lparr>cj_timer := None,
            cj_view := say
              [LOutput (if st = Job_QUEUED then ''Operation is queued. Waiting for runner assignment...''
                        else ''Operation is assigned to a runner. Waiting for start...'') (ce_header env),
               LOutput ''If you interrupt this command, the job will still run in the background.'' (ce_info env)]
              (cj_view c)\<rparr>)"

definition terminal_msg :: "cenv \<Rightarrow> bool \<Rightarrow> term_event list \<Rightarrow> cjob \<Rightarrow> cjob \<times> cresult option" where
  "terminal_msg env localRunner es c =
     (if localRunner then (c, None)
      else
        (case client_events (ce_abort env) (ce_writers env) es (cj_view c) of
           Ret v _ \<Rightarrow> (c\<lparr>cj_view := v\<rparr>, None)
         | Fail v e \<Rightarrow> (leave_loop (c\<lparr>cj_view := v\<rparr>), Some (None, Some e))
         | Crash m \<Rightarrow> (c, None)))"

text \<open>One message; the result is \<open>Some\<close> when the loop returns with it. An error whose status is OK is \<open>None\<close>.\<close>

definition job_message :: "cenv \<Rightarrow> bool \<Rightarrow> client_in \<Rightarrow> cjob \<Rightarrow> cjob \<times> cresult option" where
  "job_message env localRunner m c =
     (case m of
        CRecvFails e \<Rightarrow> (leave_loop c, Some (None, Some e))
      | CRecvNil \<Rightarrow> (c, None)
      | CRecv (CComplete err result) \<Rightarrow>
          (leave_loop (c\<lparr>cj_completed := True\<rparr>), Some (case err of None \<Rightarrow> (result, None) | Some e \<Rightarrow> (None, Some e)))
      | CRecvError err \<Rightarrow> (leave_loop (c\<lparr>cj_completed := True\<rparr>), Some (None, err))
      | CRecv (CTerminal es buffered) \<Rightarrow> terminal_msg env localRunner es c
      | CRecv (CState prev cur canceling p) \<Rightarrow> (state_timer cur c, None)
      | CRecv COpen \<Rightarrow> (c, None)
      | CRecvUnknown \<Rightarrow> (c, None)
      | CTimer \<Rightarrow> (timer_fires env c, None))"

fun job_loop :: "cenv \<Rightarrow> bool \<Rightarrow> client_in list \<Rightarrow> cjob \<Rightarrow> cjob \<times> cresult option" where
  "job_loop env localRunner [] c = (c, None)"
| "job_loop env localRunner (m # ms) c =
     (case job_message env localRunner m c of
        (c', Some r) \<Rightarrow> (c', Some r)
      | (c', None) \<Rightarrow> job_loop env localRunner ms c')"

section \<open>Queueing and following\<close>

record follow_in =
  fi_queued :: "goerr + string"
  fi_stream :: "goerr option"
  fi_first :: "goerr + client_in"
  fi_messages :: "client_in list"
  fi_interrupted :: bool

text \<open>What it leaves: the expiration that was asked for, the job that the local runner was told to accept, the
  state of the loop, the result (\<open>None\<close> while it waits), and whether the job was canceled at the end.\<close>

record follow_out =
  fo_expires :: string
  fo_accepting :: "string option"
  fo_job :: cjob
  fo_result :: "cresult option"
  fo_canceled :: "string option"

definition queueAndStreamJob :: "cenv \<Rightarrow> bool \<Rightarrow> follow_in \<Rightarrow> follow_out" where
  "queueAndStreamJob env localRunner i =
     (let o0 = \<lparr>fo_expires = (if localRunner then ''30s'' else []), fo_accepting = None, fo_job = new_cjob,
                fo_result = None, fo_canceled = None\<rparr> in
      case fi_queued i of
        Inl e \<Rightarrow> o0\<lparr>fo_result := Some (None, Some e)\<rparr>
      | Inr j \<Rightarrow>
          (let o1 = o0\<lparr>fo_accepting := (if localRunner then Some j else None)\<rparr> in
           case fi_stream i of
             Some e \<Rightarrow> o1\<lparr>fo_result := Some (None, Some e)\<rparr>
           | None \<Rightarrow>
               (case fi_first i of
                  Inl e \<Rightarrow> o1\<lparr>fo_result := Some (None, Some e)\<rparr>
                | Inr m \<Rightarrow>
                    if m \<noteq> CRecv COpen then
                      o1\<lparr>fo_result := Some (None, Some (Status Aborted (OtherError ''job stream failed to open'')))\<rparr>
                    else
                      (case job_loop env localRunner (fi_messages i) new_cjob of
                         (c, r) \<Rightarrow>
                           o1\<lparr>fo_job := c, fo_result := r,
                              fo_canceled := (if localRunner \<and> r \<noteq> None \<and> \<not> cj_completed c \<and> fi_interrupted i
                                              then Some j else None)\<rparr>))))"

text \<open>The job of an operation, before its fields are set: it targets the runner of the client and does nothing. With
  a local runner the call returns when that runner has finished accepting (\<open>None\<close> while it has not).\<close>

definition client_job :: "runner_target \<Rightarrow> jobpb" where
  "client_job runnerRef =
     \<lparr>p_id = [], p_state = Job_UNKNOWN, p_operation = 0, p_scope = None, p_targetRunner = Some (Some runnerRef),
      p_queueTime = None, p_assignTime = None, p_ackTime = None, p_cancelTime = None, p_completeTime = None,
      p_expireTime = None, p_error = None, p_result = None\<rparr>"

definition doJob :: "cenv \<Rightarrow> bool \<Rightarrow> bool \<Rightarrow> follow_in \<Rightarrow> cresult option" where
  "doJob env localRunner accept_finished i =
     (let out = queueAndStreamJob env localRunner i in
      if fo_accepting out \<noteq> None \<and> \<not> accept_finished then None else fo_result out)"

end
