(* ===== verification/RunnerAccept.thy ===== *)
theory RunnerAccept
  imports RunnerUI JobService
begin

text \<open>
  \<open>internal/runner/accept.go\<close>: a runner takes one job from the server, executes it and reports the outcome. The
  first part, up to the acknowledgement, is one function of what the stream answers. Then three goroutines run:
  the one that executes the job and reports, the receiver, and the heartbeat; every step of one of them is an
  action here, and a run is a list of actions in any order. An action that a goroutine cannot take in a state
  changes nothing.

  The variable \<open>err\<close> is shared by the receiver and the executing goroutine; so it is here (\<open>ac_err\<close>).
\<close>

section \<open>Up to the acknowledgement\<close>

definition io_EOF :: goerr where
  "io_EOF = OtherError ''EOF''"

datatype first_msg = FirstAssignment string | FirstOther

record accept_in =
  ai_closed :: bool
  ai_stream :: "goerr option"
  ai_send :: "goerr option"
  ai_recv :: "goerr + first_msg"
  ai_answer :: "goerr option"

datatype accept_start = Stopped goerr | Accepted

text \<open>The messages that were sent, and whether the job is taken.\<close>

definition accept_open ::
  "string \<Rightarrow> string \<Rightarrow> accept_in \<Rightarrow> 'e runner_msg list \<times> accept_start" where
  "accept_open runner_id want i =
     (if ai_closed i then ([], Stopped (OtherError ''runner is closed''))
      else
        (case ai_stream i of
           Some e \<Rightarrow> ([], Stopped e)
         | None \<Rightarrow>
             (case ai_send i of
                Some e \<Rightarrow> ([], Stopped e)
              | None \<Rightarrow>
                  (case ai_recv i of
                     Inl e \<Rightarrow> ([MRequest runner_id], Stopped e)
                   | Inr FirstOther \<Rightarrow> ([MRequest runner_id], Stopped (Status Aborted (OtherError ''expected job assignment'')))
                   | Inr (FirstAssignment j) \<Rightarrow>
                       if want \<noteq> [] \<and> j \<noteq> want then
                         (case ai_answer i of
                            Some e \<Rightarrow> ([MRequest runner_id], Stopped e)
                          | None \<Rightarrow>
                              ([MRequest runner_id, MError None],
                               Stopped (Status Aborted (OtherError ''server sent us an invalid job''))))
                       else
                         (case ai_answer i of
                            Some e \<Rightarrow> ([MRequest runner_id], Stopped e)
                          | None \<Rightarrow> ([MRequest runner_id, MAck], Accepted))))))"

section \<open>The execution of a job\<close>

text \<open>Where the executing goroutine is: the data of the job is fetched; the job is executed; it is finished; the
  outcome is reported with the send mutex held; it waits for the stream to close; it has returned.\<close>

datatype phase = Fetching | Executing | Executed | Reporting | Waiting | Returned "goerr option" | Panicked

record acc =
  ac_phase :: phase
  ac_ui :: rui
  ac_sent :: "term_event runner_msg list"
  ac_err :: "goerr option"
  ac_errCh :: "goerr option"
  ac_receiving :: bool
  ac_beating :: bool
  ac_result :: "nat option"

text \<open>The context of the job is the one of its user interface (\<open>u_done\<close>).\<close>

definition acc_start :: acc where
  "acc_start = \<lparr>ac_phase = Fetching, ac_ui = new_ui, ac_sent = [], ac_err = None, ac_errCh = None,
     ac_receiving = True, ac_beating = True, ac_result = None\<rparr>"

definition cancel_ctx :: "acc \<Rightarrow> acc" where
  "cancel_ctx a = a\<lparr>ac_ui := (ac_ui a)\<lparr>u_done := True\<rparr>\<rparr>"

definition mutex_held :: "acc \<Rightarrow> bool" where
  "mutex_held a \<longleftrightarrow> ac_phase a \<in> {Reporting, Waiting}"

text \<open>The receiver. It assigns \<open>err\<close> with every message.\<close>

definition acc_recv :: "goerr + bool \<Rightarrow> acc \<Rightarrow> acc" where
  "acc_recv r a =
     (if \<not> ac_receiving a then a
      else
        (case r of
           Inl e \<Rightarrow> a\<lparr>ac_err := Some e, ac_errCh := Some e, ac_receiving := False\<rparr>
         | Inr isCancel \<Rightarrow> (if isCancel then cancel_ctx else id) (a\<lparr>ac_err := None\<rparr>)))"

text \<open>The heartbeat. An error of the send is only logged; it ends when the context is done, but a tick that is
  ready at that moment may still be taken.\<close>

definition acc_beat :: "bool \<Rightarrow> acc \<Rightarrow> acc" where
  "acc_beat sent a =
     (if \<not> ac_beating a \<or> mutex_held a \<or> \<not> sent then a else a\<lparr>ac_sent := ac_sent a @ [MHeartbeat]\<rparr>)"

definition acc_beat_end :: "acc \<Rightarrow> acc" where
  "acc_beat_end a = (if u_done (ac_ui a) then a\<lparr>ac_beating := False\<rparr> else a)"

text \<open>A call of the operation, or a round of one of the goroutines that empty its pipes. What the call sends is
  delivered unless the stream is broken, and its errors are ignored. Only some methods take the mutex.\<close>

definition locking :: "ui_call \<Rightarrow> bool" where
  "locking c \<longleftrightarrow> (case c of UStepGroup \<Rightarrow> False | UWait _ \<Rightarrow> False | _ \<Rightarrow> True)"

definition acc_call :: "string \<Rightarrow> ui_call \<Rightarrow> bool \<Rightarrow> acc \<Rightarrow> acc" where
  "acc_call abort c sent a =
     (if c = UClose \<or> mutex_held a \<and> locking c then a
      else
        (case ui_step abort c (ac_ui a) of
           Ret u _ \<Rightarrow>
             a\<lparr>ac_ui := u,
               ac_sent := ac_sent a @ (if sent then map (\<lambda>e. MTerminal [e]) (drop (length (u_sent (ac_ui a))) (u_sent u)) else [])\<rparr>
         | Fail u _ \<Rightarrow> a
         | Crash m \<Rightarrow> a\<lparr>ac_phase := Panicked\<rparr>))"

text \<open>The data of the job is there, with an absolute path or not; or fetching it failed.\<close>

definition acc_fetched :: "goerr option \<Rightarrow> bool \<Rightarrow> acc \<Rightarrow> acc" where
  "acc_fetched err isAbs a =
     (if ac_phase a \<noteq> Fetching then a
      else
        (case err of
           Some e \<Rightarrow> a\<lparr>ac_err := Some e, ac_phase := Executed\<rparr>
         | None \<Rightarrow>
             if isAbs then a\<lparr>ac_err := None, ac_phase := Executing\<rparr>
             else a\<lparr>ac_err := Some (Status Internal (OtherError ''data working directory should be absolute'')),
                    ac_phase := Executed\<rparr>))"

text \<open>The job has been executed; the user interface is closed, which cancels the context.\<close>

definition acc_executed :: "nat option \<Rightarrow> goerr option \<Rightarrow> acc \<Rightarrow> acc" where
  "acc_executed result err a =
     (if ac_phase a \<noteq> Executing then a
      else a\<lparr>ac_result := result, ac_err := err, ac_ui := UI_Close (ac_ui a), ac_phase := Executed\<rparr>)"

definition acc_check :: "acc \<Rightarrow> acc" where
  "acc_check a =
     (if ac_phase a \<noteq> Executed then a
      else if u_done (ac_ui a) then
        (case ac_errCh a of
           Some e \<Rightarrow>
             if e = io_EOF then a\<lparr>ac_errCh := None, ac_phase := Returned None\<rparr>
             else a\<lparr>ac_errCh := None, ac_phase := Reporting\<rparr>
         | None \<Rightarrow> a\<lparr>ac_phase := Reporting\<rparr>)
      else a\<lparr>ac_phase := Reporting\<rparr>)"

definition acc_report :: "goerr option \<Rightarrow> acc \<Rightarrow> acc" where
  "acc_report send a =
     (if ac_phase a \<noteq> Reporting then a
      else
        (case ac_err a of
           Some e \<Rightarrow>
             a\<lparr>ac_sent := ac_sent a @ (if send = None then [MError (Some e)] else []), ac_phase := Returned None\<rparr>
         | None \<Rightarrow>
             (case send of
                Some e \<Rightarrow> a\<lparr>ac_phase := Returned (Some e)\<rparr>
              | None \<Rightarrow> a\<lparr>ac_sent := ac_sent a @ [MComplete (ac_result a)], ac_phase := Waiting\<rparr>)))"

definition acc_wait :: "acc \<Rightarrow> acc" where
  "acc_wait a =
     (if ac_phase a \<noteq> Waiting then a
      else
        (case ac_errCh a of
           None \<Rightarrow> a
         | Some e \<Rightarrow> a\<lparr>ac_errCh := None, ac_phase := Returned (if e = io_EOF then None else Some e)\<rparr>))"

text \<open>The deferred calls: the context is cancelled.\<close>

definition acc_leave :: "acc \<Rightarrow> acc" where
  "acc_leave a = (case ac_phase a of Returned _ \<Rightarrow> cancel_ctx a | _ \<Rightarrow> a)"

datatype acc_action =
    ARecv "goerr + bool"
  | ABeat bool
  | ABeatEnd
  | ACall ui_call bool
  | AFetched "goerr option" bool
  | AExecuted "nat option" "goerr option"
  | ACheck
  | AReport "goerr option"
  | AWait
  | ALeave

definition acc_step :: "string \<Rightarrow> acc_action \<Rightarrow> acc \<Rightarrow> acc" where
  "acc_step abort act a =
     (if ac_phase a = Panicked then a
      else
        (case act of
           ARecv r \<Rightarrow> acc_recv r a
         | ABeat sent \<Rightarrow> acc_beat sent a
         | ABeatEnd \<Rightarrow> acc_beat_end a
         | ACall c sent \<Rightarrow> acc_call abort c sent a
         | AFetched e isAbs \<Rightarrow> acc_fetched e isAbs a
         | AExecuted r e \<Rightarrow> acc_executed r e a
         | ACheck \<Rightarrow> acc_check a
         | AReport e \<Rightarrow> acc_report e a
         | AWait \<Rightarrow> acc_wait a
         | ALeave \<Rightarrow> acc_leave a))"

end
