(* ===== verification/RunnerUIClaims.thy ===== *)
theory RunnerUIClaims
  imports RunnerUI
begin

text \<open>
  The properties of the terminal of a job: the client's user interface is called as the runner's was, bytes
  arrive in order, and where this ends (a second group of steps).
\<close>

section \<open>What the client shows for a call of the runner\<close>

definition next_piece :: "nat \<Rightarrow> string \<Rightarrow> string" where
  "next_piece n s = take (read_size n s) s"

fun local_view :: "string \<Rightarrow> ui_call \<Rightarrow> rui \<Rightarrow> local_call list" where
  "local_view abort (UOutput m s d c) u = (if u_open u then [LOutput m s] else [])"
| "local_view abort (UNamedValues vs) u = (if u_open u then [LNamedValues vs] else [])"
| "local_view abort (UStatusUpdate m) u =
     (if u_open u then [if m = [] then LStatusClose else LStatusUpdate m] else [])"
| "local_view abort (UStatusStep s m) u = (if u_open u then [LStatusStep s m] else [])"
| "local_view abort UStatusClose u = (if u_open u then [LStatusClose] else [])"
| "local_view abort (UPump e n) u =
     (let s = (if e then snd else fst) (pipes_of u) in
      if u_open u \<and> \<not> u_done u \<and> s \<noteq> [] then [LRaw e (next_piece n s)] else [])"
| "local_view abort UStepGroup u = [LStepGroup]"
| "local_view abort (UAdd g m) u = [LAdd m]"
| "local_view abort (UWait g) u = (if g_wg (u_groups u ! g) = 0 then [LWait] else [])"
| "local_view abort (UStepPump g i n) u =
     (case rs_pipe (the_step g i u) of
        None \<Rightarrow> []
      | Some s \<Rightarrow>
          if u_open u \<and> \<not> u_done u \<and> \<not> g_done (u_groups u ! g) \<and> s \<noteq> [] then [LStepWrite i (next_piece n s)] else [])"
| "local_view abort (UStepUpdate g i m) u = (if u_open u \<and> m \<noteq> [] then [LUpdate i m] else [])"
| "local_view abort (UStepStatus g i s) u =
     (if \<not> u_open u \<or> s = [] then [] else [if s = abort then LAbort i else LStepStatus i s])"
| "local_view abort (UStepDone g i) u = (if u_open u \<and> \<not> rs_done (the_step g i u) then [LDone i] else [])"
| "local_view abort (UStepAbort g i) u =
     (if u_open u \<and> \<not> rs_done (the_step g i u) then (if abort = [] then [] else [LAbort i]) @ [LDone i] else [])"
| "local_view abort c u = []"

fun mirrored :: "string \<Rightarrow> ui_call list \<Rightarrow> rui \<Rightarrow> local_call list" where
  "mirrored abort [] u = []"
| "mirrored abort (c # cs) u =
     local_view abort c u @ (case ui_step abort c u of Ret u' _ \<Rightarrow> mirrored abort cs u' | _ \<Rightarrow> [])"

text \<open>Calls only on groups and steps that were made.\<close>

fun calls_ok :: "string \<Rightarrow> ui_call list \<Rightarrow> rui \<Rightarrow> bool" where
  "calls_ok abort [] u = True"
| "calls_ok abort (c # cs) u =
     (call_ok c u \<and> (case ui_step abort c u of Ret u' _ \<Rightarrow> calls_ok abort cs u' | _ \<Rightarrow> True))"

definition shown :: "local_call \<Rightarrow> bool" where
  "shown c \<longleftrightarrow> (case c of LStatusOpen \<Rightarrow> False | LOutputWriters \<Rightarrow> False | LTermOutput _ \<Rightarrow> False | _ \<Rightarrow> True)"

definition nsteps :: "rui \<Rightarrow> nat" where
  "nsteps u = (case u_groups u of [] \<Rightarrow> 0 | x # _ \<Rightarrow> length (g_steps x))"

text \<open>The client's view corresponds to the runner's interface with at most one group.\<close>

definition sim :: "rui \<Rightarrow> cview \<Rightarrow> bool" where
  "sim u v \<longleftrightarrow>
     length (u_groups u) \<le> 1 \<and> ct_group v = (u_groups u \<noteq> []) \<and> ct_nsteps v = nsteps u \<and> nsteps u \<le> 2 ^ 32 \<and>
     (\<forall>w. map_of (ct_steps v) w = (if unat w < nsteps u then Some (unat w) else None))"

definition mirrors :: "string \<Rightarrow> ui_call \<Rightarrow> rui \<Rightarrow> rui \<Rightarrow> cview \<Rightarrow> bool" where
  "mirrors abort c u u' v \<longleftrightarrow>
     (\<exists>evs v'. u_sent u' = u_sent u @ evs \<and> client_events abort None evs v = Ret v' () \<and> sim u' v'
        \<and> filter shown (ct_calls v') = filter shown (ct_calls v) @ local_view abort c u)"

lemma say_simps [simp]:
  "ct_group (say cs v) = ct_group v" "ct_steps (say cs v) = ct_steps v" "ct_nsteps (say cs v) = ct_nsteps v"
  "ct_calls (say cs v) = ct_calls v @ cs" "ct_status (say cs v) = ct_status v" "ct_writers (say cs v) = ct_writers v"
  "ct_outs (say cs v) = ct_outs v"
  by (simp_all add: say_def)

lemma shown_simps [simp]:
  "shown (LOutput m s)" "shown (LNamedValues vs)" "\<not> shown LStatusOpen" "shown (LStatusUpdate m)"
  "shown (LStatusStep s m)" "shown LStatusClose" "\<not> shown LOutputWriters" "shown (LRaw e d)"
  "shown LStepGroup" "shown LWait" "shown (LAdd m)" "shown (LUpdate k m)" "shown (LAbort k)"
  "shown (LStepStatus k s)" "\<not> shown (LTermOutput k)" "shown (LStepWrite k d)" "shown (LDone k)"
  by (simp_all add: shown_def)

text \<open>The sent event, or none.\<close>

lemma mirrors_one:
  assumes "u_sent u' = u_sent u @ [ev]" and "client_event abort None ev v = Ret v' ()" and "sim u' v'"
    and "filter shown (ct_calls v') = filter shown (ct_calls v) @ local_view abort c u"
  shows "mirrors abort c u u' v"
  unfolding mirrors_def using assms by (intro exI[of _ "[ev]"]) auto

lemma mirrors_none:
  assumes "u_sent u' = u_sent u" and "sim u' v" and "local_view abort c u = []"
  shows "mirrors abort c u u' v"
  unfolding mirrors_def using assms by (intro exI[of _ "[]"]) auto

lemma send_open_simps [simp]:
  "u_groups (send_open ev u) = u_groups u" "u_open (send_open ev u) = u_open u" "u_done (send_open ev u) = u_done u"
  "u_pipes (send_open ev u) = u_pipes u" "nsteps (send_open ev u) = nsteps u"
  "u_sent (send_open ev u) = (if u_open u then u_sent u @ [ev] else u_sent u)"
  by (simp_all add: send_open_def nsteps_def)

lemma sim_cong:
  "length (u_groups u) = length (u_groups u') \<Longrightarrow> nsteps u = nsteps u' \<Longrightarrow> sim u v = sim u' v"
  by (auto simp: sim_def)

lemma sim_say [simp]: "sim u (say cs v) = sim u v"
  by (simp add: sim_def)

lemma sim_view: "ct_group v' = ct_group v \<Longrightarrow> ct_nsteps v' = ct_nsteps v \<Longrightarrow> ct_steps v' = ct_steps v \<Longrightarrow> sim u v' = sim u v"
  by (simp add: sim_def)

lemma nsteps_upd_group:
  "(\<And>x. length (g_steps (f x)) = length (g_steps x)) \<Longrightarrow> nsteps (upd_group g f u) = nsteps u"
  by (cases "u_groups u"; cases g) (auto simp: upd_group_def nsteps_def)

lemma upd_simps [simp]:
  "length (u_groups (upd_group g f u)) = length (u_groups u)" "u_open (upd_group g f u) = u_open u"
  "u_sent (upd_group g f u) = u_sent u" "u_done (upd_group g f u) = u_done u" "u_pipes (upd_group g f u) = u_pipes u"
  "length (u_groups (upd_step g i h u)) = length (u_groups u)" "u_open (upd_step g i h u) = u_open u"
  "u_sent (upd_step g i h u) = u_sent u" "u_done (upd_step g i h u) = u_done u" "u_pipes (upd_step g i h u) = u_pipes u"
  by (simp_all add: upd_step_def upd_group_def)

lemma nsteps_upd_step [simp]: "nsteps (upd_step g i h u) = nsteps u"
  unfolding upd_step_def by (rule nsteps_upd_group) simp

text \<open>Calls that send one event of their own and keep the groups and the number of steps.\<close>

lemma mirrors_send:
  assumes "sim u v" and "length (u_groups u') = length (u_groups u)" and "nsteps u' = nsteps u"
    and "u_open u' = u_open u" and "u_sent u' = u_sent u"
    and "u_open u \<Longrightarrow> client_event abort None ev v = Ret v' () \<and> sim u v'
      \<and> filter shown (ct_calls v') = filter shown (ct_calls v) @ local_view abort c u"
    and "\<not> u_open u \<Longrightarrow> local_view abort c u = []"
  shows "mirrors abort c u (send_open ev u') v"
proof (cases "u_open u")
  case True
  have "sim (send_open ev u') v'" using assms(2,3,6) True sim_cong[of "send_open ev u'" u v'] by simp
  then show ?thesis using assms True by (intro mirrors_one[where v' = v' and ev = ev]) auto
next
  case False
  have "sim (send_open ev u') v" using assms(1-3) sim_cong[of "send_open ev u'" u v] by simp
  then show ?thesis using assms False by (intro mirrors_none) auto
qed

lemma mirrors_quiet:
  assumes "sim u v" and "length (u_groups u') = length (u_groups u)" and "nsteps u' = nsteps u"
    and "u_sent u' = u_sent u" and "local_view abort c u = []"
  shows "mirrors abort c u u' v"
  using assms sim_cong[of u' u v] by (intro mirrors_none) auto

text \<open>A step of the one group is found by the client under its number.\<close>

lemma sim_step:
  assumes "sim u v" and "g < length (u_groups u)" and "i < length (g_steps (u_groups u ! g))"
  shows "find_step (word_of_nat i) m v = (if m \<noteq> [] then say [LUpdate i m] v else v, i) \<and> ct_group v"
proof -
  have g: "g = 0" and ng: "u_groups u \<noteq> []" using assms(1,2) by (auto simp: sim_def)
  then have n: "i < nsteps u" using assms(3) by (cases "u_groups u") (auto simp: nsteps_def)
  then have "i < 2 ^ 32" using assms(1) by (simp add: sim_def)
  then have "unat (word_of_nat i :: 32 word) = i" by (simp add: unat_of_nat)
  with n assms(1) ng show ?thesis by (simp add: sim_def find_step_def)
qed

lemma next_piece_not_Nil [simp]: "next_piece n s = [] \<longleftrightarrow> s = []"
  by (cases s) (auto simp: next_piece_def read_size_def)

lemma step_status_view:
  "sim u (step_status abort k s v) = sim u v"
  "filter shown (ct_calls (step_status abort k s v)) =
     filter shown (ct_calls v) @ (if s = [] then [] else [if s = abort then LAbort k else LStepStatus k s])"
  by (simp_all add: step_status_def)

lemma step_output_view:
  "sim u (step_output k data v) = sim u v"
  "filter shown (ct_calls (step_output k data v)) =
     filter shown (ct_calls v) @ (if data = [] then [] else [LStepWrite k data])"
  by (simp_all add: step_output_def sim_def)

lemma sim_step_event:
  assumes "sim u v" and "g < length (u_groups u)" and "i < length (g_steps (u_groups u ! g))"
  shows "sim u (step_event abort (word_of_nat i) close m s data v)
    \<and> filter shown (ct_calls (step_event abort (word_of_nat i) close m s data v)) = filter shown (ct_calls v)
        @ (if m = [] then [] else [LUpdate i m]) @ (if s = [] then [] else [if s = abort then LAbort i else LStepStatus i s])
        @ (if data = [] then [] else [LStepWrite i data]) @ (if close then [LDone i] else [])"
  using assms(1) sim_step[OF assms, of m]
  by (cases "m = []"; cases close) (simp_all add: step_event_def Let_def step_status_view step_output_view)

text \<open>The same for the calls that make a group or a step, and for status and raw events.\<close>

lemma sim_status_event:
  "sim u (status_event s m st v) = sim u v"
  "filter shown (ct_calls (status_event s m st v)) =
     filter shown (ct_calls v) @ [if st then LStatusStep s m else if m = [] then LStatusClose else LStatusUpdate m]"
  by (simp_all add: status_event_def Let_def sim_def)

lemma raw_event_view:
  "\<exists>v'. raw_event None data e v = Ret v' () \<and> sim u v' = sim u v
     \<and> filter shown (ct_calls v') = filter shown (ct_calls v) @ [LRaw e data]"
  by (simp add: raw_event_def Let_def sim_def)

section \<open>One call\<close>

lemma pump_mirrors: "sim u v \<Longrightarrow> mirrors abort (UPump e n) u (sendData e n u) v"
proof (cases "u_done u \<or> \<not> u_open u \<or> (if e then snd else fst) (pipes_of u) = []")
  case True
  moreover assume "sim u v"
  ultimately show ?thesis
    by (intro mirrors_quiet) (auto simp: sendData_def Let_def split: prod.split if_splits)
next
  case False
  assume s: "sim u v"
  obtain out er where p: "pipes_of u = (out, er)" by (cases "pipes_of u")
  define d where "d = next_piece n (if e then er else out)"
  obtain v' where v': "raw_event None d e v = Ret v' ()" "sim u v' = sim u v"
      "filter shown (ct_calls v') = filter shown (ct_calls v) @ [LRaw e d]"
    using raw_event_view[of d e v u] by blast
  have "sendData e n u = send_open (RawEv d e)
      (u\<lparr>u_pipes := Some (if e then (out, drop (read_size n er) er) else (drop (read_size n out) out, er))\<rparr>)"
    using False by (auto simp: sendData_def Let_def p d_def next_piece_def)
  moreover have "mirrors abort (UPump e n) u \<dots> v"
    using s v' False by (intro mirrors_send[where v' = v']) (auto simp: nsteps_def p d_def Let_def split: if_splits)
  ultimately show ?thesis by simp
qed

lemma group_mirrors:
  assumes "sim u v" and "UI_StepGroup u = Ret u' a" and "u_groups u = []"
  shows "mirrors abort UStepGroup u u' v"
  using assms
  by (intro mirrors_one[where ev = "StepGroupEv False" and v' = "step_group_event False v"])
    (auto simp: UI_StepGroup_def send_evc_def sim_def nsteps_def step_group_event_def Let_def split: if_splits)

lemma nsteps_add:
  assumes "g < length (u_groups u)" and "length (u_groups u) \<le> 1"
  shows "nsteps (upd_group g (\<lambda>x. x\<lparr>g_wg := w x, g_steps := g_steps x @ [st]\<rparr>) u) = Suc (nsteps u)"
    and "length (g_steps (u_groups u ! g)) = nsteps u"
  using assms by (cases "u_groups u"; auto simp: upd_group_def nsteps_def)+

lemma add_mirrors:
  assumes s: "sim u v" and g: "g < length (u_groups u)" and r: "SG_Add g m u = Ret u' a" and n: "nsteps u < 2 ^ 32"
  shows "mirrors abort (UAdd g m) u u' v"
proof -
  have l: "length (u_groups u) \<le> 1" and gr: "ct_group v" using s g by (auto simp: sim_def)
  let ?w = "word_of_nat (nsteps u) :: 32 word"
  have w: "unat ?w = nsteps u" using n by (simp add: unat_of_nat)
  let ?v = "step_event abort ?w False m [] [] v"
  have new: "map_of (ct_steps v) ?w = None" using s w by (simp add: sim_def)
  then have calls: "ct_calls ?v = ct_calls v @ [LAdd m]"
    and grp: "ct_group ?v" and cnt: "ct_nsteps ?v = Suc (ct_nsteps v)"
    and st: "ct_steps ?v = AList.update ?w (ct_nsteps v) (ct_steps v)"
    using gr by (simp_all add: step_event_def find_step_def step_status_def step_output_def say_def)
  have ev: "u_sent u' = u_sent u @ [StepEv ?w False m [] []]" and n': "nsteps u' = Suc (nsteps u)"
    and l': "length (u_groups u') = length (u_groups u)"
    using r nsteps_add[OF g l] by (auto simp: SG_Add_def send_evc_def Let_def split: if_splits)
  have "map_of (ct_steps ?v) x = (if unat x < nsteps u' then Some (unat x) else None)" for x
  proof (cases "x = ?w")
    case True
    then show ?thesis using s w by (simp add: st update_conv' n' sim_def)
  next
    case False
    then have "unat x \<noteq> nsteps u" using w by (simp add: word_unat_eq_iff)
    then have "unat x < Suc (nsteps u) \<longleftrightarrow> unat x < nsteps u" by auto
    then show ?thesis using s False by (simp add: st update_conv' n' sim_def)
  qed
  moreover have "u_groups u' \<noteq> []" using l' g by auto
  ultimately have "sim u' ?v" using s l l' n n' grp cnt by (auto simp: sim_def)
  then show ?thesis using ev calls by (intro mirrors_one) auto
qed

lemma wait_mirrors:
  assumes "sim u v" and "g < length (u_groups u)" and "ui_step abort (UWait g) u = Ret u' a"
  shows "mirrors abort (UWait g) u u' v"
proof (cases "g_wg (u_groups u ! g) = 0")
  case True
  let ?u = "upd_group g (\<lambda>x. x\<lparr>g_done := True\<rparr>) u"
  have n: "nsteps ?u = nsteps u" by (rule nsteps_upd_group) simp
  have "ct_group v" using assms(1,2) by (auto simp: sim_def)
  moreover have "u' = send_open (StepGroupEv True) ?u" "u_open u"
    using assms(3) True by (auto simp: SG_Wait_def send_evc_def split: if_splits)
  moreover have "mirrors abort (UWait g) u (send_open (StepGroupEv True) ?u) v" if "ct_group v" "u_open u"
    using assms(1) n True that by (intro mirrors_send[where v' = "step_group_event True v"])
      (auto simp: step_group_event_def)
  ultimately show ?thesis by simp
next
  case False
  with assms show ?thesis by (intro mirrors_quiet) (auto simp: SG_Wait_def)
qed

lemma step_call_mirrors:
  assumes s: "sim u v" and g: "g < length (u_groups u)" "i < length (g_steps (u_groups u ! g))"
    and u1: "length (u_groups u1) = length (u_groups u)" "nsteps u1 = nsteps u" "u_open u1 = u_open u" "u_sent u1 = u_sent u"
    and lv: "local_view abort c u = (if u_open u then
        (if m = [] then [] else [LUpdate i m]) @ (if st = [] then [] else [if st = abort then LAbort i else LStepStatus i st])
        @ (if data = [] then [] else [LStepWrite i data]) @ (if close then [LDone i] else []) else [])"
  shows "mirrors abort c u (send_open (StepEv (word_of_nat i) close m st data) u1) v"
  using sim_step_event[OF s g, of abort close m st data] s u1 lv
  by (intro mirrors_send[where v' = "step_event abort (word_of_nat i) close m st data v"]) auto

lemma finish_mirrors:
  assumes s: "sim u v" and g: "g < length (u_groups u)" "i < length (g_steps (u_groups u ! g))"
    and lv: "local_view abort c u = (if u_open u \<and> \<not> rs_done (the_step g i u) then
        (if st = [] then [] else [LAbort i]) @ [LDone i] else [])" and st: "st = [] \<or> st = abort"
  shows "mirrors abort c u (finish_step g i (StepEv (word_of_nat i) True [] st []) u) v"
proof (cases "rs_done (the_step g i u)")
  case True
  with s lv show ?thesis by (intro mirrors_quiet) (auto simp: finish_step_def)
next
  case False
  let ?u = "send_open (StepEv (word_of_nat i) True [] st []) (upd_step g i (\<lambda>x. x\<lparr>rs_done := True\<rparr>) u)"
  let ?u' = "upd_group g (\<lambda>x. x\<lparr>g_wg := g_wg x - 1\<rparr>) ?u"
  have n: "nsteps ?u' = nsteps ?u" by (rule nsteps_upd_group) simp
  have "mirrors abort c u ?u v"
    using s g lv st False by (intro step_call_mirrors) auto
  then have "mirrors abort c u ?u' v"
    using n sim_cong[of ?u' ?u] by (simp add: mirrors_def)
  with False show ?thesis by (simp add: finish_step_def)
qed

lemma ui_step_mirrors:
  assumes "sim u v" and "call_ok c u" and "ui_step abort c u = Ret u' a"
    and "c = UStepGroup \<longrightarrow> u_groups u = []" and "\<And>g m. c = UAdd g m \<Longrightarrow> nsteps u < 2 ^ 32"
  shows "mirrors abort c u u' v"
proof (cases c)
  case (UOutput m s d k)
  then show ?thesis using assms(1,3) mirrors_send[OF assms(1), where u' = u and ev = "LineEv m s d k" and abort = abort and v' = "say [LOutput m s] v" and c = c]
    by (auto simp: UI_Output_def)
next
  case (UNamedValues vs)
  then show ?thesis using assms(1,3) mirrors_send[OF assms(1), where u' = u and ev = "NamedValuesEv vs" and abort = abort and v' = "say [LNamedValues vs] v" and c = c]
    by (auto simp: UI_NamedValues_def)
next
  case (UStatusUpdate m)
  then show ?thesis
    using assms(1,3) mirrors_send[OF assms(1), where u' = u and ev = "StatusEv [] m False" and abort = abort and v' = "status_event [] m False v" and c = c]
    by (auto simp: Status_Update_def sim_status_event)
next
  case (UStatusStep s m)
  then show ?thesis
    using assms(1,3) mirrors_send[OF assms(1), where u' = u and ev = "StatusEv s m True" and abort = abort and v' = "status_event s m True v" and c = c]
    by (auto simp: Status_Step_def sim_status_event)
next
  case UStatusClose
  then show ?thesis
    using assms(1,3) mirrors_send[OF assms(1), where u' = u and ev = "StatusEv [] [] False" and abort = abort and v' = "status_event [] [] False v" and c = c]
    by (auto simp: Status_Close_def sim_status_event)
next
  case (UWrite e d)
  then show ?thesis using assms(1,3)
    by (auto simp: write_pipe_def OutputWriters_def Let_def nsteps_def split: prod.split intro!: mirrors_quiet)
next
  case (UPump e n)
  then show ?thesis using assms(1,3) pump_mirrors by auto
next
  case UStepGroup
  then show ?thesis using assms(1,3,4) group_mirrors by auto
next
  case (UAdd g m)
  then show ?thesis using assms add_mirrors by auto
next
  case (UWait g)
  then show ?thesis using assms wait_mirrors by (auto simp del: ui_step.simps)
next
  case (UStepWrite g i d)
  then show ?thesis using assms(1,3) by (auto simp: Step_write_def intro!: mirrors_quiet)
next
  case (UStepPump g i n)
  show ?thesis
  proof (cases "\<exists>s. rs_pipe (the_step g i u) = Some s \<and> u_open u \<and> \<not> u_done u \<and> \<not> g_done (u_groups u ! g) \<and> s \<noteq> []")
    case True
    with UStepPump assms show ?thesis
      by (auto simp: Step_sendData_def next_piece_def[symmetric] intro!: step_call_mirrors)
  next
    case False
    with UStepPump assms(1,3) show ?thesis
      by (intro mirrors_quiet) (auto simp: Step_sendData_def split: option.splits if_splits)
  qed
next
  case (UStepUpdate g i m)
  then show ?thesis using assms by (auto simp: Step_Update_def intro!: step_call_mirrors)
next
  case (UStepStatus g i s)
  then show ?thesis using assms by (auto simp: Step_Status_def intro!: step_call_mirrors)
next
  case (UStepDone g i)
  then show ?thesis using assms by (auto simp: Step_Done_def intro!: finish_mirrors)
next
  case (UStepAbort g i)
  then show ?thesis using assms by (auto simp: Step_Abort_def intro!: finish_mirrors)
next
  case UClose
  then show ?thesis using assms(1,3) by (auto simp: UI_Close_def nsteps_def intro!: mirrors_quiet)
qed (use assms(3) in \<open>simp add: UI_Table_def\<close>)

section \<open>Runs\<close>

lemma ui_step_groups:
  assumes "ui_step abort c u = Ret u' a" and "call_ok c u" and "length (u_groups u) \<le> 1"
  shows "length (u_groups u') = length (u_groups u) + (if c = UStepGroup then 1 else 0)"
    and "u_groups u \<noteq> [] \<Longrightarrow> nsteps u' \<le> Suc (nsteps u)"
proof -
  have fin: "length (u_groups (finish_step g i ev u)) = length (u_groups u) \<and> nsteps (finish_step g i ev u) = nsteps u" for g i ev
    by (simp add: finish_step_def nsteps_upd_group)
  have wait: "nsteps (upd_group g (\<lambda>x. x\<lparr>g_done := True\<rparr>) u) = nsteps u" for g
    by (rule nsteps_upd_group) simp
  note defs = UI_Output_def UI_NamedValues_def UI_Table_def Status_Update_def Status_Step_def Status_Close_def
    write_pipe_def OutputWriters_def sendData_def UI_StepGroup_def SG_Add_def SG_Wait_def Step_write_def
    Step_sendData_def Step_Update_def Step_Status_def Step_Done_def Step_Abort_def UI_Close_def send_evc_def Let_def
  show "length (u_groups u') = length (u_groups u) + (if c = UStepGroup then 1 else 0)"
    using assms(1) fin by (cases c) (auto simp: defs split: if_splits prod.splits option.splits)
  show "nsteps u' \<le> Suc (nsteps u)" if "u_groups u \<noteq> []"
    using assms fin wait that nsteps_add[of _ u]
    by (cases c) (auto simp: defs split: if_splits prod.splits option.splits, auto simp: nsteps_def split: list.split)
qed

lemma run_mirrors:
  assumes "ui_run abort cs u0 = Ret u ()" and "calls_ok abort cs u0" and "sim u0 v0"
    and "length (u_groups u0) + length (filter ((=) UStepGroup) cs) \<le> 1"
    and "nsteps u0 + length cs \<le> 2 ^ 32"
  shows "\<exists>evs v. u_sent u = u_sent u0 @ evs \<and> client_events abort None evs v0 = Ret v ()
    \<and> filter shown (ct_calls v) = filter shown (ct_calls v0) @ mirrored abort cs u0"
  using assms
proof (induction cs arbitrary: u0 v0)
  case Nil
  then show ?case by auto
next
  case (Cons c cs)
  from Cons.prems(1) obtain u1 where u1: "ui_step abort c u0 = Ret u1 ()" and run: "ui_run abort cs u1 = Ret u ()"
    by (auto simp: bind_o_Ret_iff)
  have ok: "call_ok c u0" "calls_ok abort cs u1" using Cons.prems(2) u1 by auto
  have l: "length (u_groups u0) \<le> 1" using Cons.prems(4) by simp
  have "mirrors abort c u0 u1 v0"
    using Cons.prems(4,5) by (intro ui_step_mirrors[OF Cons.prems(3) ok(1) u1]) auto
  then obtain evs v1 where e: "u_sent u1 = u_sent u0 @ evs" "client_events abort None evs v0 = Ret v1 ()" "sim u1 v1"
      "filter shown (ct_calls v1) = filter shown (ct_calls v0) @ local_view abort c u0"
    by (auto simp: mirrors_def)
  have "length (u_groups u1) + length (filter ((=) UStepGroup) cs) \<le> 1"
    using ui_step_groups(1)[OF u1 ok(1) l] Cons.prems(4) by (auto split: if_splits)
  moreover have "nsteps u1 \<le> Suc (nsteps u0)"
  proof (cases "u_groups u0 = []")
    case True
    then have "nsteps u1 = 0" if "c \<noteq> UStepGroup"
      using ui_step_groups(1)[OF u1 ok(1) l] that by (simp add: nsteps_def)
    moreover have "nsteps u1 = 0" if "c = UStepGroup"
      using u1 that True by (auto simp: UI_StepGroup_def send_evc_def nsteps_def split: if_splits)
    ultimately show ?thesis by (cases "c = UStepGroup") auto
  qed (rule ui_step_groups(2)[OF u1 ok(1) l])
  ultimately obtain evs' v where f: "u_sent u = u_sent u1 @ evs'" "client_events abort None evs' v1 = Ret v ()"
      "filter shown (ct_calls v) = filter shown (ct_calls v1) @ mirrored abort cs u1"
    using Cons.IH[OF run ok(2) e(3)] Cons.prems(5) by auto
  have "client_events abort None (evs @ evs') v0 = Ret v ()"
    using e(2) f(2) by (induction evs arbitrary: v0) (auto simp: bind_o_Ret_iff)
  then show ?case using e f u1 by (intro exI[of _ "evs @ evs'"] exI[of _ v]) auto
qed

text \<open>The client's user interface is called as the runner's was: when the calls of an operation use at most one
  group of steps, the client that handles the events shows for every call what the call showed, in order.\<close>

theorem client_mirrors_runner:
  assumes "ui_run abort cs new_ui = Ret u ()" and "calls_ok abort cs new_ui"
    and "length (filter ((=) UStepGroup) cs) \<le> 1" and "length cs \<le> 2 ^ 32"
  shows "\<exists>v. client_events abort None (u_sent u) new_view = Ret v () \<and> filter shown (ct_calls v) = mirrored abort cs new_ui"
  using run_mirrors[OF assms(1,2), of new_view] assms(3,4)
  by (auto simp: sim_def new_ui_def new_view_def nsteps_def)

definition sample_calls :: "ui_call list" where
  "sample_calls = [UOutput ''up'' ''header'' False [], UStepGroup, UAdd 0 ''import'', UStepUpdate 0 0 ''half'',
     UStepDone 0 0, UWait 0, UWrite False ''ok'', UPump False 1]"

lemma client_mirrors_runner_witness:
  "\<exists>u v. ui_run ''abort'' sample_calls new_ui = Ret u () \<and> client_events ''abort'' None (u_sent u) new_view = Ret v ()
     \<and> filter shown (ct_calls v) =
         [LOutput ''up'' ''header'', LStepGroup, LAdd ''import'', LUpdate 0 ''half'', LDone 0, LWait, LRaw False ''o'']"
proof -
  note defs = UI_Output_def write_pipe_def OutputWriters_def sendData_def UI_StepGroup_def SG_Add_def SG_Wait_def
    Step_Update_def Step_Done_def finish_step_def the_step_def upd_step_def upd_group_def send_evc_def send_open_def Let_def
    pipes_of_def read_size_def next_piece_def sample_calls_def new_ui_def
  obtain u where u: "ui_run ''abort'' sample_calls new_ui = Ret u ()" by (simp add: defs)
  have "calls_ok ''abort'' sample_calls new_ui" "mirrored ''abort'' sample_calls new_ui =
      [LOutput ''up'' ''header'', LStepGroup, LAdd ''import'', LUpdate 0 ''half'', LDone 0, LWait, LRaw False ''o'']"
    by (simp_all add: defs)
  with client_mirrors_runner[OF u] u show ?thesis by (auto simp: sample_calls_def)
qed

section \<open>Bytes\<close>

fun raw_of :: "bool \<Rightarrow> term_event \<Rightarrow> string" where
  "raw_of e (RawEv data e') = (if e' = e then data else [])"
| "raw_of e _ = []"

fun bytes_of :: "bool \<Rightarrow> local_call \<Rightarrow> string" where
  "bytes_of e (LRaw e' data) = (if e' = e then data else [])"
| "bytes_of e _ = []"

fun written :: "bool \<Rightarrow> ui_call \<Rightarrow> string" where
  "written e (UWrite e' data) = (if e' = e then data else [])"
| "written e _ = []"

definition pipe :: "bool \<Rightarrow> rui \<Rightarrow> string" where
  "pipe e u = (if e then snd else fst) (pipes_of u)"

lemma pipe_cong: "u_pipes u = u_pipes u' \<Longrightarrow> pipe e u = pipe e u'"
  by (simp add: pipe_def pipes_of_def)

definition taken :: "bool \<Rightarrow> rui \<Rightarrow> string" where
  "taken e u = concat (map (raw_of e) (u_sent u)) @ pipe e u"

lemma taken_send: "raw_of e ev = [] \<Longrightarrow> taken e (send_open ev u) = taken e u"
  by (simp add: taken_def pipe_def pipes_of_def)

lemma taken_upd [simp]: "taken e (upd_group g f u) = taken e u" "taken e (upd_step g i h u) = taken e u"
  by (simp_all add: taken_def pipe_def pipes_of_def)

lemma taken_pump: "taken e (sendData e' n u) = taken e u"
  by (auto simp: taken_def sendData_def Let_def pipe_def pipes_of_def split: prod.splits option.splits)

lemma ui_step_bytes:
  assumes "ui_step abort c u = Ret u' a" and "\<not> u_done u" and "c \<noteq> UClose"
  shows "taken e u' = taken e u @ written e c \<and> \<not> u_done u'"
proof -
  note defs = UI_Output_def UI_NamedValues_def UI_Table_def Status_Update_def Status_Step_def Status_Close_def
    UI_StepGroup_def SG_Add_def SG_Wait_def Step_write_def Step_sendData_def Step_Update_def Step_Status_def
    Step_Done_def Step_Abort_def send_evc_def finish_step_def
  show ?thesis
  proof (cases c)
    case (UWrite e' data)
    with assms show ?thesis
      by (auto simp: write_pipe_def OutputWriters_def taken_def pipe_def pipes_of_def Let_def split: prod.splits option.splits)
  next
    case (UPump e' n)
    moreover have "u_done (sendData e' n u) = u_done u"
      by (auto simp: sendData_def Let_def split: prod.split)
    ultimately show ?thesis using assms taken_pump[of e e' n u] by auto
  next
    case UStepGroup
    with assms show ?thesis
      by (auto simp: defs taken_def pipe_def pipes_of_def split: if_splits)
  next
    case (UAdd g m)
    with assms show ?thesis by (auto simp: defs taken_send Let_def split: if_splits)
  qed (use assms in \<open>auto simp: defs taken_send split: if_splits option.splits\<close>)
qed

lemma client_events_return: "\<exists>v'. client_events abort None es v = Ret v' ()"
proof (induction es arbitrary: v)
  case (Cons ev es)
  have "\<exists>v1. client_event abort None ev v = Ret v1 ()" by (cases ev) (auto simp: raw_event_def Let_def)
  with Cons show ?case by auto
qed simp

lemma client_bytes:
  "client_events abort None es v = Ret v' () \<Longrightarrow>
     concat (map (bytes_of e) (ct_calls v')) = concat (map (bytes_of e) (ct_calls v)) @ concat (map (raw_of e) es)"
proof (induction es arbitrary: v)
  case (Cons ev es)
  then obtain v1 where "client_event abort None ev v = Ret v1 ()" and r: "client_events abort None es v1 = Ret v' ()"
    by (auto simp: bind_o_Ret_iff)
  then have "concat (map (bytes_of e) (ct_calls v1)) = concat (map (bytes_of e) (ct_calls v)) @ raw_of e ev"
    by (cases ev) (auto simp: status_event_def raw_event_def table_event_def step_group_event_def step_event_def
        find_step_def step_status_def step_output_def Let_def split: option.splits if_splits prod.splits)
  with Cons.IH[OF r] show ?case by simp
qed simp

text \<open>What an operation writes to its output streams arrives at the client's complete and in order, up to what is
  still in the pipe, whatever the sizes of the reads and however many groups of steps there are.\<close>

theorem raw_output_in_order:
  assumes "ui_run abort cs new_ui = Ret u ()" and "UClose \<notin> set cs"
    and "client_events abort None (u_sent u) new_view = Ret v ()"
  shows "concat (map (bytes_of e) (ct_calls v)) @ pipe e u = concat (map (written e) cs)"
proof -
  have "ui_run abort cs u0 = Ret u () \<Longrightarrow> UClose \<notin> set cs \<Longrightarrow> \<not> u_done u0 \<Longrightarrow>
      taken e u = taken e u0 @ concat (map (written e) cs)" for u0
  proof (induction cs arbitrary: u0)
    case (Cons c cs)
    then obtain u1 where "ui_step abort c u0 = Ret u1 ()" and "ui_run abort cs u1 = Ret u ()"
      by (auto simp: bind_o_Ret_iff)
    with Cons ui_step_bytes[of abort c u0 u1 "()" e] show ?case by auto
  qed simp
  from this[OF assms(1,2)] have "taken e u = concat (map (written e) cs)"
    by (simp add: new_ui_def taken_def pipe_def pipes_of_def)
  then show ?thesis using client_bytes[OF assms(3), of e] by (simp add: taken_def new_view_def)
qed

lemma raw_output_in_order_witness:
  "\<exists>u v. ui_run ''abort'' sample_calls new_ui = Ret u () \<and> client_events ''abort'' None (u_sent u) new_view = Ret v ()
     \<and> concat (map (bytes_of False) (ct_calls v)) @ pipe False u = ''ok''"
proof -
  note defs = UI_Output_def write_pipe_def OutputWriters_def sendData_def UI_StepGroup_def SG_Add_def SG_Wait_def
    Step_Update_def Step_Done_def finish_step_def the_step_def upd_step_def upd_group_def send_evc_def send_open_def Let_def
    pipes_of_def read_size_def sample_calls_def new_ui_def
  obtain u where u: "ui_run ''abort'' sample_calls new_ui = Ret u ()" by (simp add: defs)
  obtain v where v: "client_events ''abort'' None (u_sent u) new_view = Ret v ()"
    using client_events_return by blast
  have "UClose \<notin> set sample_calls" "concat (map (written False) sample_calls) = ''ok''" by (simp_all add: sample_calls_def)
  with raw_output_in_order[OF u _ v, of False] u v show ?thesis by auto
qed

section \<open>A second group of steps\<close>

text \<open>The numbers of steps start again with every group, and the client keeps the steps of the first: the first
  step of a second group is shown as a new message of the first group's first step, and its end as its end.\<close>

theorem second_group_reuses_steps:
  "\<exists>u v. ui_run abort [UStepGroup, UAdd 0 (x # a), UStepDone 0 0, UWait 0, UStepGroup, UAdd 1 (y # b), UStepDone 1 0] new_ui = Ret u ()
     \<and> client_events abort None (u_sent u) new_view = Ret v ()
     \<and> ct_calls v = [LStepGroup, LAdd (x # a), LDone 0, LWait, LWait, LStepGroup, LUpdate 0 (y # b), LDone 0]"
  by (simp add: UI_StepGroup_def SG_Add_def SG_Wait_def Step_Done_def finish_step_def the_step_def upd_step_def
      upd_group_def send_evc_def send_open_def Let_def new_ui_def new_view_def step_group_event_def step_event_def
      find_step_def step_status_def step_output_def say_def)

end
