(* ===== verification/RunnerClaims.thy ===== *)
theory RunnerClaims
  imports RunnerAccept RunnerUIClaims ServiceClaims
begin

text \<open>
  The properties of a runner's work on a job, together with the server's side of the stream: which job is taken,
  what may be sent, where the output goes, and which outcome is reported.
\<close>

section \<open>Taking a job\<close>

text \<open>C8: A runner that waits for one job takes exactly that one, and the server does with the assignment what the
  runner's answer says: the job is acknowledged if it is the wanted one and queued again otherwise.\<close>

theorem wanted_job_is_taken:
  assumes "ai_closed i = False" and "ai_stream i = None" and "ai_send i = None" and "ai_answer i = None"
    and "ai_recv i = Inr (FirstAssignment j)"
  shows "\<exists>answer. fst (accept_open runner_id want i) = [MRequest runner_id, answer]
    \<and> (snd (accept_open runner_id want i) = Accepted \<longleftrightarrow> want = [] \<or> j = want)
    \<and> ack_phase sys j None (Inr answer) s =
        bind_o (JobAck sys j (want = [] \<or> j = want) s) (\<lambda>s job. Ret s (if want = [] \<or> j = want then Some job else None))"
  using assms
  by (cases "JobAck sys j (want = [] \<or> j = want) s") (auto simp: accept_open_def ack_phase_def ack_of_def)

lemma wanted_job_is_taken_witness:
  "let i = \<lparr>ai_closed = False, ai_stream = None, ai_send = None, ai_recv = Inr (FirstAssignment ''j''), ai_answer = None\<rparr>;
       s = after_ops [OpCreate (any_job ''j''), OpAssign [0]]
   in \<exists>answer. fst (accept_open ''r'' ''other'' i) = [MRequest ''r'', answer]
     \<and> ack_phase rows_sys ''j'' None (Inr answer) s = bind_o (JobAck rows_sys ''j'' False s) (\<lambda>s job. Ret s None)"
  using wanted_job_is_taken[of "\<lparr>ai_closed = False, ai_stream = None, ai_send = None,
      ai_recv = Inr (FirstAssignment ''j''), ai_answer = None\<rparr>" "''j''" "''r''" "''other''" rows_sys
      "after_ops [OpCreate (any_job ''j''), OpAssign [0]]"]
  unfolding Let_def by auto

section \<open>What is sent\<close>

fun is_final :: "'e runner_msg \<Rightarrow> bool" where
  "is_final (MError _) = True"
| "is_final (MComplete _) = True"
| "is_final _ = False"

fun is_traffic :: "'e runner_msg \<Rightarrow> bool" where
  "is_traffic MHeartbeat = True"
| "is_traffic (MTerminal _) = True"
| "is_traffic _ = False"

lemma traffic_not_final: "is_traffic m \<Longrightarrow> \<not> is_final m"
  by (cases m) auto

definition finals :: "acc \<Rightarrow> term_event runner_msg list" where
  "finals a = filter is_final (ac_sent a)"

text \<open>The invariant: nothing but traffic before the report, at most one report, and it carries the result.\<close>

definition acc_ok :: "acc \<Rightarrow> bool" where
  "acc_ok a \<longleftrightarrow>
     (\<forall>m \<in> set (ac_sent a). is_traffic m \<or> is_final m) \<and> length (finals a) \<le> 1 \<and>
     (ac_phase a \<in> {Fetching, Executing, Executed, Reporting} \<longrightarrow> finals a = []) \<and>
     (\<forall>r. MComplete r \<in> set (ac_sent a) \<longrightarrow> r = ac_result a)"

lemma acc_ok_sent:
  assumes ok: "acc_ok a" and ms: "\<forall>m \<in> set ms. is_traffic m" and b: "ac_sent b = ac_sent a @ ms" "ac_result b = ac_result a"
    and ph: "ac_phase b = ac_phase a \<or> ac_phase b \<notin> {Fetching, Executing, Executed, Reporting}"
  shows "acc_ok b"
proof -
  have "filter is_final ms = []" using ms traffic_not_final by (auto simp: filter_empty_conv)
  then have "finals b = finals a" by (simp add: finals_def b)
  moreover have "MComplete r \<notin> set ms" for r using ms by (auto dest: bspec)
  ultimately show ?thesis using ok ms ph by (auto simp: acc_ok_def b)
qed

lemma acc_ok_quiet:
  "acc_ok a \<Longrightarrow> ac_sent b = ac_sent a \<Longrightarrow> ac_result b = ac_result a \<Longrightarrow>
     ac_phase b = ac_phase a \<or> ac_phase b \<notin> {Fetching, Executing, Executed, Reporting} \<or>
       ac_phase a \<in> {Fetching, Executing, Executed} \<Longrightarrow> acc_ok b"
  by (auto simp: acc_ok_def finals_def)

lemma new_terminal_traffic: "\<forall>m \<in> set (if sent then map (\<lambda>e. MTerminal [e]) es else []). is_traffic m"
  by auto

lemma acc_call_ok: "acc_ok a \<Longrightarrow> ac_phase a \<noteq> Panicked \<Longrightarrow> acc_ok (acc_call abort c sent a)"
  by (auto simp: acc_call_def simp del: set_map split: outcome.split
      intro: acc_ok_quiet acc_ok_sent[OF _ new_terminal_traffic])

lemma acc_report_ok: "acc_ok a \<Longrightarrow> acc_ok (acc_report send a)"
  by (auto simp: acc_report_def acc_ok_def finals_def filter_empty_conv split: option.split)

interpretation accepting: machine "acc_step abort" acc_ok for abort
proof
  fix a act
  assume ok: "acc_ok a"
  show "acc_ok (acc_step abort act a)"
  proof (cases "ac_phase a = Panicked")
    case False
    show ?thesis
    proof (cases act)
      case (ACall c sent)
      with ok False show ?thesis by (simp add: acc_step_def acc_call_ok)
    next
      case (AReport e)
      with ok False show ?thesis by (simp add: acc_step_def acc_report_ok)
    next
      case (ABeat sent)
      have "acc_ok (acc_beat sent a)"
        using ok acc_ok_sent[OF ok, of "[MHeartbeat]" "a\<lparr>ac_sent := ac_sent a @ [MHeartbeat]\<rparr>"] by (simp add: acc_beat_def)
      with ABeat False show ?thesis by (simp add: acc_step_def)
    next
      case (AExecuted r e)
      have "acc_ok (acc_executed r e a)"
        using ok by (auto simp: acc_executed_def acc_ok_def finals_def filter_empty_conv)
      with AExecuted False show ?thesis by (simp add: acc_step_def)
    qed (use ok False in \<open>auto simp: acc_step_def acc_recv_def acc_beat_end_def acc_fetched_def acc_check_def
        acc_wait_def acc_leave_def cancel_ctx_def intro: acc_ok_quiet split: sum.split option.split phase.split\<close>)
  qed (use ok in \<open>simp add: acc_step_def\<close>)
qed

text \<open>C9: Whatever the server sends, the operation prints and the goroutines do in any order, a runner sends only
  heartbeats and output before its report, at most one report, and a completion with the result of the job.\<close>

theorem runner_keeps_protocol:
  "let a = fold (acc_step abort) acts acc_start in
     (\<forall>m \<in> set (ac_sent a). is_traffic m \<or> is_final m) \<and> length (finals a) \<le> 1
     \<and> (ac_phase a \<in> {Fetching, Executing, Executed, Reporting} \<longrightarrow> finals a = [])
     \<and> (\<forall>r. MComplete r \<in> set (ac_sent a) \<longrightarrow> r = ac_result a)"
proof -
  have "acc_ok (fold (acc_step abort) acts acc_start)"
    by (rule accepting.run_inv) (simp add: acc_ok_def acc_start_def finals_def)
  then show ?thesis by (simp add: Let_def acc_ok_def)
qed

definition good_run :: "acc_action list" where
  "good_run = [AFetched None True, ABeat True, ACall (UOutput ''up'' [] False []) True, AExecuted (Some 7) None, ACheck, AReport None]"

lemmas acc_defs = acc_step_def acc_recv_def acc_beat_def acc_beat_end_def acc_call_def acc_fetched_def acc_executed_def
  acc_check_def acc_report_def acc_wait_def acc_leave_def cancel_ctx_def mutex_held_def locking_def UI_Close_def

lemma good_run_result:
  "ac_sent (fold (acc_step abort) good_run acc_start) =
     [MHeartbeat, MTerminal [LineEv ''up'' [] False []], MComplete (Some 7)]"
  "ac_phase (fold (acc_step abort) good_run acc_start) = Waiting"
  by (simp_all add: good_run_def acc_defs acc_start_def new_ui_def UI_Output_def send_open_def)

lemma runner_keeps_protocol_witness:
  "let a = fold (acc_step ''abort'') good_run acc_start in length (finals a) = 1 \<and> ac_result a = Some 7"
proof -
  have "finals (fold (acc_step ''abort'') good_run acc_start) = [MComplete (Some 7)]"
    by (simp add: finals_def good_run_result)
  moreover have "MComplete (Some 7) \<in> set (ac_sent (fold (acc_step ''abort'') good_run acc_start))"
    by (simp add: good_run_result)
  ultimately show ?thesis using runner_keeps_protocol[of "''abort''" good_run] unfolding Let_def by auto
qed

section \<open>Which outcome is reported\<close>

text \<open>What can happen between the end of the execution and the report besides the steps of the executing
  goroutine: heartbeats, and messages of the server.\<close>

fun meanwhile :: "acc_action \<Rightarrow> bool" where
  "meanwhile (ABeat _) = True"
| "meanwhile ABeatEnd = True"
| "meanwhile (ARecv (Inr _)) = True"
| "meanwhile _ = False"

fun receives :: "acc_action \<Rightarrow> bool" where
  "receives (ARecv _) = True"
| "receives _ = False"

text \<open>The state between: the finals, the report to come, and that the receiver has no error.\<close>

definition pending :: "phase \<Rightarrow> nat option \<Rightarrow> goerr option \<Rightarrow> acc \<Rightarrow> bool" where
  "pending ph r e a \<longleftrightarrow>
     ac_phase a = ph \<and> ac_result a = r \<and> ac_err a = e \<and> ac_errCh a = None \<and> ac_receiving a \<and> finals a = []"

lemma meanwhile_step:
  assumes "pending ph r e a" and "ph \<in> {Executed, Reporting}" and "meanwhile act"
  shows "pending ph r (if receives act then None else e) (acc_step abort act a)"
  using assms by (cases act rule: meanwhile.cases)
    (auto simp: pending_def acc_defs finals_def split: if_splits)

lemma meanwhile_run:
  assumes "pending ph r e a" and "ph \<in> {Executed, Reporting}" and "list_all meanwhile acts"
  shows "pending ph r (if list_ex receives acts then None else e) (fold (acc_step abort) acts a)"
  using assms(1,3)
proof (induction acts arbitrary: a e)
  case (Cons act acts)
  then show ?case using meanwhile_step[OF Cons.prems(1) assms(2), of act abort] Cons.IH[of _ "acc_step abort act a"]
    by (cases "receives act"; cases "list_ex receives acts") fastforce+
qed simp

lemma check_pending: "pending Executed r e a \<Longrightarrow> pending Reporting r e (acc_step abort ACheck a)"
  by (auto simp: pending_def acc_defs finals_def)

lemma report_pending:
  "pending Reporting r e a \<Longrightarrow> finals (acc_step abort (AReport None) a) =
     [case e of None \<Rightarrow> MComplete r | Some e \<Rightarrow> MError (Some e)]"
  by (auto simp: pending_def acc_defs finals_def split: option.split)

text \<open>C10: Once a job has been executed, the outcome is reported as it is when nothing arrives from the server in
  the meantime; but any message, such as the request to cancel the job, that arrives before the report makes
  the runner report success, whatever error the execution had.\<close>

theorem report_of_execution:
  assumes "ac_phase a = Executing" and "ac_receiving a" and "ac_errCh a = None" and "finals a = []"
    and "list_all meanwhile xs" and "list_all meanwhile ys"
  shows "finals (fold (acc_step abort) (AExecuted r e # xs @ ACheck # ys @ [AReport None]) a) =
    [case (if list_ex receives (xs @ ys) then None else e) of None \<Rightarrow> MComplete r | Some e \<Rightarrow> MError (Some e)]"
proof -
  let ?a1 = "acc_step abort (AExecuted r e) a"
  have "pending Executed r e ?a1" using assms(1-4) by (simp add: pending_def acc_defs finals_def)
  then have 2: "pending Executed r (if list_ex receives xs then None else e) (fold (acc_step abort) xs ?a1)" (is "pending _ _ ?e2 ?a2")
    by (rule meanwhile_run) (use assms(5) in simp_all)
  then have "pending Reporting r ?e2 (acc_step abort ACheck ?a2)"
    by (rule check_pending)
  then have "pending Reporting r (if list_ex receives ys then None else ?e2) (fold (acc_step abort) ys (acc_step abort ACheck ?a2))"
    (is "pending _ _ ?e3 ?a3")
    by (rule meanwhile_run) (use assms(6) in simp_all)
  then have "finals (acc_step abort (AReport None) ?a3) =
      [case ?e3 of None \<Rightarrow> MComplete r | Some e \<Rightarrow> MError (Some e)]"
    by (rule report_pending)
  moreover have "?e3 = (if list_ex receives (xs @ ys) then None else e)" by simp
  ultimately show ?thesis by (simp only: fold_append fold.simps o_apply id_apply)
qed

lemma report_of_execution_witness:
  "let a = fold (acc_step ''abort'') [AFetched None True] acc_start in
     finals (fold (acc_step ''abort'') (AExecuted None (Some RecordNotFound) # [ARecv (Inr True)] @ ACheck # [] @ [AReport None]) a)
       = [MComplete None]"
  unfolding Let_def
  using report_of_execution[of "fold (acc_step ''abort'') [AFetched None True] acc_start" "[ARecv (Inr True)]" "[]" "''abort''"
      None "Some RecordNotFound"]
  by (simp add: acc_step_def acc_fetched_def acc_start_def finals_def)

section \<open>Output\<close>

lemma ui_step_sent: "ui_step abort c u = Ret u' a \<Longrightarrow> \<exists>evs. u_sent u' = u_sent u @ evs"
  by (cases c) (auto simp: UI_Output_def UI_NamedValues_def UI_Table_def Status_Update_def Status_Step_def
      Status_Close_def write_pipe_def OutputWriters_def sendData_def UI_StepGroup_def SG_Add_def SG_Wait_def
      Step_write_def Step_sendData_def Step_Update_def Step_Status_def Step_Done_def Step_Abort_def UI_Close_def
      send_evc_def finish_step_def Let_def split: if_splits prod.splits option.splits)

text \<open>The stream delivers what a call sends.\<close>

fun delivered :: "acc_action \<Rightarrow> bool" where
  "delivered (ACall c sent) = sent"
| "delivered _ = True"

definition output_ok :: "acc \<Rightarrow> bool" where
  "output_ok a \<longleftrightarrow> concat (map lines_of (ac_sent a)) = u_sent (ac_ui a)"

lemma output_step:
  assumes "output_ok a" and "delivered act"
  shows "output_ok (acc_step abort act a)"
proof (cases act)
  case (ACall c sent)
  then have sent using assms(2) by simp
  show ?thesis
  proof (cases "ui_step abort c (ac_ui a)")
    case (Ret u x)
    then obtain evs where "u_sent u = u_sent (ac_ui a) @ evs" using ui_step_sent by blast
    moreover have "concat (map (lines_of \<circ> (\<lambda>e. MTerminal [e])) evs) = evs" by (induction evs) auto
    ultimately show ?thesis using assms(1) ACall Ret \<open>sent\<close> by (simp add: output_ok_def acc_step_def acc_call_def)
  qed (use assms(1) ACall in \<open>simp_all add: output_ok_def acc_step_def acc_call_def\<close>)
qed (use assms(1) in \<open>auto simp: output_ok_def acc_defs split: sum.split option.split phase.split\<close>)

lemma fed_events: "fed (map PickEvent ms) = concat (map lines_of ms)"
  by (induction ms) auto

text \<open>What an operation prints on the runner is in the output buffer of its job on the server, complete and in
  order: after the server has handled the messages of a run, the history of the buffer has grown by exactly
  the events of the user interface.\<close>

theorem runner_output_in_buffer:
  assumes "list_all delivered acts"
    and "stream_loop sys job (map PickEvent (ac_sent (fold (acc_step abort) acts acc_start))) s = Ret s' out"
    and "job_OutputBuffer job = Some b" and "b < length (j_buffers s)" and "buf_ok 32 164 (j_buffers s ! b)"
  shows "hist (j_buffers s' ! b) =
    hist (j_buffers s ! b) @ map Some (u_sent (ac_ui (fold (acc_step abort) acts acc_start)))"
proof -
  have "output_ok a \<Longrightarrow> list_all delivered acts \<Longrightarrow> output_ok (fold (acc_step abort) acts a)" for a
    by (induction acts arbitrary: a) (auto simp: output_step)
  then have "output_ok (fold (acc_step abort) acts acc_start)"
    using assms(1) by (simp add: output_ok_def acc_start_def new_ui_def)
  with loop_output[OF assms(4,5,3,2)] show ?thesis by (simp add: buffer_has_def fed_events output_ok_def)
qed

definition server_with_job :: "(rows, jobpb list, term_event) jstate" where
  "server_with_job = fold (job_step rows_sys (\<lambda>_. None)) [OpCreate (any_job ''j''), OpAssign [0], OpAck ''j'' True] empty_server"

lemma runner_output_in_buffer_witness:
  "let j = \<lparr>job_pb = any_job ''j'', job_OutputBuffer = Some 0, job_Blocked = False\<rparr>;
       a = fold (acc_step ''abort'') [AFetched None True, ACall (UOutput ''up'' [] False []) True] acc_start
   in \<exists>s' out. stream_loop rows_sys j (map PickEvent (ac_sent a)) server_with_job = Ret s' out
     \<and> hist (j_buffers s' ! 0) = [Some (LineEv ''up'' [] False [])]"
proof -
  let ?j = "\<lparr>job_pb = any_job ''j'', job_OutputBuffer = Some 0, job_Blocked = False\<rparr>"
  let ?acts = "[AFetched None True, ACall (UOutput ''up'' [] False []) True]"
  let ?a = "fold (acc_step ''abort'') ?acts acc_start"
  have a: "ac_sent ?a = [MTerminal [LineEv ''up'' [] False []]]" "u_sent (ac_ui ?a) = [LineEv ''up'' [] False []]"
    by (simp_all add: acc_defs acc_start_def new_ui_def UI_Output_def send_open_def)
  have b: "0 < length (j_buffers server_with_job)" and n: "j_buffers server_with_job ! 0 = New 32" by code_simp+
  have ok: "buf_ok 32 164 (j_buffers server_with_job ! 0)" "hist (j_buffers server_with_job ! 0) = []"
    using New_ok[of 32 164, where ?'e = term_event] by (simp_all add: n)
  from terminal_returns[OF b ok(1), of ?j rows_sys "[[LineEv ''up'' [] False []]]"] obtain s' where
    r: "stream_loop rows_sys ?j (map PickEvent (ac_sent ?a)) server_with_job = Ret s' []"
    unfolding a by auto
  from runner_output_in_buffer[OF _ r _ b ok(1)] show ?thesis
    unfolding Let_def ok(2) a(2) using r by auto
qed

end
