(* ===== verification/ClientClaims.thy ===== *)
theory ClientClaims
  imports ClientJob RunnerClaims
begin

text \<open>
  The properties of a client that follows a job, together with the server's stream and the runner's user
  interface: which result it returns, and what the user sees of the operation.
\<close>

section \<open>The loop\<close>

lemma job_loop_append:
  "job_loop env l ms c = (c', None) \<Longrightarrow> job_loop env l (ms @ ns) c = job_loop env l ns c'"
  by (induction ms arbitrary: c) (auto split: prod.splits option.splits)

text \<open>Messages after which the loop goes on.\<close>

fun goes_on :: "client_in \<Rightarrow> bool" where
  "goes_on (CRecv m) = (\<not> is_complete m)"
| "goes_on (CRecvError e) = False"
| "goes_on (CRecvFails e) = False"
| "goes_on _ = True"

lemma job_message_goes_on:
  assumes "goes_on m" and "ce_writers env = None"
  shows "\<exists>c'. job_message env l m c = (c', None) \<and> cj_completed c' = cj_completed c"
proof (cases m)
  case (CRecv msg)
  show ?thesis
  proof (cases msg)
    case (CTerminal es b)
    obtain v where "client_events (ce_abort env) (ce_writers env) es (cj_view c) = Ret v ()"
      using client_events_return assms(2) by fastforce
    then show ?thesis by (simp add: CRecv CTerminal job_message_def terminal_msg_def)
  qed (use assms CRecv in \<open>auto simp: job_message_def state_timer_def\<close>)
next
  case CTimer
  then show ?thesis by (auto simp: job_message_def timer_fires_def split: option.split)
qed (use assms in \<open>auto simp: job_message_def\<close>)

lemma job_loop_goes_on:
  assumes "\<forall>m \<in> set ms. goes_on m" and "ce_writers env = None"
  shows "\<exists>c'. job_loop env l ms c = (c', None) \<and> cj_completed c' = cj_completed c"
  using assms(1)
proof (induction ms arbitrary: c)
  case (Cons m ms)
  then obtain c1 where "job_message env l m c = (c1, None)" "cj_completed c1 = cj_completed c"
    using job_message_goes_on[OF _ assms(2), of m l c] by auto
  with Cons.IH[of c1] Cons.prems show ?case by simp
qed simp

section \<open>The result of a job\<close>

text \<open>What arrives besides the messages of the server: empty and unknown messages, and the timer.\<close>

fun is_noise :: "client_in \<Rightarrow> bool" where
  "is_noise CRecvNil = True"
| "is_noise CRecvUnknown = True"
| "is_noise CTimer = True"
| "is_noise _ = False"

lemma noise_split:
  assumes "filter (\<lambda>m. \<not> is_noise m) ms = map CRecv (body @ [x])"
  obtains pre post where "ms = pre @ CRecv x # post" and "\<forall>m \<in> set pre. is_noise m \<or> m \<in> CRecv ` set body"
proof -
  have "\<exists>pre post. ms = pre @ CRecv x # post \<and> (\<forall>m \<in> set pre. is_noise m \<or> m \<in> CRecv ` set body)"
    using assms
  proof (induction ms arbitrary: body)
    case (Cons m ms)
    show ?case
    proof (cases "is_noise m")
      case True
      with Cons.prems have "filter (\<lambda>m. \<not> is_noise m) ms = map CRecv (body @ [x])" by simp
      from Cons.IH[OF this] obtain pre post where
        "ms = pre @ CRecv x # post" "\<forall>m \<in> set pre. is_noise m \<or> m \<in> CRecv ` set body"
        by auto
      with True show ?thesis by (intro exI[of _ "m # pre"] exI[of _ post]) auto
    next
      case False
      show ?thesis
      proof (cases body)
        case Nil
        with False Cons.prems show ?thesis by (intro exI[of _ "[]"] exI[of _ ms]) auto
      next
        case (Cons b body')
        with False Cons.prems have m: "m = CRecv b" "filter (\<lambda>m. \<not> is_noise m) ms = map CRecv (body' @ [x])" by auto
        from Cons.IH[OF m(2)] obtain pre post where
          "ms = pre @ CRecv x # post" "\<forall>m \<in> set pre. is_noise m \<or> m \<in> CRecv ` set body'" by auto
        with m(1) show ?thesis by (intro exI[of _ "m # pre"] exI[of _ post]) (auto simp: Cons)
      qed
    qed
  qed simp
  then show thesis using that by blast
qed

text \<open>C11: A client that follows a job over the server's stream returns what the server's completion says, the result
  of the job or its error, whatever state changes and output came before, and does not cancel the job.\<close>

theorem client_returns_outcome:
  assumes "GetJobStream sys j None ps s = Ret s' (out, CReturned)" and "list_all only_lines ps"
    and "last out = CComplete err res" and "ce_writers env = None"
    and "fi_queued i = Inr j" and "fi_stream i = None" and "fi_first i = Inr (CRecv (hd out))"
    and "filter (\<lambda>m. \<not> is_noise m) (fi_messages i) = map CRecv (tl out)"
  shows "fo_result (queueAndStreamJob env localRunner i) = Some (case err of None \<Rightarrow> (res, None) | Some e \<Rightarrow> (None, Some e))
    \<and> fo_canceled (queueAndStreamJob env localRunner i) = None"
proof -
  obtain rest where out: "out = COpen # rest" and told: "well_told Job_UNKNOWN rest CReturned"
    using assms(1) client_stream_told[OF assms(2), of "\<lparr>cl_last = Job_UNKNOWN, cl_cancel = False, cl_output = False\<rparr>"]
    by (auto simp: GetJobStream_def bind_o_Ret_iff split: option.splits prod.splits)
  have "rest \<noteq> []" "last rest = CComplete err res" using assms(3) out by (auto split: if_splits)
  moreover from told obtain body ends where "rest = body @ ends" and body: "\<forall>m \<in> set body. \<not> is_complete m"
    and "ends = [] \<or> (\<exists>e r. ends = [CComplete e r])"
    by (auto simp: well_told_def)
  ultimately have rest: "rest = body @ [CComplete err res]"
    by (metis append.right_neutral is_complete.simps(1) last_in_set last_snoc)
  have "filter (\<lambda>m. \<not> is_noise m) (fi_messages i) = map CRecv (body @ [CComplete err res])"
    using assms(8) by (simp add: out rest)
  then obtain pre post where msgs: "fi_messages i = pre @ CRecv (CComplete err res) # post"
    and pre: "\<forall>m \<in> set pre. is_noise m \<or> m \<in> CRecv ` set body"
    by (rule noise_split)
  have "goes_on m" if "m \<in> set pre" for m
    using pre body that by (cases m) auto
  then obtain c where c: "job_loop env localRunner pre new_cjob = (c, None)"
    using job_loop_goes_on[of pre env localRunner new_cjob] assms(4) by auto
  have "job_loop env localRunner (fi_messages i) new_cjob =
      (leave_loop (c\<lparr>cj_completed := True\<rparr>), Some (case err of None \<Rightarrow> (res, None) | Some e \<Rightarrow> (None, Some e)))"
    unfolding msgs job_loop_append[OF c] by (simp add: job_message_def)
  then show ?thesis using assms(5-7)
    by (simp add: queueAndStreamJob_def out leave_loop_def)
qed

definition finished_job :: job where
  "finished_job = \<lparr>job_pb = (any_job ''j'')\<lparr>p_state := Job_SUCCESS, p_result := Some 7\<rparr>, job_OutputBuffer = Some 0,
     job_Blocked = False\<rparr>"

definition told_messages :: "term_event client_out list" where
  "told_messages = [CState Job_UNKNOWN Job_SUCCESS False (job_pb finished_job), CTerminal [LineEv ''up'' [] False []] True,
     CComplete None (Some 7)]"

definition plain_env :: cenv where
  "plain_env = \<lparr>ce_abort = ''abort'', ce_writers = None, ce_header = ''header'', ce_info = ''info''\<rparr>"

definition follow_finished :: follow_in where
  "follow_finished = \<lparr>fi_queued = Inr ''j'', fi_stream = None, fi_first = Inr (CRecv COpen),
     fi_messages = CTimer # map CRecv told_messages, fi_interrupted = True\<rparr>"

lemma told_finished:
  "\<exists>s'. GetJobStream rows_sys ''j'' None [CPickJob finished_job None [CTerminal [LineEv ''up'' [] False []] True]]
     server_with_job = Ret s' (COpen # told_messages, CReturned)"
proof -
  have "case GetJobStream rows_sys ''j'' None [CPickJob finished_job None [CTerminal [LineEv ''up'' [] False []] True]]
      server_with_job of Ret s' (out, r) \<Rightarrow> out = COpen # told_messages \<and> r = CReturned | _ \<Rightarrow> False"
    by code_simp
  then show ?thesis by (auto split: outcome.splits)
qed

lemma client_returns_outcome_witness:
  "fo_result (queueAndStreamJob plain_env True follow_finished) = Some (Some 7, None)
   \<and> fo_canceled (queueAndStreamJob plain_env True follow_finished) = None"
proof -
  obtain s' where r: "GetJobStream rows_sys ''j'' None [CPickJob finished_job None [CTerminal [LineEv ''up'' [] False []] True]]
      server_with_job = Ret s' (COpen # told_messages, CReturned)"
    using told_finished by blast
  show ?thesis
    using client_returns_outcome[OF r, of None "Some 7" plain_env follow_finished True]
    by (simp add: plain_env_def follow_finished_def told_messages_def)
qed

section \<open>The terminal from end to end\<close>

lemma client_events_append:
  "client_events abort werr (es @ fs) v = bind_o (client_events abort werr es v) (\<lambda>v _. client_events abort werr fs v)"
  by (induction es arbitrary: v) (auto simp: bind_o_assoc)

lemma job_loop_batches:
  assumes "ce_writers env = None"
  shows "\<exists>v. client_events (ce_abort env) None (concat (map fst batches)) (cj_view c) = Ret v ()
    \<and> job_loop env False (map (\<lambda>(es, b). CRecv (CTerminal es b)) batches) c = (c\<lparr>cj_view := v\<rparr>, None)"
proof (induction batches arbitrary: c)
  case (Cons b batches)
  obtain es buffered where b: "b = (es, buffered)" by (cases b)
  obtain v1 where v1: "client_events (ce_abort env) None es (cj_view c) = Ret v1 ()" using client_events_return by blast
  from Cons.IH[of "c\<lparr>cj_view := v1\<rparr>"] show ?case
    using assms v1 by (auto simp: b client_events_append job_message_def terminal_msg_def)
qed simp


lemma sample_run: "\<exists>u. ui_run ''abort'' sample_calls new_ui = Ret u ()"
  and sample_ok: "calls_ok ''abort'' sample_calls new_ui"
  and sample_mirrored: "mirrored ''abort'' sample_calls new_ui =
    [LOutput ''up'' ''header'', LStepGroup, LAdd ''import'', LUpdate 0 ''half'', LDone 0, LWait, LRaw False ''o'']"
  by (simp_all add: UI_Output_def write_pipe_def OutputWriters_def sendData_def UI_StepGroup_def SG_Add_def SG_Wait_def
    Step_Update_def Step_Done_def finish_step_def the_step_def upd_step_def upd_group_def send_evc_def send_open_def Let_def
    pipes_of_def read_size_def next_piece_def sample_calls_def new_ui_def)


end
