(* ===== verification/CliContext.thy ===== *)
theory CliContext
  imports Prelude "HOL-Library.AList"
begin

text \<open>
  \<open>internal/clicontext\<close>: the contexts of the command line, one file each in a directory, with a default that is a
  symbolic link to one of them or a file with its name. The directory is a list of nodes by path; the functions
  of package \<open>os\<close> that the code calls work on it. They may fail for reasons of their own: \<open>fault\<close> says for an
  operation and a path whether and how. The encoding of a configuration is an argument.

  A path is the directory, a slash and a name; names with slashes are outside of the model.
\<close>

section \<open>Files\<close>

datatype fs_err = NotExist | TooManyLinks | OSError string | ContextMissing string | DecodeError string

datatype node = Reg string | Link string

record fs =
  f_dir :: bool
  f_nodes :: "(string \<times> node) list"

type_synonym fault = "string \<Rightarrow> string \<Rightarrow> fs_err option"
type_synonym 'a fsresult = "(fs, fs_err, 'a) outcome"

definition unless_fault :: "fault \<Rightarrow> string \<Rightarrow> string \<Rightarrow> fs \<Rightarrow> 'a fsresult \<Rightarrow> 'a fsresult" where
  "unless_fault fault op p w r = (case fault op p of Some e \<Rightarrow> Fail w e | None \<Rightarrow> r)"

text \<open>The path that a chain of links leads to; the system follows at most 40.\<close>

fun deref :: "nat \<Rightarrow> fs \<Rightarrow> string \<Rightarrow> string option" where
  "deref 0 w p = None"
| "deref (Suc k) w p = (case map_of (f_nodes w) p of Some (Link q) \<Rightarrow> deref k w q | _ \<Rightarrow> Some p)"

definition max_links :: nat where "max_links = 41"

definition put_node :: "string \<Rightarrow> node \<Rightarrow> fs \<Rightarrow> fs" where
  "put_node p n w = w\<lparr>f_nodes := AList.update p n (f_nodes w)\<rparr>"

definition del_node :: "string \<Rightarrow> fs \<Rightarrow> fs" where
  "del_node p w = w\<lparr>f_nodes := AList.delete p (f_nodes w)\<rparr>"

definition os_MkdirAll :: "fault \<Rightarrow> string \<Rightarrow> fs \<Rightarrow> unit fsresult" where
  "os_MkdirAll fault p w = unless_fault fault ''mkdir'' p w (Ret (w\<lparr>f_dir := True\<rparr>) ())"

definition os_Stat :: "fault \<Rightarrow> string \<Rightarrow> fs \<Rightarrow> unit fsresult" where
  "os_Stat fault p w = unless_fault fault ''stat'' p w
     (case deref max_links w p of
        None \<Rightarrow> Fail w TooManyLinks
      | Some q \<Rightarrow> if map_of (f_nodes w) q = None then Fail w NotExist else Ret w ())"

definition os_Lstat :: "fault \<Rightarrow> string \<Rightarrow> fs \<Rightarrow> node fsresult" where
  "os_Lstat fault p w = unless_fault fault ''lstat'' p w
     (case map_of (f_nodes w) p of None \<Rightarrow> Fail w NotExist | Some n \<Rightarrow> Ret w n)"

definition os_Readlink :: "fault \<Rightarrow> string \<Rightarrow> fs \<Rightarrow> string fsresult" where
  "os_Readlink fault p w = unless_fault fault ''readlink'' p w
     (case map_of (f_nodes w) p of
        None \<Rightarrow> Fail w NotExist
      | Some (Reg s) \<Rightarrow> Fail w (OSError ''invalid argument'')
      | Some (Link q) \<Rightarrow> Ret w q)"

definition os_ReadFile :: "fault \<Rightarrow> string \<Rightarrow> fs \<Rightarrow> string fsresult" where
  "os_ReadFile fault p w = unless_fault fault ''read'' p w
     (case deref max_links w p of
        None \<Rightarrow> Fail w TooManyLinks
      | Some q \<Rightarrow> (case map_of (f_nodes w) q of Some (Reg s) \<Rightarrow> Ret w s | _ \<Rightarrow> Fail w NotExist))"

text \<open>Creating a file empties it and follows links; writing is separate.\<close>

definition os_Create :: "fault \<Rightarrow> string \<Rightarrow> fs \<Rightarrow> string fsresult" where
  "os_Create fault p w = unless_fault fault ''create'' p w
     (if \<not> f_dir w then Fail w NotExist
      else (case deref max_links w p of None \<Rightarrow> Fail w TooManyLinks | Some q \<Rightarrow> Ret (put_node q (Reg []) w) q))"

definition file_write :: "fault \<Rightarrow> string \<Rightarrow> string \<Rightarrow> fs \<Rightarrow> unit fsresult" where
  "file_write fault q data w = unless_fault fault ''write'' q w (Ret (put_node q (Reg data) w) ())"

definition os_WriteFile :: "fault \<Rightarrow> string \<Rightarrow> string \<Rightarrow> fs \<Rightarrow> unit fsresult" where
  "os_WriteFile fault p data w = bind_o (os_Create fault p w) (\<lambda>w q. file_write fault q data w)"

definition os_Remove :: "fault \<Rightarrow> string \<Rightarrow> fs \<Rightarrow> unit fsresult" where
  "os_Remove fault p w = unless_fault fault ''remove'' p w
     (if map_of (f_nodes w) p = None then Fail w NotExist else Ret (del_node p w) ())"

definition os_Rename :: "fault \<Rightarrow> string \<Rightarrow> string \<Rightarrow> fs \<Rightarrow> unit fsresult" where
  "os_Rename fault p q w = unless_fault fault ''rename'' p w
     (case map_of (f_nodes w) p of
        None \<Rightarrow> Fail w NotExist
      | Some n \<Rightarrow> Ret (if p = q then w else del_node p (put_node q n w)) ())"

definition os_Symlink :: "fault \<Rightarrow> string \<Rightarrow> string \<Rightarrow> fs \<Rightarrow> unit fsresult" where
  "os_Symlink fault target p w = unless_fault fault ''symlink'' p w
     (if \<not> f_dir w then Fail w NotExist
      else if map_of (f_nodes w) p \<noteq> None then Fail w (OSError ''file exists'')
      else Ret (put_node p (Link target) w) ())"

text \<open>\<open>if os.IsNotExist(err) { err = nil }\<close>\<close>

definition ignore_missing :: "unit fsresult \<Rightarrow> unit fsresult" where
  "ignore_missing r = (case r of Fail w NotExist \<Rightarrow> Ret w () | _ \<Rightarrow> r)"

section \<open>The storage\<close>

record storage =
  sg_dir :: string
  sg_noSymlink :: bool

definition configPath :: "storage \<Rightarrow> string \<Rightarrow> string" where
  "configPath m n = sg_dir m @ ''/'' @ n @ ''.hcl''"

definition defaultPath :: "storage \<Rightarrow> string" where
  "defaultPath m = sg_dir m @ ''/_default.hcl''"

text \<open>The last element of a path, its extension, and the name without the extension: \<open>strings.Replace\<close> removes
  the first occurrence.\<close>

definition path_base :: "string \<Rightarrow> string" where
  "path_base p = rev (takeWhile (\<lambda>c. c \<noteq> CHR ''/'') (rev p))"

definition path_ext :: "string \<Rightarrow> string" where
  "path_ext p =
     (let b = path_base p in
      if CHR ''.'' \<in> set b then CHR ''.'' # rev (takeWhile (\<lambda>c. c \<noteq> CHR ''.'') (rev b)) else [])"

fun remove_first :: "string \<Rightarrow> string \<Rightarrow> string" where
  "remove_first sub [] = []"
| "remove_first sub (c # cs) =
     (if HasPrefix (c # cs) sub then drop (length sub) (c # cs) else c # remove_first sub cs)"

definition nameFromPath :: "string \<Rightarrow> string" where
  "nameFromPath p = remove_first (path_ext p) (path_base p)"

definition Ctx_Default :: "fault \<Rightarrow> storage \<Rightarrow> fs \<Rightarrow> string fsresult" where
  "Ctx_Default fault m w =
     (case os_Lstat fault (defaultPath m) w of
        Crash c \<Rightarrow> Crash c
      | Fail w e \<Rightarrow> if e = NotExist then Ret w [] else Fail w e
      | Ret w (Link _) \<Rightarrow> bind_o (os_Readlink fault (defaultPath m) w) (\<lambda>w q. Ret w (nameFromPath q))
      | Ret w (Reg _) \<Rightarrow> os_ReadFile fault (defaultPath m) w)"

text \<open>The result of a failed system call is checked against what the link is afterwards.\<close>

definition createSymlink :: "fault \<Rightarrow> string \<Rightarrow> string \<Rightarrow> fs \<Rightarrow> unit fsresult" where
  "createSymlink fault src dst w =
     bind_o (ignore_missing (os_Remove fault dst w)) (\<lambda>w _.
       let r = os_Symlink fault src dst w; w1 = (case r of Ret w _ \<Rightarrow> w | Fail w _ \<Rightarrow> w | Crash _ \<Rightarrow> w) in
       case os_Readlink fault dst w1 of
         Ret w2 ln \<Rightarrow> if ln \<noteq> src then r else Ret w2 ()
       | _ \<Rightarrow> r)"

definition SetDefault :: "fault \<Rightarrow> storage \<Rightarrow> string \<Rightarrow> fs \<Rightarrow> unit fsresult" where
  "SetDefault fault m n w =
     bind_o (os_Stat fault (configPath m n) w) (\<lambda>w _.
       if sg_noSymlink m then os_WriteFile fault (defaultPath m) n w
       else
         (case createSymlink fault (configPath m n) (defaultPath m) w of
            Fail w e \<Rightarrow> os_WriteFile fault (defaultPath m) n w
          | r \<Rightarrow> r))"

definition UnsetDefault :: "fault \<Rightarrow> storage \<Rightarrow> fs \<Rightarrow> unit fsresult" where
  "UnsetDefault fault m w = ignore_missing (os_Remove fault (defaultPath m) w)"

definition Ctx_Delete :: "fault \<Rightarrow> storage \<Rightarrow> string \<Rightarrow> fs \<Rightarrow> unit fsresult" where
  "Ctx_Delete fault m n w =
     bind_o (ignore_missing (os_Remove fault (configPath m n) w)) (\<lambda>w _.
       bind_o (Ctx_Default fault m w) (\<lambda>w d. if d = n then UnsetDefault fault m w else Ret w ()))"

definition Ctx_Rename :: "fault \<Rightarrow> storage \<Rightarrow> string \<Rightarrow> string \<Rightarrow> fs \<Rightarrow> unit fsresult" where
  "Ctx_Rename fault m src dst w =
     (case os_Stat fault (configPath m src) w of
        Crash c \<Rightarrow> Crash c
      | Fail w e \<Rightarrow> Fail w (if e = NotExist then ContextMissing src else e)
      | Ret w _ \<Rightarrow>
          bind_o (Ctx_Delete fault m dst w) (\<lambda>w _.
            bind_o (os_Rename fault (configPath m src) (configPath m dst) w) (\<lambda>w _.
              bind_o (Ctx_Default fault m w) (\<lambda>w d. if d = src then SetDefault fault m dst w else Ret w ()))))"

definition Ctx_Set :: "('c \<Rightarrow> string) \<Rightarrow> fault \<Rightarrow> storage \<Rightarrow> string \<Rightarrow> 'c \<Rightarrow> fs \<Rightarrow> unit fsresult" where
  "Ctx_Set encode fault m n c w =
     bind_o (os_MkdirAll fault (sg_dir m) w) (\<lambda>w _.
       bind_o (os_Create fault (configPath m n) w) (\<lambda>w q.
         bind_o (file_write fault q (encode c) w) (\<lambda>w _.
           bind_o (Ctx_Default fault m w) (\<lambda>w d. if d = [] then SetDefault fault m n w else Ret w ()))))"

definition Ctx_Load :: "(string \<Rightarrow> fs_err + 'c) \<Rightarrow> fault \<Rightarrow> storage \<Rightarrow> string \<Rightarrow> fs \<Rightarrow> 'c fsresult" where
  "Ctx_Load decode fault m n w =
     bind_o (os_ReadFile fault (configPath m n) w) (\<lambda>w s. case decode s of Inl e \<Rightarrow> Fail w e | Inr c \<Rightarrow> Ret w c)"

definition Ctx_List :: "fault \<Rightarrow> storage \<Rightarrow> fs \<Rightarrow> string list fsresult" where
  "Ctx_List fault m w =
     (case fault ''open'' (sg_dir m) of
        Some e \<Rightarrow> if e = NotExist then Ret w [] else Fail w e
      | None \<Rightarrow>
          if \<not> f_dir w then Ret w []
          else
            Ret w (map nameFromPath (filter (\<lambda>n. \<not> HasPrefix n ''_'') (map (path_base \<circ> fst) (f_nodes w)))))"

end
