(* ===== verification/CliContextClaims.thy ===== *)
theory CliContextClaims
  imports CliContext
begin

text \<open>
  The contexts of the command line as what a user takes them for, a table of configurations by name with a
  default: the storage on disk implements the table, and where using it differently breaks it.
\<close>

section \<open>Paths\<close>

definition good :: "string \<Rightarrow> bool" where
  "good n \<longleftrightarrow> n \<noteq> [] \<and> n \<noteq> ''_default'' \<and> CHR ''/'' \<notin> set n \<and> CHR ''.'' \<notin> set n"

abbreviation node_at :: "fs \<Rightarrow> string \<Rightarrow> node option" where
  "node_at w p \<equiv> map_of (f_nodes w) p"

lemma node_put [simp]: "node_at (put_node p n w) q = (if q = p then Some n else node_at w q)"
  by (simp add: put_node_def update_conv')

lemma node_del [simp]: "node_at (del_node p w) q = (if q = p then None else node_at w q)"
  by (simp add: del_node_def delete_conv')

lemma f_dir_simps [simp]: "f_dir (put_node p n w) = f_dir w" "f_dir (del_node p w) = f_dir w"
  by (simp_all add: put_node_def del_node_def)

lemma configPath_eq [simp]: "configPath m a = configPath m b \<longleftrightarrow> a = b"
  by (simp add: configPath_def)

lemma config_not_default [simp]:
  "good n \<Longrightarrow> configPath m n \<noteq> defaultPath m" "good n \<Longrightarrow> defaultPath m \<noteq> configPath m n"
proof -
  have "''/'' @ n @ ''.hcl'' = ''/_default.hcl'' \<longleftrightarrow> n @ ''.hcl'' = ''_default'' @ ''.hcl''" by simp
  then show "good n \<Longrightarrow> configPath m n \<noteq> defaultPath m" "good n \<Longrightarrow> defaultPath m \<noteq> configPath m n"
    by (auto simp: configPath_def defaultPath_def good_def dest: sym)
qed

lemma takeWhile_stop: "x \<notin> set ys \<Longrightarrow> takeWhile (\<lambda>c. c \<noteq> x) (ys @ x # zs) = ys"
  by (induction ys) auto

lemma remove_first_end: "x \<notin> set ys \<Longrightarrow> remove_first (x # zs) (ys @ x # zs) = ys"
  by (induction ys) (auto simp: HasPrefix_def)

lemma nameFromPath_config [simp]: "good n \<Longrightarrow> nameFromPath (configPath m n) = n"
proof -
  assume g: "good n"
  have b: "path_base (configPath m n) = n @ ''.hcl''"
    using g takeWhile_stop[of "CHR ''/''" "rev (n @ ''.hcl'')" "rev (sg_dir m)"]
    by (simp add: path_base_def configPath_def good_def)
  then have "path_ext (configPath m n) = ''.hcl''" by (simp add: path_ext_def)
  with b g remove_first_end[of "CHR ''.''" n "''hcl''"] show ?thesis by (simp add: nameFromPath_def good_def)
qed

section \<open>The table\<close>

datatype 'c ctx_op = OpSet string 'c | OpRename string string | OpDelete string | OpSetDefault string | OpUnsetDefault

type_synonym 'c table = "(string \<rightharpoonup> 'c) \<times> string option"

definition drop_name :: "string \<Rightarrow> 'c table \<Rightarrow> 'c table" where
  "drop_name n t = ((fst t)(n := None), if snd t = Some n then None else snd t)"

fun table_op :: "'c ctx_op \<Rightarrow> 'c table \<Rightarrow> 'c table" where
  "table_op (OpSet n c) t = ((fst t)(n \<mapsto> c), if snd t = None then Some n else snd t)"
| "table_op (OpRename a b) t =
     (case fst t a of
        None \<Rightarrow> t
      | Some c \<Rightarrow>
          (let t1 = drop_name b t in
           if a = b then t1 else ((fst t1)(b \<mapsto> c, a := None), if snd t1 = Some a then Some b else snd t1)))"
| "table_op (OpDelete n) t = drop_name n t"
| "table_op (OpSetDefault n) t = (if fst t n = None then t else (fst t, Some n))"
| "table_op OpUnsetDefault t = (fst t, None)"

definition no_fault :: fault where
  "no_fault op p = None"

fun ctx_run :: "('c \<Rightarrow> string) \<Rightarrow> storage \<Rightarrow> 'c ctx_op \<Rightarrow> fs \<Rightarrow> unit fsresult" where
  "ctx_run enc m (OpSet n c) w = Ctx_Set enc no_fault m n c w"
| "ctx_run enc m (OpRename a b) w = Ctx_Rename no_fault m a b w"
| "ctx_run enc m (OpDelete n) w = Ctx_Delete no_fault m n w"
| "ctx_run enc m (OpSetDefault n) w = SetDefault no_fault m n w"
| "ctx_run enc m OpUnsetDefault w = UnsetDefault no_fault m w"

definition ctx_do :: "('c \<Rightarrow> string) \<Rightarrow> storage \<Rightarrow> 'c ctx_op \<Rightarrow> fs \<Rightarrow> fs" where
  "ctx_do enc m op w = left_by (ctx_run enc m op w) w"

fun op_good :: "'c ctx_op \<Rightarrow> bool" where
  "op_good (OpSet n c) = good n"
| "op_good (OpRename a b) = (good a \<and> good b)"
| "op_good (OpDelete n) = good n"
| "op_good (OpSetDefault n) = good n"
| "op_good OpUnsetDefault = True"

text \<open>The files that stand for a table.\<close>

definition default_node :: "storage \<Rightarrow> string \<Rightarrow> node" where
  "default_node m n = (if sg_noSymlink m then Reg n else Link (configPath m n))"

definition repr0 :: "('c \<Rightarrow> string) \<Rightarrow> storage \<Rightarrow> fs \<Rightarrow> 'c table \<Rightarrow> bool" where
  "repr0 enc m w t \<longleftrightarrow>
     (\<forall>n. good n \<longrightarrow> node_at w (configPath m n) = map_option (Reg \<circ> enc) (fst t n)) \<and>
     node_at w (defaultPath m) = map_option (default_node m) (snd t) \<and>
     (\<forall>n. snd t = Some n \<longrightarrow> good n) \<and>
     (\<forall>n. good n \<and> fst t n \<noteq> None \<longrightarrow> f_dir w)"

definition repr :: "('c \<Rightarrow> string) \<Rightarrow> storage \<Rightarrow> fs \<Rightarrow> 'c table \<Rightarrow> bool" where
  "repr enc m w t \<longleftrightarrow> repr0 enc m w t \<and> (\<forall>n. snd t = Some n \<longrightarrow> fst t n \<noteq> None)"

lemma repr_repr0: "repr enc m w t \<Longrightarrow> repr0 enc m w t"
  by (simp add: repr_def)

lemmas repr_defs = repr_def repr0_def

lemmas os_defs = os_MkdirAll_def os_Stat_def os_Lstat_def os_Readlink_def os_ReadFile_def os_Create_def file_write_def
  os_WriteFile_def os_Remove_def os_Rename_def os_Symlink_def unless_fault_def no_fault_def ignore_missing_def

lemma deref_plain:
  assumes "\<And>q. node_at w p \<noteq> Some (Link q)"
  shows "deref max_links w p = Some p"
proof -
  have "deref (Suc k) w p = Some p" for k using assms by (auto split: option.split node.split)
  from this[of 40] show ?thesis by (simp add: max_links_def)
qed

lemma repr_config:
  assumes "repr0 enc m w t" and "good n"
  shows "node_at w (configPath m n) = map_option (Reg \<circ> enc) (fst t n)" and "deref max_links w (configPath m n) = Some (configPath m n)"
proof -
  show 1: "node_at w (configPath m n) = map_option (Reg \<circ> enc) (fst t n)" using assms by (simp add: repr_defs)
  show "deref max_links w (configPath m n) = Some (configPath m n)" by (rule deref_plain) (auto simp: 1)
qed

lemma Default_node:
  assumes "node_at w (defaultPath m) = map_option (default_node m) d" and "\<And>n. d = Some n \<Longrightarrow> good n"
  shows "Ctx_Default no_fault m w = Ret w (case d of None \<Rightarrow> [] | Some n \<Rightarrow> n)"
proof (cases d)
  case None
  with assms show ?thesis by (simp add: Ctx_Default_def os_defs)
next
  case (Some n)
  with assms have n: "good n" "node_at w (defaultPath m) = Some (default_node m n)" by simp_all
  then have "deref max_links w (defaultPath m) = Some (defaultPath m)" if "sg_noSymlink m"
    using that by (intro deref_plain) (simp add: default_node_def)
  with n Some show ?thesis by (auto simp: Ctx_Default_def os_defs default_node_def)
qed

lemma Default_repr:
  "repr0 enc m w t \<Longrightarrow> Ctx_Default no_fault m w = Ret w (case snd t of None \<Rightarrow> [] | Some n \<Rightarrow> n)"
  by (rule Default_node) (auto simp: repr_defs)

lemma SetDefault_repr:
  assumes r: "repr0 enc m w t" and n: "good n"
  shows "if fst t n = None then SetDefault no_fault m n w = Fail w NotExist
         else \<exists>w'. SetDefault no_fault m n w = Ret w' () \<and> repr enc m w' (fst t, Some n)"
proof (cases "fst t n")
  case None
  with repr_config[OF r n] show ?thesis by (simp add: SetDefault_def os_defs)
next
  case (Some c)
  have d: "f_dir w" using r n Some by (auto simp: repr_defs)
  have nd: "node_at w (configPath m n) = Some (Reg (enc c))" using repr_config[OF r n] Some by simp
  have def: "node_at w (defaultPath m) = map_option (default_node m) (snd t)" using r by (simp add: repr_defs)
  show ?thesis
  proof (cases "sg_noSymlink m")
    case True
    then have "deref max_links w (defaultPath m) = Some (defaultPath m)"
      by (intro deref_plain) (auto simp: def default_node_def)
    with True d nd repr_config[OF r n] Some r n show ?thesis
      by (auto simp: SetDefault_def os_defs repr_defs default_node_def)
  next
    case False
    let ?w = "if snd t = None then w else del_node (defaultPath m) w"
    have "createSymlink no_fault (configPath m n) (defaultPath m) w =
        Ret (put_node (defaultPath m) (Link (configPath m n)) ?w) ()"
      using d def by (cases "snd t") (auto simp: createSymlink_def os_defs Let_def)
    with False nd repr_config[OF r n] Some r n show ?thesis
      by (auto simp: SetDefault_def os_defs repr_defs default_node_def)
  qed
qed

lemma UnsetDefault_repr:
  assumes "repr enc m w t"
  shows "\<exists>w'. UnsetDefault no_fault m w = Ret w' () \<and> repr enc m w' (fst t, None)"
  using assms by (cases "snd t") (auto simp: UnsetDefault_def os_defs repr_defs)

lemma Delete_repr:
  assumes r: "repr enc m w t" and n: "good n"
  shows "\<exists>w'. Ctx_Delete no_fault m n w = Ret w' () \<and> repr enc m w' (drop_name n t)"
proof -
  let ?w = "if fst t n = None then w else del_node (configPath m n) w"
  have rm: "ignore_missing (os_Remove no_fault (configPath m n) w) = Ret ?w ()"
    using repr_config[OF repr_repr0[OF r] n] by (cases "fst t n") (simp_all add: os_defs)
  have d: "node_at ?w (defaultPath m) = map_option (default_node m) (snd t)" using r n by (auto simp: repr_defs)
  have g: "snd t = Some k \<Longrightarrow> good k" for k using r by (simp add: repr_defs)
  have D: "Ctx_Default no_fault m ?w = Ret ?w (case snd t of None \<Rightarrow> [] | Some n \<Rightarrow> n)"
    by (rule Default_node[OF d g])
  show ?thesis
  proof (cases "snd t = Some n")
    case True
    then have "UnsetDefault no_fault m ?w = Ret (del_node (defaultPath m) ?w) ()"
      using d by (simp add: UnsetDefault_def os_defs)
    then show ?thesis
      using r n True rm D by (auto simp: Ctx_Delete_def repr_defs drop_name_def)
  next
    case False
    then have "(case snd t of None \<Rightarrow> [] | Some k \<Rightarrow> k) \<noteq> n" using n by (cases "snd t") (auto simp: good_def)
    then show ?thesis using r n False rm D by (auto simp: Ctx_Delete_def repr_defs drop_name_def)
  qed
qed

lemma Set_repr:
  assumes r: "repr enc m w t" and n: "good n"
  shows "\<exists>w'. Ctx_Set enc no_fault m n c w = Ret w' () \<and> repr enc m w' (table_op (OpSet n c) t)"
proof -
  let ?w = "put_node (configPath m n) (Reg (enc c)) (put_node (configPath m n) (Reg []) (w\<lparr>f_dir := True\<rparr>))"
  let ?t = "((fst t)(n \<mapsto> c), snd t)"
  have nl: "node_at w (configPath m n) \<noteq> Some (Link q)" for q using repr_config(1)[OF repr_repr0[OF r] n] by (cases "fst t n") auto
  have "deref max_links (w\<lparr>f_dir := True\<rparr>) (configPath m n) = Some (configPath m n)"
    by (rule deref_plain) (use nl in simp)
  then have s: "Ctx_Set enc no_fault m n c w =
      bind_o (Ctx_Default no_fault m ?w) (\<lambda>w d. if d = [] then SetDefault no_fault m n w else Ret w ())"
    by (simp add: Ctx_Set_def os_defs)
  have r': "repr0 enc m ?w ?t" using r n by (auto simp: repr_defs)
  show ?thesis
  proof (cases "snd t")
    case None
    with Default_repr[OF r'] SetDefault_repr[OF r' n] s show ?thesis by auto
  next
    case (Some k)
    then have "k \<noteq> []" using r by (auto simp: repr_defs good_def)
    with Some Default_repr[OF r'] s r r' show ?thesis by (auto simp: repr_defs)
  qed
qed

lemma Rename_repr:
  assumes r: "repr enc m w t" and n: "good a" "good b"
  shows "repr enc m (left_by (Ctx_Rename no_fault m a b w) w) (table_op (OpRename a b) t)"
proof (cases "fst t a")
  case None
  with repr_config[OF repr_repr0[OF r] n(1)] r show ?thesis by (simp add: Ctx_Rename_def os_defs left_by_def)
next
  case (Some c)
  let ?t1 = "drop_name b t"
  have st: "os_Stat no_fault (configPath m a) w = Ret w ()" using repr_config[OF repr_repr0[OF r] n(1)] Some by (simp add: os_defs)
  obtain w1 where del: "Ctx_Delete no_fault m b w = Ret w1 ()" and r1: "repr enc m w1 ?t1"
    using Delete_repr[OF r n(2)] by blast
  show ?thesis
  proof (cases "a = b")
    case True
    have "os_Rename no_fault (configPath m a) (configPath m b) w1 = Fail w1 NotExist"
      using repr_config(1)[OF repr_repr0[OF r1] n(1)] True by (simp add: os_defs drop_name_def)
    with st del r1 Some True show ?thesis by (simp add: Ctx_Rename_def left_by_def Let_def)
  next
    case False
    let ?w2 = "del_node (configPath m a) (put_node (configPath m b) (Reg (enc c)) w1)"
    let ?f2 = "(fst ?t1)(b \<mapsto> c, a := None)"
    have "node_at w1 (configPath m a) = Some (Reg (enc c))"
      using repr_config(1)[OF repr_repr0[OF r1] n(1)] Some False by (simp add: drop_name_def)
    then have ren: "os_Rename no_fault (configPath m a) (configPath m b) w1 = Ret ?w2 ()"
      using False by (simp add: os_defs)
    have dir: "f_dir w1" using r1 n Some False by (auto simp: repr_defs drop_name_def)
    have r2: "repr0 enc m ?w2 (?f2, snd ?t1)" using r1 n dir by (auto simp: repr_defs)
    note D = Default_repr[OF r2]
    have tab: "table_op (OpRename a b) t = (?f2, if snd ?t1 = Some a then Some b else snd ?t1)"
      using Some False by (simp add: Let_def)
    have rename: "Ctx_Rename no_fault m a b w =
        (if snd ?t1 = Some a then SetDefault no_fault m b ?w2 else Ret ?w2 ())"
      using st del ren D n by (cases "snd ?t1") (auto simp: Ctx_Rename_def good_def)
    show ?thesis
    proof (cases "snd ?t1 = Some a")
      case True
      from SetDefault_repr[OF r2 n(2)] False obtain w3 where
        "SetDefault no_fault m b ?w2 = Ret w3 ()" "repr enc m w3 (?f2, Some b)" by auto
      with True show ?thesis unfolding tab rename by (simp add: left_by_def)
    next
      case False
      then have "repr enc m ?w2 (?f2, snd ?t1)" using r2 r1 by (auto simp: repr_defs)
      with False show ?thesis unfolding tab rename by (simp add: left_by_def)
    qed
  qed
qed

section \<open>Sequences of operations\<close>

lemma ctx_do_repr:
  assumes r: "repr enc m w t" and g: "op_good op"
  shows "repr enc m (ctx_do enc m op w) (table_op op t)"
proof (cases op)
  case (OpSet n c)
  with Set_repr[OF r, of n c] g show ?thesis by (auto simp: ctx_do_def left_by_def)
next
  case (OpRename a b)
  with Rename_repr[OF r] g show ?thesis by (simp add: ctx_do_def)
next
  case (OpDelete n)
  with Delete_repr[OF r, of n] g show ?thesis by (auto simp: ctx_do_def left_by_def)
next
  case (OpSetDefault n)
  with SetDefault_repr[OF repr_repr0[OF r], of n] g r show ?thesis by (auto simp: ctx_do_def left_by_def split: if_splits)
next
  case OpUnsetDefault
  with UnsetDefault_repr[OF r] show ?thesis by (auto simp: ctx_do_def left_by_def)
qed

definition empty_dir :: fs where
  "empty_dir = \<lparr>f_dir = False, f_nodes = []\<rparr>"

lemma run_repr:
  "repr enc m w t \<Longrightarrow> list_all op_good ops \<Longrightarrow> repr enc m (fold (ctx_do enc m) ops w) (fold table_op ops t)"
  by (induction ops arbitrary: w t) (simp_all add: ctx_do_repr)


definition sample_ops :: "string ctx_op list" where
  "sample_ops = [OpSet ''a'' ''x'', OpSet ''b'' ''y'', OpSetDefault ''b'', OpRename ''b'' ''c'']"


text \<open>A storage that no longer uses symbolic links does not cope with a default that is one: setting another
  default writes its name into the configuration of the present default, which stays the default.\<close>

theorem default_written_through_link:
  assumes "node_at w (defaultPath m) = Some (Link (configPath m a))" and "node_at w (configPath m a) = Some (Reg s)"
    and "node_at w (configPath m b) = Some (Reg s')" and "sg_noSymlink m" and "f_dir w" and "good a" and "good b"
  shows "\<exists>w'. SetDefault no_fault m b w = Ret w' () \<and> node_at w' (configPath m a) = Some (Reg b)
    \<and> Ctx_Default no_fault m w' = Ret w' a"
proof -
  have b: "deref max_links w (configPath m b) = Some (configPath m b)" by (rule deref_plain) (simp add: assms(3))
  have "deref (Suc (Suc k)) w (defaultPath m) = Some (configPath m a)" for k by (simp add: assms(1,2))
  from this[of 39] have a: "deref max_links w (defaultPath m) = Some (configPath m a)" by (simp add: max_links_def)
  show ?thesis
    using assms a b by (simp add: SetDefault_def os_defs Ctx_Default_def)
qed

definition linked_dir :: fs where
  "linked_dir = \<lparr>f_dir = True, f_nodes = [(''/d/a.hcl'', Reg ''x''), (''/d/b.hcl'', Reg ''y''), (''/d/_default.hcl'', Link ''/d/a.hcl'')]\<rparr>"

lemma default_written_through_link_witness:
  "\<exists>w'. SetDefault no_fault \<lparr>sg_dir = ''/d'', sg_noSymlink = True\<rparr> ''b'' linked_dir = Ret w' ()
     \<and> node_at w' ''/d/a.hcl'' = Some (Reg ''b'')"
  using default_written_through_link[of linked_dir "\<lparr>sg_dir = ''/d'', sg_noSymlink = True\<rparr>" "''a''" "''x''" "''b''" "''y''"]
  by (auto simp: linked_dir_def configPath_def defaultPath_def good_def)

end
