(* ===== verification/Validation.thy ===== *)
theory Validation
  imports StateErrors
begin

text \<open>
  What the tables of the server share: the checks of \<open>state/validations.go\<close> as the validation library runs them,
  and the merge of a message into a row by \<open>softDecode\<close> (\<open>state/decoding.go\<close>).
\<close>

section \<open>Checks\<close>

text \<open>A check passes, fails, or cannot be made.\<close>

datatype field_check = Good | Bad goerr | Broken goerr

definition required :: "string \<Rightarrow> field_check" where
  "required s = (if s = [] then Bad (ValidationError ''cannot be blank'') else Good)"

definition checkUnique :: "goerr + nat \<Rightarrow> field_check" where
  "checkUnique r = (case r of Inl e \<Rightarrow> Broken e | Inr n \<Rightarrow> if 0 < n then Bad (ValidationError ''must be unique'') else Good)"

definition checkNotModified :: "bool \<Rightarrow> field_check" where
  "checkNotModified changed = (if changed then Bad (ValidationError ''cannot be modified'') else Good)"

text \<open>The rules of a field up to the first that fails; all fields, unless one check cannot be made.\<close>

fun first_bad :: "field_check list \<Rightarrow> field_check" where
  "first_bad [] = Good"
| "first_bad (c # cs) = (if c = Good then first_bad cs else c)"

fun ValidateStruct :: "(goerr list \<Rightarrow> goerr) \<Rightarrow> field_check list \<Rightarrow> goerr list \<Rightarrow> goerr option" where
  "ValidateStruct errs [] acc = (if acc = [] then None else Some (errs acc))"
| "ValidateStruct errs (Good # cs) acc = ValidateStruct errs cs acc"
| "ValidateStruct errs (Bad e # cs) acc = ValidateStruct errs cs (acc @ [e])"
| "ValidateStruct errs (Broken e # cs) acc = Some e"

section \<open>Merging\<close>

text \<open>\<open>softDecode\<close>: a field that has its zero value in the message keeps the value of the row.\<close>

definition set_or :: "'a \<Rightarrow> 'a \<Rightarrow> 'a \<Rightarrow> 'a" where
  "set_or unset new old = (if new = unset then old else new)"

section \<open>Lemmas\<close>

lemma validate_none: "ValidateStruct errs cs acc = None \<longleftrightarrow> acc = [] \<and> (\<forall>c\<in>set cs. c = Good)"
proof (induction cs arbitrary: acc)
  case (Cons c cs)
  then show ?case by (cases c) auto
qed simp

lemma first_bad_good: "first_bad cs = Good \<longleftrightarrow> (\<forall>c\<in>set cs. c = Good)"
  by (induction cs) auto

lemma check_good [simp]:
  "required s = Good \<longleftrightarrow> s \<noteq> []" "checkUnique r = Good \<longleftrightarrow> r = Inr 0" "checkNotModified c = Good \<longleftrightarrow> \<not> c"
  by (auto simp: required_def checkUnique_def checkNotModified_def split: sum.splits)

lemma option_eqI: "(\<And>x. a = Some x \<longleftrightarrow> b = Some x) \<Longrightarrow> a = b"
  by (cases a; cases b) auto

text \<open>For the counters of ids.\<close>

lemma fold_max_ge: "x \<in> set xs \<Longrightarrow> x \<le> fold max xs (m::nat)" "m \<le> fold max xs (m::nat)"
proof (induction xs arbitrary: m)
  case (Cons a xs)
  { case 1 with Cons show ?case by (cases "x = a") (auto intro: order_trans[OF _ Cons.IH(2)]) }
  { case 2 show ?case by (auto intro: order_trans[OF _ Cons.IH(2)]) }
qed auto

end
