(* ===== verification/Boxes.thy ===== *)
theory Boxes
  imports Validation
begin

text \<open>
  Boxes: the metadata of a box and the choice of a version (\<open>internal/core/box_metadata.go\<close>), the rows of the
  server (\<open>state/box.go\<close>, \<open>service_box.go\<close>) and the collection of a basis (\<open>internal/core/box_collection.go\<close>,
  \<open>box.go\<close>), which calls the server.

  Versions and constraints (\<open>go-version\<close>), the database and the file system are arguments.
\<close>

section \<open>Versions\<close>

record ('v, 'k) verlib =
  vl_version :: "string \<Rightarrow> goerr + 'v"
  vl_constraint :: "string \<Rightarrow> goerr + 'k"
  vl_check :: "'k \<Rightarrow> 'v \<Rightarrow> bool"
  vl_greater :: "'v \<Rightarrow> 'v \<Rightarrow> bool"

section \<open>Metadata\<close>

record provider =
  pv_Name :: string
  pv_Url :: string
  pv_Checksum :: string
  pv_ChecksumType :: string

record box_version =
  bv_Version :: string
  bv_Status :: string
  bv_Description :: string
  bv_Providers :: "provider list"

record box_metadata =
  bm_Name :: string
  bm_Description :: string
  bm_Versions :: "box_version list"

text \<open>Every field that is set in the pattern is equal.\<close>

definition Provider_Matches :: "provider \<Rightarrow> provider \<Rightarrow> bool" where
  "Provider_Matches b p \<longleftrightarrow>
     (pv_Name p \<noteq> [] \<longrightarrow> pv_Name p = pv_Name b) \<and> (pv_Url p \<noteq> [] \<longrightarrow> pv_Url p = pv_Url b) \<and>
     (pv_Checksum p \<noteq> [] \<longrightarrow> pv_Checksum p = pv_Checksum b) \<and>
     (pv_ChecksumType p \<noteq> [] \<longrightarrow> pv_ChecksumType p = pv_ChecksumType b)"

definition MatchesAny :: "provider \<Rightarrow> provider list \<Rightarrow> bool" where
  "MatchesAny b ps \<longleftrightarrow> list_ex (Provider_Matches b) ps"

definition Version_Provider :: "string \<Rightarrow> box_version \<Rightarrow> provider option" where
  "Version_Provider name v = find (\<lambda>p. pv_Name p = name) (bv_Providers v)"

definition Version_ListProviders :: "box_version \<Rightarrow> string list" where
  "Version_ListProviders v = map pv_Name (bv_Providers v)"

text \<open>The first version that satisfies the constraint and has the provider. The flag of the code is set only
  right before it returns.\<close>

fun find_version ::
  "('v, 'k) verlib \<Rightarrow> 'k \<Rightarrow> provider option \<Rightarrow> box_version list \<Rightarrow> goerr + box_version option" where
  "find_version vl k p [] = Inr None"
| "find_version vl k p (v # vs) =
     (case vl_version vl (bv_Version v) of
        Inl e \<Rightarrow> Inl e
      | Inr x \<Rightarrow>
          if vl_check vl k x \<and>
             (case p of None \<Rightarrow> True | Some q \<Rightarrow> list_ex (\<lambda>b. Provider_Matches b q) (bv_Providers v))
          then Inr (Some v)
          else find_version vl k p vs)"

definition metadata_version ::
  "('v, 'k) verlib \<Rightarrow> string \<Rightarrow> provider option \<Rightarrow> box_metadata \<Rightarrow> goerr + box_version option" where
  "metadata_version vl ver p b =
     (case vl_constraint vl ver of Inl e \<Rightarrow> Inl e | Inr k \<Rightarrow> find_version vl k p (bm_Versions b))"

text \<open>The exported functions. A nil pointer that is used is a crash (\<open>None\<close>).\<close>

fun first_for ::
  "('v, 'k) verlib \<Rightarrow> string \<Rightarrow> provider option list \<Rightarrow> box_metadata \<Rightarrow> goerr + box_version option" where
  "first_for vl ver [] b = Inr None"
| "first_for vl ver (p # ps) b =
     (case metadata_version vl ver p b of
        Inl e \<Rightarrow> Inl e
      | Inr (Some v) \<Rightarrow> Inr (Some v)
      | Inr None \<Rightarrow> first_for vl ver ps b)"

definition Metadata_Version ::
  "('v, 'k) verlib \<Rightarrow> string \<Rightarrow> provider option list \<Rightarrow> box_metadata \<Rightarrow> goerr + box_version option" where
  "Metadata_Version vl ver ps b = first_for vl ver (if ps = [] then [None] else ps) b"

definition named_provider :: "string \<Rightarrow> provider" where
  "named_provider n = \<lparr>pv_Name = n, pv_Url = [], pv_Checksum = [], pv_ChecksumType = []\<rparr>"

definition metadata_matches ::
  "('v, 'k) verlib \<Rightarrow> string \<Rightarrow> string \<Rightarrow> provider \<Rightarrow> box_metadata \<Rightarrow> (goerr + bool) option" where
  "metadata_matches vl ver name p b =
     (case metadata_version vl ver (Some (named_provider name)) b of
        Inl e \<Rightarrow> Some (Inl e)
      | Inr None \<Rightarrow> None
      | Inr (Some v) \<Rightarrow>
          (case Version_Provider name v of None \<Rightarrow> None | Some q \<Rightarrow> Some (Inr (Provider_Matches q p))))"

fun metadata_matchesAny ::
  "('v, 'k) verlib \<Rightarrow> string \<Rightarrow> string \<Rightarrow> provider list \<Rightarrow> box_metadata \<Rightarrow> (goerr + bool) option" where
  "metadata_matchesAny vl ver name [] b = Some (Inr False)"
| "metadata_matchesAny vl ver name (p # ps) b =
     (case metadata_matches vl ver name p b of
        None \<Rightarrow> None
      | Some (Inl e) \<Rightarrow> Some (Inl e)
      | Some (Inr m) \<Rightarrow> if m then Some (Inr True) else metadata_matchesAny vl ver name ps b)"

text \<open>A version is listed once for every one of its providers that matches.\<close>

definition ListVersions :: "provider list option \<Rightarrow> box_metadata \<Rightarrow> string list" where
  "ListVersions ps b =
     concat (map (\<lambda>v. case ps of
         None \<Rightarrow> [bv_Version v]
       | Some ps \<Rightarrow> map (\<lambda>_. bv_Version v) (filter (\<lambda>q. MatchesAny q ps) (bv_Providers v))) (bm_Versions b))"

definition Metadata_Provider ::
  "('v, 'k) verlib \<Rightarrow> string \<Rightarrow> string \<Rightarrow> box_metadata \<Rightarrow> goerr + (provider \<times> box_version) option" where
  "Metadata_Provider vl ver name b =
     (case metadata_version vl ver (Some (named_provider name)) b of
        Inl e \<Rightarrow> Inl e
      | Inr None \<Rightarrow> Inr None
      | Inr (Some v) \<Rightarrow> Inr (map_option (\<lambda>p. (p, v)) (Version_Provider name v)))"

definition Metadata_ListProviders ::
  "('v, 'k) verlib \<Rightarrow> string \<Rightarrow> box_metadata \<Rightarrow> (goerr + string list) option" where
  "Metadata_ListProviders vl ver b =
     (case metadata_version vl ver (Some (named_provider [])) b of
        Inl e \<Rightarrow> Some (Inl e)
      | Inr None \<Rightarrow> None
      | Inr (Some v) \<Rightarrow> Some (Inr (Version_ListProviders v)))"

section \<open>Rows\<close>

text \<open>The JSON of \<open>metadata.json\<close> is of type \<open>'j\<close>.\<close>

record 'j boxpb =
  bp_ResourceId :: string
  bp_Provider :: string
  bp_Version :: string
  bp_Directory :: string
  bp_Metadata :: "'j option"
  bp_MetadataUrl :: string
  bp_Name :: string
  bp_LastUpdate :: "int option"

record 'j boxrow =
  bx_ID :: nat
  bx_Directory :: string
  bx_LastUpdate :: "int option"
  bx_Metadata :: "'j option"
  bx_MetadataUrl :: "string option"
  bx_Name :: string
  bx_Provider :: string
  bx_ResourceId :: string
  bx_Version :: string

record box_ref =
  fb_ResourceId :: string
  fb_Name :: string
  fb_Provider :: string
  fb_Version :: string

definition zero_box :: "'j boxrow" where
  "zero_box = \<lparr>bx_ID = 0, bx_Directory = [], bx_LastUpdate = None, bx_Metadata = None, bx_MetadataUrl = None,
     bx_Name = [], bx_Provider = [], bx_ResourceId = [], bx_Version = []\<rparr>"

text \<open>The database: the rows that match a pattern, in the order of their ids; the number of them whose id is another
  than the given one; saving and deleting a row; and whether the resource id of a row was changed. \<open>be_errors\<close>
  is the error of the validation library for the errors of some fields; \<open>be_fresh\<close> the next result of the id
  generator, \<open>be_copy\<close> the copy of a request that \<open>mapstructure\<close> makes and \<open>be_now\<close> the time.\<close>

record ('d, 'j) boxdb =
  bd_find :: "'d \<Rightarrow> 'j boxrow \<Rightarrow> goerr + 'j boxrow list"
  bd_count :: "'d \<Rightarrow> 'j boxrow \<Rightarrow> nat \<Rightarrow> goerr + nat"
  bd_save :: "'d \<Rightarrow> 'j boxrow \<Rightarrow> goerr + 'd"
  bd_delete :: "'d \<Rightarrow> 'j boxrow \<Rightarrow> goerr + 'd"
  bd_changed :: "'d \<Rightarrow> 'j boxrow \<Rightarrow> bool"
  bd_rows :: "'d \<Rightarrow> 'j boxrow list"

record ('d, 'j, 'v, 'k) boxenv =
  be_db :: "('d, 'j) boxdb"
  be_vl :: "('v, 'k) verlib"
  be_errors :: "goerr list \<Rightarrow> goerr"
  be_fresh :: "'d \<Rightarrow> goerr + string"
  be_copy :: "box_ref option \<Rightarrow> goerr + box_ref"
  be_now :: int

type_synonym ('d, 'a) box_result = "('d, goerr, 'a) outcome"

definition box_first :: "('d, 'j, 'v, 'k) boxenv \<Rightarrow> 'j boxrow \<Rightarrow> 'd \<Rightarrow> ('d, 'j boxrow) box_result" where
  "box_first env q d =
     (case bd_find (be_db env) d q of
        Inl e \<Rightarrow> Fail d e
      | Inr [] \<Rightarrow> Fail d RecordNotFound
      | Inr (b # _) \<Rightarrow> Ret d b)"

section \<open>Validation and saving\<close>

definition DEFAULT_BOX_VERSION :: string where
  "DEFAULT_BOX_VERSION = ''0.0.0''"

definition checkValidVersion :: "('v, 'k) verlib \<Rightarrow> string \<Rightarrow> field_check" where
  "checkValidVersion vl s =
     (case vl_version vl s of Inl _ \<Rightarrow> Bad (ValidationError ''invalid version string'') | Inr _ \<Rightarrow> Good)"

definition Box_Validate :: "('d, 'j, 'v, 'k) boxenv \<Rightarrow> 'd \<Rightarrow> 'j boxrow \<Rightarrow> goerr option" where
  "Box_Validate env d b =
     (let count = bd_count (be_db env) d in
      case ValidateStruct (be_errors env)
             [first_bad [required (bx_Directory b), checkUnique (count (zero_box\<lparr>bx_Directory := bx_Directory b\<rparr>) (bx_ID b))],
              required (bx_Name b),
              required (bx_Provider b),
              first_bad ([required (bx_ResourceId b),
                          checkUnique (count (zero_box\<lparr>bx_ResourceId := bx_ResourceId b\<rparr>) (bx_ID b))]
                         @ (if bx_ID b \<noteq> 0 then [checkNotModified (bd_changed (be_db env) d b)] else [])),
              first_bad [required (bx_Version b), checkValidVersion (be_vl env) (bx_Version b)]] [] of
        Some e \<Rightarrow> Some e
      | None \<Rightarrow>
          (case checkUnique (count (zero_box\<lparr>bx_Name := bx_Name b, bx_Provider := bx_Provider b, bx_Version := bx_Version b\<rparr>)
                              (bx_ID b)) of
             Good \<Rightarrow> None
           | Bad e \<Rightarrow> Some (OtherError ''name, provider and version must be unique'')
           | Broken e \<Rightarrow> Some (OtherError ''name, provider and version'')))"

definition Box_BeforeSave :: "('d, 'j, 'v, 'k) boxenv \<Rightarrow> 'd \<Rightarrow> 'j boxrow \<Rightarrow> goerr + 'j boxrow" where
  "Box_BeforeSave env d b =
     (case (if bx_ResourceId b = [] then map_sum id (\<lambda>i. b\<lparr>bx_ResourceId := i\<rparr>) (be_fresh env d) else Inr b) of
        Inl e \<Rightarrow> Inl e
      | Inr b \<Rightarrow>
          (let b1 = (if bx_Version b = [] \<or> bx_Version b = ''0'' then b\<lparr>bx_Version := DEFAULT_BOX_VERSION\<rparr> else b)
           in case Box_Validate env d b1 of Some e \<Rightarrow> Inl e | None \<Rightarrow> Inr b1))"

definition box_upsert :: "('d, 'j, 'v, 'k) boxenv \<Rightarrow> 'j boxrow \<Rightarrow> 'd \<Rightarrow> ('d, unit) box_result" where
  "box_upsert env b d =
     (case Box_BeforeSave env d b of
        Inl e \<Rightarrow> Fail d e
      | Inr b1 \<Rightarrow> (case bd_save (be_db env) d b1 of Inl e \<Rightarrow> Fail d e | Inr d1 \<Rightarrow> Ret d1 ()))"

section \<open>Messages and rows\<close>

definition Box_ToProto :: "'j boxrow \<Rightarrow> 'j boxpb" where
  "Box_ToProto b =
     \<lparr>bp_ResourceId = bx_ResourceId b, bp_Provider = bx_Provider b, bp_Version = bx_Version b,
      bp_Directory = bx_Directory b, bp_Metadata = bx_Metadata b,
      bp_MetadataUrl = (case bx_MetadataUrl b of None \<Rightarrow> [] | Some u \<Rightarrow> u), bp_Name = bx_Name b,
      bp_LastUpdate = bx_LastUpdate b\<rparr>"

definition Box_ToProtoRef :: "'j boxrow \<Rightarrow> box_ref" where
  "Box_ToProtoRef b =
     \<lparr>fb_ResourceId = bx_ResourceId b, fb_Name = bx_Name b, fb_Provider = bx_Provider b, fb_Version = bx_Version b\<rparr>"

definition softDecode_box :: "'j boxpb \<Rightarrow> 'j boxrow \<Rightarrow> 'j boxrow" where
  "softDecode_box p b =
     b\<lparr>bx_Directory := set_or [] (bp_Directory p) (bx_Directory b),
       bx_LastUpdate := set_or None (bp_LastUpdate p) (bx_LastUpdate b),
       bx_Metadata := set_or None (bp_Metadata p) (bx_Metadata b),
       bx_MetadataUrl := (if bp_MetadataUrl p = [] then bx_MetadataUrl b else Some (bp_MetadataUrl p)),
       bx_Name := set_or [] (bp_Name p) (bx_Name b),
       bx_Provider := set_or [] (bp_Provider p) (bx_Provider b),
       bx_ResourceId := set_or [] (bp_ResourceId p) (bx_ResourceId b),
       bx_Version := set_or [] (bp_Version p) (bx_Version b)\<rparr>"

definition BoxFromProtoRef ::
  "('d, 'j, 'v, 'k) boxenv \<Rightarrow> box_ref option \<Rightarrow> 'd \<Rightarrow> ('d, 'j boxrow) box_result" where
  "BoxFromProtoRef env r d =
     (case r of
        None \<Rightarrow> Fail d EmptyProtoArgument
      | Some r \<Rightarrow>
          if fb_ResourceId r = [] then Fail d RecordNotFound
          else box_first env (zero_box\<lparr>bx_ResourceId := fb_ResourceId r\<rparr>) d)"

definition BoxFromProtoRefFuzzy ::
  "('d, 'j, 'v, 'k) boxenv \<Rightarrow> box_ref \<Rightarrow> 'd \<Rightarrow> ('d, 'j boxrow) box_result" where
  "BoxFromProtoRefFuzzy env r d =
     (case BoxFromProtoRef env (Some r) d of
        Fail d e \<Rightarrow>
          if \<not> is_not_found e then Fail d e
          else if fb_Name r = [] \<or> fb_Provider r = [] \<or> fb_Version r = [] then Fail d RecordNotFound
          else box_first env (zero_box\<lparr>bx_Name := fb_Name r, bx_Provider := fb_Provider r, bx_Version := fb_Version r\<rparr>) d
      | r \<Rightarrow> r)"

definition BoxFromProto :: "('d, 'j, 'v, 'k) boxenv \<Rightarrow> 'j boxpb \<Rightarrow> 'd \<Rightarrow> ('d, 'j boxrow) box_result" where
  "BoxFromProto env b d =
     BoxFromProtoRef env (Some \<lparr>fb_ResourceId = bp_ResourceId b, fb_Name = [], fb_Provider = [], fb_Version = []\<rparr>) d"

definition BoxFromProtoFuzzy :: "('d, 'j, 'v, 'k) boxenv \<Rightarrow> 'j boxpb \<Rightarrow> 'd \<Rightarrow> ('d, 'j boxrow) box_result" where
  "BoxFromProtoFuzzy env b d =
     BoxFromProtoRefFuzzy env \<lparr>fb_ResourceId = bp_ResourceId b, fb_Name = bp_Name b, fb_Provider = bp_Provider b,
       fb_Version = bp_Version b\<rparr> d"

section \<open>The operations of the server\<close>

definition BoxList :: "('d, 'j, 'v, 'k) boxenv \<Rightarrow> 'd \<Rightarrow> ('d, box_ref list) box_result" where
  "BoxList env d =
     (case bd_find (be_db env) d zero_box of
        Inl e \<Rightarrow> Fail d (lookupErrorToStatus ''boxes'' e)
      | Inr bs \<Rightarrow> Ret d (map Box_ToProtoRef bs))"

definition BoxDelete :: "('d, 'j, 'v, 'k) boxenv \<Rightarrow> box_ref option \<Rightarrow> 'd \<Rightarrow> ('d, unit) box_result" where
  "BoxDelete env r d =
     (case BoxFromProtoRef env r d of
        Fail d e \<Rightarrow> if is_not_found e then Ret d () else Fail d (deleteErrorToStatus ''box'' e)
      | Ret d b \<Rightarrow>
          (case bd_delete (be_db env) d b of
             Inl e \<Rightarrow> Fail d (deleteErrorToStatus ''box'' e)
           | Inr d1 \<Rightarrow> Ret d1 ())
      | Crash m \<Rightarrow> Crash m)"

definition BoxGet :: "('d, 'j, 'v, 'k) boxenv \<Rightarrow> box_ref option \<Rightarrow> 'd \<Rightarrow> ('d, 'j boxpb) box_result" where
  "BoxGet env r d =
     bind_o (map_err (lookupErrorToStatus ''box'') (BoxFromProtoRef env r d)) (\<lambda>d b. Ret d (Box_ToProto b))"

definition BoxPut :: "('d, 'j, 'v, 'k) boxenv \<Rightarrow> 'j boxpb \<Rightarrow> 'd \<Rightarrow> ('d, unit) box_result" where
  "BoxPut env b d =
     (let put = \<lambda>row d. map_err (saveErrorToStatus ''box'') (box_upsert env (softDecode_box b row) d)
      in case BoxFromProto env b d of
           Fail d e \<Rightarrow> if is_not_found e then put zero_box d else Fail d (lookupErrorToStatus ''box'' e)
         | Ret d row \<Rightarrow> put row d
         | Crash m \<Rightarrow> Crash m)"

text \<open>The loop of \<open>BoxFind\<close>. The variable of the loop is one variable for all rounds, so \<open>match\<close>, which is its
  address, points to the box of the round that is reached last. \<open>m\<close> says whether \<open>match\<close> is set, \<open>cur\<close> is the
  variable. A comparison with a version that could not be parsed is a crash (\<open>None\<close>).\<close>

fun match_boxes ::
  "('v, 'k) verlib \<Rightarrow> 'k \<Rightarrow> 'v option \<Rightarrow> bool \<Rightarrow> 'j boxrow \<Rightarrow> 'j boxrow list \<Rightarrow> (goerr + 'j boxrow option) option" where
  "match_boxes vl k h m cur [] = Some (Inr (if m then Some cur else None))"
| "match_boxes vl k h m cur (b # bs) =
     (case vl_version vl (bx_Version b) of
        Inl e \<Rightarrow> Some (Inl (lookupErrorToStatus ''box'' e))
      | Inr v \<Rightarrow>
          if \<not> vl_check vl k v then match_boxes vl k h m b bs
          else (case h of
                  None \<Rightarrow> None
                | Some h' \<Rightarrow> if vl_greater vl v h' then match_boxes vl k (Some v) True b bs
                            else match_boxes vl k h m b bs))"

definition DEFAULT_BOX_CONSTRAINT :: string where
  "DEFAULT_BOX_CONSTRAINT = ''> 0''"

definition find_by_constraint ::
  "('d, 'j, 'v, 'k) boxenv \<Rightarrow> string \<Rightarrow> string \<Rightarrow> string \<Rightarrow> 'd \<Rightarrow> ('d, 'j boxpb option) box_result" where
  "find_by_constraint env name prov ver d =
     (let vl = be_vl env in
      case bd_find (be_db env) d (zero_box\<lparr>bx_Name := name, bx_Provider := prov\<rparr>) of
        Inl e \<Rightarrow> if is_not_found e then Ret d None else Fail d (lookupErrorToStatus ''box'' e)
      | Inr bs \<Rightarrow>
          if bs = [] then Ret d None
          else (case vl_constraint vl (if ver = [] then DEFAULT_BOX_CONSTRAINT else ver) of
                  Inl e \<Rightarrow> Fail d (lookupErrorToStatus ''box'' e)
                | Inr k \<Rightarrow>
                    (case match_boxes vl k (case vl_version vl ''0.0.0'' of Inl _ \<Rightarrow> None | Inr z \<Rightarrow> Some z) False zero_box bs of
                       None \<Rightarrow> Crash ''nil version''
                     | Some (Inl e) \<Rightarrow> Fail d e
                     | Some (Inr m) \<Rightarrow> Ret d (map_option Box_ToProto m))))"

definition BoxFind :: "('d, 'j, 'v, 'k) boxenv \<Rightarrow> box_ref option \<Rightarrow> 'd \<Rightarrow> ('d, 'j boxpb option) box_result" where
  "BoxFind env ref d =
     (case be_copy env ref of
        Inl e \<Rightarrow> Fail d (lookupErrorToStatus ''box'' e)
      | Inr b \<Rightarrow>
          if fb_ResourceId b \<noteq> [] then
            bind_o (map_err (lookupErrorToStatus ''box'') (BoxFromProtoRef env (Some b) d)) (\<lambda>d x. Ret d (Some (Box_ToProto x)))
          else if fb_Name b = [] then Fail d (lookupErrorToStatus ''box'' (OtherError ''no name given for box lookup''))
          else
            (let b1 = (if fb_Version b = ''0'' then b\<lparr>fb_Version := DEFAULT_BOX_VERSION\<rparr> else b)
             in if \<not> isl (vl_version (be_vl env) (fb_Version b1)) \<and> fb_Provider b1 \<noteq> [] then
                  (case BoxFromProtoRefFuzzy env b1 d of
                     Fail d e \<Rightarrow> if is_not_found e then Ret d None else Fail d (lookupErrorToStatus ''box'' e)
                   | Ret d x \<Rightarrow> Ret d (Some (Box_ToProto x))
                   | Crash m \<Rightarrow> Crash m)
                else find_by_constraint env (fb_Name b1) (fb_Provider b1) (fb_Version b1) d))"

text \<open>The handlers.\<close>

definition ListBoxes :: "('d, 'j, 'v, 'k) boxenv \<Rightarrow> 'd \<Rightarrow> ('d, box_ref list) box_result" where
  "ListBoxes env d = BoxList env d"

definition DeleteBox :: "('d, 'j, 'v, 'k) boxenv \<Rightarrow> box_ref option \<Rightarrow> 'd \<Rightarrow> ('d, unit) box_result" where
  "DeleteBox env r d = (case BoxDelete env r d of Fail d e \<Rightarrow> Ret d () | r \<Rightarrow> r)"

definition GetBox :: "('d, 'j, 'v, 'k) boxenv \<Rightarrow> box_ref option \<Rightarrow> 'd \<Rightarrow> ('d, 'j boxpb) box_result" where
  "GetBox env r d = BoxGet env r d"

definition UpsertBox :: "('d, 'j, 'v, 'k) boxenv \<Rightarrow> 'j boxpb option \<Rightarrow> 'd \<Rightarrow> ('d, 'j boxpb) box_result" where
  "UpsertBox env b d =
     (case b of
        None \<Rightarrow> Crash ''nil box''
      | Some b \<Rightarrow>
          (let b1 = b\<lparr>bp_LastUpdate := Some (be_now env)\<rparr>
           in bind_o (BoxPut env b1 d) (\<lambda>d _. Ret d b1)))"

definition FindBox :: "('d, 'j, 'v, 'k) boxenv \<Rightarrow> box_ref option \<Rightarrow> 'd \<Rightarrow> ('d, 'j boxpb option) box_result" where
  "FindBox env r d = BoxFind env r d"

end
