(* ===== verification/BoxStore.thy ===== *)
theory BoxStore
  imports Boxes
begin

text \<open>
  What the boxes rely on from the database (\<open>box_lawful\<close>), the invariant of the stored rows (\<open>boxes_ok\<close>) and the
  effect of the requests on the rows.
\<close>

section \<open>What the database promises\<close>

text \<open>The fields of a pattern that are set are those of the row.\<close>

definition box_match :: "'j boxrow \<Rightarrow> 'j boxrow \<Rightarrow> bool" where
  "box_match q r \<longleftrightarrow>
     (bx_Directory q = [] \<or> bx_Directory q = bx_Directory r) \<and> (bx_Name q = [] \<or> bx_Name q = bx_Name r) \<and>
     (bx_Provider q = [] \<or> bx_Provider q = bx_Provider r) \<and> (bx_ResourceId q = [] \<or> bx_ResourceId q = bx_ResourceId r) \<and>
     (bx_Version q = [] \<or> bx_Version q = bx_Version r)"

text \<open>A lookup returns the rows that match. A saved row gets its id when it has none, and its time may be set;
  counting, saving and deleting may fail.\<close>

definition stored_as :: "'j boxrow list \<Rightarrow> 'j boxrow \<Rightarrow> 'j boxrow \<Rightarrow> bool" where
  "stored_as rows b r \<longleftrightarrow>
     (\<exists>i t. r = b\<lparr>bx_ID := i, bx_LastUpdate := t\<rparr> \<and>
        (if bx_ID b = 0 then i \<noteq> 0 \<and> i \<notin> bx_ID ` set rows else i = bx_ID b))"

definition box_lawful :: "('d, 'j) boxdb \<Rightarrow> bool" where
  "box_lawful db \<longleftrightarrow>
     (\<forall>d q. \<exists>rs. bd_find db d q = Inr rs \<and> distinct rs \<and> set rs = {r \<in> set (bd_rows db d). box_match q r})
     \<and> (\<forall>d q i n. bd_count db d q i = Inr n \<longrightarrow> (n = 0) = (\<forall>r\<in>set (bd_rows db d). box_match q r \<longrightarrow> bx_ID r = i))
     \<and> (\<forall>d b d1. bd_save db d b = Inr d1 \<longrightarrow>
          (\<exists>r. stored_as (bd_rows db d) b r \<and>
             set (bd_rows db d1) = insert r {x \<in> set (bd_rows db d). bx_ID x \<noteq> bx_ID b}))
     \<and> (\<forall>d b d1. bd_delete db d b = Inr d1 \<longrightarrow>
          set (bd_rows db d1) = {x \<in> set (bd_rows db d). bx_ID x \<noteq> bx_ID b})"

lemma lawful_find:
  assumes "box_lawful db"
  obtains rs where "bd_find db d q = Inr rs" and "set rs = {r \<in> set (bd_rows db d). box_match q r}" and "distinct rs"
  using assms(1)[unfolded box_lawful_def, THEN conjunct1, THEN spec, THEN spec, of d q] by blast

lemma lawful_count:
  "box_lawful db \<Longrightarrow> bd_count db d q i = Inr 0 \<Longrightarrow> r \<in> set (bd_rows db d) \<Longrightarrow> box_match q r \<Longrightarrow> bx_ID r = i"
  unfolding box_lawful_def by metis

lemma lawful_save:
  assumes "box_lawful db" and "bd_save db d b = Inr d1"
  obtains r where "stored_as (bd_rows db d) b r"
    and "set (bd_rows db d1) = insert r {x \<in> set (bd_rows db d). bx_ID x \<noteq> bx_ID b}"
  using assms unfolding box_lawful_def by blast

lemma lawful_delete:
  "box_lawful db \<Longrightarrow> bd_delete db d b = Inr d1 \<Longrightarrow>
     set (bd_rows db d1) = {x \<in> set (bd_rows db d). bx_ID x \<noteq> bx_ID b}"
  unfolding box_lawful_def by blast

section \<open>The invariant of the rows\<close>

definition box_ok :: "('v, 'k) verlib \<Rightarrow> 'j boxrow \<Rightarrow> bool" where
  "box_ok vl r \<longleftrightarrow> bx_Directory r \<noteq> [] \<and> bx_Name r \<noteq> [] \<and> bx_Provider r \<noteq> [] \<and> bx_ResourceId r \<noteq> []
     \<and> bx_Version r \<noteq> [] \<and> \<not> isl (vl_version vl (bx_Version r))"

definition box_clash :: "'j boxrow \<Rightarrow> 'j boxrow \<Rightarrow> bool" where
  "box_clash a b \<longleftrightarrow> bx_Directory a = bx_Directory b \<or> bx_ResourceId a = bx_ResourceId b
     \<or> (bx_Name a = bx_Name b \<and> bx_Provider a = bx_Provider b \<and> bx_Version a = bx_Version b)"

definition boxes_ok :: "('d, 'j, 'v, 'k) boxenv \<Rightarrow> 'd \<Rightarrow> bool" where
  "boxes_ok env d \<longleftrightarrow>
     (\<forall>r\<in>set (bd_rows (be_db env) d). box_ok (be_vl env) r \<and> bx_ID r \<noteq> 0)
     \<and> (\<forall>a\<in>set (bd_rows (be_db env) d). \<forall>b\<in>set (bd_rows (be_db env) d).
          bx_ID a = bx_ID b \<or> box_clash a b \<longrightarrow> a = b)"

lemma boxes_okD:
  assumes "boxes_ok env d" and "a \<in> set (bd_rows (be_db env) d)"
  shows "box_ok (be_vl env) a" "bx_ID a \<noteq> 0"
    "b \<in> set (bd_rows (be_db env) d) \<Longrightarrow> bx_ID a = bx_ID b \<Longrightarrow> a = b"
    "b \<in> set (bd_rows (be_db env) d) \<Longrightarrow> box_clash a b \<Longrightarrow> a = b"
  using assms unfolding boxes_ok_def by blast+

lemma box_clash_sym: "box_clash a b \<Longrightarrow> box_clash b a"
  by (auto simp: box_clash_def)

section \<open>Validation\<close>

lemma valid_version_good [simp]: "checkValidVersion vl s = Good \<longleftrightarrow> \<not> isl (vl_version vl s)"
  by (auto simp: checkValidVersion_def split: sum.splits)

lemma Box_Validate_none:
  assumes l: "box_lawful (be_db env)" and v: "Box_Validate env d b = None"
  shows "box_ok (be_vl env) b"
    and "r \<in> set (bd_rows (be_db env) d) \<Longrightarrow> bx_ID r \<noteq> bx_ID b \<Longrightarrow> \<not> box_clash r b"
proof -
  let ?c = "bd_count (be_db env) d"
  from v have good: "bx_Directory b \<noteq> []" "bx_Name b \<noteq> []" "bx_Provider b \<noteq> []" "bx_ResourceId b \<noteq> []"
      "bx_Version b \<noteq> []" "\<not> isl (vl_version (be_vl env) (bx_Version b))"
    and counts: "?c (zero_box\<lparr>bx_Directory := bx_Directory b\<rparr>) (bx_ID b) = Inr 0"
      "?c (zero_box\<lparr>bx_ResourceId := bx_ResourceId b\<rparr>) (bx_ID b) = Inr 0"
      "?c (zero_box\<lparr>bx_Name := bx_Name b, bx_Provider := bx_Provider b, bx_Version := bx_Version b\<rparr>) (bx_ID b) = Inr 0"
    by (auto simp: Box_Validate_def Let_def validate_none first_bad_good simp del: first_bad.simps
        split: option.splits field_check.splits)
  show "box_ok (be_vl env) b" using good by (simp add: box_ok_def)
  show "\<not> box_clash r b" if r: "r \<in> set (bd_rows (be_db env) d)" "bx_ID r \<noteq> bx_ID b"
    using lawful_count[OF l counts(1) r(1)] lawful_count[OF l counts(2) r(1)] lawful_count[OF l counts(3) r(1)] r(2)
    by (auto simp: box_clash_def box_match_def zero_box_def)
qed

text \<open>What \<open>BeforeSave\<close> makes of a row: an id and a version.\<close>

definition normal_version :: "string \<Rightarrow> string" where
  "normal_version v = (if v = [] \<or> v = ''0'' then DEFAULT_BOX_VERSION else v)"

lemma BeforeSave_row:
  assumes "Box_BeforeSave env d b = Inr b1"
  obtains i where "b1 = b\<lparr>bx_ResourceId := i, bx_Version := normal_version (bx_Version b)\<rparr>"
    and "bx_ResourceId b \<noteq> [] \<Longrightarrow> i = bx_ResourceId b" and "Box_Validate env d b1 = None"
proof -
  from assms obtain b0 where b0: "(if bx_ResourceId b = [] then map_sum id (\<lambda>i. b\<lparr>bx_ResourceId := i\<rparr>) (be_fresh env d)
      else Inr b) = Inr b0"
    and b1: "b1 = (if bx_Version b0 = [] \<or> bx_Version b0 = ''0'' then b0\<lparr>bx_Version := DEFAULT_BOX_VERSION\<rparr> else b0)"
    and v: "Box_Validate env d b1 = None"
    by (auto simp: Box_BeforeSave_def Let_def split: sum.splits option.splits)
  from b0 obtain i where i: "b0 = b\<lparr>bx_ResourceId := i\<rparr>" "bx_ResourceId b \<noteq> [] \<Longrightarrow> i = bx_ResourceId b"
    by (auto split: if_splits simp: map_sum_def split: sum.splits)
  have "b1 = b\<lparr>bx_ResourceId := i, bx_Version := normal_version (bx_Version b)\<rparr>"
    by (simp add: b1 i(1) normal_version_def)
  then show thesis using i(2) v by (rule that)
qed

section \<open>The effect on the rows\<close>

text \<open>A row was added or replaced.\<close>

definition row_put :: "('d, 'j) boxdb \<Rightarrow> 'd \<Rightarrow> 'j boxrow \<Rightarrow> 'd \<Rightarrow> bool" where
  "row_put db d r d1 \<longleftrightarrow> set (bd_rows db d1) = insert r {x \<in> set (bd_rows db d). bx_ID x \<noteq> bx_ID r}"

lemma box_upsert_Ret:
  assumes l: "box_lawful (be_db env)" and ok: "boxes_ok env d" and run: "box_upsert env b d = Ret d1 u"
  obtains i t k where
    "row_put (be_db env) d (b\<lparr>bx_ResourceId := i, bx_Version := normal_version (bx_Version b),
       bx_ID := k, bx_LastUpdate := t\<rparr>) d1"
    and "bx_ResourceId b \<noteq> [] \<Longrightarrow> i = bx_ResourceId b" and "boxes_ok env d1" and "bx_ID b \<noteq> 0 \<Longrightarrow> k = bx_ID b"
    and "bx_ID b = 0 \<Longrightarrow> k \<notin> bx_ID ` set (bd_rows (be_db env) d)" and "i \<noteq> []"
proof -
  from run obtain b1 where bs: "Box_BeforeSave env d b = Inr b1" and sv: "bd_save (be_db env) d b1 = Inr d1"
    by (auto simp: box_upsert_def split: sum.splits)
  obtain i where b1: "b1 = b\<lparr>bx_ResourceId := i, bx_Version := normal_version (bx_Version b)\<rparr>"
    and i: "bx_ResourceId b \<noteq> [] \<Longrightarrow> i = bx_ResourceId b" and v: "Box_Validate env d b1 = None"
    using BeforeSave_row[OF bs] by metis
  from lawful_save[OF l sv] obtain r where st: "stored_as (bd_rows (be_db env) d) b1 r"
    and rows: "set (bd_rows (be_db env) d1) = insert r {x \<in> set (bd_rows (be_db env) d). bx_ID x \<noteq> bx_ID b1}" .
  from st obtain k t where r: "r = b1\<lparr>bx_ID := k, bx_LastUpdate := t\<rparr>"
    and k: "if bx_ID b1 = 0 then k \<noteq> 0 \<and> k \<notin> bx_ID ` set (bd_rows (be_db env) d) else k = bx_ID b1"
    unfolding stored_as_def by blast
  have same: "bx_Directory r = bx_Directory b1" "bx_ResourceId r = bx_ResourceId b1" "bx_Name r = bx_Name b1"
    "bx_Provider r = bx_Provider b1" "bx_Version r = bx_Version b1" "bx_ID r = k" by (simp_all add: r)
  have rok: "box_ok (be_vl env) r" "bx_ID r \<noteq> 0"
    using Box_Validate_none(1)[OF l v] k by (auto simp: box_ok_def same split: if_splits)
  have new: "\<not> box_clash x r" "bx_ID x \<noteq> bx_ID r" if "x \<in> set (bd_rows (be_db env) d)" "bx_ID x \<noteq> bx_ID b1" for x
    using Box_Validate_none(2)[OF l v that] k that by (auto simp: box_clash_def same split: if_splits)
  have filter_same: "{x \<in> set (bd_rows (be_db env) d). bx_ID x \<noteq> bx_ID b1} = {x \<in> set (bd_rows (be_db env) d). bx_ID x \<noteq> bx_ID r}"
    using k boxes_okD(2)[OF ok] by (auto simp: same split: if_splits)
  show thesis
  proof (rule that[of t k i])
    show "row_put (be_db env) d (b\<lparr>bx_ResourceId := i, bx_Version := normal_version (bx_Version b),
        bx_ID := k, bx_LastUpdate := t\<rparr>) d1"
      using rows filter_same unfolding row_put_def r b1 by simp
    show "boxes_ok env d1"
      unfolding boxes_ok_def rows
      using rok new box_clash_sym boxes_okD[OF ok] by (auto dest: new(2) new(1) box_clash_sym)
    show "i \<noteq> []" using Box_Validate_none(1)[OF l v] by (simp add: box_ok_def b1)
  qed (use i k in \<open>auto simp: b1 split: if_splits\<close>)
qed

text \<open>The row with a resource id.\<close>

definition box_row :: "('d, 'j) boxdb \<Rightarrow> 'd \<Rightarrow> string \<Rightarrow> 'j boxrow option" where
  "box_row db d i = find (\<lambda>r. bx_ResourceId r = i) (bd_rows db d)"

lemma box_row_iff:
  assumes "boxes_ok env d"
  shows "box_row (be_db env) d i = Some r \<longleftrightarrow> r \<in> set (bd_rows (be_db env) d) \<and> bx_ResourceId r = i"
proof -
  have "box_row (be_db env) d i = Some r" if "r \<in> set (bd_rows (be_db env) d)" "bx_ResourceId r = i"
  proof -
    from that obtain r' where r': "box_row (be_db env) d i = Some r'"
      by (cases "box_row (be_db env) d i") (auto simp: box_row_def find_None_iff)
    then have "r' \<in> set (bd_rows (be_db env) d)" "bx_ResourceId r' = i"
      by (auto simp: box_row_def find_Some_iff)
    with that have "r = r'" by (intro boxes_okD(4)[OF assms]) (auto simp: box_clash_def)
    with r' show ?thesis by simp
  qed
  then show ?thesis by (auto simp: box_row_def find_Some_iff)
qed

lemma box_row_None:
  "box_row db d i = None \<longleftrightarrow> (\<forall>r\<in>set (bd_rows db d). bx_ResourceId r \<noteq> i)"
  by (auto simp: box_row_def find_None_iff)

lemma box_first_by_id:
  assumes l: "box_lawful (be_db env)" and ok: "boxes_ok env d" and i: "i \<noteq> []"
  shows "box_first env (zero_box\<lparr>bx_ResourceId := i\<rparr>) d =
     (case box_row (be_db env) d i of None \<Rightarrow> Fail d RecordNotFound | Some r \<Rightarrow> Ret d r)"
proof -
  obtain rs where f: "bd_find (be_db env) d (zero_box\<lparr>bx_ResourceId := i\<rparr>) = Inr rs"
    and rs: "set rs = {r \<in> set (bd_rows (be_db env) d). box_match (zero_box\<lparr>bx_ResourceId := i\<rparr>) r}"
    using lawful_find[OF l] by blast
  have m: "box_match (zero_box\<lparr>bx_ResourceId := i\<rparr>) r = (bx_ResourceId r = i)" for r :: "'b boxrow"
    using i by (auto simp: box_match_def zero_box_def)
  show ?thesis
  proof (cases rs)
    case Nil
    then have "box_row (be_db env) d i = None" using rs by (auto simp: box_row_None m)
    then show ?thesis using f Nil by (simp add: box_first_def)
  next
    case (Cons r rs')
    then have "r \<in> set (bd_rows (be_db env) d) \<and> bx_ResourceId r = i" using rs by (auto simp: m)
    then have "box_row (be_db env) d i = Some r" by (simp add: box_row_iff[OF ok])
    then show ?thesis using f Cons by (simp add: box_first_def)
  qed
qed

section \<open>The requests\<close>

text \<open>What the server stores under an id, without the key of the database and the time.\<close>

definition box_content :: "'j boxrow \<Rightarrow> 'j boxrow" where
  "box_content r = r\<lparr>bx_ID := 0, bx_LastUpdate := None\<rparr>"

definition box_table :: "('d, 'j) boxdb \<Rightarrow> 'd \<Rightarrow> string \<rightharpoonup> 'j boxrow" where
  "box_table db d i = map_option box_content (box_row db d i)"

lemma box_content_simps [simp]:
  "bx_ResourceId (box_content r) = bx_ResourceId r" "bx_Directory (box_content r) = bx_Directory r"
  "bx_Name (box_content r) = bx_Name r" "bx_Provider (box_content r) = bx_Provider r"
  "bx_Version (box_content r) = bx_Version r" "box_content (r\<lparr>bx_ID := k\<rparr>) = box_content r"
  "box_content (r\<lparr>bx_LastUpdate := t\<rparr>) = box_content r"
  by (simp_all add: box_content_def)

definition old_box :: "('d, 'j) boxdb \<Rightarrow> 'd \<Rightarrow> string \<Rightarrow> 'j boxrow" where
  "old_box db d i = (case if i = [] then None else box_row db d i of None \<Rightarrow> zero_box | Some r \<Rightarrow> r)"

lemma BoxFromProto_by_id:
  assumes "box_lawful (be_db env)" and "boxes_ok env d"
  shows "BoxFromProtoRef env (Some r) d =
     (case if fb_ResourceId r = [] then None else box_row (be_db env) d (fb_ResourceId r) of
        None \<Rightarrow> Fail d RecordNotFound | Some b \<Rightarrow> Ret d b)"
  by (simp add: BoxFromProtoRef_def box_first_by_id[OF assms])

lemma not_found_itself [simp]: "is_not_found RecordNotFound"
  by (simp add: is_not_found_def)

lemma BoxPut_upsert:
  assumes "box_lawful (be_db env)" and "boxes_ok env d"
  shows "BoxPut env p d = map_err (saveErrorToStatus ''box'')
     (box_upsert env (softDecode_box p (old_box (be_db env) d (bp_ResourceId p))) d)"
  by (cases "box_row (be_db env) d (bp_ResourceId p)")
    (simp_all add: BoxPut_def BoxFromProto_def BoxFromProto_by_id[OF assms] old_box_def)

text \<open>What is stored under the id \<open>i\<close> after the message \<open>p\<close>.\<close>

definition put_content :: "'j boxpb \<Rightarrow> 'j boxrow option \<Rightarrow> string \<Rightarrow> 'j boxrow" where
  "put_content p old i =
     (let b = box_content (softDecode_box p (case old of None \<Rightarrow> zero_box | Some r \<Rightarrow> r))
      in b\<lparr>bx_ResourceId := i, bx_Version := normal_version (bx_Version b)\<rparr>)"

lemma softDecode_content: "box_content (softDecode_box p (box_content r)) = box_content (softDecode_box p r)"
  by (simp add: softDecode_box_def box_content_def set_or_def)

lemma zero_content [simp]: "box_content zero_box = zero_box"
  by (simp add: box_content_def zero_box_def)

lemma BoxPut_table:
  assumes l: "box_lawful (be_db env)" and ok: "boxes_ok env d" and run: "BoxPut env p d = Ret d1 u"
  obtains i where "bp_ResourceId p \<noteq> [] \<Longrightarrow> i = bp_ResourceId p" and "i \<noteq> []" and "boxes_ok env d1"
    and "box_table (be_db env) d1 =
           (box_table (be_db env) d)(i \<mapsto> put_content p (if bp_ResourceId p = [] then None else box_table (be_db env) d i) i)"
proof -
  let ?db = "be_db env"
  let ?o = "old_box ?db d (bp_ResourceId p)"
  let ?b = "softDecode_box p ?o"
  have run': "box_upsert env ?b d = Ret d1 u" using run by (simp add: BoxPut_upsert[OF l ok])
  obtain i k t where put: "row_put ?db d (?b\<lparr>bx_ResourceId := i, bx_Version := normal_version (bx_Version ?b),
       bx_ID := k, bx_LastUpdate := t\<rparr>) d1" (is "row_put _ _ ?r _")
    and i: "bx_ResourceId ?b \<noteq> [] \<Longrightarrow> i = bx_ResourceId ?b" "i \<noteq> []" and ok1: "boxes_ok env d1"
    and k: "bx_ID ?b \<noteq> 0 \<Longrightarrow> k = bx_ID ?b" "bx_ID ?b = 0 \<Longrightarrow> k \<notin> bx_ID ` set (bd_rows ?db d)"
    by (rule box_upsert_Ret[OF l ok run']) (rule that; blast)
  have ip: "i = bp_ResourceId p" if "bp_ResourceId p \<noteq> []"
    using i(1) that by (simp add: softDecode_box_def set_or_def)
  have idb: "bx_ID ?b = bx_ID ?o" by (simp add: softDecode_box_def)
  have old: "?o = r" if "bp_ResourceId p \<noteq> []" "box_row ?db d i = Some r" for r
    using that ip[OF that(1)] by (simp add: old_box_def)
  have fresh: "bx_ID x = k \<longleftrightarrow> bp_ResourceId p \<noteq> [] \<and> bx_ResourceId x = i" if x: "x \<in> set (bd_rows ?db d)" for x
  proof (cases "bp_ResourceId p = [] \<or> box_row ?db d i = None")
    case True
    then have "bx_ID ?o = 0" using ip by (auto simp: old_box_def zero_box_def)
    then have "bx_ID x \<noteq> k" using k(2) x idb by auto
    then show ?thesis using True x by (auto simp: box_row_None)
  next
    case False
    then obtain r where r: "box_row ?db d i = Some r" by blast
    then have rd: "r \<in> set (bd_rows ?db d)" "bx_ResourceId r = i" by (simp_all add: box_row_iff[OF ok])
    have "k = bx_ID r" using k(1) boxes_okD(2)[OF ok rd(1)] old[OF _ r] False idb by simp
    then have "bx_ID x = k \<longleftrightarrow> r = x" using boxes_okD(3)[OF ok rd(1) x] by metis
    moreover have "bx_ResourceId x = i \<longleftrightarrow> r = x" using boxes_okD(4)[OF ok rd(1) x] rd(2) unfolding box_clash_def by metis
    ultimately show ?thesis using False by simp
  qed
  have rid: "bx_ResourceId ?r = i" "bx_ID ?r = k" by simp_all
  have r_in: "?r \<in> set (bd_rows ?db d1)" using put by (simp add: row_put_def)
  have row: "box_row ?db d1 j = Some x \<longleftrightarrow> (if j = i then x = ?r else box_row ?db d j = Some x)" for j x
  proof (cases "j = i")
    case True
    have "box_row ?db d1 i = Some ?r" using r_in rid by (simp only: box_row_iff[OF ok1])
    with True show ?thesis by auto
  next
    case False
    then show ?thesis
      using put rid fresh by (auto simp: box_row_iff[OF ok1] box_row_iff[OF ok] row_put_def simp del: boxrow.simps)
  qed
  have content: "box_content ?r = put_content p (if bp_ResourceId p = [] then None else box_table ?db d i) i"
    using ip by (auto simp: put_content_def Let_def old_box_def box_table_def softDecode_box_def set_or_def
        box_content_def split: option.splits)
  have at_i: "box_row ?db d1 i = Some ?r" using row[of i ?r] by (simp only: if_True refl)
  have other: "box_row ?db d1 j = box_row ?db d j" if "j \<noteq> i" for j
    by (rule option_eqI) (simp only: row that if_False)
  show thesis
  proof (rule that[OF ip i(2) ok1])
    show "box_table ?db d1 = (box_table ?db d)(i \<mapsto> put_content p (if bp_ResourceId p = [] then None else box_table ?db d i) i)"
      unfolding content[symmetric]
    proof (rule ext)
      show "box_table ?db d1 j = ((box_table ?db d)(i \<mapsto> box_content ?r)) j" for j
        by (cases "j = i") (simp_all only: box_table_def at_i other option.map fun_upd_same fun_upd_other not_False_eq_True)
    qed
  qed assumption
qed

lemma BoxPut_table_id:
  assumes l: "box_lawful (be_db env)" and ok: "boxes_ok env d" and run: "BoxPut env p d = Ret d1 u"
    and i: "bp_ResourceId p \<noteq> []"
  shows "boxes_ok env d1 \<and> box_table (be_db env) d1 = (box_table (be_db env) d)
     (bp_ResourceId p \<mapsto> put_content p (box_table (be_db env) d (bp_ResourceId p)) (bp_ResourceId p))"
  by (rule BoxPut_table[OF l ok run]) (use i in simp)

lemma BoxDelete_table:
  assumes l: "box_lawful (be_db env)" and ok: "boxes_ok env d" and run: "BoxDelete env (Some r) d = Ret d1 u"
  shows "boxes_ok env d1"
    and "box_table (be_db env) d1 =
           (if fb_ResourceId r = [] then box_table (be_db env) d else (box_table (be_db env) d)(fb_ResourceId r := None))"
proof -
  let ?db = "be_db env" and ?i = "fb_ResourceId r"
  have "boxes_ok env d1 \<and> box_table ?db d1 = (if ?i = [] then box_table ?db d else (box_table ?db d)(?i := None))"
  proof (cases "?i = [] \<or> box_row ?db d ?i = None")
    case True
    then have "d1 = d" using run by (auto simp: BoxDelete_def BoxFromProto_by_id[OF l ok] split: if_splits)
    then show ?thesis using ok True by (auto simp: box_table_def)
  next
    case False
    then obtain b where b: "box_row ?db d ?i = Some b" by blast
    then have bd: "b \<in> set (bd_rows ?db d)" "bx_ResourceId b = ?i" by (simp_all add: box_row_iff[OF ok])
    have del: "bd_delete ?db d b = Inr d1"
      using run b False by (simp add: BoxDelete_def BoxFromProto_by_id[OF l ok] split: sum.splits)
    have rows: "set (bd_rows ?db d1) = set (bd_rows ?db d) - {b}"
      using lawful_delete[OF l del] boxes_okD(3)[OF ok _ bd(1)] bd(1) by auto
    have ok1: "boxes_ok env d1" using ok unfolding boxes_ok_def rows by blast
    have "box_row ?db d1 j = (if j = ?i then None else box_row ?db d j)" for j
    proof (rule option_eqI)
      show "box_row ?db d1 j = Some x \<longleftrightarrow> (if j = ?i then None else box_row ?db d j) = Some x" for x
        using boxes_okD(4)[OF ok bd(1), of x] bd
        by (auto simp: box_row_iff[OF ok] box_row_iff[OF ok1] rows box_clash_def)
    qed
    then show ?thesis using ok1 False by (auto simp: box_table_def)
  qed
  then show "boxes_ok env d1" "box_table ?db d1 = (if ?i = [] then box_table ?db d else (box_table ?db d)(?i := None))"
    by simp_all
qed

lemma BoxPut_keeps:
  assumes l: "box_lawful (be_db env)" and ok: "boxes_ok env d"
  shows "keeps (boxes_ok env) (BoxPut env p d)"
proof (cases "BoxPut env p d")
  case (Ret d1 u)
  then show ?thesis using BoxPut_table[OF l ok Ret] by (metis keeps.simps(1))
next
  case (Fail d1 e)
  then have "d1 = d"
    by (auto simp: BoxPut_upsert[OF l ok] box_upsert_def map_err_def split: sum.splits)
  then show ?thesis using Fail ok by simp
qed simp

lemma BoxDelete_keeps: "box_lawful (be_db env) \<Longrightarrow> boxes_ok env d \<Longrightarrow> keeps (boxes_ok env) (BoxDelete env r d)"
proof (cases r)
  case (Some x)
  assume "box_lawful (be_db env)" "boxes_ok env d"
  then show ?thesis using BoxDelete_table(1)[of env d x] Some
    by (cases "BoxDelete env r d")
      (auto simp: BoxDelete_def BoxFromProto_by_id split: sum.splits option.splits if_splits)
qed (simp add: BoxDelete_def BoxFromProtoRef_def is_not_found_def)

text \<open>A box is what its row says.\<close>

lemma BoxGet_row:
  assumes "box_lawful (be_db env)" and "boxes_ok env d"
  shows "BoxGet env (Some r) d =
     (case if fb_ResourceId r = [] then None else box_row (be_db env) d (fb_ResourceId r) of
        None \<Rightarrow> Fail d (lookupErrorToStatus ''box'' RecordNotFound) | Some b \<Rightarrow> Ret d (Box_ToProto b))"
  by (simp add: BoxGet_def BoxFromProto_by_id[OF assms] map_err_def split: option.splits)

section \<open>A lawful database\<close>

text \<open>A list of rows with a counter for the ids.\<close>

definition list_save :: "nat \<times> 'j boxrow list \<Rightarrow> 'j boxrow \<Rightarrow> nat \<times> 'j boxrow list" where
  "list_save d b =
     (let k = (if bx_ID b = 0 then Suc (fold max (map bx_ID (snd d)) (fst d)) else bx_ID b)
      in (max k (fst d), filter (\<lambda>x. bx_ID x \<noteq> bx_ID b) (snd d) @ [b\<lparr>bx_ID := k\<rparr>]))"

definition list_db :: "(nat \<times> 'j boxrow list, 'j) boxdb" where
  "list_db =
     \<lparr>bd_find = (\<lambda>d q. Inr (remdups (filter (box_match q) (snd d)))),
      bd_count = (\<lambda>d q i. Inr (length (filter (\<lambda>r. box_match q r \<and> bx_ID r \<noteq> i) (snd d)))),
      bd_save = (\<lambda>d b. Inr (list_save d b)),
      bd_delete = (\<lambda>d b. Inr (fst d, filter (\<lambda>x. bx_ID x \<noteq> bx_ID b) (snd d))),
      bd_changed = (\<lambda>d b. list_ex (\<lambda>x. bx_ID x = bx_ID b \<and> bx_ResourceId x \<noteq> bx_ResourceId b) (snd d)),
      bd_rows = snd\<rparr>"

lemma list_save_stored:
  "\<exists>r. stored_as (snd d) b r \<and> set (snd (list_save d b)) = insert r {x \<in> set (snd d). bx_ID x \<noteq> bx_ID b}"
proof -
  define k where "k = (if bx_ID b = 0 then Suc (fold max (map bx_ID (snd d)) (fst d)) else bx_ID b)"
  have "k \<notin> bx_ID ` set (snd d)" if "bx_ID b = 0"
    using fold_max_ge(1)[of _ "map bx_ID (snd d)" "fst d"] that by (auto simp: k_def) (metis Suc_n_not_le_n imageI)
  then have "stored_as (snd d) b (b\<lparr>bx_ID := k\<rparr>)"
    unfolding stored_as_def
    by (intro exI[of _ k] exI[of _ "bx_LastUpdate b"]) (auto simp: k_def)
  moreover have "set (snd (list_save d b)) = insert (b\<lparr>bx_ID := k\<rparr>) {x \<in> set (snd d). bx_ID x \<noteq> bx_ID b}"
    by (auto simp: list_save_def Let_def k_def)
  ultimately show ?thesis by blast
qed

lemma list_db_lawful: "box_lawful list_db"
  unfolding box_lawful_def list_db_def
  using list_save_stored by (auto simp: filter_empty_conv simp flip: length_greater_0_conv)

end
