(* ===== verification/BoxCore.thy ===== *)
theory BoxCore
  imports Boxes
begin

text \<open>
  The boxes of a basis (\<open>internal/core/box.go\<close>, \<open>box_collection.go\<close>): the construction of a box from the
  server's message and the metadata file in its directory, and the operations of a box and of the collection, which
  call the server (\<open>Boxes\<close>). A remote call is the handler itself.
\<close>

section \<open>Environment\<close>

text \<open>The files: whether a path exists, reading one, removing a tree (which may fail in the middle); the parser of
  JSON objects, whether a value is a string, and the conversion of an object to the message's.\<close>

record ('f, 'x, 'j) boxfs =
  bf_stat :: "'f \<Rightarrow> string \<Rightarrow> bool"
  bf_read :: "'f \<Rightarrow> string \<Rightarrow> goerr + string"
  bf_remove :: "'f \<Rightarrow> string \<Rightarrow> goerr option \<times> 'f"
  bf_join :: "string \<Rightarrow> string \<Rightarrow> string"
  bf_json :: "string \<Rightarrow> goerr + (string \<rightharpoonup> 'x)"
  bf_string :: "'x \<Rightarrow> string option"
  bf_struct :: "(string \<rightharpoonup> 'x) \<Rightarrow> goerr + 'j"

record ('d, 'j, 'v, 'k, 'f, 'x) corenv =
  co_box :: "('d, 'j, 'v, 'k) boxenv"
  co_fs :: "('f, 'x, 'j) boxfs"

text \<open>A call of the server on the database of the world.\<close>

definition call_box :: "('d \<Rightarrow> ('d, 'a) box_result) \<Rightarrow> 'd \<times> 'f \<Rightarrow> ('d \<times> 'f, goerr, 'a) outcome" where
  "call_box h w = (case h (fst w) of Ret d a \<Rightarrow> Ret (d, snd w) a | Fail d e \<Rightarrow> Fail (d, snd w) e | Crash m \<Rightarrow> Crash m)"

section \<open>Construction of a box\<close>

definition zero_pb :: "'j boxpb" where
  "zero_pb = \<lparr>bp_ResourceId = [], bp_Provider = [], bp_Version = [], bp_Directory = [], bp_Metadata = None,
     bp_MetadataUrl = [], bp_Name = [], bp_LastUpdate = None\<rparr>"

datatype 'j box_option =
    BoxWithRef box_ref
  | BoxWithLogger
  | BoxWithBasis
  | BoxWithName string
  | BoxWithVersion string
  | BoxWithProvider string
  | BoxWithMetadataUrl string
  | BoxWithDirectory string
  | BoxWithBox "'j boxpb"

text \<open>An option on the pair of whether the basis is set and the message. An error of an option is the second result
  of \<open>Ret\<close>; a nil pointer that is used is a crash.\<close>

definition apply_option ::
  "('d, 'j, 'v, 'k, 'f, 'x) corenv \<Rightarrow> 'j box_option \<Rightarrow> bool \<times> 'j boxpb \<Rightarrow> 'd \<times> 'f \<Rightarrow>
     ('d \<times> 'f, goerr, (bool \<times> 'j boxpb) \<times> goerr option) outcome" where
  "apply_option env opt b w =
     (let keep = (\<lambda>p. Ret w ((fst b, p), None))
      in case opt of
           BoxWithRef r \<Rightarrow>
             if \<not> fst b then Crash ''nil basis''
             else (case call_box (GetBox (co_box env) (Some r)) w of
                     Ret w' p \<Rightarrow> Ret w' ((fst b, p), None)
                   | Fail w' e \<Rightarrow> Crash ''nil response''
                   | Crash m \<Rightarrow> Crash m)
         | BoxWithLogger \<Rightarrow> keep (snd b)
         | BoxWithBasis \<Rightarrow> Ret w ((True, snd b), None)
         | BoxWithName n \<Rightarrow> keep ((snd b)\<lparr>bp_Name := n\<rparr>)
         | BoxWithVersion v \<Rightarrow>
             (case vl_version (be_vl (co_box env)) v of
                Inl e \<Rightarrow> Ret w (b, Some e)
              | Inr _ \<Rightarrow> keep ((snd b)\<lparr>bp_Version := v\<rparr>))
         | BoxWithProvider p \<Rightarrow> keep ((snd b)\<lparr>bp_Provider := p\<rparr>)
         | BoxWithMetadataUrl u \<Rightarrow> keep ((snd b)\<lparr>bp_MetadataUrl := u\<rparr>)
         | BoxWithDirectory p \<Rightarrow>
             if bf_stat (co_fs env) (snd w) p then keep ((snd b)\<lparr>bp_Directory := p\<rparr>)
             else Ret w (b, Some (OtherError ''no such file or directory''))
         | BoxWithBox p \<Rightarrow> keep p)"

text \<open>All options are applied; what the errors are collected in is overwritten later.\<close>

fun box_options ::
  "('d, 'j, 'v, 'k, 'f, 'x) corenv \<Rightarrow> 'j box_option list \<Rightarrow> bool \<times> 'j boxpb \<Rightarrow> 'd \<times> 'f \<Rightarrow>
     ('d \<times> 'f, goerr, bool \<times> 'j boxpb) outcome" where
  "box_options env [] b w = Ret w b"
| "box_options env (opt # opts) b w = bind_o (apply_option env opt b w) (\<lambda>w r. box_options env opts (fst r) w)"

definition box_id :: "string \<Rightarrow> string \<Rightarrow> string \<Rightarrow> string" where
  "box_id name ver prov = name @ ''-'' @ ver @ ''-'' @ prov"

text \<open>What is read from the directory.\<close>

definition read_box ::
  "('d, 'j, 'v, 'k, 'f, 'x) corenv \<Rightarrow> 'j boxpb \<Rightarrow> 'd \<times> 'f \<Rightarrow> ('d \<times> 'f, goerr, 'j boxpb) outcome" where
  "read_box env p w =
     (let fs = co_fs env; file = bf_join fs (bp_Directory p) ''metadata.json''
      in if \<not> bf_stat fs (snd w) file then Fail w (OtherError ''box_does_not_have_metadata_json_file'')
         else (case bf_read fs (snd w) file of
                 Inl e \<Rightarrow> Fail w e
               | Inr data \<Rightarrow>
                   (case bf_json fs data of
                      Inl e \<Rightarrow> Fail w e
                    | Inr meta \<Rightarrow>
                        (case meta ''provider'' of
                           None \<Rightarrow> Fail w (OtherError ''box_metadata_missing_required_fields'')
                         | Some x \<Rightarrow>
                             (case bf_struct fs meta of
                                Inl e \<Rightarrow> Fail w e
                              | Inr j \<Rightarrow>
                                  (case bf_string fs x of
                                     None \<Rightarrow> Crash ''interface conversion''
                                   | Some prov \<Rightarrow>
                                       Ret w (p\<lparr>bp_Metadata := Some j, bp_Provider := prov,
                                                bp_ResourceId := box_id (bp_Name p) (bp_Version p) prov\<rparr>)))))))"

definition NewBox ::
  "('d, 'j, 'v, 'k, 'f, 'x) corenv \<Rightarrow> 'j box_option list \<Rightarrow> 'd \<times> 'f \<Rightarrow> ('d \<times> 'f, goerr, 'j boxpb) outcome" where
  "NewBox env opts w =
     bind_o (box_options env opts (False, zero_pb) w) (\<lambda>w b.
       if \<not> fst b then Fail w (OtherError ''Basis must be specified for the box'')
       else if bp_Directory (snd b) = [] then Fail w (OtherError ''Box directory must be specified for the box'')
       else read_box env (snd b) w)"

section \<open>Operations of a box\<close>

definition Box_Save ::
  "('d, 'j, 'v, 'k, 'f, 'x) corenv \<Rightarrow> 'j boxpb \<Rightarrow> 'd \<times> 'f \<Rightarrow> ('d \<times> 'f, goerr, unit) outcome" where
  "Box_Save env b w = bind_o (call_box (UpsertBox (co_box env) (Some b)) w) (\<lambda>w _. Ret w ())"

text \<open>The error of the call is only returned when there is no directory to remove.\<close>

definition Box_Destroy ::
  "('d, 'j, 'v, 'k, 'f, 'x) corenv \<Rightarrow> 'j boxpb \<Rightarrow> 'd \<times> 'f \<Rightarrow> ('d \<times> 'f, goerr, unit) outcome" where
  "Box_Destroy env b w =
     (let finish = (\<lambda>err w.
            if bf_stat (co_fs env) (snd w) (bp_Directory b) then
              (case bf_remove (co_fs env) (snd w) (bp_Directory b) of
                 (None, f) \<Rightarrow> Ret (fst w, f) ()
               | (Some e, f) \<Rightarrow> Fail (fst w, f) e)
            else (case err of None \<Rightarrow> Ret w () | Some e \<Rightarrow> Fail w e))
      in case call_box (DeleteBox (co_box env) (Some \<lparr>fb_ResourceId = bp_ResourceId b, fb_Name = bp_Name b,
                fb_Provider = bp_Provider b, fb_Version = bp_Version b\<rparr>)) w of
           Ret w _ \<Rightarrow> finish None w
         | Fail w e \<Rightarrow> finish (Some e) w
         | Crash m \<Rightarrow> Crash m)"

text \<open>Times are in nanoseconds; a message without a time is at the epoch. The error of saving is dropped.\<close>

definition AutomaticUpdateCheckAllowed ::
  "('d, 'j, 'v, 'k, 'f, 'x) corenv \<Rightarrow> 'j boxpb \<Rightarrow> 'd \<times> 'f \<Rightarrow> ('d \<times> 'f, goerr, 'j boxpb \<times> bool) outcome" where
  "AutomaticUpdateCheckAllowed env b w =
     (let now = be_now (co_box env); lastUpdate = (case bp_LastUpdate b of None \<Rightarrow> 0 | Some t \<Rightarrow> t)
      in if now < lastUpdate + 3600 * 1000000000 then Ret w (b, False)
         else (let b1 = b\<lparr>bp_LastUpdate := Some now\<rparr>
               in case Box_Save env b1 w of
                    Ret w _ \<Rightarrow> Ret w (b1, True)
                  | Fail w _ \<Rightarrow> Ret w (b1, True)
                  | Crash m \<Rightarrow> Crash m))"

text \<open>A box of a machine is what its name, version and provider calls return, or no box.\<close>

record boxval =
  bo_Name :: "goerr + string"
  bo_Version :: "goerr + string"
  bo_Provider :: "goerr + string"

definition boxval_of :: "boxval \<Rightarrow> goerr + (string \<times> string \<times> string)" where
  "boxval_of x =
     (case bo_Name x of Inl e \<Rightarrow> Inl e
      | Inr n \<Rightarrow> (case bo_Version x of Inl e \<Rightarrow> Inl e
                  | Inr v \<Rightarrow> (case bo_Provider x of Inl e \<Rightarrow> Inl e | Inr p \<Rightarrow> Inr (n, v, p))))"

definition Box_matches :: "'j boxpb \<Rightarrow> boxval option \<Rightarrow> goerr + bool" where
  "Box_matches b x =
     (case x of None \<Rightarrow> Inr False
      | Some x \<Rightarrow> map_sum id (\<lambda>t. t = (bp_Name b, bp_Version b, bp_Provider b)) (boxval_of x))"

record boxtarget =
  tg_gone :: bool
  tg_special :: bool
  tg_Box :: "goerr + boxval option"

fun InUse :: "'j boxpb \<Rightarrow> boxtarget list \<Rightarrow> goerr + bool" where
  "InUse b [] = Inr False"
| "InUse b (t # ts) =
     (if \<not> tg_special t then InUse b ts
      else (case tg_Box t of Inl e \<Rightarrow> Inl e
            | Inr x \<Rightarrow> (case Box_matches b x of Inl e \<Rightarrow> Inl e
                        | Inr ok \<Rightarrow> if ok then Inr True else InUse b ts)))"

fun Box_Machines :: "'j boxpb \<Rightarrow> boxtarget list \<Rightarrow> goerr + boxtarget list" where
  "Box_Machines b [] = Inr []"
| "Box_Machines b (t # ts) =
     (if tg_gone t \<or> \<not> tg_special t then Box_Machines b ts
      else (case tg_Box t of Inl e \<Rightarrow> Inl e
            | Inr x \<Rightarrow> map_sum id (\<lambda>r. if Box_matches b x = Inr True then t # r else r) (Box_Machines b ts)))"

text \<open>The order of the two versions is given by \<open>vl_greater\<close>. A version that is not valid is no error.\<close>

definition Box_Compare :: "('v, 'k) verlib \<Rightarrow> 'j boxpb \<Rightarrow> boxval \<Rightarrow> goerr + int" where
  "Box_Compare vl b x =
     (case boxval_of x of Inl e \<Rightarrow> Inl e
      | Inr (n, v, p) \<Rightarrow>
          if bp_Name b = n \<and> bp_Provider b = p then
            (case (vl_version vl (bp_Version b), vl_version vl v) of
               (Inr mine, Inr other) \<Rightarrow>
                 Inr (if vl_greater vl other mine then 1 else if vl_greater vl mine other then - 1 else 0)
             | _ \<Rightarrow> Inr 0)
          else Inl (OtherError ''Box name and provider does not match, can't compare''))"

definition UpdateInfo ::
  "('v, 'k) verlib \<Rightarrow> 'j boxpb \<Rightarrow> goerr + box_metadata \<Rightarrow> string \<Rightarrow> goerr + (box_metadata \<times> string \<times> string) option" where
  "UpdateInfo vl b meta ver =
     (case meta of Inl e \<Rightarrow> Inl e
      | Inr m \<Rightarrow>
          (let newer = ''> '' @ bp_Version b
           in map_sum id (map_option (\<lambda>v. (m, bv_Version v, bp_Provider b)))
                (Metadata_Version vl (if ver = [] then newer else ver @ '', '' @ newer) [Some (named_provider (bp_Provider b))] m)))"

definition HasUpdate :: "('v, 'k) verlib \<Rightarrow> 'j boxpb \<Rightarrow> goerr + box_metadata \<Rightarrow> string \<Rightarrow> goerr + bool" where
  "HasUpdate vl b meta ver = map_sum id (\<lambda>r. r \<noteq> None) (UpdateInfo vl b meta ver)"

section \<open>The collection\<close>

text \<open>The first provider for which the server finds a box.\<close>

fun find_providers ::
  "('d, 'j, 'v, 'k, 'f, 'x) corenv \<Rightarrow> string \<Rightarrow> string \<Rightarrow> string list \<Rightarrow> 'd \<times> 'f \<Rightarrow>
     ('d \<times> 'f, goerr, 'j boxpb option) outcome" where
  "find_providers env name ver [] w = Ret w None"
| "find_providers env name ver (p # ps) w =
     bind_o (call_box (FindBox (co_box env) (Some \<lparr>fb_ResourceId = [], fb_Name = name, fb_Provider = p, fb_Version = ver\<rparr>)) w)
       (\<lambda>w r. case r of
           None \<Rightarrow> find_providers env name ver ps w
         | Some b \<Rightarrow> bind_o (NewBox env [BoxWithBasis, BoxWithBox b] w) (\<lambda>w x. Ret w (Some x)))"

definition Collection_Find ::
  "('d, 'j, 'v, 'k, 'f, 'x) corenv \<Rightarrow> string \<Rightarrow> string \<Rightarrow> string list \<Rightarrow> 'd \<times> 'f \<Rightarrow>
     ('d \<times> 'f, goerr, 'j boxpb option) outcome" where
  "Collection_Find env name ver ps = find_providers env name ver (if ps = [] then [[]] else ps)"

text \<open>\<open>All\<close> uses the response of a list call that failed.\<close>

fun load_boxes ::
  "('d, 'j, 'v, 'k, 'f, 'x) corenv \<Rightarrow> box_ref list \<Rightarrow> 'd \<times> 'f \<Rightarrow> ('d \<times> 'f, goerr, 'j boxpb list) outcome" where
  "load_boxes env [] w = Ret w []"
| "load_boxes env (r # rs) w =
     bind_o (NewBox env [BoxWithBasis, BoxWithRef r] w)
       (\<lambda>w b. bind_o (load_boxes env rs w) (\<lambda>w bs. Ret w (b # bs)))"

definition Collection_All ::
  "('d, 'j, 'v, 'k, 'f, 'x) corenv \<Rightarrow> 'd \<times> 'f \<Rightarrow> ('d \<times> 'f, goerr, 'j boxpb list) outcome" where
  "Collection_All env w =
     (case call_box (ListBoxes (co_box env)) w of
        Ret w rs \<Rightarrow> load_boxes env rs w
      | Fail w e \<Rightarrow> Crash ''nil response''
      | Crash m \<Rightarrow> Crash m)"

definition Collection_Clean ::
  "('d, 'j, 'v, 'k, 'f, 'x) corenv \<Rightarrow> string \<Rightarrow> string \<Rightarrow> 'd \<times> 'f \<Rightarrow> ('d \<times> 'f, goerr, unit) outcome" where
  "Collection_Clean env dir name w =
     (case bf_remove (co_fs env) (snd w) (bf_join (co_fs env) dir name) of
        (None, f) \<Rightarrow> Ret (fst w, f) ()
      | (Some e, f) \<Rightarrow> Fail (fst w, f) e)"

text \<open>The boxes whose directory does not exist are deleted. The response is used before its error is looked at.\<close>

fun recover ::
  "('d, 'j, 'v, 'k, 'f, 'x) corenv \<Rightarrow> box_ref list \<Rightarrow> 'd \<times> 'f \<Rightarrow> ('d \<times> 'f, goerr, unit) outcome" where
  "recover env [] w = Ret w ()"
| "recover env (r # rs) w =
     (case call_box (GetBox (co_box env) (Some r)) w of
        Fail w e \<Rightarrow> Crash ''nil response''
      | Ret w b \<Rightarrow>
          if bf_stat (co_fs env) (snd w) (bp_Directory b) then recover env rs w
          else bind_o (call_box (DeleteBox (co_box env) (Some r)) w) (\<lambda>w _. recover env rs w)
      | Crash m \<Rightarrow> Crash m)"

definition RecoverBoxes ::
  "('d, 'j, 'v, 'k, 'f, 'x) corenv \<Rightarrow> 'd \<times> 'f \<Rightarrow> ('d \<times> 'f, goerr, unit) outcome" where
  "RecoverBoxes env w = bind_o (call_box (ListBoxes (co_box env)) w) (\<lambda>w rs. recover env rs w)"

text \<open>Names in the file system.\<close>

definition replace_char :: "char \<Rightarrow> string \<Rightarrow> string \<Rightarrow> string" where
  "replace_char c new s = concat (map (\<lambda>x. if x = c then new else [x]) s)"

definition generateDirectoryName :: "string \<Rightarrow> string" where
  "generateDirectoryName p = replace_char (CHR ''/'') ''-VAGRANTSLASH-'' (replace_char (CHR '':'') ''-VAGRANTCOLON-'' p)"

definition validateNewPath :: "(string \<Rightarrow> goerr + string) \<Rightarrow> string \<Rightarrow> string \<Rightarrow> goerr + string" where
  "validateNewPath absp p parent =
     (case absp p of
        Inl e \<Rightarrow> Inl e
      | Inr q \<Rightarrow> if take (length parent) q = parent then Inr q
                  else Inl (OtherError (''could not add box outside of box directory '' @ parent)))"

text \<open>Archives of the first version have a machine description and no metadata.\<close>

definition isV1Box :: "('f, 'x, 'j) boxfs \<Rightarrow> 'f \<Rightarrow> string \<Rightarrow> bool" where
  "isV1Box fs f dir \<longleftrightarrow> bf_stat fs f (bf_join fs dir ''box.ovf'') \<and> \<not> bf_stat fs f (bf_join fs dir ''metadata.json'')"

end
