(* ===== verification/BoxClaims.thy ===== *)
theory BoxClaims
  imports BoxStore BoxCore
begin

text \<open>
  The properties of boxes: the rows stay consistent under every sequence of requests, a stored box is returned and
  found, which box and which version a constraint selects, and the recovery of the collection.
\<close>

section \<open>Requests\<close>

datatype 'j box_request = ReqUpsert "'j boxpb" | ReqDelete "box_ref option"

definition box_request :: "('d, 'j, 'v, 'k) boxenv \<Rightarrow> 'j box_request \<Rightarrow> 'd \<Rightarrow> 'd" where
  "box_request env q d =
     (case q of ReqUpsert b \<Rightarrow> left_by (UpsertBox env (Some b) d) d | ReqDelete r \<Rightarrow> left_by (DeleteBox env r d) d)"

lemma UpsertBox_keeps:
  assumes "box_lawful (be_db env)" and "boxes_ok env d"
  shows "keeps (boxes_ok env) (UpsertBox env (Some p) d)"
  using BoxPut_keeps[OF assms, of "p\<lparr>bp_LastUpdate := Some (be_now env)\<rparr>"]
  by (cases "BoxPut env (p\<lparr>bp_LastUpdate := Some (be_now env)\<rparr>) d") (simp_all add: UpsertBox_def Let_def)

lemma DeleteBox_keeps:
  assumes "box_lawful (be_db env)" and "boxes_ok env d"
  shows "keeps (boxes_ok env) (DeleteBox env r d)"
  using BoxDelete_keeps[OF assms, of r] by (cases "BoxDelete env r d") (simp_all add: DeleteBox_def)

interpretation box_rows: machine "box_request env" "\<lambda>d. box_lawful (be_db env) \<and> boxes_ok env d" for env
  by unfold_locales
    (auto simp: box_request_def split: box_request.split intro: keeps_left_by UpsertBox_keeps DeleteBox_keeps)

section \<open>Lookups\<close>

text \<open>The message under an id, without its time.\<close>

definition box_answer :: "('d, 'j, 'v, 'k) boxenv \<Rightarrow> string \<Rightarrow> 'd \<Rightarrow> 'j boxpb option" where
  "box_answer env i d =
     (case GetBox env (Some \<lparr>fb_ResourceId = i, fb_Name = [], fb_Provider = [], fb_Version = []\<rparr>) d of
        Ret _ b \<Rightarrow> Some (b\<lparr>bp_LastUpdate := None\<rparr>) | _ \<Rightarrow> None)"

text \<open>The fields of the new message that are set, over those of the old.\<close>

definition merge_box :: "'j boxpb \<Rightarrow> 'j boxpb \<Rightarrow> 'j boxpb" where
  "merge_box p old =
     \<lparr>bp_ResourceId = set_or [] (bp_ResourceId p) (bp_ResourceId old), bp_Provider = set_or [] (bp_Provider p) (bp_Provider old),
      bp_Version = normal_version (set_or [] (bp_Version p) (bp_Version old)),
      bp_Directory = set_or [] (bp_Directory p) (bp_Directory old), bp_Metadata = set_or None (bp_Metadata p) (bp_Metadata old),
      bp_MetadataUrl = set_or [] (bp_MetadataUrl p) (bp_MetadataUrl old), bp_Name = set_or [] (bp_Name p) (bp_Name old),
      bp_LastUpdate = None\<rparr>"

lemma box_answer_table:
  assumes "box_lawful (be_db env)" and "boxes_ok env d"
  shows "box_answer env i d = (if i = [] then None else map_option Box_ToProto (box_table (be_db env) d i))"
  by (auto simp: box_answer_def GetBox_def BoxGet_row[OF assms] box_table_def Box_ToProto_def box_content_def
      split: option.splits)

lemma put_content_merge:
  assumes "bp_ResourceId p \<noteq> []"
  shows "Box_ToProto (put_content p old (bp_ResourceId p)) =
     merge_box p (case old of None \<Rightarrow> zero_pb | Some r \<Rightarrow> Box_ToProto r)"
  using assms
  by (auto simp: put_content_def Let_def merge_box_def Box_ToProto_def softDecode_box_def box_content_def set_or_def
      zero_box_def zero_pb_def split: option.splits)

lemma UpsertBox_Ret:
  "UpsertBox env (Some p) d = Ret d1 q \<longleftrightarrow>
     BoxPut env (p\<lparr>bp_LastUpdate := Some (be_now env)\<rparr>) d = Ret d1 () \<and> q = p\<lparr>bp_LastUpdate := Some (be_now env)\<rparr>"
  by (auto simp: UpsertBox_def Let_def bind_o_Ret_iff)

section \<open>Constraints\<close>

lemma match_boxes_matched:
  assumes "\<forall>b\<in>set bs. vl_version vl (bx_Version b) = Inr (ver b)"
  shows "match_boxes vl k (Some h) True cur bs = Some (Inr (Some (if bs = [] then cur else last bs)))"
  using assms by (induction bs arbitrary: h cur) auto

lemma match_boxes_result:
  assumes "\<forall>b\<in>set bs. vl_version vl (bx_Version b) = Inr (ver b)"
  shows "match_boxes vl k (Some z) False cur bs =
     Some (Inr (if \<exists>b\<in>set bs. vl_check vl k (ver b) \<and> vl_greater vl (ver b) z then Some (last bs) else None))"
  using assms by (induction bs arbitrary: cur) (auto simp: match_boxes_matched[where ver = ver])

lemma find_version_result:
  assumes "\<forall>v\<in>set vs. vl_version vl (bv_Version v) = Inr (ver v)"
  shows "find_version vl k p vs =
     Inr (find (\<lambda>v. vl_check vl k (ver v) \<and>
       (case p of None \<Rightarrow> True | Some q \<Rightarrow> list_ex (\<lambda>b. Provider_Matches b q) (bv_Providers v))) vs)"
  using assms by (induction vs) (auto split: option.splits)

section \<open>Recovery\<close>

text \<open>The entries whose directory exists.\<close>

definition existing :: "(string \<Rightarrow> bool) \<Rightarrow> (string \<rightharpoonup> 'j boxrow) \<Rightarrow> string \<rightharpoonup> 'j boxrow" where
  "existing stat t i = (case t i of None \<Rightarrow> None | Some r \<Rightarrow> if stat (bx_Directory r) then Some r else None)"

lemma box_table_Some:
  assumes "boxes_ok env d" and "box_table (be_db env) d i = Some r"
  obtains b where "b \<in> set (bd_rows (be_db env) d)" and "bx_ResourceId b = i" and "r = box_content b" and "i \<noteq> []"
    and "box_row (be_db env) d i = Some b"
proof -
  from assms obtain b where b: "box_row (be_db env) d i = Some b" "r = box_content b" by (auto simp: box_table_def)
  then have "b \<in> set (bd_rows (be_db env) d)" "bx_ResourceId b = i" by (simp_all add: box_row_iff[OF assms(1)])
  with b boxes_okD(1)[OF assms(1)] that show thesis by (auto simp: box_ok_def)
qed

lemma DeleteBox_table:
  assumes l: "box_lawful (be_db env)" and ok: "boxes_ok env d" and i: "fb_ResourceId r \<noteq> []"
    and del: "\<And>b. \<exists>d1. bd_delete (be_db env) d b = Inr d1"
  obtains d1 where "DeleteBox env (Some r) d = Ret d1 ()" and "boxes_ok env d1"
    and "box_table (be_db env) d1 = (box_table (be_db env) d)(fb_ResourceId r := None)"
proof -
  obtain d1 where d1: "BoxDelete env (Some r) d = Ret d1 ()"
  proof (cases "box_row (be_db env) d (fb_ResourceId r)")
    case None
    then show ?thesis using that[of d] i by (simp add: BoxDelete_def BoxFromProto_by_id[OF l ok])
  next
    case (Some b)
    then show ?thesis using that del[of b] i by (auto simp: BoxDelete_def BoxFromProto_by_id[OF l ok])
  qed
  from that[of d1] BoxDelete_table[OF l ok d1] i d1 show thesis by (simp add: DeleteBox_def)
qed

lemma recover_table:
  assumes l: "box_lawful (be_db (co_box env))" and del: "\<And>d b. \<exists>d1. bd_delete (be_db (co_box env)) d b = Inr d1"
  shows "boxes_ok (co_box env) d \<Longrightarrow> distinct (map fb_ResourceId rs) \<Longrightarrow>
     (\<And>r. r \<in> set rs \<Longrightarrow> box_table (be_db (co_box env)) d (fb_ResourceId r) \<noteq> None) \<Longrightarrow>
     \<exists>d1. recover env rs (d, f) = Ret (d1, f) () \<and> boxes_ok (co_box env) d1 \<and>
       box_table (be_db (co_box env)) d1 =
         (\<lambda>i. if i \<in> fb_ResourceId ` set rs then existing (bf_stat (co_fs env) f) (box_table (be_db (co_box env)) d) i
              else box_table (be_db (co_box env)) d i)"
proof (induction rs arbitrary: d)
  case (Cons r rs)
  let ?env = "co_box env" and ?stat = "bf_stat (co_fs env) f" and ?i = "fb_ResourceId r"
  let ?t = "box_table (be_db ?env)"
  from Cons.prems(3)[of r] obtain x where x: "?t d ?i = Some x" by auto
  obtain b where b: "b \<in> set (bd_rows (be_db ?env) d)" "bx_ResourceId b = ?i" "x = box_content b" "?i \<noteq> []"
    "box_row (be_db ?env) d ?i = Some b"
    using box_table_Some[OF Cons.prems(1) x] by blast
  have get: "call_box (GetBox ?env (Some r)) (d, f) = Ret (d, f) (Box_ToProto b)"
    using b by (simp add: call_box_def GetBox_def BoxGet_row[OF l Cons.prems(1)])
  have dir: "bp_Directory (Box_ToProto b) = bx_Directory x" using b(3) by (simp add: Box_ToProto_def)
  show ?case
  proof (cases "?stat (bx_Directory x)")
    case True
    then have "recover env (r # rs) (d, f) = recover env rs (d, f)" using get dir by simp
    moreover have "existing ?stat (?t d) ?i = ?t d ?i" using True x by (simp add: existing_def)
    moreover have "\<exists>d1. recover env rs (d, f) = Ret (d1, f) () \<and> boxes_ok ?env d1 \<and>
        ?t d1 = (\<lambda>i. if i \<in> fb_ResourceId ` set rs then existing ?stat (?t d) i else ?t d i)"
      by (rule Cons.IH) (use Cons.prems in auto)
    ultimately show ?thesis by (auto simp: fun_eq_iff)
  next
    case False
    obtain d1 where d1: "DeleteBox ?env (Some r) d = Ret d1 ()" "boxes_ok ?env d1" "?t d1 = (?t d)(?i := None)"
      using DeleteBox_table[OF l Cons.prems(1) b(4) del] by blast
    have "recover env (r # rs) (d, f) = recover env rs (d1, f)"
      using get dir False d1(1) by (simp add: call_box_def[of "DeleteBox ?env (Some r)"])
    moreover have "\<exists>d2. recover env rs (d1, f) = Ret (d2, f) () \<and> boxes_ok ?env d2 \<and>
        ?t d2 = (\<lambda>i. if i \<in> fb_ResourceId ` set rs then existing ?stat (?t d1) i else ?t d1 i)"
      (is "\<exists>d2. ?P d2 \<and> ?Q d2 \<and> ?t d2 = ?T")
    proof (rule Cons.IH)
      have "fb_ResourceId q \<noteq> ?i" if "q \<in> set rs" for q using Cons.prems(2) that
        by simp (metis image_eqI)
      then show "?t d1 (fb_ResourceId q) \<noteq> None" if "q \<in> set rs" for q
        using Cons.prems(3)[of q] that d1(3) by simp
    qed (use Cons.prems d1 in auto)
    moreover have "?T = (\<lambda>i. if i \<in> fb_ResourceId ` set (r # rs) then existing ?stat (?t d) i else ?t d i)"
    proof (rule ext)
      show "?T i = (if i \<in> fb_ResourceId ` set (r # rs) then existing ?stat (?t d) i else ?t d i)" for i
        using False x d1(3) by (cases "i = ?i") (simp_all add: existing_def)
    qed
    ultimately show ?thesis by simp
  qed
qed simp

lemma ListBoxes_refs:
  assumes l: "box_lawful (be_db env)" and ok: "boxes_ok env d"
  obtains rs where "ListBoxes env d = Ret d rs" and "distinct (map fb_ResourceId rs)"
    and "fb_ResourceId ` set rs = dom (box_table (be_db env) d)"
proof -
  obtain bs where f: "bd_find (be_db env) d zero_box = Inr bs" and dis: "distinct bs"
    and bs: "set bs = {r \<in> set (bd_rows (be_db env) d). box_match zero_box r}"
    using lawful_find[OF l] by blast
  then have bs: "set bs = set (bd_rows (be_db env) d)" by (auto simp: box_match_def zero_box_def)
  have id: "fb_ResourceId (Box_ToProtoRef b) = bx_ResourceId b" for b :: "'b boxrow" by (simp add: Box_ToProtoRef_def)
  have "inj_on bx_ResourceId (set bs)"
    using boxes_okD(4)[OF ok] by (auto simp: inj_on_def bs box_clash_def)
  with dis have "distinct (map fb_ResourceId (map Box_ToProtoRef bs))" by (simp add: distinct_map id comp_def)
  moreover have "fb_ResourceId ` set (map Box_ToProtoRef bs) = dom (box_table (be_db env) d)"
    by (auto simp: id bs box_table_def box_row_def find_None_iff image_iff dom_def)
  ultimately show thesis using that f by (simp add: ListBoxes_def BoxList_def)
qed

section \<open>Saving and finding\<close>

lemma read_box_Ret:
  assumes "read_box env p w = Ret w' b"
  shows "w' = w" and "bp_Directory b = bp_Directory p" and "bp_Name b = bp_Name p" and "bp_Version b = bp_Version p"
    and "bp_ResourceId b = box_id (bp_Name p) (bp_Version p) (bp_Provider b)"
    and "\<lbrakk>snd v = snd w; bp_Directory q = bp_Directory p\<rbrakk> \<Longrightarrow> read_box env q v = Ret v
      (q\<lparr>bp_Metadata := bp_Metadata b, bp_Provider := bp_Provider b,
         bp_ResourceId := box_id (bp_Name q) (bp_Version q) (bp_Provider b)\<rparr>)"
  using assms by (auto simp: read_box_def Let_def split: if_splits sum.splits option.splits)

lemma NewBox_read:
  assumes "NewBox env opts w0 = Ret w b"
  obtains p where "read_box env p w = Ret w b" and "bp_Directory p \<noteq> []"
proof -
  from assms obtain v o1 where "read_box env (snd o1) v = Ret w b" and "bp_Directory (snd o1) \<noteq> []"
    by (auto simp: NewBox_def bind_o_Ret_iff split: if_splits)
  with read_box_Ret(1)[OF this(1)] that show thesis by blast
qed

lemma NewBox_with_box:
  "NewBox env [BoxWithBasis, BoxWithBox p] w =
     (if bp_Directory p = [] then Fail w (OtherError ''Box directory must be specified for the box'') else read_box env p w)"
  by (simp add: NewBox_def apply_option_def Let_def)

lemma box_first_by_name:
  assumes l: "box_lawful (be_db env)" and ok: "boxes_ok env d" and r: "r \<in> set (bd_rows (be_db env) d)"
  shows "box_first env (zero_box\<lparr>bx_Name := bx_Name r, bx_Provider := bx_Provider r, bx_Version := bx_Version r\<rparr>) d = Ret d r"
    (is "box_first _ ?q _ = _")
proof -
  obtain rs where f: "bd_find (be_db env) d ?q = Inr rs"
    and rs: "set rs = {x \<in> set (bd_rows (be_db env) d). box_match ?q x}"
    using lawful_find[OF l] by blast
  have "box_match ?q x \<longleftrightarrow> x = r" if "x \<in> set (bd_rows (be_db env) d)" for x
    using boxes_okD(4)[OF ok r that] boxes_okD(1)[OF ok r]
    by (auto simp: box_match_def box_clash_def box_ok_def zero_box_def)
  then have "set rs = {r}" using rs r by auto
  then show ?thesis using f by (cases rs) (auto simp: box_first_def)
qed

lemma FindBox_exact:
  assumes l: "box_lawful (be_db env)" and ok: "boxes_ok env d" and r: "r \<in> set (bd_rows (be_db env) d)"
    and copy: "\<And>x. be_copy env (Some x) = Inr x" and v: "bx_Version r \<noteq> ''0''"
  shows "FindBox env (Some \<lparr>fb_ResourceId = [], fb_Name = bx_Name r, fb_Provider = bx_Provider r, fb_Version = bx_Version r\<rparr>) d
    = Ret d (Some (Box_ToProto r))"
  using boxes_okD(1)[OF ok r] v
  by (simp add: FindBox_def BoxFind_def copy Let_def BoxFromProtoRefFuzzy_def BoxFromProtoRef_def
      box_first_by_name[OF l ok r] box_ok_def)

lemma saved_row:
  assumes l: "box_lawful (be_db env)" and ok: "boxes_ok env d" and put: "UpsertBox env (Some b) d = Ret d1 q"
    and set: "bp_ResourceId b \<noteq> []" "bp_Name b \<noteq> []" "bp_Provider b \<noteq> []" "bp_Version b \<noteq> []" "bp_Directory b \<noteq> []"
  obtains r where "boxes_ok env d1" and "r \<in> set (bd_rows (be_db env) d1)" and "bx_ResourceId r = bp_ResourceId b"
    and "bx_Name r = bp_Name b" and "bx_Provider r = bp_Provider b" and "bx_Version r = normal_version (bp_Version b)"
    and "bx_Directory r = bp_Directory b"
proof -
  let ?p = "b\<lparr>bp_LastUpdate := Some (be_now env)\<rparr>" and ?i = "bp_ResourceId b"
  from put have "BoxPut env ?p d = Ret d1 ()" by (simp add: UpsertBox_Ret)
  from BoxPut_table_id[OF l ok this] set(1) have ok1: "boxes_ok env d1"
    and t: "box_table (be_db env) d1 ?i = Some (put_content ?p (box_table (be_db env) d ?i) ?i)" by simp_all
  obtain r where r: "r \<in> set (bd_rows (be_db env) d1)" "bx_ResourceId r = ?i"
    and c: "box_content r = put_content ?p (box_table (be_db env) d ?i) ?i"
    using box_table_Some[OF ok1 t] by metis
  have "bx_Name (box_content r) = bp_Name b" "bx_Provider (box_content r) = bp_Provider b"
    "bx_Version (box_content r) = normal_version (bp_Version b)" "bx_Directory (box_content r) = bp_Directory b"
    unfolding c using set by (simp_all add: put_content_def Let_def softDecode_box_def set_or_def)
  then show thesis using that[OF ok1 r] by simp
qed

section \<open>The properties\<close>

text \<open>C14: whatever boxes are put and deleted, no two rows of the database have the same resource id, the same directory, or
  the same name, provider and version, and every row is complete and has a valid version.\<close>

theorem boxes_stay_unique:
  assumes "box_lawful (be_db env)" and "boxes_ok env d"
  shows "boxes_ok env (fold (box_request env) qs d)"
  using box_rows.run_inv[of env d qs] assms by blast

text \<open>C15: after a box was put, a lookup of its id returns the fields of the message that are set over those that were
  stored before, with a missing version or the version 0 as 0.0.0; every other lookup returns what it did.\<close>

theorem stored_box_is_returned:
  assumes l: "box_lawful (be_db env)" and ok: "boxes_ok env d"
    and put: "UpsertBox env (Some p) d = Ret d1 q" and i: "bp_ResourceId p \<noteq> []"
  shows "box_answer env j d1 =
     (if j = bp_ResourceId p then Some (merge_box p (case box_answer env j d of None \<Rightarrow> zero_pb | Some b \<Rightarrow> b))
      else box_answer env j d)"
proof -
  let ?p = "p\<lparr>bp_LastUpdate := Some (be_now env)\<rparr>" and ?i = "bp_ResourceId p" and ?t = "box_table (be_db env)"
  from put have "BoxPut env ?p d = Ret d1 ()" by (simp add: UpsertBox_Ret)
  from BoxPut_table_id[OF l ok this] i have ok1: "boxes_ok env d1"
    and t: "?t d1 = (?t d)(?i \<mapsto> put_content ?p (?t d ?i) ?i)" by simp_all
  have "merge_box ?p = merge_box p" by (simp add: merge_box_def fun_eq_iff)
  with put_content_merge[of ?p] i show ?thesis
    by (auto simp: box_answer_table[OF l ok] box_answer_table[OF l ok1] t split: option.splits)
qed

text \<open>when a box is searched with a constraint, the answer is the last of the rows with the name (and provider) as soon
  as any of them is above version 0.0.0 and satisfies the constraint, whether that is the last one or not. A box of the
  default version 0.0.0 is not a match.\<close>

theorem constraint_selects_last_row:
  assumes "be_copy env (Some r) = Inr r" and "fb_ResourceId r = []" and "fb_Name r \<noteq> []" and "fb_Version r \<noteq> ''0''"
    and "fb_Provider r = [] \<or> isl (vl_version (be_vl env) (fb_Version r))"
    and "bd_find (be_db env) d (zero_box\<lparr>bx_Name := fb_Name r, bx_Provider := fb_Provider r\<rparr>) = Inr bs"
    and "vl_constraint (be_vl env) (if fb_Version r = [] then DEFAULT_BOX_CONSTRAINT else fb_Version r) = Inr k"
    and "vl_version (be_vl env) ''0.0.0'' = Inr z"
    and "\<forall>b\<in>set bs. vl_version (be_vl env) (bx_Version b) = Inr (ver b)"
  shows "FindBox env (Some r) d =
     Ret d (if \<exists>b\<in>set bs. vl_check (be_vl env) k (ver b) \<and> vl_greater (be_vl env) (ver b) z
            then Some (Box_ToProto (last bs)) else None)"
  using assms by (auto simp: FindBox_def BoxFind_def find_by_constraint_def Let_def match_boxes_result[where ver = ver])

text \<open>an update is offered exactly when the published metadata has a version above the box's, within the user's
  constraint, for the box's provider. The version offered is the first of these in the order of the metadata.\<close>

theorem update_is_first_newer:
  assumes "vl_constraint vl (if ver = [] then ''> '' @ bp_Version b else ver @ '', '' @ ''> '' @ bp_Version b) = Inr k"
    and "\<forall>v\<in>set (bm_Versions m). vl_version vl (bv_Version v) = Inr (vs v)" and "bp_Provider b \<noteq> []"
  shows "UpdateInfo vl b (Inr m) ver =
     Inr (map_option (\<lambda>v. (m, bv_Version v, bp_Provider b))
       (find (\<lambda>v. vl_check vl k (vs v) \<and> bp_Provider b \<in> pv_Name ` set (bv_Providers v)) (bm_Versions m)))"
proof -
  have "list_ex (\<lambda>q. Provider_Matches q (named_provider (bp_Provider b))) ps \<longleftrightarrow> bp_Provider b \<in> pv_Name ` set ps" for ps
    using assms(3) by (auto simp: list_ex_iff Provider_Matches_def named_provider_def)
  then show ?thesis
    using assms
    by (cases "ver = []")
      (simp_all add: UpdateInfo_def Let_def Metadata_Version_def metadata_version_def
        find_version_result[where ver = vs] split: option.splits)
qed

text \<open>opening the collection of a basis removes exactly the boxes whose directory is gone. It ends with a result for every
  consistent database whose deletions succeed, and never uses a missing response.\<close>

theorem recovery_removes_missing:
  assumes "box_lawful (be_db (co_box env))" and "boxes_ok (co_box env) d"
    and "\<And>d b. \<exists>d1. bd_delete (be_db (co_box env)) d b = Inr d1"
  shows "\<exists>d1. RecoverBoxes env (d, f) = Ret (d1, f) () \<and> boxes_ok (co_box env) d1 \<and>
     box_table (be_db (co_box env)) d1 = existing (bf_stat (co_fs env) f) (box_table (be_db (co_box env)) d)"
proof -
  obtain rs where rs: "ListBoxes (co_box env) d = Ret d rs" "distinct (map fb_ResourceId rs)"
    "fb_ResourceId ` set rs = dom (box_table (be_db (co_box env)) d)"
    using ListBoxes_refs[OF assms(1,2)] .
  let ?t = "box_table (be_db (co_box env)) d" and ?s = "bf_stat (co_fs env) f"
  have "?t (fb_ResourceId r) \<noteq> None" if "r \<in> set rs" for r using rs(3) that by blast
  from recover_table[OF assms(1,3,2) rs(2) this, of f] obtain d1 where
    d1: "recover env rs (d, f) = Ret (d1, f) ()" "boxes_ok (co_box env) d1"
    and t: "box_table (be_db (co_box env)) d1 = (\<lambda>i. if i \<in> dom ?t then existing ?s ?t i else ?t i)"
    unfolding rs(3) by blast
  have "(\<lambda>i. if i \<in> dom ?t then existing ?s ?t i else ?t i) = existing ?s ?t"
    by (auto simp: fun_eq_iff existing_def split: option.splits)
  with d1 t show ?thesis by (simp add: RecoverBoxes_def call_box_def rs(1))
qed

text \<open>C16: a box that was built from its directory and saved is found again by its name, version and provider, in the same
  directory and under the same id, unless its version has to be normalised.\<close>

theorem saved_box_is_found:
  assumes l: "box_lawful (be_db (co_box env))" and ok: "boxes_ok (co_box env) (fst w)"
    and copy: "\<And>r. be_copy (co_box env) (Some r) = Inr r"
    and new: "NewBox env opts w0 = Ret w b" and save: "Box_Save env b w = Ret w1 ()"
    and ver: "bp_Version b \<noteq> ''0''" "\<not> isl (vl_version (be_vl (co_box env)) (bp_Version b))"
    and set: "bp_Name b \<noteq> []" "bp_Provider b \<noteq> []" "bp_Version b \<noteq> []"
  shows "\<exists>x. Collection_Find env (bp_Name b) (bp_Version b) [bp_Provider b] w1 = Ret w1 (Some x) \<and>
     bp_ResourceId x = bp_ResourceId b \<and> bp_Directory x = bp_Directory b \<and> bp_Metadata x = bp_Metadata b"
proof -
  obtain p where p: "read_box env p w = Ret w b" "bp_Directory p \<noteq> []" using NewBox_read[OF new] .
  have b: "bp_Directory b = bp_Directory p" "bp_Name b = bp_Name p" "bp_Version b = bp_Version p"
    "bp_ResourceId b = box_id (bp_Name p) (bp_Version p) (bp_Provider b)"
    using read_box_Ret[OF p(1)] by simp_all
  obtain d1 q where put: "UpsertBox (co_box env) (Some b) (fst w) = Ret d1 q" and w1: "w1 = (d1, snd w)"
    using save by (auto simp: Box_Save_def bind_o_Ret_iff call_box_def split: outcome.splits)
  obtain r where ok1: "boxes_ok (co_box env) d1" and r: "r \<in> set (bd_rows (be_db (co_box env)) d1)"
    "bx_Name r = bp_Name b" "bx_Provider r = bp_Provider b" "bx_Version r = bp_Version b" "bx_Directory r = bp_Directory b"
    using saved_row[OF l ok put] b p(2) set ver(1) by (auto simp: box_id_def normal_version_def)
  have found: "call_box (FindBox (co_box env) (Some \<lparr>fb_ResourceId = [], fb_Name = bp_Name b, fb_Provider = bp_Provider b,
      fb_Version = bp_Version b\<rparr>)) w1 = Ret w1 (Some (Box_ToProto r))"
    using FindBox_exact[OF l ok1 r(1) copy] r ver(1) by (simp add: call_box_def w1)
  have dir: "bp_Directory (Box_ToProto r) = bp_Directory p" "bp_Name (Box_ToProto r) = bp_Name p"
    "bp_Version (Box_ToProto r) = bp_Version p"
    using r b by (simp_all add: Box_ToProto_def)
  have "NewBox env [BoxWithBasis, BoxWithBox (Box_ToProto r)] w1 = Ret w1 ((Box_ToProto r)
      \<lparr>bp_Metadata := bp_Metadata b, bp_Provider := bp_Provider b, bp_ResourceId := bp_ResourceId b\<rparr>)"
    using read_box_Ret(6)[OF p(1) _ dir(1), of w1] p(2) dir b by (simp add: NewBox_with_box w1)
  then show ?thesis using found r b by (simp add: Collection_Find_def Box_ToProto_def)
qed

section \<open>Examples\<close>

text \<open>Versions are compared by their first character.\<close>

definition ex_vl :: "(string, unit) verlib" where
  "ex_vl = \<lparr>vl_version = (\<lambda>s. if s = [] \<or> hd s = CHR ''>'' then Inl (OtherError ''Malformed version'') else Inr s),
     vl_constraint = (\<lambda>s. Inr ()), vl_check = (\<lambda>k v. True),
     vl_greater = (\<lambda>a b. (of_char (hd b) :: nat) < of_char (hd a))\<rparr>"

definition ex_env :: "(nat \<times> unit boxrow list, unit, string, unit) boxenv" where
  "ex_env = \<lparr>be_db = list_db, be_vl = ex_vl, be_errors = hd, be_fresh = (\<lambda>d. Inr ''new''),
     be_copy = (\<lambda>r. Inr (case r of Some r \<Rightarrow> r
       | None \<Rightarrow> \<lparr>fb_ResourceId = [], fb_Name = [], fb_Provider = [], fb_Version = []\<rparr>)), be_now = 5\<rparr>"

definition ex_box :: "string \<Rightarrow> string \<Rightarrow> unit boxpb" where
  "ex_box i v = zero_pb\<lparr>bp_ResourceId := i, bp_Name := ''n'', bp_Provider := ''p'', bp_Version := v, bp_Directory := ''/'' @ i\<rparr>"

definition ex_state :: "nat \<times> unit boxrow list" where
  "ex_state = fold (box_request ex_env) [ReqUpsert (ex_box ''a'' ''2''), ReqUpsert (ex_box ''b'' ''1'')] (0, [])"

definition ex_row :: "nat \<Rightarrow> string \<Rightarrow> string \<Rightarrow> unit boxrow" where
  "ex_row k i v = \<lparr>bx_ID = k, bx_Directory = ''/'' @ i, bx_LastUpdate = Some 5, bx_Metadata = None, bx_MetadataUrl = None,
     bx_Name = ''n'', bx_Provider = ''p'', bx_ResourceId = i, bx_Version = v\<rparr>"

lemma ex_lawful: "box_lawful (be_db ex_env)"
  by (simp add: ex_env_def list_db_lawful)

lemma ex_rows: "ex_state = (2, [ex_row 1 ''a'' ''2'', ex_row 2 ''b'' ''1''])"
  by code_simp

lemma ex_ok: "boxes_ok ex_env ex_state" "boxes_ok ex_env (0, [])"
  by code_simp+

lemma boxes_stay_unique_witness:
  "boxes_ok ex_env (fold (box_request ex_env) [ReqUpsert (ex_box ''c'' ''2''), ReqUpsert (ex_box ''c'' ''3'')] ex_state)
   \<and> length (snd (fold (box_request ex_env) [ReqUpsert (ex_box ''c'' ''2''), ReqUpsert (ex_box ''c'' ''3'')] ex_state)) = 3"
  by (rule conjI[OF boxes_stay_unique[OF ex_lawful ex_ok(1)]]) code_simp

lemma stored_box_is_returned_witness:
  "box_answer ex_env ''a''
       (left_by (UpsertBox ex_env (Some (zero_pb\<lparr>bp_ResourceId := ''a'', bp_Directory := ''/x''\<rparr>)) ex_state) ex_state)
     = Some (ex_box ''a'' ''2''\<lparr>bp_Directory := ''/x''\<rparr>)"
proof -
  let ?p = "zero_pb\<lparr>bp_ResourceId := ''a'', bp_Directory := ''/x''\<rparr>"
  let ?d1 = "left_by (UpsertBox ex_env (Some ?p) ex_state) ex_state"
  have "UpsertBox ex_env (Some ?p) ex_state = Ret ?d1 (?p\<lparr>bp_LastUpdate := Some 5\<rparr>)" by code_simp
  from stored_box_is_returned[OF ex_lawful ex_ok(1) this, of "''a''"]
  have "box_answer ex_env ''a'' ?d1 = Some (merge_box ?p (case box_answer ex_env ''a'' ex_state of None \<Rightarrow> zero_pb | Some b \<Rightarrow> b))"
    by (simp add: zero_pb_def)
  also have "\<dots> = Some (ex_box ''a'' ''2''\<lparr>bp_Directory := ''/x''\<rparr>)" by code_simp
  finally show ?thesis by simp
qed

text \<open>Version 2 is there, and the box of version 1 is the answer.\<close>

lemma constraint_selects_last_row_witness:
  "FindBox ex_env (Some \<lparr>fb_ResourceId = [], fb_Name = ''n'', fb_Provider = [], fb_Version = []\<rparr>) ex_state
     = Ret ex_state (Some (ex_box ''b'' ''1''\<lparr>bp_LastUpdate := Some 5\<rparr>))"
proof -
  let ?r = "\<lparr>fb_ResourceId = [], fb_Name = ''n'', fb_Provider = [], fb_Version = []\<rparr>"
  let ?bs = "[ex_row 1 ''a'' ''2'', ex_row 2 ''b'' ''1'']"
  have "bd_find (be_db ex_env) ex_state (zero_box\<lparr>bx_Name := fb_Name ?r, bx_Provider := fb_Provider ?r\<rparr>) = Inr ?bs" by code_simp
  moreover have "be_copy ex_env (Some ?r) = Inr ?r" "vl_version (be_vl ex_env) ''0.0.0'' = Inr ''0.0.0''"
    "vl_constraint (be_vl ex_env) (if fb_Version ?r = [] then DEFAULT_BOX_CONSTRAINT else fb_Version ?r) = Inr ()"
    "\<forall>b\<in>set ?bs. vl_version (be_vl ex_env) (bx_Version b) = Inr (bx_Version b)" by code_simp+
  ultimately have "FindBox ex_env (Some ?r) ex_state =
     Ret ex_state (if \<exists>b\<in>set ?bs. vl_check (be_vl ex_env) () (bx_Version b) \<and> vl_greater (be_vl ex_env) (bx_Version b) ''0.0.0''
            then Some (Box_ToProto (last ?bs)) else None)"
    by (intro constraint_selects_last_row) simp_all
  also have "\<dots> = Ret ex_state (Some (ex_box ''b'' ''1''\<lparr>bp_LastUpdate := Some 5\<rparr>))" by code_simp
  finally show ?thesis .
qed

definition ex_version :: "string \<Rightarrow> box_version" where
  "ex_version v = \<lparr>bv_Version = v, bv_Status = [], bv_Description = [], bv_Providers = [named_provider ''p'']\<rparr>"

definition ex_meta :: box_metadata where
  "ex_meta = \<lparr>bm_Name = ''n'', bm_Description = [], bm_Versions = [ex_version ''2'', ex_version ''3'']\<rparr>"

lemma update_is_first_newer_witness:
  "UpdateInfo ex_vl (ex_box ''a'' ''1'') (Inr ex_meta) [] = Inr (Some (ex_meta, ''2'', ''p''))"
proof -
  have "UpdateInfo ex_vl (ex_box ''a'' ''1'') (Inr ex_meta) [] =
     Inr (map_option (\<lambda>v. (ex_meta, bv_Version v, bp_Provider (ex_box ''a'' ''1'')))
       (find (\<lambda>v. vl_check ex_vl () (bv_Version v) \<and> bp_Provider (ex_box ''a'' ''1'') \<in> pv_Name ` set (bv_Providers v))
         (bm_Versions ex_meta)))"
    by (intro update_is_first_newer) code_simp+
  also have "\<dots> = Inr (Some (ex_meta, ''2'', ''p''))" by code_simp
  finally show ?thesis .
qed

text \<open>A file system is the list of the paths that exist; the metadata of every box says that its provider is p.\<close>

definition ex_fs :: "(string list, unit, unit) boxfs" where
  "ex_fs = \<lparr>bf_stat = (\<lambda>f p. p \<in> set f), bf_read = (\<lambda>f p. Inr []), bf_remove = (\<lambda>f p. (None, filter (\<lambda>x. x \<noteq> p) f)),
     bf_join = (\<lambda>a b. a @ ''/'' @ b), bf_json = (\<lambda>s. Inr (\<lambda>k. if k = ''provider'' then Some () else None)),
     bf_string = (\<lambda>_. Some ''p''), bf_struct = (\<lambda>_. Inr ())\<rparr>"

definition ex_core :: "(nat \<times> unit boxrow list, unit, string, unit, string list, unit) corenv" where
  "ex_core = \<lparr>co_box = ex_env, co_fs = ex_fs\<rparr>"

lemma recovery_removes_missing_witness:
  "\<exists>d1. RecoverBoxes ex_core (ex_state, [''/b'']) = Ret (d1, [''/b'']) () \<and> boxes_ok ex_env d1
     \<and> box_table list_db d1 ''a'' = None \<and> box_table list_db d1 ''b'' = Some (ex_row 0 ''b'' ''1''\<lparr>bx_LastUpdate := None\<rparr>)"
proof -
  have "\<exists>d1. bd_delete (be_db (co_box ex_core)) d b = Inr d1" for d b by (simp add: ex_core_def ex_env_def list_db_def)
  from recovery_removes_missing[OF _ _ this, of ex_state "[''/b'']"] ex_lawful ex_ok(1)
  obtain d1 where "RecoverBoxes ex_core (ex_state, [''/b'']) = Ret (d1, [''/b'']) ()" "boxes_ok ex_env d1"
    and t: "box_table list_db d1 = existing (bf_stat ex_fs [''/b'']) (box_table list_db ex_state)"
    by (auto simp: ex_core_def ex_env_def)
  moreover have "box_table list_db d1 ''a'' = None" unfolding t by code_simp
  moreover have "box_table list_db d1 ''b'' = Some (ex_row 0 ''b'' ''1''\<lparr>bx_LastUpdate := None\<rparr>)" unfolding t by code_simp
  ultimately show ?thesis by blast
qed

lemma saved_box_is_found_witness:
  "\<exists>x w1. Box_Save ex_core (ex_box ''n-4-p'' ''4''\<lparr>bp_Directory := ''/n'', bp_Metadata := Some ()\<rparr>)
         (ex_state, [''/n'', ''/n/metadata.json'']) = Ret w1 ()
     \<and> Collection_Find ex_core ''n'' ''4'' [''p''] w1 = Ret w1 (Some x) \<and> bp_Directory x = ''/n''"
proof -
  let ?w = "(ex_state, [''/n'', ''/n/metadata.json''])"
  let ?b = "ex_box ''n-4-p'' ''4''\<lparr>bp_Directory := ''/n'', bp_Metadata := Some ()\<rparr>"
  let ?w1 = "left_by (Box_Save ex_core ?b ?w) ?w"
  have new: "NewBox ex_core [BoxWithBasis, BoxWithName ''n'', BoxWithVersion ''4'', BoxWithDirectory ''/n''] ?w = Ret ?w ?b"
    by code_simp
  have save: "Box_Save ex_core ?b ?w = Ret ?w1 ()" by code_simp
  have "\<exists>x. Collection_Find ex_core (bp_Name ?b) (bp_Version ?b) [bp_Provider ?b] ?w1 = Ret ?w1 (Some x) \<and>
     bp_ResourceId x = bp_ResourceId ?b \<and> bp_Directory x = bp_Directory ?b \<and> bp_Metadata x = bp_Metadata ?b"
    by (rule saved_box_is_found[OF _ _ _ new save])
      (use ex_lawful ex_ok in \<open>simp_all add: ex_core_def ex_env_def ex_box_def ex_vl_def zero_pb_def\<close>)
  moreover have "bp_Name ?b = ''n''" "bp_Version ?b = ''4''" "bp_Provider ?b = ''p''" "bp_Directory ?b = ''/n''" by code_simp+
  ultimately show ?thesis using save by metis
qed

end
