(* ===== verification/ConfigValue.thy ===== *)
theory ConfigValue
  imports StateErrors
begin

text \<open>
  The values of a configuration and the access to them (\<open>internal/core/vagrantfile.go\<close>): dynamic values as the
  Ruby runtime and the parsers deliver them, lookups by path, deletion, and the names of the targets.
\<close>

section \<open>Values\<close>

text \<open>\<open>CHash\<close> is \<open>map[interface{}]interface{}\<close>, \<open>CObj\<close> \<open>map[string]interface{}\<close>, \<open>CData\<close> a
  \<open>ConfigData\<close> and \<open>CRuby\<close> a \<open>RawRubyValue\<close> with its data. A map is the list of its entries in the order in which
  a loop meets them. A nil map reads like an empty one.\<close>

datatype cfg =
    CNil
  | CBool bool
  | CInt int
  | CStr string
  | CSym string
  | CArr "cfg list"
  | CHash "(cfg \<times> cfg) list"
  | CObj "(string \<times> cfg) list"
  | CData "(string \<times> cfg) list"
  | CRuby "(string \<times> cfg) list"

type_synonym cdata = "(string \<times> cfg) list"

text \<open>The next step of a function, unless there was an error.\<close>

definition and_then :: "goerr + 'a \<Rightarrow> ('a \<Rightarrow> goerr + 'b) \<Rightarrow> goerr + 'b" where
  "and_then r f = (case r of Inl e \<Rightarrow> Inl e | Inr a \<Rightarrow> f a)"

lemma and_then_simps [simp]: "and_then (Inl e) f = Inl e" "and_then (Inr a) f = f a"
  by (simp_all add: and_then_def)

lemma and_then_Inr: "and_then r f = Inr b \<longleftrightarrow> (\<exists>a. r = Inr a \<and> f a = Inr b)"
  by (cases r) simp_all

definition optionToString :: "cfg \<Rightarrow> goerr + string" where
  "optionToString v =
     (case v of CStr s \<Rightarrow> Inr s | CSym s \<Rightarrow> Inr s | _ \<Rightarrow> Inl (OtherError ''option value is not string type''))"

definition getOptionValue :: "string \<Rightarrow> (cfg \<times> cfg) list \<Rightarrow> cfg option" where
  "getOptionValue name opts =
     (case map_of opts (CStr name) of Some v \<Rightarrow> Some v | None \<Rightarrow> map_of opts (CSym name))"

section \<open>Lookup\<close>

definition getNamespace :: "cdata \<Rightarrow> string \<Rightarrow> cdata option" where
  "getNamespace root n = (case map_of root n of Some (CData d) \<Rightarrow> Some d | _ \<Rightarrow> None)"

definition GetConfig :: "cdata \<Rightarrow> string \<Rightarrow> goerr + cdata" where
  "GetConfig root n =
     (case map_of root n of
        None \<Rightarrow> Inl (OtherError ''no config defined for requested namespace'')
      | Some (CData d) \<Rightarrow> Inr d
      | Some _ \<Rightarrow> Inl (OtherError ''invalid data type for requested namespace''))"

definition key_is :: "string \<Rightarrow> cfg \<Rightarrow> bool" where
  "key_is k x \<longleftrightarrow> x = CStr k \<or> x = CSym k"

definition child :: "cfg \<Rightarrow> string \<Rightarrow> cfg option" where
  "child c k =
     (case c of
        CObj m \<Rightarrow> map_of m k
      | CData m \<Rightarrow> map_of m k
      | CRuby m \<Rightarrow> map_of m k
      | CHash m \<Rightarrow> map_option snd (find (\<lambda>e. key_is k (fst e)) m)
      | _ \<Rightarrow> None)"

fun descend :: "cfg \<Rightarrow> string list \<Rightarrow> cfg option" where
  "descend c [] = Some c"
| "descend c (k # ks) = (case child c k of None \<Rightarrow> None | Some v \<Rightarrow> descend v ks)"

definition lookup_failed :: goerr where
  "lookup_failed = OtherError ''failed to locate value at given path''"

text \<open>The namespace that does not exist is a nil map in an interface, which is not nil: the check of the code never
  fires, and the path of one element is answered with the nil map.\<close>

definition namespace_map :: "cdata \<Rightarrow> string \<Rightarrow> cfg" where
  "namespace_map root n = CObj (case getNamespace root n of None \<Rightarrow> [] | Some d \<Rightarrow> d)"

definition GetValue :: "cdata \<Rightarrow> string list \<Rightarrow> goerr + cfg" where
  "GetValue root path =
     (case path of
        [] \<Rightarrow> Inl (OtherError ''no lookup path provided'')
      | n # ks \<Rightarrow> (case descend (namespace_map root n) ks of None \<Rightarrow> Inl lookup_failed | Some v \<Rightarrow> Inr v))"

section \<open>Deletion\<close>

text \<open>A map that is reached by a path is changed in place: the value with another one at the path.\<close>

fun map_first :: "('a \<Rightarrow> bool) \<Rightarrow> ('b \<Rightarrow> 'b) \<Rightarrow> ('a \<times> 'b) list \<Rightarrow> ('a \<times> 'b) list" where
  "map_first P f [] = []"
| "map_first P f ((k, v) # xs) = (if P k then (k, f v) # xs else (k, v) # map_first P f xs)"

definition map_child :: "string \<Rightarrow> (cfg \<Rightarrow> cfg) \<Rightarrow> cfg \<Rightarrow> cfg" where
  "map_child k f c =
     (case c of
        CObj m \<Rightarrow> CObj (map_first ((=) k) f m)
      | CData m \<Rightarrow> CData (map_first ((=) k) f m)
      | CRuby m \<Rightarrow> CRuby (map_first ((=) k) f m)
      | CHash m \<Rightarrow> CHash (map_first (key_is k) f m)
      | _ \<Rightarrow> c)"

fun change_at :: "string list \<Rightarrow> (cfg \<Rightarrow> cfg) \<Rightarrow> cfg \<Rightarrow> cfg" where
  "change_at [] f c = f c"
| "change_at (k # ks) f c = map_child k (change_at ks f) c"

definition set_namespace :: "cdata \<Rightarrow> string \<Rightarrow> cfg \<Rightarrow> cdata" where
  "set_namespace root n c =
     (case c of CObj d \<Rightarrow> (if getNamespace root n = None then root else map_first ((=) n) (\<lambda>_. CData d) root) | _ \<Rightarrow> root)"

text \<open>Only a key that is a string is deleted.\<close>

definition drop_key :: "string \<Rightarrow> cfg \<Rightarrow> cfg" where
  "drop_key k c =
     (case c of
        CHash m \<Rightarrow> CHash (filter (\<lambda>e. fst e \<noteq> CStr k) m)
      | CObj m \<Rightarrow> CObj (filter (\<lambda>e. fst e \<noteq> k) m)
      | _ \<Rightarrow> c)"

definition is_container :: "cfg \<Rightarrow> bool" where
  "is_container c \<longleftrightarrow> (case c of CHash _ \<Rightarrow> True | CObj _ \<Rightarrow> True | _ \<Rightarrow> False)"

definition DeleteValue :: "cdata \<Rightarrow> string list \<Rightarrow> goerr + cdata" where
  "DeleteValue root path =
     (if length path < 2 then Inl (OtherError ''cannot delete namespace'')
      else (case GetValue root (butlast path) of
              Inl e \<Rightarrow> Inl e
            | Inr c \<Rightarrow>
                if \<not> is_container c then Inl (OtherError ''cannot delete value, invalid container type'')
                else Inr (set_namespace root (hd path)
                       (change_at (tl (butlast path)) (drop_key (last path)) (namespace_map root (hd path))))))"

section \<open>Targets\<close>

fun symbols :: "cfg list \<Rightarrow> string list" where
  "symbols [] = []"
| "symbols (CSym s # xs) = s # symbols xs"
| "symbols (x # xs) = symbols xs"

definition TargetNames :: "cdata \<Rightarrow> string list" where
  "TargetNames root =
     (case getNamespace root ''vm'' of
        None \<Rightarrow> []
      | Some vm \<Rightarrow>
          (case map_of vm ''__defined_vm_keys'' of
             Some (CArr xs) \<Rightarrow> (let l = symbols xs in if l = [] then [''default''] else l)
           | _ \<Rightarrow> []))"

text \<open>The first name. There is a crash (\<open>None\<close>) when there is none.\<close>

definition PrimaryTargetName :: "cdata \<Rightarrow> string option" where
  "PrimaryTargetName root = (case TargetNames root of [] \<Rightarrow> None | n # _ \<Rightarrow> Some n)"

section \<open>Lemmas\<close>

lemma map_of_map_first: "map_of (map_first ((=) k) f xs) j = (if j = k then map_option f (map_of xs k) else map_of xs j)"
  by (induction xs) auto

lemma find_map_first:
  "map_option snd (find (\<lambda>e. key_is j (fst e)) (map_first (key_is k) f m)) =
     (if j = k then map_option f (map_option snd (find (\<lambda>e. key_is k (fst e)) m))
      else map_option snd (find (\<lambda>e. key_is j (fst e)) m))"
  by (induction m) (auto simp: key_is_def)

lemma child_map_child:
  "child (map_child k f c) j = (if j = k then map_option f (child c k) else child c j)"
  by (cases c) (simp_all add: child_def map_child_def map_of_map_first find_map_first)

lemma descend_append: "descend c (p @ q) = (case descend c p of None \<Rightarrow> None | Some v \<Rightarrow> descend v q)"
  by (induction c p rule: descend.induct) (auto split: option.splits)

lemma descend_change_at:
  "descend c p = Some v \<Longrightarrow> descend (change_at p f c) (p @ q) = descend (f v) q"
  by (induction p f c rule: change_at.induct) (auto simp: child_map_child split: option.splits)

lemma is_obj_change_at:
  "(\<And>x. \<exists>d. f (CObj x) = CObj d) \<Longrightarrow> \<exists>d. change_at p f (CObj m) = CObj d"
  by (cases p) (auto simp: map_child_def)

lemma namespace_map_set:
  assumes "getNamespace root n \<noteq> None"
  shows "namespace_map (set_namespace root n (CObj d)) j = (if j = n then CObj d else namespace_map root j)"
  using assms
  by (auto simp: namespace_map_def set_namespace_def getNamespace_def map_of_map_first split: option.splits cfg.splits)

lemma child_drop_key:
  "is_container c \<Longrightarrow> j \<noteq> k \<Longrightarrow> child (drop_key k c) j = child c j"
proof -
  have "find (\<lambda>e. key_is j (fst e)) (filter (\<lambda>e. fst e \<noteq> CStr k) m) = find (\<lambda>e. key_is j (fst e)) m" if "j \<noteq> k" for m :: "(cfg \<times> cfg) list"
    using that by (induction m) (auto simp: key_is_def)
  moreover have "map_of (filter (\<lambda>e. fst e \<noteq> k) m) j = map_of m j" if "j \<noteq> k" for m :: "(string \<times> cfg) list"
    using that by (induction m) auto
  ultimately show "is_container c \<Longrightarrow> j \<noteq> k \<Longrightarrow> child (drop_key k c) j = child c j"
    by (cases c) (simp_all add: child_def drop_key_def is_container_def)
qed

text \<open>What is left under the key: the value of the symbol.\<close>

definition symbol_value :: "string \<Rightarrow> cfg \<Rightarrow> cfg option" where
  "symbol_value k c = (case c of CHash m \<Rightarrow> map_of m (CSym k) | _ \<Rightarrow> None)"

lemma child_dropped: "is_container c \<Longrightarrow> child (drop_key k c) k = symbol_value k c"
proof -
  have "map_option snd (find (\<lambda>e. key_is k (fst e)) (filter (\<lambda>e. fst e \<noteq> CStr k) m)) = map_of m (CSym k)" for m :: "(cfg \<times> cfg) list"
    by (induction m) (auto simp: key_is_def)
  moreover have "map_of (filter (\<lambda>e. fst e \<noteq> k) m) k = None" for m :: "(string \<times> cfg) list"
    by (induction m) auto
  ultimately show "is_container c \<Longrightarrow> child (drop_key k c) k = symbol_value k c"
    by (cases c) (simp_all add: child_def drop_key_def is_container_def symbol_value_def)
qed

lemma DeleteValue_lookup:
  assumes d: "DeleteValue root (n # p @ [k]) = Inr root'" and g: "GetValue root (n # p) = Inr c"
  shows "GetValue root' (n # p @ j # q) =
     (case (if j = k then symbol_value k c else child c j) of
        None \<Rightarrow> Inl lookup_failed
      | Some v \<Rightarrow> (case descend v q of None \<Rightarrow> Inl lookup_failed | Some x \<Rightarrow> Inr x))"
proof -
  have bl: "butlast (n # p @ [k]) = n # p" "last (n # p @ [k]) = k" by simp_all
  have c: "is_container c" and r: "root' = set_namespace root n (change_at p (drop_key k) (namespace_map root n))"
    using d g unfolding DeleteValue_def bl by (auto split: if_splits)
  from g have dc: "descend (namespace_map root n) p = Some c" by (auto simp: GetValue_def split: option.splits)
  obtain m where m: "change_at p (drop_key k) (namespace_map root n) = CObj m"
    using is_obj_change_at[of "drop_key k"] by (auto simp: namespace_map_def drop_key_def)
  have "namespace_map root' n = CObj m \<or> namespace_map root n = CObj [] \<and> root' = root"
  proof (cases "getNamespace root n")
    case None
    then show ?thesis using r m by (simp add: namespace_map_def set_namespace_def)
  next
    case (Some x)
    then show ?thesis using namespace_map_set[of root n m n] r m by simp
  qed
  moreover have "change_at p (drop_key k) (CObj []) = CObj []"
    by (cases p) (simp_all add: drop_key_def map_child_def)
  ultimately have "namespace_map root' n = CObj m" using m by auto
  moreover have "descend (CObj m) (p @ j # q) = descend (drop_key k c) (j # q)"
    using descend_change_at[OF dc, of "drop_key k" "j # q"] m by simp
  ultimately show ?thesis
    using child_drop_key[OF c, of j k] child_dropped[OF c, of k] by (auto simp: GetValue_def split: option.splits)
qed

end
