(* ===== verification/VagrantConfig.thy ===== *)
theory VagrantConfig
  imports ConfigValue
begin

text \<open>
  The Vagrantfile of a basis, a project or a target (\<open>internal/core/vagrantfile.go\<close>): the registrations of
  configuration plugins, the sources, their merge and finalization, and the configuration of a target.

  The plugins, the conversion of configuration messages (of type \<open>'h\<close>), the Ruby runtime, the parser of HCL files and the
  server's lookup of targets are arguments.
\<close>

section \<open>Registrations\<close>

text \<open>A clone shares the registration objects. Only their subregistrations change after they were made, and nothing
  of this theory reads those.\<close>

record 'p registration =
  rg_identifier :: string
  rg_plugin :: "'p option"
  rg_subs :: "(string \<times> 'p list) list"

type_synonym 'p registrations = "(string \<times> 'p registration) list"

definition reg_sub :: "string \<Rightarrow> 'p \<Rightarrow> 'p registration \<Rightarrow> 'p registration" where
  "reg_sub scope p r =
     (case map_of (rg_subs r) scope of
        None \<Rightarrow> r\<lparr>rg_subs := rg_subs r @ [(scope, [p])]\<rparr>
      | Some _ \<Rightarrow> r\<lparr>rg_subs := map_first ((=) scope) (\<lambda>ps. ps @ [p]) (rg_subs r)\<rparr>)"

definition reg_init :: "string \<Rightarrow> 'p registrations \<Rightarrow> 'p registrations" where
  "reg_init n rs =
     (if map_of rs n = None then rs @ [(n, \<lparr>rg_identifier = n, rg_plugin = None, rg_subs = []\<rparr>)] else rs)"

definition register :: "string \<Rightarrow> 'p \<Rightarrow> 'p registrations \<Rightarrow> goerr + 'p registrations" where
  "register n p rs =
     (if map_of rs n \<noteq> None then Inl (OtherError ''namespace is already registered'')
      else Inr (rs @ [(n, \<lparr>rg_identifier = n, rg_plugin = Some p, rg_subs = []\<rparr>)]))"

record config_registration =
  cr_Identifier :: string
  cr_Scope :: string

definition vf_Register :: "config_registration \<Rightarrow> 'p \<Rightarrow> 'p registrations \<Rightarrow> goerr + 'p registrations" where
  "vf_Register info p rs =
     (if cr_Scope info = [] then register (cr_Identifier info) p rs
      else Inr (map_first ((=) (cr_Identifier info)) (reg_sub (cr_Scope info) p) (reg_init (cr_Identifier info) rs)))"

section \<open>Sources\<close>

datatype location = VAGRANTFILE_BOX | VAGRANTFILE_BASIS | VAGRANTFILE_PROJECT | VAGRANTFILE_TARGET | VAGRANTFILE_PROVIDER

definition locations :: "location list" where
  "locations = [VAGRANTFILE_BOX, VAGRANTFILE_BASIS, VAGRANTFILE_PROJECT, VAGRANTFILE_TARGET, VAGRANTFILE_PROVIDER]"

definition ValidRootLocations :: "location \<Rightarrow> bool" where
  "ValidRootLocations l \<longleftrightarrow> l \<in> {VAGRANTFILE_BASIS, VAGRANTFILE_PROJECT, VAGRANTFILE_TARGET}"

text \<open>The message of a Vagrantfile, and a source made from it. The unfinalized data of a source is never nil.\<close>

record 'h vfmsg =
  vm_Path :: "string option"
  vm_Unfinalized :: "'h option"
  vm_Finalized :: "'h option"

record 'h vsource =
  vs_base :: "'h vfmsg"
  vs_finalized :: "cdata option"
  vs_unfinalized :: cdata

text \<open>A Vagrantfile refers to its sources, which its clones share: the sources are in a heap.\<close>

record 'p vagrantfile =
  vf_registrations :: "'p registrations"
  vf_root :: "cdata option"
  vf_sources :: "location \<Rightarrow> nat option"

datatype 'p cached = CachedName string | CachedConfig "'p vagrantfile"

record ('p, 'h) vfworld =
  vw_sources :: "'h vsource list"
  vw_cache :: "(string \<times> 'p cached) list"

record confplugin =
  cp_Finalize :: "cdata \<Rightarrow> goerr + cdata"
  cp_Merge :: "cdata \<Rightarrow> cdata \<Rightarrow> goerr + cdata"

text \<open>\<open>ve_target\<close> is the Vagrantfile of the target that the factory loads by its name or, with \<open>True\<close>, by its
  resource id.\<close>

record ('p, 'h) vfenv =
  ve_component :: "'p \<Rightarrow> goerr + confplugin"
  ve_generate :: "'h option \<Rightarrow> goerr + cdata"
  ve_hash :: "cdata \<Rightarrow> goerr + 'h"
  ve_parse :: "string \<Rightarrow> goerr + 'h"
  ve_parseHCL :: "string \<Rightarrow> goerr + cdata"
  ve_subvm :: "cfg \<Rightarrow> goerr + 'h"
  ve_provider :: "string \<Rightarrow> cfg \<Rightarrow> goerr + 'h"
  ve_plugin :: "string \<Rightarrow> goerr + (bool \<times> goerr option)"
  ve_find :: "string \<Rightarrow> goerr + (string \<times> string)"
  ve_target :: "bool \<Rightarrow> string \<Rightarrow> goerr + 'p vagrantfile"

type_synonym ('p, 'h, 'a) vf_result = "(('p, 'h) vfworld \<times> 'p vagrantfile, goerr, 'a) outcome"

text \<open>\<open>filepath.Ext\<close>: from the last dot of the last element.\<close>

definition Ext :: "string \<Rightarrow> string" where
  "Ext p =
     (let r = takeWhile (\<lambda>c. c \<noteq> CHR ''/'') (rev p)
      in if CHR ''.'' \<in> set r then CHR ''.'' # rev (takeWhile (\<lambda>c. c \<noteq> CHR ''.'') r) else [])"

text \<open>The error of the Ruby parser is overwritten by that of the conversion of what it returned.\<close>

definition loadVagrantfile :: "('p, 'h) vfenv \<Rightarrow> 'h vsource \<Rightarrow> goerr + 'h vsource" where
  "loadVagrantfile env s =
     (case vm_Path (vs_base s) of
        None \<Rightarrow> Inr s
      | Some p \<Rightarrow>
          if Ext p = ''.hcl'' \<or> Ext p = ''.json'' then map_sum id (\<lambda>d. s\<lparr>vs_unfinalized := d\<rparr>) (ve_parseHCL env p)
          else (let u = (case ve_parse env p of Inl _ \<Rightarrow> None | Inr h \<Rightarrow> Some h)
                in map_sum id (\<lambda>d. s\<lparr>vs_base := (vs_base s)\<lparr>vm_Unfinalized := u\<rparr>, vs_unfinalized := d\<rparr>) (ve_generate env u)))"

text \<open>The new source starts with empty data, which is not nil: what the message already holds is not unpacked.\<close>

definition newSource :: "('p, 'h) vfenv \<Rightarrow> 'h vfmsg \<Rightarrow> goerr + 'h vsource" where
  "newSource env f =
     (let s = \<lparr>vs_base = f, vs_finalized = None, vs_unfinalized = []\<rparr>
      in case (if vm_Unfinalized f = None then loadVagrantfile env s else Inr s) of
           Inl e \<Rightarrow> Inl e
         | Inr s \<Rightarrow>
             (case vm_Finalized f of
                None \<Rightarrow> Inr s
              | Some h \<Rightarrow> map_sum id (\<lambda>d. s\<lparr>vs_finalized := Some d\<rparr>) (ve_generate env (Some h))))"

definition vf_Source ::
  "('p, 'h) vfenv \<Rightarrow> 'h vfmsg option \<Rightarrow> location \<Rightarrow> ('p, 'h) vfworld \<times> 'p vagrantfile \<Rightarrow> ('p, 'h, unit) vf_result" where
  "vf_Source env f l s =
     (case f of
        None \<Rightarrow> Ret s ()
      | Some f \<Rightarrow>
          (case newSource env f of
             Inl e \<Rightarrow> Fail s e
           | Inr src \<Rightarrow>
               (let (w, v) = s; i = length (vw_sources w)
                in Ret (w\<lparr>vw_sources := vw_sources w @ [src]\<rparr>, v\<lparr>vf_sources := (vf_sources v)(l \<mapsto> i)\<rparr>) ())))"

definition the_source :: "('p, 'h) vfworld \<Rightarrow> 'p vagrantfile \<Rightarrow> location \<Rightarrow> 'h vsource option" where
  "the_source w v l = map_option (\<lambda>i. vw_sources w ! i) (vf_sources v l)"

definition GetSource :: "('p, 'h) vfworld \<Rightarrow> 'p vagrantfile \<Rightarrow> location \<Rightarrow> goerr + 'h vfmsg" where
  "GetSource w v l =
     (case the_source w v l of
        None \<Rightarrow> Inl (OtherError ''no vagrantfile source for given location'')
      | Some s \<Rightarrow> Inr (vs_base s))"

section \<open>Merge and finalization\<close>

definition componentForKey :: "('p, 'h) vfenv \<Rightarrow> 'p registrations \<Rightarrow> string \<Rightarrow> goerr + confplugin" where
  "componentForKey env rs n =
     (case map_of rs n of
        None \<Rightarrow> Inl (OtherError ''no plugin set for config namespace'')
      | Some r \<Rightarrow>
          (case rg_plugin r of
             None \<Rightarrow> Inl (OtherError ''no plugin set for config namespace'')
           | Some p \<Rightarrow> ve_component env p))"

text \<open>The value of a key in the result.\<close>

definition merge_key ::
  "('p, 'h) vfenv \<Rightarrow> 'p registrations \<Rightarrow> string \<Rightarrow> cfg option \<Rightarrow> cfg option \<Rightarrow> goerr + cfg" where
  "merge_key env rs k b ov =
     (case (b, ov) of
        (Some x, None) \<Rightarrow> Inr x
      | (None, Some y) \<Rightarrow> Inr y
      | (Some x, Some y) \<Rightarrow>
          (case componentForKey env rs k of
             Inl _ \<Rightarrow> Inr y
           | Inr c \<Rightarrow>
               (case (x, y) of
                  (CData x, CData y) \<Rightarrow> map_sum id CData (cp_Merge c x y)
                | _ \<Rightarrow> Inl (OtherError ''bad value type for merge'')))
      | (None, None) \<Rightarrow> Inr CNil)"

fun merge_keys ::
  "('p, 'h) vfenv \<Rightarrow> 'p registrations \<Rightarrow> cdata \<Rightarrow> cdata \<Rightarrow> string list \<Rightarrow> goerr + cdata" where
  "merge_keys env rs b ov [] = Inr []"
| "merge_keys env rs b ov (k # ks) =
     (case merge_key env rs k (map_of b k) (map_of ov k) of
        Inl e \<Rightarrow> Inl e
      | Inr x \<Rightarrow> map_sum id (\<lambda>r. (k, x) # r) (merge_keys env rs b ov ks))"

definition vf_merge :: "('p, 'h) vfenv \<Rightarrow> 'p registrations \<Rightarrow> cdata \<Rightarrow> cdata \<Rightarrow> goerr + cdata" where
  "vf_merge env rs b ov = merge_keys env rs b ov (remdups (map fst b @ map fst ov))"

fun merge_all :: "('p, 'h) vfenv \<Rightarrow> 'p registrations \<Rightarrow> cdata \<Rightarrow> cdata list \<Rightarrow> goerr + cdata" where
  "merge_all env rs c [] = Inr c"
| "merge_all env rs c (d # ds) = (case vf_merge env rs c d of Inl e \<Rightarrow> Inl e | Inr c \<Rightarrow> merge_all env rs c ds)"

definition generate :: "('p, 'h) vfenv \<Rightarrow> 'p registrations \<Rightarrow> cdata list \<Rightarrow> goerr + cdata" where
  "generate env rs ds = (case ds of [] \<Rightarrow> Inr [] | c # ds \<Rightarrow> merge_all env rs c ds)"

definition plugin_of :: "'p registrations \<Rightarrow> string \<Rightarrow> 'p option" where
  "plugin_of rs n = (case map_of rs n of None \<Rightarrow> None | Some r \<Rightarrow> rg_plugin r)"

fun finalize_data :: "('p, 'h) vfenv \<Rightarrow> 'p registrations \<Rightarrow> cdata \<Rightarrow> cdata \<Rightarrow> goerr + cdata" where
  "finalize_data env rs [] res = Inr res"
| "finalize_data env rs ((n, val) # xs) res =
     (if plugin_of rs n = None then finalize_data env rs xs res
      else (case val of
              CData d \<Rightarrow>
                (case componentForKey env rs n of
                   Inl e \<Rightarrow> Inl e
                 | Inr c \<Rightarrow>
                     (case cp_Finalize c d of
                        Inl e \<Rightarrow> Inl e
                      | Inr r \<Rightarrow> finalize_data env rs xs (res @ [(n, CData r)])))
            | _ \<Rightarrow> Inl (OtherError ''invalid data encountered'')))"

fun finalize_rest :: "('p, 'h) vfenv \<Rightarrow> 'p registrations \<Rightarrow> (string \<times> 'p registration) list \<Rightarrow> cdata \<Rightarrow> goerr + cdata" where
  "finalize_rest env rs [] res = Inr res"
| "finalize_rest env rs ((n, r) # xs) res =
     (if map_of res n \<noteq> None \<or> rg_plugin r = None then finalize_rest env rs xs res
      else (case componentForKey env rs n of
              Inl e \<Rightarrow> Inl e
            | Inr c \<Rightarrow>
                (case cp_Finalize c [] of
                   Inl e \<Rightarrow> Inl e
                 | Inr d \<Rightarrow> finalize_rest env rs xs (res @ [(n, CData d)]))))"

definition vf_finalize :: "('p, 'h) vfenv \<Rightarrow> 'p registrations \<Rightarrow> cdata \<Rightarrow> goerr + cdata" where
  "vf_finalize env rs conf =
     (case finalize_data env rs conf [] of Inl e \<Rightarrow> Inl e | Inr res \<Rightarrow> finalize_rest env rs rs res)"

section \<open>Initialization\<close>

text \<open>The locations that have a source, in their order, and the last of them.\<close>

definition present :: "'p vagrantfile \<Rightarrow> location list" where
  "present v = filter (\<lambda>l. vf_sources v l \<noteq> None) locations"

definition final_source :: "'p vagrantfile \<Rightarrow> nat option" where
  "final_source v =
     (if present v = [] then None
      else if ValidRootLocations (last (present v)) then vf_sources v (last (present v)) else None)"

definition setFinalized :: "('p, 'h) vfenv \<Rightarrow> cdata \<Rightarrow> 'h vsource \<Rightarrow> 'h vsource \<times> goerr option" where
  "setFinalized env d s =
     (case ve_hash env d of
        Inl e \<Rightarrow> (s\<lparr>vs_finalized := Some d\<rparr>, Some e)
      | Inr h \<Rightarrow> (s\<lparr>vs_finalized := Some d, vs_base := (vs_base s)\<lparr>vm_Finalized := Some h\<rparr>\<rparr>, None))"

definition unfinalized_of :: "('p, 'h) vfworld \<Rightarrow> 'p vagrantfile \<Rightarrow> cdata list" where
  "unfinalized_of w v = map (\<lambda>l. vs_unfinalized (the (the_source w v l))) (present v)"

definition vf_Init ::
  "('p, 'h) vfenv \<Rightarrow> ('p, 'h) vfworld \<times> 'p vagrantfile \<Rightarrow> ('p, 'h, unit) vf_result" where
  "vf_Init env s =
     (let (w, v) = s; fin = final_source v
      in case (case fin of None \<Rightarrow> None | Some i \<Rightarrow> vs_finalized (vw_sources w ! i)) of
           Some d \<Rightarrow> Ret (w, v\<lparr>vf_root := Some d\<rparr>) ()
         | None \<Rightarrow>
             (case generate env (vf_registrations v) (unfinalized_of w v) of
                Inl e \<Rightarrow> Fail s e
              | Inr c \<Rightarrow>
                  (case vf_finalize env (vf_registrations v) c of
                     Inl e \<Rightarrow> Fail (w, v\<lparr>vf_root := None\<rparr>) e
                   | Inr root \<Rightarrow>
                       (let v1 = v\<lparr>vf_root := Some root\<rparr>
                        in case fin of
                             None \<Rightarrow> Ret (w, v1) ()
                           | Some i \<Rightarrow>
                               (let (src, err) = setFinalized env root (vw_sources w ! i);
                                    w1 = w\<lparr>vw_sources := (vw_sources w)[i := src]\<rparr>
                                in case err of None \<Rightarrow> Ret (w1, v1) () | Some e \<Rightarrow> Fail (w1, v1) e)))))"

definition vf_clone :: "'p vagrantfile \<Rightarrow> 'p vagrantfile" where
  "vf_clone v = v\<lparr>vf_root := None\<rparr>"

section \<open>Targets\<close>

text \<open>The answer is looked up under \<open>lookup\<close> and the name, and stored under \<open>lookup+\<close> and the name. An entry of the
  other kind is a failed type assertion.\<close>

definition targetNameLookup ::
  "('p, 'h) vfenv \<Rightarrow> string \<Rightarrow> ('p, 'h) vfworld \<times> 'p vagrantfile \<Rightarrow> ('p, 'h, string) vf_result" where
  "targetNameLookup env n s =
     (let (w, v) = s
      in case map_of (vw_cache w) (''lookup'' @ n) of
           Some (CachedName c) \<Rightarrow> Ret s c
         | Some (CachedConfig _) \<Rightarrow> Crash ''interface conversion''
         | None \<Rightarrow>
             (case ve_find env n of
                Inl e \<Rightarrow>
                  if status_code e = Some NotFound \<and> n = ''default'' then Ret s ''default'' else Fail s e
              | Inr (name, i) \<Rightarrow>
                  Ret (w\<lparr>vw_cache := (''lookup+'' @ i, CachedName name) # (''lookup+'' @ name, CachedName name) # vw_cache w\<rparr>, v)
                    name))"

definition root_value :: "'p vagrantfile \<Rightarrow> string list \<Rightarrow> (goerr + cfg) option" where
  "root_value v p = map_option (\<lambda>r. GetValue r p) (vf_root v)"

text \<open>The provider has to be installed, and to be usable when that is asked for.\<close>

definition check_provider :: "('p, 'h) vfenv \<Rightarrow> string \<Rightarrow> bool \<Rightarrow> goerr option" where
  "check_provider env prov validate =
     (if prov = [] then None
      else (case ve_plugin env prov of
              Inl e \<Rightarrow> Some e
            | Inr (usable, err) \<Rightarrow>
                if \<not> validate then None
                else if \<not> usable \<and> (case err of None \<Rightarrow> True | Some e \<Rightarrow> status_code e \<noteq> None)
                then Some (OtherError ''provider_not_usable'')
                else err))"

text \<open>The configuration of a target that is defined in the Vagrantfile.\<close>

definition source_msg :: "'h \<Rightarrow> 'h vfmsg" where
  "source_msg h = \<lparr>vm_Path = None, vm_Unfinalized = Some h, vm_Finalized = None\<rparr>"

definition strip_vms :: "cdata \<Rightarrow> goerr + cdata" where
  "strip_vms root =
     (case map_of root ''vm'' of
        None \<Rightarrow> Inl (OtherError ''failed to get vm for delete modification'')
      | Some (CData d) \<Rightarrow>
          Inr (map_first ((=) ''vm'') (\<lambda>_. CData (filter (\<lambda>e. fst e \<noteq> ''__defined_vms'') d)) root)
      | Some _ \<Rightarrow> Inl (OtherError ''failed to cast vm to expected map type''))"

definition add_source ::
  "('p, 'h) vfenv \<Rightarrow> goerr + 'h \<Rightarrow> location \<Rightarrow> ('p, 'h) vfworld \<times> 'p vagrantfile \<Rightarrow> ('p, 'h, unit) vf_result" where
  "add_source env r l s = (case r of
        Inl e \<Rightarrow> Fail s e
      | Inr h \<Rightarrow> map_err (Wrapped ''failed to add config source'') (vf_Source env (Some (source_msg h)) l s))"

definition build_config ::
  "('p, 'h) vfenv \<Rightarrow> string \<Rightarrow> cfg \<Rightarrow> ('p, 'h) vfworld \<times> 'p vagrantfile \<Rightarrow> ('p, 'h, unit) vf_result" where
  "build_config env prov subvm s =
     bind_o (add_source env (ve_subvm env subvm) VAGRANTFILE_TARGET s) (\<lambda>s _.
     bind_o (if prov = [] then Ret s () else add_source env (ve_provider env prov subvm) VAGRANTFILE_PROVIDER s) (\<lambda>s _.
     bind_o (map_err (Wrapped ''failed to init target config vagrantfile'') (vf_Init env s)) (\<lambda>s _.
       (case strip_vms (the (vf_root (snd s))) of
          Inl e \<Rightarrow> Fail s e
        | Inr root \<Rightarrow> Ret (fst s, (snd s)\<lparr>vf_root := Some root\<rparr>) ()))))"

definition with_vf :: "'p vagrantfile \<Rightarrow> ('p, 'h, 'a) vf_result \<Rightarrow> ('p, 'h, 'p vagrantfile) vf_result" where
  "with_vf v r =
     (case r of Ret (w, v') _ \<Rightarrow> Ret (w, v) v' | Fail (w, _) e \<Rightarrow> Fail (w, v) e | Crash m \<Rightarrow> Crash m)"

definition load_target :: "('p, 'h) vfenv \<Rightarrow> string \<Rightarrow> goerr + 'p vagrantfile" where
  "load_target env name =
     (case ve_target env False name of
        Inl e \<Rightarrow> if status_code e \<noteq> Some NotFound then Inl e else ve_target env True name
      | Inr tv \<Rightarrow> Inr tv)"

text \<open>The part after the cache was asked.\<close>

definition fresh_config ::
  "('p, 'h) vfenv \<Rightarrow> string \<Rightarrow> string \<Rightarrow> ('p, 'h) vfworld \<times> 'p vagrantfile \<Rightarrow> ('p, 'h, 'p vagrantfile) vf_result" where
  "fresh_config env name prov s =
     (case root_value (snd s) [''vm'', ''__defined_vms'', name] of
        None \<Rightarrow> Crash ''nil root''
      | Some (Inl e) \<Rightarrow> (case load_target env name of Inl e \<Rightarrow> Fail s e | Inr tv \<Rightarrow> Ret s tv)
      | Some (Inr subvm) \<Rightarrow>
          if subvm = CNil then Fail s (OtherError ''empty value found for requested target'')
          else bind_o (with_vf (snd s) (build_config env prov subvm (fst s, vf_clone (snd s)))) (\<lambda>s new.
                 Ret ((fst s)\<lparr>vw_cache := (name @ ''+'' @ prov, CachedConfig new) # vw_cache (fst s)\<rparr>, snd s) new))"

definition TargetConfig ::
  "('p, 'h) vfenv \<Rightarrow> string \<Rightarrow> string \<Rightarrow> bool \<Rightarrow> ('p, 'h) vfworld \<times> 'p vagrantfile \<Rightarrow>
     ('p, 'h, 'p vagrantfile) vf_result" where
  "TargetConfig env n prov validate s =
     bind_o (targetNameLookup env n s) (\<lambda>s name.
       (case check_provider env prov validate of
          Some e \<Rightarrow> Fail s e
        | None \<Rightarrow>
            (case map_of (vw_cache (fst s)) (name @ ''+'' @ prov) of
               Some (CachedConfig c) \<Rightarrow> Ret s c
             | Some (CachedName _) \<Rightarrow> Crash ''interface conversion''
             | None \<Rightarrow> fresh_config env name prov s)))"

end
