(* ===== verification/VagrantConfigClaims.thy ===== *)
theory VagrantConfigClaims
  imports VagrantConfig
begin

text \<open>
  The properties of a Vagrantfile: what a merge and a finalization make of the sources, that initializing twice is
  initializing once, what becomes of the settings of a target, of the order of registrations and of the lookup cache.
\<close>

section \<open>Merge\<close>

text \<open>One namespace through all sources.\<close>

fun merge_one ::
  "('p, 'h) vfenv \<Rightarrow> 'p registrations \<Rightarrow> string \<Rightarrow> cfg option \<Rightarrow> cfg option list \<Rightarrow> goerr + cfg option" where
  "merge_one env rs k acc [] = Inr acc"
| "merge_one env rs k acc (x # xs) =
     (if acc = None \<and> x = None then merge_one env rs k None xs
      else (case merge_key env rs k acc x of Inl e \<Rightarrow> Inl e | Inr y \<Rightarrow> merge_one env rs k (Some y) xs))"

lemma merge_keys_value:
  assumes "merge_keys env rs b ov ks = Inr c"
  shows "k \<notin> set ks \<Longrightarrow> map_of c k = None"
    and "k \<in> set ks \<Longrightarrow> \<exists>x. merge_key env rs k (map_of b k) (map_of ov k) = Inr x \<and> map_of c k = Some x"
  using assms
  by (induction env rs b ov ks arbitrary: c rule: merge_keys.induct)
    (fastforce simp: map_sum_def split: sum.splits if_splits)+

lemma vf_merge_value:
  assumes "vf_merge env rs b ov = Inr c"
  shows "if map_of b k = None \<and> map_of ov k = None then map_of c k = None
         else \<exists>x. merge_key env rs k (map_of b k) (map_of ov k) = Inr x \<and> map_of c k = Some x"
proof -
  have "k \<in> set (remdups (map fst b @ map fst ov)) \<longleftrightarrow> map_of b k \<noteq> None \<or> map_of ov k \<noteq> None"
    by (auto simp: map_of_eq_None_iff)
  then show ?thesis
    using merge_keys_value[OF assms[unfolded vf_merge_def], of k] by auto
qed

lemma merge_all_value:
  "merge_all env rs c ds = Inr r \<Longrightarrow> merge_one env rs k (map_of c k) (map (\<lambda>d. map_of d k) ds) = Inr (map_of r k)"
proof (induction ds arbitrary: c)
  case (Cons d ds)
  from Cons.prems obtain c1 where c1: "vf_merge env rs c d = Inr c1" and r: "merge_all env rs c1 ds = Inr r"
    by (auto split: sum.splits)
  show ?case
    using vf_merge_value[OF c1, of k] Cons.IH[OF r] by (auto split: if_splits)
qed simp

lemma merge_nothing: "distinct (map fst b) \<Longrightarrow> vf_merge env rs b [] = Inr b"
proof -
  have "merge_keys env rs b [] ks = Inr (map (\<lambda>k. (k, the (map_of b k))) ks)" if "set ks \<subseteq> fst ` set b" for ks
    using that
  proof (induction ks)
    case (Cons k ks)
    then obtain x where "map_of b k = Some x" by (metis insert_subset list.simps(15) map_of_eq_None_iff not_None_eq)
    with Cons show ?case by (simp add: merge_key_def)
  qed simp
  moreover assume d: "distinct (map fst b)"
  moreover have "map ((\<lambda>k. (k, the (map_of b k))) \<circ> fst) b = b"
    using d by (auto intro!: map_idI)
  ultimately show ?thesis by (simp add: vf_merge_def distinct_remdups_id)
qed

section \<open>Finalization\<close>

definition finalized_of :: "('p, 'h) vfenv \<Rightarrow> 'p registrations \<Rightarrow> string \<Rightarrow> cdata \<Rightarrow> goerr + cdata" where
  "finalized_of env rs n d = (case componentForKey env rs n of Inl e \<Rightarrow> Inl e | Inr c \<Rightarrow> cp_Finalize c d)"

definition final_value :: "('p, 'h) vfenv \<Rightarrow> 'p registrations \<Rightarrow> string \<Rightarrow> cfg \<Rightarrow> cfg" where
  "final_value env rs n v =
     (case v of CData d \<Rightarrow> (case finalized_of env rs n d of Inl _ \<Rightarrow> CNil | Inr x \<Rightarrow> CData x) | _ \<Rightarrow> CNil)"

lemma finalize_data_Cons:
  assumes "finalize_data env rs ((n, val) # xs) res = Inr r" and "plugin_of rs n \<noteq> None"
  obtains x where "final_value env rs n val = CData x" and "finalize_data env rs xs (res @ [(n, CData x)]) = Inr r"
  using assms by (cases val) (auto simp: final_value_def finalized_of_def split: sum.splits)

lemma finalize_data_value:
  "finalize_data env rs conf res = Inr r \<Longrightarrow>
     (map_of res n = None \<and> plugin_of rs n \<noteq> None \<and> map_of conf n = Some v \<longrightarrow> final_value env rs n v \<noteq> CNil) \<and>
     map_of r n = (case map_of res n of Some x \<Rightarrow> Some x
       | None \<Rightarrow> if plugin_of rs n = None then None else map_option (final_value env rs n) (map_of conf n))"
proof (induction conf arbitrary: res)
  case Nil
  then show ?case by (cases "map_of res n") auto
next
  case (Cons e conf)
  obtain k val where e: "e = (k, val)" by (cases e)
  show ?case
  proof (cases "plugin_of rs k")
    case None
    with Cons.prems e have "finalize_data env rs conf res = Inr r" by simp
    with Cons.IH[OF this] None e show ?thesis by (auto split: option.splits)
  next
    case (Some p)
    then have "plugin_of rs k \<noteq> None" by simp
    from finalize_data_Cons[OF Cons.prems[unfolded e] this] obtain x where x: "final_value env rs k val = CData x"
      and r: "finalize_data env rs conf (res @ [(k, CData x)]) = Inr r" .
    have m: "map_of (res @ [(k, CData x)]) n = (case map_of res n of Some y \<Rightarrow> Some y | None \<Rightarrow> if k = n then Some (CData x) else None)"
      by (simp add: map_add_def split: option.splits)
    show ?thesis
      using Cons.IH[OF r] x Some e unfolding m by (auto split: option.splits)
  qed
qed

lemma finalize_rest_value:
  assumes "finalize_rest env rs xs res = Inr r" and "\<And>k p. (k, p) \<in> set xs \<Longrightarrow> plugin_of rs k = rg_plugin p"
  shows "map_of r n = (case map_of res n of Some v \<Rightarrow> Some v
       | None \<Rightarrow> if plugin_of rs n = None \<or> n \<notin> fst ` set xs then None else Some (final_value env rs n (CData [])))
     \<and> (map_of res n = None \<and> plugin_of rs n \<noteq> None \<and> n \<in> fst ` set xs \<longrightarrow> final_value env rs n (CData []) \<noteq> CNil)"
  using assms
proof (induction xs arbitrary: res)
  case Nil
  then show ?case by (cases "map_of res n") auto
next
  case (Cons e xs)
  obtain k reg where e: "e = (k, reg)" by (cases e)
  have pk: "plugin_of rs k = rg_plugin reg" using Cons.prems(2) e by simp
  show ?case
  proof (cases "map_of res k \<noteq> None \<or> rg_plugin reg = None")
    case True
    with Cons.prems(1) e have "finalize_rest env rs xs res = Inr r" by auto
    from Cons.IH[OF this Cons.prems(2)] show ?thesis using True pk e by (cases "n = k") (auto split: option.splits)
  next
    case False
    with Cons.prems(1) e obtain x where x: "final_value env rs k (CData []) = CData x"
      and r: "finalize_rest env rs xs (res @ [(k, CData x)]) = Inr r"
      by (auto simp: final_value_def finalized_of_def split: sum.splits)
    have m: "map_of (res @ [(k, CData x)]) n = (case map_of res n of Some y \<Rightarrow> Some y | None \<Rightarrow> if k = n then Some (CData x) else None)"
      by (simp add: map_add_def split: option.splits)
    show ?thesis
      using Cons.IH[OF r Cons.prems(2)] x pk False e unfolding m by (auto split: option.splits)
  qed
qed

section \<open>Initialization\<close>

definition sources_ok :: "('p, 'h) vfworld \<Rightarrow> 'p vagrantfile \<Rightarrow> bool" where
  "sources_ok w v \<longleftrightarrow> (\<forall>i \<in> ran (vf_sources v). i < length (vw_sources w))"

lemma final_source_root [simp]: "final_source (v\<lparr>vf_root := r\<rparr>) = final_source v"
  by (simp add: final_source_def present_def)

lemma final_source_ran: "final_source v = Some i \<Longrightarrow> i \<in> ran (vf_sources v)"
  by (auto simp: final_source_def ran_def split: if_splits)

lemma Source_hash: "vf_Source env (Some (source_msg h)) l (w, v) =
  Ret (w\<lparr>vw_sources := vw_sources w @ [\<lparr>vs_base = source_msg h, vs_finalized = None, vs_unfinalized = []\<rparr>]\<rparr>,
       v\<lparr>vf_sources := (vf_sources v)(l \<mapsto> length (vw_sources w))\<rparr>) ()"
  by (simp add: vf_Source_def newSource_def source_msg_def)

text \<open>The data that the configuration of a target is generated from. The places of the target and of its provider are
  empty.\<close>

definition inherited_data :: "('p, 'h) vfworld \<Rightarrow> 'p vagrantfile \<Rightarrow> string \<Rightarrow> cdata list" where
  "inherited_data w v prov =
     map (\<lambda>l. if l = VAGRANTFILE_TARGET \<or> l = VAGRANTFILE_PROVIDER \<and> prov \<noteq> [] then []
              else vs_unfinalized (the (the_source w v l)))
       (filter (\<lambda>l. vf_sources v l \<noteq> None \<or> l = VAGRANTFILE_TARGET \<or> l = VAGRANTFILE_PROVIDER \<and> prov \<noteq> []) locations)"

definition inherited_config :: "('p, 'h) vfenv \<Rightarrow> ('p, 'h) vfworld \<Rightarrow> 'p vagrantfile \<Rightarrow> string \<Rightarrow> goerr + cdata" where
  "inherited_config env w v prov =
     (case generate env (vf_registrations v) (inherited_data w v prov) of
        Inl e \<Rightarrow> Inl e
      | Inr c \<Rightarrow> (case vf_finalize env (vf_registrations v) c of Inl e \<Rightarrow> Inl e | Inr root \<Rightarrow> strip_vms root))"

lemma vf_Init_fresh:
  assumes "vf_Init env (w, v) = Ret (w1, v1) u"
    and "case final_source v of None \<Rightarrow> True | Some i \<Rightarrow> vs_finalized (vw_sources w ! i) = None"
  shows "\<exists>c root. generate env (vf_registrations v) (unfinalized_of w v) = Inr c
    \<and> vf_finalize env (vf_registrations v) c = Inr root \<and> v1 = v\<lparr>vf_root := Some root\<rparr>"
  using assms by (auto simp: vf_Init_def Let_def split: option.splits sum.splits prod.splits)

lemma sum_case_Ret:
  "(case r of Inl e \<Rightarrow> Fail (g e) (k e) | Inr a \<Rightarrow> Ret (h a) (x a)) = Ret s y \<longleftrightarrow> (\<exists>a. r = Inr a \<and> h a = s \<and> x a = y)"
  by (cases r) auto

lemma inherited_clone: "inherited_config env w (vf_clone v) prov = inherited_config env w v prov"
proof -
  have "the_source w (vf_clone v) = the_source w v" "vf_sources (vf_clone v) = vf_sources v"
    "vf_registrations (vf_clone v) = vf_registrations v" by (auto simp: the_source_def vf_clone_def)
  then show ?thesis by (simp only: inherited_config_def inherited_data_def)
qed

lemma add_source_Ret:
  assumes "add_source env r l (w, v) = Ret s u"
  obtains h where "s = (w\<lparr>vw_sources := vw_sources w @ [\<lparr>vs_base = source_msg h, vs_finalized = None, vs_unfinalized = []\<rparr>]\<rparr>,
      v\<lparr>vf_sources := (vf_sources v)(l \<mapsto> length (vw_sources w))\<rparr>)"
  using assms by (cases r) (auto simp: add_source_def Source_hash)

lemma build_config_Ret:
  assumes "build_config env prov subvm s = Ret s1 u"
  obtains s2 s3 s4 root where "add_source env (ve_subvm env subvm) VAGRANTFILE_TARGET s = Ret s2 ()"
    and "(if prov = [] then Ret s2 () else add_source env (ve_provider env prov subvm) VAGRANTFILE_PROVIDER s2) = Ret s3 ()"
    and "vf_Init env s3 = Ret s4 ()" and "strip_vms (the (vf_root (snd s4))) = Inr root"
    and "s1 = (fst s4, (snd s4)\<lparr>vf_root := Some root\<rparr>)"
proof -
  from assms obtain s2 s3 s4 u2 u3 u4 root where "add_source env (ve_subvm env subvm) VAGRANTFILE_TARGET s = Ret s2 u2"
    and "(if prov = [] then Ret s2 () else add_source env (ve_provider env prov subvm) VAGRANTFILE_PROVIDER s2) = Ret s3 u3"
    and "vf_Init env s3 = Ret s4 u4" and "strip_vms (the (vf_root (snd s4))) = Inr root"
    and "(fst s4, (snd s4)\<lparr>vf_root := Some root\<rparr>) = s1"
    unfolding build_config_def bind_o_Ret_iff map_err_Ret sum_case_Ret by (elim exE conjE)
  then show thesis by (intro that[of s2 s3 s4 root]) simp_all
qed

lemma build_config_root:
  assumes run: "build_config env prov subvm (w, v) = Ret (w1, v1) u" and ok: "sources_ok w v"
  shows "\<exists>root. inherited_config env w v prov = Inr root \<and> vf_root v1 = Some root"
proof -
  let ?src = "\<lambda>h. \<lparr>vs_base = source_msg h, vs_finalized = None, vs_unfinalized = []\<rparr>"
  obtain s2 s3 s4 root where a: "add_source env (ve_subvm env subvm) VAGRANTFILE_TARGET (w, v) = Ret s2 ()"
    and b: "(if prov = [] then Ret s2 () else add_source env (ve_provider env prov subvm) VAGRANTFILE_PROVIDER s2) = Ret s3 ()"
    and init4: "vf_Init env s3 = Ret s4 ()" and st: "strip_vms (the (vf_root (snd s4))) = Inr root"
    and v1': "w1 = fst s4" "v1 = (snd s4)\<lparr>vf_root := Some root\<rparr>"
    by (rule build_config_Ret[OF run]) (rule that, simp_all)
  obtain w2 v2 where s3: "s3 = (w2, v2)" by (cases s3)
  obtain v3 where s4: "s4 = (w1, v3)" using v1'(1) by (cases s4) simp
  have init: "vf_Init env (w2, v2) = Ret (w1, v3) ()" and v1: "v1 = v3\<lparr>vf_root := Some root\<rparr>"
    using init4 v1'(2) s3 s4 by simp_all
  from a obtain h where s2: "s2 = (w\<lparr>vw_sources := vw_sources w @ [?src h]\<rparr>,
      v\<lparr>vf_sources := (vf_sources v)(VAGRANTFILE_TARGET \<mapsto> length (vw_sources w))\<rparr>)"
    by (rule add_source_Ret)
  have two: "if prov = [] then w2 = w\<lparr>vw_sources := vw_sources w @ [?src h]\<rparr> \<and>
          v2 = v\<lparr>vf_sources := (vf_sources v)(VAGRANTFILE_TARGET \<mapsto> length (vw_sources w))\<rparr>
        else (\<exists>g. w2 = w\<lparr>vw_sources := vw_sources w @ [?src h, ?src g]\<rparr> \<and>
          v2 = v\<lparr>vf_sources := (vf_sources v)(VAGRANTFILE_TARGET \<mapsto> length (vw_sources w),
                 VAGRANTFILE_PROVIDER \<mapsto> Suc (length (vw_sources w)))\<rparr>)"
  proof (cases "prov = []")
    case True
    then show ?thesis using b s2 s3 by simp
  next
    case False
    with b s2 have "add_source env (ve_provider env prov subvm) VAGRANTFILE_PROVIDER (w\<lparr>vw_sources := vw_sources w @ [?src h]\<rparr>,
      v\<lparr>vf_sources := (vf_sources v)(VAGRANTFILE_TARGET \<mapsto> length (vw_sources w))\<rparr>) = Ret s3 ()" by simp
    then show ?thesis using s3 False by (auto elim!: add_source_Ret)
  qed
  have lt: "i < length (vw_sources w)" if "vf_sources v l = Some i" for i l
    using ok that by (auto simp: sources_ok_def ran_def)
  have src2: "vf_sources v2 l \<noteq> None \<longleftrightarrow> vf_sources v l \<noteq> None \<or> l = VAGRANTFILE_TARGET \<or> l = VAGRANTFILE_PROVIDER \<and> prov \<noteq> []" for l
    using two by (auto split: if_splits)
  have unf: "vs_unfinalized (the (the_source w2 v2 l)) =
      (if l = VAGRANTFILE_TARGET \<or> l = VAGRANTFILE_PROVIDER \<and> prov \<noteq> [] then [] else vs_unfinalized (the (the_source w v l)))"
    if "vf_sources v2 l \<noteq> None" for l
  proof (cases "l = VAGRANTFILE_TARGET \<or> l = VAGRANTFILE_PROVIDER \<and> prov \<noteq> []")
    case True
    then show ?thesis using two by (cases "prov = []") (auto simp: the_source_def nth_append)
  next
    case False
    with that src2 obtain i where i: "vf_sources v l = Some i" by blast
    then have "vf_sources v2 l = Some i" "vw_sources w2 ! i = vw_sources w ! i"
      using two False lt[OF i] by (cases "prov = []"; force simp: nth_append)+
    with i False show ?thesis by (auto simp: the_source_def)
  qed
  have u: "unfinalized_of w2 v2 = inherited_data w v prov"
    unfolding unfinalized_of_def inherited_data_def present_def src2 using unf src2 by (auto intro!: map_cong)
  have "case final_source v2 of None \<Rightarrow> True | Some i \<Rightarrow> vs_finalized (vw_sources w2 ! i) = None"
    using two by (auto simp: final_source_def present_def locations_def ValidRootLocations_def nth_append split: if_splits)
  from vf_Init_fresh[OF init this] st[unfolded s4] two v1 show ?thesis
    by (auto simp: inherited_config_def u split: if_splits)
qed

section \<open>The cache\<close>

text \<open>Every key of the cache has a plus sign.\<close>

definition plus_keys :: "('p, 'h) vfworld \<Rightarrow> bool" where
  "plus_keys w \<longleftrightarrow> (\<forall>k \<in> fst ` set (vw_cache w). CHR ''+'' \<in> set k)"

datatype vf_op = OpLookup string | OpConfig string string bool

definition vf_step :: "('p, 'h) vfenv \<Rightarrow> vf_op \<Rightarrow> ('p, 'h) vfworld \<times> 'p vagrantfile \<Rightarrow> ('p, 'h) vfworld \<times> 'p vagrantfile" where
  "vf_step env op s =
     (case op of OpLookup n \<Rightarrow> left_by (targetNameLookup env n s) s
      | OpConfig n prov validate \<Rightarrow> left_by (TargetConfig env n prov validate s) s)"

lemma cached_after_source [simp]:
  "vw_cache (w\<lparr>vw_sources := xs\<rparr>) = vw_cache w"
  by simp

lemma keeps_bind_o:
  assumes "keeps P r" and "\<And>s a. P s \<Longrightarrow> keeps P (f s a)"
  shows "keeps P (bind_o r f)"
  using assms by (cases r) auto

lemma vf_Source_cache: "keeps (\<lambda>s. plus_keys (fst s)) (vf_Source env f l s)" if "plus_keys (fst s)"
  using that by (auto simp: vf_Source_def plus_keys_def split: option.splits sum.splits prod.splits)

lemma vf_Init_cache: "plus_keys (fst s) \<Longrightarrow> keeps (\<lambda>s. plus_keys (fst s)) (vf_Init env s)"
  by (auto simp: vf_Init_def Let_def plus_keys_def split: option.splits sum.splits prod.splits)

lemma keeps_map_err [simp]: "keeps P (map_err f r) = keeps P r"
  by (cases r) (simp_all add: map_err_def)

lemma build_config_cache: "plus_keys (fst s) \<Longrightarrow> keeps (\<lambda>s. plus_keys (fst s)) (build_config env prov subvm s)"
  unfolding build_config_def
  by (intro keeps_bind_o)
    (auto simp: add_source_def vf_Source_cache vf_Init_cache split: sum.splits)

lemma targetNameLookup_cache:
  "plus_keys (fst s) \<Longrightarrow> keeps (\<lambda>s. plus_keys (fst s)) (targetNameLookup env n s)"
  by (auto simp: targetNameLookup_def Let_def plus_keys_def split: option.splits cached.splits sum.splits prod.splits)

lemma with_vf_cache:
  "keeps (\<lambda>s. plus_keys (fst s)) r \<Longrightarrow> keeps (\<lambda>s. plus_keys (fst s)) (with_vf v r)"
  by (cases r) (auto simp: with_vf_def)

lemma fresh_config_cache:
  assumes "plus_keys (fst s)"
  shows "keeps (\<lambda>s. plus_keys (fst s)) (fresh_config env name prov s)"
proof -
  have "keeps (\<lambda>s. plus_keys (fst s)) (bind_o (with_vf v (build_config env prov subvm (fst s, v1))) (\<lambda>s new.
     Ret ((fst s)\<lparr>vw_cache := (name @ ''+'' @ prov, CachedConfig new) # vw_cache (fst s)\<rparr>, snd s) new))" for v v1 subvm
    by (intro keeps_bind_o with_vf_cache build_config_cache) (use assms in \<open>auto simp: plus_keys_def\<close>)
  with assms show ?thesis by (simp add: fresh_config_def split: option.split sum.split)
qed

lemma TargetConfig_cache:
  assumes "plus_keys (fst s)"
  shows "keeps (\<lambda>s. plus_keys (fst s)) (TargetConfig env n prov validate s)"
  unfolding TargetConfig_def
  by (rule keeps_bind_o[OF targetNameLookup_cache[OF assms]])
    (simp add: fresh_config_cache split: option.split cached.split)

interpretation vf_cache: machine "vf_step env" "\<lambda>s. plus_keys (fst s)" for env
proof
  fix s :: "('a, 'b) vfworld \<times> 'a vagrantfile" and op
  assume s: "plus_keys (fst s)"
  note k = keeps_left_by[where P = "\<lambda>s. plus_keys (fst s)", OF _ s]
  show "plus_keys (fst (vf_step env op s))"
    using k[OF targetNameLookup_cache[OF s]] k[OF TargetConfig_cache[OF s]] by (cases op) (simp_all add: vf_step_def)
qed

section \<open>The properties\<close>


text \<open>C19: finalization yields exactly the namespaces that have a plugin, each with what the plugin makes of the data, or of
  no data when no source has the namespace.\<close>

theorem finalize_exact:
  assumes "vf_finalize env rs conf = Inr r" and "distinct (map fst rs)"
  shows "map_of r n =
     (if plugin_of rs n = None then None
      else Some (final_value env rs n (case map_of conf n of None \<Rightarrow> CData [] | Some v \<Rightarrow> v)))"
proof -
  from assms(1) obtain r1 where r1: "finalize_data env rs conf [] = Inr r1" and r: "finalize_rest env rs rs r1 = Inr r"
    by (auto simp: vf_finalize_def split: sum.splits)
  have p: "plugin_of rs k = rg_plugin g" if "(k, g) \<in> set rs" for k g
    using that assms(2) by (simp add: plugin_of_def)
  have "plugin_of rs n \<noteq> None \<longrightarrow> n \<in> fst ` set rs"
    by (cases "map_of rs n") (simp_all add: plugin_of_def, metis map_of_eq_None_iff option.distinct(1))
  with finalize_data_value[OF r1, of n] finalize_rest_value[OF r p, of n] show ?thesis
    by (auto split: option.splits)
qed

text \<open>initializing a Vagrantfile twice is initializing it once. When the last source can hold the finalized data, the
  second time takes it from there.\<close>

theorem init_twice:
  assumes run: "vf_Init env (w, v) = Ret s1 u" and ok: "sources_ok w v"
  shows "vf_Init env s1 = Ret s1 u"
proof (cases "case final_source v of None \<Rightarrow> None | Some i \<Rightarrow> vs_finalized (vw_sources w ! i)")
  case (Some d)
  with run show ?thesis by (auto simp: vf_Init_def)
next
  case None
  have lt: "final_source v = Some i \<Longrightarrow> i < length (vw_sources w)" for i
    using ok final_source_ran[of v i] by (simp add: sources_ok_def)
  from run None show ?thesis
    using lt
    by (auto simp: vf_Init_def Let_def setFinalized_def unfinalized_of_def present_def the_source_def
        split: option.splits sum.splits prod.splits if_splits)
qed

text \<open>after a value was deleted, lookups of everything else in its map are unchanged and the value is gone, unless its key
  is a symbol: then the deletion reports success and the value is still found.\<close>

theorem deleted_value_lookup:
  assumes "DeleteValue root (n # p @ [k]) = Inr root'" and "GetValue root (n # p) = Inr c"
  shows "GetValue root' (n # p @ j # q) =
     (if j \<noteq> k then GetValue root (n # p @ j # q)
      else (case symbol_value k c of None \<Rightarrow> Inl lookup_failed
            | Some v \<Rightarrow> (case descend v q of None \<Rightarrow> Inl lookup_failed | Some x \<Rightarrow> Inr x)))"
proof -
  have "GetValue root (n # p @ j # q) =
      (case child c j of None \<Rightarrow> Inl lookup_failed | Some v \<Rightarrow> (case descend v q of None \<Rightarrow> Inl lookup_failed | Some x \<Rightarrow> Inr x))"
    using assms(2) by (auto simp: GetValue_def descend_append split: option.splits)
  then show ?thesis using DeleteValue_lookup[OF assms] by auto
qed

text \<open>the configuration that is built for a target defined in the Vagrantfile is the merge of what was there before, with
  nothing in the places of the target and its provider: what the Ruby runtime returned for the target has no effect.\<close>

theorem target_settings_have_no_effect:
  assumes lk: "targetNameLookup env n (w0, v0) = Ret (w, v) name" and ok: "sources_ok w v"
    and "map_of (vw_cache w) (name @ ''+'' @ prov) = None"
    and "root_value v [''vm'', ''__defined_vms'', name] = Some (Inr subvm)"
    and run: "TargetConfig env n prov validate (w0, v0) = Ret s1 c"
  shows "\<exists>root. inherited_config env w v prov = Inr root \<and> vf_root c = Some root"
proof -
  from run lk assms(3) have "fresh_config env name prov (w, v) = Ret s1 c"
    by (auto simp: TargetConfig_def split: option.splits)
  then obtain s2 where "with_vf v (build_config env prov subvm (w, vf_clone v)) = Ret s2 c"
    using assms(4) by (auto simp: fresh_config_def bind_o_Ret_iff split: if_splits)
  then obtain w2 u where "build_config env prov subvm (w, vf_clone v) = Ret (w2, c) u"
    by (auto simp: with_vf_def split: outcome.splits prod.splits)
  from build_config_root[OF this] ok show ?thesis by (simp add: sources_ok_def inherited_clone) (simp add: vf_clone_def)
qed

text \<open>when a part of a namespace is registered before the namespace itself, the registration of the namespace fails and its
  data is dropped from every finalized configuration.\<close>

theorem part_before_namespace_blocks_it:
  assumes "map_of rs n = None" and "scope \<noteq> []"
    and "vf_Register \<lparr>cr_Identifier = n, cr_Scope = scope\<rparr> q rs = Inr rs1"
  shows "vf_Register \<lparr>cr_Identifier = n, cr_Scope = []\<rparr> p rs1 = Inl (OtherError ''namespace is already registered'')
    \<and> plugin_of rs1 n = None"
  using assms by (auto simp: vf_Register_def register_def reg_init_def reg_sub_def plugin_of_def map_of_map_first
      map_add_def split: option.splits)

text \<open>A lookup without a cache.\<close>

definition ask_server ::
  "('p, 'h) vfenv \<Rightarrow> string \<Rightarrow> ('p, 'h) vfworld \<times> 'p vagrantfile \<Rightarrow> ('p, 'h, string) vf_result" where
  "ask_server env n s =
     (case ve_find env n of
        Inl e \<Rightarrow> if status_code e = Some NotFound \<and> n = ''default'' then Ret s ''default'' else Fail s e
      | Inr (name, i) \<Rightarrow>
          Ret ((fst s)\<lparr>vw_cache := (''lookup+'' @ i, CachedName name) # (''lookup+'' @ name, CachedName name) # vw_cache (fst s)\<rparr>,
               snd s) name)"

text \<open>the answer of a name lookup is never taken from the cache: after any sequence of lookups and configurations a name
  without a plus sign is asked of the server again.\<close>

theorem lookups_ask_server:
  assumes "vw_cache w = []" and "CHR ''+'' \<notin> set n"
  shows "targetNameLookup env n (fold (vf_step env) ops (w, v)) = ask_server env n (fold (vf_step env) ops (w, v))"
proof -
  let ?s = "fold (vf_step env) ops (w, v)"
  have "plus_keys (fst ?s)"
    using vf_cache.run_inv[of "(w, v)" env ops] assms(1) by (simp add: plus_keys_def)
  then have "(''lookup'' @ n, x) \<notin> set (vw_cache (fst ?s))" for x
    using assms(2) by (force simp: plus_keys_def)
  then have "map_of (vw_cache (fst ?s)) (''lookup'' @ n) = None"
    using map_of_SomeD[of "vw_cache (fst ?s)" "''lookup'' @ n"] by (metis not_None_eq)
  then show ?thesis by (cases ?s) (simp add: targetNameLookup_def ask_server_def split: sum.split prod.split)
qed

section \<open>Examples\<close>

text \<open>One plugin, whose merge puts the overlay in front. The Ruby runtime answers every target with a box of its own.\<close>

definition ex_conf :: confplugin where
  "ex_conf = \<lparr>cp_Finalize = (\<lambda>d. Inr ((''final'', CBool True) # d)), cp_Merge = (\<lambda>x y. Inr (y @ x))\<rparr>"

definition ex_vms :: cdata where
  "ex_vms = [(''vm'', CData [(''box'', CStr ''base''), (''__defined_vms'', CHash [(CSym ''web'', CInt 1)])])]"

definition ex_venv :: "(unit, cdata) vfenv" where
  "ex_venv = \<lparr>ve_component = (\<lambda>_. Inr ex_conf), ve_generate = (\<lambda>h. Inr (case h of None \<Rightarrow> [] | Some d \<Rightarrow> d)), ve_hash = Inr,
     ve_parse = (\<lambda>_. Inr ex_vms), ve_parseHCL = (\<lambda>_. Inr []), ve_subvm = (\<lambda>_. Inr [(''vm'', CData [(''box'', CStr ''own'')])]),
     ve_provider = (\<lambda>_ _. Inr []), ve_plugin = (\<lambda>_. Inr (True, None)), ve_find = (\<lambda>n. Inr (n, ''id'')),
     ve_target = (\<lambda>_ _. Inl (Status NotFound RecordNotFound))\<rparr>"

definition ex_vf :: "unit vagrantfile" where
  "ex_vf = \<lparr>vf_registrations = [(''vm'', \<lparr>rg_identifier = ''vm'', rg_plugin = Some (), rg_subs = []\<rparr>)],
     vf_root = None, vf_sources = Map.empty\<rparr>"

definition ex_world :: "(unit, cdata) vfworld \<times> unit vagrantfile" where
  "ex_world = (let s = (\<lparr>vw_sources = [], vw_cache = []\<rparr>, ex_vf);
      f = \<lparr>vm_Path = Some ''a/Vagrantfile'', vm_Unfinalized = None, vm_Finalized = None\<rparr>
    in left_by (vf_Source ex_venv (Some f) VAGRANTFILE_PROJECT s) s)"

definition ex_ready :: "(unit, cdata) vfworld \<times> unit vagrantfile" where
  "ex_ready = left_by (vf_Init ex_venv ex_world) ex_world"

lemmas ex_defs = ex_world_def Let_def vf_Source_def newSource_def loadVagrantfile_def
      Ext_def ex_vf_def ex_venv_def left_by_def vf_Init_def generate_def present_def final_source_def locations_def
      ValidRootLocations_def unfinalized_of_def the_source_def vf_finalize_def plugin_of_def componentForKey_def ex_vms_def
      ex_conf_def setFinalized_def

lemma ex_sources_ok: "sources_ok (fst ex_world) (snd ex_world)" "sources_ok (fst ex_ready) (snd ex_ready)"
  by (simp_all add: sources_ok_def ran_def ex_ready_def ex_defs)


lemma finalize_exact_witness:
  "map_of (projr (vf_finalize ex_venv (vf_registrations ex_vf) [(''y'', CNil)])) ''vm'' = Some (CData [(''final'', CBool True)])"
proof -
  have f: "vf_finalize ex_venv (vf_registrations ex_vf) [(''y'', CNil)]
      = Inr (projr (vf_finalize ex_venv (vf_registrations ex_vf) [(''y'', CNil)]))" by code_simp
  have d: "distinct (map fst (vf_registrations ex_vf))" by code_simp
  show ?thesis unfolding finalize_exact[OF f d] by code_simp
qed

lemma init_twice_witness:
  "vf_Init ex_venv ex_ready = Ret ex_ready () \<and> vf_root (snd ex_ready) \<noteq> None"
proof -
  have run: "vf_Init ex_venv (fst ex_world, snd ex_world) = Ret ex_ready ()"
    by (simp add: ex_ready_def) (simp add: ex_defs)
  show ?thesis
    by (rule conjI[OF init_twice[OF run ex_sources_ok(1)]])
      (simp add: ex_ready_def ex_defs)
qed

lemma deleted_value_lookup_witness:
  "GetValue (projr (DeleteValue ex_vms [''vm'', ''__defined_vms'', ''web''])) [''vm'', ''__defined_vms'', ''web''] = Inr (CInt 1)"
proof -
  have d: "DeleteValue ex_vms (''vm'' # [''__defined_vms''] @ [''web''])
     = Inr (projr (DeleteValue ex_vms [''vm'', ''__defined_vms'', ''web'']))" by code_simp
  have g: "GetValue ex_vms (''vm'' # [''__defined_vms'']) = Inr (CHash [(CSym ''web'', CInt 1)])" by code_simp
  from deleted_value_lookup[OF d g, of "''web''" "[]"] show ?thesis by (simp add: symbol_value_def)
qed

text \<open>The box of the target is that of the project.\<close>

lemma target_settings_have_no_effect_witness:
  "\<exists>s1 c root. TargetConfig ex_venv ''web'' [] False ex_ready = Ret s1 c \<and> vf_root c = Some root
     \<and> GetValue root [''vm'', ''box''] = Inr (CStr ''base'')"
proof -
  let ?w = "\<lparr>vw_sources = vw_sources (fst ex_ready),
    vw_cache = [(''lookup+id'', CachedName ''web''), (''lookup+web'', CachedName ''web'')]\<rparr>"
  note defs = ex_ready_def ex_defs TargetConfig_def fresh_config_def root_value_def GetValue_def namespace_map_def getNamespace_def
    child_def key_is_def build_config_def add_source_def source_msg_def vf_clone_def strip_vms_def with_vf_def map_err_def
    check_provider_def targetNameLookup_def vf_merge_def merge_key_def
  have lk: "targetNameLookup ex_venv ''web'' (fst ex_ready, snd ex_ready) = Ret (?w, snd ex_ready) ''web''"
    by (simp add: ex_ready_def ex_defs targetNameLookup_def)
  obtain s1 c where run: "TargetConfig ex_venv ''web'' [] False (fst ex_ready, snd ex_ready) = Ret s1 c"
    by (simp add: defs)
  have "sources_ok ?w (snd ex_ready)" using ex_sources_ok(2) by (simp add: sources_ok_def)
  from target_settings_have_no_effect[OF lk this _ _ run, of "CInt 1"]
  obtain root where root: "inherited_config ex_venv ?w (snd ex_ready) [] = Inr root" "vf_root c = Some root"
    by (auto simp: ex_ready_def ex_defs root_value_def GetValue_def namespace_map_def getNamespace_def child_def key_is_def)
  have "GetValue root [''vm'', ''box''] = Inr (CStr ''base'')"
    using root(1) by (auto simp: inherited_config_def inherited_data_def defs)
  with run root(2) show ?thesis by auto
qed

lemma part_before_namespace_blocks_it_witness:
  "\<exists>rs1. vf_Register \<lparr>cr_Identifier = ''vm'', cr_Scope = ''provider''\<rparr> True [] = Inr rs1
     \<and> isl (vf_Register \<lparr>cr_Identifier = ''vm'', cr_Scope = []\<rparr> False rs1)"
proof -
  obtain rs1 where r: "vf_Register \<lparr>cr_Identifier = ''vm'', cr_Scope = ''provider''\<rparr> True [] = Inr rs1"
    by (simp add: vf_Register_def)
  from part_before_namespace_blocks_it[OF _ _ r, of False] r show ?thesis by auto
qed

lemma lookups_ask_server_witness:
  "vw_cache (fst (left_by (targetNameLookup ex_venv ''web'' (fold (vf_step ex_venv) [OpLookup ''web''] ex_world)) ex_world))
     = [(''lookup+id'', CachedName ''web''), (''lookup+web'', CachedName ''web''),
        (''lookup+id'', CachedName ''web''), (''lookup+web'', CachedName ''web'')]"
proof -
  have "vw_cache (fst ex_world) = []" "CHR ''+'' \<notin> set ''web''" by (simp_all add: ex_defs)
  from lookups_ask_server[OF this, of ex_venv "[OpLookup ''web'']" "snd ex_world"]
  have "targetNameLookup ex_venv ''web'' (fold (vf_step ex_venv) [OpLookup ''web''] ex_world)
      = ask_server ex_venv ''web'' (fold (vf_step ex_venv) [OpLookup ''web''] ex_world)" by simp
  then show ?thesis by (simp only:) (simp add: ask_server_def vf_step_def targetNameLookup_def ex_defs)
qed

end
