(* ===== verification/Selection.thy ===== *)
theory Selection
  imports ConfigValue GoStrings
begin

text \<open>
  How the core chooses among plugins: the default provider of a project (\<open>core/project.go\<close>) and of a basis
  (\<open>core/basis.go\<close>), the host (\<open>core/basis.go\<close>), the guest and the type of synced folders of a machine
  (\<open>core/machine.go\<close>).

  What a plugin answers, the variables of the environment and the values of the Vagrantfile are arguments.
\<close>

definition preferred_list :: "string \<Rightarrow> string list" where
  "preferred_list v = filter (\<lambda>s. s \<noteq> []) (map TrimSpace (split_on (CHR '','') v))"

section \<open>Providers\<close>

text \<open>\<open>Usable\<close> returns a flag and an error.\<close>

record provider_plugin =
  pp_Name :: string
  pp_Defaultable :: bool
  pp_Priority :: int
  pp_Usable :: "bool \<times> goerr option"

text \<open>A target of the Vagrantfile: its provider, and the order of the providers in its configuration.\<close>

record target_view =
  tw_Provider :: string
  tw_order :: "goerr + cfg"

record provider_options =
  do_ForceDefault :: bool
  do_CheckUsable :: bool
  do_Exclude :: "string \<Rightarrow> bool"

text \<open>The environment, the targets that the Vagrantfile names, and the plugins in the order they are listed; loading a
  target or a plugin may fail.\<close>

record selection_env =
  se_getenv :: "string \<Rightarrow> string"
  se_names :: "goerr + string list"
  se_target :: "string \<Rightarrow> goerr + target_view"
  se_plugins :: "goerr + string list"
  se_plugin :: "string \<Rightarrow> goerr + provider_plugin"

fun strings_of :: "cfg list \<Rightarrow> goerr + string list" where
  "strings_of [] = Inr []"
| "strings_of (x # xs) =
     (case optionToString x of
        Inl _ \<Rightarrow> Inl (OtherError ''unexpected type for target provider'')
      | Inr s \<Rightarrow> map_sum id ((#) s) (strings_of xs))"

text \<open>The providers of the configuration in order. When a target cannot be loaded the whole search ends without a
  provider and without an error: \<open>None\<close>.\<close>

fun config_providers :: "selection_env \<Rightarrow> string list \<Rightarrow> goerr + string list option" where
  "config_providers se [] = Inr (Some [])"
| "config_providers se (n # ns) =
     (case se_target se n of
        Inl _ \<Rightarrow> Inr None
      | Inr t \<Rightarrow>
          if tw_Provider t \<noteq> [] then map_sum id (map_option ((#) (tw_Provider t))) (config_providers se ns)
          else (case tw_order t of
                  Inl _ \<Rightarrow> config_providers se ns
                | Inr (CArr xs) \<Rightarrow>
                    (case strings_of xs of
                       Inl e \<Rightarrow> Inl e
                     | Inr ps \<Rightarrow> map_sum id (map_option ((@) ps)) (config_providers se ns))
                | Inr _ \<Rightarrow> Inl (OtherError ''unexpected type for target provider list'')))"

text \<open>The candidates of a project.\<close>

fun usable_providers ::
  "selection_env \<Rightarrow> provider_options \<Rightarrow> string list \<Rightarrow> string list \<Rightarrow> goerr + provider_plugin list" where
  "usable_providers se opts cfgs [] = Inr []"
| "usable_providers se opts cfgs (n # ns) =
     (if do_Exclude opts n then usable_providers se opts cfgs ns
      else (case se_plugin se n of
              Inl e \<Rightarrow> Inl e
            | Inr p \<Rightarrow>
                if \<not> pp_Defaultable p \<and> n \<notin> set cfgs then usable_providers se opts cfgs ns
                else if do_CheckUsable opts \<and> \<not> fst (pp_Usable p) then usable_providers se opts cfgs ns
                else (case (if do_CheckUsable opts then snd (pp_Usable p) else None) of
                        Some e \<Rightarrow> Inl e
                      | None \<Rightarrow> map_sum id ((#) p) (usable_providers se opts cfgs ns))))"

definition by_priority :: "provider_plugin list \<Rightarrow> provider_plugin list" where
  "by_priority ps = sort_key (\<lambda>p. - pp_Priority p) ps"

definition provider_named :: "string \<Rightarrow> provider_plugin list \<Rightarrow> bool" where
  "provider_named n ps \<longleftrightarrow> list_ex (\<lambda>p. pp_Name p = n) ps"

text \<open>The steps of the search, each a loop that returns the first hit.\<close>

definition choose_provider :: "string \<Rightarrow> string list \<Rightarrow> string list \<Rightarrow> provider_plugin list \<Rightarrow> goerr + string" where
  "choose_provider dflt pref cfgs ps =
     (case find (\<lambda>u. pp_Name u = dflt) ps of
        Some u \<Rightarrow> Inr (pp_Name u)
      | None \<Rightarrow>
     (case find (\<lambda>c. provider_named c ps \<and> c \<in> set pref) cfgs of
        Some c \<Rightarrow> Inr c
      | None \<Rightarrow>
     (case find (\<lambda>c. provider_named c ps) cfgs of
        Some c \<Rightarrow> Inr c
      | None \<Rightarrow>
     (case find (\<lambda>c. provider_named c ps) pref of
        Some c \<Rightarrow> Inr c
      | None \<Rightarrow> (case ps of [] \<Rightarrow> Inl (OtherError ''No default provider.'') | u # _ \<Rightarrow> Inr (pp_Name u))))))"

definition Project_DefaultProvider :: "selection_env \<Rightarrow> provider_options \<Rightarrow> goerr + string" where
  "Project_DefaultProvider se opts =
     (let dflt = se_getenv se ''VAGRANT_DEFAULT_PROVIDER''
      in if dflt \<noteq> [] \<and> do_ForceDefault opts then Inr dflt
         else (case se_names se of
                 Inl e \<Rightarrow> Inl e
               | Inr ns \<Rightarrow>
                   (case config_providers se ns of
                      Inl e \<Rightarrow> Inl e
                    | Inr None \<Rightarrow> Inr []
                    | Inr (Some cfgs) \<Rightarrow>
                        (case se_plugins se of
                           Inl e \<Rightarrow> Inl e
                         | Inr ls \<Rightarrow>
                             (case usable_providers se opts cfgs ls of
                                Inl e \<Rightarrow> Inl e
                              | Inr ps \<Rightarrow>
                                  choose_provider dflt (preferred_list (se_getenv se ''VAGRANT_PREFERRED_PROVIDERS'')) cfgs
                                    (by_priority ps))))))"

fun usable_in_basis :: "selection_env \<Rightarrow> string list \<Rightarrow> goerr + provider_plugin list" where
  "usable_in_basis se [] = Inr []"
| "usable_in_basis se (n # ns) =
     (case se_plugin se n of
        Inl e \<Rightarrow> Inl e
      | Inr p \<Rightarrow>
          if \<not> pp_Defaultable p then usable_in_basis se ns
          else (case snd (pp_Usable p) of
                  Some e \<Rightarrow> Inl e
                | None \<Rightarrow> if fst (pp_Usable p) then map_sum id ((#) p) (usable_in_basis se ns) else usable_in_basis se ns))"

definition Basis_DefaultProvider :: "selection_env \<Rightarrow> goerr + string" where
  "Basis_DefaultProvider se =
     (let dflt = se_getenv se ''VAGRANT_DEFAULT_PROVIDER''
      in if dflt \<noteq> [] then Inr dflt
         else (case se_plugins se of
                 Inl e \<Rightarrow> Inl e
               | Inr ls \<Rightarrow>
                   (case usable_in_basis se ls of
                      Inl e \<Rightarrow> Inl e
                    | Inr ps \<Rightarrow>
                        (case find (\<lambda>c. provider_named c (by_priority ps))
                                (preferred_list (se_getenv se ''VAGRANT_PREFERRED_PROVIDERS'')) of
                           Some c \<Rightarrow> Inr c
                         | None \<Rightarrow> (case by_priority ps of
                                      [] \<Rightarrow> Inl (OtherError ''No default provider.'')
                                    | u # _ \<Rightarrow> Inr (pp_Name u))))))"

text \<open>The provider of a target is chosen once and then kept in the target, which is the second component.\<close>

definition ProviderName :: "selection_env \<Rightarrow> string \<Rightarrow> (goerr + string) \<times> string" where
  "ProviderName se prov =
     (if prov \<noteq> [] then (Inr prov, prov)
      else (case Project_DefaultProvider se
                   \<lparr>do_ForceDefault = False, do_CheckUsable = True, do_Exclude = (\<lambda>_. False)\<rparr> of
              Inl e \<Rightarrow> (Inl e, prov)
            | Inr p \<Rightarrow> (Inr p, p)))"

section \<open>Host\<close>

text \<open>The plugins of a kind, in the order a loop over their map meets them, with what detection returns and how many
  parents they have.\<close>

record 'a detectable =
  dt_plugin :: 'a
  dt_detect :: "goerr + bool"
  dt_parents :: nat

fun host_loop :: "'a detectable list \<Rightarrow> 'a detectable option \<Rightarrow> 'a detectable option" where
  "host_loop [] res = res"
| "host_loop (h # hs) res =
     (case dt_detect h of
        Inl _ \<Rightarrow> host_loop hs res
      | Inr detected \<Rightarrow>
          (case res of
             None \<Rightarrow> host_loop hs (if detected then Some h else None)
           | Some r \<Rightarrow> host_loop hs (if detected \<and> dt_parents r < dt_parents h then Some h else res)))"

text \<open>The cache comes first. The result is the host and the cache.\<close>

definition Basis_Host :: "goerr + 'a detectable list \<Rightarrow> 'a option \<Rightarrow> (goerr + 'a) \<times> 'a option" where
  "Basis_Host hosts cache =
     (case cache of
        Some h \<Rightarrow> (Inr h, cache)
      | None \<Rightarrow>
          (case hosts of
             Inl e \<Rightarrow> (Inl e, cache)
           | Inr hs \<Rightarrow>
               (case host_loop hs None of
                  None \<Rightarrow> (Inl (OtherError ''failed to detect host plugin for current platform''), cache)
                | Some r \<Rightarrow> (Inr (dt_plugin r), Some (dt_plugin r)))))"

section \<open>Guest\<close>

text \<open>The calls that change something: a plugin is seeded, or put into the cache of the machine.\<close>

datatype 'a guest_event = Seed 'a | Register 'a

record 'a guest_in =
  gi_ready :: "goerr + bool"
  gi_value :: "goerr + cfg"
  gi_named :: "string \<Rightarrow> goerr + 'a"
  gi_guests :: "goerr + 'a detectable list"
  gi_seed :: "'a \<Rightarrow> goerr option"

text \<open>The guests are given in an order that the sort by parents may produce.\<close>

definition sorted_by_parents :: "'a detectable list \<Rightarrow> bool" where
  "sorted_by_parents gs \<longleftrightarrow> sorted_wrt (\<lambda>a b. dt_parents b \<le> dt_parents a) gs"

definition guest_loop :: "'a detectable list \<Rightarrow> 'a detectable option" where
  "guest_loop gs = find (\<lambda>g. dt_detect g = Inr True) gs"

text \<open>What the deferred function does with the guest that is returned: the cached one too is seeded and registered. With
  an error of seeding both the guest and the error are returned.\<close>

definition guest_found :: "'a guest_in \<Rightarrow> 'a \<Rightarrow> ('a option \<times> goerr option) \<times> 'a guest_event list" where
  "guest_found gi g =
     (case gi_seed gi g of
        None \<Rightarrow> ((Some g, None), [Seed g, Register g])
      | Some e \<Rightarrow> ((Some g, Some e), [Seed g]))"

definition detect_guest :: "'a guest_in \<Rightarrow> ('a option \<times> goerr option) \<times> 'a guest_event list" where
  "detect_guest gi =
     (case gi_guests gi of
        Inl e \<Rightarrow> ((None, Some e), [])
      | Inr gs \<Rightarrow>
          (case guest_loop gs of
             None \<Rightarrow> ((None, Some (OtherError ''failed to detect guest plugin for current platform'')), [])
           | Some g \<Rightarrow> guest_found gi (dt_plugin g)))"

definition Guest :: "'a guest_in \<Rightarrow> 'a option \<Rightarrow> ('a option \<times> goerr option) \<times> 'a guest_event list" where
  "Guest gi cache =
     (case gi_ready gi of
        Inl e \<Rightarrow> ((None, Some e), [])
      | Inr False \<Rightarrow> ((None, Some (OtherError ''unable to communicate with guest'')), [])
      | Inr True \<Rightarrow>
          (case cache of
             Some g \<Rightarrow> guest_found gi g
           | None \<Rightarrow>
               (case gi_value gi of
                  Inr (CStr n) \<Rightarrow>
                    (case gi_named gi n of Inl e \<Rightarrow> ((None, Some e), []) | Inr g \<Rightarrow> guest_found gi g)
                | _ \<Rightarrow> detect_guest gi)))"

section \<open>Synced folders\<close>

record folder_plugin =
  fo_Name :: string
  fo_Priority :: int
  fo_Usable :: "goerr + bool"

text \<open>A value of the list that is not a string allows the empty name; a value that is not a list allows everything.\<close>

definition allowed_types :: "goerr + cfg \<Rightarrow> string list option" where
  "allowed_types v =
     (case v of
        Inr (CArr xs) \<Rightarrow>
          if xs = [] then None else Some (map (\<lambda>x. case optionToString x of Inl _ \<Rightarrow> [] | Inr s \<Rightarrow> s) xs)
      | _ \<Rightarrow> None)"

fun load_folders :: "(string \<Rightarrow> goerr + folder_plugin) \<Rightarrow> string list \<Rightarrow> goerr + folder_plugin list" where
  "load_folders get [] = Inr []"
| "load_folders get (n # ns) =
     (case get n of
        Inl e \<Rightarrow> Inl (OtherError ''error while loading synced folder plugin'')
      | Inr p \<Rightarrow> map_sum id ((#) p) (load_folders get ns))"

definition defaultSyncedFolderType ::
  "goerr + string list \<Rightarrow> (string \<Rightarrow> goerr + folder_plugin) \<Rightarrow> goerr + cfg \<Rightarrow> goerr + string" where
  "defaultSyncedFolderType names get allowed =
     (case names of
        Inl e \<Rightarrow> Inl e
      | Inr ns \<Rightarrow>
          (case load_folders get ns of
             Inl e \<Rightarrow> Inl e
           | Inr ps \<Rightarrow>
               (let sorted_ps = sort_key (\<lambda>p. - fo_Priority p) ps;
                    ok = (case allowed_types allowed of None \<Rightarrow> sorted_ps | Some ts \<Rightarrow> filter (\<lambda>p. fo_Name p \<in> set ts) sorted_ps)
                in case find (\<lambda>p. fo_Usable p = Inr True) ok of
                     Some p \<Rightarrow> Inr (fo_Name p)
                   | None \<Rightarrow> Inl (OtherError ''failed to detect guest plugin for current platform''))))"

text \<open>The folders of a machine: every entry of the configuration with its type, its plugin, its paths and its options.
  The plugins that were used are cached.\<close>

record 'a synced_folder =
  sf_plugin :: 'a
  sf_source :: string
  sf_destination :: string
  sf_options :: "(string \<times> cfg) list"

record 'a folder_env =
  fe_default :: "goerr + string"
  fe_component :: "string \<Rightarrow> goerr + 'a"
  fe_seed :: "'a \<Rightarrow> goerr option"

text \<open>Of two options whose keys have the same name the later one is kept.\<close>

fun option_keys :: "(cfg \<times> cfg) list \<Rightarrow> goerr + (string \<times> cfg) list" where
  "option_keys [] = Inr []"
| "option_keys ((k, v) # xs) =
     (case optionToString k of Inl e \<Rightarrow> Inl e | Inr s \<Rightarrow>
       map_sum id (\<lambda>r. if s \<in> fst ` set r then r else (s, v) # r) (option_keys xs))"

definition folder_type :: "'a folder_env \<Rightarrow> (cfg \<times> cfg) list \<Rightarrow> goerr + string" where
  "folder_type fe opts =
     and_then (case getOptionValue ''type'' opts of None \<Rightarrow> Inr [] | Some v \<Rightarrow> optionToString v)
       (\<lambda>t. if t = [] then fe_default fe else Inr t)"

definition folder_plugin_for ::
  "'a folder_env \<Rightarrow> string \<Rightarrow> (string \<rightharpoonup> 'a) \<Rightarrow> goerr + 'a \<times> (string \<rightharpoonup> 'a)" where
  "folder_plugin_for fe t cache =
     (case cache (''syncedfolder_'' @ t) of
        Some p \<Rightarrow> Inr (p, cache)
      | None \<Rightarrow> map_sum id (\<lambda>p. (p, cache(''syncedfolder_'' @ t \<mapsto> p))) (fe_component fe t))"

definition folder_of :: "'a \<Rightarrow> (cfg \<times> cfg) list \<Rightarrow> goerr + 'a synced_folder" where
  "folder_of p opts =
     (case (getOptionValue ''guestpath'' opts, getOptionValue ''hostpath'' opts) of
        (Some g, Some h) \<Rightarrow>
          and_then (optionToString g) (\<lambda>g. and_then (optionToString h) (\<lambda>h. and_then (option_keys opts) (\<lambda>os.
            Inr \<lparr>sf_plugin = p, sf_source = h, sf_destination = g, sf_options = os\<rparr>)))
      | (None, _) \<Rightarrow> Inl (OtherError ''synced folder options do not include guest path value'')
      | (_, None) \<Rightarrow> Inl (OtherError ''synced folder options do not include host path value''))"

fun synced_folders ::
  "'a folder_env \<Rightarrow> (cfg \<times> cfg) list list \<Rightarrow> (string \<rightharpoonup> 'a) \<Rightarrow> goerr + 'a synced_folder list" where
  "synced_folders fe [] cache = Inr []"
| "synced_folders fe (opts # rest) cache =
     and_then (folder_type fe opts) (\<lambda>t.
     and_then (folder_plugin_for fe t cache) (\<lambda>(p, cache).
     (case fe_seed fe p of
        Some e \<Rightarrow> Inl e
      | None \<Rightarrow>
          and_then (folder_of p opts) (\<lambda>f. map_sum id ((#) f) (synced_folders fe rest cache)))))"

text \<open>The entries of the configuration by the name of their key. A value that is not a map is an empty one.\<close>

fun folder_entries :: "(cfg \<times> cfg) list \<Rightarrow> (string \<times> (cfg \<times> cfg) list) list \<Rightarrow> goerr + (string \<times> (cfg \<times> cfg) list) list" where
  "folder_entries [] acc = Inr acc"
| "folder_entries ((k, v) # xs) acc =
     (case optionToString k of
        Inl _ \<Rightarrow> Inl (OtherError ''invalid configuration type for synced folder key'')
      | Inr s \<Rightarrow> folder_entries xs (filter (\<lambda>e. fst e \<noteq> s) acc @ [(s, case v of CHash m \<Rightarrow> m | _ \<Rightarrow> [])]))"

definition SyncedFolders ::
  "'a folder_env \<Rightarrow> goerr + cfg \<Rightarrow> (string \<rightharpoonup> 'a) \<Rightarrow> goerr + 'a synced_folder list" where
  "SyncedFolders fe raw cache =
     and_then raw (\<lambda>v. case v of
         CHash m \<Rightarrow> and_then (folder_entries m []) (\<lambda>es. synced_folders fe (map snd es) cache)
       | _ \<Rightarrow> Inl (OtherError ''invalid configuration type for synced folders''))"

end
