(* ===== verification/SelectionClaims.thy ===== *)
theory SelectionClaims
  imports Selection
begin

text \<open>
  What the choices of \<open>Selection\<close> promise: the order of preference of the providers, that a provider
  that is returned was allowed, that projects and bases agree, and that hosts, guests and synced folders are the best
  of those that are usable.
\<close>

section \<open>Lemmas on lists\<close>

lemma find_append: "find P (xs @ ys) = (case find P xs of None \<Rightarrow> find P ys | Some x \<Rightarrow> Some x)"
  by (induction xs) auto

lemma find_filter: "find P (filter Q xs) = find (\<lambda>x. P x \<and> Q x) xs"
  by (induction xs) auto

lemma find_SomeD: "find P xs = Some x \<Longrightarrow> x \<in> set xs \<and> P x"
  by (induction xs) (auto split: if_splits)

lemma find_sorted:
  assumes "sorted_wrt R xs" and "find P xs = Some x" and "y \<in> set xs" and "P y" and "R x x"
  shows "R x y"
  using assms by (induction xs) (auto split: if_splits)

lemma map_sum_Inr_iff [simp]: "map_sum f g x = Inr z \<longleftrightarrow> (\<exists>y. x = Inr y \<and> z = g y)"
  by (cases x) auto

section \<open>Providers\<close>

lemma provider_named_iff: "provider_named n ps \<longleftrightarrow> n \<in> pp_Name ` set ps"
  by (auto simp: provider_named_def list_ex_iff)

lemma set_by_priority [simp]: "set (by_priority ps) = set ps"
  by (simp add: by_priority_def)

lemma find_own_name:
  "find (\<lambda>c. provider_named c ps) (map pp_Name ps) = (case ps of [] \<Rightarrow> None | u # _ \<Rightarrow> Some (pp_Name u))"
  by (cases ps) (auto simp: provider_named_def)

lemma find_default:
  "(case find (\<lambda>u. pp_Name u = n) ps of Some u \<Rightarrow> Some (pp_Name u) | None \<Rightarrow> None)
     = (if provider_named n ps then Some n else None)"
  by (induction ps) (auto simp: provider_named_def)

text \<open>The names in the order in which they are preferred.\<close>

definition preference :: "string \<Rightarrow> string list \<Rightarrow> string list \<Rightarrow> provider_plugin list \<Rightarrow> string list" where
  "preference dflt pref cfgs ps = [dflt] @ filter (\<lambda>c. c \<in> set pref) cfgs @ cfgs @ pref @ map pp_Name ps"

definition first_of :: "(string \<Rightarrow> bool) \<Rightarrow> string list \<Rightarrow> goerr + string" where
  "first_of P ns = (case find P ns of Some c \<Rightarrow> Inr c | None \<Rightarrow> Inl (OtherError ''No default provider.''))"

lemma choose_provider_first_of:
  "choose_provider dflt pref cfgs ps = first_of (\<lambda>c. provider_named c ps) (preference dflt pref cfgs ps)"
proof (cases "find (\<lambda>u. pp_Name u = dflt) ps")
  case None
  then have "\<not> provider_named dflt ps" using find_default[of dflt ps] by (auto split: if_splits)
  with None show ?thesis
    by (simp add: choose_provider_def first_of_def preference_def find_append find_filter find_own_name
        split: option.split list.split)
next
  case (Some u)
  then have "pp_Name u = dflt" "provider_named dflt ps"
    by (auto dest!: find_SomeD simp: provider_named_iff)
  with Some show ?thesis by (simp add: choose_provider_def first_of_def preference_def)
qed

lemma choose_provider_named: "choose_provider dflt pref cfgs ps = Inr n \<Longrightarrow> provider_named n ps"
  unfolding choose_provider_first_of first_of_def by (auto split: option.splits dest: find_SomeD)

lemma usable_providers_sound:
  assumes "usable_providers se opts cfgs ns = Inr ps" and "p \<in> set ps"
  shows "\<exists>n \<in> set ns. se_plugin se n = Inr p \<and> \<not> do_Exclude opts n \<and> (pp_Defaultable p \<or> n \<in> set cfgs)
           \<and> (do_CheckUsable opts \<longrightarrow> pp_Usable p = (True, None))"
  using assms
proof (induction ns arbitrary: ps)
  case (Cons n ns)
  then show ?case
    by (cases "se_plugin se n")
      (auto split: if_splits option.splits sum.splits simp: prod_eq_iff)
qed simp

lemma Project_DefaultProvider_cases:
  assumes "Project_DefaultProvider se opts = Inr n" and "n \<noteq> []"
  obtains (forced) "n = se_getenv se ''VAGRANT_DEFAULT_PROVIDER''" "do_ForceDefault opts"
  | (chosen) ns cfgs ls ps where "se_names se = Inr ns" "config_providers se ns = Inr (Some cfgs)"
      "se_plugins se = Inr ls" "usable_providers se opts cfgs ls = Inr ps" "provider_named n ps"
  using assms unfolding Project_DefaultProvider_def Let_def
  by (auto split: if_splits sum.splits option.splits dest!: choose_provider_named
      simp: provider_named_iff)

definition two_providers :: "string list \<Rightarrow> selection_env" where
  "two_providers ts =
     \<lparr>se_getenv = (\<lambda>v. if v = ''VAGRANT_PREFERRED_PROVIDERS'' then '' docker , libvirt'' else []),
      se_names = Inr ts,
      se_target = (\<lambda>n. Inr \<lparr>tw_Provider = [], tw_order = Inr (CArr [CSym ''hyperv'', CStr ''libvirt''])\<rparr>),
      se_plugins = Inr [''virtualbox'', ''libvirt''],
      se_plugin = (\<lambda>n. Inr \<lparr>pp_Name = n, pp_Defaultable = n = ''virtualbox'',
                             pp_Priority = (if n = ''virtualbox'' then 6 else 5), pp_Usable = (True, None)\<rparr>)\<rparr>"

definition checked :: provider_options where
  "checked = \<lparr>do_ForceDefault = False, do_CheckUsable = True, do_Exclude = (\<lambda>_. False)\<rparr>"

lemma two_providers_run:
  "\<not> do_ForceDefault checked"
  "se_names (two_providers [''web'']) = Inr [''web'']"
  "config_providers (two_providers [''web'']) [''web''] = Inr (Some [''hyperv'', ''libvirt''])"
  "se_plugins (two_providers [''web'']) = Inr [''virtualbox'', ''libvirt'']"
  "usable_providers (two_providers [''web'']) checked [''hyperv'', ''libvirt''] [''virtualbox'', ''libvirt''] =
     Inr [\<lparr>pp_Name = ''virtualbox'', pp_Defaultable = True, pp_Priority = 6, pp_Usable = (True, None)\<rparr>,
          \<lparr>pp_Name = ''libvirt'', pp_Defaultable = False, pp_Priority = 5, pp_Usable = (True, None)\<rparr>]"
  by (code_simp)+



text \<open>the provider that a project chooses is forced by the environment, or it is the name of a listed plugin that
  the caller did not exclude, that may be a default or is named in the configuration, and that is usable when the caller
  asks for a check.\<close>

theorem chosen_provider_is_allowed:
  assumes "Project_DefaultProvider se opts = Inr n" and "n \<noteq> []"
  shows "(do_ForceDefault opts \<and> n = se_getenv se ''VAGRANT_DEFAULT_PROVIDER'')
    \<or> (\<exists>ls l p ns cfgs. se_plugins se = Inr ls \<and> l \<in> set ls \<and> se_plugin se l = Inr p \<and> pp_Name p = n
         \<and> \<not> do_Exclude opts l \<and> (do_CheckUsable opts \<longrightarrow> pp_Usable p = (True, None))
         \<and> se_names se = Inr ns \<and> config_providers se ns = Inr (Some cfgs) \<and> (pp_Defaultable p \<or> l \<in> set cfgs))"
  using assms
proof (cases rule: Project_DefaultProvider_cases)
  case (chosen ns cfgs ls ps)
  then obtain p where "p \<in> set ps" "pp_Name p = n" by (auto simp: provider_named_iff)
  moreover from usable_providers_sound[OF chosen(4) this(1)] obtain l where "l \<in> set ls" "se_plugin se l = Inr p"
    "\<not> do_Exclude opts l" "pp_Defaultable p \<or> l \<in> set cfgs" "do_CheckUsable opts \<longrightarrow> pp_Usable p = (True, None)"
    by auto
  ultimately show ?thesis using chosen by blast
qed auto

theorem chosen_provider_is_allowed_witness:
  "\<exists>l p. l \<in> {''virtualbox'', ''libvirt''} \<and> se_plugin (two_providers [''web'']) l = Inr p \<and> pp_Name p = ''libvirt''"
proof -
  have pref: "preferred_list '' docker , libvirt'' = [''docker'', ''libvirt'']" by code_simp
  have "Project_DefaultProvider (two_providers [''web'']) checked = Inr ''libvirt''"
    using two_providers_run
    by (simp add: Project_DefaultProvider_def choose_provider_def provider_named_def by_priority_def pref two_providers_def)
  from chosen_provider_is_allowed[OF this] show ?thesis
    by (auto simp: two_providers_def checked_def)
qed

text \<open>A project without targets and a basis.\<close>

lemma usable_providers_basis:
  assumes "do_CheckUsable opts" and "do_Exclude opts = (\<lambda>_. False)"
    and "\<And>n p. n \<in> set ns \<Longrightarrow> se_plugin se n = Inr p \<Longrightarrow> snd (pp_Usable p) = None"
  shows "usable_providers se opts [] ns = usable_in_basis se ns"
  using assms(3)
proof (induction ns)
  case (Cons n ns)
  then have "usable_providers se opts [] ns = usable_in_basis se ns" by (meson list.set_intros(2))
  with assms(1,2) Cons.prems[of n] show ?case
    by (cases "se_plugin se n") simp_all
qed (simp)

lemma usable_in_basis_sound:
  assumes "usable_in_basis se ns = Inr ps" and "p \<in> set ps"
  shows "\<exists>n \<in> set ns. se_plugin se n = Inr p"
  using assms
proof (induction ns arbitrary: ps)
  case (Cons n ns)
  then show ?case by (cases "se_plugin se n") (auto split: if_splits option.splits)
qed simp

text \<open>when the environment names no default and the Vagrantfile names no target, a project that checks for usable
  plugins and excludes none chooses what its basis chooses, as long as no plugin has an empty name and asking whether a
  plugin is usable never fails: a failure ends the search of a basis, while a project skips a plugin that fails and is
  not usable.\<close>

theorem project_agrees_with_basis:
  assumes "se_getenv se ''VAGRANT_DEFAULT_PROVIDER'' = []" and "se_names se = Inr []"
    and "do_CheckUsable opts" and "do_Exclude opts = (\<lambda>_. False)"
    and "\<And>n p. se_plugin se n = Inr p \<Longrightarrow> snd (pp_Usable p) = None \<and> pp_Name p \<noteq> []"
  shows "Project_DefaultProvider se opts = Basis_DefaultProvider se"
proof (cases "se_plugins se")
  case (Inr ls)
  have eq: "usable_providers se opts [] ls = usable_in_basis se ls"
    using assms by (intro usable_providers_basis) auto
  show ?thesis
  proof (cases "usable_in_basis se ls")
    case r: (Inr ps)
    have "find (\<lambda>u. pp_Name u = []) (by_priority ps) = None"
      using usable_in_basis_sound[OF r] assms(5) by (fastforce simp: find_None_iff)
    with assms Inr r eq show ?thesis
      by (simp add: Project_DefaultProvider_def Basis_DefaultProvider_def choose_provider_def)
  qed (use assms Inr eq in \<open>simp add: Project_DefaultProvider_def Basis_DefaultProvider_def\<close>)
qed (use assms in \<open>simp add: Project_DefaultProvider_def Basis_DefaultProvider_def\<close>)

theorem project_agrees_with_basis_witness:
  "Project_DefaultProvider
     ((two_providers []) \<lparr>se_plugin := \<lambda>n. Inr \<lparr>pp_Name = ''docker'', pp_Defaultable = True, pp_Priority = 1,
        pp_Usable = (True, None)\<rparr>\<rparr>) checked =
   Basis_DefaultProvider
     ((two_providers []) \<lparr>se_plugin := \<lambda>n. Inr \<lparr>pp_Name = ''docker'', pp_Defaultable = True, pp_Priority = 1,
        pp_Usable = (True, None)\<rparr>\<rparr>)"
  by (rule project_agrees_with_basis) (auto simp: two_providers_def checked_def)

section \<open>Host and guest\<close>

definition best_of :: "'a detectable list \<Rightarrow> 'a detectable \<Rightarrow> bool" where
  "best_of hs h \<longleftrightarrow>
     h \<in> set hs \<and> dt_detect h = Inr True
     \<and> (\<forall>x \<in> set hs. dt_detect x = Inr True \<longrightarrow> dt_parents x \<le> dt_parents h)"

lemma host_loop_from_Some:
  assumes "dt_detect r = Inr True"
  shows "\<exists>h. host_loop hs (Some r) = Some h \<and> best_of (r # hs) h"
  using assms
proof (induction hs arbitrary: r)
  case (Cons x xs)
  show ?case
  proof (cases "dt_detect x = Inr True \<and> dt_parents r < dt_parents x")
    case True
    with Cons.IH[of x] show ?thesis by (force simp: best_of_def)
  next
    case False
    then have eq: "host_loop (x # xs) (Some r) = host_loop xs (Some r)" by (auto split: sum.split)
    obtain h where "host_loop xs (Some r) = Some h" "best_of (r # xs) h" using Cons by blast
    with False Cons.prems have "best_of (r # x # xs) h" by (auto simp: best_of_def)
    with \<open>host_loop xs (Some r) = Some h\<close> show ?thesis unfolding eq by blast
  qed
qed (simp add: best_of_def)

lemma host_loop_None:
  "case host_loop hs None of None \<Rightarrow> (\<forall>x \<in> set hs. dt_detect x \<noteq> Inr True) | Some h \<Rightarrow> best_of hs h"
proof (induction hs)
  case (Cons x xs)
  show ?case
  proof (cases "dt_detect x = Inr True")
    case True
    with host_loop_from_Some[of x xs] show ?thesis by auto
  next
    case False
    then have "host_loop (x # xs) None = host_loop xs None" by (auto split: sum.split)
    with False Cons show ?thesis by (auto simp: best_of_def split: option.splits)
  qed
qed simp

lemma guest_loop_cases:
  assumes "sorted_by_parents gs"
  shows "case guest_loop gs of None \<Rightarrow> (\<forall>x \<in> set gs. dt_detect x \<noteq> Inr True) | Some g \<Rightarrow> best_of gs g"
proof (cases "guest_loop gs")
  case None
  then have "\<forall>x \<in> set gs. dt_detect x \<noteq> Inr True" by (auto simp: guest_loop_def find_None_iff)
  with None show ?thesis by simp
next
  case (Some g)
  with assms show ?thesis
    by (auto simp: best_of_def guest_loop_def sorted_by_parents_def dest: find_SomeD intro: find_sorted)
qed

lemma best_of_same_parents:
  "set gs = set hs \<Longrightarrow> best_of gs g \<Longrightarrow> best_of hs h \<Longrightarrow> dt_parents g = dt_parents h"
  by (force simp: best_of_def intro: le_antisym)

text \<open>C31: whatever the order in which the hosts are met, the host that is found is detected and none of the detected
  ones has more parents, and it is put into the cache; when no host is detected, or some host fails and the others are
  not detected, an error is returned and the cache stays empty.\<close>

theorem host_has_most_parents:
  "case Basis_Host (Inr hs) None of
     (Inr h, cache) \<Rightarrow> cache = Some h \<and> (\<exists>d. best_of hs d \<and> dt_plugin d = h)
   | (Inl e, cache) \<Rightarrow> cache = None \<and> list_all (\<lambda>x. dt_detect x \<noteq> Inr True) hs"
  using host_loop_None[of hs] by (auto simp: Basis_Host_def list_all_iff split: option.splits)

text \<open>the loop over the hosts, in any order, and the loop over the guests, sorted by their parents, are two ways to
  write the same choice: over the same plugins they find nothing at the same time, and otherwise they find plugins with
  as many parents.\<close>

theorem host_and_guest_loops_agree:
  assumes "set gs = set hs" and "sorted_by_parents gs"
  shows "map_option dt_parents (guest_loop gs) = map_option dt_parents (host_loop hs None)"
  using guest_loop_cases[OF assms(2)] host_loop_None[of hs] best_of_same_parents[OF assms(1)] assms(1)
  by (auto simp: best_of_def split: option.splits)

theorem host_and_guest_loops_agree_witness:
  "map_option dt_parents
     (guest_loop [\<lparr>dt_plugin = ''ubuntu'', dt_detect = Inr True, dt_parents = 2\<rparr>,
                  \<lparr>dt_plugin = ''debian'', dt_detect = Inr True, dt_parents = 1\<rparr>]) =
   map_option dt_parents
     (host_loop [\<lparr>dt_plugin = ''debian'', dt_detect = Inr True, dt_parents = 1\<rparr>,
                 \<lparr>dt_plugin = ''ubuntu'', dt_detect = Inr True, dt_parents = 2\<rparr>] None)"
  by (rule host_and_guest_loops_agree) (auto simp: sorted_by_parents_def)

section \<open>Synced folders\<close>

lemma load_folders_sound:
  "load_folders get ns = Inr ps \<Longrightarrow> set ps = {p. \<exists>n \<in> set ns. get n = Inr p}"
proof (induction ns arbitrary: ps)
  case (Cons n ns)
  then show ?case by (cases "get n") auto
qed simp

text \<open>the type that folders get when they name none is the one of a plugin that is loaded, allowed by the
  configuration and usable, and no other such plugin has a higher priority.\<close>

theorem default_folder_type_is_best:
  assumes "defaultSyncedFolderType names get allowed = Inr t"
  shows "\<exists>ns n p. names = Inr ns \<and> n \<in> set ns \<and> get n = Inr p \<and> fo_Name p = t \<and> fo_Usable p = Inr True
    \<and> pred_option (\<lambda>ts. t \<in> set ts) (allowed_types allowed)
    \<and> (\<forall>m \<in> set ns. \<forall>q. get m = Inr q \<and> fo_Usable q = Inr True
         \<and> pred_option (\<lambda>ts. fo_Name q \<in> set ts) (allowed_types allowed) \<longrightarrow> fo_Priority q \<le> fo_Priority p)"
proof -
  define ok where "ok q \<longleftrightarrow> pred_option (\<lambda>ts. fo_Name q \<in> set ts) (allowed_types allowed)" for q :: folder_plugin
  obtain ns ps where ns: "names = Inr ns" and ps: "load_folders get ns = Inr ps"
    using assms by (auto simp: defaultSyncedFolderType_def split: sum.splits)
  define qs where "qs = filter ok (sort_key (\<lambda>p. - fo_Priority p) ps)"
  have "(case allowed_types allowed of None \<Rightarrow> sort_key (\<lambda>p. - fo_Priority p) ps
     | Some ts \<Rightarrow> filter (\<lambda>p. fo_Name p \<in> set ts) (sort_key (\<lambda>p. - fo_Priority p) ps)) = qs"
    unfolding qs_def ok_def by (cases "allowed_types allowed") simp_all
  with assms ns ps obtain p where p: "find (\<lambda>p. fo_Usable p = Inr True) qs = Some p" "fo_Name p = t"
    by (auto simp: defaultSyncedFolderType_def Let_def split: option.splits)
  have "sorted_wrt (\<lambda>p q. fo_Priority q \<le> fo_Priority p) qs"
    using sorted_sort_key[of "\<lambda>p. - fo_Priority p" ps] unfolding qs_def
    by (intro sorted_wrt_filter) (simp add: sorted_map)
  then have best: "fo_Priority q \<le> fo_Priority p" if "q \<in> set qs" "fo_Usable q = Inr True" for q
    using find_sorted[of "\<lambda>p q. fo_Priority q \<le> fo_Priority p", OF _ p(1) that] by simp
  have set_qs: "set qs = {q. ok q \<and> (\<exists>n \<in> set ns. get n = Inr q)}"
    using load_folders_sound[OF ps] by (auto simp: qs_def)
  from find_SomeD[OF p(1)] set_qs obtain n where "n \<in> set ns" "get n = Inr p" "ok p" "fo_Usable p = Inr True"
    by auto
  moreover have "fo_Priority q \<le> fo_Priority p" if "m \<in> set ns" "get m = Inr q" "fo_Usable q = Inr True" "ok q" for m q
    using best[of q] that set_qs by blast
  ultimately show ?thesis using ns p(2) unfolding ok_def by blast
qed

definition two_folders :: "string \<Rightarrow> goerr + folder_plugin" where
  "two_folders n = Inr \<lparr>fo_Name = n, fo_Priority = (if n = ''nfs'' then 5 else 10), fo_Usable = Inr (n = ''nfs'')\<rparr>"

theorem default_folder_type_is_best_witness:
  "\<exists>n \<in> {''rsync'', ''nfs''}. \<exists>p. two_folders n = Inr p \<and> fo_Name p = ''nfs'' \<and> fo_Usable p = Inr True"
proof -
  have "defaultSyncedFolderType (Inr [''rsync'', ''nfs'']) two_folders (Inl (OtherError [])) = Inr ''nfs''"
    by (simp add: defaultSyncedFolderType_def two_folders_def allowed_types_def)
  from default_folder_type_is_best[OF this] show ?thesis by auto
qed

end
