(* ===== verification/Targets.thy ===== *)
theory Targets
  imports Validation
begin

text \<open>
  The targets of the server (\<open>state/target.go\<close>, \<open>service_target.go\<close>): rows and messages, the lookups, the
  validation and the hooks around saving and deleting, and the requests.

  The database, the id generator and the errors of the libraries are arguments. A protobuf message that the server only
  keeps (metadata, configuration, record, the reference of a basis) is of type \<open>'x\<close>.
\<close>

section \<open>Messages and rows\<close>

datatype phys_state = UNKNOWN | PENDING | CREATED | DESTROYED | HALTED | NOT_CREATED

record 'x project_ref =
  pf_ResourceId :: string
  pf_Name :: string
  pf_Path :: string
  pf_Basis :: "'x option"

record 'x target_ref =
  rt_ResourceId :: string
  rt_Name :: string
  rt_Project :: "'x project_ref option"

record 'x targetpb =
  tp_ResourceId :: string
  tp_Name :: string
  tp_Project :: "'x project_ref option"
  tp_State :: phys_state
  tp_Subtargets :: "'x target_ref list"
  tp_Parent :: "'x target_ref option"
  tp_Uuid :: string
  tp_Metadata :: "'x option"
  tp_Configuration :: "'x option"
  tp_Record :: "'x option"
  tp_Provider :: string

text \<open>The columns by which targets are looked up and associated with each other; as a pattern, only the ones that are
  not zero count.\<close>

record target_key =
  tk_ID :: nat
  tk_ResourceId :: string
  tk_Uuid :: "string option"
  tk_ProjectID :: nat
  tk_Name :: string

record 'x project_row =
  pk_ID :: nat
  pk_ref :: "'x project_ref"

text \<open>The columns of a row, without the parent, which other rows may change.\<close>

record 'x trow =
  tg_ID :: nat
  tg_ResourceId :: string
  tg_Uuid :: "string option"
  tg_ProjectID :: nat
  tg_Name :: string
  tg_Configuration :: "'x option"
  tg_Metadata :: "'x option"
  tg_Provider :: "string option"
  tg_Record :: "'x option"
  tg_State :: phys_state

text \<open>A row with its associations.\<close>

record 'x target_row = "'x trow" +
  tg_Parent :: "target_key option"
  tg_ParentID :: "nat option"
  tg_Project :: "'x project_row option"
  tg_Subtargets :: "target_key list"

definition zero_key :: target_key where
  "zero_key = \<lparr>tk_ID = 0, tk_ResourceId = [], tk_Uuid = None, tk_ProjectID = 0, tk_Name = []\<rparr>"

definition zero_target :: "'x target_row" where
  "zero_target =
     \<lparr>tg_ID = 0, tg_ResourceId = [], tg_Uuid = None, tg_ProjectID = 0, tg_Name = [], tg_Configuration = None,
      tg_Metadata = None, tg_Provider = None, tg_Record = None, tg_State = UNKNOWN, tg_Parent = None, tg_ParentID = None,
      tg_Project = None, tg_Subtargets = []\<rparr>"

definition key_of :: "'x target_row \<Rightarrow> target_key" where
  "key_of t =
     \<lparr>tk_ID = tg_ID t, tk_ResourceId = tg_ResourceId t, tk_Uuid = tg_Uuid t, tk_ProjectID = tg_ProjectID t, tk_Name = tg_Name t\<rparr>"

section \<open>The environment\<close>

text \<open>Rows that match one of some patterns, or all rows when there is no pattern, in the order of their ids and with their
  associations; those of a project given
  by its resource id, with a name if it is not empty; those whose uuid contains a string; the join that is written for
  references; the project with a resource id; the number of rows that match a pattern and have another id; whether the
  resource id of a row was changed; saving a row with its associations; removing rows by their ids.\<close>

record ('d, 'x) targetdb =
  td_find :: "'d \<Rightarrow> target_key list \<Rightarrow> goerr + 'x target_row list"
  td_in_project :: "'d \<Rightarrow> string \<Rightarrow> string \<Rightarrow> goerr + 'x target_row list"
  td_like :: "'d \<Rightarrow> string \<Rightarrow> goerr + 'x target_row list"
  td_joined :: "'d \<Rightarrow> 'x project_ref \<Rightarrow> string \<Rightarrow> goerr + 'x target_row list"
  td_project :: "'d \<Rightarrow> string \<Rightarrow> goerr + 'x project_row list"
  td_count :: "'d \<Rightarrow> target_key \<Rightarrow> nat \<Rightarrow> goerr + nat"
  td_changed :: "'d \<Rightarrow> 'x target_row \<Rightarrow> bool"
  td_save :: "'d \<Rightarrow> 'x target_row \<Rightarrow> goerr + 'd"
  td_remove :: "'d \<Rightarrow> nat list \<Rightarrow> goerr + 'd"
  td_rows :: "'d \<Rightarrow> 'x trow list"

text \<open>\<open>te_errors\<close> and \<open>te_decode\<close> are the errors of the validation and of the decoder for those of some fields,
  \<open>te_zero\<close> tells whether a message has no field set, \<open>te_fresh\<close> is the next result of the id generator, and
  \<open>te_stack\<close> is how deep the stack can get.\<close>

record ('d, 'x) targetenv =
  te_db :: "('d, 'x) targetdb"
  te_errors :: "goerr list \<Rightarrow> goerr"
  te_decode :: "goerr list \<Rightarrow> goerr"
  te_zero :: "'x \<Rightarrow> bool"
  te_fresh :: "'d \<Rightarrow> goerr + string"
  te_stack :: nat

type_synonym ('d, 'a) target_result = "('d, goerr, 'a) outcome"

definition first_row :: "goerr + 'a list \<Rightarrow> goerr + 'a" where
  "first_row r = (case r of Inl e \<Rightarrow> Inl e | Inr [] \<Rightarrow> Inl RecordNotFound | Inr (x # _) \<Rightarrow> Inr x)"

section \<open>Lookups\<close>

definition TargetFromProtoRef :: "('d, 'x) targetenv \<Rightarrow> 'd \<Rightarrow> 'x target_ref option \<Rightarrow> goerr + 'x target_row" where
  "TargetFromProtoRef env d ref =
     (case ref of
        None \<Rightarrow> Inl EmptyProtoArgument
      | Some r \<Rightarrow>
          if rt_ResourceId r = [] then Inl RecordNotFound
          else first_row (td_find (te_db env) d [zero_key\<lparr>tk_ResourceId := rt_ResourceId r\<rparr>]))"

text \<open>The result of the lookup by the resource id is only looked at when it is an error.\<close>

definition TargetFromProtoRefFuzzy :: "('d, 'x) targetenv \<Rightarrow> 'd \<Rightarrow> 'x target_ref \<Rightarrow> goerr + 'x target_row" where
  "TargetFromProtoRefFuzzy env d ref =
     (case TargetFromProtoRef env d (Some ref) of
        Inl e \<Rightarrow> if is_not_found e then
            (case rt_Project ref of
               None \<Rightarrow> Inl MissingProtoParent
             | Some p \<Rightarrow> if rt_Name ref = [] then Inl RecordNotFound else first_row (td_joined (te_db env) d p (rt_Name ref)))
          else Inl e
      | Inr _ \<Rightarrow>
          (case rt_Project ref of
             None \<Rightarrow> Inl MissingProtoParent
           | Some p \<Rightarrow> if rt_Name ref = [] then Inl RecordNotFound else first_row (td_joined (te_db env) d p (rt_Name ref))))"

definition TargetFromProto :: "('d, 'x) targetenv \<Rightarrow> 'd \<Rightarrow> 'x targetpb \<Rightarrow> goerr + 'x target_row" where
  "TargetFromProto env d t =
     TargetFromProtoRef env d (Some \<lparr>rt_ResourceId = tp_ResourceId t, rt_Name = [], rt_Project = None\<rparr>)"

definition TargetFromProtoFuzzy :: "('d, 'x) targetenv \<Rightarrow> 'd \<Rightarrow> 'x targetpb \<Rightarrow> goerr + 'x target_row" where
  "TargetFromProtoFuzzy env d t =
     (case TargetFromProto env d t of
        Inr x \<Rightarrow> Inr x
      | Inl e \<Rightarrow>
          if \<not> is_not_found e then Inl e
          else if tp_Uuid t = [] \<and> tp_Name t = [] then Inl RecordNotFound
          else (case tp_Project t of
                  None \<Rightarrow>
                    if tp_Uuid t = [] then Inl MissingProtoParent
                    else first_row (td_like (te_db env) d (tp_Uuid t))
                | Some p \<Rightarrow> first_row (td_in_project (te_db env) d (pf_ResourceId p) (tp_Name t))))"

text \<open>The project of a message (\<open>ProjectFromProtoRef\<close> of \<open>state/project.go\<close>).\<close>

definition ProjectFromProtoRef :: "('d, 'x) targetenv \<Rightarrow> 'd \<Rightarrow> 'x project_ref option \<Rightarrow> goerr + 'x project_row" where
  "ProjectFromProtoRef env d ref =
     (case ref of
        None \<Rightarrow> Inl EmptyProtoArgument
      | Some r \<Rightarrow> if pf_ResourceId r = [] then Inl RecordNotFound else first_row (td_project (te_db env) d (pf_ResourceId r)))"

section \<open>Saving\<close>

definition checkSameProject :: "nat \<Rightarrow> nat \<Rightarrow> field_check" where
  "checkSameProject parent own =
     (if own \<noteq> parent then Bad (ValidationError ''project must match parent project'') else Good)"

definition required_if :: "bool \<Rightarrow> bool \<Rightarrow> field_check" where
  "required_if cond present = (if cond \<and> \<not> present then Bad (ValidationError ''cannot be blank'') else Good)"

text \<open>The project of the parent, 0 when there is none; the parent is looked up when it is not loaded.\<close>

definition parent_project :: "('d, 'x) targetenv \<Rightarrow> 'd \<Rightarrow> 'x target_row \<Rightarrow> goerr + nat" where
  "parent_project env d t =
     (case tg_Parent t of
        Some p \<Rightarrow> Inr (tk_ProjectID p)
      | None \<Rightarrow>
          (case tg_ParentID t of
             None \<Rightarrow> Inr 0
           | Some i \<Rightarrow> map_sum id tg_ProjectID (first_row (td_find (te_db env) d [zero_key\<lparr>tk_ID := i\<rparr>]))))"

definition project_id :: "'x target_row \<Rightarrow> nat" where
  "project_id t = (case tg_Project t of None \<Rightarrow> tg_ProjectID t | Some p \<Rightarrow> pk_ID p)"

definition target_validate :: "('d, 'x) targetenv \<Rightarrow> 'd \<Rightarrow> 'x target_row \<Rightarrow> goerr option" where
  "target_validate env d t =
     (case parent_project env d t of
        Inl e \<Rightarrow> Some e
      | Inr pp \<Rightarrow>
          (let count = \<lambda>k. td_count (te_db env) d k (tg_ID t)
           in ValidateStruct (te_errors env)
                [first_bad [required (tg_Name t),
                            checkUnique (count (zero_key\<lparr>tk_Name := tg_Name t, tk_ProjectID := project_id t\<rparr>))],
                 first_bad [required (tg_ResourceId t),
                            if tg_ID t = 0 then checkUnique (count (zero_key\<lparr>tk_ResourceId := tg_ResourceId t\<rparr>))
                            else checkNotModified (td_changed (te_db env) d t)],
                 (case tg_Uuid t of None \<Rightarrow> Good | Some u \<Rightarrow> checkUnique (count (zero_key\<lparr>tk_Uuid := Some u\<rparr>))),
                 first_bad [required_if (tg_Project t = None) (tg_ProjectID t \<noteq> 0),
                            if tg_ProjectID t \<noteq> 0 \<and> pp \<noteq> 0 then checkSameProject pp (tg_ProjectID t) else Good],
                 first_bad [required_if (tg_ProjectID t = 0) (tg_Project t \<noteq> None),
                            (case tg_Project t of
                               Some p \<Rightarrow> if pp \<noteq> 0 then checkSameProject pp (pk_ID p) else Good
                             | None \<Rightarrow> Good)]] []))"

definition target_BeforeSave :: "('d, 'x) targetenv \<Rightarrow> 'd \<Rightarrow> 'x target_row \<Rightarrow> goerr + 'x target_row" where
  "target_BeforeSave env d t =
     (case (if tg_ResourceId t = [] then map_sum id (\<lambda>i. t\<lparr>tg_ResourceId := i\<rparr>) (te_fresh env d) else Inr t) of
        Inl e \<Rightarrow> Inl e
      | Inr t \<Rightarrow> (case target_validate env d t of Some e \<Rightarrow> Inl e | None \<Rightarrow> Inr t))"

text \<open>The row as the caller holds it afterwards.\<close>

definition target_upsert :: "('d, 'x) targetenv \<Rightarrow> 'x target_row \<Rightarrow> 'd \<Rightarrow> ('d, 'x target_row) target_result" where
  "target_upsert env t d =
     (case target_BeforeSave env d t of
        Inl e \<Rightarrow> Fail d e
      | Inr t \<Rightarrow> (case td_save (te_db env) d t of Inl e \<Rightarrow> Fail d e | Inr d1 \<Rightarrow> Ret d1 t))"

section \<open>Messages into rows and back\<close>

definition zero_project_ref :: "'x project_ref" where
  "zero_project_ref = \<lparr>pf_ResourceId = [], pf_Name = [], pf_Path = [], pf_Basis = None\<rparr>"

definition zero_target_ref :: "'x target_ref" where
  "zero_target_ref = \<lparr>rt_ResourceId = [], rt_Name = [], rt_Project = None\<rparr>"

text \<open>The conversion of a field that is a reference: nothing to do, an error, or a value.\<close>

definition convert :: "'r option \<Rightarrow> 'r \<Rightarrow> ('r \<Rightarrow> goerr + 'a) \<Rightarrow> 'a option \<Rightarrow> goerr + 'a option" where
  "convert m zero f old =
     (case m of None \<Rightarrow> Inr old | Some r \<Rightarrow> if r = zero then Inr old else map_sum id Some (f r))"

text \<open>The decoder writes the elements of a list over those that are there.\<close>

definition convert_list :: "('r \<Rightarrow> goerr + 'a) \<Rightarrow> 'r list \<Rightarrow> 'a list \<Rightarrow> goerr + 'a list" where
  "convert_list f rs old =
     (case filter isl (map f rs) of
        [] \<Rightarrow> Inr (map (\<lambda>r. projr (f r)) rs @ drop (length rs) old)
      | e # _ \<Rightarrow> Inl (projl e))"

definition set_msg :: "('x \<Rightarrow> bool) \<Rightarrow> 'x option \<Rightarrow> 'x option \<Rightarrow> 'x option" where
  "set_msg zero new old = (case new of None \<Rightarrow> old | Some m \<Rightarrow> if zero m then old else Some m)"

definition set_str :: "string \<Rightarrow> string option \<Rightarrow> string option" where
  "set_str new old = (if new = [] then old else Some new)"

definition errors_of :: "(goerr + 'a) \<Rightarrow> goerr list" where
  "errors_of r = (case r of Inl e \<Rightarrow> [e] | Inr _ \<Rightarrow> [])"

definition softDecode_target :: "('d, 'x) targetenv \<Rightarrow> 'd \<Rightarrow> 'x targetpb \<Rightarrow> 'x target_row \<Rightarrow> goerr + 'x target_row" where
  "softDecode_target env d m t =
     (let key = \<lambda>r. map_sum id key_of (TargetFromProtoRef env d (Some r));
          parent = convert (tp_Parent m) zero_target_ref key (tg_Parent t);
          project = convert (tp_Project m) zero_project_ref (\<lambda>r. ProjectFromProtoRef env d (Some r)) (tg_Project t);
          subs = convert_list key (tp_Subtargets m) (tg_Subtargets t)
      in case (parent, project, subs) of
           (Inr pa, Inr pr, Inr su) \<Rightarrow>
             Inr (t\<lparr>tg_ResourceId := set_or [] (tp_ResourceId m) (tg_ResourceId t),
                    tg_Uuid := set_str (tp_Uuid m) (tg_Uuid t),
                    tg_Name := set_or [] (tp_Name m) (tg_Name t),
                    tg_Configuration := set_msg (te_zero env) (tp_Configuration m) (tg_Configuration t),
                    tg_Metadata := set_msg (te_zero env) (tp_Metadata m) (tg_Metadata t),
                    tg_Provider := set_str (tp_Provider m) (tg_Provider t),
                    tg_Record := set_msg (te_zero env) (tp_Record m) (tg_Record t),
                    tg_State := set_or UNKNOWN (tp_State m) (tg_State t),
                    tg_Parent := pa, tg_Project := pr, tg_Subtargets := su\<rparr>)
         | _ \<Rightarrow> Inl (te_decode env (errors_of parent @ errors_of project @ errors_of subs)))"

definition the_str :: "string option \<Rightarrow> string" where
  "the_str s = (case s of None \<Rightarrow> [] | Some x \<Rightarrow> x)"

definition key_ref :: "target_key \<Rightarrow> 'x target_ref" where
  "key_ref k = \<lparr>rt_ResourceId = tk_ResourceId k, rt_Name = tk_Name k, rt_Project = None\<rparr>"

definition target_ToProtoRef :: "'x target_row \<Rightarrow> 'x target_ref" where
  "target_ToProtoRef t =
     \<lparr>rt_ResourceId = tg_ResourceId t, rt_Name = tg_Name t, rt_Project = map_option pk_ref (tg_Project t)\<rparr>"

definition target_ToProto :: "'x target_row \<Rightarrow> 'x targetpb" where
  "target_ToProto t =
     \<lparr>tp_ResourceId = tg_ResourceId t, tp_Name = tg_Name t, tp_Project = map_option pk_ref (tg_Project t),
      tp_State = tg_State t, tp_Subtargets = map key_ref (tg_Subtargets t), tp_Parent = map_option key_ref (tg_Parent t),
      tp_Uuid = the_str (tg_Uuid t), tp_Metadata = tg_Metadata t, tp_Configuration = tg_Configuration t,
      tp_Record = tg_Record t, tp_Provider = the_str (tg_Provider t)\<rparr>"

section \<open>Deleting\<close>

text \<open>The row of a target (\<open>find\<close>): any row that has its resource id, its uuid, its project and name, or its id.
  A condition without a field is no condition.\<close>

definition target_find :: "('d, 'x) targetenv \<Rightarrow> 'd \<Rightarrow> target_key \<Rightarrow> goerr + 'x target_row" where
  "target_find env d k =
     first_row (td_find (te_db env) d (filter (\<lambda>q. q \<noteq> zero_key)
       [zero_key\<lparr>tk_ResourceId := tk_ResourceId k\<rparr>, zero_key\<lparr>tk_Uuid := tk_Uuid k\<rparr>,
        zero_key\<lparr>tk_ProjectID := tk_ProjectID k, tk_Name := tk_Name k\<rparr>, zero_key\<lparr>tk_ID := tk_ID k\<rparr>]))"

text \<open>The hooks of some rows in turn, then the rows are removed. The hook of a row deletes its subtargets in this way;
  the number is what is left of the stack.\<close>

fun delete_keys :: "('d, 'x) targetenv \<Rightarrow> nat \<Rightarrow> target_key list \<Rightarrow> target_key list \<Rightarrow> 'd \<Rightarrow> ('d, unit) target_result" where
  "delete_keys env 0 all ks d = Crash ''stack overflow''"
| "delete_keys env (Suc n) all [] d =
     (case td_remove (te_db env) d (map tk_ID all) of Inl e \<Rightarrow> Fail d e | Inr d1 \<Rightarrow> Ret d1 ())"
| "delete_keys env (Suc n) all (k # ks) d =
     (case target_find env d k of
        Inl e \<Rightarrow> Fail d e
      | Inr t \<Rightarrow>
          bind_o (if tg_Subtargets t = [] then Ret d () else delete_keys env n (tg_Subtargets t) (tg_Subtargets t) d)
            (\<lambda>d _. delete_keys env (Suc n) all ks d))"

text \<open>All of it is one transaction.\<close>

definition in_transaction :: "'d \<Rightarrow> ('d, 'a) target_result \<Rightarrow> ('d, 'a) target_result" where
  "in_transaction d r = (case r of Fail _ e \<Rightarrow> Fail d e | _ \<Rightarrow> r)"

section \<open>The operations\<close>

definition TargetGet :: "('d, 'x) targetenv \<Rightarrow> 'x target_ref option \<Rightarrow> 'd \<Rightarrow> ('d, 'x targetpb) target_result" where
  "TargetGet env ref d =
     (case TargetFromProtoRef env d ref of
        Inl e \<Rightarrow> Fail d (lookupErrorToStatus ''target'' e)
      | Inr t \<Rightarrow> Ret d (target_ToProto t))"

definition TargetList :: "('d, 'x) targetenv \<Rightarrow> 'd \<Rightarrow> ('d, 'x target_ref list) target_result" where
  "TargetList env d =
     (case td_find (te_db env) d [] of
        Inl e \<Rightarrow> Fail d (lookupErrorToStatus ''targets'' e)
      | Inr ts \<Rightarrow> Ret d (map target_ToProtoRef ts))"

definition TargetDelete :: "('d, 'x) targetenv \<Rightarrow> 'x target_ref option \<Rightarrow> 'd \<Rightarrow> ('d, unit) target_result" where
  "TargetDelete env ref d =
     (case TargetFromProtoRef env d ref of
        Inl e \<Rightarrow> if is_not_found e then Ret d () else Fail d (lookupErrorToStatus ''target'' e)
      | Inr t \<Rightarrow>
          map_err (deleteErrorToStatus ''target'')
            (in_transaction d (delete_keys env (te_stack env) [key_of t] [key_of t] d)))"

definition put_target :: "('d, 'x) targetenv \<Rightarrow> 'x targetpb \<Rightarrow> 'x target_row \<Rightarrow> 'd \<Rightarrow> ('d, 'x targetpb) target_result" where
  "put_target env m t d =
     map_err (saveErrorToStatus ''target'')
       (case softDecode_target env d m (if tp_Record m = None then t else t\<lparr>tg_Record := None\<rparr>) of
          Inl e \<Rightarrow> Fail d e
        | Inr t \<Rightarrow>
            if tg_Project t = None then Fail d MissingProtoParent
            else bind_o (target_upsert env (t\<lparr>tg_State := tp_State m\<rparr>) d) (\<lambda>d t. Ret d (target_ToProto t)))"

text \<open>The project of a message is dropped when its target is found. A record replaces the stored one as a whole, and the
  state is always that of the message.\<close>

definition TargetPut :: "('d, 'x) targetenv \<Rightarrow> 'x targetpb \<Rightarrow> 'd \<Rightarrow> ('d, 'x targetpb) target_result" where
  "TargetPut env m d =
     (case TargetFromProtoFuzzy env d m of
        Inl e \<Rightarrow> if is_not_found e then put_target env m zero_target d else Fail d (lookupErrorToStatus ''target'' e)
      | Inr t \<Rightarrow> put_target env (m\<lparr>tp_Project := None\<rparr>) t d)"

definition TargetFind :: "('d, 'x) targetenv \<Rightarrow> 'x targetpb \<Rightarrow> 'd \<Rightarrow> ('d, 'x targetpb) target_result" where
  "TargetFind env m d =
     (case TargetFromProtoFuzzy env d m of
        Inl e \<Rightarrow> Fail d (lookupErrorToStatus ''target'' e)
      | Inr t \<Rightarrow> Ret d (target_ToProto t))"

text \<open>The requests. A message that is missing is a nil pointer.\<close>

definition UpsertTarget :: "('d, 'x) targetenv \<Rightarrow> 'x targetpb option \<Rightarrow> 'd \<Rightarrow> ('d, 'x targetpb) target_result" where
  "UpsertTarget env m d = (case m of None \<Rightarrow> Crash ''nil target'' | Some m \<Rightarrow> TargetPut env m d)"

definition DeleteTarget :: "('d, 'x) targetenv \<Rightarrow> 'x target_ref option \<Rightarrow> 'd \<Rightarrow> ('d, unit) target_result" where
  "DeleteTarget env ref d = TargetDelete env ref d"

definition GetTarget :: "('d, 'x) targetenv \<Rightarrow> 'x target_ref option \<Rightarrow> 'd \<Rightarrow> ('d, 'x targetpb) target_result" where
  "GetTarget env ref d = TargetGet env ref d"

definition FindTarget :: "('d, 'x) targetenv \<Rightarrow> 'x targetpb option \<Rightarrow> 'd \<Rightarrow> ('d, 'x targetpb) target_result" where
  "FindTarget env m d = (case m of None \<Rightarrow> Crash ''nil target'' | Some m \<Rightarrow> TargetFind env m d)"

definition ListTargets :: "('d, 'x) targetenv \<Rightarrow> 'd \<Rightarrow> ('d, 'x target_ref list) target_result" where
  "ListTargets env d = TargetList env d"

end
