(* ===== verification/TargetStore.thy ===== *)
theory TargetStore
  imports Targets
begin

text \<open>
  What the targets rely on from the database (\<open>target_lawful\<close>), the invariant of the rows (\<open>targets_ok\<close>), the
  effect of the requests on the rows, and a database that keeps the laws.
\<close>

section \<open>What the database promises\<close>

definition columns :: "'x target_row \<Rightarrow> 'x trow" where
  "columns t =
     \<lparr>tg_ID = tg_ID t, tg_ResourceId = tg_ResourceId t, tg_Uuid = tg_Uuid t, tg_ProjectID = tg_ProjectID t,
      tg_Name = tg_Name t, tg_Configuration = tg_Configuration t, tg_Metadata = tg_Metadata t,
      tg_Provider = tg_Provider t, tg_Record = tg_Record t, tg_State = tg_State t\<rparr>"

definition key_match :: "target_key \<Rightarrow> 'x trow \<Rightarrow> bool" where
  "key_match q r \<longleftrightarrow>
     (tk_ID q = 0 \<or> tk_ID q = tg_ID r) \<and> (tk_ResourceId q = [] \<or> tk_ResourceId q = tg_ResourceId r)
     \<and> (tk_Uuid q = None \<or> tk_Uuid q = tg_Uuid r) \<and> (tk_ProjectID q = 0 \<or> tk_ProjectID q = tg_ProjectID r)
     \<and> (tk_Name q = [] \<or> tk_Name q = tg_Name r)"

text \<open>A row is loaded with the project that its column names.\<close>

definition loaded :: "('d, 'x) targetdb \<Rightarrow> 'd \<Rightarrow> 'x target_row \<Rightarrow> bool" where
  "loaded db d t \<longleftrightarrow> columns t \<in> set (td_rows db d)
     \<and> (\<forall>p. tg_Project t = Some p \<longrightarrow> pk_ID p = tg_ProjectID t \<and> pk_ID p \<noteq> 0)"

definition all_loaded :: "('d, 'x) targetdb \<Rightarrow> 'd \<Rightarrow> goerr + 'x target_row list \<Rightarrow> bool" where
  "all_loaded db d r \<longleftrightarrow> (\<forall>ts. r = Inr ts \<longrightarrow> (\<forall>t \<in> set ts. loaded db d t))"

text \<open>A new row gets an id; the resource id of a row is only written when it is created.\<close>

definition stored_target :: "'x trow list \<Rightarrow> 'x target_row \<Rightarrow> 'x trow \<Rightarrow> bool" where
  "stored_target rows t r \<longleftrightarrow>
     (\<exists>i ri. r = (columns t)\<lparr>tg_ID := i, tg_ResourceId := ri, tg_ProjectID := project_id t\<rparr> \<and>
        (if tg_ID t = 0 then i \<noteq> 0 \<and> i \<notin> tg_ID ` set rows \<and> ri = tg_ResourceId t
         else i = tg_ID t \<and> (i \<in> tg_ID ` set rows \<longrightarrow> (\<exists>x \<in> set rows. tg_ID x = i \<and> ri = tg_ResourceId x))))"

text \<open>No target has subtargets.\<close>

definition flat :: "('d, 'x) targetdb \<Rightarrow> 'd \<Rightarrow> bool" where
  "flat db d \<longleftrightarrow> (\<forall>qs ts t. td_find db d qs = Inr ts \<longrightarrow> t \<in> set ts \<longrightarrow> tg_Subtargets t = [])"

definition target_lawful :: "('d, 'x) targetdb \<Rightarrow> bool" where
  "target_lawful db \<longleftrightarrow>
     (\<forall>d qs. \<exists>ts. td_find db d qs = Inr ts \<and> all_loaded db d (Inr ts) \<and>
        columns ` set ts = {r \<in> set (td_rows db d). qs = [] \<or> (\<exists>q \<in> set qs. key_match q r)})
     \<and> (\<forall>d i n. \<exists>ts ps. td_in_project db d i n = Inr ts \<and> td_project db d i = Inr ps \<and> all_loaded db d (Inr ts) \<and>
        columns ` set ts = {r \<in> set (td_rows db d). tg_ProjectID r \<in> pk_ID ` set ps \<and> (n = [] \<or> tg_Name r = n)})
     \<and> (\<forall>d u. all_loaded db d (td_like db d u))
     \<and> (\<forall>d i ps. td_project db d i = Inr ps \<longrightarrow> (\<forall>p \<in> set ps. pk_ID p \<noteq> 0))
     \<and> (\<forall>d q i n. td_count db d q i = Inr n \<longrightarrow> (n = 0) = (\<forall>r\<in>set (td_rows db d). key_match q r \<longrightarrow> tg_ID r = i))
     \<and> (\<forall>d t d1. td_save db d t = Inr d1 \<longrightarrow>
          (\<exists>r. stored_target (td_rows db d) t r \<and>
             set (td_rows db d1) = insert r {x \<in> set (td_rows db d). tg_ID x \<noteq> tg_ID t})
          \<and> td_project db d1 = td_project db d)
     \<and> (\<forall>d is d1. td_remove db d is = Inr d1 \<longrightarrow> set (td_rows db d1) = {x \<in> set (td_rows db d). tg_ID x \<notin> set is}
          \<and> (flat db d \<longrightarrow> flat db d1))"

lemma target_find_rows:
  assumes "target_lawful db"
  obtains ts where "td_find db d qs = Inr ts" and "\<And>t. t \<in> set ts \<Longrightarrow> loaded db d t"
    and "columns ` set ts = {r \<in> set (td_rows db d). qs = [] \<or> (\<exists>q \<in> set qs. key_match q r)}"
  using assms[unfolded target_lawful_def, THEN conjunct1, THEN spec, THEN spec, of d qs]
  unfolding all_loaded_def by blast

lemma target_in_project:
  assumes "target_lawful db"
  obtains ts ps where "td_in_project db d i n = Inr ts" and "td_project db d i = Inr ps" and "all_loaded db d (Inr ts)"
    and "columns ` set ts = {r \<in> set (td_rows db d). tg_ProjectID r \<in> pk_ID ` set ps \<and> (n = [] \<or> tg_Name r = n)}"
  using assms[unfolded target_lawful_def, THEN conjunct2, THEN conjunct1, THEN spec, THEN spec, THEN spec, of d i n] by blast

lemma target_lawful_lookups:
  assumes "target_lawful db"
  shows "all_loaded db d (td_find db d qs)" "all_loaded db d (td_in_project db d i n)" "all_loaded db d (td_like db d u)"
    apply (metis target_find_rows[OF assms] all_loaded_def sum.inject(2))
   apply (metis target_in_project[OF assms])
  using assms unfolding target_lawful_def by metis

lemma target_lawful_count:
  "target_lawful db \<Longrightarrow> td_count db d q i = Inr 0 \<Longrightarrow> r \<in> set (td_rows db d) \<Longrightarrow> key_match q r \<Longrightarrow> tg_ID r = i"
  unfolding target_lawful_def by metis

lemma target_lawful_project:
  "target_lawful db \<Longrightarrow> td_project db d i = Inr ps \<Longrightarrow> p \<in> set ps \<Longrightarrow> pk_ID p \<noteq> 0"
  unfolding target_lawful_def by metis

lemma target_lawful_save:
  assumes "target_lawful db" and "td_save db d t = Inr d1"
  obtains r where "stored_target (td_rows db d) t r"
    and "set (td_rows db d1) = insert r {x \<in> set (td_rows db d). tg_ID x \<noteq> tg_ID t}"
    and "td_project db d1 = td_project db d"
  using assms(2) assms(1)[unfolded target_lawful_def, THEN conjunct2, THEN conjunct2, THEN conjunct2, THEN conjunct2,
      THEN conjunct2, THEN conjunct1, THEN spec, THEN spec, THEN spec, of d t d1]
  by blast

lemma target_lawful_remove:
  assumes "target_lawful db" and "td_remove db d ids = Inr d1"
  shows "set (td_rows db d1) = {x \<in> set (td_rows db d). tg_ID x \<notin> set ids}" and "flat db d \<Longrightarrow> flat db d1"
  using assms(1)[unfolded target_lawful_def, THEN conjunct2, THEN conjunct2, THEN conjunct2, THEN conjunct2,
      THEN conjunct2, THEN conjunct2, THEN spec, THEN spec, THEN spec, THEN mp, OF assms(2)]
  by simp_all

section \<open>The invariant of the rows\<close>

definition target_ok :: "'x trow \<Rightarrow> bool" where
  "target_ok r \<longleftrightarrow> tg_ID r \<noteq> 0 \<and> tg_ResourceId r \<noteq> [] \<and> tg_Name r \<noteq> [] \<and> tg_ProjectID r \<noteq> 0"

definition target_clash :: "'x trow \<Rightarrow> 'x trow \<Rightarrow> bool" where
  "target_clash a b \<longleftrightarrow> tg_ResourceId a = tg_ResourceId b \<or> (tg_Uuid a \<noteq> None \<and> tg_Uuid a = tg_Uuid b)
     \<or> (tg_ProjectID a = tg_ProjectID b \<and> tg_Name a = tg_Name b)"

definition targets_ok :: "('d, 'x) targetenv \<Rightarrow> 'd \<Rightarrow> bool" where
  "targets_ok env d \<longleftrightarrow>
     (\<forall>r\<in>set (td_rows (te_db env) d). target_ok r)
     \<and> (\<forall>a\<in>set (td_rows (te_db env) d). \<forall>b\<in>set (td_rows (te_db env) d).
          tg_ID a = tg_ID b \<or> target_clash a b \<longrightarrow> a = b)"

lemma targets_okD:
  assumes "targets_ok env d" and "a \<in> set (td_rows (te_db env) d)"
  shows "target_ok a"
    "b \<in> set (td_rows (te_db env) d) \<Longrightarrow> tg_ID a = tg_ID b \<Longrightarrow> a = b"
    "b \<in> set (td_rows (te_db env) d) \<Longrightarrow> target_clash a b \<Longrightarrow> a = b"
  using assms unfolding targets_ok_def by blast+

lemma target_clash_sym: "target_clash a b \<Longrightarrow> target_clash b a"
  unfolding target_clash_def by metis

section \<open>Lookups\<close>

lemma columns_simps [simp]:
  "tg_ID (columns t) = tg_ID t" "tg_ResourceId (columns t) = tg_ResourceId t" "tg_Uuid (columns t) = tg_Uuid t"
  "tg_ProjectID (columns t) = tg_ProjectID t" "tg_Name (columns t) = tg_Name t" "tg_State (columns t) = tg_State t"
  by (simp_all add: columns_def)

lemma first_row_Inr: "first_row r = Inr x \<Longrightarrow> \<exists>ts. r = Inr (x # ts)"
  by (auto simp: first_row_def split: sum.splits list.splits)

lemma first_loaded: "all_loaded db d r \<Longrightarrow> first_row r = Inr t \<Longrightarrow> loaded db d t"
  by (drule first_row_Inr) (auto simp: all_loaded_def)

lemma TargetFromProtoRef_loaded:
  "target_lawful (te_db env) \<Longrightarrow> TargetFromProtoRef env d ref = Inr t \<Longrightarrow> loaded (te_db env) d t"
  by (auto simp: TargetFromProtoRef_def intro: first_loaded target_lawful_lookups split: option.splits if_splits)

lemma TargetFromProtoFuzzy_loaded:
  "target_lawful (te_db env) \<Longrightarrow> TargetFromProtoFuzzy env d m = Inr t \<Longrightarrow> loaded (te_db env) d t"
  by (auto simp: TargetFromProtoFuzzy_def TargetFromProto_def
      intro: first_loaded target_lawful_lookups TargetFromProtoRef_loaded split: option.splits if_splits sum.splits)

lemma ProjectFromProtoRef_ID:
  "target_lawful (te_db env) \<Longrightarrow> ProjectFromProtoRef env d ref = Inr p \<Longrightarrow> pk_ID p \<noteq> 0"
  by (auto simp: ProjectFromProtoRef_def dest!: first_row_Inr dest: target_lawful_project split: option.splits if_splits)

text \<open>The row with a resource id.\<close>

definition row_of :: "('d, 'x) targetenv \<Rightarrow> 'd \<Rightarrow> string \<Rightarrow> 'x trow option" where
  "row_of env d i = find (\<lambda>r. tg_ResourceId r = i) (td_rows (te_db env) d)"

lemma row_of_iff:
  assumes "targets_ok env d"
  shows "row_of env d i = Some r \<longleftrightarrow> r \<in> set (td_rows (te_db env) d) \<and> tg_ResourceId r = i"
proof -
  have "row_of env d i = Some r" if r: "r \<in> set (td_rows (te_db env) d)" "tg_ResourceId r = i"
  proof -
    from r obtain r' where r': "row_of env d i = Some r'"
      by (cases "row_of env d i") (auto simp: row_of_def find_None_iff)
    then have "r' \<in> set (td_rows (te_db env) d)" "tg_ResourceId r' = i" by (auto simp: row_of_def find_Some_iff)
    with r have "r = r'" by (intro targets_okD(3)[OF assms]) (auto simp: target_clash_def)
    with r' show ?thesis by simp
  qed
  then show ?thesis by (auto simp: row_of_def find_Some_iff)
qed

lemma TargetFromProtoRef_row:
  assumes l: "target_lawful (te_db env)" and ok: "targets_ok env d" and i: "rt_ResourceId ref \<noteq> []"
  shows "case row_of env d (rt_ResourceId ref) of
           None \<Rightarrow> TargetFromProtoRef env d (Some ref) = Inl RecordNotFound
         | Some r \<Rightarrow> (\<exists>t. TargetFromProtoRef env d (Some ref) = Inr t \<and> columns t = r \<and> loaded (te_db env) d t)"
proof -
  let ?q = "zero_key\<lparr>tk_ResourceId := rt_ResourceId ref\<rparr>"
  obtain ts where ts: "td_find (te_db env) d [?q] = Inr ts" "\<And>t. t \<in> set ts \<Longrightarrow> loaded (te_db env) d t"
    and cols: "columns ` set ts = {r \<in> set (td_rows (te_db env) d). [?q] = [] \<or> (\<exists>q \<in> set [?q]. key_match q r)}"
    using target_find_rows[OF l] by blast
  have m: "key_match ?q r = (tg_ResourceId r = rt_ResourceId ref)" for r :: "'b trow"
    using i by (auto simp: key_match_def zero_key_def)
  show ?thesis
  proof (cases ts)
    case Nil
    then have "row_of env d (rt_ResourceId ref) = None" using cols by (auto simp: row_of_def find_None_iff m)
    then show ?thesis using i ts(1) Nil by (simp add: TargetFromProtoRef_def first_row_def)
  next
    case (Cons t ts')
    then have "columns t \<in> columns ` set ts" by simp
    then have "row_of env d (rt_ResourceId ref) = Some (columns t)"
      unfolding cols row_of_iff[OF ok] by (simp add: m)
    then show ?thesis using i ts Cons by (simp add: TargetFromProtoRef_def first_row_def)
  qed
qed

section \<open>Saving\<close>

lemma target_validate_none:
  assumes l: "target_lawful (te_db env)" and v: "target_validate env d t = None" and p: "project_id t \<noteq> 0"
  shows "tg_Name t \<noteq> []" "tg_ResourceId t \<noteq> []"
    and "r \<in> set (td_rows (te_db env) d) \<Longrightarrow> tg_ID r \<noteq> tg_ID t \<Longrightarrow>
           \<not> (tg_ProjectID r = project_id t \<and> tg_Name r = tg_Name t)
           \<and> \<not> (tg_Uuid t \<noteq> None \<and> tg_Uuid r = tg_Uuid t) \<and> (tg_ID t = 0 \<longrightarrow> tg_ResourceId r \<noteq> tg_ResourceId t)"
proof -
  let ?c = "\<lambda>q. td_count (te_db env) d q (tg_ID t) = Inr 0"
  from v have n: "tg_Name t \<noteq> []" and i: "tg_ResourceId t \<noteq> []"
    and c: "?c (zero_key\<lparr>tk_Name := tg_Name t, tk_ProjectID := project_id t\<rparr>)"
      "tg_ID t = 0 \<Longrightarrow> ?c (zero_key\<lparr>tk_ResourceId := tg_ResourceId t\<rparr>)"
      "tg_Uuid t \<noteq> None \<Longrightarrow> ?c (zero_key\<lparr>tk_Uuid := tg_Uuid t\<rparr>)"
    by (auto simp: target_validate_def Let_def validate_none first_bad_good simp del: first_bad.simps
        split: sum.splits if_splits option.splits)
  show "tg_Name t \<noteq> []" "tg_ResourceId t \<noteq> []" by (fact n, fact i)
  show "\<not> (tg_ProjectID r = project_id t \<and> tg_Name r = tg_Name t)
       \<and> \<not> (tg_Uuid t \<noteq> None \<and> tg_Uuid r = tg_Uuid t) \<and> (tg_ID t = 0 \<longrightarrow> tg_ResourceId r \<noteq> tg_ResourceId t)"
    if r: "r \<in> set (td_rows (te_db env) d)" "tg_ID r \<noteq> tg_ID t"
  proof (intro conjI notI impI)
    show False if "tg_ProjectID r = project_id t \<and> tg_Name r = tg_Name t"
      using target_lawful_count[OF l c(1) r(1)] r(2) that by (simp add: key_match_def zero_key_def)
    show False if "tg_Uuid t \<noteq> None \<and> tg_Uuid r = tg_Uuid t"
      using target_lawful_count[OF l c(3) r(1)] r(2) that by (simp add: key_match_def zero_key_def)
    show False if "tg_ID t = 0" "tg_ResourceId r = tg_ResourceId t"
      using target_lawful_count[OF l c(2) r(1)] r(2) that by (simp add: key_match_def zero_key_def)
  qed
qed

lemma target_BeforeSave_row:
  assumes "target_BeforeSave env d t = Inr t1"
  obtains i where "t1 = t\<lparr>tg_ResourceId := i\<rparr>" and "tg_ResourceId t \<noteq> [] \<Longrightarrow> i = tg_ResourceId t"
    and "target_validate env d t1 = None"
proof -
  from assms have v: "target_validate env d t1 = None"
    and t: "(if tg_ResourceId t = [] then map_sum id (\<lambda>i. t\<lparr>tg_ResourceId := i\<rparr>) (te_fresh env d) else Inr t) = Inr t1"
    by (auto simp: target_BeforeSave_def split: sum.splits option.splits)
  show thesis
  proof (cases "tg_ResourceId t = []")
    case True
    with t obtain i where "t1 = t\<lparr>tg_ResourceId := i\<rparr>" by (cases "te_fresh env d") auto
    with True v show thesis using that by blast
  next
    case False
    then show thesis using t v that[of "tg_ResourceId t"] by simp
  qed
qed

text \<open>A row was added, or it replaced the one with its id.\<close>

definition trow_put :: "('d, 'x) targetdb \<Rightarrow> 'd \<Rightarrow> 'x trow \<Rightarrow> 'd \<Rightarrow> bool" where
  "trow_put db d r d1 \<longleftrightarrow> set (td_rows db d1) = insert r {x \<in> set (td_rows db d). tg_ID x \<noteq> tg_ID r}"

definition from_store :: "('d, 'x) targetdb \<Rightarrow> 'd \<Rightarrow> 'x target_row \<Rightarrow> bool" where
  "from_store db d t \<longleftrightarrow> project_id t \<noteq> 0 \<and> (tg_ID t \<noteq> 0 \<longrightarrow> tg_ID t \<in> tg_ID ` set (td_rows db d))"

lemma stored_target_id:
  assumes ok: "targets_ok env d" and "stored_target (td_rows (te_db env) d) t r"
  shows "tg_Name r = tg_Name t" "tg_Uuid r = tg_Uuid t" "tg_ProjectID r = project_id t"
    and "if tg_ID t = 0 then tg_ID r \<noteq> 0 \<and> tg_ID r \<notin> tg_ID ` set (td_rows (te_db env) d) \<and> tg_ResourceId r = tg_ResourceId t
       else tg_ID r = tg_ID t \<and> (\<forall>x \<in> set (td_rows (te_db env) d). tg_ID x = tg_ID r \<longrightarrow> tg_ResourceId r = tg_ResourceId x)"
proof -
  from assms(2) obtain i ri where r: "r = (columns t)\<lparr>tg_ID := i, tg_ResourceId := ri, tg_ProjectID := project_id t\<rparr>"
    and i: "if tg_ID t = 0 then i \<noteq> 0 \<and> i \<notin> tg_ID ` set (td_rows (te_db env) d) \<and> ri = tg_ResourceId t
         else i = tg_ID t \<and> (i \<in> tg_ID ` set (td_rows (te_db env) d) \<longrightarrow>
           (\<exists>x \<in> set (td_rows (te_db env) d). tg_ID x = i \<and> ri = tg_ResourceId x))"
    unfolding stored_target_def by blast
  show "tg_Name r = tg_Name t" "tg_Uuid r = tg_Uuid t" "tg_ProjectID r = project_id t" by (simp_all add: r)
  have "ri = tg_ResourceId x" if "tg_ID t \<noteq> 0" "x \<in> set (td_rows (te_db env) d)" "tg_ID x = i" for x
    using i that targets_okD(2)[OF ok] by (metis imageI)
  then show "if tg_ID t = 0 then tg_ID r \<noteq> 0 \<and> tg_ID r \<notin> tg_ID ` set (td_rows (te_db env) d) \<and> tg_ResourceId r = tg_ResourceId t
       else tg_ID r = tg_ID t \<and> (\<forall>x \<in> set (td_rows (te_db env) d). tg_ID x = tg_ID r \<longrightarrow> tg_ResourceId r = tg_ResourceId x)"
    using i by (simp add: r split: if_splits)
qed

lemma target_upsert_Ret:
  assumes l: "target_lawful (te_db env)" and ok: "targets_ok env d" and st: "from_store (te_db env) d t"
    and run: "target_upsert env t d = Ret d1 t1"
  obtains i r where "t1 = t\<lparr>tg_ResourceId := i\<rparr>" and "tg_ResourceId t \<noteq> [] \<Longrightarrow> i = tg_ResourceId t" and "i \<noteq> []"
    and "stored_target (td_rows (te_db env) d) t1 r" and "trow_put (te_db env) d r d1" and "targets_ok env d1"
    and "td_project (te_db env) d1 = td_project (te_db env) d"
proof -
  let ?db = "te_db env"
  from run have bs: "target_BeforeSave env d t = Inr t1" and sv: "td_save ?db d t1 = Inr d1"
    by (auto simp: target_upsert_def split: sum.splits)
  obtain i where t1: "t1 = t\<lparr>tg_ResourceId := i\<rparr>" and i: "tg_ResourceId t \<noteq> [] \<Longrightarrow> i = tg_ResourceId t"
    and v: "target_validate env d t1 = None"
    using target_BeforeSave_row[OF bs] by metis
  have pid: "project_id t1 = project_id t" "tg_ID t1 = tg_ID t" by (simp_all add: t1 project_id_def split: option.split)
  then have p: "project_id t1 \<noteq> 0" using st by (simp add: from_store_def)
  note val = target_validate_none[OF l v p]
  obtain r where sr: "stored_target (td_rows ?db d) t1 r"
    and rows: "set (td_rows ?db d1) = insert r {x \<in> set (td_rows ?db d). tg_ID x \<noteq> tg_ID t1}"
    and prj: "td_project ?db d1 = td_project ?db d"
    using target_lawful_save[OF l sv] .
  have same: "tg_Name r = tg_Name t1" "tg_Uuid r = tg_Uuid t1" "tg_ProjectID r = project_id t1"
    and rid: "if tg_ID t1 = 0 then tg_ID r \<noteq> 0 \<and> tg_ID r \<notin> tg_ID ` set (td_rows ?db d) \<and> tg_ResourceId r = tg_ResourceId t1
       else tg_ID r = tg_ID t1 \<and> (\<forall>x \<in> set (td_rows ?db d). tg_ID x = tg_ID r \<longrightarrow> tg_ResourceId r = tg_ResourceId x)"
    using stored_target_id[OF ok sr] .
  have rok: "target_ok r"
  proof (cases "tg_ID t1 = 0")
    case True
    then show ?thesis using rid val(1,2) p same by (simp add: target_ok_def)
  next
    case False
    then obtain x where "x \<in> set (td_rows ?db d)" "tg_ID x = tg_ID r"
      using st rid pid(2) by (auto simp: from_store_def)
    then show ?thesis using rid val(1) p same targets_okD(1)[OF ok] False by (simp add: target_ok_def)
  qed
  have other: "tg_ID x \<noteq> tg_ID r \<and> \<not> target_clash x r" if x: "x \<in> set (td_rows ?db d)" "tg_ID x \<noteq> tg_ID t1" for x
  proof (intro conjI notI)
    show ne: "tg_ID x = tg_ID r \<Longrightarrow> False" using rid x by (auto split: if_splits) (metis imageI)
    assume c: "target_clash x r"
    then have "tg_ResourceId x = tg_ResourceId r \<and> tg_ID t1 \<noteq> 0"
      using val(3)[OF x] same rid by (auto simp: target_clash_def split: if_splits)
    moreover from this obtain y where "y \<in> set (td_rows ?db d)" "tg_ID y = tg_ID r"
      using st rid pid(2) by (auto simp: from_store_def)
    ultimately have "x = y" using rid by (intro targets_okD(3)[OF ok x(1)]) (auto simp: target_clash_def)
    with \<open>tg_ID y = tg_ID r\<close> ne show False by simp
  qed
  have filt: "{x \<in> set (td_rows ?db d). tg_ID x \<noteq> tg_ID t1} = {x \<in> set (td_rows ?db d). tg_ID x \<noteq> tg_ID r}"
    using rid targets_okD(1)[OF ok] by (auto simp: target_ok_def split: if_splits) (metis imageI)
  show thesis
  proof (rule that[OF t1 i _ sr _ _ prj])
    show "i \<noteq> []" using val(2) by (simp add: t1)
    show "trow_put ?db d r d1" using rows filt by (simp add: trow_put_def)
    show "targets_ok env d1"
      unfolding targets_ok_def rows
      using rok other target_clash_sym targets_okD[OF ok] by (auto dest: other target_clash_sym)
  qed
qed

section \<open>Putting a message\<close>

text \<open>What a message makes of a row.\<close>

definition merge_row :: "('d, 'x) targetenv \<Rightarrow> 'x targetpb \<Rightarrow> 'x trow \<Rightarrow> 'x trow" where
  "merge_row env m r =
     r\<lparr>tg_Uuid := set_str (tp_Uuid m) (tg_Uuid r), tg_Name := set_or [] (tp_Name m) (tg_Name r),
       tg_Configuration := set_msg (te_zero env) (tp_Configuration m) (tg_Configuration r),
       tg_Metadata := set_msg (te_zero env) (tp_Metadata m) (tg_Metadata r),
       tg_Provider := set_str (tp_Provider m) (tg_Provider r),
       tg_Record := (case tp_Record m of None \<Rightarrow> tg_Record r | Some x \<Rightarrow> if te_zero env x then None else Some x),
       tg_State := tp_State m\<rparr>"

definition new_row :: "string \<Rightarrow> nat \<Rightarrow> nat \<Rightarrow> 'x trow" where
  "new_row i k p = (columns zero_target)\<lparr>tg_ResourceId := i, tg_ID := k, tg_ProjectID := p\<rparr>"

lemma softDecode_target_Inr:
  assumes "softDecode_target env d m t = Inr t1"
  obtains pa pr su where "convert (tp_Project m) zero_project_ref (\<lambda>r. ProjectFromProtoRef env d (Some r)) (tg_Project t) = Inr pr"
    and "t1 = t\<lparr>tg_ResourceId := set_or [] (tp_ResourceId m) (tg_ResourceId t),
              tg_Uuid := set_str (tp_Uuid m) (tg_Uuid t), tg_Name := set_or [] (tp_Name m) (tg_Name t),
              tg_Configuration := set_msg (te_zero env) (tp_Configuration m) (tg_Configuration t),
              tg_Metadata := set_msg (te_zero env) (tp_Metadata m) (tg_Metadata t),
              tg_Provider := set_str (tp_Provider m) (tg_Provider t),
              tg_Record := set_msg (te_zero env) (tp_Record m) (tg_Record t),
              tg_State := set_or UNKNOWN (tp_State m) (tg_State t),
              tg_Parent := pa, tg_Project := pr, tg_Subtargets := su\<rparr>"
  using assms unfolding softDecode_target_def Let_def by (auto split: sum.splits)

lemma merge_new_fields [simp]:
  "tg_ResourceId (merge_row env m r) = tg_ResourceId r" "tg_ID (merge_row env m r) = tg_ID r"
  "tg_ProjectID (merge_row env m r) = tg_ProjectID r" "tg_State (merge_row env m r) = tp_State m"
  "tg_Name (merge_row env m r) = set_or [] (tp_Name m) (tg_Name r)"
  "tg_ResourceId (new_row i k p) = i" "tg_ID (new_row i k p) = k" "tg_ProjectID (new_row i k p) = p"
  "tg_Name (new_row i k p) = []"
  by (simp_all add: merge_row_def new_row_def columns_def zero_target_def)

text \<open>The row that a message with an old row leaves, in both cases: the old row was found, or there is none.\<close>

lemma put_target_Ret:
  assumes l: "target_lawful (te_db env)" and ok: "targets_ok env d" and run: "put_target env m t d = Ret d1 m1"
    and t: "(t = zero_target) \<or> (loaded (te_db env) d t \<and> tp_Project m = None)"
  obtains r i where "trow_put (te_db env) d r d1" and "targets_ok env d1" and "tp_ResourceId m1 = i" and "i \<noteq> []"
    and "tp_ResourceId m \<noteq> [] \<Longrightarrow> i = tp_ResourceId m" and "tp_State m1 = tp_State m"
    and "t \<noteq> zero_target \<Longrightarrow> r = merge_row env m (columns t)"
    and "t = zero_target \<Longrightarrow> \<exists>k p ref. r = merge_row env m (new_row i k (pk_ID p)) \<and> k \<notin> tg_ID ` set (td_rows (te_db env) d)
           \<and> tp_Project m = Some ref \<and> ProjectFromProtoRef env d (Some ref) = Inr p"
    and "td_project (te_db env) d1 = td_project (te_db env) d"
proof -
  let ?db = "te_db env"
  define t0 where "t0 = (if tp_Record m = None then t else t\<lparr>tg_Record := None\<rparr>)"
  from run obtain t1 t2 where dec: "softDecode_target env d m t0 = Inr t1" and pr: "tg_Project t1 \<noteq> None"
    and up: "target_upsert env (t1\<lparr>tg_State := tp_State m\<rparr>) d = Ret d1 t2" and m1: "m1 = target_ToProto t2"
    by (auto simp: put_target_def t0_def bind_o_Ret_iff split: sum.splits if_splits)
  let ?t = "t1\<lparr>tg_State := tp_State m\<rparr>"
  obtain pa pj su where conv: "convert (tp_Project m) zero_project_ref (\<lambda>r. ProjectFromProtoRef env d (Some r)) (tg_Project t0) = Inr pj"
    and t1: "t1 = t0\<lparr>tg_ResourceId := set_or [] (tp_ResourceId m) (tg_ResourceId t0),
              tg_Uuid := set_str (tp_Uuid m) (tg_Uuid t0), tg_Name := set_or [] (tp_Name m) (tg_Name t0),
              tg_Configuration := set_msg (te_zero env) (tp_Configuration m) (tg_Configuration t0),
              tg_Metadata := set_msg (te_zero env) (tp_Metadata m) (tg_Metadata t0),
              tg_Provider := set_str (tp_Provider m) (tg_Provider t0),
              tg_Record := set_msg (te_zero env) (tp_Record m) (tg_Record t0),
              tg_State := set_or UNKNOWN (tp_State m) (tg_State t0),
              tg_Parent := pa, tg_Project := pj, tg_Subtargets := su\<rparr>"
    using softDecode_target_Inr[OF dec] by metis
  have pid: "project_id ?t = (case pj of None \<Rightarrow> 0 | Some p \<Rightarrow> pk_ID p)" "pj \<noteq> None" "tg_ID ?t = tg_ID t"
    using pr by (auto simp: project_id_def t1 t0_def split: option.split)
  have st: "from_store ?db d ?t" and ldd: "t \<noteq> zero_target \<Longrightarrow> project_id ?t = tg_ProjectID t"
    and new: "t = zero_target \<Longrightarrow> \<exists>p ref. project_id ?t = pk_ID p \<and> tp_Project m = Some ref \<and> ProjectFromProtoRef env d (Some ref) = Inr p"
  proof -
    { assume z: "t = zero_target"
      then have "tg_Project t0 = None" by (auto simp: t0_def zero_target_def)
      then obtain ref p where p: "tp_Project m = Some ref" "ProjectFromProtoRef env d (Some ref) = Inr p" "pj = Some p"
        using conv pid(2) by (auto simp: convert_def map_sum_def split: option.splits if_splits sum.splits)
      then have "pk_ID p \<noteq> 0" using ProjectFromProtoRef_ID[OF l] by blast
      then have "from_store ?db d ?t"
        using pid p(3) z by (simp add: from_store_def) (simp add: zero_target_def)
      then have "from_store ?db d ?t \<and> project_id ?t = pk_ID p" using pid p(3) by simp
      with p have "from_store ?db d ?t \<and> (\<exists>p ref. project_id ?t = pk_ID p \<and> tp_Project m = Some ref
          \<and> ProjectFromProtoRef env d (Some ref) = Inr p)" by blast }
    moreover
    { assume z: "t \<noteq> zero_target"
      with t have ld: "loaded ?db d t" "tp_Project m = None" by blast+
      then have "pj = tg_Project t" using conv by (simp add: convert_def t0_def split: if_splits)
      then obtain p where "pj = Some p" "pk_ID p = tg_ProjectID t" "pk_ID p \<noteq> 0"
        using ld pid(2) by (auto simp: loaded_def)
      moreover have "tg_ID t \<in> tg_ID ` set (td_rows ?db d)"
        using ld(1) unfolding loaded_def by (metis columns_simps(1) imageI)
      ultimately have "from_store ?db d ?t \<and> project_id ?t = tg_ProjectID t" using pid by (simp add: from_store_def) }
    ultimately show "from_store ?db d ?t" "t \<noteq> zero_target \<Longrightarrow> project_id ?t = tg_ProjectID t"
      "t = zero_target \<Longrightarrow> \<exists>p ref. project_id ?t = pk_ID p \<and> tp_Project m = Some ref \<and> ProjectFromProtoRef env d (Some ref) = Inr p"
      by blast+
  qed
  obtain i r where t2: "t2 = ?t\<lparr>tg_ResourceId := i\<rparr>" and i: "tg_ResourceId ?t \<noteq> [] \<Longrightarrow> i = tg_ResourceId ?t" "i \<noteq> []"
    and sr: "stored_target (td_rows ?db d) t2 r" and put: "trow_put ?db d r d1" and ok1: "targets_ok env d1"
    and prj: "td_project ?db d1 = td_project ?db d"
    using target_upsert_Ret[OF l ok st up] by metis
  obtain k ri where r: "r = (columns t2)\<lparr>tg_ID := k, tg_ResourceId := ri, tg_ProjectID := project_id t2\<rparr>"
    using sr unfolding stored_target_def by blast
  then have k: "if tg_ID t2 = 0 then k \<noteq> 0 \<and> k \<notin> tg_ID ` set (td_rows ?db d) \<and> ri = tg_ResourceId t2
         else k = tg_ID t2 \<and> (\<forall>x \<in> set (td_rows ?db d). tg_ID x = k \<longrightarrow> ri = tg_ResourceId x)"
    using stored_target_id(4)[OF ok sr] by (simp split: if_splits)
  have pid2: "project_id t2 = project_id ?t" "tg_ID t2 = tg_ID t" using pid(3) by (simp_all add: t2 project_id_def split: option.split)
  have rec: "set_msg (te_zero env) (tp_Record m) (tg_Record t0) =
      (case tp_Record m of None \<Rightarrow> tg_Record t | Some x \<Rightarrow> if te_zero env x then None else Some x)"
    by (auto simp: set_msg_def t0_def split: option.split)
  have t0_fields: "tg_ID t0 = tg_ID t" "tg_Uuid t0 = tg_Uuid t" "tg_Name t0 = tg_Name t" "tg_Configuration t0 = tg_Configuration t"
    "tg_Metadata t0 = tg_Metadata t" "tg_Provider t0 = tg_Provider t" "tg_ProjectID t0 = tg_ProjectID t"
    by (simp_all add: t0_def)
  show thesis
  proof (rule that[OF put ok1])
    show "tp_ResourceId m1 = i" "tp_State m1 = tp_State m" by (simp_all add: m1 target_ToProto_def t2)
    show "tp_ResourceId m \<noteq> [] \<Longrightarrow> i = tp_ResourceId m" using i(1) by (simp add: t1 set_or_def)
    show "r = merge_row env m (columns t)" if z: "t \<noteq> zero_target"
    proof -
      from z t have ld: "columns t \<in> set (td_rows ?db d)" by (simp add: loaded_def)
      then have id: "tg_ID t \<noteq> 0" using targets_okD(1)[OF ok ld] by (simp add: target_ok_def)
      then have "k = tg_ID t" "ri = tg_ResourceId t" using k ld pid2 by force+
      moreover have "project_id t2 = tg_ProjectID t" using ldd[OF z] pid2 by simp
      ultimately have r': "r = (columns t2)\<lparr>tg_ID := tg_ID t, tg_ResourceId := tg_ResourceId t, tg_ProjectID := tg_ProjectID t\<rparr>"
        using r by simp
      show ?thesis unfolding r' by (simp add: t2 t1 merge_row_def columns_def rec t0_fields split: option.split)
    qed
    show "\<exists>k p ref. r = merge_row env m (new_row i k (pk_ID p)) \<and> k \<notin> tg_ID ` set (td_rows (te_db env) d)
           \<and> tp_Project m = Some ref \<and> ProjectFromProtoRef env d (Some ref) = Inr p" if z: "t = zero_target"
    proof -
      obtain p ref where p: "project_id ?t = pk_ID p" "tp_Project m = Some ref" "ProjectFromProtoRef env d (Some ref) = Inr p"
        using new[OF z] by blast
      have "tg_ID t2 = 0" using pid2 z by (simp add: zero_target_def)
      then have kk: "k \<notin> tg_ID ` set (td_rows ?db d)" "ri = i" using k by (simp_all add: t2)
      have r': "r = (columns t2)\<lparr>tg_ID := k, tg_ResourceId := i, tg_ProjectID := pk_ID p\<rparr>"
        using r p(1) pid2(1) kk(2) by simp
      have "r = merge_row env m (new_row i k (pk_ID p))"
        unfolding r' by (simp add: t2 t1 merge_row_def new_row_def columns_def rec t0_fields split: option.split)
          (simp add: z zero_target_def split: option.split)
      with kk p show ?thesis by blast
    qed
  qed (fact i(2) prj)+
qed

text \<open>A request that fails changes nothing.\<close>

lemma target_upsert_Fail: "target_upsert env t d = Fail d1 e \<Longrightarrow> d1 = d"
  by (auto simp: target_upsert_def split: sum.splits)

lemma put_target_Fail: "put_target env m t d = Fail d1 e \<Longrightarrow> d1 = d"
  unfolding put_target_def map_err_def
  by (auto split: sum.splits if_splits outcome.splits elim!: bind_o.elims dest: target_upsert_Fail)

lemma TargetPut_cases:
  assumes "TargetPut env m d = Ret d1 m1"
  obtains (old) t where "TargetFromProtoFuzzy env d m = Inr t" "put_target env (m\<lparr>tp_Project := None\<rparr>) t d = Ret d1 m1"
  | (new) e where "TargetFromProtoFuzzy env d m = Inl e" "put_target env m zero_target d = Ret d1 m1"
  using assms unfolding TargetPut_def by (auto split: sum.splits if_splits)

lemma loaded_not_zero: "targets_ok env d \<Longrightarrow> loaded (te_db env) d t \<Longrightarrow> t \<noteq> zero_target"
proof
  assume "targets_ok env d" "loaded (te_db env) d t" "t = zero_target"
  then have "target_ok (columns (zero_target :: 'b target_row))" using targets_okD(1) by (auto simp: loaded_def)
  then show False by (simp add: target_ok_def zero_target_def)
qed

text \<open>The two outcomes of a put: the row that was found is merged with the message, or a row is added.\<close>

lemma TargetPut_Ret:
  assumes l: "target_lawful (te_db env)" and ok: "targets_ok env d" and run: "TargetPut env m d = Ret d1 m1"
  shows "targets_ok env d1 \<and> tp_State m1 = tp_State m \<and> td_project (te_db env) d1 = td_project (te_db env) d \<and>
     (case TargetFromProtoFuzzy env d m of
        Inr t \<Rightarrow> loaded (te_db env) d t \<and> trow_put (te_db env) d (merge_row env m (columns t)) d1
      | Inl _ \<Rightarrow> (\<exists>i k p ref. trow_put (te_db env) d (merge_row env m (new_row i k (pk_ID p))) d1
           \<and> k \<notin> tg_ID ` set (td_rows (te_db env) d) \<and> tp_ResourceId m1 = i \<and> (tp_ResourceId m \<noteq> [] \<longrightarrow> i = tp_ResourceId m)
           \<and> tp_Project m = Some ref \<and> ProjectFromProtoRef env d (Some ref) = Inr p))"
  using run
proof (cases rule: TargetPut_cases)
  case (old t)
  then have ld: "loaded (te_db env) d t" using TargetFromProtoFuzzy_loaded[OF l] by blast
  have nz: "t \<noteq> zero_target" using loaded_not_zero[OF ok ld] .
  have side: "t = zero_target \<or> (loaded (te_db env) d t \<and> tp_Project (m\<lparr>tp_Project := None\<rparr>) = None)" using ld by simp
  obtain r where "trow_put (te_db env) d r d1" "targets_ok env d1" "tp_State m1 = tp_State (m\<lparr>tp_Project := None\<rparr>)"
    "r = merge_row env (m\<lparr>tp_Project := None\<rparr>) (columns t)" "td_project (te_db env) d1 = td_project (te_db env) d"
    by (rule put_target_Ret[OF l ok old(2) side]) (use nz in blast)
  then show ?thesis using old(1) ld by (simp add: merge_row_def)
next
  case (new e)
  obtain r i where r: "trow_put (te_db env) d r d1" "targets_ok env d1" "tp_ResourceId m1 = i" "i \<noteq> []"
    "tp_ResourceId m \<noteq> [] \<Longrightarrow> i = tp_ResourceId m" "tp_State m1 = tp_State m"
    "\<exists>k p ref. r = merge_row env m (new_row i k (pk_ID p)) \<and> k \<notin> tg_ID ` set (td_rows (te_db env) d)
           \<and> tp_Project m = Some ref \<and> ProjectFromProtoRef env d (Some ref) = Inr p"
    "td_project (te_db env) d1 = td_project (te_db env) d"
    by (rule put_target_Ret[OF l ok new(2)]) (blast, blast)
  then show ?thesis using new(1) by auto
qed

lemma TargetPut_keeps:
  assumes "target_lawful (te_db env)" and "targets_ok env d"
  shows "keeps (targets_ok env) (TargetPut env m d)"
proof (cases "TargetPut env m d")
  case (Ret d1 m1)
  then show ?thesis using TargetPut_Ret[OF assms Ret] by simp
next
  case (Fail d1 e)
  then have "d1 = d" by (auto simp: TargetPut_def dest: put_target_Fail split: sum.splits if_splits)
  then show ?thesis using Fail assms(2) by simp
qed simp

section \<open>Deleting\<close>

text \<open>What a run of \<open>delete_keys\<close> leaves: some of the rows, and none of those that it was to remove.\<close>

lemma delete_keys_rows:
  assumes "target_lawful (te_db env)" and "delete_keys env n all ks d = Ret d1 u"
  shows "\<exists>S. tk_ID ` set all \<subseteq> S \<and> set (td_rows (te_db env) d1) = {x \<in> set (td_rows (te_db env) d). tg_ID x \<notin> S}"
  using assms
proof (induction env n all ks d arbitrary: d1 u rule: delete_keys.induct)
  case (2 env n all d)
  then have "td_remove (te_db env) d (map tk_ID all) = Inr d1" by (simp split: sum.splits)
  then show ?case using target_lawful_remove(1)[OF 2(1)] by (intro exI[of _ "tk_ID ` set all"]) simp
next
  case (3 env n all k ks d)
  then obtain t where t: "target_find env d k = Inr t" by (auto split: sum.splits)
  with 3 obtain d2 where hook: "(if tg_Subtargets t = [] then Ret d () else delete_keys env n (tg_Subtargets t) (tg_Subtargets t) d) = Ret d2 ()"
    and rest: "delete_keys env (Suc n) all ks d2 = Ret d1 u"
    by (auto simp: bind_o_Ret_iff)
  have "\<exists>S'. set (td_rows (te_db env) d2) = {x \<in> set (td_rows (te_db env) d). tg_ID x \<notin> S'}"
  proof (cases "tg_Subtargets t = []")
    case True
    then show ?thesis using hook by (intro exI[of _ "{}"]) simp
  next
    case False
    then show ?thesis using "3.IH"(1)[OF t False "3.prems"(1)] hook by auto
  qed
  then obtain S' where "set (td_rows (te_db env) d2) = {x \<in> set (td_rows (te_db env) d). tg_ID x \<notin> S'}" ..
  moreover obtain S where "tk_ID ` set all \<subseteq> S" "set (td_rows (te_db env) d1) = {x \<in> set (td_rows (te_db env) d2). tg_ID x \<notin> S}"
    using "3.IH"(2)[OF t "3.prems"(1) rest] by auto
  ultimately show ?case by (intro exI[of _ "S \<union> S'"]) auto
qed simp

lemma delete_keys_keeps:
  assumes "target_lawful (te_db env)" and "targets_ok env d" and "delete_keys env n all ks d = Ret d1 u"
  shows "targets_ok env d1"
  using assms(2) delete_keys_rows[OF assms(1,3)] unfolding targets_ok_def by blast

lemma target_find_self:
  assumes l: "target_lawful (te_db env)" and ok: "targets_ok env d" and ld: "loaded (te_db env) d t"
  obtains t' where "target_find env d (key_of t) = Inr t'" and "columns t' = columns t" and "loaded (te_db env) d t'"
proof -
  let ?k = "key_of t"
  let ?qs = "filter (\<lambda>q. q \<noteq> zero_key) [zero_key\<lparr>tk_ResourceId := tk_ResourceId ?k\<rparr>, zero_key\<lparr>tk_Uuid := tk_Uuid ?k\<rparr>,
        zero_key\<lparr>tk_ProjectID := tk_ProjectID ?k, tk_Name := tk_Name ?k\<rparr>, zero_key\<lparr>tk_ID := tk_ID ?k\<rparr>]"
  have in_d: "columns t \<in> set (td_rows (te_db env) d)" using ld by (simp add: loaded_def)
  have nz: "tg_ID t \<noteq> 0" "tg_ResourceId t \<noteq> []" "tg_Name t \<noteq> []" "tg_ProjectID t \<noteq> 0"
    using targets_okD(1)[OF ok in_d] by (simp_all add: target_ok_def)
  obtain ts where ts: "td_find (te_db env) d ?qs = Inr ts" "\<And>x. x \<in> set ts \<Longrightarrow> loaded (te_db env) d x"
    and cols: "columns ` set ts = {r \<in> set (td_rows (te_db env) d). ?qs = [] \<or> (\<exists>q \<in> set ?qs. key_match q r)}"
    using target_find_rows[OF l] by blast
  have first: "zero_key\<lparr>tk_ResourceId := tk_ResourceId ?k\<rparr> \<in> set ?qs" "?qs \<noteq> []"
    using nz by (simp_all add: zero_key_def key_of_def)
  have only: "r = columns t" if r: "r \<in> set (td_rows (te_db env) d)" "q \<in> set ?qs" "key_match q r" for q r
  proof -
    have "tg_ID r = tg_ID (columns t) \<or> target_clash r (columns t)"
    proof -
      have "q \<in> set [zero_key\<lparr>tk_ResourceId := tk_ResourceId ?k\<rparr>, zero_key\<lparr>tk_Uuid := tk_Uuid ?k\<rparr>,
          zero_key\<lparr>tk_ProjectID := tk_ProjectID ?k, tk_Name := tk_Name ?k\<rparr>, zero_key\<lparr>tk_ID := tk_ID ?k\<rparr>]" "q \<noteq> zero_key"
        using r(2) by (simp_all only: set_filter mem_Collect_eq not_False_eq_True simp_thms)
      then consider "q = zero_key\<lparr>tk_ResourceId := tg_ResourceId t\<rparr>" | "q = zero_key\<lparr>tk_Uuid := tg_Uuid t\<rparr>" "tg_Uuid t \<noteq> None"
        | "q = zero_key\<lparr>tk_ProjectID := tg_ProjectID t, tk_Name := tg_Name t\<rparr>" | "q = zero_key\<lparr>tk_ID := tg_ID t\<rparr>"
        by (cases "tg_Uuid t") (auto simp: key_of_def zero_key_def)
      then show ?thesis using r(3) nz by cases (auto simp: key_match_def zero_key_def target_clash_def)
    qed
    then show ?thesis using targets_okD(2,3)[OF ok r(1) in_d] by blast
  qed
  have "columns t \<in> columns ` set ts"
    unfolding cols using in_d first(1) by (auto simp: key_match_def zero_key_def key_of_def)
  then obtain x xs where x: "ts = x # xs" by (cases ts) auto
  then have "columns x \<in> columns ` set ts" by simp
  then have "columns x = columns t" unfolding cols using first(2) only by blast
  with x ts show thesis using that[of x] by (simp add: target_find_def first_row_def)
qed

text \<open>A row whose hook deletes nothing else.\<close>

definition leaf :: "('d, 'x) targetenv \<Rightarrow> 'd \<Rightarrow> 'x target_ref \<Rightarrow> bool" where
  "leaf env d ref =
     (case TargetFromProtoRef env d (Some ref) of
        Inl _ \<Rightarrow> True
      | Inr t \<Rightarrow> (case target_find env d (key_of t) of Inl _ \<Rightarrow> True | Inr t' \<Rightarrow> tg_Subtargets t' = []))"

lemma TargetDelete_Ret:
  assumes l: "target_lawful (te_db env)" and ok: "targets_ok env d" and i: "rt_ResourceId ref \<noteq> []"
    and run: "TargetDelete env (Some ref) d = Ret d1 u"
  shows "targets_ok env d1" and "row_of env d1 (rt_ResourceId ref) = None"
    and "row_of env d1 j = Some r \<Longrightarrow> row_of env d j = Some r"
    and "leaf env d ref \<Longrightarrow> j \<noteq> rt_ResourceId ref \<Longrightarrow> row_of env d1 j = row_of env d j"
proof -
  let ?i = "rt_ResourceId ref"
  have main: "targets_ok env d1 \<and> row_of env d1 ?i = None \<and> (\<forall>j r. row_of env d1 j = Some r \<longrightarrow> row_of env d j = Some r)
     \<and> (leaf env d ref \<longrightarrow> (\<forall>j. j \<noteq> ?i \<longrightarrow> row_of env d1 j = row_of env d j))"
  proof (cases "row_of env d ?i")
    case None
    then have "TargetFromProtoRef env d (Some ref) = Inl RecordNotFound"
      using TargetFromProtoRef_row[OF l ok i] by simp
    then have "d1 = d" using run by (auto simp: TargetDelete_def is_not_found_def split: if_splits)
    then show ?thesis using ok None by simp
  next
    case (Some x)
    then obtain t where t: "TargetFromProtoRef env d (Some ref) = Inr t" "columns t = x" "loaded (te_db env) d t"
      using TargetFromProtoRef_row[OF l ok i] by auto
    have del: "delete_keys env (te_stack env) [key_of t] [key_of t] d = Ret d1 u"
      using run t(1) by (auto simp: TargetDelete_def in_transaction_def map_err_def split: outcome.splits)
    have ok1: "targets_ok env d1" by (rule delete_keys_keeps[OF l ok del])
    obtain S where S: "tk_ID (key_of t) \<in> S" "set (td_rows (te_db env) d1) = {y \<in> set (td_rows (te_db env) d). tg_ID y \<notin> S}"
      using delete_keys_rows[OF l del] by auto
    have xd: "x \<in> set (td_rows (te_db env) d)" "tg_ResourceId x = ?i" using Some by (simp_all add: row_of_iff[OF ok])
    have idx: "tk_ID (key_of t) = tg_ID x" using t(2) by (auto simp: key_of_def)
    have sub: "row_of env d j = Some r" if "row_of env d1 j = Some r" for j r
      using that S(2) by (auto simp: row_of_iff[OF ok] row_of_iff[OF ok1])
    have gone: "row_of env d1 ?i = None"
    proof (rule ccontr)
      assume "row_of env d1 ?i \<noteq> None"
      then obtain r where r: "row_of env d1 ?i = Some r" by blast
      then have "r = x" using sub Some by simp
      then show False using r S idx by (auto simp: row_of_iff[OF ok1])
    qed
    have "row_of env d1 j = row_of env d j" if lf: "leaf env d ref" and j: "j \<noteq> ?i" for j
    proof -
      obtain t' where t': "target_find env d (key_of t) = Inr t'" using target_find_self[OF l ok t(3)] by blast
      with lf t(1) have "tg_Subtargets t' = []" by (simp add: leaf_def)
      with del t' have "td_remove (te_db env) d [tk_ID (key_of t)] = Inr d1"
        by (cases "te_stack env") (auto split: sum.splits)
      then have rows: "set (td_rows (te_db env) d1) = {y \<in> set (td_rows (te_db env) d). tg_ID y \<noteq> tg_ID x}"
        using target_lawful_remove(1)[OF l] idx by fastforce
      have "row_of env d1 j = Some r \<longleftrightarrow> row_of env d j = Some r" for r
        unfolding row_of_iff[OF ok] row_of_iff[OF ok1] rows
        using targets_okD(2)[OF ok xd(1)] xd(2) j by (metis (mono_tags, lifting) mem_Collect_eq)
      then show ?thesis by (rule option_eqI)
    qed
    then show ?thesis by (intro conjI ok1 gone allI impI sub)
  qed
  show "targets_ok env d1" by (fact main[THEN conjunct1])
  show "row_of env d1 ?i = None" by (fact main[THEN conjunct2, THEN conjunct1])
  show "row_of env d1 j = Some r \<Longrightarrow> row_of env d j = Some r"
    using main[THEN conjunct2, THEN conjunct2, THEN conjunct1] by (elim allE impE)
  show "leaf env d ref \<Longrightarrow> j \<noteq> ?i \<Longrightarrow> row_of env d1 j = row_of env d j"
    using main[THEN conjunct2, THEN conjunct2, THEN conjunct2] by (elim allE impE)
qed

lemma TargetDelete_keeps:
  assumes l: "target_lawful (te_db env)" and ok: "targets_ok env d"
  shows "keeps (targets_ok env) (TargetDelete env ref d)"
proof (cases "TargetDelete env ref d")
  case (Ret d1 u)
  then show ?thesis
    using delete_keys_keeps[OF l ok] ok
    by (auto simp: TargetDelete_def map_err_def in_transaction_def split: sum.splits if_splits outcome.splits)
next
  case (Fail d1 e)
  then have "d1 = d"
    by (auto simp: TargetDelete_def map_err_def in_transaction_def split: sum.splits if_splits outcome.splits)
  then show ?thesis using Fail ok by simp
qed simp

section \<open>The row of a resource id after a put\<close>

lemma trow_put_row:
  assumes "targets_ok env d" and "targets_ok env d1" and put: "trow_put (te_db env) d r d1"
    and "\<And>x. x \<in> set (td_rows (te_db env) d) \<Longrightarrow> tg_ID x = tg_ID r \<Longrightarrow> tg_ResourceId x = tg_ResourceId r"
  shows "row_of env d1 i = (if i = tg_ResourceId r then Some r else row_of env d i)"
proof (rule option_eqI)
  have rin: "r \<in> set (td_rows (te_db env) d1)" using put by (simp add: trow_put_def)
  have "row_of env d1 (tg_ResourceId r) = Some r" using rin by (simp add: row_of_iff[OF assms(2)])
  moreover have "row_of env d1 i = Some x \<longleftrightarrow> row_of env d i = Some x" if "i \<noteq> tg_ResourceId r" for x
    using put assms(4)[of x] that by (auto simp: row_of_iff[OF assms(1)] row_of_iff[OF assms(2)] trow_put_def)
  ultimately show "row_of env d1 i = Some x \<longleftrightarrow> (if i = tg_ResourceId r then Some r else row_of env d i) = Some x" for x
    by auto
qed

text \<open>A message with the resource id of a row is merged into that row.\<close>

lemma TargetPut_by_id:
  assumes l: "target_lawful (te_db env)" and ok: "targets_ok env d" and run: "TargetPut env m d = Ret d1 m1"
    and i: "tp_ResourceId m \<noteq> []" "row_of env d (tp_ResourceId m) = Some old"
  shows "targets_ok env d1" and "row_of env d1 = (row_of env d)(tp_ResourceId m \<mapsto> merge_row env m old)"
proof -
  let ?ref = "\<lparr>rt_ResourceId = tp_ResourceId m, rt_Name = [], rt_Project = None\<rparr> :: 'b target_ref"
  obtain t where t: "TargetFromProtoRef env d (Some ?ref) = Inr t" "columns t = old"
    using TargetFromProtoRef_row[OF l ok, of ?ref] i by auto
  then have "TargetFromProtoFuzzy env d m = Inr t" by (simp add: TargetFromProtoFuzzy_def TargetFromProto_def)
  with TargetPut_Ret[OF l ok run] t(2) have ok1: "targets_ok env d1"
    and put: "trow_put (te_db env) d (merge_row env m old) d1" by simp_all
  have old: "old \<in> set (td_rows (te_db env) d)" "tg_ResourceId old = tp_ResourceId m"
    using i(2) by (simp_all add: row_of_iff[OF ok])
  show "targets_ok env d1" by (fact ok1)
  show "row_of env d1 = (row_of env d)(tp_ResourceId m \<mapsto> merge_row env m old)"
    using trow_put_row[OF ok ok1 put] targets_okD(2)[OF ok _ old(1)] old(2) by (fastforce simp: fun_eq_iff)
qed

section \<open>A lawful database\<close>

text \<open>A list of rows with a counter for the ids, the ids of their parents, and projects.\<close>

record 'x target_list =
  tl_next :: nat
  tl_rows :: "'x trow list"
  tl_parents :: "(nat \<times> nat) list"
  tl_projects :: "'x project_row list"

definition row_key :: "'x trow \<Rightarrow> target_key" where
  "row_key r =
     \<lparr>tk_ID = tg_ID r, tk_ResourceId = tg_ResourceId r, tk_Uuid = tg_Uuid r, tk_ProjectID = tg_ProjectID r, tk_Name = tg_Name r\<rparr>"

definition load_row :: "'x target_list \<Rightarrow> 'x trow \<Rightarrow> 'x target_row" where
  "load_row d r =
     (let up = map_of (tl_parents d) (tg_ID r)
      in \<lparr>tg_ID = tg_ID r, tg_ResourceId = tg_ResourceId r, tg_Uuid = tg_Uuid r, tg_ProjectID = tg_ProjectID r,
          tg_Name = tg_Name r, tg_Configuration = tg_Configuration r, tg_Metadata = tg_Metadata r,
          tg_Provider = tg_Provider r, tg_Record = tg_Record r, tg_State = tg_State r,
          tg_Parent = (case up of None \<Rightarrow> None | Some p \<Rightarrow> map_option row_key (find (\<lambda>x. tg_ID x = p) (tl_rows d))),
          tg_ParentID = up,
          tg_Project = (if tg_ProjectID r = 0 then None else find (\<lambda>p. pk_ID p = tg_ProjectID r) (tl_projects d)),
          tg_Subtargets = map row_key (filter (\<lambda>x. map_of (tl_parents d) (tg_ID x) = Some (tg_ID r)) (tl_rows d))\<rparr>)"

definition list_put :: "'x target_list \<Rightarrow> 'x target_row \<Rightarrow> 'x target_list" where
  "list_put d t =
     (let k = (if tg_ID t = 0 then Suc (fold max (map tg_ID (tl_rows d)) (tl_next d)) else tg_ID t);
          ri = (case find (\<lambda>x. tg_ID t \<noteq> 0 \<and> tg_ID x = tg_ID t) (tl_rows d) of None \<Rightarrow> tg_ResourceId t | Some x \<Rightarrow> tg_ResourceId x)
      in d\<lparr>tl_next := max k (tl_next d),
           tl_rows := filter (\<lambda>x. tg_ID x \<noteq> tg_ID t) (tl_rows d)
                        @ [(columns t)\<lparr>tg_ID := k, tg_ResourceId := ri, tg_ProjectID := project_id t\<rparr>],
           tl_parents := (case tg_Parent t of None \<Rightarrow> tl_parents d | Some p \<Rightarrow> (k, tk_ID p) # tl_parents d)\<rparr>)"

definition projects_of :: "'x target_list \<Rightarrow> string \<Rightarrow> 'x project_row list" where
  "projects_of d i = filter (\<lambda>p. pf_ResourceId (pk_ref p) = i \<and> pk_ID p \<noteq> 0) (tl_projects d)"

definition substring :: "string \<Rightarrow> string \<Rightarrow> bool" where
  "substring u s \<longleftrightarrow> list_ex (\<lambda>n. HasPrefix (drop n s) u) [0 ..< Suc (length s)]"

definition target_list_db :: "('x target_list, 'x) targetdb" where
  "target_list_db =
     \<lparr>td_find = (\<lambda>d qs. Inr (map (load_row d) (filter (\<lambda>r. qs = [] \<or> list_ex (\<lambda>q. key_match q r) qs) (tl_rows d)))),
      td_in_project = (\<lambda>d i n. Inr (map (load_row d)
         (filter (\<lambda>r. tg_ProjectID r \<in> set (map pk_ID (projects_of d i)) \<and> (n = [] \<or> tg_Name r = n)) (tl_rows d)))),
      td_like = (\<lambda>d u. Inr (map (load_row d) (filter (\<lambda>r. case tg_Uuid r of None \<Rightarrow> False | Some s \<Rightarrow> substring u s) (tl_rows d)))),
      td_joined = (\<lambda>d p n. Inr (map (load_row d) (filter (\<lambda>r. tg_Name r = n) (tl_rows d)))),
      td_project = (\<lambda>d i. Inr (projects_of d i)),
      td_count = (\<lambda>d q i. Inr (length (filter (\<lambda>r. key_match q r \<and> tg_ID r \<noteq> i) (tl_rows d)))),
      td_changed = (\<lambda>d t. False),
      td_save = (\<lambda>d t. Inr (list_put d t)),
      td_remove = (\<lambda>d is. Inr (d\<lparr>tl_rows := filter (\<lambda>x. tg_ID x \<notin> set is) (tl_rows d),
         tl_parents := filter (\<lambda>e. fst e \<notin> set is \<and> the (map_of (tl_parents d) (fst e)) \<notin> set is) (tl_parents d)\<rparr>)),
      td_rows = tl_rows\<rparr>"

lemma columns_load [simp]: "columns (load_row d r) = r"
  by (simp add: columns_def load_row_def Let_def)

lemma load_row_loaded: "r \<in> set (tl_rows d) \<Longrightarrow> loaded target_list_db d (load_row d r)"
  unfolding loaded_def columns_load
  by (auto simp: target_list_db_def load_row_def Let_def find_Some_iff split: if_splits)

lemma list_put_stored:
  "\<exists>r. stored_target (tl_rows d) t r \<and> set (tl_rows (list_put d t)) = insert r {x \<in> set (tl_rows d). tg_ID x \<noteq> tg_ID t}"
proof -
  define k where "k = (if tg_ID t = 0 then Suc (fold max (map tg_ID (tl_rows d)) (tl_next d)) else tg_ID t)"
  define ri where "ri = (case find (\<lambda>x. tg_ID t \<noteq> 0 \<and> tg_ID x = tg_ID t) (tl_rows d) of None \<Rightarrow> tg_ResourceId t | Some x \<Rightarrow> tg_ResourceId x)"
  let ?r = "(columns t)\<lparr>tg_ID := k, tg_ResourceId := ri, tg_ProjectID := project_id t\<rparr>"
  have fresh: "k \<notin> tg_ID ` set (tl_rows d)" if "tg_ID t = 0"
    using fold_max_ge(1)[of _ "map tg_ID (tl_rows d)" "tl_next d"] that by (auto simp: k_def) (metis Suc_n_not_le_n imageI)
  have old: "\<exists>x \<in> set (tl_rows d). tg_ID x = k \<and> ri = tg_ResourceId x" if t: "tg_ID t \<noteq> 0" "k \<in> tg_ID ` set (tl_rows d)"
  proof -
    from t obtain x where "find (\<lambda>x. tg_ID t \<noteq> 0 \<and> tg_ID x = tg_ID t) (tl_rows d) = Some x"
      by (cases "find (\<lambda>x. tg_ID t \<noteq> 0 \<and> tg_ID x = tg_ID t) (tl_rows d)") (auto simp: find_None_iff k_def)
    moreover from this have "x \<in> set (tl_rows d)" "tg_ID x = tg_ID t" by (auto simp: find_Some_iff)
    ultimately show ?thesis using t by (auto simp: ri_def k_def)
  qed
  have new: "tg_ID t = 0 \<Longrightarrow> k \<noteq> 0 \<and> ri = tg_ResourceId t"
    by (simp add: k_def ri_def find_None_iff split: option.split) (auto simp: find_Some_iff)
  have "stored_target (tl_rows d) t ?r"
    unfolding stored_target_def
    by (rule exI[of _ k], rule exI[of _ ri]) (use fresh old new in \<open>auto simp: k_def\<close>)
  moreover have "set (tl_rows (list_put d t)) = insert ?r {x \<in> set (tl_rows d). tg_ID x \<noteq> tg_ID t}"
    by (auto simp: list_put_def Let_def k_def ri_def)
  ultimately show ?thesis by blast
qed

lemma map_of_filter_keys: "map_of (filter (\<lambda>e. P (fst e)) xs) k = (if P k then map_of xs k else None)"
  by (induction xs) auto

lemma flat_list_iff:
  "flat target_list_db d \<longleftrightarrow> (\<forall>r \<in> set (tl_rows d). \<forall>x \<in> set (tl_rows d). map_of (tl_parents d) (tg_ID x) \<noteq> Some (tg_ID r))"
proof
  assume "flat target_list_db d"
  moreover have "td_find target_list_db d [] = Inr (map (load_row d) (tl_rows d))"
    by (simp add: target_list_db_def)
  ultimately have "\<forall>t \<in> set (map (load_row d) (tl_rows d)). tg_Subtargets t = []"
    unfolding flat_def by blast
  then show "\<forall>r \<in> set (tl_rows d). \<forall>x \<in> set (tl_rows d). map_of (tl_parents d) (tg_ID x) \<noteq> Some (tg_ID r)"
    by (auto simp: load_row_def Let_def filter_empty_conv)
qed (auto simp: flat_def target_list_db_def load_row_def Let_def filter_empty_conv)

lemma target_list_db_lawful: "target_lawful target_list_db"
proof -
  have all: "all_loaded target_list_db d (Inr (map (load_row d) (filter P (tl_rows d))))" for d :: "'a target_list" and P
    by (auto simp: all_loaded_def intro: load_row_loaded)
  have cols: "columns ` set (map (load_row d) rs) = set rs" for d :: "'a target_list" and rs
    by (simp add: image_image)
  show ?thesis
    unfolding target_lawful_def
  proof (intro conjI allI impI)
    show "\<exists>ts. td_find target_list_db d qs = Inr ts \<and> all_loaded target_list_db d (Inr ts) \<and>
       columns ` set ts = {r \<in> set (td_rows target_list_db d). qs = [] \<or> (\<exists>q\<in>set qs. key_match q r)}"
      for d :: "'a target_list" and qs
      by (rule exI[of _ "map (load_row d) (filter (\<lambda>r. qs = [] \<or> list_ex (\<lambda>q. key_match q r) qs) (tl_rows d))"], intro conjI all)
        (auto simp: target_list_db_def cols list_ex_iff simp del: set_map)
    show "\<exists>ts ps. td_in_project target_list_db d i n = Inr ts \<and> td_project target_list_db d i = Inr ps \<and>
       all_loaded target_list_db d (Inr ts) \<and>
       columns ` set ts = {r \<in> set (td_rows target_list_db d). tg_ProjectID r \<in> pk_ID ` set ps \<and> (n = [] \<or> tg_Name r = n)}"
      for d :: "'a target_list" and i n
      by (rule exI[of _ "map (load_row d) (filter (\<lambda>r. tg_ProjectID r \<in> set (map pk_ID (projects_of d i)) \<and> (n = [] \<or> tg_Name r = n)) (tl_rows d))"],
          rule exI[of _ "projects_of d i"], intro conjI all)
        (auto simp: target_list_db_def image_image)
    show "all_loaded target_list_db d (td_like target_list_db d u)" for d :: "'a target_list" and u
      using all by (simp add: target_list_db_def)
    show "td_project target_list_db d i = Inr ps \<Longrightarrow> \<forall>p\<in>set ps. pk_ID p \<noteq> 0" for d :: "'a target_list" and i ps
      by (auto simp: target_list_db_def projects_of_def)
    show "td_count target_list_db d q i = Inr n \<Longrightarrow> (n = 0) = (\<forall>r\<in>set (td_rows target_list_db d). key_match q r \<longrightarrow> tg_ID r = i)"
      for d :: "'a target_list" and q i n
      by (auto simp: target_list_db_def filter_empty_conv)
    show "td_save target_list_db d t = Inr d1 \<Longrightarrow>
       \<exists>r. stored_target (td_rows target_list_db d) t r \<and>
            set (td_rows target_list_db d1) = insert r {x \<in> set (td_rows target_list_db d). tg_ID x \<noteq> tg_ID t}"
      for d :: "'a target_list" and t d1
      using list_put_stored[of d t] by (auto simp: target_list_db_def)
    show "td_save target_list_db d t = Inr d1 \<Longrightarrow> td_project target_list_db d1 = td_project target_list_db d"
      for d :: "'a target_list" and t d1
      by (auto simp: target_list_db_def list_put_def Let_def projects_of_def)
    show "td_remove target_list_db d is = Inr d1 \<Longrightarrow>
       set (td_rows target_list_db d1) = {x \<in> set (td_rows target_list_db d). tg_ID x \<notin> set is}"
      for d :: "'a target_list" and "is" d1
      by (auto simp: target_list_db_def)
    show "td_remove target_list_db d is = Inr d1 \<Longrightarrow> flat target_list_db d \<Longrightarrow> flat target_list_db d1"
      for d :: "'a target_list" and "is" d1
      unfolding flat_list_iff
      by (auto simp: target_list_db_def map_of_filter_keys[where P = "\<lambda>c. c \<notin> set is \<and> the (map_of (tl_parents d) c) \<notin> set is"]
          split: if_splits)
  qed
qed

end
