(* ===== verification/TargetCore.thy ===== *)
theory TargetCore
  imports Targets
begin

text \<open>
  Targets and machines in the core (\<open>core/target.go\<close>, \<open>core/machine.go\<close>): an object with its copy of the stored message,
  which it reloads and saves through the requests of the server, its life from \<open>Init\<close> to \<open>Destroy\<close>, how the factory
  (\<open>core/factory.go\<close>) shares objects, and what a project (\<open>core/project.go\<close>) does with all of its targets.

  Vagrantfiles (of type \<open>'v\<close>), the file system, the user and the conversion of a machine to its message are arguments.
\<close>

section \<open>Objects and the world\<close>

record ('x, 'v) target_obj =
  to_target :: "'x targetpb"
  to_vagrantfile :: "'v option"
  to_dir :: "string option"
  to_ready :: bool
  to_closers :: nat

record 'x machine_pb =
  mc_Id :: string
  mc_Uid :: string
  mc_State :: "string option"
  mc_Box :: "'x option"

text \<open>The server, the files of every data directory, the objects that exist, and the cache of the factory.\<close>

record ('d, 'x, 'v) cworld =
  cw_srv :: 'd
  cw_files :: "string \<Rightarrow> string list"
  cw_objs :: "('x, 'v) target_obj list"
  cw_cache :: "string \<rightharpoonup> nat"

text \<open>\<open>ce_project\<close> is the reference of the project, \<open>ce_dir\<close> makes the data directory of a target, \<open>ce_glob\<close> tells
  whether a directory cannot be used as a pattern, \<open>ce_keep\<close> why a file cannot be removed. \<open>ce_stub\<close> and \<open>ce_load\<close> are the
  Vagrantfile of a target without and with a stored configuration, \<open>ce_toStore\<close> stores one, \<open>ce_nothing\<close> is the
  configuration without data, \<open>ce_any\<close> converts a machine, \<open>ce_user\<close> is the current user, and \<open>ce_targets\<close> the
  targets of the stored project.\<close>

record ('d, 'x, 'v) coreenv =
  ce_srv :: "('d, 'x) targetenv"
  ce_project :: "'x project_ref"
  ce_dir :: "string \<Rightarrow> goerr + string"
  ce_glob :: "string \<Rightarrow> goerr option"
  ce_keep :: "string \<Rightarrow> goerr option"
  ce_append :: "goerr option \<Rightarrow> goerr \<Rightarrow> goerr"
  ce_stub :: 'v
  ce_load :: "'x \<Rightarrow> goerr + 'v"
  ce_toStore :: "'v \<Rightarrow> goerr + 'x"
  ce_nothing :: 'x
  ce_any :: "'x machine_pb \<Rightarrow> goerr + 'x"
  ce_user :: "goerr + string"
  ce_targets :: "'d \<Rightarrow> goerr + 'x target_ref list"

type_synonym ('d, 'x, 'v, 'a) core_result = "(('d, 'x, 'v) cworld \<times> ('x, 'v) target_obj, goerr, 'a) outcome"

text \<open>A request of an object to the server.\<close>

definition ask ::
  "('d \<Rightarrow> ('d, 'a) target_result) \<Rightarrow> ('d, 'x, 'v) cworld \<times> ('x, 'v) target_obj \<Rightarrow> ('d, 'x, 'v, 'a) core_result" where
  "ask f s =
     (case f (cw_srv (fst s)) of
        Ret d a \<Rightarrow> Ret ((fst s)\<lparr>cw_srv := d\<rparr>, snd s) a
      | Fail d e \<Rightarrow> Fail ((fst s)\<lparr>cw_srv := d\<rparr>, snd s) e
      | Crash m \<Rightarrow> Crash m)"

definition on_target ::
  "('x targetpb \<Rightarrow> 'x targetpb) \<Rightarrow> ('d, 'x, 'v) cworld \<times> ('x, 'v) target_obj \<Rightarrow> ('d, 'x, 'v) cworld \<times> ('x, 'v) target_obj" where
  "on_target f s = (fst s, (snd s)\<lparr>to_target := f (to_target (snd s))\<rparr>)"

section \<open>Targets\<close>

definition empty_pb :: "'x targetpb" where
  "empty_pb = \<lparr>tp_ResourceId = [], tp_Name = [], tp_Project = None, tp_State = UNKNOWN, tp_Subtargets = [], tp_Parent = None,
     tp_Uuid = [], tp_Metadata = None, tp_Configuration = None, tp_Record = None, tp_Provider = []\<rparr>"

text \<open>The options of a new target.\<close>

datatype ('x, 'v) target_option =
    WithProject "'x project_ref"
  | WithTargetProjectRef "'x project_ref"
  | WithTargetVagrantfile 'v
  | WithTargetName string
  | WithTargetRef "'x target_ref"
  | WithProvider string

definition apply_target_option :: "('x, 'v) target_option \<Rightarrow> ('x, 'v) target_obj \<Rightarrow> ('x, 'v) target_obj" where
  "apply_target_option opt t =
     (let m = to_target t in
      case opt of
        WithProject p \<Rightarrow> t\<lparr>to_target := m\<lparr>tp_Project := Some p\<rparr>\<rparr>
      | WithTargetProjectRef p \<Rightarrow> t\<lparr>to_target := m\<lparr>tp_Project := Some p\<rparr>\<rparr>
      | WithTargetVagrantfile v \<Rightarrow> t\<lparr>to_vagrantfile := Some v\<rparr>
      | WithTargetName n \<Rightarrow> t\<lparr>to_target := m\<lparr>tp_Name := n\<rparr>\<rparr>
      | WithTargetRef r \<Rightarrow>
          t\<lparr>to_target := m\<lparr>tp_Name := (if rt_Name r \<noteq> [] then rt_Name r else tp_Name m),
                          tp_ResourceId := (if rt_ResourceId r \<noteq> [] then rt_ResourceId r else tp_ResourceId m),
                          tp_Project := (if rt_Project r \<noteq> None then rt_Project r else tp_Project m)\<rparr>\<rparr>
      | WithProvider p \<Rightarrow> (if p \<noteq> [] then t\<lparr>to_target := m\<lparr>tp_Provider := p\<rparr>\<rparr> else t))"

definition NewTarget :: "('x, 'v) target_option list \<Rightarrow> ('x, 'v) target_obj" where
  "NewTarget opts =
     fold apply_target_option opts
       \<lparr>to_target = empty_pb, to_vagrantfile = None, to_dir = None, to_ready = False, to_closers = 0\<rparr>"

definition target_Ref :: "'x targetpb \<Rightarrow> 'x target_ref" where
  "target_Ref m = \<lparr>rt_ResourceId = tp_ResourceId m, rt_Name = tp_Name m, rt_Project = tp_Project m\<rparr>"

definition Reload :: "('d, 'x, 'v) coreenv \<Rightarrow> ('d, 'x, 'v) cworld \<times> ('x, 'v) target_obj \<Rightarrow> ('d, 'x, 'v, unit) core_result" where
  "Reload ce s =
     bind_o (ask (FindTarget (ce_srv ce) (Some (to_target (snd s)))) s) (\<lambda>s m. Ret (on_target (\<lambda>_. m) s) ())"

text \<open>The configuration is taken from the Vagrantfile; an error of that leaves none.\<close>

definition captured :: "('d, 'x, 'v) coreenv \<Rightarrow> ('x, 'v) target_obj \<Rightarrow> 'x targetpb" where
  "captured ce t =
     (case to_vagrantfile t of
        None \<Rightarrow> to_target t
      | Some v \<Rightarrow>
          (to_target t)\<lparr>tp_Configuration := (case ce_toStore ce v of Inl _ \<Rightarrow> None | Inr c \<Rightarrow> Some c)\<rparr>)"

definition Save :: "('d, 'x, 'v) coreenv \<Rightarrow> ('d, 'x, 'v) cworld \<times> ('x, 'v) target_obj \<Rightarrow> ('d, 'x, 'v, unit) core_result" where
  "Save ce s =
     (let m = captured ce (snd s)
      in bind_o (ask (UpsertTarget (ce_srv ce) (Some m)) (on_target (\<lambda>_. m) s)) (\<lambda>s m. Ret (on_target (\<lambda>_. m) s) ()))"

text \<open>The part of \<open>Init\<close> after the target is known to the server.\<close>

definition prepare :: "('d, 'x, 'v) coreenv \<Rightarrow> ('d, 'x, 'v) cworld \<times> ('x, 'v) target_obj \<Rightarrow> ('d, 'x, 'v, unit) core_result" where
  "prepare ce s =
     (let s = on_target (\<lambda>m. m\<lparr>tp_Project := Some (ce_project ce)\<rparr>) s
      in case (case to_dir (snd s) of Some p \<Rightarrow> Inr p | None \<Rightarrow> ce_dir ce (tp_Name (to_target (snd s)))) of
           Inl e \<Rightarrow> Fail s e
         | Inr p \<Rightarrow>
             (let t = (snd s)\<lparr>to_dir := Some p, to_closers := Suc (to_closers (snd s))\<rparr>
              in if to_vagrantfile t \<noteq> None then Ret (fst s, t) ()
                 else (case tp_Configuration (to_target t) of
                         None \<Rightarrow>
                           Ret (fst s, t\<lparr>to_target := (to_target t)\<lparr>tp_Configuration := Some (ce_nothing ce)\<rparr>,
                                         to_vagrantfile := Some (ce_stub ce)\<rparr>) ()
                       | Some c \<Rightarrow>
                           (case ce_load ce c of
                              Inl e \<Rightarrow> Fail (fst s, t) e
                            | Inr v \<Rightarrow> Ret (fst s, t\<lparr>to_vagrantfile := Some v, to_ready := True\<rparr>) ()))))"

text \<open>A target that the server does not know is saved.\<close>

definition Init :: "('d, 'x, 'v) coreenv \<Rightarrow> ('d, 'x, 'v) cworld \<times> ('x, 'v) target_obj \<Rightarrow> ('d, 'x, 'v, unit) core_result" where
  "Init ce s =
     (if to_ready (snd s) then Ret s ()
      else bind_o (case Reload ce s of
                     Fail s e \<Rightarrow> if status_code e \<noteq> Some NotFound then Fail s e else Save ce s
                   | r \<Rightarrow> r)
             (\<lambda>s _. prepare ce s))"

definition SetUUID :: "('d, 'x, 'v) coreenv \<Rightarrow> string \<Rightarrow> ('d, 'x, 'v) cworld \<times> ('x, 'v) target_obj \<Rightarrow> ('d, 'x, 'v, unit) core_result" where
  "SetUUID ce i s = Save ce (on_target (\<lambda>m. m\<lparr>tp_Uuid := i\<rparr>) s)"

definition SetName :: "('d, 'x, 'v) coreenv \<Rightarrow> string \<Rightarrow> ('d, 'x, 'v) cworld \<times> ('x, 'v) target_obj \<Rightarrow> ('d, 'x, 'v, unit) core_result" where
  "SetName ce n s = Save ce (on_target (\<lambda>m. m\<lparr>tp_Name := n\<rparr>) s)"

text \<open>The states of the core and those of the server have the same names.\<close>

definition target_State :: "'x targetpb \<Rightarrow> phys_state" where
  "target_State m = tp_State m"

definition Exists :: "'x targetpb \<Rightarrow> bool" where
  "Exists m \<longleftrightarrow> \<not> (target_State m = NOT_CREATED \<or> target_State m = UNKNOWN)"

text \<open>The files of the data directory are removed one by one. The result has the errors, and the files that are left.\<close>

fun remove_files :: "('d, 'x, 'v) coreenv \<Rightarrow> string list \<Rightarrow> goerr option \<Rightarrow> goerr option \<times> string list" where
  "remove_files ce [] err = (err, [])"
| "remove_files ce (f # fs) err =
     (case ce_keep ce f of
        None \<Rightarrow> remove_files ce fs err
      | Some e \<Rightarrow> (case remove_files ce fs (Some (ce_append ce err e)) of (err, rest) \<Rightarrow> (err, f # rest)))"

text \<open>The error of the request is overwritten.\<close>

definition Destroy :: "('d, 'x, 'v) coreenv \<Rightarrow> ('d, 'x, 'v) cworld \<times> ('x, 'v) target_obj \<Rightarrow> ('d, 'x, 'v, unit) core_result" where
  "Destroy ce s =
     (case ask (DeleteTarget (ce_srv ce) (Some (target_Ref (to_target (snd s))))) s of
        Crash m \<Rightarrow> Crash m
      | r \<Rightarrow>
          (let (w, t) = left_by r s
           in case to_dir t of
                None \<Rightarrow> Crash ''nil directory''
              | Some p \<Rightarrow>
                  (case ce_glob ce p of
                     Some e \<Rightarrow> Fail (w, t) e
                   | None \<Rightarrow>
                       (let (err, rest) = remove_files ce (cw_files w p) None;
                            w = w\<lparr>cw_files := (cw_files w)(p := rest)\<rparr>
                        in case err of None \<Rightarrow> Ret (w, t) () | Some e \<Rightarrow> Fail (w, t) e))))"

section \<open>Machines\<close>

text \<open>A machine is a target with a record of its own. \<open>SaveMachine\<close> puts that record into the target.\<close>

type_synonym ('d, 'x, 'v) machine_state = "(('d, 'x, 'v) cworld \<times> ('x, 'v) target_obj) \<times> 'x machine_pb"

definition SaveMachine ::
  "('d, 'x, 'v) coreenv \<Rightarrow> ('d, 'x, 'v) machine_state \<Rightarrow> (('d, 'x, 'v) machine_state, goerr, unit) outcome" where
  "SaveMachine ce s =
     (case ce_any ce (snd s) of
        Inl e \<Rightarrow> Fail (on_target (\<lambda>m. m\<lparr>tp_Record := None\<rparr>) (fst s), snd s) e
      | Inr r \<Rightarrow>
          (case Save ce (on_target (\<lambda>m. m\<lparr>tp_Record := Some r\<rparr>) (fst s)) of
             Ret t u \<Rightarrow> Ret (t, snd s) u
           | Fail t e \<Rightarrow> Fail (t, snd s) e
           | Crash m \<Rightarrow> Crash m))"

definition SetID ::
  "('d, 'x, 'v) coreenv \<Rightarrow> string \<Rightarrow> ('d, 'x, 'v) machine_state \<Rightarrow> (('d, 'x, 'v) machine_state, goerr, unit) outcome" where
  "SetID ce value s =
     (case ce_user ce of
        Inl e \<Rightarrow> Fail (fst s, (snd s)\<lparr>mc_Id := value\<rparr>) e
      | Inr uid \<Rightarrow>
          SaveMachine ce
            (if value = [] then on_target (\<lambda>m. m\<lparr>tp_Record := None, tp_State := NOT_CREATED\<rparr>) (fst s) else fst s,
             (snd s)\<lparr>mc_Id := value, mc_Uid := uid\<rparr>))"

definition state_of_id :: "string \<Rightarrow> phys_state" where
  "state_of_id i =
     (if i = ''not_created'' then NOT_CREATED
      else if i = ''running'' then CREATED
      else if i = ''poweroff'' then DESTROYED
      else if i = ''pending'' then PENDING
      else UNKNOWN)"

definition SetMachineState ::
  "('d, 'x, 'v) coreenv \<Rightarrow> string \<Rightarrow> ('d, 'x, 'v) machine_state \<Rightarrow> (('d, 'x, 'v) machine_state, goerr, unit) outcome" where
  "SetMachineState ce i s =
     SaveMachine ce (on_target (\<lambda>m. m\<lparr>tp_State := state_of_id i\<rparr>) (fst s), (snd s)\<lparr>mc_State := Some i\<rparr>)"

section \<open>The factory\<close>

text \<open>The object of a target: the cached one, or a new one that is initialized and cached.\<close>

type_synonym ('d, 'x, 'v, 'a) world_result = "(('d, 'x, 'v) cworld, goerr, 'a) outcome"

definition cached_target :: "('d, 'x, 'v) cworld \<Rightarrow> ('x, 'v) target_obj \<Rightarrow> nat option" where
  "cached_target w t =
     (if tp_ResourceId (to_target t) = [] then None else cw_cache w (tp_ResourceId (to_target t)))"

definition add_obj :: "('d, 'x, 'v) cworld \<Rightarrow> ('x, 'v) target_obj \<Rightarrow> ('d, 'x, 'v) cworld" where
  "add_obj w t =
     w\<lparr>cw_objs := cw_objs w @ [t\<lparr>to_closers := Suc (to_closers t)\<rparr>],
       cw_cache := (cw_cache w)(tp_ResourceId (to_target t) \<mapsto> length (cw_objs w))\<rparr>"

definition factory_NewTarget ::
  "('d, 'x, 'v) coreenv \<Rightarrow> ('x, 'v) target_option list \<Rightarrow> ('d, 'x, 'v) cworld \<Rightarrow> ('d, 'x, 'v, nat) world_result" where
  "factory_NewTarget ce opts w =
     (let t = NewTarget opts
      in case (if tp_ResourceId (to_target t) = [] then Reload ce (w, t) else Ret (w, t) ()) of
           Crash m \<Rightarrow> Crash m
         | r \<Rightarrow>
             (let (w, t) = left_by r (w, t)
              in case cached_target w t of
                   Some i \<Rightarrow> Ret w i
                 | None \<Rightarrow>
                     (case Init ce (w, t) of
                        Crash m \<Rightarrow> Crash m
                      | Fail s e \<Rightarrow> Fail (fst s) e
                      | Ret s _ \<Rightarrow> Ret (add_obj (fst s) (snd s)) (length (cw_objs (fst s))))))"

section \<open>The targets of a project\<close>

fun init_targets :: "('d, 'x, 'v) coreenv \<Rightarrow> string list \<Rightarrow> ('d, 'x, 'v) cworld \<Rightarrow> ('d, 'x, 'v, unit) world_result" where
  "init_targets ce [] w = Ret w ()"
| "init_targets ce (n # ns) w =
     bind_o (factory_NewTarget ce [WithTargetName n, WithProject (ce_project ce)] w) (\<lambda>w _. init_targets ce ns w)"

text \<open>The targets that the project knows after it was loaded again.\<close>

definition reload_project :: "('d, 'x, 'v) coreenv \<Rightarrow> ('d, 'x, 'v) cworld \<Rightarrow> ('d, 'x, 'v, 'x target_ref list) world_result" where
  "reload_project ce w = (case ce_targets ce (cw_srv w) of Inl e \<Rightarrow> Fail w e | Inr ts \<Rightarrow> Ret w ts)"

definition InitTargets ::
  "('d, 'x, 'v) coreenv \<Rightarrow> string list \<Rightarrow> ('d, 'x, 'v) cworld \<Rightarrow> ('d, 'x, 'v, 'x target_ref list) world_result" where
  "InitTargets ce names w = bind_o (init_targets ce names w) (\<lambda>w _. reload_project ce w)"

text \<open>A target that is to be removed: the cached object, or one that is made and initialized here, or none when that
  fails. A cached object is changed in its place.\<close>

definition scrub_load ::
  "('d, 'x, 'v) coreenv \<Rightarrow> 'x target_ref \<Rightarrow> ('d, 'x, 'v) cworld \<Rightarrow> ('d, 'x, 'v, ('x, 'v) target_obj option) world_result" where
  "scrub_load ce ref w =
     (case Init ce (w, NewTarget [WithProject (ce_project ce), WithTargetRef ref]) of
        Crash m \<Rightarrow> Crash m
      | Fail s _ \<Rightarrow> Ret (fst s) None
      | Ret s _ \<Rightarrow> Ret (fst s) (Some (snd s)))"

definition scrub_destroy ::
  "('d, 'x, 'v) coreenv \<Rightarrow> 'x target_ref \<Rightarrow> ('x, 'v) target_obj option \<Rightarrow> ('d, 'x, 'v) cworld \<Rightarrow> ('d, 'x, 'v, unit) world_result" where
  "scrub_destroy ce ref t w =
     (case t of
        Some t \<Rightarrow>
          (case Destroy ce (w, t) of Crash m \<Rightarrow> Crash m | Fail s e \<Rightarrow> Fail (fst s) e | Ret s _ \<Rightarrow> Ret (fst s) ())
      | None \<Rightarrow>
          (case DeleteTarget (ce_srv ce) (Some ref) (cw_srv w) of
             Crash m \<Rightarrow> Crash m | Fail d e \<Rightarrow> Fail (w\<lparr>cw_srv := d\<rparr>) e | Ret d _ \<Rightarrow> Ret (w\<lparr>cw_srv := d\<rparr>) ()))"

definition scrub_one ::
  "('d, 'x, 'v) coreenv \<Rightarrow> 'x target_ref \<Rightarrow> ('d, 'x, 'v) cworld \<Rightarrow> ('d, 'x, 'v, bool) world_result" where
  "scrub_one ce ref w =
     (case GetTarget (ce_srv ce) (Some ref) (cw_srv w) of
        Crash m \<Rightarrow> Crash m
      | Fail d e \<Rightarrow> Fail (w\<lparr>cw_srv := d\<rparr>) e
      | Ret d m \<Rightarrow>
          (let w = w\<lparr>cw_srv := d\<rparr>
           in if tp_State m = NOT_CREATED \<or> tp_State m = DESTROYED then
                bind_o (case cw_cache w (tp_ResourceId m) of
                          Some i \<Rightarrow> Ret w (Some (cw_objs w ! i))
                        | None \<Rightarrow> scrub_load ce ref w)
                  (\<lambda>w t. bind_o (scrub_destroy ce ref t w) (\<lambda>w _. Ret w True))
              else Ret w False))"

fun scrub_loop ::
  "('d, 'x, 'v) coreenv \<Rightarrow> 'x target_ref list \<Rightarrow> bool \<Rightarrow> ('d, 'x, 'v) cworld \<Rightarrow> ('d, 'x, 'v, bool) world_result" where
  "scrub_loop ce [] upd w = Ret w upd"
| "scrub_loop ce (r # rs) upd w = bind_o (scrub_one ce r w) (\<lambda>w u. scrub_loop ce rs (upd \<or> u) w)"

text \<open>The result is the list of targets that the project has afterwards.\<close>

definition scrubTargets ::
  "('d, 'x, 'v) coreenv \<Rightarrow> 'x target_ref list \<Rightarrow> ('d, 'x, 'v) cworld \<Rightarrow> ('d, 'x, 'v, 'x target_ref list) world_result" where
  "scrubTargets ce refs w =
     bind_o (scrub_loop ce refs False w) (\<lambda>w upd. if upd then reload_project ce w else Ret w refs)"

definition createTarget ::
  "('d, 'x, 'v) coreenv \<Rightarrow> string \<Rightarrow> 'd \<Rightarrow> ('d, 'x targetpb) target_result" where
  "createTarget ce name d =
     (let m = empty_pb\<lparr>tp_Name := name, tp_Project := Some (ce_project ce)\<rparr>
      in case FindTarget (ce_srv ce) (Some m) d of
           Fail d e \<Rightarrow> if status_code e \<noteq> Some NotFound then Fail d e else UpsertTarget (ce_srv ce) (Some m) d
         | r \<Rightarrow> r)"

section \<open>The index of targets\<close>

text \<open>Targets by their uuid (\<open>core/target_index.go\<close>). An entry is a target object, by its place, or something else.\<close>

definition index_Get :: "('d, 'x, 'v) coreenv \<Rightarrow> string \<Rightarrow> ('d, 'x, 'v) cworld \<Rightarrow> ('d, 'x, 'v, nat) world_result" where
  "index_Get ce uuid w =
     (case FindTarget (ce_srv ce) (Some (empty_pb\<lparr>tp_Uuid := uuid\<rparr>)) (cw_srv w) of
        Crash m \<Rightarrow> Crash m
      | Fail d e \<Rightarrow> Fail (w\<lparr>cw_srv := d\<rparr>) e
      | Ret d m \<Rightarrow> factory_NewTarget ce [WithTargetRef (target_Ref m)] (w\<lparr>cw_srv := d\<rparr>))"

text \<open>An operation of the object at a place.\<close>

definition on_object ::
  "(('d, 'x, 'v) cworld \<times> ('x, 'v) target_obj \<Rightarrow> ('d, 'x, 'v, 'a) core_result) \<Rightarrow> nat \<Rightarrow> ('d, 'x, 'v) cworld \<Rightarrow> ('d, 'x, 'v, 'a) world_result" where
  "on_object f i w =
     (case f (w, cw_objs w ! i) of
        Crash m \<Rightarrow> Crash m
      | Fail (w, t) e \<Rightarrow> Fail (w\<lparr>cw_objs := (cw_objs w)[i := t]\<rparr>) e
      | Ret (w, t) a \<Rightarrow> Ret (w\<lparr>cw_objs := (cw_objs w)[i := t]\<rparr>) a)"

definition index_Delete :: "('d, 'x, 'v) coreenv \<Rightarrow> string \<Rightarrow> ('d, 'x, 'v) cworld \<Rightarrow> ('d, 'x, 'v, unit) world_result" where
  "index_Delete ce uuid w =
     (case index_Get ce uuid w of
        Crash m \<Rightarrow> Crash m
      | Fail w e \<Rightarrow> if status_code e = Some NotFound then Ret w () else Fail w e
      | Ret w i \<Rightarrow> on_object (Destroy ce) i w)"

definition index_Includes :: "('d, 'x, 'v) coreenv \<Rightarrow> string \<Rightarrow> ('d, 'x, 'v) cworld \<Rightarrow> ('d, 'x, 'v, bool) world_result" where
  "index_Includes ce uuid w =
     (case index_Get ce uuid w of
        Crash m \<Rightarrow> Crash m
      | Fail w e \<Rightarrow> if status_code e = Some NotFound then Ret w False else Fail w e
      | Ret w _ \<Rightarrow> Ret w True)"

definition index_Set :: "('d, 'x, 'v) coreenv \<Rightarrow> nat option \<Rightarrow> ('d, 'x, 'v) cworld \<Rightarrow> ('d, 'x, 'v, nat) world_result" where
  "index_Set ce entry w =
     (case entry of
        None \<Rightarrow> Fail w (OtherError ''cannot save target, invalid type'')
      | Some i \<Rightarrow> bind_o (on_object (Save ce) i w) (\<lambda>w _. Ret w i))"

text \<open>The targets that exist, in the order of the server.\<close>

fun index_load :: "('d, 'x, 'v) coreenv \<Rightarrow> 'x target_ref list \<Rightarrow> ('d, 'x, 'v) cworld \<Rightarrow> ('d, 'x, 'v, nat list) world_result" where
  "index_load ce [] w = Ret w []"
| "index_load ce (r # rs) w =
     bind_o (factory_NewTarget ce [WithTargetRef r] w)
       (\<lambda>w i. let keep = tp_State (to_target (cw_objs w ! i)) \<noteq> NOT_CREATED \<and> tp_State (to_target (cw_objs w ! i)) \<noteq> UNKNOWN
               in bind_o (index_load ce rs w) (\<lambda>w is. Ret w (if keep then i # is else is)))"

definition index_All :: "('d, 'x, 'v) coreenv \<Rightarrow> ('d, 'x, 'v) cworld \<Rightarrow> ('d, 'x, 'v, nat list) world_result" where
  "index_All ce w =
     (case ListTargets (ce_srv ce) (cw_srv w) of
        Crash m \<Rightarrow> Crash m
      | Fail d e \<Rightarrow> Fail (w\<lparr>cw_srv := d\<rparr>) e
      | Ret d refs \<Rightarrow> index_load ce refs (w\<lparr>cw_srv := d\<rparr>))"

end
