(* ===== verification/TargetClaims.thy ===== *)
theory TargetClaims
  imports TargetStore TargetCore
begin

text \<open>
  The properties of targets: the rows stay consistent, what a put leaves, and how the core objects use the server: the
  targets of a Vagrantfile are created once, targets that do not exist are scrubbed with their data, and what a machine
  reports about itself.
\<close>

section \<open>Requests\<close>

datatype 'x target_request = ReqUpsertTarget "'x targetpb option" | ReqDeleteTarget "'x target_ref option"

definition target_request :: "('d, 'x) targetenv \<Rightarrow> 'x target_request \<Rightarrow> 'd \<Rightarrow> 'd" where
  "target_request env q d =
     (case q of ReqUpsertTarget m \<Rightarrow> left_by (UpsertTarget env m d) d | ReqDeleteTarget r \<Rightarrow> left_by (DeleteTarget env r d) d)"

lemma UpsertTarget_keeps:
  "target_lawful (te_db env) \<Longrightarrow> targets_ok env d \<Longrightarrow> keeps (targets_ok env) (UpsertTarget env m d)"
  by (cases m) (simp_all add: UpsertTarget_def TargetPut_keeps)

lemma DeleteTarget_keeps:
  "target_lawful (te_db env) \<Longrightarrow> targets_ok env d \<Longrightarrow> keeps (targets_ok env) (DeleteTarget env r d)"
  by (simp add: DeleteTarget_def TargetDelete_keeps)

interpretation target_rows: machine "target_request env" "\<lambda>d. target_lawful (te_db env) \<and> targets_ok env d" for env
  by unfold_locales
    (auto simp: target_request_def split: target_request.split intro: keeps_left_by UpsertTarget_keeps DeleteTarget_keeps)

section \<open>What the requests answer\<close>

definition by_id :: "string \<Rightarrow> 'x target_ref" where
  "by_id i = \<lparr>rt_ResourceId = i, rt_Name = [], rt_Project = None\<rparr>"

lemma GetTarget_row:
  assumes "target_lawful (te_db env)" and "targets_ok env d" and "rt_ResourceId ref \<noteq> []"
  shows "case row_of env d (rt_ResourceId ref) of
           None \<Rightarrow> GetTarget env (Some ref) d = Fail d (lookupErrorToStatus ''target'' RecordNotFound)
         | Some r \<Rightarrow> (\<exists>t. GetTarget env (Some ref) d = Ret d (target_ToProto t) \<and> columns t = r)"
  using TargetFromProtoRef_row[OF assms] by (auto simp: GetTarget_def TargetGet_def split: option.splits)

lemma FindTarget_row:
  assumes "target_lawful (te_db env)" and "targets_ok env d" and "tp_ResourceId m \<noteq> []"
    and "row_of env d (tp_ResourceId m) = Some r"
  obtains t where "FindTarget env (Some m) d = Ret d (target_ToProto t)" and "columns t = r"
    and "loaded (te_db env) d t"
  using TargetFromProtoRef_row[OF assms(1,2), of "\<lparr>rt_ResourceId = tp_ResourceId m, rt_Name = [], rt_Project = None\<rparr>"] assms(3,4)
  by (auto simp: FindTarget_def TargetFind_def TargetFromProtoFuzzy_def TargetFromProto_def)

lemma toProto_row:
  assumes "columns t = r"
  shows "tp_ResourceId (target_ToProto t) = tg_ResourceId r" "tp_State (target_ToProto t) = tg_State r"
    "tp_Name (target_ToProto t) = tg_Name r"
  using assms by (auto simp: target_ToProto_def)

text \<open>Deleting always works.\<close>

definition removal_works :: "('d, 'x) targetenv \<Rightarrow> bool" where
  "removal_works env \<longleftrightarrow> te_stack env \<noteq> 0 \<and> (\<forall>d is. \<exists>d1. td_remove (te_db env) d is = Inr d1)"

lemma flat_find: "flat (te_db env) d \<Longrightarrow> target_find env d k = Inr t \<Longrightarrow> tg_Subtargets t = []"
  unfolding target_find_def by (drule first_row_Inr) (auto simp only: flat_def list.set_intros)

lemma flat_leaf: "flat (te_db env) d \<Longrightarrow> leaf env d ref"
  unfolding leaf_def by (simp add: flat_find split: sum.split)

lemma DeleteTarget_flat:
  assumes l: "target_lawful (te_db env)" and ok: "targets_ok env d" and fl: "flat (te_db env) d" and rm: "removal_works env"
    and i: "rt_ResourceId ref \<noteq> []"
  obtains d1 where "DeleteTarget env (Some ref) d = Ret d1 ()" and "targets_ok env d1" and "flat (te_db env) d1"
    and "row_of env d1 = (row_of env d)(rt_ResourceId ref := None)"
proof -
  have "\<exists>d1. TargetDelete env (Some ref) d = Ret d1 () \<and> flat (te_db env) d1"
  proof (cases "row_of env d (rt_ResourceId ref)")
    case None
    then show ?thesis
      using TargetFromProtoRef_row[OF l ok i] fl by (simp add: TargetDelete_def is_not_found_def)
  next
    case (Some r)
    then obtain t where t: "TargetFromProtoRef env d (Some ref) = Inr t" "loaded (te_db env) d t"
      using TargetFromProtoRef_row[OF l ok i] by auto
    obtain t' where t': "target_find env d (key_of t) = Inr t'" using target_find_self[OF l ok t(2)] by blast
    then have "tg_Subtargets t' = []" by (rule flat_find[OF fl])
    moreover obtain n where "te_stack env = Suc n" using rm by (cases "te_stack env") (auto simp: removal_works_def)
    moreover obtain d1 where d1: "td_remove (te_db env) d [tk_ID (key_of t)] = Inr d1" using rm unfolding removal_works_def by blast
    ultimately have "TargetDelete env (Some ref) d = Ret d1 ()"
      using t t' by (simp add: TargetDelete_def in_transaction_def map_err_def)
    then show ?thesis using target_lawful_remove(2)[OF l d1 fl] by blast
  qed
  then obtain d1 where d1: "TargetDelete env (Some ref) d = Ret d1 ()" "flat (te_db env) d1" by blast
  note del = TargetDelete_Ret[OF l ok i d1(1)]
  have "row_of env d1 = (row_of env d)(rt_ResourceId ref := None)"
    using del(2) del(4)[OF flat_leaf[OF fl]] by (auto simp: fun_eq_iff)
  then show thesis using that[of d1] d1 del(1) by (simp add: DeleteTarget_def)
qed

section \<open>Scrubbing\<close>

text \<open>The objects of the cache have the id under which they are found, and a data directory.\<close>

definition cache_ok :: "('d, 'x, 'v) cworld \<Rightarrow> bool" where
  "cache_ok w \<longleftrightarrow> (\<forall>i n. cw_cache w i = Some n \<longrightarrow>
     tp_ResourceId (to_target (cw_objs w ! n)) = i \<and> to_dir (cw_objs w ! n) \<noteq> None)"

text \<open>The files can be removed.\<close>

definition files_work :: "('d, 'x, 'v) coreenv \<Rightarrow> bool" where
  "files_work ce \<longleftrightarrow> (\<forall>p. ce_glob ce p = None) \<and> (\<forall>f. ce_keep ce f = None)"

lemma remove_files_all: "files_work ce \<Longrightarrow> remove_files ce fs err = (err, [])"
  by (induction fs) (auto simp: files_work_def)

text \<open>What scrubbing relies on from the state of the server.\<close>

definition scrub_ok :: "('d, 'x, 'v) coreenv \<Rightarrow> ('d, 'x, 'v) cworld \<Rightarrow> bool" where
  "scrub_ok ce w \<longleftrightarrow> targets_ok (ce_srv ce) (cw_srv w) \<and> flat (te_db (ce_srv ce)) (cw_srv w) \<and> cache_ok w"

text \<open>The next state: some rows are gone, some directories are empty, nothing else.\<close>

definition only_removed :: "('d, 'x, 'v) cworld \<Rightarrow> ('d, 'x, 'v) cworld \<Rightarrow> bool" where
  "only_removed w w1 \<longleftrightarrow> cw_objs w1 = cw_objs w \<and> cw_cache w1 = cw_cache w
     \<and> (\<forall>p. cw_files w1 p = cw_files w p \<or> cw_files w1 p = [])"

lemma only_removed_refl: "only_removed w w" and only_removed_trans: "only_removed w w1 \<Longrightarrow> only_removed w1 w2 \<Longrightarrow> only_removed w w2"
  by (simp_all add: only_removed_def) metis

lemma Destroy_removes:
  assumes l: "target_lawful (te_db (ce_srv ce))" and ok: "scrub_ok ce w" and rm: "removal_works (ce_srv ce)" and fw: "files_work ce"
    and t: "tp_ResourceId (to_target t) \<noteq> []" "to_dir t = Some p"
  obtains w1 where "Destroy ce (w, t) = Ret (w1, t) ()" and "scrub_ok ce w1" and "only_removed w w1" and "cw_files w1 p = []"
    and "row_of (ce_srv ce) (cw_srv w1) = (row_of (ce_srv ce) (cw_srv w))(tp_ResourceId (to_target t) := None)"
proof -
  let ?env = "ce_srv ce"
  have ref: "rt_ResourceId (target_Ref (to_target t)) = tp_ResourceId (to_target t)" by (simp add: target_Ref_def)
  obtain d1 where d1: "DeleteTarget ?env (Some (target_Ref (to_target t))) (cw_srv w) = Ret d1 ()" "targets_ok ?env d1"
    "flat (te_db ?env) d1" "row_of ?env d1 = (row_of ?env (cw_srv w))(tp_ResourceId (to_target t) := None)"
    using DeleteTarget_flat[OF l, of "cw_srv w" "target_Ref (to_target t)"] ok rm t(1) unfolding ref scrub_ok_def by metis
  have glob: "ce_glob ce p = None" using fw by (simp add: files_work_def)
  define w1 where "w1 = w\<lparr>cw_srv := d1, cw_files := (cw_files w)(p := [])\<rparr>"
  have "Destroy ce (w, t) = Ret (w1, t) ()"
    using d1(1) t(2) glob by (simp add: Destroy_def ask_def left_by_def remove_files_all[OF fw] w1_def)
  moreover have "scrub_ok ce w1" "only_removed w w1" "cw_files w1 p = []"
    using ok d1 by (auto simp: scrub_ok_def cache_ok_def only_removed_def w1_def)
  moreover have "cw_srv w1 = d1" by (simp add: w1_def)
  ultimately show thesis using that[of w1] d1(4) by simp
qed

text \<open>A target that the server knows is initialized without a change of the world.\<close>

definition quiet :: "'w \<Rightarrow> ('x, 'v) target_obj \<Rightarrow> ('w \<times> ('x, 'v) target_obj, goerr, unit) outcome \<Rightarrow> bool" where
  "quiet w t r \<longleftrightarrow>
     (case r of
        Crash _ \<Rightarrow> False
      | Fail s _ \<Rightarrow> fst s = w
      | Ret s _ \<Rightarrow> fst s = w \<and> to_dir (snd s) \<noteq> None \<and> tp_ResourceId (to_target (snd s)) = tp_ResourceId (to_target t))"

lemma prepare_quiet: "quiet w t (prepare ce (w, t))"
  by (simp add: quiet_def prepare_def on_target_def Let_def split: option.split sum.split)

lemma Init_known:
  assumes l: "target_lawful (te_db (ce_srv ce))" and tok: "targets_ok (ce_srv ce) (cw_srv w)"
    and r: "row_of (ce_srv ce) (cw_srv w) (tp_ResourceId (to_target t)) = Some r"
    and t: "tp_ResourceId (to_target t) \<noteq> []" "\<not> to_ready t"
  shows "quiet w t (Init ce (w, t))"
proof -
  obtain x where x: "FindTarget (ce_srv ce) (Some (to_target t)) (cw_srv w) = Ret (cw_srv w) (target_ToProto x)" "columns x = r"
    using FindTarget_row[OF l tok t(1) r] by blast
  have "tp_ResourceId (target_ToProto x) = tp_ResourceId (to_target t)"
    using toProto_row(1)[OF x(2)] r by (simp add: row_of_iff[OF tok])
  moreover have "Init ce (w, t) = prepare ce (w, t\<lparr>to_target := target_ToProto x\<rparr>)"
    using x(1) t(2) by (simp add: Init_def Reload_def ask_def on_target_def)
  ultimately show ?thesis
    using prepare_quiet[of w "t\<lparr>to_target := target_ToProto x\<rparr>" ce] by (auto simp: quiet_def split: outcome.splits)
qed

lemma scrub_load_known:
  assumes l: "target_lawful (te_db (ce_srv ce))" and ok: "targets_ok (ce_srv ce) (cw_srv w)"
    and r: "row_of (ce_srv ce) (cw_srv w) (rt_ResourceId ref) = Some r" and i: "rt_ResourceId ref \<noteq> []"
  obtains "scrub_load ce ref w = Ret w None"
  | t where "scrub_load ce ref w = Ret w (Some t)" and "tp_ResourceId (to_target t) = rt_ResourceId ref" and "to_dir t \<noteq> None"
proof -
  let ?t = "NewTarget [WithProject (ce_project ce), WithTargetRef ref] :: ('b, 'c) target_obj"
  have t: "tp_ResourceId (to_target ?t) = rt_ResourceId ref" "\<not> to_ready ?t"
    using i by (simp_all add: NewTarget_def apply_target_option_def Let_def)
  show thesis
    using Init_known[OF l ok, of ?t r] r i t that by (auto simp: scrub_load_def quiet_def split: outcome.splits)
qed

definition to_scrub :: "'x trow \<Rightarrow> bool" where
  "to_scrub r \<longleftrightarrow> tg_State r = NOT_CREATED \<or> tg_State r = DESTROYED"

text \<open>What is left under an id when the targets in \<open>I\<close> are scrubbed.\<close>

definition scrubbed :: "string set \<Rightarrow> (string \<rightharpoonup> 'x trow) \<Rightarrow> string \<rightharpoonup> 'x trow" where
  "scrubbed I rows = (\<lambda>j. case rows j of None \<Rightarrow> None | Some r \<Rightarrow> if j \<in> I \<and> to_scrub r then None else Some r)"

lemma scrub_one_removes:
  assumes l: "target_lawful (te_db (ce_srv ce))" and ok: "scrub_ok ce w" and rm: "removal_works (ce_srv ce)" and fw: "files_work ce"
    and r: "row_of (ce_srv ce) (cw_srv w) (rt_ResourceId ref) = Some r" and i: "rt_ResourceId ref \<noteq> []"
  obtains w1 u where "scrub_one ce ref w = Ret w1 u" and "scrub_ok ce w1" and "only_removed w w1"
    and "row_of (ce_srv ce) (cw_srv w1) = scrubbed {rt_ResourceId ref} (row_of (ce_srv ce) (cw_srv w))"
    and "\<And>n p. cw_cache w (rt_ResourceId ref) = Some n \<Longrightarrow> to_dir (cw_objs w ! n) = Some p \<Longrightarrow> to_scrub r \<Longrightarrow> cw_files w1 p = []"
proof -
  let ?env = "ce_srv ce" and ?i = "rt_ResourceId ref"
  have tok: "targets_ok ?env (cw_srv w)" using ok by (simp add: scrub_ok_def)
  obtain x where x: "GetTarget ?env (Some ref) (cw_srv w) = Ret (cw_srv w) (target_ToProto x)" "columns x = r"
    using GetTarget_row[OF l tok i] r by auto
  have rid: "tg_ResourceId r = ?i" using r by (simp add: row_of_iff[OF tok])
  show thesis
  proof (cases "to_scrub r")
    case False
    then have "scrub_one ce ref w = Ret w False"
      using x by (simp add: scrub_one_def toProto_row[OF x(2)] to_scrub_def)
    moreover have "row_of ?env (cw_srv w) = scrubbed {?i} (row_of ?env (cw_srv w))"
      using r False by (auto simp: scrubbed_def fun_eq_iff split: option.split)
    ultimately show thesis using that[of w False] ok False only_removed_refl by blast
  next
    case True
    have goal_rows: "(row_of ?env (cw_srv w))(?i := None) = scrubbed {?i} (row_of ?env (cw_srv w))"
      using r True by (auto simp: scrubbed_def fun_eq_iff split: option.split)
    define loading where "loading = (case cw_cache w ?i of Some n \<Rightarrow> Ret w (Some (cw_objs w ! n)) | None \<Rightarrow> scrub_load ce ref w)"
    have one: "scrub_one ce ref w = bind_o loading (\<lambda>w t. bind_o (scrub_destroy ce ref t w) (\<lambda>w _. Ret w True))"
      using x True rid by (simp add: scrub_one_def loading_def toProto_row[OF x(2)] to_scrub_def)
    have "(loading = Ret w None \<and> cw_cache w ?i = None) \<or> (\<exists>t p. loading = Ret w (Some t) \<and> tp_ResourceId (to_target t) = ?i
        \<and> to_dir t = Some p \<and> (\<forall>n. cw_cache w ?i = Some n \<longrightarrow> cw_objs w ! n = t))"
    proof (cases "cw_cache w ?i")
      case None
      then show ?thesis using scrub_load_known[OF l tok r i] by (auto simp: loading_def)
    next
      case (Some n)
      then show ?thesis using ok by (auto simp: loading_def scrub_ok_def cache_ok_def)
    qed
    then consider (direct) "loading = Ret w None" "cw_cache w ?i = None"
      | (object) t p where "loading = Ret w (Some t)" "tp_ResourceId (to_target t) = ?i" "to_dir t = Some p"
          "\<forall>n. cw_cache w ?i = Some n \<longrightarrow> cw_objs w ! n = t"
      by metis
    then show thesis
    proof cases
      case direct
      obtain d1 where d1: "DeleteTarget ?env (Some ref) (cw_srv w) = Ret d1 ()" "targets_ok ?env d1" "flat (te_db ?env) d1"
        "row_of ?env d1 = (row_of ?env (cw_srv w))(?i := None)"
        using DeleteTarget_flat[OF l tok _ rm i] ok unfolding scrub_ok_def by metis
      show thesis
        by (rule that[of "w\<lparr>cw_srv := d1\<rparr>" True])
          (use direct one d1 ok goal_rows in \<open>simp_all add: scrub_destroy_def scrub_ok_def cache_ok_def only_removed_def\<close>)
    next
      case (object t p)
      obtain w1 where w1: "Destroy ce (w, t) = Ret (w1, t) ()" "scrub_ok ce w1" "only_removed w w1" "cw_files w1 p = []"
        "row_of ?env (cw_srv w1) = (row_of ?env (cw_srv w))(?i := None)"
        using Destroy_removes[OF l ok rm fw _ object(3)] object(2) i by metis
      show thesis
        by (rule that[of w1 True]) (use object one w1 goal_rows in \<open>simp_all add: scrub_destroy_def\<close>)
    qed
  qed
qed

lemma scrubbed_twice: "scrubbed J (scrubbed I rows) = scrubbed (I \<union> J) rows"
  by (auto simp: scrubbed_def fun_eq_iff split: option.splits if_splits)

lemma scrub_loop_removes:
  assumes l: "target_lawful (te_db (ce_srv ce))" and rm: "removal_works (ce_srv ce)" and fw: "files_work ce"
    and ok: "scrub_ok ce w" and known: "\<And>r. r \<in> set refs \<Longrightarrow> rt_ResourceId r \<noteq> [] \<and> row_of (ce_srv ce) (cw_srv w) (rt_ResourceId r) \<noteq> None"
    and dist: "distinct (map rt_ResourceId refs)"
  shows "\<exists>w1 u. scrub_loop ce refs upd w = Ret w1 u \<and> scrub_ok ce w1 \<and> only_removed w w1
     \<and> row_of (ce_srv ce) (cw_srv w1) = scrubbed (rt_ResourceId ` set refs) (row_of (ce_srv ce) (cw_srv w))
     \<and> (\<forall>r x n p. r \<in> set refs \<and> row_of (ce_srv ce) (cw_srv w) (rt_ResourceId r) = Some x \<and> to_scrub x
          \<and> cw_cache w (rt_ResourceId r) = Some n \<and> to_dir (cw_objs w ! n) = Some p \<longrightarrow> cw_files w1 p = [])"
  using ok known dist
proof (induction refs arbitrary: w upd)
  case Nil
  then show ?case by (auto simp: scrubbed_def only_removed_refl fun_eq_iff split: option.split)
next
  case (Cons r rs)
  let ?env = "ce_srv ce"
  obtain x where x: "row_of ?env (cw_srv w) (rt_ResourceId r) = Some x" using Cons.prems(2)[of r] by auto
  obtain w1 u where w1: "scrub_one ce r w = Ret w1 u" "scrub_ok ce w1" "only_removed w w1"
    "row_of ?env (cw_srv w1) = scrubbed {rt_ResourceId r} (row_of ?env (cw_srv w))"
    "\<And>n p. cw_cache w (rt_ResourceId r) = Some n \<Longrightarrow> to_dir (cw_objs w ! n) = Some p \<Longrightarrow> to_scrub x \<Longrightarrow> cw_files w1 p = []"
    using scrub_one_removes[OF l Cons.prems(1) rm fw x] Cons.prems(2)[of r] by auto
  have same: "row_of ?env (cw_srv w1) (rt_ResourceId q) = row_of ?env (cw_srv w) (rt_ResourceId q)" if "q \<in> set rs" for q
  proof -
    have "rt_ResourceId r \<notin> rt_ResourceId ` set rs" using Cons.prems(3) by simp
    then have "rt_ResourceId q \<noteq> rt_ResourceId r" using that by (metis imageI)
    then show ?thesis by (simp add: w1(4) scrubbed_def split: option.split)
  qed
  have "distinct (map rt_ResourceId rs)" using Cons.prems(3) by simp
  then obtain w2 v where w2: "scrub_loop ce rs (upd \<or> u) w1 = Ret w2 v" "scrub_ok ce w2" "only_removed w1 w2"
    "row_of ?env (cw_srv w2) = scrubbed (rt_ResourceId ` set rs) (row_of ?env (cw_srv w1))"
    "\<And>q y n p. q \<in> set rs \<Longrightarrow> row_of ?env (cw_srv w1) (rt_ResourceId q) = Some y \<Longrightarrow> to_scrub y \<Longrightarrow>
       cw_cache w1 (rt_ResourceId q) = Some n \<Longrightarrow> to_dir (cw_objs w1 ! n) = Some p \<Longrightarrow> cw_files w2 p = []"
    using Cons.IH[OF w1(2), of "upd \<or> u"] same Cons.prems(2) by (metis list.set_intros(2))
  have objs: "cw_cache w1 = cw_cache w" "cw_objs w1 = cw_objs w" using w1(3) by (simp_all add: only_removed_def)
  have shrink: "cw_files w1 p = [] \<Longrightarrow> cw_files w2 p = []" for p using w2(3) by (metis only_removed_def)
  show ?case
  proof (intro exI conjI)
    show "scrub_loop ce (r # rs) upd w = Ret w2 v" using w1(1) w2(1) by simp
    show "scrub_ok ce w2" "only_removed w w2" using w2 only_removed_trans[OF w1(3) w2(3)] by simp_all
    show "row_of ?env (cw_srv w2) = scrubbed (rt_ResourceId ` set (r # rs)) (row_of ?env (cw_srv w))"
      using w2(4) w1(4) by (simp add: scrubbed_twice)
    show "\<forall>q y n p. q \<in> set (r # rs) \<and> row_of ?env (cw_srv w) (rt_ResourceId q) = Some y \<and> to_scrub y
          \<and> cw_cache w (rt_ResourceId q) = Some n \<and> to_dir (cw_objs w ! n) = Some p \<longrightarrow> cw_files w2 p = []"
      using w1(5) w2(5) same x objs shrink by (metis option.inject set_ConsD)
  qed
qed

section \<open>Machines\<close>

lemma captured_simps [simp]:
  "tp_ResourceId (captured ce t) = tp_ResourceId (to_target t)" "tp_State (captured ce t) = tp_State (to_target t)"
  "tp_Record (captured ce t) = tp_Record (to_target t)"
  by (simp_all add: captured_def split: option.split)

lemma Save_row:
  assumes l: "target_lawful (te_db (ce_srv ce))" and ok: "targets_ok (ce_srv ce) (cw_srv w)"
    and old: "row_of (ce_srv ce) (cw_srv w) (tp_ResourceId (to_target t)) = Some old" and i: "tp_ResourceId (to_target t) \<noteq> []"
    and run: "Save ce (w, t) = Ret (w1, t1) u"
  shows "targets_ok (ce_srv ce) (cw_srv w1)"
    and "row_of (ce_srv ce) (cw_srv w1) =
           (row_of (ce_srv ce) (cw_srv w))(tp_ResourceId (to_target t) \<mapsto> merge_row (ce_srv ce) (captured ce t) old)"
    and "w1 = w\<lparr>cw_srv := cw_srv w1\<rparr>"
proof -
  from run obtain m where put: "TargetPut (ce_srv ce) (captured ce t) (cw_srv w) = Ret (cw_srv w1) m" and w1: "w1 = w\<lparr>cw_srv := cw_srv w1\<rparr>"
    by (auto simp: Save_def ask_def on_target_def UpsertTarget_def Let_def bind_o_Ret_iff split: outcome.splits)
  show "targets_ok (ce_srv ce) (cw_srv w1)"
    "row_of (ce_srv ce) (cw_srv w1) =
       (row_of (ce_srv ce) (cw_srv w))(tp_ResourceId (to_target t) \<mapsto> merge_row (ce_srv ce) (captured ce t) old)"
    using TargetPut_by_id[OF l ok put] i old by simp_all
  show "w1 = w\<lparr>cw_srv := cw_srv w1\<rparr>" by (fact w1)
qed

lemma SaveMachine_row:
  assumes l: "target_lawful (te_db (ce_srv ce))" and ok: "targets_ok (ce_srv ce) (cw_srv w)"
    and old: "row_of (ce_srv ce) (cw_srv w) (tp_ResourceId (to_target t)) = Some old" and i: "tp_ResourceId (to_target t) \<noteq> []"
    and run: "SaveMachine ce ((w, t), m) = Ret ((w1, t1), m1) u"
  obtains x where "ce_any ce m = Inr x" and "targets_ok (ce_srv ce) (cw_srv w1)" and "w1 = w\<lparr>cw_srv := cw_srv w1\<rparr>"
    and "row_of (ce_srv ce) (cw_srv w1) = (row_of (ce_srv ce) (cw_srv w))(tp_ResourceId (to_target t) \<mapsto>
           merge_row (ce_srv ce) (captured ce (t\<lparr>to_target := (to_target t)\<lparr>tp_Record := Some x\<rparr>\<rparr>)) old)"
proof -
  from run obtain x where x: "ce_any ce m = Inr x"
    and sv: "Save ce (w, t\<lparr>to_target := (to_target t)\<lparr>tp_Record := Some x\<rparr>\<rparr>) = Ret (w1, t1) u"
    by (auto simp: SaveMachine_def on_target_def split: sum.splits outcome.splits)
  have "row_of (ce_srv ce) (cw_srv w) (tp_ResourceId (to_target (t\<lparr>to_target := (to_target t)\<lparr>tp_Record := Some x\<rparr>\<rparr>))) = Some old"
    using old by simp
  from Save_row[OF l ok this _ sv] i show thesis using that[OF x] by simp
qed

section \<open>The targets of a Vagrantfile\<close>

text \<open>The project has a target of that name.\<close>

definition in_project :: "('d, 'x, 'v) coreenv \<Rightarrow> 'd \<Rightarrow> string \<Rightarrow> bool" where
  "in_project ce d n \<longleftrightarrow>
     (\<exists>ps. td_project (te_db (ce_srv ce)) d (pf_ResourceId (ce_project ce)) = Inr ps
        \<and> (\<exists>r \<in> set (td_rows (te_db (ce_srv ce)) d). tg_ProjectID r \<in> pk_ID ` set ps \<and> tg_Name r = n))"

definition named_pb :: "('d, 'x, 'v) coreenv \<Rightarrow> string \<Rightarrow> 'x targetpb" where
  "named_pb ce n = empty_pb\<lparr>tp_Name := n, tp_Project := Some (ce_project ce)\<rparr>"

lemma NewTarget_named:
  "NewTarget [WithTargetName n, WithProject (ce_project ce)] =
     \<lparr>to_target = named_pb ce n, to_vagrantfile = None, to_dir = None, to_ready = False, to_closers = 0\<rparr>"
  by (simp add: NewTarget_def apply_target_option_def named_pb_def empty_pb_def)

lemma Fuzzy_named:
  assumes l: "target_lawful (te_db (ce_srv ce))" and n: "n \<noteq> []"
  shows "if in_project ce d n
     then (\<exists>t. TargetFromProtoFuzzy (ce_srv ce) d (named_pb ce n) = Inr t \<and> loaded (te_db (ce_srv ce)) d t \<and> tg_Name t = n)
     else TargetFromProtoFuzzy (ce_srv ce) d (named_pb ce n) = Inl RecordNotFound"
proof -
  let ?i = "pf_ResourceId (ce_project ce)" and ?db = "te_db (ce_srv ce)"
  obtain ts ps where ts: "td_in_project ?db d ?i n = Inr ts" and ps: "td_project ?db d ?i = Inr ps"
    and ld: "all_loaded ?db d (Inr ts)"
    and cols: "columns ` set ts = {r \<in> set (td_rows ?db d). tg_ProjectID r \<in> pk_ID ` set ps \<and> (n = [] \<or> tg_Name r = n)}"
    using target_in_project[OF l] by blast
  have fz: "TargetFromProtoFuzzy (ce_srv ce) d (named_pb ce n) = first_row (Inr ts)"
    using n ts by (simp add: TargetFromProtoFuzzy_def TargetFromProto_def TargetFromProtoRef_def named_pb_def empty_pb_def is_not_found_def)
  have ip: "in_project ce d n \<longleftrightarrow> columns ` set ts \<noteq> {}"
    unfolding cols in_project_def using ps n by auto
  show ?thesis
  proof (cases ts)
    case Nil
    then show ?thesis using fz ip by (simp add: first_row_def)
  next
    case (Cons t ts')
    then have "columns t \<in> columns ` set ts" by simp
    then have "tg_Name t = n" unfolding cols using n by simp
    then show ?thesis using fz ip ld Cons by (simp add: first_row_def all_loaded_def)
  qed
qed

text \<open>A step of the loop: nothing happens to the rows when the target is there; otherwise one row is added.\<close>

lemma factory_known:
  assumes l: "target_lawful (te_db (ce_srv ce))" and ok: "targets_ok (ce_srv ce) (cw_srv w)" and n: "n \<noteq> []"
    and ip: "in_project ce (cw_srv w) n"
    and run: "factory_NewTarget ce [WithTargetName n, WithProject (ce_project ce)] w = Ret w1 k"
  shows "cw_srv w1 = cw_srv w"
proof -
  obtain t where t: "TargetFromProtoFuzzy (ce_srv ce) (cw_srv w) (named_pb ce n) = Inr t"
    "loaded (te_db (ce_srv ce)) (cw_srv w) t"
    using Fuzzy_named[OF l n, of "cw_srv w"] ip by auto
  define t1 :: "('b, 'c) target_obj" where
    "t1 = \<lparr>to_target = target_ToProto t, to_vagrantfile = None, to_dir = None, to_ready = False, to_closers = 0\<rparr>"
  have rl: "Reload ce (w, NewTarget [WithTargetName n, WithProject (ce_project ce)]) = Ret (w, t1) ()"
    using t(1) by (simp add: Reload_def ask_def on_target_def FindTarget_def TargetFind_def NewTarget_named t1_def)
  have in_d: "columns t \<in> set (td_rows (te_db (ce_srv ce)) (cw_srv w))" using t(2) by (simp add: loaded_def)
  then have rid: "tg_ResourceId t \<noteq> []" using targets_okD(1)[OF ok in_d] by (simp add: target_ok_def)
  have row: "row_of (ce_srv ce) (cw_srv w) (tp_ResourceId (to_target t1)) = Some (columns t)"
    using in_d by (simp add: row_of_iff[OF ok] t1_def target_ToProto_def)
  have q: "quiet w t1 (Init ce (w, t1))"
    by (rule Init_known[OF l ok row]) (simp_all add: t1_def target_ToProto_def rid)
  have empty: "tp_ResourceId (to_target (NewTarget [WithTargetName n, WithProject (ce_project ce)] :: ('b, 'c) target_obj)) = []"
    by (simp add: NewTarget_named named_pb_def empty_pb_def)
  show ?thesis
    using run q
    by (auto simp: factory_NewTarget_def Let_def empty rl left_by_def quiet_def add_obj_def split: option.splits outcome.splits)
qed

lemma prepare_srv: "prepare ce s = Ret s1 u \<Longrightarrow> fst s1 = fst s"
  using prepare_quiet[of "fst s" "snd s" ce] by (simp add: quiet_def)

lemma factory_new:
  assumes l: "target_lawful (te_db (ce_srv ce))" and ok: "targets_ok (ce_srv ce) (cw_srv w)" and n: "n \<noteq> []"
    and ip: "\<not> in_project ce (cw_srv w) n"
    and run: "factory_NewTarget ce [WithTargetName n, WithProject (ce_project ce)] w = Ret w1 k"
  shows "targets_ok (ce_srv ce) (cw_srv w1)" and "in_project ce (cw_srv w1) n"
    and "\<exists>r. tg_Name r = n \<and> set (td_rows (te_db (ce_srv ce)) (cw_srv w1)) = insert r (set (td_rows (te_db (ce_srv ce)) (cw_srv w)))"
    and "td_project (te_db (ce_srv ce)) (cw_srv w1) = td_project (te_db (ce_srv ce)) (cw_srv w)"
proof -
  let ?t = "NewTarget [WithTargetName n, WithProject (ce_project ce)] :: ('b, 'c) target_obj"
  have nf: "TargetFromProtoFuzzy (ce_srv ce) (cw_srv w) (named_pb ce n) = Inl RecordNotFound"
    using Fuzzy_named[OF l n, of "cw_srv w"] ip by simp
  then have rl: "Reload ce (w, ?t) = Fail (w, ?t) (lookupErrorToStatus ''target'' RecordNotFound)"
    by (simp add: Reload_def ask_def FindTarget_def TargetFind_def NewTarget_named)
  have empty: "tp_ResourceId (to_target ?t) = []" "to_ready ?t = False" "captured ce ?t = named_pb ce n"
    by (simp_all add: NewTarget_named named_pb_def empty_pb_def captured_def)
  have code: "status_code (lookupErrorToStatus ''target'' RecordNotFound) = Some NotFound"
    by (simp add: conversion_codes code_of_def is_not_found_def)
  have "Init ce (w, ?t) = bind_o (Save ce (w, ?t)) (\<lambda>s _. prepare ce s)"
    by (simp add: Init_def empty rl code)
  with run obtain s1 s2 where sv: "Save ce (w, ?t) = Ret s1 ()" and pr: "prepare ce s1 = Ret s2 ()" and w1: "cw_srv w1 = cw_srv (fst s2)"
    by (auto simp: factory_NewTarget_def Let_def rl empty left_by_def cached_target_def bind_o_Ret_iff add_obj_def
        split: outcome.splits)
  from sv obtain m where put: "TargetPut (ce_srv ce) (named_pb ce n) (cw_srv w) = Ret (cw_srv (fst s1)) m"
    by (auto simp: Save_def ask_def on_target_def UpsertTarget_def Let_def bind_o_Ret_iff empty split: outcome.splits)
  have srv: "cw_srv (fst s1) = cw_srv w1" using prepare_srv[OF pr] w1 by simp
  obtain i k p ref where row: "trow_put (te_db (ce_srv ce)) (cw_srv w) (merge_row (ce_srv ce) (named_pb ce n) (new_row i k (pk_ID p))) (cw_srv w1)"
    and k: "k \<notin> tg_ID ` set (td_rows (te_db (ce_srv ce)) (cw_srv w))"
    and ref: "tp_Project (named_pb ce n) = Some ref" "ProjectFromProtoRef (ce_srv ce) (cw_srv w) (Some ref) = Inr p"
    and ok1: "targets_ok (ce_srv ce) (cw_srv w1)"
    and prj: "td_project (te_db (ce_srv ce)) (cw_srv w1) = td_project (te_db (ce_srv ce)) (cw_srv w)"
    using TargetPut_Ret[OF l ok put] nf unfolding srv by auto
  let ?r = "merge_row (ce_srv ce) (named_pb ce n) (new_row i k (pk_ID p))"
  have rows: "set (td_rows (te_db (ce_srv ce)) (cw_srv w1)) = insert ?r (set (td_rows (te_db (ce_srv ce)) (cw_srv w)))"
    using row k by (auto simp: trow_put_def image_iff)
  show "targets_ok (ce_srv ce) (cw_srv w1)" by (fact ok1)
  show "td_project (te_db (ce_srv ce)) (cw_srv w1) = td_project (te_db (ce_srv ce)) (cw_srv w)" by (fact prj)
  have name: "tg_Name ?r = n" "tg_ProjectID ?r = pk_ID p" using n by (simp_all add: named_pb_def set_or_def)
  then show "\<exists>r. tg_Name r = n \<and> set (td_rows (te_db (ce_srv ce)) (cw_srv w1)) = insert r (set (td_rows (te_db (ce_srv ce)) (cw_srv w)))"
    using rows by blast
  have "ref = ce_project ce" using ref(1) by (simp add: named_pb_def)
  then obtain ps where "td_project (te_db (ce_srv ce)) (cw_srv w) (pf_ResourceId (ce_project ce)) = Inr (p # ps)"
    using ref(2) by (auto simp: ProjectFromProtoRef_def dest!: first_row_Inr split: if_splits)
  with name show "in_project ce (cw_srv w1) n" unfolding in_project_def rows prj by (intro exI conjI bexI) auto
qed

lemma in_project_rows:
  assumes "td_project (te_db (ce_srv ce)) d1 = td_project (te_db (ce_srv ce)) d"
    and "set (td_rows (te_db (ce_srv ce)) d1) = set (td_rows (te_db (ce_srv ce)) d) \<union> N"
  shows "in_project ce d m \<Longrightarrow> in_project ce d1 m"
    and "m \<notin> tg_Name ` N \<Longrightarrow> in_project ce d1 m = in_project ce d m"
  unfolding in_project_def assms by blast+

lemma factory_step:
  assumes l: "target_lawful (te_db (ce_srv ce))" and ok: "targets_ok (ce_srv ce) (cw_srv w)" and n: "n \<noteq> []"
    and run: "factory_NewTarget ce [WithTargetName n, WithProject (ce_project ce)] w = Ret w1 k"
  obtains N where "targets_ok (ce_srv ce) (cw_srv w1)" and "in_project ce (cw_srv w1) n"
    and "td_project (te_db (ce_srv ce)) (cw_srv w1) = td_project (te_db (ce_srv ce)) (cw_srv w)"
    and "set (td_rows (te_db (ce_srv ce)) (cw_srv w1)) = set (td_rows (te_db (ce_srv ce)) (cw_srv w)) \<union> N"
    and "tg_Name ` N = (if in_project ce (cw_srv w) n then {} else {n})"
proof (cases "in_project ce (cw_srv w) n")
  case True
  then show thesis using that[of "{}"] factory_known[OF l ok n True run] ok by simp
next
  case False
  obtain r where "tg_Name r = n" "set (td_rows (te_db (ce_srv ce)) (cw_srv w1)) = insert r (set (td_rows (te_db (ce_srv ce)) (cw_srv w)))"
    using factory_new(3)[OF l ok n False run] by blast
  then show thesis using that[of "{r}"] factory_new(1,2,4)[OF l ok n False run] False by simp
qed

lemma init_targets_rows:
  assumes l: "target_lawful (te_db (ce_srv ce))" and "targets_ok (ce_srv ce) (cw_srv w)" and "[] \<notin> set names"
    and "init_targets ce names w = Ret w1 u"
  shows "\<exists>N. targets_ok (ce_srv ce) (cw_srv w1) \<and> (\<forall>n \<in> set names. in_project ce (cw_srv w1) n)
     \<and> td_project (te_db (ce_srv ce)) (cw_srv w1) = td_project (te_db (ce_srv ce)) (cw_srv w)
     \<and> set (td_rows (te_db (ce_srv ce)) (cw_srv w1)) = set (td_rows (te_db (ce_srv ce)) (cw_srv w)) \<union> N
     \<and> tg_Name ` N = {n \<in> set names. \<not> in_project ce (cw_srv w) n}"
  using assms(2-)
proof (induction names arbitrary: w)
  case (Cons n ns)
  from Cons.prems(3) obtain w0 k where f: "factory_NewTarget ce [WithTargetName n, WithProject (ce_project ce)] w = Ret w0 k"
    and rest: "init_targets ce ns w0 = Ret w1 u"
    by (auto simp: bind_o_Ret_iff)
  have n: "n \<noteq> []" "[] \<notin> set ns" using Cons.prems(2) by auto
  obtain N where N: "targets_ok (ce_srv ce) (cw_srv w0)" "in_project ce (cw_srv w0) n"
    "td_project (te_db (ce_srv ce)) (cw_srv w0) = td_project (te_db (ce_srv ce)) (cw_srv w)"
    "set (td_rows (te_db (ce_srv ce)) (cw_srv w0)) = set (td_rows (te_db (ce_srv ce)) (cw_srv w)) \<union> N"
    "tg_Name ` N = (if in_project ce (cw_srv w) n then {} else {n})"
    using factory_step[OF l Cons.prems(1) n(1) f] .
  obtain M where M: "targets_ok (ce_srv ce) (cw_srv w1)" "\<forall>n \<in> set ns. in_project ce (cw_srv w1) n"
    "td_project (te_db (ce_srv ce)) (cw_srv w1) = td_project (te_db (ce_srv ce)) (cw_srv w0)"
    "set (td_rows (te_db (ce_srv ce)) (cw_srv w1)) = set (td_rows (te_db (ce_srv ce)) (cw_srv w0)) \<union> M"
    "tg_Name ` M = {n \<in> set ns. \<not> in_project ce (cw_srv w0) n}"
    using Cons.IH[OF N(1) n(2) rest] by blast
  have "tg_Name ` (N \<union> M) = {m \<in> set (n # ns). \<not> in_project ce (cw_srv w) m}"
    unfolding image_Un N(5) M(5) using in_project_rows[OF N(3,4)] N(2) unfolding N(5) by (auto split: if_splits)
  then show ?case
    using M N in_project_rows(1)[OF M(3,4)] by (intro exI[of _ "N \<union> M"] conjI) (simp_all add: Un_assoc)
qed simp

lemma init_targets_again:
  assumes l: "target_lawful (te_db (ce_srv ce))" and "targets_ok (ce_srv ce) (cw_srv w)" and "[] \<notin> set names"
    and "\<And>n. n \<in> set names \<Longrightarrow> in_project ce (cw_srv w) n" and "init_targets ce names w = Ret w1 u"
  shows "cw_srv w1 = cw_srv w"
  using assms(2-)
proof (induction names arbitrary: w)
  case (Cons n ns)
  from Cons.prems(4) obtain w0 k where f: "factory_NewTarget ce [WithTargetName n, WithProject (ce_project ce)] w = Ret w0 k"
    and rest: "init_targets ce ns w0 = Ret w1 u"
    by (auto simp: bind_o_Ret_iff)
  have "cw_srv w0 = cw_srv w" using factory_known[OF l Cons.prems(1) _ _ f] Cons.prems(2,3) by auto
  then show ?case using Cons.IH[of w0] Cons.prems rest by auto
qed simp

section \<open>An example\<close>

definition ex_project :: "nat project_ref" where
  "ex_project = \<lparr>pf_ResourceId = ''p'', pf_Name = ''prj'', pf_Path = ''/p'', pf_Basis = None\<rparr>"

definition ex_rows :: "(string \<times> phys_state) list \<Rightarrow> nat target_list" where
  "ex_rows xs =
     \<lparr>tl_next = length xs,
      tl_rows = map (\<lambda>i. (new_row (fst (xs ! i)) (Suc i) 1)\<lparr>tg_Name := fst (xs ! i), tg_State := snd (xs ! i)\<rparr>) [0 ..< length xs],
      tl_parents = [], tl_projects = [\<lparr>pk_ID = 1, pk_ref = ex_project\<rparr>]\<rparr>"

definition ex_targets :: "(nat target_list, nat) targetenv" where
  "ex_targets =
     \<lparr>te_db = target_list_db, te_errors = hd, te_decode = hd, te_zero = (\<lambda>_. False),
      te_fresh = (\<lambda>d. Inr (replicate (Suc (tl_next d)) (CHR ''i''))), te_stack = 3\<rparr>"

definition ex_core :: "(nat target_list, nat, nat) coreenv" where
  "ex_core =
     \<lparr>ce_srv = ex_targets, ce_project = ex_project, ce_dir = (\<lambda>n. Inr (''/'' @ n)), ce_glob = (\<lambda>_. None), ce_keep = (\<lambda>_. None),
      ce_append = (\<lambda>_ e. e), ce_stub = 0, ce_load = Inr, ce_toStore = Inr, ce_nothing = 0,
      ce_any = (\<lambda>m. Inr (length (mc_Id m))), ce_user = Inr ''u'',
      ce_targets = (\<lambda>d. Inr (map (\<lambda>r. target_ToProtoRef (load_row d r)) (tl_rows d)))\<rparr>"

definition ex_obj :: "string \<Rightarrow> (nat, nat) target_obj" where
  "ex_obj i =
     \<lparr>to_target = empty_pb\<lparr>tp_ResourceId := i, tp_Name := i, tp_Project := Some ex_project\<rparr>, to_vagrantfile = Some 7,
      to_dir = Some (''/'' @ i), to_ready = True, to_closers = 1\<rparr>"

definition returned :: "('s, 'e, 'a) outcome \<Rightarrow> bool" where
  "returned r = (case r of Ret _ _ \<Rightarrow> True | _ \<Rightarrow> False)"

lemma returned_iff: "returned r \<longleftrightarrow> (\<exists>s a. r = Ret s a)"
  by (simp add: returned_def split: outcome.split)

text \<open>A world in which the object of the first row is cached.\<close>

definition ex_world :: "(string \<times> phys_state) list \<Rightarrow> (nat target_list, nat, nat) cworld" where
  "ex_world xs =
     \<lparr>cw_srv = ex_rows xs, cw_files = (\<lambda>p. if p = ''/a'' then [''disk''] else []), cw_objs = [ex_obj ''a''],
      cw_cache = [''a'' \<mapsto> 0]\<rparr>"

lemma list_targets_lawful: "target_lawful (te_db ex_targets)" "target_lawful (te_db (ce_srv ex_core))"
  by (simp_all add: ex_core_def ex_targets_def target_list_db_lawful)

lemma ex_srv: "ce_srv ex_core = ex_targets"
  by (simp add: ex_core_def)

lemma ex_removal: "removal_works ex_targets" and ex_files: "files_work ex_core"
  by (simp_all add: removal_works_def files_work_def ex_targets_def ex_core_def target_list_db_def)

lemma list_targets_ok:
  "targets_ok ex_targets (ex_rows [(''a'', s)])"
  "targets_ok ex_targets (ex_rows [(''a'', s), (''b'', s')])"
  by (auto simp: targets_ok_def ex_targets_def target_list_db_def ex_rows_def target_ok_def target_clash_def new_row_def
      columns_def zero_target_def)

lemma ex_scrub_ok: "scrub_ok ex_core (ex_world [(''a'', s), (''b'', s')])" "cache_ok (ex_world xs)"
  using list_targets_ok(2)[of s s']
  by (auto simp: scrub_ok_def ex_srv ex_world_def cache_ok_def ex_obj_def empty_pb_def ex_targets_def flat_list_iff ex_rows_def
      split: if_splits)

section \<open>Claims\<close>

text \<open>C30: whatever requests to upsert and delete targets arrive, the rows keep the invariant: every target has a resource
  id, a name and a project, and no two of them have the same id, resource id, uuid, or name in one project.\<close>

theorem targets_stay_unique:
  assumes "target_lawful (te_db env)" and "targets_ok env d"
  shows "targets_ok env (fold (target_request env) qs d)"
  using target_rows.run_inv[of env d qs] assms by blast

definition ex_requests :: "nat target_request list" where
  "ex_requests =
     [ReqUpsertTarget (Some (named_pb ex_core ''x'')), ReqUpsertTarget (Some (named_pb ex_core ''x'')),
      ReqDeleteTarget (Some (by_id ''a'')), ReqUpsertTarget (Some (named_pb ex_core ''y''))]"

lemma targets_stay_unique_witness:
  "targets_ok ex_targets (fold (target_request ex_targets) ex_requests (ex_rows [(''a'', CREATED)]))
   \<and> map tg_Name (tl_rows (fold (target_request ex_targets) ex_requests (ex_rows [(''a'', CREATED)]))) = [''x'', ''y'']"
proof
  show "targets_ok ex_targets (fold (target_request ex_targets) ex_requests (ex_rows [(''a'', CREATED)]))"
    by (rule targets_stay_unique[OF list_targets_lawful(1) list_targets_ok(1)])
  show "map tg_Name (tl_rows (fold (target_request ex_targets) ex_requests (ex_rows [(''a'', CREATED)]))) = [''x'', ''y'']"
    by code_simp
qed

text \<open>a message with the resource id of a stored target changes that row only, and as a merge: an empty field keeps
  what is stored, a record replaces the stored one as a whole, and the state is always that of the message.\<close>

theorem stored_target_is_merged:
  assumes "target_lawful (te_db env)" and "targets_ok env d" and "UpsertTarget env (Some m) d = Ret d1 m1"
    and "tp_ResourceId m \<noteq> []" and "row_of env d (tp_ResourceId m) = Some old"
  shows "targets_ok env d1 \<and> row_of env d1 = (row_of env d)(tp_ResourceId m \<mapsto>
     old\<lparr>tg_Uuid := (if tp_Uuid m = [] then tg_Uuid old else Some (tp_Uuid m)),
         tg_Name := (if tp_Name m = [] then tg_Name old else tp_Name m),
         tg_Configuration := set_msg (te_zero env) (tp_Configuration m) (tg_Configuration old),
         tg_Metadata := set_msg (te_zero env) (tp_Metadata m) (tg_Metadata old),
         tg_Provider := (if tp_Provider m = [] then tg_Provider old else Some (tp_Provider m)),
         tg_Record := (case tp_Record m of None \<Rightarrow> tg_Record old | Some x \<Rightarrow> if te_zero env x then None else Some x),
         tg_State := tp_State m\<rparr>)"
  using TargetPut_by_id[OF assms(1,2) _ assms(4,5), of d1 m1] assms(3)
  by (simp add: UpsertTarget_def merge_row_def set_str_def set_or_def)

lemma stored_target_is_merged_witness:
  "\<exists>d1 m1 old. UpsertTarget ex_targets (Some (empty_pb\<lparr>tp_ResourceId := ''a'', tp_Record := Some 4\<rparr>)) (ex_rows [(''a'', CREATED), (''b'', CREATED)]) = Ret d1 m1
     \<and> row_of ex_targets (ex_rows [(''a'', CREATED), (''b'', CREATED)]) ''a'' = Some old
     \<and> row_of ex_targets d1 ''a'' = Some (old\<lparr>tg_Record := Some 4, tg_State := UNKNOWN\<rparr>)"
proof -
  let ?m = "empty_pb\<lparr>tp_ResourceId := ''a'', tp_Record := Some (4 :: nat)\<rparr>" and ?d = "ex_rows [(''a'', CREATED), (''b'', CREATED)]"
  have "returned (UpsertTarget ex_targets (Some ?m) ?d)" by code_simp
  then obtain d1 m1 where run: "UpsertTarget ex_targets (Some ?m) ?d = Ret d1 m1" by (auto simp: returned_iff)
  obtain old where old: "row_of ex_targets ?d ''a'' = Some old"
    by (simp add: row_of_def ex_targets_def target_list_db_def ex_rows_def)
  from stored_target_is_merged[OF list_targets_lawful(1) list_targets_ok(2) run] old run show ?thesis
    by (simp add: empty_pb_def set_msg_def ex_targets_def)
qed

text \<open>C32: initializing the targets of a Vagrantfile leaves the project with a target of every name; the rows that were
  there stay as they are, one is added for each name that was missing and no other; and doing it again changes no row.\<close>

theorem targets_created_once:
  assumes l: "target_lawful (te_db (ce_srv ce))" and ok: "targets_ok (ce_srv ce) (cw_srv w)" and n: "[] \<notin> set names"
    and run: "init_targets ce names w = Ret w1 u"
  shows "targets_ok (ce_srv ce) (cw_srv w1) \<and> (\<forall>n \<in> set names. in_project ce (cw_srv w1) n)
     \<and> (\<exists>new. set (td_rows (te_db (ce_srv ce)) (cw_srv w1)) = set (td_rows (te_db (ce_srv ce)) (cw_srv w)) \<union> new
          \<and> tg_Name ` new = {n \<in> set names. \<not> in_project ce (cw_srv w) n})
     \<and> (\<forall>w2 v. init_targets ce names w1 = Ret w2 v \<longrightarrow> cw_srv w2 = cw_srv w1)"
proof -
  obtain N where ok1: "targets_ok (ce_srv ce) (cw_srv w1)" and named: "\<forall>n \<in> set names. in_project ce (cw_srv w1) n"
    and N: "set (td_rows (te_db (ce_srv ce)) (cw_srv w1)) = set (td_rows (te_db (ce_srv ce)) (cw_srv w)) \<union> N"
      "tg_Name ` N = {n \<in> set names. \<not> in_project ce (cw_srv w) n}"
    using init_targets_rows[OF l ok n run] by (elim exE conjE)
  have "cw_srv w2 = cw_srv w1" if "init_targets ce names w1 = Ret w2 v" for w2 v
    using init_targets_again[OF l ok1 n _ that] named by simp
  then show ?thesis by (intro conjI allI impI exI[of _ N] ok1 named N)
qed

lemma targets_created_once_witness:
  "\<exists>w1 w2. init_targets ex_core [''a'', ''b''] (ex_world [(''a'', CREATED)]) = Ret w1 () \<and> in_project ex_core (cw_srv w1) ''b''
     \<and> init_targets ex_core [''a'', ''b''] w1 = Ret w2 () \<and> cw_srv w2 = cw_srv w1"
proof -
  have "returned (bind_o (init_targets ex_core [''a'', ''b''] (ex_world [(''a'', CREATED)])) (\<lambda>w _. init_targets ex_core [''a'', ''b''] w))"
    by code_simp
  then obtain w1 w2 where run: "init_targets ex_core [''a'', ''b''] (ex_world [(''a'', CREATED)]) = Ret w1 ()"
    and again: "init_targets ex_core [''a'', ''b''] w1 = Ret w2 ()"
    unfolding returned_iff bind_o_Ret_iff by auto
  have "targets_ok (ce_srv ex_core) (cw_srv (ex_world [(''a'', CREATED)]))" by (simp add: ex_srv ex_world_def list_targets_ok)
  from targets_created_once[OF list_targets_lawful(2) this _ run] run again show ?thesis by auto
qed




definition ex_machine :: "(string \<times> phys_state) list \<Rightarrow> (nat target_list, nat, nat) machine_state" where
  "ex_machine xs = ((ex_world xs, ex_obj ''a''), \<lparr>mc_Id = ''vm'', mc_Uid = [], mc_State = None, mc_Box = None\<rparr>)"

lemma ex_row_a: "\<exists>old. row_of ex_targets (ex_rows ((''a'', s) # xs)) ''a'' = Some old"
  by (simp add: row_of_def ex_targets_def target_list_db_def ex_rows_def upt_conv_Cons del: upt_Suc)


text \<open>clearing the id of a machine marks its target as not created, but its record stays: the one that is stored is
  that of the machine with an empty id.\<close>

theorem cleared_machine_keeps_record:
  assumes l: "target_lawful (te_db (ce_srv ce))" and ok: "targets_ok (ce_srv ce) (cw_srv w)"
    and run: "SetID ce [] ((w, t), m) = Ret ((w1, t1), m1) u"
    and i: "tp_ResourceId (to_target t) \<noteq> []" "row_of (ce_srv ce) (cw_srv w) (tp_ResourceId (to_target t)) = Some old"
  shows "\<exists>uid x r. ce_user ce = Inr uid \<and> ce_any ce (m\<lparr>mc_Id := [], mc_Uid := uid\<rparr>) = Inr x
     \<and> row_of (ce_srv ce) (cw_srv w1) = (row_of (ce_srv ce) (cw_srv w))(tp_ResourceId (to_target t) \<mapsto> r)
     \<and> tg_State r = NOT_CREATED \<and> tg_Record r = (if te_zero (ce_srv ce) x then None else Some x)"
proof -
  let ?t = "t\<lparr>to_target := (to_target t)\<lparr>tp_Record := None, tp_State := NOT_CREATED\<rparr>\<rparr>"
  from run obtain uid where uid: "ce_user ce = Inr uid"
    and sv: "SaveMachine ce ((w, ?t), m\<lparr>mc_Id := [], mc_Uid := uid\<rparr>) = Ret ((w1, t1), m1) u"
    by (auto simp: SetID_def on_target_def split: sum.splits)
  obtain x where x: "ce_any ce (m\<lparr>mc_Id := [], mc_Uid := uid\<rparr>) = Inr x"
    and row: "row_of (ce_srv ce) (cw_srv w1) = (row_of (ce_srv ce) (cw_srv w))(tp_ResourceId (to_target t) \<mapsto>
      merge_row (ce_srv ce) (captured ce (?t\<lparr>to_target := (to_target ?t)\<lparr>tp_Record := Some x\<rparr>\<rparr>)) old)"
    using SaveMachine_row[OF l ok _ _ sv, of old] i by auto
  show ?thesis
    by (intro exI conjI, rule uid, rule x, rule row) (simp_all add: merge_row_def)
qed

lemma cleared_machine_keeps_record_witness:
  "\<exists>w1 t1 m1 r. SetID ex_core [] (ex_machine [(''a'', CREATED)]) = Ret ((w1, t1), m1) ()
     \<and> row_of ex_targets (cw_srv w1) ''a'' = Some r \<and> tg_State r = NOT_CREATED \<and> tg_Record r = Some 0"
proof -
  let ?s = "ex_machine [(''a'', CREATED)]"
  have "returned (SetID ex_core [] ?s)" by code_simp
  then obtain w1 t1 m1 where run: "SetID ex_core [] ?s = Ret ((w1, t1), m1) ()" by (auto simp: returned_iff)
  obtain old where old: "row_of ex_targets (ex_rows [(''a'', CREATED)]) ''a'' = Some old" using ex_row_a by blast
  have w: "targets_ok (ce_srv ex_core) (cw_srv (ex_world [(''a'', CREATED)]))" "cw_srv (ex_world [(''a'', CREATED)]) = ex_rows [(''a'', CREATED)]"
    by (simp_all add: ex_srv ex_world_def list_targets_ok)
  have a: "tp_ResourceId (to_target (ex_obj ''a'')) = ''a''" by (simp add: ex_obj_def)
  obtain x r where "ce_any ex_core (snd ?s\<lparr>mc_Id := [], mc_Uid := ''u''\<rparr>) = Inr x" "row_of ex_targets (cw_srv w1) ''a'' = Some r"
    "tg_State r = NOT_CREATED" "tg_Record r = (if te_zero ex_targets x then None else Some x)"
    using cleared_machine_keeps_record[OF list_targets_lawful(2) w(1) run[unfolded ex_machine_def], of old] old
    by (auto simp: a w(2) ex_srv ex_core_def ex_machine_def)
  with run show ?thesis by (auto simp: ex_core_def ex_targets_def)
qed

end
