(* ===== verification/Plugins.thy ===== *)
theory Plugins
  imports StateErrors
begin

text \<open>
  The plugin manager (\<open>internal/plugin/manager.go\<close>, \<open>plugin.go\<close>, \<open>factory.go\<close>, \<open>builtin.go\<close>) and the manager of
  core objects (\<open>core/core_manager.go\<close>): registration and discovery of plugins, the search through a manager and its
  parents, the instances of components with their configuration, caches and parents.

  A manager is seen with its parents: a list that starts with the manager itself and ends with the one that has no parent.
  Instances are shared, so they live in a heap. Processes, what a component does when it is called and the names of
  component types are arguments. Every exported operation holds the lock of its manager and is one step.
\<close>

unbundle bit_operations_syntax

section \<open>Plugins, instances and managers\<close>

text \<open>The component types that the code names.\<close>

datatype component_type =
    CommandType | ConfigType | HostType | MapperType | PluginInfoType | PushType | DownloaderType | OtherType string

definition CacheableComponents :: "component_type list" where
  "CacheableComponents = [CommandType, ConfigType, HostType, MapperType, PluginInfoType, PushType, DownloaderType]"

text \<open>What is to be done at the end: close an instance, a client, or a sub manager.\<close>

datatype closer = CloseInstance nat | CloseClient | CloseSub string

record ('d, 'o) plugin =
  pl_Builtin :: bool
  pl_Client :: 'd
  pl_Location :: string
  pl_Mappers :: "string list"
  pl_Name :: string
  pl_Types :: "component_type list"
  pl_Options :: "component_type \<rightharpoonup> 'o"
  pl_closers :: "closer list"

record ('c, 'o) inst =
  in_Name :: string
  in_Type :: component_type
  in_Component :: 'c
  in_Options :: "'o option"
  in_Mappers :: "string list"
  in_Broker :: nat
  in_Parent :: "nat option"

text \<open>A plugin as it is given to other components; without an instance in a listing.\<close>

record 'o named_plugin =
  np_Name :: string
  np_Type :: string
  np_Plugin :: "nat option"
  np_Options :: "'o option"

record ('d, 'f, 'o) manager =
  mg_Plugins :: "('d, 'o) plugin list"
  mg_builtinsLoaded :: bool
  mg_cache :: "string \<rightharpoonup> 'o named_plugin"
  mg_closers :: "closer list"
  mg_discovered :: "string list"
  mg_dispense :: "'f list"
  mg_instances :: "string \<times> component_type \<rightharpoonup> nat"
  mg_init :: "'f list"
  mg_legacyLoaded :: bool
  mg_legacyBroker :: "nat option"
  mg_rubyC :: nat
  mg_srv :: "string option"

record dirent =
  de_Name :: string
  de_IsDir :: bool
  de_stat :: "goerr + nat"

text \<open>\<open>pg_dispense\<close> asks a client for a component of a type, named in lower case (\<open>pg_lower\<close>); \<open>pg_broker\<close>,
  \<open>pg_mappers\<close>, \<open>pg_name\<close>, \<open>pg_parent\<close> and \<open>pg_setParent\<close> are the interfaces that a component may have;
  \<open>pg_configure\<close> and \<open>pg_initialize\<close> run the functions that were registered, \<open>pg_metadata\<close> is the one that sets the name
  of a plugin. \<open>pg_readdir\<close>, \<open>pg_join\<close> and \<open>pg_launch\<close> are directories and the start of a process; \<open>pg_serve\<close>
  starts the server of a manager; \<open>pg_append\<close> joins errors.\<close>

record ('c, 'd, 'f, 'o) plugenv =
  pg_String :: "component_type \<Rightarrow> string"
  pg_FindType :: "string \<Rightarrow> goerr + component_type"
  pg_lower :: "string \<Rightarrow> string"
  pg_dispense :: "'d \<Rightarrow> string \<Rightarrow> goerr + 'c"
  pg_broker :: "'c \<Rightarrow> nat option"
  pg_mappers :: "string list \<Rightarrow> 'c \<Rightarrow> 'c"
  pg_name :: "string \<Rightarrow> 'c \<Rightarrow> 'c"
  pg_parent :: "'c \<Rightarrow> (goerr + string) option"
  pg_setParent :: "nat \<Rightarrow> 'c \<Rightarrow> 'c"
  pg_configure :: "'f \<Rightarrow> ('c, 'o) inst \<Rightarrow> ('c, 'o) inst \<times> goerr option"
  pg_initialize :: "'f \<Rightarrow> ('d, 'o) plugin \<Rightarrow> goerr option"
  pg_metadata :: 'f
  pg_readdir :: "string \<Rightarrow> goerr + dirent list"
  pg_join :: "string \<Rightarrow> string \<Rightarrow> string"
  pg_launch :: "string \<Rightarrow> goerr + ('d, 'o) plugin"
  pg_windows :: bool
  pg_serve :: "nat \<Rightarrow> goerr + string"
  pg_append :: "goerr option \<Rightarrow> goerr \<Rightarrow> goerr"

type_synonym ('c, 'd, 'f, 'o) mgr_state = "('d, 'f, 'o) manager list \<times> ('c, 'o) inst list"
type_synonym ('c, 'd, 'f, 'o, 'a) mgr_result = "(('c, 'd, 'f, 'o) mgr_state, goerr, 'a) outcome"

definition HasType :: "('d, 'o) plugin \<Rightarrow> component_type \<Rightarrow> bool" where
  "HasType p t = list_ex (\<lambda>pt. pt = t) (pl_Types p)"

definition serves :: "string \<Rightarrow> component_type \<Rightarrow> ('d, 'o) plugin \<Rightarrow> bool" where
  "serves n t p \<longleftrightarrow> pl_Name p = n \<and> HasType p t"

section \<open>Managers and their parents\<close>

definition NewManager :: "nat \<Rightarrow> ('d, 'f, 'o) manager" where
  "NewManager r =
     \<lparr>mg_Plugins = [], mg_builtinsLoaded = False, mg_cache = Map.empty, mg_closers = [], mg_discovered = [], mg_dispense = [],
      mg_instances = Map.empty, mg_init = [], mg_legacyLoaded = False, mg_legacyBroker = None, mg_rubyC = r, mg_srv = None\<rparr>"

text \<open>The new manager is put in front. It has no client to the Ruby runtime of its own; 0 stands for none.\<close>

fun Sub :: "string \<Rightarrow> ('d, 'f, 'o) manager list \<Rightarrow> ('d, 'f, 'o) manager list" where
  "Sub name [] = []"
| "Sub name (m # ms) =
     (let name = (if name = [] then ''submanager'' else name)
      in (NewManager 0)\<lparr>mg_builtinsLoaded := True, mg_discovered := mg_discovered m, mg_legacyLoaded := True\<rparr>
           # m\<lparr>mg_closers := mg_closers m @ [CloseSub name]\<rparr> # ms)"

fun RubyClient :: "('d, 'f, 'o) manager list \<Rightarrow> nat" where
  "RubyClient [] = 0"
| "RubyClient [m] = mg_rubyC m"
| "RubyClient (m # ms) = RubyClient ms"

fun LegacyBroker :: "('d, 'f, 'o) manager list \<Rightarrow> nat option" where
  "LegacyBroker [] = None"
| "LegacyBroker (m # ms) = (case mg_legacyBroker m of Some b \<Rightarrow> Some b | None \<Rightarrow> LegacyBroker ms)"

definition LegacyEnabled :: "('d, 'f, 'o) manager list \<Rightarrow> bool" where
  "LegacyEnabled ms \<longleftrightarrow> LegacyBroker ms \<noteq> None"

fun Configurators :: "('d, 'f, 'o) manager list \<Rightarrow> 'f list" where
  "Configurators [] = []"
| "Configurators (m # ms) = Configurators ms @ mg_dispense m"

definition mgr_Configure :: "'f \<Rightarrow> ('d, 'f, 'o) manager \<Rightarrow> ('d, 'f, 'o) manager" where
  "mgr_Configure f m = m\<lparr>mg_dispense := mg_dispense m @ [f]\<rparr>"

definition Initializer :: "'f \<Rightarrow> ('d, 'f, 'o) manager \<Rightarrow> ('d, 'f, 'o) manager" where
  "Initializer f m = m\<lparr>mg_init := mg_init m @ [f]\<rparr>"

fun mgr_Get :: "string \<Rightarrow> component_type \<Rightarrow> ('d, 'f, 'o) manager list \<Rightarrow> ('d, 'o) plugin option" where
  "mgr_Get n t [] = None"
| "mgr_Get n t (m # ms) = (case List.find (serves n t) (mg_Plugins m) of Some p \<Rightarrow> Some p | None \<Rightarrow> mgr_Get n t ms)"

fun Typed :: "component_type \<Rightarrow> ('d, 'f, 'o) manager list \<Rightarrow> string list" where
  "Typed t [] = []"
| "Typed t (m # ms) = map pl_Name (filter (\<lambda>p. HasType p t) (mg_Plugins m)) @ Typed t ms"

fun optionsForPlugin :: "component_type \<Rightarrow> string \<Rightarrow> ('d, 'f, 'o) manager list \<Rightarrow> 'o option" where
  "optionsForPlugin t n [] = None"
| "optionsForPlugin t n (m # ms) =
     (case List.find (serves n t) (mg_Plugins m) of Some p \<Rightarrow> pl_Options p t | None \<Rightarrow> optionsForPlugin t n ms)"

fun ListPlugins ::
  "('c, 'd, 'f, 'o) plugenv \<Rightarrow> string list \<Rightarrow> ('d, 'f, 'o) manager list \<Rightarrow> goerr + 'o named_plugin list" where
  "ListPlugins env [] ms = Inr []"
| "ListPlugins env (tn # tns) ms =
     (case pg_FindType env tn of
        Inl e \<Rightarrow> Inl e
      | Inr t \<Rightarrow>
          map_sum id (\<lambda>r. map (\<lambda>n. \<lparr>np_Name = n, np_Type = pg_String env t, np_Plugin = None, np_Options = optionsForPlugin t n ms\<rparr>)
                         (Typed t ms) @ r)
            (ListPlugins env tns ms))"

section \<open>Registration\<close>

text \<open>A plugin whose initializers all succeed is added at the end.\<close>

fun run_initializers :: "('c, 'd, 'f, 'o) plugenv \<Rightarrow> 'f list \<Rightarrow> ('d, 'o) plugin \<Rightarrow> goerr option" where
  "run_initializers env [] p = None"
| "run_initializers env (f # fs) p = (case pg_initialize env f p of Some e \<Rightarrow> Some e | None \<Rightarrow> run_initializers env fs p)"

definition register ::
  "('c, 'd, 'f, 'o) plugenv \<Rightarrow> goerr + ('d, 'o) plugin \<Rightarrow> ('d, 'f, 'o) manager \<Rightarrow> (('d, 'f, 'o) manager, goerr, unit) outcome" where
  "register env r m =
     (case r of
        Inl e \<Rightarrow> Fail m e
      | Inr p \<Rightarrow>
          (case run_initializers env (mg_init m) p of
             Some e \<Rightarrow> Fail m e
           | None \<Rightarrow> Ret (m\<lparr>mg_Plugins := mg_Plugins m @ [p]\<rparr>) ()))"

fun register_all ::
  "('c, 'd, 'f, 'o) plugenv \<Rightarrow> (goerr + ('d, 'o) plugin) list \<Rightarrow> ('d, 'f, 'o) manager \<Rightarrow> (('d, 'f, 'o) manager, goerr, unit) outcome" where
  "register_all env [] m = Ret m ()"
| "register_all env (r # rs) m = bind_o (register env r m) (\<lambda>m _. register_all env rs m)"

text \<open>The legacy plugins; on an error those that were registered stay and the flag is not set.\<close>

definition LoadLegacyPlugins ::
  "('c, 'd, 'f, 'o) plugenv \<Rightarrow> goerr + (goerr + ('d, 'o) plugin) list \<Rightarrow> nat option \<Rightarrow> ('d, 'f, 'o) manager \<Rightarrow>
     (('d, 'f, 'o) manager, goerr, unit) outcome" where
  "LoadLegacyPlugins env plugins broker m =
     (if mg_legacyLoaded m then Ret m ()
      else (case plugins of
              Inl e \<Rightarrow> Fail m e
            | Inr ps \<Rightarrow>
                bind_o (register_all env ps m)
                  (\<lambda>m _. Ret (mgr_Configure (pg_metadata env) (m\<lparr>mg_legacyLoaded := True, mg_legacyBroker := broker\<rparr>)) ())))"

text \<open>The builtin plugins, each in a process of its own, in the order in which the map is walked. All errors are joined.\<close>

fun register_builtins ::
  "('c, 'd, 'f, 'o) plugenv \<Rightarrow> (goerr + ('d, 'o) plugin) list \<Rightarrow> goerr option \<Rightarrow> ('d, 'f, 'o) manager \<Rightarrow> ('d, 'f, 'o) manager \<times> goerr option" where
  "register_builtins env [] err m = (m, err)"
| "register_builtins env (r # rs) err m =
     (case register env r m of
        Fail m e \<Rightarrow> register_builtins env rs (Some (pg_append env err e)) m
      | Ret m _ \<Rightarrow> register_builtins env rs err m
      | Crash _ \<Rightarrow> (m, err))"

definition LoadBuiltins ::
  "('c, 'd, 'f, 'o) plugenv \<Rightarrow> (goerr + ('d, 'o) plugin) list \<Rightarrow> ('d, 'f, 'o) manager \<Rightarrow> (('d, 'f, 'o) manager, goerr, unit) outcome" where
  "LoadBuiltins env builtins m =
     (if mg_builtinsLoaded m then Ret m ()
      else (case register_builtins env builtins None m of
              (m, err) \<Rightarrow>
                (case err of
                   None \<Rightarrow> Ret (m\<lparr>mg_builtinsLoaded := True\<rparr>) ()
                 | Some e \<Rightarrow> Fail (m\<lparr>mg_builtinsLoaded := True\<rparr>) e)))"

section \<open>Discovery\<close>

text \<open>Files that are directories, not executable, or not programs of Windows are passed over.\<close>

definition runnable :: "('c, 'd, 'f, 'o) plugenv \<Rightarrow> dirent \<Rightarrow> bool" where
  "runnable env f =
     (case de_stat f of
        Inl _ \<Rightarrow> False
      | Inr perm \<Rightarrow>
          \<not> de_IsDir f \<and> perm AND 73 \<noteq> 0
          \<and> (pg_windows env \<longrightarrow> HasSuffix (de_Name f) ''.exe'' \<or> HasSuffix (de_Name f) ''.bat''))"

fun discover_files ::
  "('c, 'd, 'f, 'o) plugenv \<Rightarrow> string \<Rightarrow> dirent list \<Rightarrow> ('d, 'f, 'o) manager \<Rightarrow> (('d, 'f, 'o) manager, goerr, unit) outcome" where
  "discover_files env dir [] m = Ret m ()"
| "discover_files env dir (f # fs) m =
     (if runnable env f
      then bind_o (register env (pg_launch env (pg_join env dir (de_Name f))) m) (\<lambda>m _. discover_files env dir fs m)
      else discover_files env dir fs m)"

text \<open>A path that was loaded before, or cannot be read, ends the whole run without an error.\<close>

fun Discover ::
  "('c, 'd, 'f, 'o) plugenv \<Rightarrow> string list \<Rightarrow> ('d, 'f, 'o) manager \<Rightarrow> (('d, 'f, 'o) manager, goerr, unit) outcome" where
  "Discover env [] m = Ret m ()"
| "Discover env (dir # dirs) m =
     (if dir \<in> set (mg_discovered m) then Ret m ()
      else (case pg_readdir env dir of
              Inl _ \<Rightarrow> Ret m ()
            | Inr fs \<Rightarrow>
                bind_o (discover_files env dir fs m)
                  (\<lambda>m _. Discover env dirs (m\<lparr>mg_discovered := mg_discovered m @ [dir]\<rparr>))))"

section \<open>Instances\<close>

fun apply_configurators ::
  "('c, 'd, 'f, 'o) plugenv \<Rightarrow> 'f list \<Rightarrow> ('c, 'o) inst \<Rightarrow> ('c, 'o) inst \<times> goerr option" where
  "apply_configurators env [] i = (i, None)"
| "apply_configurators env (f # fs) i =
     (case pg_configure env f i of (i, None) \<Rightarrow> apply_configurators env fs i | (i, Some e) \<Rightarrow> (i, Some e))"

text \<open>A new instance of a plugin: the plugin, which closes it later, and the instances afterwards.\<close>

definition instanceOf ::
  "('c, 'd, 'f, 'o) plugenv \<Rightarrow> component_type \<Rightarrow> 'f list \<Rightarrow> ('d, 'o) plugin \<times> ('c, 'o) inst list \<Rightarrow>
     (('d, 'o) plugin \<times> ('c, 'o) inst list, goerr, nat) outcome" where
  "instanceOf env t cfns s =
     (let (p, h) = s
      in if \<not> HasType p t then Fail s (OtherError (''plugin does not support '' @ pg_String env t @ '' component type''))
         else (case pg_dispense env (pl_Client p) (pg_lower env (pg_String env t)) of
                 Inl e \<Rightarrow> Fail s e
               | Inr raw \<Rightarrow>
                   (case pg_broker env raw of
                      None \<Rightarrow> Fail s (OtherError ''unable to extract broker from plugin client'')
                    | Some b \<Rightarrow>
                        (let i = \<lparr>in_Name = pl_Name p, in_Type = t,
                                  in_Component = pg_name env (pl_Name p) (pg_mappers env (pl_Mappers p) raw),
                                  in_Options = pl_Options p t, in_Mappers = pl_Mappers p, in_Broker = b, in_Parent = None\<rparr>;
                             p = p\<lparr>pl_closers := pl_closers p @ [CloseInstance (length h)]\<rparr>
                         in case apply_configurators env cfns i of
                              (i, None) \<Rightarrow> Ret (p, h @ [i]) (length h)
                            | (i, Some e) \<Rightarrow> Fail (p, h @ [i]) e))))"

text \<open>The first plugin of a list that serves the request, put back after the call.\<close>

fun with_plugin ::
  "(('d, 'o) plugin \<Rightarrow> bool) \<Rightarrow> (('d, 'o) plugin \<times> 'h \<Rightarrow> (('d, 'o) plugin \<times> 'h, goerr, 'a) outcome) \<Rightarrow>
     ('d, 'o) plugin list \<Rightarrow> 'h \<Rightarrow> (('d, 'o) plugin list \<times> 'h, goerr, 'a) outcome option" where
  "with_plugin P f [] h = None"
| "with_plugin P f (p # ps) h =
     (if P p then
        Some (case f (p, h) of
                Ret (p, h) a \<Rightarrow> Ret (p # ps, h) a | Fail (p, h) e \<Rightarrow> Fail (p # ps, h) e | Crash m \<Rightarrow> Crash m)
      else map_option (\<lambda>r. case r of Ret (ps, h) a \<Rightarrow> Ret (p # ps, h) a | Fail (ps, h) e \<Rightarrow> Fail (p # ps, h) e | Crash m \<Rightarrow> Crash m)
             (with_plugin P f ps h))"

text \<open>The configurators of this manager come before those that it was given.\<close>

fun fetch ::
  "('c, 'd, 'f, 'o) plugenv \<Rightarrow> string \<Rightarrow> component_type \<Rightarrow> 'f list \<Rightarrow> ('d, 'f, 'o) manager list \<Rightarrow> ('c, 'o) inst list \<Rightarrow>
     ('c, 'd, 'f, 'o, nat) mgr_result" where
  "fetch env n t c [] h = Fail ([], h) (OtherError (''failed to locate plugin `'' @ n @ ''`''))"
| "fetch env n t c (m # ms) h =
     (let cfns = (if length c > 0 then mg_dispense m @ c else mg_dispense m)
      in case with_plugin (serves n t) (instanceOf env t cfns) (mg_Plugins m) h of
           Some (Ret (ps, h) i) \<Rightarrow> Ret (m\<lparr>mg_Plugins := ps\<rparr> # ms, h) i
         | Some (Fail (ps, h) e) \<Rightarrow> Fail (m\<lparr>mg_Plugins := ps\<rparr> # ms, h) e
         | Some (Crash x) \<Rightarrow> Crash x
         | None \<Rightarrow>
             (case fetch env n t cfns ms h of
                Ret (ms, h) i \<Rightarrow> Ret (m # ms, h) i | Fail (ms, h) e \<Rightarrow> Fail (m # ms, h) e | Crash x \<Rightarrow> Crash x))"

definition isCacheable :: "component_type \<Rightarrow> bool" where
  "isCacheable t = list_ex (\<lambda>v. t = v) CacheableComponents"

text \<open>The search for an instance. The parent of a component is searched in the same way before the instance is cached;
  the number is what is left of the stack.\<close>

fun mgr_find :: "('c, 'd, 'f, 'o) plugenv \<Rightarrow> nat \<Rightarrow> string \<Rightarrow> component_type \<Rightarrow> ('c, 'd, 'f, 'o) mgr_state \<Rightarrow> ('c, 'd, 'f, 'o, nat) mgr_result"
  and loadParent :: "('c, 'd, 'f, 'o) plugenv \<Rightarrow> nat \<Rightarrow> nat \<Rightarrow> ('c, 'd, 'f, 'o) mgr_state \<Rightarrow> ('c, 'd, 'f, 'o, unit) mgr_result" where
  "mgr_find env 0 n t s = Crash ''stack overflow''"
| "mgr_find env (Suc k) n t ([], h) = Crash ''nil manager''"
| "mgr_find env (Suc k) n t (m # ms, h) =
     (case mg_instances m (n, t) of
        Some i \<Rightarrow> Ret (m # ms, h) i
      | None \<Rightarrow>
          bind_o (fetch env n t [] (m # ms) h)
            (\<lambda>s i. bind_o (loadParent env k i s)
              (\<lambda>s _. case s of
                 ([], h) \<Rightarrow> Ret ([], h) i
               | (m # ms, h) \<Rightarrow>
                   Ret ((if isCacheable t then m\<lparr>mg_instances := (mg_instances m)((n, t) \<mapsto> i)\<rparr> else m)
                          \<lparr>mg_closers := mg_closers m @ [CloseInstance i]\<rparr> # ms, h) i)))"
| "loadParent env k i (ms, h) =
     (case pg_parent env (in_Component (h ! i)) of
        None \<Rightarrow> Ret (ms, h) ()
      | Some (Inl e) \<Rightarrow> Fail (ms, h) e
      | Some (Inr p) \<Rightarrow>
          (if p = [] then Ret (ms, h) ()
           else (case k of
                   0 \<Rightarrow> Crash ''stack overflow''
                 | Suc k \<Rightarrow>
                     bind_o (mgr_find env k p (in_Type (h ! i)) (ms, h))
                       (\<lambda>s pi. case s of (ms, h) \<Rightarrow>
                          Ret (ms, h[i := (h ! i)\<lparr>in_Parent := Some pi, in_Component := pg_setParent env pi (in_Component (h ! i))\<rparr>]) ()))))"

text \<open>Plugins by the name of their type, with a cache of their own.\<close>

definition GetPlugin ::
  "('c, 'd, 'f, 'o) plugenv \<Rightarrow> nat \<Rightarrow> string \<Rightarrow> string \<Rightarrow> ('c, 'd, 'f, 'o) mgr_state \<Rightarrow> ('c, 'd, 'f, 'o, 'o named_plugin) mgr_result" where
  "GetPlugin env k name typ s =
     (case pg_FindType env typ of
        Inl e \<Rightarrow> Fail s e
      | Inr t \<Rightarrow>
          (let cid = pg_String env t @ ''-'' @ name
           in case mg_cache (hd (fst s)) cid of
                Some v \<Rightarrow> Ret s v
              | None \<Rightarrow>
                  bind_o (mgr_find env k name t s)
                    (\<lambda>s i. let v = \<lparr>np_Name = name, np_Type = pg_String env t, np_Plugin = Some i, np_Options = in_Options (snd s ! i)\<rparr>
                           in case s of
                                ([], h) \<Rightarrow> Ret s v
                              | (m # ms, h) \<Rightarrow> Ret (m\<lparr>mg_cache := (mg_cache m)(cid \<mapsto> v)\<rparr> # ms, h) v)))"

text \<open>The component of a plugin, which the manager that it belongs to searches: the one after \<open>k\<close> others.\<close>

definition plugin_Component ::
  "('c, 'd, 'f, 'o) plugenv \<Rightarrow> nat \<Rightarrow> nat \<Rightarrow> ('d, 'o) plugin \<Rightarrow> component_type \<Rightarrow> ('c, 'd, 'f, 'o) mgr_state \<Rightarrow> ('c, 'd, 'f, 'o, nat) mgr_result" where
  "plugin_Component env stack k p t s =
     (case mgr_find env stack (pl_Name p) t (drop k (fst s), snd s) of
        Ret (ms, h) i \<Rightarrow> Ret (take k (fst s) @ ms, h) i
      | Fail (ms, h) e \<Rightarrow> Fail (take k (fst s) @ ms, h) e
      | Crash m \<Rightarrow> Crash m)"

text \<open>The server of a manager is started once.\<close>

fun Servinfo :: "('c, 'd, 'f, 'o) plugenv \<Rightarrow> ('d, 'f, 'o) manager list \<Rightarrow> (('d, 'f, 'o) manager list, goerr, string) outcome" where
  "Servinfo env [] = Crash ''nil manager''"
| "Servinfo env (m # ms) =
     (case mg_srv m of
        Some s \<Rightarrow> Ret (m # ms) s
      | None \<Rightarrow>
          (case LegacyBroker (m # ms) of
             None \<Rightarrow> Fail (m # ms) (OtherError ''legacy broker is unset, cannot create server'')
           | Some b \<Rightarrow>
               (case pg_serve env b of
                  Inl e \<Rightarrow> Fail (m # ms) e
                | Inr s \<Rightarrow> Ret (m\<lparr>mg_srv := Some s\<rparr> # ms) s)))"

text \<open>The names of an instance and its parents, as far as the number of steps goes.\<close>

fun Parents :: "('c, 'o) inst list \<Rightarrow> nat \<Rightarrow> nat option \<Rightarrow> string list" where
  "Parents h 0 p = []"
| "Parents h (Suc k) None = []"
| "Parents h (Suc k) (Some i) = in_Name (h ! i) # Parents h k (in_Parent (h ! i))"

section \<open>Factories\<close>

text \<open>What a process answers at its start: the client, the information about the plugin (none when the component that
  was dispensed is not of that kind), and its mappers. The result tells whether the process was killed.\<close>

record ('d, 'o) process =
  pr_Path :: string
  pr_Client :: "goerr + 'd"
  pr_info :: "goerr + (string \<times> component_type list \<times> (component_type \<rightharpoonup> 'o)) option"
  pr_mappers :: "goerr + string list"

definition Factory :: "('d, 'o) process \<Rightarrow> bool \<times> (goerr + ('d, 'o) plugin)" where
  "Factory pr =
     (case pr_Client pr of
        Inl e \<Rightarrow> (True, Inl e)
      | Inr c \<Rightarrow>
          (case pr_info pr of
             Inl e \<Rightarrow> (True, Inl e)
           | Inr None \<Rightarrow> (True, Inl (OtherError ''failed to load plugin information interface''))
           | Inr (Some (name, types, options)) \<Rightarrow>
               (case pr_mappers pr of
                  Inl e \<Rightarrow> (True, Inl e)
                | Inr ms \<Rightarrow>
                    (False, Inr \<lparr>pl_Builtin = False, pl_Client = c, pl_Location = pr_Path pr, pl_Mappers = ms, pl_Name = name,
                                 pl_Types = types, pl_Options = options, pl_closers = [CloseClient]\<rparr>))))"

definition RubyFactory :: "'d \<Rightarrow> string \<Rightarrow> component_type \<Rightarrow> goerr + 'o \<Rightarrow> goerr + ('d, 'o) plugin" where
  "RubyFactory c name t options =
     map_sum id (\<lambda>opt. \<lparr>pl_Builtin = False, pl_Client = c, pl_Location = ''ruby-runtime'', pl_Mappers = [], pl_Name = name,
                        pl_Types = [t], pl_Options = [t \<mapsto> opt], pl_closers = []\<rparr>) options"

text \<open>The connection to a plugin in this process is looked for five times.\<close>

definition ConnectInfo :: "string \<Rightarrow> (string \<rightharpoonup> 'r) list \<Rightarrow> goerr + 'r" where
  "ConnectInfo name views =
     (case List.find (\<lambda>v. v name \<noteq> None) (take 5 views) of
        Some v \<Rightarrow> Inr (the (v name))
      | None \<Rightarrow> Inl (OtherError (''unknown builtin plugin '' @ name)))"

text \<open>The factory of such a plugin. A client that could not be created is nil and is closed; the plugin that is made has no
  cleaner, to which the closing of its client is added.\<close>

definition InProcessFactory :: "string \<Rightarrow> (string \<rightharpoonup> 'r) list \<Rightarrow> ('r \<Rightarrow> ('d, 'o) process) \<Rightarrow> (unit, goerr, ('d, 'o) plugin option) outcome" where
  "InProcessFactory name views connect =
     (case ConnectInfo name views of
        Inl e \<Rightarrow> Fail () e
      | Inr r \<Rightarrow>
          (case pr_Client (connect r) of
             Inl e \<Rightarrow> Crash ''nil client''
           | Inr c \<Rightarrow>
               (case pr_info (connect r) of
                  Inl e \<Rightarrow> Fail () e
                | Inr None \<Rightarrow> Fail () (OtherError (''failed to load builgin plugin information interface'' @ name))
                | Inr (Some _) \<Rightarrow> Crash ''nil cleaner'')))"

section \<open>Core objects\<close>

text \<open>Every request makes a new object; one that can be closed is closed with the manager (\<open>generatePlugin\<close>). A type that
  is not known has neither an object nor an error.\<close>

datatype core_type = BoxCollectionType | BoxMetadataType | BoxType | StateBagType | OtherCoreType string

definition generatePlugin :: "(core_type \<Rightarrow> bool) \<Rightarrow> core_type \<Rightarrow> core_type list \<times> nat list \<Rightarrow> (core_type list \<times> nat list) \<times> nat option" where
  "generatePlugin closable t s =
     (let (objs, closers) = s
      in ((objs @ [t], if closable t then closers @ [length objs] else closers), Some (length objs)))"

definition core_GetPlugin :: "(core_type \<Rightarrow> bool) \<Rightarrow> core_type \<Rightarrow> core_type list \<times> nat list \<Rightarrow> (core_type list \<times> nat list) \<times> nat option" where
  "core_GetPlugin closable t s = (case t of OtherCoreType _ \<Rightarrow> (s, None) | _ \<Rightarrow> generatePlugin closable t s)"

end
