(* ===== verification/PluginClaims.thy ===== *)
theory PluginClaims
  imports Plugins
begin

text \<open>
  The properties of the plugin manager: which configuration an instance gets, that every instance is closed by its plugin
  and every cached one by its manager, what happens when parents form a cycle, and where discovery stops.
\<close>

section \<open>The search through the managers\<close>

lemma Configurators_append: "Configurators (a @ b) = Configurators b @ Configurators a"
  by (induction a) simp_all

definition put_plugin ::
  "('p list \<Rightarrow> 'm) \<Rightarrow> 'p list \<Rightarrow> 'p list \<Rightarrow> ('p \<times> 'h, 'e, 'a) outcome \<Rightarrow> ('m \<times> 'h, 'e, 'a) outcome" where
  "put_plugin g pre post r =
     (case r of Ret (p, h) a \<Rightarrow> Ret (g (pre @ p # post), h) a | Fail (p, h) e \<Rightarrow> Fail (g (pre @ p # post), h) e | Crash x \<Rightarrow> Crash x)"

lemma with_plugin_None: "List.find P ps = None \<Longrightarrow> with_plugin P f ps h = None"
  by (induction ps) (auto split: if_splits)

lemma with_plugin_Some:
  assumes "List.find P ps = Some p"
  obtains pre post where "ps = pre @ p # post" and "P p" and "with_plugin P f ps h = Some (put_plugin (\<lambda>x. x) pre post (f (p, h)))"
  using assms
proof (induction ps arbitrary: thesis)
  case (Cons q ps)
  show ?case
  proof (cases "P q")
    case True
    then show ?thesis using Cons.prems by (intro Cons.prems(1)[of "[]" ps]) (auto simp: put_plugin_def split: outcome.split)
  next
    case False
    then have "List.find P ps = Some p" using Cons.prems(2) by simp
    then obtain pre post where "ps = pre @ p # post" "P p" "with_plugin P f ps h = Some (put_plugin (\<lambda>x. x) pre post (f (p, h)))"
      using Cons.IH by blast
    then show ?thesis using False
      by (intro Cons.prems(1)[of "q # pre" post]) (auto simp: put_plugin_def split: outcome.split)
  qed
qed simp

text \<open>The manager that owns a plugin, with those that were asked before.\<close>

definition owned :: "string \<Rightarrow> component_type \<Rightarrow> ('d, 'f, 'o) manager list \<Rightarrow> ('d, 'f, 'o) manager \<Rightarrow> ('d, 'o) plugin \<Rightarrow> bool" where
  "owned n t lower m p \<longleftrightarrow>
     (\<forall>b \<in> set lower. List.find (serves n t) (mg_Plugins b) = None) \<and> List.find (serves n t) (mg_Plugins m) = Some p"

lemma owned_Get: "owned n t lower m p \<Longrightarrow> mgr_Get n t (lower @ m # upper) = Some p"
  by (induction lower) (auto simp: owned_def)

lemma Get_owned: "mgr_Get n t ms = Some p \<Longrightarrow> \<exists>lower m upper. ms = lower @ m # upper \<and> owned n t lower m p"
proof (induction ms)
  case (Cons m ms)
  show ?case
  proof (cases "List.find (serves n t) (mg_Plugins m)")
    case None
    then obtain lower m' upper where "ms = lower @ m' # upper" "owned n t lower m' p" using Cons by auto
    then show ?thesis using None by (intro exI[of _ "m # lower"] exI[of _ m'] exI[of _ upper]) (simp add: owned_def)
  next
    case (Some q)
    then show ?thesis using Cons.prems by (intro exI[of _ "[]"] exI[of _ m] exI[of _ ms]) (simp add: owned_def)
  qed
qed simp

lemma fetch_none:
  "mgr_Get n t ms = None \<Longrightarrow> fetch env n t c ms h = Fail (ms, h) (OtherError (''failed to locate plugin `'' @ n @ ''`''))"
  by (induction ms arbitrary: c) (auto simp: Let_def with_plugin_None split: option.splits)

lemma fetch_owned:
  assumes "owned n t lower m p"
  obtains pre post where "mg_Plugins m = pre @ p # post" and "serves n t p"
    and "fetch env n t c (lower @ m # upper) h =
       put_plugin (\<lambda>ps. lower @ m\<lparr>mg_Plugins := ps\<rparr> # upper) pre post (instanceOf env t (Configurators (lower @ [m]) @ c) (p, h))"
  using assms
proof (induction lower arbitrary: c thesis)
  case Nil
  have c: "(if length c > 0 then mg_dispense m @ c else mg_dispense m) = Configurators [m] @ c" by simp
  obtain pre post where pp: "mg_Plugins m = pre @ p # post" "serves n t p"
    "with_plugin (serves n t) (instanceOf env t (Configurators [m] @ c)) (mg_Plugins m) h =
       Some (put_plugin (\<lambda>x. x) pre post (instanceOf env t (Configurators [m] @ c) (p, h)))"
    using with_plugin_Some[of "serves n t" "mg_Plugins m" p "instanceOf env t (Configurators [m] @ c)" h] Nil.prems(2)
    by (auto simp: owned_def)
  show ?case
    by (rule Nil.prems(1)[OF pp(1,2)])
      (simp only: append_Nil fetch.simps c Let_def pp(3), simp add: put_plugin_def split: outcome.split)
next
  case (Cons b lower)
  have c: "(if length c > 0 then mg_dispense b @ c else mg_dispense b) = mg_dispense b @ c" by simp
  have none: "with_plugin (serves n t) f (mg_Plugins b) h = None" for f :: "_ \<Rightarrow> (('a, 'c) plugin \<times> ('d, 'c) inst list, goerr, nat) outcome"
    using Cons.prems(2) by (simp add: owned_def with_plugin_None)
  have "owned n t lower m p" using Cons.prems(2) by (simp add: owned_def)
  then obtain pre post where pp: "mg_Plugins m = pre @ p # post" "serves n t p"
    "fetch env n t (mg_dispense b @ c) (lower @ m # upper) h =
       put_plugin (\<lambda>ps. lower @ m\<lparr>mg_Plugins := ps\<rparr> # upper) pre post
         (instanceOf env t (Configurators (lower @ [m]) @ mg_dispense b @ c) (p, h))"
    using Cons.IH by blast
  show ?case
    by (rule Cons.prems(1)[OF pp(1,2)])
      (simp only: append_Cons fetch.simps c Let_def none pp(3), simp add: put_plugin_def split: outcome.split)
qed

text \<open>The instance before its configuration.\<close>

definition fresh_inst :: "('c, 'd, 'f, 'o) plugenv \<Rightarrow> component_type \<Rightarrow> ('d, 'o) plugin \<Rightarrow> 'c \<Rightarrow> nat \<Rightarrow> ('c, 'o) inst" where
  "fresh_inst env t p raw b =
     \<lparr>in_Name = pl_Name p, in_Type = t, in_Component = pg_name env (pl_Name p) (pg_mappers env (pl_Mappers p) raw),
      in_Options = pl_Options p t, in_Mappers = pl_Mappers p, in_Broker = b, in_Parent = None\<rparr>"

definition dispenses :: "('c, 'd, 'f, 'o) plugenv \<Rightarrow> component_type \<Rightarrow> ('d, 'o) plugin \<Rightarrow> 'c \<Rightarrow> nat \<Rightarrow> bool" where
  "dispenses env t p raw b \<longleftrightarrow>
     pg_dispense env (pl_Client p) (pg_lower env (pg_String env t)) = Inr raw \<and> pg_broker env raw = Some b"

definition closing :: "('d, 'o) plugin \<Rightarrow> nat \<Rightarrow> ('d, 'o) plugin" where
  "closing p i = p\<lparr>pl_closers := pl_closers p @ [CloseInstance i]\<rparr>"

lemma instanceOf_cases:
  assumes "HasType p t"
  obtains e where "instanceOf env t cfns (p, h) = Fail (p, h) e"
  | raw b i where "dispenses env t p raw b" and "apply_configurators env cfns (fresh_inst env t p raw b) = (i, None)"
      and "instanceOf env t cfns (p, h) = Ret (closing p (length h), h @ [i]) (length h)"
  | raw b i e where "dispenses env t p raw b" and "apply_configurators env cfns (fresh_inst env t p raw b) = (i, Some e)"
      and "instanceOf env t cfns (p, h) = Fail (closing p (length h), h @ [i]) e"
proof (cases "pg_dispense env (pl_Client p) (pg_lower env (pg_String env t))")
  case (Inl e)
  then show thesis using assms that(1) by (simp add: instanceOf_def)
next
  case (Inr raw)
  show thesis
  proof (cases "pg_broker env raw")
    case None
    then show thesis using assms Inr that(1) by (simp add: instanceOf_def)
  next
    case (Some b)
    then have d: "dispenses env t p raw b" using Inr by (simp add: dispenses_def)
    have io: "instanceOf env t cfns (p, h) = (case apply_configurators env cfns (fresh_inst env t p raw b) of
        (i, None) \<Rightarrow> Ret (closing p (length h), h @ [i]) (length h)
      | (i, Some e) \<Rightarrow> Fail (closing p (length h), h @ [i]) e)"
      using assms Inr Some unfolding closing_def by (simp add: instanceOf_def fresh_inst_def Let_def)
    show thesis
    proof (cases "apply_configurators env cfns (fresh_inst env t p raw b)")
      case (Pair i r)
      then show thesis using that(2)[OF d] that(3)[OF d] io by (cases r) simp_all
    qed
  qed
qed

text \<open>What a search in the managers does: nothing, or one new instance, which its plugin closes.\<close>

definition plugin_closers :: "('d, 'f, 'o) manager list \<Rightarrow> closer set" where
  "plugin_closers ms = (\<Union>m \<in> set ms. \<Union>p \<in> set (mg_Plugins m). set (pl_closers p))"

text \<open>The parts of a manager that a search does not change.\<close>

definition kept_parts :: "('d, 'f, 'o) manager \<Rightarrow> (string \<times> component_type \<rightharpoonup> nat) \<times> closer list \<times> 'f list" where
  "kept_parts m = (mg_instances m, mg_closers m, mg_dispense m)"

definition fetched ::
  "('c, 'd, 'f, 'o) mgr_state \<Rightarrow> ('c, 'd, 'f, 'o) mgr_state \<Rightarrow> ('c, 'o) inst \<Rightarrow> bool" where
  "fetched s s' x \<longleftrightarrow> snd s' = snd s @ [x] \<and> plugin_closers (fst s') = insert (CloseInstance (length (snd s))) (plugin_closers (fst s))
     \<and> map kept_parts (fst s') = map kept_parts (fst s)"

lemma fetched_put:
  assumes "mg_Plugins m = pre @ p # post"
  shows "fetched (lower @ m # upper, h) (lower @ m\<lparr>mg_Plugins := pre @ closing p (length h) # post\<rparr> # upper, h @ [x]) x"
  using assms by (auto simp: fetched_def plugin_closers_def closing_def kept_parts_def)

lemma put_same: "mg_Plugins m = pre @ p # post \<Longrightarrow> m\<lparr>mg_Plugins := pre @ p # post\<rparr> = m"
  by simp

lemma fetch_cases:
  obtains (nothing) e where "fetch env n t c ms h = Fail (ms, h) e"
  | (failed) s' x e where "fetch env n t c ms h = Fail s' e" and "fetched (ms, h) s' x"
  | (got) s' lower m upper p raw b x where "fetch env n t c ms h = Ret s' (length h)" and "fetched (ms, h) s' x"
      and "ms = lower @ m # upper" and "owned n t lower m p" and "dispenses env t p raw b"
      and "apply_configurators env (Configurators (lower @ [m]) @ c) (fresh_inst env t p raw b) = (x, None)"
proof (cases "mgr_Get n t ms")
  case None
  then show thesis using that(1) fetch_none by blast
next
  case (Some p)
  then obtain lower m upper where ms: "ms = lower @ m # upper" and ow: "owned n t lower m p" using Get_owned by blast
  obtain pre post where pp: "mg_Plugins m = pre @ p # post" "serves n t p"
    and f: "fetch env n t c ms h =
       put_plugin (\<lambda>ps. lower @ m\<lparr>mg_Plugins := ps\<rparr> # upper) pre post (instanceOf env t (Configurators (lower @ [m]) @ c) (p, h))"
    using fetch_owned[OF ow, of env c upper h] unfolding ms by blast
  have "HasType p t" using pp(2) by (simp add: serves_def)
  then show thesis
  proof (cases rule: instanceOf_cases[of p t env "Configurators (lower @ [m]) @ c" h])
    case (1 e)
    then show thesis using that(1)[of e] f put_same[OF pp(1)] by (simp add: put_plugin_def ms)
  next
    case (2 raw b i)
    then show thesis using that(3)[OF _ _ ms ow 2(1,2)] f fetched_put[OF pp(1), of lower upper h i] by (simp add: put_plugin_def ms)
  next
    case (3 raw b i e)
    then show thesis using that(2) f fetched_put[OF pp(1), of lower upper h i] by (simp add: put_plugin_def ms)
  qed
qed

section \<open>The invariant\<close>

text \<open>Configuration does not change what an instance is an instance of.\<close>

definition configures_lawfully :: "('c, 'd, 'f, 'o) plugenv \<Rightarrow> bool" where
  "configures_lawfully env \<longleftrightarrow>
     (\<forall>f i. in_Name (fst (pg_configure env f i)) = in_Name i \<and> in_Type (fst (pg_configure env f i)) = in_Type i)"

lemma configured_names:
  assumes "configures_lawfully env" and "apply_configurators env fs i = (j, r)"
  shows "in_Name j = in_Name i" and "in_Type j = in_Type i"
proof -
  have "in_Name j = in_Name i \<and> in_Type j = in_Type i"
    using assms(2)
  proof (induction fs arbitrary: i)
    case (Cons f fs)
    obtain k e where k: "pg_configure env f i = (k, e)" by (cases "pg_configure env f i")
    then have "in_Name k = in_Name i" "in_Type k = in_Type i"
      using assms(1) unfolding configures_lawfully_def by (metis fst_conv)+
    then show ?case using Cons k by (cases e) auto
  qed simp
  then show "in_Name j = in_Name i" "in_Type j = in_Type i" by simp_all
qed

text \<open>Every instance is closed by a plugin; every cached one exists, is what was asked for, may be cached, and is closed
  by the manager that caches it.\<close>

definition cached_ok :: "('c, 'o) inst list \<Rightarrow> (string \<times> component_type \<rightharpoonup> nat) \<times> closer list \<times> 'f list \<Rightarrow> bool" where
  "cached_ok h c \<longleftrightarrow> (\<forall>n t i. fst c (n, t) = Some i \<longrightarrow> i < length h \<and> in_Name (h ! i) = n \<and> in_Type (h ! i) = t
     \<and> isCacheable t \<and> CloseInstance i \<in> set (fst (snd c)))"

definition mgr_inv :: "('c, 'd, 'f, 'o) mgr_state \<Rightarrow> bool" where
  "mgr_inv s \<longleftrightarrow> (\<forall>i < length (snd s). CloseInstance i \<in> plugin_closers (fst s))
     \<and> list_all (cached_ok (snd s)) (map kept_parts (fst s))"

text \<open>Instances keep what they are instances of.\<close>

definition grows :: "('c, 'o) inst list \<Rightarrow> ('c, 'o) inst list \<Rightarrow> bool" where
  "grows h h' \<longleftrightarrow> length h \<le> length h' \<and> (\<forall>i < length h. in_Name (h' ! i) = in_Name (h ! i) \<and> in_Type (h' ! i) = in_Type (h ! i))"

lemma grows_refl: "grows h h" and grows_trans: "grows h h' \<Longrightarrow> grows h' h'' \<Longrightarrow> grows h h''"
  by (auto simp: grows_def)

lemma cached_ok_grows: "grows h h' \<Longrightarrow> cached_ok h c \<Longrightarrow> cached_ok h' c"
proof -
  assume g: "grows h h'" and c: "cached_ok h c"
  have "i < length h' \<and> in_Name (h' ! i) = n \<and> in_Type (h' ! i) = t \<and> isCacheable t \<and> CloseInstance i \<in> set (fst (snd c))"
    if "fst c (n, t) = Some i" for n t i
    using c[unfolded cached_ok_def, THEN spec, THEN spec, THEN spec, THEN mp, OF that] g[unfolded grows_def] by simp
  then show ?thesis unfolding cached_ok_def by blast
qed

lemma list_all_cached_grows: "grows h h' \<Longrightarrow> list_all (cached_ok h) cs \<Longrightarrow> list_all (cached_ok h') cs"
  by (auto simp: list_all_iff intro: cached_ok_grows)

lemma fetched_inv:
  assumes "mgr_inv s" and "fetched s s' x"
  shows "mgr_inv s'" and "grows (snd s) (snd s')"
proof -
  have "snd s' = snd s @ [x]" using assms(2) by (simp add: fetched_def)
  then show g: "grows (snd s) (snd s')" unfolding grows_def by (simp add: nth_append)
  have "i < length (snd s') \<Longrightarrow> CloseInstance i \<in> plugin_closers (fst s')" for i
    using assms by (auto simp: mgr_inv_def fetched_def less_Suc_eq)
  moreover have "list_all (cached_ok (snd s')) (map kept_parts (fst s'))"
    using assms list_all_cached_grows[OF g] unfolding mgr_inv_def fetched_def by metis
  ultimately show "mgr_inv s'" unfolding mgr_inv_def by blast
qed

lemma mgr_inv_Cons:
  "mgr_inv (m # ms, h) \<longleftrightarrow> (\<forall>i < length h. CloseInstance i \<in> plugin_closers (m # ms)) \<and> cached_ok h (kept_parts m)
     \<and> list_all (cached_ok h) (map kept_parts ms)"
  by (simp add: mgr_inv_def)

lemma cache_inv:
  assumes "mgr_inv (m # ms, h)" and "i < length h" and "in_Name (h ! i) = n" and "in_Type (h ! i) = t"
  shows "mgr_inv ((if isCacheable t then m\<lparr>mg_instances := (mg_instances m)((n, t) \<mapsto> i)\<rparr> else m)
                    \<lparr>mg_closers := mg_closers m @ [CloseInstance i]\<rparr> # ms, h)" (is "mgr_inv (?m # ms, h)")
proof -
  have "plugin_closers (?m # ms) = plugin_closers (m # ms)" by (simp add: plugin_closers_def)
  moreover have "cached_ok h (kept_parts ?m)"
    using assms unfolding mgr_inv_Cons by (auto simp: cached_ok_def kept_parts_def split: if_splits)
  ultimately show ?thesis using assms(1) unfolding mgr_inv_Cons by simp
qed

lemma update_inv:
  assumes "mgr_inv (ms, h)" and "in_Name x = in_Name (h ! i)" and "in_Type x = in_Type (h ! i)"
  shows "mgr_inv (ms, h[i := x])" and "grows h (h[i := x])"
proof -
  show g: "grows h (h[i := x])" using assms by (cases "i < length h") (auto simp: grows_def nth_list_update list_update_beyond)
  show "mgr_inv (ms, h[i := x])" using assms(1) list_all_cached_grows[OF g] unfolding mgr_inv_def fst_conv snd_conv length_list_update by blast
qed

definition found :: "string \<Rightarrow> component_type \<Rightarrow> ('c, 'o) inst list \<Rightarrow> nat \<Rightarrow> bool" where
  "found n t h i \<longleftrightarrow> i < length h \<and> in_Name (h ! i) = n \<and> in_Type (h ! i) = t"

lemma found_grows: "found n t h i \<Longrightarrow> grows h h' \<Longrightarrow> found n t h' i"
  by (auto simp: found_def grows_def)

lemma find_inv:
  assumes cl: "configures_lawfully env"
  shows "mgr_inv s \<Longrightarrow> keeps (\<lambda>s'. mgr_inv s' \<and> grows (snd s) (snd s')) (mgr_find env k n t s)
       \<and> (\<forall>s' i. mgr_find env k n t s = Ret s' i \<longrightarrow> found n t (snd s') i)"
    and "mgr_inv s \<Longrightarrow> i < length (snd s) \<Longrightarrow> keeps (\<lambda>s'. mgr_inv s' \<and> grows (snd s) (snd s')) (loadParent env k i s)"
  using cl
proof (induction env k n t s and env k i s rule: mgr_find_loadParent.induct)
  case (3 env k n t m ms h)
  show ?case
  proof (cases "mg_instances m (n, t)")
    case (Some i)
    then have "found n t h i"
      using 3(2) unfolding mgr_inv_Cons by (auto simp: cached_ok_def kept_parts_def found_def)
    then show ?thesis using Some 3(2) by (simp add: grows_refl)
  next
    case None
    show ?thesis
    proof (cases rule: fetch_cases[of env n t "[]" "m # ms" h])
      case (nothing e)
      then show ?thesis using None 3(2) by (simp add: grows_refl)
    next
      case (failed s' x e)
      then show ?thesis using None fetched_inv[OF 3(2) failed(2)] by simp
    next
      case (got s' lower m' upper p raw b x)
      note f = fetched_inv[OF 3(2) got(2)]
      have x: "in_Name x = n" "in_Type x = t"
        using configured_names[OF 3(3) got(6)] got(4) by (auto simp: fresh_inst_def owned_def find_Some_iff serves_def)
      have snd: "snd s' = h @ [x]" using got(2) by (simp add: fetched_def)
      then have fd: "found n t (snd s') (length h)" using x by (simp add: found_def)
      have lp: "keeps (\<lambda>s2. mgr_inv s2 \<and> grows (snd s') (snd s2)) (loadParent env k (length h) s')"
        using 3(1)[OF None f(1) _ 3(3), of "length h"] snd by simp
      show ?thesis
      proof (cases "loadParent env k (length h) s'")
        case (Ret s2 u)
        then have s2: "mgr_inv s2" "grows h (snd s2)" "found n t (snd s2) (length h)"
          using lp f(2) found_grows[OF fd] by (auto intro: grows_trans)
        obtain ms2 h2 where s2p: "s2 = (ms2, h2)" by (cases s2)
        show ?thesis
        proof (cases ms2)
          case Nil
          then show ?thesis using Ret None got(1) s2 s2p by simp
        next
          case (Cons m2 ms2')
          then show ?thesis
            using Ret None got(1) s2 s2p cache_inv[of m2 ms2' h2 "length h" n t] by (simp add: found_def)
        qed
      next
        case (Fail s2 e)
        then show ?thesis using None got(1) lp f(2) by (auto intro: grows_trans)
      next
        case (Crash e)
        then show ?thesis using None got(1) by simp
      qed
    qed
  qed
next
  case (4 env k i ms h)
  show ?case
  proof (cases "\<exists>p k'. pg_parent env (in_Component (h ! i)) = Some (Inr p) \<and> p \<noteq> [] \<and> k = Suc k'")
    case True
    then obtain p k' where p: "pg_parent env (in_Component (h ! i)) = Some (Inr p)" "p \<noteq> []" "k = Suc k'" by blast
    have ih: "keeps (\<lambda>s'. mgr_inv s' \<and> grows h (snd s')) (mgr_find env k' p (in_Type (h ! i)) (ms, h))"
      using 4(1)[OF p(1) _ p(2,3)] 4(2,4) by simp
    show ?thesis
    proof (cases "mgr_find env k' p (in_Type (h ! i)) (ms, h)")
      case (Ret s2 j)
      obtain ms2 h2 where s2: "s2 = (ms2, h2)" by (cases s2)
      let ?x = "(h2 ! i)\<lparr>in_Parent := Some j, in_Component := pg_setParent env j (in_Component (h2 ! i))\<rparr>"
      have "mgr_inv (ms2, h2)" "grows h h2" using ih Ret s2 by simp_all
      then show ?thesis using p Ret s2 update_inv[of ms2 h2 ?x i] by (auto intro: grows_trans)
    qed (use p ih in simp_all)
  next
    case False
    then show ?thesis using 4(2) by (auto simp: grows_refl split: option.split sum.split nat.split)
  qed
qed (simp_all)

section \<open>The other operations\<close>

lemma head_inv:
  assumes "mgr_inv (m # ms, h)" and "mg_instances m' = mg_instances m" and "set (mg_closers m) \<subseteq> set (mg_closers m')"
    and "plugin_closers [m] \<subseteq> plugin_closers [m']"
  shows "mgr_inv (m' # ms, h)"
proof -
  have "plugin_closers (m # ms) \<subseteq> plugin_closers (m' # ms)" using assms(4) by (auto simp: plugin_closers_def)
  moreover have "cached_ok h (kept_parts m')" if "cached_ok h (kept_parts m)"
    using that assms(2,3) unfolding cached_ok_def kept_parts_def by auto
  ultimately show ?thesis using assms(1) unfolding mgr_inv_Cons by blast
qed

text \<open>Registration adds plugins and nothing else.\<close>

definition more_plugins :: "('d, 'f, 'o) manager \<Rightarrow> ('d, 'f, 'o) manager \<Rightarrow> bool" where
  "more_plugins m m' \<longleftrightarrow> mg_instances m' = mg_instances m \<and> mg_closers m' = mg_closers m \<and> mg_dispense m' = mg_dispense m
     \<and> (\<exists>ps. mg_Plugins m' = mg_Plugins m @ ps) \<and> (\<exists>ds. mg_discovered m' = mg_discovered m @ ds)"

lemma more_plugins_refl: "more_plugins m m" and more_plugins_trans: "more_plugins m m1 \<Longrightarrow> more_plugins m1 m2 \<Longrightarrow> more_plugins m m2"
  by (auto simp: more_plugins_def)

interpretation adding: step_relation more_plugins
  by unfold_locales (rule more_plugins_refl, rule more_plugins_trans)

lemma more_plugins_inv: "mgr_inv (m # ms, h) \<Longrightarrow> more_plugins m m' \<Longrightarrow> mgr_inv (m' # ms, h)"
  by (erule head_inv) (auto simp: more_plugins_def plugin_closers_def)

lemma register_adds: "keeps (more_plugins m) (register env r m)"
  by (auto simp: register_def more_plugins_refl more_plugins_def split: sum.split option.split)

lemma discover_files_adds: "keeps (more_plugins m) (discover_files env dir fs m)"
  by (induction env dir fs m rule: discover_files.induct) (auto intro: more_plugins_refl adding.keeps_bind register_adds)

lemma more_discovered: "more_plugins m (m\<lparr>mg_discovered := mg_discovered m @ [dir]\<rparr>)"
  by (simp add: more_plugins_def)

lemma Discover_adds: "keeps (more_plugins m) (Discover env dirs m)"
proof (induction env dirs m rule: Discover.induct)
  case (2 env dir dirs m)
  have "keeps (more_plugins m) (bind_o (discover_files env dir fs m)
      (\<lambda>m _. Discover env dirs (m\<lparr>mg_discovered := mg_discovered m @ [dir]\<rparr>)))"
    if "dir \<notin> set (mg_discovered m)" "pg_readdir env dir = Inr fs" for fs
  proof (rule adding.keeps_bind[OF discover_files_adds])
    fix m1 u
    have "keeps (more_plugins (m1\<lparr>mg_discovered := mg_discovered m1 @ [dir]\<rparr>))
       (Discover env dirs (m1\<lparr>mg_discovered := mg_discovered m1 @ [dir]\<rparr>))"
      using 2[OF that] by blast
    then show "keeps (more_plugins m1) (Discover env dirs (m1\<lparr>mg_discovered := mg_discovered m1 @ [dir]\<rparr>))"
      by (rule adding.keeps_after[OF more_discovered])
  qed
  then show ?case by (auto simp: more_plugins_refl split: sum.split)
qed (simp add: more_plugins_refl)

section \<open>Requests\<close>

datatype ('d, 'f, 'o) mgr_request =
    ReqFind string component_type
  | ReqGetPlugin string string
  | ReqRegister "goerr + ('d, 'o) plugin"
  | ReqDiscover "string list"
  | ReqConfigure 'f
  | ReqInitializer 'f
  | ReqSub string

definition on_head ::
  "(('d, 'f, 'o) manager \<Rightarrow> ('d, 'f, 'o) manager) \<Rightarrow> ('c, 'd, 'f, 'o) mgr_state \<Rightarrow> ('c, 'd, 'f, 'o) mgr_state" where
  "on_head f s = (case fst s of [] \<Rightarrow> s | m # ms \<Rightarrow> (f m # ms, snd s))"

definition mgr_request :: "('c, 'd, 'f, 'o) plugenv \<Rightarrow> nat \<Rightarrow> ('d, 'f, 'o) mgr_request \<Rightarrow> ('c, 'd, 'f, 'o) mgr_state \<Rightarrow> ('c, 'd, 'f, 'o) mgr_state" where
  "mgr_request env k q s =
     (case q of
        ReqFind n t \<Rightarrow> left_by (mgr_find env k n t s) s
      | ReqGetPlugin n typ \<Rightarrow> left_by (GetPlugin env k n typ s) s
      | ReqRegister r \<Rightarrow> on_head (\<lambda>m. left_by (register env r m) m) s
      | ReqDiscover ds \<Rightarrow> on_head (\<lambda>m. left_by (Discover env ds m) m) s
      | ReqConfigure f \<Rightarrow> on_head (mgr_Configure f) s
      | ReqInitializer f \<Rightarrow> on_head (Initializer f) s
      | ReqSub n \<Rightarrow> (Sub n (fst s), snd s))"

lemma on_head_inv:
  assumes "mgr_inv s" and "\<And>m ms. mgr_inv (m # ms, snd s) \<Longrightarrow> mgr_inv (f m # ms, snd s)"
  shows "mgr_inv (on_head f s)"
proof (cases "fst s")
  case (Cons m ms)
  then have "mgr_inv (m # ms, snd s)" using assms(1) by (metis prod.collapse)
  then show ?thesis using assms(2) Cons by (simp add: on_head_def)
qed (use assms(1) in \<open>simp add: on_head_def\<close>)

lemma find_keeps: "configures_lawfully env \<Longrightarrow> mgr_inv s \<Longrightarrow> keeps mgr_inv (mgr_find env k n t s)"
  by (rule keeps_mono[OF conjunct1[OF find_inv(1)]]) simp_all

lemma GetPlugin_keeps:
  assumes "configures_lawfully env" and "mgr_inv s"
  shows "keeps mgr_inv (GetPlugin env k n typ s)"
proof (cases "pg_FindType env typ")
  case (Inr t)
  show ?thesis
  proof (cases "mgr_find env k n t s")
    case (Ret s' i)
    then have "mgr_inv s'" using find_keeps[OF assms] by (metis keeps.simps(1))
    then show ?thesis using Inr Ret assms(2)
      by (cases s') (auto simp: GetPlugin_def Let_def split: option.split list.split elim!: head_inv simp: plugin_closers_def)
  next
    case (Fail s' e)
    then have "mgr_inv s'" using find_keeps[OF assms] by (metis keeps.simps(2))
    then show ?thesis using Inr Fail assms(2) by (simp add: GetPlugin_def Let_def split: option.split)
  qed (use Inr assms(2) in \<open>simp add: GetPlugin_def Let_def split: option.split\<close>)
qed (use assms in \<open>simp add: GetPlugin_def\<close>)

lemma Sub_inv: "mgr_inv (ms, h) \<Longrightarrow> mgr_inv (Sub n ms, h)"
  by (cases ms) (auto simp: mgr_inv_def Let_def plugin_closers_def cached_ok_def kept_parts_def NewManager_def list_all_iff)

lemma Configure_inv: "mgr_inv (m # ms, h) \<Longrightarrow> mgr_inv (mgr_Configure f m # ms, h)"
  and Initializer_inv: "mgr_inv (m # ms, h) \<Longrightarrow> mgr_inv (Initializer f m # ms, h)"
  by (erule head_inv, simp_all add: mgr_Configure_def Initializer_def plugin_closers_def)+

lemma register_inv: "mgr_inv (m # ms, h) \<Longrightarrow> mgr_inv (left_by (register env r m) m # ms, h)"
  by (erule more_plugins_inv, rule keeps_left_by[OF register_adds more_plugins_refl])

lemma Discover_inv: "mgr_inv (m # ms, h) \<Longrightarrow> mgr_inv (left_by (Discover env ds m) m # ms, h)"
  by (erule more_plugins_inv, rule keeps_left_by[OF Discover_adds more_plugins_refl])

lemma request_inv:
  assumes cl: "configures_lawfully env" and inv: "mgr_inv s"
  shows "mgr_inv (mgr_request env k q s)"
proof (cases q)
  case (ReqFind n t)
  show ?thesis using keeps_left_by[OF find_keeps[OF cl inv] inv] by (simp add: ReqFind mgr_request_def)
next
  case (ReqGetPlugin n tn)
  show ?thesis using keeps_left_by[OF GetPlugin_keeps[OF cl inv] inv] by (simp add: ReqGetPlugin mgr_request_def)
next
  case (ReqSub n)
  show ?thesis using Sub_inv[of "fst s" "snd s" n] inv by (simp add: ReqSub mgr_request_def)
qed (simp_all add: mgr_request_def on_head_inv[OF inv] register_inv Discover_inv Configure_inv Initializer_inv)

interpretation requests: machine "mgr_request env k" "\<lambda>s. configures_lawfully env \<and> mgr_inv s" for env k
  by unfold_locales (simp add: request_inv)

section \<open>The instance that a search makes\<close>

text \<open>The configured instance, without a heap.\<close>

definition made :: "('c, 'd, 'f, 'o) plugenv \<Rightarrow> component_type \<Rightarrow> 'f list \<Rightarrow> ('d, 'o) plugin \<Rightarrow> ('c, 'o) inst option" where
  "made env t cfns p =
     (case pg_dispense env (pl_Client p) (pg_lower env (pg_String env t)) of
        Inl _ \<Rightarrow> None
      | Inr raw \<Rightarrow>
          (case pg_broker env raw of
             None \<Rightarrow> None
           | Some b \<Rightarrow> (case apply_configurators env cfns (fresh_inst env t p raw b) of (x, None) \<Rightarrow> Some x | (_, Some _) \<Rightarrow> None)))"

fun preview :: "('c, 'd, 'f, 'o) plugenv \<Rightarrow> string \<Rightarrow> component_type \<Rightarrow> 'f list \<Rightarrow> ('d, 'f, 'o) manager list \<Rightarrow> ('c, 'o) inst option" where
  "preview env n t c [] = None"
| "preview env n t c (m # ms) =
     (case List.find (serves n t) (mg_Plugins m) of
        Some p \<Rightarrow> made env t (mg_dispense m @ c) p
      | None \<Rightarrow> preview env n t (mg_dispense m @ c) ms)"

lemma preview_owned: "owned n t lower m p \<Longrightarrow> preview env n t c (lower @ m # upper) = made env t (Configurators (lower @ [m]) @ c) p"
  by (induction lower arbitrary: c) (auto simp: owned_def)

text \<open>What a preview depends on.\<close>

definition bare :: "('d, 'o) plugin \<Rightarrow> ('d, 'o) plugin" where
  "bare p = p\<lparr>pl_closers := []\<rparr>"

definition shape :: "('d, 'f, 'o) manager \<Rightarrow> ('d, 'o) plugin list \<times> 'f list" where
  "shape m = (map bare (mg_Plugins m), mg_dispense m)"

lemma fresh_bare [simp]: "fresh_inst env t (bare p) raw b = fresh_inst env t p raw b" "pl_Client (bare p) = pl_Client p"
  by (simp_all add: bare_def fresh_inst_def)

lemma made_bare [simp]: "made env t c (bare p) = made env t c p"
  unfolding made_def by (simp cong: sum.case_cong option.case_cong)

lemma bare_simps [simp]:
  "made env t c (bare p) = made env t c p" "serves n t (bare p) = serves n t p" "bare (closing p i) = bare p"
  by (simp_all add: serves_def HasType_def closing_def) (simp_all add: bare_def)

lemma find_bare: "map_option bare (List.find (serves n t) ps) = List.find (serves n t) (map bare ps)"
  by (induction ps) auto

lemma preview_shape: "map shape ms = map shape ms' \<Longrightarrow> preview env n t c ms = preview env n t c ms'"
proof (induction ms arbitrary: ms' c)
  case (Cons m ms)
  then obtain m' ms1 where ms': "ms' = m' # ms1" "shape m = shape m'" "map shape ms = map shape ms1" by auto
  have "map_option bare (List.find (serves n t) (mg_Plugins m)) = map_option bare (List.find (serves n t) (mg_Plugins m'))"
    using ms'(2) by (simp add: find_bare shape_def)
  then have same: "(case List.find (serves n t) (mg_Plugins m) of Some p \<Rightarrow> made env t c p | None \<Rightarrow> z) =
      (case List.find (serves n t) (mg_Plugins m') of Some p \<Rightarrow> made env t c p | None \<Rightarrow> z)" for c z
    by (auto split: option.split) (metis bare_simps(1))
  have d: "mg_dispense m = mg_dispense m'" using ms'(2) by (simp add: shape_def)
  show ?case unfolding ms'(1) preview.simps d Cons.IH[OF ms'(3)] by (rule same)
qed simp

lemma fetch_preview:
  assumes "preview env n t c ms = Some x"
  obtains s' where "fetch env n t c ms h = Ret s' (length h)" and "fetched (ms, h) s' x" and "map shape (fst s') = map shape ms"
proof -
  have "mgr_Get n t ms \<noteq> None"
  proof
    assume "mgr_Get n t ms = None"
    then have "preview env n t c ms = None" by (induction ms arbitrary: c) (auto split: option.splits)
    with assms show False by simp
  qed
  then obtain p lower m upper where ms: "ms = lower @ m # upper" and ow: "owned n t lower m p" using Get_owned by blast
  obtain pre post where pp: "mg_Plugins m = pre @ p # post" "serves n t p"
    and f: "fetch env n t c ms h =
       put_plugin (\<lambda>ps. lower @ m\<lparr>mg_Plugins := ps\<rparr> # upper) pre post (instanceOf env t (Configurators (lower @ [m]) @ c) (p, h))"
    using fetch_owned[OF ow, of env c upper h] unfolding ms by blast
  have mk: "made env t (Configurators (lower @ [m]) @ c) p = Some x" using assms preview_owned[OF ow] by (metis ms)
  have "HasType p t" using pp(2) by (simp add: serves_def)
  then show thesis
  proof (cases rule: instanceOf_cases[of p t env "Configurators (lower @ [m]) @ c" h])
    case (2 raw b i)
    then have "i = x" using mk by (simp add: made_def dispenses_def)
    then show thesis using that 2 f fetched_put[OF pp(1), of lower upper h i] pp(1) by (simp add: put_plugin_def ms shape_def)
  next
    case (1 e)
    have "instanceOf env t (Configurators (lower @ [m]) @ c) (p, h) \<noteq> Fail (p, h) e"
      using mk \<open>HasType p t\<close> by (auto simp: instanceOf_def made_def fresh_inst_def Let_def split: sum.splits option.splits prod.splits)
    then show thesis using 1 by simp
  next
    case (3 raw b i e)
    then show thesis using mk by (simp add: made_def dispenses_def)
  qed
qed

section \<open>Parents\<close>

text \<open>The names of a component and its parents, when there are at most \<open>d\<close>.\<close>

fun parent_chain :: "('c, 'd, 'f, 'o) plugenv \<Rightarrow> component_type \<Rightarrow> ('d, 'f, 'o) manager list \<Rightarrow> nat \<Rightarrow> string \<Rightarrow> string list option" where
  "parent_chain env t ms 0 n = None"
| "parent_chain env t ms (Suc d) n =
     (case preview env n t [] ms of
        None \<Rightarrow> None
      | Some x \<Rightarrow>
          (case pg_parent env (in_Component x) of
             None \<Rightarrow> Some [n]
           | Some (Inl e) \<Rightarrow> None
           | Some (Inr q) \<Rightarrow> if q = [] then Some [n] else map_option (Cons n) (parent_chain env t ms d q)))"

lemma parent_chain_shape: "map shape ms = map shape ms' \<Longrightarrow> parent_chain env t ms d n = parent_chain env t ms' d n"
proof (induction d arbitrary: n)
  case (Suc d)
  show ?case unfolding parent_chain.simps preview_shape[OF Suc.prems] Suc.IH[OF Suc.prems] ..
qed simp

text \<open>None of the names is cached.\<close>

definition uncached :: "component_type \<Rightarrow> ('d, 'f, 'o) manager list \<Rightarrow> bool" where
  "uncached t ms \<longleftrightarrow> ms \<noteq> [] \<and> (\<forall>n. mg_instances (hd ms) (n, t) = None)"

lemma uncached_kept: "map kept_parts ms = map kept_parts ms' \<Longrightarrow> uncached t ms = uncached t ms'"
  by (cases ms; cases ms') (auto simp: uncached_def kept_parts_def)

text \<open>A cycle: every name of the set makes a component whose parent is one of them.\<close>

definition parent_cycle :: "('c, 'd, 'f, 'o) plugenv \<Rightarrow> component_type \<Rightarrow> ('d, 'f, 'o) manager list \<Rightarrow> string set \<Rightarrow> bool" where
  "parent_cycle env t ms N \<longleftrightarrow> (\<forall>n \<in> N. \<exists>x q. preview env n t [] ms = Some x \<and> pg_parent env (in_Component x) = Some (Inr q)
     \<and> q \<in> N \<and> q \<noteq> [])"

lemma preview_type:
  assumes "configures_lawfully env" and "preview env n t c ms = Some x"
  shows "in_Type x = t \<and> in_Name x = n"
  using assms(2)
proof (induction ms arbitrary: c)
  case (Cons m ms)
  show ?case
  proof (cases "List.find (serves n t) (mg_Plugins m)")
    case None
    then show ?thesis using Cons by simp
  next
    case (Some p)
    then have "made env t (mg_dispense m @ c) p = Some x" using Cons.prems by simp
    then obtain raw b where "apply_configurators env (mg_dispense m @ c) (fresh_inst env t p raw b) = (x, None)"
      unfolding made_def by (auto split: sum.splits option.splits prod.splits)
    moreover have "pl_Name p = n" using Some by (auto simp: find_Some_iff serves_def)
    ultimately show ?thesis using configured_names[OF assms(1)] by (simp add: fresh_inst_def)
  qed
qed simp

lemma cycle_crashes:
  assumes cl: "configures_lawfully env"
  shows "parent_cycle env t ms N \<Longrightarrow> uncached t ms \<Longrightarrow> n \<in> N \<Longrightarrow> \<exists>x. mgr_find env k n t (ms, h) = Crash x"
proof (induction k arbitrary: n ms h rule: less_induct)
  case (less k)
  show ?case
  proof (cases k)
    case (Suc k1)
    obtain m ms0 where ms: "ms = m # ms0" "mg_instances m (n, t) = None"
      using less.prems(2) by (cases ms) (auto simp: uncached_def)
    obtain x q where x: "preview env n t [] ms = Some x" "pg_parent env (in_Component x) = Some (Inr q)" "q \<in> N" "q \<noteq> []"
      using less.prems(1,3) unfolding parent_cycle_def by blast
    obtain s' where s': "fetch env n t [] ms h = Ret s' (length h)" "fetched (ms, h) s' x" "map shape (fst s') = map shape ms"
      using fetch_preview[OF x(1)] .
    obtain ms1 h1 where s1: "s' = (ms1, h1)" "h1 ! length h = x" using s'(2) by (cases s') (auto simp: fetched_def)
    have lp: "\<exists>y. loadParent env k1 (length h) s' = Crash y"
    proof (cases k1)
      case 0
      then show ?thesis using s1 x by simp
    next
      case (Suc k2)
      have "parent_cycle env t ms1 N"
        using less.prems(1) preview_shape[OF s'(3)] unfolding parent_cycle_def s1 fst_conv by metis
      moreover have "uncached t ms1" using less.prems(2) s'(2) s1 uncached_kept[of ms1 ms t] by (simp add: fetched_def)
      ultimately obtain y where "mgr_find env k2 q t (ms1, h1) = Crash y"
        using less.IH[of k2 ms1 q h1] \<open>k = Suc k1\<close> Suc x(3) by auto
      then show ?thesis using Suc s1 x preview_type[OF cl x(1)] by simp
    qed
    then show ?thesis using Suc ms s'(1) by auto
  qed simp
qed

definition remember :: "string \<Rightarrow> component_type \<Rightarrow> nat \<Rightarrow> ('c, 'd, 'f, 'o) mgr_state \<Rightarrow> ('c, 'd, 'f, 'o, nat) mgr_result" where
  "remember n t i s =
     (case s of
        ([], h) \<Rightarrow> Ret ([], h) i
      | (m # ms, h) \<Rightarrow>
          Ret ((if isCacheable t then m\<lparr>mg_instances := (mg_instances m)((n, t) \<mapsto> i)\<rparr> else m)
                 \<lparr>mg_closers := mg_closers m @ [CloseInstance i]\<rparr> # ms, h) i)"

lemma remember_Ret: "\<exists>s'. remember n t i s = Ret s' i \<and> map shape (fst s') = map shape (fst s) \<and> snd s' = snd s"
  by (cases s; cases "fst s") (simp_all add: remember_def shape_def)

lemma find_uncached:
  "mg_instances m (n, t) = None \<Longrightarrow> mgr_find env (Suc k) n t (m # ms, h) =
     bind_o (fetch env n t [] (m # ms) h) (\<lambda>s i. bind_o (loadParent env k i s) (\<lambda>s _. remember n t i s))"
  unfolding remember_def by simp

text \<open>A chain that ends is loaded, in one new instance for each name.\<close>

lemma chain_found:
  assumes cl: "configures_lawfully env"
  shows "parent_chain env t ms d n = Some c \<Longrightarrow> uncached t ms \<Longrightarrow> 2 * d \<le> k \<Longrightarrow>
    \<exists>s'. mgr_find env k n t (ms, h) = Ret s' (length h) \<and> map shape (fst s') = map shape ms \<and> length h < length (snd s')
      \<and> take (length h) (snd s') = h
      \<and> (\<forall>h2. (\<forall>j. length h \<le> j \<and> j < length (snd s') \<longrightarrow> h2 ! j = snd s' ! j) \<longrightarrow> Parents h2 (length c) (Some (length h)) = c)"
proof (induction d arbitrary: n ms h k c)
  case (Suc d)
  obtain k2 where k: "k = Suc (Suc k2)" "2 * d \<le> k2" using Suc.prems(3) by (cases k; cases "k - 1") auto
  obtain x where x: "preview env n t [] ms = Some x" using Suc.prems(1) by (auto split: option.splits)
  have nt: "in_Type x = t" "in_Name x = n" using preview_type[OF cl x] by simp_all
  obtain m ms0 where ms: "ms = m # ms0" "mg_instances m (n, t) = None"
    using Suc.prems(2) by (cases ms) (auto simp: uncached_def)
  obtain s1 where f: "fetch env n t [] ms h = Ret s1 (length h)" "fetched (ms, h) s1 x" "map shape (fst s1) = map shape ms"
    using fetch_preview[OF x] .
  obtain m1 ms1 h1 where s1: "s1 = (m1 # ms1, h1)" "h1 = h @ [x]"
    using f(2) ms by (cases s1; cases "fst s1") (auto simp: fetched_def)
  have un: "uncached t (m1 # ms1)"
    using Suc.prems(2) uncached_kept[of "m1 # ms1" ms t] f(2) s1 by (simp add: fetched_def)
  have find: "mgr_find env k n t (ms, h) = bind_o (loadParent env (Suc k2) (length h) (m1 # ms1, h1)) (\<lambda>s _. remember n t (length h) s)"
    unfolding k ms(1) find_uncached[OF ms(2)] using f(1) unfolding ms(1) s1(1) by simp
  have x_at: "h1 ! length h = x" using s1 by simp
  show ?case
  proof (cases "\<exists>q. pg_parent env (in_Component x) = Some (Inr q) \<and> q \<noteq> []")
    case False
    then have lp: "loadParent env (Suc k2) (length h) (m1 # ms1, h1) = Ret (m1 # ms1, h1) ()" and c: "c = [n]"
      using Suc.prems(1) x x_at by (auto split: option.splits sum.splits if_splits)
    obtain s2 where s2: "remember n t (length h) (m1 # ms1, h1) = Ret s2 (length h)" "map shape (fst s2) = map shape (m1 # ms1)" "snd s2 = h1"
      using remember_Ret[of n t "length h" "(m1 # ms1, h1)"] by auto
    have "Parents h2 (length c) (Some (length h)) = c" if "\<forall>j. length h \<le> j \<and> j < length (snd s2) \<longrightarrow> h2 ! j = snd s2 ! j" for h2
    proof -
      have "h2 ! length h = x" using that s2(3) s1(2) x_at by simp
      then show ?thesis using nt c by simp
    qed
    then show ?thesis using find lp s2 f(3) s1 by (intro exI[of _ s2]) simp
  next
    case True
    then obtain q c1 where q: "pg_parent env (in_Component x) = Some (Inr q)" "q \<noteq> []"
      and c1: "parent_chain env t ms d q = Some c1" "c = n # c1"
      using Suc.prems(1) x by auto
    have "map shape (m1 # ms1) = map shape ms" using f(3) s1(1) by simp
    then have "parent_chain env t (m1 # ms1) d q = parent_chain env t ms d q" by (rule parent_chain_shape)
    then have "parent_chain env t (m1 # ms1) d q = Some c1" using c1(1) by (rule trans)
    from Suc.IH[OF this un k(2), of h1] obtain ms3 h3 where
      s3: "mgr_find env k2 q t (m1 # ms1, h1) = Ret (ms3, h3) (length h1)" "map shape ms3 = map shape (m1 # ms1)" "length h1 < length h3"
        "take (length h1) h3 = h1"
        "\<And>h2. \<forall>j. length h1 \<le> j \<and> j < length h3 \<longrightarrow> h2 ! j = h3 ! j \<Longrightarrow> Parents h2 (length c1) (Some (length h1)) = c1"
      by auto
    have len: "length h1 = Suc (length h)" using s1 by simp
    have h3: "h3 ! length h = x" using s3(3,4) x_at len by (metis lessI nth_take)
    define y where "y = x\<lparr>in_Parent := Some (length h1), in_Component := pg_setParent env (length h1) (in_Component x)\<rparr>"
    have lp: "loadParent env (Suc k2) (length h) (m1 # ms1, h1) = Ret (ms3, h3[length h := y]) ()"
      using q s3(1) x_at nt h3 by (simp add: y_def)
    obtain s4 where s4: "remember n t (length h) (ms3, h3[length h := y]) = Ret s4 (length h)" "map shape (fst s4) = map shape ms3"
      "snd s4 = h3[length h := y]"
      using remember_Ret[of n t "length h" "(ms3, h3[length h := y])"] by auto
    have "Parents h2 (length c) (Some (length h)) = c" if same: "\<forall>j. length h \<le> j \<and> j < length (snd s4) \<longrightarrow> h2 ! j = snd s4 ! j" for h2
    proof -
      have "h2 ! length h = y" using same s4(3) s3(3) len by simp
      moreover have "Parents h2 (length c1) (Some (length h1)) = c1"
        using same s4(3) len by (intro s3(5)) auto
      ultimately show ?thesis using c1(2) nt by (simp add: y_def)
    qed
    moreover have "take (length h) (snd s4) = h"
      using s3(4) s1(2) s4(3) len by (metis append_eq_conv_conj butlast_snoc butlast_take diff_Suc_1 less_imp_le_nat order_refl s3(3) take_update_cancel)
    ultimately show ?thesis using find lp s4 s3 f(3) s1 len by (intro exI[of _ s4]) simp
  qed
qed simp

section \<open>Discovery and factories\<close>

lemma discover_files_discovered: "discover_files env dir fs m = Ret m1 u \<Longrightarrow> set (mg_discovered m) \<subseteq> set (mg_discovered m1)"
  using discover_files_adds[of m env dir fs] by (auto simp: more_plugins_def)

text \<open>A plugin in this process is never made.\<close>

lemma in_process_factory_fails: "InProcessFactory name views connect \<noteq> Ret () p"
  by (auto simp: InProcessFactory_def split: sum.splits option.splits)

lemma failed_launch_is_killed: "fst (Factory pr) \<longleftrightarrow> isl (snd (Factory pr))"
  by (auto simp: Factory_def split: sum.splits option.splits)

section \<open>An example\<close>

text \<open>A component is the list of the configurators that it saw and the name of its parent; a client is that name.\<close>

definition ex_plug :: "(string list \<times> string, string, string, unit) plugenv" where
  "ex_plug =
     \<lparr>pg_String = (\<lambda>t. case t of OtherType s \<Rightarrow> s | _ \<Rightarrow> ''Host''), pg_FindType = (\<lambda>s. Inr HostType), pg_lower = (\<lambda>s. s),
      pg_dispense = (\<lambda>d s. Inr ([], d)), pg_broker = (\<lambda>_. Some 1), pg_mappers = (\<lambda>_ c. c), pg_name = (\<lambda>_ c. c),
      pg_parent = (\<lambda>c. Some (Inr (snd c))), pg_setParent = (\<lambda>_ c. c),
      pg_configure = (\<lambda>f i. (i\<lparr>in_Component := (fst (in_Component i) @ [f], snd (in_Component i))\<rparr>, None)),
      pg_initialize = (\<lambda>_ _. None), pg_metadata = ''name'', pg_readdir = (\<lambda>d. Inr []), pg_join = (@),
      pg_launch = (\<lambda>_. Inl (OtherError ''no process'')), pg_windows = False, pg_serve = (\<lambda>_. Inr []), pg_append = (\<lambda>_ e. e)\<rparr>"

definition ex_plugin :: "string \<Rightarrow> string \<Rightarrow> (string, unit) plugin" where
  "ex_plugin n up =
     \<lparr>pl_Builtin = False, pl_Client = up, pl_Location = [], pl_Mappers = [], pl_Name = n, pl_Types = [HostType],
      pl_Options = Map.empty, pl_closers = []\<rparr>"

text \<open>A sub manager without plugins, in front of one with a chain of hosts and one that is its own parent.\<close>

definition ex_managers :: "(string, string, unit) manager list" where
  "ex_managers =
     [(NewManager 0)\<lparr>mg_dispense := [''seeds'']\<rparr>,
      (NewManager 1)\<lparr>mg_Plugins := [ex_plugin ''ubuntu'' ''debian'', ex_plugin ''debian'' [], ex_plugin ''loop'' ''loop''],
                     mg_dispense := [''cache''], mg_discovered := [''/plugins'']\<rparr>]"

lemma ex_plug_lawful: "configures_lawfully ex_plug"
  by (simp add: configures_lawfully_def ex_plug_def)

lemma ex_managers_inv: "mgr_inv (ex_managers, [])"
  by (simp add: mgr_inv_def ex_managers_def cached_ok_def kept_parts_def NewManager_def)

section \<open>Claims\<close>

text \<open>an instance is configured by exactly the functions that \<open>Configurators\<close> lists for the managers from the one that
  was asked to the one that owns the plugin, the owner's first, and it is a new instance.\<close>

theorem configurators_of_parents_first:
  assumes "fetch env n t [] ms h = Ret s' i"
  shows "\<exists>lower m upper p raw b x. ms = lower @ m # upper \<and> owned n t lower m p \<and> dispenses env t p raw b \<and> i = length h
     \<and> snd s' = h @ [x] \<and> apply_configurators env (Configurators (lower @ [m])) (fresh_inst env t p raw b) = (x, None)"
proof (cases rule: fetch_cases[of env n t "[]" ms h])
  case (got s1 lower m upper p raw b x)
  then have "s1 = s'" "i = length h" using assms by simp_all
  then show ?thesis using got by (intro exI[of _ lower] exI[of _ m] exI[of _ upper] exI[of _ p] exI[of _ raw] exI[of _ b] exI[of _ x])
    (simp add: fetched_def)
qed (use assms in simp_all)

lemma configurators_of_parents_first_witness:
  "\<exists>s' x. fetch ex_plug ''debian'' HostType [] ex_managers [] = Ret s' 0 \<and> snd s' = [x] \<and> in_Component x = ([''cache'', ''seeds''], [])"
proof -
  have "case fetch ex_plug ''debian'' HostType [] ex_managers [] of
      Ret s' i \<Rightarrow> i = 0 \<and> map in_Component (snd s') = [([''cache'', ''seeds''], [])] | _ \<Rightarrow> False"
    by code_simp
  then obtain s' where run: "fetch ex_plug ''debian'' HostType [] ex_managers [] = Ret s' 0"
    and comp: "map in_Component (snd s') = [([''cache'', ''seeds''], [])]"
    by (auto split: outcome.splits)
  obtain x where "snd s' = [x]" using configurators_of_parents_first[OF run] by auto
  then show ?thesis using run comp by auto
qed



text \<open>C20: the search for a component whose parents form a chain that ends returns, with a stack of twice its length; the
  instance that it returns has exactly that chain of parents.\<close>

theorem parents_are_loaded:
  assumes "configures_lawfully env" and "parent_chain env t ms d n = Some c" and "uncached t ms" and "2 * d \<le> k"
  shows "\<exists>s' i. mgr_find env k n t (ms, h) = Ret s' i \<and> Parents (snd s') (length c) (Some i) = c"
  using chain_found[OF assms, of h] by blast

lemma parents_are_loaded_witness:
  "\<exists>s' i. mgr_find ex_plug 4 ''ubuntu'' HostType (ex_managers, []) = Ret s' i \<and> Parents (snd s') 2 (Some i) = [''ubuntu'', ''debian'']"
proof -
  have "parent_chain ex_plug HostType ex_managers 2 ''ubuntu'' = Some [''ubuntu'', ''debian'']" by code_simp
  moreover have "uncached HostType ex_managers" by (simp add: uncached_def ex_managers_def NewManager_def)
  ultimately show ?thesis using parents_are_loaded[OF ex_plug_lawful, of HostType ex_managers 2 "''ubuntu''" _ 4 "[]"] by (auto simp: numeral_2_eq_2)
qed

text \<open>the search for a component whose parents form a cycle never returns, however large the stack is.\<close>

theorem parent_cycle_never_returns:
  assumes "configures_lawfully env" and "parent_cycle env t ms N" and "uncached t ms" and "n \<in> N"
  shows "\<exists>x. mgr_find env k n t (ms, h) = Crash x"
  using cycle_crashes[OF assms] .

lemma parent_cycle_never_returns_witness: "\<forall>k. \<exists>x. mgr_find ex_plug k ''loop'' HostType (ex_managers, []) = Crash x"
proof
  fix k
  have "case preview ex_plug ''loop'' HostType [] ex_managers of None \<Rightarrow> False | Some x \<Rightarrow> pg_parent ex_plug (in_Component x) = Some (Inr ''loop'')"
    by code_simp
  then have "parent_cycle ex_plug HostType ex_managers {''loop''}" by (auto simp: parent_cycle_def split: option.splits)
  moreover have "uncached HostType ex_managers" by (simp add: uncached_def ex_managers_def NewManager_def)
  ultimately show "\<exists>x. mgr_find ex_plug k ''loop'' HostType (ex_managers, []) = Crash x"
    using parent_cycle_never_returns[OF ex_plug_lawful] by blast
qed

text \<open>a directory that was discovered before, or that cannot be read, silently ends discovery: the directories after it
  are not looked at, and no error tells.\<close>

theorem discovery_stops_silently:
  assumes "d \<in> set (mg_discovered m) \<or> isl (pg_readdir env d)"
  shows "Discover env (ds @ d # es) m = Discover env ds m"
  using assms
proof (induction ds arbitrary: m)
  case Nil
  then show ?case by (auto split: sum.split)
next
  case (Cons x ds)
  show ?case
  proof (cases "x \<in> set (mg_discovered m) \<or> isl (pg_readdir env x)")
    case True
    then show ?thesis by (auto split: sum.split)
  next
    case False
    then obtain fs where fs: "x \<notin> set (mg_discovered m)" "pg_readdir env x = Inr fs" by (cases "pg_readdir env x") auto
    show ?thesis
    proof (cases "discover_files env x fs m")
      case (Ret m1 u)
      then have "d \<in> set (mg_discovered (m1\<lparr>mg_discovered := mg_discovered m1 @ [x]\<rparr>)) \<or> isl (pg_readdir env d)"
        using Cons.prems discover_files_discovered by fastforce
      then show ?thesis using Cons.IH Ret fs by simp
    qed (use fs in simp_all)
  qed
qed

lemma discovery_stops_silently_witness:
  "Discover ex_plug [''/new'', ''/plugins'', ''/other''] (ex_managers ! 1) = Discover ex_plug [''/new''] (ex_managers ! 1)"
  using discovery_stops_silently[of "''/plugins''" "ex_managers ! 1" ex_plug "[''/new'']" "[''/other'']"]
  by (simp add: ex_managers_def del: Discover.simps)

end
