(* ===== verification/Connection.thy ===== *)
theory Connection
  imports CliContext GoStrconv
begin

text \<open>
  The connection of a client to a server. \<open>internal/serverclient/client.go\<close>: where the address, the security and the token
  of a connection come from. \<open>internal/protocolversion\<close> with the interceptors of \<open>server/grpc_version.go\<close>: the headers
  that a client sends and the version that a server negotiates. \<open>server/auth.go\<close>: who may call. \<open>client/server.go\<close>: the
  choice of a server and the search for the other vagrant. A call of gRPC is a path with a service and a method and a map of headers; dialing, stored
  files and the environment are arguments.
\<close>

section \<open>Options of a connection\<close>

text \<open>The configuration of a connection as it is stored in a context, and as it is collected from the options.\<close>

record client_config =
  sc_Address :: string
  sc_Tls :: bool
  sc_TlsSkipVerify :: bool
  sc_RequireAuth :: bool
  sc_AuthToken :: string

record connectConfig =
  cn_Addr :: string
  cn_Tls :: bool
  cn_TlsSkipVerify :: bool
  cn_Auth :: bool
  cn_Token :: string
  cn_Optional :: bool
  cn_Timeout :: nat

definition zero_config :: connectConfig where
  "zero_config = \<lparr>cn_Addr = [], cn_Tls = False, cn_TlsSkipVerify = False, cn_Auth = False, cn_Token = [], cn_Optional = False, cn_Timeout = 0\<rparr>"

datatype connect_error = StorageError fs_err | NoCredentials | NoToken

text \<open>The directory of contexts, the environment and how a file is decoded.\<close>

record conn_env =
  ne_storage :: storage
  ne_fault :: fault
  ne_decode :: "string \<Rightarrow> fs_err + client_config"
  ne_getenv :: "string \<Rightarrow> string"

type_synonym connect_option = "conn_env \<Rightarrow> fs \<Rightarrow> connectConfig \<Rightarrow> (fs, connect_error, connectConfig) outcome"

definition WithAddr :: "string \<Rightarrow> connect_option" where
  "WithAddr a env w c = Ret w (c\<lparr>cn_Addr := a\<rparr>)"

definition Conn_Auth :: connect_option where
  "Conn_Auth env w c = Ret w (c\<lparr>cn_Auth := True\<rparr>)"

definition Conn_Optional :: connect_option where
  "Conn_Optional env w c = Ret w (c\<lparr>cn_Optional := True\<rparr>)"

definition Conn_Timeout :: "nat \<Rightarrow> connect_option" where
  "Conn_Timeout t env w c = Ret w (c\<lparr>cn_Timeout := t\<rparr>)"

definition FromEnv :: connect_option where
  "FromEnv env w c =
     (let v = ne_getenv env ''VAGRANT_SERVER_ADDR''
      in Ret w (if v \<noteq> []
                then c\<lparr>cn_Addr := v, cn_Tls := ne_getenv env ''VAGRANT_SERVER_TLS'' \<noteq> [],
                       cn_TlsSkipVerify := ne_getenv env ''VAGRANT_SERVER_TLS_SKIP_VERIFY'' \<noteq> [],
                       cn_Auth := ne_getenv env ''VAGRANT_SERVER_TOKEN'' \<noteq> []\<rparr>
                else c))"

definition apply_context :: "client_config \<Rightarrow> connectConfig \<Rightarrow> connectConfig" where
  "apply_context s c =
     (let c' = c\<lparr>cn_Addr := sc_Address s, cn_Tls := sc_Tls s, cn_TlsSkipVerify := sc_TlsSkipVerify s\<rparr>
      in if sc_RequireAuth s then c'\<lparr>cn_Auth := True, cn_Token := sc_AuthToken s\<rparr> else c')"

definition FromContextConfig :: "client_config option \<Rightarrow> connect_option" where
  "FromContextConfig cfg env w c =
     Ret w (case cfg of None \<Rightarrow> c | Some s \<Rightarrow> if sc_Address s \<noteq> [] then apply_context s c else c)"

text \<open>Errors of the storage.\<close>

definition stored :: "(fs, fs_err, 'a) outcome \<Rightarrow> (fs, connect_error, 'a) outcome" where
  "stored r = (case r of Ret w a \<Rightarrow> Ret w a | Fail w e \<Rightarrow> Fail w (StorageError e) | Crash m \<Rightarrow> Crash m)"

definition context_name :: "string \<Rightarrow> conn_env \<Rightarrow> fs \<Rightarrow> (fs, connect_error, string) outcome" where
  "context_name n env w =
     (if n \<noteq> [] then Ret w n
      else if ne_getenv env ''VAGRANT_CONTEXT'' \<noteq> [] then Ret w (ne_getenv env ''VAGRANT_CONTEXT'')
      else stored (Ctx_Default (ne_fault env) (ne_storage env) w))"

definition FromContext :: "string \<Rightarrow> connect_option" where
  "FromContext n env w c =
     bind_o (context_name n env w)
       (\<lambda>w n. if n = [] \<or> n = ''-'' then Ret w c
              else bind_o (stored (Ctx_Load (ne_decode env) (ne_fault env) (ne_storage env) n w))
                     (\<lambda>w cfg. FromContextConfig (Some cfg) env w c))"

fun apply_options :: "connect_option list \<Rightarrow> connect_option" where
  "apply_options [] env w c = Ret w c"
| "apply_options (f # fs) env w c = bind_o (f env w c) (\<lambda>w c. apply_options fs env w c)"

section \<open>Connecting\<close>

text \<open>What is dialed. With TLS that is verified no credentials of the transport are set.\<close>

datatype security = Insecure | TLSWithoutVerification | NoCredentialsSet

record dialed =
  dl_Addr :: string
  dl_Security :: security
  dl_Token :: "string option"
  dl_Timeout :: nat

definition Connect :: "connect_option list \<Rightarrow> conn_env \<Rightarrow> fs \<Rightarrow> (fs, connect_error, dialed option) outcome" where
  "Connect opts env w =
     bind_o (apply_options opts env w (zero_config\<lparr>cn_Timeout := 5000\<rparr>))
       (\<lambda>w c.
          if cn_Addr c = [] then (if cn_Optional c then Ret w None else Fail w NoCredentials)
          else (let sec = (if \<not> cn_Tls c then Insecure else if cn_TlsSkipVerify c then TLSWithoutVerification else NoCredentialsSet);
                    d = \<lparr>dl_Addr = cn_Addr c, dl_Security = sec, dl_Token = None, dl_Timeout = cn_Timeout c\<rparr>
                in if cn_Auth c
                   then (let v = ne_getenv env ''VAGRANT_SERVER_TOKEN''; token = (if v \<noteq> [] then v else cn_Token c)
                         in if token = [] then Fail w NoToken else Ret w (Some (d\<lparr>dl_Token := Some token\<rparr>)))
                   else Ret w (Some d)))"

definition ContextConfig :: "connect_option list \<Rightarrow> conn_env \<Rightarrow> fs \<Rightarrow> (fs, connect_error, client_config) outcome" where
  "ContextConfig opts env w =
     bind_o (apply_options opts env w zero_config)
       (\<lambda>w c. Ret w \<lparr>sc_Address = cn_Addr c, sc_Tls = cn_Tls c, sc_TlsSkipVerify = cn_TlsSkipVerify c,
                     sc_RequireAuth = cn_Token c \<noteq> [], sc_AuthToken = cn_Token c\<rparr>)"

text \<open>The options of the command line: a stored context, the environment, and the flags.\<close>

definition cli_options :: "client_config \<Rightarrow> connect_option list" where
  "cli_options flags =
     [FromContext [], FromEnv, FromContextConfig (if sc_Address flags \<noteq> [] then Some flags else None)]"

text \<open>Whether a client is told to be local does not matter: without an address a local server is started, which is
  \<open>None\<close> here.\<close>

definition initServerClient :: "connect_option list \<Rightarrow> conn_env \<Rightarrow> fs \<Rightarrow> (fs, connect_error, dialed option) outcome" where
  "initServerClient opts env w = Connect (opts @ [Conn_Optional]) env w"

section \<open>Protocol versions\<close>

type_synonym uint32 = "32 word"

record protocol_version =
  pv_Current :: uint32
  pv_Minimum :: uint32

record version_info =
  vi_Api :: protocol_version
  vi_Entrypoint :: protocol_version
  vi_Version :: string

datatype version_error = ErrClientOutdated | ErrServerOutdated

definition Negotiate :: "protocol_version \<Rightarrow> protocol_version \<Rightarrow> version_error + uint32" where
  "Negotiate client server =
     (if pv_Current client < pv_Minimum server then Inl ErrClientOutdated
      else if pv_Current server < pv_Minimum client then Inl ErrServerOutdated
      else Inr (if pv_Current server > pv_Current client then pv_Current client else pv_Current server))"

definition protocol_Current :: "string \<Rightarrow> version_info" where
  "protocol_Current v = \<lparr>vi_Api = \<lparr>pv_Current = 1, pv_Minimum = 1\<rparr>, vi_Entrypoint = \<lparr>pv_Current = 1, pv_Minimum = 1\<rparr>, vi_Version = v\<rparr>"

definition EncodeHeader :: "uint32 \<Rightarrow> uint32 \<Rightarrow> string" where
  "EncodeHeader lo current = FormatUint (unat lo) @ '','' @ FormatUint (unat current)"

text \<open>\<open>fmt.Sscanf\<close> with the format \<open>%d,%d\<close> on bytes of ASCII: blanks before a number are passed over, but not a newline;
  a number is decimal digits and fits in 32 bits; what follows the second number is not looked at.\<close>

definition is_blank :: "char \<Rightarrow> bool" where
  "is_blank c \<longleftrightarrow> c = CHR '' '' \<or> c = CHR 0x09 \<or> c = CHR 0x0B \<or> c = CHR 0x0C \<or> c = CHR 0x0D"

definition is_decimal :: "char \<Rightarrow> bool" where
  "is_decimal c \<longleftrightarrow> (48::nat) \<le> of_char c \<and> of_char c \<le> (57::nat)"

definition decimal :: "string \<Rightarrow> nat" where
  "decimal s = fold (\<lambda>c n. 10 * n + (of_char c - 48)) s 0"

definition scan_uint32 :: "string \<Rightarrow> (uint32 \<times> string) option" where
  "scan_uint32 s =
     (let s = dropWhile is_blank s; d = takeWhile is_decimal s
      in if d = [] \<or> decimal d \<ge> 2 ^ 32 then None else Some (of_nat (decimal d), dropWhile is_decimal s))"

definition ParseHeader :: "string \<Rightarrow> (uint32 \<times> uint32) option" where
  "ParseHeader v =
     (case scan_uint32 v of
        Some (m, sep # rest) \<Rightarrow>
          (if sep = CHR '','' then (case scan_uint32 rest of Some (c, _) \<Rightarrow> Some (m, c) | None \<Rightarrow> None) else None)
      | _ \<Rightarrow> None)"

section \<open>Calls\<close>

type_synonym headers = "string \<rightharpoonup> string list"

text \<open>\<open>metadata.AppendToOutgoingContext\<close>.\<close>

definition append_header :: "string \<Rightarrow> string \<Rightarrow> headers \<Rightarrow> headers" where
  "append_header k v h = h(k \<mapsto> (case h k of None \<Rightarrow> [] | Some vs \<Rightarrow> vs) @ [v])"

definition client_headers :: "version_info \<Rightarrow> headers \<Rightarrow> headers" where
  "client_headers info h =
     append_header ''client-version'' (vi_Version info)
       (append_header ''client-entrypoint-protocol'' (EncodeHeader (pv_Minimum (vi_Entrypoint info)) (pv_Current (vi_Entrypoint info)))
          (append_header ''client-api-protocol'' (EncodeHeader (pv_Minimum (vi_Api info)) (pv_Current (vi_Api info))) h))"

text \<open>Both interceptors of a client add the same headers; the token is one more.\<close>

definition UnaryClientInterceptor :: "version_info \<Rightarrow> (headers \<Rightarrow> 'r) \<Rightarrow> headers \<Rightarrow> 'r" where
  "UnaryClientInterceptor info invoker h = invoker (client_headers info h)"

definition StreamClientInterceptor :: "version_info \<Rightarrow> (headers \<Rightarrow> 'r) \<Rightarrow> headers \<Rightarrow> 'r" where
  "StreamClientInterceptor info streamer h = streamer (client_headers info h)"

definition GetRequestMetadata :: "string option \<Rightarrow> headers \<Rightarrow> headers" where
  "GetRequestMetadata token h = (case token of None \<Rightarrow> h | Some t \<Rightarrow> append_header ''authorization'' t h)"

datatype protocol_type = Invalid | Api | Entrypoint

text \<open>What the server answers instead of a handler.\<close>

datatype call_error =
    MetadataFailed
  | HeaderNotSet string
  | HeaderInvalid string
  | HeaderVersion string version_error
  | InvalidProtocol
  | TokenNotSupplied
  | NotAuthenticated string

definition method_of :: "string \<Rightarrow> string" where
  "method_of m = rev (takeWhile (\<lambda>c. c \<noteq> CHR ''/'') (rev m))"

definition versionType :: "string \<Rightarrow> protocol_type option" where
  "versionType m =
     (if \<not> HasPrefix m ''/hashicorp.vagrant.Vagrant/'' then None
      else (let method = method_of m
            in if method = ''GetVersionInfo'' then None
               else Some (if HasPrefix method ''Entrypoint'' then Entrypoint else Api)))"

definition versionContext :: "protocol_type \<Rightarrow> version_info \<Rightarrow> headers option \<Rightarrow> call_error + uint32" where
  "versionContext typ info md =
     (case (case typ of Api \<Rightarrow> Some (''client-api-protocol'', vi_Api info)
                      | Entrypoint \<Rightarrow> Some (''client-entrypoint-protocol'', vi_Entrypoint info) | Invalid \<Rightarrow> None) of
        None \<Rightarrow> Inl InvalidProtocol
      | Some (header, server) \<Rightarrow>
          (case md of
             None \<Rightarrow> Inl MetadataFailed
           | Some h \<Rightarrow>
               (case h header of
                  Some [v] \<Rightarrow>
                    (case ParseHeader v of
                       None \<Rightarrow> Inl (HeaderInvalid header)
                     | Some (lo, current) \<Rightarrow>
                         (case Negotiate \<lparr>pv_Current = current, pv_Minimum = lo\<rparr> server of
                            Inl e \<Rightarrow> Inl (HeaderVersion header e) | Inr v \<Rightarrow> Inr v))
                | _ \<Rightarrow> Inl (HeaderNotSet header))))"

text \<open>A handler gets the negotiated version, if there is one.\<close>

definition versionUnaryInterceptor ::
  "version_info \<Rightarrow> string \<Rightarrow> headers option \<Rightarrow> (uint32 option \<Rightarrow> (unit, call_error, 'r) outcome) \<Rightarrow> (unit, call_error, 'r) outcome" where
  "versionUnaryInterceptor info m md handler =
     (case versionType m of
        None \<Rightarrow> handler None
      | Some typ \<Rightarrow> (case versionContext typ info md of Inl e \<Rightarrow> Fail () e | Inr v \<Rightarrow> handler (Some v)))"

definition versionStreamInterceptor ::
  "version_info \<Rightarrow> string \<Rightarrow> headers option \<Rightarrow> (uint32 option \<Rightarrow> (unit, call_error, 'r) outcome) \<Rightarrow> (unit, call_error, 'r) outcome" where
  "versionStreamInterceptor info m md handler =
     (case versionType m of
        None \<Rightarrow> handler None
      | Some typ \<Rightarrow> (case versionContext typ info md of Inl e \<Rightarrow> Fail () e | Inr v \<Rightarrow> handler (Some v)))"

text \<open>Authentication. The checker is asked for a token, the name of the method and its effects.\<close>

type_synonym auth_checker = "string \<Rightarrow> string \<Rightarrow> string list \<Rightarrow> call_error option"

definition endpoint_effects :: "string \<Rightarrow> string list" where
  "endpoint_effects n = (if n = ''ListBuilds'' then [''readonly''] else [''mutable''])"

definition unauthenticated_method :: "string \<Rightarrow> bool" where
  "unauthenticated_method m = HasPrefix m ''/grpc.reflection.v1alpha.ServerReflection/''"

definition authUnaryInterceptor ::
  "auth_checker \<Rightarrow> string \<Rightarrow> headers option \<Rightarrow> (unit, call_error, 'r) outcome \<Rightarrow> (unit, call_error, 'r) outcome" where
  "authUnaryInterceptor checker m md handler =
     (if unauthenticated_method m then handler
      else (let name = method_of m; effects = endpoint_effects name
            in case md of
                 None \<Rightarrow> Fail () MetadataFailed
               | Some h \<Rightarrow>
                   (case (case h ''authorization'' of None \<Rightarrow> Some [] | Some [] \<Rightarrow> None | Some (t # _) \<Rightarrow> Some t) of
                      None \<Rightarrow> Crash ''index out of range''
                    | Some token \<Rightarrow> (case checker token name effects of Some e \<Rightarrow> Fail () e | None \<Rightarrow> handler))))"

definition authStreamInterceptor ::
  "auth_checker \<Rightarrow> string \<Rightarrow> headers option \<Rightarrow> (unit, call_error, 'r) outcome \<Rightarrow> (unit, call_error, 'r) outcome" where
  "authStreamInterceptor checker m md handler =
     (if unauthenticated_method m then handler
      else (let name = method_of m; effects = endpoint_effects name
            in case md of
                 None \<Rightarrow> Fail () MetadataFailed
               | Some h \<Rightarrow>
                   (case h ''authorization'' of
                      None \<Rightarrow> Fail () TokenNotSupplied
                    | Some [] \<Rightarrow> Crash ''index out of range''
                    | Some (token # _) \<Rightarrow> (case checker token name effects of Some e \<Rightarrow> Fail () e | None \<Rightarrow> handler))))"

text \<open>The chain of a server (\<open>grpcInit\<close>): versions, then authentication if there is a checker.\<close>

definition serve_unary ::
  "version_info \<Rightarrow> auth_checker option \<Rightarrow> string \<Rightarrow> headers option \<Rightarrow> (uint32 option \<Rightarrow> (unit, call_error, 'r) outcome) \<Rightarrow>
     (unit, call_error, 'r) outcome" where
  "serve_unary info checker m md handler =
     versionUnaryInterceptor info m md
       (\<lambda>v. case checker of None \<Rightarrow> handler v | Some c \<Rightarrow> authUnaryInterceptor c m md (handler v))"

definition serve_stream ::
  "version_info \<Rightarrow> auth_checker option \<Rightarrow> string \<Rightarrow> headers option \<Rightarrow> (uint32 option \<Rightarrow> (unit, call_error, 'r) outcome) \<Rightarrow>
     (unit, call_error, 'r) outcome" where
  "serve_stream info checker m md handler =
     versionStreamInterceptor info m md
       (\<lambda>v. case checker of None \<Rightarrow> handler v | Some c \<Rightarrow> authStreamInterceptor c m md (handler v))"

text \<open>A client checks the version itself once (\<open>negotiateApiVersion\<close>).\<close>

definition negotiateApiVersion :: "'e + version_info \<Rightarrow> (unit, 'e + version_error, unit) outcome" where
  "negotiateApiVersion resp =
     (case resp of
        Inl e \<Rightarrow> Fail () (Inl e)
      | Inr info \<Rightarrow>
          (case Negotiate (vi_Api (protocol_Current [])) (vi_Api info) of Inl e \<Rightarrow> Fail () (Inr e) | Inr _ \<Rightarrow> Ret () ()))"

section \<open>The other vagrant\<close>

text \<open>A file is known by its identity (\<open>os.SameFile\<close>). \<open>findExecutable\<close> accepts an executable that is not the running
  program itself.\<close>

record file_info =
  fi_Id :: nat
  fi_IsDir :: bool
  fi_Mode :: nat

datatype look_error = StatError string | ErrPermission | ErrNotFound

unbundle bit_operations_syntax

definition findExecutable :: "(string \<Rightarrow> string + file_info) \<Rightarrow> string \<Rightarrow> file_info \<Rightarrow> look_error option" where
  "findExecutable stat file self =
     (case stat file of
        Inl e \<Rightarrow> Some (StatError e)
      | Inr d \<Rightarrow>
          (if fi_Id d = fi_Id self then Some ErrPermission
           else if \<not> fi_IsDir d \<and> fi_Mode d AND 73 \<noteq> 0 then None
           else Some ErrPermission))"

fun look_dirs ::
  "(string \<Rightarrow> string + file_info) \<Rightarrow> (string \<Rightarrow> string \<Rightarrow> string) \<Rightarrow> string \<Rightarrow> file_info \<Rightarrow> string list \<Rightarrow> look_error + string" where
  "look_dirs stat join file self [] = Inl ErrNotFound"
| "look_dirs stat join file self (d # ds) =
     (let path = join (if d = [] then ''.'' else d) file
      in case findExecutable stat path self of None \<Rightarrow> Inr path | Some _ \<Rightarrow> look_dirs stat join file self ds)"

definition lookPathSkippingSelf ::
  "(string \<Rightarrow> string + file_info) \<Rightarrow> (string \<Rightarrow> string \<Rightarrow> string) \<Rightarrow> string + string \<Rightarrow> string list \<Rightarrow> string \<Rightarrow> look_error + string" where
  "lookPathSkippingSelf stat join executable dirs file =
     (case executable of
        Inl e \<Rightarrow> Inl (StatError e)
      | Inr p \<Rightarrow>
          (case stat p of
             Inl e \<Rightarrow> Inl (StatError e)
           | Inr self \<Rightarrow>
               (if CHR ''/'' \<in> set file
                then (case findExecutable stat file self of None \<Rightarrow> Inr file | Some e \<Rightarrow> Inl e)
                else look_dirs stat join file self dirs)))"

end
