(* ===== verification/ConnectionClaims.thy ===== *)
theory ConnectionClaims
  imports Connection CliContextClaims
begin

text \<open>
  Which server a client talks to, with which token, and which version of the protocol they speak.
\<close>

section \<open>Headers\<close>

lemma decimal_append: "decimal (s @ [c]) = 10 * decimal s + (of_char c - 48)"
  by (simp add: decimal_def)

lemma decimal_Format: "decimal (FormatUint n) = n"
proof (induction n rule: FormatUint.induct)
  case (1 n)
  show ?case
  proof (cases "n < 10")
    case True
    then show ?thesis by (subst FormatUint.simps) (simp add: decimal_def of_char_digit)
  next
    case False
    then have "decimal (FormatUint (n div 10)) = n div 10" using 1 by simp
    then show ?thesis using False by (subst FormatUint.simps) (simp add: decimal_append of_char_digit)
  qed
qed

lemma digit_is_decimal: "d < 10 \<Longrightarrow> is_decimal (digit_char d)"
  by (simp add: is_decimal_def of_char_digit)

lemma decimal_not_blank: "is_decimal c \<Longrightarrow> \<not> is_blank c"
  by (auto simp: is_decimal_def is_blank_def)

lemma Format_is_decimal: "\<forall>c \<in> set (FormatUint n). is_decimal c"
  by (auto dest!: FormatUint_digits simp: digit_is_decimal)

text \<open>A number is read back, whatever follows it that is not a digit.\<close>

lemma scan_Format:
  assumes "rest = [] \<or> \<not> is_decimal (hd rest)" and "n < 2 ^ 32"
  shows "scan_uint32 (FormatUint n @ rest) = Some (of_nat n, rest)"
proof -
  have "is_decimal (hd (FormatUint n))" using Format_is_decimal[of n] by (simp add: hd_in_set)
  then have "\<not> is_blank (hd (FormatUint n @ rest))" by (simp add: decimal_not_blank)
  then have "dropWhile is_blank (FormatUint n @ rest) = FormatUint n @ rest"
    by (cases "FormatUint n @ rest") auto
  moreover have "takeWhile is_decimal (FormatUint n @ rest) = FormatUint n" "dropWhile is_decimal (FormatUint n @ rest) = rest"
    using assms(1) Format_is_decimal[of n] by (cases rest; simp add: takeWhile_append dropWhile_append)+
  ultimately show ?thesis using assms(2) by (simp add: scan_uint32_def decimal_Format)
qed

lemma header_read_back: "rest = [] \<or> \<not> is_decimal (hd rest) \<Longrightarrow> ParseHeader (EncodeHeader lo current @ rest) = Some (lo, current)"
proof -
  assume rest: "rest = [] \<or> \<not> is_decimal (hd rest)"
  have "unat x < 2 ^ 32" for x :: uint32 using unsigned_less[of x] by simp
  then show ?thesis using rest by (simp add: ParseHeader_def EncodeHeader_def scan_Format is_decimal_def)
qed

lemma parse_encode [simp]: "ParseHeader (EncodeHeader lo current) = Some (lo, current)"
  using header_read_back[of "[]" lo current] by simp

section \<open>Versions\<close>

definition speaks :: "protocol_version \<Rightarrow> uint32 \<Rightarrow> bool" where
  "speaks p v \<longleftrightarrow> pv_Minimum p \<le> v \<and> v \<le> pv_Current p"

definition consistent :: "protocol_version \<Rightarrow> bool" where
  "consistent p \<longleftrightarrow> pv_Minimum p \<le> pv_Current p"

lemma Negotiate_iff:
  assumes "consistent c" and "consistent s"
  shows "Negotiate c s = Inr v \<longleftrightarrow> speaks c v \<and> speaks s v \<and> (\<forall>x. speaks c x \<and> speaks s x \<longrightarrow> x \<le> v)"
proof
  show "Negotiate c s = Inr v \<Longrightarrow> speaks c v \<and> speaks s v \<and> (\<forall>x. speaks c x \<and> speaks s x \<longrightarrow> x \<le> v)"
    using assms by (auto simp: Negotiate_def speaks_def consistent_def split: if_splits)
  assume v: "speaks c v \<and> speaks s v \<and> (\<forall>x. speaks c x \<and> speaks s x \<longrightarrow> x \<le> v)"
  let ?w = "if pv_Current s > pv_Current c then pv_Current c else pv_Current s"
  have w: "\<not> pv_Current c < pv_Minimum s" "\<not> pv_Current s < pv_Minimum c"
    using v by (auto simp: speaks_def)
  then have "speaks c ?w" "speaks s ?w"
    using assms by (auto simp: speaks_def consistent_def)
  then have "?w = v" using v by (auto simp: speaks_def)
  then show "Negotiate c s = Inr v" using w by (simp add: Negotiate_def)
qed

definition info_for :: "protocol_type \<Rightarrow> version_info \<Rightarrow> protocol_version" where
  "info_for typ i = (if typ = Entrypoint then vi_Entrypoint i else vi_Api i)"

definition version_header :: "protocol_type \<Rightarrow> string" where
  "version_header typ = (if typ = Entrypoint then ''client-entrypoint-protocol'' else ''client-api-protocol'')"

text \<open>What a client sends with a call.\<close>

definition call_headers :: "version_info \<Rightarrow> string option \<Rightarrow> headers" where
  "call_headers info token = client_headers info (GetRequestMetadata token Map.empty)"

lemma versionType_known: "versionType m = Some typ \<Longrightarrow> typ = Api \<or> typ = Entrypoint"
  by (auto simp: versionType_def Let_def split: if_splits)

lemma call_header:
  "call_headers ci token ''client-api-protocol'' = Some [EncodeHeader (pv_Minimum (vi_Api ci)) (pv_Current (vi_Api ci))]"
  "call_headers ci token ''client-entrypoint-protocol'' =
     Some [EncodeHeader (pv_Minimum (vi_Entrypoint ci)) (pv_Current (vi_Entrypoint ci))]"
  by (cases token; simp add: call_headers_def client_headers_def append_header_def GetRequestMetadata_def)+

lemma pv_eta: "\<lparr>pv_Current = pv_Current p, pv_Minimum = pv_Minimum p\<rparr> = p"
  by (cases p) simp

lemma call_version:
  assumes "versionType m = Some typ"
  shows "versionContext typ si (Some (call_headers ci token)) =
     (case Negotiate (info_for typ ci) (info_for typ si) of Inl e \<Rightarrow> Inl (HeaderVersion (version_header typ) e) | Inr v \<Rightarrow> Inr v)"
proof (cases "typ = Api")
  case True
  then show ?thesis by (simp add: versionContext_def call_header info_for_def version_header_def pv_eta split: sum.split)
next
  case False
  then have "typ = Entrypoint" using versionType_known[OF assms] by simp
  then show ?thesis by (simp add: versionContext_def call_header info_for_def version_header_def pv_eta split: sum.split)
qed

lemma call_token:
  "call_headers ci token ''authorization'' = map_option (\<lambda>t. [t]) token"
  by (cases token) (simp_all add: call_headers_def client_headers_def append_header_def GetRequestMetadata_def)

text \<open>Two prefixes of one string agree.\<close>

lemma prefixes_agree:
  assumes "HasPrefix s p" and "HasPrefix s q"
  shows "take (length q) p = take (length p) q"
  using assms unfolding HasPrefix_def by (metis take_take min.commute)

lemma vagrant_not_reflection: "HasPrefix m ''/hashicorp.vagrant.Vagrant/'' \<Longrightarrow> \<not> unauthenticated_method m"
  unfolding unauthenticated_method_def using prefixes_agree by force

section \<open>Contexts\<close>

lemma load_repr:
  assumes "repr0 enc m w t" and "good n" and "\<And>c. decode (enc c) = Inr c"
  shows "Ctx_Load decode no_fault m n w = (case fst t n of None \<Rightarrow> Fail w NotExist | Some c \<Rightarrow> Ret w c)"
  using repr_config[OF assms(1,2)] assms(3) by (cases "fst t n") (simp_all add: Ctx_Load_def os_defs)

text \<open>The default context of a table, if it is meant to be used.\<close>

definition table_context :: "client_config table \<Rightarrow> client_config option" where
  "table_context t = (case snd t of None \<Rightarrow> None | Some n \<Rightarrow> if n = ''-'' then None else fst t n)"

definition security_of :: "bool \<Rightarrow> bool \<Rightarrow> security" where
  "security_of tls skip = (if \<not> tls then Insecure else if skip then TLSWithoutVerification else NoCredentialsSet)"

text \<open>The server for a context and an environment: what is dialed, none for a server of the client's own.\<close>

definition server_for :: "(string \<Rightarrow> string) \<Rightarrow> client_config option \<Rightarrow> connect_error + dialed option" where
  "server_for env ctx =
     (if env ''VAGRANT_SERVER_ADDR'' \<noteq> []
      then Inr (Some \<lparr>dl_Addr = env ''VAGRANT_SERVER_ADDR'',
                      dl_Security = security_of (env ''VAGRANT_SERVER_TLS'' \<noteq> []) (env ''VAGRANT_SERVER_TLS_SKIP_VERIFY'' \<noteq> []),
                      dl_Token = (if env ''VAGRANT_SERVER_TOKEN'' = [] then None else Some (env ''VAGRANT_SERVER_TOKEN'')),
                      dl_Timeout = 5000\<rparr>)
      else (case ctx of
              None \<Rightarrow> Inr None
            | Some c \<Rightarrow>
                (if sc_Address c = [] then Inr None
                 else (let d = \<lparr>dl_Addr = sc_Address c, dl_Security = security_of (sc_Tls c) (sc_TlsSkipVerify c), dl_Token = None,
                                dl_Timeout = 5000\<rparr>;
                           t = (if env ''VAGRANT_SERVER_TOKEN'' \<noteq> [] then env ''VAGRANT_SERVER_TOKEN'' else sc_AuthToken c)
                       in if \<not> sc_RequireAuth c then Inr (Some d)
                          else if t = [] then Inl NoToken else Inr (Some (d\<lparr>dl_Token := Some t\<rparr>))))))"

lemmas connect_defs = Connect_def Conn_Optional_def FromEnv_def FromContextConfig_def apply_context_def cli_options_def
  initServerClient_def zero_config_def

lemma connect_from:
  assumes "FromContext [] env w (zero_config\<lparr>cn_Timeout := 5000\<rparr>) = FromContextConfig ctx env w (zero_config\<lparr>cn_Timeout := 5000\<rparr>)"
    and "sc_Address flags = []"
  shows "initServerClient (cli_options flags) env w =
    (case server_for (ne_getenv env) ctx of Inl e \<Rightarrow> Fail w e | Inr d \<Rightarrow> Ret w d)"
  using assms
  by (cases ctx) (auto simp: connect_defs server_for_def security_of_def Let_def)

section \<open>Claims\<close>

text \<open>C21: a call that a client makes is handled with the greatest version that both sides speak, after the checker has
  accepted the client's token, the empty one for a client without a token; without a common version the handler is not
  called. The version calls and those of other services are not checked for a version.\<close>

theorem handled_with_best_version:
  assumes "versionType m = Some typ" and "consistent (info_for typ ci)" and "consistent (info_for typ si)"
    and "serve_unary si (Some checker) m (Some (call_headers ci token)) (\<lambda>v. Ret () v) = r"
  shows "r = Ret () (Some v) \<longleftrightarrow>
     checker (case token of None \<Rightarrow> [] | Some t \<Rightarrow> t) (method_of m) (endpoint_effects (method_of m)) = None
     \<and> speaks (info_for typ ci) v \<and> speaks (info_for typ si) v
     \<and> (\<forall>x. speaks (info_for typ ci) x \<and> speaks (info_for typ si) x \<longrightarrow> x \<le> v)"
proof -
  have served: "\<not> unauthenticated_method m"
    using assms(1) by (auto simp: versionType_def dest: vagrant_not_reflection split: if_splits)
  have r: "r = (case Negotiate (info_for typ ci) (info_for typ si) of
      Inl e \<Rightarrow> Fail () (HeaderVersion (version_header typ) e)
    | Inr v \<Rightarrow> (case checker (case token of None \<Rightarrow> [] | Some t \<Rightarrow> t) (method_of m) (endpoint_effects (method_of m)) of
                 Some e \<Rightarrow> Fail () e | None \<Rightarrow> Ret () (Some v)))"
    using assms(4) served
    by (auto simp: serve_unary_def versionUnaryInterceptor_def assms(1) call_version[OF assms(1)] authUnaryInterceptor_def Let_def
        call_token split: sum.split option.split)
  show ?thesis
    unfolding Negotiate_iff[OF assms(2,3), symmetric] r by (auto split: sum.split option.split)
qed

lemma handled_with_best_version_witness:
  "serve_unary \<lparr>vi_Api = \<lparr>pv_Current = 10, pv_Minimum = 4\<rparr>, vi_Entrypoint = \<lparr>pv_Current = 1, pv_Minimum = 1\<rparr>, vi_Version = ''s''\<rparr>
     (Some (\<lambda>t n e. if t = ''secret'' then None else Some (NotAuthenticated t))) ''/hashicorp.vagrant.Vagrant/QueueJob''
     (Some (call_headers \<lparr>vi_Api = \<lparr>pv_Current = 6, pv_Minimum = 1\<rparr>, vi_Entrypoint = \<lparr>pv_Current = 1, pv_Minimum = 1\<rparr>, vi_Version = ''c''\<rparr>
        (Some ''secret''))) (\<lambda>v. Ret () v) = Ret () (Some 6)"
proof -
  have "versionType ''/hashicorp.vagrant.Vagrant/QueueJob'' = Some Api" by code_simp
  from iffD2[OF handled_with_best_version[OF this _ _ refl]] show ?thesis
    by (auto simp: consistent_def info_for_def speaks_def)
qed


text \<open>A table of a secured and an open server; the encoding writes the address and the token.\<close>

definition ex_client :: "string \<Rightarrow> string \<Rightarrow> client_config" where
  "ex_client a t = \<lparr>sc_Address = a, sc_Tls = True, sc_TlsSkipVerify = True, sc_RequireAuth = t \<noteq> [], sc_AuthToken = t\<rparr>"

text \<open>Every field of a configuration in words of a fixed form, so that it can be read back.\<close>

fun unary :: "string \<Rightarrow> string" where
  "unary [] = ''.''"
| "unary (c # cs) = CHR ''-'' # c # unary cs"

fun read_unary :: "string \<Rightarrow> string \<times> string" where
  "read_unary (c # d # s) = (if c = CHR ''-'' then (d # fst (read_unary s), snd (read_unary s)) else ([], d # s))"
| "read_unary s = ([], drop 1 s)"

lemma read_unary: "read_unary (unary s @ r) = (s, r)"
  by (induction s) (cases r; simp)+

definition ex_encode :: "client_config \<Rightarrow> string" where
  "ex_encode c = [if sc_Tls c then CHR ''t'' else CHR ''f'', if sc_TlsSkipVerify c then CHR ''t'' else CHR ''f'',
     if sc_RequireAuth c then CHR ''t'' else CHR ''f''] @ unary (sc_Address c) @ sc_AuthToken c"

definition ex_decode :: "string \<Rightarrow> fs_err + client_config" where
  "ex_decode s = Inr \<lparr>sc_Address = fst (read_unary (drop 3 s)), sc_Tls = s ! 0 = CHR ''t'', sc_TlsSkipVerify = s ! 1 = CHR ''t'',
     sc_RequireAuth = s ! 2 = CHR ''t'', sc_AuthToken = snd (read_unary (drop 3 s))\<rparr>"

lemma ex_decode: "ex_decode (ex_encode c) = Inr c"
  by (simp add: ex_decode_def ex_encode_def read_unary)


text \<open>the token of the default context is sent to another server when the flags name one that asks for no token:
  the address and the security of a later source replace those of an earlier one, its token does not.\<close>

theorem token_of_context_is_sent_elsewhere:
  assumes "FromContext [] env w (zero_config\<lparr>cn_Timeout := 5000\<rparr>) = Ret w (apply_context ctx (zero_config\<lparr>cn_Timeout := 5000\<rparr>))"
    and "sc_RequireAuth ctx" and "sc_AuthToken ctx \<noteq> []" and "sc_Address flags \<noteq> []" and "\<not> sc_RequireAuth flags"
    and "ne_getenv env ''VAGRANT_SERVER_ADDR'' = []" and "ne_getenv env ''VAGRANT_SERVER_TOKEN'' = []"
  shows "\<exists>d. initServerClient (cli_options flags) env w = Ret w (Some d) \<and> dl_Addr d = sc_Address flags
    \<and> dl_Token d = Some (sc_AuthToken ctx)"
  using assms by (simp add: connect_defs Let_def)

lemma token_of_context_is_sent_elsewhere_witness:
  "let env = \<lparr>ne_storage = \<lparr>sg_dir = ''/d'', sg_noSymlink = False\<rparr>, ne_fault = no_fault, ne_decode = ex_decode, ne_getenv = (\<lambda>_. [])\<rparr>;
       w = \<lparr>f_dir = True, f_nodes = [(''/d/_default.hcl'', Link ''/d/a.hcl''), (''/d/a.hcl'', Reg (ex_encode (ex_client ''a:1'' ''tok'')))]\<rparr>
   in \<exists>d. initServerClient (cli_options (ex_client ''b:2'' [])) env w = Ret w (Some d) \<and> dl_Addr d = ''b:2'' \<and> dl_Token d = Some ''tok''"
proof -
  let ?env = "\<lparr>ne_storage = \<lparr>sg_dir = ''/d'', sg_noSymlink = False\<rparr>, ne_fault = no_fault, ne_decode = ex_decode, ne_getenv = (\<lambda>_. [])\<rparr>"
  let ?w = "\<lparr>f_dir = True, f_nodes = [(''/d/_default.hcl'', Link ''/d/a.hcl''), (''/d/a.hcl'', Reg (ex_encode (ex_client ''a:1'' ''tok'')))]\<rparr>"
  have "case FromContext [] ?env ?w (zero_config\<lparr>cn_Timeout := 5000\<rparr>) of
      Ret w' c \<Rightarrow> w' = ?w \<and> c = apply_context (ex_client ''a:1'' ''tok'') (zero_config\<lparr>cn_Timeout := 5000\<rparr>) | _ \<Rightarrow> False"
    by code_simp
  then have "FromContext [] ?env ?w (zero_config\<lparr>cn_Timeout := 5000\<rparr>) = Ret ?w (apply_context (ex_client ''a:1'' ''tok'') (zero_config\<lparr>cn_Timeout := 5000\<rparr>))"
    by (simp split: outcome.splits)
  from token_of_context_is_sent_elsewhere[OF this, of "ex_client ''b:2'' []"] show ?thesis
    by (simp add: ex_client_def Let_def)
qed

end
