(* ===== verification/Commands.thy ===== *)
theory Commands
  imports GoStrconv
begin

text \<open>
  The way of a command (\<open>cli/dynamic.go\<close>, \<open>client/operation.go\<close>, \<open>runner/operation.go\<close> with \<open>operation_*.go\<close>,
  \<open>core/error.go\<close> and the functions \<open>Run\<close> of \<open>core/basis.go\<close>, \<open>project.go\<close> and \<open>target.go\<close>): from the words of the
  command line to a job, its execution in a scope, the result of the job, and back to the exit code and the output.

  Errors are values of any type \<open>'e\<close>; what gRPC and the plugins say of them is in records of functions. The bytes of a
  text that the model shows are those of the source.
\<close>

section \<open>Errors of a command\<close>

text \<open>A status with the kinds of details that the code looks at, and an error that carries the exit code of a command.\<close>

datatype detail = LocalizedMessage string | OtherDetail

record gstatus =
  st_Code :: nat
  st_Message :: string
  st_Details :: "detail list"

record 'e runError =
  re_err :: "'e option"
  re_exitCode :: "32 word"
  re_status :: "gstatus option"

datatype 'e run_failure = PlainError 'e | CommandError "'e runError"

definition runError_Error :: "('e \<Rightarrow> string) \<Rightarrow> 'e runError \<Rightarrow> string" where
  "runError_Error text r =
     (case re_err r of Some e \<Rightarrow> text e | None \<Rightarrow> ''non-zero exit code: '' @ FormatInt (sint (re_exitCode r)))"

definition failure_text :: "('e \<Rightarrow> string) \<Rightarrow> 'e run_failure \<Rightarrow> string" where
  "failure_text text f = (case f of PlainError e \<Rightarrow> text e | CommandError r \<Rightarrow> runError_Error text r)"

section \<open>Run\<close>

text \<open>A task names a component and is a line of words. \<open>cs_find\<close> builds the command, \<open>cs_call\<close> calls it and answers with a
  result, if it has one, and an error, if there is one; \<open>cs_status\<close> is \<open>status.FromError\<close>, \<open>cs_text\<close> the text of an error.\<close>

record task =
  tk_Command :: string
  tk_Component :: string

record ('e, 'c) command_env =
  cs_find :: "string \<Rightarrow> 'e + 'c"
  cs_call :: "'c \<Rightarrow> string list \<Rightarrow> 32 word option \<times> 'e option"
  cs_status :: "'e \<Rightarrow> gstatus option"
  cs_text :: "'e \<Rightarrow> string"

definition basis_Run :: "('e, 'c) command_env \<Rightarrow> task \<Rightarrow> 'e run_failure option" where
  "basis_Run env t =
     (case cs_find env (tk_Component t) of
        Inl e \<Rightarrow> Some (PlainError e)
      | Inr cmd \<Rightarrow>
          (case cs_call env cmd (split_on (CHR '' '') (tk_Command t)) of
             (result, err) \<Rightarrow>
               (if err \<noteq> None \<or> result = None \<or> result \<noteq> Some 0
                then Some (CommandError \<lparr>re_err = err, re_exitCode = (case result of None \<Rightarrow> 0 | Some r \<Rightarrow> r), re_status = None\<rparr>)
                else None)))"

text \<open>A project keeps the status of an error, when it has one.\<close>

definition project_Run :: "('e, 'c) command_env \<Rightarrow> task \<Rightarrow> 'e run_failure option" where
  "project_Run env t =
     (case cs_find env (tk_Component t) of
        Inl e \<Rightarrow> Some (PlainError e)
      | Inr cmd \<Rightarrow>
          (case cs_call env cmd (split_on (CHR '' '') (tk_Command t)) of
             (result, err) \<Rightarrow>
               (if err \<noteq> None \<or> result = None \<or> result \<noteq> Some 0
                then Some (CommandError
                       \<lparr>re_err = err, re_exitCode = (case result of None \<Rightarrow> 0 | Some r \<Rightarrow> r),
                        re_status = (case err of None \<Rightarrow> None | Some e \<Rightarrow> cs_status env e)\<rparr>)
                else None)))"

definition target_Run :: "('e, 'c) command_env \<Rightarrow> task \<Rightarrow> 'e run_failure option" where
  "target_Run env t =
     (case cs_find env (tk_Component t) of
        Inl e \<Rightarrow> Some (PlainError e)
      | Inr cmd \<Rightarrow>
          (case cs_call env cmd (split_on (CHR '' '') (tk_Command t)) of
             (result, err) \<Rightarrow>
               (if err \<noteq> None \<or> result = None \<or> result \<noteq> Some 0
                then Some (CommandError \<lparr>re_err = err, re_exitCode = (case result of None \<Rightarrow> 0 | Some r \<Rightarrow> r), re_status = None\<rparr>)
                else None)))"

text \<open>What a basis tells about its commands: the first information of a component gets the option whether it is primary.\<close>

record command_info =
  ci_Name :: string
  ci_Primary :: bool

fun RunInit :: "('e + command_info list) list \<times> bool list \<Rightarrow> (unit, 'e, command_info list) outcome" where
  "RunInit (Inl e # cs, ps) = Fail () e"
| "RunInit (Inr [] # cs, ps) = Crash ''index out of range''"
| "RunInit (Inr (i # is) # cs, p # ps) = bind_o (RunInit (cs, ps)) (\<lambda>_ r. Ret () (i\<lparr>ci_Primary := p\<rparr> # is @ r))"
| "RunInit (Inr (i # is) # cs, []) = Crash ''interface conversion''"
| "RunInit ([], ps) = Ret () []"

section \<open>Jobs and their results\<close>

text \<open>References of a scope; a message field that is not set is \<open>None\<close>.\<close>

record project_ref =
  pf_Name :: string
  pf_Basis :: "string option"

record target_ref =
  tf_Name :: string
  tf_Project :: "project_ref option"

datatype job_scope = ScopeNone | ScopeBasis "string option" | ScopeProject project_ref | ScopeTarget target_ref

datatype job_op =
    OpNone | OpNoop | OpInit | OpInitProject | OpInitBasis | OpCommand task | OpAuth | OpDocs | OpValidate

record job_msg =
  jm_Scope :: job_scope
  jm_Operation :: job_op

record command_result =
  cr_RunResult :: bool
  cr_RunError :: "gstatus option"
  cr_ExitCode :: "32 word"

text \<open>The documentation of a component.\<close>

record doc_field =
  df_Field :: string
  df_Type :: string
  df_Optional :: bool
  df_Synopsis :: string
  df_Summary :: string
  df_Default :: string
  df_EnvVar :: string

record documentation =
  dc_Description :: string
  dc_Example :: string
  dc_Input :: string
  dc_Output :: string
  dc_Mappers :: "(string \<times> string \<times> string) list"
  dc_Fields :: "doc_field list"

record documentation_msg =
  dm_Description :: string
  dm_Example :: string
  dm_Input :: string
  dm_Output :: string
  dm_Fields :: "string \<rightharpoonup> doc_field"
  dm_Mappers :: "(string \<times> string \<times> string) list"

datatype job_result =
    ResInit "command_info list option"
  | ResBasis string
  | ResProject project_ref
  | ResRun command_result
  | ResDocs "(string \<times> documentation_msg) list"
  | ResOther

section \<open>Operations of a runner\<close>

definition unexpected_error :: "string \<Rightarrow> gstatus" where
  "unexpected_error s = \<lparr>st_Code = 2, st_Message = ''Unexpected error from run operation: '' @ s, st_Details = []\<rparr>"

definition executeRunOp :: "('e, 'c) command_env \<Rightarrow> 'e run_failure option \<Rightarrow> command_result" where
  "executeRunOp env run =
     (case run of
        None \<Rightarrow> \<lparr>cr_RunResult = True, cr_RunError = None, cr_ExitCode = 0\<rparr>
      | Some (CommandError r) \<Rightarrow> \<lparr>cr_RunResult = False, cr_RunError = re_status r, cr_ExitCode = re_exitCode r\<rparr>
      | Some (PlainError e) \<Rightarrow> \<lparr>cr_RunResult = False, cr_RunError = Some (unexpected_error (cs_text env e)), cr_ExitCode = 1\<rparr>)"

text \<open>A component has a name, unless it has no information, and documentation, unless it has none.\<close>

definition docs_message :: "documentation \<Rightarrow> documentation_msg" where
  "docs_message d =
     \<lparr>dm_Description = dc_Description d, dm_Example = dc_Example d, dm_Input = dc_Input d, dm_Output = dc_Output d,
      dm_Fields = fold (\<lambda>f m. m(df_Field f \<mapsto> f)) (dc_Fields d) Map.empty, dm_Mappers = dc_Mappers d\<rparr>"

fun docs_results ::
  "(string option \<times> ('e + documentation option)) list \<Rightarrow> 'e + (string \<times> documentation_msg) list" where
  "docs_results [] = Inr []"
| "docs_results ((None, d) # cs) = docs_results cs"
| "docs_results ((Some n, Inl e) # cs) = Inl e"
| "docs_results ((Some n, Inr None) # cs) = docs_results cs"
| "docs_results ((Some n, Inr (Some d)) # cs) =
     (case docs_results cs of Inl e \<Rightarrow> Inl e | Inr rs \<Rightarrow> Inr ((n, docs_message d) # rs))"

text \<open>A runner: how the objects of a scope are loaded (\<open>rn_basis\<close> and so on answer with an error, if any), the commands of each
  scope, what the basis tells, the components of a project, and the channel that a noop waits for: none, closed, or not
  before the job is canceled. The last are the errors that it makes itself.\<close>

record ('e, 'c) runner =
  rn_basis :: "string \<Rightarrow> 'e option"
  rn_project :: "project_ref \<Rightarrow> 'e option"
  rn_target :: "target_ref \<Rightarrow> 'e option"
  rn_commands :: "('e, 'c) command_env"
  rn_infos :: "'e + ('e + command_info list) list \<times> bool list"
  rn_components :: "'e + (string option \<times> ('e + documentation option)) list"
  rn_noop :: "'e option option"
  rn_invalidScope :: 'e
  rn_unknownOperation :: 'e

definition executeInitOp :: "('e, 'c) runner \<Rightarrow> (unit, 'e, job_result option) outcome" where
  "executeInitOp r =
     (case rn_infos r of
        Inl e \<Rightarrow> Fail () e
      | Inr cs \<Rightarrow> bind_o (RunInit cs) (\<lambda>_ x. Ret () (Some (ResInit (Some x)))))"

text \<open>A project that was not loaded is nil.\<close>

definition executeInitProjectOp :: "project_ref option \<Rightarrow> (unit, 'e, job_result option) outcome" where
  "executeInitProjectOp p =
     (case p of None \<Rightarrow> Crash ''nil pointer dereference'' | Some p \<Rightarrow> Ret () (Some (ResProject p)))"

definition executeInitBasisOp :: "string \<Rightarrow> (unit, 'e, job_result option) outcome" where
  "executeInitBasisOp b = Ret () (Some (ResBasis b))"

definition executeAuthOp :: "(unit, 'e, job_result option) outcome" where
  "executeAuthOp = Ret () None"

definition executeDocsOp :: "('e, 'c) runner \<Rightarrow> project_ref option \<Rightarrow> (unit, 'e, job_result option) outcome" where
  "executeDocsOp r p =
     (case p of
        None \<Rightarrow> Crash ''nil pointer dereference''
      | Some _ \<Rightarrow>
          (case rn_components r of
             Inl e \<Rightarrow> Fail () e
           | Inr cs \<Rightarrow> (case docs_results cs of Inl e \<Rightarrow> Fail () e | Inr rs \<Rightarrow> Ret () (Some (ResDocs rs)))))"

text \<open>The references of a scope: the basis, the project and the target.\<close>

definition scope_refs ::
  "'e \<Rightarrow> job_scope \<Rightarrow> (unit, 'e, string option \<times> project_ref option \<times> target_ref option) outcome" where
  "scope_refs invalid s =
     (case s of
        ScopeNone \<Rightarrow> Fail () invalid
      | ScopeBasis b \<Rightarrow> Ret () (b, None, None)
      | ScopeProject p \<Rightarrow> Ret () (pf_Basis p, Some p, None)
      | ScopeTarget t \<Rightarrow>
          (case tf_Project t of
             None \<Rightarrow> Crash ''nil pointer dereference''
           | Some p \<Rightarrow> Ret () (pf_Basis p, Some p, Some t)))"

definition load_scope :: "('e, 'c) runner \<Rightarrow> string option \<times> project_ref option \<times> target_ref option \<Rightarrow> (unit, 'e, unit) outcome" where
  "load_scope r refs =
     (case refs of (b, p, t) \<Rightarrow>
        (case b of
           None \<Rightarrow> Crash ''nil pointer dereference''
         | Some b \<Rightarrow>
             (case rn_basis r b of
                Some e \<Rightarrow> Fail () e
              | None \<Rightarrow>
                  (case (case p of None \<Rightarrow> None | Some p \<Rightarrow> rn_project r p) of
                     Some e \<Rightarrow> Fail () e
                   | None \<Rightarrow>
                       (case (case t of None \<Rightarrow> None | Some t \<Rightarrow> rn_target r t) of
                          Some e \<Rightarrow> Fail () e
                        | None \<Rightarrow> Ret () ())))))"

definition run_in :: "('e, 'c) command_env \<Rightarrow> project_ref option \<Rightarrow> target_ref option \<Rightarrow> task \<Rightarrow> 'e run_failure option" where
  "run_in env p t tk =
     (if t \<noteq> None then target_Run env tk else if p \<noteq> None then project_Run env tk else basis_Run env tk)"

definition executeJob :: "('e, 'c) runner \<Rightarrow> job_msg \<Rightarrow> (unit, 'e, job_result option) outcome" where
  "executeJob r j =
     bind_o (scope_refs (rn_invalidScope r) (jm_Scope j))
       (\<lambda>_ (b, p, t). bind_o (load_scope r (b, p, t))
         (\<lambda>_ _. case jm_Operation j of
            OpNoop \<Rightarrow> (case rn_noop r of Some (Some e) \<Rightarrow> Fail () e | _ \<Rightarrow> Ret () None)
          | OpInit \<Rightarrow> executeInitOp r
          | OpInitProject \<Rightarrow> executeInitProjectOp p
          | OpInitBasis \<Rightarrow> executeInitBasisOp (the b)
          | OpCommand tk \<Rightarrow> Ret () (Some (ResRun (executeRunOp (rn_commands r) (run_in (rn_commands r) p t tk))))
          | OpAuth \<Rightarrow> executeAuthOp
          | OpDocs \<Rightarrow> executeDocsOp r p
          | _ \<Rightarrow> Fail () (rn_unknownOperation r)))"

section \<open>Operations of a client\<close>

text \<open>\<open>doJob\<close> queues a job and follows it; it answers with the result of the job, which may be nil, and its error. Every
  operation makes a job, lets the command line set its scope, and takes its own field of the result. A field that the
  result does not have is nil.\<close>

type_synonym 'e do_job = "job_msg \<Rightarrow> (unit, 'e, job_result option) outcome"

definition client_op ::
  "'e do_job \<Rightarrow> job_op \<Rightarrow> (job_msg \<Rightarrow> job_msg) option \<Rightarrow> (job_result \<Rightarrow> 'a option) \<Rightarrow> (unit, 'e, 'a option) outcome" where
  "client_op doJob oper modifier field =
     bind_o (doJob (case modifier of None \<Rightarrow> \<lparr>jm_Scope = ScopeNone, jm_Operation = oper\<rparr>
                                   | Some f \<Rightarrow> f \<lparr>jm_Scope = ScopeNone, jm_Operation = oper\<rparr>))
       (\<lambda>_ result. case result of None \<Rightarrow> Crash ''nil pointer dereference'' | Some r \<Rightarrow> Ret () (field r))"

definition Client_Validate :: "'e do_job \<Rightarrow> (job_msg \<Rightarrow> job_msg) option \<Rightarrow> (unit, 'e, unit option) outcome" where
  "Client_Validate doJob m = client_op doJob OpValidate m (\<lambda>_. None)"

definition Client_Commands :: "'e do_job \<Rightarrow> (job_msg \<Rightarrow> job_msg) option \<Rightarrow> (unit, 'e, command_info list option) outcome" where
  "Client_Commands doJob m = client_op doJob OpInit m (\<lambda>r. case r of ResInit x \<Rightarrow> x | _ \<Rightarrow> None)"

definition Client_Command :: "'e do_job \<Rightarrow> task \<Rightarrow> (job_msg \<Rightarrow> job_msg) option \<Rightarrow> (unit, 'e, command_result option) outcome" where
  "Client_Command doJob t m = client_op doJob (OpCommand t) m (\<lambda>r. case r of ResRun x \<Rightarrow> Some x | _ \<Rightarrow> None)"

definition Client_Auth :: "'e do_job \<Rightarrow> (job_msg \<Rightarrow> job_msg) option \<Rightarrow> (unit, 'e, unit option) outcome" where
  "Client_Auth doJob m = client_op doJob OpAuth m (\<lambda>_. None)"

definition Client_Docs ::
  "'e do_job \<Rightarrow> (job_msg \<Rightarrow> job_msg) option \<Rightarrow> (unit, 'e, (string \<times> documentation_msg) list option) outcome" where
  "Client_Docs doJob m = client_op doJob OpDocs m (\<lambda>r. case r of ResDocs x \<Rightarrow> Some x | _ \<Rightarrow> None)"

text \<open>These two need a modifier, and look into the field.\<close>

definition BasisInit :: "'e do_job \<Rightarrow> (job_msg \<Rightarrow> job_msg) option \<Rightarrow> (unit, 'e, string) outcome" where
  "BasisInit doJob m =
     (if m = None then Crash ''nil function''
      else bind_o (client_op doJob OpInitBasis m (\<lambda>r. case r of ResBasis b \<Rightarrow> Some b | _ \<Rightarrow> None))
             (\<lambda>_ b. case b of None \<Rightarrow> Crash ''nil pointer dereference'' | Some b \<Rightarrow> Ret () b))"

definition ProjectInit :: "'e do_job \<Rightarrow> (job_msg \<Rightarrow> job_msg) option \<Rightarrow> (unit, 'e, project_ref) outcome" where
  "ProjectInit doJob m =
     (if m = None then Crash ''nil function''
      else bind_o (client_op doJob OpInitProject m (\<lambda>r. case r of ResProject p \<Rightarrow> Some p | _ \<Rightarrow> None))
             (\<lambda>_ p. case p of None \<Rightarrow> Crash ''nil pointer dereference'' | Some p \<Rightarrow> Ret () p))"

definition Client_Noop :: "'e do_job \<Rightarrow> (unit, 'e, unit) outcome" where
  "Client_Noop doJob = bind_o (doJob \<lparr>jm_Scope = ScopeNone, jm_Operation = OpNoop\<rparr>) (\<lambda>_ _. Ret () ())"

section \<open>A command of the command line\<close>

text \<open>The scope of a job: the project, else the basis.\<close>

definition base_Modifier :: "project_ref option \<Rightarrow> string option \<Rightarrow> job_msg \<Rightarrow> job_msg" where
  "base_Modifier project basis j =
     (case project of
        Some p \<Rightarrow> j\<lparr>jm_Scope := ScopeProject p\<rparr>
      | None \<Rightarrow> (case basis of Some b \<Rightarrow> j\<lparr>jm_Scope := ScopeBasis (Some b)\<rparr> | None \<Rightarrow> j))"

text \<open>The values of the flags that were given, by the type of the flag; a flag of another type is passed without a value.\<close>

datatype flag_value = FVBool bool | FVString string | FVOther

datatype flag_type = FlagBool | FlagString | FlagOther

record cmd_flag =
  cf_Name :: string
  cf_Value :: "flag_value option"

fun command_flag :: "string \<times> flag_type \<times> flag_value \<Rightarrow> cmd_flag option" where
  "command_flag (n, FlagBool, v) = (case v of FVBool b \<Rightarrow> Some \<lparr>cf_Name = n, cf_Value = Some v\<rparr> | _ \<Rightarrow> None)"
| "command_flag (n, FlagString, v) = (case v of FVString s \<Rightarrow> Some \<lparr>cf_Name = n, cf_Value = Some v\<rparr> | _ \<Rightarrow> None)"
| "command_flag (n, FlagOther, v) = Some \<lparr>cf_Name = n, cf_Value = None\<rparr>"

fun command_flags :: "(string \<times> flag_type \<times> flag_value) list \<Rightarrow> cmd_flag list option" where
  "command_flags [] = Some []"
| "command_flags (f # fs) =
     (case command_flag f of None \<Rightarrow> None | Some c \<Rightarrow> map_option ((#) c) (command_flags fs))"

text \<open>The messages of a result, of the user or unexpected.\<close>

definition localized :: "detail list \<Rightarrow> string list" where
  "localized ds = concat (map (\<lambda>d. case d of LocalizedMessage m \<Rightarrow> [m] | OtherDetail \<Rightarrow> []) ds)"

text \<open>The error of a status (\<open>FromProto\<close>, \<open>Err\<close>): none when it is nil or its code is 0.\<close>

definition status_error :: "gstatus option \<Rightarrow> gstatus option" where
  "status_error s = (case s of None \<Rightarrow> None | Some s \<Rightarrow> if st_Code s = 0 then None else Some s)"

definition status_details :: "gstatus option \<Rightarrow> detail list" where
  "status_details s = (case s of None \<Rightarrow> [] | Some s \<Rightarrow> st_Details s)"

text \<open>What is shown for an error. \<open>text\<close> is the text of an error of the client, \<open>stext\<close> that of a status.\<close>

definition failed_unexpectedly :: "string \<Rightarrow> string \<Rightarrow> string list" where
  "failed_unexpectedly name e = [''Running of task '' @ name @ '' failed unexpectedly'' @ [CHR 0x0A], ''Error: '' @ e]"

text \<open>The exit code and the output. The first argument tells whether \<open>Init\<close> succeeded.\<close>

definition DynamicCommand_Run ::
  "bool \<Rightarrow> string \<Rightarrow> (string \<times> flag_type \<times> flag_value) list \<Rightarrow> ('e \<Rightarrow> string) \<Rightarrow> (gstatus \<Rightarrow> string) \<Rightarrow>
     (cmd_flag list \<Rightarrow> (unit, 'e, command_result option) outcome) \<Rightarrow> (string list, unit, int) outcome" where
  "DynamicCommand_Run init name flagData text stext command =
     (if \<not> init then Ret [] 1
      else (case command_flags flagData of
              None \<Rightarrow> Crash ''interface conversion''
            | Some fs \<Rightarrow>
                (case command fs of
                   Crash m \<Rightarrow> Crash m
                 | Fail _ e \<Rightarrow> Ret (failed_unexpectedly name (text e)) (-1)
                 | Ret _ None \<Rightarrow> Crash ''nil pointer dereference''
                 | Ret _ (Some r) \<Rightarrow>
                     (if cr_RunResult r then Ret [] (sint (cr_ExitCode r))
                      else (let ms = localized (status_details (cr_RunError r))
                            in if ms \<noteq> [] then Ret ms 1
                               else (case status_error (cr_RunError r) of
                                       Some e \<Rightarrow> Ret (failed_unexpectedly name (stext e)) (-1)
                                     | None \<Rightarrow> Ret [] (sint (cr_ExitCode r))))))))"

end
