(* ===== verification/CliBase.thy ===== *)
theory CliBase
  imports FlagSet Commands Connection "HOL-Library.List_Lexorder"
begin

text \<open>
  The command line itself (\<open>cli/main.go\<close>, \<open>cli/base.go\<close>, \<open>cli/version.go\<close>) and the set-up of a client
  (\<open>client/client.go\<close>): the level of the log, the flags that all commands share and their parsing with the sets of
  \<open>internal/flags\<close>, the base command with its basis and project, the table of commands, and the exit code.

  The plugins of the SDK, \<open>mitchellh/cli\<close>, the log and the terminal are arguments or are left out; what a step does is
  visible in its result.
\<close>

section \<open>The level of the log\<close>

text \<open>The levels of \<open>hclog\<close> in their order; 0 is no level.\<close>

definition level_Trace :: nat where "level_Trace = 1"
definition level_Debug :: nat where "level_Debug = 2"
definition level_Info :: nat where "level_Info = 3"

record log_state =
  lg_level :: nat
  lg_VAGRANT_LOG :: string
  lg_verbose :: bool
  lg_notices :: "string list"
  lg_args :: "string list"

definition raise_level :: "nat \<Rightarrow> string \<Rightarrow> log_state \<Rightarrow> log_state" where
  "raise_level l name st =
     (if lg_level st = 0 \<or> lg_level st > l then st\<lparr>lg_level := l, lg_VAGRANT_LOG := name\<rparr> else st)"

definition log_arg :: "string \<Rightarrow> log_state \<Rightarrow> log_state" where
  "log_arg arg st =
     (if arg \<noteq> [] \<and> hd arg \<noteq> CHR ''-'' then st\<lparr>lg_args := lg_args st @ [arg]\<rparr>
      else if arg = ''-V'' then raise_level level_Info ''info'' st
      else if arg = ''-VV'' then raise_level level_Debug ''debug'' st
      else if arg = ''-VVV'' then raise_level level_Trace ''trace'' st
      else if arg = ''-VVVV'' then (raise_level level_Trace ''trace'' st)\<lparr>lg_verbose := True\<rparr>
      else if arg = ''--debug'' then raise_level level_Debug ''debug'' st
      else if arg = ''--timestamp'' then st\<lparr>lg_notices := lg_notices st @ [''--timestamp'']\<rparr>
      else if arg = ''--debug-timestamp''
        then (raise_level level_Debug ''debug'' st)\<lparr>lg_notices := lg_notices st @ [''--debug-timestamp'']\<rparr>
      else st\<lparr>lg_args := lg_args st @ [arg]\<rparr>)"

text \<open>\<open>levelOf\<close> is \<open>hclog.LevelFromString\<close>.\<close>

definition logger :: "(string \<Rightarrow> nat) \<Rightarrow> (string \<Rightarrow> string) \<Rightarrow> string list \<Rightarrow> (unit, string, log_state) outcome" where
  "logger levelOf getenv args =
     (if args = [] then Crash ''index out of range''
      else (let v = getenv ''VAGRANT_LOG_LEVEL''; level = (if v = [] then 0 else levelOf v)
            in if v \<noteq> [] \<and> level = 0 then Fail () (''VAGRANT_LOG_LEVEL value '' @ v @ '' is not a valid log level'')
               else Ret () (fold log_arg args
                      \<lparr>lg_level = level,
                       lg_VAGRANT_LOG = (if getenv ''VAGRANT_LOG'' = [] then ''fatal'' else getenv ''VAGRANT_LOG''),
                       lg_verbose = False, lg_notices = [], lg_args = []\<rparr>)))"

text \<open>Long trace lines are left out (\<open>exclude\<close>); the numbers are the lengths of the arguments of a line.\<close>

definition log_exclude :: "bool \<Rightarrow> nat \<Rightarrow> nat list \<Rightarrow> bool" where
  "log_exclude verbose level lens = (level = level_Trace \<and> \<not> verbose \<and> list_ex (\<lambda>n. n > 150) lens)"

section \<open>The flags of a command\<close>

record flag_def =
  fd_LongName :: string
  fd_ShortName :: string
  fd_Description :: string
  fd_DefaultValue :: string
  fd_Aliases :: "string list"
  fd_Type :: flag_type

definition mk_flag :: "string \<Rightarrow> string \<Rightarrow> string \<Rightarrow> flag_type \<Rightarrow> flag_def" where
  "mk_flag n d v t = \<lparr>fd_LongName = n, fd_ShortName = [], fd_Description = d, fd_DefaultValue = v, fd_Aliases = [], fd_Type = t\<rparr>"

unbundle bit_operations_syntax

definition flagSetNone :: nat where "flagSetNone = 1"
definition flagSetOperation :: nat where "flagSetOperation = 2"
definition flagSetConnection :: nat where "flagSetConnection = 4"

definition flagSet :: "nat \<Rightarrow> (flag_def list \<Rightarrow> flag_def list) option \<Rightarrow> flag_def list" where
  "flagSet bits f =
     (let s = [mk_flag ''color'' ''Can be used to disable colored output'' ''true'' FlagBool,
               mk_flag ''basis'' ''Basis to operate within'' ''default'' FlagString,
               mk_flag ''target'' ''Target to apply command'' [] FlagString,
               mk_flag ''interactive'' ''Enable non-interactive output'' ''true'' FlagBool,
               mk_flag ''machine-readable'' ''Target to apply command'' ''false'' FlagBool];
          s = s @ (if bits AND flagSetOperation \<noteq> 0
                   then [mk_flag ''remote'' ''Use remote runner to execute'' ''false'' FlagBool,
                         mk_flag ''remote-source'' ''Override how remote runners source data'' [] FlagString] else []);
          s = s @ (if bits AND flagSetConnection \<noteq> 0
                   then [mk_flag ''server-addr'' ''Address for the server'' [] FlagString,
                         mk_flag ''server-tls'' ''Connect to server via TLS'' ''true'' FlagBool,
                         mk_flag ''server-tls-skip-verify'' ''Skip verification of the TLS certificate advertised by the server'' ''false'' FlagBool]
                   else [])
      in case f of None \<Rightarrow> s | Some f \<Rightarrow> f s)"

text \<open>The set of flags of \<open>internal/flags\<close> for a list of flags; a flag of another type is not added.\<close>

definition flag_modifiers :: "flag_def \<Rightarrow> 'fl modifier list" where
  "flag_modifiers f =
     (if fd_Description f \<noteq> [] then [Description (fd_Description f)] else [])
     @ (if fd_ShortName f \<noteq> [] then [ShortName (of_char (hd (fd_ShortName f)))] else [])
     @ (if fd_Aliases f \<noteq> [] then [Alias (fd_Aliases f)] else [])"

definition parsed_default :: "string \<Rightarrow> bool" where
  "parsed_default s = (case ParseBool s of Inr b \<Rightarrow> b | Inl _ \<Rightarrow> False)"

definition add_cli_flag :: "nat \<Rightarrow> flag_def \<Rightarrow> 'fl world \<Rightarrow> ('fl, unit) wresult" where
  "add_cli_flag s f w =
     (case DefaultGroup s w of
        None \<Rightarrow> Crash ''nil pointer dereference''
      | Some g \<Rightarrow>
          (case fd_Type f of
             FlagBool \<Rightarrow>
               bind_o (Group_Bool g (fd_LongName f) (flag_modifiers f @ [DefaultValue (VBool (parsed_default (fd_DefaultValue f)))]) w)
                 (\<lambda>w _. Ret w ())
           | FlagString \<Rightarrow>
               bind_o (Group_String g (fd_LongName f)
                         (flag_modifiers f @ (if fd_DefaultValue f \<noteq> [] then [DefaultValue (VString (fd_DefaultValue f))] else [])) w)
                 (\<lambda>w _. Ret w ())
           | FlagOther \<Rightarrow> Ret w ()))"

fun add_cli_flags :: "nat \<Rightarrow> flag_def list \<Rightarrow> 'fl world \<Rightarrow> ('fl, unit) wresult" where
  "add_cli_flags s [] w = Ret w ()"
| "add_cli_flags s (f # fs) w = bind_o (add_cli_flag s f w) (\<lambda>w _. add_cli_flags s fs w)"

definition generateCliFlags :: "flag_def list \<Rightarrow> 'fl world \<Rightarrow> ('fl, nat) wresult" where
  "generateCliFlags fs w =
     bind_o (NewSet ''flags'' [SetErrorMode ReturnOnError, SetUnknownMode ErrorOnUnknown] w)
       (\<lambda>w s. bind_o (add_cli_flags s fs w) (\<lambda>w _. Ret w s))"

section \<open>Parsing\<close>

text \<open>What a command keeps of its flags; \<open>bf_Data\<close> are the values of the flags that were given.\<close>

record 'fl base_flags =
  bf_Basis :: string
  bf_Color :: bool
  bf_Target :: string
  bf_Remote :: bool
  bf_Interactive :: bool
  bf_MachineReadable :: bool
  bf_Data :: "(flag_def \<times> 'fl val) list"

definition no_flags :: "'fl base_flags" where
  "no_flags = \<lparr>bf_Basis = [], bf_Color = False, bf_Target = [], bf_Remote = False, bf_Interactive = False,
     bf_MachineReadable = False, bf_Data = []\<rparr>"

text \<open>A value is put into the field of its flag; the wrong type panics.\<close>

definition set_base_flag :: "string \<Rightarrow> 'fl val \<Rightarrow> 'fl base_flags \<Rightarrow> 'fl base_flags option" where
  "set_base_flag n v b =
     (if n = ''basis'' then (case v of VString s \<Rightarrow> Some (b\<lparr>bf_Basis := s\<rparr>) | _ \<Rightarrow> None)
      else if n = ''color'' then (case v of VBool x \<Rightarrow> Some (b\<lparr>bf_Color := x\<rparr>) | _ \<Rightarrow> None)
      else if n = ''target'' then (case v of VString s \<Rightarrow> Some (b\<lparr>bf_Target := s\<rparr>) | _ \<Rightarrow> None)
      else if n = ''remote'' then (case v of VBool x \<Rightarrow> Some (b\<lparr>bf_Remote := x\<rparr>) | _ \<Rightarrow> None)
      else if n = ''interactive'' then (case v of VBool x \<Rightarrow> Some (b\<lparr>bf_Interactive := x\<rparr>) | _ \<Rightarrow> None)
      else if n = ''machine-readable'' then (case v of VBool x \<Rightarrow> Some (b\<lparr>bf_MachineReadable := x\<rparr>) | _ \<Rightarrow> None)
      else Some b)"

definition set_default_flag :: "string \<Rightarrow> 'fl val \<Rightarrow> 'fl base_flags \<Rightarrow> 'fl base_flags option" where
  "set_default_flag n v b = (if n = ''target'' \<and> v = VNil then Some b else set_base_flag n v b)"

text \<open>The value of a flag that was given replaces the one that the same flag had before.\<close>

definition put_data :: "flag_def \<Rightarrow> 'fl val \<Rightarrow> 'fl base_flags \<Rightarrow> 'fl base_flags" where
  "put_data f v b = b\<lparr>bf_Data := filter (\<lambda>(g, _). g \<noteq> f) (bf_Data b) @ [(f, v)]\<rparr>"

fun read_flags :: "nat \<Rightarrow> flag_def list \<Rightarrow> 'fl world \<Rightarrow> 'fl base_flags \<Rightarrow> ('fl base_flags, set_error, unit) outcome" where
  "read_flags s [] w b = Ret b ()"
| "read_flags s (f # fs) w b =
     (case Set_Flag s (fd_LongName f) w of
        Inl e \<Rightarrow> Fail b e
      | Inr a \<Rightarrow>
          (case set_default_flag (fd_LongName f) (f_defaultValue (the_flag a w)) b of
             None \<Rightarrow> Crash ''interface conversion''
           | Some b \<Rightarrow>
               (if \<not> f_updated (the_flag a w) then read_flags s fs w b
                else (case flag_Value (w_cells w, the_flag a w) of
                        None \<Rightarrow> Crash ''invalid variable type''
                      | Some v \<Rightarrow>
                          (case set_base_flag (fd_LongName f) v b of
                             None \<Rightarrow> Crash ''interface conversion''
                           | Some b \<Rightarrow> read_flags s fs w (put_data f v b))))))"

text \<open>Every parse makes a new set in an empty store.\<close>

definition base_Parse ::
  "'fl goenv \<Rightarrow> flag_def list \<Rightarrow> string list \<Rightarrow> bool \<Rightarrow> 'fl base_flags \<Rightarrow> ('fl base_flags, set_error, string list) outcome" where
  "base_Parse env fs args passThrough b =
     (case generateCliFlags fs \<lparr>w_cells = [], w_flags = [], w_groups = [], w_sets = []\<rparr> of
        Crash m \<Rightarrow> Crash m
      | Fail _ e \<Rightarrow> Fail b e
      | Ret w s \<Rightarrow>
          (case Parse env s args (if passThrough then upd_set s (SetUnknownMode PassOnUnknown) w else w) of
             Crash m \<Rightarrow> Crash m
           | Fail _ e \<Rightarrow> Fail b e
           | Ret w remaining \<Rightarrow> bind_o (read_flags s fs w b) (\<lambda>b _. Ret b remaining)))"

text \<open>The terminal that the flags ask for.\<close>

datatype ui_kind = MachineReadableUI | NonInteractiveUI | BasicUI | ConsoleUI

definition choose_ui :: "'fl base_flags \<Rightarrow> ui_kind \<Rightarrow> ui_kind" where
  "choose_ui b dflt =
     (if bf_MachineReadable b then MachineReadableUI else if \<not> bf_Interactive b then NonInteractiveUI
      else if \<not> bf_Color b then BasicUI else dflt)"

section \<open>Init\<close>

datatype cli_error = FlagError set_error | RemoteNotSupported | TargetWithoutProject | OtherFailure string

text \<open>\<open>Init\<close> has neither a target nor a configuration with an enabled runner. The options are the arguments, the flags and
  the terminal (\<open>option.go\<close>).\<close>

record cli_options_rec =
  co_Args :: "string list"
  co_Flags :: "flag_def list"
  co_UI :: "ui_kind option"

definition cli_Init ::
  "'fl goenv \<Rightarrow> cli_options_rec \<Rightarrow> 'fl base_flags \<Rightarrow> ('fl base_flags \<times> ui_kind, cli_error, string list) outcome" where
  "cli_Init env opts b =
     (let ui = choose_ui b (case co_UI opts of Some u \<Rightarrow> u | None \<Rightarrow> ConsoleUI)
      in case base_Parse env (co_Flags opts) (co_Args opts) False b of
           Crash m \<Rightarrow> Crash m
         | Fail b e \<Rightarrow> Fail (b, ui) (FlagError e)
         | Ret b args \<Rightarrow> (if bf_Remote b then Fail (b, ui) RemoteNotSupported else Ret (b, ui) args))"

definition DynamicCommand_Flags :: "flag_def list \<Rightarrow> flag_def list" where
  "DynamicCommand_Flags own = flagSet flagSetOperation (Some (\<lambda>opts. own @ opts))"

definition VersionCommand_Flags :: "flag_def list" where
  "VersionCommand_Flags = flagSet 0 None"

definition VersionCommand_Run :: "'fl goenv \<Rightarrow> string \<Rightarrow> string list \<Rightarrow> 'fl base_flags \<Rightarrow> (string list, unit, int) outcome" where
  "VersionCommand_Run env version args b =
     (case cli_Init env \<lparr>co_Args = args, co_Flags = VersionCommand_Flags, co_UI = None\<rparr> b of
        Crash m \<Rightarrow> Crash m | Fail _ _ \<Rightarrow> Ret [] 1 | Ret _ _ \<Rightarrow> Ret [version] 0)"

section \<open>The client\<close>

text \<open>The steps of a new client and whether each fails: the options, the connection (with its cleanups), the version, the
  Ruby runtime (with its cleanups), the runner. A client that fails is dropped: its cleanups, by name, have been
  registered and nobody runs them. The last list is what \<open>Close\<close> of the client runs.\<close>

record new_client_in =
  ni_options :: "string option"
  ni_hasClient :: bool
  ni_connect :: "string + string list"
  ni_version :: "string option"
  ni_hasRuntime :: bool
  ni_runtime :: "string + string list"
  ni_local :: bool
  ni_runner :: "string + string"

record client_state =
  cl_cleanups :: "string list"
  cl_runnerId :: "string option"

definition New_client :: "new_client_in \<Rightarrow> (string list, string, client_state) outcome" where
  "New_client i =
     (case ni_options i of
        Some e \<Rightarrow> Fail [] e
      | None \<Rightarrow>
          (case (if ni_hasClient i then Inr [] else ni_connect i) of
             Inl e \<Rightarrow> Fail [] e
           | Inr c1 \<Rightarrow>
               (case ni_version i of
                  Some e \<Rightarrow> Fail c1 e
                | None \<Rightarrow>
                    (case (if ni_hasRuntime i then Inr [] else ni_runtime i) of
                       Inl e \<Rightarrow> Fail c1 e
                     | Inr c2 \<Rightarrow>
                         (if \<not> ni_local i then Ret [] \<lparr>cl_cleanups = c1 @ c2, cl_runnerId = None\<rparr>
                          else (case ni_runner i of
                                  Inl e \<Rightarrow> Fail (c1 @ c2) e
                                | Inr rid \<Rightarrow> Ret [] \<lparr>cl_cleanups = ''runner'' # c1 @ c2, cl_runnerId = Some rid\<rparr>))))))"

text \<open>A basis or a project as the server keeps it.\<close>

record stored_obj =
  so_Name :: string
  so_Path :: string
  so_ResourceId :: string
  so_Basis :: "string option"
  so_Configuration :: "string option"

text \<open>The calls of the server, on its state: a search that may find nothing, and a put.\<close>

record 's object_server =
  os_find :: "stored_obj \<Rightarrow> 's \<Rightarrow> string + stored_obj option"
  os_upsert :: "stored_obj \<Rightarrow> 's \<Rightarrow> ('s, string, stored_obj) outcome"

text \<open>\<open>path\<close> is the directory of a basis of that name, \<open>vagrantfile\<close> the file that is found there, none when there is none.\<close>

definition LoadBasis ::
  "'s object_server \<Rightarrow> string \<Rightarrow> string + string \<Rightarrow> string + string option \<Rightarrow> 's \<Rightarrow> ('s, string, stored_obj) outcome" where
  "LoadBasis srv n path vagrantfile s =
     (case path of
        Inl e \<Rightarrow> Fail s e
      | Inr p \<Rightarrow>
          (case vagrantfile of
             Inl e \<Rightarrow> Fail s e
           | Inr vf \<Rightarrow>
               (let new = \<lparr>so_Name = n, so_Path = p, so_ResourceId = [], so_Basis = None, so_Configuration = None\<rparr>
                in case os_find srv new s of
                     Inl e \<Rightarrow> Fail s e
                   | Inr hit \<Rightarrow>
                       (case vf of
                          None \<Rightarrow> Crash ''nil pointer dereference''
                        | Some f \<Rightarrow> os_upsert srv ((case hit of Some b \<Rightarrow> b | None \<Rightarrow> new)\<lparr>so_Configuration := Some f\<rparr>) s))))"

text \<open>The project of the directory that has a Vagrantfile, if there is one: the file and its directory.\<close>

definition LoadProject ::
  "'s object_server \<Rightarrow> string \<Rightarrow> string \<Rightarrow> string + (string \<times> string) option \<Rightarrow> 's \<Rightarrow> ('s, string, stored_obj option) outcome" where
  "LoadProject srv n b vagrantfile s =
     (case vagrantfile of
        Inl e \<Rightarrow> Fail s e
      | Inr None \<Rightarrow> Ret s None
      | Inr (Some (f, dir)) \<Rightarrow>
          (let new = \<lparr>so_Name = (if n = [] then dir else n), so_Path = dir, so_ResourceId = [], so_Basis = Some b, so_Configuration = None\<rparr>
           in case os_find srv new s of
                Inl e \<Rightarrow> Fail s e
              | Inr hit \<Rightarrow>
                  bind_o (os_upsert srv ((case hit of Some p \<Rightarrow> p | None \<Rightarrow> new)\<lparr>so_Configuration := Some f\<rparr>) s)
                    (\<lambda>s p. Ret s (Some p))))"

section \<open>The base command\<close>

record 'fl base_command =
  bc_Flags :: "'fl base_flags"
  bc_UI :: ui_kind
  bc_Warned :: bool
  bc_Context :: client_config
  bc_Local :: bool
  bc_Basis :: string
  bc_Project :: "project_ref option"

text \<open>What the base command uses: the flags' environment, the directory of a basis and its contexts, the steps of the
  client, the server's objects, where Vagrantfiles are found, and the jobs that initialize a basis and a project.\<close>

record ('fl, 's) base_env =
  be_flags :: "'fl goenv"
  be_home :: "string \<Rightarrow> string + conn_env"
  be_client :: "bool \<Rightarrow> dialed option \<Rightarrow> new_client_in"
  be_server :: "'s object_server"
  be_basisPath :: "string \<Rightarrow> string + string"
  be_basisFile :: "string + string option"
  be_projectFile :: "string + (string \<times> string) option"
  be_doJob :: "string do_job"

definition suppress_warning :: "(string \<Rightarrow> string option) \<Rightarrow> bool" where
  "suppress_warning lookup =
     (case lookup ''VAGRANT_SUPPRESS_GO_EXPERIMENTAL_WARNING'' of
        None \<Rightarrow> False | Some v \<Rightarrow> (case ParseBool v of Inr b \<Rightarrow> b | Inl _ \<Rightarrow> False))"

text \<open>The flags of the connection are not among those that \<open>Parse\<close> keeps, so there is never a server from the flags.\<close>

definition no_connection :: client_config where
  "no_connection = \<lparr>sc_Address = [], sc_Tls = False, sc_TlsSkipVerify = False, sc_RequireAuth = False, sc_AuthToken = []\<rparr>"

definition lift_job :: "'s \<Rightarrow> (unit, string, 'a) outcome \<Rightarrow> ('s, cli_error, 'a) outcome" where
  "lift_job s r = (case r of Ret _ a \<Rightarrow> Ret s a | Fail _ e \<Rightarrow> Fail s (OtherFailure e) | Crash m \<Rightarrow> Crash m)"

definition as_cli :: "('s, string, 'a) outcome \<Rightarrow> ('s, cli_error, 'a) outcome" where
  "as_cli r = (case r of Ret s a \<Rightarrow> Ret s a | Fail s e \<Rightarrow> Fail s (OtherFailure e) | Crash m \<Rightarrow> Crash m)"

text \<open>The basis and the project of a command: loaded, then initialized by a job.\<close>

definition init_basis :: "('fl, 's) base_env \<Rightarrow> string \<Rightarrow> 's \<Rightarrow> ('s, cli_error, string) outcome" where
  "init_basis be n s =
     bind_o (as_cli (LoadBasis (be_server be) n (be_basisPath be n) (be_basisFile be) s))
       (\<lambda>s b. lift_job s (BasisInit (be_doJob be) (Some (base_Modifier None (Some (so_ResourceId b))))))"

definition init_project :: "('fl, 's) base_env \<Rightarrow> string \<Rightarrow> 's \<Rightarrow> ('s, cli_error, project_ref option) outcome" where
  "init_project be basis s =
     bind_o (as_cli (LoadProject (be_server be) [] basis (be_projectFile be) s))
       (\<lambda>s p. case p of
          None \<Rightarrow> Ret s None
        | Some p \<Rightarrow>
            bind_o (lift_job s (ProjectInit (be_doJob be)
                      (Some (base_Modifier (Some \<lparr>pf_Name = so_Name p, pf_Basis = so_Basis p\<rparr>) (Some basis)))))
              (\<lambda>s r. Ret s (Some r)))"

definition BaseCommand ::
  "('fl, 's) base_env \<Rightarrow> (string \<Rightarrow> string option) \<Rightarrow> fs \<Rightarrow> string list \<Rightarrow> 's \<Rightarrow> ('s, cli_error, 'fl base_command) outcome" where
  "BaseCommand be lookup w args s =
     (case base_Parse (be_flags be) (flagSet flagSetConnection None) args True no_flags of
        Crash m \<Rightarrow> Crash m
      | Fail _ e \<Rightarrow> Fail s (FlagError e)
      | Ret b _ \<Rightarrow>
          (case be_home be (bf_Basis b) of
             Inl e \<Rightarrow> Fail s (OtherFailure e)
           | Inr ce \<Rightarrow>
               (case ContextConfig (cli_options no_connection) ce w of
                  Crash m \<Rightarrow> Crash m
                | Fail _ e \<Rightarrow> Fail s (OtherFailure ''context'')
                | Ret w ctx \<Rightarrow>
                    (case initServerClient (cli_options no_connection) ce w of
                       Crash m \<Rightarrow> Crash m
                     | Fail _ e \<Rightarrow> Fail s (OtherFailure ''connect'')
                     | Ret _ server \<Rightarrow>
                         (case New_client (be_client be (\<not> bf_Remote b) server) of
                            Crash m \<Rightarrow> Crash m
                          | Fail _ e \<Rightarrow> Fail s (OtherFailure e)
                          | Ret _ _ \<Rightarrow>
                              bind_o (init_basis be (bf_Basis b) s)
                                (\<lambda>s basis. bind_o (init_project be basis s)
                                  (\<lambda>s project.
                                     if bf_Target b \<noteq> [] \<and> project = None then Fail s TargetWithoutProject
                                     else Ret s \<lparr>bc_Flags = b, bc_UI = choose_ui b ConsoleUI, bc_Warned = (\<not> suppress_warning lookup),
                                                 bc_Context = ctx, bc_Local = (\<not> bf_Remote b), bc_Basis = basis,
                                                 bc_Project = project\<rparr>)))))))"

section \<open>The table of commands\<close>

datatype 'f cmd_info = CmdInfo (cm_Name: string) (cm_Synopsis: string) (cm_Help: string) (cm_Flags: 'f) (cm_Primary: bool)
  (cm_Subcommands: "'f cmd_info list")

record dynamic_command =
  dy_name :: string
  dy_synopsis :: string
  dy_help :: string
  dy_flags :: "flag_def list"
  dy_primary :: bool
  dy_parents :: "string list"

datatype command = PluginCommand | VersionCommand | Dynamic dynamic_command

text \<open>The names of the parents, the outermost first, and the command's own.\<close>

fun full_name :: "string list \<Rightarrow> string \<Rightarrow> string" where
  "full_name [] n = n"
| "full_name (p # ps) n = p @ '' '' @ full_name ps n"

definition fullName :: "dynamic_command \<Rightarrow> string" where
  "fullName d = full_name (dy_parents d) (dy_name d)"

text \<open>Flags that cannot be read panic. The table is the list of entries made, the last one counts.\<close>

fun registerCommand ::
  "('f \<Rightarrow> flag_def list option) \<Rightarrow> string list \<Rightarrow> 'f cmd_info \<Rightarrow> (string \<rightharpoonup> command) \<Rightarrow> (string \<rightharpoonup> command) option"
  and registerCommands ::
  "('f \<Rightarrow> flag_def list option) \<Rightarrow> string list \<Rightarrow> 'f cmd_info list \<Rightarrow> (string \<rightharpoonup> command) \<Rightarrow> (string \<rightharpoonup> command) option" where
  "registerCommand flags parents (CmdInfo n sy h f p subs) cmds =
     (case flags f of
        None \<Rightarrow> None
      | Some fl \<Rightarrow>
          (let d = \<lparr>dy_name = n, dy_synopsis = sy, dy_help = h, dy_flags = fl, dy_primary = p, dy_parents = parents\<rparr>
           in registerCommands flags (parents @ [n]) subs (cmds(fullName d \<mapsto> Dynamic d))))"
| "registerCommands flags parents [] cmds = Some cmds"
| "registerCommands flags parents (c # cs) cmds =
     (case registerCommand flags parents c cmds of None \<Rightarrow> None | Some cmds \<Rightarrow> registerCommands flags parents cs cmds)"

definition runs_builtin :: "string list \<Rightarrow> bool" where
  "runs_builtin args \<longleftrightarrow> length args > 1 \<and> args ! 1 = ''plugin-run''"

definition commands_of :: "('f \<Rightarrow> flag_def list option) \<Rightarrow> 'f cmd_info list \<Rightarrow> (string \<rightharpoonup> command) option" where
  "commands_of flags infos =
     map_option (\<lambda>cmds. cmds(''plugin'' \<mapsto> PluginCommand, ''version'' \<mapsto> VersionCommand))
       (registerCommands flags [] infos [''plugin-run'' \<mapsto> PluginCommand, ''version'' \<mapsto> VersionCommand])"

text \<open>The commands of a run, with the base command unless a plugin is to be served; \<open>infos\<close> is the answer to the job that
  asks for them. The terminal of later commands is set by the environment.\<close>

definition cli_Commands ::
  "('fl, 's) base_env \<Rightarrow> (string \<Rightarrow> string option) \<Rightarrow> fs \<Rightarrow> ('f \<Rightarrow> flag_def list option) \<Rightarrow> (job_msg \<Rightarrow> (unit, string, 'f cmd_info list) outcome) \<Rightarrow>
     string list \<Rightarrow> 's \<Rightarrow> ('s, cli_error, ('fl base_command \<times> ui_kind option) option \<times> (string \<rightharpoonup> command)) outcome" where
  "cli_Commands be lookup w flags infos args s =
     (if runs_builtin args then Ret s (None, [''plugin-run'' \<mapsto> PluginCommand])
      else bind_o (BaseCommand be lookup w args s)
             (\<lambda>s bc. bind_o (lift_job s (infos (base_Modifier (bc_Project bc) (Some (bc_Basis bc)) \<lparr>jm_Scope = ScopeNone, jm_Operation = OpInit\<rparr>)))
               (\<lambda>s cs. case commands_of flags cs of
                  None \<Rightarrow> Crash ''invalid flags''
                | Some cmds \<Rightarrow>
                    Ret s (Some (bc, if lookup ''VAGRANT_PLAIN'' = None \<or> lookup ''VAGRANT_PLAIN'' = Some [] then None else Some NonInteractiveUI),
                           cmds))))"

text \<open>The other commands of the help: all but the common, the hidden and those that are not primary, in order.\<close>

definition commonCommands :: "string list" where
  "commonCommands = [''up'', ''destroy'', ''halt'', ''status'', ''reload'']"

definition command_primary :: "command \<Rightarrow> bool" where
  "command_primary c = (case c of PluginCommand \<Rightarrow> False | VersionCommand \<Rightarrow> True | Dynamic d \<Rightarrow> dy_primary d)"

definition otherCommands :: "(string \<times> command) list \<Rightarrow> string list" where
  "otherCommands cmds =
     sort_key (map of_char :: string \<Rightarrow> nat list)
       (map fst (filter (\<lambda>(k, c). k \<noteq> ''plugin-run'' \<and> k \<notin> set commonCommands \<and> command_primary c) cmds))"

text \<open>The exit code of the program: the code of the command, unless closing the base fails. \<open>None\<close> is a panic.\<close>

definition cli_Main :: "(unit, string, log_state) outcome \<Rightarrow> (unit, string, unit) outcome \<Rightarrow> string + int \<Rightarrow> string option \<Rightarrow> int option" where
  "cli_Main log commands run close =
     (case log of
        Ret _ _ \<Rightarrow>
          (case commands of
             Ret _ _ \<Rightarrow> (case run of Inl _ \<Rightarrow> None | Inr code \<Rightarrow> Some (if close \<noteq> None then -1 else code))
           | _ \<Rightarrow> None)
      | _ \<Rightarrow> None)"

end
