(* ===== verification/CommandClaims.thy ===== *)
theory CommandClaims
  imports CliBase
begin

text \<open>
  What a command does for its user: the exit code and the output for every outcome of the command, the level of the
  log, the table of commands, and the flags that no command accepts.
\<close>

section \<open>Exit codes\<close>

text \<open>A command of the command line: its job is executed by a runner, whose answer comes back as it is.\<close>

definition run_command ::
  "('e, 'c) runner \<Rightarrow> project_ref option \<Rightarrow> string \<Rightarrow> string \<Rightarrow> (string \<times> flag_type \<times> flag_value) list \<Rightarrow> ('e \<Rightarrow> string) \<Rightarrow>
     (gstatus \<Rightarrow> string) \<Rightarrow> task \<Rightarrow> (string list, unit, int) outcome" where
  "run_command r project basis name flagData text stext tk =
     DynamicCommand_Run True name flagData text stext
       (\<lambda>_. Client_Command (executeJob r) tk (Some (base_Modifier project (Some basis))))"

definition loads :: "('e, 'c) runner \<Rightarrow> project_ref option \<Rightarrow> string \<Rightarrow> bool" where
  "loads r project basis =
     (case project of
        None \<Rightarrow> rn_basis r basis = None
      | Some p \<Rightarrow> (case pf_Basis p of None \<Rightarrow> False | Some b \<Rightarrow> rn_basis r b = None \<and> rn_project r p = None))"

text \<open>What the client gets to know of a failure.\<close>

definition reported :: "('e, 'c) runner \<Rightarrow> project_ref option \<Rightarrow> task \<Rightarrow> command_result" where
  "reported r project tk =
     executeRunOp (rn_commands r) (if project = None then basis_Run (rn_commands r) tk else project_Run (rn_commands r) tk)"

lemma command_answer:
  "loads r project basis \<Longrightarrow> Client_Command (executeJob r) tk (Some (base_Modifier project (Some basis))) =
     Ret () (Some (reported r project tk))"
  by (cases project)
    (auto simp: loads_def Client_Command_def client_op_def base_Modifier_def executeJob_def scope_refs_def load_scope_def
      run_in_def reported_def split: option.splits)

definition exit_of :: "command_result \<Rightarrow> int" where
  "exit_of r =
     (if cr_RunResult r then sint (cr_ExitCode r)
      else if localized (status_details (cr_RunError r)) \<noteq> [] then 1
      else if status_error (cr_RunError r) \<noteq> None then -1 else sint (cr_ExitCode r))"

lemma run_exit:
  assumes "loads r project basis" and "command_flags fl = Some fs"
  shows "\<exists>out. run_command r project basis n fl text stext tk = Ret out (exit_of (reported r project tk))"
  using assms
  by (auto simp: run_command_def DynamicCommand_Run_def command_answer exit_of_def Let_def split: option.splits)

text \<open>An error that does not show in the status of the result.\<close>

definition unseen :: "('e, 'c) command_env \<Rightarrow> project_ref option \<Rightarrow> 'e \<Rightarrow> bool" where
  "unseen env project e =
     (project = None \<or> (case cs_status env e of None \<Rightarrow> True | Some st \<Rightarrow> st_Code st = 0 \<and> localized (st_Details st) = []))"

lemma reported_cases:
  "reported r project tk =
     (case cs_find (rn_commands r) (tk_Component tk) of
        Inl e \<Rightarrow> \<lparr>cr_RunResult = False, cr_RunError = Some (unexpected_error (cs_text (rn_commands r) e)), cr_ExitCode = 1\<rparr>
      | Inr c \<Rightarrow>
          (case cs_call (rn_commands r) c (split_on (CHR '' '') (tk_Command tk)) of
             (res, err) \<Rightarrow>
               \<lparr>cr_RunResult = (err = None \<and> res = Some 0),
                cr_RunError = (if project = None then None else case err of None \<Rightarrow> None | Some e \<Rightarrow> cs_status (rn_commands r) e),
                cr_ExitCode = (case res of None \<Rightarrow> 0 | Some x \<Rightarrow> x)\<rparr>))"
  by (auto simp: reported_def basis_Run_def project_Run_def executeRunOp_def split: sum.splits option.splits prod.splits)

section \<open>The level of the log\<close>

definition requested :: "string \<Rightarrow> nat option" where
  "requested a =
     (if a = ''-V'' then Some level_Info
      else if a = ''-VV'' \<or> a = ''--debug'' \<or> a = ''--debug-timestamp'' then Some level_Debug
      else if a = ''-VVV'' \<or> a = ''-VVVV'' then Some level_Trace else None)"

definition kept_arg :: "string \<Rightarrow> bool" where
  "kept_arg a \<longleftrightarrow> requested a = None \<and> a \<noteq> ''--timestamp''"

definition lower_level :: "nat \<Rightarrow> nat \<Rightarrow> nat" where
  "lower_level l r = (if l = 0 \<or> l > r then r else l)"

lemma log_arg_effect:
  "lg_level (log_arg a st) = (case requested a of None \<Rightarrow> lg_level st | Some r \<Rightarrow> lower_level (lg_level st) r)"
  "lg_args (log_arg a st) = lg_args st @ (if kept_arg a then [a] else [])"
  by (auto simp: log_arg_def requested_def kept_arg_def raise_level_def lower_level_def)

lemma log_args_effect:
  "lg_level (fold log_arg as st) = fold (\<lambda>r l. lower_level l r) (List.map_filter requested as) (lg_level st)
   \<and> lg_args (fold log_arg as st) = lg_args st @ filter kept_arg as"
  by (induction as arbitrary: st) (auto simp: log_arg_effect List.map_filter_simps split: option.split)

lemma fold_lower_level:
  "\<forall>r \<in> set rs. r > 0 \<Longrightarrow> fold (\<lambda>r l. lower_level l r) rs l =
     (if set rs \<union> (if l = 0 then {} else {l}) = {} then 0 else Min (set rs \<union> (if l = 0 then {} else {l})))"
proof (induction rs arbitrary: l)
  case (Cons r rs)
  have "fold (\<lambda>r l. lower_level l r) (r # rs) l = fold (\<lambda>r l. lower_level l r) rs (lower_level l r)" by simp
  also have "\<dots> = Min (set rs \<union> {lower_level l r})" using Cons by (simp add: lower_level_def)
  also have "\<dots> = Min (set (r # rs) \<union> (if l = 0 then {} else {l}))"
  proof (cases "l = 0")
    case False
    have "lower_level l r = min r l" using False by (simp add: lower_level_def)
    then show ?thesis using False by (cases "rs = []") (simp_all add: insert_commute min.assoc)
  qed (simp add: lower_level_def)
  finally show ?case by simp
qed simp

lemma requested_positive: "requested a = Some r \<Longrightarrow> r > 0"
  by (auto simp: requested_def level_Info_def level_Debug_def level_Trace_def split: if_splits)

section \<open>The table of commands\<close>

text \<open>The commands of a tree in the order of their registration.\<close>

fun tree_commands :: "('f \<Rightarrow> flag_def list option) \<Rightarrow> string list \<Rightarrow> 'f cmd_info \<Rightarrow> dynamic_command list"
  and forest_commands :: "('f \<Rightarrow> flag_def list option) \<Rightarrow> string list \<Rightarrow> 'f cmd_info list \<Rightarrow> dynamic_command list" where
  "tree_commands flags parents (CmdInfo n sy h f p subs) =
     \<lparr>dy_name = n, dy_synopsis = sy, dy_help = h, dy_flags = the (flags f), dy_primary = p, dy_parents = parents\<rparr>
     # forest_commands flags (parents @ [n]) subs"
| "forest_commands flags parents [] = []"
| "forest_commands flags parents (c # cs) = tree_commands flags parents c @ forest_commands flags parents cs"

definition put_commands :: "dynamic_command list \<Rightarrow> (string \<rightharpoonup> command) \<Rightarrow> (string \<rightharpoonup> command)" where
  "put_commands ds cmds = fold (\<lambda>d m. m(fullName d \<mapsto> Dynamic d)) ds cmds"

lemma register_tree:
  "registerCommand flags parents c cmds = Some cmds' \<Longrightarrow> cmds' = put_commands (tree_commands flags parents c) cmds"
  "registerCommands flags parents cs cmds = Some cmds' \<Longrightarrow> cmds' = put_commands (forest_commands flags parents cs) cmds"
  by (induction flags parents c cmds and flags parents cs cmds arbitrary: cmds' and cmds'
        rule: registerCommand_registerCommands.induct)
    (auto simp: put_commands_def Let_def split: option.splits)

lemma put_commands_last:
  "put_commands ds cmds n = (case List.find (\<lambda>d. fullName d = n) (rev ds) of None \<Rightarrow> cmds n | Some d \<Rightarrow> Some (Dynamic d))"
  unfolding put_commands_def
proof (induction ds rule: rev_induct)
  case (snoc d ds)
  then show ?case by (cases "fullName d = n") auto
qed simp

section \<open>The flags of the connection\<close>

text \<open>A long word whose flag the set does not know ends the parse, whatever positional words come before.\<close>

lemma unknown_long_word:
  assumes "s_flagMap (the_set s w) n = None" and "s_unknownHandling (the_set s w) = ErrorOnUnknown"
    and "\<forall>x \<in> set pre. \<not> HasPrefix x ''-''" and "HasPrefix word ''--''" and "word \<noteq> ''--''"
    and "(case split2 (CHR ''='') (drop 2 word) of Some (k, v) \<Rightarrow> k | None \<Rightarrow> drop 2 word) = n"
  shows "\<exists>w'. parse_args env s (pre @ word # rest) w = Fail w' (ErrUnknownFlag n)
    \<and> s_errorHandling (the_set s w') = s_errorHandling (the_set s w)"
  using assms
proof (induction pre arbitrary: w)
  case Nil
  then show ?case
    by (auto simp: parse_long_def parse_named_def flagNotFound_def Let_def split: option.splits prod.splits)
next
  case (Cons x pre)
  have x: "\<not> HasPrefix x ''-''" using Cons.prems(3) by simp
  then have nx: "x \<noteq> ''--''" "\<not> HasPrefix x ''--''" by (cases x; simp add: HasPrefix_def)+
  let ?w = "add_remaining s [x] w"
  have "s_flagMap (the_set s ?w) n = None" "s_unknownHandling (the_set s ?w) = ErrorOnUnknown"
    "s_errorHandling (the_set s ?w) = s_errorHandling (the_set s w)"
    using Cons.prems(1,2) by (simp_all add: add_remaining_def the_set_upd_set)
  then show ?case
    using Cons.IH[of ?w] Cons.prems(3-6) x nx by simp
qed

text \<open>The set of a command without flags of its own.\<close>

lemma operation_set:
  "case generateCliFlags (DynamicCommand_Flags []) \<lparr>w_cells = [], w_flags = [], w_groups = [], w_sets = []\<rparr> of
     Ret w s \<Rightarrow>
       \<not> s_parsed (the_set s w)
       \<and> (case initFlags env s (upd_set s (\<lambda>t. t\<lparr>s_parsed := True\<rparr>) w) of
            Ret w _ \<Rightarrow> s_flagMap (the_set s w) ''server-addr'' = None \<and> s_unknownHandling (the_set s w) = ErrorOnUnknown
                      \<and> s_errorHandling (the_set s w) = ReturnOnError
          | _ \<Rightarrow> False)
   | _ \<Rightarrow> False"
  by code_simp

definition names_server_addr :: "string \<Rightarrow> bool" where
  "names_server_addr word \<longleftrightarrow> word = ''--server-addr'' \<or> HasPrefix word ''--server-addr=''"

lemma names_server_addr_word:
  assumes "names_server_addr word"
  shows "HasPrefix word ''--'' \<and> word \<noteq> ''--'' \<and>
    (case split2 (CHR ''='') (drop 2 word) of Some (k, v) \<Rightarrow> k | None \<Rightarrow> drop 2 word) = ''server-addr''"
proof (cases "word = ''--server-addr''")
  case True
  then show ?thesis by (simp add: HasPrefix_def)
next
  case False
  then have "HasPrefix word ''--server-addr=''" using assms by (simp add: names_server_addr_def)
  then obtain v where "word = ''--server-addr='' @ v" unfolding HasPrefix_def by (metis append_take_drop_id)
  then show ?thesis by (simp add: HasPrefix_def)
qed

section \<open>An example\<close>

text \<open>Commands by their number: one that ends well, one that fails with an error without a status, one with a status.\<close>

definition ex_commands :: "(string, nat) command_env" where
  "ex_commands =
     \<lparr>cs_find = (\<lambda>n. if n = ''up'' then Inr 0 else if n = ''halt'' then Inr 1 else Inr 2),
      cs_call = (\<lambda>c args. if c = 0 then (Some 0, None) else (None, Some (if c = 1 then ''broken'' else ''status''))),
      cs_status = (\<lambda>e. if e = ''status'' then Some \<lparr>st_Code = 13, st_Message = e, st_Details = []\<rparr> else None),
      cs_text = (\<lambda>e. e)\<rparr>"

definition ex_runner :: "(string, nat) runner" where
  "ex_runner =
     \<lparr>rn_basis = (\<lambda>_. None), rn_project = (\<lambda>_. None), rn_target = (\<lambda>_. None), rn_commands = ex_commands, rn_infos = Inl ''none'',
      rn_components = Inl ''none'', rn_noop = None, rn_invalidScope = ''scope'', rn_unknownOperation = ''operation''\<rparr>"

definition ex_task :: "string \<Rightarrow> task" where
  "ex_task n = \<lparr>tk_Command = n, tk_Component = n\<rparr>"

section \<open>Claims\<close>

text \<open>C6: a command of a basis or a project exits with 0 exactly when it is found, its result is 0 or missing, and it had no
  error, or one that the result does not show: any error of a command of a basis, and an error of a command of a project
  that is not a status.\<close>

theorem exit_zero_iff:
  assumes "loads r project basis" and "command_flags fl = Some fs"
  shows "(\<exists>out. run_command r project basis n fl text stext tk = Ret out 0) \<longleftrightarrow>
    (\<exists>c res err. cs_find (rn_commands r) (tk_Component tk) = Inr c
       \<and> cs_call (rn_commands r) c (split_on (CHR '' '') (tk_Command tk)) = (res, err)
       \<and> (res = None \<or> res = Some 0) \<and> (\<forall>e. err = Some e \<longrightarrow> unseen (rn_commands r) project e))"
proof -
  obtain out where "run_command r project basis n fl text stext tk = Ret out (exit_of (reported r project tk))"
    using run_exit[OF assms] by blast
  moreover have "sint x = 0 \<longleftrightarrow> x = 0" for x :: "32 word" by (simp add: signed_eq_0_iff)
  ultimately show ?thesis
    by (auto simp: reported_cases exit_of_def unseen_def status_error_def status_details_def unexpected_error_def localized_def
        split: sum.splits option.splits prod.splits if_splits)
qed

lemma exit_zero_iff_witness:
  "(\<exists>out. run_command ex_runner None ''b'' ''halt'' [] (\<lambda>e. e) st_Message (ex_task ''halt'') = Ret out 0)
   \<and> \<not> (\<exists>out. run_command ex_runner (Some \<lparr>pf_Name = ''p'', pf_Basis = Some ''b''\<rparr>) ''b'' ''x'' [] (\<lambda>e. e) st_Message (ex_task ''x'') = Ret out 0)"
proof
  have ok: "loads ex_runner None ''b''" "loads ex_runner (Some \<lparr>pf_Name = ''p'', pf_Basis = Some ''b''\<rparr>) ''b''"
    by (simp_all add: loads_def ex_runner_def)
  show "\<exists>out. run_command ex_runner None ''b'' ''halt'' [] (\<lambda>e. e) st_Message (ex_task ''halt'') = Ret out 0"
    by (subst exit_zero_iff[OF ok(1), of "[]" "[]"]) (simp_all add: ex_runner_def ex_commands_def ex_task_def unseen_def)
  show "\<not> (\<exists>out. run_command ex_runner (Some \<lparr>pf_Name = ''p'', pf_Basis = Some ''b''\<rparr>) ''b'' ''x'' [] (\<lambda>e. e) st_Message (ex_task ''x'') = Ret out 0)"
    by (subst exit_zero_iff[OF ok(2), of "[]" "[]"]) (simp_all add: ex_runner_def ex_commands_def ex_task_def unseen_def)
qed

text \<open>the level of the log is the most verbose one that the environment or any word of the command line asks for, and the
  words that ask for a level are removed wherever they stand, those after a double dash too.\<close>

theorem log_level_is_most_verbose:
  assumes "logger levelOf getenv args = Ret () st"
  shows "lg_args st = filter kept_arg args
    \<and> (let env = (if getenv ''VAGRANT_LOG_LEVEL'' = [] then 0 else levelOf (getenv ''VAGRANT_LOG_LEVEL''));
           levels = set (List.map_filter requested args) \<union> (if env = 0 then {} else {env})
       in lg_level st = (if levels = {} then 0 else Min levels))"
proof -
  have pos: "\<forall>r \<in> set (List.map_filter requested args). r > 0"
    by (auto simp: List.map_filter_def requested_positive)
  show ?thesis
    using assms by (auto simp: logger_def log_args_effect fold_lower_level[OF pos] Let_def split: if_splits)
qed

lemma log_level_is_most_verbose_witness:
  "\<exists>st. logger (\<lambda>_. 5) (\<lambda>v. if v = ''VAGRANT_LOG_LEVEL'' then ''error'' else []) [''vagrant'', ''-V'', ''ssh'', ''--'', ''--debug''] = Ret () st
     \<and> lg_args st = [''vagrant'', ''ssh'', ''--''] \<and> lg_level st = level_Debug"
proof -
  obtain st where st: "logger (\<lambda>_. 5) (\<lambda>v. if v = ''VAGRANT_LOG_LEVEL'' then ''error'' else []) [''vagrant'', ''-V'', ''ssh'', ''--'', ''--debug''] = Ret () st"
    by (simp add: logger_def)
  show ?thesis
    using log_level_is_most_verbose[OF st]
    by (intro exI[of _ st]) (simp add: st kept_arg_def requested_def List.map_filter_simps level_Info_def level_Debug_def level_Trace_def)
qed

text \<open>a name is that of the builtin command \<open>plugin\<close> or \<open>version\<close>, else of the last command of the tree with that full
  name, else of the builtin \<open>plugin-run\<close>.\<close>

theorem commands_by_full_name:
  assumes "commands_of flags infos = Some cmds"
  shows "cmds n =
    (if n = ''plugin'' then Some PluginCommand else if n = ''version'' then Some VersionCommand
     else (case List.find (\<lambda>d. fullName d = n) (rev (forest_commands flags [] infos)) of
             Some d \<Rightarrow> Some (Dynamic d)
           | None \<Rightarrow> if n = ''plugin-run'' then Some PluginCommand else None))"
proof -
  obtain m where "registerCommands flags [] infos [''plugin-run'' \<mapsto> PluginCommand, ''version'' \<mapsto> VersionCommand] = Some m"
    and cmds: "cmds = m(''plugin'' \<mapsto> PluginCommand, ''version'' \<mapsto> VersionCommand)"
    using assms by (auto simp: commands_of_def)
  then have m: "m = put_commands (forest_commands flags [] infos) [''plugin-run'' \<mapsto> PluginCommand, ''version'' \<mapsto> VersionCommand]"
    using register_tree(2) by blast
  show ?thesis unfolding cmds m by (auto simp: put_commands_last split: option.split)
qed

definition ex_infos :: "unit cmd_info list" where
  "ex_infos = [CmdInfo ''box'' [] [] () True [CmdInfo ''add'' [] [] () True []], CmdInfo ''version'' [] [] () True []]"

lemma commands_by_full_name_witness:
  "\<exists>cmds. commands_of (\<lambda>_. Some []) ex_infos = Some cmds \<and> cmds ''version'' = Some VersionCommand
     \<and> (\<exists>d. cmds ''box add'' = Some (Dynamic d) \<and> dy_name d = ''add'')"
proof -
  obtain cmds where cmds: "commands_of (\<lambda>_. Some []) ex_infos = Some cmds"
    by (simp add: commands_of_def ex_infos_def Let_def)
  show ?thesis
    using commands_by_full_name[OF cmds, of "''version''"] commands_by_full_name[OF cmds, of "''box add''"] cmds
    by (simp add: ex_infos_def fullName_def)
qed

text \<open>a command without flags of its own refuses the address of a server, which the base command accepts: the option never
  leads to a connection.\<close>

theorem server_address_is_refused:
  assumes "names_server_addr word" and "\<forall>x \<in> set pre. \<not> HasPrefix x ''-''" and "co_Args opts = pre @ word # rest"
    and "co_Flags opts = DynamicCommand_Flags []"
  shows "\<exists>st. cli_Init env opts b = Fail st (FlagError (ErrUnknownFlag ''server-addr''))"
proof -
  let ?W = "\<lparr>w_cells = [], w_flags = [], w_groups = [], w_sets = []\<rparr> :: 'a world"
  obtain w s where w: "generateCliFlags (DynamicCommand_Flags []) ?W = Ret w s" "\<not> s_parsed (the_set s w)"
    and i: "case initFlags env s (upd_set s (\<lambda>t. t\<lparr>s_parsed := True\<rparr>) w) of
        Ret w _ \<Rightarrow> s_flagMap (the_set s w) ''server-addr'' = None \<and> s_unknownHandling (the_set s w) = ErrorOnUnknown
                  \<and> s_errorHandling (the_set s w) = ReturnOnError
      | _ \<Rightarrow> False"
    using operation_set[of env] by (auto split: outcome.splits)
  obtain w1 u where w1: "initFlags env s (upd_set s (\<lambda>t. t\<lparr>s_parsed := True\<rparr>) w) = Ret w1 u"
    "s_flagMap (the_set s w1) ''server-addr'' = None" "s_unknownHandling (the_set s w1) = ErrorOnUnknown"
    "s_errorHandling (the_set s w1) = ReturnOnError"
    using i by (auto split: outcome.splits)
  obtain w2 where "parse_args env s (pre @ word # rest) w1 = Fail w2 (ErrUnknownFlag ''server-addr'')"
    "s_errorHandling (the_set s w2) = ReturnOnError"
    using unknown_long_word[OF w1(2,3) assms(2)] names_server_addr_word[OF assms(1)] w1(4) by metis
  then have "Parse env s (pre @ word # rest) w = Fail w2 (ErrUnknownFlag ''server-addr'')"
    using w(2) w1(1) by (simp add: Parse_def)
  then show ?thesis
    using w(1) assms(3,4) by (simp add: cli_Init_def base_Parse_def Let_def)
qed

lemma server_address_is_refused_witness:
  "\<exists>st. cli_Init \<lparr>e_getenv = (\<lambda>_. []), e_parseFloat = (\<lambda>_. Inr ()), e_zeroFloat = (), e_processor = (\<lambda>p v st. Ret st v),
       e_callback = (\<lambda>c st. Ret st ())\<rparr>
     \<lparr>co_Args = [''default'', ''--server-addr=host:1'', ''--no-color''], co_Flags = DynamicCommand_Flags [], co_UI = None\<rparr> no_flags
     = Fail st (FlagError (ErrUnknownFlag ''server-addr''))"
  by (rule server_address_is_refused[where pre = "[''default'']" and word = "''--server-addr=host:1''" and rest = "[''--no-color'']"])
    (simp_all add: names_server_addr_def HasPrefix_def)

end
