(* ===== verification/CoreOps.thy ===== *)
theory CoreOps
  imports Prelude
begin

text \<open>
  Operations of the core (\<open>core/operation.go\<close>, \<open>core/hook.go\<close>, \<open>server/status.go\<close>, \<open>config/hook.go\<close>) and labels
  (\<open>core/labels.go\<close>): the frame in which an operation runs, with its hooks, its status and its value in a message that is
  put to the server before and after, whatever the operation does.

  An operation is a record of functions on the state of the world \<open>'s\<close>; its message is of type \<open>'m\<close>, its result \<open>'r\<close>, an
  encoded result \<open>'a\<close>, errors \<open>'e\<close>.
\<close>

section \<open>Status\<close>

datatype status_state = RUNNING | SUCCESS | ERROR

text \<open>The times are those of the clock, which is an argument.\<close>

record 'e op_status =
  sm_State :: status_state
  sm_Error :: "'e option"
  sm_StartTime :: nat
  sm_CompleteTime :: "nat option"

definition NewStatus :: "nat \<Rightarrow> status_state \<Rightarrow> 'e op_status" where
  "NewStatus now s = \<lparr>sm_State = s, sm_Error = None, sm_StartTime = now, sm_CompleteTime = None\<rparr>"

definition StatusSetError :: "nat \<Rightarrow> 'e \<Rightarrow> 'e op_status \<Rightarrow> 'e op_status" where
  "StatusSetError now e s = s\<lparr>sm_State := ERROR, sm_Error := Some e, sm_CompleteTime := Some now\<rparr>"

definition StatusSetSuccess :: "nat \<Rightarrow> 'e op_status \<Rightarrow> 'e op_status" where
  "StatusSetSuccess now s = s\<lparr>sm_State := SUCCESS, sm_CompleteTime := Some now\<rparr>"

section \<open>Hooks\<close>

record hook =
  hk_When :: string
  hk_Command :: "string list"
  hk_OnFailure :: string

definition ContinueOnFailure :: "hook \<Rightarrow> bool" where
  "ContinueOnFailure h \<longleftrightarrow> hk_OnFailure h = ''continue''"

text \<open>The errors of the terminal, and how a program is started and waited for.\<close>

record ('s, 'e) hook_env =
  he_UI :: "'e option"
  he_writers :: "'e option"
  he_start :: "string \<Rightarrow> string list \<Rightarrow> 's \<Rightarrow> ('s, 'e, unit) outcome"
  he_wait :: "'s \<Rightarrow> ('s, 'e, unit) outcome"

definition execHook :: "('s, 'e) hook_env \<Rightarrow> hook \<Rightarrow> 's \<Rightarrow> ('s, 'e, unit) outcome" where
  "execHook env h s =
     (case he_UI env of
        Some e \<Rightarrow> Fail s e
      | None \<Rightarrow>
          (case he_writers env of
             Some e \<Rightarrow> Fail s e
           | None \<Rightarrow>
               (case hk_Command h of
                  [] \<Rightarrow> Crash ''index out of range''
                | c # args \<Rightarrow> bind_o (he_start env c args s) (\<lambda>s _. he_wait env s))))"

section \<open>Operations\<close>

text \<open>The error of an operation: that of a hook with its index, of the operation, or of the server.\<close>

datatype 'e op_error = HookError string nat 'e | OpError 'e

text \<open>A pointer into a message: how it is read and written. A message has a status and a value, or not. A status may be
  nil.\<close>

record ('s, 'm, 'r, 'a, 'e) operation =
  op_Init :: "'s \<Rightarrow> ('s, 'e, 'm) outcome"
  op_Upsert :: "'m \<Rightarrow> 's \<Rightarrow> ('s, 'e, 'm) outcome"
  op_Do :: "'m \<Rightarrow> 's \<Rightarrow> ('s \<times> 'm, 'e, 'r option) outcome"
  op_Status :: "(('m \<Rightarrow> 'e op_error op_status option) \<times> ('e op_error op_status option \<Rightarrow> 'm \<Rightarrow> 'm)) option"
  op_Value :: "('a option \<Rightarrow> 'm \<Rightarrow> 'm) option"
  op_JobId :: "(string \<Rightarrow> 'm \<Rightarrow> 'm) option"
  op_Hooks :: "'s \<Rightarrow> string \<Rightarrow> hook list"
  op_Any :: "'r \<Rightarrow> 'e + 'a"

text \<open>The loop over hooks: an error replaces the one before, and a hook that may fail clears it.\<close>

fun run_hooks ::
  "(hook \<Rightarrow> 's \<Rightarrow> ('s, 'e, unit) outcome) \<Rightarrow> string \<Rightarrow> nat \<Rightarrow> hook list \<Rightarrow> 'e op_error option \<Rightarrow> 's \<Rightarrow>
     ('s, unit, 'e op_error option) outcome" where
  "run_hooks exec w i [] doErr s = Ret s doErr"
| "run_hooks exec w i (h # hs) doErr s =
     (case exec h s of
        Crash m \<Rightarrow> Crash m
      | Ret s _ \<Rightarrow> run_hooks exec w (Suc i) hs doErr s
      | Fail s e \<Rightarrow> run_hooks exec w (Suc i) hs (if ContinueOnFailure h then None else Some (HookError w i e)) s)"

definition set_status :: "('s, 'm, 'r, 'a, 'e) operation \<Rightarrow> 'e op_error op_status option \<Rightarrow> 'm \<Rightarrow> 'm" where
  "set_status oper st m = (case op_Status oper of None \<Rightarrow> m | Some (_, put) \<Rightarrow> put st m)"

definition set_value :: "('s, 'm, 'r, 'a, 'e) operation \<Rightarrow> 'a option \<Rightarrow> 'm \<Rightarrow> 'm" where
  "set_value oper v m = (case op_Value oper of None \<Rightarrow> m | Some put \<Rightarrow> put v m)"

text \<open>The status of a message is changed in its place; a nil one panics.\<close>

definition change_status ::
  "('s, 'm, 'r, 'a, 'e) operation \<Rightarrow> ('e op_error op_status \<Rightarrow> 'e op_error op_status) \<Rightarrow> 'm \<Rightarrow> 'm option" where
  "change_status oper f m =
     (case op_Status oper of
        None \<Rightarrow> Some m
      | Some (get, put) \<Rightarrow> (case get m of None \<Rightarrow> None | Some st \<Rightarrow> Some (put (Some (f st)) m)))"

text \<open>The operation itself: its result, its error and the message.\<close>

definition run_do ::
  "nat \<Rightarrow> ('s, 'm, 'r, 'a, 'e) operation \<Rightarrow> 'm \<Rightarrow> 's \<Rightarrow> ('s \<times> 'm, unit, 'r option \<times> 'e op_error option) outcome" where
  "run_do now oper m s =
     (case op_Do oper m s of
        Crash x \<Rightarrow> Crash x
      | Fail sm e \<Rightarrow> Ret sm (None, Some (OpError e))
      | Ret (s, m) result \<Rightarrow>
          (case change_status oper (StatusSetSuccess now) m of
             None \<Rightarrow> Crash ''nil pointer dereference''
           | Some m \<Rightarrow>
               (case result of
                  None \<Rightarrow> Ret (s, set_value oper None m) (result, None)
                | Some r \<Rightarrow>
                    (case op_Any oper r of
                       Inl e \<Rightarrow> Ret (s, set_value oper None m) (result, Some (OpError e))
                     | Inr a \<Rightarrow> Ret (s, set_value oper (Some a) m) (result, None)))))"

text \<open>What happens between the two puts: the hooks before, the operation unless there is an error, the hooks after unless there
  is an error, and the status of an error.\<close>

definition perform ::
  "nat \<Rightarrow> (hook \<Rightarrow> 's \<Rightarrow> ('s, 'e, unit) outcome) \<Rightarrow> (string \<Rightarrow> hook list) \<Rightarrow> ('s, 'm, 'r, 'a, 'e) operation \<Rightarrow> 'm \<Rightarrow> 's \<Rightarrow>
     ('s \<times> 'm, unit, 'r option \<times> 'e op_error option) outcome" where
  "perform now exec hooks oper m s =
     (case run_hooks exec ''before'' 0 (hooks ''before'') None s of
        Crash x \<Rightarrow> Crash x
      | Fail s u \<Rightarrow> Fail (s, m) u
      | Ret s doErr \<Rightarrow>
          bind_o (case doErr of None \<Rightarrow> run_do now oper m s | Some e \<Rightarrow> Ret (s, m) (None, Some e))
            (\<lambda>(s, m) (result, doErr).
               bind_o (case doErr of
                         Some e \<Rightarrow> Ret (s, m) (Some e)
                       | None \<Rightarrow>
                           (case run_hooks exec ''after'' 0 (hooks ''after'') None s of
                              Crash x \<Rightarrow> Crash x | Fail s u \<Rightarrow> Fail (s, m) u | Ret s e \<Rightarrow> Ret (s, m) e))
                 (\<lambda>(s, m) doErr.
                    case doErr of
                      None \<Rightarrow> Ret (s, m) (result, None)
                    | Some e \<Rightarrow>
                        (case change_status oper (StatusSetError now e) (set_value oper None m) of
                           None \<Rightarrow> Crash ''nil pointer dereference''
                         | Some m \<Rightarrow> Ret (s, m) (result, Some e)))))"

text \<open>The error of the last put is dropped; then the message is missing in the result.\<close>

definition doOperation ::
  "nat \<Rightarrow> string \<Rightarrow> (hook \<Rightarrow> 's \<Rightarrow> ('s, 'e, unit) outcome) \<Rightarrow> ('s, 'm, 'r, 'a, 'e) operation \<Rightarrow> 's \<Rightarrow>
     ('s, 'e op_error, 'r option \<times> 'm option) outcome" where
  "doOperation now job exec oper s =
     (let hooks = op_Hooks oper s
      in case op_Init oper s of
           Crash x \<Rightarrow> Crash x
         | Fail s e \<Rightarrow> Fail s (OpError e)
         | Ret s m \<Rightarrow>
             (let m = (case op_JobId oper of None \<Rightarrow> m | Some put \<Rightarrow> put job m);
                  m = set_status oper (Some (NewStatus now RUNNING)) m
              in case op_Upsert oper m s of
                   Crash x \<Rightarrow> Crash x
                 | Fail s e \<Rightarrow> Fail s (OpError e)
                 | Ret s m \<Rightarrow>
                     (case perform now exec hooks oper m s of
                        Crash x \<Rightarrow> Crash x
                      | Fail (s, m) _ \<Rightarrow> Ret s (None, None)
                      | Ret (s, m) (result, doErr) \<Rightarrow>
                          (case (case op_Upsert oper m s of Crash x \<Rightarrow> None | Fail s _ \<Rightarrow> Some (s, None) | Ret s m \<Rightarrow> Some (s, Some m)) of
                             None \<Rightarrow> Crash ''upsert''
                           | Some (s, m) \<Rightarrow> (case doErr of Some e \<Rightarrow> Fail s e | None \<Rightarrow> Ret s (result, m))))))"

section \<open>Labels\<close>

text \<open>Later maps win; without arguments there is no map.\<close>

definition labelsMerge :: "(string \<rightharpoonup> string) list \<Rightarrow> (string \<rightharpoonup> string) option" where
  "labelsMerge ls = (if ls = [] then None else Some (fold (\<lambda>l r. r ++ l) ls Map.empty))"

definition labelsStripPrefix :: "(string \<rightharpoonup> string) \<Rightarrow> string \<Rightarrow> (string \<rightharpoonup> string)" where
  "labelsStripPrefix ls prefix =
     (let p = (if HasSuffix prefix ''/'' then prefix else prefix @ ''/'')
      in (\<lambda>k. if HasPrefix k p then None else ls k))"

end
