(* ===== verification/CoreOpsClaims.thy ===== *)
theory CoreOpsClaims
  imports CoreOps
begin

text \<open>
  What the message of an operation says of its outcome, and which hooks decide whether an operation runs.
\<close>

section \<open>Hooks\<close>

text \<open>The failures of hooks that are run in turn, with the state afterwards; none when one of them panics.\<close>

fun hook_failures ::
  "(hook \<Rightarrow> 's \<Rightarrow> ('s, 'e, unit) outcome) \<Rightarrow> nat \<Rightarrow> hook list \<Rightarrow> 's \<Rightarrow> ('s \<times> (nat \<times> hook \<times> 'e) list) option" where
  "hook_failures exec i [] s = Some (s, [])"
| "hook_failures exec i (h # hs) s =
     (case exec h s of
        Crash m \<Rightarrow> None
      | Ret s _ \<Rightarrow> hook_failures exec (Suc i) hs s
      | Fail s e \<Rightarrow> map_option (\<lambda>(s, fs). (s, (i, h, e) # fs)) (hook_failures exec (Suc i) hs s))"

definition last_failure :: "string \<Rightarrow> (nat \<times> hook \<times> 'e) list \<Rightarrow> 'e op_error option \<Rightarrow> 'e op_error option" where
  "last_failure w fs err =
     (if fs = [] then err else case last fs of (i, h, e) \<Rightarrow> if ContinueOnFailure h then None else Some (HookError w i e))"

lemma run_hooks_last:
  "hook_failures exec i hs s = Some (s', fs) \<Longrightarrow> run_hooks exec w i hs err s = Ret s' (last_failure w fs err)"
proof (induction hs arbitrary: i err s fs)
  case (Cons h hs)
  show ?case
  proof (cases "exec h s")
    case (Ret s1 u)
    then show ?thesis using Cons by simp
  next
    case (Fail s1 e)
    then obtain fs1 where fs1: "hook_failures exec (Suc i) hs s1 = Some (s', fs1)" "fs = (i, h, e) # fs1"
      using Cons.prems by auto
    have "run_hooks exec w i (h # hs) err s =
        Ret s' (last_failure w fs1 (if ContinueOnFailure h then None else Some (HookError w i e)))"
      using Cons.IH[OF fs1(1)] Fail by simp
    then show ?thesis by (cases fs1) (simp_all add: fs1(2) last_failure_def)
  qed (use Cons.prems in simp)
qed (simp add: last_failure_def)

lemma run_hooks_never_fail: "run_hooks exec w i hs err s \<noteq> Fail s' u"
proof (induction hs arbitrary: i err s)
  case (Cons h hs)
  then show ?case by (cases "exec h s") simp_all
qed simp

section \<open>Status\<close>

text \<open>The status and the value of a message are fields of their own.\<close>

definition fields_apart ::
  "('s, 'm, 'r, 'a, 'e) operation \<Rightarrow> ('m \<Rightarrow> 'e op_error op_status option) \<Rightarrow> ('e op_error op_status option \<Rightarrow> 'm \<Rightarrow> 'm) \<Rightarrow> bool" where
  "fields_apart oper get put \<longleftrightarrow>
     op_Status oper = Some (get, put) \<and> (\<forall>st m. get (put st m) = st)
     \<and> (\<forall>v m. get (set_value oper v m) = get m)"

definition status_for :: "nat \<Rightarrow> 'e op_error option \<Rightarrow> 'e op_error op_status \<Rightarrow> bool" where
  "status_for now err st \<longleftrightarrow>
     sm_CompleteTime st = Some now
     \<and> (case err of None \<Rightarrow> sm_State st = SUCCESS | Some e \<Rightarrow> sm_State st = ERROR \<and> sm_Error st = Some e)"

lemma change_status_get:
  assumes "fields_apart oper get put" and "change_status oper f m = Some m'"
  shows "\<exists>st. get m = Some st \<and> get m' = Some (f st)"
  using assms by (auto simp: change_status_def fields_apart_def split: option.splits)

lemma run_do_success:
  assumes "fields_apart oper get put" and "run_do now oper m s = Ret (s', m') (r, None)"
  shows "\<exists>st. get m' = Some st \<and> status_for now None st"
proof -
  have apart: "get (set_value oper v x) = get x" for v x using assms(1) by (simp add: fields_apart_def)
  obtain s1 m1 r1 m2 where "op_Do oper m s = Ret (s1, m1) r1" "change_status oper (StatusSetSuccess now) m1 = Some m2"
    "m' = set_value oper (if r1 = None then None else Some (projr (op_Any oper (the r1)))) m2"
    using assms(2) by (auto simp: run_do_def split: outcome.splits option.splits sum.splits)
  then show ?thesis
    using change_status_get[OF assms(1)] by (fastforce simp: apart status_for_def StatusSetSuccess_def)
qed

lemma perform_cases:
  assumes "perform now exec hooks oper m s = Ret (s', m') (r, err)"
  obtains
    (ok) s1 s2 where "err = None" "run_do now oper m s1 = Ret (s2, m') (r, None)"
  | (err) e m1 where "err = Some e" "change_status oper (StatusSetError now e) (set_value oper None m1) = Some m'"
proof -
  obtain s1 e1 where b: "run_hooks exec ''before'' 0 (hooks ''before'') None s = Ret s1 e1"
    using assms run_hooks_never_fail by (auto simp: perform_def split: outcome.splits)
  show ?thesis
  proof (cases e1)
    case (Some e)
    then show ?thesis using assms b that(2) by (auto simp: perform_def split: option.splits)
  next
    case None
    note b = b[unfolded None]
    show ?thesis
    proof (cases "run_do now oper m s1")
      case (Ret sm re)
      obtain s2 m2 r2 e2 where re: "sm = (s2, m2)" "re = (r2, e2)" by (cases sm; cases re)
      show ?thesis
      proof (cases e2)
        case (Some e)
        then show ?thesis using assms b Ret re that(2) by (auto simp: perform_def split: option.splits)
      next
        case None
        obtain s3 e3 where "run_hooks exec ''after'' 0 (hooks ''after'') None s2 = Ret s3 e3"
          using assms b Ret re None run_hooks_never_fail by (auto simp: perform_def split: outcome.splits)
        then show ?thesis
          using assms b Ret re None that by (cases e3) (auto simp: perform_def split: option.splits)
      qed
    qed (use assms b in \<open>auto simp: perform_def\<close>)
  qed
qed

lemma perform_status:
  assumes "fields_apart oper get put" and "perform now exec hooks oper m s = Ret (s', m') (r, err)"
  shows "\<exists>st. get m' = Some st \<and> status_for now err st"
  using assms(2)
proof (cases rule: perform_cases)
  case (ok s1 s2)
  then show ?thesis using run_do_success[OF assms(1)] by blast
next
  case (err e m1)
  then show ?thesis
    using change_status_get[OF assms(1)] by (fastforce simp: status_for_def StatusSetError_def)
qed

section \<open>An example\<close>

text \<open>The state of the world is the list of what was put; a message is its status and its value. A hook fails when its
  command is \<open>false\<close>.\<close>

type_synonym ex_message = "string op_error op_status option \<times> nat option"

definition ex_operation :: "hook list \<Rightarrow> (ex_message list, ex_message, nat, nat, string) operation" where
  "ex_operation hs =
     \<lparr>op_Init = (\<lambda>s. Ret s (None, None)), op_Upsert = (\<lambda>m s. Ret (s @ [m]) m), op_Do = (\<lambda>m s. Ret (s, m) (Some 7)),
      op_Status = Some (fst, \<lambda>st m. (st, snd m)), op_Value = Some (\<lambda>v m. (fst m, v)), op_JobId = None,
      op_Hooks = (\<lambda>s w. filter (\<lambda>h. hk_When h = w) hs), op_Any = (\<lambda>r. Inr r)\<rparr>"

definition ex_hook :: "string \<Rightarrow> string \<Rightarrow> string \<Rightarrow> hook" where
  "ex_hook w c f = \<lparr>hk_When = w, hk_Command = [c], hk_OnFailure = f\<rparr>"

definition ex_exec :: "hook \<Rightarrow> ex_message list \<Rightarrow> (ex_message list, string, unit) outcome" where
  "ex_exec = execHook \<lparr>he_UI = None, he_writers = None,
     he_start = (\<lambda>c args s. if c = ''false'' then Fail s ''exit 1'' else Ret s ()), he_wait = (\<lambda>s. Ret s ())\<rparr>"

section \<open>Claims\<close>



text \<open>an operation runs although a hook before it failed that must not fail, when a hook after that one fails that may:
  the failure is forgotten, and without other errors the operation is recorded as a success.\<close>

theorem failed_hook_is_forgotten:
  assumes "hook_failures exec 0 (hooks ''before'') s = Some (s1, fs @ [(i, h, e)])" and "ContinueOnFailure h"
    and "run_do now oper m s1 = Ret (s2, m2) (r, None)" and "hooks ''after'' = []"
  shows "perform now exec hooks oper m s = Ret (s2, m2) (r, None)"
  using assms run_hooks_last[OF assms(1), of "''before''" None] by (simp add: perform_def last_failure_def)

lemma failed_hook_is_forgotten_witness:
  "\<exists>s2 m2 r. perform 5 ex_exec (op_Hooks (ex_operation [ex_hook ''before'' ''false'' [], ex_hook ''before'' ''false'' ''continue'']) [])
     (ex_operation []) (Some (NewStatus 5 RUNNING), None) [] = Ret (s2, m2) (r, None)"
proof -
  let ?hooks = "op_Hooks (ex_operation [ex_hook ''before'' ''false'' [], ex_hook ''before'' ''false'' ''continue'']) []"
  have f: "hook_failures ex_exec 0 (?hooks ''before'') [] =
      Some ([], [(0, ex_hook ''before'' ''false'' [], ''exit 1'')] @ [(1, ex_hook ''before'' ''false'' ''continue'', ''exit 1'')])"
    by (simp add: ex_operation_def ex_exec_def execHook_def ex_hook_def)
  obtain s2 m2 r where d: "run_do 5 (ex_operation []) (Some (NewStatus 5 RUNNING), None) [] = Ret (s2, m2) (r, None)"
    by (simp add: run_do_def ex_operation_def change_status_def set_value_def)
  have a: "?hooks ''after'' = []" by (simp add: ex_operation_def ex_hook_def)
  have "ContinueOnFailure (ex_hook ''before'' ''false'' ''continue'')" by (simp add: ContinueOnFailure_def ex_hook_def)
  from failed_hook_is_forgotten[OF f this d a] show ?thesis by blast
qed

end
