(* ===== verification/RunnerSetup.thy ===== *)
theory RunnerSetup
  imports Plugins "HOL-Library.AList" "HOL-Library.Multiset"
begin

text \<open>
  A runner before and between its jobs (\<open>runner/runner.go\<close>, \<open>runner/config.go\<close>, \<open>runner/ui_multi.go\<close>): how it is made, with
  the plugins that it tells the server about, its registration, the configurations that it gets and puts into its
  environment, its end, and the terminal that stands for several.
\<close>

section \<open>The environment of a process\<close>

text \<open>The variables that are set, each once. Some names cannot be set (\<open>bad\<close>). A variable that is not set is read as the
  empty string.\<close>

type_synonym environ = "(string \<times> string) list"

definition os_Getenv :: "environ \<Rightarrow> string \<Rightarrow> string" where
  "os_Getenv e k = (case map_of e k of None \<Rightarrow> [] | Some v \<Rightarrow> v)"

definition os_Setenv :: "(string \<Rightarrow> bool) \<Rightarrow> string \<Rightarrow> string \<Rightarrow> environ \<Rightarrow> environ" where
  "os_Setenv bad k v e = (if bad k then e else AList.update k v e)"

definition os_Unsetenv :: "string \<Rightarrow> environ \<Rightarrow> environ" where
  "os_Unsetenv k e = AList.delete k e"

definition os_Environ :: "environ \<Rightarrow> string list" where
  "os_Environ e = map (\<lambda>(k, v). k @ ''='' @ v) e"

section \<open>Configurations\<close>

type_synonym config_vars = "(string \<times> string) list"

record runner_conf =
  rf_config :: "config_vars option"
  rf_originalEnv :: "config_vars option"
  rf_env :: environ

text \<open>The environment at the start of the process, as it is at the first configuration.\<close>

definition original_env :: "environ \<Rightarrow> config_vars" where
  "original_env e = concat (map (\<lambda>s. case split2 (CHR ''='') s of None \<Rightarrow> [] | Some (k, v) \<Rightarrow> [(k, v)]) (os_Environ e))"

text \<open>The values that are to be set: the original ones, nothing for the variables of the last configuration that are not
  original, and those of the new configuration.\<close>

definition wanted_env :: "config_vars \<Rightarrow> config_vars option \<Rightarrow> config_vars \<Rightarrow> (string \<times> string) list" where
  "wanted_env original old new =
     (let env = fold (\<lambda>(k, v) m. AList.update k v m) original [];
          env = (case old of
                   None \<Rightarrow> env
                 | Some vs \<Rightarrow> fold (\<lambda>(k, v) m. if map_of m k = None then AList.update k [] m else m) vs env)
      in fold (\<lambda>(k, v) m. AList.update k v m) new env)"

definition set_var :: "(string \<Rightarrow> bool) \<Rightarrow> string \<times> string \<Rightarrow> environ \<Rightarrow> environ" where
  "set_var bad kv e =
     (case kv of (k, v) \<Rightarrow>
        if os_Getenv e k = v then e else if v = [] then os_Unsetenv k e else os_Setenv bad k v e)"

text \<open>The map is walked in an order \<open>perm\<close>.\<close>

definition handleConfig ::
  "(string \<Rightarrow> bool) \<Rightarrow> ((string \<times> string) list \<Rightarrow> (string \<times> string) list) \<Rightarrow> config_vars \<Rightarrow> runner_conf \<Rightarrow> runner_conf" where
  "handleConfig bad perm c r =
     (let original = (case rf_originalEnv r of Some o' \<Rightarrow> o' | None \<Rightarrow> original_env (rf_env r));
          env = wanted_env original (rf_config r) c
      in \<lparr>rf_config = Some c, rf_originalEnv = Some original, rf_env = fold (set_var bad) (perm env) (rf_env r)\<rparr>)"

text \<open>What the stream brings: a configuration, which may be nil, or an error, the end of the stream included. A context that
  ended is seen before the next message is received. The configurations are handled one after the other.\<close>

fun recvConfig :: "(bool \<times> (goerr + config_vars option)) list \<Rightarrow> config_vars option list" where
  "recvConfig [] = []"
| "recvConfig ((closed, m) # ms) = (if closed then [] else case m of Inl e \<Rightarrow> [] | Inr c \<Rightarrow> c # recvConfig ms)"

fun watchConfig ::
  "(string \<Rightarrow> bool) \<Rightarrow> ((string \<times> string) list \<Rightarrow> (string \<times> string) list) \<Rightarrow> config_vars option list \<Rightarrow> runner_conf \<Rightarrow>
     (runner_conf, unit, unit) outcome" where
  "watchConfig bad perm [] r = Ret r ()"
| "watchConfig bad perm (None # cs) r = Crash ''nil pointer dereference''"
| "watchConfig bad perm (Some c # cs) r = watchConfig bad perm cs (handleConfig bad perm c r)"

section \<open>The life of a runner\<close>

record runner_state =
  rs_id :: string
  rs_components :: "(component_type \<times> string) list"
  rs_byIdOnly :: bool
  rs_local :: bool
  rs_closed :: bool
  rs_cleanups :: "string list"
  rs_conf :: runner_conf

text \<open>The options of a runner; the one for the Ruby runtime asks for its client, and panics when what it gets is of another
  type.\<close>

datatype runner_option = WithRunnerClient | WithRubyRuntime "goerr + bool" | WithLocalUI | ByIdOnly | WithRunnerContext

fun apply_runner_option :: "runner_option \<Rightarrow> runner_state \<Rightarrow> (runner_state, goerr, unit) outcome" where
  "apply_runner_option (WithRubyRuntime r) s =
     (case r of Inl e \<Rightarrow> Fail s e | Inr ok \<Rightarrow> if ok then Ret s () else Crash ''failed to dispense RubyVagrantClient'')"
| "apply_runner_option WithLocalUI s = Ret (s\<lparr>rs_local := True\<rparr>) ()"
| "apply_runner_option ByIdOnly s = Ret (s\<lparr>rs_byIdOnly := True\<rparr>) ()"
| "apply_runner_option WithRunnerClient s = Ret s ()"
| "apply_runner_option WithRunnerContext s = Ret s ()"

fun apply_runner_options :: "runner_option list \<Rightarrow> runner_state \<Rightarrow> (runner_state, goerr, unit) outcome" where
  "apply_runner_options [] s = Ret s ()"
| "apply_runner_options (f # fs) s = bind_o (apply_runner_option f s) (\<lambda>s _. apply_runner_options fs s)"

text \<open>The components are those of all plugins; their name is that of their type.\<close>

definition runner_components :: "('c, 'd, 'f, 'o) plugenv \<Rightarrow> ('d, 'o) plugin list \<Rightarrow> (component_type \<times> string) list" where
  "runner_components env ps = concat (map (\<lambda>p. map (\<lambda>t. (t, pg_String env t)) (pl_Types p)) ps)"

text \<open>The plugin manager of a runner is new or given; it is returned with the runner.\<close>

definition New_runner ::
  "('c, 'd, 'f, 'o) plugenv \<Rightarrow> goerr + string \<Rightarrow> runner_option list \<Rightarrow> environ \<Rightarrow> ('d, 'f, 'o) manager \<Rightarrow>
     (goerr + ('d, 'o) plugin) list \<Rightarrow> goerr + (goerr + ('d, 'o) plugin) list \<Rightarrow> nat option \<Rightarrow>
     (('d, 'f, 'o) manager, goerr, runner_state) outcome" where
  "New_runner env newId opts e m builtins legacy broker =
     (case newId of
        Inl x \<Rightarrow> Fail m (Status Internal x)
      | Inr i \<Rightarrow>
          (case apply_runner_options opts \<lparr>rs_id = i, rs_components = [], rs_byIdOnly = False, rs_local = False, rs_closed = False,
               rs_cleanups = [], rs_conf = \<lparr>rf_config = None, rf_originalEnv = None, rf_env = e\<rparr>\<rparr> of
             Crash x \<Rightarrow> Crash x
           | Fail _ x \<Rightarrow> Fail m x
           | Ret r _ \<Rightarrow>
               bind_o (LoadBuiltins env builtins m)
                 (\<lambda>m _. bind_o (LoadLegacyPlugins env legacy broker m)
                   (\<lambda>m _. Ret m (r\<lparr>rs_components := runner_components env (mg_Plugins m), rs_cleanups := [''factory'']\<rparr>)))))"

definition runner_ErrClosed :: goerr where
  "runner_ErrClosed = OtherError ''runner is closed''"

text \<open>Registration: the stream is opened, the runner is sent, and the first configuration is waited for and handled.\<close>

definition runner_Start ::
  "(string \<Rightarrow> bool) \<Rightarrow> ((string \<times> string) list \<Rightarrow> (string \<times> string) list) \<Rightarrow> goerr option \<Rightarrow> goerr option \<Rightarrow>
     goerr + config_vars option \<Rightarrow> runner_state \<Rightarrow> (runner_state, goerr, unit) outcome" where
  "runner_Start bad perm open send recv r =
     (if rs_closed r then Fail r runner_ErrClosed
      else (case open of
              Some e \<Rightarrow> Fail r e
            | None \<Rightarrow>
                (let r = r\<lparr>rs_cleanups := rs_cleanups r @ [''CloseSend'']\<rparr>
                 in case send of
                      Some e \<Rightarrow> Fail r e
                    | None \<Rightarrow>
                        (case recv of
                           Inl e \<Rightarrow> Fail r e
                         | Inr None \<Rightarrow> Crash ''nil pointer dereference''
                         | Inr (Some c) \<Rightarrow> Ret (r\<lparr>rs_conf := handleConfig bad perm c (rs_conf r)\<rparr>) ()))))"

text \<open>The first call closes, and runs the cleanups, whose error is the result; the others do nothing.\<close>

definition runner_Close :: "(string list \<Rightarrow> goerr option) \<Rightarrow> runner_state \<Rightarrow> (runner_state \<times> string list) \<times> goerr option" where
  "runner_Close close r =
     (if rs_closed r then ((r, []), None) else ((r\<lparr>rs_closed := True\<rparr>, rs_cleanups r), close (rs_cleanups r)))"

section \<open>Several terminals\<close>

datatype ui_event =
    EvOutput string | EvClearLine | EvNamedValues "string list" | EvTable string | EvInput string | EvClose
  | EvStatusUpdate string | EvStatusStep string string | EvStatusClose
  | EvStepAdd string | EvStepUpdate string | EvStepStatus string | EvStepDone | EvStepAbort | EvGroupWait

record sub_ui =
  su_Interactive :: bool
  su_MachineReadable :: bool
  su_Closer :: bool
  su_log :: "ui_event list"

definition su_send :: "ui_event \<Rightarrow> sub_ui \<Rightarrow> sub_ui" where
  "su_send e u = u\<lparr>su_log := su_log u @ [e]\<rparr>"

definition broadcast :: "ui_event \<Rightarrow> sub_ui list \<Rightarrow> sub_ui list" where
  "broadcast e us = map (su_send e) us"

definition multi_Close :: "sub_ui list \<Rightarrow> sub_ui list" where
  "multi_Close us = map (\<lambda>u. if su_Closer u then su_send EvClose u else u) us"

text \<open>The last interactive terminal is asked; with none a nil one.\<close>

definition multi_Input :: "string \<Rightarrow> sub_ui list \<Rightarrow> (sub_ui list, string, nat) outcome" where
  "multi_Input q us =
     (case filter (\<lambda>i. su_Interactive (us ! i)) [0..<length us] of
        [] \<Rightarrow> Crash ''nil pointer dereference''
      | [i] \<Rightarrow> Ret (us[i := su_send (EvInput q) (us ! i)]) i
      | _ \<Rightarrow> Fail us ''More than one interactive terminal available. Please ensure only one interactive terminal is available'')"

definition multi_Interactive :: "sub_ui list \<Rightarrow> bool" where
  "multi_Interactive us = list_ex su_Interactive us"

definition multi_MachineReadable :: "sub_ui list \<Rightarrow> bool" where
  "multi_MachineReadable us = list_ex su_MachineReadable us"

text \<open>The calls that go to every terminal; the status of a step is sent as an update of its text.\<close>

datatype multi_call =
    CallOutput string | CallClearLine | CallNamedValues "string list" | CallTable string | CallStatusUpdate string
  | CallStatusStep string string | CallStatusClose | CallStepAdd string | CallStepUpdate string | CallStepStatus string
  | CallStepDone | CallStepAbort | CallGroupWait

fun event_of :: "multi_call \<Rightarrow> ui_event" where
  "event_of (CallOutput s) = EvOutput s"
| "event_of CallClearLine = EvClearLine"
| "event_of (CallNamedValues vs) = EvNamedValues vs"
| "event_of (CallTable t) = EvTable t"
| "event_of (CallStatusUpdate s) = EvStatusUpdate s"
| "event_of (CallStatusStep st m) = EvStatusStep st m"
| "event_of CallStatusClose = EvStatusClose"
| "event_of (CallStepAdd s) = EvStepAdd s"
| "event_of (CallStepUpdate s) = EvStepUpdate s"
| "event_of (CallStepStatus s) = EvStepUpdate s"
| "event_of CallStepDone = EvStepDone"
| "event_of CallStepAbort = EvStepAbort"
| "event_of CallGroupWait = EvGroupWait"

definition multi_do :: "multi_call \<Rightarrow> sub_ui list \<Rightarrow> sub_ui list" where
  "multi_do c us = broadcast (event_of c) us"

end
