(* ===== verification/RunnerSetupClaims.thy ===== *)
theory RunnerSetupClaims
  imports RunnerSetup
begin

text \<open>
  The environment of a runner after any sequence of configurations.
\<close>

section \<open>Maps\<close>

text \<open>The value of a name in a list, the last one counts.\<close>

definition last_value :: "config_vars \<Rightarrow> string \<Rightarrow> string option" where
  "last_value vs k = map_of (rev vs) k"

lemma fold_update: "map_of (fold (\<lambda>(k, v) m. AList.update k v m) vs m) = map_of m ++ last_value vs"
  unfolding last_value_def
proof (induction vs arbitrary: m)
  case (Cons kv vs)
  then show ?case by (cases kv) (auto simp: update_conv' map_add_def fun_eq_iff split: option.split)
qed simp

lemma fold_update_missing:
  "map_of (fold (\<lambda>(k, v) m. if map_of m k = None then AList.update k [] m else m) vs m) k =
     (case map_of m k of Some v \<Rightarrow> Some v | None \<Rightarrow> if k \<in> fst ` set vs then Some [] else None)"
proof (induction vs arbitrary: m)
  case (Cons kv vs)
  show ?case by (cases kv) (auto simp: Cons.IH update_conv' split: option.split)
qed (simp split: option.split)

lemma fold_update_distinct: "distinct (map fst m) \<Longrightarrow> distinct (map fst (fold (\<lambda>(k, v) m. AList.update k v m) vs m))"
  by (induction vs arbitrary: m) (auto simp: distinct_update)

lemma fold_missing_distinct:
  "distinct (map fst m) \<Longrightarrow>
     distinct (map fst (fold (\<lambda>(k, v) m. if map_of m k = None then AList.update k [] m else m) vs m))"
  by (induction vs arbitrary: m) (auto simp: distinct_update)

lemma wanted_distinct: "distinct (map fst (wanted_env original old new))"
  by (cases old) (simp_all add: wanted_env_def fold_update_distinct fold_missing_distinct)

lemma wanted_value:
  "map_of (wanted_env original old new) k =
     (case last_value new k of
        Some v \<Rightarrow> Some v
      | None \<Rightarrow> (case last_value original k of
                   Some v \<Rightarrow> Some v
                 | None \<Rightarrow> if (case old of None \<Rightarrow> False | Some vs \<Rightarrow> k \<in> fst ` set vs) then Some [] else None))"
  by (cases old) (auto simp: wanted_env_def fold_update fold_update_missing map_add_def split: option.split)

section \<open>The environment\<close>

lemma set_var_Getenv:
  "\<not> bad k \<Longrightarrow> os_Getenv (set_var bad (k, v) e) k = v"
  "k' \<noteq> k \<Longrightarrow> os_Getenv (set_var bad (k, v) e) k' = os_Getenv e k'"
  by (auto simp: set_var_def os_Getenv_def os_Unsetenv_def os_Setenv_def delete_conv' update_conv')

lemma set_vars_Getenv:
  "distinct (map fst kvs) \<Longrightarrow> \<not> bad k \<Longrightarrow>
     os_Getenv (fold (set_var bad) kvs e) k = (case map_of kvs k of Some v \<Rightarrow> v | None \<Rightarrow> os_Getenv e k)"
proof (induction kvs arbitrary: e)
  case (Cons kv kvs)
  obtain n v where kv: "kv = (n, v)" by (cases kv)
  show ?case
  proof (cases "k = n")
    case True
    then have "map_of kvs k = None" using Cons.prems kv by (simp add: map_of_eq_None_iff)
    then show ?thesis using Cons kv True by (simp add: set_var_Getenv(1))
  qed (use Cons kv in \<open>auto simp: set_var_Getenv(2) split: option.split\<close>)
qed simp

lemma permuted_map:
  assumes "mset xs = mset ys" and "distinct (map fst ys)"
  shows "distinct (map fst xs)" "map_of xs = map_of ys"
proof -
  have "mset (map fst xs) = mset (map fst ys)" using assms(1) by simp
  then show d: "distinct (map fst xs)" using assms(2) by (metis mset_eq_imp_distinct_iff)
  show "map_of xs = map_of ys"
    using d assms by (metis map_of_inject_set mset_eq_setD)
qed

section \<open>The names of the environment\<close>

definition proper_env :: "environ \<Rightarrow> bool" where
  "proper_env e \<longleftrightarrow> distinct (map fst e) \<and> (\<forall>(k, v) \<in> set e. CHR ''='' \<notin> set k)"

lemma split2_at: "c \<notin> set k \<Longrightarrow> split2 c (k @ c # v) = Some (k, v)"
  by (induction k) auto

lemma original_of_proper: "proper_env e \<Longrightarrow> original_env e = e"
  unfolding proper_env_def original_env_def os_Environ_def
  by (induction e) (auto simp: split2_at)

lemma last_value_distinct: "distinct (map fst e) \<Longrightarrow> last_value e = map_of e"
  unfolding last_value_def by (rule ext) (simp add: permuted_map(2)[of "rev e" e])

text \<open>The value that a variable is to have: that of the configuration, else the original one.\<close>

definition expected :: "environ \<Rightarrow> config_vars \<Rightarrow> string \<Rightarrow> string" where
  "expected e0 c k = (case last_value c k of Some v \<Rightarrow> v | None \<Rightarrow> os_Getenv e0 k)"

definition conf_inv :: "(string \<Rightarrow> bool) \<Rightarrow> environ \<Rightarrow> runner_conf \<Rightarrow> bool" where
  "conf_inv bad e0 r \<longleftrightarrow>
     (case rf_config r of
        None \<Rightarrow> rf_originalEnv r = None \<and> rf_env r = e0
      | Some c \<Rightarrow> rf_originalEnv r = Some e0 \<and> (\<forall>k. \<not> bad k \<longrightarrow> os_Getenv (rf_env r) k = expected e0 c k))"

lemma handleConfig_inv:
  assumes "proper_env e0" and "conf_inv bad e0 r" and "\<And>xs. mset (perm xs) = mset xs"
  shows "conf_inv bad e0 (handleConfig bad perm c r)"
proof -
  have original: "(case rf_originalEnv r of Some o' \<Rightarrow> o' | None \<Rightarrow> original_env (rf_env r)) = e0"
    using assms(1,2) by (auto simp: conf_inv_def original_of_proper split: option.splits)
  let ?w = "wanted_env e0 (rf_config r) c"
  note pw = permuted_map[OF assms(3), OF wanted_distinct, of e0 "rf_config r" c]
  have "os_Getenv (fold (set_var bad) (perm ?w) (rf_env r)) k = expected e0 c k" if "\<not> bad k" for k
  proof -
    have "last_value e0 k = map_of e0 k" using assms(1) by (simp add: last_value_distinct proper_env_def)
    moreover have "k \<notin> fst ` set vs \<Longrightarrow> last_value vs k = None" for vs :: config_vars
      by (simp add: last_value_def map_of_eq_None_iff)
    moreover have "os_Getenv (rf_env r) k = (case rf_config r of None \<Rightarrow> os_Getenv e0 k | Some vs \<Rightarrow> expected e0 vs k)"
      using assms(2) that by (auto simp: conf_inv_def split: option.splits)
    ultimately show ?thesis
      unfolding set_vars_Getenv[OF pw(1), where bad = bad and k = k, OF that] pw(2)
      by (cases "rf_config r") (auto simp: wanted_value expected_def os_Getenv_def split: option.splits)
  qed
  then show ?thesis by (simp add: conf_inv_def handleConfig_def original Let_def)
qed

lemma watchConfig_inv:
  assumes "proper_env e0" and "\<And>xs. mset (perm xs) = mset xs"
  shows "conf_inv bad e0 r \<Longrightarrow> watchConfig bad perm cs r = Ret r' () \<Longrightarrow>
    conf_inv bad e0 r' \<and> rf_config r' = (if cs = [] then rf_config r else last cs)"
proof (induction cs arbitrary: r)
  case (Cons c cs)
  then obtain vs where c: "c = Some vs" by (cases c) auto
  have "conf_inv bad e0 (handleConfig bad perm vs r)" using assms(1) Cons.prems(1) assms(2) by (rule handleConfig_inv)
  then show ?case using Cons.IH[of "handleConfig bad perm vs r"] Cons.prems(2) c by (auto simp: handleConfig_def Let_def)
qed simp

section \<open>Claims\<close>

text \<open>C24: after any configurations that a runner received, in whatever order it walks its map, every variable has the value of
  the last configuration, or else the one that it had when the process was started.\<close>

theorem environment_follows_last_config:
  assumes "proper_env e0" and "\<And>xs. mset (perm xs) = mset xs"
    and "watchConfig bad perm cs \<lparr>rf_config = None, rf_originalEnv = None, rf_env = e0\<rparr> = Ret r ()"
    and "cs \<noteq> []" and "last cs = Some c" and "\<not> bad k"
  shows "os_Getenv (rf_env r) k = (case last_value c k of Some v \<Rightarrow> v | None \<Rightarrow> os_Getenv e0 k)"
proof -
  have "conf_inv bad e0 \<lparr>rf_config = None, rf_originalEnv = None, rf_env = e0\<rparr>" by (simp add: conf_inv_def)
  then have "conf_inv bad e0 r \<and> rf_config r = last cs" using watchConfig_inv[OF assms(1,2) _ assms(3)] assms(4) by simp
  then show ?thesis using assms(5,6) by (auto simp: conf_inv_def expected_def)
qed

lemma environment_follows_last_config_witness:
  "\<exists>r. watchConfig (\<lambda>k. k = []) rev [Some [(''A'', ''1''), (''B'', ''2'')], Some [(''B'', ''3'')]]
       \<lparr>rf_config = None, rf_originalEnv = None, rf_env = [(''A'', ''0''), (''C'', ''9'')]\<rparr> = Ret r ()
     \<and> os_Getenv (rf_env r) ''A'' = ''0'' \<and> os_Getenv (rf_env r) ''B'' = ''3''"
proof -
  have p: "proper_env [(''A'', ''0''), (''C'', ''9'')]" by (simp add: proper_env_def)
  obtain r where r: "watchConfig (\<lambda>k. k = []) rev [Some [(''A'', ''1''), (''B'', ''2'')], Some [(''B'', ''3'')]]
       \<lparr>rf_config = None, rf_originalEnv = None, rf_env = [(''A'', ''0''), (''C'', ''9'')]\<rparr> = Ret r ()"
    by simp
  from environment_follows_last_config[OF p _ r] show ?thesis
    using r by (auto simp: last_value_def os_Getenv_def)
qed

end
