(* ===== verification/Scopes.thy ===== *)
theory Scopes
  imports Targets
begin

text \<open>
  The bases and projects of the server (\<open>state/basis.go\<close>, \<open>state/project.go\<close>, \<open>state/vagrantfile.go\<close>,
  \<open>service_basis.go\<close>, \<open>service_project.go\<close>): their rows and messages, the lookups, the validation and the hooks
  around saving and deleting, and the requests. A basis holds projects, a project holds targets, and both may have a
  Vagrantfile in a table of its own.

  The database, the id generator and the errors of the libraries are arguments. A protobuf message that the server only
  keeps is of type \<open>'x\<close>.
\<close>

section \<open>Messages and rows\<close>

record basis_ref =
  rb_ResourceId :: string
  rb_Name :: string
  rb_Path :: string

record 'x vfilepb =
  vp_Unfinalized :: "'x option"
  vp_Finalized :: "'x option"
  vp_Raw :: string
  vp_Format :: int
  vp_Path :: "string option"

record 'x vfile_row =
  vr_ID :: nat
  vr_Format :: "8 word"
  vr_Unfinalized :: "'x option"
  vr_Finalized :: "'x option"
  vr_Raw :: string
  vr_Path :: "string option"

record 'x basispb =
  bp_ResourceId :: string
  bp_Name :: string
  bp_Path :: string
  bp_Projects :: "basis_ref project_ref list"
  bp_Metadata :: "'x option"
  bp_Configuration :: "'x vfilepb option"
  bp_RemoteEnabled :: bool
  bp_DataSource :: "'x option"

record ('x, 'y) projectpb =
  pp_ResourceId :: string
  pp_Name :: string
  pp_Path :: string
  pp_Targets :: "'y target_ref list"
  pp_Basis :: "basis_ref option"
  pp_Metadata :: "'x option"
  pp_Configuration :: "'x vfilepb option"
  pp_RemoteEnabled :: bool
  pp_DataSource :: "'x option"

text \<open>The columns by which bases and projects are looked up and associated; as a pattern, only the ones that are not
  zero count.\<close>

record basis_key =
  bk_ID :: nat
  bk_ResourceId :: string
  bk_Name :: string
  bk_Path :: string

record project_key =
  jk_ID :: nat
  jk_ResourceId :: string
  jk_BasisID :: nat
  jk_Name :: string
  jk_Path :: string

text \<open>The columns of a row, and a row with its associations.\<close>

record 'x brow =
  bs_ID :: nat
  bs_ResourceId :: string
  bs_Name :: string
  bs_Path :: string
  bs_DataSource :: "'x option"
  bs_Metadata :: "'x option"
  bs_RemoteEnabled :: bool
  bs_VagrantfileID :: "nat option"

record 'x basis_row = "'x brow" +
  bs_Vagrantfile :: "'x vfile_row option"
  bs_Projects :: "project_key list"
  bs_Jobs :: "nat list"

record 'x prow =
  pj_ID :: nat
  pj_ResourceId :: string
  pj_BasisID :: nat
  pj_Name :: string
  pj_Path :: string
  pj_DataSource :: "'x option"
  pj_Metadata :: "'x option"
  pj_RemoteEnabled :: bool
  pj_VagrantfileID :: "nat option"

record 'x project_full = "'x prow" +
  pj_Basis :: "basis_key option"
  pj_Vagrantfile :: "'x vfile_row option"
  pj_Targets :: "target_key list"
  pj_Jobs :: "nat list"

definition zero_bkey :: basis_key where
  "zero_bkey = \<lparr>bk_ID = 0, bk_ResourceId = [], bk_Name = [], bk_Path = []\<rparr>"

definition zero_jkey :: project_key where
  "zero_jkey = \<lparr>jk_ID = 0, jk_ResourceId = [], jk_BasisID = 0, jk_Name = [], jk_Path = []\<rparr>"

definition zero_basis :: "'x basis_row" where
  "zero_basis =
     \<lparr>bs_ID = 0, bs_ResourceId = [], bs_Name = [], bs_Path = [], bs_DataSource = None, bs_Metadata = None,
      bs_RemoteEnabled = False, bs_VagrantfileID = None, bs_Vagrantfile = None, bs_Projects = [], bs_Jobs = []\<rparr>"

definition zero_project :: "'x project_full" where
  "zero_project =
     \<lparr>pj_ID = 0, pj_ResourceId = [], pj_BasisID = 0, pj_Name = [], pj_Path = [], pj_DataSource = None, pj_Metadata = None,
      pj_RemoteEnabled = False, pj_VagrantfileID = None, pj_Basis = None, pj_Vagrantfile = None, pj_Targets = [],
      pj_Jobs = []\<rparr>"

definition bkey_of :: "'x basis_row \<Rightarrow> basis_key" where
  "bkey_of b = \<lparr>bk_ID = bs_ID b, bk_ResourceId = bs_ResourceId b, bk_Name = bs_Name b, bk_Path = bs_Path b\<rparr>"

definition jkey_of :: "'x project_full \<Rightarrow> project_key" where
  "jkey_of p = \<lparr>jk_ID = pj_ID p, jk_ResourceId = pj_ResourceId p, jk_BasisID = pj_BasisID p, jk_Name = pj_Name p,
                jk_Path = pj_Path p\<rparr>"

section \<open>The environment\<close>

text \<open>Rows that match one of some patterns, or all when there is no pattern, in the order of their ids and with their
  associations; the projects that match a pattern, by the join that is written for the reference of a basis; the number of
  rows that match a pattern and have another id; whether the resource id of a row was changed; saving a row with its
  associations; removing rows. The same for Vagrantfiles and jobs.\<close>

record ('d, 'x) scopedb =
  sd_bases :: "'d \<Rightarrow> basis_key list \<Rightarrow> goerr + 'x basis_row list"
  sd_projects :: "'d \<Rightarrow> project_key list \<Rightarrow> goerr + 'x project_full list"
  sd_joined :: "'d \<Rightarrow> basis_ref \<Rightarrow> project_key \<Rightarrow> goerr + 'x project_full list"
  sd_files :: "'d \<Rightarrow> nat \<Rightarrow> goerr + 'x vfile_row list"
  sd_count_bases :: "'d \<Rightarrow> basis_key \<Rightarrow> nat \<Rightarrow> goerr + nat"
  sd_count_projects :: "'d \<Rightarrow> project_key \<Rightarrow> nat \<Rightarrow> goerr + nat"
  sd_basis_changed :: "'d \<Rightarrow> 'x basis_row \<Rightarrow> bool"
  sd_project_changed :: "'d \<Rightarrow> 'x project_full \<Rightarrow> bool"
  sd_save_basis :: "'d \<Rightarrow> 'x basis_row \<Rightarrow> goerr + 'd"
  sd_save_project :: "'d \<Rightarrow> 'x project_full \<Rightarrow> goerr + 'd"
  sd_save_file :: "'d \<Rightarrow> 'x vfile_row \<Rightarrow> goerr + 'd"
  sd_remove_bases :: "'d \<Rightarrow> nat list \<Rightarrow> goerr + 'd"
  sd_remove_projects :: "'d \<Rightarrow> nat list \<Rightarrow> goerr + 'd"
  sd_remove_file :: "'d \<Rightarrow> nat \<Rightarrow> goerr + 'd"
  sd_remove_jobs :: "'d \<Rightarrow> nat list \<Rightarrow> goerr + 'd"
  sd_basis_rows :: "'d \<Rightarrow> 'x brow list"
  sd_project_rows :: "'d \<Rightarrow> 'x prow list"

text \<open>\<open>sn_targets\<close> is the environment of the targets in the same database; \<open>sn_zero\<close> and \<open>sn_zero_file\<close> tell whether a
  message has no field set, \<open>sn_format\<close> is what the decoder makes of the number of a format, and \<open>sn_metadata\<close> and
  \<open>sn_metadata_pb\<close> what it makes of metadata
  over those of a row, and of those of a row.\<close>

record ('d, 'x, 'y) scopeenv =
  sn_db :: "('d, 'x) scopedb"
  sn_targets :: "('d, 'y) targetenv"
  sn_errors :: "goerr list \<Rightarrow> goerr"
  sn_decode :: "goerr list \<Rightarrow> goerr"
  sn_zero :: "'x \<Rightarrow> bool"
  sn_zero_file :: "'x vfilepb \<Rightarrow> bool"
  sn_format :: "int \<Rightarrow> goerr + 8 word"
  sn_metadata :: "'x \<Rightarrow> 'x option \<Rightarrow> goerr + 'x option"
  sn_metadata_pb :: "'x option \<Rightarrow> 'x option"
  sn_fresh :: "'d \<Rightarrow> goerr + string"

type_synonym ('d, 'a) scope_result = "('d, goerr, 'a) outcome"

section \<open>Lookups\<close>

definition BasisFromProtoRef :: "('d, 'x, 'y) scopeenv \<Rightarrow> 'd \<Rightarrow> basis_ref option \<Rightarrow> goerr + 'x basis_row" where
  "BasisFromProtoRef env d ref =
     (case ref of
        None \<Rightarrow> Inl EmptyProtoArgument
      | Some r \<Rightarrow>
          if rb_ResourceId r = [] then Inl RecordNotFound
          else first_row (sd_bases (sn_db env) d [zero_bkey\<lparr>bk_ResourceId := rb_ResourceId r\<rparr>]))"

definition BasisFromProto :: "('d, 'x, 'y) scopeenv \<Rightarrow> 'd \<Rightarrow> 'x basispb option \<Rightarrow> goerr + 'x basis_row" where
  "BasisFromProto env d m =
     (case m of
        None \<Rightarrow> Inl EmptyProtoArgument
      | Some m \<Rightarrow> BasisFromProtoRef env d (Some \<lparr>rb_ResourceId = bp_ResourceId m, rb_Name = [], rb_Path = []\<rparr>))"

text \<open>The name and the path have to match together.\<close>

definition BasisFromProtoRefFuzzy :: "('d, 'x, 'y) scopeenv \<Rightarrow> 'd \<Rightarrow> basis_ref \<Rightarrow> goerr + 'x basis_row" where
  "BasisFromProtoRefFuzzy env d ref =
     (case BasisFromProtoRef env d (Some ref) of
        Inr b \<Rightarrow> Inr b
      | Inl e \<Rightarrow>
          if \<not> is_not_found e then Inl e
          else if rb_Name ref = [] \<and> rb_Path ref = [] then Inl RecordNotFound
          else first_row (sd_bases (sn_db env) d [zero_bkey\<lparr>bk_Name := rb_Name ref, bk_Path := rb_Path ref\<rparr>]))"

definition BasisFromProtoFuzzy :: "('d, 'x, 'y) scopeenv \<Rightarrow> 'd \<Rightarrow> 'x basispb option \<Rightarrow> goerr + 'x basis_row" where
  "BasisFromProtoFuzzy env d m =
     (case m of
        None \<Rightarrow> Inl EmptyProtoArgument
      | Some m \<Rightarrow>
          BasisFromProtoRefFuzzy env d \<lparr>rb_ResourceId = bp_ResourceId m, rb_Name = bp_Name m, rb_Path = bp_Path m\<rparr>)"

definition project_FromProtoRef ::
  "('d, 'x, 'y) scopeenv \<Rightarrow> 'd \<Rightarrow> basis_ref project_ref option \<Rightarrow> goerr + 'x project_full" where
  "project_FromProtoRef env d ref =
     (case ref of
        None \<Rightarrow> Inl EmptyProtoArgument
      | Some r \<Rightarrow>
          if pf_ResourceId r = [] then Inl RecordNotFound
          else first_row (sd_projects (sn_db env) d [zero_jkey\<lparr>jk_ResourceId := pf_ResourceId r\<rparr>]))"

text \<open>The result of the lookup by the resource id is only looked at when it is an error.\<close>

definition project_FromProtoRefFuzzy ::
  "('d, 'x, 'y) scopeenv \<Rightarrow> 'd \<Rightarrow> basis_ref project_ref \<Rightarrow> goerr + 'x project_full" where
  "project_FromProtoRefFuzzy env d ref =
     (let by_name =
        (case pf_Basis ref of
           None \<Rightarrow> Inl MissingProtoParent
         | Some b \<Rightarrow>
             if pf_Name ref = [] \<and> pf_Path ref = [] then Inl RecordNotFound
             else first_row (sd_joined (sn_db env) d b (zero_jkey\<lparr>jk_Name := pf_Name ref, jk_Path := pf_Path ref\<rparr>)))
      in case project_FromProtoRef env d (Some ref) of
           Inl e \<Rightarrow> if is_not_found e then by_name else Inl e
         | Inr _ \<Rightarrow> by_name)"

definition project_FromProto :: "('d, 'x, 'y) scopeenv \<Rightarrow> 'd \<Rightarrow> ('x, 'y) projectpb option \<Rightarrow> goerr + 'x project_full" where
  "project_FromProto env d m =
     (case m of
        None \<Rightarrow> Inl EmptyProtoArgument
      | Some m \<Rightarrow>
          project_FromProtoRef env d
            (Some \<lparr>pf_ResourceId = pp_ResourceId m, pf_Name = [], pf_Path = [], pf_Basis = None\<rparr>))"

definition project_FromProtoFuzzy ::
  "('d, 'x, 'y) scopeenv \<Rightarrow> 'd \<Rightarrow> ('x, 'y) projectpb option \<Rightarrow> goerr + 'x project_full" where
  "project_FromProtoFuzzy env d m =
     (case m of
        None \<Rightarrow> Inl EmptyProtoArgument
      | Some m \<Rightarrow>
          project_FromProtoRefFuzzy env d
            \<lparr>pf_ResourceId = pp_ResourceId m, pf_Name = pp_Name m, pf_Path = pp_Path m, pf_Basis = pp_Basis m\<rparr>)"

section \<open>Saving\<close>

text \<open>The checks of a name, a path or another field that must be present and unique.\<close>

definition unique_field :: "string \<Rightarrow> (goerr + nat) \<Rightarrow> field_check" where
  "unique_field s n = first_bad [required s, checkUnique n]"

definition resource_field :: "nat \<Rightarrow> string \<Rightarrow> (goerr + nat) \<Rightarrow> bool \<Rightarrow> field_check" where
  "resource_field i s n changed =
     first_bad [required s, if i = 0 then checkUnique n else checkNotModified changed]"

definition basis_validate :: "('d, 'x, 'y) scopeenv \<Rightarrow> 'd \<Rightarrow> 'x basis_row \<Rightarrow> goerr option" where
  "basis_validate env d b =
     (let count = \<lambda>k. sd_count_bases (sn_db env) d k (bs_ID b)
      in ValidateStruct (sn_errors env)
           [unique_field (bs_Name b) (count (zero_bkey\<lparr>bk_Name := bs_Name b\<rparr>)),
            unique_field (bs_Path b) (count (zero_bkey\<lparr>bk_Path := bs_Path b\<rparr>)),
            resource_field (bs_ID b) (bs_ResourceId b) (count (zero_bkey\<lparr>bk_ResourceId := bs_ResourceId b\<rparr>))
              (sd_basis_changed (sn_db env) d b)] [])"

definition basis_id :: "'x project_full \<Rightarrow> nat" where
  "basis_id p = (case pj_Basis p of None \<Rightarrow> pj_BasisID p | Some b \<Rightarrow> bk_ID b)"

definition project_validate :: "('d, 'x, 'y) scopeenv \<Rightarrow> 'd \<Rightarrow> 'x project_full \<Rightarrow> goerr option" where
  "project_validate env d p =
     (let count = \<lambda>k. sd_count_projects (sn_db env) d k (pj_ID p)
      in ValidateStruct (sn_errors env)
           [required_if (pj_Basis p = None) (pj_BasisID p \<noteq> 0),
            required_if (pj_BasisID p = 0) (pj_Basis p \<noteq> None),
            unique_field (pj_Name p) (count (zero_jkey\<lparr>jk_Name := pj_Name p, jk_BasisID := basis_id p\<rparr>)),
            unique_field (pj_Path p) (count (zero_jkey\<lparr>jk_Path := pj_Path p, jk_BasisID := basis_id p\<rparr>)),
            resource_field (pj_ID p) (pj_ResourceId p) (count (zero_jkey\<lparr>jk_ResourceId := pj_ResourceId p\<rparr>))
              (sd_project_changed (sn_db env) d p)] [])"

definition basis_BeforeSave :: "('d, 'x, 'y) scopeenv \<Rightarrow> 'd \<Rightarrow> 'x basis_row \<Rightarrow> goerr + 'x basis_row" where
  "basis_BeforeSave env d b =
     (case (if bs_ResourceId b = [] then map_sum id (\<lambda>i. b\<lparr>bs_ResourceId := i\<rparr>) (sn_fresh env d) else Inr b) of
        Inl e \<Rightarrow> Inl e
      | Inr b \<Rightarrow> (case basis_validate env d b of Some e \<Rightarrow> Inl e | None \<Rightarrow> Inr b))"

definition project_BeforeSave :: "('d, 'x, 'y) scopeenv \<Rightarrow> 'd \<Rightarrow> 'x project_full \<Rightarrow> goerr + 'x project_full" where
  "project_BeforeSave env d p =
     (case (if pj_ResourceId p = [] then map_sum id (\<lambda>i. p\<lparr>pj_ResourceId := i\<rparr>) (sn_fresh env d) else Inr p) of
        Inl e \<Rightarrow> Inl e
      | Inr p \<Rightarrow> (case project_validate env d p of Some e \<Rightarrow> Inl e | None \<Rightarrow> Inr p))"

text \<open>A new Vagrantfile takes the place of the one that the row has, under its id.\<close>

definition update_file ::
  "('d, 'x, 'y) scopeenv \<Rightarrow> 'x vfile_row option \<Rightarrow> nat option \<Rightarrow> 'd \<Rightarrow> ('d, 'x vfile_row option) scope_result" where
  "update_file env new old d =
     (case (new, old) of
        (Some v, Some i) \<Rightarrow>
          if vr_ID v \<noteq> 0 then Ret d new
          else (case first_row (sd_files (sn_db env) d i) of
                  Inl e \<Rightarrow> Fail d e
                | Inr was \<Rightarrow>
                    (case sd_save_file (sn_db env) d (v\<lparr>vr_ID := vr_ID was\<rparr>) of
                       Inl e \<Rightarrow> Fail d e
                     | Inr d1 \<Rightarrow> Ret d1 (Some (v\<lparr>vr_ID := vr_ID was\<rparr>))))
      | _ \<Rightarrow> Ret d new)"

definition basis_BeforeUpdate :: "('d, 'x, 'y) scopeenv \<Rightarrow> 'x basis_row \<Rightarrow> 'd \<Rightarrow> ('d, 'x basis_row) scope_result" where
  "basis_BeforeUpdate env b d =
     bind_o (update_file env (bs_Vagrantfile b) (bs_VagrantfileID b) d) (\<lambda>d v. Ret d (b\<lparr>bs_Vagrantfile := v\<rparr>))"

definition project_BeforeUpdate ::
  "('d, 'x, 'y) scopeenv \<Rightarrow> 'x project_full \<Rightarrow> 'd \<Rightarrow> ('d, 'x project_full) scope_result" where
  "project_BeforeUpdate env p d =
     bind_o (update_file env (pj_Vagrantfile p) (pj_VagrantfileID p) d) (\<lambda>d v. Ret d (p\<lparr>pj_Vagrantfile := v\<rparr>))"

text \<open>The row as the caller holds it afterwards. A row without an id is created, and the hook before an update does not
  run for it. All of it is one transaction.\<close>

definition basis_upsert :: "('d, 'x, 'y) scopeenv \<Rightarrow> 'x basis_row \<Rightarrow> 'd \<Rightarrow> ('d, 'x basis_row) scope_result" where
  "basis_upsert env b d =
     (case basis_BeforeSave env d b of
        Inl e \<Rightarrow> Fail d e
      | Inr b \<Rightarrow>
          in_transaction d (bind_o (if bs_ID b = 0 then Ret d b else basis_BeforeUpdate env b d) (\<lambda>d1 b.
            case sd_save_basis (sn_db env) d1 b of Inl e \<Rightarrow> Fail d1 e | Inr d2 \<Rightarrow> Ret d2 b)))"

definition project_upsert :: "('d, 'x, 'y) scopeenv \<Rightarrow> 'x project_full \<Rightarrow> 'd \<Rightarrow> ('d, 'x project_full) scope_result" where
  "project_upsert env p d =
     (case project_BeforeSave env d p of
        Inl e \<Rightarrow> Fail d e
      | Inr p \<Rightarrow>
          in_transaction d (bind_o (if pj_ID p = 0 then Ret d p else project_BeforeUpdate env p d) (\<lambda>d1 p.
            case sd_save_project (sn_db env) d1 p of Inl e \<Rightarrow> Fail d1 e | Inr d2 \<Rightarrow> Ret d2 p)))"

section \<open>Messages into rows and back\<close>

definition zero_basis_ref :: basis_ref where
  "zero_basis_ref = \<lparr>rb_ResourceId = [], rb_Name = [], rb_Path = []\<rparr>"

text \<open>The row of a Vagrantfile. A format that cannot be decoded is a panic.\<close>

definition VagrantfileFromProto :: "('d, 'x, 'y) scopeenv \<Rightarrow> 'x vfilepb \<Rightarrow> 'd \<Rightarrow> ('d, 'x vfile_row) scope_result" where
  "VagrantfileFromProto env v d =
     (case sn_format env (vp_Format v) of
        Inl e \<Rightarrow> Crash ''failed to decode vagrantfile''
      | Inr f \<Rightarrow> Ret d \<lparr>vr_ID = 0, vr_Format = f, vr_Unfinalized = vp_Unfinalized v, vr_Finalized = vp_Finalized v,
                      vr_Raw = vp_Raw v, vr_Path = vp_Path v\<rparr>)"

definition Vagrantfile_ToProto :: "'x vfile_row \<Rightarrow> 'x vfilepb" where
  "Vagrantfile_ToProto v =
     \<lparr>vp_Unfinalized = vr_Unfinalized v, vp_Finalized = vr_Finalized v, vp_Raw = vr_Raw v, vp_Format = uint (vr_Format v),
      vp_Path = vr_Path v\<rparr>"

definition decode_file ::
  "('d, 'x, 'y) scopeenv \<Rightarrow> 'x vfilepb option \<Rightarrow> 'x vfile_row option \<Rightarrow> 'd \<Rightarrow> ('d, 'x vfile_row option) scope_result" where
  "decode_file env m old d =
     (case m of
        None \<Rightarrow> Ret d old
      | Some v \<Rightarrow>
          if sn_zero_file env v then Ret d old else bind_o (VagrantfileFromProto env v d) (\<lambda>d r. Ret d (Some r)))"

definition decode_metadata :: "('d, 'x, 'y) scopeenv \<Rightarrow> 'x option \<Rightarrow> 'x option \<Rightarrow> goerr + 'x option" where
  "decode_metadata env m old =
     (case m of None \<Rightarrow> Inr old | Some x \<Rightarrow> if sn_zero env x then Inr old else sn_metadata env x old)"

definition softDecode_basis ::
  "('d, 'x, 'y) scopeenv \<Rightarrow> 'x basispb \<Rightarrow> 'x basis_row \<Rightarrow> 'd \<Rightarrow> ('d, 'x basis_row) scope_result" where
  "softDecode_basis env m b d =
     bind_o (decode_file env (bp_Configuration m) (bs_Vagrantfile b) d) (\<lambda>d file.
       let metadata = decode_metadata env (bp_Metadata m) (bs_Metadata b);
           projects = convert_list (\<lambda>r. map_sum id jkey_of (project_FromProtoRef env d (Some r))) (bp_Projects m) (bs_Projects b)
       in case (metadata, projects) of
            (Inr md, Inr ps) \<Rightarrow>
              Ret d (b\<lparr>bs_ResourceId := set_or [] (bp_ResourceId m) (bs_ResourceId b),
                       bs_Name := set_or [] (bp_Name m) (bs_Name b),
                       bs_Path := set_or [] (bp_Path m) (bs_Path b),
                       bs_DataSource := set_msg (sn_zero env) (bp_DataSource m) (bs_DataSource b),
                       bs_Metadata := md,
                       bs_RemoteEnabled := set_or False (bp_RemoteEnabled m) (bs_RemoteEnabled b),
                       bs_Vagrantfile := file, bs_Projects := ps\<rparr>)
          | _ \<Rightarrow> Fail d (sn_decode env (errors_of metadata @ errors_of projects)))"

definition softDecode_project ::
  "('d, 'x, 'y) scopeenv \<Rightarrow> ('x, 'y) projectpb \<Rightarrow> 'x project_full \<Rightarrow> 'd \<Rightarrow> ('d, 'x project_full) scope_result" where
  "softDecode_project env m p d =
     bind_o (decode_file env (pp_Configuration m) (pj_Vagrantfile p) d) (\<lambda>d file.
       let basis = convert (pp_Basis m) zero_basis_ref (\<lambda>r. map_sum id bkey_of (BasisFromProtoRef env d (Some r))) (pj_Basis p);
           metadata = decode_metadata env (pp_Metadata m) (pj_Metadata p);
           targets = convert_list (\<lambda>r. map_sum id key_of (TargetFromProtoRef (sn_targets env) d (Some r))) (pp_Targets m) (pj_Targets p)
       in case (basis, metadata, targets) of
            (Inr ba, Inr md, Inr ts) \<Rightarrow>
              Ret d (p\<lparr>pj_ResourceId := set_or [] (pp_ResourceId m) (pj_ResourceId p),
                       pj_Name := set_or [] (pp_Name m) (pj_Name p),
                       pj_Path := set_or [] (pp_Path m) (pj_Path p),
                       pj_DataSource := set_msg (sn_zero env) (pp_DataSource m) (pj_DataSource p),
                       pj_Metadata := md,
                       pj_RemoteEnabled := set_or False (pp_RemoteEnabled m) (pj_RemoteEnabled p),
                       pj_Basis := ba, pj_Vagrantfile := file, pj_Targets := ts\<rparr>)
          | _ \<Rightarrow> Fail d (sn_decode env (errors_of basis @ errors_of metadata @ errors_of targets)))"

definition basis_ToProtoRef :: "'x basis_row \<Rightarrow> basis_ref" where
  "basis_ToProtoRef b = \<lparr>rb_ResourceId = bs_ResourceId b, rb_Name = bs_Name b, rb_Path = bs_Path b\<rparr>"

definition bkey_ref :: "basis_key \<Rightarrow> basis_ref" where
  "bkey_ref k = \<lparr>rb_ResourceId = bk_ResourceId k, rb_Name = bk_Name k, rb_Path = bk_Path k\<rparr>"

definition jkey_ref :: "project_key \<Rightarrow> basis_ref project_ref" where
  "jkey_ref k = \<lparr>pf_ResourceId = jk_ResourceId k, pf_Name = jk_Name k, pf_Path = jk_Path k, pf_Basis = None\<rparr>"

definition project_ToProtoRef :: "'x project_full \<Rightarrow> basis_ref project_ref" where
  "project_ToProtoRef p =
     \<lparr>pf_ResourceId = pj_ResourceId p, pf_Name = pj_Name p, pf_Path = pj_Path p,
      pf_Basis = map_option bkey_ref (pj_Basis p)\<rparr>"

definition basis_ToProto :: "('d, 'x, 'y) scopeenv \<Rightarrow> 'x basis_row \<Rightarrow> 'x basispb" where
  "basis_ToProto env b =
     \<lparr>bp_ResourceId = bs_ResourceId b, bp_Name = bs_Name b, bp_Path = bs_Path b, bp_Projects = map jkey_ref (bs_Projects b),
      bp_Metadata = sn_metadata_pb env (bs_Metadata b),
      bp_Configuration = map_option Vagrantfile_ToProto (bs_Vagrantfile b),
      bp_RemoteEnabled = bs_RemoteEnabled b, bp_DataSource = bs_DataSource b\<rparr>"

definition project_ToProto :: "('d, 'x, 'y) scopeenv \<Rightarrow> 'x project_full \<Rightarrow> ('x, 'y) projectpb" where
  "project_ToProto env p =
     \<lparr>pp_ResourceId = pj_ResourceId p, pp_Name = pj_Name p, pp_Path = pj_Path p, pp_Targets = map key_ref (pj_Targets p),
      pp_Basis = map_option bkey_ref (pj_Basis p), pp_Metadata = sn_metadata_pb env (pj_Metadata p),
      pp_Configuration = map_option Vagrantfile_ToProto (pj_Vagrantfile p),
      pp_RemoteEnabled = pj_RemoteEnabled p, pp_DataSource = pj_DataSource p\<rparr>"

section \<open>Deleting\<close>

text \<open>Any row that has one of the unique columns. A condition without a field is no condition.\<close>

definition basis_find :: "('d, 'x, 'y) scopeenv \<Rightarrow> 'd \<Rightarrow> basis_key \<Rightarrow> goerr + 'x basis_row" where
  "basis_find env d k =
     first_row (sd_bases (sn_db env) d (filter (\<lambda>q. q \<noteq> zero_bkey)
       [zero_bkey\<lparr>bk_ResourceId := bk_ResourceId k\<rparr>, zero_bkey\<lparr>bk_Name := bk_Name k\<rparr>,
        zero_bkey\<lparr>bk_Path := bk_Path k\<rparr>, zero_bkey\<lparr>bk_ID := bk_ID k\<rparr>]))"

definition project_find :: "('d, 'x, 'y) scopeenv \<Rightarrow> 'd \<Rightarrow> project_key \<Rightarrow> goerr + 'x project_full" where
  "project_find env d k =
     first_row (sd_projects (sn_db env) d (filter (\<lambda>q. q \<noteq> zero_jkey)
       [zero_jkey\<lparr>jk_ResourceId := jk_ResourceId k\<rparr>, zero_jkey\<lparr>jk_BasisID := jk_BasisID k, jk_Name := jk_Name k\<rparr>,
        zero_jkey\<lparr>jk_BasisID := jk_BasisID k, jk_Path := jk_Path k\<rparr>, zero_jkey\<lparr>jk_ID := jk_ID k\<rparr>]))"

definition done_with :: "'d \<Rightarrow> goerr + 'd \<Rightarrow> ('d, unit) scope_result" where
  "done_with d r = (case r of Inl e \<Rightarrow> Fail d e | Inr d1 \<Rightarrow> Ret d1 ())"

definition delete_file :: "('d, 'x, 'y) scopeenv \<Rightarrow> nat option \<Rightarrow> 'd \<Rightarrow> ('d, unit) scope_result" where
  "delete_file env i d = (case i of None \<Rightarrow> Ret d () | Some i \<Rightarrow> done_with d (sd_remove_file (sn_db env) d i))"

definition delete_jobs :: "('d, 'x, 'y) scopeenv \<Rightarrow> nat list \<Rightarrow> 'd \<Rightarrow> ('d, unit) scope_result" where
  "delete_jobs env js d = (if js = [] then Ret d () else done_with d (sd_remove_jobs (sn_db env) d js))"

definition project_BeforeDelete :: "('d, 'x, 'y) scopeenv \<Rightarrow> project_key \<Rightarrow> 'd \<Rightarrow> ('d, unit) scope_result" where
  "project_BeforeDelete env k d =
     (case project_find env d k of
        Inl e \<Rightarrow> Fail d e
      | Inr p \<Rightarrow>
          bind_o (delete_file env (pj_VagrantfileID p) d) (\<lambda>d _.
          bind_o (if pj_Targets p = [] then Ret d ()
                  else delete_keys (sn_targets env) (te_stack (sn_targets env)) (pj_Targets p) (pj_Targets p) d) (\<lambda>d _.
          delete_jobs env (pj_Jobs p) d)))"

text \<open>The hooks of some projects in turn, then the rows are removed.\<close>

fun delete_projects :: "('d, 'x, 'y) scopeenv \<Rightarrow> project_key list \<Rightarrow> project_key list \<Rightarrow> 'd \<Rightarrow> ('d, unit) scope_result" where
  "delete_projects env all [] d = done_with d (sd_remove_projects (sn_db env) d (map jk_ID all))"
| "delete_projects env all (k # ks) d = bind_o (project_BeforeDelete env k d) (\<lambda>d _. delete_projects env all ks d)"

definition basis_BeforeDelete :: "('d, 'x, 'y) scopeenv \<Rightarrow> basis_key \<Rightarrow> 'd \<Rightarrow> ('d, unit) scope_result" where
  "basis_BeforeDelete env k d =
     (case basis_find env d k of
        Inl e \<Rightarrow> Fail d e
      | Inr b \<Rightarrow>
          bind_o (delete_file env (bs_VagrantfileID b) d) (\<lambda>d _.
          bind_o (if bs_Projects b = [] then Ret d () else delete_projects env (bs_Projects b) (bs_Projects b) d) (\<lambda>d _.
          delete_jobs env (bs_Jobs b) d)))"

section \<open>The operations\<close>

definition BasisGet :: "('d, 'x, 'y) scopeenv \<Rightarrow> basis_ref option \<Rightarrow> 'd \<Rightarrow> ('d, 'x basispb) scope_result" where
  "BasisGet env ref d =
     (case BasisFromProtoRef env d ref of
        Inl e \<Rightarrow> Fail d (lookupErrorToStatus ''basis'' e)
      | Inr b \<Rightarrow> Ret d (basis_ToProto env b))"

definition BasisFind :: "('d, 'x, 'y) scopeenv \<Rightarrow> 'x basispb option \<Rightarrow> 'd \<Rightarrow> ('d, 'x basispb) scope_result" where
  "BasisFind env m d =
     (case BasisFromProtoFuzzy env d m of
        Inl e \<Rightarrow> Fail d (lookupErrorToStatus ''basis'' e)
      | Inr b \<Rightarrow> Ret d (basis_ToProto env b))"

definition put_basis :: "('d, 'x, 'y) scopeenv \<Rightarrow> 'x basispb \<Rightarrow> 'x basis_row \<Rightarrow> 'd \<Rightarrow> ('d, 'x basispb) scope_result" where
  "put_basis env m b d =
     map_err (saveErrorToStatus ''basis'')
       (bind_o (softDecode_basis env m b d) (\<lambda>d b.
        bind_o (basis_upsert env b d) (\<lambda>d b. Ret d (basis_ToProto env b))))"

text \<open>A basis is looked up by its resource id only.\<close>

definition BasisPut :: "('d, 'x, 'y) scopeenv \<Rightarrow> 'x basispb option \<Rightarrow> 'd \<Rightarrow> ('d, 'x basispb) scope_result" where
  "BasisPut env m d =
     (case (BasisFromProto env d m, m) of
        (Inr b, Some m) \<Rightarrow> put_basis env m b d
      | (Inl e, Some m) \<Rightarrow> if is_not_found e then put_basis env m zero_basis d else Fail d (lookupErrorToStatus ''basis'' e)
      | (_, None) \<Rightarrow> Fail d (lookupErrorToStatus ''basis'' EmptyProtoArgument))"

definition BasisList :: "('d, 'x, 'y) scopeenv \<Rightarrow> 'd \<Rightarrow> ('d, 'x basis_row list) scope_result" where
  "BasisList env d =
     (case sd_bases (sn_db env) d [] of
        Inl e \<Rightarrow> Fail d (lookupErrorToStatus ''basis'' e)
      | Inr bs \<Rightarrow> Ret d bs)"

definition BasisDelete :: "('d, 'x, 'y) scopeenv \<Rightarrow> basis_ref option \<Rightarrow> 'd \<Rightarrow> ('d, unit) scope_result" where
  "BasisDelete env ref d =
     (case BasisFromProtoRef env d ref of
        Inl e \<Rightarrow> if is_not_found e then Ret d () else Fail d (lookupErrorToStatus ''basis'' e)
      | Inr b \<Rightarrow>
          map_err (deleteErrorToStatus ''basis'')
            (in_transaction d (bind_o (basis_BeforeDelete env (bkey_of b) d)
               (\<lambda>d _. done_with d (sd_remove_bases (sn_db env) d [bs_ID b])))))"

definition ProjectGet ::
  "('d, 'x, 'y) scopeenv \<Rightarrow> basis_ref project_ref option \<Rightarrow> 'd \<Rightarrow> ('d, ('x, 'y) projectpb) scope_result" where
  "ProjectGet env ref d =
     (case project_FromProtoRef env d ref of
        Inl e \<Rightarrow> Fail d (lookupErrorToStatus ''project'' e)
      | Inr p \<Rightarrow> Ret d (project_ToProto env p))"

text \<open>A configuration that is not finalized leaves none that is; without a Vagrantfile the write fails.\<close>

definition drop_finalized :: "'x vfilepb option \<Rightarrow> 'x project_full \<Rightarrow> 'd \<Rightarrow> ('d, 'x project_full) scope_result" where
  "drop_finalized m p d =
     (case m of
        None \<Rightarrow> Ret d p
      | Some v \<Rightarrow>
          if vp_Finalized v \<noteq> None then Ret d p
          else (case pj_Vagrantfile p of
                  None \<Rightarrow> Crash ''nil vagrantfile''
                | Some f \<Rightarrow> Ret d (p\<lparr>pj_Vagrantfile := Some (f\<lparr>vr_Finalized := None\<rparr>)\<rparr>)))"

definition put_project ::
  "('d, 'x, 'y) scopeenv \<Rightarrow> ('x, 'y) projectpb \<Rightarrow> 'x project_full \<Rightarrow> 'd \<Rightarrow> ('d, ('x, 'y) projectpb) scope_result" where
  "put_project env m p d =
     map_err (saveErrorToStatus ''project'')
       (bind_o (softDecode_project env m p d) (\<lambda>d p.
        bind_o (drop_finalized (pp_Configuration m) p d) (\<lambda>d p.
        bind_o (project_upsert env p d) (\<lambda>d p. Ret d (project_ToProto env p)))))"

text \<open>The basis of a message is dropped when its project is found.\<close>

definition ProjectPut ::
  "('d, 'x, 'y) scopeenv \<Rightarrow> ('x, 'y) projectpb option \<Rightarrow> 'd \<Rightarrow> ('d, ('x, 'y) projectpb) scope_result" where
  "ProjectPut env m d =
     (case (project_FromProto env d m, m) of
        (Inr p, Some m) \<Rightarrow> put_project env (m\<lparr>pp_Basis := None\<rparr>) p d
      | (Inl e, Some m) \<Rightarrow>
          if is_not_found e then put_project env m zero_project d else Fail d (lookupErrorToStatus ''project'' e)
      | (_, None) \<Rightarrow> Fail d (lookupErrorToStatus ''project'' EmptyProtoArgument))"

definition ProjectList :: "('d, 'x, 'y) scopeenv \<Rightarrow> 'd \<Rightarrow> ('d, basis_ref project_ref list) scope_result" where
  "ProjectList env d =
     (case sd_projects (sn_db env) d [] of
        Inl e \<Rightarrow> Fail d (lookupErrorToStatus ''projects'' e)
      | Inr ps \<Rightarrow> Ret d (map project_ToProtoRef ps))"

text \<open>The error keeps the message for which there is no project, as text.\<close>

definition ProjectFind ::
  "('d, 'x, 'y) scopeenv \<Rightarrow> ('x, 'y) projectpb option \<Rightarrow> 'd \<Rightarrow> ('d, ('x, 'y) projectpb) scope_result" where
  "ProjectFind env m d =
     (case project_FromProtoFuzzy env d m of
        Inl e \<Rightarrow> Fail d (lookupErrorToStatus ''project'' (Wrapped ''project message'' e))
      | Inr p \<Rightarrow> Ret d (project_ToProto env p))"

text \<open>The error of a deletion that fails is not the one that is reported: it is formatted from the lookup, which had none.\<close>

definition ProjectDelete :: "('d, 'x, 'y) scopeenv \<Rightarrow> basis_ref project_ref option \<Rightarrow> 'd \<Rightarrow> ('d, unit) scope_result" where
  "ProjectDelete env ref d =
     (case project_FromProtoRef env d ref of
        Inl e \<Rightarrow> if is_not_found e then Ret d () else Fail d (deleteErrorToStatus ''project'' e)
      | Inr p \<Rightarrow>
          map_err (\<lambda>_. deleteErrorToStatus ''project'' (OtherError ''%!w(<nil>)''))
            (in_transaction d (delete_projects env [jkey_of p] [jkey_of p] d)))"

text \<open>The requests.\<close>

definition UpsertBasis :: "('d, 'x, 'y) scopeenv \<Rightarrow> 'x basispb option \<Rightarrow> 'd \<Rightarrow> ('d, 'x basispb) scope_result" where
  "UpsertBasis env m d = BasisPut env m d"

definition GetBasis :: "('d, 'x, 'y) scopeenv \<Rightarrow> basis_ref option \<Rightarrow> 'd \<Rightarrow> ('d, 'x basispb) scope_result" where
  "GetBasis env ref d = BasisGet env ref d"

definition FindBasis :: "('d, 'x, 'y) scopeenv \<Rightarrow> 'x basispb option \<Rightarrow> 'd \<Rightarrow> ('d, 'x basispb) scope_result" where
  "FindBasis env m d = BasisFind env m d"

definition ListBasis :: "('d, 'x, 'y) scopeenv \<Rightarrow> 'd \<Rightarrow> ('d, basis_ref list) scope_result" where
  "ListBasis env d = bind_o (BasisList env d) (\<lambda>d bs. Ret d (map basis_ToProtoRef bs))"

definition UpsertProject ::
  "('d, 'x, 'y) scopeenv \<Rightarrow> ('x, 'y) projectpb option \<Rightarrow> 'd \<Rightarrow> ('d, ('x, 'y) projectpb) scope_result" where
  "UpsertProject env m d = ProjectPut env m d"

definition GetProject ::
  "('d, 'x, 'y) scopeenv \<Rightarrow> basis_ref project_ref option \<Rightarrow> 'd \<Rightarrow> ('d, ('x, 'y) projectpb) scope_result" where
  "GetProject env ref d = ProjectGet env ref d"

definition FindProject ::
  "('d, 'x, 'y) scopeenv \<Rightarrow> ('x, 'y) projectpb option \<Rightarrow> 'd \<Rightarrow> ('d, ('x, 'y) projectpb) scope_result" where
  "FindProject env m d = ProjectFind env m d"

definition ListProjects :: "('d, 'x, 'y) scopeenv \<Rightarrow> 'd \<Rightarrow> ('d, basis_ref project_ref list) scope_result" where
  "ListProjects env d = ProjectList env d"

end
