(* ===== verification/ScopeStore.thy ===== *)
theory ScopeStore
  imports Scopes
begin

text \<open>
  What the bases and projects rely on from the database (\<open>scope_lawful\<close>), the invariant of their rows
  (\<open>scopes_ok\<close>), and what the requests to put them leave.
\<close>

section \<open>Tables\<close>

text \<open>Rows have an id and a resource id of their own, and differ in what else is unique.\<close>

definition distinct_rows ::
  "('r \<Rightarrow> nat) \<Rightarrow> ('r \<Rightarrow> string) \<Rightarrow> ('r \<Rightarrow> 'r \<Rightarrow> bool) \<Rightarrow> ('r \<Rightarrow> bool) \<Rightarrow> 'r set \<Rightarrow> bool" where
  "distinct_rows rid rri other good R \<longleftrightarrow>
     (\<forall>a\<in>R. rid a \<noteq> 0 \<and> rri a \<noteq> [] \<and> good a \<and> (\<forall>b\<in>R. rid a = rid b \<or> rri a = rri b \<or> other a b \<longrightarrow> a = b))"

text \<open>A new row gets an id; the resource id of a row is only written when it is created.\<close>

definition kept_id :: "('r \<Rightarrow> nat) \<Rightarrow> ('r \<Rightarrow> string) \<Rightarrow> 'r list \<Rightarrow> nat \<Rightarrow> string \<Rightarrow> 'r \<Rightarrow> bool" where
  "kept_id rid rri rows own res r \<longleftrightarrow>
     (if own = 0 then rid r \<noteq> 0 \<and> rid r \<notin> rid ` set rows \<and> rri r = res
      else rid r = own \<and> (own \<in> rid ` set rows \<longrightarrow> (\<exists>x \<in> set rows. rid x = own \<and> rri r = rri x)))"

definition row_put :: "('r \<Rightarrow> nat) \<Rightarrow> 'r list \<Rightarrow> 'r \<Rightarrow> 'r list \<Rightarrow> bool" where
  "row_put rid rows r rows1 \<longleftrightarrow> set rows1 = insert r {x \<in> set rows. rid x \<noteq> rid r}"

locale row_table =
  fixes rid :: "'r \<Rightarrow> nat" and rri :: "'r \<Rightarrow> string" and other :: "'r \<Rightarrow> 'r \<Rightarrow> bool" and good :: "'r \<Rightarrow> bool"
  assumes other_sym: "other a b \<Longrightarrow> other b a"
begin

lemma distinctD:
  assumes "distinct_rows rid rri other good R" and "a \<in> R"
  shows "rid a \<noteq> 0" "rri a \<noteq> []" "good a"
    and "b \<in> R \<Longrightarrow> rid a = rid b \<or> rri a = rri b \<or> other a b \<Longrightarrow> a = b"
  using assms unfolding distinct_rows_def by blast+

lemma kept_row:
  assumes "distinct_rows rid rri other good (set rows)" and "kept_id rid rri rows own res r"
    and "x \<in> set rows" and "rid x = own"
  shows "rid r = own" "rri r = rri x" "own \<noteq> 0"
proof -
  show n: "own \<noteq> 0" using distinctD(1)[OF assms(1,3)] assms(4) by simp
  then obtain y where y: "rid r = own" "y \<in> set rows" "rid y = own" "rri r = rri y"
    using assms(2-4) by (auto simp: kept_id_def)
  then have "y = x" using distinctD(4)[OF assms(1) y(2) assms(3)] assms(4) by simp
  with y show "rid r = own" "rri r = rri x" by simp_all
qed

lemma put_distinct:
  assumes D: "distinct_rows rid rri other good (set rows)" and k: "kept_id rid rri rows own res r"
    and own: "own \<noteq> 0 \<longrightarrow> own \<in> rid ` set rows" and res: "res \<noteq> []" and g: "good r"
    and fresh: "\<And>x. x \<in> set rows \<Longrightarrow> rid x \<noteq> own \<Longrightarrow> \<not> other x r \<and> (own = 0 \<longrightarrow> rri x \<noteq> res)"
    and put: "set rows1 = insert r {x \<in> set rows. rid x \<noteq> own}"
  shows "distinct_rows rid rri other good (set rows1)" and "row_put rid rows r rows1"
proof -
  have r: "rid r \<noteq> 0 \<and> rri r \<noteq> []"
  proof (cases "own = 0")
    case True
    then show ?thesis using k res by (simp add: kept_id_def)
  next
    case False
    then obtain x where x: "x \<in> set rows" "rid x = own" using own by auto
    with kept_row[OF D k x] distinctD(2)[OF D x(1)] show ?thesis by simp
  qed
  have differ: "\<not> (rid x = rid r \<or> rri x = rri r \<or> other x r)" if x: "x \<in> set rows" "rid x \<noteq> own" for x
  proof (cases "own = 0")
    case True
    then show ?thesis using k fresh[OF x] x(1) by (auto simp: kept_id_def) (metis imageI)
  next
    case False
    then obtain y where y: "y \<in> set rows" "rid y = own" using own by auto
    have "rri x \<noteq> rri y" using distinctD(4)[OF D x(1) y(1)] x(2) y(2) by auto
    then show ?thesis using kept_row[OF D k y] fresh[OF x] x(2) by simp
  qed
  show "distinct_rows rid rri other good (set rows1)"
    unfolding put distinct_rows_def
  proof (intro ballI conjI impI)
    fix a b
    assume a: "a \<in> insert r {x \<in> set rows. rid x \<noteq> own}"
    show "rid a \<noteq> 0" "rri a \<noteq> []" "good a" using a r g distinctD[OF D] by auto
    assume b: "b \<in> insert r {x \<in> set rows. rid x \<noteq> own}" and same: "rid a = rid b \<or> rri a = rri b \<or> other a b"
    show "a = b"
    proof (cases "a = r"; cases "b = r")
      assume "a = r" "b \<noteq> r"
      then show ?thesis using differ[of b] b same other_sym by auto
    next
      assume "a \<noteq> r" "b = r"
      then show ?thesis using differ[of a] a same by auto
    next
      assume "a \<noteq> r" "b \<noteq> r"
      then show ?thesis using distinctD(4)[OF D, of a b] a b same by auto
    qed simp
  qed
  have "rid x \<noteq> own \<longleftrightarrow> rid x \<noteq> rid r" if x: "x \<in> set rows" for x
    using differ[OF x] k distinctD(1)[OF D x] by (cases "own = 0") (auto simp: kept_id_def)
  then show "row_put rid rows r rows1" unfolding row_put_def put by blast
qed

text \<open>The row with a resource id.\<close>

lemma row_with_id:
  assumes D: "distinct_rows rid rri other good (set rows)"
  shows "find (\<lambda>r. rri r = i) rows = Some r \<longleftrightarrow> r \<in> set rows \<and> rri r = i"
proof
  assume r: "r \<in> set rows \<and> rri r = i"
  then obtain r' where r': "find (\<lambda>r. rri r = i) rows = Some r'"
    by (cases "find (\<lambda>r. rri r = i) rows") (auto simp: find_None_iff)
  then have "r' \<in> set rows" "rri r' = i" by (auto simp: find_Some_iff)
  then have "r = r'" using distinctD(4)[OF D] r by blast
  with r' show "find (\<lambda>r. rri r = i) rows = Some r" by simp
qed (auto simp: find_Some_iff)

lemma row_with_id_put:
  assumes D: "distinct_rows rid rri other good (set rows)" and D1: "distinct_rows rid rri other good (set rows1)"
    and put: "row_put rid rows r rows1" and x: "x \<in> set rows" "rid x = rid r" "rri x = rri r"
  shows "(\<lambda>i. find (\<lambda>r. rri r = i) rows1) = (\<lambda>i. find (\<lambda>r. rri r = i) rows)(rri r \<mapsto> r)"
proof (rule ext, rule option_eqI)
  fix i y
  have "y \<in> set rows1 \<and> rri y = i \<longleftrightarrow> (if i = rri r then y = r else y \<in> set rows \<and> rri y = i)"
    using put x distinctD(4)[OF D _ x(1)] unfolding row_put_def by auto
  then show "find (\<lambda>r. rri r = i) rows1 = Some y \<longleftrightarrow> ((\<lambda>i. find (\<lambda>r. rri r = i) rows)(rri r \<mapsto> r)) i = Some y"
    unfolding row_with_id[OF D1] fun_upd_apply by (auto simp: row_with_id[OF D])
qed

end

section \<open>Bases and projects as tables\<close>

definition same_basis :: "'x brow \<Rightarrow> 'x brow \<Rightarrow> bool" where
  "same_basis a b \<longleftrightarrow> bs_Name a = bs_Name b \<or> bs_Path a = bs_Path b"

definition good_basis :: "'x brow \<Rightarrow> bool" where
  "good_basis b \<longleftrightarrow> bs_Name b \<noteq> [] \<and> bs_Path b \<noteq> []"

definition same_project :: "'x prow \<Rightarrow> 'x prow \<Rightarrow> bool" where
  "same_project a b \<longleftrightarrow> pj_BasisID a = pj_BasisID b \<and> (pj_Name a = pj_Name b \<or> pj_Path a = pj_Path b)"

definition good_project :: "'x prow \<Rightarrow> bool" where
  "good_project p \<longleftrightarrow> pj_BasisID p \<noteq> 0 \<and> pj_Name p \<noteq> [] \<and> pj_Path p \<noteq> []"

interpretation basis_table: row_table bs_ID bs_ResourceId same_basis good_basis
  by unfold_locales (auto simp: same_basis_def)

interpretation project_table: row_table pj_ID pj_ResourceId same_project good_project
  by unfold_locales (auto simp: same_project_def)

abbreviation distinct_bases :: "'x brow list \<Rightarrow> bool" where
  "distinct_bases rows \<equiv> distinct_rows bs_ID bs_ResourceId same_basis good_basis (set rows)"

abbreviation distinct_projects :: "'x prow list \<Rightarrow> bool" where
  "distinct_projects rows \<equiv> distinct_rows pj_ID pj_ResourceId same_project good_project (set rows)"

text \<open>The invariant: the rows are distinct, and every project is in a basis.\<close>

definition scopes_ok :: "('d, 'x, 'y) scopeenv \<Rightarrow> 'd \<Rightarrow> bool" where
  "scopes_ok env d \<longleftrightarrow> distinct_bases (sd_basis_rows (sn_db env) d) \<and> distinct_projects (sd_project_rows (sn_db env) d)
     \<and> (\<forall>p \<in> set (sd_project_rows (sn_db env) d). pj_BasisID p \<in> bs_ID ` set (sd_basis_rows (sn_db env) d))"

section \<open>What the database promises\<close>

definition bcolumns :: "'x basis_row \<Rightarrow> 'x brow" where
  "bcolumns b =
     \<lparr>bs_ID = bs_ID b, bs_ResourceId = bs_ResourceId b, bs_Name = bs_Name b, bs_Path = bs_Path b,
      bs_DataSource = bs_DataSource b, bs_Metadata = bs_Metadata b, bs_RemoteEnabled = bs_RemoteEnabled b,
      bs_VagrantfileID = bs_VagrantfileID b\<rparr>"

definition pcolumns :: "'x project_full \<Rightarrow> 'x prow" where
  "pcolumns p =
     \<lparr>pj_ID = pj_ID p, pj_ResourceId = pj_ResourceId p, pj_BasisID = pj_BasisID p, pj_Name = pj_Name p, pj_Path = pj_Path p,
      pj_DataSource = pj_DataSource p, pj_Metadata = pj_Metadata p, pj_RemoteEnabled = pj_RemoteEnabled p,
      pj_VagrantfileID = pj_VagrantfileID p\<rparr>"

definition bkey_match :: "basis_key \<Rightarrow> 'x brow \<Rightarrow> bool" where
  "bkey_match q r \<longleftrightarrow>
     (bk_ID q = 0 \<or> bk_ID q = bs_ID r) \<and> (bk_ResourceId q = [] \<or> bk_ResourceId q = bs_ResourceId r)
     \<and> (bk_Name q = [] \<or> bk_Name q = bs_Name r) \<and> (bk_Path q = [] \<or> bk_Path q = bs_Path r)"

definition jkey_match :: "project_key \<Rightarrow> 'x prow \<Rightarrow> bool" where
  "jkey_match q r \<longleftrightarrow>
     (jk_ID q = 0 \<or> jk_ID q = pj_ID r) \<and> (jk_ResourceId q = [] \<or> jk_ResourceId q = pj_ResourceId r)
     \<and> (jk_BasisID q = 0 \<or> jk_BasisID q = pj_BasisID r) \<and> (jk_Name q = [] \<or> jk_Name q = pj_Name r)
     \<and> (jk_Path q = [] \<or> jk_Path q = pj_Path r)"

text \<open>A row is loaded with what its columns name: its Vagrantfile, and the basis of a project.\<close>

definition file_loaded :: "'x vfile_row option \<Rightarrow> nat option \<Rightarrow> bool" where
  "file_loaded f i \<longleftrightarrow> (\<forall>v. f = Some v \<longrightarrow> vr_ID v \<noteq> 0 \<and> i = Some (vr_ID v))"

definition basis_loaded :: "('d, 'x) scopedb \<Rightarrow> 'd \<Rightarrow> 'x basis_row \<Rightarrow> bool" where
  "basis_loaded db d b \<longleftrightarrow> bcolumns b \<in> set (sd_basis_rows db d) \<and> file_loaded (bs_Vagrantfile b) (bs_VagrantfileID b)
     \<and> (\<forall>k \<in> set (bs_Projects b). jk_BasisID k = bs_ID b)"

definition project_loaded :: "('d, 'x) scopedb \<Rightarrow> 'd \<Rightarrow> 'x project_full \<Rightarrow> bool" where
  "project_loaded db d p \<longleftrightarrow> pcolumns p \<in> set (sd_project_rows db d) \<and> file_loaded (pj_Vagrantfile p) (pj_VagrantfileID p)
     \<and> (\<forall>k. pj_Basis p = Some k \<longrightarrow> bk_ID k = pj_BasisID p)"

text \<open>The column for a Vagrantfile after a row was saved with it.\<close>

definition file_stored :: "'x vfile_row option \<Rightarrow> nat option \<Rightarrow> nat option \<Rightarrow> bool" where
  "file_stored f old i \<longleftrightarrow> (case f of None \<Rightarrow> i = old | Some v \<Rightarrow> vr_ID v \<noteq> 0 \<longrightarrow> i = Some (vr_ID v))"

definition stored_basis :: "'x brow list \<Rightarrow> 'x basis_row \<Rightarrow> 'x brow \<Rightarrow> bool" where
  "stored_basis rows b r \<longleftrightarrow>
     r = (bcolumns b)\<lparr>bs_ID := bs_ID r, bs_ResourceId := bs_ResourceId r, bs_VagrantfileID := bs_VagrantfileID r\<rparr>
     \<and> kept_id bs_ID bs_ResourceId rows (bs_ID b) (bs_ResourceId b) r
     \<and> file_stored (bs_Vagrantfile b) (bs_VagrantfileID b) (bs_VagrantfileID r)"

definition stored_project :: "'x prow list \<Rightarrow> 'x project_full \<Rightarrow> 'x prow \<Rightarrow> bool" where
  "stored_project rows p r \<longleftrightarrow>
     r = (pcolumns p)\<lparr>pj_ID := pj_ID r, pj_ResourceId := pj_ResourceId r, pj_BasisID := basis_id p,
                      pj_VagrantfileID := pj_VagrantfileID r\<rparr>
     \<and> kept_id pj_ID pj_ResourceId rows (pj_ID p) (pj_ResourceId p) r
     \<and> file_stored (pj_Vagrantfile p) (pj_VagrantfileID p) (pj_VagrantfileID r)"

text \<open>Saving a basis leaves its projects alone when they are in it already.\<close>

definition scope_lookups :: "('d, 'x) scopedb \<Rightarrow> bool" where
  "scope_lookups db \<longleftrightarrow>
     (\<forall>d qs. \<exists>bs. sd_bases db d qs = Inr bs \<and> (\<forall>b \<in> set bs. basis_loaded db d b) \<and>
        bcolumns ` set bs = {r \<in> set (sd_basis_rows db d). qs = [] \<or> (\<exists>q \<in> set qs. bkey_match q r)})
     \<and> (\<forall>d qs. \<exists>ps. sd_projects db d qs = Inr ps \<and> (\<forall>p \<in> set ps. project_loaded db d p) \<and>
        pcolumns ` set ps = {r \<in> set (sd_project_rows db d). qs = [] \<or> (\<exists>q \<in> set qs. jkey_match q r)})
     \<and> (\<forall>d i fs f. sd_files db d i = Inr fs \<longrightarrow> f \<in> set fs \<longrightarrow> vr_ID f = i \<and> i \<noteq> 0)
     \<and> (\<forall>d q i n. sd_count_bases db d q i = Inr n \<longrightarrow>
          (n = 0) = (\<forall>r\<in>set (sd_basis_rows db d). bkey_match q r \<longrightarrow> bs_ID r = i))
     \<and> (\<forall>d q i n. sd_count_projects db d q i = Inr n \<longrightarrow>
          (n = 0) = (\<forall>r\<in>set (sd_project_rows db d). jkey_match q r \<longrightarrow> pj_ID r = i))"

definition scope_saves :: "('d, 'x) scopedb \<Rightarrow> bool" where
  "scope_saves db \<longleftrightarrow>
     (\<forall>d b d1. sd_save_basis db d b = Inr d1 \<longrightarrow>
          (\<exists>r. stored_basis (sd_basis_rows db d) b r \<and>
             set (sd_basis_rows db d1) = insert r {x \<in> set (sd_basis_rows db d). bs_ID x \<noteq> bs_ID b})
          \<and> ((\<forall>k \<in> set (bs_Projects b). jk_BasisID k = bs_ID b \<and> bs_ID b \<noteq> 0) \<longrightarrow> sd_project_rows db d1 = sd_project_rows db d))
     \<and> (\<forall>d p d1. sd_save_project db d p = Inr d1 \<longrightarrow>
          (\<exists>r. stored_project (sd_project_rows db d) p r \<and>
             set (sd_project_rows db d1) = insert r {x \<in> set (sd_project_rows db d). pj_ID x \<noteq> pj_ID p})
          \<and> sd_basis_rows db d1 = sd_basis_rows db d)
     \<and> (\<forall>d f d1. sd_save_file db d f = Inr d1 \<longrightarrow>
          sd_basis_rows db d1 = sd_basis_rows db d \<and> sd_project_rows db d1 = sd_project_rows db d)"

definition scope_lawful :: "('d, 'x) scopedb \<Rightarrow> bool" where
  "scope_lawful db \<longleftrightarrow> scope_lookups db \<and> scope_saves db"

lemma scope_lawfulD:
  assumes "scope_lawful db"
  shows "scope_lookups db"
    and "sd_save_basis db d b = Inr d1 \<Longrightarrow> \<exists>r. stored_basis (sd_basis_rows db d) b r \<and>
           set (sd_basis_rows db d1) = insert r {x \<in> set (sd_basis_rows db d). bs_ID x \<noteq> bs_ID b}"
    and "sd_save_basis db d b = Inr d1 \<Longrightarrow> \<forall>k \<in> set (bs_Projects b). jk_BasisID k = bs_ID b \<and> bs_ID b \<noteq> 0 \<Longrightarrow>
           sd_project_rows db d1 = sd_project_rows db d"
    and "sd_save_project db d p = Inr d2 \<Longrightarrow> \<exists>r. stored_project (sd_project_rows db d) p r \<and>
           set (sd_project_rows db d2) = insert r {x \<in> set (sd_project_rows db d). pj_ID x \<noteq> pj_ID p}"
    and "sd_save_project db d p = Inr d2 \<Longrightarrow> sd_basis_rows db d2 = sd_basis_rows db d"
    and "sd_save_file db d f = Inr d3 \<Longrightarrow> sd_basis_rows db d3 = sd_basis_rows db d \<and> sd_project_rows db d3 = sd_project_rows db d"
proof -
  show "scope_lookups db" using assms by (simp add: scope_lawful_def)
  from assms have s: "scope_saves db" by (simp add: scope_lawful_def)
  note b = s[unfolded scope_saves_def, THEN conjunct1, rule_format]
    and p = s[unfolded scope_saves_def, THEN conjunct2, THEN conjunct1, rule_format]
    and f = s[unfolded scope_saves_def, THEN conjunct2, THEN conjunct2, rule_format]
  show "sd_save_basis db d b = Inr d1 \<Longrightarrow> \<exists>r. stored_basis (sd_basis_rows db d) b r \<and>
           set (sd_basis_rows db d1) = insert r {x \<in> set (sd_basis_rows db d). bs_ID x \<noteq> bs_ID b}"
    by (drule b) (erule conjunct1)
  show "sd_save_basis db d b = Inr d1 \<Longrightarrow> \<forall>k \<in> set (bs_Projects b). jk_BasisID k = bs_ID b \<and> bs_ID b \<noteq> 0 \<Longrightarrow>
           sd_project_rows db d1 = sd_project_rows db d"
    by (drule b) blast
  show "sd_save_project db d p = Inr d2 \<Longrightarrow> \<exists>r. stored_project (sd_project_rows db d) p r \<and>
           set (sd_project_rows db d2) = insert r {x \<in> set (sd_project_rows db d). pj_ID x \<noteq> pj_ID p}"
    by (drule p) (erule conjunct1)
  show "sd_save_project db d p = Inr d2 \<Longrightarrow> sd_basis_rows db d2 = sd_basis_rows db d" by (drule p) (erule conjunct2)
  show "sd_save_file db d f = Inr d3 \<Longrightarrow> sd_basis_rows db d3 = sd_basis_rows db d \<and> sd_project_rows db d3 = sd_project_rows db d"
    by (drule f)
qed

lemma stored_basis_fields:
  assumes "stored_basis rows b r"
  shows "bs_Name r = bs_Name b" "bs_Path r = bs_Path b"
  by (subst assms[unfolded stored_basis_def, THEN conjunct1], simp add: bcolumns_def)+

section \<open>Lookups\<close>

lemma bcolumns_simps [simp]:
  "bs_ID (bcolumns b) = bs_ID b" "bs_ResourceId (bcolumns b) = bs_ResourceId b" "bs_Name (bcolumns b) = bs_Name b"
  "bs_Path (bcolumns b) = bs_Path b" "bs_VagrantfileID (bcolumns b) = bs_VagrantfileID b"
  by (simp_all add: bcolumns_def)

lemma pcolumns_simps [simp]:
  "pj_ID (pcolumns p) = pj_ID p" "pj_ResourceId (pcolumns p) = pj_ResourceId p" "pj_BasisID (pcolumns p) = pj_BasisID p"
  "pj_Name (pcolumns p) = pj_Name p" "pj_Path (pcolumns p) = pj_Path p" "pj_VagrantfileID (pcolumns p) = pj_VagrantfileID p"
  by (simp_all add: pcolumns_def)

lemma find_bases:
  assumes "scope_lookups db"
  obtains bs where "sd_bases db d qs = Inr bs" and "\<And>b. b \<in> set bs \<Longrightarrow> basis_loaded db d b"
    and "bcolumns ` set bs = {r \<in> set (sd_basis_rows db d). qs = [] \<or> (\<exists>q \<in> set qs. bkey_match q r)}"
  using assms[unfolded scope_lookups_def, THEN conjunct1, THEN spec, THEN spec, of d qs] by blast

lemma find_projects:
  assumes "scope_lookups db"
  obtains ps where "sd_projects db d qs = Inr ps" and "\<And>p. p \<in> set ps \<Longrightarrow> project_loaded db d p"
    and "pcolumns ` set ps = {r \<in> set (sd_project_rows db d). qs = [] \<or> (\<exists>q \<in> set qs. jkey_match q r)}"
  using assms[unfolded scope_lookups_def, THEN conjunct2, THEN conjunct1, THEN spec, THEN spec, of d qs] by blast

lemma find_basis:
  assumes "scope_lookups db"
  obtains bs where "sd_bases db d [q] = Inr bs" and "\<And>b. b \<in> set bs \<Longrightarrow> basis_loaded db d b"
    and "bcolumns ` set bs = {r \<in> set (sd_basis_rows db d). bkey_match q r}"
proof -
  obtain bs where bs: "sd_bases db d [q] = Inr bs" "\<And>b. b \<in> set bs \<Longrightarrow> basis_loaded db d b"
    "bcolumns ` set bs = {r \<in> set (sd_basis_rows db d). [q] = [] \<or> (\<exists>q \<in> set [q]. bkey_match q r)}"
    using find_bases[OF assms] by blast
  show thesis by (rule that[OF bs(1,2)]) (simp_all add: bs(3))
qed

lemma find_project:
  assumes "scope_lookups db"
  obtains ps where "sd_projects db d [q] = Inr ps" and "\<And>p. p \<in> set ps \<Longrightarrow> project_loaded db d p"
    and "pcolumns ` set ps = {r \<in> set (sd_project_rows db d). jkey_match q r}"
proof -
  obtain ps where ps: "sd_projects db d [q] = Inr ps" "\<And>p. p \<in> set ps \<Longrightarrow> project_loaded db d p"
    "pcolumns ` set ps = {r \<in> set (sd_project_rows db d). [q] = [] \<or> (\<exists>q \<in> set [q]. jkey_match q r)}"
    using find_projects[OF assms] by blast
  show thesis by (rule that[OF ps(1,2)]) (simp_all add: ps(3))
qed

lemma scope_counts:
  assumes "scope_lookups db"
  shows "sd_count_bases db d q i = Inr 0 \<Longrightarrow> r \<in> set (sd_basis_rows db d) \<Longrightarrow> bkey_match q r \<Longrightarrow> bs_ID r = i"
    and "sd_count_projects db d q' i = Inr 0 \<Longrightarrow> r' \<in> set (sd_project_rows db d) \<Longrightarrow> jkey_match q' r' \<Longrightarrow> pj_ID r' = i"
  using assms unfolding scope_lookups_def by metis+

lemma first_in: "first_row (Inr xs) = Inr x \<Longrightarrow> x \<in> set xs"
  by (cases xs) (simp_all add: first_row_def)

lemma BasisFromProtoRef_Inr:
  assumes l: "scope_lookups (sn_db env)" and b: "BasisFromProtoRef env d ref = Inr b"
  shows "basis_loaded (sn_db env) d b" and "\<exists>r. ref = Some r \<and> rb_ResourceId r = bs_ResourceId b"
proof -
  from b obtain r where r: "ref = Some r" "rb_ResourceId r \<noteq> []"
    and f: "first_row (sd_bases (sn_db env) d [zero_bkey\<lparr>bk_ResourceId := rb_ResourceId r\<rparr>]) = Inr b"
    by (auto simp: BasisFromProtoRef_def split: option.splits if_splits)
  obtain bs where bs: "sd_bases (sn_db env) d [zero_bkey\<lparr>bk_ResourceId := rb_ResourceId r\<rparr>] = Inr bs"
    "\<And>b. b \<in> set bs \<Longrightarrow> basis_loaded (sn_db env) d b"
    "bcolumns ` set bs = {x \<in> set (sd_basis_rows (sn_db env) d). bkey_match (zero_bkey\<lparr>bk_ResourceId := rb_ResourceId r\<rparr>) x}"
    by (rule find_basis[OF l, of d "zero_bkey\<lparr>bk_ResourceId := rb_ResourceId r\<rparr>"]) blast
  have i: "b \<in> set bs" using f bs(1) first_in by metis
  then have "bkey_match (zero_bkey\<lparr>bk_ResourceId := rb_ResourceId r\<rparr>) (bcolumns b)" using bs(3) by blast
  then show "basis_loaded (sn_db env) d b" "\<exists>r. ref = Some r \<and> rb_ResourceId r = bs_ResourceId b"
    using bs(2)[OF i] r by (simp_all add: bkey_match_def)
qed

lemma project_FromProtoRef_Inr:
  assumes l: "scope_lookups (sn_db env)" and p: "project_FromProtoRef env d ref = Inr p"
  shows "project_loaded (sn_db env) d p" and "\<exists>r. ref = Some r \<and> pf_ResourceId r = pj_ResourceId p"
proof -
  from p obtain r where r: "ref = Some r" "pf_ResourceId r \<noteq> []"
    and f: "first_row (sd_projects (sn_db env) d [zero_jkey\<lparr>jk_ResourceId := pf_ResourceId r\<rparr>]) = Inr p"
    by (auto simp: project_FromProtoRef_def split: option.splits if_splits)
  obtain ps where ps: "sd_projects (sn_db env) d [zero_jkey\<lparr>jk_ResourceId := pf_ResourceId r\<rparr>] = Inr ps"
    "\<And>p. p \<in> set ps \<Longrightarrow> project_loaded (sn_db env) d p"
    "pcolumns ` set ps = {x \<in> set (sd_project_rows (sn_db env) d). jkey_match (zero_jkey\<lparr>jk_ResourceId := pf_ResourceId r\<rparr>) x}"
    by (rule find_project[OF l, of d "zero_jkey\<lparr>jk_ResourceId := pf_ResourceId r\<rparr>"]) blast
  have i: "p \<in> set ps" using f ps(1) first_in by metis
  then have "jkey_match (zero_jkey\<lparr>jk_ResourceId := pf_ResourceId r\<rparr>) (pcolumns p)" using ps(3) by blast
  then show "project_loaded (sn_db env) d p" "\<exists>r. ref = Some r \<and> pf_ResourceId r = pj_ResourceId p"
    using ps(2)[OF i] r by (simp_all add: jkey_match_def)
qed

text \<open>A project is found by its resource id when there is one.\<close>

lemma project_found:
  assumes l: "scope_lookups (sn_db env)" and r: "r \<in> set (sd_project_rows (sn_db env) d)"
    and i: "pf_ResourceId ref = pj_ResourceId r" "pf_ResourceId ref \<noteq> []"
  obtains p where "project_FromProtoRef env d (Some ref) = Inr p"
proof -
  let ?q = "zero_jkey\<lparr>jk_ResourceId := pf_ResourceId ref\<rparr>"
  obtain ps where ps: "sd_projects (sn_db env) d [?q] = Inr ps"
    "\<And>p. p \<in> set ps \<Longrightarrow> project_loaded (sn_db env) d p"
    "pcolumns ` set ps = {x \<in> set (sd_project_rows (sn_db env) d). jkey_match ?q x}"
    by (rule find_project[OF l, of d ?q]) blast
  have "jkey_match ?q r" using i(1) by (simp add: jkey_match_def zero_jkey_def)
  then have "r \<in> pcolumns ` set ps" using ps(3) r by blast
  then obtain p ps' where "ps = p # ps'" by (cases ps) auto
  then show thesis using that i ps(1) by (simp add: project_FromProtoRef_def first_row_def)
qed

section \<open>Saving\<close>

lemma field_good [simp]:
  "unique_field s n = Good \<longleftrightarrow> s \<noteq> [] \<and> n = Inr 0"
  "resource_field i s n c = Good \<longleftrightarrow> s \<noteq> [] \<and> (if i = 0 then n = Inr 0 else \<not> c)"
  "required_if c p = Good \<longleftrightarrow> (c \<longrightarrow> p)"
  by (auto simp: unique_field_def resource_field_def required_if_def)

lemma basis_validate_none:
  assumes l: "scope_lookups (sn_db env)" and v: "basis_validate env d b = None"
  shows "bs_ResourceId b \<noteq> []" "good_basis (bcolumns b)"
    and "x \<in> set (sd_basis_rows (sn_db env) d) \<Longrightarrow> bs_ID x \<noteq> bs_ID b \<Longrightarrow>
           \<not> same_basis x (bcolumns b) \<and> (bs_ID b = 0 \<longrightarrow> bs_ResourceId x \<noteq> bs_ResourceId b)"
proof -
  let ?c = "\<lambda>k. sd_count_bases (sn_db env) d k (bs_ID b) = Inr 0"
  from v have c: "bs_Name b \<noteq> []" "bs_Path b \<noteq> []" "bs_ResourceId b \<noteq> []"
    "?c (zero_bkey\<lparr>bk_Name := bs_Name b\<rparr>)" "?c (zero_bkey\<lparr>bk_Path := bs_Path b\<rparr>)"
    "bs_ID b = 0 \<Longrightarrow> ?c (zero_bkey\<lparr>bk_ResourceId := bs_ResourceId b\<rparr>)"
    by (auto simp: basis_validate_def Let_def validate_none split: if_splits)
  show "bs_ResourceId b \<noteq> []" "good_basis (bcolumns b)" using c by (simp_all add: good_basis_def)
  show "\<not> same_basis x (bcolumns b) \<and> (bs_ID b = 0 \<longrightarrow> bs_ResourceId x \<noteq> bs_ResourceId b)"
    if x: "x \<in> set (sd_basis_rows (sn_db env) d)" "bs_ID x \<noteq> bs_ID b"
    using scope_counts(1)[OF l c(4) x(1)] scope_counts(1)[OF l c(5) x(1)] scope_counts(1)[OF l c(6) x(1)] x(2)
    by (auto simp: same_basis_def bkey_match_def zero_bkey_def)
qed

lemma project_validate_none:
  assumes l: "scope_lookups (sn_db env)" and v: "project_validate env d p = None"
    and r: "r = (pcolumns p)\<lparr>pj_ID := i, pj_ResourceId := ri, pj_BasisID := basis_id p, pj_VagrantfileID := vi\<rparr>" and n: "basis_id p \<noteq> 0"
  shows "pj_ResourceId p \<noteq> []" "good_project r"
    and "x \<in> set (sd_project_rows (sn_db env) d) \<Longrightarrow> pj_ID x \<noteq> pj_ID p \<Longrightarrow>
           \<not> same_project x r \<and> (pj_ID p = 0 \<longrightarrow> pj_ResourceId x \<noteq> pj_ResourceId p)"
proof -
  let ?c = "\<lambda>k. sd_count_projects (sn_db env) d k (pj_ID p) = Inr 0"
  from v have c: "pj_Name p \<noteq> []" "pj_Path p \<noteq> []" "pj_ResourceId p \<noteq> []"
    "?c (zero_jkey\<lparr>jk_Name := pj_Name p, jk_BasisID := basis_id p\<rparr>)" "?c (zero_jkey\<lparr>jk_Path := pj_Path p, jk_BasisID := basis_id p\<rparr>)"
    "pj_ID p = 0 \<Longrightarrow> ?c (zero_jkey\<lparr>jk_ResourceId := pj_ResourceId p\<rparr>)"
    by (auto simp: project_validate_def Let_def validate_none split: if_splits)
  show "pj_ResourceId p \<noteq> []" "good_project r" using c n by (simp_all add: r good_project_def)
  show "\<not> same_project x r \<and> (pj_ID p = 0 \<longrightarrow> pj_ResourceId x \<noteq> pj_ResourceId p)"
    if x: "x \<in> set (sd_project_rows (sn_db env) d)" "pj_ID x \<noteq> pj_ID p"
    using scope_counts(2)[OF l c(4) x(1)] scope_counts(2)[OF l c(5) x(1)] scope_counts(2)[OF l c(6) x(1)] x(2)
    by (auto simp: same_project_def jkey_match_def zero_jkey_def r)
qed

text \<open>Nothing that a lookup or a check of a row depends on.\<close>

definition same_rows :: "('d, 'x) scopedb \<Rightarrow> 'd \<Rightarrow> 'd \<Rightarrow> bool" where
  "same_rows db d d1 \<longleftrightarrow> sd_basis_rows db d1 = sd_basis_rows db d \<and> sd_project_rows db d1 = sd_project_rows db d"

lemma update_file_Ret:
  assumes l: "scope_lawful (sn_db env)" and run: "update_file env new old d = Ret d1 f"
  shows "same_rows (sn_db env) d d1" and "file_stored f old i \<Longrightarrow> old \<noteq> None \<Longrightarrow> file_loaded new old \<or> (\<forall>v. new = Some v \<longrightarrow> vr_ID v = 0) \<Longrightarrow> i = old"
proof -
  have saves: "sd_save_file (sn_db env) d v = Inr d2 \<Longrightarrow> same_rows (sn_db env) d d2" for v d2
    unfolding same_rows_def by (rule scope_lawfulD(6)[OF l])
  have files: "sd_files (sn_db env) d j = Inr fs \<Longrightarrow> v \<in> set fs \<Longrightarrow> vr_ID v = j \<and> j \<noteq> 0" for j fs v
    using l unfolding scope_lawful_def scope_lookups_def by blast
  show "same_rows (sn_db env) d d1"
    using run by (auto simp: update_file_def same_rows_def dest!: saves split: option.splits if_splits sum.splits)
  show "i = old" if st: "file_stored f old i" and o: "old \<noteq> None"
    and nw: "file_loaded new old \<or> (\<forall>v. new = Some v \<longrightarrow> vr_ID v = 0)"
  proof (cases new)
    case None
    then have "f = None" using run by (simp add: update_file_def)
    then show ?thesis using st by (simp add: file_stored_def)
  next
    case (Some v)
    obtain j where j: "old = Some j" using o by blast
    show ?thesis
    proof (cases "vr_ID v = 0")
      case True
      then obtain was where w: "first_row (sd_files (sn_db env) d j) = Inr was" "f = Some (v\<lparr>vr_ID := vr_ID was\<rparr>)"
        using run Some j by (auto simp: update_file_def split: sum.splits)
      then obtain fs where "sd_files (sn_db env) d j = Inr fs" "was \<in> set fs"
        by (cases "sd_files (sn_db env) d j") (auto simp: first_row_def split: list.splits)
      then have "vr_ID was = j \<and> j \<noteq> 0" by (rule files)
      then show ?thesis using st j w(2) by (simp add: file_stored_def)
    next
      case False
      then have "f = Some v" "old = Some (vr_ID v)" using run Some j nw by (auto simp: update_file_def file_loaded_def)
      then show ?thesis using st False by (simp add: file_stored_def)
    qed
  qed
qed

lemma basis_BeforeSave_Inr:
  assumes "basis_BeforeSave env d b = Inr b1"
  obtains i where "b1 = b\<lparr>bs_ResourceId := i\<rparr>" and "bs_ResourceId b \<noteq> [] \<Longrightarrow> i = bs_ResourceId b" and "basis_validate env d b1 = None"
proof (cases "bs_ResourceId b = []")
  case True
  with assms obtain i where "b1 = b\<lparr>bs_ResourceId := i\<rparr>" "basis_validate env d b1 = None"
    by (cases "sn_fresh env d") (auto simp: basis_BeforeSave_def split: option.splits)
  with True show thesis using that by blast
next
  case False
  with assms show thesis using that[of "bs_ResourceId b"] by (auto simp: basis_BeforeSave_def split: option.splits)
qed

lemma project_BeforeSave_Inr:
  assumes "project_BeforeSave env d p = Inr p1"
  obtains i where "p1 = p\<lparr>pj_ResourceId := i\<rparr>" and "pj_ResourceId p \<noteq> [] \<Longrightarrow> i = pj_ResourceId p" and "project_validate env d p1 = None"
proof (cases "pj_ResourceId p = []")
  case True
  with assms obtain i where "p1 = p\<lparr>pj_ResourceId := i\<rparr>" "project_validate env d p1 = None"
    by (cases "sn_fresh env d") (auto simp: project_BeforeSave_def split: option.splits)
  with True show thesis using that by blast
next
  case False
  with assms show thesis using that[of "pj_ResourceId p"] by (auto simp: project_BeforeSave_def split: option.splits)
qed

lemma saved_Ret [simp]: "(case r of Inl e \<Rightarrow> Fail d e | Inr d1 \<Rightarrow> Ret d1 b) = Ret d2 b' \<longleftrightarrow> r = Inr d2 \<and> b = b'"
  by (auto split: sum.split)

lemma transaction_Ret [simp]: "in_transaction d r = Ret d1 a \<longleftrightarrow> r = Ret d1 a"
  by (cases r) (simp_all add: in_transaction_def)

text \<open>The row as it is saved: the one of the caller with a resource id and a Vagrantfile.\<close>

lemma basis_upsert_saved:
  assumes l: "scope_lawful (sn_db env)" and run: "basis_upsert env b d = Ret d1 b2"
  obtains i f dm where "b2 = b\<lparr>bs_ResourceId := i, bs_Vagrantfile := f\<rparr>" and "bs_ResourceId b \<noteq> [] \<Longrightarrow> i = bs_ResourceId b"
    and "basis_validate env d (b\<lparr>bs_ResourceId := i\<rparr>) = None" and "same_rows (sn_db env) d dm" and "sd_save_basis (sn_db env) dm b2 = Inr d1"
proof -
  from run obtain b1 dm where bs: "basis_BeforeSave env d b = Inr b1"
    and hook: "(if bs_ID b1 = 0 then Ret d b1 else basis_BeforeUpdate env b1 d) = Ret dm b2" and sv: "sd_save_basis (sn_db env) dm b2 = Inr d1"
    by (auto simp: basis_upsert_def bind_o_Ret_iff split: sum.splits)
  obtain i where i: "b1 = b\<lparr>bs_ResourceId := i\<rparr>" "bs_ResourceId b \<noteq> [] \<Longrightarrow> i = bs_ResourceId b" "basis_validate env d b1 = None"
    using basis_BeforeSave_Inr[OF bs] by metis
  have "\<exists>f. b2 = b1\<lparr>bs_Vagrantfile := f\<rparr> \<and> same_rows (sn_db env) d dm"
  proof (cases "bs_ID b1 = 0")
    case True
    then have "b2 = b1\<lparr>bs_Vagrantfile := bs_Vagrantfile b1\<rparr> \<and> same_rows (sn_db env) d dm" using hook by (simp add: same_rows_def)
    then show ?thesis by blast
  next
    case False
    then obtain f where "update_file env (bs_Vagrantfile b1) (bs_VagrantfileID b1) d = Ret dm f" "b2 = b1\<lparr>bs_Vagrantfile := f\<rparr>"
      using hook by (auto simp: basis_BeforeUpdate_def bind_o_Ret_iff)
    then show ?thesis using update_file_Ret(1)[OF l] by blast
  qed
  then obtain f where "b2 = b1\<lparr>bs_Vagrantfile := f\<rparr>" "same_rows (sn_db env) d dm" by blast
  with i sv show thesis using that[of f i dm] by simp
qed

lemma basis_upsert_ok:
  assumes l: "scope_lawful (sn_db env)" and ok: "scopes_ok env d"
    and st: "bs_ID b \<noteq> 0 \<longrightarrow> bs_ID b \<in> bs_ID ` set (sd_basis_rows (sn_db env) d)"
    and prj: "\<forall>k \<in> set (bs_Projects b). jk_BasisID k = bs_ID b \<and> bs_ID b \<noteq> 0"
    and run: "basis_upsert env b d = Ret d1 b2"
  shows "scopes_ok env d1"
proof -
  let ?R = "\<lambda>d. sd_basis_rows (sn_db env) d" and ?P = "\<lambda>d. sd_project_rows (sn_db env) d"
  obtain i f dm where b2: "b2 = b\<lparr>bs_ResourceId := i, bs_Vagrantfile := f\<rparr>"
    and v: "basis_validate env d (b\<lparr>bs_ResourceId := i\<rparr>) = None" and same: "?R dm = ?R d" "?P dm = ?P d"
    and sv: "sd_save_basis (sn_db env) dm b2 = Inr d1"
    using basis_upsert_saved[OF l run] unfolding same_rows_def by metis
  have keep: "\<forall>k \<in> set (bs_Projects b2). jk_BasisID k = bs_ID b2 \<and> bs_ID b2 \<noteq> 0" using prj by (simp add: b2)
  have prows: "?P d1 = ?P d" using scope_lawfulD(3)[OF l sv keep] same by simp
  obtain r where r: "stored_basis (?R d) b2 r" and rows: "set (?R d1) = insert r {x \<in> set (?R d). bs_ID x \<noteq> bs_ID b}"
    using scope_lawfulD(2)[OF l sv] by (auto simp: same b2)
  have kept: "kept_id bs_ID bs_ResourceId (?R d) (bs_ID b) i r" using r by (simp add: stored_basis_def b2)
  have cols: "bs_Name r = bs_Name b" "bs_Path r = bs_Path b" using stored_basis_fields[OF r] by (simp_all add: b2)
  note val = basis_validate_none[OF scope_lawfulD(1)[OF l] v]
  have D: "distinct_bases (?R d)" using ok by (simp add: scopes_ok_def)
  have g: "good_basis r" using val(2) cols by (simp add: good_basis_def)
  have res: "i \<noteq> []" using val(1) by simp
  have fresh: "\<not> same_basis x r \<and> (bs_ID b = 0 \<longrightarrow> bs_ResourceId x \<noteq> i)" if "x \<in> set (?R d)" "bs_ID x \<noteq> bs_ID b" for x
    using val(3)[OF that(1)] that(2) cols by (simp add: same_basis_def)
  have D1: "distinct_bases (?R d1)"
    by (rule basis_table.put_distinct(1)[OF D kept st res g fresh rows])
  have "bs_ID ` set (?R d) \<subseteq> bs_ID ` set (?R d1)"
  proof
    fix j assume "j \<in> bs_ID ` set (?R d)"
    then obtain x where x: "x \<in> set (?R d)" "j = bs_ID x" by blast
    show "j \<in> bs_ID ` set (?R d1)"
    proof (cases "bs_ID x = bs_ID b")
      case True
      then show ?thesis using basis_table.kept_row(1)[OF D kept x(1)] x rows by simp
    next
      case False
      then show ?thesis using x rows by simp
    qed
  qed
  then show ?thesis using ok D1 unfolding scopes_ok_def prows by blast
qed

lemma stored_project_fields:
  assumes "stored_project rows p r"
  shows "pj_Name r = pj_Name p" "pj_Path r = pj_Path p" "pj_BasisID r = basis_id p"
  by (subst assms[unfolded stored_project_def, THEN conjunct1], simp add: pcolumns_def)+

lemma project_upsert_saved:
  assumes l: "scope_lawful (sn_db env)" and run: "project_upsert env p d = Ret d1 p2"
  obtains i f dm where "p2 = p\<lparr>pj_ResourceId := i, pj_Vagrantfile := f\<rparr>" and "pj_ResourceId p \<noteq> [] \<Longrightarrow> i = pj_ResourceId p"
    and "project_validate env d (p\<lparr>pj_ResourceId := i\<rparr>) = None" and "same_rows (sn_db env) d dm" and "sd_save_project (sn_db env) dm p2 = Inr d1"
    and "pj_ID p \<noteq> 0 \<Longrightarrow> update_file env (pj_Vagrantfile p) (pj_VagrantfileID p) d = Ret dm f"
proof -
  from run obtain p1 dm where bs: "project_BeforeSave env d p = Inr p1"
    and hook: "(if pj_ID p1 = 0 then Ret d p1 else project_BeforeUpdate env p1 d) = Ret dm p2" and sv: "sd_save_project (sn_db env) dm p2 = Inr d1"
    by (auto simp: project_upsert_def bind_o_Ret_iff split: sum.splits)
  obtain i where i: "p1 = p\<lparr>pj_ResourceId := i\<rparr>" "pj_ResourceId p \<noteq> [] \<Longrightarrow> i = pj_ResourceId p" "project_validate env d p1 = None"
    using project_BeforeSave_Inr[OF bs] by metis
  have "\<exists>f. p2 = p1\<lparr>pj_Vagrantfile := f\<rparr> \<and> same_rows (sn_db env) d dm
      \<and> (pj_ID p \<noteq> 0 \<longrightarrow> update_file env (pj_Vagrantfile p) (pj_VagrantfileID p) d = Ret dm f)"
  proof (cases "pj_ID p1 = 0")
    case True
    then have "p2 = p1\<lparr>pj_Vagrantfile := pj_Vagrantfile p1\<rparr> \<and> same_rows (sn_db env) d dm" "pj_ID p = 0"
      using hook by (simp_all add: same_rows_def i(1))
    then show ?thesis by blast
  next
    case False
    then obtain f where "update_file env (pj_Vagrantfile p1) (pj_VagrantfileID p1) d = Ret dm f" "p2 = p1\<lparr>pj_Vagrantfile := f\<rparr>"
      using hook by (auto simp: project_BeforeUpdate_def bind_o_Ret_iff)
    then show ?thesis using update_file_Ret(1)[OF l] i(1) by auto
  qed
  then obtain f where "p2 = p1\<lparr>pj_Vagrantfile := f\<rparr>" "same_rows (sn_db env) d dm"
    "pj_ID p \<noteq> 0 \<longrightarrow> update_file env (pj_Vagrantfile p) (pj_VagrantfileID p) d = Ret dm f" by blast
  with i sv show thesis using that[of f i dm] by simp
qed

lemma project_upsert_Ret:
  assumes l: "scope_lawful (sn_db env)" and ok: "scopes_ok env d"
    and st: "pj_ID p \<noteq> 0 \<longrightarrow> pj_ID p \<in> pj_ID ` set (sd_project_rows (sn_db env) d)"
    and n: "pj_Basis p \<noteq> None \<or> pj_BasisID p \<noteq> 0 \<Longrightarrow> basis_id p \<in> bs_ID ` set (sd_basis_rows (sn_db env) d)"
    and run: "project_upsert env p d = Ret d1 p2"
  obtains r i where "scopes_ok env d1" and "sd_basis_rows (sn_db env) d1 = sd_basis_rows (sn_db env) d"
    and "row_put pj_ID (sd_project_rows (sn_db env) d) r (sd_project_rows (sn_db env) d1)"
    and "r = (pcolumns p)\<lparr>pj_ID := pj_ID r, pj_ResourceId := pj_ResourceId r, pj_BasisID := basis_id p,
                          pj_VagrantfileID := pj_VagrantfileID r\<rparr>"
    and "kept_id pj_ID pj_ResourceId (sd_project_rows (sn_db env) d) (pj_ID p) i r"
    and "pj_ID p \<noteq> 0 \<Longrightarrow> pj_VagrantfileID p \<noteq> None \<Longrightarrow>
           file_loaded (pj_Vagrantfile p) (pj_VagrantfileID p) \<or> (\<forall>v. pj_Vagrantfile p = Some v \<longrightarrow> vr_ID v = 0) \<Longrightarrow>
           pj_VagrantfileID r = pj_VagrantfileID p"
proof -
  let ?R = "\<lambda>d. sd_basis_rows (sn_db env) d" and ?P = "\<lambda>d. sd_project_rows (sn_db env) d"
  obtain i f dm where p2: "p2 = p\<lparr>pj_ResourceId := i, pj_Vagrantfile := f\<rparr>"
    and v: "project_validate env d (p\<lparr>pj_ResourceId := i\<rparr>) = None" and same: "same_rows (sn_db env) d dm"
    and sv: "sd_save_project (sn_db env) dm p2 = Inr d1"
    and hook: "pj_ID p \<noteq> 0 \<Longrightarrow> update_file env (pj_Vagrantfile p) (pj_VagrantfileID p) d = Ret dm f"
    using project_upsert_saved[OF l run] by metis
  have same: "?R dm = ?R d" "?P dm = ?P d" using same by (simp_all add: same_rows_def)
  have bid: "basis_id (p\<lparr>pj_ResourceId := i\<rparr>) = basis_id p" "basis_id p2 = basis_id p" by (simp_all add: basis_id_def p2 split: option.split)
  have brows: "?R d1 = ?R d" using scope_lawfulD(5)[OF l sv] same by simp
  obtain r where r: "stored_project (?P d) p2 r" and rows: "set (?P d1) = insert r {x \<in> set (?P d). pj_ID x \<noteq> pj_ID p}"
    using scope_lawfulD(4)[OF l sv] by (auto simp: same p2)
  have kept: "kept_id pj_ID pj_ResourceId (?P d) (pj_ID p) i r" using r by (simp add: stored_project_def p2)
  have r_eq: "r = (pcolumns p)\<lparr>pj_ID := pj_ID r, pj_ResourceId := pj_ResourceId r, pj_BasisID := basis_id p,
                          pj_VagrantfileID := pj_VagrantfileID r\<rparr>"
    using r[unfolded stored_project_def, THEN conjunct1] bid(2) by (simp add: p2 pcolumns_def)
  have D: "distinct_bases (?R d)" "distinct_projects (?P d)" using ok by (simp_all add: scopes_ok_def)
  have "pj_Basis p \<noteq> None \<or> pj_BasisID p \<noteq> 0"
    using v by (auto simp: project_validate_def Let_def validate_none split: if_splits)
  then have inb: "basis_id p \<in> bs_ID ` set (?R d)" by (rule n)
  then have nz: "basis_id (p\<lparr>pj_ResourceId := i\<rparr>) \<noteq> 0" using basis_table.distinctD(1)[OF D(1)] bid by auto
  have r_eq': "r = (pcolumns (p\<lparr>pj_ResourceId := i\<rparr>))\<lparr>pj_ID := pj_ID r, pj_ResourceId := pj_ResourceId r,
      pj_BasisID := basis_id (p\<lparr>pj_ResourceId := i\<rparr>), pj_VagrantfileID := pj_VagrantfileID r\<rparr>"
    using r_eq bid by (simp add: pcolumns_def)
  note val = project_validate_none[OF scope_lawfulD(1)[OF l] v r_eq' nz]
  have res: "i \<noteq> []" using val(1) by simp
  have fresh: "\<not> same_project x r \<and> (pj_ID p = 0 \<longrightarrow> pj_ResourceId x \<noteq> i)" if "x \<in> set (?P d)" "pj_ID x \<noteq> pj_ID p" for x
    using val(3)[OF that(1)] that(2) by simp
  note put = project_table.put_distinct[OF D(2) kept st res val(2) fresh rows]
  have "pj_BasisID x \<in> bs_ID ` set (?R d1)" if x: "x \<in> set (?P d1)" for x
  proof (cases "x = r")
    case True
    then show ?thesis using inb brows stored_project_fields(3)[OF r] bid by simp
  next
    case False
    then have "x \<in> set (?P d)" using x rows by simp
    then show ?thesis using ok brows by (simp add: scopes_ok_def)
  qed
  then have ok1: "scopes_ok env d1" using put(1) D(1) brows by (simp add: scopes_ok_def)
  show thesis
  proof (rule that[OF ok1 brows put(2) r_eq kept])
    assume id: "pj_ID p \<noteq> 0" "pj_VagrantfileID p \<noteq> None"
      and nw: "file_loaded (pj_Vagrantfile p) (pj_VagrantfileID p) \<or> (\<forall>v. pj_Vagrantfile p = Some v \<longrightarrow> vr_ID v = 0)"
    have "file_stored f (pj_VagrantfileID p) (pj_VagrantfileID r)" using r by (simp add: stored_project_def p2)
    then show "pj_VagrantfileID r = pj_VagrantfileID p" by (rule update_file_Ret(2)[OF l hook[OF id(1)] _ id(2) nw])
  qed
qed

section \<open>Putting a message\<close>

lemma decode_file_Ret:
  assumes "decode_file env m old d = Ret d1 f"
  shows "d1 = d" and "f = old \<or> (\<exists>v. f = Some v \<and> vr_ID v = 0)"
  using assms by (auto simp: decode_file_def VagrantfileFromProto_def bind_o_Ret_iff split: option.splits if_splits sum.splits)

lemma convert_list_Nil [simp]: "convert_list f [] old = Inr old"
  by (simp add: convert_list_def)

lemma softDecode_basis_Ret:
  assumes "softDecode_basis env m b d = Ret d1 b1"
  shows "d1 = d" and "bs_ID b1 = bs_ID b" and "bp_Projects m = [] \<Longrightarrow> bs_Projects b1 = bs_Projects b"
proof -
  let ?conv = "\<lambda>d. convert_list (\<lambda>r. map_sum id jkey_of (project_FromProtoRef env d (Some r))) (bp_Projects m) (bs_Projects b)"
    and ?meta = "decode_metadata env (bp_Metadata m) (bs_Metadata b)"
  from assms obtain dm f where f: "decode_file env (bp_Configuration m) (bs_Vagrantfile b) d = Ret dm f"
    and rest: "(case (?meta, ?conv dm) of
            (Inr md, Inr ps) \<Rightarrow>
              Ret dm (b\<lparr>bs_ResourceId := set_or [] (bp_ResourceId m) (bs_ResourceId b),
                       bs_Name := set_or [] (bp_Name m) (bs_Name b), bs_Path := set_or [] (bp_Path m) (bs_Path b),
                       bs_DataSource := set_msg (sn_zero env) (bp_DataSource m) (bs_DataSource b), bs_Metadata := md,
                       bs_RemoteEnabled := set_or False (bp_RemoteEnabled m) (bs_RemoteEnabled b),
                       bs_Vagrantfile := f, bs_Projects := ps\<rparr>)
          | _ \<Rightarrow> Fail dm (sn_decode env (errors_of ?meta @ errors_of (?conv dm)))) = Ret d1 b1"
    unfolding softDecode_basis_def bind_o_Ret_iff Let_def by blast
  have dm: "dm = d" by (rule decode_file_Ret(1)[OF f])
  from rest obtain md ps where "?meta = Inr md" "?conv d = Inr ps" "d1 = d" "bs_ID b1 = bs_ID b" "bs_Projects b1 = ps"
    unfolding dm by (auto split: sum.splits)
  then show "d1 = d" "bs_ID b1 = bs_ID b" "bp_Projects m = [] \<Longrightarrow> bs_Projects b1 = bs_Projects b" by auto
qed

lemma softDecode_project_Ret:
  assumes "softDecode_project env m p d = Ret d1 p1"
  obtains f ba md ts where "d1 = d" and "f = pj_Vagrantfile p \<or> (\<exists>v. f = Some v \<and> vr_ID v = 0)"
    and "convert (pp_Basis m) zero_basis_ref (\<lambda>r. map_sum id bkey_of (BasisFromProtoRef env d (Some r))) (pj_Basis p) = Inr ba"
    and "decode_metadata env (pp_Metadata m) (pj_Metadata p) = Inr md"
    and "p1 = p\<lparr>pj_ResourceId := set_or [] (pp_ResourceId m) (pj_ResourceId p),
                pj_Name := set_or [] (pp_Name m) (pj_Name p), pj_Path := set_or [] (pp_Path m) (pj_Path p),
                pj_DataSource := set_msg (sn_zero env) (pp_DataSource m) (pj_DataSource p), pj_Metadata := md,
                pj_RemoteEnabled := set_or False (pp_RemoteEnabled m) (pj_RemoteEnabled p),
                pj_Basis := ba, pj_Vagrantfile := f, pj_Targets := ts\<rparr>"
proof -
  from assms obtain dm f where f: "decode_file env (pp_Configuration m) (pj_Vagrantfile p) d = Ret dm f"
    and rest: "(let basis = convert (pp_Basis m) zero_basis_ref (\<lambda>r. map_sum id bkey_of (BasisFromProtoRef env dm (Some r))) (pj_Basis p);
           metadata = decode_metadata env (pp_Metadata m) (pj_Metadata p);
           targets = convert_list (\<lambda>r. map_sum id key_of (TargetFromProtoRef (sn_targets env) dm (Some r))) (pp_Targets m) (pj_Targets p)
       in case (basis, metadata, targets) of
            (Inr ba, Inr md, Inr ts) \<Rightarrow>
              Ret dm (p\<lparr>pj_ResourceId := set_or [] (pp_ResourceId m) (pj_ResourceId p),
                       pj_Name := set_or [] (pp_Name m) (pj_Name p), pj_Path := set_or [] (pp_Path m) (pj_Path p),
                       pj_DataSource := set_msg (sn_zero env) (pp_DataSource m) (pj_DataSource p), pj_Metadata := md,
                       pj_RemoteEnabled := set_or False (pp_RemoteEnabled m) (pj_RemoteEnabled p),
                       pj_Basis := ba, pj_Vagrantfile := f, pj_Targets := ts\<rparr>)
          | _ \<Rightarrow> Fail dm (sn_decode env (errors_of basis @ errors_of metadata @ errors_of targets))) = Ret d1 p1"
    unfolding softDecode_project_def bind_o_Ret_iff by blast
  note dm = decode_file_Ret[OF f]
  from rest obtain ba md ts where "convert (pp_Basis m) zero_basis_ref (\<lambda>r. map_sum id bkey_of (BasisFromProtoRef env d (Some r))) (pj_Basis p) = Inr ba"
    "decode_metadata env (pp_Metadata m) (pj_Metadata p) = Inr md" "d1 = d"
    "p1 = p\<lparr>pj_ResourceId := set_or [] (pp_ResourceId m) (pj_ResourceId p),
                pj_Name := set_or [] (pp_Name m) (pj_Name p), pj_Path := set_or [] (pp_Path m) (pj_Path p),
                pj_DataSource := set_msg (sn_zero env) (pp_DataSource m) (pj_DataSource p), pj_Metadata := md,
                pj_RemoteEnabled := set_or False (pp_RemoteEnabled m) (pj_RemoteEnabled p),
                pj_Basis := ba, pj_Vagrantfile := f, pj_Targets := ts\<rparr>"
    unfolding dm(1) Let_def by (auto split: sum.splits)
  with dm(2) show thesis using that by blast
qed

lemma drop_finalized_Ret:
  assumes "drop_finalized m p d = Ret d1 p1"
  obtains g where "d1 = d" and "p1 = p\<lparr>pj_Vagrantfile := g\<rparr>"
    and "map_option vr_ID g = map_option vr_ID (pj_Vagrantfile p)"
proof -
  have d: "d1 = d" using assms by (auto simp: drop_finalized_def split: option.splits if_splits)
  show thesis
  proof (cases "p1 = p")
    case True
    then show thesis using that[OF d, of "pj_Vagrantfile p"] by simp
  next
    case False
    then obtain f where "pj_Vagrantfile p = Some f" "p1 = p\<lparr>pj_Vagrantfile := Some (f\<lparr>vr_Finalized := None\<rparr>)\<rparr>"
      using assms by (auto simp: drop_finalized_def split: option.splits if_splits)
    then show thesis using that[OF d, of "Some (f\<lparr>vr_Finalized := None\<rparr>)"] by simp
  qed
qed

text \<open>What a message makes of the row of a project. The column of its Vagrantfile is that of the new row.\<close>

definition merge_project :: "('d, 'x, 'y) scopeenv \<Rightarrow> ('x, 'y) projectpb \<Rightarrow> 'x option \<Rightarrow> nat option \<Rightarrow> 'x prow \<Rightarrow> 'x prow" where
  "merge_project env m md file r =
     r\<lparr>pj_Name := set_or [] (pp_Name m) (pj_Name r), pj_Path := set_or [] (pp_Path m) (pj_Path r),
       pj_DataSource := set_msg (sn_zero env) (pp_DataSource m) (pj_DataSource r), pj_Metadata := md,
       pj_RemoteEnabled := set_or False (pp_RemoteEnabled m) (pj_RemoteEnabled r), pj_VagrantfileID := file\<rparr>"

text \<open>The row before it is saved: decoded, and without what is finalized.\<close>

lemma put_project_saved:
  assumes run: "put_project env m p d = Ret d1 m1"
  obtains f ba md ts p1 p2 where "project_upsert env p1 d = Ret d1 p2"
    and "map_option vr_ID f = map_option vr_ID (pj_Vagrantfile p) \<or> (\<exists>v. f = Some v \<and> vr_ID v = 0)"
    and "convert (pp_Basis m) zero_basis_ref (\<lambda>r. map_sum id bkey_of (BasisFromProtoRef env d (Some r))) (pj_Basis p) = Inr ba"
    and "decode_metadata env (pp_Metadata m) (pj_Metadata p) = Inr md"
    and "p1 = p\<lparr>pj_ResourceId := set_or [] (pp_ResourceId m) (pj_ResourceId p),
                pj_Name := set_or [] (pp_Name m) (pj_Name p), pj_Path := set_or [] (pp_Path m) (pj_Path p),
                pj_DataSource := set_msg (sn_zero env) (pp_DataSource m) (pj_DataSource p), pj_Metadata := md,
                pj_RemoteEnabled := set_or False (pp_RemoteEnabled m) (pj_RemoteEnabled p),
                pj_Basis := ba, pj_Vagrantfile := f, pj_Targets := ts\<rparr>"
proof -
  from run obtain da pa db pb p2 where dec: "softDecode_project env m p d = Ret da pa"
    and drop: "drop_finalized (pp_Configuration m) pa da = Ret db pb" and up: "project_upsert env pb db = Ret d1 p2"
    unfolding put_project_def map_err_Ret bind_o_Ret_iff by blast
  obtain f ba md ts where dd: "da = d" "f = pj_Vagrantfile p \<or> (\<exists>v. f = Some v \<and> vr_ID v = 0)"
    "convert (pp_Basis m) zero_basis_ref (\<lambda>r. map_sum id bkey_of (BasisFromProtoRef env d (Some r))) (pj_Basis p) = Inr ba"
    "decode_metadata env (pp_Metadata m) (pj_Metadata p) = Inr md"
    "pa = p\<lparr>pj_ResourceId := set_or [] (pp_ResourceId m) (pj_ResourceId p),
                pj_Name := set_or [] (pp_Name m) (pj_Name p), pj_Path := set_or [] (pp_Path m) (pj_Path p),
                pj_DataSource := set_msg (sn_zero env) (pp_DataSource m) (pj_DataSource p), pj_Metadata := md,
                pj_RemoteEnabled := set_or False (pp_RemoteEnabled m) (pj_RemoteEnabled p),
                pj_Basis := ba, pj_Vagrantfile := f, pj_Targets := ts\<rparr>"
    by (rule softDecode_project_Ret[OF dec])
  obtain g where g: "db = da" "pb = pa\<lparr>pj_Vagrantfile := g\<rparr>" "map_option vr_ID g = map_option vr_ID (pj_Vagrantfile pa)"
    by (rule drop_finalized_Ret[OF drop])
  have "pj_Vagrantfile pa = f" by (simp add: dd(5))
  then have "map_option vr_ID g = map_option vr_ID (pj_Vagrantfile p) \<or> (\<exists>v. g = Some v \<and> vr_ID v = 0)"
    using dd(2) g(3) by auto
  then show thesis using that[OF _ _ dd(3,4), of pb p2 g ts] up by (simp add: g(1,2) dd(1,5))
qed

lemma project_in_basis:
  "scopes_ok env d \<Longrightarrow> p \<in> set (sd_project_rows (sn_db env) d) \<Longrightarrow> pj_BasisID p \<in> bs_ID ` set (sd_basis_rows (sn_db env) d)"
  by (simp add: scopes_ok_def)

lemma put_known_project:
  assumes l: "scope_lawful (sn_db env)" and ok: "scopes_ok env d" and ld: "project_loaded (sn_db env) d p"
    and nb: "pp_Basis m = None" and run: "put_project env m p d = Ret d1 m1"
  obtains r md vi where "scopes_ok env d1" and "sd_basis_rows (sn_db env) d1 = sd_basis_rows (sn_db env) d"
    and "row_put pj_ID (sd_project_rows (sn_db env) d) r (sd_project_rows (sn_db env) d1)"
    and "r = merge_project env m md vi (pcolumns p)" and "decode_metadata env (pp_Metadata m) (pj_Metadata p) = Inr md"
    and "pj_VagrantfileID p \<noteq> None \<Longrightarrow> vi = pj_VagrantfileID p"
proof -
  let ?P = "\<lambda>d. sd_project_rows (sn_db env) d"
  obtain f ba md ts p1 p2 where up: "project_upsert env p1 d = Ret d1 p2"
    and f: "map_option vr_ID f = map_option vr_ID (pj_Vagrantfile p) \<or> (\<exists>v. f = Some v \<and> vr_ID v = 0)"
    and ba: "convert (pp_Basis m) zero_basis_ref (\<lambda>r. map_sum id bkey_of (BasisFromProtoRef env d (Some r))) (pj_Basis p) = Inr ba"
    and md: "decode_metadata env (pp_Metadata m) (pj_Metadata p) = Inr md"
    and p1: "p1 = p\<lparr>pj_ResourceId := set_or [] (pp_ResourceId m) (pj_ResourceId p),
                pj_Name := set_or [] (pp_Name m) (pj_Name p), pj_Path := set_or [] (pp_Path m) (pj_Path p),
                pj_DataSource := set_msg (sn_zero env) (pp_DataSource m) (pj_DataSource p), pj_Metadata := md,
                pj_RemoteEnabled := set_or False (pp_RemoteEnabled m) (pj_RemoteEnabled p),
                pj_Basis := ba, pj_Vagrantfile := f, pj_Targets := ts\<rparr>"
    using put_project_saved[OF run] .
  have in_P: "pcolumns p \<in> set (?P d)" and fl: "file_loaded (pj_Vagrantfile p) (pj_VagrantfileID p)"
    and bl: "pj_Basis p = Some k \<Longrightarrow> bk_ID k = pj_BasisID p" for k
    using ld by (simp_all add: project_loaded_def)
  have D: "distinct_projects (?P d)" using ok by (simp add: scopes_ok_def)
  have id: "pj_ID p \<noteq> 0" using project_table.distinctD(1)[OF D in_P] by simp
  have "ba = pj_Basis p" using ba nb by (simp add: convert_def)
  then have bid: "basis_id p1 = pj_BasisID p" using bl by (simp add: basis_id_def p1 split: option.split)
  have fields: "pj_ID p1 = pj_ID p" "pj_VagrantfileID p1 = pj_VagrantfileID p" "pj_Vagrantfile p1 = f" by (simp_all add: p1)
  have st: "pj_ID p1 \<noteq> 0 \<longrightarrow> pj_ID p1 \<in> pj_ID ` set (?P d)" using in_P fields(1) by (metis imageI pcolumns_simps(1))
  have n: "basis_id p1 \<in> bs_ID ` set (sd_basis_rows (sn_db env) d)" using project_in_basis[OF ok in_P] bid by simp
  obtain r i where r: "scopes_ok env d1" "sd_basis_rows (sn_db env) d1 = sd_basis_rows (sn_db env) d" "row_put pj_ID (?P d) r (?P d1)"
    and req: "r = (pcolumns p1)\<lparr>pj_ID := pj_ID r, pj_ResourceId := pj_ResourceId r, pj_BasisID := basis_id p1,
                          pj_VagrantfileID := pj_VagrantfileID r\<rparr>"
    and kept: "kept_id pj_ID pj_ResourceId (?P d) (pj_ID p1) i r"
    and vfile: "pj_ID p1 \<noteq> 0 \<Longrightarrow> pj_VagrantfileID p1 \<noteq> None \<Longrightarrow>
           file_loaded (pj_Vagrantfile p1) (pj_VagrantfileID p1) \<or> (\<forall>v. pj_Vagrantfile p1 = Some v \<longrightarrow> vr_ID v = 0) \<Longrightarrow>
           pj_VagrantfileID r = pj_VagrantfileID p1"
    using project_upsert_Ret[OF l ok st n up] by metis
  have same: "pj_ID r = pj_ID p" "pj_ResourceId r = pj_ResourceId p"
    using project_table.kept_row[OF D kept in_P] fields(1) by simp_all
  have "r = merge_project env m md (pj_VagrantfileID r) (pcolumns p)"
    by (subst req[unfolded bid]) (simp add: same p1 merge_project_def pcolumns_def)
  moreover have "pj_VagrantfileID r = pj_VagrantfileID p" if "pj_VagrantfileID p \<noteq> None"
  proof -
    have "file_loaded f (pj_VagrantfileID p) \<or> (\<forall>v. f = Some v \<longrightarrow> vr_ID v = 0)"
      using f fl by (cases "pj_Vagrantfile p") (auto simp: file_loaded_def)
    then show ?thesis using vfile id that fields by simp
  qed
  ultimately show thesis using that r md by blast
qed

lemma put_new_project:
  assumes l: "scope_lawful (sn_db env)" and ok: "scopes_ok env d" and p: "p = zero_project" and run: "put_project env m p d = Ret d1 m1"
  shows "scopes_ok env d1"
proof -
  obtain f ba md ts p1 p2 where up: "project_upsert env p1 d = Ret d1 p2"
    and "map_option vr_ID f = map_option vr_ID (pj_Vagrantfile p) \<or> (\<exists>v. f = Some v \<and> vr_ID v = 0)"
    and ba: "convert (pp_Basis m) zero_basis_ref (\<lambda>r. map_sum id bkey_of (BasisFromProtoRef env d (Some r))) (pj_Basis p) = Inr ba"
    and "decode_metadata env (pp_Metadata m) (pj_Metadata p) = Inr md"
    and p1: "p1 = p\<lparr>pj_ResourceId := set_or [] (pp_ResourceId m) (pj_ResourceId p),
                pj_Name := set_or [] (pp_Name m) (pj_Name p), pj_Path := set_or [] (pp_Path m) (pj_Path p),
                pj_DataSource := set_msg (sn_zero env) (pp_DataSource m) (pj_DataSource p), pj_Metadata := md,
                pj_RemoteEnabled := set_or False (pp_RemoteEnabled m) (pj_RemoteEnabled p),
                pj_Basis := ba, pj_Vagrantfile := f, pj_Targets := ts\<rparr>"
    using put_project_saved[OF run] .
  have z: "pj_ID p1 = 0" "pj_BasisID p1 = 0" "pj_Basis p1 = ba" by (simp_all add: p1 p zero_project_def)
  have n: "basis_id p1 \<in> bs_ID ` set (sd_basis_rows (sn_db env) d)" if "pj_Basis p1 \<noteq> None \<or> pj_BasisID p1 \<noteq> 0"
  proof -
    have none: "pj_Basis p = None" by (simp add: p zero_project_def)
    from that z obtain k where k: "ba = Some k" by auto
    then obtain ref b where b: "BasisFromProtoRef env d (Some ref) = Inr b" "k = bkey_of b"
      using ba none by (auto simp: convert_def map_sum_def split: option.splits if_splits sum.splits)
    have "bcolumns b \<in> set (sd_basis_rows (sn_db env) d)"
      using BasisFromProtoRef_Inr(1)[OF scope_lawfulD(1)[OF l] b(1)] by (simp add: basis_loaded_def)
    then have "bs_ID (bcolumns b) \<in> bs_ID ` set (sd_basis_rows (sn_db env) d)" by (rule imageI)
    then show ?thesis using b(2) k by (simp add: basis_id_def z(3) bkey_of_def)
  qed
  have st: "pj_ID p1 \<noteq> 0 \<longrightarrow> pj_ID p1 \<in> pj_ID ` set (sd_project_rows (sn_db env) d)" using z(1) by simp
  show ?thesis using project_upsert_Ret[OF l ok st n up] by metis
qed

text \<open>A request that fails changes nothing.\<close>

lemma softDecode_Fail:
  "softDecode_basis env m b d = Fail d1 e \<Longrightarrow> d1 = d" "softDecode_project env m' p d = Fail d1 e \<Longrightarrow> d1 = d"
  by (auto simp: softDecode_basis_def softDecode_project_def decode_file_def VagrantfileFromProto_def Let_def
      split: option.splits if_splits sum.splits)

lemma in_transaction_Fail: "in_transaction d r = Fail d1 e \<Longrightarrow> d1 = d"
  by (cases r) (simp_all add: in_transaction_def)

lemma upsert_Fail: "basis_upsert env b d = Fail d1 e \<Longrightarrow> d1 = d" "project_upsert env p d = Fail d1 e \<Longrightarrow> d1 = d"
  by (auto simp: basis_upsert_def project_upsert_def dest: in_transaction_Fail split: sum.splits)

lemma bind_o_Fail_iff: "bind_o r f = Fail d1 e \<longleftrightarrow> r = Fail d1 e \<or> (\<exists>d a. r = Ret d a \<and> f d a = Fail d1 e)"
  by (cases r) auto

lemma map_err_Fail_iff: "map_err g r = Fail d1 e \<longleftrightarrow> (\<exists>e'. r = Fail d1 e' \<and> e = g e')"
  by (cases r) (auto simp: map_err_def)

lemma put_basis_Fail: "put_basis env m b d = Fail d1 e \<Longrightarrow> d1 = d"
  by (auto simp: put_basis_def map_err_Fail_iff bind_o_Fail_iff dest: softDecode_Fail softDecode_basis_Ret upsert_Fail)

lemma drop_finalized_not_Fail: "drop_finalized m p d \<noteq> Fail d1 e"
  by (auto simp: drop_finalized_def split: option.splits)

lemma put_project_Fail:
  assumes "put_project env m p d = Fail d1 e"
  shows "d1 = d"
proof -
  have da: "da = d" if "softDecode_project env m p d = Ret da pa" for da pa by (rule softDecode_project_Ret[OF that])
  have db: "db = da" if "drop_finalized (pp_Configuration m) pa da = Ret db pb" for da pa db pb by (rule drop_finalized_Ret[OF that])
  obtain e' where "bind_o (softDecode_project env m p d) (\<lambda>d p. bind_o (drop_finalized (pp_Configuration m) p d) (\<lambda>d p.
        bind_o (project_upsert env p d) (\<lambda>d p. Ret d (project_ToProto env p)))) = Fail d1 e'"
    using assms unfolding put_project_def map_err_Fail_iff by blast
  then show ?thesis
    unfolding bind_o_Fail_iff
    by (metis drop_finalized_not_Fail softDecode_Fail(2) upsert_Fail(2) da db outcome.distinct(1))
qed

lemma put_basis_ok:
  assumes l: "scope_lawful (sn_db env)" and ok: "scopes_ok env d" and np: "bp_Projects m = []"
    and b: "b = zero_basis \<or> basis_loaded (sn_db env) d b" and run: "put_basis env m b d = Ret d1 m1"
  shows "scopes_ok env d1"
proof -
  from run obtain da b1 b2 where dec: "softDecode_basis env m b d = Ret da b1" and up: "basis_upsert env b1 da = Ret d1 b2"
    unfolding put_basis_def map_err_Ret bind_o_Ret_iff by blast
  note dd = softDecode_basis_Ret[OF dec]
  have prj: "bs_Projects b1 = bs_Projects b" by (rule dd(3)[OF np])
  have D: "distinct_bases (sd_basis_rows (sn_db env) d)" using ok by (simp add: scopes_ok_def)
  have "(bs_ID b1 \<noteq> 0 \<longrightarrow> bs_ID b1 \<in> bs_ID ` set (sd_basis_rows (sn_db env) d))
      \<and> (\<forall>k \<in> set (bs_Projects b1). jk_BasisID k = bs_ID b1 \<and> bs_ID b1 \<noteq> 0)"
  proof (cases "b = zero_basis")
    case True
    then show ?thesis using dd(2) prj by (simp add: zero_basis_def)
  next
    case False
    with b have ld: "bcolumns b \<in> set (sd_basis_rows (sn_db env) d)" "\<forall>k \<in> set (bs_Projects b). jk_BasisID k = bs_ID b"
      by (simp_all add: basis_loaded_def)
    have "bs_ID b \<in> bs_ID ` set (sd_basis_rows (sn_db env) d)" using ld(1) by (metis bcolumns_simps(1) imageI)
    then show ?thesis using basis_table.distinctD(1)[OF D ld(1)] ld(2) dd(2) prj by simp
  qed
  then show ?thesis using basis_upsert_ok[OF l ok _ _ up[unfolded dd(1)]] by blast
qed

lemma BasisPut_keeps:
  assumes l: "scope_lawful (sn_db env)" and ok: "scopes_ok env d" and np: "\<And>x. m = Some x \<Longrightarrow> bp_Projects x = []"
  shows "keeps (scopes_ok env) (BasisPut env m d)"
proof (cases "BasisPut env m d")
  case (Ret d1 m1)
  then obtain x b where x: "m = Some x" "put_basis env x b d = Ret d1 m1"
    and b: "b = zero_basis \<or> BasisFromProto env d m = Inr b"
    by (auto simp: BasisPut_def split: sum.splits option.splits if_splits)
  have "b = zero_basis \<or> basis_loaded (sn_db env) d b"
    using b x(1) BasisFromProtoRef_Inr(1)[OF scope_lawfulD(1)[OF l]] by (auto simp: BasisFromProto_def)
  then show ?thesis using put_basis_ok[OF l ok np[OF x(1)] _ x(2)] Ret by simp
next
  case (Fail d1 e)
  then have "d1 = d" by (auto simp: BasisPut_def dest: put_basis_Fail split: sum.splits option.splits if_splits)
  then show ?thesis using Fail ok by simp
qed simp

lemma ProjectPut_keeps:
  assumes l: "scope_lawful (sn_db env)" and ok: "scopes_ok env d"
  shows "keeps (scopes_ok env) (ProjectPut env m d)"
proof (cases "ProjectPut env m d")
  case (Ret d1 m1)
  then consider x where "put_project env x zero_project d = Ret d1 m1"
    | x p where "m = Some x" "project_FromProto env d m = Inr p" "put_project env (x\<lparr>pp_Basis := None\<rparr>) p d = Ret d1 m1"
    by (auto simp: ProjectPut_def split: sum.splits option.splits if_splits)
  then have "scopes_ok env d1"
  proof cases
    case (2 x p)
    have ld: "project_loaded (sn_db env) d p"
      using 2(1,2) project_FromProtoRef_Inr(1)[OF scope_lawfulD(1)[OF l]] by (auto simp: project_FromProto_def)
    show ?thesis by (rule put_known_project[OF l ok ld _ 2(3)]) simp_all
  qed (rule put_new_project[OF l ok refl])
  then show ?thesis using Ret by simp
next
  case (Fail d1 e)
  then have "d1 = d" by (auto simp: ProjectPut_def dest: put_project_Fail split: sum.splits option.splits if_splits)
  then show ?thesis using Fail ok by simp
qed simp

end
