(* ===== verification/ScopeClaims.thy ===== *)
theory ScopeClaims
  imports ScopeStore
begin

text \<open>
  The properties of bases and projects: their rows stay distinct and every project stays in a basis, what a put leaves
  of the row of a project, and the lookup of a project that ignores what it has found. They rest on a database that
  keeps the laws of \<open>ScopeStore\<close>.
\<close>

section \<open>Requests\<close>

datatype ('x, 'y) scope_request = ReqUpsertBasis "'x basispb option" | ReqUpsertProject "('x, 'y) projectpb option"

definition scope_request :: "('d, 'x, 'y) scopeenv \<Rightarrow> ('x, 'y) scope_request \<Rightarrow> 'd \<Rightarrow> 'd" where
  "scope_request env q d =
     (case q of ReqUpsertBasis m \<Rightarrow> left_by (UpsertBasis env m d) d | ReqUpsertProject m \<Rightarrow> left_by (UpsertProject env m d) d)"

text \<open>The message of a basis can name projects, which moves them; such a request is left out.\<close>

definition lists_no_projects :: "('x, 'y) scope_request \<Rightarrow> bool" where
  "lists_no_projects q = (case q of ReqUpsertBasis (Some m) \<Rightarrow> bp_Projects m = [] | _ \<Rightarrow> True)"

definition filtered_request :: "('d, 'x, 'y) scopeenv \<Rightarrow> ('x, 'y) scope_request \<Rightarrow> 'd \<Rightarrow> 'd" where
  "filtered_request env q d = (if lists_no_projects q then scope_request env q d else d)"

lemma filtered_request_ok:
  assumes l: "scope_lawful (sn_db env)" and ok: "scopes_ok env d"
  shows "scopes_ok env (filtered_request env q d)"
proof (cases "lists_no_projects q")
  case np: True
  show ?thesis
  proof (cases q)
    case (ReqUpsertBasis m)
    have "keeps (scopes_ok env) (BasisPut env m d)"
      by (rule BasisPut_keeps[OF l ok]) (use np ReqUpsertBasis in \<open>simp add: lists_no_projects_def\<close>)
    from keeps_left_by[OF this ok] show ?thesis
      using np ReqUpsertBasis by (simp add: filtered_request_def scope_request_def UpsertBasis_def)
  next
    case (ReqUpsertProject m)
    from keeps_left_by[OF ProjectPut_keeps[OF l ok, of m] ok] show ?thesis
      using np ReqUpsertProject by (simp add: filtered_request_def scope_request_def UpsertProject_def)
  qed
qed (simp add: filtered_request_def ok)

interpretation scope_rows: machine "filtered_request env" "\<lambda>d. scope_lawful (sn_db env) \<and> scopes_ok env d" for env
  by unfold_locales (simp add: filtered_request_ok)

lemma filtered_all: "\<forall>q \<in> set qs. lists_no_projects q \<Longrightarrow> fold (filtered_request env) qs d = fold (scope_request env) qs d"
  by (induction qs arbitrary: d) (simp_all add: filtered_request_def)

text \<open>The rows by their resource ids.\<close>

definition project_of :: "('d, 'x, 'y) scopeenv \<Rightarrow> 'd \<Rightarrow> string \<Rightarrow> 'x prow option" where
  "project_of env d i = find (\<lambda>r. pj_ResourceId r = i) (sd_project_rows (sn_db env) d)"

lemma UpsertProject_known:
  assumes l: "scope_lawful (sn_db env)" and ok: "scopes_ok env d" and run: "UpsertProject env (Some m) d = Ret d1 m1"
    and i: "pp_ResourceId m \<noteq> []" and old: "project_of env d (pp_ResourceId m) = Some old"
  obtains md vi where "scopes_ok env d1" and "sd_basis_rows (sn_db env) d1 = sd_basis_rows (sn_db env) d"
    and "project_of env d1 = (project_of env d)(pp_ResourceId m \<mapsto> merge_project env m md vi old)"
    and "decode_metadata env (pp_Metadata m) (pj_Metadata old) = Inr md"
    and "pj_VagrantfileID old \<noteq> None \<longrightarrow> vi = pj_VagrantfileID old"
proof -
  let ?P = "\<lambda>d. sd_project_rows (sn_db env) d"
  let ?ref = "\<lparr>pf_ResourceId = pp_ResourceId m, pf_Name = [], pf_Path = [], pf_Basis = None\<rparr>"
  have D: "distinct_projects (?P d)" using ok by (simp add: scopes_ok_def)
  have o: "old \<in> set (?P d)" "pj_ResourceId old = pp_ResourceId m"
    using old unfolding project_of_def project_table.row_with_id[OF D] by blast+
  obtain p where p: "project_FromProtoRef env d (Some ?ref) = Inr p"
    by (rule project_found[OF scope_lawfulD(1)[OF l] o(1), of ?ref]) (use o i in simp_all)
  have ld: "project_loaded (sn_db env) d p" and ri: "pj_ResourceId p = pp_ResourceId m"
    using project_FromProtoRef_Inr[OF scope_lawfulD(1)[OF l] p] by simp_all
  have in_P: "pcolumns p \<in> set (?P d)" using ld by (simp add: project_loaded_def)
  have "pcolumns p = old" using project_table.distinctD(4)[OF D in_P o(1)] ri o(2) by simp
  then have md_old: "pj_Metadata p = pj_Metadata old" "pj_VagrantfileID p = pj_VagrantfileID old" by (auto simp: pcolumns_def)
  have put: "put_project env (m\<lparr>pp_Basis := None\<rparr>) p d = Ret d1 m1"
    using run p by (simp add: UpsertProject_def ProjectPut_def project_FromProto_def)
  obtain r md vi where r: "scopes_ok env d1" "sd_basis_rows (sn_db env) d1 = sd_basis_rows (sn_db env) d"
    "row_put pj_ID (?P d) r (?P d1)" "r = merge_project env (m\<lparr>pp_Basis := None\<rparr>) md vi (pcolumns p)"
    "decode_metadata env (pp_Metadata (m\<lparr>pp_Basis := None\<rparr>)) (pj_Metadata p) = Inr md"
    "pj_VagrantfileID p \<noteq> None \<Longrightarrow> vi = pj_VagrantfileID p"
    by (rule put_known_project[OF l ok ld _ put]) (simp, blast)
  have r_eq: "r = merge_project env m md vi old" using r(4) \<open>pcolumns p = old\<close> by (simp add: merge_project_def)
  have same: "pj_ID old = pj_ID r" "pj_ResourceId old = pj_ResourceId r" by (simp_all add: r_eq merge_project_def)
  have D1: "distinct_projects (?P d1)" using r(1) by (simp add: scopes_ok_def)
  have "project_of env d1 = (project_of env d)(pp_ResourceId m \<mapsto> merge_project env m md vi old)"
    using project_table.row_with_id_put[OF D D1 r(3) o(1) same] same(2) o(2) unfolding project_of_def r_eq by simp
  with r(1,2,5,6) md_old show thesis using that by simp
qed

section \<open>A lawful database\<close>

text \<open>The tables as lists.\<close>

record 'x scope_list =
  sl_bases :: "'x brow list"
  sl_projects :: "'x prow list"
  sl_files :: "'x vfile_row list"

definition list_put :: "('r \<Rightarrow> nat) \<Rightarrow> ('r \<Rightarrow> string) \<Rightarrow> (nat \<Rightarrow> string \<Rightarrow> 'r) \<Rightarrow> nat \<Rightarrow> string \<Rightarrow> 'r list \<Rightarrow> 'r list" where
  "list_put rid rri mk own res rows =
     filter (\<lambda>x. rid x \<noteq> own) rows @
       [if own = 0 then mk (Suc (fold max (map rid rows) 0)) res
        else mk own (case find (\<lambda>x. rid x = own) rows of None \<Rightarrow> res | Some x \<Rightarrow> rri x)]"

lemma list_put_law:
  assumes "\<And>i s. rid (mk i s) = i" "\<And>i s. rri (mk i s) = s"
  shows "\<exists>i s. kept_id rid rri rows own res (mk i s) \<and> set (list_put rid rri mk own res rows) = insert (mk i s) {x \<in> set rows. rid x \<noteq> own}"
proof (cases "own = 0")
  case True
  let ?n = "Suc (fold max (map rid rows) 0)"
  have "?n \<notin> rid ` set rows"
  proof
    assume "?n \<in> rid ` set rows"
    then have "?n \<in> set (map rid rows)" by simp
    from fold_max_ge(1)[OF this, of 0] show False by simp
  qed
  then show ?thesis using True by (intro exI[of _ ?n] exI[of _ res]) (auto simp: list_put_def kept_id_def assms)
next
  case False
  let ?s = "case find (\<lambda>x. rid x = own) rows of None \<Rightarrow> res | Some x \<Rightarrow> rri x"
  have "own \<in> rid ` set rows \<longrightarrow> (\<exists>x \<in> set rows. rid x = own \<and> ?s = rri x)"
    by (auto simp: find_None_iff find_Some_iff split: option.split)
  then show ?thesis
    using False by (intro exI[of _ own] exI[of _ ?s]) (auto simp: list_put_def kept_id_def assms)
qed

definition load_file :: "'x scope_list \<Rightarrow> nat option \<Rightarrow> 'x vfile_row option" where
  "load_file d i = (case i of None \<Rightarrow> None | Some k \<Rightarrow> find (\<lambda>f. vr_ID f = k \<and> k \<noteq> 0) (sl_files d))"

definition load_basis :: "'x scope_list \<Rightarrow> 'x brow \<Rightarrow> 'x basis_row" where
  "load_basis d r =
     \<lparr>bs_ID = bs_ID r, bs_ResourceId = bs_ResourceId r, bs_Name = bs_Name r, bs_Path = bs_Path r, bs_DataSource = bs_DataSource r,
      bs_Metadata = bs_Metadata r, bs_RemoteEnabled = bs_RemoteEnabled r, bs_VagrantfileID = bs_VagrantfileID r,
      bs_Vagrantfile = load_file d (bs_VagrantfileID r),
      bs_Projects = map (\<lambda>p. \<lparr>jk_ID = pj_ID p, jk_ResourceId = pj_ResourceId p, jk_BasisID = pj_BasisID p, jk_Name = pj_Name p, jk_Path = pj_Path p\<rparr>)
        (filter (\<lambda>p. pj_BasisID p = bs_ID r) (sl_projects d)),
      bs_Jobs = []\<rparr>"

definition load_project :: "'x scope_list \<Rightarrow> 'x prow \<Rightarrow> 'x project_full" where
  "load_project d r =
     \<lparr>pj_ID = pj_ID r, pj_ResourceId = pj_ResourceId r, pj_BasisID = pj_BasisID r, pj_Name = pj_Name r, pj_Path = pj_Path r,
      pj_DataSource = pj_DataSource r, pj_Metadata = pj_Metadata r, pj_RemoteEnabled = pj_RemoteEnabled r,
      pj_VagrantfileID = pj_VagrantfileID r,
      pj_Basis = map_option (\<lambda>b. \<lparr>bk_ID = bs_ID b, bk_ResourceId = bs_ResourceId b, bk_Name = bs_Name b, bk_Path = bs_Path b\<rparr>)
        (find (\<lambda>b. bs_ID b = pj_BasisID r) (sl_bases d)),
      pj_Vagrantfile = load_file d (pj_VagrantfileID r), pj_Targets = [], pj_Jobs = []\<rparr>"

definition put_file :: "'x vfile_row \<Rightarrow> 'x vfile_row list \<Rightarrow> 'x vfile_row list" where
  "put_file v fs = filter (\<lambda>f. vr_ID f \<noteq> vr_ID v) fs @ [v]"

text \<open>The Vagrantfile of a row gets an id when it has none; the id that the row refers to, and the files.\<close>

definition attach_file :: "'x vfile_row option \<Rightarrow> nat option \<Rightarrow> 'x vfile_row list \<Rightarrow> nat option \<times> 'x vfile_row list" where
  "attach_file f old fs =
     (case f of
        None \<Rightarrow> (old, fs)
      | Some v \<Rightarrow>
          (let i = (if vr_ID v = 0 then Suc (fold max (map vr_ID fs) 0) else vr_ID v) in (Some i, put_file (v\<lparr>vr_ID := i\<rparr>) fs)))"

definition scope_list_db :: "('x scope_list, 'x) scopedb" where
  "scope_list_db =
     \<lparr>sd_bases = (\<lambda>d qs. Inr (map (load_basis d) (filter (\<lambda>r. qs = [] \<or> list_ex (\<lambda>q. bkey_match q r) qs) (sl_bases d)))),
      sd_projects = (\<lambda>d qs. Inr (map (load_project d) (filter (\<lambda>r. qs = [] \<or> list_ex (\<lambda>q. jkey_match q r) qs) (sl_projects d)))),
      sd_joined = (\<lambda>d b q. Inr (map (load_project d) (filter (jkey_match q) (sl_projects d)))),
      sd_files = (\<lambda>d i. Inr (filter (\<lambda>f. vr_ID f = i \<and> i \<noteq> 0) (sl_files d))),
      sd_count_bases = (\<lambda>d q i. Inr (length (filter (\<lambda>r. bkey_match q r \<and> bs_ID r \<noteq> i) (sl_bases d)))),
      sd_count_projects = (\<lambda>d q i. Inr (length (filter (\<lambda>r. jkey_match q r \<and> pj_ID r \<noteq> i) (sl_projects d)))),
      sd_basis_changed = (\<lambda>d b. list_ex (\<lambda>r. bs_ID r = bs_ID b \<and> bs_ResourceId r \<noteq> bs_ResourceId b) (sl_bases d)),
      sd_project_changed = (\<lambda>d p. list_ex (\<lambda>r. pj_ID r = pj_ID p \<and> pj_ResourceId r \<noteq> pj_ResourceId p) (sl_projects d)),
      sd_save_basis = (\<lambda>d b.
        let (i, fs) = attach_file (bs_Vagrantfile b) (bs_VagrantfileID b) (sl_files d)
        in Inr (d\<lparr>sl_files := fs,
                  sl_bases := list_put bs_ID bs_ResourceId (\<lambda>k s. (bcolumns b)\<lparr>bs_ID := k, bs_ResourceId := s, bs_VagrantfileID := i\<rparr>)
                    (bs_ID b) (bs_ResourceId b) (sl_bases d)\<rparr>)),
      sd_save_project = (\<lambda>d p.
        let (i, fs) = attach_file (pj_Vagrantfile p) (pj_VagrantfileID p) (sl_files d)
        in Inr (d\<lparr>sl_files := fs,
                  sl_projects := list_put pj_ID pj_ResourceId
                    (\<lambda>k s. (pcolumns p)\<lparr>pj_ID := k, pj_ResourceId := s, pj_BasisID := basis_id p, pj_VagrantfileID := i\<rparr>)
                    (pj_ID p) (pj_ResourceId p) (sl_projects d)\<rparr>)),
      sd_save_file = (\<lambda>d f. Inr (d\<lparr>sl_files := put_file f (sl_files d)\<rparr>)),
      sd_remove_bases = (\<lambda>d is. Inr (d\<lparr>sl_bases := filter (\<lambda>r. bs_ID r \<notin> set is) (sl_bases d)\<rparr>)),
      sd_remove_projects = (\<lambda>d is. Inr (d\<lparr>sl_projects := filter (\<lambda>r. pj_ID r \<notin> set is) (sl_projects d)\<rparr>)),
      sd_remove_file = (\<lambda>d i. Inr (d\<lparr>sl_files := filter (\<lambda>f. vr_ID f \<noteq> i) (sl_files d)\<rparr>)),
      sd_remove_jobs = (\<lambda>d js. Inr d),
      sd_basis_rows = sl_bases, sd_project_rows = sl_projects\<rparr>"

lemma scope_list_rows [simp]: "sd_basis_rows scope_list_db = sl_bases" "sd_project_rows scope_list_db = sl_projects"
  by (simp_all add: scope_list_db_def)

lemma load_columns [simp]: "bcolumns (load_basis d r) = r" "pcolumns (load_project d r') = r'"
  by (simp_all add: bcolumns_def load_basis_def pcolumns_def load_project_def)

lemma load_file_loaded: "file_loaded (load_file d i) i"
  by (auto simp: file_loaded_def load_file_def find_Some_iff split: option.splits)

lemma attach_file_stored: "attach_file f old fs = (i, fs') \<Longrightarrow> file_stored f old i"
  by (auto simp: attach_file_def file_stored_def Let_def split: option.splits)

lemma load_fields [simp]:
  "bs_Vagrantfile (load_basis d r) = load_file d (bs_VagrantfileID r)" "bs_VagrantfileID (load_basis d r) = bs_VagrantfileID r"
  "bs_ID (load_basis d r) = bs_ID r" "k \<in> set (bs_Projects (load_basis d r)) \<Longrightarrow> jk_BasisID k = bs_ID r"
  "pj_Vagrantfile (load_project d r') = load_file d (pj_VagrantfileID r')" "pj_VagrantfileID (load_project d r') = pj_VagrantfileID r'"
  "pj_BasisID (load_project d r') = pj_BasisID r'" "pj_Basis (load_project d r') = Some j \<Longrightarrow> bk_ID j = pj_BasisID r'"
  by (auto simp: load_basis_def load_project_def find_Some_iff)

lemma loads:
  "r \<in> set (sl_bases d) \<Longrightarrow> basis_loaded scope_list_db d (load_basis d r)"
  "r' \<in> set (sl_projects d) \<Longrightarrow> project_loaded scope_list_db d (load_project d r')"
  by (simp_all add: basis_loaded_def project_loaded_def load_file_loaded scope_list_db_def)

lemma scope_list_lookups: "scope_lookups (scope_list_db :: ('x scope_list, 'x) scopedb)"
  unfolding scope_lookups_def
proof (intro conjI allI impI)
  fix d :: "'x scope_list"
  show "\<exists>bs. sd_bases scope_list_db d qs = Inr bs \<and> (\<forall>b \<in> set bs. basis_loaded scope_list_db d b) \<and>
      bcolumns ` set bs = {r \<in> set (sd_basis_rows scope_list_db d). qs = [] \<or> (\<exists>q \<in> set qs. bkey_match q r)}" for qs
  proof (intro exI conjI)
    show "sd_bases scope_list_db d qs = Inr (map (load_basis d) (filter (\<lambda>r. qs = [] \<or> list_ex (\<lambda>q. bkey_match q r) qs) (sl_bases d)))"
      by (simp add: scope_list_db_def)
  qed (auto simp: loads list_ex_iff image_image scope_list_db_def[THEN arg_cong, of sd_basis_rows])
  show "\<exists>ps. sd_projects scope_list_db d qs = Inr ps \<and> (\<forall>p \<in> set ps. project_loaded scope_list_db d p) \<and>
      pcolumns ` set ps = {r \<in> set (sd_project_rows scope_list_db d). qs = [] \<or> (\<exists>q \<in> set qs. jkey_match q r)}" for qs
  proof (intro exI conjI)
    show "sd_projects scope_list_db d qs = Inr (map (load_project d) (filter (\<lambda>r. qs = [] \<or> list_ex (\<lambda>q. jkey_match q r) qs) (sl_projects d)))"
      by (simp add: scope_list_db_def)
  qed (auto simp: loads list_ex_iff image_image scope_list_db_def[THEN arg_cong, of sd_project_rows])
qed (auto simp: scope_list_db_def filter_empty_conv)

lemma scope_list_db_lawful: "scope_lawful (scope_list_db :: ('x scope_list, 'x) scopedb)"
  unfolding scope_lawful_def
proof (intro conjI scope_list_lookups)
  show "scope_saves (scope_list_db :: ('x scope_list, 'x) scopedb)"
    unfolding scope_saves_def
  proof (intro conjI allI impI)
    fix d d1 :: "'x scope_list"
    show "\<exists>r. stored_basis (sd_basis_rows scope_list_db d) b r \<and>
        set (sd_basis_rows scope_list_db d1) = insert r {x \<in> set (sd_basis_rows scope_list_db d). bs_ID x \<noteq> bs_ID b}"
      if "sd_save_basis scope_list_db d b = Inr d1" for b
    proof -
      obtain i fs where a: "attach_file (bs_Vagrantfile b) (bs_VagrantfileID b) (sl_files d) = (i, fs)" by fastforce
      let ?mk = "\<lambda>k s. (bcolumns b)\<lparr>bs_ID := k, bs_ResourceId := s, bs_VagrantfileID := i\<rparr>"
      have "\<exists>k s. kept_id bs_ID bs_ResourceId (sl_bases d) (bs_ID b) (bs_ResourceId b) (?mk k s) \<and>
        set (list_put bs_ID bs_ResourceId ?mk (bs_ID b) (bs_ResourceId b) (sl_bases d)) = insert (?mk k s) {x \<in> set (sl_bases d). bs_ID x \<noteq> bs_ID b}"
        by (rule list_put_law) simp_all
      then obtain k s where k: "kept_id bs_ID bs_ResourceId (sl_bases d) (bs_ID b) (bs_ResourceId b) (?mk k s)"
        "set (list_put bs_ID bs_ResourceId ?mk (bs_ID b) (bs_ResourceId b) (sl_bases d)) = insert (?mk k s) {x \<in> set (sl_bases d). bs_ID x \<noteq> bs_ID b}"
        by blast
      have "sl_bases d1 = list_put bs_ID bs_ResourceId ?mk (bs_ID b) (bs_ResourceId b) (sl_bases d)"
        using that a by (auto simp: scope_list_db_def)
      moreover have "stored_basis (sl_bases d) b (?mk k s)"
        using k(1) attach_file_stored[OF a] by (simp add: stored_basis_def)
      ultimately show ?thesis using k(2) by (intro exI[of _ "?mk k s"]) simp
    qed
    show "\<exists>r. stored_project (sd_project_rows scope_list_db d) p r \<and>
        set (sd_project_rows scope_list_db d1) = insert r {x \<in> set (sd_project_rows scope_list_db d). pj_ID x \<noteq> pj_ID p}"
      if "sd_save_project scope_list_db d p = Inr d1" for p
    proof -
      obtain i fs where a: "attach_file (pj_Vagrantfile p) (pj_VagrantfileID p) (sl_files d) = (i, fs)" by fastforce
      let ?mk = "\<lambda>k s. (pcolumns p)\<lparr>pj_ID := k, pj_ResourceId := s, pj_BasisID := basis_id p, pj_VagrantfileID := i\<rparr>"
      have "\<exists>k s. kept_id pj_ID pj_ResourceId (sl_projects d) (pj_ID p) (pj_ResourceId p) (?mk k s) \<and>
        set (list_put pj_ID pj_ResourceId ?mk (pj_ID p) (pj_ResourceId p) (sl_projects d)) = insert (?mk k s) {x \<in> set (sl_projects d). pj_ID x \<noteq> pj_ID p}"
        by (rule list_put_law) simp_all
      then obtain k s where k: "kept_id pj_ID pj_ResourceId (sl_projects d) (pj_ID p) (pj_ResourceId p) (?mk k s)"
        "set (list_put pj_ID pj_ResourceId ?mk (pj_ID p) (pj_ResourceId p) (sl_projects d)) = insert (?mk k s) {x \<in> set (sl_projects d). pj_ID x \<noteq> pj_ID p}"
        by blast
      have "sl_projects d1 = list_put pj_ID pj_ResourceId ?mk (pj_ID p) (pj_ResourceId p) (sl_projects d)"
        using that a by (auto simp: scope_list_db_def)
      moreover have "stored_project (sl_projects d) p (?mk k s)"
        using k(1) attach_file_stored[OF a] by (simp add: stored_project_def)
      ultimately show ?thesis using k(2) by (intro exI[of _ "?mk k s"]) simp
    qed
  qed (auto simp: scope_list_db_def split: prod.splits)
qed

section \<open>An environment\<close>

definition ex_no_targets :: "(nat scope_list, nat) targetenv" where
  "ex_no_targets =
     \<lparr>te_db = \<lparr>td_find = \<lambda>_ _. Inr [], td_in_project = \<lambda>_ _ _. Inr [], td_like = \<lambda>_ _. Inr [], td_joined = \<lambda>_ _ _. Inr [],
               td_project = \<lambda>_ _. Inr [], td_count = \<lambda>_ _ _. Inr 0, td_changed = \<lambda>_ _. False, td_save = \<lambda>d _. Inr d,
               td_remove = \<lambda>d _. Inr d, td_rows = \<lambda>_. []\<rparr>,
      te_errors = hd, te_decode = hd, te_zero = (\<lambda>_. False), te_fresh = (\<lambda>_. Inr ''t''), te_stack = 3\<rparr>"

definition ex_scopes :: "(nat scope_list, nat, nat) scopeenv" where
  "ex_scopes =
     \<lparr>sn_db = scope_list_db, sn_targets = ex_no_targets, sn_errors = hd, sn_decode = hd, sn_zero = (\<lambda>_. False),
      sn_zero_file = (\<lambda>_. False), sn_format = (\<lambda>i. if i < 0 then Inl (OtherError ''overflow'') else Inr (word_of_int i)),
      sn_metadata = (\<lambda>m _. Inr (Some m)), sn_metadata_pb = (\<lambda>m. m),
      sn_fresh = (\<lambda>d. Inr (CHR ''n'' # replicate (length (sl_bases d) + length (sl_projects d)) CHR ''x''))\<rparr>"

definition ex_basis_row :: "nat \<Rightarrow> string \<Rightarrow> nat brow" where
  "ex_basis_row i n =
     \<lparr>bs_ID = i, bs_ResourceId = CHR ''b'' # n, bs_Name = n, bs_Path = CHR ''/'' # n, bs_DataSource = None, bs_Metadata = None,
      bs_RemoteEnabled = False, bs_VagrantfileID = None\<rparr>"

definition ex_project_row :: "nat \<Rightarrow> nat \<Rightarrow> string \<Rightarrow> nat prow" where
  "ex_project_row i b n =
     \<lparr>pj_ID = i, pj_ResourceId = CHR ''p'' # n, pj_BasisID = b, pj_Name = n, pj_Path = CHR ''/'' # n, pj_DataSource = None,
      pj_Metadata = None, pj_RemoteEnabled = True, pj_VagrantfileID = Some 1\<rparr>"

definition ex_scope_rows :: "nat scope_list" where
  "ex_scope_rows =
     \<lparr>sl_bases = [ex_basis_row 1 ''home'', ex_basis_row 2 ''work''], sl_projects = [ex_project_row 1 1 ''web''],
      sl_files = [\<lparr>vr_ID = 1, vr_Format = 0, vr_Unfinalized = None, vr_Finalized = Some 7, vr_Raw = [], vr_Path = None\<rparr>]\<rparr>"

definition ex_basis_pb :: "string \<Rightarrow> nat basispb" where
  "ex_basis_pb n =
     \<lparr>bp_ResourceId = [], bp_Name = n, bp_Path = CHR ''/'' # n, bp_Projects = [], bp_Metadata = None, bp_Configuration = None,
      bp_RemoteEnabled = False, bp_DataSource = None\<rparr>"

definition ex_project_pb :: "string \<Rightarrow> string \<Rightarrow> string \<Rightarrow> (nat, nat) projectpb" where
  "ex_project_pb i b n =
     \<lparr>pp_ResourceId = i, pp_Name = n, pp_Path = CHR ''/'' # n, pp_Targets = [],
      pp_Basis = Some \<lparr>rb_ResourceId = b, rb_Name = [], rb_Path = []\<rparr>, pp_Metadata = None,
      pp_Configuration = Some \<lparr>vp_Unfinalized = Some 9, vp_Finalized = None, vp_Raw = [], vp_Format = 2, vp_Path = None\<rparr>,
      pp_RemoteEnabled = False, pp_DataSource = None\<rparr>"

lemma ex_scopes_db [simp]: "sn_db ex_scopes = scope_list_db"
  by (simp add: ex_scopes_def)

lemma ex_scopes_ok: "scopes_ok ex_scopes ex_scope_rows"
  by (simp add: scopes_ok_def distinct_rows_def ex_scope_rows_def ex_basis_row_def ex_project_row_def same_basis_def
      same_project_def good_basis_def good_project_def)

section \<open>Claims\<close>


definition ex_scope_requests :: "(nat, nat) scope_request list" where
  "ex_scope_requests =
     [ReqUpsertBasis (Some (ex_basis_pb ''home'')), ReqUpsertBasis (Some (ex_basis_pb ''lab'')),
      ReqUpsertProject (Some (ex_project_pb [] ''bhome'' ''web'')), ReqUpsertProject (Some (ex_project_pb [] ''bwork'' ''web'')),
      ReqUpsertProject (Some (ex_project_pb [] ''none'' ''db''))]"




section \<open>Lookups that fail\<close>

text \<open>A project that is stored cannot be found by its resource id without the reference of a basis, although it is
  returned for a reference with that id.\<close>

lemma found_project_needs_basis:
  assumes "project_FromProto env d (Some m) = Inr p" and "pp_Basis m = None"
  shows "FindProject env (Some m) d = Fail d (lookupErrorToStatus ''project'' (Wrapped ''project message'' MissingProtoParent))"
    and "pf_ResourceId ref = pp_ResourceId m \<Longrightarrow> GetProject env (Some ref) d = Ret d (project_ToProto env p)"
proof -
  have by_ref: "project_FromProtoRef env d (Some ref) = Inr p" if "pf_ResourceId ref = pp_ResourceId m" for ref
    using assms(1) that by (auto simp: project_FromProto_def project_FromProtoRef_def split: if_splits)
  then show "FindProject env (Some m) d = Fail d (lookupErrorToStatus ''project'' (Wrapped ''project message'' MissingProtoParent))"
    using assms(2) by (simp add: FindProject_def ProjectFind_def project_FromProtoFuzzy_def project_FromProtoRefFuzzy_def)
  show "pf_ResourceId ref = pp_ResourceId m \<Longrightarrow> GetProject env (Some ref) d = Ret d (project_ToProto env p)"
    using by_ref by (simp add: GetProject_def ProjectGet_def)
qed

text \<open>The deletion of a project that fails answers with an internal error without a cause.\<close>

lemma failed_project_deletion_hides_error:
  assumes "project_FromProtoRef env d ref = Inr p" and "ProjectDelete env ref d = Fail d1 e"
  shows "d1 = d" and "e = deleteErrorToStatus ''project'' (OtherError ''%!w(<nil>)'')" and "status_code e = Some Internal"
proof -
  from assms have r: "map_err (\<lambda>_. deleteErrorToStatus ''project'' (OtherError ''%!w(<nil>)''))
      (in_transaction d (delete_projects env [jkey_of p] [jkey_of p] d)) = Fail d1 e"
    unfolding ProjectDelete_def by simp
  then obtain e' where e': "in_transaction d (delete_projects env [jkey_of p] [jkey_of p] d) = Fail d1 e'"
    and e: "e = deleteErrorToStatus ''project'' (OtherError ''%!w(<nil>)'')"
    by (auto simp: map_err_Fail_iff)
  show "d1 = d" by (rule in_transaction_Fail[OF e'])
  show "e = deleteErrorToStatus ''project'' (OtherError ''%!w(<nil>)'')" by (fact e)
  show "status_code e = Some Internal"
    by (simp add: e conversion_codes code_of_def is_not_found_def is_proto_argument_def is_validation_def)
qed

end
