(* ===== verification/ScopeCore.thy ===== *)
theory ScopeCore
  imports Scopes
begin

text \<open>
  Bases and projects in the core (\<open>core/basis.go\<close>, \<open>core/project.go\<close>): an object with its copy of the stored message, which
  it reloads and saves through the requests of the server, its options and its initialization, and how the factory
  (\<open>core/factory.go\<close>) makes and shares objects.

  Plugin managers (of type \<open>'p\<close>), Vagrantfiles (\<open>'v\<close>), data directories and the conversion of values are arguments, and so
  are the targets of a project, which \<open>TargetCore\<close> has.
\<close>

section \<open>Objects and the world\<close>

text \<open>What is called when an object is closed, in the order of its registration.\<close>

datatype basis_closer =
  BClosePlugins | BCloseCoreManager | BCloseVagrantfile | BCloseIndex | BSave | BUncache | BCloseProject nat

datatype project_closer = PClosePlugins | PSave | PUncache

text \<open>What is done to every plugin instance, and the values for the functions of plugins.\<close>

datatype configurator = SetPluginCache | SetPluginSeeds | SetPluginManager | SetPluginCoreManager

datatype seed = NamedSeed string | TypedSeed string

record ('x, 'p, 'v) basis_obj =
  bo_basis :: "'x basispb"
  bo_client :: bool
  bo_factory :: bool
  bo_plugins :: "'p option"
  bo_dir :: "string option"
  bo_mappers :: "string list"
  bo_ui :: "string option"
  bo_job :: string
  bo_vagrantfile :: "'v option"
  bo_configured :: "configurator list"
  bo_seeds :: "seed list"
  bo_closers :: "basis_closer list"
  bo_ready :: bool

text \<open>\<open>po_basis\<close> is the place of the basis object; \<open>po_scrub\<close> tells whether the scrubbing of targets is registered to run
  after the other closers.\<close>

record ('x, 'y, 'p, 'v) project_obj =
  po_project :: "('x, 'y) projectpb"
  po_client :: bool
  po_factory :: bool
  po_basis :: "nat option"
  po_plugins :: "'p option"
  po_dir :: "string option"
  po_ui :: "string option"
  po_vagrantfile :: "'v option"
  po_closers :: "project_closer list"
  po_scrub :: bool
  po_ready :: bool

text \<open>An entry of the cache of the factory; a value of another type than expected is a panic.\<close>

datatype cached = CachedBasis nat | CachedProject nat

record ('d, 'x, 'y, 'p, 'v) sworld =
  sw_srv :: 'd
  sw_bases :: "('x, 'p, 'v) basis_obj list"
  sw_projects :: "('x, 'y, 'p, 'v) project_obj list"
  sw_cache :: "string \<rightharpoonup> cached"
  sw_closers :: "nat list"

datatype source_location = AtBasis | AtProject

text \<open>\<open>ke_plugins\<close> and \<open>ke_ui\<close> are those of the factory. Of a manager: a sub manager, the names of its configuration
  plugins and one of them, whether there are legacy plugins, and the manager after plugins were discovered in a directory.
  Of a configuration plugin \<open>'c\<close>: whether it has the type, its instance if that is one, and its registration. Of a
  Vagrantfile: a new one, the registration of a plugin, a source at a location, the initialization, the source, a copy,
  the reference of the project, what is stored of it, and the copy without the defined machines. Then the directories,
  the mappers, the empty data of a configuration, and the initialization of the targets of a project.\<close>

record ('d, 'x, 'y, 'p, 'v, 'c, 'i, 'r) keenv =
  ke_srv :: "('d, 'x, 'y) scopeenv"
  ke_plugins :: 'p
  ke_ui :: string
  ke_sub :: "string \<Rightarrow> 'p \<Rightarrow> 'p"
  ke_configs :: "'p \<Rightarrow> goerr + string list"
  ke_get :: "'p \<Rightarrow> string \<Rightarrow> goerr + 'c"
  ke_legacy :: "'p \<Rightarrow> bool"
  ke_discover :: "'p \<Rightarrow> string \<Rightarrow> goerr + 'p"
  ke_is_config :: "'c \<Rightarrow> bool"
  ke_find :: "'c \<Rightarrow> goerr + 'i option"
  ke_info :: "'i \<Rightarrow> goerr + 'r"
  ke_new_vf :: 'v
  ke_vf_register :: "'v \<Rightarrow> 'r \<Rightarrow> 'c \<Rightarrow> goerr + 'v"
  ke_vf_source :: "'v \<Rightarrow> 'x vfilepb \<Rightarrow> source_location \<Rightarrow> goerr + 'v"
  ke_vf_init :: "'v \<Rightarrow> goerr + 'v"
  ke_vf_get :: "'v \<Rightarrow> source_location \<Rightarrow> goerr + 'x vfilepb"
  ke_vf_clone :: "'v \<Rightarrow> 'v"
  ke_vf_target :: "'v \<Rightarrow> basis_ref project_ref \<Rightarrow> 'v"
  ke_vf_store :: "'v \<Rightarrow> goerr + 'x option"
  ke_vf_forget :: "'v \<Rightarrow> 'v"
  ke_basis_dir :: "string \<Rightarrow> goerr + string"
  ke_project_dir :: "string \<Rightarrow> string \<Rightarrow> goerr + string"
  ke_plugin_dir :: "string \<Rightarrow> string"
  ke_local_dir :: "string \<Rightarrow> string"
  ke_mappers :: "goerr + string list"
  ke_local_mappers :: "goerr + string list"
  ke_console :: string
  ke_empty :: 'x
  ke_append :: "goerr option \<Rightarrow> goerr \<Rightarrow> goerr"
  ke_targets :: "('x, 'y) projectpb \<Rightarrow> 'd \<Rightarrow> ('d, ('x, 'y) projectpb) scope_result"

type_synonym ('d, 'x, 'y, 'p, 'v, 'a) on_basis = "(('d, 'x, 'y, 'p, 'v) sworld \<times> ('x, 'p, 'v) basis_obj, goerr, 'a) outcome"
type_synonym ('d, 'x, 'y, 'p, 'v, 'a) on_project = "(('d, 'x, 'y, 'p, 'v) sworld \<times> ('x, 'y, 'p, 'v) project_obj, goerr, 'a) outcome"

text \<open>A request of an object to the server; without a client it is a nil pointer.\<close>

definition request ::
  "bool \<Rightarrow> ('d \<Rightarrow> ('d, 'a) scope_result) \<Rightarrow> ('d, 'x, 'y, 'p, 'v) sworld \<times> 'o \<Rightarrow> (('d, 'x, 'y, 'p, 'v) sworld \<times> 'o, goerr, 'a) outcome" where
  "request client f s =
     (if \<not> client then Crash ''nil client''
      else case f (sw_srv (fst s)) of
             Ret d a \<Rightarrow> Ret ((fst s)\<lparr>sw_srv := d\<rparr>, snd s) a
           | Fail d e \<Rightarrow> Fail ((fst s)\<lparr>sw_srv := d\<rparr>, snd s) e
           | Crash m \<Rightarrow> Crash m)"

text \<open>The steps of an initialization up to the first error.\<close>

definition sum_bind :: "goerr + 'a \<Rightarrow> ('a \<Rightarrow> goerr + 'b) \<Rightarrow> goerr + 'b" where
  "sum_bind r f = (case r of Inl e \<Rightarrow> Inl e | Inr a \<Rightarrow> f a)"

section \<open>Bases\<close>

definition default_config :: "('d, 'x, 'y, 'p, 'v, 'c, 'i, 'r) keenv \<Rightarrow> 'x vfilepb" where
  "default_config ke = \<lparr>vp_Unfinalized = Some (ke_empty ke), vp_Finalized = None, vp_Raw = [], vp_Format = 2, vp_Path = None\<rparr>"

definition basis_Ref :: "'x basispb \<Rightarrow> basis_ref" where
  "basis_Ref m = \<lparr>rb_ResourceId = bp_ResourceId m, rb_Name = bp_Name m, rb_Path = []\<rparr>"

definition basis_Reload ::
  "('d, 'x, 'y, 'p, 'v, 'c, 'i, 'r) keenv \<Rightarrow> ('d, 'x, 'y, 'p, 'v) sworld \<times> ('x, 'p, 'v) basis_obj \<Rightarrow> ('d, 'x, 'y, 'p, 'v, unit) on_basis" where
  "basis_Reload ke s =
     (if bp_ResourceId (bo_basis (snd s)) = [] then Fail s (Status NotFound (OtherError ''basis does not exist''))
      else bind_o (request (bo_client (snd s)) (FindBasis (ke_srv ke) (Some (bo_basis (snd s)))) s)
             (\<lambda>s m. Ret (fst s, (snd s)\<lparr>bo_basis := m\<rparr>) ()))"

text \<open>The data of the Vagrantfile is stored as what is finalized; there has to be a configuration to keep it.\<close>

definition basis_captured ::
  "('d, 'x, 'y, 'p, 'v, 'c, 'i, 'r) keenv \<Rightarrow> ('x, 'p, 'v) basis_obj \<Rightarrow> 'x basispb option" where
  "basis_captured ke b =
     (case bo_vagrantfile b of
        None \<Rightarrow> Some (bo_basis b)
      | Some v \<Rightarrow>
          (case ke_vf_store ke v of
             Inl _ \<Rightarrow> Some (bo_basis b)
           | Inr x \<Rightarrow> map_option (\<lambda>c. (bo_basis b)\<lparr>bp_Configuration := Some (c\<lparr>vp_Finalized := x\<rparr>)\<rparr>) (bp_Configuration (bo_basis b))))"

definition basis_Save ::
  "('d, 'x, 'y, 'p, 'v, 'c, 'i, 'r) keenv \<Rightarrow> ('d, 'x, 'y, 'p, 'v) sworld \<times> ('x, 'p, 'v) basis_obj \<Rightarrow> ('d, 'x, 'y, 'p, 'v, unit) on_basis" where
  "basis_Save ke s =
     (case basis_captured ke (snd s) of
        None \<Rightarrow> Crash ''nil configuration''
      | Some m \<Rightarrow>
          bind_o (request (bo_client (snd s)) (UpsertBasis (ke_srv ke) (Some m)) (fst s, (snd s)\<lparr>bo_basis := m\<rparr>))
            (\<lambda>s m. Ret (fst s, (snd s)\<lparr>bo_basis := m\<rparr>) ()))"

definition basis_Closer :: "basis_closer \<Rightarrow> ('x, 'p, 'v) basis_obj \<Rightarrow> ('x, 'p, 'v) basis_obj" where
  "basis_Closer c b = b\<lparr>bo_closers := bo_closers b @ [c]\<rparr>"

definition basis_seed :: "seed list \<Rightarrow> ('x, 'p, 'v) basis_obj \<Rightarrow> ('x, 'p, 'v) basis_obj" where
  "basis_seed extra b =
     b\<lparr>bo_seeds := bo_seeds b @ [NamedSeed ''basis'', NamedSeed ''basis_ui'', TypedSeed ''basis'', TypedSeed ''basis_ui'', TypedSeed ''core_plugins''] @ extra\<rparr>"

definition configRegistration ::
  "('d, 'x, 'y, 'p, 'v, 'c, 'i, 'r) keenv \<Rightarrow> 'c \<Rightarrow> 'v \<Rightarrow> goerr + 'v" where
  "configRegistration ke p v =
     (if \<not> ke_is_config ke p then Inr v
      else sum_bind (ke_find ke p) (\<lambda>i.
        case i of
          None \<Rightarrow> Inl (OtherError ''component instance is not valid config'')
        | Some c \<Rightarrow> sum_bind (ke_info ke c) (\<lambda>info. ke_vf_register ke v info p)))"

fun register_configs ::
  "('d, 'x, 'y, 'p, 'v, 'c, 'i, 'r) keenv \<Rightarrow> 'p \<Rightarrow> string list \<Rightarrow> 'v \<Rightarrow> goerr + 'v" where
  "register_configs ke m [] v = Inr v"
| "register_configs ke m (n # ns) v =
     sum_bind (ke_get ke m n) (\<lambda>p. sum_bind (configRegistration ke p v) (register_configs ke m ns))"

text \<open>\<open>Init\<close> after the basis is known to the server. The manager is the sub manager.\<close>

definition with_config :: "('d, 'x, 'y, 'p, 'v, 'c, 'i, 'r) keenv \<Rightarrow> 'x vfilepb option \<Rightarrow> 'x vfilepb" where
  "with_config ke c = (case c of Some v \<Rightarrow> v | None \<Rightarrow> default_config ke)"

definition basis_prepare ::
  "('d, 'x, 'y, 'p, 'v, 'c, 'i, 'r) keenv \<Rightarrow> 'p \<Rightarrow> ('x, 'p, 'v) basis_obj \<Rightarrow> goerr + ('x, 'p, 'v) basis_obj" where
  "basis_prepare ke m b =
     (let config = with_config ke (bp_Configuration (bo_basis b)) in
      sum_bind (case bo_dir b of Some p \<Rightarrow> Inr p | None \<Rightarrow> ke_basis_dir ke (bp_Name (bo_basis b))) (\<lambda>dir.
      sum_bind (if bo_mappers b \<noteq> [] then Inr (bo_mappers b)
                else sum_bind (ke_mappers ke) (\<lambda>ms. sum_bind (ke_local_mappers ke) (\<lambda>ls. Inr (ms @ ls)))) (\<lambda>mappers.
      sum_bind (ke_configs ke m) (\<lambda>names.
      sum_bind (register_configs ke m names (ke_new_vf ke)) (\<lambda>v.
      sum_bind (ke_discover ke m (ke_plugin_dir ke dir)) (\<lambda>m1.
      sum_bind (ke_vf_source ke v config AtBasis) (\<lambda>v.
      sum_bind (ke_vf_init ke v) (\<lambda>v.
      sum_bind (ke_vf_get ke v AtBasis) (\<lambda>sv.
        Inr (basis_seed []
          (b\<lparr>bo_basis := (bo_basis b)\<lparr>bp_Configuration := Some sv\<rparr>, bo_plugins := Some m1, bo_dir := Some dir, bo_mappers := mappers,
             bo_ui := Some (case bo_ui b of Some u \<Rightarrow> u | None \<Rightarrow> ke_console ke), bo_vagrantfile := Some v,
             bo_configured := bo_configured b @ [SetPluginCache, SetPluginSeeds]
               @ (if ke_legacy ke m then [SetPluginManager, SetPluginCoreManager] else []),
             bo_closers := bo_closers b @ [BClosePlugins, BCloseCoreManager, BCloseVagrantfile, BCloseIndex, BSave],
             bo_ready := True\<rparr>)))))))))))"

text \<open>A basis that the server does not know is saved.\<close>

definition basis_Init ::
  "('d, 'x, 'y, 'p, 'v, 'c, 'i, 'r) keenv \<Rightarrow> ('d, 'x, 'y, 'p, 'v) sworld \<times> ('x, 'p, 'v) basis_obj \<Rightarrow> ('d, 'x, 'y, 'p, 'v, unit) on_basis" where
  "basis_Init ke s =
     (if bo_ready (snd s) then Ret s ()
      else if \<not> bo_client (snd s) then Fail s (OtherError ''vagrant server client was not provided to basis'')
      else case bo_plugins (snd s) of
             None \<Rightarrow> Fail s (OtherError ''plugin manager was not provided to basis'')
           | Some m \<Rightarrow>
               bind_o (case basis_Reload ke s of
                         Fail s e \<Rightarrow> if status_code e \<noteq> Some NotFound then Fail s e else basis_Save ke s
                       | r \<Rightarrow> r)
                 (\<lambda>s _. case basis_prepare ke (ke_sub ke ''basis'' m) (snd s) of
                          Inl e \<Rightarrow> Fail s e
                        | Inr b \<Rightarrow> Ret (fst s, b) ()))"

text \<open>The options of a new basis. \<open>FromBasis\<close> copies from the object at a place.\<close>

datatype 'p basis_option =
    WithClient
  | WithLogger
  | WithPluginManager 'p
  | WithMappers "string list"
  | WithUI string
  | WithJobInfo string
  | WithBasisDataDir string
  | WithBasisRef basis_ref
  | WithBasisResourceId string
  | WithFactory
  | FromBasis nat

definition ref_or :: "string \<Rightarrow> string \<Rightarrow> string" where
  "ref_or new old = (if new \<noteq> [] then new else old)"

definition empty_basis :: "'x basispb" where
  "empty_basis =
     \<lparr>bp_ResourceId = [], bp_Name = [], bp_Path = [], bp_Projects = [], bp_Metadata = None, bp_Configuration = None,
      bp_RemoteEnabled = False, bp_DataSource = None\<rparr>"

definition apply_basis_option ::
  "('d, 'x, 'y, 'p, 'v, 'c, 'i, 'r) keenv \<Rightarrow> 'p basis_option \<Rightarrow> ('d, 'x, 'y, 'p, 'v) sworld \<times> ('x, 'p, 'v) basis_obj
     \<Rightarrow> ('d, 'x, 'y, 'p, 'v, unit) on_basis" where
  "apply_basis_option ke opt s =
     (let b = snd s; set = (\<lambda>b. Ret (fst s, b) ()) in
      case opt of
        WithClient \<Rightarrow> set (b\<lparr>bo_client := True\<rparr>)
      | WithLogger \<Rightarrow> set b
      | WithPluginManager m \<Rightarrow> set (b\<lparr>bo_plugins := Some m\<rparr>)
      | WithMappers ms \<Rightarrow> set (b\<lparr>bo_mappers := bo_mappers b @ ms\<rparr>)
      | WithUI u \<Rightarrow> set (b\<lparr>bo_ui := Some u\<rparr>)
      | WithJobInfo j \<Rightarrow> set (b\<lparr>bo_job := j\<rparr>)
      | WithBasisDataDir p \<Rightarrow> set (b\<lparr>bo_dir := Some p\<rparr>)
      | WithBasisRef r \<Rightarrow>
          set (b\<lparr>bo_basis := (bo_basis b)\<lparr>bp_ResourceId := ref_or (rb_ResourceId r) (bp_ResourceId (bo_basis b)),
                                bp_Name := ref_or (rb_Name r) (bp_Name (bo_basis b)),
                                bp_Path := ref_or (rb_Path r) (bp_Path (bo_basis b))\<rparr>\<rparr>)
      | WithBasisResourceId i \<Rightarrow>
          bind_o (request (bo_client b) (FindBasis (ke_srv ke) (Some (empty_basis\<lparr>bp_ResourceId := i\<rparr>))) s)
            (\<lambda>s m. Ret (fst s, (snd s)\<lparr>bo_basis := m\<rparr>) ())
      | WithFactory \<Rightarrow> set (b\<lparr>bo_factory := True\<rparr>)
      | FromBasis i \<Rightarrow>
          (let o' = sw_bases (fst s) ! i
           in set (b\<lparr>bo_plugins := bo_plugins o', bo_client := bo_client o', bo_ui := bo_ui o'\<rparr>)))"

text \<open>All options are applied; their errors are collected.\<close>

fun apply_basis_options ::
  "('d, 'x, 'y, 'p, 'v, 'c, 'i, 'r) keenv \<Rightarrow> 'p basis_option list \<Rightarrow> goerr option \<Rightarrow> ('d, 'x, 'y, 'p, 'v) sworld \<times> ('x, 'p, 'v) basis_obj
     \<Rightarrow> ('d, 'x, 'y, 'p, 'v, unit) on_basis" where
  "apply_basis_options ke [] err s = (case err of None \<Rightarrow> Ret s () | Some e \<Rightarrow> Fail s e)"
| "apply_basis_options ke (o' # os) err s =
     (case apply_basis_option ke o' s of
        Crash m \<Rightarrow> Crash m
      | Ret s _ \<Rightarrow> apply_basis_options ke os err s
      | Fail s e \<Rightarrow> apply_basis_options ke os (Some (ke_append ke err e)) s)"

definition NewBasis ::
  "('d, 'x, 'y, 'p, 'v, 'c, 'i, 'r) keenv \<Rightarrow> 'p basis_option list \<Rightarrow> ('d, 'x, 'y, 'p, 'v) sworld \<Rightarrow> ('d, 'x, 'y, 'p, 'v, unit) on_basis" where
  "NewBasis ke opts w =
     apply_basis_options ke opts None
       (w, \<lparr>bo_basis = empty_basis\<lparr>bp_Configuration := Some (default_config ke)\<rparr>, bo_client = False, bo_factory = False,
            bo_plugins = None, bo_dir = None, bo_mappers = [], bo_ui = None, bo_job = [], bo_vagrantfile = None,
            bo_configured = [], bo_seeds = [], bo_closers = [], bo_ready = False\<rparr>)"

section \<open>Bases of the factory\<close>

type_synonym ('d, 'x, 'y, 'p, 'v, 'a) sworld_result = "(('d, 'x, 'y, 'p, 'v) sworld, goerr, 'a) outcome"

definition as_basis :: "cached \<Rightarrow> ('d, 'x, 'y, 'p, 'v) sworld \<Rightarrow> ('d, 'x, 'y, 'p, 'v, nat) sworld_result" where
  "as_basis c w = (case c of CachedBasis i \<Rightarrow> Ret w i | CachedProject _ \<Rightarrow> Crash ''interface conversion'')"

definition add_basis :: "('x, 'p, 'v) basis_obj \<Rightarrow> ('d, 'x, 'y, 'p, 'v) sworld \<Rightarrow> ('d, 'x, 'y, 'p, 'v) sworld" where
  "add_basis b w =
     w\<lparr>sw_bases := sw_bases w @ [basis_Closer BUncache b],
       sw_cache := (sw_cache w)(bp_ResourceId (bo_basis b) \<mapsto> CachedBasis (length (sw_bases w))),
       sw_closers := sw_closers w @ [length (sw_bases w)]\<rparr>"

text \<open>A new object that turns out to be cached has nothing to close.\<close>

definition factory_NewBasis ::
  "('d, 'x, 'y, 'p, 'v, 'c, 'i, 'r) keenv \<Rightarrow> string \<Rightarrow> 'p basis_option list \<Rightarrow> ('d, 'x, 'y, 'p, 'v) sworld
     \<Rightarrow> ('d, 'x, 'y, 'p, 'v, nat) sworld_result" where
  "factory_NewBasis ke rid opts w =
     (case (if rid \<noteq> [] then sw_cache w rid else None) of
        Some c \<Rightarrow> as_basis c w
      | None \<Rightarrow>
          (case NewBasis ke (opts @ [WithFactory]) w of
             Crash m \<Rightarrow> Crash m
           | Fail s e \<Rightarrow> Fail (fst s) e
           | Ret (w, b) _ \<Rightarrow>
               (let b = b\<lparr>bo_client := True, bo_ui := Some (case bo_ui b of Some u \<Rightarrow> u | None \<Rightarrow> ke_ui ke),
                          bo_plugins := Some (case bo_plugins b of Some m \<Rightarrow> m | None \<Rightarrow> ke_plugins ke)\<rparr>
                in case sw_cache w (bp_ResourceId (bo_basis b)) of
                     Some c \<Rightarrow> as_basis c w
                   | None \<Rightarrow>
                       (case basis_Init ke (w, b) of
                          Crash m \<Rightarrow> Crash m
                        | Fail s e \<Rightarrow> Fail (fst s) e
                        | Ret (w, b) _ \<Rightarrow> Ret (add_basis b w) (length (sw_bases w))))))"

section \<open>Projects\<close>

definition empty_project :: "('x, 'y) projectpb" where
  "empty_project =
     \<lparr>pp_ResourceId = [], pp_Name = [], pp_Path = [], pp_Targets = [], pp_Basis = None, pp_Metadata = None,
      pp_Configuration = None, pp_RemoteEnabled = False, pp_DataSource = None\<rparr>"

definition project_Ref :: "('x, 'y) projectpb \<Rightarrow> basis_ref project_ref" where
  "project_Ref m = \<lparr>pf_ResourceId = pp_ResourceId m, pf_Name = pp_Name m, pf_Path = [], pf_Basis = pp_Basis m\<rparr>"

definition project_Reload ::
  "('d, 'x, 'y, 'p, 'v, 'c, 'i, 'r) keenv \<Rightarrow> ('d, 'x, 'y, 'p, 'v) sworld \<times> ('x, 'y, 'p, 'v) project_obj \<Rightarrow> ('d, 'x, 'y, 'p, 'v, unit) on_project" where
  "project_Reload ke s =
     (if pp_ResourceId (po_project (snd s)) = [] then Fail s (Status NotFound (OtherError ''project does not exist''))
      else bind_o (request (po_client (snd s)) (FindProject (ke_srv ke) (Some (po_project (snd s)))) s)
             (\<lambda>s m. Ret (fst s, (snd s)\<lparr>po_project := m\<rparr>) ()))"

text \<open>The defined machines are removed from the Vagrantfile before its data is stored as what is finalized.\<close>

definition project_captured ::
  "('d, 'x, 'y, 'p, 'v, 'c, 'i, 'r) keenv \<Rightarrow> ('x, 'y, 'p, 'v) project_obj \<Rightarrow> ('x, 'y, 'p, 'v) project_obj" where
  "project_captured ke p =
     (case po_vagrantfile p of
        None \<Rightarrow> p
      | Some v \<Rightarrow>
          (let v = ke_vf_forget ke v;
               c = (case pp_Configuration (po_project p) of
                      Some c \<Rightarrow> c
                    | None \<Rightarrow> \<lparr>vp_Unfinalized = None, vp_Finalized = None, vp_Raw = [], vp_Format = 0, vp_Path = None\<rparr>)
           in p\<lparr>po_vagrantfile := Some v,
                po_project := (case ke_vf_store ke v of
                                 Inl _ \<Rightarrow> po_project p
                               | Inr x \<Rightarrow> (po_project p)\<lparr>pp_Configuration := Some (c\<lparr>vp_Finalized := x\<rparr>)\<rparr>)\<rparr>))"

definition project_Save ::
  "('d, 'x, 'y, 'p, 'v, 'c, 'i, 'r) keenv \<Rightarrow> ('d, 'x, 'y, 'p, 'v) sworld \<times> ('x, 'y, 'p, 'v) project_obj \<Rightarrow> ('d, 'x, 'y, 'p, 'v, unit) on_project" where
  "project_Save ke s =
     (let p = project_captured ke (snd s)
      in bind_o (request (po_client p) (UpsertProject (ke_srv ke) (Some (po_project p))) (fst s, p))
           (\<lambda>s m. Ret (fst s, (snd s)\<lparr>po_project := m\<rparr>) ()))"

definition project_Closer :: "project_closer \<Rightarrow> ('x, 'y, 'p, 'v) project_obj \<Rightarrow> ('x, 'y, 'p, 'v) project_obj" where
  "project_Closer c p = p\<lparr>po_closers := po_closers p @ [c]\<rparr>"

text \<open>The values of a project are added to those of its basis.\<close>

definition project_seed :: "seed list \<Rightarrow> ('x, 'p, 'v) basis_obj \<Rightarrow> ('x, 'p, 'v) basis_obj" where
  "project_seed extra = basis_seed ([NamedSeed ''project'', NamedSeed ''project_ui'', TypedSeed ''project''] @ extra)"

definition change_basis ::
  "nat \<Rightarrow> (('x, 'p, 'v) basis_obj \<Rightarrow> ('x, 'p, 'v) basis_obj) \<Rightarrow> ('d, 'x, 'y, 'p, 'v) sworld \<Rightarrow> ('d, 'x, 'y, 'p, 'v) sworld" where
  "change_basis i f w = w\<lparr>sw_bases := (sw_bases w)[i := f (sw_bases w ! i)]\<rparr>"

text \<open>The part of \<open>Init\<close> between the loading of the basis and that of the targets: the object with its manager, directory,
  user interface and Vagrantfile. A basis that was not initialized has no manager, no directory and no Vagrantfile.\<close>

definition project_prepare ::
  "('d, 'x, 'y, 'p, 'v, 'c, 'i, 'r) keenv \<Rightarrow> ('x, 'p, 'v) basis_obj \<Rightarrow> ('x, 'y, 'p, 'v) project_obj
     \<Rightarrow> (unit, goerr, ('x, 'y, 'p, 'v) project_obj) outcome" where
  "project_prepare ke b p =
     (case bo_plugins b of
        None \<Rightarrow> Crash ''nil plugin manager''
      | Some m \<Rightarrow>
          (let p = project_Closer PClosePlugins (p\<lparr>po_project := (po_project p)\<lparr>pp_Basis := Some (basis_Ref (bo_basis b))\<rparr>\<rparr>);
               own = (case (po_dir p, bo_dir b) of
                        (Some x, _) \<Rightarrow> Some (Inr x)
                      | (None, Some x) \<Rightarrow> Some (ke_project_dir ke x (pp_Name (po_project p)))
                      | (None, None) \<Rightarrow> None)
           in case own of
                None \<Rightarrow> Crash ''nil directory''
              | Some own \<Rightarrow>
                  (case sum_bind own (\<lambda>x. sum_bind (ke_discover ke (ke_sub ke ''project'' m) (ke_local_dir ke (pp_Path (po_project p)))) (\<lambda>m. Inr (x, m))) of
                     Inl e \<Rightarrow> Fail () e
                   | Inr (x, m) \<Rightarrow>
                       (case bo_vagrantfile b of
                          None \<Rightarrow> Crash ''nil vagrantfile''
                        | Some bv \<Rightarrow>
                            (case sum_bind (ke_vf_source ke (ke_vf_clone ke bv) (with_config ke (pp_Configuration (po_project p))) AtProject) (\<lambda>v.
                                  sum_bind (ke_vf_init ke v) (\<lambda>v. sum_bind (ke_vf_get ke v AtProject) (\<lambda>sv. Inr (v, sv)))) of
                               Inl e \<Rightarrow> Fail () e
                             | Inr (v, sv) \<Rightarrow>
                                 Ret () (p\<lparr>po_project := (po_project p)\<lparr>pp_Configuration := Some sv\<rparr>, po_plugins := Some m,
                                           po_dir := Some x, po_ui := (case po_ui p of Some u \<Rightarrow> Some u | None \<Rightarrow> bo_ui b),
                                           po_vagrantfile := Some (ke_vf_target ke v (project_Ref (po_project p)))\<rparr>))))))"

text \<open>The basis of a project: the one it was made with, or the one that its reference names.\<close>

definition project_basis ::
  "('d, 'x, 'y, 'p, 'v, 'c, 'i, 'r) keenv \<Rightarrow> ('d, 'x, 'y, 'p, 'v) sworld \<times> ('x, 'y, 'p, 'v) project_obj \<Rightarrow> ('d, 'x, 'y, 'p, 'v, nat) on_project" where
  "project_basis ke s =
     (case po_basis (snd s) of
        Some i \<Rightarrow> Ret s i
      | None \<Rightarrow>
          if \<not> po_factory (snd s) then Crash ''nil factory''
          else (case pp_Basis (po_project (snd s)) of
                  None \<Rightarrow> Crash ''nil basis''
                | Some r \<Rightarrow>
                    (case factory_NewBasis ke (rb_ResourceId r) [WithBasisRef r] (fst s) of
                       Crash m \<Rightarrow> Crash m
                     | Fail w e \<Rightarrow> Fail (w, snd s) (Wrapped ''failed to load project basis'' e)
                     | Ret w i \<Rightarrow> Ret (w, (snd s)\<lparr>po_basis := Some i\<rparr>) i)))"

text \<open>The project is put again at the end, and the answer is dropped.\<close>

definition project_finish ::
  "('d, 'x, 'y, 'p, 'v, 'c, 'i, 'r) keenv \<Rightarrow> nat \<Rightarrow> ('d, 'x, 'y, 'p, 'v) sworld \<times> ('x, 'y, 'p, 'v) project_obj \<Rightarrow> ('d, 'x, 'y, 'p, 'v, unit) on_project" where
  "project_finish ke i s =
     (case project_prepare ke (sw_bases (fst s) ! i) (snd s) of
        Crash m \<Rightarrow> Crash m
      | Fail _ e \<Rightarrow> Fail s e
      | Ret _ p \<Rightarrow>
          bind_o (request (po_client p) (ke_targets ke (po_project p)) (change_basis i (project_seed []) (fst s), p)) (\<lambda>s m.
            let p = project_Closer PSave ((snd s)\<lparr>po_project := m, po_scrub := True\<rparr>)
            in bind_o (request (po_client p) (UpsertProject (ke_srv ke) (Some m)) (fst s, p))
                 (\<lambda>s _. Ret (fst s, (snd s)\<lparr>po_ready := True\<rparr>) ())))"

definition project_Init ::
  "('d, 'x, 'y, 'p, 'v, 'c, 'i, 'r) keenv \<Rightarrow> ('d, 'x, 'y, 'p, 'v) sworld \<times> ('x, 'y, 'p, 'v) project_obj \<Rightarrow> ('d, 'x, 'y, 'p, 'v, unit) on_project" where
  "project_Init ke s =
     (if po_ready (snd s) then Ret s ()
      else let client = (po_client (snd s) \<or> (case po_basis (snd s) of None \<Rightarrow> False | Some i \<Rightarrow> bo_client (sw_bases (fst s) ! i)));
               s = (fst s, (snd s)\<lparr>po_client := client\<rparr>)
           in bind_o (case project_Reload ke s of
                        Fail s e \<Rightarrow> if status_code e \<noteq> Some NotFound then Fail s e else project_Save ke s
                      | r \<Rightarrow> r)
                (\<lambda>s _. bind_o (project_basis ke (fst s, (snd s)\<lparr>po_project := (po_project (snd s))\<lparr>pp_Configuration :=
                                  Some (with_config ke (pp_Configuration (po_project (snd s))))\<rparr>\<rparr>))
                         (\<lambda>s i. project_finish ke i s)))"

datatype project_option =
    WithBasis nat
  | WithProjectDataDir "string option"
  | WithProjectName string
  | WithProjectRef "basis_ref project_ref option"

definition apply_project_option ::
  "('x, 'p, 'v) basis_obj list \<Rightarrow> project_option \<Rightarrow> ('x, 'y, 'p, 'v) project_obj \<Rightarrow> goerr + ('x, 'y, 'p, 'v) project_obj" where
  "apply_project_option bases opt p =
     (let m = po_project p in
      case opt of
        WithBasis i \<Rightarrow> Inr (p\<lparr>po_basis := Some i, po_project := m\<lparr>pp_Basis := Some (basis_Ref (bo_basis (bases ! i)))\<rparr>\<rparr>)
      | WithProjectDataDir None \<Rightarrow> Inl (OtherError ''directory value cannot be nil'')
      | WithProjectDataDir (Some d) \<Rightarrow> Inr (p\<lparr>po_dir := Some d\<rparr>)
      | WithProjectName n \<Rightarrow>
          if n = [] then Inl (OtherError ''name cannot be empty'') else Inr (p\<lparr>po_project := m\<lparr>pp_Name := n\<rparr>\<rparr>)
      | WithProjectRef None \<Rightarrow> Inl (OtherError ''project reference cannot be nil'')
      | WithProjectRef (Some r) \<Rightarrow>
          Inr (p\<lparr>po_project := m\<lparr>pp_Name := ref_or (pf_Name r) (pp_Name m), pp_Path := ref_or (pf_Path r) (pp_Path m),
                                pp_ResourceId := ref_or (pf_ResourceId r) (pp_ResourceId m),
                                pp_Basis := (if pf_Basis r \<noteq> None then pf_Basis r else pp_Basis m)\<rparr>\<rparr>))"

fun apply_project_options ::
  "('d, 'x, 'y, 'p, 'v, 'c, 'i, 'r) keenv \<Rightarrow> ('x, 'p, 'v) basis_obj list \<Rightarrow> project_option list \<Rightarrow> goerr option
     \<Rightarrow> ('x, 'y, 'p, 'v) project_obj \<Rightarrow> goerr + ('x, 'y, 'p, 'v) project_obj" where
  "apply_project_options ke bs [] err p = (case err of None \<Rightarrow> Inr p | Some e \<Rightarrow> Inl e)"
| "apply_project_options ke bs (o' # os) err p =
     (case apply_project_option bs o' p of
        Inr p \<Rightarrow> apply_project_options ke bs os err p
      | Inl e \<Rightarrow> apply_project_options ke bs os (Some (ke_append ke err e)) p)"

definition NewProject ::
  "('d, 'x, 'y, 'p, 'v, 'c, 'i, 'r) keenv \<Rightarrow> ('x, 'p, 'v) basis_obj list \<Rightarrow> project_option list \<Rightarrow> goerr + ('x, 'y, 'p, 'v) project_obj" where
  "NewProject ke bs opts =
     apply_project_options ke bs opts None
       \<lparr>po_project = empty_project\<lparr>pp_Configuration := Some (default_config ke)\<rparr>, po_client = False, po_factory = False,
        po_basis = None, po_plugins = None, po_dir = None, po_ui = None, po_vagrantfile = None, po_closers = [],
        po_scrub = False, po_ready = False\<rparr>"

section \<open>Projects of the factory\<close>

definition as_project :: "cached \<Rightarrow> ('d, 'x, 'y, 'p, 'v) sworld \<Rightarrow> ('d, 'x, 'y, 'p, 'v, nat) sworld_result" where
  "as_project c w = (case c of CachedProject i \<Rightarrow> Ret w i | CachedBasis _ \<Rightarrow> Crash ''interface conversion'')"

definition add_project :: "('x, 'y, 'p, 'v) project_obj \<Rightarrow> ('d, 'x, 'y, 'p, 'v) sworld \<Rightarrow> ('d, 'x, 'y, 'p, 'v) sworld" where
  "add_project p w =
     (case po_basis p of None \<Rightarrow> w | Some i \<Rightarrow> change_basis i (basis_Closer (BCloseProject (length (sw_projects w)))) w)
       \<lparr>sw_projects := sw_projects w @ [project_Closer PUncache p],
        sw_cache := (sw_cache w)(pp_ResourceId (po_project p) \<mapsto> CachedProject (length (sw_projects w)))\<rparr>"

text \<open>A project without a resource id is loaded again first, and an error of that is ignored.\<close>

definition factory_NewProject ::
  "('d, 'x, 'y, 'p, 'v, 'c, 'i, 'r) keenv \<Rightarrow> project_option list \<Rightarrow> ('d, 'x, 'y, 'p, 'v) sworld \<Rightarrow> ('d, 'x, 'y, 'p, 'v, nat) sworld_result" where
  "factory_NewProject ke opts w =
     (case NewProject ke (sw_bases w) opts of
        Inl e \<Rightarrow> Fail w e
      | Inr p \<Rightarrow>
          (let p = p\<lparr>po_client := True, po_factory := True\<rparr>
           in case (if pp_ResourceId (po_project p) = [] then project_Reload ke (w, p) else Ret (w, p) ()) of
                Crash m \<Rightarrow> Crash m
              | r \<Rightarrow>
                  (let (w, p) = left_by r (w, p)
                   in case (if pp_ResourceId (po_project p) \<noteq> [] then sw_cache w (pp_ResourceId (po_project p)) else None) of
                        Some c \<Rightarrow> as_project c w
                      | None \<Rightarrow>
                          (case project_Init ke (w, p) of
                             Crash m \<Rightarrow> Crash m
                           | Fail s e \<Rightarrow> Fail (fst s) e
                           | Ret (w, p) _ \<Rightarrow> Ret (add_project p w) (length (sw_projects w))))))"

end
