(* ===== verification/ScopeCoreClaims.thy ===== *)
theory ScopeCoreClaims
  imports ScopeClaims ScopeCore
begin

text \<open>
  The properties of bases and projects in the core: the factory shares the objects that it made, a cached object is ready
  and has the id under which it is found, and what the requests of the server make of a project that is opened again.
\<close>

section \<open>The cache\<close>

definition entry_ok :: "('d, 'x, 'y, 'p, 'v) sworld \<Rightarrow> string \<Rightarrow> cached \<Rightarrow> bool" where
  "entry_ok w r c =
     (case c of
        CachedBasis i \<Rightarrow> i < length (sw_bases w) \<and> bp_ResourceId (bo_basis (sw_bases w ! i)) = r \<and> bo_ready (sw_bases w ! i)
      | CachedProject i \<Rightarrow> i < length (sw_projects w) \<and> pp_ResourceId (po_project (sw_projects w ! i)) = r \<and> po_ready (sw_projects w ! i))"

definition scope_cache_ok :: "('d, 'x, 'y, 'p, 'v) sworld \<Rightarrow> bool" where
  "scope_cache_ok w \<longleftrightarrow> (\<forall>r c. sw_cache w r = Some c \<longrightarrow> entry_ok w r c)"

text \<open>A call of an object leaves all that is not the server.\<close>

definition same_objects :: "('d, 'x, 'y, 'p, 'v) sworld \<Rightarrow> ('d, 'x, 'y, 'p, 'v) sworld \<Rightarrow> bool" where
  "same_objects w w1 \<longleftrightarrow> sw_bases w1 = sw_bases w \<and> sw_projects w1 = sw_projects w \<and> sw_cache w1 = sw_cache w"

lemma same_objects_refl [simp]: "same_objects w w" "same_objects w (w1\<lparr>sw_srv := d\<rparr>) \<longleftrightarrow> same_objects w w1"
  by (simp_all add: same_objects_def)

definition keeps_objects :: "('d, 'x, 'y, 'p, 'v) sworld \<Rightarrow> (('d, 'x, 'y, 'p, 'v) sworld \<times> 'o, goerr, 'a) outcome \<Rightarrow> bool" where
  "keeps_objects w r \<longleftrightarrow> keeps (\<lambda>s. same_objects w (fst s)) r"

lemma keeps_objects_simps [simp]:
  "keeps_objects w (Ret s a) \<longleftrightarrow> same_objects w (fst s)" "keeps_objects w (Fail s e) \<longleftrightarrow> same_objects w (fst s)"
  "keeps_objects w (Crash m)"
  by (simp_all add: keeps_objects_def)

lemma keeps_objects_bind:
  "keeps_objects w r \<Longrightarrow> (\<And>s a. same_objects w (fst s) \<Longrightarrow> keeps_objects w (f s a)) \<Longrightarrow> keeps_objects w (bind_o r f)"
  by (cases r) auto

lemma request_objects: "same_objects w (fst s) \<Longrightarrow> keeps_objects w (request cl f s)"
  by (simp add: request_def split: outcome.split)

lemma basis_Reload_objects: "same_objects w (fst s) \<Longrightarrow> keeps_objects w (basis_Reload ke s)"
  by (simp add: basis_Reload_def keeps_objects_bind request_objects)

lemma basis_Save_objects: "same_objects w (fst s) \<Longrightarrow> keeps_objects w (basis_Save ke s)"
  by (simp add: basis_Save_def keeps_objects_bind request_objects split: option.split)

text \<open>Both kinds of objects are loaded, or saved when the server does not know them.\<close>

lemma keeps_objects_or_save:
  assumes "keeps_objects w r" and "\<And>s. same_objects w (fst s) \<Longrightarrow> keeps_objects w (f s)"
  shows "keeps_objects w (case r of Fail s e \<Rightarrow> if status_code e \<noteq> Some NotFound then Fail s e else f s | Ret s a \<Rightarrow> Ret s a | Crash m \<Rightarrow> Crash m)"
  using assms by (cases r) auto

lemma basis_Init_objects: "same_objects w (fst s) \<Longrightarrow> keeps_objects w (basis_Init ke s)"
  unfolding basis_Init_def
  by (auto intro!: keeps_objects_bind keeps_objects_or_save basis_Reload_objects basis_Save_objects split: option.split sum.split)

lemma sum_bind_Inr_iff [simp]: "sum_bind r f = Inr x \<longleftrightarrow> (\<exists>a. r = Inr a \<and> f a = Inr x)"
  by (cases r) (simp_all add: sum_bind_def)

lemma basis_prepare_ready: "basis_prepare ke m b = Inr b1 \<Longrightarrow> bo_ready b1"
  by (auto simp: basis_prepare_def Let_def basis_seed_def)

lemma sum_result_Ret [simp]: "(case r of Inl e \<Rightarrow> Fail s e | Inr b \<Rightarrow> Ret (w, b) ()) = Ret s1 u \<longleftrightarrow> (\<exists>b. r = Inr b \<and> s1 = (w, b))"
  by (auto split: sum.split)

lemma basis_Init_ready: "basis_Init ke s = Ret s1 u \<Longrightarrow> bo_ready (snd s1)"
  by (auto simp: basis_Init_def bind_o_Ret_iff dest: basis_prepare_ready split: if_splits option.splits)

lemma apply_basis_option_objects: "same_objects w (fst s) \<Longrightarrow> keeps_objects w (apply_basis_option ke opt s)"
  by (cases opt) (auto simp: apply_basis_option_def Let_def intro!: keeps_objects_bind request_objects)

lemma apply_basis_options_objects: "same_objects w (fst s) \<Longrightarrow> keeps_objects w (apply_basis_options ke opts err s)"
proof (induction opts arbitrary: err s)
  case (Cons opt opts)
  then show ?case using apply_basis_option_objects[OF Cons.prems, of ke opt] by (auto split: outcome.splits)
qed (simp split: option.split)

lemma NewBasis_objects: "keeps_objects w (NewBasis ke opts w)"
  unfolding NewBasis_def by (rule apply_basis_options_objects) simp

lemma cache_same: "same_objects w w1 \<Longrightarrow> scope_cache_ok w1 = scope_cache_ok w"
  by (simp add: same_objects_def scope_cache_ok_def entry_ok_def split: cached.split)

lemma entry_add_basis:
  assumes "entry_ok w r c"
  shows "entry_ok (add_basis b w) r c"
  using assms by (auto simp: entry_ok_def add_basis_def nth_append split: cached.splits)

lemma add_basis_ok:
  assumes "scope_cache_ok w" and "bo_ready b"
  shows "scope_cache_ok (add_basis b w)"
proof -
  have "entry_ok (add_basis b w) (bp_ResourceId (bo_basis b)) (CachedBasis (length (sw_bases w)))"
    using assms(2) by (simp add: entry_ok_def add_basis_def basis_Closer_def)
  then show ?thesis
    using assms(1) entry_add_basis[of w _ _ b] unfolding scope_cache_ok_def
    by (auto simp: add_basis_def split: if_splits)
qed

text \<open>The two ways to a basis: it was cached, or it is a new one.\<close>

lemma factory_NewBasis_Ret:
  assumes "factory_NewBasis ke rid opts w = Ret w1 i"
  obtains (cached) r where "sw_cache w r = Some (CachedBasis i)" and "same_objects w w1"
  | (new) w2 b where "same_objects w w2" and "bo_ready b" and "w1 = add_basis b w2" and "i = length (sw_bases w2)"
proof -
  have as: "as_basis c x = Ret w1 i \<Longrightarrow> c = CachedBasis i \<and> w1 = x" for c and x :: "('a, 'b, 'c, 'd, 'e) sworld"
    by (cases c) (auto simp: as_basis_def)
  show thesis
  proof (cases "if rid \<noteq> [] then sw_cache w rid else None")
    case (Some c)
    then have "sw_cache w rid = Some (CachedBasis i)" "w1 = w"
      using assms as[of c w] by (auto simp: factory_NewBasis_def split: if_splits)
    then show thesis using cached by simp
  next
    case None
    then obtain wn b u where new_b: "NewBasis ke (opts @ [WithFactory]) w = Ret (wn, b) u"
      using assms by (auto simp: factory_NewBasis_def split: outcome.splits)
    have wn: "same_objects w wn" using NewBasis_objects[of w ke "opts @ [WithFactory]"] new_b by simp
    define b' where "b' = b\<lparr>bo_client := True, bo_ui := Some (case bo_ui b of Some u \<Rightarrow> u | None \<Rightarrow> ke_ui ke),
                          bo_plugins := Some (case bo_plugins b of Some m \<Rightarrow> m | None \<Rightarrow> ke_plugins ke)\<rparr>"
    have rest: "(case sw_cache wn (bp_ResourceId (bo_basis b')) of
                   Some c \<Rightarrow> as_basis c wn
                 | None \<Rightarrow> (case basis_Init ke (wn, b') of Crash m \<Rightarrow> Crash m | Fail s e \<Rightarrow> Fail (fst s) e
                            | Ret (w, b) _ \<Rightarrow> Ret (add_basis b w) (length (sw_bases w)))) = Ret w1 i"
      unfolding b'_def using assms unfolding factory_NewBasis_def None by (simp add: new_b Let_def)
    show thesis
    proof (cases "sw_cache wn (bp_ResourceId (bo_basis b'))")
      case (Some c)
      then have "c = CachedBasis i \<and> w1 = wn" using rest as by simp
      then show thesis using cached[of "bp_ResourceId (bo_basis b')"] Some wn by (simp add: same_objects_def)
    next
      case None
      then obtain wi bi ui where init: "basis_Init ke (wn, b') = Ret (wi, bi) ui" "w1 = add_basis bi wi" "i = length (sw_bases wi)"
        using rest by (auto split: outcome.splits)
      have "same_objects w wi" using basis_Init_objects[of w "(wn, b')" ke] wn init(1) by simp
      then show thesis using new[of wi bi] init basis_Init_ready[OF init(1)] by simp
    qed
  qed
qed

section \<open>Projects\<close>

text \<open>The initialization of a project may add a basis and values to one, and caches it.\<close>

definition grown :: "('d, 'x, 'y, 'p, 'v) sworld \<Rightarrow> ('d, 'x, 'y, 'p, 'v) sworld \<Rightarrow> bool" where
  "grown w w1 \<longleftrightarrow> (scope_cache_ok w \<longrightarrow> scope_cache_ok w1) \<and> sw_projects w1 = sw_projects w"

interpretation growth: step_relation "\<lambda>w w1 :: ('d, 'x, 'y, 'p, 'v) sworld. grown w w1"
  by unfold_locales (auto simp: grown_def)

definition grows :: "('d, 'x, 'y, 'p, 'v) sworld \<Rightarrow> (('d, 'x, 'y, 'p, 'v) sworld \<times> 'o, goerr, 'a) outcome \<Rightarrow> bool" where
  "grows w r \<longleftrightarrow> keeps (\<lambda>s. grown w (fst s)) r"

lemma grows_simps [simp]:
  "grows w (Ret s a) \<longleftrightarrow> grown w (fst s)" "grows w (Fail s e) \<longleftrightarrow> grown w (fst s)" "grows w (Crash m)"
  by (simp_all add: grows_def)

lemma grows_bind: "grows w r \<Longrightarrow> (\<And>s a. r = Ret s a \<Longrightarrow> grown w (fst s) \<Longrightarrow> grows w (f s a)) \<Longrightarrow> grows w (bind_o r f)"
  by (cases r) auto

lemma grown_same: "grown w w1 \<Longrightarrow> same_objects w1 w2 \<Longrightarrow> grown w w2"
  using cache_same[of w1 w2] unfolding grown_def by (simp add: same_objects_def)

lemma request_grows: "grown w (fst s) \<Longrightarrow> grows w (request cl f s)"
  using request_objects[of "fst s" s cl f] by (cases "request cl f s") (auto dest: grown_same)

lemma project_Reload_grows: "grown w (fst s) \<Longrightarrow> grows w (project_Reload ke s)"
  by (auto simp: project_Reload_def intro!: grows_bind request_grows)

lemma project_Save_grows: "grown w (fst s) \<Longrightarrow> grows w (project_Save ke s)"
  by (auto simp: project_Save_def Let_def intro!: grows_bind request_grows)

lemma change_basis_projects [simp]: "sw_projects (change_basis i f w) = sw_projects w" "sw_cache (change_basis i f w) = sw_cache w"
  by (simp_all add: change_basis_def)

lemma change_basis_ok:
  assumes "scope_cache_ok w" and "\<And>b. bo_basis (f b) = bo_basis b \<and> bo_ready (f b) = bo_ready b"
  shows "scope_cache_ok (change_basis i f w)"
proof -
  have "entry_ok (change_basis i f w) r c" if "entry_ok w r c" for r c
    using that assms(2) by (cases "i < length (sw_bases w)") (auto simp: entry_ok_def change_basis_def nth_list_update split: cached.splits)
  then show ?thesis using assms(1) by (simp add: scope_cache_ok_def change_basis_def)
qed

lemma factory_NewBasis_grows:
  assumes "factory_NewBasis ke rid opts w = Ret w1 i"
  shows "grown w w1"
  using assms
proof (cases rule: factory_NewBasis_Ret)
  case (cached r)
  then show ?thesis using cache_same[of w w1] by (simp add: grown_def same_objects_def)
next
  case (new w2 b)
  then have "scope_cache_ok w \<longrightarrow> scope_cache_ok w1" using cache_same[of w w2] add_basis_ok[of w2 b] by simp
  then show ?thesis using new by (simp add: grown_def add_basis_def same_objects_def)
qed

lemma basis_Init_Fail_objects: "basis_Init ke (a, b) = Fail (w1, b1) e \<Longrightarrow> same_objects w a \<Longrightarrow> same_objects w w1"
  using basis_Init_objects[of w "(a, b)" ke] by simp

lemma factory_NewBasis_Fail:
  assumes "factory_NewBasis ke rid opts w = Fail w1 e"
  shows "same_objects w w1"
proof -
  have as: "as_basis c x \<noteq> Fail w1 e" for c and x :: "('a, 'b, 'c, 'd, 'e) sworld"
    by (cases c) (simp_all add: as_basis_def)
  have none: "(if rid \<noteq> [] then sw_cache w rid else None) = None"
    using assms as by (auto simp: factory_NewBasis_def split: if_splits option.splits)
  note new = NewBasis_objects[of w ke "opts @ [WithFactory]"]
  show ?thesis
  proof (cases "NewBasis ke (opts @ [WithFactory]) w")
    case (Fail s e')
    then show ?thesis using assms new unfolding factory_NewBasis_def none by simp
  next
    case (Ret s u)
    then obtain wn b where s: "s = (wn, b)" and wn: "same_objects w wn" using new by (cases s) auto
    define b' where "b' = b\<lparr>bo_client := True, bo_ui := Some (case bo_ui b of Some u \<Rightarrow> u | None \<Rightarrow> ke_ui ke),
                          bo_plugins := Some (case bo_plugins b of Some m \<Rightarrow> m | None \<Rightarrow> ke_plugins ke)\<rparr>"
    have rest: "(case sw_cache wn (bp_ResourceId (bo_basis b')) of
                   Some c \<Rightarrow> as_basis c wn
                 | None \<Rightarrow> (case basis_Init ke (wn, b') of Crash m \<Rightarrow> Crash m | Fail s e \<Rightarrow> Fail (fst s) e
                            | Ret (w, b) _ \<Rightarrow> Ret (add_basis b w) (length (sw_bases w)))) = Fail w1 e"
      unfolding b'_def using assms unfolding factory_NewBasis_def none by (simp add: Ret s Let_def)
    then obtain bi where "basis_Init ke (wn, b') = Fail (w1, bi) e"
      using as by (auto split: option.splits outcome.splits)
    then show ?thesis by (rule basis_Init_Fail_objects[OF _ wn])
  qed (use assms in \<open>simp add: factory_NewBasis_def none\<close>)
qed

lemma project_basis_grows: "grown w (fst s) \<Longrightarrow> grows w (project_basis ke s)"
proof -
  assume g: "grown w (fst s)"
  have "grown w w1" if "factory_NewBasis ke rid opts (fst s) = Ret w1 i" for rid opts w1 i
    using growth.R_trans[OF g factory_NewBasis_grows[OF that]] .
  moreover have "grown w w1" if "factory_NewBasis ke rid opts (fst s) = Fail w1 e" for rid opts w1 e
    using grown_same[OF g factory_NewBasis_Fail[OF that]] .
  ultimately show ?thesis using g by (auto simp: project_basis_def split: option.split outcome.split)
qed

lemma project_finish_grows: "grown w (fst s) \<Longrightarrow> grows w (project_finish ke i s)"
proof -
  assume g: "grown w (fst s)"
  have "grown w (change_basis i (project_seed []) (fst s))"
    using g change_basis_ok[of "fst s" "project_seed []" i]
    by (simp add: grown_def project_seed_def basis_seed_def)
  then show ?thesis
    using g by (auto simp: project_finish_def Let_def intro!: grows_bind request_grows split: outcome.split)
qed

lemma grows_or_save:
  assumes "grows w r" and "\<And>s. grown w (fst s) \<Longrightarrow> grows w (f s)"
  shows "grows w (case r of Fail s e \<Rightarrow> if status_code e \<noteq> Some NotFound then Fail s e else f s | Ret s a \<Rightarrow> Ret s a | Crash m \<Rightarrow> Crash m)"
  using assms by (cases r) auto

lemma project_Init_grows: "grown w (fst s) \<Longrightarrow> grows w (project_Init ke s)"
  unfolding project_Init_def Let_def
  by (auto intro!: grows_bind grows_or_save project_Reload_grows project_Save_grows project_basis_grows project_finish_grows)

lemma project_finish_ready: "project_finish ke i s = Ret s1 u \<Longrightarrow> po_ready (snd s1)"
  by (auto simp: project_finish_def Let_def bind_o_Ret_iff split: outcome.splits)

lemma project_Init_ready: "project_Init ke s = Ret s1 u \<Longrightarrow> po_ready (snd s1)"
  by (auto simp: project_Init_def Let_def bind_o_Ret_iff dest: project_finish_ready split: if_splits)

lemma add_project_ok:
  assumes "scope_cache_ok w" and "po_ready p"
  shows "scope_cache_ok (add_project p w)"
proof -
  let ?w = "case po_basis p of None \<Rightarrow> w | Some i \<Rightarrow> change_basis i (basis_Closer (BCloseProject (length (sw_projects w)))) w"
  have w: "scope_cache_ok ?w" and ps: "sw_projects ?w = sw_projects w"
    using assms(1) by (auto simp: basis_Closer_def intro!: change_basis_ok split: option.split)
  have old: "entry_ok (add_project p w) r c" if "entry_ok ?w r c" for r c
    using that ps by (auto simp: entry_ok_def add_project_def nth_append split: cached.splits)
  have "entry_ok (add_project p w) (pp_ResourceId (po_project p)) (CachedProject (length (sw_projects w)))"
    using assms(2) by (simp add: entry_ok_def add_project_def project_Closer_def)
  moreover have "sw_cache (add_project p w) = (sw_cache ?w)(pp_ResourceId (po_project p) \<mapsto> CachedProject (length (sw_projects w)))"
    by (auto simp: add_project_def split: option.split)
  ultimately show ?thesis using w old unfolding scope_cache_ok_def by (auto split: if_splits)
qed

section \<open>The factory\<close>

datatype 'p factory_op = OpenBasis string "'p basis_option list" | OpenProject "project_option list"

definition factory_op ::
  "('d, 'x, 'y, 'p, 'v, 'c, 'i, 'r) keenv \<Rightarrow> 'p factory_op \<Rightarrow> ('d, 'x, 'y, 'p, 'v) sworld \<Rightarrow> ('d, 'x, 'y, 'p, 'v) sworld" where
  "factory_op ke q w =
     (case q of OpenBasis r opts \<Rightarrow> left_by (factory_NewBasis ke r opts w) w | OpenProject opts \<Rightarrow> left_by (factory_NewProject ke opts w) w)"

lemma factory_NewBasis_cache: "scope_cache_ok w \<Longrightarrow> keeps scope_cache_ok (factory_NewBasis ke rid opts w)"
proof (cases "factory_NewBasis ke rid opts w")
  case (Ret w1 i)
  then show "scope_cache_ok w \<Longrightarrow> ?thesis" using factory_NewBasis_grows[OF Ret] by (simp add: grown_def)
next
  case (Fail w1 e)
  then show "scope_cache_ok w \<Longrightarrow> ?thesis" using cache_same[OF factory_NewBasis_Fail[OF Fail]] by simp
qed simp

lemma as_project_cache: "scope_cache_ok w \<Longrightarrow> keeps scope_cache_ok (as_project c w)"
  by (cases c) (simp_all add: as_project_def)

lemma factory_NewProject_cache:
  assumes ok: "scope_cache_ok w"
  shows "keeps scope_cache_ok (factory_NewProject ke opts w)"
proof (cases "NewProject ke (sw_bases w) opts")
  case (Inr p0)
  define p where "p = p0\<lparr>po_client := True, po_factory := True\<rparr>"
  define r where "r = (if pp_ResourceId (po_project p) = [] then project_Reload ke (w, p) else Ret (w, p) ())"
  have "project_Reload ke (w, p) = Fail (w, p) (Status NotFound (OtherError ''project does not exist''))" if "pp_ResourceId (po_project p) = []"
    using that by (simp add: project_Reload_def)
  then have r: "r = Ret (w, p) () \<or> (\<exists>e. r = Fail (w, p) e)" by (simp add: r_def)
  have eq: "factory_NewProject ke opts w =
      (case (if pp_ResourceId (po_project p) \<noteq> [] then sw_cache w (pp_ResourceId (po_project p)) else None) of
         Some c \<Rightarrow> as_project c w
       | None \<Rightarrow> (case project_Init ke (w, p) of
                    Crash m \<Rightarrow> Crash m | Fail s e \<Rightarrow> Fail (fst s) e
                  | Ret (w, p) _ \<Rightarrow> Ret (add_project p w) (length (sw_projects w))))"
    using r unfolding factory_NewProject_def Inr r_def p_def by (auto simp: Let_def left_by_def)
  have "grows w (project_Init ke (w, p))" by (rule project_Init_grows) (simp add: growth.R_refl)
  then show ?thesis
    unfolding eq using ok as_project_cache[OF ok] project_Init_ready[of ke "(w, p)"]
    by (auto simp: grown_def split: option.split outcome.split intro!: add_project_ok)
qed (simp add: factory_NewProject_def ok)

interpretation factory: machine "factory_op ke" scope_cache_ok for ke
  by unfold_locales
    (auto simp: factory_op_def split: factory_op.split intro: keeps_left_by factory_NewBasis_cache factory_NewProject_cache)

section \<open>Opening a project by its name\<close>

lemma outcome_not: "(\<And>s a. r \<noteq> Ret s a) \<Longrightarrow> (\<And>m. r \<noteq> Crash m) \<Longrightarrow> \<exists>s e. r = Fail s e"
  by (cases r) auto

lemma no_crash:
  "update_file env new old d \<noteq> Crash m" "in_transaction d r = Crash m \<longleftrightarrow> r = Crash m"
  "bind_o q f = Crash m \<longleftrightarrow> q = Crash m \<or> (\<exists>s a. q = Ret s a \<and> f s a = Crash m)"
  "map_err g q = Crash m \<longleftrightarrow> q = Crash m"
  by (auto simp: update_file_def in_transaction_def map_err_def split: option.split sum.split outcome.split) (cases q; auto)+

lemma project_upsert_no_crash: "project_upsert env p d \<noteq> Crash m"
  by (auto simp: project_upsert_def project_BeforeUpdate_def no_crash split: sum.split)

text \<open>A message without a resource id whose name is taken in its basis is refused.\<close>

lemma taken_name_is_refused:
  assumes l: "scope_lawful (sn_db env)" and ok: "scopes_ok env d"
    and row: "row \<in> set (sd_project_rows (sn_db env) d)" and b: "b \<in> set (sd_basis_rows (sn_db env) d)" "bs_ID b = pj_BasisID row"
    and m: "pp_ResourceId m = []" "pp_Name m = pj_Name row" "pp_Basis m = Some ref" "rb_ResourceId ref = bs_ResourceId b"
    and c: "pp_Configuration m = Some v" "\<not> sn_zero_file env v" "sn_format env (vp_Format v) = Inr fmt"
  shows "\<exists>e. UpsertProject env (Some m) d = Fail d e"
proof -
  have D: "distinct_bases (sd_basis_rows (sn_db env) d)" "distinct_projects (sd_project_rows (sn_db env) d)"
    using ok by (simp_all add: scopes_ok_def)
  have put: "UpsertProject env (Some m) d = put_project env m zero_project d"
    using m(1) by (simp add: UpsertProject_def ProjectPut_def project_FromProto_def project_FromProtoRef_def is_not_found_def)
  have "put_project env m zero_project d \<noteq> Ret d1 m1" for d1 m1
  proof
    assume run: "put_project env m zero_project d = Ret d1 m1"
    define z where "z = (zero_project :: 'b project_full)"
    obtain f ba md ts p1 p2 where up: "project_upsert env p1 d = Ret d1 p2"
      and "map_option vr_ID f = map_option vr_ID (pj_Vagrantfile z) \<or> (\<exists>v. f = Some v \<and> vr_ID v = 0)"
      and ba: "convert (pp_Basis m) zero_basis_ref (\<lambda>r. map_sum id bkey_of (BasisFromProtoRef env d (Some r))) (pj_Basis z) = Inr ba"
      and "decode_metadata env (pp_Metadata m) (pj_Metadata z) = Inr md"
      and p1: "p1 = z\<lparr>pj_ResourceId := set_or [] (pp_ResourceId m) (pj_ResourceId z),
                pj_Name := set_or [] (pp_Name m) (pj_Name z), pj_Path := set_or [] (pp_Path m) (pj_Path z),
                pj_DataSource := set_msg (sn_zero env) (pp_DataSource m) (pj_DataSource z), pj_Metadata := md,
                pj_RemoteEnabled := set_or False (pp_RemoteEnabled m) (pj_RemoteEnabled z),
                pj_Basis := ba, pj_Vagrantfile := f, pj_Targets := ts\<rparr>"
      using put_project_saved[OF run[folded z_def]] .
    have "ref \<noteq> zero_basis_ref" using m(4) basis_table.distinctD(2)[OF D(1) b(1)] by (auto simp: zero_basis_ref_def)
    then obtain k where k: "BasisFromProtoRef env d (Some ref) = Inr k" "ba = Some (bkey_of k)"
      using ba m(3) by (auto simp: convert_def map_sum_def split: sum.splits)
    have kl: "bcolumns k \<in> set (sd_basis_rows (sn_db env) d)" "bs_ResourceId k = bs_ResourceId b"
      using BasisFromProtoRef_Inr[OF scope_lawfulD(1)[OF l] k(1)] m(4) by (simp_all add: basis_loaded_def)
    then have "bcolumns k = b" using basis_table.distinctD(4)[OF D(1) kl(1) b(1)] by simp
    then have id: "bs_ID k = pj_BasisID row" using b(2) by auto
    obtain i f' dm where v: "project_validate env d (p1\<lparr>pj_ResourceId := i\<rparr>) = None"
      using project_upsert_saved[OF l up] by metis
    have f1: "pj_ID p1 = 0" "pj_Name p1 = pj_Name row" "basis_id p1 = pj_BasisID row"
      using m(2) project_table.distinctD(3)[OF D(2) row] id k(2)
      by (simp_all add: p1 z_def zero_project_def set_or_def good_project_def basis_id_def bkey_of_def)
    moreover have "basis_id (p1\<lparr>pj_ResourceId := i\<rparr>) = basis_id p1" by (simp add: basis_id_def split: option.split)
    ultimately have "sd_count_projects (sn_db env) d (zero_jkey\<lparr>jk_Name := pj_Name row, jk_BasisID := pj_BasisID row\<rparr>) 0 = Inr 0"
      using v by (auto simp: project_validate_def Let_def validate_none split: if_splits)
    from scope_counts(2)[OF scope_lawfulD(1)[OF l] this row] have "pj_ID row = 0"
      by (simp add: jkey_match_def zero_jkey_def)
    then show False using project_table.distinctD(1)[OF D(2) row] by simp
  qed
  moreover have "put_project env m zero_project d \<noteq> Crash e" for e
  proof
    assume "put_project env m zero_project d = Crash e"
    then consider "softDecode_project env m zero_project d = Crash e"
      | da pa where "softDecode_project env m zero_project d = Ret da pa" "drop_finalized (pp_Configuration m) pa da = Crash e"
      by (auto simp: put_project_def no_crash project_upsert_no_crash)
    then show False
    proof cases
      case 1
      then show ?thesis
        using c by (auto simp: softDecode_project_def no_crash decode_file_def VagrantfileFromProto_def Let_def split: sum.splits)
    next
      case (2 da pa)
      then have "pj_Vagrantfile pa \<noteq> None"
        using c by (auto simp: softDecode_project_def bind_o_Ret_iff decode_file_def VagrantfileFromProto_def Let_def split: sum.splits)
      then show ?thesis using 2(2) by (auto simp: drop_finalized_def split: option.splits if_splits)
    qed
  qed
  ultimately obtain d1 e where "put_project env m zero_project d = Fail d1 e" using outcome_not by blast
  then show ?thesis using put put_project_Fail by auto
qed

section \<open>An environment\<close>

definition ex_ke :: "(nat scope_list, nat, nat, string list, nat, nat, nat, nat) keenv" where
  "ex_ke =
     \<lparr>ke_srv = ex_scopes, ke_plugins = [], ke_ui = ''ui'', ke_sub = (\<lambda>n p. p @ [n]), ke_configs = (\<lambda>_. Inr [''vm'']),
      ke_get = (\<lambda>_ _. Inr 1), ke_legacy = (\<lambda>_. False), ke_discover = (\<lambda>p d. Inr (p @ [d])), ke_is_config = (\<lambda>_. True),
      ke_find = (\<lambda>c. Inr (Some c)), ke_info = (\<lambda>i. Inr i), ke_new_vf = 0, ke_vf_register = (\<lambda>v r c. Inr (v + r)),
      ke_vf_source = (\<lambda>v c l. Inr v), ke_vf_init = (\<lambda>v. Inr v),
      ke_vf_get = (\<lambda>v l. Inr \<lparr>vp_Unfinalized = Some 3, vp_Finalized = Some v, vp_Raw = [], vp_Format = 2, vp_Path = None\<rparr>),
      ke_vf_clone = (\<lambda>v. v), ke_vf_target = (\<lambda>v r. v), ke_vf_store = (\<lambda>v. Inr (Some v)), ke_vf_forget = (\<lambda>v. v),
      ke_basis_dir = (\<lambda>n. Inr n), ke_project_dir = (\<lambda>d n. Inr (d @ n)), ke_plugin_dir = (\<lambda>d. d), ke_local_dir = (\<lambda>d. d),
      ke_mappers = Inr [''m''], ke_local_mappers = Inr [], ke_console = ''console'', ke_empty = 0,
      ke_append = (\<lambda>_ e. e), ke_targets = (\<lambda>m d. Ret d m)\<rparr>"

definition ex_sworld :: "(nat scope_list, nat, nat, string list, nat) sworld" where
  "ex_sworld = \<lparr>sw_srv = ex_scope_rows, sw_bases = [], sw_projects = [], sw_cache = (\<lambda>_. None), sw_closers = []\<rparr>"

definition ex_open :: "string list factory_op" where
  "ex_open = OpenBasis [] [WithBasisRef \<lparr>rb_ResourceId = ''bhome'', rb_Name = [], rb_Path = []\<rparr>]"

definition ex_opened :: "(nat scope_list, nat, nat, string list, nat) sworld" where
  "ex_opened = fold (factory_op ex_ke) [ex_open] ex_sworld"

lemma ex_scopes_files: "\<not> sn_zero_file ex_scopes v" "sn_format ex_scopes 2 = Inr 2"
  by (simp_all add: ex_scopes_def)

lemma ex_ke_srv [simp]: "ke_srv ex_ke = ex_scopes"
  by (simp add: ex_ke_def)

lemma ex_sworld_ok: "scope_cache_ok ex_sworld"
  by (simp add: scope_cache_ok_def ex_sworld_def)

section \<open>Claims\<close>

text \<open>C28: whatever bases and projects were opened before, a basis that the factory opens is ready, and when it is opened again
  under its resource id the same object is returned and nothing changes, whatever the options.\<close>

theorem opened_basis_is_shared:
  assumes "scope_cache_ok w" and "factory_NewBasis ke rid opts (fold (factory_op ke) qs w) = Ret w1 i"
  shows "bo_ready (sw_bases w1 ! i) \<and>
     (let r = bp_ResourceId (bo_basis (sw_bases w1 ! i)) in r \<noteq> [] \<longrightarrow> (\<forall>opts2. factory_NewBasis ke r opts2 w1 = Ret w1 i))"
proof -
  let ?w = "fold (factory_op ke) qs w"
  have ok: "scope_cache_ok ?w" by (rule factory.run_inv[OF assms(1)])
  have "\<exists>r. sw_cache w1 r = Some (CachedBasis i)"
    using assms(2)
  proof (cases rule: factory_NewBasis_Ret)
    case (cached r)
    then show ?thesis by (auto simp: same_objects_def)
  next
    case (new w2 b)
    then show ?thesis by (auto simp: add_basis_def)
  qed
  then obtain r where r: "sw_cache w1 r = Some (CachedBasis i)" ..
  have "scope_cache_ok w1" using factory_NewBasis_cache[OF ok, of ke rid opts] assms(2) by simp
  then have "entry_ok w1 r (CachedBasis i)" using r by (simp add: scope_cache_ok_def)
  then show ?thesis using r by (simp add: entry_ok_def factory_NewBasis_def as_basis_def Let_def)
qed

lemma opened_basis_is_shared_witness:
  "\<exists>w1 i. factory_NewBasis ex_ke ''bwork'' [WithBasisRef \<lparr>rb_ResourceId = ''bwork'', rb_Name = [], rb_Path = []\<rparr>]
       (fold (factory_op ex_ke) [ex_open] ex_sworld) = Ret w1 i
     \<and> length (sw_bases w1) = 2 \<and> bp_Name (bo_basis (sw_bases w1 ! i)) = ''work''
     \<and> factory_NewBasis ex_ke ''bwork'' [WithUI ''other''] w1 = Ret w1 i"
proof -
  let ?r = "factory_NewBasis ex_ke ''bwork'' [WithBasisRef \<lparr>rb_ResourceId = ''bwork'', rb_Name = [], rb_Path = []\<rparr>]
       (fold (factory_op ex_ke) [ex_open] ex_sworld)"
  have "case ?r of Ret w1 i \<Rightarrow> length (sw_bases w1) = 2 \<and> bp_Name (bo_basis (sw_bases w1 ! i)) = ''work''
      \<and> bp_ResourceId (bo_basis (sw_bases w1 ! i)) = ''bwork'' | _ \<Rightarrow> False"
    by code_simp
  then obtain w1 i where r: "?r = Ret w1 i" and o: "length (sw_bases w1) = 2" "bp_Name (bo_basis (sw_bases w1 ! i)) = ''work''"
    "bp_ResourceId (bo_basis (sw_bases w1 ! i)) = ''bwork''"
    by (auto split: outcome.splits)
  have "factory_NewBasis ex_ke ''bwork'' [WithUI ''other''] w1 = Ret w1 i"
    using opened_basis_is_shared[OF ex_sworld_ok r] o(3) by (simp add: Let_def)
  with r o show ?thesis by blast
qed

text \<open>C29: a project that is stored cannot be opened by its name: without a resource id it is not looked for, neither in the
  cache nor on the server, but saved as a new one, which the server refuses; the server and the cache stay as they are.\<close>

theorem project_not_opened_by_name:
  assumes "scope_lawful (sn_db (ke_srv ke))" and "scopes_ok (ke_srv ke) (sw_srv w)"
    and "row \<in> set (sd_project_rows (sn_db (ke_srv ke)) (sw_srv w))" and "b \<in> set (sd_basis_rows (sn_db (ke_srv ke)) (sw_srv w))"
    and "bs_ID b = pj_BasisID row" and "bp_ResourceId (bo_basis (sw_bases w ! i)) = bs_ResourceId b"
    and "pf_ResourceId ref = []" and "pf_Name ref = pj_Name row" and "pf_Basis ref = None"
    and "\<not> sn_zero_file (ke_srv ke) (default_config ke)" and "sn_format (ke_srv ke) 2 = Inr fmt"
  shows "\<exists>e. factory_NewProject ke [WithBasis i, WithProjectRef (Some ref)] w = Fail w e"
proof -
  let ?srv = "ke_srv ke"
  define m where "m = (empty_project :: ('b, 'c) projectpb)\<lparr>pp_Configuration := Some (default_config ke),
      pp_Basis := Some (basis_Ref (bo_basis (sw_bases w ! i))), pp_Name := pj_Name row, pp_Path := ref_or (pf_Path ref) []\<rparr>"
  obtain p where p: "NewProject ke (sw_bases w) [WithBasis i, WithProjectRef (Some ref)] = Inr p" and pm: "po_project p = m"
    and pf: "po_vagrantfile p = None" "po_basis p = Some i" "\<not> po_ready p"
    using assms(7-9) project_table.distinctD(3)[of "set (sd_project_rows (sn_db ?srv) (sw_srv w))" row] assms(2,3)
    by (simp add: NewProject_def apply_project_option_def Let_def ref_or_def m_def empty_project_def scopes_ok_def good_project_def)
  have m: "pp_ResourceId m = []" "pp_Name m = pj_Name row" "pp_Basis m = Some (basis_Ref (bo_basis (sw_bases w ! i)))"
    "pp_Configuration m = Some (default_config ke)"
    by (simp_all add: m_def empty_project_def)
  have ref: "rb_ResourceId (basis_Ref (bo_basis (sw_bases w ! i))) = bs_ResourceId b" using assms(6) by (simp add: basis_Ref_def)
  have fmt: "sn_format ?srv (vp_Format (default_config ke)) = Inr fmt" using assms(11) by (simp add: default_config_def)
  obtain e where e: "UpsertProject ?srv (Some m) (sw_srv w) = Fail (sw_srv w) e"
    using taken_name_is_refused[OF assms(1-5) m(1-3) ref m(4) assms(10) fmt] by blast
  have "project_Init ke (w, p\<lparr>po_client := True, po_factory := True\<rparr>) = Fail (w, p\<lparr>po_client := True, po_factory := True\<rparr>) e"
    using e by (simp add: project_Init_def Let_def project_Reload_def pm m(1) pf status_code_def project_Save_def project_captured_def request_def)
  then show ?thesis
    using p by (simp add: factory_NewProject_def Let_def pm m(1) project_Reload_def left_by_def)
qed

lemma project_not_opened_by_name_witness:
  "\<exists>e. factory_NewProject ex_ke [WithBasis 0, WithProjectRef (Some \<lparr>pf_ResourceId = [], pf_Name = ''web'', pf_Path = ''/web'', pf_Basis = None\<rparr>)]
        ex_opened = Fail ex_opened e"
proof -
  have srv: "sw_srv ex_opened = ex_scope_rows" and id: "bp_ResourceId (bo_basis (sw_bases ex_opened ! 0)) = ''bhome''"
    by code_simp+
  have rows: "ex_project_row 1 1 ''web'' \<in> set (sl_projects ex_scope_rows)" "ex_basis_row 1 ''home'' \<in> set (sl_bases ex_scope_rows)"
    by (simp_all add: ex_scope_rows_def)
  have ids: "bs_ID (ex_basis_row 1 ''home'') = pj_BasisID (ex_project_row 1 1 ''web'')" "pj_Name (ex_project_row 1 1 ''web'') = ''web''"
    "bs_ResourceId (ex_basis_row 1 ''home'') = ''bhome''"
    by (simp_all add: ex_basis_row_def ex_project_row_def)
  show ?thesis
    by (rule project_not_opened_by_name[where row = "ex_project_row 1 1 ''web''" and b = "ex_basis_row 1 ''home''" and fmt = 2])
      (use rows ids ex_scopes_ok in \<open>simp_all only: srv id scope_list_db_lawful ex_ke_srv ex_scopes_db scope_list_rows ex_scopes_files
         project_ref.simps not_False_eq_True\<close>)
qed

end
